(* ===== verification/Prelude.thy ===== *)
theory Prelude
  imports Main
begin

text \<open>
  What every component of the development shares: the result of a fallible Rust function, the
  unsigned machine integers of the runtime, the origin of a call, and the generic lemmas on sums
  over finitely supported balances.

  \<^item> A Rust \<open>Result<T, DispatchError>\<close> is \<open>'e dispatch_error + 'a\<close>; the operator \<open>?\<close> is
    \<open>rbind\<close>, \<open>Option::ok_or\<close> is \<open>ok_or\<close>, and \<open>ensure!(b, e)\<close> is \<open>ensure b e\<close>. A panic
    of the source is the value \<open>Panic\<close>.
  \<^item> An unsigned integer is a \<open>nat\<close> below its width; \<open>checked_*\<close> answers \<open>None\<close> where
    the result does not fit, \<open>saturating_*\<close> stops at the bound, and \<open>wrapping_add\<close> is the plain
    \<open>+\<close> of a release build (the repository's profiles leave overflow checks off).
\<close>

named_theorems result_simps \<open>rewrite rules of the result monad\<close>
named_theorems num_simps \<open>definitions of the bounded arithmetic\<close>

section \<open>Results\<close>

datatype arith_error = Underflow | Overflow | DivisionByZero

datatype 'e dispatch_error =
    Module 'e
  | Arithmetic arith_error
  | BadOrigin
  | CannotLookup
  | External nat
  | Panic

type_synonym ('e, 'a) result = "'e dispatch_error + 'a"

definition rbind :: "'e + 'a \<Rightarrow> ('a \<Rightarrow> 'e + 'b) \<Rightarrow> 'e + 'b" where
  "rbind m f = (case m of Inl e \<Rightarrow> Inl e | Inr x \<Rightarrow> f x)"

definition ok_or :: "'a option \<Rightarrow> 'e \<Rightarrow> 'e + 'a" where
  "ok_or x e = (case x of None \<Rightarrow> Inl e | Some v \<Rightarrow> Inr v)"

definition ensure :: "bool \<Rightarrow> 'e \<Rightarrow> 'e + unit" where
  "ensure b e = (if b then Inr () else Inl e)"

definition is_ok :: "'e + 'a \<Rightarrow> bool" where
  "is_ok r = (case r of Inl _ \<Rightarrow> False | Inr _ \<Rightarrow> True)"

lemma rbind_Inl [simp]: "rbind (Inl e) f = Inl e"
  by (simp add: rbind_def)

lemma rbind_Inr [simp]: "rbind (Inr x) f = f x"
  by (simp add: rbind_def)

lemma rbind_eq_Inr [result_simps]:
  "rbind m f = Inr y \<longleftrightarrow> (\<exists>x. m = Inr x \<and> f x = Inr y)"
  by (cases m) (simp_all add: rbind_def)

lemma rbind_eq_Inl [result_simps]:
  "rbind m f = Inl e \<longleftrightarrow> m = Inl e \<or> (\<exists>x. m = Inr x \<and> f x = Inl e)"
  by (cases m) (simp_all add: rbind_def)

lemma rbind_InrE:
  assumes "rbind m f = Inr y"
  obtains x where "m = Inr x" and "f x = Inr y"
  using assms by (auto simp: rbind_eq_Inr)

lemma rbind_cong [fundef_cong]:
  "m = m' \<Longrightarrow> (\<And>x. m' = Inr x \<Longrightarrow> f x = g x) \<Longrightarrow> rbind m f = rbind m' g"
  by (cases m') (simp_all add: rbind_def)

lemma ok_or_Some [simp]: "ok_or (Some v) e = Inr v"
  by (simp add: ok_or_def)

lemma ok_or_None [simp]: "ok_or None e = Inl e"
  by (simp add: ok_or_def)

lemma ok_or_eq_Inr [result_simps]: "ok_or x e = Inr v \<longleftrightarrow> x = Some v"
  by (cases x) (simp_all add: ok_or_def)

lemma ok_or_eq_Inl [result_simps]: "ok_or x e = Inl e' \<longleftrightarrow> x = None \<and> e' = e"
  by (cases x) (auto simp: ok_or_def)

lemma ensure_True [simp]: "ensure True e = Inr ()"
  by (simp add: ensure_def)

lemma ensure_False [simp]: "ensure False e = Inl e"
  by (simp add: ensure_def)

lemma ensure_eq_Inr [result_simps]: "ensure b e = Inr u \<longleftrightarrow> b"
  by (simp add: ensure_def)

lemma ensure_eq_Inl [result_simps]: "ensure b e = Inl e' \<longleftrightarrow> \<not> b \<and> e' = e"
  by (auto simp: ensure_def)

lemma is_ok_iff: "is_ok r \<longleftrightarrow> (\<exists>x. r = Inr x)"
  by (cases r) (simp_all add: is_ok_def)

section \<open>Unsigned integers\<close>

definition u128_max :: nat where
  "u128_max = 2 ^ 128 - 1"

definition u64_max :: nat where
  "u64_max = 2 ^ 64 - 1"

definition u32_max :: nat where
  "u32_max = 2 ^ 32 - 1"

definition chk :: "nat \<Rightarrow> nat \<Rightarrow> nat option" where
  "chk m n = (if n \<le> m then Some n else None)"

definition checked_add :: "nat \<Rightarrow> nat \<Rightarrow> nat option" where
  "checked_add a b = chk u128_max (a + b)"

definition checked_sub :: "nat \<Rightarrow> nat \<Rightarrow> nat option" where
  "checked_sub a b = (if b \<le> a then Some (a - b) else None)"

definition checked_mul :: "nat \<Rightarrow> nat \<Rightarrow> nat option" where
  "checked_mul a b = chk u128_max (a * b)"

definition checked_div :: "nat \<Rightarrow> nat \<Rightarrow> nat option" where
  "checked_div a b = (if b = 0 then None else Some (a div b))"

definition saturating_add :: "nat \<Rightarrow> nat \<Rightarrow> nat" where
  "saturating_add a b = min u128_max (a + b)"

definition saturating_sub :: "nat \<Rightarrow> nat \<Rightarrow> nat" where
  "saturating_sub a b = a - b"

definition saturating_mul :: "nat \<Rightarrow> nat \<Rightarrow> nat" where
  "saturating_mul a b = min u128_max (a * b)"

definition wrapping_add :: "nat \<Rightarrow> nat \<Rightarrow> nat" where
  "wrapping_add a b = (a + b) mod 2 ^ 128"

definition wrapping_sub :: "nat \<Rightarrow> nat \<Rightarrow> nat" where
  "wrapping_sub a b = (a + 2 ^ 128 - b) mod 2 ^ 128"

definition wrapping_sum :: "nat list \<Rightarrow> nat" where
  "wrapping_sum xs = fold (\<lambda>x acc. wrapping_add acc x) xs 0"

text \<open>The plain and the saturating sum of \<open>u32\<close>, as of block numbers.\<close>

definition add32 :: "nat \<Rightarrow> nat \<Rightarrow> nat" where
  "add32 a b = (a + b) mod 2 ^ 32"

definition sat_add32 :: "nat \<Rightarrow> nat \<Rightarrow> nat" where
  "sat_add32 a b = min u32_max (a + b)"

lemma chk_eq_Some [simp]: "chk m n = Some r \<longleftrightarrow> n \<le> m \<and> r = n"
  by (auto simp: chk_def)

lemma chk_eq_None [simp]: "chk m n = None \<longleftrightarrow> m < n"
  by (auto simp: chk_def)

lemma checked_add_Some [num_simps]: "checked_add a b = Some r \<longleftrightarrow> a + b \<le> u128_max \<and> r = a + b"
  by (simp add: checked_add_def)

lemma checked_sub_Some [num_simps]: "checked_sub a b = Some r \<longleftrightarrow> b \<le> a \<and> r = a - b"
  by (auto simp: checked_sub_def)

lemma checked_mul_Some [num_simps]: "checked_mul a b = Some r \<longleftrightarrow> a * b \<le> u128_max \<and> r = a * b"
  by (simp add: checked_mul_def)

lemma checked_div_Some [num_simps]: "checked_div a b = Some r \<longleftrightarrow> b \<noteq> 0 \<and> r = a div b"
  by (auto simp: checked_div_def)

lemma checked_add_None [num_simps]: "checked_add a b = None \<longleftrightarrow> u128_max < a + b"
  by (simp add: checked_add_def)

lemma checked_sub_None [num_simps]: "checked_sub a b = None \<longleftrightarrow> a < b"
  by (auto simp: checked_sub_def)

lemma saturating_add_le: "saturating_add a b \<le> a + b" "saturating_add a b \<le> u128_max"
  by (simp_all add: saturating_add_def)

lemma saturating_add_ge: "a \<le> u128_max \<Longrightarrow> a \<le> saturating_add a b"
  by (simp add: saturating_add_def)

lemma saturating_mul_le: "saturating_mul a b \<le> a * b" "saturating_mul a b \<le> u128_max"
  by (simp_all add: saturating_mul_def)

lemma u128_max_Suc: "Suc u128_max = 2 ^ 128"
  by (simp add: u128_max_def)

lemma wrapping_add_exact: "a + b \<le> u128_max \<Longrightarrow> wrapping_add a b = a + b"
  by (simp add: wrapping_add_def u128_max_def)

lemma wrapping_sub_exact: "b \<le> a \<Longrightarrow> a \<le> u128_max \<Longrightarrow> wrapping_sub a b = a - b"
proof -
  assume a: "b \<le> a" "a \<le> u128_max"
  have "a + 2 ^ 128 - b = (a - b) + 2 ^ 128"
    using a(1) by (rule Nat.add_diff_assoc2 [symmetric])
  moreover have "a - b < 2 ^ 128"
    using a(2) le_imp_less_Suc [of "a - b" u128_max] by (simp only: u128_max_Suc)
  ultimately show ?thesis by (simp only: wrapping_sub_def mod_add_self2 mod_less)
qed

lemma wrapping_sum_fold:
  "acc + sum_list xs \<le> u128_max \<Longrightarrow>
     fold (\<lambda>x acc. wrapping_add acc x) xs acc = acc + sum_list xs"
  by (induction xs arbitrary: acc) (simp_all add: wrapping_add_exact add.assoc)

lemma wrapping_sum_exact: "sum_list xs \<le> u128_max \<Longrightarrow> wrapping_sum xs = sum_list xs"
  using wrapping_sum_fold [of 0 xs] by (simp add: wrapping_sum_def)

section \<open>Origins\<close>

type_synonym account = nat

datatype origin = Root | Signed account | Unsigned

definition ensure_signed :: "origin \<Rightarrow> ('e, account) result" where
  "ensure_signed o1 = (case o1 of Signed who \<Rightarrow> Inr who | _ \<Rightarrow> Inl BadOrigin)"

lemma ensure_signed_Signed [simp]: "ensure_signed (Signed who) = Inr who"
  by (simp add: ensure_signed_def)

lemma ensure_signed_eq_Inr [result_simps]: "ensure_signed o1 = Inr who \<longleftrightarrow> o1 = Signed who"
  by (cases o1) (auto simp: ensure_signed_def)

section \<open>Results in loops\<close>

text \<open>A \<open>for\<close> loop whose body may leave with \<open>?\<close> is a fold that stops at the first error.\<close>

fun rfold :: "('x \<Rightarrow> 's \<Rightarrow> 'e + 's) \<Rightarrow> 'x list \<Rightarrow> 's \<Rightarrow> 'e + 's" where
  "rfold f [] s = Inr s"
| "rfold f (x # xs) s = rbind (f x s) (rfold f xs)"

lemma rfold_invariant:
  assumes "rfold f xs s = Inr s'" and "P s"
    and "\<And>x s s'. x \<in> set xs \<Longrightarrow> P s \<Longrightarrow> f x s = Inr s' \<Longrightarrow> P s'"
  shows "P s'"
  using assms
proof (induction xs arbitrary: s)
  case Nil
  then show ?case by simp
next
  case (Cons x xs)
  from Cons.prems(1) obtain t where t: "f x s = Inr t" "rfold f xs t = Inr s'"
    by (auto simp: rbind_eq_Inr)
  have "P t" using Cons.prems(2,3) t(1) by auto
  with t(2) show ?case
    by (rule Cons.IH) (auto intro: Cons.prems(3))
qed

lemma rfold_rel:
  assumes "rfold f xs s = Inr s'" and "\<And>s. R s s"
    and "\<And>s t u. R s t \<Longrightarrow> R t u \<Longrightarrow> R s u"
    and "\<And>x s s'. f x s = Inr s' \<Longrightarrow> R s s'"
  shows "R s s'"
  using rfold_invariant [of f xs s s' "R s"] assms by blast

section \<open>Sums with one or two changed points\<close>

lemma sum_fun_upd:
  fixes f :: "'a \<Rightarrow> nat"
  assumes "finite A" and "a \<in> A"
  shows "sum (f(a := v)) A + f a = sum f A + v"
  using assms by (simp add: sum.remove [of A a])

lemma sum_fun_upd_out: "a \<notin> A \<Longrightarrow> sum (f(a := v)) A = sum f A"
  by (rule sum.cong) auto

text \<open>The sum of a function over the finitely many points where it is not zero.\<close>

definition support :: "('a \<Rightarrow> nat) \<Rightarrow> 'a set" where
  "support f = {x. f x \<noteq> 0}"

definition total_of :: "('a \<Rightarrow> nat) \<Rightarrow> nat" where
  "total_of f = sum f (support f)"

lemma total_of_on: "finite A \<Longrightarrow> support f \<subseteq> A \<Longrightarrow> total_of f = sum f A"
  unfolding total_of_def by (rule sum.mono_neutral_left) (auto simp: support_def)

lemma support_fun_upd: "support (f(a := v)) \<subseteq> insert a (support f)"
  by (auto simp: support_def)

lemma finite_support_fun_upd: "finite (support f) \<Longrightarrow> finite (support (f(a := v)))"
  by (rule finite_subset [OF support_fun_upd]) simp

lemma total_of_fun_upd:
  assumes "finite (support f)"
  shows "total_of (f(a := v)) + f a = total_of f + v"
proof -
  let ?A = "insert a (support f)"
  have "total_of f = sum f ?A"
    by (rule total_of_on) (use assms in auto)
  moreover have "total_of (f(a := v)) = sum (f(a := v)) ?A"
    by (rule total_of_on [OF _ support_fun_upd]) (use assms in simp)
  ultimately show ?thesis
    using sum_fun_upd [of ?A a f v] assms by simp
qed

lemma total_of_ge: "finite (support f) \<Longrightarrow> f a \<le> total_of f"
  unfolding total_of_def by (cases "f a = 0") (auto simp: support_def intro: member_le_sum)

section \<open>Results of every element\<close>

text \<open>A loop that writes every element of a vector, or collects a vector of results.\<close>

fun rmap :: "('a \<Rightarrow> 'e + 'b) \<Rightarrow> 'a list \<Rightarrow> 'e + 'b list" where
  "rmap f [] = Inr []"
| "rmap f (x # xs) = rbind (f x) (\<lambda>y. rbind (rmap f xs) (\<lambda>ys. Inr (y # ys)))"

lemma rmap_eq_Inr: "rmap f xs = Inr ys \<longleftrightarrow> list_all2 (\<lambda>x y. f x = Inr y) xs ys"
proof (induction xs arbitrary: ys)
  case Nil
  then show ?case by auto
next
  case (Cons x xs)
  then show ?case by (auto simp: rbind_eq_Inr list_all2_Cons1)
qed

lemma rmap_length: "rmap f xs = Inr ys \<Longrightarrow> length ys = length xs"
  by (simp add: rmap_eq_Inr list_all2_lengthD)

lemma rmap_nth: "rmap f xs = Inr ys \<Longrightarrow> i < length xs \<Longrightarrow> f (xs ! i) = Inr (ys ! i)"
  by (auto simp: rmap_eq_Inr list_all2_conv_all_nth)

lemma rmap_upt_nth: "rmap f [0..<n] = Inr ys \<Longrightarrow> i < n \<Longrightarrow> f i = Inr (ys ! i)"
  using rmap_nth [of f "[0..<n]" ys i] by simp

lemma rmap_cong [fundef_cong]:
  "xs = ys \<Longrightarrow> (\<And>x. x \<in> set ys \<Longrightarrow> f x = g x) \<Longrightarrow> rmap f xs = rmap g ys"
  by (induction xs arbitrary: ys) auto

text \<open>An optional field of a call keeps the stored value.\<close>

definition or_keep :: "'a option \<Rightarrow> 'a \<Rightarrow> 'a" where
  "or_keep x d = (case x of None \<Rightarrow> d | Some v \<Rightarrow> v)"

end
