(* ===== verification/Currency.thy ===== *)
theory Currency
  imports Prelude "HOL-Library.Word" "HOL-Library.List_Lexorder"
begin

text \<open>
  The currencies of the chain, from \<open>primitives/src/currency.rs\<close>: token symbols, currency ids and
  their order, the conversions between a token and its liquid-staking forms, and the encodings of a
  currency id as a 64-bit integer and as an asset index of the exchange. The identifiers keep the
  widths of the source. \<open>AssetId\<close> and the constants \<open>NATIVE\<close> and \<open>LOCAL\<close> belong to the
  exchange's own package; its two constants are parameters.
\<close>

unbundle bit_operations_syntax

type_synonym u8 = "8 word"
type_synonym u32 = "32 word"
type_synonym u64 = "64 word"

section \<open>Token symbols\<close>

datatype token_symbol = ASG | BNC | KUSD | DOT | KSM | ETH | KAR | ZLK | PHA | RMRK | MOVR

fun symbol_code :: "token_symbol \<Rightarrow> nat" where
  "symbol_code ASG = 0"
| "symbol_code BNC = 1"
| "symbol_code KUSD = 2"
| "symbol_code DOT = 3"
| "symbol_code KSM = 4"
| "symbol_code ETH = 5"
| "symbol_code KAR = 6"
| "symbol_code ZLK = 7"
| "symbol_code PHA = 8"
| "symbol_code RMRK = 9"
| "symbol_code MOVR = 10"

fun symbol_decimals :: "token_symbol \<Rightarrow> nat" where
  "symbol_decimals ASG = 12"
| "symbol_decimals BNC = 12"
| "symbol_decimals KUSD = 12"
| "symbol_decimals DOT = 10"
| "symbol_decimals KSM = 12"
| "symbol_decimals ETH = 18"
| "symbol_decimals KAR = 12"
| "symbol_decimals ZLK = 18"
| "symbol_decimals PHA = 12"
| "symbol_decimals RMRK = 10"
| "symbol_decimals MOVR = 18"

lemma symbol_decimals_le: "symbol_decimals s \<le> 18"
  by (cases s) simp_all

text \<open>\<open>impl TryFrom<u8> for TokenSymbol\<close>.\<close>

definition symbol_of_u8 :: "u8 \<Rightarrow> token_symbol option" where
  "symbol_of_u8 v =
     (if v = 0 then Some ASG else if v = 1 then Some BNC else if v = 2 then Some KUSD
      else if v = 3 then Some DOT else if v = 4 then Some KSM else if v = 5 then Some ETH
      else if v = 6 then Some KAR else if v = 7 then Some ZLK else if v = 8 then Some PHA
      else if v = 9 then Some RMRK else if v = 10 then Some MOVR else None)"

definition default_symbol :: token_symbol where
  "default_symbol = BNC"

lemma symbol_code_inj [simp]: "symbol_code s = symbol_code t \<longleftrightarrow> s = t"
  by (cases s; cases t) simp_all

lemma symbol_code_less: "symbol_code s < 11"
  by (cases s) simp_all

lemma symbol_of_code: "symbol_of_u8 (of_nat (symbol_code s)) = Some s"
  by (cases s) (simp_all add: symbol_of_u8_def)

text \<open>The derived order of the Rust enum is the order of its discriminants.\<close>

instantiation token_symbol :: linorder
begin

definition less_eq_token_symbol :: "token_symbol \<Rightarrow> token_symbol \<Rightarrow> bool" where
  "less_eq_token_symbol s t \<longleftrightarrow> symbol_code s \<le> symbol_code t"

definition less_token_symbol :: "token_symbol \<Rightarrow> token_symbol \<Rightarrow> bool" where
  "less_token_symbol s t \<longleftrightarrow> symbol_code s < symbol_code t"

instance
  by standard (auto simp: less_eq_token_symbol_def less_token_symbol_def)

end

section \<open>Currency ids\<close>

datatype currency =
    Native token_symbol
  | VToken token_symbol
  | Token token_symbol
  | Stable token_symbol
  | VSToken token_symbol
  | VSBond token_symbol u32 u32 u32
  | LPToken token_symbol u8 token_symbol u8
  | ForeignAsset u32
  | Token2 u8
  | VToken2 u8
  | VSToken2 u8
  | VSBond2 u8 u32 u32 u32
  | StableLpToken u32
  | BLP u32
  | Lend u8

definition default_currency :: currency where
  "default_currency = Native default_symbol"

text \<open>The derived order compares the variants by position and then their fields from the left.\<close>

fun currency_code :: "currency \<Rightarrow> nat list" where
  "currency_code (Native s) = [0, symbol_code s]"
| "currency_code (VToken s) = [1, symbol_code s]"
| "currency_code (Token s) = [2, symbol_code s]"
| "currency_code (Stable s) = [3, symbol_code s]"
| "currency_code (VSToken s) = [4, symbol_code s]"
| "currency_code (VSBond s p a b) = [5, symbol_code s, unat p, unat a, unat b]"
| "currency_code (LPToken s i t j) = [6, symbol_code s, unat i, symbol_code t, unat j]"
| "currency_code (ForeignAsset i) = [7, unat i]"
| "currency_code (Token2 i) = [8, unat i]"
| "currency_code (VToken2 i) = [9, unat i]"
| "currency_code (VSToken2 i) = [10, unat i]"
| "currency_code (VSBond2 i p a b) = [11, unat i, unat p, unat a, unat b]"
| "currency_code (StableLpToken i) = [12, unat i]"
| "currency_code (BLP i) = [13, unat i]"
| "currency_code (Lend i) = [14, unat i]"

lemma currency_code_inj [simp]: "currency_code c = currency_code d \<longleftrightarrow> c = d"
  by (cases c; cases d) (simp_all add: word_unat_eq_iff)

instantiation currency :: linorder
begin

definition less_eq_currency :: "currency \<Rightarrow> currency \<Rightarrow> bool" where
  "less_eq_currency c d \<longleftrightarrow> currency_code c \<le> currency_code d"

definition less_currency :: "currency \<Rightarrow> currency \<Rightarrow> bool" where
  "less_currency c d \<longleftrightarrow> currency_code c < currency_code d"

instance
proof
  fix c d e :: currency
  show "c < d \<longleftrightarrow> c \<le> d \<and> \<not> d \<le> c"
    by (auto simp: less_eq_currency_def less_currency_def less_le_not_le)
  show "c \<le> d \<Longrightarrow> d \<le> e \<Longrightarrow> c \<le> e"
    unfolding less_eq_currency_def by (rule order_trans)
  show "c \<le> d \<Longrightarrow> d \<le> c \<Longrightarrow> c = d"
    unfolding less_eq_currency_def by (metis currency_code_inj order_antisym)
qed (simp_all add: less_eq_currency_def linear)

end

section \<open>Conversions between a token and its derived forms\<close>

datatype conversion_error = InvalidToken | ConversionFailed

fun to_token :: "currency \<Rightarrow> conversion_error + currency" where
  "to_token (VToken s) = (if s = BNC then Inr (Native BNC) else Inr (Token s))"
| "to_token (VToken2 i) = Inr (Token2 i)"
| "to_token _ = Inl InvalidToken"

fun to_vtoken :: "currency \<Rightarrow> conversion_error + currency" where
  "to_vtoken (Token s) = Inr (VToken s)"
| "to_vtoken (Token2 i) = Inr (VToken2 i)"
| "to_vtoken (Native s) = (if s = BNC then Inr (VToken BNC) else Inl InvalidToken)"
| "to_vtoken _ = Inl InvalidToken"

fun to_vstoken :: "currency \<Rightarrow> conversion_error + currency" where
  "to_vstoken (Token s) = Inr (VSToken s)"
| "to_vstoken (Token2 i) = Inr (VSToken2 i)"
| "to_vstoken _ = Inl InvalidToken"

definition vs_assets :: "token_symbol \<Rightarrow> u32 \<Rightarrow> u32 \<Rightarrow> u32 \<Rightarrow> currency \<times> currency" where
  "vs_assets symbol index first_slot last_slot =
     (let vsbond_origin = VSBond symbol index first_slot last_slot;
          vsbond_fixed =
            (if vsbond_origin = VSBond KSM 2001 13 20 then VSBond BNC 2001 13 20
             else vsbond_origin)
      in (VSToken symbol, vsbond_fixed))"

fun is_vtoken :: "currency \<Rightarrow> bool" where
  "is_vtoken (VToken _) = True"
| "is_vtoken (VToken2 _) = True"
| "is_vtoken _ = False"

fun is_token :: "currency \<Rightarrow> bool" where
  "is_token (Token _) = True"
| "is_token (Token2 _) = True"
| "is_token _ = False"

fun is_vstoken :: "currency \<Rightarrow> bool" where
  "is_vstoken (VSToken _) = True"
| "is_vstoken (VSToken2 _) = True"
| "is_vstoken _ = False"

fun is_vsbond :: "currency \<Rightarrow> bool" where
  "is_vsbond (VSBond _ _ _ _) = True"
| "is_vsbond (VSBond2 _ _ _ _) = True"
| "is_vsbond _ = False"

fun is_native :: "currency \<Rightarrow> bool" where
  "is_native (Native _) = True"
| "is_native _ = False"

fun is_stable :: "currency \<Rightarrow> bool" where
  "is_stable (Stable _) = True"
| "is_stable _ = False"

fun is_lptoken :: "currency \<Rightarrow> bool" where
  "is_lptoken (LPToken _ _ _ _) = True"
| "is_lptoken _ = False"

fun is_foreign_asset :: "currency \<Rightarrow> bool" where
  "is_foreign_asset (ForeignAsset _) = True"
| "is_foreign_asset _ = False"

text \<open>\<open>TokenInfo::decimals\<close>: known for the symbol tokens, unknown for the numbered ones.\<close>

fun decimals :: "currency \<Rightarrow> nat option" where
  "decimals (Native s) = Some (symbol_decimals s)"
| "decimals (Stable s) = Some (symbol_decimals s)"
| "decimals (Token s) = Some (symbol_decimals s)"
| "decimals (VToken s) = Some (symbol_decimals s)"
| "decimals (VSToken s) = Some (symbol_decimals s)"
| "decimals (VSBond s _ _ _) = Some (symbol_decimals s)"
| "decimals (LPToken _ _ _ _) = Some 1"
| "decimals (StableLpToken _) = Some 1"
| "decimals _ = None"

lemma decimals_le: "decimals c = Some d \<Longrightarrow> d \<le> 18"
  by (induction c rule: decimals.induct) (auto simp: symbol_decimals_le)

section \<open>Encodings\<close>

text \<open>\<open>impl TryFrom<u64> for CurrencyId\<close>; the casts \<open>as u8\<close>, \<open>as u32\<close> truncate.\<close>

definition currency_of_u64 :: "u64 \<Rightarrow> currency option" where
  "currency_of_u64 i =
    (let c_discr = ucast (drop_bit 8 (i AND 0xff00)) :: u8;
         t_discr = ucast (i AND 0xff) :: u8;
         pid = ucast (drop_bit 48 (i AND 0xffff000000000000)) :: u32;
         lp1 = ucast (drop_bit 32 (i AND 0x0000ffff00000000)) :: u32;
         lp2 = ucast (drop_bit 16 (i AND 0x00000000ffff0000)) :: u32
     in if c_discr = 0 then map_option Native (symbol_of_u8 t_discr)
        else if c_discr = 1 then map_option VToken (symbol_of_u8 t_discr)
        else if c_discr = 2 then map_option Token (symbol_of_u8 t_discr)
        else if c_discr = 3 then map_option Stable (symbol_of_u8 t_discr)
        else if c_discr = 4 then map_option VSToken (symbol_of_u8 t_discr)
        else if c_discr = 5 then map_option (\<lambda>s. VSBond s pid lp1 lp2) (symbol_of_u8 t_discr)
        else if c_discr = 6 then
          (let num1 = ucast (drop_bit 16 (i AND 0x0000000000ff0000)) :: u8;
               type1 = ucast (drop_bit 24 (i AND 0x00000000ff000000)) :: u8;
               num2 = ucast (drop_bit 32 (i AND 0x000000ff00000000)) :: u8;
               type2 = ucast (drop_bit 40 (i AND 0x0000ff0000000000)) :: u8;
               sym1 = (case symbol_of_u8 num1 of Some s \<Rightarrow> s | None \<Rightarrow> default_symbol);
               sym2 = (case symbol_of_u8 num2 of Some s \<Rightarrow> s | None \<Rightarrow> default_symbol)
           in Some (LPToken sym1 type1 sym2 type2))
        else if c_discr = 7 then
          Some (ForeignAsset (ucast (drop_bit 16 (i AND 0x0000ffffffff0000))))
        else if c_discr = 8 then Some (Token2 t_discr)
        else if c_discr = 9 then Some (VToken2 t_discr)
        else if c_discr = 10 then Some (VSToken2 t_discr)
        else if c_discr = 11 then Some (VSBond2 t_discr pid lp1 lp2)
        else None)"

record asset_id =
  chain_id :: u32
  asset_type :: u8
  asset_index :: u64

definition symbol_u64 :: "token_symbol \<Rightarrow> u64" where
  "symbol_u64 s = of_nat (symbol_code s)"

text \<open>The discriminator and the index that \<open>AssetId::try_convert_from\<close> computes first.\<close>

fun index_pair :: "currency \<Rightarrow> (u64 \<times> u64) option" where
  "index_pair (Native s) = Some (0, symbol_u64 s)"
| "index_pair (VToken s) = Some (1, symbol_u64 s)"
| "index_pair (Token s) = Some (2, symbol_u64 s)"
| "index_pair (Stable s) = Some (3, symbol_u64 s)"
| "index_pair (VSToken s) = Some (4, symbol_u64 s)"
| "index_pair (LPToken s0 i0 s1 i1) =
     (let currency_index0 =
            push_bit 16 ((push_bit 8 (ucast i0) AND 0xff00) + (symbol_u64 s0 AND 0xff));
          currency_index1 =
            push_bit 32 ((push_bit 8 (ucast i1) AND 0xff00) + (symbol_u64 s1 AND 0xff))
      in Some (6, currency_index0 + currency_index1))"
| "index_pair (Token2 i) = Some (8, ucast i)"
| "index_pair (VToken2 i) = Some (9, ucast i)"
| "index_pair (VSToken2 i) = Some (10, ucast i)"
| "index_pair _ = None"

definition asset_of_currency :: "u8 \<Rightarrow> u8 \<Rightarrow> currency \<Rightarrow> u32 \<Rightarrow> asset_id option" where
  "asset_of_currency NATIVE LOCAL c para_id =
     (case index_pair c of
        None \<Rightarrow> None
      | Some (discr, ix) \<Rightarrow>
          let asset_index = (push_bit 8 discr AND 0xff00) + (ix AND 0xff)
          in if is_native c
             then Some \<lparr>chain_id = para_id, asset_type = NATIVE, asset_index = 0\<rparr>
             else Some \<lparr>chain_id = para_id, asset_type = LOCAL, asset_index = asset_index\<rparr>)"

text \<open>\<open>impl TryInto<CurrencyId> for AssetId\<close>.\<close>

definition currency_of_asset :: "asset_id \<Rightarrow> currency option" where
  "currency_of_asset a =
    (let i = asset_index a;
         c_discr = ucast (drop_bit 8 (i AND 0x000000000000ff00)) :: u32;
         ix = ucast (0x000000ff AND i) :: u8
     in if c_discr = 0 then map_option Native (symbol_of_u8 ix)
        else if c_discr = 1 then map_option VToken (symbol_of_u8 ix)
        else if c_discr = 2 then map_option Token (symbol_of_u8 ix)
        else if c_discr = 3 then map_option Stable (symbol_of_u8 ix)
        else if c_discr = 4 then map_option VSToken (symbol_of_u8 ix)
        else if c_discr = 6 then currency_of_u64 i
        else if c_discr = 8 then Some (Token2 ix)
        else if c_discr = 9 then Some (VToken2 ix)
        else if c_discr = 10 then Some (VSToken2 ix)
        else None)"

section \<open>Round trips\<close>

definition pack :: "u64 \<Rightarrow> u64 \<Rightarrow> u64" where
  "pack d x = (push_bit 8 d AND 0xff00) + (x AND 0xff)"

lemma ff_mask: "(0xff :: u64) = mask 8" "(0xff00 :: u64) = push_bit 8 (mask 8)"
  by (simp_all add: mask_eq_exp_minus_1 push_bit_eq_mult)

lemma pack_or: "pack d x = (push_bit 8 d AND 0xff00) OR (x AND 0xff)"
  unfolding pack_def by (rule disjunctive_add) (auto simp: ff_mask bit_simps)

lemma pack_index [simp]: "ucast (0xff AND pack d (ucast i)) = (i :: u8)"
  unfolding pack_or by (rule bit_word_eqI) (auto simp: ff_mask bit_simps)

lemma pack_discr [simp]: "drop_bit 8 (pack d x) AND 0xff = d AND 0xff"
  unfolding pack_or by (rule bit_word_eqI) (auto simp: ff_mask bit_simps)

lemma symbol_u64_ucast: "symbol_u64 s = ucast (of_nat (symbol_code s) :: u8)"
  by (cases s) (simp_all add: symbol_u64_def)

lemma asset_of_currency_pack:
  assumes "asset_of_currency NATIVE LOCAL c p = Some a" and "\<not> is_native c"
  obtains d x where "index_pair c = Some (d, x)" and "asset_index a = pack d x"
  using assms by (auto simp: asset_of_currency_def pack_def Let_def split: option.splits)

lemma lp_full_or:
  "0x600 + (push_bit 16 (pack (ucast (i0::u8)) x) + push_bit 32 (pack (ucast (i1::u8)) y)) =
   0x600 OR push_bit 16 (pack (ucast i0) x) OR push_bit 32 (pack (ucast i1) y)"
proof -
  have c: "(0x600 :: u64) = push_bit 9 (mask 2)"
    by (simp add: mask_eq_exp_minus_1 push_bit_eq_mult)
  have "push_bit 16 (pack (ucast i0) x) + push_bit 32 (pack (ucast i1) y) =
        push_bit 16 (pack (ucast i0) x) OR push_bit 32 (pack (ucast i1) y)"
    unfolding pack_or by (rule disjunctive_add) (auto simp: ff_mask bit_simps)
  moreover have "0x600 + (push_bit 16 (pack (ucast i0) x) OR push_bit 32 (pack (ucast i1) y)) =
     0x600 OR (push_bit 16 (pack (ucast i0) x) OR push_bit 32 (pack (ucast i1) y))"
    unfolding pack_or c by (rule disjunctive_add) (auto simp: ff_mask bit_simps)
  ultimately show ?thesis by (simp add: or.assoc)
qed

lemma lp_masks:
  "(0x600 :: u64) = push_bit 9 (mask 2)" "(0x00ff0000 :: u64) = push_bit 16 (mask 8)"
  "(0xff000000 :: u64) = push_bit 24 (mask 8)" "(0x000000ff00000000 :: u64) = push_bit 32 (mask 8)"
  "(0x0000ff0000000000 :: u64) = push_bit 40 (mask 8)"
  by (simp_all add: mask_eq_exp_minus_1 push_bit_eq_mult)

lemma lp_discr:
  "(0x600 + (push_bit 16 (pack (ucast (i0::u8)) x) + push_bit 32 (pack (ucast (i1::u8)) y)))
     AND 0xff00 = 0x600"
proof -
  have "(push_bit 16 (pack (ucast i0) x) OR push_bit 32 (pack (ucast i1) y)) AND 0xff00 = 0"
    unfolding ff_mask by (rule bit_word_eqI) (auto simp: bit_simps)
  then show ?thesis
    unfolding lp_full_or by (simp add: or.assoc bit.conj_disj_distrib2)
qed

lemma lp_fields:
  fixes i0 i1 k0 k1 :: u8
  defines "n \<equiv> 0x600 + (push_bit 16 (pack (ucast i0) (ucast k0)) + push_bit 32 (pack (ucast i1) (ucast k1)))"
  shows "(ucast (drop_bit 16 (n AND 0x00ff0000)) :: u8) = k0"
    and "(ucast (drop_bit 24 (n AND 0xff000000)) :: u8) = i0"
    and "(ucast (drop_bit 32 (n AND 0x000000ff00000000)) :: u8) = k1"
    and "(ucast (drop_bit 40 (n AND 0x0000ff0000000000)) :: u8) = i1"
  unfolding n_def lp_full_or
  unfolding pack_or lp_masks ff_mask
  by (rule bit_word_eqI, auto simp: bit_simps)+

lemma lp_index_u64:
  "currency_of_u64 (0x600 + snd (the (index_pair (LPToken s0 i0 s1 i1)))) = Some (LPToken s0 i0 s1 i1)"
proof -
  let ?k = "\<lambda>s. of_nat (symbol_code s) :: u8"
  have "snd (the (index_pair (LPToken s0 i0 s1 i1))) =
        push_bit 16 (pack (ucast i0) (ucast (?k s0))) + push_bit 32 (pack (ucast i1) (ucast (?k s1)))"
    by (simp add: Let_def symbol_u64_ucast pack_def)
  then show ?thesis
    by (simp only: currency_of_u64_def Let_def lp_discr lp_fields symbol_of_code option.case) simp
qed

text \<open>
  An asset id computed for a currency other than the native token and the pool shares converts
  back to that currency.
\<close>

theorem asset_roundtrip:
  assumes "asset_of_currency NATIVE LOCAL c p = Some a"
    and "\<not> is_native c" and "\<not> is_lptoken c"
  shows "currency_of_asset a = Some c"
proof -
  from assms(1,2) obtain d x
    where "index_pair c = Some (d, x)" and "asset_index a = pack d x"
    by (rule asset_of_currency_pack)
  with assms(2,3) show ?thesis
    by (cases c) (auto simp: currency_of_asset_def Let_def symbol_u64_ucast symbol_of_code)
qed

theorem asset_roundtrip_witness:
  "\<exists>a. asset_of_currency 0 2 (VToken2 7) 2030 = Some a \<and> currency_of_asset a = Some (VToken2 7)"
proof -
  have "asset_of_currency 0 2 (VToken2 7) 2030 =
          Some \<lparr>chain_id = 2030, asset_type = 2, asset_index = 0x907\<rparr>"
    by (simp add: asset_of_currency_def)
  then show ?thesis using asset_roundtrip by fastforce
qed

text \<open>
  Every pool-share currency is given the same asset index: the conversion keeps only the low
  byte of the index it has just packed, and the two currencies of the pool are in the higher bytes.
  With those bytes kept, the 64-bit decoder would return the pool share.
\<close>

theorem lp_asset_index:
  "asset_of_currency NATIVE LOCAL (LPToken s0 i0 s1 i1) p =
     Some \<lparr>chain_id = p, asset_type = LOCAL, asset_index = 0x600\<rparr> \<and>
   currency_of_u64 (0x600 + snd (the (index_pair (LPToken s0 i0 s1 i1)))) = Some (LPToken s0 i0 s1 i1)"
proof
  have z: "(push_bit 16 x + push_bit 32 y) AND (0xff :: u64) = 0" for x y
  proof -
    have "push_bit 16 x + push_bit 32 y = push_bit 16 (x + push_bit 16 y)"
      by (simp add: push_bit_add)
    then show ?thesis
      by (simp add: ff_mask) (rule bit_word_eqI, auto simp: bit_simps)
  qed
  show "asset_of_currency NATIVE LOCAL (LPToken s0 i0 s1 i1) p =
     Some \<lparr>chain_id = p, asset_type = LOCAL, asset_index = 0x600\<rparr>"
    by (simp add: asset_of_currency_def Let_def z)
qed (rule lp_index_u64)

text \<open>
  The token of a vToken is a currency whose vToken it is, so the two conversions never disagree.
\<close>

theorem to_token_to_vtoken: "to_token v = Inr c \<Longrightarrow> to_vtoken c = Inr v"
  by (cases v) (auto split: if_splits)

theorem to_token_to_vtoken_witness:
  "to_token (VToken BNC) = Inr (Native BNC) \<and> to_vtoken (Native BNC) = Inr (VToken BNC)"
  using to_token_to_vtoken [of "VToken BNC" "Native BNC"] by simp

end
