(* ===== verification/Fixed_Point.thy ===== *)
theory Fixed_Point
  imports Prelude
begin

text \<open>
  The interface of the fixed-point arithmetic the pallets call. \<open>Permill\<close> (parts per million) and
  \<open>FixedU128\<close> (an inner integer scaled by ten to the eighteenth) come from the package
  \<open>sp_arithmetic\<close>, which is not part of the repository, so every operation that rounds, divides or
  saturates is a parameter: the record \<open>fixed_ops\<close> holds one function per operation the code
  calls, and the locale \<open>fixed_point\<close> its documented behaviour. A \<open>Permill\<close> is modelled by its parts
  and a \<open>FixedU128\<close> by its inner integer, so \<open>zero\<close>, \<open>one\<close>, comparisons and the
  checked additions and subtractions of two of them are those of the integers.

  \<open>std_fixed\<close> is an exact implementation of the whole interface; it discharges the locale and is
  what the witnesses of the development compute with.
\<close>

definition perm_one :: nat where
  "perm_one = 1000000"

definition fx_one :: nat where
  "fx_one = 10 ^ 18"

definition perm_percent :: "nat \<Rightarrow> nat" where
  "perm_percent n = min perm_one (n * 10000)"

record fixed_ops =
  perm_from_rational :: "nat \<Rightarrow> nat \<Rightarrow> nat"
  perm_mul_floor :: "nat \<Rightarrow> nat \<Rightarrow> nat"
  perm_mul_ceil :: "nat \<Rightarrow> nat \<Rightarrow> nat"
  fx_of_perm :: "nat \<Rightarrow> nat"
  fx_mul_int :: "nat \<Rightarrow> nat \<Rightarrow> nat option"
  fx_mul :: "nat \<Rightarrow> nat \<Rightarrow> nat option"
  fx_div :: "nat \<Rightarrow> nat \<Rightarrow> nat option"
  fx_reciprocal :: "nat \<Rightarrow> nat option"
  fx_sat_mul :: "nat \<Rightarrow> nat \<Rightarrow> nat"
  fx_sat_pow :: "nat \<Rightarrow> nat \<Rightarrow> nat"
  fx_from_rational :: "nat \<Rightarrow> nat \<Rightarrow> nat option"
  fx_from_integer :: "nat \<Rightarrow> nat"
  fx_const_mul :: "nat \<Rightarrow> nat \<Rightarrow> nat option"
  fx_const_div :: "nat \<Rightarrow> nat \<Rightarrow> nat option"

section \<open>The documented behaviour\<close>

text \<open>
  \<open>Permill::from_rational\<close> rounds down and saturates at one (also for a zero denominator); for
  denominators above a million it first scales both sides down, so only its exact value below that
  bound and its monotonicity are stated. The products and quotients of \<open>FixedU128\<close> are rounded
  towards zero and answer \<open>None\<close> where the result does not fit or the divisor is zero. The
  inherent methods \<open>mul\<close> and \<open>div\<close> panic there (\<open>None\<close> in \<open>fx_const_mul\<close> and
  \<open>fx_const_div\<close>) and are only said to be within one unit of the exact value.
\<close>

locale fixed_point =
  fixes F :: fixed_ops
  assumes from_rational_full: "q \<le> p \<Longrightarrow> perm_from_rational F p q = perm_one"
    and from_rational_small:
      "0 < q \<Longrightarrow> q \<le> perm_one \<Longrightarrow> p \<le> q \<Longrightarrow> perm_from_rational F p q = p * perm_one div q"
    and from_rational_le: "perm_from_rational F p q \<le> perm_one"
    and from_rational_mono: "p \<le> p' \<Longrightarrow> perm_from_rational F p q \<le> perm_from_rational F p' q"
    and mul_floor: "m \<le> perm_one \<Longrightarrow> perm_mul_floor F m n = m * n div perm_one"
    and mul_ceil: "m \<le> perm_one \<Longrightarrow> perm_mul_ceil F m n = (m * n + (perm_one - 1)) div perm_one"
    and of_perm: "m \<le> perm_one \<Longrightarrow> fx_of_perm F m = m * 10 ^ 12"
    and mul_int: "fx_mul_int F a n = chk u128_max (a * n div fx_one)"
    and mul: "fx_mul F a b = chk u128_max (a * b div fx_one)"
    and div_zero: "fx_div F a 0 = None"
    and div_pos: "0 < b \<Longrightarrow> fx_div F a b = chk u128_max (a * fx_one div b)"
    and reciprocal: "fx_reciprocal F a = fx_div F fx_one a"
    and sat_mul: "fx_sat_mul F a b = min u128_max (a * b div fx_one)"
    and sat_pow_one: "a \<le> fx_one \<Longrightarrow> fx_sat_pow F a n \<le> fx_one"
    and sat_pow_mono: "a \<le> b \<Longrightarrow> fx_sat_pow F a n \<le> fx_sat_pow F b n"
    and from_rational_zero: "fx_from_rational F p 0 = None"
    and from_rational_pos: "0 < q \<Longrightarrow> fx_from_rational F p q = chk u128_max (p * fx_one div q)"
    and from_integer: "fx_from_integer F n = min u128_max (n * fx_one)"
    and const_mul: "fx_const_mul F a b = Some r \<Longrightarrow>
          a * b div fx_one \<le> r \<and> r \<le> a * b div fx_one + 1 \<and> r \<le> u128_max"
    and const_mul_ok: "a * b div fx_one < u128_max \<Longrightarrow> fx_const_mul F a b \<noteq> None"
    and const_div: "fx_const_div F a b = Some r \<Longrightarrow>
          0 < b \<and> a * fx_one div b \<le> r \<and> r \<le> a * fx_one div b + 1 \<and> r \<le> u128_max"
    and const_div_ok: "0 < b \<Longrightarrow> a * fx_one div b < u128_max \<Longrightarrow> fx_const_div F a b \<noteq> None"
begin

lemma div_Some: "fx_div F a b = Some r \<longleftrightarrow> 0 < b \<and> a * fx_one div b \<le> u128_max \<and> r = a * fx_one div b"
  by (cases "b = 0") (auto simp: div_zero div_pos)

lemma mul_int_Some: "fx_mul_int F a n = Some r \<longleftrightarrow> a * n div fx_one \<le> u128_max \<and> r = a * n div fx_one"
  by (auto simp: mul_int)

lemma mul_Some: "fx_mul F a b = Some r \<longleftrightarrow> a * b div fx_one \<le> u128_max \<and> r = a * b div fx_one"
  by (auto simp: mul)

lemma reciprocal_Some:
  "fx_reciprocal F a = Some r \<longleftrightarrow>
     0 < a \<and> fx_one * fx_one div a \<le> u128_max \<and> r = fx_one * fx_one div a"
  by (simp add: reciprocal div_Some)

lemma from_rational_Some:
  "fx_from_rational F p q = Some r \<longleftrightarrow>
     0 < q \<and> p * fx_one div q \<le> u128_max \<and> r = p * fx_one div q"
  by (cases "q = 0") (auto simp: from_rational_zero from_rational_pos)

lemma mul_floor_le: "m \<le> perm_one \<Longrightarrow> perm_mul_floor F m n \<le> n"
proof -
  assume "m \<le> perm_one"
  then have "m * n div perm_one \<le> perm_one * n div perm_one"
    by (intro div_le_mono mult_le_mono1)
  with \<open>m \<le> perm_one\<close> show ?thesis by (simp add: mul_floor perm_one_def)
qed

lemma mul_floor_mono:
  "m \<le> perm_one \<Longrightarrow> n \<le> n' \<Longrightarrow> perm_mul_floor F m n \<le> perm_mul_floor F m n'"
  by (simp add: mul_floor div_le_mono)

lemma mul_ceil_le: "m \<le> perm_one \<Longrightarrow> perm_mul_ceil F m n \<le> n"
proof -
  assume m: "m \<le> perm_one"
  then have "(m * n + (perm_one - 1)) div perm_one \<le> (perm_one * n + (perm_one - 1)) div perm_one"
    by (intro div_le_mono add_le_mono1 mult_le_mono1)
  also have "\<dots> = n" by (simp add: perm_one_def)
  finally show ?thesis by (simp add: mul_ceil m)
qed

lemma mul_ceil_mono:
  "m \<le> perm_one \<Longrightarrow> n \<le> n' \<Longrightarrow> perm_mul_ceil F m n \<le> perm_mul_ceil F m n'"
  by (simp add: mul_ceil div_le_mono)

lemma of_perm_one: "m \<le> perm_one \<Longrightarrow> fx_of_perm F m \<le> fx_one"
  by (simp add: of_perm fx_one_def perm_one_def)

lemma of_perm_mono: "m \<le> m' \<Longrightarrow> m' \<le> perm_one \<Longrightarrow> fx_of_perm F m \<le> fx_of_perm F m'"
  by (simp add: of_perm)

lemma of_perm_eq_0: "m \<le> perm_one \<Longrightarrow> fx_of_perm F m = 0 \<longleftrightarrow> m = 0"
  by (simp add: of_perm)

text \<open>Multiplying by a factor of at most one never grows a value, dividing it back never gains.\<close>

lemma mul_int_le: "a \<le> fx_one \<Longrightarrow> a * n div fx_one \<le> n"
proof -
  assume "a \<le> fx_one"
  then have "a * n div fx_one \<le> fx_one * n div fx_one"
    by (intro div_le_mono mult_le_mono1)
  then show ?thesis by (simp add: fx_one_def)
qed

lemma div_then_mul_le:
  assumes "0 < e"
  shows "e * (u * fx_one div e) div fx_one \<le> u"
proof -
  have "e * (u * fx_one div e) \<le> u * fx_one"
    by simp
  then have "e * (u * fx_one div e) div fx_one \<le> u * fx_one div fx_one"
    by (rule div_le_mono)
  then show ?thesis by (simp add: fx_one_def)
qed

lemma mul_then_div_le:
  assumes "0 < e"
  shows "(e * v div fx_one) * fx_one div e \<le> v"
proof -
  have "(e * v div fx_one) * fx_one \<le> e * v"
    by simp
  then have "(e * v div fx_one) * fx_one div e \<le> e * v div e"
    by (rule div_le_mono)
  then show ?thesis using assms by simp
qed

end

section \<open>An exact implementation\<close>

definition std_div :: "nat \<Rightarrow> nat \<Rightarrow> nat option" where
  "std_div a b = (if b = 0 then None else chk u128_max (a * fx_one div b))"

definition std_sat_mul :: "nat \<Rightarrow> nat \<Rightarrow> nat" where
  "std_sat_mul a b = min u128_max (a * b div fx_one)"

fun std_pow :: "nat \<Rightarrow> nat \<Rightarrow> nat" where
  "std_pow a 0 = fx_one"
| "std_pow a (Suc n) = std_sat_mul (std_pow a n) a"

definition std_perm :: "nat \<Rightarrow> nat \<Rightarrow> nat" where
  "std_perm p q = (if q \<le> p then perm_one else p * perm_one div q)"

definition std_fixed :: fixed_ops where
  "std_fixed = \<lparr>
     perm_from_rational = std_perm,
     perm_mul_floor = (\<lambda>m n. m * n div perm_one),
     perm_mul_ceil = (\<lambda>m n. (m * n + (perm_one - 1)) div perm_one),
     fx_of_perm = (\<lambda>m. m * 10 ^ 12),
     fx_mul_int = (\<lambda>a n. chk u128_max (a * n div fx_one)),
     fx_mul = (\<lambda>a b. chk u128_max (a * b div fx_one)),
     fx_div = std_div,
     fx_reciprocal = std_div fx_one,
     fx_sat_mul = std_sat_mul,
     fx_sat_pow = std_pow,
     fx_from_rational = std_div,
     fx_from_integer = (\<lambda>n. min u128_max (n * fx_one)),
     fx_const_mul = (\<lambda>a b. chk u128_max (a * b div fx_one)),
     fx_const_div = std_div\<rparr>"

lemma fx_one_le_u128: "fx_one \<le> u128_max"
  by (simp add: fx_one_def u128_max_def)

lemma std_pow_le_one: "a \<le> fx_one \<Longrightarrow> std_pow a n \<le> fx_one"
proof (induction n)
  case 0
  then show ?case by simp
next
  case (Suc n)
  have "std_pow a n * a \<le> fx_one * fx_one"
    using Suc by (intro mult_le_mono) auto
  then have "std_pow a n * a div fx_one \<le> fx_one * fx_one div fx_one"
    by (rule div_le_mono)
  then show ?case by (simp add: std_sat_mul_def fx_one_def)
qed

lemma std_pow_mono: "a \<le> b \<Longrightarrow> std_pow a n \<le> std_pow b n"
proof (induction n)
  case 0
  then show ?case by simp
next
  case (Suc n)
  then have "std_pow a n * a div fx_one \<le> std_pow b n * b div fx_one"
    by (intro div_le_mono mult_le_mono) auto
  then show ?case by (auto simp: std_sat_mul_def)
qed

lemma std_perm_le: "std_perm p q \<le> perm_one"
proof (cases "q \<le> p")
  case False
  then have "p * perm_one div q \<le> q * perm_one div q"
    by (intro div_le_mono) simp
  with False show ?thesis by (simp add: std_perm_def)
qed (simp add: std_perm_def)

lemma std_perm_mono: "p \<le> p' \<Longrightarrow> std_perm p q \<le> std_perm p' q"
proof -
  assume "p \<le> p'"
  then have "\<not> q \<le> p' \<Longrightarrow> p * perm_one div q \<le> p' * perm_one div q"
    by (intro div_le_mono) simp
  with \<open>p \<le> p'\<close> show ?thesis
    using std_perm_le [of p q] by (auto simp: std_perm_def)
qed

lemma std_perm_full: "q \<le> p \<Longrightarrow> std_perm p q = perm_one"
  by (simp add: std_perm_def)

lemma std_perm_small: "0 < q \<Longrightarrow> p \<le> q \<Longrightarrow> std_perm p q = p * perm_one div q"
  by (cases "p = q") (simp_all add: std_perm_def)

interpretation std: fixed_point std_fixed
  by unfold_locales
    (auto simp: std_fixed_def std_div_def std_sat_mul_def std_perm_full std_perm_small
      intro: std_pow_le_one std_pow_mono std_perm_le std_perm_mono split: if_splits)

lemma std_fixed_point: "fixed_point std_fixed"
  by (rule std.fixed_point_axioms)

end
