(* ===== verification/Prices.thy ===== *)
theory Prices
  imports Fixed_Point Currency
begin

text \<open>
  The price pallet, \<open>pallets/prices/src/lib.rs\<close>: emergency prices that override the oracle, the
  mapping of foreign assets, and the uniform price format of the other pallets. The oracle
  (\<open>T::Source\<close>) and the asset metadata are parameters; a price is the inner integer of its
  \<open>FixedU128\<close>.
\<close>

section \<open>Configuration and state\<close>

record price_config =
  source_get :: "currency \<Rightarrow> (nat \<times> nat) option"
  source_get_no_op :: "currency \<Rightarrow> (nat \<times> nat) option"
  source_all :: "(currency \<times> (nat \<times> nat) option) list"
  relay_currency :: currency
  metadata_decimals :: "currency \<Rightarrow> nat option"
  feeder_origin :: "origin \<Rightarrow> bool"
  price_update_origin :: "origin \<Rightarrow> bool"

datatype price_event = SetPrice currency nat | ResetPrice currency

record price_state =
  emergency_price :: "currency \<rightharpoonup> nat"
  foreign_to_native :: "currency \<rightharpoonup> currency"
  price_events :: "price_event list"

text \<open>The genesis build inserts the configured entries one by one, a later one winning.\<close>

definition prices_genesis :: "(currency \<times> nat) list \<Rightarrow> (currency \<times> currency) list \<Rightarrow> price_state" where
  "prices_genesis prices natives =
     \<lparr>emergency_price = fold (\<lambda>(c, p) m. m(c \<mapsto> p)) prices Map.empty,
      foreign_to_native = fold (\<lambda>(c, d) m. m(c \<mapsto> d)) natives Map.empty,
      price_events = []\<rparr>"

section \<open>Calls\<close>

definition set_emergency_price :: "currency \<Rightarrow> nat \<Rightarrow> price_state \<Rightarrow> price_state" where
  "set_emergency_price c p s =
     s\<lparr>emergency_price := (emergency_price s)(c \<mapsto> p), price_events := price_events s @ [SetPrice c p]\<rparr>"

definition reset_emergency_price :: "currency \<Rightarrow> price_state \<Rightarrow> price_state" where
  "reset_emergency_price c s =
     s\<lparr>emergency_price := (emergency_price s)(c := None), price_events := price_events s @ [ResetPrice c]\<rparr>"

definition set_price ::
  "price_config \<Rightarrow> origin \<Rightarrow> currency \<Rightarrow> nat \<Rightarrow> price_state \<Rightarrow> (unit, price_state) result" where
  "set_price C o1 c p s =
     rbind (ensure (feeder_origin C o1) BadOrigin) (\<lambda>_. Inr (set_emergency_price c p s))"

definition reset_price ::
  "price_config \<Rightarrow> origin \<Rightarrow> currency \<Rightarrow> price_state \<Rightarrow> (unit, price_state) result" where
  "reset_price C o1 c s =
     rbind (ensure (feeder_origin C o1) BadOrigin) (\<lambda>_. Inr (reset_emergency_price c s))"

definition set_foreign_asset ::
  "price_config \<Rightarrow> origin \<Rightarrow> currency \<Rightarrow> currency \<Rightarrow> price_state \<Rightarrow> (unit, price_state) result" where
  "set_foreign_asset C o1 foreign c s =
     rbind (ensure (price_update_origin C o1) BadOrigin) (\<lambda>_.
       Inr (s\<lparr>foreign_to_native := (foreign_to_native s)(foreign \<mapsto> c)\<rparr>))"

section \<open>Prices\<close>

definition get_asset_mantissa :: "price_config \<Rightarrow> currency \<Rightarrow> nat option" where
  "get_asset_mantissa C c =
     (let d = (case decimals c of Some d \<Rightarrow> d
               | None \<Rightarrow> (case metadata_decimals C c of Some d \<Rightarrow> d | None \<Rightarrow> 12))
      in chk u128_max (10 ^ d))"

definition get_emergency_price ::
  "fixed_ops \<Rightarrow> price_config \<Rightarrow> price_state \<Rightarrow> currency \<Rightarrow> (nat \<times> nat) option" where
  "get_emergency_price F C s c =
     Option.bind (emergency_price s c) (\<lambda>p.
     Option.bind (get_asset_mantissa C c) (\<lambda>mantissa.
       map_option (\<lambda>price. (price, 0)) (fx_div F p mantissa)))"

definition get_storage_price :: "price_config \<Rightarrow> price_state \<Rightarrow> currency \<Rightarrow> nat option" where
  "get_storage_price C s c =
     (case emergency_price s c of Some p \<Rightarrow> Some p | None \<Rightarrow> map_option fst (source_get C c))"

definition get_special_asset_price :: "currency \<Rightarrow> nat \<times> nat \<Rightarrow> (nat \<times> nat) option" where
  "get_special_asset_price c base_price = None"

definition normalize_detail_price :: "fixed_ops \<Rightarrow> nat \<times> nat \<Rightarrow> nat \<Rightarrow> (nat \<times> nat) option" where
  "normalize_detail_price F price mantissa =
     map_option (\<lambda>v. (v, snd price)) (fx_div F (fst price) mantissa)"

definition or_else :: "'a option \<Rightarrow> 'a option \<Rightarrow> 'a option" where
  "or_else x y = (case x of None \<Rightarrow> y | Some _ \<Rightarrow> x)"

definition get_price ::
  "fixed_ops \<Rightarrow> price_config \<Rightarrow> price_state \<Rightarrow> currency \<Rightarrow> (nat \<times> nat) option" where
  "get_price F C s c =
     or_else (get_emergency_price F C s c)
       (Option.bind (get_asset_mantissa C c) (\<lambda>mantissa.
          Option.bind
            (or_else
              (Option.bind (source_get C (relay_currency C)) (get_special_asset_price c))
              (source_get C c))
            (\<lambda>price. normalize_detail_price F price mantissa)))"

text \<open>
  The products and quotients of \<open>get_amount_by_prices\<close> are the panicking methods of \<open>FixedU128\<close>: the
  outer option is the function's own \<open>Option\<close>, a panic is the error.
\<close>

definition get_amount_by_prices ::
  "fixed_ops \<Rightarrow> price_config \<Rightarrow> currency \<Rightarrow> nat \<Rightarrow> nat \<Rightarrow> currency \<Rightarrow> nat \<Rightarrow> (unit, nat option) result" where
  "get_amount_by_prices F C cin amount_in price_in cout price_out =
     (case (get_asset_mantissa C cin, get_asset_mantissa C cout) of
        (Some m_in, Some m_out) \<Rightarrow>
          rbind (ok_or (fx_const_mul F price_in amount_in) Panic) (\<lambda>v.
          rbind (ok_or (fx_const_div F v m_in) Panic) (\<lambda>total_value.
          rbind (ok_or (fx_const_mul F total_value m_out) Panic) (\<lambda>w.
          rbind (ok_or (fx_const_div F w price_out) Panic) (\<lambda>amount_out.
            Inr (Some amount_out)))))
      | _ \<Rightarrow> Inr None)"

definition get_oracle_amount ::
  "fixed_ops \<Rightarrow> price_config \<Rightarrow> price_state \<Rightarrow> currency \<Rightarrow> nat \<Rightarrow> currency \<Rightarrow>
     (unit, (nat \<times> nat \<times> nat) option) result" where
  "get_oracle_amount F C s cin amount_in cout =
     (case get_storage_price C s cin of
        None \<Rightarrow> Inr None
      | Some price_in \<Rightarrow>
          if cin = cout then Inr (Some (amount_in, price_in, price_in))
          else (case get_storage_price C s cout of
                  None \<Rightarrow> Inr None
                | Some price_out \<Rightarrow>
                    rbind (get_amount_by_prices F C cin amount_in price_in cout price_out) (\<lambda>r.
                      Inr (map_option (\<lambda>amount_out. (amount_out, price_in, price_out)) r))))"

definition get_no_op :: "price_config \<Rightarrow> currency \<Rightarrow> (nat \<times> nat) option" where
  "get_no_op C c =
     Option.bind (get_asset_mantissa C c) (\<lambda>_.
       or_else
         (Option.bind (source_get_no_op C (relay_currency C)) (get_special_asset_price c))
         (source_get_no_op C c))"

definition get_all_values :: "price_config \<Rightarrow> (currency \<times> (nat \<times> nat) option) list" where
  "get_all_values C = source_all C"

text \<open>The adapter through which the runtime hands these prices to the loans pallet.\<close>

definition oracle_price_adapter ::
  "fixed_ops \<Rightarrow> price_config \<Rightarrow> price_state \<Rightarrow> currency \<Rightarrow> nat option" where
  "oracle_price_adapter F C s c = map_option fst (get_price F C s c)"

section \<open>The price feed as an interface\<close>

text \<open>
  What the lending pallets rely on: prices fit their type, an emergency price takes effect on its own
  currency only, at once and with timestamp zero, and resetting it gives back what the oracle says.
\<close>

lemma or_else_simps [simp]: "or_else None y = y" "or_else (Some v) y = Some v"
  by (simp_all add: or_else_def)

lemma or_else_eq_Some: "or_else x y = Some v \<longleftrightarrow> x = Some v \<or> (x = None \<and> y = Some v)"
  by (cases x) simp_all

locale price_feed =
  fixes price :: "'s \<Rightarrow> currency \<Rightarrow> (nat \<times> nat) option"
    and override :: "currency \<Rightarrow> nat \<Rightarrow> 's \<Rightarrow> 's"
    and restore :: "currency \<Rightarrow> 's \<Rightarrow> 's"
    and mantissa :: "currency \<Rightarrow> nat option"
  assumes price_bounded: "price s c = Some (p, t) \<Longrightarrow> p \<le> u128_max"
    and override_same: "mantissa c = Some m \<Longrightarrow> p * fx_one div m \<le> u128_max \<Longrightarrow>
          price (override c p s) c = Some (p * fx_one div m, 0)"
    and override_other: "d \<noteq> c \<Longrightarrow> price (override c p s) d = price s d"
    and restore_other: "d \<noteq> c \<Longrightarrow> price (restore c s) d = price s d"
    and restore_override: "price (restore c (override c p s)) c = price (restore c s) c"
begin

lemma overrides_elsewhere:
  "c \<notin> fst ` set ps \<Longrightarrow> price (fold (\<lambda>(d, p). override d p) ps s) c = price s c"
  by (induction ps arbitrary: s) (auto simp: override_other)

text \<open>Setting and then resetting a price is invisible to every reader once the reset has happened.\<close>

lemma override_restore_idem: "price (restore c (override c q (override c p s))) d = price (restore c s) d"
  by (cases "d = c") (simp_all add: restore_override restore_other override_other)

end

context fixed_point
begin

lemma get_price_bounded: "get_price F C s c = Some (p, t) \<Longrightarrow> p \<le> u128_max"
  by (auto simp: get_price_def or_else_eq_Some get_emergency_price_def normalize_detail_price_def
      bind_eq_Some_conv div_Some)

lemma mantissa_pos: "get_asset_mantissa C c = Some m \<Longrightarrow> 0 < m"
  by (auto simp: get_asset_mantissa_def Let_def)

lemma get_price_emergency:
  assumes "get_asset_mantissa C c = Some m" and "p * fx_one div m \<le> u128_max"
    and "emergency_price s c = Some p"
  shows "get_price F C s c = Some (p * fx_one div m, 0)"
  using assms mantissa_pos [OF assms(1)]
  by (simp add: get_price_def get_emergency_price_def div_pos chk_def)

lemma get_price_cong:
  "emergency_price s c = emergency_price s' c \<Longrightarrow> get_price F C s c = get_price F C s' c"
  by (simp add: get_price_def get_emergency_price_def)

end

sublocale fixed_point \<subseteq> feed:
    price_feed "get_price F C" set_emergency_price reset_emergency_price "get_asset_mantissa C" for C
  by unfold_locales
    (auto intro!: get_price_cong get_price_emergency dest: get_price_bounded
      simp: set_emergency_price_def reset_emergency_price_def)

context fixed_point
begin

lemma is_price_feed:
  "price_feed (get_price F C) set_emergency_price reset_emergency_price (get_asset_mantissa C)"
  by (rule feed.price_feed_axioms)

end

section \<open>Properties\<close>

text \<open>
  An emergency price set by an accepted call is what every reader of that currency gets, scaled to
  the uniform format and with timestamp zero, whatever the oracle says, and no other currency's price
  changes; resetting it afterwards gives every currency the price it has without it.
\<close>

theorem emergency_price_takes_effect:
  assumes "fixed_point F"
    and "set_price C o1 c p s = Inr s'"
    and "get_asset_mantissa C c = Some m" and "p * fx_one div m \<le> u128_max"
  shows "get_price F C s' c = Some (p * fx_one div m, 0) \<and>
     (\<forall>d. d \<noteq> c \<longrightarrow> get_price F C s' d = get_price F C s d) \<and>
     (\<forall>d. get_price F C (reset_emergency_price c s') d =
          get_price F C (reset_emergency_price c s) d)"
proof -
  have s': "s' = set_emergency_price c p s"
    using assms(2) by (auto simp: set_price_def result_simps)
  note pf = fixed_point.is_price_feed [OF assms(1), of C]
  note feed = price_feed.override_same [OF pf assms(3,4)] price_feed.override_other [OF pf]
    price_feed.restore_override [OF pf] price_feed.restore_other [OF pf]
  have "get_price F C (reset_emergency_price c s') d = get_price F C (reset_emergency_price c s) d" for d
    by (cases "d = c") (simp_all add: s' feed)
  then show ?thesis by (simp add: s' feed)
qed

definition demo_prices :: price_config where
  "demo_prices = \<lparr>source_get = (\<lambda>c. if c = Token2 0 then Some (5 * 10 ^ 18, 77) else None),
     source_get_no_op = (\<lambda>_. None), source_all = [], relay_currency = Token2 0,
     metadata_decimals = (\<lambda>c. if c = Token2 0 then Some 10 else None),
     feeder_origin = (\<lambda>o1. o1 = Root), price_update_origin = (\<lambda>o1. o1 = Root)\<rparr>"

lemma demo_mantissa: "get_asset_mantissa demo_prices (Token2 0) = Some (10 ^ 10)"
  by (simp add: get_asset_mantissa_def demo_prices_def chk_def u128_max_def)

theorem emergency_price_takes_effect_witness:
  "\<exists>s'. set_price demo_prices Root (Token2 0) (3 * 10 ^ 18) (prices_genesis [] []) = Inr s' \<and>
     get_price std_fixed demo_prices s' (Token2 0) = Some (3 * 10 ^ 26, 0)"
proof -
  obtain s' where s': "set_price demo_prices Root (Token2 0) (3 * 10 ^ 18) (prices_genesis [] []) = Inr s'"
    by (simp add: set_price_def demo_prices_def)
  have "(3 * 10 ^ 18 :: nat) * fx_one div 10 ^ 10 \<le> u128_max"
    by (simp add: fx_one_def u128_max_def)
  from emergency_price_takes_effect [OF std_fixed_point s' demo_mantissa this]
  have "get_price std_fixed demo_prices s' (Token2 0) = Some (3 * 10 ^ 18 * fx_one div 10 ^ 10, 0)"
    by (rule conjunct1)
  also have "\<dots> = Some (3 * 10 ^ 26, 0)"
    by (simp add: fx_one_def)
  finally show ?thesis using s' by blast
qed

text \<open>One rounding step: a quotient answered exactly or one unit too large.\<close>

lemma rounded_quotient:
  assumes "(n::nat) div d \<le> r" and "r \<le> n div d + 1" and "0 < d"
  shows "r * d \<le> n + d" and "n < (r + 1) * d"
proof -
  have "r * d \<le> (n div d + 1) * d" using assms(2) by (rule mult_le_mono1)
  also have "\<dots> \<le> n + d" by simp
  finally show "r * d \<le> n + d" .
  have "n < (n div d + 1) * d" using dividend_less_div_times [OF assms(3), of n] by simp
  also have "\<dots> \<le> (r + 1) * d" using assms(1) by (intro mult_le_mono1) simp
  finally show "n < (r + 1) * d" .
qed

text \<open>
  A conversion by the oracle into the same currency is the identity. Between two currencies, an answer uses the
  two stored prices, the second of which is not zero (a zero price panics), and preserves the worth: the amount
  in times its price and the amount out times its price, scaled by the two mantissas, differ by no more than
  the four roundings.
\<close>

theorem oracle_amount_preserves_worth:
  assumes "fixed_point F" and "get_oracle_amount F C s cin a cout = Inr (Some (out, pin, pout))"
  shows "get_storage_price C s cin = Some pin \<and> get_storage_price C s cout = Some pout \<and>
     (cin = cout \<longrightarrow> out = a) \<and>
     (cin \<noteq> cout \<longrightarrow> 0 < pout \<and>
        (\<exists>m_in m_out. get_asset_mantissa C cin = Some m_in \<and> get_asset_mantissa C cout = Some m_out \<and>
          (let slack = fx_one * m_out + m_in * m_out + fx_one * m_in + pout * m_in in
           out * pout * m_in \<le> pin * a * m_out + slack \<and> pin * a * m_out \<le> out * pout * m_in + slack)))"
proof (cases "cin = cout")
  case True
  with assms(2) show ?thesis by (auto simp: get_oracle_amount_def split: option.splits)
next
  case False
  from assms(2) have prices: "get_storage_price C s cin = Some pin" "get_storage_price C s cout = Some pout"
    and "get_amount_by_prices F C cin a pin cout pout = Inr (Some out)"
    using False by (auto simp: get_oracle_amount_def result_simps split: option.splits)
  then obtain m_in m_out v tv w where m: "get_asset_mantissa C cin = Some m_in" "get_asset_mantissa C cout = Some m_out"
    and steps: "fx_const_mul F pin a = Some v" "fx_const_div F v m_in = Some tv"
      "fx_const_mul F tv m_out = Some w" "fx_const_div F w pout = Some out"
    by (auto simp: get_amount_by_prices_def result_simps split: option.splits)
  have fx: "0 < fx_one" by (simp add: fx_one_def)
  note mul = fixed_point.const_mul [OF assms(1)] and dv = fixed_point.const_div [OF assms(1)]
  note s1 = rounded_quotient [of "pin * a" fx_one v] and s2 = rounded_quotient [of "v * fx_one" m_in tv]
    and s3 = rounded_quotient [of "tv * m_out" fx_one w] and s4 = rounded_quotient [of "w * fx_one" pout out]
  have b: "v * fx_one \<le> pin * a + fx_one" "pin * a < (v + 1) * fx_one"
    "tv * m_in \<le> v * fx_one + m_in" "v * fx_one < (tv + 1) * m_in"
    "w * fx_one \<le> tv * m_out + fx_one" "tv * m_out < (w + 1) * fx_one"
    "out * pout \<le> w * fx_one + pout" "w * fx_one < (out + 1) * pout" "0 < pout"
    using s1 s2 s3 s4 mul [OF steps(1)] dv [OF steps(2)] mul [OF steps(3)] dv [OF steps(4)] fx by auto
  have up: "out * pout * m_in \<le> pin * a * m_out + (fx_one * m_out + m_in * m_out + fx_one * m_in + pout * m_in)"
  proof -
    have "out * pout * m_in \<le> (tv * m_out + fx_one + pout) * m_in"
      using b(5,7) by (intro mult_le_mono1) simp
    also have "\<dots> = (tv * m_in) * m_out + fx_one * m_in + pout * m_in" by (simp add: algebra_simps)
    also have "\<dots> \<le> (pin * a + fx_one + m_in) * m_out + fx_one * m_in + pout * m_in"
      using b(1,3) by (intro add_mono mult_le_mono1) auto
    finally show ?thesis by (simp add: algebra_simps)
  qed
  have down: "pin * a * m_out \<le> out * pout * m_in + (fx_one * m_out + m_in * m_out + fx_one * m_in + pout * m_in)"
  proof -
    have "pin * a * m_out \<le> (tv * m_in + m_in + fx_one) * m_out"
      using b(2,4) by (intro mult_le_mono1) (simp add: algebra_simps)
    also have "\<dots> = (tv * m_out) * m_in + m_in * m_out + fx_one * m_out" by (simp add: algebra_simps)
    also have "\<dots> \<le> (out * pout + pout + fx_one) * m_in + m_in * m_out + fx_one * m_out"
      using b(6,8) by (intro add_mono mult_le_mono1) (auto simp: algebra_simps)
    finally show ?thesis by (simp add: algebra_simps)
  qed
  show ?thesis
    using False prices m b(9) up down by (simp add: Let_def)
qed

definition two_prices :: price_state where
  "two_prices = set_emergency_price (Token2 1) (2 * 10 ^ 18) (set_emergency_price (Token2 0) (5 * 10 ^ 18) (prices_genesis [] []))"

theorem oracle_amount_preserves_worth_witness:
  "get_oracle_amount std_fixed demo_prices two_prices (Token2 0) (4 * 10 ^ 10) (Token2 1) =
     Inr (Some (10 * 10 ^ 12, 5 * 10 ^ 18, 2 * 10 ^ 18)) \<and>
   get_storage_price demo_prices two_prices (Token2 1) = Some (2 * 10 ^ 18)"
proof
  show *: "get_oracle_amount std_fixed demo_prices two_prices (Token2 0) (4 * 10 ^ 10) (Token2 1) =
     Inr (Some (10 * 10 ^ 12, 5 * 10 ^ 18, 2 * 10 ^ 18))"
    by (simp add: get_oracle_amount_def get_amount_by_prices_def get_storage_price_def two_prices_def
        set_emergency_price_def prices_genesis_def get_asset_mantissa_def demo_prices_def chk_def u128_max_def
        std_fixed_def std_div_def fx_one_def)
  show "get_storage_price demo_prices two_prices (Token2 1) = Some (2 * 10 ^ 18)"
    using oracle_amount_preserves_worth [OF std_fixed_point *] by blast
qed

end
