(* ===== verification/Storage.thy ===== *)
theory Storage
  imports Prelude "HOL-Library.Multiset"
begin

text \<open>
  Storage maps that the code iterates over (\<open>Loans::iter\<close>, \<open>Markets::iter\<close>). A
  \<open>Blake2_128Concat\<close> map keeps its entries in the order of the hash of the key followed by the key
  itself, so a map is modelled by the list of its entries in that order. The hash is a parameter
  \<open>H\<close>, an arbitrary function on keys; ties are broken by the key. The locale \<open>storage_map\<close> states what
  the pallets rely on, and the list model discharges it.

  Maps that are only read and written by key are plain functions in the states of the pallets:
  \<open>'k \<Rightarrow> 'v\<close> with the default value for a \<open>ValueQuery\<close>, \<open>'k \<rightharpoonup> 'v\<close> for an \<open>OptionQuery\<close>.
\<close>

section \<open>The interface\<close>

locale storage_map =
  fixes lookup :: "'m \<Rightarrow> 'k \<Rightarrow> 'v option"
    and put :: "'k \<Rightarrow> 'v \<Rightarrow> 'm \<Rightarrow> 'm"
    and entries :: "'m \<Rightarrow> ('k \<times> 'v) list"
    and empty :: 'm
    and invar :: "'m \<Rightarrow> bool"
  assumes lookup_put: "lookup (put k v m) = (lookup m)(k \<mapsto> v)"
    and lookup_empty: "lookup empty = (\<lambda>_. None)"
    and lookup_entries: "invar m \<Longrightarrow> lookup m k = Some v \<longleftrightarrow> (k, v) \<in> set (entries m)"
    and lookup_None: "lookup m k = None \<longleftrightarrow> k \<notin> fst ` set (entries m)"
    and distinct_keys: "invar m \<Longrightarrow> distinct (map fst (entries m))"
    and invar_empty: "invar empty"
    and invar_put: "invar m \<Longrightarrow> invar (put k v m)"
    and entries_put_new:
      "lookup m k = None \<Longrightarrow> mset (entries (put k v m)) = add_mset (k, v) (mset (entries m))"
    and entries_put_old:
      "invar m \<Longrightarrow> lookup m k = Some v0 \<Longrightarrow>
         add_mset (k, v0) (mset (entries (put k v m))) = add_mset (k, v) (mset (entries m))"
begin

text \<open>How a sum over the entries changes when one entry is written.\<close>

definition total :: "('k \<times> 'v \<Rightarrow> nat) \<Rightarrow> 'm \<Rightarrow> nat" where
  "total w m = sum_list (map w (entries m))"

lemma total_mset: "total w m = sum_mset (image_mset w (mset (entries m)))"
  by (simp add: total_def sum_mset_sum_list flip: mset_map)

lemma total_put_new: "lookup m k = None \<Longrightarrow> total w (put k v m) = w (k, v) + total w m"
  by (simp add: total_mset entries_put_new)

lemma total_put_old:
  assumes "invar m" and "lookup m k = Some v0"
  shows "total w (put k v m) + w (k, v0) = total w m + w (k, v)"
proof -
  have "sum_mset (image_mset w (add_mset (k, v0) (mset (entries (put k v m))))) =
        sum_mset (image_mset w (add_mset (k, v) (mset (entries m))))"
    by (simp only: entries_put_old [OF assms])
  then show ?thesis by (simp add: total_mset add.commute)
qed

lemma total_ge:
  assumes "invar m" and "lookup m k = Some v"
  shows "w (k, v) \<le> total w m"
proof -
  have "w (k, v) \<in> set (map w (entries m))"
    using assms by (force simp: lookup_entries)
  then show ?thesis unfolding total_def by (intro member_le_sum_list) simp_all
qed

lemma total_cong_keys:
  assumes "\<And>k v. lookup m k \<noteq> None \<Longrightarrow> w (k, v) = w' (k, v)"
  shows "total w m = total w' m"
  unfolding total_def
proof (rule arg_cong [of _ _ sum_list], rule map_cong)
  fix p assume "p \<in> set (entries m)"
  then have "lookup m (fst p) \<noteq> None" by (simp add: lookup_None)
  then show "w p = w' p" using assms [of "fst p" "snd p"] by simp
qed simp

text \<open>Two weights that differ at one key only.\<close>

lemma total_change_at:
  assumes "invar m" and "lookup m k = Some v" and "\<And>k' v'. k' \<noteq> k \<Longrightarrow> w (k', v') = w' (k', v')"
  shows "total w' m + w (k, v) = total w m + w' (k, v)"
proof -
  from assms(1,2) obtain ys zs where e: "entries m = ys @ (k, v) # zs"
    by (auto simp: lookup_entries dest: split_list)
  have "k \<notin> fst ` set (ys @ zs)"
    using distinct_keys [OF assms(1)] by (auto simp: e)
  then have "w p = w' p" if "p \<in> set (ys @ zs)" for p
    using assms(3) [of "fst p" "snd p"] that by force
  then have "sum_list (map w ys) = sum_list (map w' ys)" "sum_list (map w zs) = sum_list (map w' zs)"
    by (simp_all cong: map_cong)
  then show ?thesis by (simp add: total_def e)
qed

text \<open>Writing one entry while the weight changes at its key.\<close>

lemma total_put_change:
  assumes "invar m" and "lookup m k = Some v0" and "\<And>k' v'. k' \<noteq> k \<Longrightarrow> w (k', v') = w' (k', v')"
  shows "total w' (put k v m) + w (k, v0) = total w m + w' (k, v)"
proof -
  have "total w' m + w (k, v0) = total w m + w' (k, v0)"
    using assms by (rule total_change_at)
  with total_put_old [OF assms(1,2), of w' v] show ?thesis by linarith
qed

lemma total_empty_entries: "entries m = [] \<Longrightarrow> total w m = 0"
  by (simp add: total_def)

end

section \<open>The list model\<close>

definition sm_before :: "('k::linorder \<Rightarrow> nat) \<Rightarrow> 'k \<Rightarrow> 'k \<Rightarrow> bool" where
  "sm_before H k k' \<longleftrightarrow> H k < H k' \<or> (H k = H k' \<and> k < k')"

fun sm_put :: "('k::linorder \<Rightarrow> nat) \<Rightarrow> 'k \<Rightarrow> 'v \<Rightarrow> ('k \<times> 'v) list \<Rightarrow> ('k \<times> 'v) list" where
  "sm_put H k v [] = [(k, v)]"
| "sm_put H k v ((k', v') # xs) =
     (if k = k' then (k, v) # xs
      else if sm_before H k k' then (k, v) # (k', v') # xs
      else (k', v') # sm_put H k v xs)"

definition sm_invar :: "('k::linorder \<Rightarrow> nat) \<Rightarrow> ('k \<times> 'v) list \<Rightarrow> bool" where
  "sm_invar H xs \<longleftrightarrow> sorted_wrt (\<lambda>a b. sm_before H (fst a) (fst b)) xs"

lemma sm_before_irrefl [simp]: "\<not> sm_before H k k"
  by (simp add: sm_before_def)

lemma sm_before_trans: "sm_before H a b \<Longrightarrow> sm_before H b c \<Longrightarrow> sm_before H a c"
  by (auto simp: sm_before_def)

lemma sm_before_total: "a \<noteq> b \<Longrightarrow> sm_before H a b \<or> sm_before H b a"
  by (auto simp: sm_before_def)

lemma map_of_sm_put: "map_of (sm_put H k v xs) = (map_of xs)(k \<mapsto> v)"
  by (induction H k v xs rule: sm_put.induct) (auto simp: fun_eq_iff)

lemma set_sm_put: "set (sm_put H k v xs) \<subseteq> insert (k, v) (set xs)"
  by (induction H k v xs rule: sm_put.induct) auto

lemma sm_invar_Cons:
  "sm_invar H (x # xs) \<longleftrightarrow> (\<forall>y \<in> set xs. sm_before H (fst x) (fst y)) \<and> sm_invar H xs"
  by (simp add: sm_invar_def)

lemma sm_invar_distinct: "sm_invar H xs \<Longrightarrow> distinct (map fst xs)"
  by (induction xs) (auto simp: sm_invar_Cons)

lemma sm_invar_put: "sm_invar H xs \<Longrightarrow> sm_invar H (sm_put H k v xs)"
proof (induction H k v xs rule: sm_put.induct)
  case (1 H k v)
  then show ?case by (simp add: sm_invar_def)
next
  case (2 H k v k' v' xs)
  show ?case
  proof (cases "k = k' \<or> sm_before H k k'")
    case True
    with "2.prems" show ?thesis
      by (auto simp: sm_invar_Cons intro: sm_before_trans)
  next
    case False
    then have "sm_before H k' k"
      using sm_before_total by blast
    with False 2 set_sm_put [of H k v xs] show ?thesis
      by (auto simp: sm_invar_Cons)
  qed
qed

lemma mset_sm_put_new:
  "map_of xs k = None \<Longrightarrow> mset (sm_put H k v xs) = add_mset (k, v) (mset xs)"
  by (induction H k v xs rule: sm_put.induct) (auto split: if_splits)

lemma sm_before_not_mem:
  "sm_invar H ((k', v') # xs) \<Longrightarrow> sm_before H k k' \<Longrightarrow> map_of ((k', v') # xs) k = None"
  by (auto simp: sm_invar_Cons map_of_eq_None_iff dest: sm_before_trans)

lemma mset_sm_put_old:
  "sm_invar H xs \<Longrightarrow> map_of xs k = Some v0 \<Longrightarrow>
     add_mset (k, v0) (mset (sm_put H k v xs)) = add_mset (k, v) (mset xs)"
proof (induction H k v xs rule: sm_put.induct)
  case (1 H k v)
  then show ?case by simp
next
  case (2 H k v k' v' xs)
  show ?case
  proof (cases "k = k'")
    case True
    with "2.prems" show ?thesis by simp
  next
    case False
    with "2.prems" have nb: "\<not> sm_before H k k'"
      using sm_before_not_mem [of H k' v' xs k] by auto
    from False "2.prems" have "map_of xs k = Some v0" "sm_invar H xs"
      by (simp_all add: sm_invar_Cons)
    with False nb "2.IH" have
      "add_mset (k, v0) (mset (sm_put H k v xs)) = add_mset (k, v) (mset xs)"
      by simp
    with False nb show ?thesis by (simp add: add_mset_commute)
  qed
qed

interpretation sm: storage_map map_of "sm_put H" "\<lambda>xs. xs" "[]" "sm_invar H" for H
proof unfold_locales
  fix m :: "('a \<times> 'b) list" and k v
  show "sm_invar H m \<Longrightarrow> map_of m k = Some v \<longleftrightarrow> (k, v) \<in> set m"
    by (simp add: sm_invar_distinct)
  show "sm_invar H []"
    by (simp add: sm_invar_def)
qed (auto simp: map_of_sm_put sm_invar_distinct sm_invar_put mset_sm_put_new mset_sm_put_old
    map_of_eq_None_iff)

section \<open>Ordered maps\<close>

text \<open>A \<open>BTreeMap\<close> is a list of entries in the order of its keys.\<close>

definition bt_put :: "'k::linorder \<Rightarrow> 'v \<Rightarrow> ('k \<times> 'v) list \<Rightarrow> ('k \<times> 'v) list" where
  "bt_put = sm_put (\<lambda>_. 0)"

definition sm_del :: "'k \<Rightarrow> ('k \<times> 'v) list \<Rightarrow> ('k \<times> 'v) list" where
  "sm_del k m = filter (\<lambda>x. fst x \<noteq> k) m"

text \<open>\<open>BTreeMap::from_iter\<close>: a later entry of a key replaces an earlier one.\<close>

definition bt_collect :: "('k::linorder \<times> 'v) list \<Rightarrow> ('k \<times> 'v) list" where
  "bt_collect kvs = fold (\<lambda>(k, v). bt_put k v) kvs []"

lemma map_of_bt_put [simp]: "map_of (bt_put k v m) = (map_of m)(k \<mapsto> v)"
  by (simp add: bt_put_def map_of_sm_put)

lemma map_of_sm_del [simp]: "map_of (sm_del k m) = (map_of m)(k := None)"
  by (induction m) (auto simp: sm_del_def fun_eq_iff)

abbreviation bt_invar :: "('k::linorder \<times> 'v) list \<Rightarrow> bool" where
  "bt_invar \<equiv> sm_invar (\<lambda>_. 0)"

lemma bt_invar_put [simp]: "bt_invar m \<Longrightarrow> bt_invar (bt_put k v m)"
  by (simp add: bt_put_def sm_invar_put)

lemma sm_invar_del [simp]: "sm_invar H m \<Longrightarrow> sm_invar H (sm_del k m)"
  by (simp add: sm_invar_def sm_del_def sorted_wrt_filter)

lemma sm_invar_keys: "sm_invar H m \<longleftrightarrow> sorted_wrt (sm_before H) (map fst m)"
  by (simp add: sm_invar_def sorted_wrt_map)

end
