(* ===== verification/Ledger.thy ===== *)
theory Ledger
  imports Currency
begin

text \<open>
  The ledgers the pallets move tokens on. The token pallet (\<open>orml_tokens\<close>) and the traits through
  which it is called are not part of the repository, so a ledger is a parameter: a type \<open>'l\<close> of
  ledger states and a record of the operations the code calls. The locales state the behaviour the
  documentation of \<open>MultiCurrency::transfer\<close> and \<open>fungibles::Mutate::transfer\<close> gives: a transfer
  either fails or takes exactly the amount from the sender, who had it, and gives exactly the amount to the
  receiver; a transfer to oneself changes nothing. (The existential deposit is taken to be zero, as in the
  pallet's own mock runtime, so no dust is removed.)

  \<open>std_currency\<close> and \<open>std_assets\<close> are ledgers that keep one balance per currency and account;
  they discharge the locales and serve the witnesses.
\<close>

section \<open>\<open>orml_traits::MultiCurrency\<close>\<close>

record 'l currency_ops =
  mc_free :: "'l \<Rightarrow> currency \<Rightarrow> account \<Rightarrow> nat"
  mc_transfer :: "currency \<Rightarrow> account \<Rightarrow> account \<Rightarrow> nat \<Rightarrow> 'l \<Rightarrow> nat + 'l"

text \<open>The part of an amount \<open>n\<close> of currency \<open>c\<close> on account \<open>a\<close> that one reads at \<open>d\<close> and \<open>x\<close>.\<close>

definition paid :: "currency \<Rightarrow> account \<Rightarrow> nat \<Rightarrow> currency \<Rightarrow> account \<Rightarrow> nat" where
  "paid c a n d x = (if d = c \<and> x = a then n else 0)"

lemma paid_add: "paid c a (m + n) d x = paid c a m d x + paid c a n d x"
  by (simp add: paid_def)

lemma paid_0 [simp]: "paid c a 0 d x = 0"
  by (simp add: paid_def)

lemma sum_paid: "finite A \<Longrightarrow> a \<in> A \<Longrightarrow> (\<Sum>x\<in>A. paid c a n c x) = n"
  by (simp add: paid_def)

locale multi_currency =
  fixes M :: "'l currency_ops"
  assumes transfer_self: "mc_transfer M c a a n l = Inr l' \<Longrightarrow> mc_free M l' = mc_free M l"
    and transfer_enough: "mc_transfer M c a b n l = Inr l' \<Longrightarrow> a \<noteq> b \<Longrightarrow> n \<le> mc_free M l c a"
    and transfer_moves: "mc_transfer M c a b n l = Inr l' \<Longrightarrow> a \<noteq> b \<Longrightarrow>
          mc_free M l' =
            (mc_free M l)(c := (mc_free M l c)(a := mc_free M l c a - n, b := mc_free M l c b + n))"
begin

lemma other_currency: "mc_transfer M c a b n l = Inr l' \<Longrightarrow> d \<noteq> c \<Longrightarrow> mc_free M l' d = mc_free M l d"
  by (cases "a = b") (auto dest: transfer_self transfer_moves)

lemma bystander:
  "mc_transfer M c a b n l = Inr l' \<Longrightarrow> x \<noteq> a \<Longrightarrow> x \<noteq> b \<Longrightarrow> mc_free M l' d x = mc_free M l d x"
  by (cases "a = b") (auto dest: transfer_self transfer_moves)

lemma sender: "mc_transfer M c a b n l = Inr l' \<Longrightarrow> a \<noteq> b \<Longrightarrow> mc_free M l' c a + n = mc_free M l c a"
  using transfer_moves transfer_enough by fastforce

lemma receiver: "mc_transfer M c a b n l = Inr l' \<Longrightarrow> a \<noteq> b \<Longrightarrow> mc_free M l' c b = mc_free M l c b + n"
  by (auto dest: transfer_moves)

text \<open>What a transfer does to every account, whoever the two parties are.\<close>

lemma flow:
  "mc_transfer M c a b n l = Inr l' \<Longrightarrow>
     mc_free M l' d x + paid c a n d x = mc_free M l d x + paid c b n d x"
  using sender [of c a b n l l']
  by (cases "a = b") (auto dest: transfer_self transfer_moves simp: fun_upd_def paid_def)

lemma loses_at_most:
  "mc_transfer M c a b n l = Inr l' \<Longrightarrow>
     mc_free M l d x \<le> mc_free M l' d x + (if d = c \<and> x = a then n else 0)"
  by (cases "a = b") (auto dest: transfer_self transfer_moves simp: fun_upd_def)

lemma gains_at_most:
  "mc_transfer M c a b n l = Inr l' \<Longrightarrow>
     mc_free M l' d x \<le> mc_free M l d x + (if d = c \<and> x = b then n else 0)"
  by (cases "a = b") (auto dest: transfer_self transfer_moves simp: fun_upd_def)

lemma inflow_keeps: "mc_transfer M c a x n l = Inr l' \<Longrightarrow> mc_free M l d x \<le> mc_free M l' d x"
  by (cases "a = x") (auto dest: transfer_self transfer_moves simp: fun_upd_def)

lemma keeps_unless_sender:
  "mc_transfer M c a b n l = Inr l' \<Longrightarrow> d \<noteq> c \<or> x \<noteq> a \<Longrightarrow> mc_free M l d x \<le> mc_free M l' d x"
  using loses_at_most [of c a b n l l' d x] by auto

lemma conserves:
  assumes t: "mc_transfer M c a b n l = Inr l'" and A: "finite A" "a \<in> A" "b \<in> A"
  shows "sum (mc_free M l' d) A = sum (mc_free M l d) A"
proof (cases "a = b \<or> d \<noteq> c")
  case True
  with t show ?thesis by (auto dest: transfer_self other_currency)
next
  case False
  let ?f = "mc_free M l c"
  from False have "mc_free M l' d = (?f(a := ?f a - n))(b := ?f b + n)"
    using transfer_moves [OF t] by auto
  moreover have "sum (?f(a := ?f a - n)) A + ?f a = sum ?f A + (?f a - n)"
    using A(1,2) by (rule sum_fun_upd)
  moreover have "sum ((?f(a := ?f a - n))(b := ?f b + n)) A + (?f(a := ?f a - n)) b =
      sum (?f(a := ?f a - n)) A + (?f b + n)"
    using A(1,3) by (rule sum_fun_upd)
  ultimately show ?thesis
    using False transfer_enough [OF t] by simp
qed

end

text \<open>A ledger on which a funded transfer goes through.\<close>

locale live_currency = multi_currency +
  assumes transfer_succeeds:
    "n \<le> mc_free M l c a \<Longrightarrow> a \<noteq> b \<longrightarrow> mc_free M l c b + n \<le> u128_max \<Longrightarrow>
       \<exists>l'. mc_transfer M c a b n l = Inr l'"
begin

text \<open>Among accounts that together hold no more than fits, a funded transfer always goes through.\<close>

lemma succeeds_within:
  assumes "finite A" "a \<in> A" "b \<in> A" "sum (mc_free M l c) A \<le> u128_max" "n \<le> mc_free M l c a"
  shows "\<exists>l'. mc_transfer M c a b n l = Inr l'"
proof (rule transfer_succeeds [OF assms(5)], intro impI)
  assume "a \<noteq> b"
  then have "sum (mc_free M l c) {a, b} \<le> sum (mc_free M l c) A"
    using assms by (intro sum_mono2) auto
  with \<open>a \<noteq> b\<close> show "mc_free M l c b + n \<le> u128_max"
    using assms(4,5) by simp
qed

end

section \<open>\<open>fungibles::Inspect + fungibles::Mutate\<close>\<close>

datatype preservation = Expendable | Protect | Preserve

record 'l assets_ops =
  as_balance :: "'l \<Rightarrow> currency \<Rightarrow> account \<Rightarrow> nat"
  as_reducible :: "'l \<Rightarrow> currency \<Rightarrow> account \<Rightarrow> nat"
  as_transfer :: "currency \<Rightarrow> account \<Rightarrow> account \<Rightarrow> nat \<Rightarrow> preservation \<Rightarrow> 'l \<Rightarrow> nat + 'l"

definition currency_of_assets :: "'l assets_ops \<Rightarrow> 'l currency_ops" where
  "currency_of_assets A =
     \<lparr>mc_free = as_balance A, mc_transfer = (\<lambda>c a b n. as_transfer A c a b n Expendable)\<rparr>"

locale fungibles =
  fixes A :: "'l assets_ops"
  assumes self: "as_transfer A c a a n p l = Inr l' \<Longrightarrow> as_balance A l' = as_balance A l"
    and enough: "as_transfer A c a b n p l = Inr l' \<Longrightarrow> a \<noteq> b \<Longrightarrow> n \<le> as_balance A l c a"
    and moves: "as_transfer A c a b n p l = Inr l' \<Longrightarrow> a \<noteq> b \<Longrightarrow>
          as_balance A l' = (as_balance A l)
            (c := (as_balance A l c)(a := as_balance A l c a - n, b := as_balance A l c b + n))"
    and reducible_le: "as_reducible A l c a \<le> as_balance A l c a"

context fungibles
begin

lemma flow:
  "as_transfer A c a b n p l = Inr l' \<Longrightarrow>
     as_balance A l' d x + paid c a n d x = as_balance A l d x + paid c b n d x"
  using enough [of c a b n p l l']
  by (cases "a = b") (auto dest: self moves simp: fun_upd_def paid_def)

end

sublocale fungibles \<subseteq> as_currency: multi_currency "currency_of_assets A"
  by unfold_locales (auto simp: currency_of_assets_def dest: self enough moves)

section \<open>A ledger of balances\<close>

type_synonym balances = "currency \<Rightarrow> account \<Rightarrow> nat"

definition std_transfer :: "currency \<Rightarrow> account \<Rightarrow> account \<Rightarrow> nat \<Rightarrow> balances \<Rightarrow> nat + balances" where
  "std_transfer c a b n l =
     (if n = 0 \<or> a = b then Inr l
      else if l c a < n then Inl 0
      else if u128_max < l c b + n then Inl 1
      else Inr (l(c := (l c)(a := l c a - n, b := l c b + n))))"

definition std_currency :: "balances currency_ops" where
  "std_currency = \<lparr>mc_free = (\<lambda>l. l), mc_transfer = std_transfer\<rparr>"

definition std_assets :: "balances assets_ops" where
  "std_assets = \<lparr>as_balance = (\<lambda>l. l), as_reducible = (\<lambda>l. l),
     as_transfer = (\<lambda>c a b n p. std_transfer c a b n)\<rparr>"

interpretation std: live_currency std_currency
proof
  fix c a b n and l :: balances
  show "n \<le> mc_free std_currency l c a \<Longrightarrow>
      a \<noteq> b \<longrightarrow> mc_free std_currency l c b + n \<le> u128_max \<Longrightarrow>
      \<exists>l'. mc_transfer std_currency c a b n l = Inr l'"
    by (auto simp: std_currency_def std_transfer_def)
qed (auto simp: std_currency_def std_transfer_def split: if_splits)

interpretation stda: fungibles std_assets
  by unfold_locales (auto simp: std_assets_def std_transfer_def split: if_splits)

lemma std_multi_currency: "multi_currency std_currency"
  by (rule std.multi_currency_axioms)

lemma std_live_currency: "live_currency std_currency"
  by (rule std.live_currency_axioms)

lemma std_fungibles: "fungibles std_assets"
  by (rule stda.fungibles_axioms)

end
