(* ===== verification/Loans.thy ===== *)
theory Loans
  imports Fixed_Point Storage Ledger
begin

text \<open>
  The no-interest-loans pallet, \<open>pallets/no-interest-loans/src/lib.rs\<close> and \<open>types.rs\<close>: its
  storage as a record, its errors and events as datatypes, its helper functions and its four calls, with
  every guard, transfer and storage write in the order of the source. The currencies, the fixed-point
  arithmetic and the key hash are parameters; the block number and the price provider are read from an
  environment that may differ from call to call. A call that fails leaves no trace (FRAME rolls a
  failed dispatch back), so a call maps a state to an error or a new state.
\<close>

section \<open>Data\<close>

datatype loan_status = Active | Repaid | Liquidated

record loan =
  borrower :: account
  collateral_vtoken :: currency
  collateral_amount :: nat
  loan_currency :: currency
  loan_amount :: nat
  created_at :: nat
  status :: loan_status

datatype loan_error =
    LoanNotFound | NotLoanOwner | LoanNotActive | InsufficientCollateral | PriceNotAvailable
  | LTVTooHigh | ArithmeticOverflow | TooManyLoans | InvalidCollateralCurrency
  | NoRewardsToClaim | LoanNotLiquidatable

text \<open>The arguments of an event are the fields of the source in their order.\<close>

datatype loan_event =
    LoanCreated nat account currency nat currency nat
  | LoanRepaid nat account
  | LoanLiquidated nat account account nat nat
  | CycleRewardsDistributed nat nat nat
  | RewardsClaimed nat nat nat nat

record 'l loan_config =
  loan_currencies :: "'l currency_ops"
  loan_id_max :: nat
  max_ltv :: nat
  liquidation_threshold :: nat
  liquidation_bonus :: nat
  staking_reward_fee :: nat
  treasury_account :: account
  pallet_account :: account
  loan_hash :: "nat \<Rightarrow> nat"

record loan_env =
  block_number :: nat
  price_of :: "currency \<Rightarrow> nat option"

record 'l loan_state =
  loans :: "(nat \<times> loan) list"
  user_loans :: "account \<rightharpoonup> nat list"
  next_loan_id :: nat
  loan_rewards :: "nat \<Rightarrow> nat"
  loan_ledger :: 'l
  loan_events :: "loan_event list"

abbreviation loan_of :: "'l loan_state \<Rightarrow> nat \<Rightarrow> loan option" where
  "loan_of s \<equiv> map_of (loans s)"

definition transfer ::
  "'l loan_config \<Rightarrow> currency \<Rightarrow> account \<Rightarrow> account \<Rightarrow> nat \<Rightarrow> 'l loan_state \<Rightarrow>
     (loan_error, 'l loan_state) result" where
  "transfer C c from_acc to_acc n s =
     (case mc_transfer (loan_currencies C) c from_acc to_acc n (loan_ledger s) of
        Inl e \<Rightarrow> Inl (External e)
      | Inr l \<Rightarrow> Inr (s\<lparr>loan_ledger := l\<rparr>))"

definition deposit_event :: "loan_event \<Rightarrow> 'l loan_state \<Rightarrow> 'l loan_state" where
  "deposit_event e s = s\<lparr>loan_events := loan_events s @ [e]\<rparr>"

definition put_loan :: "'l loan_config \<Rightarrow> nat \<Rightarrow> loan \<Rightarrow> 'l loan_state \<Rightarrow> 'l loan_state" where
  "put_loan C i l s = s\<lparr>loans := sm_put (loan_hash C) i l (loans s)\<rparr>"

definition put_rewards :: "nat \<Rightarrow> nat \<Rightarrow> 'l loan_state \<Rightarrow> 'l loan_state" where
  "put_rewards i r s = s\<lparr>loan_rewards := (loan_rewards s)(i := r)\<rparr>"

section \<open>Helper functions\<close>

fun is_valid_vtoken_collateral :: "currency \<Rightarrow> bool" where
  "is_valid_vtoken_collateral (VToken _) = True"
| "is_valid_vtoken_collateral (VToken2 _) = True"
| "is_valid_vtoken_collateral (VSToken _) = True"
| "is_valid_vtoken_collateral (VSToken2 _) = True"
| "is_valid_vtoken_collateral _ = False"

fun get_underlying_token :: "currency \<Rightarrow> currency option" where
  "get_underlying_token (VToken2 i) = Some (Token2 i)"
| "get_underlying_token (VToken s) = Some (Token s)"
| "get_underlying_token _ = None"

definition get_collateral_value ::
  "fixed_ops \<Rightarrow> loan_env \<Rightarrow> currency \<Rightarrow> nat \<Rightarrow> currency \<Rightarrow> (loan_error, nat) result" where
  "get_collateral_value F E collateral_currency amount loan_cur =
     rbind (ok_or (price_of E collateral_currency) (Module PriceNotAvailable)) (\<lambda>collateral_price.
     rbind (ok_or (price_of E loan_cur) (Module PriceNotAvailable)) (\<lambda>loan_price.
     rbind (ok_or (fx_mul_int F collateral_price amount) (Module ArithmeticOverflow)) (\<lambda>value_usd.
     ok_or (Option.bind (fx_reciprocal F loan_price) (\<lambda>r. fx_mul_int F r value_usd))
       (Module ArithmeticOverflow))))"

definition calculate_ltv ::
  "fixed_ops \<Rightarrow> loan_env \<Rightarrow> nat \<Rightarrow> 'l loan_state \<Rightarrow> (loan_error, nat) result" where
  "calculate_ltv F E loan_id s =
     rbind (ok_or (loan_of s loan_id) (Module LoanNotFound)) (\<lambda>loan.
     rbind (get_collateral_value F E (collateral_vtoken loan) (collateral_amount loan) (loan_currency loan))
       (\<lambda>value. Inr (perm_from_rational F (loan_amount loan) value)))"

definition is_liquidatable ::
  "fixed_ops \<Rightarrow> 'l loan_config \<Rightarrow> loan_env \<Rightarrow> nat \<Rightarrow> 'l loan_state \<Rightarrow> (loan_error, bool) result" where
  "is_liquidatable F C E loan_id s =
     rbind (ok_or (loan_of s loan_id) (Module LoanNotFound)) (\<lambda>loan.
       if status loan \<noteq> Active then Inr False
       else rbind (calculate_ltv F E loan_id s) (\<lambda>current_ltv.
         Inr (liquidation_threshold C \<le> current_ltv)))"

definition claim_loan_rewards ::
  "fixed_ops \<Rightarrow> 'l loan_config \<Rightarrow> nat \<Rightarrow> 'l loan_state \<Rightarrow> (loan_error, 'l loan_state) result" where
  "claim_loan_rewards F C loan_id s =
     rbind (ok_or (loan_of s loan_id) (Module LoanNotFound)) (\<lambda>loan.
     rbind (ensure (status loan = Active) (Module LoanNotActive)) (\<lambda>_.
     let rewards = loan_rewards s loan_id in
     if rewards = 0 then Inr s
     else
       let platform_share = perm_mul_floor F (staking_reward_fee C) rewards;
           loanee_rewards = saturating_sub rewards platform_share in
       rbind (transfer C (collateral_vtoken loan) (pallet_account C) (borrower loan) loanee_rewards s)
         (\<lambda>s1.
       rbind (transfer C (collateral_vtoken loan) (pallet_account C) (treasury_account C)
           platform_share s1) (\<lambda>s2.
       Inr (put_rewards loan_id 0
         (deposit_event (RewardsClaimed loan_id rewards platform_share loanee_rewards) s2))))))"

section \<open>Calls\<close>

definition max_user_loans :: nat where
  "max_user_loans = 100"

text \<open>\<open>UserLoans::try_mutate\<close>: append to the bounded vector, or start one.\<close>

definition push_user_loan :: "nat list option \<Rightarrow> nat \<Rightarrow> (loan_error, nat list) result" where
  "push_user_loan ids loan_id =
     (let v = (case ids of Some v \<Rightarrow> v | None \<Rightarrow> [])
      in rbind (ensure (length v < max_user_loans) (Module TooManyLoans)) (\<lambda>_. Inr (v @ [loan_id])))"

definition create_loan ::
  "'l loan_config \<Rightarrow> loan_env \<Rightarrow> origin \<Rightarrow> currency \<Rightarrow> nat \<Rightarrow> currency \<Rightarrow> nat \<Rightarrow> 'l loan_state \<Rightarrow>
     (loan_error, 'l loan_state) result" where
  "create_loan C E o1 vtoken amount loan_cur loan_amt s =
     rbind (ensure_signed o1) (\<lambda>who.
     let loan_id = next_loan_id s in
     rbind (ensure (is_valid_vtoken_collateral vtoken) (Module InvalidCollateralCurrency)) (\<lambda>_.
     rbind (transfer C vtoken who (pallet_account C) amount s) (\<lambda>s1.
     let loan = \<lparr>borrower = who, collateral_vtoken = vtoken, collateral_amount = amount,
                 loan_currency = loan_cur, loan_amount = loan_amt, created_at = block_number E,
                 status = Active\<rparr>;
         s2 = put_rewards loan_id 0 (put_loan C loan_id loan s1) in
     rbind (push_user_loan (user_loans s2 who) loan_id) (\<lambda>ids.
     let s3 = s2\<lparr>user_loans := (user_loans s2)(who \<mapsto> ids)\<rparr> in
     rbind (ok_or (chk (loan_id_max C) (loan_id + 1)) (Module ArithmeticOverflow)) (\<lambda>next_id.
     rbind (transfer C loan_cur (pallet_account C) who loan_amt (s3\<lparr>next_loan_id := next_id\<rparr>)) (\<lambda>s4.
     Inr (deposit_event (LoanCreated loan_id who vtoken amount loan_cur loan_amt) s4)))))))"

definition repay_loan ::
  "fixed_ops \<Rightarrow> 'l loan_config \<Rightarrow> origin \<Rightarrow> nat \<Rightarrow> 'l loan_state \<Rightarrow> (loan_error, 'l loan_state) result" where
  "repay_loan F C o1 loan_id s =
     rbind (ensure_signed o1) (\<lambda>who.
     rbind (ok_or (loan_of s loan_id) (Module LoanNotFound)) (\<lambda>loan.
     rbind (ensure (borrower loan = who) (Module NotLoanOwner)) (\<lambda>_.
     rbind (ensure (status loan = Active) (Module LoanNotActive)) (\<lambda>_.
     rbind (transfer C (loan_currency loan) who (pallet_account C) (loan_amount loan) s) (\<lambda>s1.
     rbind (claim_loan_rewards F C loan_id s1) (\<lambda>s2.
     rbind (transfer C (collateral_vtoken loan) (pallet_account C) who (collateral_amount loan) s2)
       (\<lambda>s3.
     Inr (deposit_event (LoanRepaid loan_id who)
       (put_loan C loan_id (loan\<lparr>status := Repaid\<rparr>) s3)))))))))"

definition liquidate_loan ::
  "fixed_ops \<Rightarrow> 'l loan_config \<Rightarrow> loan_env \<Rightarrow> origin \<Rightarrow> nat \<Rightarrow> 'l loan_state \<Rightarrow>
     (loan_error, 'l loan_state) result" where
  "liquidate_loan F C E o1 loan_id s =
     rbind (ensure_signed o1) (\<lambda>liquidator.
     rbind (ok_or (loan_of s loan_id) (Module LoanNotFound)) (\<lambda>loan.
     rbind (ensure (status loan = Active) (Module LoanNotActive)) (\<lambda>_.
     rbind (is_liquidatable F C E loan_id s) (\<lambda>b.
     rbind (ensure b (Module LoanNotLiquidatable)) (\<lambda>_.
     rbind (claim_loan_rewards F C loan_id s) (\<lambda>s1.
     rbind (transfer C (loan_currency loan) liquidator (pallet_account C) (loan_amount loan) s1) (\<lambda>s2.
     rbind (transfer C (collateral_vtoken loan) (pallet_account C) liquidator
         (collateral_amount loan) s2) (\<lambda>s3.
     Inr (deposit_event
       (LoanLiquidated loan_id (borrower loan) liquidator (collateral_amount loan) (loan_amount loan))
       (put_loan C loan_id (loan\<lparr>status := Liquidated\<rparr>) s3))))))))))"

text \<open>
  \<open>distribute_cycle_rewards\<close> ignores its origin. Its \<open>sum()\<close> is the plain addition of the release
  build, and \<open>u128::saturating_div\<close> panics on a zero divisor.
\<close>

definition active_loans :: "'l loan_state \<Rightarrow> (nat \<times> loan) list" where
  "active_loans s = filter (\<lambda>(i, l). status l = Active) (loans s)"

definition saturating_div :: "nat \<Rightarrow> nat \<Rightarrow> ('e, nat) result" where
  "saturating_div a b = (if b = 0 then Inl Panic else Inr (a div b))"

definition add_cycle_reward ::
  "nat \<Rightarrow> nat \<Rightarrow> nat \<times> loan \<Rightarrow> 'l loan_state \<Rightarrow> (loan_error, 'l loan_state) result" where
  "add_cycle_reward cycle_rewards total_asset_value p s =
     rbind (saturating_div (saturating_mul cycle_rewards (collateral_amount (snd p)))
         total_asset_value)
       (\<lambda>loanee_rewards.
         Inr (put_rewards (fst p) (saturating_add (loan_rewards s (fst p)) loanee_rewards) s))"

definition distribute_cycle_rewards ::
  "origin \<Rightarrow> nat \<Rightarrow> 'l loan_state \<Rightarrow> (loan_error, 'l loan_state) result" where
  "distribute_cycle_rewards o1 cycle_rewards s =
     (let active = active_loans s in
      if active = [] then Inr s
      else
        let len_u32 = length active mod 2 ^ 32;
            total_asset_value = wrapping_sum
              (map (\<lambda>(i, l). saturating_add (collateral_amount l) (loan_rewards s i)) active) in
        rbind (rfold (add_cycle_reward cycle_rewards total_asset_value) active s) (\<lambda>s1.
        Inr (deposit_event (CycleRewardsDistributed cycle_rewards total_asset_value len_u32) s1)))"

text \<open>The constants with which the Polkadot runtime configures the pallet.\<close>

definition runtime_loan_config ::
  "'l currency_ops \<Rightarrow> account \<Rightarrow> account \<Rightarrow> (nat \<Rightarrow> nat) \<Rightarrow> 'l loan_config" where
  "runtime_loan_config M treasury pallet H =
     \<lparr>loan_currencies = M, loan_id_max = u64_max, max_ltv = perm_percent 50,
      liquidation_threshold = perm_percent 75, liquidation_bonus = perm_percent 5,
      staking_reward_fee = perm_percent 10, treasury_account = treasury, pallet_account = pallet,
      loan_hash = H\<rparr>"

text \<open>
  One step of the chain as the pallet sees it: a call that succeeded, in any environment, or a transfer of
  another pallet or user that does not take from the pallet's account. The amounts a call is given are
  \<open>u128\<close> values.
\<close>

inductive loan_step :: "fixed_ops \<Rightarrow> 'l loan_config \<Rightarrow> 'l loan_state \<Rightarrow> 'l loan_state \<Rightarrow> bool"
  for F C where
  create: "create_loan C E o1 v n c m s = Inr t \<Longrightarrow> n \<le> u128_max \<Longrightarrow> m \<le> u128_max \<Longrightarrow>
    loan_step F C s t"
| repay: "repay_loan F C o1 i s = Inr t \<Longrightarrow> loan_step F C s t"
| liquidate: "liquidate_loan F C E o1 i s = Inr t \<Longrightarrow> loan_step F C s t"
| distribute: "distribute_cycle_rewards o1 n s = Inr t \<Longrightarrow> loan_step F C s t"
| outside: "transfer C c a b n s = Inr t \<Longrightarrow> a \<noteq> pallet_account C \<Longrightarrow> loan_step F C s t"

definition initial_loans :: "'l \<Rightarrow> 'l loan_state" where
  "initial_loans l =
     \<lparr>loans = [], user_loans = Map.empty, next_loan_id = 0, loan_rewards = (\<lambda>_. 0),
      loan_ledger = l, loan_events = []\<rparr>"

inductive loan_reachable :: "fixed_ops \<Rightarrow> 'l loan_config \<Rightarrow> 'l loan_state \<Rightarrow> bool" for F C where
  init: "loan_reachable F C (initial_loans l)"
| step: "loan_reachable F C s \<Longrightarrow> loan_step F C s t \<Longrightarrow> loan_reachable F C t"

inductive_cases loan_stepE: "loan_step F C s t"

end
