(* ===== verification/Loan_Lemmas.thy ===== *)
theory Loan_Lemmas
  imports Loans
begin

text \<open>
  The case analysis of the calls of the loans pallet: what each successful call checked, which transfers
  it made in which order, and what it stored. Every later proof about the pallet goes through these
  rules and never unfolds a call.
\<close>

section \<open>Storage writes\<close>

lemma put_loan_simps [simp]:
  "loans (put_loan C i l s) = sm_put (loan_hash C) i l (loans s)"
  "user_loans (put_loan C i l s) = user_loans s"
  "next_loan_id (put_loan C i l s) = next_loan_id s"
  "loan_rewards (put_loan C i l s) = loan_rewards s"
  "loan_ledger (put_loan C i l s) = loan_ledger s"
  "loan_events (put_loan C i l s) = loan_events s"
  by (simp_all add: put_loan_def)

lemma put_rewards_simps [simp]:
  "loans (put_rewards i r s) = loans s"
  "user_loans (put_rewards i r s) = user_loans s"
  "next_loan_id (put_rewards i r s) = next_loan_id s"
  "loan_rewards (put_rewards i r s) = (loan_rewards s)(i := r)"
  "loan_ledger (put_rewards i r s) = loan_ledger s"
  "loan_events (put_rewards i r s) = loan_events s"
  by (simp_all add: put_rewards_def)

lemma deposit_event_simps [simp]:
  "loans (deposit_event e s) = loans s"
  "user_loans (deposit_event e s) = user_loans s"
  "next_loan_id (deposit_event e s) = next_loan_id s"
  "loan_rewards (deposit_event e s) = loan_rewards s"
  "loan_ledger (deposit_event e s) = loan_ledger s"
  "loan_events (deposit_event e s) = loan_events s @ [e]"
  by (simp_all add: deposit_event_def)

section \<open>Calls\<close>

lemma transfer_Inr [result_simps]:
  "transfer C c a b n s = Inr t \<longleftrightarrow>
     (\<exists>l. mc_transfer (loan_currencies C) c a b n (loan_ledger s) = Inr l \<and> t = s\<lparr>loan_ledger := l\<rparr>)"
  by (auto simp: transfer_def split: sum.splits)

lemma push_user_loan_Inr:
  "push_user_loan ids i = Inr v \<longleftrightarrow>
     (let old = (case ids of Some w \<Rightarrow> w | None \<Rightarrow> []) in length old < max_user_loans \<and> v = old @ [i])"
  by (auto simp: push_user_loan_def Let_def result_simps)

definition new_loan :: "loan_env \<Rightarrow> account \<Rightarrow> currency \<Rightarrow> nat \<Rightarrow> currency \<Rightarrow> nat \<Rightarrow> loan" where
  "new_loan E who v n c m = \<lparr>borrower = who, collateral_vtoken = v, collateral_amount = n,
     loan_currency = c, loan_amount = m, created_at = block_number E, status = Active\<rparr>"

lemma create_loan_cases:
  assumes "create_loan C E o1 v n c m s = Inr t"
  obtains who l1 l2 ids where "o1 = Signed who" and "is_valid_vtoken_collateral v"
    and "mc_transfer (loan_currencies C) v who (pallet_account C) n (loan_ledger s) = Inr l1"
    and "push_user_loan (user_loans s who) (next_loan_id s) = Inr ids"
    and "next_loan_id s + 1 \<le> loan_id_max C"
    and "mc_transfer (loan_currencies C) c (pallet_account C) who m l1 = Inr l2"
    and "loans t = sm_put (loan_hash C) (next_loan_id s) (new_loan E who v n c m) (loans s)"
    and "user_loans t = (user_loans s)(who \<mapsto> ids)"
    and "next_loan_id t = next_loan_id s + 1"
    and "loan_rewards t = (loan_rewards s)(next_loan_id s := 0)"
    and "loan_ledger t = l2"
    and "loan_events t = loan_events s @ [LoanCreated (next_loan_id s) who v n c m]"
  using assms
  by (simp add: create_loan_def result_simps Let_def new_loan_def) force

lemma claim_cases:
  assumes "claim_loan_rewards F C i s = Inr t"
  obtains (none) l where "loan_of s i = Some l" and "status l = Active" and "loan_rewards s i = 0"
      and "t = s"
  | (paid) l l1 l2 where "loan_of s i = Some l" and "status l = Active"
      and "loan_rewards s i \<noteq> 0"
      and "mc_transfer (loan_currencies C) (collateral_vtoken l) (pallet_account C) (borrower l) 
             (loan_rewards s i - perm_mul_floor F (staking_reward_fee C) (loan_rewards s i))
             (loan_ledger s) = Inr l1"
      and "mc_transfer (loan_currencies C) (collateral_vtoken l) (pallet_account C) (treasury_account C)
             (perm_mul_floor F (staking_reward_fee C) (loan_rewards s i)) l1 = Inr l2"
      and "loans t = loans s" and "user_loans t = user_loans s" and "next_loan_id t = next_loan_id s"
      and "loan_rewards t = (loan_rewards s)(i := 0)" and "loan_ledger t = l2"
proof -
  from assms obtain l where l: "loan_of s i = Some l" "status l = Active"
    by (auto simp: claim_loan_rewards_def result_simps)
  show thesis
  proof (cases "loan_rewards s i = 0")
    case True
    with assms l have "t = s" by (simp add: claim_loan_rewards_def)
    with True l show thesis by (intro none)
  next
    case False
    with assms l obtain l1 l2 where
      "mc_transfer (loan_currencies C) (collateral_vtoken l) (pallet_account C) (borrower l)
         (loan_rewards s i - perm_mul_floor F (staking_reward_fee C) (loan_rewards s i))
         (loan_ledger s) = Inr l1"
      "mc_transfer (loan_currencies C) (collateral_vtoken l) (pallet_account C) (treasury_account C)
         (perm_mul_floor F (staking_reward_fee C) (loan_rewards s i)) l1 = Inr l2"
      "loans t = loans s" "user_loans t = user_loans s" "next_loan_id t = next_loan_id s"
      "loan_rewards t = (loan_rewards s)(i := 0)" "loan_ledger t = l2"
      by (auto simp: claim_loan_rewards_def result_simps Let_def saturating_sub_def)
    with False l show thesis by (intro paid)
  qed
qed

lemma claim_frame:
  assumes "claim_loan_rewards F C i s = Inr t"
  shows "loans t = loans s \<and> user_loans t = user_loans s \<and> next_loan_id t = next_loan_id s \<and>
    loan_rewards t = (loan_rewards s)(i := 0)"
  using assms by (cases rule: claim_cases) auto

lemma repay_cases:
  assumes "repay_loan F C o1 i s = Inr t"
  obtains who l l1 s2 l3 where "o1 = Signed who" and "loan_of s i = Some l" and "borrower l = who"
    and "status l = Active"
    and "mc_transfer (loan_currencies C) (loan_currency l) who (pallet_account C) (loan_amount l)
           (loan_ledger s) = Inr l1"
    and "claim_loan_rewards F C i (s\<lparr>loan_ledger := l1\<rparr>) = Inr s2"
    and "mc_transfer (loan_currencies C) (collateral_vtoken l) (pallet_account C) who
           (collateral_amount l) (loan_ledger s2) = Inr l3"
    and "loans t = sm_put (loan_hash C) i (l\<lparr>status := Repaid\<rparr>) (loans s)"
    and "user_loans t = user_loans s" and "next_loan_id t = next_loan_id s"
    and "loan_rewards t = (loan_rewards s)(i := 0)" and "loan_ledger t = l3"
proof -
  from assms obtain who l l1 s2 l3 where *: "o1 = Signed who" "loan_of s i = Some l" "borrower l = who"
    "status l = Active"
    "mc_transfer (loan_currencies C) (loan_currency l) who (pallet_account C) (loan_amount l)
       (loan_ledger s) = Inr l1"
    "claim_loan_rewards F C i (s\<lparr>loan_ledger := l1\<rparr>) = Inr s2"
    "mc_transfer (loan_currencies C) (collateral_vtoken l) (pallet_account C) who
       (collateral_amount l) (loan_ledger s2) = Inr l3"
    "t = deposit_event (LoanRepaid i who)
       (put_loan C i (l\<lparr>status := Repaid\<rparr>) (s2\<lparr>loan_ledger := l3\<rparr>))"
    by (auto simp: repay_loan_def result_simps)
  with claim_frame [OF *(6)] show thesis by (intro that) simp_all
qed

lemma liquidate_cases:
  assumes "liquidate_loan F C E o1 i s = Inr t"
  obtains who l s1 l2 l3 where "o1 = Signed who" and "loan_of s i = Some l"
    and "status l = Active" and "is_liquidatable F C E i s = Inr True"
    and "claim_loan_rewards F C i s = Inr s1"
    and "mc_transfer (loan_currencies C) (loan_currency l) who (pallet_account C) (loan_amount l)
           (loan_ledger s1) = Inr l2"
    and "mc_transfer (loan_currencies C) (collateral_vtoken l) (pallet_account C) who
           (collateral_amount l) l2 = Inr l3"
    and "loans t = sm_put (loan_hash C) i (l\<lparr>status := Liquidated\<rparr>) (loans s)"
    and "user_loans t = user_loans s" and "next_loan_id t = next_loan_id s"
    and "loan_rewards t = (loan_rewards s)(i := 0)" and "loan_ledger t = l3"
proof -
  from assms obtain who l s1 l2 l3 where *: "o1 = Signed who" "loan_of s i = Some l"
    "status l = Active" "is_liquidatable F C E i s = Inr True" "claim_loan_rewards F C i s = Inr s1"
    "mc_transfer (loan_currencies C) (loan_currency l) who (pallet_account C) (loan_amount l)
       (loan_ledger s1) = Inr l2"
    "mc_transfer (loan_currencies C) (collateral_vtoken l) (pallet_account C) who
       (collateral_amount l) l2 = Inr l3"
    "t = deposit_event
       (LoanLiquidated i (borrower l) who (collateral_amount l) (loan_amount l))
       (put_loan C i (l\<lparr>status := Liquidated\<rparr>) (s1\<lparr>loan_ledger := l3\<rparr>))"
    by (auto simp: liquidate_loan_def result_simps)
  with claim_frame [OF *(5)] show thesis by (intro that) simp_all
qed

section \<open>Distribution of a cycle's rewards\<close>

definition cycle_total :: "'l loan_state \<Rightarrow> nat" where
  "cycle_total s =
     sum_list (map (\<lambda>(i, l). saturating_add (collateral_amount l) (loan_rewards s i)) (active_loans s))"

lemma add_cycle_rewards_run:
  assumes "0 < T" and "distinct (map fst xs)" and "rfold (add_cycle_reward n T) xs s = Inr t"
  shows "loans t = loans s \<and> user_loans t = user_loans s \<and> next_loan_id t = next_loan_id s \<and>
     loan_ledger t = loan_ledger s \<and> loan_events t = loan_events s \<and>
     loan_rewards t = (\<lambda>i. case map_of xs i of None \<Rightarrow> loan_rewards s i
        | Some l \<Rightarrow> saturating_add (loan_rewards s i) (saturating_mul n (collateral_amount l) div T))"
  using assms(2,3)
proof (induction xs arbitrary: s)
  case Nil
  then show ?case by simp
next
  case (Cons x xs)
  let ?u = "put_rewards (fst x) (saturating_add (loan_rewards s (fst x))
     (saturating_mul n (collateral_amount (snd x)) div T)) s"
  have "add_cycle_reward n T x s = Inr ?u"
    using assms(1) by (simp add: add_cycle_reward_def saturating_div_def)
  with Cons.prems(2) have "rfold (add_cycle_reward n T) xs ?u = Inr t"
    by simp
  moreover have "map_of xs (fst x) = None"
    using Cons.prems(1) by (simp add: map_of_eq_None_iff)
  ultimately show ?case
    using Cons.IH [of ?u] Cons.prems(1) by (auto simp: fun_eq_iff split: option.splits)
qed

lemma distribute_frame:
  assumes "distribute_cycle_rewards o1 n s = Inr t"
  shows "loans t = loans s \<and> user_loans t = user_loans s \<and> next_loan_id t = next_loan_id s \<and>
     loan_ledger t = loan_ledger s"
proof -
  have "loans u = loans s \<and> user_loans u = user_loans s \<and> next_loan_id u = next_loan_id s \<and>
     loan_ledger u = loan_ledger s"
    if "rfold (add_cycle_reward n tot) xs s = Inr u" for tot xs u
    by (rule rfold_invariant [OF that]) (auto simp: add_cycle_reward_def result_simps)
  with assms show ?thesis
    by (fastforce simp: distribute_cycle_rewards_def Let_def result_simps split: if_splits)
qed

lemma map_of_filter_active:
  "distinct (map fst xs) \<Longrightarrow>
     map_of (filter (\<lambda>(i, l). status l = Active) xs) i =
       (case map_of xs i of Some l \<Rightarrow> if status l = Active then Some l else None | None \<Rightarrow> None)"
  by (induction xs) (auto split: option.splits simp: map_of_eq_None_iff)

lemma distribute_rewards:
  assumes "sm_invar (loan_hash C) (loans s)" and "cycle_total s \<le> u128_max"
    and "distribute_cycle_rewards o1 n s = Inr t" and "active_loans s \<noteq> []"
  shows "0 < cycle_total s \<and> loan_rewards t = (\<lambda>i. case loan_of s i of None \<Rightarrow> loan_rewards s i
     | Some l \<Rightarrow> if status l = Active
         then saturating_add (loan_rewards s i)
                (saturating_mul n (collateral_amount l) div cycle_total s)
         else loan_rewards s i)"
proof -
  have dist: "distinct (map fst (loans s))"
    using assms(1) by (rule sm_invar_distinct)
  have T: "wrapping_sum (map (\<lambda>(i, l). saturating_add (collateral_amount l) (loan_rewards s i))
      (active_loans s)) = cycle_total s"
    using assms(2) unfolding cycle_total_def by (rule wrapping_sum_exact)
  from assms(3,4) obtain u where u: "rfold (add_cycle_reward n (cycle_total s)) (active_loans s) s = Inr u"
    and t: "loan_rewards t = loan_rewards u"
    by (auto simp: distribute_cycle_rewards_def Let_def result_simps T)
  have pos: "0 < cycle_total s"
  proof (rule ccontr)
    assume "\<not> 0 < cycle_total s"
    with u assms(4) show False
      by (cases "active_loans s") (auto simp: add_cycle_reward_def saturating_div_def)
  qed
  have "distinct (map fst (active_loans s))"
    using dist unfolding active_loans_def by (rule distinct_map_filter)
  from add_cycle_rewards_run [OF pos this u] show ?thesis
    using pos by (auto simp: t active_loans_def map_of_filter_active [OF dist] fun_eq_iff
        split: option.splits)
qed

end
