(* ===== verification/Loan_Invariants.thy ===== *)
theory Loan_Invariants
  imports Loan_Lemmas
begin

text \<open>
  The state of the loans pallet over time: the index of the loans by borrower, the terms of a loan, and
  what the pallet owes on its collateral. Each is stated for one step, with one lemma per operation, and
  carried to the reachable states by rule induction.
\<close>

section \<open>Well-formed states\<close>

definition loans_of :: "'l loan_state \<Rightarrow> account \<Rightarrow> nat list" where
  "loans_of s who = (case user_loans s who of None \<Rightarrow> [] | Some v \<Rightarrow> v)"

definition loan_wf :: "'l loan_config \<Rightarrow> 'l loan_state \<Rightarrow> bool" where
  "loan_wf C s \<longleftrightarrow>
     sm_invar (loan_hash C) (loans s) \<and>
     (\<forall>i l. loan_of s i = Some l \<longrightarrow>
        i < next_loan_id s \<and> is_valid_vtoken_collateral (collateral_vtoken l) \<and>
        collateral_amount l \<le> u128_max \<and> loan_amount l \<le> u128_max) \<and>
     (\<forall>i. loan_rewards s i \<le> u128_max) \<and>
     (\<forall>who. length (loans_of s who) \<le> max_user_loans \<and> distinct (loans_of s who) \<and>
        set (loans_of s who) = {i. \<exists>l. loan_of s i = Some l \<and> borrower l = who})"

lemma loan_wf_initial: "loan_wf C (initial_loans l)"
  by (simp add: loan_wf_def initial_loans_def loans_of_def sm_invar_def)

lemma loan_wf_cong:
  "loans t = loans s \<Longrightarrow> user_loans t = user_loans s \<Longrightarrow> next_loan_id t = next_loan_id s \<Longrightarrow>
     \<forall>i. loan_rewards t i \<le> u128_max \<Longrightarrow> loan_wf C s \<Longrightarrow> loan_wf C t"
  by (simp add: loan_wf_def loans_of_def)

lemma loan_wf_create:
  assumes "create_loan C E o1 v n c m s = Inr t" and "loan_wf C s"
    and "n \<le> u128_max" and "m \<le> u128_max"
  shows "loan_wf C t"
  using assms(1)
proof (cases rule: create_loan_cases)
  case (1 who l1 l2 ids)
  let ?i = "next_loan_id s"
  have fresh: "loan_of s ?i = None"
    using assms(2) by (cases "loan_of s ?i") (auto simp: loan_wf_def)
  have push: "length (loans_of s who) < max_user_loans" "ids = loans_of s who @ [?i]"
    using 1(4) by (simp_all add: push_user_loan_Inr loans_of_def Let_def)
  have not_in: "?i \<notin> set (loans_of s w)" for w
    using assms(2) fresh by (auto simp: loan_wf_def)
  have users: "loans_of t w = (if w = who then loans_of s who @ [?i] else loans_of s w)" for w
    by (simp add: loans_of_def 1 push(2))
  have lookup: "loan_of t = (loan_of s)(?i \<mapsto> new_loan E who v n c m)"
    by (simp add: 1 map_of_sm_put)
  have "sm_invar (loan_hash C) (loans t)"
    using assms(2) by (simp add: 1 sm_invar_put loan_wf_def)
  moreover have "i < next_loan_id t \<and> is_valid_vtoken_collateral (collateral_vtoken l) \<and>
      collateral_amount l \<le> u128_max \<and> loan_amount l \<le> u128_max"
    if "loan_of t i = Some l" for i l
    using that assms(2,3,4) 1(2,9) by (auto simp: lookup loan_wf_def new_loan_def less_Suc_eq split: if_splits)
  moreover have "length (loans_of t w) \<le> max_user_loans \<and> distinct (loans_of t w) \<and>
        set (loans_of t w) = {i. \<exists>l. loan_of t i = Some l \<and> borrower l = w}" for w
    using assms(2) push(1) not_in fresh
    by (auto simp: users lookup loan_wf_def new_loan_def)
  moreover have "loan_rewards t i \<le> u128_max" for i
    using assms(2) by (simp add: 1 loan_wf_def)
  ultimately show ?thesis by (simp add: loan_wf_def)
qed

lemma loan_wf_close:
  assumes "loan_wf C s" and "loan_of s i = Some l"
    and "loans t = sm_put (loan_hash C) i (l\<lparr>status := x\<rparr>) (loans s)"
    and "user_loans t = user_loans s" and "next_loan_id t = next_loan_id s"
    and "loan_rewards t = (loan_rewards s)(i := 0)"
  shows "loan_wf C t"
proof -
  have lookup: "loan_of t = (loan_of s)(i \<mapsto> l\<lparr>status := x\<rparr>)"
    by (simp add: assms(3) map_of_sm_put)
  have "sm_invar (loan_hash C) (loans t)"
    using assms(1) by (simp add: assms(3) sm_invar_put loan_wf_def)
  moreover have "j < next_loan_id t \<and> is_valid_vtoken_collateral (collateral_vtoken k) \<and>
      collateral_amount k \<le> u128_max \<and> loan_amount k \<le> u128_max"
    if "loan_of t j = Some k" for j k
    using that assms(1,2) by (auto simp: lookup assms(5) loan_wf_def split: if_splits)
  moreover have "{j. \<exists>k. loan_of t j = Some k \<and> borrower k = w} =
      {j. \<exists>k. loan_of s j = Some k \<and> borrower k = w}" for w
    using assms(2) by (auto simp: lookup)
  ultimately show ?thesis
    using assms(1) by (simp add: loan_wf_def loans_of_def assms(4,6))
qed

lemma distribute_rewards_bounded:
  assumes "distribute_cycle_rewards o1 n s = Inr t" and "\<forall>i. loan_rewards s i \<le> u128_max"
  shows "\<forall>i. loan_rewards t i \<le> u128_max"
proof -
  have "\<forall>i. loan_rewards u i \<le> u128_max" if "rfold (add_cycle_reward n tot) xs s = Inr u" for tot xs u
    by (rule rfold_invariant [OF that])
      (use assms(2) in \<open>auto simp: add_cycle_reward_def result_simps saturating_add_le\<close>)
  with assms show ?thesis
    by (fastforce simp: distribute_cycle_rewards_def Let_def result_simps split: if_splits)
qed

lemma loan_wf_step: "loan_step F C s t \<Longrightarrow> loan_wf C s \<Longrightarrow> loan_wf C t"
proof (induction rule: loan_step.induct)
  case (create E o1 v n c m s t)
  then show ?case using loan_wf_create by blast
next
  case (repay o1 i s t)
  from repay(1) show ?case
    by (cases rule: repay_cases) (rule loan_wf_close [OF repay(2)])
next
  case (liquidate E o1 i s t)
  from liquidate(1) show ?case
    by (cases rule: liquidate_cases) (rule loan_wf_close [OF liquidate(2)])
next
  case (distribute o1 n s t)
  with distribute_frame distribute_rewards_bounded show ?case
    by (metis loan_wf_cong loan_wf_def)
next
  case (outside c a b n s t)
  then show ?case by (intro loan_wf_cong [of t s]) (auto simp: result_simps loan_wf_def)
qed

lemma loan_wf_reachable: "loan_reachable F C s \<Longrightarrow> loan_wf C s"
  by (induction rule: loan_reachable.induct) (auto intro: loan_wf_initial loan_wf_step)

section \<open>The terms of a loan never change\<close>

definition same_terms :: "loan \<Rightarrow> loan \<Rightarrow> bool" where
  "same_terms l l' \<longleftrightarrow> l' = l\<lparr>status := status l'\<rparr> \<and> (status l \<noteq> Active \<longrightarrow> status l' = status l)"

lemma same_terms_refl [simp]: "same_terms l l"
  by (simp add: same_terms_def)

lemma same_terms_close: "status l = Active \<Longrightarrow> same_terms l (l\<lparr>status := x\<rparr>)"
  by (simp add: same_terms_def)

lemma same_terms_trans: "same_terms l l' \<Longrightarrow> same_terms l' l'' \<Longrightarrow> same_terms l l''"
  unfolding same_terms_def by (metis loan.update_convs(7) loan.surjective loan.select_convs(7))

lemma step_keeps_terms:
  assumes "loan_step F C s t" and "loan_wf C s" and "loan_of s i = Some l"
  shows "\<exists>l'. loan_of t i = Some l' \<and> same_terms l l'"
  using assms
proof (induction rule: loan_step.induct)
  case (create E o1 v n c m s t)
  then have "i \<noteq> next_loan_id s" by (auto simp: loan_wf_def)
  with create(1,5) show ?case by (cases rule: create_loan_cases) (auto simp: map_of_sm_put)
next
  case (repay o1 j s t)
  from repay(1,3) show ?case
    by (cases rule: repay_cases) (auto simp: map_of_sm_put same_terms_close)
next
  case (liquidate E o1 j s t)
  from liquidate(1,3) show ?case
    by (cases rule: liquidate_cases) (auto simp: map_of_sm_put same_terms_close)
next
  case (distribute o1 n s t)
  then show ?case using distribute_frame by fastforce
next
  case (outside c a b n s t)
  then show ?case by (auto simp: result_simps)
qed

lemma run_keeps_terms:
  assumes "(loan_step F C)\<^sup>*\<^sup>* s t" and "loan_wf C s" and "loan_of s i = Some l"
  shows "loan_wf C t \<and> (\<exists>l'. loan_of t i = Some l' \<and> same_terms l l')"
  using assms(1)
proof (induction rule: rtranclp_induct)
  case base
  then show ?case using assms(2,3) by simp
next
  case (step t u)
  then show ?case
    using loan_wf_step step_keeps_terms same_terms_trans by meson
qed

section \<open>Obligations and their cover\<close>

definition obligation :: "currency \<Rightarrow> (nat \<Rightarrow> nat) \<Rightarrow> nat \<times> loan \<Rightarrow> nat" where
  "obligation c R p =
     (if status (snd p) = Active \<and> collateral_vtoken (snd p) = c
      then collateral_amount (snd p) + R (fst p) else 0)"

definition liabilities :: "currency \<Rightarrow> 'l loan_state \<Rightarrow> nat" where
  "liabilities c s = sum_list (map (obligation c (loan_rewards s)) (loans s))"

abbreviation free_of :: "'l loan_config \<Rightarrow> 'l loan_state \<Rightarrow> currency \<Rightarrow> account \<Rightarrow> nat" where
  "free_of C s \<equiv> mc_free (loan_currencies C) (loan_ledger s)"

definition covered :: "'l loan_config \<Rightarrow> 'l loan_state \<Rightarrow> bool" where
  "covered C s \<longleftrightarrow>
     (\<forall>c. is_valid_vtoken_collateral c \<longrightarrow> liabilities c s \<le> free_of C s c (pallet_account C))"

lemma liabilities_ge:
  assumes "loan_wf C s" and "loan_of s i = Some l" and "status l = Active"
  shows "collateral_amount l + loan_rewards s i \<le> liabilities (collateral_vtoken l) s"
  using sm.total_ge [of "loan_hash C" "loans s" i l "obligation (collateral_vtoken l) (loan_rewards s)"]
    assms by (simp add: loan_wf_def liabilities_def sm.total_def obligation_def)

lemma liabilities_close:
  assumes "loan_wf C s" and "loan_of s i = Some l" and "status l = Active" and "x \<noteq> Active"
    and "loans t = sm_put (loan_hash C) i (l\<lparr>status := x\<rparr>) (loans s)"
    and "loan_rewards t = (loan_rewards s)(i := 0)"
  shows "liabilities c t + (if c = collateral_vtoken l then collateral_amount l + loan_rewards s i else 0)
    = liabilities c s"
proof -
  have "sm.total (obligation c (loan_rewards t)) (loans t) + obligation c (loan_rewards s) (i, l) =
      sm.total (obligation c (loan_rewards s)) (loans s) +
      obligation c (loan_rewards t) (i, l\<lparr>status := x\<rparr>)"
    unfolding assms(5)
    by (rule sm.total_put_change) (use assms in \<open>auto simp: loan_wf_def obligation_def\<close>)
  then show ?thesis
    using assms(3,4) by (auto simp: liabilities_def sm.total_def obligation_def)
qed

lemma liabilities_create:
  assumes "loan_wf C s" and "loans t = sm_put (loan_hash C) (next_loan_id s) l (loans s)"
    and "loan_rewards t = (loan_rewards s)(next_loan_id s := 0)" and "status l = Active"
  shows "liabilities c t = liabilities c s + (if c = collateral_vtoken l then collateral_amount l else 0)"
proof -
  have fresh: "loan_of s (next_loan_id s) = None"
    using assms(1) by (cases "loan_of s (next_loan_id s)") (auto simp: loan_wf_def)
  have "sm.total (obligation c (loan_rewards t)) (loans t) =
      obligation c (loan_rewards t) (next_loan_id s, l) +
      sm.total (obligation c (loan_rewards t)) (loans s)"
    unfolding assms(2) by (rule sm.total_put_new [OF fresh])
  moreover have "sm.total (obligation c (loan_rewards t)) (loans s) =
      sm.total (obligation c (loan_rewards s)) (loans s)"
    by (rule sm.total_cong_keys) (use fresh in \<open>auto simp: obligation_def assms(3)\<close>)
  ultimately show ?thesis
    using assms(3,4) by (auto simp: liabilities_def sm.total_def obligation_def)
qed

lemma liabilities_cong:
  "loans t = loans s \<Longrightarrow> loan_rewards t = loan_rewards s \<Longrightarrow> liabilities c t = liabilities c s"
  by (simp add: liabilities_def)

section \<open>What a distribution adds\<close>

text \<open>Shares of \<open>n\<close> proportional to weights that sum to at most \<open>T\<close>, each rounded down.\<close>

lemma floor_shares_le:
  fixes w :: "'a \<Rightarrow> nat"
  assumes "0 < T" and "sum_list (map w xs) \<le> T"
  shows "sum_list (map (\<lambda>x. n * w x div T) xs) \<le> n"
proof -
  have "sum_list (map (\<lambda>x. n * w x div T) xs) \<le> n * sum_list (map w xs) div T"
  proof (induction xs)
    case (Cons x xs)
    have "n * w x div T + n * sum_list (map w xs) div T \<le> (n * w x + n * sum_list (map w xs)) div T"
      by (simp add: div_add1_eq [of "n * w x"])
    with Cons show ?case by (simp add: distrib_left)
  qed simp
  also have "\<dots> \<le> n * T div T"
    using assms(2) by (intro div_le_mono) simp
  finally show ?thesis using assms(1) by simp
qed


definition active_collateral :: "nat \<times> loan \<Rightarrow> nat" where
  "active_collateral p = (if status (snd p) = Active then collateral_amount (snd p) else 0)"

lemma loan_wf_entry:
  assumes "loan_wf C s" and "p \<in> set (loans s)"
  shows "loan_of s (fst p) = Some (snd p)"
  using assms sm_invar_distinct [of "loan_hash C" "loans s"] by (simp add: loan_wf_def)

lemma loan_wf_amounts:
  assumes "loan_wf C s" and "loan_of s i = Some l"
  shows "i < next_loan_id s" and "is_valid_vtoken_collateral (collateral_vtoken l)"
    and "collateral_amount l \<le> u128_max" and "loan_amount l \<le> u128_max"
  using assms by (auto simp: loan_wf_def)

lemma active_collateral_le:
  assumes "loan_wf C s"
  shows "sum_list (map active_collateral (loans s)) \<le> cycle_total s"
proof -
  have "cycle_total s = sum_list (map (\<lambda>(i, l). if status l = Active
      then saturating_add (collateral_amount l) (loan_rewards s i) else 0) (loans s))"
    by (simp add: cycle_total_def active_loans_def sum_list_map_filter' split_def)
  moreover have "sum_list (map active_collateral (loans s)) \<le> \<dots>"
  proof (rule sum_list_mono)
    fix p assume "p \<in> set (loans s)"
    then have "collateral_amount (snd p) \<le> u128_max"
      using loan_wf_amounts(3) [OF assms] loan_wf_entry [OF assms] by blast
    then show "active_collateral p \<le> (case p of (i, l) \<Rightarrow> if status l = Active
        then saturating_add (collateral_amount l) (loan_rewards s i) else 0)"
      by (simp add: active_collateral_def split_def saturating_add_ge)
  qed
  ultimately show ?thesis by simp
qed

text \<open>The whole of a distribution: every reward grows by a share of \<open>n\<close>, and the shares sum to at most
  \<open>n\<close>.\<close>

lemma distribute_shares:
  assumes wf: "loan_wf C s" and small: "cycle_total s \<le> u128_max"
    and d: "distribute_cycle_rewards o1 n s = Inr t"
  shows "\<exists>share. sum_list (map share (loans s)) \<le> n \<and>
    (\<forall>p \<in> set (loans s). loan_rewards s (fst p) \<le> loan_rewards t (fst p) \<and>
       loan_rewards t (fst p) \<le> loan_rewards s (fst p) + share p) \<and>
    (\<forall>p. status (snd p) \<noteq> Active \<longrightarrow> share p = 0)"
proof (cases "active_loans s = []")
  case True
  with d have "t = s" by (simp add: distribute_cycle_rewards_def)
  then show ?thesis by (intro exI [of _ "\<lambda>_. 0"]) simp
next
  case False
  let ?T = "cycle_total s"
  let ?share = "\<lambda>p. n * active_collateral p div ?T"
  note R = distribute_rewards [OF _ small d False, of C]
  have inv: "sm_invar (loan_hash C) (loans s)" and bounded: "loan_rewards s i \<le> u128_max" for i
    using wf by (simp_all add: loan_wf_def)
  have "sum_list (map ?share (loans s)) \<le> n"
    using R [OF inv] active_collateral_le [OF wf] by (intro floor_shares_le) simp_all
  moreover have "loan_rewards s (fst p) \<le> loan_rewards t (fst p) \<and>
      loan_rewards t (fst p) \<le> loan_rewards s (fst p) + ?share p" if "p \<in> set (loans s)" for p
  proof -
    have "loan_of s (fst p) = Some (snd p)"
      using wf that by (rule loan_wf_entry)
    moreover have "saturating_mul n (collateral_amount (snd p)) div ?T
        \<le> n * collateral_amount (snd p) div ?T"
      by (rule div_le_mono) (rule saturating_mul_le)
    ultimately show ?thesis
      using R [OF inv] bounded [of "fst p"] saturating_add_ge
        saturating_add_le(1) [of "loan_rewards s (fst p)"
          "saturating_mul n (collateral_amount (snd p)) div ?T"]
      by (auto simp: active_collateral_def)
  qed
  ultimately show ?thesis
    by (intro exI [of _ ?share]) (simp add: active_collateral_def)
qed

lemma liabilities_distribute:
  assumes "loan_wf C s" and "cycle_total s \<le> u128_max"
    and "distribute_cycle_rewards o1 n s = Inr t"
  shows "liabilities c s \<le> liabilities c t \<and> liabilities c t \<le> liabilities c s + n"
proof -
  obtain share where share: "sum_list (map share (loans s)) \<le> n"
    "\<forall>p \<in> set (loans s). loan_rewards s (fst p) \<le> loan_rewards t (fst p) \<and>
       loan_rewards t (fst p) \<le> loan_rewards s (fst p) + share p"
    using distribute_shares [OF assms] by blast
  have loans: "loans t = loans s" using distribute_frame [OF assms(3)] by simp
  have "liabilities c t \<le> sum_list (map (\<lambda>p. obligation c (loan_rewards s) p + share p) (loans s))"
    unfolding liabilities_def loans
    by (rule sum_list_mono) (use share(2) in \<open>auto simp: obligation_def\<close>)
  also have "\<dots> = liabilities c s + sum_list (map share (loans s))"
    by (simp add: liabilities_def sum_list_addf)
  finally have "liabilities c t \<le> liabilities c s + n" using share(1) by simp
  moreover have "liabilities c s \<le> liabilities c t"
    unfolding liabilities_def loans
    by (rule sum_list_mono) (use share(2) in \<open>auto simp: obligation_def\<close>)
  ultimately show ?thesis by simp
qed

end
