(* ===== verification/Loan_Solvency.thy ===== *)
theory Loan_Solvency
  imports Loan_Invariants
begin

text \<open>
  Whether the pallet can pay what it owes. The locale \<open>loan_pallet\<close> collects what the calls rely
  on (the arithmetic, the ledger, a platform fee of at most one); inside it each call's effect on the
  pallet's own balance is proved once, and \<open>covered\<close> follows for every run whose steps are
  prudent. \<open>live_loan_pallet\<close> adds that funded transfers go through; there a repayment succeeds.
\<close>

section \<open>The interface\<close>

locale loan_pallet = fixed_point F + multi_currency "loan_currencies C"
  for F :: fixed_ops and C :: "'l loan_config" +
  assumes fee_le: "staking_reward_fee C \<le> perm_one"
begin

lemma fee_of_le: "perm_mul_floor F (staking_reward_fee C) n \<le> n"
  using fee_le by (rule mul_floor_le)

lemma fee_of_eq: "perm_mul_floor F (staking_reward_fee C) n = staking_reward_fee C * n div perm_one"
  using fee_le by (rule mul_floor)

text \<open>A claim moves the rewards of the loan, less the platform's share, to its borrower.\<close>

lemma claim_flow:
  assumes "claim_loan_rewards F C i s = Inr t" and "loan_of s i = Some l"
  shows "free_of C t d x + paid (collateral_vtoken l) (pallet_account C) (loan_rewards s i) d x =
    free_of C s d x +
      paid (collateral_vtoken l) (borrower l)
        (loan_rewards s i - staking_reward_fee C * loan_rewards s i div perm_one) d x +
      paid (collateral_vtoken l) (treasury_account C)
        (staking_reward_fee C * loan_rewards s i div perm_one) d x"
  using assms(1)
proof (cases rule: claim_cases)
  case none
  then show ?thesis by simp
next
  case (paid l' l1 l2)
  then have "l' = l" using assms(2) by simp
  moreover have "loan_rewards s i = (loan_rewards s i - perm_mul_floor F (staking_reward_fee C)
      (loan_rewards s i)) + perm_mul_floor F (staking_reward_fee C) (loan_rewards s i)"
    using fee_of_le by simp
  ultimately show ?thesis
    using flow [OF paid(4), of d x] flow [OF paid(5), of d x] paid(10)
      paid_add [of "collateral_vtoken l" "pallet_account C"
        "loan_rewards s i - perm_mul_floor F (staking_reward_fee C) (loan_rewards s i)"
        "perm_mul_floor F (staking_reward_fee C) (loan_rewards s i)" d x]
    by (simp add: fee_of_eq)
qed

text \<open>The pallet's account loses at most the rewards in a claim.\<close>

lemma claim_pallet:
  assumes "claim_loan_rewards F C i s = Inr t" and "loan_of s i = Some l"
  shows "free_of C s d (pallet_account C) \<le>
     free_of C t d (pallet_account C) + (if d = collateral_vtoken l then loan_rewards s i else 0)"
  using assms(1)
proof (cases rule: claim_cases)
  case none
  then show ?thesis by simp
next
  case (paid l' l1 l2)
  then have "l' = l" using assms(2) by simp
  then show ?thesis
    using loses_at_most [OF paid(4), of d "pallet_account C"]
      loses_at_most [OF paid(5), of d "pallet_account C"] fee_of_le [of "loan_rewards s i"] paid(10)
    by (auto split: if_splits)
qed

text \<open>What a successful closing of a loan pays out is what the books strike off.\<close>

lemma covered_close:
  assumes "covered C s" and "loan_wf C s" and "loan_of s i = Some l" and "status l = Active"
    and "x \<noteq> Active" and "loans t = sm_put (loan_hash C) i (l\<lparr>status := x\<rparr>) (loans s)"
    and "loan_rewards t = (loan_rewards s)(i := 0)"
    and "\<And>d. free_of C s d (pallet_account C) \<le> free_of C t d (pallet_account C) +
           (if d = collateral_vtoken l then collateral_amount l + loan_rewards s i else 0)"
  shows "covered C t"
  unfolding covered_def
proof (intro allI impI)
  fix c assume "is_valid_vtoken_collateral c"
  with assms(1) have "liabilities c s \<le> free_of C s c (pallet_account C)"
    by (simp add: covered_def)
  with liabilities_close [OF assms(2-7), of c] assms(8) [of c]
  show "liabilities c t \<le> free_of C t c (pallet_account C)"
    by (auto split: if_splits)
qed

lemma covered_repay:
  assumes "repay_loan F C o1 i s = Inr t" and "loan_wf C s" and "covered C s"
  shows "covered C t"
  using assms(1)
proof (cases rule: repay_cases)
  case (1 who l l1 s2 l3)
  let ?p = "pallet_account C"
  have "free_of C s d ?p \<le> free_of C t d ?p +
      (if d = collateral_vtoken l then collateral_amount l + loan_rewards s i else 0)" for d
    using inflow_keeps [OF 1(5), of d] claim_pallet [OF 1(6), of l d] loses_at_most [OF 1(7), of d ?p]
    by (auto simp: 1(2,12) split: if_splits)
  with 1 assms(2,3) show ?thesis by (intro covered_close [of s i l Repaid t]) auto
qed

lemma covered_liquidate:
  assumes "liquidate_loan F C E o1 i s = Inr t" and "loan_wf C s" and "covered C s"
  shows "covered C t"
  using assms(1)
proof (cases rule: liquidate_cases)
  case (1 who l s1 l2 l3)
  let ?p = "pallet_account C"
  have "free_of C s d ?p \<le> free_of C t d ?p +
      (if d = collateral_vtoken l then collateral_amount l + loan_rewards s i else 0)" for d
    using claim_pallet [OF 1(5), of l d] inflow_keeps [OF 1(6), of d] loses_at_most [OF 1(7), of d ?p]
    by (auto simp: 1(2,12) split: if_splits)
  with 1 assms(2,3) show ?thesis by (intro covered_close [of s i l Liquidated t]) auto
qed

lemma covered_create:
  assumes "create_loan C E (Signed who) v n c m s = Inr t" and "loan_wf C s" and "covered C s"
    and "who \<noteq> pallet_account C" and "\<not> is_valid_vtoken_collateral c"
  shows "covered C t"
  using assms(1)
proof (cases rule: create_loan_cases)
  case (1 w l1 l2 ids)
  let ?p = "pallet_account C" and ?l = "new_loan E w v n c m"
  have "liabilities d t = liabilities d s + (if d = v then n else 0)" for d
    using liabilities_create [OF assms(2) 1(7,10), of d] by (simp add: new_loan_def)
  moreover have "free_of C s d ?p + (if d = v then n else 0) \<le> free_of C t d ?p"
    if "is_valid_vtoken_collateral d" for d
  proof -
    have "d \<noteq> c" using assms(5) that by auto
    then have "mc_free (loan_currencies C) l2 d = mc_free (loan_currencies C) l1 d"
      using 1(6) other_currency by blast
    moreover have "d \<noteq> v \<Longrightarrow> mc_free (loan_currencies C) l1 d = free_of C s d"
      using 1(3) other_currency by blast
    moreover have "mc_free (loan_currencies C) l1 v ?p = free_of C s v ?p + n"
      using 1(1,3) assms(4) by (intro receiver [of v who ?p n "loan_ledger s" l1]) auto
    ultimately show ?thesis by (auto simp: 1(11))
  qed
  ultimately show ?thesis
    using assms(3) unfolding covered_def by (metis add_le_mono1 le_trans)
qed

end

section \<open>Prudent runs\<close>

text \<open>
  A reward cycle is funded when the pallet holds the whole cycle, in every collateral currency, on top of
  what it already owes, before it is distributed. Nothing in the pallet asks for that.
\<close>

definition funded_cycle :: "'l loan_config \<Rightarrow> nat \<Rightarrow> 'l loan_state \<Rightarrow> bool" where
  "funded_cycle C n s \<longleftrightarrow> cycle_total s \<le> u128_max \<and>
     (\<forall>c. is_valid_vtoken_collateral c \<longrightarrow>
        liabilities c s + n \<le> free_of C s c (pallet_account C))"

inductive prudent_step :: "fixed_ops \<Rightarrow> 'l loan_config \<Rightarrow> 'l loan_state \<Rightarrow> 'l loan_state \<Rightarrow> bool"
  for F C where
  create: "create_loan C E (Signed who) v n c m s = Inr t \<Longrightarrow> n \<le> u128_max \<Longrightarrow> m \<le> u128_max \<Longrightarrow>
    who \<noteq> pallet_account C \<Longrightarrow> \<not> is_valid_vtoken_collateral c \<Longrightarrow> prudent_step F C s t"
| repay: "repay_loan F C o1 i s = Inr t \<Longrightarrow> prudent_step F C s t"
| liquidate: "liquidate_loan F C E o1 i s = Inr t \<Longrightarrow> prudent_step F C s t"
| distribute: "distribute_cycle_rewards o1 n s = Inr t \<Longrightarrow> funded_cycle C n s \<Longrightarrow> prudent_step F C s t"
| outside: "transfer C c a b n s = Inr t \<Longrightarrow> a \<noteq> pallet_account C \<Longrightarrow> prudent_step F C s t"

lemma prudent_is_step: "prudent_step F C s t \<Longrightarrow> loan_step F C s t"
  by (induction rule: prudent_step.induct) (blast intro: loan_step.intros)+

lemma covered_initial: "covered C (initial_loans l)"
  by (simp add: covered_def liabilities_def initial_loans_def)

context loan_pallet
begin

lemma covered_distribute:
  assumes "distribute_cycle_rewards o1 n s = Inr t" and "loan_wf C s" and "funded_cycle C n s"
  shows "covered C t"
proof -
  have "liabilities c t \<le> liabilities c s + n" for c
    using liabilities_distribute [OF assms(2) _ assms(1)] assms(3) by (simp add: funded_cycle_def)
  moreover have "loan_ledger t = loan_ledger s"
    using distribute_frame [OF assms(1)] by simp
  ultimately show ?thesis
    using assms(3) unfolding covered_def funded_cycle_def by (metis le_trans)
qed

lemma covered_outside:
  assumes "transfer C c a b n s = Inr t" and "a \<noteq> pallet_account C" and "covered C s"
  shows "covered C t"
proof -
  from assms(1) obtain l where
    l: "mc_transfer (loan_currencies C) c a b n (loan_ledger s) = Inr l" "t = s\<lparr>loan_ledger := l\<rparr>"
    by (auto simp: result_simps)
  have "liabilities d t = liabilities d s" for d
    by (rule liabilities_cong) (simp_all add: l)
  moreover have "free_of C s d (pallet_account C) \<le> free_of C t d (pallet_account C)" for d
    using keeps_unless_sender [OF l(1), of d "pallet_account C"] assms(2) l(2) by simp
  ultimately show ?thesis
    using assms(3) unfolding covered_def by (metis le_trans)
qed

lemma covered_step: "prudent_step F C s t \<Longrightarrow> loan_wf C s \<Longrightarrow> covered C s \<Longrightarrow> covered C t"
  by (induction rule: prudent_step.induct)
    (blast intro: covered_create covered_repay covered_liquidate covered_distribute covered_outside)+

lemma prudent_run:
  "(prudent_step F C)\<^sup>*\<^sup>* (initial_loans l) s \<Longrightarrow> loan_wf C s \<and> covered C s"
  by (induction rule: rtranclp_induct)
    (auto intro: loan_wf_initial covered_initial covered_step
      dest: prudent_is_step intro: loan_wf_step)

end


section \<open>A repayment goes through\<close>

locale live_loan_pallet = loan_pallet F C + live_currency "loan_currencies C"
  for F :: fixed_ops and C :: "'l loan_config"
begin

lemma claim_goes_through:
  assumes "loan_of s i = Some l" and "status l = Active"
    and "finite A" and "{borrower l, pallet_account C, treasury_account C} \<subseteq> A"
    and "sum (free_of C s (collateral_vtoken l)) A \<le> u128_max"
    and "loan_rewards s i \<le> free_of C s (collateral_vtoken l) (pallet_account C)"
  shows "\<exists>t. claim_loan_rewards F C i s = Inr t \<and>
     sum (free_of C t (collateral_vtoken l)) A = sum (free_of C s (collateral_vtoken l)) A"
proof (cases "loan_rewards s i = 0")
  case True
  with assms(1,2) show ?thesis by (simp add: claim_loan_rewards_def)
next
  case False
  let ?c = "collateral_vtoken l" and ?p = "pallet_account C"
  let ?fee = "perm_mul_floor F (staking_reward_fee C) (loan_rewards s i)"
  let ?net = "loan_rewards s i - ?fee"
  have fee: "?fee \<le> loan_rewards s i" by (rule fee_of_le)
  have A: "borrower l \<in> A" "?p \<in> A" "treasury_account C \<in> A"
    using assms(4) by auto
  obtain l1 where t1: "mc_transfer (loan_currencies C) ?c ?p (borrower l) ?net (loan_ledger s) = Inr l1"
    using succeeds_within [OF assms(3) A(2,1) assms(5) le_trans [OF diff_le_self assms(6)]] by blast
  have sum1: "sum (mc_free (loan_currencies C) l1 ?c) A = sum (free_of C s ?c) A"
    by (rule conserves [OF t1 assms(3) A(2,1)])
  have "?fee \<le> mc_free (loan_currencies C) l1 ?c ?p"
    using loses_at_most [OF t1, of ?c ?p] assms(6) fee by simp
  then obtain l2 where
    t2: "mc_transfer (loan_currencies C) ?c ?p (treasury_account C) ?fee l1 = Inr l2"
    using succeeds_within [OF assms(3) A(2,3), of l1 ?c ?fee] sum1 assms(5) by auto
  have "sum (mc_free (loan_currencies C) l2 ?c) A = sum (free_of C s ?c) A"
    using conserves [OF t2 assms(3) A(2,3)] sum1 by simp
  with False assms(1,2) t1 t2 show ?thesis
    by (simp add: claim_loan_rewards_def transfer_def Let_def saturating_sub_def)
qed

lemma repay_goes_through:
  assumes "loan_wf C s" and "covered C s"
    and "loan_of s i = Some l" and "status l = Active"
    and "finite A" and "{borrower l, pallet_account C, treasury_account C} \<subseteq> A"
    and small: "\<And>c. sum (free_of C s c) A \<le> u128_max"
    and "loan_amount l \<le> free_of C s (loan_currency l) (borrower l)"
  shows "\<exists>t. repay_loan F C (Signed (borrower l)) i s = Inr t"
proof -
  let ?c = "collateral_vtoken l" and ?p = "pallet_account C" and ?who = "borrower l"
  have A: "?who \<in> A" "?p \<in> A" using assms(6) by auto
  have owed: "collateral_amount l + loan_rewards s i \<le> free_of C s ?c ?p"
    using liabilities_ge [OF assms(1,3,4)] assms(1,2,3)
    by (auto simp: covered_def loan_wf_def intro: le_trans)
  obtain l1 where
    t1: "mc_transfer (loan_currencies C) (loan_currency l) ?who ?p (loan_amount l) (loan_ledger s) = Inr l1"
    using succeeds_within [OF assms(5) A(1,2) small assms(8)] by auto
  let ?s1 = "s\<lparr>loan_ledger := l1\<rparr>"
  have sum1: "sum (free_of C ?s1 ?c) A = sum (free_of C s ?c) A"
    using conserves [OF t1 assms(5) A(1,2)] by simp
  have owed1: "collateral_amount l + loan_rewards s i \<le> free_of C ?s1 ?c ?p"
    using owed inflow_keeps [OF t1, of ?c] by simp
  obtain s2 where t2: "claim_loan_rewards F C i ?s1 = Inr s2"
    and sum2: "sum (free_of C s2 ?c) A = sum (free_of C ?s1 ?c) A"
    using claim_goes_through [of ?s1 i l A] assms(3-6) sum1 small [of ?c] owed1 by auto
  have "collateral_amount l \<le> free_of C s2 ?c ?p"
    using claim_pallet [OF t2, of l ?c] assms(3) owed1 by simp
  moreover have "sum (free_of C s2 ?c) A \<le> u128_max"
    using sum1 sum2 small [of ?c] by simp
  ultimately obtain l3 where
    "mc_transfer (loan_currencies C) ?c ?p ?who (collateral_amount l) (loan_ledger s2) = Inr l3"
    using succeeds_within [OF assms(5) A(2,1)] by blast
  with assms(3,4) t1 t2 show ?thesis
    by (simp add: repay_loan_def transfer_def)
qed

end

section \<open>The runtime's configuration\<close>

lemma runtime_fee_le: "staking_reward_fee (runtime_loan_config M treasury pallet H) \<le> perm_one"
  by (simp add: runtime_loan_config_def perm_percent_def)

interpretation std_loans: live_loan_pallet std_fixed "runtime_loan_config std_currency treasury pallet H"
  for treasury pallet H
proof (intro live_loan_pallet.intro loan_pallet.intro loan_pallet_axioms.intro)
  show "fixed_point std_fixed" by (rule std_fixed_point)
  show "multi_currency (loan_currencies (runtime_loan_config std_currency treasury pallet H))"
    by (simp add: runtime_loan_config_def std_multi_currency)
  show "live_currency (loan_currencies (runtime_loan_config std_currency treasury pallet H))"
    by (simp add: runtime_loan_config_def std_live_currency)
qed (rule runtime_fee_le)

lemma std_live_loan_pallet:
  "live_loan_pallet std_fixed (runtime_loan_config std_currency treasury pallet H)"
  by (rule std_loans.live_loan_pallet_axioms)

lemma std_loan_pallet: "loan_pallet std_fixed (runtime_loan_config std_currency treasury pallet H)"
  by (rule std_loans.loan_pallet_axioms)

end
