(* ===== verification/Loan_Props.thy ===== *)
theory Loan_Props
  imports Loan_Solvency
begin

text \<open>
  The properties of the loans pallet, each a few steps over the case rules, the invariants and the
  solvency locale, with a run of the runtime's configuration on which it is applied.
\<close>

section \<open>A run of the pallet\<close>

text \<open>
  Accounts 11 and 13 hold 1000 units of a voucher, account 12 and the pallet 5000 units of a stable coin;
  the voucher costs 1 and the coin 2.
\<close>

definition demo_loans :: "balances loan_config" where
  "demo_loans = runtime_loan_config std_currency 200 100 (\<lambda>i. i)"

definition demo_ledger :: balances where
  "demo_ledger = (\<lambda>c a. if c = VToken2 0 then if a = 11 then 1000 else if a = 13 then 1000 else 0
     else if c = Token2 2 then if a = 12 then 5000 else if a = 100 then 5000 else 0 else 0)"

definition demo_env :: loan_env where
  "demo_env = \<lparr>block_number = 7, price_of =
     (\<lambda>c. if c = VToken2 0 then Some fx_one else if c = Token2 2 then Some (2 * fx_one) else None)\<rparr>"

definition demo0 :: "balances loan_state" where
  "demo0 = initial_loans demo_ledger"

definition demo1 :: "balances loan_state" where
  "demo1 = projr (create_loan demo_loans demo_env (Signed 11) (VToken2 0) 1000 (Token2 2) 400 demo0)"

definition demo2 :: "balances loan_state" where
  "demo2 = projr (create_loan demo_loans demo_env (Signed 13) (VToken2 0) 1000 (Token2 2) 100 demo1)"

lemmas demo_defs = demo_loans_def runtime_loan_config_def std_currency_def std_transfer_def
  transfer_def push_user_loan_def max_user_loans_def ensure_def Let_def u128_max_def u64_max_def
  chk_def

lemma demo_pallet: "loan_pallet std_fixed demo_loans" "live_loan_pallet std_fixed demo_loans"
  unfolding demo_loans_def by (rule std_loan_pallet std_live_loan_pallet)+

lemmas demo1_unfold = demo1_def create_loan_def demo_defs demo0_def demo_ledger_def initial_loans_def
  new_loan_def demo_env_def

lemma demo1_create:
  "create_loan demo_loans demo_env (Signed 11) (VToken2 0) 1000 (Token2 2) 400 demo0 = Inr demo1"
  by (simp add: demo1_unfold)

lemma demo1_simps [simp]:
  "loans demo1 = [(0, new_loan demo_env 11 (VToken2 0) 1000 (Token2 2) 400)]"
  "user_loans demo1 = [11 \<mapsto> [0]]" "next_loan_id demo1 = 1" "loan_rewards demo1 = (\<lambda>_. 0)"
  "loan_ledger demo1 (VToken2 0) = (\<lambda>_. 0)(13 := 1000, 100 := 1000)"
  "loan_ledger demo1 (Token2 2) = (\<lambda>_. 0)(12 := 5000, 100 := 4600, 11 := 400)"
  by (simp_all add: demo1_unfold fun_eq_iff)

lemmas demo2_unfold = demo2_def create_loan_def demo_defs new_loan_def demo_env_def sm_before_def

lemma demo2_create:
  "create_loan demo_loans demo_env (Signed 13) (VToken2 0) 1000 (Token2 2) 100 demo1 = Inr demo2"
  by (simp add: demo2_unfold)

lemma demo2_simps [simp]:
  "loans demo2 = [(0, new_loan demo_env 11 (VToken2 0) 1000 (Token2 2) 400),
     (1, new_loan demo_env 13 (VToken2 0) 1000 (Token2 2) 100)]"
  "user_loans demo2 = [11 \<mapsto> [0], 13 \<mapsto> [1]]" "next_loan_id demo2 = 2" "loan_rewards demo2 = (\<lambda>_. 0)"
  "loan_ledger demo2 (VToken2 0) = (\<lambda>_. 0)(100 := 2000)"
  "loan_ledger demo2 (Token2 2) = (\<lambda>_. 0)(12 := 5000, 100 := 4500, 11 := 400, 13 := 100)"
  by (simp_all add: demo2_unfold fun_eq_iff)


section \<open>Invariants of every run\<close>

text \<open>
  In every reachable state, whatever calls succeeded at whatever prices, a stored loan has an id below the
  next one and a voucher token as collateral, and the list of loans of an account is exactly the set of
  the loans it borrowed, without repetition and within the bound of 100.
\<close>

theorem loan_index:
  assumes "loan_reachable F C s"
  shows "(\<forall>i l. loan_of s i = Some l \<longrightarrow>
            i < next_loan_id s \<and> is_valid_vtoken_collateral (collateral_vtoken l) \<and>
            i \<in> set (loans_of s (borrower l))) \<and>
     (\<forall>who. \<forall>i \<in> set (loans_of s who). \<exists>l. loan_of s i = Some l \<and> borrower l = who) \<and>
     (\<forall>who. distinct (loans_of s who) \<and> length (loans_of s who) \<le> max_user_loans)"
  using loan_wf_reachable [OF assms] by (simp add: loan_wf_def)

lemma demo1_reachable: "loan_reachable std_fixed demo_loans demo1"
  using loan_reachable.step [OF loan_reachable.init loan_step.create [OF demo1_create [unfolded demo0_def]]]
  by (simp add: u128_max_def)

lemma demo2_reachable: "loan_reachable std_fixed demo_loans demo2"
  using loan_reachable.step [OF demo1_reachable loan_step.create [OF demo2_create]]
  by (simp add: u128_max_def)

theorem loan_index_witness:
  "loan_of demo2 1 = Some (new_loan demo_env 13 (VToken2 0) 1000 (Token2 2) 100) \<and>
   1 \<in> set (loans_of demo2 13) \<and> distinct (loans_of demo2 13)"
  using loan_index [OF demo2_reachable] by (simp add: new_loan_def loans_of_def)

text \<open>
  There is no interest: from any reachable state on, whatever the prices do and however many reward
  cycles pass, the stored terms of a loan (borrower, collateral, debt, currencies, creation block) are
  never altered; only its status can change, and once it is no longer active it never changes again.
\<close>

theorem terms_never_change:
  assumes "loan_reachable F C s" and "(loan_step F C)\<^sup>*\<^sup>* s t" and "loan_of s i = Some l"
  shows "\<exists>x. loan_of t i = Some (l\<lparr>status := x\<rparr>) \<and> (status l \<noteq> Active \<longrightarrow> x = status l)"
  using run_keeps_terms [OF assms(2) loan_wf_reachable [OF assms(1)] assms(3)]
  by (metis same_terms_def)

theorem terms_never_change_witness:
  "\<exists>x. loan_of demo2 0 = Some (new_loan demo_env 11 (VToken2 0) 1000 (Token2 2) 400\<lparr>status := x\<rparr>)"
proof -
  have "(loan_step std_fixed demo_loans)\<^sup>*\<^sup>* demo1 demo2"
    using loan_step.create [OF demo2_create] by (simp add: u128_max_def r_into_rtranclp)
  from terms_never_change [OF demo1_reachable this, of 0] show ?thesis
    by auto
qed

section \<open>The calls\<close>

text \<open>
  A successful \<open>create_loan\<close> stores an active loan with the arguments under the next id, appends the id to
  the caller's list, starts its rewards at zero, and moves exactly the collateral from the caller to the
  pallet and exactly the loan from the pallet to the caller; no other balance changes.
\<close>

theorem create_loan_effect:
  assumes "loan_pallet F C" and "create_loan C E (Signed who) v n c m s = Inr t"
  shows "is_valid_vtoken_collateral v \<and>
     loan_of t = (loan_of s)(next_loan_id s \<mapsto> \<lparr>borrower = who, collateral_vtoken = v,
        collateral_amount = n, loan_currency = c, loan_amount = m, created_at = block_number E,
        status = Active\<rparr>) \<and>
     next_loan_id t = next_loan_id s + 1 \<and>
     loans_of t = (loans_of s)(who := loans_of s who @ [next_loan_id s]) \<and>
     length (loans_of s who) < max_user_loans \<and>
     loan_rewards t = (loan_rewards s)(next_loan_id s := 0) \<and>
     (\<forall>d x. free_of C t d x + paid v who n d x + paid c (pallet_account C) m d x =
            free_of C s d x + paid v (pallet_account C) n d x + paid c who m d x)"
  using assms(2)
proof (cases rule: create_loan_cases)
  case (1 w l1 l2 ids)
  note M = loan_pallet.axioms(2) [OF assms(1)]
  have w: "w = who" using 1(1) by simp
  have "free_of C t d x + paid v who n d x + paid c (pallet_account C) m d x =
      free_of C s d x + paid v (pallet_account C) n d x + paid c who m d x" for d x
    using multi_currency.flow [OF M 1(3), of d x] multi_currency.flow [OF M 1(6), of d x]
    by (simp add: 1(11) w)
  moreover have "length (loans_of s who) < max_user_loans"
    and "loans_of t = (loans_of s)(who := loans_of s who @ [next_loan_id s])"
    using 1(4) by (auto simp: push_user_loan_Inr loans_of_def Let_def 1(8) w fun_eq_iff)
  ultimately show ?thesis
    using 1 w by (simp add: map_of_sm_put new_loan_def)
qed

theorem create_loan_effect_witness:
  "free_of demo_loans demo2 (VToken2 0) 13 + 1000 = free_of demo_loans demo1 (VToken2 0) 13 \<and>
   free_of demo_loans demo2 (Token2 2) 13 = free_of demo_loans demo1 (Token2 2) 13 + 100"
proof -
  note effect = create_loan_effect [OF demo_pallet(1) demo2_create]
  have flow: "free_of demo_loans demo2 d x + paid (VToken2 0) 13 1000 d x +
        paid (Token2 2) (pallet_account demo_loans) 100 d x =
      free_of demo_loans demo1 d x + paid (VToken2 0) (pallet_account demo_loans) 1000 d x +
        paid (Token2 2) 13 100 d x" for d x
    using effect by simp
  show ?thesis
    using flow [of "VToken2 0" 13] flow [of "Token2 2" 13]
    by (simp add: paid_def demo_loans_def runtime_loan_config_def)
qed

text \<open>
  \<open>create_loan\<close> reads neither a price nor the loan-to-value limit: with any prices and any
  \<open>MaxLTV\<close>, liquidation threshold, bonus and fee it behaves the same.
\<close>

theorem create_ignores_prices:
  "create_loan (C\<lparr>max_ltv := x, liquidation_threshold := y, liquidation_bonus := z,
      staking_reward_fee := f\<rparr>) (E\<lparr>price_of := p\<rparr>) o1 v n c m s =
   create_loan C E o1 v n c m s"
  by (simp add: create_loan_def transfer_def put_loan_def)


text \<open>
  A successful \<open>repay_loan\<close> was signed by the borrower of an active loan, and settles it exactly: the
  borrower pays the debt and nothing more, gets back all of the collateral and the rewards less the
  platform's share (\<open>StakingRewardFee\<close> of them, rounded down), which goes to the treasury; the rewards are
  reset, only this loan's status changes, and no other balance moves.
\<close>

theorem repay_exact:
  assumes "loan_pallet F C" and "repay_loan F C o1 i s = Inr t"
  shows "\<exists>l r fee. loan_of s i = Some l \<and> o1 = Signed (borrower l) \<and> status l = Active \<and>
     r = loan_rewards s i \<and> fee = staking_reward_fee C * r div perm_one \<and> fee \<le> r \<and>
     loan_of t = (loan_of s)(i \<mapsto> l\<lparr>status := Repaid\<rparr>) \<and>
     loan_rewards t = (loan_rewards s)(i := 0) \<and>
     (\<forall>d x. free_of C t d x + paid (loan_currency l) (borrower l) (loan_amount l) d x +
              paid (collateral_vtoken l) (pallet_account C) (collateral_amount l + r) d x =
            free_of C s d x + paid (loan_currency l) (pallet_account C) (loan_amount l) d x +
              paid (collateral_vtoken l) (borrower l) (collateral_amount l + (r - fee)) d x +
              paid (collateral_vtoken l) (treasury_account C) fee d x)"
  using assms(2)
proof (cases rule: repay_cases)
  case (1 who l l1 s2 l3)
  note M = loan_pallet.axioms(2) [OF assms(1)]
  let ?r = "loan_rewards s i"
  have "free_of C t d x + paid (loan_currency l) (borrower l) (loan_amount l) d x +
          paid (collateral_vtoken l) (pallet_account C) (collateral_amount l + ?r) d x =
        free_of C s d x + paid (loan_currency l) (pallet_account C) (loan_amount l) d x +
          paid (collateral_vtoken l) (borrower l)
            (collateral_amount l + (?r - staking_reward_fee C * ?r div perm_one)) d x +
          paid (collateral_vtoken l) (treasury_account C) (staking_reward_fee C * ?r div perm_one) d x"
    for d x
    using multi_currency.flow [OF M 1(5), of d x] multi_currency.flow [OF M 1(7), of d x]
      loan_pallet.claim_flow [OF assms(1) 1(6), of l d x]
    by (simp add: 1(2,3,12) paid_add)
  moreover have "staking_reward_fee C * ?r div perm_one \<le> ?r"
    using loan_pallet.fee_of_le [OF assms(1)] loan_pallet.fee_of_eq [OF assms(1)] by metis
  ultimately show ?thesis
    using 1 by (simp add: map_of_sm_put)
qed


text \<open>A cycle of 1000 is distributed over the two loans, and the first borrower repays.\<close>

definition demo3 :: "balances loan_state" where
  "demo3 = projr (distribute_cycle_rewards (Signed 77) 1000 demo2)"

lemma demo2_active: "active_loans demo2 =
    [(0, new_loan demo_env 11 (VToken2 0) 1000 (Token2 2) 400),
     (1, new_loan demo_env 13 (VToken2 0) 1000 (Token2 2) 100)]"
  by (simp add: active_loans_def new_loan_def)

lemmas demo3_unfold = demo3_def distribute_cycle_rewards_def demo2_active new_loan_def
  add_cycle_reward_def saturating_div_def saturating_mul_def saturating_add_def wrapping_sum_def
  wrapping_add_def u128_max_def

lemma demo3_distribute: "distribute_cycle_rewards (Signed 77) 1000 demo2 = Inr demo3"
  by (simp add: demo3_unfold)

lemma demo3_simps [simp]:
  "loans demo3 = loans demo2" "user_loans demo3 = user_loans demo2" "next_loan_id demo3 = 2"
  "loan_rewards demo3 = (\<lambda>_. 0)(0 := 500, 1 := 500)" "loan_ledger demo3 = loan_ledger demo2"
  by (simp_all add: demo3_unfold)

definition demo4 :: "balances loan_state" where
  "demo4 = projr (repay_loan std_fixed demo_loans (Signed 11) 0 demo3)"

lemmas demo4_unfold = demo4_def repay_loan_def claim_loan_rewards_def saturating_sub_def demo_defs
  new_loan_def std_fixed_def perm_percent_def perm_one_def

lemma demo4_repay: "repay_loan std_fixed demo_loans (Signed 11) 0 demo3 = Inr demo4"
  by (simp add: demo4_unfold)

lemma demo4_simps [simp]:
  "loans demo4 = [(0, new_loan demo_env 11 (VToken2 0) 1000 (Token2 2) 400\<lparr>status := Repaid\<rparr>),
     (1, new_loan demo_env 13 (VToken2 0) 1000 (Token2 2) 100)]"
  "loan_rewards demo4 = (\<lambda>_. 0)(1 := 500)"
  "loan_ledger demo4 (VToken2 0) = (\<lambda>_. 0)(100 := 500, 11 := 1450, 200 := 50)"
  "loan_ledger demo4 (Token2 2) = (\<lambda>_. 0)(12 := 5000, 100 := 4900, 13 := 100)"
  by (simp_all add: demo4_unfold fun_eq_iff)

theorem repay_exact_witness:
  "free_of demo_loans demo4 (VToken2 0) 11 = 1450 \<and> free_of demo_loans demo4 (Token2 2) 11 = 0 \<and>
   loan_rewards demo4 0 = 0"
proof -
  have cfg: "pallet_account demo_loans = 100" "treasury_account demo_loans = 200"
    "staking_reward_fee demo_loans = 100000" "mc_free (loan_currencies demo_loans) = (\<lambda>l. l)"
    by (simp_all add: demo_loans_def runtime_loan_config_def perm_percent_def perm_one_def std_currency_def)
  let ?l = "new_loan demo_env 11 (VToken2 0) 1000 (Token2 2) 400"
  have "loan_of demo3 0 = Some ?l" by simp
  then have rewards: "loan_rewards demo4 = (loan_rewards demo3)(0 := 0)"
    and flow: "free_of demo_loans demo4 d x + paid (Token2 2) 11 400 d x + paid (VToken2 0) 100 1500 d x =
      free_of demo_loans demo3 d x + paid (Token2 2) 100 400 d x + paid (VToken2 0) 11 1450 d x +
        paid (VToken2 0) 200 50 d x" for d x
    using repay_exact [OF demo_pallet(1) demo4_repay] by (auto simp: cfg new_loan_def perm_one_def)
  show ?thesis
    using flow [of "VToken2 0" 11] flow [of "Token2 2" 11] rewards by (simp add: paid_def cfg)
qed

text \<open>
  C39. A successful \<open>liquidate_loan\<close> hit an active loan whose debt, as a share of the current value of its
  collateral in the loan's currency, had reached the liquidation threshold. The liquidator pays exactly
  the debt and takes all of the collateral (no bonus is added or kept); the borrower still receives the
  accrued rewards less the platform's share.
\<close>

theorem liquidate_only_when_due:
  assumes "loan_pallet F C" and "liquidate_loan F C E (Signed who) i s = Inr t"
  shows "\<exists>l worth r fee. loan_of s i = Some l \<and> status l = Active \<and>
     get_collateral_value F E (collateral_vtoken l) (collateral_amount l) (loan_currency l) = Inr worth \<and>
     liquidation_threshold C \<le> perm_from_rational F (loan_amount l) worth \<and>
     r = loan_rewards s i \<and> fee = staking_reward_fee C * r div perm_one \<and>
     loan_of t = (loan_of s)(i \<mapsto> l\<lparr>status := Liquidated\<rparr>) \<and>
     loan_rewards t = (loan_rewards s)(i := 0) \<and>
     (\<forall>d x. free_of C t d x + paid (loan_currency l) who (loan_amount l) d x +
              paid (collateral_vtoken l) (pallet_account C) (collateral_amount l + r) d x =
            free_of C s d x + paid (loan_currency l) (pallet_account C) (loan_amount l) d x +
              paid (collateral_vtoken l) who (collateral_amount l) d x +
              paid (collateral_vtoken l) (borrower l) (r - fee) d x +
              paid (collateral_vtoken l) (treasury_account C) fee d x)"
  using assms(2)
proof (cases rule: liquidate_cases)
  case (1 w l s1 l2 l3)
  note M = loan_pallet.axioms(2) [OF assms(1)]
  from 1(2,3,4) obtain worth where worth:
    "get_collateral_value F E (collateral_vtoken l) (collateral_amount l) (loan_currency l) = Inr worth"
    "liquidation_threshold C \<le> perm_from_rational F (loan_amount l) worth"
    by (auto simp: is_liquidatable_def calculate_ltv_def result_simps)
  let ?r = "loan_rewards s i"
  have "free_of C t d x + paid (loan_currency l) who (loan_amount l) d x +
          paid (collateral_vtoken l) (pallet_account C) (collateral_amount l + ?r) d x =
        free_of C s d x + paid (loan_currency l) (pallet_account C) (loan_amount l) d x +
          paid (collateral_vtoken l) who (collateral_amount l) d x +
          paid (collateral_vtoken l) (borrower l) (?r - staking_reward_fee C * ?r div perm_one) d x +
          paid (collateral_vtoken l) (treasury_account C) (staking_reward_fee C * ?r div perm_one) d x"
    for d x
    using multi_currency.flow [OF M 1(6), of d x] multi_currency.flow [OF M 1(7), of d x]
      loan_pallet.claim_flow [OF assms(1) 1(5,2), of d x] 1(1)
    by (simp add: 1(12) paid_add)
  with worth show ?thesis
    using 1 by (simp add: map_of_sm_put)
qed

text \<open>The stable coin rises to 5, so the second loan is worth half of its collateral and the first twice.\<close>

definition demo_env5 :: loan_env where
  "demo_env5 = demo_env\<lparr>price_of :=
     (\<lambda>c. if c = VToken2 0 then Some fx_one else if c = Token2 2 then Some (5 * fx_one) else None)\<rparr>"

lemma demo_liquidate:
  "\<exists>t. liquidate_loan std_fixed demo_loans demo_env5 (Signed 12) 0 demo2 = Inr t"
  by (simp add: liquidate_loan_def is_liquidatable_def calculate_ltv_def get_collateral_value_def
      claim_loan_rewards_def demo_defs demo_env5_def new_loan_def std_fixed_def std_div_def std_perm_def
      fx_one_def perm_percent_def perm_one_def)

theorem liquidate_only_when_due_witness:
  "\<exists>t. liquidate_loan std_fixed demo_loans demo_env5 (Signed 12) 0 demo2 = Inr t \<and>
     loan_of t 0 = Some (new_loan demo_env 11 (VToken2 0) 1000 (Token2 2) 400\<lparr>status := Liquidated\<rparr>)"
proof -
  obtain t where t: "liquidate_loan std_fixed demo_loans demo_env5 (Signed 12) 0 demo2 = Inr t"
    using demo_liquidate by blast
  from liquidate_only_when_due [OF demo_pallet(1) t] show ?thesis
    using t by auto
qed


section \<open>Solvency and liveness\<close>

text \<open>
  C31. As long as borrowers do not borrow voucher tokens, the pallet's own account does not borrow, and every
  distributed cycle was first deposited, the pallet's account holds, in every voucher currency, at least the
  collateral and the accrued rewards of all active loans in that currency, after any sequence of
  calls and outside transfers at any prices.
\<close>

theorem prudent_runs_are_covered:
  assumes "loan_pallet F C" and "(prudent_step F C)\<^sup>*\<^sup>* (initial_loans l) s"
    and "is_valid_vtoken_collateral c"
  shows "sum_list (map (\<lambda>(i, l). if status l = Active \<and> collateral_vtoken l = c
            then collateral_amount l + loan_rewards s i else 0) (loans s))
         \<le> free_of C s c (pallet_account C)"
proof -
  have "covered C s" using loan_pallet.prudent_run [OF assms(1,2)] by simp
  with assms(3) have "liabilities c s \<le> free_of C s c (pallet_account C)"
    by (simp add: covered_def)
  then show ?thesis
    by (simp add: liabilities_def obligation_def [abs_def] split_def)
qed

lemma demo2_prudent: "(prudent_step std_fixed demo_loans)\<^sup>*\<^sup>* (initial_loans demo_ledger) demo2"
proof -
  have p: "pallet_account demo_loans = 100" by (simp add: demo_loans_def runtime_loan_config_def)
  have "prudent_step std_fixed demo_loans demo0 demo1"
    by (rule prudent_step.create [OF demo1_create]) (simp_all add: p u128_max_def)
  moreover have "prudent_step std_fixed demo_loans demo1 demo2"
    by (rule prudent_step.create [OF demo2_create]) (simp_all add: p u128_max_def)
  ultimately show ?thesis unfolding demo0_def by (meson rtranclp.simps)
qed

lemma demo_free: "free_of demo_loans s = loan_ledger s"
  by (simp add: demo_loans_def runtime_loan_config_def std_currency_def)

theorem prudent_runs_are_covered_witness: "(2000 :: nat) \<le> free_of demo_loans demo2 (VToken2 0) 100"
  using prudent_runs_are_covered [OF demo_pallet(1) demo2_prudent, of "VToken2 0"]
  by (simp add: new_loan_def demo_free demo_loans_def runtime_loan_config_def)

text \<open>
  C38. After every such run, an active loan can be repaid: if its borrower holds the debt (and the three accounts
  involved hold no more than a \<open>u128\<close> of any currency), the borrower's \<open>repay_loan\<close> succeeds, so the collateral is
  never locked.
\<close>

theorem active_loan_can_be_repaid:
  assumes "live_loan_pallet F C" and "(prudent_step F C)\<^sup>*\<^sup>* (initial_loans l0) s"
    and "loan_of s i = Some l" and "status l = Active"
    and "loan_amount l \<le> free_of C s (loan_currency l) (borrower l)"
    and "\<And>c. sum (free_of C s c) {borrower l, pallet_account C, treasury_account C} \<le> u128_max"
  shows "\<exists>t. repay_loan F C (Signed (borrower l)) i s = Inr t \<and>
     loan_of t i = Some (l\<lparr>status := Repaid\<rparr>)"
proof -
  have pallet: "loan_pallet F C" using assms(1) by (rule live_loan_pallet.axioms(1))
  have "loan_wf C s" "covered C s"
    using loan_pallet.prudent_run [OF pallet assms(2)] by simp_all
  from live_loan_pallet.repay_goes_through [OF assms(1) this assms(3,4) _ order_refl assms(6,5)]
  obtain t where t: "repay_loan F C (Signed (borrower l)) i s = Inr t"
    by auto
  then have "loan_of t i = Some (l\<lparr>status := Repaid\<rparr>)"
    by (cases rule: repay_cases) (use assms(3) in \<open>simp add: map_of_sm_put\<close>)
  with t show ?thesis by blast
qed

theorem active_loan_can_be_repaid_witness:
  "\<exists>t. repay_loan std_fixed demo_loans (Signed 11) 0 demo2 = Inr t"
proof -
  let ?l = "new_loan demo_env 11 (VToken2 0) 1000 (Token2 2) 400"
  have other: "loan_ledger demo2 c = (\<lambda>_. 0)" if "c \<noteq> VToken2 0" "c \<noteq> Token2 2" for c
    using that by (simp add: demo2_unfold demo1_unfold fun_eq_iff)
  have l: "loan_of demo2 0 = Some ?l" "status ?l = Active" "borrower ?l = 11"
    by (simp_all add: new_loan_def)
  have "sum (free_of demo_loans demo2 c)
      {borrower ?l, pallet_account demo_loans, treasury_account demo_loans} \<le> u128_max" for c
    by (cases "c = VToken2 0"; cases "c = Token2 2")
      (simp_all add: other demo_free new_loan_def demo_loans_def runtime_loan_config_def u128_max_def
        std_currency_def)
  moreover have "loan_amount ?l \<le> free_of demo_loans demo2 (loan_currency ?l) (borrower ?l)"
    by (simp add: demo_free new_loan_def)
  ultimately show ?thesis
    using active_loan_can_be_repaid [OF demo_pallet(2) demo2_prudent l(1,2)] l(3) by auto
qed

text \<open>
  One distribution touches nothing but the rewards of active loans: each grows by its share of the cycle
  in proportion to its collateral (rounded down, saturating), the growths sum to at most the cycle, and
  the pallet owes at most the cycle more in any currency; no token moves.
\<close>

theorem distribution_bounded:
  assumes "loan_reachable F C s" and "cycle_total s \<le> u128_max"
    and "distribute_cycle_rewards o1 n s = Inr t"
  shows "loans t = loans s \<and> loan_ledger t = loan_ledger s \<and>
     (\<forall>i l. loan_of s i = Some l \<longrightarrow> loan_rewards t i =
        (if status l = Active then saturating_add (loan_rewards s i)
             (saturating_mul n (collateral_amount l) div cycle_total s)
         else loan_rewards s i)) \<and>
     sum_list (map (\<lambda>(i, l). loan_rewards t i - loan_rewards s i) (loans s)) \<le> n \<and>
     (\<forall>c. liabilities c s \<le> liabilities c t \<and> liabilities c t \<le> liabilities c s + n)"
proof -
  note wf = loan_wf_reachable [OF assms(1)]
  have inv: "sm_invar (loan_hash C) (loans s)" using wf by (simp add: loan_wf_def)
  obtain share where share: "sum_list (map share (loans s)) \<le> n"
    "\<forall>p \<in> set (loans s). loan_rewards t (fst p) \<le> loan_rewards s (fst p) + share p"
    using distribute_shares [OF wf assms(2,3)] by blast
  have "sum_list (map (\<lambda>(i, l). loan_rewards t i - loan_rewards s i) (loans s)) \<le>
      sum_list (map share (loans s))"
    by (rule sum_list_mono) (use share(2) in \<open>auto simp: le_diff_conv split_def add.commute\<close>)
  moreover have "loan_rewards t i = (if status l = Active then saturating_add (loan_rewards s i)
        (saturating_mul n (collateral_amount l) div cycle_total s) else loan_rewards s i)"
    if "loan_of s i = Some l" for i l
  proof (cases "active_loans s = []")
    case True
    with assms(3) have "t = s" by (simp add: distribute_cycle_rewards_def)
    moreover have "(i, l) \<in> set (loans s)" using that by (rule map_of_SomeD)
    with True have "status l \<noteq> Active"
      by (auto simp: active_loans_def filter_empty_conv)
    ultimately show ?thesis by simp
  next
    case False
    with distribute_rewards [OF inv assms(2,3)] that show ?thesis by simp
  qed
  ultimately show ?thesis
    using share(1) distribute_frame [OF assms(3)] liabilities_distribute [OF wf assms(2,3)] by auto
qed

theorem distribution_bounded_witness:
  "loan_rewards demo3 0 = 500 \<and> liabilities (VToken2 0) demo3 \<le> liabilities (VToken2 0) demo2 + 1000"
proof -
  have "cycle_total demo2 = 2000"
    by (simp add: cycle_total_def demo2_active new_loan_def saturating_add_def u128_max_def)
  then have "cycle_total demo2 \<le> u128_max" by (simp add: u128_max_def)
  from distribution_bounded [OF demo2_reachable this demo3_distribute] show ?thesis
    by simp
qed


section \<open>What the pallet does not guard against\<close>

text \<open>
  A distribution is neither authorised nor funded: any origin may distribute any amount. In the run of
  two borrowers with 1000 units of collateral each, whatever the origin of the distribution of 1000 units, the
  first borrower repays and is paid the rewards out of the second's collateral, after which the second
  borrower, who holds exactly the debt, can no longer repay.
\<close>

theorem unfunded_cycle_takes_collateral:
  "covered demo_loans demo2 \<and>
   (\<forall>o1. distribute_cycle_rewards o1 1000 demo2 = Inr demo3) \<and>
   repay_loan std_fixed demo_loans (Signed 11) 0 demo3 = Inr demo4 \<and>
   free_of demo_loans demo4 (VToken2 0) 11 = 1450 \<and>
   loan_of demo4 1 = Some (new_loan demo_env 13 (VToken2 0) 1000 (Token2 2) 100) \<and>
   free_of demo_loans demo4 (Token2 2) 13 = 100 \<and>
   repay_loan std_fixed demo_loans (Signed 13) 1 demo4 = Inl (External 0)"
proof -
  have "distribute_cycle_rewards o1 1000 demo2 = Inr demo3" for o1
    using demo3_distribute by (simp add: distribute_cycle_rewards_def)
  moreover have "repay_loan std_fixed demo_loans (Signed 13) 1 demo4 = Inl (External 0)"
    by (simp add: repay_loan_def claim_loan_rewards_def saturating_sub_def demo_defs new_loan_def
        std_fixed_def perm_percent_def perm_one_def)
  ultimately show ?thesis
    using loan_pallet.prudent_run [OF demo_pallet(1) demo2_prudent] demo4_repay by (simp add: demo_free)
qed

text \<open>
  A loan needs no collateral: with an amount of zero of any voucher token, anyone who still has room for
  a loan is lent whatever the pallet holds, and keeps it.
\<close>

theorem loan_without_collateral:
  assumes "live_loan_pallet F C" and "is_valid_vtoken_collateral v"
    and "length (loans_of s who) < max_user_loans" and "next_loan_id s < loan_id_max C"
    and "who \<noteq> pallet_account C" and "m \<le> free_of C s c (pallet_account C)"
    and "free_of C s c who + m \<le> u128_max" and "free_of C s v (pallet_account C) \<le> u128_max"
  shows "\<exists>t. create_loan C E (Signed who) v 0 c m s = Inr t \<and>
     free_of C t c who = free_of C s c who + m"
proof -
  note L = live_loan_pallet.axioms(2) [OF assms(1)]
  have M: "multi_currency (loan_currencies C)"
    using L by (rule live_currency.axioms(1))
  obtain l1 where t1:
    "mc_transfer (loan_currencies C) v who (pallet_account C) 0 (loan_ledger s) = Inr l1"
    using live_currency.transfer_succeeds [OF L, of 0 "loan_ledger s" v who] assms(8) by auto
  have same: "mc_free (loan_currencies C) l1 d x = free_of C s d x" for d x
    using multi_currency.flow [OF M t1, of d x] by simp
  obtain l2 where t2: "mc_transfer (loan_currencies C) c (pallet_account C) who m l1 = Inr l2"
    using live_currency.transfer_succeeds [OF L, of m l1 c "pallet_account C" who] assms(6,7)
    by (auto simp: same)
  have "mc_free (loan_currencies C) l2 c who = free_of C s c who + m"
    using multi_currency.receiver [OF M t2] assms(5) same by auto
  with t1 t2 assms(2,3,4) show ?thesis
    by (simp add: create_loan_def transfer_def push_user_loan_def loans_of_def Let_def chk_def ensure_def)
qed

theorem loan_without_collateral_witness:
  "\<exists>t. create_loan demo_loans demo_env (Signed 99) (VToken2 0) 0 (Token2 2) 5000 demo0 = Inr t \<and>
     free_of demo_loans t (Token2 2) 99 = 5000"
  using loan_without_collateral [OF demo_pallet(2), of "VToken2 0" demo0 99 5000 "Token2 2" demo_env]
  by (simp add: demo_defs demo0_def initial_loans_def loans_of_def demo_ledger_def)

text \<open>
  Once every active loan is without collateral and rewards, as a single one created in that way is, every
  distribution panics, whoever calls it and whatever the amount.
\<close>

theorem distribution_panics_without_collateral:
  assumes "active_loans s \<noteq> []"
    and "\<And>i l. (i, l) \<in> set (active_loans s) \<Longrightarrow> collateral_amount l = 0 \<and> loan_rewards s i = 0"
  shows "distribute_cycle_rewards o1 n s = Inl Panic"
proof -
  have "map (\<lambda>(i, l). saturating_add (collateral_amount l) (loan_rewards s i)) (active_loans s) =
      map (\<lambda>_. 0) (active_loans s)"
    using assms(2) by (auto simp: saturating_add_def)
  then have "wrapping_sum
      (map (\<lambda>(i, l). saturating_add (collateral_amount l) (loan_rewards s i)) (active_loans s)) = 0"
    by (simp only: wrapping_sum_exact sum_list_0 le0)
  with assms(1) show ?thesis
    by (cases "active_loans s")
      (simp_all add: distribute_cycle_rewards_def Let_def add_cycle_reward_def saturating_div_def)
qed

theorem distribution_panics_without_collateral_witness:
  "\<exists>t. create_loan demo_loans demo_env (Signed 99) (VToken2 0) 0 (Token2 2) 5000 demo0 = Inr t \<and>
     distribute_cycle_rewards Root 7 t = Inl Panic"
proof -
  obtain t where t: "create_loan demo_loans demo_env (Signed 99) (VToken2 0) 0 (Token2 2) 5000 demo0 = Inr t"
    "loans t = [(0, new_loan demo_env 99 (VToken2 0) 0 (Token2 2) 5000)]" "loan_rewards t = (\<lambda>_. 0)"
    by (simp add: create_loan_def demo_defs demo0_def initial_loans_def demo_ledger_def new_loan_def
        fun_eq_iff)
  have "distribute_cycle_rewards Root 7 t = Inl Panic"
    by (rule distribution_panics_without_collateral)
      (auto simp: active_loans_def t(2,3) new_loan_def)
  with t show ?thesis by blast
qed

text \<open>
  A loan whose collateral is worth no more than its debt can be liquidated, also in the very block that
  created it.
\<close>

theorem underwater_is_liquidatable:
  assumes "loan_pallet F C" and "liquidation_threshold C \<le> perm_one"
    and "create_loan C E (Signed who) v n c m s = Inr t"
    and "get_collateral_value F E v n c = Inr worth" and "worth \<le> m"
  shows "is_liquidatable F C E (next_loan_id s) t = Inr True"
proof -
  have "loan_of t (next_loan_id s) = Some (new_loan E who v n c m)"
    using assms(3) by (cases rule: create_loan_cases) (simp add: map_of_sm_put)
  moreover have "perm_from_rational F m worth = perm_one"
    using loan_pallet.axioms(1) [OF assms(1)] assms(5) by (rule fixed_point.from_rational_full)
  ultimately show ?thesis
    using assms(2,4) by (simp add: is_liquidatable_def calculate_ltv_def new_loan_def)
qed

lemma demo_worth:
  "get_collateral_value std_fixed demo_env5 (VToken2 0) 1000 (Token2 2) = Inr 200"
  by (simp add: get_collateral_value_def demo_env5_def std_fixed_def std_div_def chk_def fx_one_def
      u128_max_def)

theorem underwater_is_liquidatable_witness:
  "\<exists>t. create_loan demo_loans demo_env5 (Signed 11) (VToken2 0) 1000 (Token2 2) 400 demo0 = Inr t \<and>
     is_liquidatable std_fixed demo_loans demo_env5 0 t = Inr True"
proof -
  obtain t where
    t: "create_loan demo_loans demo_env5 (Signed 11) (VToken2 0) 1000 (Token2 2) 400 demo0 = Inr t"
    by (simp add: create_loan_def demo_defs demo0_def initial_loans_def demo_ledger_def)
  have "liquidation_threshold demo_loans \<le> perm_one" "next_loan_id demo0 = 0"
    by (simp_all add: demo_loans_def runtime_loan_config_def perm_percent_def demo0_def initial_loans_def)
  with underwater_is_liquidatable [OF demo_pallet(1) _ t demo_worth] t show ?thesis
    by auto
qed

text \<open>
  The refusals of the two closing calls, in the order of their checks: nothing happens without a signature,
  to an unknown loan, by another account than the borrower (repayment), to a loan that is not active, or
  (liquidation) without a price or below the threshold.
\<close>

theorem closing_refusals:
  assumes "loan_of s i = Some l"
  shows "(loan_of s j = None \<longrightarrow> repay_loan F C (Signed who) j s = Inl (Module LoanNotFound) \<and>
            liquidate_loan F C E (Signed who) j s = Inl (Module LoanNotFound)) \<and>
     (o1 = Root \<or> o1 = Unsigned \<longrightarrow> repay_loan F C o1 i s = Inl BadOrigin \<and>
            liquidate_loan F C E o1 i s = Inl BadOrigin) \<and>
     (borrower l \<noteq> who \<longrightarrow> repay_loan F C (Signed who) i s = Inl (Module NotLoanOwner)) \<and>
     (status l \<noteq> Active \<longrightarrow>
        repay_loan F C (Signed (borrower l)) i s = Inl (Module LoanNotActive) \<and>
        liquidate_loan F C E (Signed who) i s = Inl (Module LoanNotActive)) \<and>
     (status l = Active \<and> (price_of E (collateral_vtoken l) = None \<or> price_of E (loan_currency l) = None) \<longrightarrow>
        liquidate_loan F C E (Signed who) i s = Inl (Module PriceNotAvailable)) \<and>
     (status l = Active \<and>
      get_collateral_value F E (collateral_vtoken l) (collateral_amount l) (loan_currency l) = Inr worth \<and>
      perm_from_rational F (loan_amount l) worth < liquidation_threshold C \<longrightarrow>
        liquidate_loan F C E (Signed who) i s = Inl (Module LoanNotLiquidatable))"
  using assms
  by (auto simp: repay_loan_def liquidate_loan_def is_liquidatable_def calculate_ltv_def
      get_collateral_value_def ensure_signed_def rbind_def ok_or_def ensure_def
      split: option.splits)

theorem closing_refusals_witness:
  "repay_loan std_fixed demo_loans (Signed 13) 0 demo2 = Inl (Module NotLoanOwner) \<and>
   repay_loan std_fixed demo_loans Root 0 demo2 = Inl BadOrigin"
  using closing_refusals [of demo2 0 "new_loan demo_env 11 (VToken2 0) 1000 (Token2 2) 400"
      0 std_fixed demo_loans 13 demo_env Root 0]
  by (simp add: new_loan_def)

end
