(* ===== verification/Rate_Model.thy ===== *)
theory Rate_Model
  imports Fixed_Point
begin

text \<open>
  The interest rate models of the lend market, \<open>pallets/lend-market/src/rate_model.rs\<close>: the jump model
  (two straight lines that meet at the jump utilization) and the curve model (the ninth power of the
  utilization over a base rate). A rate is the inner integer of its \<open>FixedU128\<close>, a utilization the
  parts of its \<open>Permill\<close>. What the markets need of a model, whichever it is, is the locale
  \<open>rate_curve\<close>.
\<close>

section \<open>The models\<close>

record jump_model =
  jump_base_rate :: nat
  jump_rate :: nat
  full_rate :: nat
  jump_utilization :: nat

record curve_model =
  curve_base_rate :: nat

datatype interest_rate_model = Jump jump_model | Curve curve_model

definition new_jump_model :: "nat \<Rightarrow> nat \<Rightarrow> nat \<Rightarrow> nat \<Rightarrow> interest_rate_model" where
  "new_jump_model b j f u =
     Jump \<lparr>jump_base_rate = b, jump_rate = j, full_rate = f, jump_utilization = u\<rparr>"

definition new_curve_model :: "nat \<Rightarrow> interest_rate_model" where
  "new_curve_model b = Curve \<lparr>curve_base_rate = b\<rparr>"

definition default_rate_model :: interest_rate_model where
  "default_rate_model =
     new_jump_model (2 * 10 ^ 16) (10 * 10 ^ 16) (32 * 10 ^ 16) (perm_percent 80)"

definition jump_max_base_rate :: nat where "jump_max_base_rate = 100000000000000000"

definition jump_max_jump_rate :: nat where "jump_max_jump_rate = 300000000000000000"

definition jump_max_full_rate :: nat where "jump_max_full_rate = 500000000000000000"

definition curve_max_base_rate :: nat where "curve_max_base_rate = fx_one div 100 * 10"

definition jump_check_model :: "jump_model \<Rightarrow> bool" where
  "jump_check_model m \<longleftrightarrow>
     (if jump_max_base_rate < jump_base_rate m \<or> jump_max_jump_rate < jump_rate m \<or>
         jump_max_full_rate < full_rate m
      then False
      else if jump_rate m < jump_base_rate m \<or> full_rate m < jump_rate m then False
      else True)"

definition jump_borrow_rate :: "fixed_ops \<Rightarrow> jump_model \<Rightarrow> nat \<Rightarrow> nat option" where
  "jump_borrow_rate F m util =
     (if util \<le> jump_utilization m then
        Option.bind (checked_sub (jump_rate m) (jump_base_rate m)) (\<lambda>d.
        Option.bind (fx_div F (fx_sat_mul F d (fx_of_perm F util)) (fx_of_perm F (jump_utilization m)))
          (\<lambda>q. checked_add q (jump_base_rate m)))
      else
        let excess_util = saturating_sub util (jump_utilization m) in
        Option.bind (checked_sub (full_rate m) (jump_rate m)) (\<lambda>d.
        Option.bind (fx_div F (fx_sat_mul F d (fx_of_perm F excess_util))
            (fx_of_perm F (saturating_sub perm_one (jump_utilization m))))
          (\<lambda>q. checked_add q (jump_rate m))))"

definition curve_check_model :: "curve_model \<Rightarrow> bool" where
  "curve_check_model m \<longleftrightarrow> curve_base_rate m \<le> curve_max_base_rate"

definition curve_borrow_rate :: "fixed_ops \<Rightarrow> curve_model \<Rightarrow> nat \<Rightarrow> nat option" where
  "curve_borrow_rate F m util =
     checked_add (fx_sat_pow F (fx_of_perm F util) 9) (curve_base_rate m)"

fun check_model :: "interest_rate_model \<Rightarrow> bool" where
  "check_model (Jump m) = jump_check_model m"
| "check_model (Curve m) = curve_check_model m"

fun get_borrow_rate :: "fixed_ops \<Rightarrow> interest_rate_model \<Rightarrow> nat \<Rightarrow> nat option" where
  "get_borrow_rate F (Jump m) util = jump_borrow_rate F m util"
| "get_borrow_rate F (Curve m) util = curve_borrow_rate F m util"

definition get_supply_rate :: "fixed_ops \<Rightarrow> nat \<Rightarrow> nat \<Rightarrow> nat \<Rightarrow> nat" where
  "get_supply_rate F borrow_rate util reserve_factor =
     (let one_minus_reserve_factor = saturating_sub perm_one reserve_factor;
          rate_to_pool = fx_sat_mul F borrow_rate (fx_of_perm F one_minus_reserve_factor)
      in fx_sat_mul F rate_to_pool (fx_of_perm F util))"

section \<open>What a market needs of a model\<close>

locale rate_curve =
  fixes valid :: "'m \<Rightarrow> bool" and rate :: "'m \<Rightarrow> nat \<Rightarrow> nat option" and cap :: nat
  assumes rate_le_cap: "valid m \<Longrightarrow> u \<le> perm_one \<Longrightarrow> rate m u = Some r \<Longrightarrow> r \<le> cap"
    and rate_mono: "valid m \<Longrightarrow> u \<le> u' \<Longrightarrow> u' \<le> perm_one \<Longrightarrow>
          rate m u = Some r \<Longrightarrow> rate m u' = Some r' \<Longrightarrow> r \<le> r'"
    and rate_total: "valid m \<Longrightarrow> 0 < u \<Longrightarrow> u \<le> perm_one \<Longrightarrow> rate m u \<noteq> None"
begin

lemma rate_bounds:
  "valid m \<Longrightarrow> 0 < u \<Longrightarrow> u \<le> perm_one \<Longrightarrow>
     \<exists>r r1. rate m u = Some r \<and> rate m perm_one = Some r1 \<and> r \<le> r1 \<and> r1 \<le> cap"
proof -
  assume v: "valid m" and u: "0 < u" "u \<le> perm_one"
  then obtain r where r: "rate m u = Some r" using rate_total by blast
  have "0 < perm_one" by (simp add: perm_one_def)
  with v obtain r1 where r1: "rate m perm_one = Some r1" using rate_total by blast
  show ?thesis
    using r r1 rate_mono [OF v u(2) order_refl r r1] rate_le_cap [OF v order_refl r1] by blast
qed

end

section \<open>Both models are such curves\<close>

text \<open>The straight line from \<open>a\<close> at zero to \<open>a + d\<close> at \<open>n\<close>, as the code computes it.\<close>

definition segment :: "nat \<Rightarrow> nat \<Rightarrow> nat \<Rightarrow> nat" where
  "segment d u n = (min u128_max (d * (u * 10 ^ 12) div fx_one)) * fx_one div (n * 10 ^ 12)"

lemma segment_mono: "u \<le> u' \<Longrightarrow> segment d u n \<le> segment d u' n"
  unfolding segment_def
  by (intro div_le_mono mult_le_mono1 min.mono order_refl) simp

lemma segment_le:
  assumes "u \<le> n" "0 < n"
  shows "segment d u n \<le> d"
proof -
  have "segment d u n \<le> segment d n n" using assms(1) by (rule segment_mono)
  also have "\<dots> \<le> d * (n * 10 ^ 12) div fx_one * fx_one div (n * 10 ^ 12)"
    unfolding segment_def by (intro div_le_mono mult_le_mono1) simp
  also have "\<dots> \<le> d * (n * 10 ^ 12) div (n * 10 ^ 12)"
    by (intro div_le_mono) simp
  also have "\<dots> = d" using assms(2) by simp
  finally show ?thesis .
qed

text \<open>A \<open>Permill\<close> never exceeds one: part of the type of the model's parameter.\<close>

definition valid_jump :: "jump_model \<Rightarrow> bool" where
  "valid_jump m \<longleftrightarrow> jump_check_model m \<and> jump_utilization m \<le> perm_one"

lemma segment_excess_le: "j < u \<Longrightarrow> u \<le> n \<Longrightarrow> segment d (u - j) (n - j) \<le> d"
  by (rule segment_le) auto

context fixed_point
begin

lemma segment_div:
  assumes "u \<le> n" and "n \<le> perm_one" and "d \<le> u128_max"
  shows "fx_div F (fx_sat_mul F d (fx_of_perm F u)) (fx_of_perm F n) =
     (if n = 0 then None else Some (segment d u n))"
proof (cases "n = 0")
  case True
  then show ?thesis by (simp add: of_perm div_zero)
next
  case False
  with assms have "segment d u n \<le> u128_max"
    using segment_le [of u n d] by simp
  with False assms show ?thesis
    by (simp add: of_perm sat_mul div_pos segment_def chk_def)
qed

lemma jump_borrow_rate_eq:
  assumes "jump_check_model m" and "jump_utilization m \<le> perm_one" and "u \<le> perm_one"
  shows "jump_borrow_rate F m u =
     (if u \<le> jump_utilization m then
        if jump_utilization m = 0 then None
        else Some (segment (jump_rate m - jump_base_rate m) u (jump_utilization m) + jump_base_rate m)
      else Some (segment (full_rate m - jump_rate m) (u - jump_utilization m)
             (perm_one - jump_utilization m) + jump_rate m))"
proof -
  from assms(1) have le: "jump_base_rate m \<le> jump_rate m" "jump_rate m \<le> full_rate m"
    and small: "full_rate m \<le> u128_max"
    by (auto simp: jump_check_model_def jump_max_full_rate_def u128_max_def split: if_splits)
  show ?thesis
  proof (cases "u \<le> jump_utilization m")
    case True
    have "segment (jump_rate m - jump_base_rate m) u (jump_utilization m) + jump_base_rate m \<le> u128_max"
      if "jump_utilization m \<noteq> 0"
      using segment_le [of u "jump_utilization m" "jump_rate m - jump_base_rate m"] True that le small
      by simp
    with True le small assms(2) show ?thesis
      by (auto simp: jump_borrow_rate_def segment_div checked_sub_def checked_add_def chk_def)
  next
    case False
    let ?n = "perm_one - jump_utilization m" and ?u = "u - jump_utilization m"
    have "?u \<le> ?n" "0 < ?n" using False assms(3) by simp_all
    then have "segment (full_rate m - jump_rate m) ?u ?n \<le> full_rate m - jump_rate m"
      by (rule segment_le)
    with le small have "segment (full_rate m - jump_rate m) ?u ?n + jump_rate m \<le> u128_max"
      by linarith
    with False le small \<open>?u \<le> ?n\<close> \<open>0 < ?n\<close> show ?thesis
      by (simp add: jump_borrow_rate_def segment_div checked_sub_def checked_add_def chk_def
          saturating_sub_def)
  qed
qed

lemma valid_jump_rates:
  "valid_jump m \<Longrightarrow> jump_base_rate m \<le> jump_rate m \<and> jump_rate m \<le> full_rate m \<and>
     full_rate m \<le> jump_max_full_rate \<and> jump_utilization m \<le> perm_one"
  by (auto simp: valid_jump_def jump_check_model_def split: if_splits)

lemma jump_cap:
  assumes "valid_jump m" and "u \<le> perm_one" and "jump_borrow_rate F m u = Some r"
  shows "r \<le> full_rate m \<and> (u \<le> jump_utilization m \<longrightarrow> r \<le> jump_rate m) \<and>
     (jump_utilization m < u \<longrightarrow> jump_rate m \<le> r) \<and> jump_base_rate m \<le> r"
  using assms valid_jump_rates [OF assms(1)]
    segment_le [of u "jump_utilization m" "jump_rate m - jump_base_rate m"]
    segment_excess_le [of "jump_utilization m" u perm_one "full_rate m - jump_rate m"]
  by (auto simp: valid_jump_def jump_borrow_rate_eq split: if_splits)

lemma jump_mono:
  assumes "valid_jump m" and "u \<le> u'" and "u' \<le> perm_one"
    and "jump_borrow_rate F m u = Some r" and "jump_borrow_rate F m u' = Some r'"
  shows "r \<le> r'"
proof (cases "u \<le> jump_utilization m \<longleftrightarrow> u' \<le> jump_utilization m")
  case True
  with assms show ?thesis
    by (auto simp: valid_jump_def jump_borrow_rate_eq split: if_splits intro!: segment_mono diff_le_mono)
next
  case False
  with assms(2) have "u \<le> jump_utilization m" "jump_utilization m < u'" by auto
  with jump_cap [OF assms(1) _ assms(4)] jump_cap [OF assms(1,3,5)] assms(2,3) show ?thesis
    by (meson le_trans)
qed

lemma jump_total:
  "valid_jump m \<Longrightarrow> u \<le> perm_one \<Longrightarrow>
     jump_borrow_rate F m u = None \<longleftrightarrow> u = 0 \<and> jump_utilization m = 0"
  by (auto simp: valid_jump_def jump_borrow_rate_eq)

lemma jump_is_curve: "rate_curve valid_jump (jump_borrow_rate F) jump_max_full_rate"
  using jump_cap valid_jump_rates jump_mono jump_total
  by unfold_locales (meson le_trans | blast)+

lemma curve_is_curve:
  "rate_curve curve_check_model (curve_borrow_rate F) (fx_one + curve_max_base_rate)"
proof
  fix m u u' r r'
  assume v: "curve_check_model m"
  show "u \<le> perm_one \<Longrightarrow> curve_borrow_rate F m u = Some r \<Longrightarrow> r \<le> fx_one + curve_max_base_rate"
    using v sat_pow_one [OF of_perm_one]
    by (auto simp: curve_borrow_rate_def curve_check_model_def num_simps intro!: add_mono)
  show "u \<le> u' \<Longrightarrow> u' \<le> perm_one \<Longrightarrow> curve_borrow_rate F m u = Some r \<Longrightarrow>
      curve_borrow_rate F m u' = Some r' \<Longrightarrow> r \<le> r'"
    using sat_pow_mono [OF of_perm_mono] by (auto simp: curve_borrow_rate_def num_simps)
  have "fx_sat_pow F (fx_of_perm F u) 9 + curve_base_rate m \<le> u128_max" if "u \<le> perm_one"
  proof -
    have "fx_sat_pow F (fx_of_perm F u) 9 + curve_base_rate m \<le> fx_one + curve_max_base_rate"
      using v sat_pow_one [OF of_perm_one [OF that]] by (auto simp: curve_check_model_def intro: add_mono)
    also have "\<dots> \<le> u128_max" by (simp add: fx_one_def curve_max_base_rate_def u128_max_def)
    finally show ?thesis .
  qed
  then show "0 < u \<Longrightarrow> u \<le> perm_one \<Longrightarrow> curve_borrow_rate F m u \<noteq> None"
    by (auto simp: curve_borrow_rate_def checked_add_def chk_def)
qed

end

text \<open>Both at once: the model a market stores.\<close>

fun valid_model :: "interest_rate_model \<Rightarrow> bool" where
  "valid_model (Jump m) = valid_jump m"
| "valid_model (Curve m) = curve_check_model m"

lemma valid_model_check: "valid_model m \<Longrightarrow> check_model m"
  by (cases m) (simp_all add: valid_jump_def)

sublocale fixed_point \<subseteq> jump: rate_curve valid_jump "jump_borrow_rate F" jump_max_full_rate
  by (rule jump_is_curve)

sublocale fixed_point \<subseteq> curve: rate_curve curve_check_model "curve_borrow_rate F"
    "fx_one + curve_max_base_rate"
  by (rule curve_is_curve)

sublocale fixed_point \<subseteq> model: rate_curve valid_model "get_borrow_rate F"
    "fx_one + curve_max_base_rate"
proof
  fix m u u' r r'
  assume v: "valid_model m"
  have cap: "jump_max_full_rate \<le> fx_one + curve_max_base_rate"
    by (simp add: jump_max_full_rate_def fx_one_def)
  show "r \<le> fx_one + curve_max_base_rate" if "u \<le> perm_one" "get_borrow_rate F m u = Some r"
  proof (cases m)
    case (Jump j)
    with v that jump.rate_le_cap [of j u r] cap show ?thesis by simp
  next
    case (Curve c)
    with v that curve.rate_le_cap [of c u r] show ?thesis by simp
  qed
  show "r \<le> r'" if "u \<le> u'" "u' \<le> perm_one" "get_borrow_rate F m u = Some r"
      "get_borrow_rate F m u' = Some r'"
  proof (cases m)
    case (Jump j)
    with v that jump.rate_mono [of j u u' r r'] show ?thesis by simp
  next
    case (Curve c)
    with v that curve.rate_mono [of c u u' r r'] show ?thesis by simp
  qed
  show "get_borrow_rate F m u \<noteq> None" if "0 < u" "u \<le> perm_one"
  proof (cases m)
    case (Jump j)
    with v that jump.rate_total [of j u] show ?thesis by simp
  next
    case (Curve c)
    with v that curve.rate_total [of c u] show ?thesis by simp
  qed
qed

context fixed_point
begin

lemma model_is_curve:
  "rate_curve valid_model (get_borrow_rate F) (fx_one + curve_max_base_rate)"
  by (rule model.rate_curve_axioms)

lemma supply_rate_le:
  assumes "util \<le> perm_one"
  shows "get_supply_rate F b util rf \<le> b"
proof -
  have s: "fx_sat_mul F x (fx_of_perm F p) \<le> x" if "p \<le> perm_one" for x p
    using mul_int_le [OF of_perm_one [OF that], of x] by (simp add: sat_mul mult.commute)
  have "get_supply_rate F b util rf \<le> fx_sat_mul F b (fx_of_perm F (perm_one - rf))"
    using s [OF assms] by (simp add: get_supply_rate_def Let_def saturating_sub_def)
  also have "\<dots> \<le> b" by (rule s) simp
  finally show ?thesis .
qed

end

end
