(* ===== verification/Lend_State.thy ===== *)
theory Lend_State
  imports Rate_Model Storage Ledger
begin

text \<open>
  The data of the lend market: \<open>pallets/lend-market/src/types.rs\<close> and the storage, errors and events
  of \<open>lib.rs\<close>. \<open>Markets\<close>, the map the code iterates over, is the list of its entries in storage order;
  every other map is a function with the default of its \<open>ValueQuery\<close>. \<open>AccountDeposits\<close> and
  \<open>UnderlyingAssetId\<close> stay options, since the code asks whether a key exists.

  The oracle, the clock and the block number may differ from call to call, so they form the environment
  of a call; the assets pallet, the origins, the derived accounts (hashes of the pallet id), the account
  lookup and the key hash are fixed parameters.
\<close>

section \<open>Data\<close>

record borrow_snapshot =
  principal :: nat
  snapshot_index :: nat

record earned_snapshot =
  total_earned_prior :: nat
  exchange_rate_prior :: nat

record deposits =
  voucher_balance :: nat
  is_collateral :: bool

datatype market_state = MarketActive | MarketPending | MarketSupervision

record market =
  collateral_factor :: nat
  liq_threshold :: nat
  reserve_factor :: nat
  close_factor :: nat
  liquidate_incentive :: nat
  liquidate_incentive_reserved_factor :: nat
  rate_model :: interest_rate_model
  market_state :: market_state
  supply_cap :: nat
  borrow_cap :: nat
  market_lend_token :: currency

record reward_market_state =
  reward_index :: nat
  reward_block :: nat

datatype lend_error =
    InsufficientLiquidity | InsufficientDeposit | TooMuchRepay | DuplicateOperation | NoDeposit
  | LendInsufficientCollateral | LiquidatorIsBorrower | DepositsAreNotCollateral | InsufficientShortfall
  | InsufficientReserves | InvalidRateModelParam | MarketNotActivated | PriceOracleNotReady
  | PriceIsZero | InvalidCurrencyId | InvalidLendTokenId | MarketDoesNotExist | MarketAlreadyExists
  | NewMarketMustHavePendingState | SupplyCapacityExceeded | BorrowCapacityExceeded
  | InsufficientCash | InvalidFactor | InvalidSupplyCap | InvalidExchangeRate | TooManyMarkets
  | InvalidAmount | PayerIsSigner | CodecError | CollateralReserved | MarketBondDoesNotExist
  | ConversionError

text \<open>The arguments of an event are the fields of the source in their order.\<close>

datatype lend_event =
    CollateralAssetAdded account currency
  | CollateralAssetRemoved account currency
  | Deposited account currency nat
  | Redeemed account currency nat
  | Borrowed account currency nat
  | RepaidBorrow account currency nat
  | LiquidatedBorrow account account currency currency nat nat
  | ReservesReduced account currency nat nat
  | ReservesAdded account currency nat nat
  | NewMarket currency market
  | ActivatedMarket currency
  | UpdatedMarket currency market
  | RewardAdded account nat
  | RewardWithdrawn account nat
  | MarketRewardSpeedUpdated currency nat nat
  | DistributedSupplierReward currency account nat nat
  | DistributedBorrowerReward currency account nat nat
  | RewardPaid account nat
  | IncentiveReservesReduced account currency nat
  | LiquidationFreeCollateralsUpdated "currency list"
  | MarketBonded currency "currency list"

definition min_exchange_rate :: nat where "min_exchange_rate = 20000000000000000"

definition max_exchange_rate :: nat where "max_exchange_rate = 1000000000000000000"

definition max_markets :: nat where "max_markets = 100"

section \<open>Configuration, environment and state\<close>

record 'l lend_config =
  assets :: "'l assets_ops"
  reserve_origin :: "origin \<Rightarrow> bool"
  update_origin :: "origin \<Rightarrow> bool"
  lend_account :: account
  farming_account :: account
  incentive_account :: account
  reward_asset_id :: currency
  liquidation_free_asset_id :: currency
  max_length_limit :: nat
  lookup_account :: "nat \<Rightarrow> account option"
  market_hash :: "currency \<Rightarrow> nat"

record lend_env =
  now_secs :: nat
  current_block :: nat
  oracle_price :: "currency \<Rightarrow> (nat \<times> nat) option"

record 'l lend_state =
  last_accrued :: "currency \<Rightarrow> nat"
  liquidation_free_collaterals :: "currency list"
  total_supply :: "currency \<Rightarrow> nat"
  total_borrows :: "currency \<Rightarrow> nat"
  total_reserves :: "currency \<Rightarrow> nat"
  account_borrows :: "currency \<Rightarrow> account \<Rightarrow> borrow_snapshot"
  account_deposits :: "currency \<Rightarrow> account \<Rightarrow> deposits option"
  account_earned :: "currency \<Rightarrow> account \<Rightarrow> earned_snapshot"
  borrow_index :: "currency \<Rightarrow> nat"
  exchange_rates :: "currency \<Rightarrow> nat"
  borrow_rates :: "currency \<Rightarrow> nat"
  supply_rates :: "currency \<Rightarrow> nat"
  utilization_ratios :: "currency \<Rightarrow> nat"
  markets :: "(currency \<times> market) list"
  underlying_asset :: "currency \<Rightarrow> currency option"
  reward_supply_speed :: "currency \<Rightarrow> nat"
  reward_borrow_speed :: "currency \<Rightarrow> nat"
  reward_supply_state :: "currency \<Rightarrow> reward_market_state"
  reward_borrow_state :: "currency \<Rightarrow> reward_market_state"
  reward_supplier_index :: "currency \<Rightarrow> account \<Rightarrow> nat"
  reward_borrower_index :: "currency \<Rightarrow> account \<Rightarrow> nat"
  reward_accrued :: "account \<Rightarrow> nat"
  market_bond :: "currency \<Rightarrow> currency list option"
  lend_ledger :: 'l
  lend_events :: "lend_event list"

type_synonym 'a lend_result = "(lend_error, 'a) result"

abbreviation no_deposits :: deposits where
  "no_deposits \<equiv> \<lparr>voucher_balance = 0, is_collateral = False\<rparr>"

definition deposits_of :: "'l lend_state \<Rightarrow> currency \<Rightarrow> account \<Rightarrow> deposits" where
  "deposits_of s c who = (case account_deposits s c who of Some d \<Rightarrow> d | None \<Rightarrow> no_deposits)"

definition initial_lend_state :: "'l \<Rightarrow> 'l lend_state" where
  "initial_lend_state l =
     \<lparr>last_accrued = (\<lambda>_. 0), liquidation_free_collaterals = [], total_supply = (\<lambda>_. 0),
      total_borrows = (\<lambda>_. 0), total_reserves = (\<lambda>_. 0),
      account_borrows = (\<lambda>_ _. \<lparr>principal = 0, snapshot_index = 0\<rparr>), account_deposits = (\<lambda>_ _. None),
      account_earned = (\<lambda>_ _. \<lparr>total_earned_prior = 0, exchange_rate_prior = 0\<rparr>),
      borrow_index = (\<lambda>_. 0), exchange_rates = (\<lambda>_. 0), borrow_rates = (\<lambda>_. 0),
      supply_rates = (\<lambda>_. 0), utilization_ratios = (\<lambda>_. 0), markets = [],
      underlying_asset = (\<lambda>_. None), reward_supply_speed = (\<lambda>_. 0), reward_borrow_speed = (\<lambda>_. 0),
      reward_supply_state = (\<lambda>_. \<lparr>reward_index = 0, reward_block = 0\<rparr>),
      reward_borrow_state = (\<lambda>_. \<lparr>reward_index = 0, reward_block = 0\<rparr>),
      reward_supplier_index = (\<lambda>_ _. 0), reward_borrower_index = (\<lambda>_ _. 0),
      reward_accrued = (\<lambda>_. 0), market_bond = (\<lambda>_. None), lend_ledger = l, lend_events = []\<rparr>"

section \<open>Storage writes\<close>

definition emit :: "lend_event \<Rightarrow> 'l lend_state \<Rightarrow> 'l lend_state" where
  "emit e s = s\<lparr>lend_events := lend_events s @ [e]\<rparr>"

definition put_market :: "'l lend_config \<Rightarrow> currency \<Rightarrow> market \<Rightarrow> 'l lend_state \<Rightarrow> 'l lend_state" where
  "put_market C c m s = s\<lparr>markets := sm_put (market_hash C) c m (markets s)\<rparr>"

definition put_borrow :: "currency \<Rightarrow> account \<Rightarrow> nat \<Rightarrow> nat \<Rightarrow> 'l lend_state \<Rightarrow> 'l lend_state" where
  "put_borrow c who p i s = s\<lparr>account_borrows := (account_borrows s)
     (c := (account_borrows s c)(who := \<lparr>principal = p, snapshot_index = i\<rparr>))\<rparr>"

definition put_deposits :: "currency \<Rightarrow> account \<Rightarrow> deposits option \<Rightarrow> 'l lend_state \<Rightarrow> 'l lend_state" where
  "put_deposits c who d s = s\<lparr>account_deposits := (account_deposits s)
     (c := (account_deposits s c)(who := d))\<rparr>"

definition put_total_borrows :: "currency \<Rightarrow> nat \<Rightarrow> 'l lend_state \<Rightarrow> 'l lend_state" where
  "put_total_borrows c n s = s\<lparr>total_borrows := (total_borrows s)(c := n)\<rparr>"

definition put_total_supply :: "currency \<Rightarrow> nat \<Rightarrow> 'l lend_state \<Rightarrow> 'l lend_state" where
  "put_total_supply c n s = s\<lparr>total_supply := (total_supply s)(c := n)\<rparr>"

definition put_total_reserves :: "currency \<Rightarrow> nat \<Rightarrow> 'l lend_state \<Rightarrow> 'l lend_state" where
  "put_total_reserves c n s = s\<lparr>total_reserves := (total_reserves s)(c := n)\<rparr>"

definition asset_transfer ::
  "'l lend_config \<Rightarrow> currency \<Rightarrow> account \<Rightarrow> account \<Rightarrow> nat \<Rightarrow> preservation \<Rightarrow> 'l lend_state \<Rightarrow>
     'l lend_state lend_result" where
  "asset_transfer C c a b n p s =
     (case as_transfer (assets C) c a b n p (lend_ledger s) of
        Inl e \<Rightarrow> Inl (External e)
      | Inr l \<Rightarrow> Inr (s\<lparr>lend_ledger := l\<rparr>))"

text \<open>\<open>Assets::reducible_balance\<close> of the pallet's own account.\<close>

definition get_total_cash :: "'l lend_config \<Rightarrow> 'l lend_state \<Rightarrow> currency \<Rightarrow> nat" where
  "get_total_cash C s c = as_reducible (assets C) (lend_ledger s) c (lend_account C)"

section \<open>Markets\<close>

definition market_of :: "'l lend_state \<Rightarrow> currency \<Rightarrow> market lend_result" where
  "market_of s c = ok_or (map_of (markets s) c) (Module MarketDoesNotExist)"

definition mutate_market ::
  "'l lend_config \<Rightarrow> currency \<Rightarrow> (market \<Rightarrow> market) \<Rightarrow> 'l lend_state \<Rightarrow>
     (market \<times> 'l lend_state) lend_result" where
  "mutate_market C c cb s =
     (case map_of (markets s) c of
        Some m \<Rightarrow> Inr (cb m, put_market C c (cb m) s)
      | None \<Rightarrow> Inl (Module MarketDoesNotExist))"

definition active_markets :: "'l lend_state \<Rightarrow> (currency \<times> market) list" where
  "active_markets s = filter (\<lambda>(c, m). market_state m = MarketActive) (markets s)"

definition ensure_active_market :: "'l lend_state \<Rightarrow> currency \<Rightarrow> market lend_result" where
  "ensure_active_market s c =
     ok_or (map_option snd (find (\<lambda>p. fst p = c) (active_markets s))) (Module MarketNotActivated)"

definition underlying_id :: "'l lend_state \<Rightarrow> currency \<Rightarrow> currency lend_result" where
  "underlying_id s lend_token = ok_or (underlying_asset s lend_token) (Module InvalidLendTokenId)"

definition lend_token_id :: "'l lend_state \<Rightarrow> currency \<Rightarrow> currency lend_result" where
  "lend_token_id s c =
     (case market_of s c of Inr m \<Rightarrow> Inr (market_lend_token m) | Inl _ \<Rightarrow> Inl (Module MarketDoesNotExist))"

definition ensure_lend_token :: "'l lend_state \<Rightarrow> currency \<Rightarrow> unit lend_result" where
  "ensure_lend_token s lend_token =
     rbind (ensure (underlying_asset s lend_token = None) (Module InvalidLendTokenId)) (\<lambda>_.
       ensure (map_of (markets s) lend_token = None) (Module InvalidLendTokenId))"

end
