(* ===== verification/Lend_Interest.thy ===== *)
theory Lend_Interest
  imports Lend_State
begin

text \<open>
  Interest and rewards of the lend market, \<open>pallets/lend-market/src/interest.rs\<close> and
  \<open>farming.rs\<close>: the utilization of a market, the growth of its borrows, reserves and borrow index
  over time, the exchange rate of its voucher token, and the reward indices of suppliers and borrowers.
\<close>

section \<open>Interest\<close>

definition seconds_per_year :: nat where "seconds_per_year = 365 * 24 * 60 * 60"

definition calc_utilization_ratio :: "fixed_ops \<Rightarrow> nat \<Rightarrow> nat \<Rightarrow> nat \<Rightarrow> nat lend_result" where
  "calc_utilization_ratio F cash borrows reserves =
     (if borrows = 0 then Inr 0
      else rbind (ok_or (Option.bind (checked_add cash borrows) (\<lambda>r. checked_sub r reserves))
             (Arithmetic Overflow)) (\<lambda>tot.
           Inr (perm_from_rational F borrows tot)))"

definition ensure_valid_exchange_rate :: "nat \<Rightarrow> unit lend_result" where
  "ensure_valid_exchange_rate r =
     ensure (min_exchange_rate \<le> r \<and> r < max_exchange_rate) (Module InvalidExchangeRate)"

definition accrued_interest :: "fixed_ops \<Rightarrow> nat \<Rightarrow> nat \<Rightarrow> nat \<Rightarrow> nat option" where
  "accrued_interest F rate amount delta_time =
     Option.bind (fx_mul_int F rate amount) (\<lambda>a.
     Option.bind (checked_mul a delta_time) (\<lambda>b. checked_div b seconds_per_year))"

definition increment_index :: "fixed_ops \<Rightarrow> nat \<Rightarrow> nat \<Rightarrow> nat \<Rightarrow> nat option" where
  "increment_index F rate index delta_time =
     Option.bind (fx_mul F rate index) (\<lambda>a.
     Option.bind (fx_mul F a (fx_from_integer F delta_time)) (\<lambda>b.
       fx_div F b (fx_from_integer F seconds_per_year)))"

definition calculate_exchange_rate :: "fixed_ops \<Rightarrow> nat \<Rightarrow> nat \<Rightarrow> nat \<Rightarrow> nat \<Rightarrow> nat lend_result" where
  "calculate_exchange_rate F supply cash borrows reserves =
     (if supply = 0 then Inr min_exchange_rate
      else
        rbind (ok_or (Option.bind (checked_add cash borrows) (\<lambda>r. checked_sub r reserves))
          (Arithmetic Overflow)) (\<lambda>pool.
        rbind (ok_or (fx_from_rational F pool supply) (Arithmetic Underflow)) (\<lambda>rate.
        rbind (ensure_valid_exchange_rate rate) (\<lambda>_. Inr rate))))"

definition exchange_rate_stored ::
  "fixed_ops \<Rightarrow> 'l lend_config \<Rightarrow> 'l lend_state \<Rightarrow> currency \<Rightarrow> nat lend_result" where
  "exchange_rate_stored F C s c =
     calculate_exchange_rate F (total_supply s c) (get_total_cash C s c) (total_borrows s c)
       (total_reserves s c)"

text \<open>The tuple that \<open>get_market_status\<close> returns, field by field.\<close>

record interest_rates =
  ir_borrow_rate :: nat
  ir_supply_rate :: nat
  ir_exchange_rate :: nat
  ir_utilization :: nat
  ir_total_borrows :: nat
  ir_total_reserves :: nat
  ir_borrow_index :: nat

text \<open>The block that runs when time has passed: new borrows, reserves and borrow index.\<close>

definition grow ::
  "fixed_ops \<Rightarrow> market \<Rightarrow> nat \<Rightarrow> nat \<Rightarrow> nat \<Rightarrow> nat \<Rightarrow> nat \<Rightarrow> (nat \<times> nat \<times> nat) lend_result" where
  "grow F m rate borrows reserves index delta_time =
     rbind (ok_or (accrued_interest F rate borrows delta_time) (Arithmetic Overflow)) (\<lambda>interest.
     rbind (ok_or (checked_add interest borrows) (Arithmetic Overflow)) (\<lambda>borrows'.
     rbind (ok_or (checked_add (perm_mul_floor F (reserve_factor m) interest) reserves)
       (Arithmetic Overflow)) (\<lambda>reserves'.
     rbind (ok_or (Option.bind (increment_index F rate index delta_time) (\<lambda>r. checked_add r index))
       (Arithmetic Overflow)) (\<lambda>index'.
     Inr (borrows', reserves', index')))))"

definition get_market_status ::
  "fixed_ops \<Rightarrow> 'l lend_config \<Rightarrow> lend_env \<Rightarrow> 'l lend_state \<Rightarrow> currency \<Rightarrow> interest_rates lend_result" where
  "get_market_status F C E s c =
     rbind (market_of s c) (\<lambda>m.
     let cash = get_total_cash C s c in
     rbind (calc_utilization_ratio F cash (total_borrows s c) (total_reserves s c)) (\<lambda>util.
     rbind (ok_or (get_borrow_rate F (rate_model m) util) (Arithmetic Overflow)) (\<lambda>rate.
     let sup_rate = get_supply_rate F rate util (reserve_factor m) in
     rbind (if last_accrued s c < now_secs E
            then grow F m rate (total_borrows s c) (total_reserves s c) (borrow_index s c)
                   (now_secs E - last_accrued s c)
            else Inr (total_borrows s c, total_reserves s c, borrow_index s c))
       (\<lambda>(borrows, reserves, index).
     rbind (calculate_exchange_rate F (total_supply s c) cash borrows reserves) (\<lambda>xrate.
     Inr \<lparr>ir_borrow_rate = rate, ir_supply_rate = sup_rate, ir_exchange_rate = xrate,
          ir_utilization = util, ir_total_borrows = borrows, ir_total_reserves = reserves,
          ir_borrow_index = index\<rparr>)))))"

definition update_last_accrued_interest_time :: "currency \<Rightarrow> nat \<Rightarrow> 'l lend_state \<Rightarrow> 'l lend_state" where
  "update_last_accrued_interest_time c t s = s\<lparr>last_accrued := (last_accrued s)(c := t)\<rparr>"

definition store_rates :: "currency \<Rightarrow> interest_rates \<Rightarrow> 'l lend_state \<Rightarrow> 'l lend_state" where
  "store_rates c r s = s\<lparr>
     total_borrows := (total_borrows s)(c := ir_total_borrows r),
     total_reserves := (total_reserves s)(c := ir_total_reserves r),
     borrow_index := (borrow_index s)(c := ir_borrow_index r),
     utilization_ratios := (utilization_ratios s)(c := ir_utilization r),
     borrow_rates := (borrow_rates s)(c := ir_borrow_rate r),
     supply_rates := (supply_rates s)(c := ir_supply_rate r),
     exchange_rates := (exchange_rates s)(c := ir_exchange_rate r)\<rparr>"

definition accrue_interest ::
  "fixed_ops \<Rightarrow> 'l lend_config \<Rightarrow> lend_env \<Rightarrow> currency \<Rightarrow> 'l lend_state \<Rightarrow> 'l lend_state lend_result" where
  "accrue_interest F C E c s =
     (let now = now_secs E; last_time = last_accrued s c in
      if last_time = 0 then Inr (update_last_accrued_interest_time c now s)
      else if now \<le> last_time then Inr s
      else rbind (get_market_status F C E s c) (\<lambda>r.
             Inr (store_rates c r (update_last_accrued_interest_time c now s))))"

section \<open>Amounts of underlying and voucher tokens\<close>

definition calc_underlying_amount :: "fixed_ops \<Rightarrow> nat \<Rightarrow> nat \<Rightarrow> nat lend_result" where
  "calc_underlying_amount F voucher_amount rate =
     ok_or (fx_mul_int F rate voucher_amount) (Arithmetic Overflow)"

definition calc_collateral_amount :: "fixed_ops \<Rightarrow> nat \<Rightarrow> nat \<Rightarrow> nat lend_result" where
  "calc_collateral_amount F underlying_amount rate =
     ok_or (fx_div F underlying_amount rate) (Arithmetic Underflow)"

definition current_borrow_balance ::
  "fixed_ops \<Rightarrow> 'l lend_state \<Rightarrow> account \<Rightarrow> currency \<Rightarrow> nat lend_result" where
  "current_borrow_balance F s who c =
     (let snap = account_borrows s c who in
      if principal snap = 0 \<or> snapshot_index snap = 0 then Inr 0
      else ok_or (Option.bind (fx_div F (borrow_index s c) (snapshot_index snap))
             (\<lambda>r. fx_mul_int F r (principal snap))) (Arithmetic Overflow))"

definition update_earned_stored ::
  "fixed_ops \<Rightarrow> account \<Rightarrow> currency \<Rightarrow> nat \<Rightarrow> 'l lend_state \<Rightarrow> 'l lend_state lend_result" where
  "update_earned_stored F who c rate s =
     (let earned = account_earned s c who in
      rbind (ok_or (Option.bind (checked_sub rate (exchange_rate_prior earned)) (\<lambda>r.
          Option.bind (fx_mul_int F r (voucher_balance (deposits_of s c who))) (\<lambda>r.
          checked_add r (total_earned_prior earned)))) (Arithmetic Overflow)) (\<lambda>n.
      Inr (s\<lparr>account_earned := (account_earned s)(c := (account_earned s c)
             (who := \<lparr>total_earned_prior = n, exchange_rate_prior = rate\<rparr>))\<rparr>)))"

section \<open>Rewards\<close>

definition reward_scale :: nat where "reward_scale = 10 ^ 12"

text \<open>The products are those of \<open>BigUint\<close>; only the result must fit a \<open>u128\<close>.\<close>

definition calculate_reward_delta_index :: "nat \<Rightarrow> nat \<Rightarrow> nat \<Rightarrow> nat lend_result" where
  "calculate_reward_delta_index delta_block speed total_share =
     (if total_share = 0 then Inr 0
      else ok_or (chk u128_max (delta_block * speed * reward_scale div total_share)) (Arithmetic Overflow))"

definition calculate_reward_delta :: "nat \<Rightarrow> nat \<Rightarrow> nat lend_result" where
  "calculate_reward_delta share delta_index =
     ok_or (chk u128_max (share * delta_index div reward_scale)) (Arithmetic Overflow)"

text \<open>An amount of debt without the interest since the market opened.\<close>

definition base_borrow :: "fixed_ops \<Rightarrow> nat \<Rightarrow> nat \<Rightarrow> nat lend_result" where
  "base_borrow F index amount =
     ok_or (Option.bind (fx_reciprocal F index) (\<lambda>r. fx_mul_int F r amount)) (Arithmetic Overflow)"

definition update_reward_supply_index ::
  "lend_env \<Rightarrow> currency \<Rightarrow> 'l lend_state \<Rightarrow> 'l lend_state lend_result" where
  "update_reward_supply_index E c s =
     (let st = reward_supply_state s c; delta_block = saturating_sub (current_block E) (reward_block st);
          speed = reward_supply_speed s c in
      if delta_block = 0 then Inr s
      else
        rbind (if speed \<noteq> 0
               then rbind (calculate_reward_delta_index delta_block speed (total_supply s c)) (\<lambda>d.
                      ok_or (checked_add (reward_index st) d) (Arithmetic Overflow))
               else Inr (reward_index st)) (\<lambda>i.
        Inr (s\<lparr>reward_supply_state := (reward_supply_state s)
               (c := \<lparr>reward_index = i, reward_block = current_block E\<rparr>)\<rparr>)))"

definition update_reward_borrow_index ::
  "fixed_ops \<Rightarrow> lend_env \<Rightarrow> currency \<Rightarrow> 'l lend_state \<Rightarrow> 'l lend_state lend_result" where
  "update_reward_borrow_index F E c s =
     (let st = reward_borrow_state s c; delta_block = saturating_sub (current_block E) (reward_block st);
          speed = reward_borrow_speed s c in
      if delta_block = 0 then Inr s
      else
        rbind (if speed \<noteq> 0
               then rbind (base_borrow F (borrow_index s c) (total_borrows s c)) (\<lambda>base.
                    rbind (calculate_reward_delta_index delta_block speed base) (\<lambda>d.
                      ok_or (checked_add (reward_index st) d) (Arithmetic Overflow)))
               else Inr (reward_index st)) (\<lambda>i.
        Inr (s\<lparr>reward_borrow_state := (reward_borrow_state s)
               (c := \<lparr>reward_index = i, reward_block = current_block E\<rparr>)\<rparr>)))"

definition distribute_supplier_reward ::
  "currency \<Rightarrow> account \<Rightarrow> 'l lend_state \<Rightarrow> 'l lend_state lend_result" where
  "distribute_supplier_reward c who s =
     (let i = reward_index (reward_supply_state s c) in
      rbind (ok_or (checked_sub i (reward_supplier_index s c who)) (Arithmetic Underflow)) (\<lambda>delta_index.
      rbind (calculate_reward_delta (voucher_balance (deposits_of s c who)) delta_index) (\<lambda>reward_delta.
      rbind (ok_or (checked_add (reward_accrued s who) reward_delta) (Arithmetic Overflow)) (\<lambda>n.
      Inr (emit (DistributedSupplierReward c who reward_delta i)
        (s\<lparr>reward_supplier_index := (reward_supplier_index s)(c := (reward_supplier_index s c)(who := i)),
           reward_accrued := (reward_accrued s)(who := n)\<rparr>))))))"

definition distribute_borrower_reward ::
  "fixed_ops \<Rightarrow> currency \<Rightarrow> account \<Rightarrow> 'l lend_state \<Rightarrow> 'l lend_state lend_result" where
  "distribute_borrower_reward F c who s =
     (let i = reward_index (reward_borrow_state s c) in
      rbind (ok_or (checked_sub i (reward_borrower_index s c who)) (Arithmetic Underflow)) (\<lambda>delta_index.
      rbind (current_borrow_balance F s who c) (\<lambda>amount.
      rbind (base_borrow F (borrow_index s c) amount) (\<lambda>base.
      rbind (calculate_reward_delta base delta_index) (\<lambda>reward_delta.
      rbind (ok_or (checked_add (reward_accrued s who) reward_delta) (Arithmetic Overflow)) (\<lambda>n.
      Inr (emit (DistributedBorrowerReward c who reward_delta i)
        (s\<lparr>reward_borrower_index := (reward_borrower_index s)(c := (reward_borrower_index s c)(who := i)),
           reward_accrued := (reward_accrued s)(who := n)\<rparr>))))))))"

definition collect_market_reward ::
  "fixed_ops \<Rightarrow> lend_env \<Rightarrow> currency \<Rightarrow> account \<Rightarrow> 'l lend_state \<Rightarrow> 'l lend_state lend_result" where
  "collect_market_reward F E c who s =
     rbind (update_reward_supply_index E c s) (\<lambda>s1.
     rbind (distribute_supplier_reward c who s1) (\<lambda>s2.
     rbind (update_reward_borrow_index F E c s2) (\<lambda>s3.
     distribute_borrower_reward F c who s3)))"

definition pay_reward :: "'l lend_config \<Rightarrow> account \<Rightarrow> 'l lend_state \<Rightarrow> 'l lend_state lend_result" where
  "pay_reward C who s =
     (let total_reward = reward_accrued s who in
      rbind (if 0 < total_reward
             then rbind (asset_transfer C (reward_asset_id C) (farming_account C) who total_reward Preserve s)
                    (\<lambda>s1. Inr (s1\<lparr>reward_accrued := (reward_accrued s1)(who := 0)\<rparr>))
             else Inr s)
        (\<lambda>s1. Inr (emit (RewardPaid who total_reward) s1)))"

end
