(* ===== verification/Lend_Market.thy ===== *)
theory Lend_Market
  imports Lend_Interest
begin

text \<open>
  The checks of the lend market, \<open>pallets/lend-market/src/lib.rs\<close>: prices and values, an account's
  liquidity under the collateral factor and under the liquidation threshold, and the guards of
  redeeming, borrowing and liquidating, including those of the liquidation-free collaterals and of the
  market bonds. A value is the inner integer of a \<open>FixedU128\<close>.
\<close>

section \<open>Prices and values\<close>

definition get_lend_price :: "lend_env \<Rightarrow> currency \<Rightarrow> nat lend_result" where
  "get_lend_price E c =
     rbind (ok_or (oracle_price E c) (Module PriceOracleNotReady)) (\<lambda>(price, _).
       if price = 0 then Inl (Module PriceIsZero) else Inr price)"

definition get_asset_value :: "fixed_ops \<Rightarrow> lend_env \<Rightarrow> currency \<Rightarrow> nat \<Rightarrow> nat lend_result" where
  "get_asset_value F E c amount =
     rbind (get_lend_price E c) (\<lambda>price. ok_or (fx_mul F price amount) (Arithmetic Overflow))"

text \<open>
  The value of a deposit counted with a factor: the collateral factor in \<open>collateral_asset_value\<close>, the
  liquidation threshold in \<open>liquidation_threshold_asset_value\<close>. The first prices also an amount of zero.
\<close>

definition current_collateral_balance ::
  "fixed_ops \<Rightarrow> 'l lend_config \<Rightarrow> 'l lend_state \<Rightarrow> account \<Rightarrow> currency \<Rightarrow> nat lend_result" where
  "current_collateral_balance F C s who c =
     (if account_deposits s c who = None then Inr 0
      else
        let d = deposits_of s c who in
        if \<not> is_collateral d then Inr 0
        else if voucher_balance d = 0 then Inr 0
        else
          rbind (exchange_rate_stored F C s c) (\<lambda>rate.
          rbind (calc_underlying_amount F (voucher_balance d) rate) (\<lambda>amount.
          rbind (market_of s c) (\<lambda>m.
          Inr (perm_mul_ceil F (collateral_factor m) amount)))))"

definition collateral_asset_value ::
  "fixed_ops \<Rightarrow> 'l lend_config \<Rightarrow> lend_env \<Rightarrow> 'l lend_state \<Rightarrow> account \<Rightarrow> currency \<Rightarrow> nat lend_result" where
  "collateral_asset_value F C E s who c =
     rbind (current_collateral_balance F C s who c) (\<lambda>amount. get_asset_value F E c amount)"

definition liquidation_threshold_asset_value ::
  "fixed_ops \<Rightarrow> 'l lend_config \<Rightarrow> lend_env \<Rightarrow> 'l lend_state \<Rightarrow> account \<Rightarrow> currency \<Rightarrow> nat lend_result" where
  "liquidation_threshold_asset_value F C E s who c =
     (if account_deposits s c who = None then Inr 0
      else
        let d = deposits_of s c who in
        if \<not> is_collateral d then Inr 0
        else if voucher_balance d = 0 then Inr 0
        else
          rbind (exchange_rate_stored F C s c) (\<lambda>rate.
          rbind (calc_underlying_amount F (voucher_balance d) rate) (\<lambda>amount.
          rbind (market_of s c) (\<lambda>m.
          get_asset_value F E c (perm_mul_ceil F (liq_threshold m) amount)))))"

text \<open>The loop \<open>total = total.checked_add(&value(asset)?)\<close> over a list of assets.\<close>

definition sum_values :: "(currency \<Rightarrow> nat lend_result) \<Rightarrow> currency list \<Rightarrow> nat lend_result" where
  "sum_values val cs =
     rfold (\<lambda>c acc. rbind (val c) (\<lambda>v. ok_or (checked_add acc v) (Arithmetic Overflow))) cs 0"

definition active_assets :: "'l lend_state \<Rightarrow> currency list" where
  "active_assets s = map fst (active_markets s)"

definition lf_assets :: "'l lend_state \<Rightarrow> currency list" where
  "lf_assets s = filter (\<lambda>c. c \<in> set (liquidation_free_collaterals s)) (active_assets s)"

definition total_collateral_value ::
  "fixed_ops \<Rightarrow> 'l lend_config \<Rightarrow> lend_env \<Rightarrow> 'l lend_state \<Rightarrow> account \<Rightarrow> nat lend_result" where
  "total_collateral_value F C E s who =
     sum_values (collateral_asset_value F C E s who) (active_assets s)"

definition total_liquidation_threshold_value ::
  "fixed_ops \<Rightarrow> 'l lend_config \<Rightarrow> lend_env \<Rightarrow> 'l lend_state \<Rightarrow> account \<Rightarrow> nat lend_result" where
  "total_liquidation_threshold_value F C E s who =
     sum_values (liquidation_threshold_asset_value F C E s who) (active_assets s)"

definition total_borrowed_value ::
  "fixed_ops \<Rightarrow> lend_env \<Rightarrow> 'l lend_state \<Rightarrow> account \<Rightarrow> nat lend_result" where
  "total_borrowed_value F E s who =
     rfold (\<lambda>c acc. rbind (current_borrow_balance F s who c) (\<lambda>amount.
         if amount = 0 then Inr acc
         else rbind (get_asset_value F E c amount) (\<lambda>v. ok_or (checked_add v acc) (Arithmetic Overflow))))
       (active_assets s) 0"

definition get_lf_borrowed_value ::
  "fixed_ops \<Rightarrow> 'l lend_config \<Rightarrow> lend_env \<Rightarrow> 'l lend_state \<Rightarrow> account \<Rightarrow> nat lend_result" where
  "get_lf_borrowed_value F C E s who =
     rbind (current_borrow_balance F s who (liquidation_free_asset_id C))
       (get_asset_value F E (liquidation_free_asset_id C))"

definition get_lf_base_position ::
  "fixed_ops \<Rightarrow> 'l lend_config \<Rightarrow> lend_env \<Rightarrow> 'l lend_state \<Rightarrow> account \<Rightarrow> nat lend_result" where
  "get_lf_base_position F C E s who = sum_values (collateral_asset_value F C E s who) (lf_assets s)"

definition get_lf_liquidation_base_position ::
  "fixed_ops \<Rightarrow> 'l lend_config \<Rightarrow> lend_env \<Rightarrow> 'l lend_state \<Rightarrow> account \<Rightarrow> nat lend_result" where
  "get_lf_liquidation_base_position F C E s who =
     sum_values (liquidation_threshold_asset_value F C E s who) (lf_assets s)"

text \<open>The match on the two comparisons at the end of both liquidity functions.\<close>

definition liquidity_of :: "nat \<Rightarrow> nat \<Rightarrow> nat \<Rightarrow> nat \<Rightarrow> nat \<times> nat \<times> nat \<times> nat" where
  "liquidity_of borrowed collateral lf_borrowed lf_base =
     (if borrowed < collateral then
        if lf_borrowed < lf_base then (collateral - borrowed, 0, lf_base - lf_borrowed, 0)
        else (collateral - borrowed, 0, 0, lf_borrowed - lf_base)
      else
        if lf_borrowed < lf_base then (0, borrowed - collateral, lf_base - lf_borrowed, 0)
        else (0, borrowed - collateral, 0, lf_borrowed - lf_base))"

definition get_account_liquidity ::
  "fixed_ops \<Rightarrow> 'l lend_config \<Rightarrow> lend_env \<Rightarrow> 'l lend_state \<Rightarrow> account \<Rightarrow>
     (nat \<times> nat \<times> nat \<times> nat) lend_result" where
  "get_account_liquidity F C E s who =
     rbind (total_borrowed_value F E s who) (\<lambda>borrowed.
     rbind (total_collateral_value F C E s who) (\<lambda>collateral.
     rbind (get_lf_borrowed_value F C E s who) (\<lambda>lf_borrowed.
     rbind (get_lf_base_position F C E s who) (\<lambda>lf_base.
     Inr (liquidity_of borrowed collateral lf_borrowed lf_base)))))"

definition get_account_liquidation_threshold_liquidity ::
  "fixed_ops \<Rightarrow> 'l lend_config \<Rightarrow> lend_env \<Rightarrow> 'l lend_state \<Rightarrow> account \<Rightarrow>
     (nat \<times> nat \<times> nat \<times> nat) lend_result" where
  "get_account_liquidation_threshold_liquidity F C E s who =
     rbind (total_borrowed_value F E s who) (\<lambda>borrowed.
     rbind (total_liquidation_threshold_value F C E s who) (\<lambda>collateral.
     rbind (get_lf_borrowed_value F C E s who) (\<lambda>lf_borrowed.
     rbind (get_lf_liquidation_base_position F C E s who) (\<lambda>lf_base.
     Inr (liquidity_of borrowed collateral lf_borrowed lf_base)))))"

section \<open>Guards\<close>

definition ensure_under_supply_cap ::
  "'l lend_config \<Rightarrow> 'l lend_state \<Rightarrow> currency \<Rightarrow> nat \<Rightarrow> unit lend_result" where
  "ensure_under_supply_cap C s c amount =
     rbind (market_of s c) (\<lambda>m.
     rbind (ok_or (checked_add (as_balance (assets C) (lend_ledger s) c (lend_account C)) amount)
       (Arithmetic Overflow)) (\<lambda>total_cash.
     ensure (total_cash \<le> supply_cap m) (Module SupplyCapacityExceeded)))"

definition ensure_under_borrow_cap :: "'l lend_state \<Rightarrow> currency \<Rightarrow> nat \<Rightarrow> unit lend_result" where
  "ensure_under_borrow_cap s c amount =
     rbind (market_of s c) (\<lambda>m.
     rbind (ok_or (checked_add (total_borrows s c) amount) (Arithmetic Overflow)) (\<lambda>new_total.
     ensure (new_total \<le> borrow_cap m) (Module BorrowCapacityExceeded)))"

definition ensure_enough_cash ::
  "'l lend_config \<Rightarrow> 'l lend_state \<Rightarrow> currency \<Rightarrow> nat \<Rightarrow> unit lend_result" where
  "ensure_enough_cash C s c amount =
     rbind (ok_or (checked_sub (get_total_cash C s c) (total_reserves s c)) (Arithmetic Underflow))
       (\<lambda>reducible_cash. if reducible_cash < amount then Inl (Module InsufficientCash) else Inr ())"

text \<open>The sum in the second test is the plain addition of two \<open>FixedU128\<close> values.\<close>

definition ensure_liquidity ::
  "fixed_ops \<Rightarrow> 'l lend_config \<Rightarrow> lend_env \<Rightarrow> 'l lend_state \<Rightarrow> account \<Rightarrow> nat \<Rightarrow> bool \<Rightarrow> unit lend_result" where
  "ensure_liquidity F C E s who reduce_amount lf_enable =
     rbind (get_account_liquidity F C E s who) (\<lambda>(total_liquidity, _, lf_liquidity, _).
       if lf_enable \<and> reduce_amount \<le> max total_liquidity lf_liquidity then Inr ()
       else if \<not> lf_enable \<and> wrapping_add lf_liquidity reduce_amount \<le> total_liquidity then Inr ()
       else Inl (Module InsufficientLiquidity))"

definition ensure_liquidity_for_market_bond ::
  "fixed_ops \<Rightarrow> 'l lend_config \<Rightarrow> lend_env \<Rightarrow> 'l lend_state \<Rightarrow> currency \<Rightarrow> account \<Rightarrow> nat \<Rightarrow>
     unit lend_result" where
  "ensure_liquidity_for_market_bond F C E s c who reduce_amount =
     rbind (ok_or (market_bond s c) (Module MarketBondDoesNotExist)) (\<lambda>collaterals.
     rbind (current_borrow_balance F s who c) (\<lambda>amount.
     rbind (get_asset_value F E c amount) (\<lambda>borrowed.
     rbind (sum_values (collateral_asset_value F C E s who) collaterals) (\<lambda>collateral.
     rbind (ok_or (checked_sub collateral borrowed) (Arithmetic Underflow)) (\<lambda>total_liquidity.
     if reduce_amount \<le> total_liquidity then Inr () else Inl (Module InsufficientLiquidity))))))"

text \<open>One market of the loop of \<open>ensure_liquidity_for_withdraw_market_bond\<close>.\<close>

definition withdraw_keeps_bond ::
  "fixed_ops \<Rightarrow> 'l lend_config \<Rightarrow> lend_env \<Rightarrow> 'l lend_state \<Rightarrow> currency \<Rightarrow> account \<Rightarrow> nat \<Rightarrow> currency \<Rightarrow>
     unit lend_result" where
  "withdraw_keeps_bond F C E s c who redeem_voucher_amount borrow_asset =
     (case market_bond s borrow_asset of
        None \<Rightarrow> Inr ()
      | Some collaterals \<Rightarrow>
          if c \<notin> set collaterals then Inr ()
          else
            rbind (current_borrow_balance F s who borrow_asset) (\<lambda>amount.
            if amount = 0 then Inr ()
            else
              rbind (get_asset_value F E borrow_asset amount) (\<lambda>borrow_value.
              let d = deposits_of s c who in
              if \<not> is_collateral d then Inr ()
              else
                rbind (exchange_rate_stored F C s c) (\<lambda>rate.
                rbind (calc_underlying_amount F (voucher_balance d) rate) (\<lambda>current_underlying.
                rbind (calc_underlying_amount F redeem_voucher_amount rate) (\<lambda>redeem_underlying.
                rbind (ok_or (checked_sub current_underlying redeem_underlying) (Arithmetic Underflow))
                  (\<lambda>remaining.
                rbind (market_of s c) (\<lambda>m.
                rbind (get_asset_value F E c (perm_mul_ceil F (collateral_factor m) remaining))
                  (\<lambda>remaining_value.
                if remaining_value < borrow_value then Inl (Module InsufficientLiquidity)
                else Inr ())))))))))"

definition ensure_liquidity_for_withdraw_market_bond ::
  "fixed_ops \<Rightarrow> 'l lend_config \<Rightarrow> lend_env \<Rightarrow> 'l lend_state \<Rightarrow> currency \<Rightarrow> account \<Rightarrow> nat \<Rightarrow>
     unit lend_result" where
  "ensure_liquidity_for_withdraw_market_bond F C E s c who n =
     rfold (\<lambda>b _. withdraw_keeps_bond F C E s c who n b) (active_assets s) ()"

definition redeem_allowed ::
  "fixed_ops \<Rightarrow> 'l lend_config \<Rightarrow> lend_env \<Rightarrow> 'l lend_state \<Rightarrow> currency \<Rightarrow> account \<Rightarrow> nat \<Rightarrow>
     unit lend_result" where
  "redeem_allowed F C E s c who voucher_amount =
     (let d = deposits_of s c who in
      if voucher_balance d < voucher_amount then Inl (Module InsufficientDeposit)
      else
        rbind (exchange_rate_stored F C s c) (\<lambda>rate.
        rbind (calc_underlying_amount F voucher_amount rate) (\<lambda>redeem_amount.
        rbind (ensure_enough_cash C s c redeem_amount) (\<lambda>_.
        if \<not> is_collateral d then Inr ()
        else
          rbind (market_of s c) (\<lambda>m.
          rbind (get_asset_value F E c (perm_mul_ceil F (collateral_factor m) redeem_amount)) (\<lambda>v.
          rbind (ensure_liquidity F C E s who v (c \<in> set (liquidation_free_collaterals s))) (\<lambda>_.
          ensure_liquidity_for_withdraw_market_bond F C E s c who voucher_amount)))))))"

definition borrow_allowed ::
  "fixed_ops \<Rightarrow> 'l lend_config \<Rightarrow> lend_env \<Rightarrow> 'l lend_state \<Rightarrow> currency \<Rightarrow> account \<Rightarrow> nat \<Rightarrow>
     unit lend_result" where
  "borrow_allowed F C E s c who amount =
     rbind (ensure_under_borrow_cap s c amount) (\<lambda>_.
     rbind (ensure_enough_cash C s c amount) (\<lambda>_.
     rbind (get_asset_value F E c amount) (\<lambda>v.
     ensure_liquidity F C E s who v (c = liquidation_free_asset_id C))))"

definition borrow_allowed_for_market_bond ::
  "fixed_ops \<Rightarrow> 'l lend_config \<Rightarrow> lend_env \<Rightarrow> 'l lend_state \<Rightarrow> currency \<Rightarrow> account \<Rightarrow> nat \<Rightarrow>
     unit lend_result" where
  "borrow_allowed_for_market_bond F C E s c who amount =
     rbind (ensure_under_borrow_cap s c amount) (\<lambda>_.
     rbind (ensure_enough_cash C s c amount) (\<lambda>_.
     rbind (get_asset_value F E c amount) (\<lambda>v.
     ensure_liquidity_for_market_bond F C E s c who v)))"

definition liquidate_borrow_allowed ::
  "fixed_ops \<Rightarrow> 'l lend_config \<Rightarrow> lend_env \<Rightarrow> 'l lend_state \<Rightarrow> account \<Rightarrow> currency \<Rightarrow> nat \<Rightarrow> market \<Rightarrow>
     unit lend_result" where
  "liquidate_borrow_allowed F C E s debtor c repay_amount m =
     rbind (get_account_liquidation_threshold_liquidity F C E s debtor)
       (\<lambda>(liquidity, shortfall, lf_liquidity, _).
     if shortfall = 0 \<and> lf_liquidity \<le> liquidity then Inl (Module InsufficientShortfall)
     else
       rbind (current_borrow_balance F s debtor c) (\<lambda>account_borrow.
       rbind (get_asset_value F E c account_borrow) (\<lambda>account_borrows_value.
       rbind (get_asset_value F E c repay_amount) (\<lambda>repay_value.
       rbind (if c = liquidation_free_asset_id C
              then rbind (get_lf_base_position F C E s debtor) (\<lambda>base_position.
                     Inr (if base_position < account_borrows_value
                          then account_borrows_value - base_position else 0))
              else Inr account_borrows_value) (\<lambda>effects_borrows_value.
       if perm_mul_ceil F (close_factor m) effects_borrows_value < repay_value
       then Inl (Module TooMuchRepay) else Inr ())))))"

end
