(* ===== verification/Lend_Actions.thy ===== *)
theory Lend_Actions
  imports Lend_Market
begin

text \<open>
  The operations of the lend market that move tokens and debts, \<open>pallets/lend-market/src/lib.rs\<close>: minting,
  redeeming, borrowing, repaying, switching collateral and liquidating, statement by statement in the
  order of the source. All of them run in a storage transaction, so an error discards the state.
\<close>

section \<open>Deposits\<close>

definition do_mint ::
  "fixed_ops \<Rightarrow> 'l lend_config \<Rightarrow> lend_env \<Rightarrow> account \<Rightarrow> currency \<Rightarrow> nat \<Rightarrow> 'l lend_state \<Rightarrow>
     'l lend_state lend_result" where
  "do_mint F C E who c amount s =
     rbind (ensure (amount \<noteq> 0) (Module InvalidAmount)) (\<lambda>_.
     rbind (ensure_active_market s c) (\<lambda>_.
     rbind (ensure_under_supply_cap C s c amount) (\<lambda>_.
     rbind (accrue_interest F C E c s) (\<lambda>s1.
     rbind (update_reward_supply_index E c s1) (\<lambda>s2.
     rbind (distribute_supplier_reward c who s2) (\<lambda>s3.
     rbind (exchange_rate_stored F C s3 c) (\<lambda>rate.
     rbind (update_earned_stored F who c rate s3) (\<lambda>s4.
     rbind (calc_collateral_amount F amount rate) (\<lambda>voucher_amount.
     rbind (ensure (voucher_amount \<noteq> 0) (Module InvalidExchangeRate)) (\<lambda>_.
     rbind (asset_transfer C c who (lend_account C) amount Expendable s4) (\<lambda>s5.
     let d = deposits_of s5 c who in
     rbind (ok_or (checked_add (voucher_balance d) voucher_amount) (Arithmetic Overflow)) (\<lambda>v.
     let s6 = put_deposits c who (Some (d\<lparr>voucher_balance := v\<rparr>)) s5 in
     rbind (ok_or (checked_add (total_supply s6 c) voucher_amount) (Arithmetic Overflow)) (\<lambda>n.
     Inr (emit (Deposited who c amount) (put_total_supply c n s6)))))))))))))))"

text \<open>Take vouchers off a deposit; an empty one is removed, with its collateral flag.\<close>

definition take_vouchers ::
  "currency \<Rightarrow> account \<Rightarrow> nat \<Rightarrow> 'l lend_state \<Rightarrow> 'l lend_state lend_result" where
  "take_vouchers c who amount s =
     (let d = deposits_of s c who in
      rbind (ok_or (checked_sub (voucher_balance d) amount) (Arithmetic Underflow)) (\<lambda>v.
      Inr (put_deposits c who (if v = 0 then None else Some (d\<lparr>voucher_balance := v\<rparr>)) s)))"

definition do_redeem_voucher ::
  "fixed_ops \<Rightarrow> 'l lend_config \<Rightarrow> lend_env \<Rightarrow> account \<Rightarrow> currency \<Rightarrow> nat \<Rightarrow> 'l lend_state \<Rightarrow>
     (nat \<times> 'l lend_state) lend_result" where
  "do_redeem_voucher F C E who c voucher_amount s =
     rbind (redeem_allowed F C E s c who voucher_amount) (\<lambda>_.
     rbind (update_reward_supply_index E c s) (\<lambda>s1.
     rbind (distribute_supplier_reward c who s1) (\<lambda>s2.
     rbind (exchange_rate_stored F C s2 c) (\<lambda>rate.
     rbind (calc_underlying_amount F voucher_amount rate) (\<lambda>redeem_amount.
     rbind (take_vouchers c who voucher_amount s2) (\<lambda>s3.
     rbind (ok_or (checked_sub (total_supply s3 c) voucher_amount) (Arithmetic Underflow)) (\<lambda>n.
     (case asset_transfer C c (lend_account C) who redeem_amount Expendable (put_total_supply c n s3) of
        Inl _ \<Rightarrow> Inl (Module InsufficientCash)
      | Inr s4 \<Rightarrow> Inr (redeem_amount, s4)))))))))"

definition do_redeem ::
  "fixed_ops \<Rightarrow> 'l lend_config \<Rightarrow> lend_env \<Rightarrow> account \<Rightarrow> currency \<Rightarrow> nat \<Rightarrow> 'l lend_state \<Rightarrow>
     'l lend_state lend_result" where
  "do_redeem F C E who c amount s =
     rbind (ensure_active_market s c) (\<lambda>_.
     rbind (accrue_interest F C E c s) (\<lambda>s1.
     rbind (exchange_rate_stored F C s1 c) (\<lambda>rate.
     rbind (update_earned_stored F who c rate s1) (\<lambda>s2.
     rbind (calc_collateral_amount F amount rate) (\<lambda>voucher_amount.
     rbind (do_redeem_voucher F C E who c voucher_amount s2) (\<lambda>(redeem_amount, s3).
     Inr (emit (Redeemed who c redeem_amount) s3)))))))"

definition do_redeem_all ::
  "fixed_ops \<Rightarrow> 'l lend_config \<Rightarrow> lend_env \<Rightarrow> account \<Rightarrow> currency \<Rightarrow> 'l lend_state \<Rightarrow>
     (nat \<times> 'l lend_state) lend_result" where
  "do_redeem_all F C E who c s =
     rbind (ensure_active_market s c) (\<lambda>_.
     rbind (accrue_interest F C E c s) (\<lambda>s1.
     rbind (exchange_rate_stored F C s1 c) (\<lambda>rate.
     rbind (update_earned_stored F who c rate s1) (\<lambda>s2.
     rbind (do_redeem_voucher F C E who c (voucher_balance (deposits_of s2 c who)) s2)
       (\<lambda>(redeem_amount, s3).
     Inr (redeem_amount, emit (Redeemed who c redeem_amount) s3))))))"

definition do_collateral_asset ::
  "fixed_ops \<Rightarrow> 'l lend_config \<Rightarrow> lend_env \<Rightarrow> account \<Rightarrow> currency \<Rightarrow> bool \<Rightarrow> 'l lend_state \<Rightarrow>
     'l lend_state lend_result" where
  "do_collateral_asset F C E who c enable s =
     rbind (ensure_active_market s c) (\<lambda>_.
     rbind (ensure (account_deposits s c who \<noteq> None) (Module NoDeposit)) (\<lambda>_.
     let d = deposits_of s c who in
     if enable then
       Inr (emit (CollateralAssetAdded who c) (put_deposits c who (Some (d\<lparr>is_collateral := True\<rparr>)) s))
     else
       rbind (total_collateral_value F C E s who) (\<lambda>total_value.
       rbind (collateral_asset_value F C E s who c) (\<lambda>asset_value.
       rbind (total_borrowed_value F E s who) (\<lambda>borrowed_value.
       rbind (ok_or (checked_add borrowed_value asset_value) (Arithmetic Overflow)) (\<lambda>needed.
       if total_value < needed then Inl (Module InsufficientLiquidity)
       else Inr (emit (CollateralAssetRemoved who c)
              (put_deposits c who (Some (d\<lparr>is_collateral := False\<rparr>)) s))))))))"

section \<open>Debts\<close>

definition do_borrow ::
  "fixed_ops \<Rightarrow> 'l lend_config \<Rightarrow> lend_env \<Rightarrow> account \<Rightarrow> currency \<Rightarrow> nat \<Rightarrow> 'l lend_state \<Rightarrow>
     'l lend_state lend_result" where
  "do_borrow F C E who c amount s =
     rbind (ensure_active_market s c) (\<lambda>_.
     rbind (accrue_interest F C E c s) (\<lambda>s1.
     rbind (borrow_allowed_for_market_bond F C E s1 c who amount) (\<lambda>_.
     rbind (borrow_allowed F C E s1 c who amount) (\<lambda>_.
     rbind (update_reward_borrow_index F E c s1) (\<lambda>s2.
     rbind (distribute_borrower_reward F c who s2) (\<lambda>s3.
     rbind (current_borrow_balance F s3 who c) (\<lambda>account_borrow.
     rbind (ok_or (checked_add account_borrow amount) (Arithmetic Overflow)) (\<lambda>account_new.
     rbind (ok_or (checked_add (total_borrows s3 c) amount) (Arithmetic Overflow)) (\<lambda>total_new.
     rbind (asset_transfer C c (lend_account C) who amount Expendable
         (put_total_borrows c total_new (put_borrow c who account_new (borrow_index s3 c) s3))) (\<lambda>s4.
     Inr (emit (Borrowed who c amount) s4)))))))))))"

definition do_repay_borrow_with_amount ::
  "fixed_ops \<Rightarrow> 'l lend_config \<Rightarrow> lend_env \<Rightarrow> account \<Rightarrow> currency \<Rightarrow> nat \<Rightarrow> nat \<Rightarrow> 'l lend_state \<Rightarrow>
     'l lend_state lend_result" where
  "do_repay_borrow_with_amount F C E who c account_borrow repay_amount s =
     (if account_borrow < repay_amount then Inl (Module TooMuchRepay)
      else
        rbind (update_reward_borrow_index F E c s) (\<lambda>s1.
        rbind (distribute_borrower_reward F c who s1) (\<lambda>s2.
        rbind (asset_transfer C c who (lend_account C) repay_amount Expendable s2) (\<lambda>s3.
        rbind (ok_or (checked_sub account_borrow repay_amount) (Arithmetic Underflow)) (\<lambda>account_new.
        let total_new = saturating_sub (total_borrows s3 c) repay_amount in
        Inr (put_total_borrows c total_new (put_borrow c who account_new (borrow_index s3 c) s3)))))))"

definition do_repay_borrow ::
  "fixed_ops \<Rightarrow> 'l lend_config \<Rightarrow> lend_env \<Rightarrow> account \<Rightarrow> currency \<Rightarrow> nat \<Rightarrow> 'l lend_state \<Rightarrow>
     'l lend_state lend_result" where
  "do_repay_borrow F C E who c amount s =
     rbind (ensure_active_market s c) (\<lambda>_.
     rbind (accrue_interest F C E c s) (\<lambda>s1.
     rbind (current_borrow_balance F s1 who c) (\<lambda>account_borrow.
     rbind (do_repay_borrow_with_amount F C E who c account_borrow amount s1) (\<lambda>s2.
     Inr (emit (RepaidBorrow who c amount) s2)))))"

section \<open>Liquidation\<close>

text \<open>\<open>AccountDeposits::try_mutate\<close> of the value query: the entry exists afterwards, even when it is empty.\<close>

definition sub_vouchers :: "currency \<Rightarrow> account \<Rightarrow> nat \<Rightarrow> 'l lend_state \<Rightarrow> 'l lend_state lend_result" where
  "sub_vouchers c who amount s =
     (let d = deposits_of s c who in
      rbind (ok_or (checked_sub (voucher_balance d) amount) (Arithmetic Underflow)) (\<lambda>v.
      Inr (put_deposits c who (Some (d\<lparr>voucher_balance := v\<rparr>)) s)))"

definition add_vouchers :: "currency \<Rightarrow> account \<Rightarrow> nat \<Rightarrow> 'l lend_state \<Rightarrow> 'l lend_state lend_result" where
  "add_vouchers c who amount s =
     (let d = deposits_of s c who in
      rbind (ok_or (checked_add (voucher_balance d) amount) (Arithmetic Overflow)) (\<lambda>v.
      Inr (put_deposits c who (Some (d\<lparr>voucher_balance := v\<rparr>)) s)))"

text \<open>The liquidator's part is a plain subtraction, which wraps in the release build.\<close>

definition liquidated_transfer ::
  "fixed_ops \<Rightarrow> 'l lend_config \<Rightarrow> lend_env \<Rightarrow> account \<Rightarrow> account \<Rightarrow> currency \<Rightarrow> currency \<Rightarrow> nat \<Rightarrow> nat \<Rightarrow>
     market \<Rightarrow> 'l lend_state \<Rightarrow> 'l lend_state lend_result" where
  "liquidated_transfer F C E liquidator debtor c coll repay_amount underlying_amount m s =
     rbind (update_reward_borrow_index F E c s) (\<lambda>s1.
     rbind (distribute_borrower_reward F c liquidator s1) (\<lambda>s2.
     rbind (asset_transfer C c liquidator (lend_account C) repay_amount Expendable s2) (\<lambda>s3.
     rbind (current_borrow_balance F s3 debtor c) (\<lambda>account_borrow.
     rbind (ok_or (checked_sub account_borrow repay_amount) (Arithmetic Underflow)) (\<lambda>account_new.
     rbind (ok_or (checked_sub (total_borrows s3 c) repay_amount) (Arithmetic Underflow)) (\<lambda>total_new.
     let s4 = put_total_borrows c total_new (put_borrow c debtor account_new (borrow_index s3 c) s3) in
     rbind (update_reward_supply_index E coll s4) (\<lambda>s5.
     rbind (distribute_supplier_reward coll liquidator s5) (\<lambda>s6.
     rbind (distribute_supplier_reward coll debtor s6) (\<lambda>s7.
     rbind (distribute_supplier_reward coll (incentive_account C) s7) (\<lambda>s8.
     rbind (exchange_rate_stored F C s8 coll) (\<lambda>rate.
     rbind (calc_collateral_amount F underlying_amount rate) (\<lambda>collateral_amount.
     rbind (sub_vouchers coll debtor collateral_amount s8) (\<lambda>s9.
     rbind (ok_or (fx_div F collateral_amount (liquidate_incentive m)) (Arithmetic Underflow)) (\<lambda>q.
     let reserved = perm_mul_floor F (liquidate_incentive_reserved_factor m) q in
     rbind (add_vouchers coll liquidator (wrapping_sub collateral_amount reserved) s9) (\<lambda>s10.
     rbind (add_vouchers coll (incentive_account C) reserved s10) (\<lambda>s11.
     Inr (emit (LiquidatedBorrow liquidator debtor c coll repay_amount underlying_amount) s11)))))))))))))))))"

definition do_liquidate_borrow ::
  "fixed_ops \<Rightarrow> 'l lend_config \<Rightarrow> lend_env \<Rightarrow> account \<Rightarrow> account \<Rightarrow> currency \<Rightarrow> nat \<Rightarrow> currency \<Rightarrow>
     'l lend_state \<Rightarrow> 'l lend_state lend_result" where
  "do_liquidate_borrow F C E liquidator debtor c repay_amount coll s =
     rbind (ensure_active_market s c) (\<lambda>_.
     rbind (ensure_active_market s coll) (\<lambda>_.
     rbind (market_of s c) (\<lambda>m.
     if debtor = liquidator then Inl (Module LiquidatorIsBorrower)
     else
       rbind (liquidate_borrow_allowed F C E s debtor c repay_amount m) (\<lambda>_.
       let d = deposits_of s coll debtor in
       if \<not> is_collateral d then Inl (Module DepositsAreNotCollateral)
       else
         rbind (exchange_rate_stored F C s coll) (\<lambda>rate.
         rbind (ok_or (fx_mul_int F rate (voucher_balance d)) (Arithmetic Overflow)) (\<lambda>deposit_amount.
         rbind (get_asset_value F E coll deposit_amount) (\<lambda>collateral_value.
         rbind (get_asset_value F E c repay_amount) (\<lambda>repay_value.
         rbind (ok_or (fx_mul F repay_value (liquidate_incentive m)) (Arithmetic Overflow))
           (\<lambda>liquidate_value.
         if collateral_value < liquidate_value then Inl (Module LendInsufficientCollateral)
         else
           rbind (get_lend_price E coll) (\<lambda>price.
           rbind (ok_or (fx_div F liquidate_value price) (Arithmetic Underflow)) (\<lambda>underlying_amount.
           liquidated_transfer F C E liquidator debtor c coll repay_amount underlying_amount m s)))))))))))"

end
