(* ===== verification/Lend_Token.thy ===== *)
theory Lend_Token
  imports Lend_Actions
begin

text \<open>
  The vouchers of the lend market as a token, \<open>pallets/lend-market/src/lend_token.rs\<close>: the read-only
  functions of \<open>fungibles::Inspect\<close> and the transfer of vouchers between accounts.
\<close>

datatype deposit_consequence = DepositUnknownAsset | DepositOverflow | DepositBelowMinimum | DepositSuccess

datatype withdraw_consequence =
    WithdrawUnknownAsset | WithdrawBalanceLow | WithdrawReducedToZero nat | WithdrawSuccess

definition lt_total_issuance :: "'l lend_state \<Rightarrow> currency \<Rightarrow> nat" where
  "lt_total_issuance s lend_token =
     (case underlying_asset s lend_token of Some c \<Rightarrow> total_supply s c | None \<Rightarrow> 0)"

definition lt_minimum_balance :: "currency \<Rightarrow> nat" where
  "lt_minimum_balance lend_token = 0"

definition lt_balance :: "'l lend_state \<Rightarrow> currency \<Rightarrow> account \<Rightarrow> nat" where
  "lt_balance s lend_token who =
     (case underlying_asset s lend_token of
        Some c \<Rightarrow> voucher_balance (deposits_of s c who) | None \<Rightarrow> 0)"

text \<open>\<open>total_balance\<close> is \<open>todo!()\<close> in the source: it panics.\<close>

definition lt_total_balance :: "currency \<Rightarrow> account \<Rightarrow> nat lend_result" where
  "lt_total_balance lend_token who = Inl Panic"

definition reducible_asset ::
  "fixed_ops \<Rightarrow> 'l lend_config \<Rightarrow> lend_env \<Rightarrow> 'l lend_state \<Rightarrow> currency \<Rightarrow> account \<Rightarrow> nat lend_result" where
  "reducible_asset F C E s lend_token who =
     rbind (underlying_id s lend_token) (\<lambda>c.
     let d = deposits_of s c who in
     if \<not> is_collateral d then Inr (voucher_balance d)
     else
       rbind (ensure_active_market s c) (\<lambda>m.
       rbind (collateral_asset_value F C E s who c) (\<lambda>collateral_value.
       rbind (get_account_liquidity F C E s who) (\<lambda>(liquidity, _, _, _).
       if collateral_value \<le> liquidity then Inr (voucher_balance d)
       else
         rbind (get_lend_price E c) (\<lambda>price.
         rbind (ok_or (fx_div F liquidity (fx_of_perm F (collateral_factor m))) (Arithmetic Overflow))
           (\<lambda>supply_value.
         rbind (ok_or (fx_div F supply_value price) (Arithmetic Underflow)) (\<lambda>underlying_amount.
         calc_collateral_amount F underlying_amount (exchange_rates s c))))))))"

definition lt_reducible_balance ::
  "fixed_ops \<Rightarrow> 'l lend_config \<Rightarrow> lend_env \<Rightarrow> 'l lend_state \<Rightarrow> currency \<Rightarrow> account \<Rightarrow> nat" where
  "lt_reducible_balance F C E s lend_token who =
     (case reducible_asset F C E s lend_token who of Inr n \<Rightarrow> n | Inl _ \<Rightarrow> 0)"

definition lt_can_deposit :: "'l lend_state \<Rightarrow> currency \<Rightarrow> account \<Rightarrow> nat \<Rightarrow> deposit_consequence" where
  "lt_can_deposit s lend_token who amount =
     (case underlying_asset s lend_token of
        None \<Rightarrow> DepositUnknownAsset
      | Some c \<Rightarrow>
          if \<not> is_ok (ensure_active_market s c) then DepositUnknownAsset
          else if checked_add (total_supply s c) amount = None then DepositOverflow
          else if wrapping_add (lt_balance s lend_token who) amount < lt_minimum_balance lend_token
               then DepositBelowMinimum
          else DepositSuccess)"

definition lt_can_withdraw :: "'l lend_state \<Rightarrow> currency \<Rightarrow> account \<Rightarrow> nat \<Rightarrow> withdraw_consequence" where
  "lt_can_withdraw s lend_token who amount =
     (case underlying_asset s lend_token of
        None \<Rightarrow> WithdrawUnknownAsset
      | Some c \<Rightarrow>
          if \<not> is_ok (ensure_active_market s c) then WithdrawUnknownAsset
          else (case checked_sub (lt_balance s lend_token who) amount of
                  None \<Rightarrow> WithdrawBalanceLow
                | Some rest \<Rightarrow>
                    if rest < lt_minimum_balance lend_token then WithdrawReducedToZero rest
                    else WithdrawSuccess))"

definition lt_asset_exists :: "'l lend_state \<Rightarrow> currency \<Rightarrow> bool" where
  "lt_asset_exists s lend_token = is_ok (underlying_id s lend_token)"

text \<open>The reward index and the rewards are taken under the id of the lend token, as in the source.\<close>

definition do_transfer_lend_tokens ::
  "lend_env \<Rightarrow> currency \<Rightarrow> account \<Rightarrow> account \<Rightarrow> nat \<Rightarrow> 'l lend_state \<Rightarrow> 'l lend_state lend_result" where
  "do_transfer_lend_tokens E lend_token source dest amount s =
     rbind (update_reward_supply_index E lend_token s) (\<lambda>s1.
     rbind (distribute_supplier_reward lend_token source s1) (\<lambda>s2.
     rbind (distribute_supplier_reward lend_token dest s2) (\<lambda>s3.
     rbind (underlying_id s3 lend_token) (\<lambda>c.
     rbind (take_vouchers c source amount s3) (\<lambda>s4.
     add_vouchers c dest amount s4)))))"

definition lend_token_transfer ::
  "fixed_ops \<Rightarrow> 'l lend_config \<Rightarrow> lend_env \<Rightarrow> currency \<Rightarrow> account \<Rightarrow> account \<Rightarrow> nat \<Rightarrow> 'l lend_state \<Rightarrow>
     (nat \<times> 'l lend_state) lend_result" where
  "lend_token_transfer F C E lend_token source dest amount s =
     rbind (ensure (amount \<le> lt_reducible_balance F C E s lend_token source)
       (Module LendInsufficientCollateral)) (\<lambda>_.
     rbind (do_transfer_lend_tokens E lend_token source dest amount s) (\<lambda>s1. Inr (amount, s1)))"

end
