(* ===== verification/Lend_Calls.thy ===== *)
theory Lend_Calls
  imports Lend_Token
begin

text \<open>
  The dispatchable calls of the lend market, \<open>pallets/lend-market/src/lib.rs\<close>, the functions other
  pallets call through its traits, and the steps of the market: a successful call in some environment, or a
  transfer of voucher tokens or assets.
\<close>

section \<open>Governance of the markets\<close>

definition ensure_update_origin :: "'l lend_config \<Rightarrow> origin \<Rightarrow> unit lend_result" where
  "ensure_update_origin C o1 = ensure (update_origin C o1) BadOrigin"

definition ensure_reserve_origin :: "'l lend_config \<Rightarrow> origin \<Rightarrow> unit lend_result" where
  "ensure_reserve_origin C o1 = ensure (reserve_origin C o1) BadOrigin"

definition lookup_source :: "'l lend_config \<Rightarrow> nat \<Rightarrow> account lend_result" where
  "lookup_source C src = ok_or (lookup_account C src) CannotLookup"

definition add_market ::
  "'l lend_config \<Rightarrow> origin \<Rightarrow> currency \<Rightarrow> market \<Rightarrow> 'l lend_state \<Rightarrow> 'l lend_state lend_result" where
  "add_market C o1 c m s =
     rbind (ensure_update_origin C o1) (\<lambda>_.
     rbind (ensure (length (markets s) < max_markets) (Module TooManyMarkets)) (\<lambda>_.
     rbind (ensure (map_of (markets s) c = None) (Module MarketAlreadyExists)) (\<lambda>_.
     rbind (ensure (market_state m = MarketPending) (Module NewMarketMustHavePendingState)) (\<lambda>_.
     rbind (ensure (check_model (rate_model m)) (Module InvalidRateModelParam)) (\<lambda>_.
     rbind (ensure (0 \<le> collateral_factor m \<and> collateral_factor m < perm_one)
       (Module InvalidFactor)) (\<lambda>_.
     rbind (ensure (liq_threshold m < perm_one \<and> collateral_factor m \<le> liq_threshold m)
       (Module InvalidFactor)) (\<lambda>_.
     rbind (ensure (0 < reserve_factor m \<and> reserve_factor m < perm_one) (Module InvalidFactor)) (\<lambda>_.
     rbind (ensure (0 < liquidate_incentive_reserved_factor m \<and>
         liquidate_incentive_reserved_factor m < perm_one) (Module InvalidFactor)) (\<lambda>_.
     rbind (ensure (0 < supply_cap m) (Module InvalidSupplyCap)) (\<lambda>_.
     rbind (ensure_lend_token s (market_lend_token m)) (\<lambda>_.
     let s1 = put_market C c m s;
         s2 = s1\<lparr>underlying_asset := (underlying_asset s1)(market_lend_token m \<mapsto> c)\<rparr>;
         s3 = s2\<lparr>exchange_rates := (exchange_rates s2)(c := min_exchange_rate)\<rparr>;
         s4 = s3\<lparr>borrow_index := (borrow_index s3)(c := fx_one)\<rparr> in
     Inr (emit (NewMarket c m) s4))))))))))))"

definition activate_market ::
  "'l lend_config \<Rightarrow> origin \<Rightarrow> currency \<Rightarrow> 'l lend_state \<Rightarrow> 'l lend_state lend_result" where
  "activate_market C o1 c s =
     rbind (ensure_update_origin C o1) (\<lambda>_.
     rbind (mutate_market C c
         (\<lambda>m. if market_state m = MarketActive then m else m\<lparr>market_state := MarketActive\<rparr>) s) (\<lambda>(_, s1).
     Inr (emit (ActivatedMarket c) s1)))"

definition update_rate_model ::
  "'l lend_config \<Rightarrow> origin \<Rightarrow> currency \<Rightarrow> interest_rate_model \<Rightarrow> 'l lend_state \<Rightarrow>
     'l lend_state lend_result" where
  "update_rate_model C o1 c rm s =
     rbind (ensure_update_origin C o1) (\<lambda>_.
     rbind (ensure (check_model rm) (Module InvalidRateModelParam)) (\<lambda>_.
     rbind (mutate_market C c (\<lambda>m. m\<lparr>rate_model := rm\<rparr>) s) (\<lambda>(m, s1).
     Inr (emit (UpdatedMarket c m) s1))))"

definition unwrap_or :: "'a option \<Rightarrow> 'a \<Rightarrow> 'a" where
  "unwrap_or x d = (case x of Some v \<Rightarrow> v | None \<Rightarrow> d)"

definition update_market ::
  "'l lend_config \<Rightarrow> origin \<Rightarrow> currency \<Rightarrow> nat option \<Rightarrow> nat option \<Rightarrow> nat option \<Rightarrow> nat option \<Rightarrow>
     nat option \<Rightarrow> nat option \<Rightarrow> nat option \<Rightarrow> nat option \<Rightarrow> 'l lend_state \<Rightarrow> 'l lend_state lend_result" where
  "update_market C o1 c o_cf o_lt o_rf o_close o_reserved o_incentive o_supply o_borrow s =
     rbind (ensure_update_origin C o1) (\<lambda>_.
     rbind (market_of s c) (\<lambda>m.
     let cf = unwrap_or o_cf (collateral_factor m);
         lt = unwrap_or o_lt (liq_threshold m);
         rf = unwrap_or o_rf (reserve_factor m);
         close = unwrap_or o_close (close_factor m);
         reserved = unwrap_or o_reserved (liquidate_incentive_reserved_factor m);
         incentive = unwrap_or o_incentive (liquidate_incentive m);
         sup = unwrap_or o_supply (supply_cap m);
         bor = unwrap_or o_borrow (borrow_cap m) in
     rbind (ensure (0 \<le> cf \<and> cf < perm_one) (Module InvalidFactor)) (\<lambda>_.
     rbind (ensure (cf \<le> lt \<and> lt < perm_one) (Module InvalidFactor)) (\<lambda>_.
     rbind (ensure (0 < rf \<and> rf < perm_one) (Module InvalidFactor)) (\<lambda>_.
     rbind (ensure (0 < sup) (Module InvalidSupplyCap)) (\<lambda>_.
     rbind (mutate_market C c (\<lambda>m. m\<lparr>collateral_factor := cf, liq_threshold := lt, reserve_factor := rf,
         close_factor := close, liquidate_incentive := incentive,
         liquidate_incentive_reserved_factor := reserved, supply_cap := sup, borrow_cap := bor\<rparr>) s)
       (\<lambda>(m', s1). Inr (emit (UpdatedMarket c m') s1))))))))"

definition force_update_market ::
  "'l lend_config \<Rightarrow> origin \<Rightarrow> currency \<Rightarrow> market \<Rightarrow> 'l lend_state \<Rightarrow> 'l lend_state lend_result" where
  "force_update_market C o1 c m s =
     rbind (ensure_update_origin C o1) (\<lambda>_.
     rbind (ensure (check_model (rate_model m)) (Module InvalidRateModelParam)) (\<lambda>_.
     rbind (if underlying_asset s (market_lend_token m) \<noteq> None
            then rbind (underlying_id s (market_lend_token m)) (\<lambda>u.
                   ensure (u = c) (Module InvalidLendTokenId))
            else Inr ()) (\<lambda>_.
     let s1 = s\<lparr>underlying_asset := (underlying_asset s)(market_lend_token m \<mapsto> c)\<rparr> in
     rbind (mutate_market C c (\<lambda>_. m) s1) (\<lambda>(m', s2).
     Inr (emit (UpdatedMarket c m') s2)))))"

definition update_liquidation_free_collateral ::
  "'l lend_config \<Rightarrow> origin \<Rightarrow> currency list \<Rightarrow> 'l lend_state \<Rightarrow> 'l lend_state lend_result" where
  "update_liquidation_free_collateral C o1 cs s =
     rbind (ensure_update_origin C o1) (\<lambda>_.
     rbind (ensure (length cs \<le> max_length_limit C) (Module ConversionError)) (\<lambda>_.
     Inr (emit (LiquidationFreeCollateralsUpdated cs) (s\<lparr>liquidation_free_collaterals := cs\<rparr>))))"

definition add_market_bond ::
  "'l lend_config \<Rightarrow> origin \<Rightarrow> currency \<Rightarrow> currency list \<Rightarrow> 'l lend_state \<Rightarrow> 'l lend_state lend_result" where
  "add_market_bond C o1 c cs s =
     rbind (ensure_update_origin C o1) (\<lambda>_.
     rbind (ensure (length cs \<le> max_length_limit C) (Module ConversionError)) (\<lambda>_.
     Inr (emit (MarketBonded c cs) (s\<lparr>market_bond := (market_bond s)(c \<mapsto> cs)\<rparr>))))"

section \<open>Rewards\<close>

definition add_reward ::
  "'l lend_config \<Rightarrow> origin \<Rightarrow> nat \<Rightarrow> 'l lend_state \<Rightarrow> 'l lend_state lend_result" where
  "add_reward C o1 amount s =
     rbind (ensure_signed o1) (\<lambda>who.
     rbind (ensure (amount \<noteq> 0) (Module InvalidAmount)) (\<lambda>_.
     rbind (asset_transfer C (reward_asset_id C) who (farming_account C) amount Preserve s) (\<lambda>s1.
     Inr (emit (RewardAdded who amount) s1))))"

definition withdraw_missing_reward ::
  "'l lend_config \<Rightarrow> origin \<Rightarrow> nat \<Rightarrow> nat \<Rightarrow> 'l lend_state \<Rightarrow> 'l lend_state lend_result" where
  "withdraw_missing_reward C o1 target amount s =
     rbind (ensure_update_origin C o1) (\<lambda>_.
     rbind (ensure (amount \<noteq> 0) (Module InvalidAmount)) (\<lambda>_.
     rbind (lookup_source C target) (\<lambda>target_account.
     rbind (asset_transfer C (reward_asset_id C) (farming_account C) target_account amount Preserve s) (\<lambda>s1.
     Inr (emit (RewardWithdrawn target_account amount) s1)))))"

definition update_market_reward_speed ::
  "fixed_ops \<Rightarrow> 'l lend_config \<Rightarrow> lend_env \<Rightarrow> origin \<Rightarrow> currency \<Rightarrow> nat option \<Rightarrow> nat option \<Rightarrow> 'l lend_state \<Rightarrow>
     'l lend_state lend_result" where
  "update_market_reward_speed F C E o1 c o_supply o_borrow s =
     rbind (ensure_update_origin C o1) (\<lambda>_.
     rbind (ensure_active_market s c) (\<lambda>_.
     let current_supply_speed = reward_supply_speed s c;
         current_borrow_speed = reward_borrow_speed s c;
         sup = unwrap_or o_supply current_supply_speed;
         bor = unwrap_or o_borrow current_borrow_speed in
     rbind (if sup \<noteq> current_supply_speed
            then rbind (update_reward_supply_index E c s) (\<lambda>s1.
                   Inr (s1\<lparr>reward_supply_speed := (reward_supply_speed s1)(c := sup)\<rparr>))
            else Inr s) (\<lambda>s1.
     rbind (if bor \<noteq> current_borrow_speed
            then rbind (update_reward_borrow_index F E c s1) (\<lambda>s2.
                   Inr (s2\<lparr>reward_borrow_speed := (reward_borrow_speed s2)(c := bor)\<rparr>))
            else Inr s1) (\<lambda>s2.
     Inr (emit (MarketRewardSpeedUpdated c sup bor) s2)))))"

definition claim_reward ::
  "fixed_ops \<Rightarrow> 'l lend_config \<Rightarrow> lend_env \<Rightarrow> origin \<Rightarrow> 'l lend_state \<Rightarrow> 'l lend_state lend_result" where
  "claim_reward F C E o1 s =
     rbind (ensure_signed o1) (\<lambda>who.
     rbind (rfold (\<lambda>c. collect_market_reward F E c who) (map fst (markets s)) s) (\<lambda>s1.
     pay_reward C who s1))"

definition claim_reward_for_market ::
  "fixed_ops \<Rightarrow> 'l lend_config \<Rightarrow> lend_env \<Rightarrow> origin \<Rightarrow> currency \<Rightarrow> 'l lend_state \<Rightarrow>
     'l lend_state lend_result" where
  "claim_reward_for_market F C E o1 c s =
     rbind (ensure_signed o1) (\<lambda>who.
     rbind (collect_market_reward F E c who s) (\<lambda>s1.
     pay_reward C who s1))"

section \<open>Calls of the users\<close>

definition mint ::
  "fixed_ops \<Rightarrow> 'l lend_config \<Rightarrow> lend_env \<Rightarrow> origin \<Rightarrow> currency \<Rightarrow> nat \<Rightarrow> 'l lend_state \<Rightarrow>
     'l lend_state lend_result" where
  "mint F C E o1 c amount s = rbind (ensure_signed o1) (\<lambda>who. do_mint F C E who c amount s)"

definition redeem ::
  "fixed_ops \<Rightarrow> 'l lend_config \<Rightarrow> lend_env \<Rightarrow> origin \<Rightarrow> currency \<Rightarrow> nat \<Rightarrow> 'l lend_state \<Rightarrow>
     'l lend_state lend_result" where
  "redeem F C E o1 c amount s =
     rbind (ensure_signed o1) (\<lambda>who.
     rbind (ensure (amount \<noteq> 0) (Module InvalidAmount)) (\<lambda>_.
     do_redeem F C E who c amount s))"

definition redeem_all ::
  "fixed_ops \<Rightarrow> 'l lend_config \<Rightarrow> lend_env \<Rightarrow> origin \<Rightarrow> currency \<Rightarrow> 'l lend_state \<Rightarrow>
     'l lend_state lend_result" where
  "redeem_all F C E o1 c s =
     rbind (ensure_signed o1) (\<lambda>who.
     rbind (do_redeem_all F C E who c s) (\<lambda>(_, s1). Inr s1))"

definition borrow ::
  "fixed_ops \<Rightarrow> 'l lend_config \<Rightarrow> lend_env \<Rightarrow> origin \<Rightarrow> currency \<Rightarrow> nat \<Rightarrow> 'l lend_state \<Rightarrow>
     'l lend_state lend_result" where
  "borrow F C E o1 c amount s = rbind (ensure_signed o1) (\<lambda>who. do_borrow F C E who c amount s)"

definition repay_borrow ::
  "fixed_ops \<Rightarrow> 'l lend_config \<Rightarrow> lend_env \<Rightarrow> origin \<Rightarrow> currency \<Rightarrow> nat \<Rightarrow> 'l lend_state \<Rightarrow>
     'l lend_state lend_result" where
  "repay_borrow F C E o1 c amount s =
     rbind (ensure_signed o1) (\<lambda>who. do_repay_borrow F C E who c amount s)"

definition repay_borrow_all ::
  "fixed_ops \<Rightarrow> 'l lend_config \<Rightarrow> lend_env \<Rightarrow> origin \<Rightarrow> currency \<Rightarrow> 'l lend_state \<Rightarrow>
     'l lend_state lend_result" where
  "repay_borrow_all F C E o1 c s =
     rbind (ensure_signed o1) (\<lambda>who.
     rbind (ensure_active_market s c) (\<lambda>_.
     rbind (accrue_interest F C E c s) (\<lambda>s1.
     rbind (current_borrow_balance F s1 who c) (\<lambda>account_borrow.
     do_repay_borrow F C E who c account_borrow s1))))"

definition collateral_asset ::
  "fixed_ops \<Rightarrow> 'l lend_config \<Rightarrow> lend_env \<Rightarrow> origin \<Rightarrow> currency \<Rightarrow> bool \<Rightarrow> 'l lend_state \<Rightarrow>
     'l lend_state lend_result" where
  "collateral_asset F C E o1 c enable s =
     rbind (ensure_signed o1) (\<lambda>who.
     rbind (ensure_active_market s c) (\<lambda>_.
     rbind (ensure (account_deposits s c who \<noteq> None) (Module NoDeposit)) (\<lambda>_.
     if is_collateral (deposits_of s c who) = enable then Inl (Module DuplicateOperation)
     else do_collateral_asset F C E who c enable s)))"

definition liquidate_borrow ::
  "fixed_ops \<Rightarrow> 'l lend_config \<Rightarrow> lend_env \<Rightarrow> origin \<Rightarrow> account \<Rightarrow> currency \<Rightarrow> nat \<Rightarrow> currency \<Rightarrow>
     'l lend_state \<Rightarrow> 'l lend_state lend_result" where
  "liquidate_borrow F C E o1 debtor c repay_amount coll s =
     rbind (ensure_signed o1) (\<lambda>who.
     rbind (ensure (coll \<notin> set (liquidation_free_collaterals s)) (Module CollateralReserved)) (\<lambda>_.
     rbind (accrue_interest F C E c s) (\<lambda>s1.
     rbind (accrue_interest F C E coll s1) (\<lambda>s2.
     do_liquidate_borrow F C E who debtor c repay_amount coll s2))))"

section \<open>Reserves\<close>

definition add_reserves ::
  "'l lend_config \<Rightarrow> origin \<Rightarrow> nat \<Rightarrow> currency \<Rightarrow> nat \<Rightarrow> 'l lend_state \<Rightarrow> 'l lend_state lend_result" where
  "add_reserves C o1 src c add_amount s =
     rbind (ensure_reserve_origin C o1) (\<lambda>_.
     rbind (lookup_source C src) (\<lambda>payer.
     rbind (ensure_active_market s c) (\<lambda>_.
     rbind (asset_transfer C c payer (lend_account C) add_amount Expendable s) (\<lambda>s1.
     rbind (ok_or (checked_add (total_reserves s1 c) add_amount) (Arithmetic Overflow)) (\<lambda>n.
     Inr (emit (ReservesAdded payer c add_amount n) (put_total_reserves c n s1)))))))"

definition reduce_reserves ::
  "'l lend_config \<Rightarrow> origin \<Rightarrow> nat \<Rightarrow> currency \<Rightarrow> nat \<Rightarrow> 'l lend_state \<Rightarrow> 'l lend_state lend_result" where
  "reduce_reserves C o1 dst c reduce_amount s =
     rbind (ensure_reserve_origin C o1) (\<lambda>_.
     rbind (lookup_source C dst) (\<lambda>receiver.
     rbind (ensure_active_market s c) (\<lambda>_.
     if total_reserves s c < reduce_amount then Inl (Module InsufficientReserves)
     else
       rbind (ok_or (checked_sub (total_reserves s c) reduce_amount) (Arithmetic Underflow)) (\<lambda>n.
       rbind (asset_transfer C c (lend_account C) receiver reduce_amount Expendable
           (put_total_reserves c n s)) (\<lambda>s1.
       Inr (emit (ReservesReduced receiver c reduce_amount n) s1))))))"

definition reduce_incentive_reserves ::
  "fixed_ops \<Rightarrow> 'l lend_config \<Rightarrow> lend_env \<Rightarrow> origin \<Rightarrow> nat \<Rightarrow> currency \<Rightarrow> nat \<Rightarrow> 'l lend_state \<Rightarrow>
     'l lend_state lend_result" where
  "reduce_incentive_reserves F C E o1 dst c amount s =
     rbind (ensure_reserve_origin C o1) (\<lambda>_.
     rbind (ensure (amount \<noteq> 0) (Module InvalidAmount)) (\<lambda>_.
     rbind (lookup_source C dst) (\<lambda>receiver.
     rbind (ensure_active_market s c) (\<lambda>_.
     rbind (exchange_rate_stored F C s c) (\<lambda>rate.
     rbind (calc_collateral_amount F amount rate) (\<lambda>voucher_amount.
     rbind (do_redeem_voucher F C E (incentive_account C) c voucher_amount s) (\<lambda>(redeem_amount, s1).
     rbind (asset_transfer C c (incentive_account C) receiver redeem_amount Expendable s1) (\<lambda>s2.
     Inr (emit (IncentiveReservesReduced receiver c redeem_amount) s2)))))))))"

section \<open>Functions for other pallets\<close>

record market_info =
  mi_collateral_factor :: nat
  mi_liquidation_threshold :: nat
  mi_reserve_factor :: nat
  mi_close_factor :: nat
  mi_full_rate :: nat

definition get_full_interest_rate :: "'l lend_state \<Rightarrow> currency \<Rightarrow> nat option" where
  "get_full_interest_rate s c =
     (case market_of s c of
        Inr m \<Rightarrow> (case rate_model m of Jump j \<Rightarrow> Some (full_rate j) | _ \<Rightarrow> None)
      | Inl _ \<Rightarrow> None)"

definition get_market_info :: "'l lend_state \<Rightarrow> currency \<Rightarrow> market_info lend_result" where
  "get_market_info s c =
     rbind (market_of s c) (\<lambda>m.
     rbind (ok_or (get_full_interest_rate s c) (Module InvalidRateModelParam)) (\<lambda>r.
     Inr \<lparr>mi_collateral_factor = collateral_factor m, mi_liquidation_threshold = liq_threshold m,
          mi_reserve_factor = reserve_factor m, mi_close_factor = close_factor m, mi_full_rate = r\<rparr>))"

definition get_current_borrow_balance ::
  "fixed_ops \<Rightarrow> 'l lend_config \<Rightarrow> lend_env \<Rightarrow> account \<Rightarrow> currency \<Rightarrow> 'l lend_state \<Rightarrow>
     (nat \<times> 'l lend_state) lend_result" where
  "get_current_borrow_balance F C E who c s =
     rbind (accrue_interest F C E c s) (\<lambda>s1.
     rbind (current_borrow_balance F s1 who c) (\<lambda>n. Inr (n, s1)))"

definition get_current_collateral_balance ::
  "fixed_ops \<Rightarrow> 'l lend_config \<Rightarrow> 'l lend_state \<Rightarrow> account \<Rightarrow> currency \<Rightarrow> nat lend_result" where
  "get_current_collateral_balance F C s who c = current_collateral_balance F C s who c"


section \<open>The dispatch of the calls\<close>

text \<open>The calls in the order of their indices, with the arguments of the source.\<close>

datatype lend_call =
    AddMarket currency market
  | ActivateMarket currency
  | UpdateRateModel currency interest_rate_model
  | UpdateMarket currency "nat option" "nat option" "nat option" "nat option" "nat option" "nat option"
      "nat option" "nat option"
  | ForceUpdateMarket currency market
  | AddReward nat
  | WithdrawMissingReward nat nat
  | UpdateMarketRewardSpeed currency "nat option" "nat option"
  | ClaimReward
  | ClaimRewardForMarket currency
  | Mint currency nat
  | Redeem currency nat
  | RedeemAll currency
  | Borrow currency nat
  | RepayBorrow currency nat
  | RepayBorrowAll currency
  | CollateralAsset currency bool
  | LiquidateBorrow account currency nat currency
  | AddReserves nat currency nat
  | ReduceReserves nat currency nat
  | ReduceIncentiveReserves nat currency nat
  | UpdateLiquidationFreeCollateral "currency list"
  | AddMarketBond currency "currency list"

fun lend_dispatch ::
  "fixed_ops \<Rightarrow> 'l lend_config \<Rightarrow> lend_env \<Rightarrow> origin \<Rightarrow> lend_call \<Rightarrow> 'l lend_state \<Rightarrow>
     'l lend_state lend_result" where
  "lend_dispatch F C E o1 (AddMarket c m) s = add_market C o1 c m s"
| "lend_dispatch F C E o1 (ActivateMarket c) s = activate_market C o1 c s"
| "lend_dispatch F C E o1 (UpdateRateModel c rm) s = update_rate_model C o1 c rm s"
| "lend_dispatch F C E o1 (UpdateMarket c cf lt rf cl re li su bo) s =
     update_market C o1 c cf lt rf cl re li su bo s"
| "lend_dispatch F C E o1 (ForceUpdateMarket c m) s = force_update_market C o1 c m s"
| "lend_dispatch F C E o1 (AddReward n) s = add_reward C o1 n s"
| "lend_dispatch F C E o1 (WithdrawMissingReward dst n) s = withdraw_missing_reward C o1 dst n s"
| "lend_dispatch F C E o1 (UpdateMarketRewardSpeed c su bo) s =
     update_market_reward_speed F C E o1 c su bo s"
| "lend_dispatch F C E o1 ClaimReward s = claim_reward F C E o1 s"
| "lend_dispatch F C E o1 (ClaimRewardForMarket c) s = claim_reward_for_market F C E o1 c s"
| "lend_dispatch F C E o1 (Mint c n) s = mint F C E o1 c n s"
| "lend_dispatch F C E o1 (Redeem c n) s = redeem F C E o1 c n s"
| "lend_dispatch F C E o1 (RedeemAll c) s = redeem_all F C E o1 c s"
| "lend_dispatch F C E o1 (Borrow c n) s = borrow F C E o1 c n s"
| "lend_dispatch F C E o1 (RepayBorrow c n) s = repay_borrow F C E o1 c n s"
| "lend_dispatch F C E o1 (RepayBorrowAll c) s = repay_borrow_all F C E o1 c s"
| "lend_dispatch F C E o1 (CollateralAsset c b) s = collateral_asset F C E o1 c b s"
| "lend_dispatch F C E o1 (LiquidateBorrow who c n coll) s = liquidate_borrow F C E o1 who c n coll s"
| "lend_dispatch F C E o1 (AddReserves src c n) s = add_reserves C o1 src c n s"
| "lend_dispatch F C E o1 (ReduceReserves dst c n) s = reduce_reserves C o1 dst c n s"
| "lend_dispatch F C E o1 (ReduceIncentiveReserves dst c n) s =
     reduce_incentive_reserves F C E o1 dst c n s"
| "lend_dispatch F C E o1 (UpdateLiquidationFreeCollateral cs) s =
     update_liquidation_free_collateral C o1 cs s"
| "lend_dispatch F C E o1 (AddMarketBond c cs) s = add_market_bond C o1 c cs s"

text \<open>
  The parameters of a market within their types: a \<open>Permill\<close> never exceeds one.
\<close>

fun model_typed :: "interest_rate_model \<Rightarrow> bool" where
  "model_typed (Jump m) \<longleftrightarrow> jump_utilization m \<le> perm_one"
| "model_typed (Curve m) \<longleftrightarrow> True"

definition market_typed :: "market \<Rightarrow> bool" where
  "market_typed m \<longleftrightarrow> collateral_factor m \<le> perm_one \<and> liq_threshold m \<le> perm_one \<and>
     reserve_factor m \<le> perm_one \<and> close_factor m \<le> perm_one \<and>
     liquidate_incentive_reserved_factor m \<le> perm_one \<and> model_typed (rate_model m)"

definition opt_le :: "nat option \<Rightarrow> nat \<Rightarrow> bool" where
  "opt_le x n \<longleftrightarrow> (case x of None \<Rightarrow> True | Some v \<Rightarrow> v \<le> n)"

fun call_typed :: "lend_call \<Rightarrow> bool" where
  "call_typed (AddMarket c m) = market_typed m"
| "call_typed (UpdateRateModel c rm) = model_typed rm"
| "call_typed (UpdateMarket c cf lt rf cl re li su bo) =
     (opt_le cf perm_one \<and> opt_le lt perm_one \<and> opt_le rf perm_one \<and> opt_le cl perm_one \<and>
      opt_le re perm_one)"
| "call_typed (ForceUpdateMarket c m) = market_typed m"
| "call_typed _ = True"

text \<open>
  The steps of the lend market: a call that succeeded in some environment; the functions other pallets call
  through the traits, which unlike the calls also redeem nothing and switch a collateral flag to what it is; a
  transfer of vouchers; and a transfer of assets. No account but the pallet itself can move the pallet's
  funds, so neither signers nor payers are its account.
\<close>

inductive lend_step :: "fixed_ops \<Rightarrow> 'l lend_config \<Rightarrow> 'l lend_state \<Rightarrow> 'l lend_state \<Rightarrow> bool"
  for F C where
  call: "lend_dispatch F C E o1 x s = Inr t \<Longrightarrow> call_typed x \<Longrightarrow> o1 \<noteq> Signed (lend_account C) \<Longrightarrow>
    (\<And>src c n. x = AddReserves src c n \<Longrightarrow> lookup_account C src \<noteq> Some (lend_account C)) \<Longrightarrow>
    lend_step F C s t"
| trait_redeem: "do_redeem F C E who c n s = Inr t \<Longrightarrow> who \<noteq> lend_account C \<Longrightarrow> lend_step F C s t"
| trait_collateral: "do_collateral_asset F C E who c b s = Inr t \<Longrightarrow> lend_step F C s t"
| trait_balance: "get_current_borrow_balance F C E who c s = Inr (n, t) \<Longrightarrow> lend_step F C s t"
| vouchers: "lend_token_transfer F C E tok source dest n s = Inr (k, t) \<Longrightarrow> lend_step F C s t"
| outside: "asset_transfer C c a b n p s = Inr t \<Longrightarrow> a \<noteq> lend_account C \<Longrightarrow> lend_step F C s t"

inductive lend_reachable :: "fixed_ops \<Rightarrow> 'l lend_config \<Rightarrow> 'l lend_state \<Rightarrow> bool" for F C where
  init: "lend_reachable F C (initial_lend_state l)"
| step: "lend_reachable F C s \<Longrightarrow> lend_step F C s t \<Longrightarrow> lend_reachable F C t"

inductive_cases lend_stepE: "lend_step F C s t"

end
