(* ===== verification/Lend_Lemmas.thy ===== *)
theory Lend_Lemmas
  imports Lend_Calls
begin

text \<open>
  The case analysis of the lend market. A state has a core (ledger, supplies, borrows, reserves,
  deposits, indices, markets) that the checks and the exchange rate read; the reward bookkeeping leaves it
  alone. Each operation is described by what it does to the core, and every later proof goes through these
  rules.
\<close>

section \<open>Storage writes\<close>

lemma emit_simps [simp]:
  "last_accrued (emit e s) = last_accrued s"
  "liquidation_free_collaterals (emit e s) = liquidation_free_collaterals s"
  "total_supply (emit e s) = total_supply s" "total_borrows (emit e s) = total_borrows s"
  "total_reserves (emit e s) = total_reserves s" "account_borrows (emit e s) = account_borrows s"
  "account_deposits (emit e s) = account_deposits s" "account_earned (emit e s) = account_earned s"
  "borrow_index (emit e s) = borrow_index s" "markets (emit e s) = markets s"
  "underlying_asset (emit e s) = underlying_asset s" "market_bond (emit e s) = market_bond s"
  "lend_ledger (emit e s) = lend_ledger s" "reward_accrued (emit e s) = reward_accrued s"
  "reward_supply_state (emit e s) = reward_supply_state s"
  "reward_borrow_state (emit e s) = reward_borrow_state s"
  "reward_supplier_index (emit e s) = reward_supplier_index s"
  "reward_borrower_index (emit e s) = reward_borrower_index s"
  "reward_supply_speed (emit e s) = reward_supply_speed s"
  "reward_borrow_speed (emit e s) = reward_borrow_speed s"
  "exchange_rates (emit e s) = exchange_rates s"
  by (simp_all add: emit_def)

record 'l lend_core =
  k_ledger :: 'l
  k_supply :: "currency \<Rightarrow> nat"
  k_borrows :: "currency \<Rightarrow> nat"
  k_reserves :: "currency \<Rightarrow> nat"
  k_debts :: "currency \<Rightarrow> account \<Rightarrow> borrow_snapshot"
  k_deposits :: "currency \<Rightarrow> account \<Rightarrow> deposits option"
  k_index :: "currency \<Rightarrow> nat"
  k_markets :: "(currency \<times> market) list"
  k_underlying :: "currency \<Rightarrow> currency option"

definition core :: "'l lend_state \<Rightarrow> 'l lend_core" where
  "core s = \<lparr>k_ledger = lend_ledger s, k_supply = total_supply s, k_borrows = total_borrows s,
     k_reserves = total_reserves s, k_debts = account_borrows s, k_deposits = account_deposits s,
     k_index = borrow_index s, k_markets = markets s, k_underlying = underlying_asset s\<rparr>"

lemma core_eqD:
  assumes "core t = core s"
  shows "lend_ledger t = lend_ledger s" "total_supply t = total_supply s"
    "total_borrows t = total_borrows s" "total_reserves t = total_reserves s"
    "account_borrows t = account_borrows s" "account_deposits t = account_deposits s"
    "borrow_index t = borrow_index s" "markets t = markets s" "underlying_asset t = underlying_asset s"
  using assms by (simp_all add: core_def)

lemma core_emit [simp]: "core (emit e s) = core s"
  by (simp add: core_def)

named_theorems core_frame \<open>operations that leave the core alone\<close>

lemma core_update_supply_index [core_frame]:
  "update_reward_supply_index E c s = Inr t \<Longrightarrow> core t = core s"
  by (auto simp: update_reward_supply_index_def Let_def result_simps core_def split: if_splits)

lemma core_update_borrow_index [core_frame]:
  "update_reward_borrow_index F E c s = Inr t \<Longrightarrow> core t = core s"
  by (auto simp: update_reward_borrow_index_def Let_def result_simps core_def split: if_splits)

lemma core_distribute_supplier [core_frame]:
  "distribute_supplier_reward c who s = Inr t \<Longrightarrow> core t = core s"
  by (auto simp: distribute_supplier_reward_def Let_def result_simps core_def)

lemma core_distribute_borrower [core_frame]:
  "distribute_borrower_reward F c who s = Inr t \<Longrightarrow> core t = core s"
  by (auto simp: distribute_borrower_reward_def Let_def result_simps core_def)

lemma core_update_earned [core_frame]:
  "update_earned_stored F who c rate s = Inr t \<Longrightarrow> core t = core s"
  by (auto simp: update_earned_stored_def Let_def result_simps core_def)

lemma core_collect [core_frame]: "collect_market_reward F E c who s = Inr t \<Longrightarrow> core t = core s"
  by (auto simp: collect_market_reward_def result_simps dest!: core_frame)

section \<open>What depends on the core only\<close>

lemma deposits_of_cong: "core t = core s \<Longrightarrow> deposits_of t = deposits_of s"
  by (simp add: fun_eq_iff deposits_of_def core_eqD(6) [of t s])

lemma exchange_rate_cong: "core t = core s \<Longrightarrow> exchange_rate_stored F C t = exchange_rate_stored F C s"
  by (simp add: fun_eq_iff exchange_rate_stored_def get_total_cash_def core_def)

lemma borrow_balance_cong:
  assumes "core t = core s"
  shows "current_borrow_balance F t = current_borrow_balance F s"
  by (intro ext) (simp only: current_borrow_balance_def core_eqD [OF assms])

lemma borrow_balance_ledger [simp]:
  "current_borrow_balance F (s\<lparr>lend_ledger := l\<rparr>) = current_borrow_balance F s"
  by (intro ext) (simp add: current_borrow_balance_def Let_def cong: if_cong)

lemma asset_transfer_Inr [result_simps]:
  "asset_transfer C c a b n p s = Inr t \<longleftrightarrow>
     (\<exists>l. as_transfer (assets C) c a b n p (lend_ledger s) = Inr l \<and> t = s\<lparr>lend_ledger := l\<rparr>)"
  by (auto simp: asset_transfer_def split: sum.splits)

lemma deposits_of_put [simp]:
  "deposits_of (put_deposits c who d s) = (deposits_of s)
     (c := (deposits_of s c)(who := (case d of Some x \<Rightarrow> x | None \<Rightarrow> no_deposits)))"
  by (auto simp: deposits_of_def put_deposits_def fun_eq_iff split: option.splits)

text \<open>The writes of the core, on the core.\<close>

lemma core_puts [simp]:
  "core (put_deposits c who d s) = (core s)\<lparr>k_deposits := (account_deposits s)
     (c := (account_deposits s c)(who := d))\<rparr>"
  "core (put_borrow c who p i s) = (core s)\<lparr>k_debts := (account_borrows s)
     (c := (account_borrows s c)(who := \<lparr>principal = p, snapshot_index = i\<rparr>))\<rparr>"
  "core (put_total_borrows c n s) = (core s)\<lparr>k_borrows := (total_borrows s)(c := n)\<rparr>"
  "core (put_total_supply c n s) = (core s)\<lparr>k_supply := (total_supply s)(c := n)\<rparr>"
  "core (put_total_reserves c n s) = (core s)\<lparr>k_reserves := (total_reserves s)(c := n)\<rparr>"
  "core (s\<lparr>lend_ledger := l\<rparr>) = (core s)\<lparr>k_ledger := l\<rparr>"
  by (simp_all add: core_def put_deposits_def put_borrow_def put_total_borrows_def
      put_total_supply_def put_total_reserves_def)

lemma core_sel [simp]:
  "k_ledger (core s) = lend_ledger s" "k_supply (core s) = total_supply s"
  "k_borrows (core s) = total_borrows s" "k_reserves (core s) = total_reserves s"
  "k_debts (core s) = account_borrows s" "k_deposits (core s) = account_deposits s"
  "k_index (core s) = borrow_index s" "k_markets (core s) = markets s"
  "k_underlying (core s) = underlying_asset s"
  by (simp_all add: core_def)

lemma put_ledger [simp]:
  "lend_ledger (put_deposits c who d s) = lend_ledger s"
  "lend_ledger (put_borrow c who p i s) = lend_ledger s"
  "lend_ledger (put_total_borrows c n s) = lend_ledger s"
  "lend_ledger (put_total_supply c n s) = lend_ledger s"
  "lend_ledger (put_total_reserves c n s) = lend_ledger s"
  "total_supply (put_deposits c who d s) = total_supply s"
  "borrow_index (put_borrow c who p i s) = borrow_index s"
  "total_borrows (put_borrow c who p i s) = total_borrows s"
  "account_borrows (put_total_borrows c n s) = account_borrows s"
  "deposits_of (s\<lparr>lend_ledger := l\<rparr>) = deposits_of s"
  by (simp_all add: put_deposits_def put_borrow_def put_total_borrows_def
      put_total_supply_def put_total_reserves_def deposits_of_def fun_eq_iff)

section \<open>Accrual\<close>

lemma grow_Inr:
  "grow F m rate borrows reserves index dt = Inr (borrows', reserves', index') \<longleftrightarrow>
     (\<exists>interest inc. accrued_interest F rate borrows dt = Some interest \<and>
        interest + borrows \<le> u128_max \<and> borrows' = interest + borrows \<and>
        perm_mul_floor F (reserve_factor m) interest + reserves \<le> u128_max \<and>
        reserves' = perm_mul_floor F (reserve_factor m) interest + reserves \<and>
        increment_index F rate index dt = Some inc \<and> inc + index \<le> u128_max \<and> index' = inc + index)"
  by (auto simp: grow_def result_simps num_simps bind_eq_Some_conv)

lemma accrue_cases:
  assumes "accrue_interest F C E c s = Inr t"
  obtains (start) "last_accrued s c = 0" and "last_accrued t = (last_accrued s)(c := now_secs E)"
      and "core t = core s"
  | (late) "t = s"
  | (grown) m util rate interest inc xrate where
      "last_accrued s c \<noteq> 0" and "last_accrued s c < now_secs E"
      and "last_accrued t = (last_accrued s)(c := now_secs E)"
      and "map_of (markets s) c = Some m"
      and "calc_utilization_ratio F (get_total_cash C s c) (total_borrows s c) (total_reserves s c) = Inr util"
      and "get_borrow_rate F (rate_model m) util = Some rate"
      and "accrued_interest F rate (total_borrows s c) (now_secs E - last_accrued s c) = Some interest"
      and "increment_index F rate (borrow_index s c) (now_secs E - last_accrued s c) = Some inc"
      and "calculate_exchange_rate F (total_supply s c) (get_total_cash C s c) (interest + total_borrows s c)
             (perm_mul_floor F (reserve_factor m) interest + total_reserves s c) = Inr xrate"
      and "core t = (core s)\<lparr>k_borrows := (total_borrows s)(c := interest + total_borrows s c),
             k_reserves := (total_reserves s)
               (c := perm_mul_floor F (reserve_factor m) interest + total_reserves s c),
             k_index := (borrow_index s)(c := inc + borrow_index s c)\<rparr>"
proof -
  consider "last_accrued s c = 0" | "last_accrued s c \<noteq> 0" "now_secs E \<le> last_accrued s c"
    | "last_accrued s c \<noteq> 0" "last_accrued s c < now_secs E" by linarith
  then show thesis
  proof cases
    case 1
    with assms show thesis
      by (intro start) (auto simp: accrue_interest_def Let_def update_last_accrued_interest_time_def core_def)
  next
    case 2
    with assms show thesis by (intro late) (simp add: accrue_interest_def Let_def)
  next
    case 3
    with assms obtain r where r: "get_market_status F C E s c = Inr r"
      and t: "t = store_rates c r (update_last_accrued_interest_time c (now_secs E) s)"
      by (auto simp: accrue_interest_def Let_def result_simps)
    from r 3(2) obtain m util rate borrows reserves index xrate where
      "map_of (markets s) c = Some m"
      "calc_utilization_ratio F (get_total_cash C s c) (total_borrows s c) (total_reserves s c) = Inr util"
      "get_borrow_rate F (rate_model m) util = Some rate"
      and g: "grow F m rate (total_borrows s c) (total_reserves s c) (borrow_index s c)
        (now_secs E - last_accrued s c) = Inr (borrows, reserves, index)"
      and x: "calculate_exchange_rate F (total_supply s c) (get_total_cash C s c) borrows reserves = Inr xrate"
      and k: "ir_total_borrows r = borrows" "ir_total_reserves r = reserves" "ir_borrow_index r = index"
      by (auto simp: get_market_status_def market_of_def Let_def result_simps)
    moreover from g obtain interest inc where
      "accrued_interest F rate (total_borrows s c) (now_secs E - last_accrued s c) = Some interest"
      "increment_index F rate (borrow_index s c) (now_secs E - last_accrued s c) = Some inc"
      "borrows = interest + total_borrows s c"
      "reserves = perm_mul_floor F (reserve_factor m) interest + total_reserves s c"
      "index = inc + borrow_index s c"
      by (auto simp: grow_Inr)
    ultimately show thesis
      using 3 by (intro grown [of m util rate interest inc xrate])
        (simp_all add: t core_def store_rates_def update_last_accrued_interest_time_def)
  qed
qed


section \<open>Deposits\<close>

lemma coreD:
  assumes "core t = k"
  shows "lend_ledger t = k_ledger k" "total_supply t = k_supply k" "total_borrows t = k_borrows k"
    "total_reserves t = k_reserves k" "account_borrows t = k_debts k" "account_deposits t = k_deposits k"
    "borrow_index t = k_index k" "markets t = k_markets k" "underlying_asset t = k_underlying k"
  using assms by auto

lemma core_ext:
  assumes "k_ledger k = k_ledger k'" "k_supply k = k_supply k'" "k_borrows k = k_borrows k'"
    "k_reserves k = k_reserves k'" "k_debts k = k_debts k'" "k_deposits k = k_deposits k'"
    "k_index k = k_index k'" "k_markets k = k_markets k'" "k_underlying k = k_underlying k'"
  shows "k = (k' :: 'l lend_core)"
  using assms by (intro lend_core.equality) simp_all

abbreviation voucher :: "'l lend_state \<Rightarrow> currency \<Rightarrow> account \<Rightarrow> nat" where
  "voucher s c who \<equiv> voucher_balance (deposits_of s c who)"

text \<open>Replace the number of vouchers of a deposit.\<close>

definition with_vouchers ::
  "'l lend_state \<Rightarrow> currency \<Rightarrow> account \<Rightarrow> deposits option \<Rightarrow> currency \<Rightarrow> account \<Rightarrow> deposits option" where
  "with_vouchers s c who d = (account_deposits s)(c := (account_deposits s c)(who := d))"

lemma mint_cases:
  assumes "do_mint F C E who c a s = Inr t"
  obtains m s1 rate v l where "a \<noteq> 0" and "ensure_active_market s c = Inr m"
    and "ensure_under_supply_cap C s c a = Inr ()"
    and "accrue_interest F C E c s = Inr s1" and "exchange_rate_stored F C s1 c = Inr rate"
    and "fx_div F a rate = Some v" and "v \<noteq> 0"
    and "as_transfer (assets C) c who (lend_account C) a Expendable (lend_ledger s1) = Inr l"
    and "voucher s1 c who + v \<le> u128_max" and "total_supply s1 c + v \<le> u128_max"
    and "core t = (core s1)\<lparr>k_ledger := l, k_supply := (total_supply s1)(c := total_supply s1 c + v),
       k_deposits := with_vouchers s1 c who
         (Some ((deposits_of s1 c who)\<lparr>voucher_balance := voucher s1 c who + v\<rparr>))\<rparr>"
proof -
  from assms obtain m s1 s2 s3 s4 rate v l where *: "a \<noteq> 0" "ensure_active_market s c = Inr m"
    "ensure_under_supply_cap C s c a = Inr ()" "accrue_interest F C E c s = Inr s1"
    "update_reward_supply_index E c s1 = Inr s2" "distribute_supplier_reward c who s2 = Inr s3"
    "exchange_rate_stored F C s3 c = Inr rate" "update_earned_stored F who c rate s3 = Inr s4"
    "fx_div F a rate = Some v" "v \<noteq> 0"
    and l: "as_transfer (assets C) c who (lend_account C) a Expendable (lend_ledger s4) = Inr l"
    and fits: "voucher s4 c who + v \<le> u128_max" "total_supply s4 c + v \<le> u128_max"
    and t: "t = emit (Deposited who c a) (put_total_supply c (total_supply s4 c + v)
       (put_deposits c who (Some ((deposits_of s4 c who)\<lparr>voucher_balance := voucher s4 c who + v\<rparr>))
         (s4\<lparr>lend_ledger := l\<rparr>)))"
    by (auto simp: do_mint_def result_simps num_simps Let_def calc_collateral_amount_def)
  have k3: "core s3 = core s1" using *(5,6) by (auto dest!: core_frame)
  have k4: "core s4 = core s1" using k3 *(8) by (auto dest!: core_frame)
  note e = core_eqD [OF k4] deposits_of_cong [OF k4]
  show thesis
    by (rule that [of m s1 rate v l])
      (use * l fits in \<open>auto simp: e exchange_rate_cong [OF k3] t with_vouchers_def k4 intro!: core_ext\<close>)
qed

lemma take_vouchers_Inr:
  "take_vouchers c who a s = Inr t \<longleftrightarrow> a \<le> voucher s c who \<and>
     t = put_deposits c who (if voucher s c who = a then None
       else Some ((deposits_of s c who)\<lparr>voucher_balance := voucher s c who - a\<rparr>)) s"
  by (auto simp: take_vouchers_def Let_def result_simps num_simps)

lemma redeem_transfer_Inr:
  "(case r of Inl _ \<Rightarrow> Inl e | Inr s \<Rightarrow> Inr (n, s)) = Inr (u, t) \<longleftrightarrow> r = Inr t \<and> u = n"
  by (auto split: sum.splits)

lemma redeem_voucher_cases:
  assumes "do_redeem_voucher F C E who c v s = Inr (u, t)"
  obtains rate l where "redeem_allowed F C E s c who v = Inr ()"
    and "exchange_rate_stored F C s c = Inr rate" and "fx_mul_int F rate v = Some u"
    and "v \<le> voucher s c who" and "v \<le> total_supply s c"
    and "as_transfer (assets C) c (lend_account C) who u Expendable (lend_ledger s) = Inr l"
    and "core t = (core s)\<lparr>k_ledger := l, k_supply := (total_supply s)(c := total_supply s c - v),
       k_deposits := with_vouchers s c who (if voucher s c who = v then None
         else Some ((deposits_of s c who)\<lparr>voucher_balance := voucher s c who - v\<rparr>))\<rparr>"
proof -
  from assms obtain s1 s2 rate l where *: "redeem_allowed F C E s c who v = Inr ()"
    "update_reward_supply_index E c s = Inr s1" "distribute_supplier_reward c who s1 = Inr s2"
    "exchange_rate_stored F C s2 c = Inr rate" "fx_mul_int F rate v = Some u"
    and v: "v \<le> voucher s2 c who" "v \<le> total_supply s2 c"
    and l: "as_transfer (assets C) c (lend_account C) who u Expendable (lend_ledger s2) = Inr l"
    and t: "t = put_total_supply c (total_supply s2 c - v) (put_deposits c who
       (if voucher s2 c who = v then None
        else Some ((deposits_of s2 c who)\<lparr>voucher_balance := voucher s2 c who - v\<rparr>)) s2)\<lparr>lend_ledger := l\<rparr>"
    by (auto simp: do_redeem_voucher_def result_simps num_simps Let_def calc_underlying_amount_def
        take_vouchers_Inr redeem_transfer_Inr)
  have k: "core s2 = core s" using *(2,3) by (auto dest!: core_frame)
  note e = core_eqD [OF k] deposits_of_cong [OF k]
  show thesis
    by (rule that [of rate l])
      (use * v l in \<open>auto simp: e exchange_rate_cong [OF k] t with_vouchers_def k intro!: core_ext\<close>)
qed


text \<open>Redeeming, by amount or all of it: accrue, then redeem vouchers on a state with the same core.\<close>

lemma redeem_cases:
  assumes "do_redeem F C E who c a s = Inr t"
  obtains m s1 s2 s3 rate v u where "ensure_active_market s c = Inr m"
    and "accrue_interest F C E c s = Inr s1" and "exchange_rate_stored F C s1 c = Inr rate"
    and "fx_div F a rate = Some v" and "core s2 = core s1"
    and "do_redeem_voucher F C E who c v s2 = Inr (u, s3)" and "core t = core s3"
proof -
  from assms obtain m s1 s2 rate v u s3 where *: "ensure_active_market s c = Inr m"
    "accrue_interest F C E c s = Inr s1" "exchange_rate_stored F C s1 c = Inr rate"
    "update_earned_stored F who c rate s1 = Inr s2" "fx_div F a rate = Some v"
    "do_redeem_voucher F C E who c v s2 = Inr (u, s3)" "t = emit (Redeemed who c u) s3"
    by (auto simp: do_redeem_def result_simps calc_collateral_amount_def)
  then show thesis
    using core_update_earned [OF *(4)] by (intro that [of m s1 rate v s2 u s3]) simp_all
qed

lemma redeem_all_cases:
  assumes "do_redeem_all F C E who c s = Inr (u, t)"
  obtains m s1 s2 s3 where "ensure_active_market s c = Inr m"
    and "accrue_interest F C E c s = Inr s1" and "core s2 = core s1"
    and "do_redeem_voucher F C E who c (voucher s2 c who) s2 = Inr (u, s3)" and "core t = core s3"
proof -
  from assms obtain m s1 s2 rate s3 where *: "ensure_active_market s c = Inr m"
    "accrue_interest F C E c s = Inr s1" "update_earned_stored F who c rate s1 = Inr s2"
    "do_redeem_voucher F C E who c (voucher s2 c who) s2 = Inr (u, s3)" "t = emit (Redeemed who c u) s3"
    by (auto simp: do_redeem_all_def result_simps)
  then show thesis
    using core_update_earned [OF *(3)] by (intro that [of m s1 s2 s3]) simp_all
qed

lemma collateral_asset_cases:
  assumes "do_collateral_asset F C E who c enable s = Inr t"
  obtains d where "account_deposits s c who = Some d"
    and "core t = (core s)\<lparr>k_deposits := with_vouchers s c who (Some (d\<lparr>is_collateral := enable\<rparr>))\<rparr>"
    and "enable \<or> (\<exists>total_value asset_value borrowed. total_collateral_value F C E s who = Inr total_value \<and>
           collateral_asset_value F C E s who c = Inr asset_value \<and>
           total_borrowed_value F E s who = Inr borrowed \<and> borrowed + asset_value \<le> total_value)"
proof -
  from assms obtain d where d: "account_deposits s c who = Some d"
    by (auto simp: do_collateral_asset_def result_simps)
  then have "deposits_of s c who = d" by (simp add: deposits_of_def)
  with assms d show thesis
    by (intro that [of d])
      (auto simp: do_collateral_asset_def result_simps Let_def with_vouchers_def num_simps split: if_splits)
qed

section \<open>Debts\<close>

definition with_debt ::
  "'l lend_state \<Rightarrow> currency \<Rightarrow> account \<Rightarrow> nat \<Rightarrow> currency \<Rightarrow> account \<Rightarrow> borrow_snapshot" where
  "with_debt s c who n = (account_borrows s)
     (c := (account_borrows s c)(who := \<lparr>principal = n, snapshot_index = borrow_index s c\<rparr>))"

lemma borrow_cases:
  assumes "do_borrow F C E who c a s = Inr t"
  obtains m s1 n l where "ensure_active_market s c = Inr m" and "accrue_interest F C E c s = Inr s1"
    and "borrow_allowed_for_market_bond F C E s1 c who a = Inr ()"
    and "borrow_allowed F C E s1 c who a = Inr ()"
    and "current_borrow_balance F s1 who c = Inr n"
    and "n + a \<le> u128_max" and "total_borrows s1 c + a \<le> u128_max"
    and "as_transfer (assets C) c (lend_account C) who a Expendable (lend_ledger s1) = Inr l"
    and "core t = (core s1)\<lparr>k_ledger := l, k_debts := with_debt s1 c who (n + a),
       k_borrows := (total_borrows s1)(c := total_borrows s1 c + a)\<rparr>"
proof -
  from assms obtain m s1 s2 s3 n l where *: "ensure_active_market s c = Inr m"
    "accrue_interest F C E c s = Inr s1" "borrow_allowed_for_market_bond F C E s1 c who a = Inr ()"
    "borrow_allowed F C E s1 c who a = Inr ()" "update_reward_borrow_index F E c s1 = Inr s2"
    "distribute_borrower_reward F c who s2 = Inr s3"
    and n: "current_borrow_balance F s3 who c = Inr n" "n + a \<le> u128_max" "total_borrows s3 c + a \<le> u128_max"
    and l: "as_transfer (assets C) c (lend_account C) who a Expendable (lend_ledger s3) = Inr l"
    and t: "t = emit (Borrowed who c a) (put_total_borrows c (total_borrows s3 c + a)
       (put_borrow c who (n + a) (borrow_index s3 c) s3)\<lparr>lend_ledger := l\<rparr>)"
    by (auto simp: do_borrow_def result_simps num_simps)
  have k: "core s3 = core s1" using *(5,6) by (auto dest!: core_frame)
  note e = core_eqD [OF k] borrow_balance_cong [OF k]
  show thesis
    by (rule that [of m s1 n l])
      (use * n l in \<open>auto simp: e t with_debt_def k intro!: core_ext\<close>)
qed

lemma repay_amount_cases:
  assumes "do_repay_borrow_with_amount F C E who c n a s = Inr t"
  obtains l where "a \<le> n"
    and "as_transfer (assets C) c who (lend_account C) a Expendable (lend_ledger s) = Inr l"
    and "core t = (core s)\<lparr>k_ledger := l, k_debts := with_debt s c who (n - a),
       k_borrows := (total_borrows s)(c := total_borrows s c - a)\<rparr>"
proof -
  from assms obtain s1 s2 l where *: "a \<le> n" "update_reward_borrow_index F E c s = Inr s1"
    "distribute_borrower_reward F c who s1 = Inr s2"
    and l: "as_transfer (assets C) c who (lend_account C) a Expendable (lend_ledger s2) = Inr l"
    and t: "t = put_total_borrows c (total_borrows s2 c - a)
       (put_borrow c who (n - a) (borrow_index s2 c) (s2\<lparr>lend_ledger := l\<rparr>))"
    by (auto simp: do_repay_borrow_with_amount_def result_simps num_simps Let_def saturating_sub_def
        split: if_splits)
  have k: "core s2 = core s" using *(2,3) by (auto dest!: core_frame)
  note e = core_eqD [OF k]
  show thesis
    by (rule that [of l]) (use * l in \<open>auto simp: e t with_debt_def k intro!: core_ext\<close>)
qed

lemma repay_borrow_cases:
  assumes "do_repay_borrow F C E who c a s = Inr t"
  obtains m s1 n l where "ensure_active_market s c = Inr m" and "accrue_interest F C E c s = Inr s1"
    and "current_borrow_balance F s1 who c = Inr n" and "a \<le> n"
    and "as_transfer (assets C) c who (lend_account C) a Expendable (lend_ledger s1) = Inr l"
    and "core t = (core s1)\<lparr>k_ledger := l, k_debts := with_debt s1 c who (n - a),
       k_borrows := (total_borrows s1)(c := total_borrows s1 c - a)\<rparr>"
proof -
  from assms obtain m s1 n s2 where *: "ensure_active_market s c = Inr m"
    "accrue_interest F C E c s = Inr s1" "current_borrow_balance F s1 who c = Inr n"
    "do_repay_borrow_with_amount F C E who c n a s1 = Inr s2" "t = emit (RepaidBorrow who c a) s2"
    by (auto simp: do_repay_borrow_def result_simps)
  from *(4) show thesis
    by (cases rule: repay_amount_cases) (use * in \<open>auto intro: that\<close>)
qed


section \<open>Liquidation and voucher transfers\<close>

lemma sub_vouchers_Inr:
  "sub_vouchers c who a s = Inr t \<longleftrightarrow> a \<le> voucher s c who \<and>
     t = put_deposits c who (Some ((deposits_of s c who)\<lparr>voucher_balance := voucher s c who - a\<rparr>)) s"
  by (auto simp: sub_vouchers_def Let_def result_simps num_simps)

lemma add_vouchers_Inr:
  "add_vouchers c who a s = Inr t \<longleftrightarrow> voucher s c who + a \<le> u128_max \<and>
     t = put_deposits c who (Some ((deposits_of s c who)\<lparr>voucher_balance := voucher s c who + a\<rparr>)) s"
  by (auto simp: add_vouchers_def Let_def result_simps num_simps)

text \<open>The repayment half of a liquidation, then the voucher half on a state with the core it left.\<close>

lemma liquidated_transfer_cases:
  assumes "liquidated_transfer F C E liquidator debtor c coll a n m s = Inr t"
  obtains l owed s8 rate v s9 q s10 s11 where
    "as_transfer (assets C) c liquidator (lend_account C) a Expendable (lend_ledger s) = Inr l"
    and "current_borrow_balance F s debtor c = Inr owed" and "a \<le> owed" and "a \<le> total_borrows s c"
    and "core s8 = (core s)\<lparr>k_ledger := l, k_debts := with_debt s c debtor (owed - a),
       k_borrows := (total_borrows s)(c := total_borrows s c - a)\<rparr>"
    and "exchange_rate_stored F C s8 coll = Inr rate" and "fx_div F n rate = Some v"
    and "sub_vouchers coll debtor v s8 = Inr s9"
    and "fx_div F v (liquidate_incentive m) = Some q"
    and "add_vouchers coll liquidator
           (wrapping_sub v (perm_mul_floor F (liquidate_incentive_reserved_factor m) q)) s9 = Inr s10"
    and "add_vouchers coll (incentive_account C)
           (perm_mul_floor F (liquidate_incentive_reserved_factor m) q) s10 = Inr s11"
    and "core t = core s11"
proof -
  from assms obtain s1 s2 l owed s5 s6 s7 s8 s9 s10 s11 rate v q where *:
    "update_reward_borrow_index F E c s = Inr s1" "distribute_borrower_reward F c liquidator s1 = Inr s2"
    and l: "as_transfer (assets C) c liquidator (lend_account C) a Expendable (lend_ledger s2) = Inr l"
    and owed: "current_borrow_balance F (s2\<lparr>lend_ledger := l\<rparr>) debtor c = Inr owed" "a \<le> owed"
      "a \<le> total_borrows s2 c"
    and r: "update_reward_supply_index E coll (put_total_borrows c (total_borrows s2 c - a)
         (put_borrow c debtor (owed - a) (borrow_index s2 c) (s2\<lparr>lend_ledger := l\<rparr>))) = Inr s5"
      "distribute_supplier_reward coll liquidator s5 = Inr s6"
      "distribute_supplier_reward coll debtor s6 = Inr s7"
      "distribute_supplier_reward coll (incentive_account C) s7 = Inr s8"
    and v: "exchange_rate_stored F C s8 coll = Inr rate" "fx_div F n rate = Some v"
      "sub_vouchers coll debtor v s8 = Inr s9" "fx_div F v (liquidate_incentive m) = Some q"
      "add_vouchers coll liquidator
         (wrapping_sub v (perm_mul_floor F (liquidate_incentive_reserved_factor m) q)) s9 = Inr s10"
      "add_vouchers coll (incentive_account C)
         (perm_mul_floor F (liquidate_incentive_reserved_factor m) q) s10 = Inr s11"
    and t: "t = emit (LiquidatedBorrow liquidator debtor c coll a n) s11"
    by (auto simp: liquidated_transfer_def result_simps num_simps Let_def calc_collateral_amount_def)
  have k2: "core s2 = core s" using * by (auto dest!: core_frame)
  have "current_borrow_balance F s debtor c = Inr owed"
    using owed(1) by (simp add: borrow_balance_cong [OF k2])
  moreover have "core s8 = (core s)\<lparr>k_ledger := l, k_debts := with_debt s c debtor (owed - a),
       k_borrows := (total_borrows s)(c := total_borrows s c - a)\<rparr>"
    using r by (auto dest!: core_frame simp: with_debt_def core_eqD [OF k2] k2 intro!: core_ext)
  ultimately show thesis
    by (intro that [of l owed s8 rate v s9 q s10 s11])
      (use l owed(2,3) v t in \<open>simp_all add: core_eqD [OF k2]\<close>)
qed

lemma liquidate_cases_lend:
  assumes "do_liquidate_borrow F C E liquidator debtor c a coll s = Inr t"
  obtains m m' n price rate rv lv cv amount where "ensure_active_market s c = Inr m'"
    and "map_of (markets s) c = Some m" and "debtor \<noteq> liquidator"
    and "liquidate_borrow_allowed F C E s debtor c a m = Inr ()"
    and "is_collateral (deposits_of s coll debtor)"
    and "exchange_rate_stored F C s coll = Inr rate"
    and "fx_mul_int F rate (voucher s coll debtor) = Some amount"
    and "get_asset_value F E coll amount = Inr cv" and "get_asset_value F E c a = Inr rv"
    and "fx_mul F rv (liquidate_incentive m) = Some lv" and "lv \<le> cv"
    and "get_lend_price E coll = Inr price" and "fx_div F lv price = Some n"
    and "liquidated_transfer F C E liquidator debtor c coll a n m s = Inr t"
  using assms
  by (auto simp: do_liquidate_borrow_def result_simps market_of_def Let_def split: if_splits)

text \<open>Both kinds of voucher transfers keep the rest of the core.\<close>

lemma lend_token_transfer_cases:
  assumes "lend_token_transfer F C E tok source dest a s = Inr (n, t)"
  obtains c s3 s4 where "n = a" and "a \<le> lt_reducible_balance F C E s tok source"
    and "underlying_asset s tok = Some c" and "core s3 = core s"
    and "take_vouchers c source a s3 = Inr s4" and "add_vouchers c dest a s4 = Inr t"
proof -
  from assms obtain s1 s2 s3 s4 c where *: "n = a" "a \<le> lt_reducible_balance F C E s tok source"
    "update_reward_supply_index E tok s = Inr s1" "distribute_supplier_reward tok source s1 = Inr s2"
    "distribute_supplier_reward tok dest s2 = Inr s3" "underlying_asset s3 tok = Some c"
    "take_vouchers c source a s3 = Inr s4" "add_vouchers c dest a s4 = Inr t"
    by (auto simp: lend_token_transfer_def do_transfer_lend_tokens_def underlying_id_def result_simps)
  have k: "core s3 = core s" using *(3-5) by (auto dest!: core_frame)
  show thesis
    using * by (intro that [of c s3 s4]) (simp_all add: k core_eqD [OF k])
qed

end
