(* ===== verification/Lend_Pool.thy ===== *)
theory Lend_Pool
  imports Lend_Lemmas
begin

text \<open>
  The abstract specification of a market: a pool that holds a value (its cash and outstanding borrows less
  its reserves) and has a supply of vouchers. The pool may gain value, sell new vouchers for at least the
  current rate, and buy vouchers back for at most the current rate. Below, the operations of the lend market
  are shown to refine it.
\<close>

section \<open>The specification\<close>

record pool =
  pool_value :: nat
  pool_supply :: nat

definition pool_rate :: "pool \<Rightarrow> nat" where
  "pool_rate p = (if pool_supply p = 0 then min_exchange_rate
     else pool_value p * fx_one div pool_supply p)"

inductive pool_gain :: "pool \<Rightarrow> pool \<Rightarrow> bool" where
  "pool_value p \<le> pool_value q \<Longrightarrow> pool_supply q = pool_supply p \<Longrightarrow> pool_gain p q"

inductive pool_swap :: "pool \<Rightarrow> pool \<Rightarrow> bool" where
  stay: "pool_swap p p"
| sell: "pool_rate p * v \<le> a * fx_one \<Longrightarrow> pool_value q = pool_value p + a \<Longrightarrow>
    pool_supply q = pool_supply p + v \<Longrightarrow> pool_swap p q"
| buy: "u * fx_one \<le> pool_rate p * v \<Longrightarrow> u \<le> pool_value p \<Longrightarrow> v \<le> pool_supply p \<Longrightarrow>
    pool_value q = pool_value p - u \<Longrightarrow> pool_supply q = pool_supply p - v \<Longrightarrow> pool_swap p q"

text \<open>One call: gains (interest), at most one exchange of vouchers, gains.\<close>

inductive pool_call :: "pool \<Rightarrow> pool \<Rightarrow> bool" where
  "pool_gain p q \<Longrightarrow> pool_swap q r \<Longrightarrow> pool_gain r t \<Longrightarrow> pool_call p t"

inductive_simps pool_gain_iff: "pool_gain p q"

lemma pool_gain_refl [simp]: "pool_gain p p"
  by (simp add: pool_gain_iff)

lemma pool_gain_trans: "pool_gain p q \<Longrightarrow> pool_gain q r \<Longrightarrow> pool_gain p r"
  by (simp add: pool_gain_iff)

lemma pool_gain_call: "pool_gain p q \<Longrightarrow> pool_call p q"
  by (blast intro: pool_call.intros pool_swap.stay pool_gain_refl)

lemma pool_swap_call: "pool_swap p q \<Longrightarrow> pool_call p q"
  by (blast intro: pool_call.intros pool_gain_refl)

lemma pool_call_refl [simp]: "pool_call p p"
  by (simp add: pool_gain_call)

lemma gain_then_call: "pool_gain p q \<Longrightarrow> pool_call q r \<Longrightarrow> pool_call p r"
  by (erule pool_call.cases) (blast intro: pool_call.intros pool_gain_trans)

lemma call_then_gain: "pool_call p q \<Longrightarrow> pool_gain q r \<Longrightarrow> pool_call p r"
  by (erule pool_call.cases) (blast intro: pool_call.intros pool_gain_trans)

section \<open>The rate of a pool never falls\<close>

lemma rate_times_supply: "0 < pool_supply p \<Longrightarrow> pool_rate p * pool_supply p \<le> pool_value p * fx_one"
  by (simp add: pool_rate_def)

lemma le_pool_rate:
  "0 < pool_supply p \<Longrightarrow> r * pool_supply p \<le> pool_value p * fx_one \<Longrightarrow> r \<le> pool_rate p"
  by (simp add: pool_rate_def less_eq_div_iff_mult_less_eq)

lemma pool_gain_rate: "pool_gain p q \<Longrightarrow> pool_rate p \<le> pool_rate q"
  by (auto simp: pool_gain_iff pool_rate_def intro!: div_le_mono)

lemma pool_swap_rate:
  assumes "pool_swap p q"
  shows "pool_supply q = 0 \<or> pool_rate p \<le> pool_rate q"
  using assms
proof cases
  case stay
  then show ?thesis by simp
next
  case (sell v a)
  show ?thesis
  proof (rule disjCI)
    assume "\<not> pool_rate p \<le> pool_rate q"
    show "pool_supply q = 0"
    proof (rule ccontr)
      assume pos: "pool_supply q \<noteq> 0"
      have "pool_rate p * pool_supply p \<le> pool_value p * fx_one"
        by (cases "pool_supply p = 0") (simp_all add: rate_times_supply)
      with sell have "pool_rate p * pool_supply q \<le> pool_value q * fx_one"
        by (simp add: algebra_simps)
      with pos \<open>\<not> pool_rate p \<le> pool_rate q\<close> show False
        using le_pool_rate by simp
    qed
  qed
next
  case (buy u v)
  show ?thesis
  proof (cases "pool_supply q = 0")
    case False
    with buy have "0 < pool_supply p" by simp
    then have "pool_rate p * pool_supply p \<le> pool_value p * fx_one" by (rule rate_times_supply)
    then have "pool_rate p * pool_supply p - pool_rate p * v \<le> pool_value p * fx_one - u * fx_one"
      using buy(1) by linarith
    then have "pool_rate p * pool_supply q \<le> pool_value q * fx_one"
      by (simp add: buy(4,5) diff_mult_distrib diff_mult_distrib2)
    with False show ?thesis using le_pool_rate by simp
  qed simp
qed

lemma pool_call_rate: "pool_call p q \<Longrightarrow> pool_supply q = 0 \<or> pool_rate p \<le> pool_rate q"
proof (induction rule: pool_call.induct)
  case (1 p q r t)
  then have "pool_supply r = 0 \<or> pool_rate q \<le> pool_rate r" by (intro pool_swap_rate)
  moreover have "pool_supply t = pool_supply r" using 1(3) by (simp add: pool_gain_iff)
  ultimately show ?case
    using pool_gain_rate [OF 1(1)] pool_gain_rate [OF 1(3)] by auto
qed

section \<open>The pool of a market\<close>

definition cash_of :: "'l lend_config \<Rightarrow> 'l lend_state \<Rightarrow> currency \<Rightarrow> nat" where
  "cash_of C s c = as_balance (assets C) (lend_ledger s) c (lend_account C)"

definition pool_of :: "'l lend_config \<Rightarrow> 'l lend_state \<Rightarrow> currency \<Rightarrow> pool" where
  "pool_of C s c = \<lparr>pool_value = cash_of C s c + total_borrows s c - total_reserves s c,
     pool_supply = total_supply s c\<rparr>"

text \<open>The reserves are backed by the cash and the borrows.\<close>

definition backed :: "'l lend_config \<Rightarrow> 'l lend_state \<Rightarrow> bool" where
  "backed C s \<longleftrightarrow> (\<forall>c. total_reserves s c \<le> cash_of C s c + total_borrows s c)"

lemma pool_of_cong: "core t = core s \<Longrightarrow> pool_of C t = pool_of C s"
  by (simp add: fun_eq_iff pool_of_def cash_of_def core_def)

lemma backed_cong: "core t = core s \<Longrightarrow> backed C t = backed C s"
  by (simp add: backed_def cash_of_def core_def)

text \<open>A step that keeps the pools backed and is a call on every pool.\<close>

definition pool_sound :: "'l lend_config \<Rightarrow> 'l lend_state \<Rightarrow> 'l lend_state \<Rightarrow> bool" where
  "pool_sound C s t \<longleftrightarrow> (backed C s \<longrightarrow> backed C t \<and> (\<forall>c. pool_call (pool_of C s c) (pool_of C t c)))"

definition pool_quiet :: "'l lend_config \<Rightarrow> 'l lend_state \<Rightarrow> 'l lend_state \<Rightarrow> bool" where
  "pool_quiet C s t \<longleftrightarrow> (backed C s \<longrightarrow> backed C t \<and> (\<forall>c. pool_gain (pool_of C s c) (pool_of C t c)))"

lemma quiet_refl:
  assumes "core t = core s"
  shows "pool_quiet C s t"
  by (simp only: pool_quiet_def pool_of_cong [OF assms] backed_cong [OF assms] pool_gain_refl simp_thms)

lemma quiet_trans: "pool_quiet C s t \<Longrightarrow> pool_quiet C t u \<Longrightarrow> pool_quiet C s u"
  unfolding pool_quiet_def by (meson pool_gain_trans)

lemma quiet_sound: "pool_quiet C s t \<Longrightarrow> pool_sound C s t"
  unfolding pool_quiet_def pool_sound_def by (meson pool_gain_call)

lemma quiet_then_sound: "pool_quiet C s t \<Longrightarrow> pool_sound C t u \<Longrightarrow> pool_sound C s u"
  unfolding pool_quiet_def pool_sound_def by (meson gain_then_call)

lemma sound_then_quiet: "pool_sound C s t \<Longrightarrow> pool_quiet C t u \<Longrightarrow> pool_sound C s u"
  unfolding pool_quiet_def pool_sound_def by (meson call_then_gain)

lemma sound_core:
  assumes "pool_sound C s t" and "core s' = core s" and "core t' = core t"
  shows "pool_sound C s' t'"
  using assms(1) by (simp only: pool_sound_def pool_of_cong [OF assms(2)] pool_of_cong [OF assms(3)]
      backed_cong [OF assms(2)] backed_cong [OF assms(3)])

end
