(* ===== verification/Lend_Refinement.thy ===== *)
theory Lend_Refinement
  imports Lend_Pool
begin

text \<open>
  The operations of the lend market refine the pool: each keeps the reserves backed and is, on the pool of
  every market, a call of the specification.
\<close>

locale lend_pallet = fixed_point F + fungibles "assets C"
  for F :: fixed_ops and C :: "'l lend_config" +
  assumes cash_reducible:
      "as_reducible (assets C) l c (lend_account C) = as_balance (assets C) l c (lend_account C)"
    and incentive_other: "incentive_account C \<noteq> lend_account C"
    and farming_other: "farming_account C \<noteq> lend_account C"
begin


section \<open>Cash and rates\<close>

lemma total_cash: "get_total_cash C s c = cash_of C s c"
  by (simp add: get_total_cash_def cash_of_def cash_reducible)

lemma cash_flow:
  "as_transfer (assets C) c a b n p l = Inr l' \<Longrightarrow>
     as_balance (assets C) l' d (lend_account C) + (if d = c \<and> a = lend_account C then n else 0) =
     as_balance (assets C) l d (lend_account C) + (if d = c \<and> b = lend_account C then n else 0)"
  using flow [of c a b n p l l' d "lend_account C"] by (auto simp: paid_def split: if_splits)

lemma calculate_rate:
  "calculate_exchange_rate F n cash borrows reserves = Inr r \<longleftrightarrow>
     (if n = 0 then r = min_exchange_rate
      else cash + borrows \<le> u128_max \<and> reserves \<le> cash + borrows \<and>
        (cash + borrows - reserves) * fx_one div n \<le> u128_max \<and>
        r = (cash + borrows - reserves) * fx_one div n \<and> min_exchange_rate \<le> r \<and> r < max_exchange_rate)"
  by (auto simp: calculate_exchange_rate_def ensure_valid_exchange_rate_def result_simps num_simps
      bind_eq_Some_conv from_rational_Some)

lemma stored_rate: "exchange_rate_stored F C s c = Inr r \<Longrightarrow> r = pool_rate (pool_of C s c)"
  by (simp add: exchange_rate_stored_def calculate_rate total_cash pool_of_def pool_rate_def
      split: if_splits)

lemma stored_rate_pos: "exchange_rate_stored F C s c = Inr r \<Longrightarrow> 0 < r"
  by (auto simp: exchange_rate_stored_def calculate_rate min_exchange_rate_def split: if_splits)

lemma redeem_allowed_cash:
  assumes "redeem_allowed F C E s c who v = Inr ()"
    and "exchange_rate_stored F C s c = Inr r" and "fx_mul_int F r v = Some u"
  shows "total_reserves s c + u \<le> cash_of C s c"
  using assms
  by (auto simp: redeem_allowed_def ensure_enough_cash_def calc_underlying_amount_def Let_def
      result_simps num_simps total_cash split: if_splits)

section \<open>Gains\<close>

lemma quietI:
  assumes "total_supply t = total_supply s"
    and "\<And>d. cash_of C s d + total_borrows s d + total_reserves t d
           \<le> cash_of C t d + total_borrows t d + total_reserves s d"
  shows "pool_quiet C s t"
  unfolding pool_quiet_def
proof (intro impI conjI allI)
  assume b: "backed C s"
  have "total_reserves t d \<le> cash_of C t d + total_borrows t d" for d
  proof -
    have "total_reserves s d \<le> cash_of C s d + total_borrows s d"
      using b by (simp add: backed_def)
    with assms(2) [of d] show ?thesis by linarith
  qed
  then show "backed C t" by (simp add: backed_def)
  fix d
  show "pool_gain (pool_of C s d) (pool_of C t d)"
    using assms(1) assms(2) [of d] b by (auto simp: pool_gain_iff pool_of_def backed_def)
qed

lemma accrue_quiet:
  assumes "accrue_interest F C E c s = Inr t"
    and "\<And>m. map_of (markets s) c = Some m \<Longrightarrow> reserve_factor m \<le> perm_one"
  shows "pool_quiet C s t"
  using assms(1)
proof (cases rule: accrue_cases)
  case start
  then show ?thesis by (intro quiet_refl)
next
  case late
  then show ?thesis by (simp add: quiet_refl)
next
  case (grown m util rate interest inc xrate)
  have "perm_mul_floor F (reserve_factor m) interest \<le> interest"
    using assms(2) [OF grown(4)] by (rule mul_floor_le)
  then show ?thesis
    using coreD [OF grown(10)] by (intro quietI) (auto simp: cash_of_def)
qed

text \<open>
  A transfer with the bookkeeping that goes with it. What the pallet's account pays is booked as borrows or
  taken off the reserves; what it receives is taken off the borrows, booked as reserves, or is a gain.
\<close>

lemma transfer_quiet:
  assumes "as_transfer (assets C) c a b n p (lend_ledger s) = Inr l" and "lend_ledger t = l"
    and "total_supply t = total_supply s"
    and "\<And>d. total_borrows s d + total_reserves t d +
             (if d = c \<and> a = lend_account C then n else 0) \<le>
           total_borrows t d + total_reserves s d + (if d = c \<and> b = lend_account C then n else 0)"
  shows "pool_quiet C s t"
proof (rule quietI [OF assms(3)])
  fix d
  show "cash_of C s d + total_borrows s d + total_reserves t d
      \<le> cash_of C t d + total_borrows t d + total_reserves s d"
    using cash_flow [OF assms(1), of d] assms(4) [of d] by (simp add: cash_of_def assms(2))
qed

lemma outside_quiet:
  assumes "as_transfer (assets C) c a b n p (lend_ledger s) = Inr l" and "a \<noteq> lend_account C"
    and "core t = (core s)\<lparr>k_ledger := l\<rparr>"
  shows "pool_quiet C s t"
  using coreD [OF assms(3)] assms(2) by (intro transfer_quiet [OF assms(1)]) simp_all

section \<open>Exchanges\<close>

lemma mint_sound:
  assumes "do_mint F C E who c a s = Inr t" and "who \<noteq> lend_account C"
    and "\<And>m. map_of (markets s) c = Some m \<Longrightarrow> reserve_factor m \<le> perm_one"
  shows "pool_sound C s t"
  using assms(1)
proof (cases rule: mint_cases)
  case (1 m s1 rate v l)
  note k = coreD [OF 1(11)]
  have cash: "cash_of C t d = cash_of C s1 d + (if d = c then a else 0)" for d
    using cash_flow [OF 1(8), of d] assms(2) by (simp add: cash_of_def k)
  have "pool_sound C s1 t"
    unfolding pool_sound_def
  proof (intro impI conjI allI)
    assume b: "backed C s1"
    have ok: "total_reserves s1 d \<le> cash_of C s1 d + total_borrows s1 d" for d
      using b by (simp add: backed_def)
    have "total_reserves t d \<le> cash_of C t d + total_borrows t d" for d
      using ok [of d] by (simp add: cash k)
    then show "backed C t" by (simp add: backed_def)
    fix d
    have "rate * v \<le> a * fx_one"
      using 1(6) by (auto simp: div_Some)
    then have "pool_swap (pool_of C s1 c) (pool_of C t c)"
      using ok [of c] stored_rate [OF 1(5)]
      by (intro pool_swap.sell [of _ v a]) (simp_all add: pool_of_def cash k)
    moreover have "d \<noteq> c \<Longrightarrow> pool_of C t d = pool_of C s1 d"
      by (simp add: pool_of_def cash k)
    ultimately show "pool_call (pool_of C s1 d) (pool_of C t d)"
      by (cases "d = c") (simp_all add: pool_swap_call)
  qed
  with accrue_quiet [OF 1(4) assms(3)] show ?thesis
    by (rule quiet_then_sound)
qed

lemma redeem_voucher_sound:
  assumes "do_redeem_voucher F C E who c v s = Inr (u, t)" and "who \<noteq> lend_account C"
  shows "pool_sound C s t"
  using assms(1)
proof (cases rule: redeem_voucher_cases)
  case (1 rate l)
  note k = coreD [OF 1(7)]
  have cash: "cash_of C t d + (if d = c then u else 0) = cash_of C s d" for d
    using cash_flow [OF 1(6), of d] assms(2) by (simp add: cash_of_def k)
  have enough: "total_reserves s c + u \<le> cash_of C s c"
    by (rule redeem_allowed_cash [OF 1(1-3)])
  show ?thesis
    unfolding pool_sound_def
  proof (intro impI conjI allI)
    assume b: "backed C s"
    have "total_reserves t d \<le> cash_of C t d + total_borrows t d" for d
      using b cash [of d] enough unfolding backed_def
      by (cases "d = c") (simp_all add: k)
    then show "backed C t" by (simp add: backed_def)
    fix d
    have "u * fx_one \<le> rate * v"
      using 1(3) by (auto simp: mul_int_Some)
    then have "pool_swap (pool_of C s c) (pool_of C t c)"
      using enough cash [of c] stored_rate [OF 1(2)] 1(5)
      by (intro pool_swap.buy [of u _ v]) (simp_all add: pool_of_def k)
    moreover have "d \<noteq> c \<Longrightarrow> pool_of C t d = pool_of C s d"
      using cash [of d] by (simp add: pool_of_def k)
    ultimately show "pool_call (pool_of C s d) (pool_of C t d)"
      by (cases "d = c") (simp_all add: pool_swap_call)
  qed
qed

lemma redeem_sound:
  assumes "do_redeem F C E who c a s = Inr t" and "who \<noteq> lend_account C"
    and "\<And>m. map_of (markets s) c = Some m \<Longrightarrow> reserve_factor m \<le> perm_one"
  shows "pool_sound C s t"
  using assms(1)
proof (cases rule: redeem_cases)
  case (1 m s1 s2 s3 rate v u)
  have "pool_sound C s1 t"
    by (rule sound_core [OF redeem_voucher_sound [OF 1(6) assms(2)]]) (simp_all add: 1(5,7))
  with accrue_quiet [OF 1(2) assms(3)] show ?thesis
    by (rule quiet_then_sound)
qed

lemma redeem_all_sound:
  assumes "do_redeem_all F C E who c s = Inr (u, t)" and "who \<noteq> lend_account C"
    and "\<And>m. map_of (markets s) c = Some m \<Longrightarrow> reserve_factor m \<le> perm_one"
  shows "pool_sound C s t"
  using assms(1)
proof (cases rule: redeem_all_cases)
  case (1 m s1 s2 s3)
  have "pool_sound C s1 t"
    by (rule sound_core [OF redeem_voucher_sound [OF 1(4) assms(2)]]) (simp_all add: 1(3,5))
  with accrue_quiet [OF 1(2) assms(3)] show ?thesis
    by (rule quiet_then_sound)
qed

section \<open>Debts\<close>

lemma borrow_quiet:
  assumes "do_borrow F C E who c a s = Inr t"
    and "\<And>m. map_of (markets s) c = Some m \<Longrightarrow> reserve_factor m \<le> perm_one"
  shows "pool_quiet C s t"
  using assms(1)
proof (cases rule: borrow_cases)
  case (1 m s1 n l)
  have "pool_quiet C s1 t"
    using coreD [OF 1(9)] by (intro transfer_quiet [OF 1(8)]) simp_all
  with accrue_quiet [OF 1(2) assms(2)] show ?thesis
    by (rule quiet_trans)
qed

lemma repay_borrow_quiet:
  assumes "do_repay_borrow F C E who c a s = Inr t" and "who \<noteq> lend_account C"
    and "\<And>m. map_of (markets s) c = Some m \<Longrightarrow> reserve_factor m \<le> perm_one"
  shows "pool_quiet C s t"
  using assms(1)
proof (cases rule: repay_borrow_cases)
  case (1 m s1 n l)
  have "pool_quiet C s1 t"
    using coreD [OF 1(6)] assms(2) by (intro transfer_quiet [OF 1(5)]) auto
  with accrue_quiet [OF 1(2) assms(3)] show ?thesis
    by (rule quiet_trans)
qed

text \<open>Moving vouchers between accounts does not touch the pools.\<close>

lemma vouchers_quiet:
  assumes "core t = (core s)\<lparr>k_deposits := D\<rparr>"
  shows "pool_quiet C s t"
  using coreD [OF assms] by (intro quietI) (simp_all add: cash_of_def)

lemma add_vouchers_quiet: "add_vouchers c who n s = Inr t \<Longrightarrow> pool_quiet C s t"
  by (rule vouchers_quiet) (auto simp: add_vouchers_Inr)

lemma sub_vouchers_quiet: "sub_vouchers c who n s = Inr t \<Longrightarrow> pool_quiet C s t"
  by (rule vouchers_quiet) (auto simp: sub_vouchers_Inr)

lemma take_vouchers_quiet: "take_vouchers c who n s = Inr t \<Longrightarrow> pool_quiet C s t"
  by (rule vouchers_quiet) (auto simp: take_vouchers_Inr)

lemma liquidated_transfer_quiet:
  assumes "liquidated_transfer F C E liquidator debtor c coll a n m s = Inr t"
    and "liquidator \<noteq> lend_account C"
  shows "pool_quiet C s t"
  using assms(1)
proof (cases rule: liquidated_transfer_cases)
  case (1 l owed s8 rate v s9 q s10 s11)
  have "pool_quiet C s s8"
    using coreD [OF 1(5)] assms(2) 1(4) by (intro transfer_quiet [OF 1(1)]) simp_all
  then have "pool_quiet C s s11"
    using quiet_trans sub_vouchers_quiet [OF 1(8)] add_vouchers_quiet [OF 1(10)]
      add_vouchers_quiet [OF 1(11)] by blast
  then show ?thesis
    using quiet_refl [OF 1(12)] by (rule quiet_trans)
qed

lemma lend_token_transfer_quiet:
  assumes "lend_token_transfer F C E tok source dest a s = Inr (n, t)"
  shows "pool_quiet C s t"
  using assms
proof (cases rule: lend_token_transfer_cases)
  case (1 c s3 s4)
  then show ?thesis
    using quiet_refl [OF 1(4)] take_vouchers_quiet [OF 1(5)] add_vouchers_quiet [OF 1(6)] quiet_trans
    by blast
qed

end

end
