(* ===== verification/Lend_Steps.thy ===== *)
theory Lend_Steps
  imports Lend_Refinement
begin

text \<open>
  The invariants of the lend market over its steps: the markets and their lend tokens, the backing of the
  reserves, and the refinement of the pool by every step. Operations that leave the markets alone are
  collected under \<open>keeps_markets\<close>.
\<close>

section \<open>Operations that leave the markets alone\<close>

definition same_markets :: "'l lend_state \<Rightarrow> 'l lend_state \<Rightarrow> bool" where
  "same_markets s t \<longleftrightarrow> markets t = markets s \<and> underlying_asset t = underlying_asset s"

named_theorems keeps_markets \<open>operations that leave the markets alone\<close>

lemma same_markets_refl [simp]: "same_markets s s"
  by (simp add: same_markets_def)

lemma same_markets_trans: "same_markets s t \<Longrightarrow> same_markets t u \<Longrightarrow> same_markets s u"
  by (simp add: same_markets_def)

lemma same_markets_core:
  assumes "core t = core s"
  shows "same_markets s t"
  by (simp add: core_eqD [OF assms] same_markets_def)

lemma same_markets_coreI:
  assumes "core t = k" and "k_markets k = markets s" and "k_underlying k = underlying_asset s"
  shows "same_markets s t"
  using coreD [OF assms(1)] assms(2,3) by (simp add: same_markets_def)

lemma accrue_markets [keeps_markets]: "accrue_interest F C E c s = Inr t \<Longrightarrow> same_markets s t"
  by (erule accrue_cases) (auto intro: same_markets_core same_markets_coreI)

lemma transfer_markets [keeps_markets]: "asset_transfer C c a b n p s = Inr t \<Longrightarrow> same_markets s t"
  by (auto simp: result_simps same_markets_def)

lemma mint_markets [keeps_markets]:
  assumes "do_mint F C E who c a s = Inr t"
  shows "same_markets s t"
  using assms
proof (cases rule: mint_cases)
  case (1 m s1 rate v l)
  have "same_markets s1 t" by (rule same_markets_coreI [OF 1(11)]) simp_all
  then show ?thesis by (rule same_markets_trans [OF accrue_markets [OF 1(4)]])
qed

lemma redeem_voucher_markets [keeps_markets]:
  "do_redeem_voucher F C E who c v s = Inr (u, t) \<Longrightarrow> same_markets s t"
  by (erule redeem_voucher_cases) (erule same_markets_coreI, simp_all)

lemma redeem_markets [keeps_markets]:
  assumes "do_redeem F C E who c a s = Inr t"
  shows "same_markets s t"
  using assms
proof (cases rule: redeem_cases)
  case (1 m s1 s2 s3 rate v u)
  show ?thesis
    using accrue_markets [OF 1(2)] same_markets_core [OF 1(5)] redeem_voucher_markets [OF 1(6)]
      same_markets_core [OF 1(7)] by (blast intro: same_markets_trans)
qed

lemma redeem_all_markets [keeps_markets]:
  assumes "do_redeem_all F C E who c s = Inr (u, t)"
  shows "same_markets s t"
  using assms
proof (cases rule: redeem_all_cases)
  case (1 m s1 s2 s3)
  show ?thesis
    using accrue_markets [OF 1(2)] same_markets_core [OF 1(3)] redeem_voucher_markets [OF 1(4)]
      same_markets_core [OF 1(5)] by (blast intro: same_markets_trans)
qed

lemma collateral_markets [keeps_markets]:
  "do_collateral_asset F C E who c b s = Inr t \<Longrightarrow> same_markets s t"
  by (erule collateral_asset_cases) (erule same_markets_coreI, simp_all)

lemma borrow_markets [keeps_markets]:
  assumes "do_borrow F C E who c a s = Inr t"
  shows "same_markets s t"
  using assms
proof (cases rule: borrow_cases)
  case (1 m s1 n l)
  have "same_markets s1 t" by (rule same_markets_coreI [OF 1(9)]) simp_all
  then show ?thesis by (rule same_markets_trans [OF accrue_markets [OF 1(2)]])
qed

lemma repay_markets [keeps_markets]:
  assumes "do_repay_borrow F C E who c a s = Inr t"
  shows "same_markets s t"
  using assms
proof (cases rule: repay_borrow_cases)
  case (1 m s1 n l)
  have "same_markets s1 t" by (rule same_markets_coreI [OF 1(6)]) simp_all
  then show ?thesis by (rule same_markets_trans [OF accrue_markets [OF 1(2)]])
qed

lemma vouchers_markets [keeps_markets]:
  "add_vouchers c who n s = Inr t \<Longrightarrow> same_markets s t"
  "sub_vouchers c who n s = Inr t \<Longrightarrow> same_markets s t"
  "take_vouchers c who n s = Inr t \<Longrightarrow> same_markets s t"
  by (auto simp: add_vouchers_Inr sub_vouchers_Inr take_vouchers_Inr same_markets_def put_deposits_def)

lemma liquidate_markets [keeps_markets]:
  assumes "do_liquidate_borrow F C E liquidator debtor c a coll s = Inr t"
  shows "same_markets s t"
  using assms
proof (cases rule: liquidate_cases_lend)
  case (1 m m' n price rate rv lv cv amount)
  from 1(14) show ?thesis
  proof (cases rule: liquidated_transfer_cases)
    case (1 l owed s8 rate v s9 q s10 s11)
    have "same_markets s s8" by (rule same_markets_coreI [OF 1(5)]) simp_all
    then show ?thesis
      using vouchers_markets(2) [OF 1(8)] vouchers_markets(1) [OF 1(10)] vouchers_markets(1) [OF 1(11)]
        same_markets_core [OF 1(12)] by (blast intro: same_markets_trans)
  qed
qed

lemma token_transfer_markets [keeps_markets]:
  assumes "lend_token_transfer F C E tok source dest a s = Inr (n, t)"
  shows "same_markets s t"
  using assms
proof (cases rule: lend_token_transfer_cases)
  case (1 c s3 s4)
  then show ?thesis
    using same_markets_core [OF 1(4)] vouchers_markets(3) [OF 1(5)] vouchers_markets(1) [OF 1(6)]
    by (blast intro: same_markets_trans)
qed

section \<open>Rewards\<close>

lemma core_reward_speed [core_frame]:
  "update_market_reward_speed F C E o1 c su bo s = Inr t \<Longrightarrow> core t = core s"
  by (auto simp: update_market_reward_speed_def Let_def result_simps core_def
      dest!: core_update_supply_index core_update_borrow_index split: if_splits)

lemma pay_reward_cases:
  assumes "pay_reward C who s = Inr t"
  obtains (none) "core t = core s"
  | (paid) l n where "as_transfer (assets C) (reward_asset_id C) (farming_account C) who n Preserve
        (lend_ledger s) = Inr l" and "core t = (core s)\<lparr>k_ledger := l\<rparr>"
  using assms by (auto simp: pay_reward_def Let_def result_simps core_def split: if_splits)

lemma claim_reward_core:
  assumes "claim_reward F C E o1 s = Inr t"
  obtains who s1 where "core s1 = core s" and "pay_reward C who s1 = Inr t"
proof -
  from assms obtain who s1 where
    s1: "rfold (\<lambda>c. collect_market_reward F E c who) (map fst (markets s)) s = Inr s1"
    and "pay_reward C who s1 = Inr t"
    by (auto simp: claim_reward_def result_simps)
  moreover have "core s1 = core s"
    by (rule rfold_invariant [OF s1]) (auto dest!: core_collect)
  ultimately show thesis by (intro that)
qed

lemma pay_reward_markets [keeps_markets]: "pay_reward C who s = Inr t \<Longrightarrow> same_markets s t"
  by (erule pay_reward_cases) (auto intro: same_markets_core same_markets_coreI)

lemma claim_reward_markets [keeps_markets]:
  assumes "claim_reward F C E o1 s = Inr t"
  shows "same_markets s t"
proof -
  obtain who s1 where *: "core s1 = core s" "pay_reward C who s1 = Inr t"
    using assms by (rule claim_reward_core)
  show ?thesis
    using same_markets_core [OF *(1)] pay_reward_markets [OF *(2)] by (rule same_markets_trans)
qed


section \<open>Reserves\<close>

lemma reduce_incentive_cases:
  assumes "reduce_incentive_reserves F C E o1 dst c n s = Inr t"
  obtains v u s1 l receiver where
    "do_redeem_voucher F C E (incentive_account C) c v s = Inr (u, s1)"
    and "as_transfer (assets C) c (incentive_account C) receiver u Expendable (lend_ledger s1) = Inr l"
    and "core t = (core s1)\<lparr>k_ledger := l\<rparr>"
proof -
  from assms obtain v u s1 l receiver where
    "do_redeem_voucher F C E (incentive_account C) c v s = Inr (u, s1)"
    "as_transfer (assets C) c (incentive_account C) receiver u Expendable (lend_ledger s1) = Inr l"
    "t = emit (IncentiveReservesReduced receiver c u) (s1\<lparr>lend_ledger := l\<rparr>)"
    by (auto simp: reduce_incentive_reserves_def result_simps)
  then show thesis by (intro that) simp_all
qed

lemma add_reserves_cases:
  assumes "add_reserves C o1 src c n s = Inr t"
  obtains payer l where "lookup_account C src = Some payer"
    and "as_transfer (assets C) c payer (lend_account C) n Expendable (lend_ledger s) = Inr l"
    and "total_reserves s c + n \<le> u128_max"
    and "core t = (core s)\<lparr>k_ledger := l, k_reserves := (total_reserves s)(c := total_reserves s c + n)\<rparr>"
  using assms by (auto simp: add_reserves_def lookup_source_def result_simps num_simps)

lemma reduce_reserves_cases:
  assumes "reduce_reserves C o1 dst c n s = Inr t"
  obtains receiver l where "n \<le> total_reserves s c"
    and "as_transfer (assets C) c (lend_account C) receiver n Expendable (lend_ledger s) = Inr l"
    and "core t = (core s)\<lparr>k_ledger := l, k_reserves := (total_reserves s)(c := total_reserves s c - n)\<rparr>"
proof -
  from assms obtain receiver l where *: "n \<le> total_reserves s c"
    "as_transfer (assets C) c (lend_account C) receiver n Expendable (lend_ledger s) = Inr l"
    "t = emit (ReservesReduced receiver c n (total_reserves s c - n))
       (put_total_reserves c (total_reserves s c - n) s\<lparr>lend_ledger := l\<rparr>)"
    by (auto simp: reduce_reserves_def result_simps num_simps split: if_splits)
  show thesis
    by (rule that [OF *(1,2)]) (auto simp: *(3) intro!: core_ext)
qed

section \<open>The markets of a reachable state\<close>

text \<open>
  At most \<open>MAX_MARKETS\<close> entries in storage order, with valid rate models and factors within their types;
  the lend token of a market leads back to it.
\<close>

definition markets_wf :: "'l lend_config \<Rightarrow> 'l lend_state \<Rightarrow> bool" where
  "markets_wf C s \<longleftrightarrow> sm_invar (market_hash C) (markets s) \<and> length (markets s) \<le> max_markets \<and>
     (\<forall>c m. map_of (markets s) c = Some m \<longrightarrow>
        market_typed m \<and> check_model (rate_model m) \<and> underlying_asset s (market_lend_token m) = Some c)"

lemma markets_wf_same: "same_markets s t \<Longrightarrow> markets_wf C s \<Longrightarrow> markets_wf C t"
  by (simp add: markets_wf_def same_markets_def)

lemma markets_wf_initial: "markets_wf C (initial_lend_state l)"
  by (simp add: markets_wf_def initial_lend_state_def sm_invar_def)

lemma markets_wf_typed:
  "markets_wf C s \<Longrightarrow> map_of (markets s) c = Some m \<Longrightarrow> reserve_factor m \<le> perm_one"
  by (simp add: markets_wf_def market_typed_def)

lemma length_sm_put:
  "length (sm_put H k v xs) = (if map_of xs k = None then Suc (length xs) else length xs)"
  if "sm_invar H xs"
  using that
proof (induction H k v xs rule: sm_put.induct)
  case (2 H k v k' v' xs)
  show ?case
    using 2 sm_before_not_mem [of H k' v' xs k] by (auto simp: sm_invar_Cons split: if_splits)
qed simp

text \<open>Storing a market with a lend token that is free or already its own.\<close>

lemma markets_wf_put:
  assumes "markets_wf C s" and "markets t = sm_put (market_hash C) c m (markets s)"
    and "underlying_asset t = (underlying_asset s)(market_lend_token m \<mapsto> c)"
    and "underlying_asset s (market_lend_token m) \<in> {None, Some c}"
    and "market_typed m" and "check_model (rate_model m)"
    and "map_of (markets s) c \<noteq> None \<or> length (markets s) < max_markets"
  shows "markets_wf C t"
proof -
  have inv: "sm_invar (market_hash C) (markets s)" using assms(1) by (simp add: markets_wf_def)
  have "length (markets t) \<le> max_markets"
    using assms(1,7) by (auto simp: assms(2) length_sm_put [OF inv] markets_wf_def)
  moreover have "market_typed m' \<and> check_model (rate_model m') \<and>
      underlying_asset t (market_lend_token m') = Some d" if "map_of (markets t) d = Some m'" for d m'
  proof (cases "d = c")
    case True
    with that assms(5,6) show ?thesis by (auto simp: assms(2,3) map_of_sm_put)
  next
    case False
    with that have "map_of (markets s) d = Some m'" by (simp add: assms(2) map_of_sm_put)
    with assms(1) have own: "market_typed m'" "check_model (rate_model m')"
      "underlying_asset s (market_lend_token m') = Some d"
      by (simp_all add: markets_wf_def)
    with False assms(4) have "market_lend_token m' \<noteq> market_lend_token m" by auto
    with own show ?thesis by (simp add: assms(3))
  qed
  ultimately show ?thesis
    by (simp add: markets_wf_def assms(2) sm_invar_put [OF inv])
qed

text \<open>Changing a market without changing its lend token.\<close>

lemma markets_wf_mutate:
  assumes "mutate_market C c cb s = Inr (m', t)" and "markets_wf C s"
    and "\<And>m. market_typed m \<Longrightarrow> check_model (rate_model m) \<Longrightarrow>
           market_typed (cb m) \<and> check_model (rate_model (cb m)) \<and> market_lend_token (cb m) = market_lend_token m"
  shows "markets_wf C t"
proof -
  from assms(1) obtain m where m: "map_of (markets s) c = Some m" "t = put_market C c (cb m) s"
    by (auto simp: mutate_market_def split: option.splits)
  have own: "market_typed m" "check_model (rate_model m)"
    "underlying_asset s (market_lend_token m) = Some c"
    using assms(2) m(1) by (simp_all add: markets_wf_def)
  show ?thesis
    by (rule markets_wf_put [OF assms(2), of _ c "cb m"])
      (use assms(3) [OF own(1,2)] own(3) m(1) in
        \<open>auto simp: m(2) put_market_def fun_upd_idem\<close>)
qed

lemma markets_wf_emit [simp]: "markets_wf C (emit e s) = markets_wf C s"
  by (simp add: markets_wf_def)

lemma add_market_wf:
  assumes "add_market C o1 c m s = Inr t" and "markets_wf C s" and "market_typed m"
  shows "markets_wf C t"
  using assms(1,3)
  by (intro markets_wf_put [OF assms(2), of t c m])
    (auto simp: add_market_def ensure_lend_token_def put_market_def Let_def result_simps)

lemma force_update_market_wf:
  assumes "force_update_market C o1 c m s = Inr t" and "markets_wf C s" and "market_typed m"
  shows "markets_wf C t"
proof -
  from assms(1) have "check_model (rate_model m)"
    and "underlying_asset s (market_lend_token m) \<in> {None, Some c}"
    and t: "\<exists>m0. map_of (markets s) c = Some m0"
      "markets t = sm_put (market_hash C) c m (markets s)"
      "underlying_asset t = (underlying_asset s)(market_lend_token m \<mapsto> c)"
    by (auto simp: force_update_market_def mutate_market_def put_market_def underlying_id_def Let_def
        result_simps split: if_splits option.splits)
  with assms(2,3) show ?thesis
    by (intro markets_wf_put [of C s t c m]) auto
qed

lemma activate_market_wf:
  "activate_market C o1 c s = Inr t \<Longrightarrow> markets_wf C s \<Longrightarrow> markets_wf C t"
  by (auto simp: activate_market_def result_simps market_typed_def elim!: markets_wf_mutate)

lemma update_rate_model_wf:
  "update_rate_model C o1 c rm s = Inr t \<Longrightarrow> markets_wf C s \<Longrightarrow> model_typed rm \<Longrightarrow> markets_wf C t"
  by (auto simp: update_rate_model_def result_simps market_typed_def elim!: markets_wf_mutate)

lemma unwrap_or_le: "opt_le x n \<Longrightarrow> d \<le> n \<Longrightarrow> unwrap_or x d \<le> n"
  by (auto simp: opt_le_def unwrap_or_def split: option.splits)

lemma update_market_wf:
  assumes "update_market C o1 c cf lt rf cl re li su bo s = Inr t" and "markets_wf C s"
    and "call_typed (UpdateMarket c cf lt rf cl re li su bo)"
  shows "markets_wf C t"
proof -
  from assms(1) obtain m where m: "map_of (markets s) c = Some m"
    by (auto simp: update_market_def market_of_def result_simps)
  then have "market_typed m" using assms(2) by (simp add: markets_wf_def)
  with assms show ?thesis
    by (auto simp: update_market_def market_of_def result_simps market_typed_def unwrap_or_le m Let_def
        elim!: markets_wf_mutate)
qed


section \<open>Every step\<close>

text \<open>The calls that change the markets themselves; every other call leaves them alone.\<close>

fun governs_markets :: "lend_call \<Rightarrow> bool" where
  "governs_markets (AddMarket c m) = True"
| "governs_markets (ActivateMarket c) = True"
| "governs_markets (UpdateRateModel c rm) = True"
| "governs_markets (UpdateMarket c cf lt rf cl re li su bo) = True"
| "governs_markets (ForceUpdateMarket c m) = True"
| "governs_markets _ = False"

lemma dispatch_same_markets:
  assumes "lend_dispatch F C E o1 x s = Inr t" and "\<not> governs_markets x"
  shows "same_markets s t"
proof (cases x)
  case (ClaimReward)
  with assms show ?thesis by (auto intro: claim_reward_markets)
next
  case (ClaimRewardForMarket c)
  with assms(1) obtain who s1 where *: "collect_market_reward F E c who s = Inr s1"
    "pay_reward C who s1 = Inr t"
    by (auto simp: claim_reward_for_market_def result_simps)
  show ?thesis
    using same_markets_trans [OF same_markets_core [OF core_collect [OF *(1)]]
        pay_reward_markets [OF *(2)]] .
next
  case (UpdateMarketRewardSpeed c su bo)
  with assms(1) show ?thesis by (intro same_markets_core) (auto dest: core_reward_speed)
next
  case (RepayBorrowAll c)
  with assms(1) obtain who s1 n where *: "accrue_interest F C E c s = Inr s1"
    "do_repay_borrow F C E who c n s1 = Inr t"
    by (auto simp: repay_borrow_all_def result_simps)
  show ?thesis
    using same_markets_trans [OF accrue_markets [OF *(1)] repay_markets [OF *(2)]] .
next
  case (LiquidateBorrow who c n coll)
  with assms(1) obtain o2 s1 s2 where *: "accrue_interest F C E c s = Inr s1"
    "accrue_interest F C E coll s1 = Inr s2" "do_liquidate_borrow F C E o2 who c n coll s2 = Inr t"
    by (auto simp: liquidate_borrow_def result_simps)
  show ?thesis
    using same_markets_trans [OF accrue_markets [OF *(1)]
        same_markets_trans [OF accrue_markets [OF *(2)] liquidate_markets [OF *(3)]]] .
next
  case (ReduceIncentiveReserves dst c n)
  with assms(1) have "reduce_incentive_reserves F C E o1 dst c n s = Inr t" by simp
  then show ?thesis
  proof (cases rule: reduce_incentive_cases)
    case (1 v u s1 l receiver)
    have "same_markets s1 t" by (rule same_markets_coreI [OF 1(3)]) simp_all
    then show ?thesis by (rule same_markets_trans [OF redeem_voucher_markets [OF 1(1)]])
  qed
next
  case (AddReward n)
  with assms(1) show ?thesis by (auto simp: add_reward_def result_simps same_markets_def)
next
  case (WithdrawMissingReward dst n)
  with assms(1) show ?thesis
    by (auto simp: withdraw_missing_reward_def result_simps same_markets_def)
next
  case (Mint c n)
  with assms(1) show ?thesis by (auto simp: mint_def result_simps intro: mint_markets)
next
  case (Redeem c n)
  with assms(1) show ?thesis by (auto simp: redeem_def result_simps intro: redeem_markets)
next
  case (RedeemAll c)
  with assms(1) show ?thesis
    by (auto simp: redeem_all_def result_simps intro: redeem_all_markets)
next
  case (Borrow c n)
  with assms(1) show ?thesis by (auto simp: borrow_def result_simps intro: borrow_markets)
next
  case (RepayBorrow c n)
  with assms(1) show ?thesis
    by (auto simp: repay_borrow_def result_simps intro: repay_markets)
next
  case (CollateralAsset c b)
  with assms(1) show ?thesis
    by (auto simp: collateral_asset_def result_simps intro: collateral_markets split: if_splits)
next
  case (AddReserves src c n)
  with assms(1) show ?thesis
    by (auto simp: add_reserves_def result_simps same_markets_def put_total_reserves_def)
next
  case (ReduceReserves dst c n)
  with assms(1) show ?thesis
    by (auto simp: reduce_reserves_def result_simps same_markets_def put_total_reserves_def
        split: if_splits)
next
  case (UpdateLiquidationFreeCollateral cs)
  with assms(1) show ?thesis
    by (auto simp: update_liquidation_free_collateral_def result_simps same_markets_def)
next
  case (AddMarketBond c cs)
  with assms(1) show ?thesis
    by (auto simp: add_market_bond_def result_simps same_markets_def)
qed (use assms in simp_all)

lemma dispatch_markets_wf:
  assumes "lend_dispatch F C E o1 x s = Inr t" and "call_typed x" and "markets_wf C s"
  shows "markets_wf C t"
proof (cases "governs_markets x")
  case False
  show ?thesis
    by (rule markets_wf_same [OF dispatch_same_markets [OF assms(1) False] assms(3)])
next
  case True
  then show ?thesis
  proof (cases x)
    case (AddMarket c m)
    with assms show ?thesis by (auto intro: add_market_wf)
  next
    case (ActivateMarket c)
    with assms show ?thesis by (auto intro: activate_market_wf)
  next
    case (UpdateRateModel c rm)
    with assms show ?thesis by (auto intro: update_rate_model_wf)
  next
    case (UpdateMarket c cf lt rf cl re li su bo)
    with assms show ?thesis using update_market_wf [of C o1 c cf lt rf cl re li su bo s t] by simp
  next
    case (ForceUpdateMarket c m)
    with assms show ?thesis by (auto intro: force_update_market_wf)
  qed simp_all
qed

lemma step_markets_wf:
  assumes "lend_step F C s t" and "markets_wf C s"
  shows "markets_wf C t"
  using assms(1)
proof cases
  case (call E o1 x)
  then show ?thesis using assms(2) dispatch_markets_wf by blast
next
  case (trait_redeem E who c n)
  then show ?thesis using markets_wf_same [OF redeem_markets assms(2)] by blast
next
  case (trait_collateral E who c b)
  then show ?thesis using markets_wf_same [OF collateral_markets assms(2)] by blast
next
  case (trait_balance E who c n)
  then have "accrue_interest F C E c s = Inr t"
    by (auto simp: get_current_borrow_balance_def result_simps)
  then show ?thesis using markets_wf_same [OF accrue_markets assms(2)] by blast
next
  case (vouchers E tok source dest n k)
  then show ?thesis using markets_wf_same [OF token_transfer_markets assms(2)] by blast
next
  case (outside c a b n p)
  then show ?thesis using markets_wf_same [OF transfer_markets assms(2)] by blast
qed

lemma reachable_markets_wf: "lend_reachable F C s \<Longrightarrow> markets_wf C s"
  by (induction rule: lend_reachable.induct) (auto intro: markets_wf_initial step_markets_wf)

section \<open>Every step is a call of the pool\<close>

lemma backed_initial: "backed C (initial_lend_state l)"
  by (simp add: backed_def initial_lend_state_def)

context lend_pallet
begin

lemma quiet_core_sound: "core t = core s \<Longrightarrow> pool_sound C s t"
  by (rule quiet_sound [OF quiet_refl])

lemma pay_reward_quiet:
  assumes "pay_reward C who s = Inr t"
  shows "pool_quiet C s t"
  using assms
proof (cases rule: pay_reward_cases)
  case none
  then show ?thesis by (rule quiet_refl)
next
  case (paid l n)
  show ?thesis by (rule outside_quiet [OF paid(1) farming_other paid(2)])
qed

lemma accrue_wf_quiet: "accrue_interest F C E c s = Inr t \<Longrightarrow> markets_wf C s \<Longrightarrow> pool_quiet C s t"
  by (erule accrue_quiet) (rule markets_wf_typed)

lemma liquidate_borrow_quiet:
  assumes "do_liquidate_borrow F C E liquidator debtor c a coll s = Inr t" and "liquidator \<noteq> lend_account C"
  shows "pool_quiet C s t"
  using assms(1) by (cases rule: liquidate_cases_lend) (rule liquidated_transfer_quiet [OF _ assms(2)])

lemma collateral_quiet:
  "do_collateral_asset F C E who c b s = Inr t \<Longrightarrow> pool_quiet C s t"
  by (erule collateral_asset_cases) (rule vouchers_quiet)

lemma governance_quiet:
  assumes "lend_ledger t = lend_ledger s" "total_supply t = total_supply s"
    "total_borrows t = total_borrows s" "total_reserves t = total_reserves s"
  shows "pool_quiet C s t"
  by (rule quietI) (simp_all add: assms cash_of_def)

lemma claim_reward_quiet:
  assumes "claim_reward F C E o1 s = Inr t"
  shows "pool_quiet C s t"
proof -
  obtain who s1 where *: "core s1 = core s" "pay_reward C who s1 = Inr t"
    using assms by (rule claim_reward_core)
  show ?thesis
    using quiet_refl [OF *(1)] pay_reward_quiet [OF *(2)] by (rule quiet_trans)
qed

lemma claim_market_quiet:
  assumes "claim_reward_for_market F C E o1 c s = Inr t"
  shows "pool_quiet C s t"
proof -
  obtain who s1 where *: "collect_market_reward F E c who s = Inr s1" "pay_reward C who s1 = Inr t"
    using assms by (auto simp: claim_reward_for_market_def result_simps)
  show ?thesis
    using quiet_refl [OF core_collect [OF *(1)]] pay_reward_quiet [OF *(2)] by (rule quiet_trans)
qed

lemma add_reserves_quiet:
  assumes "add_reserves C o1 src c n s = Inr t" and "lookup_account C src \<noteq> Some (lend_account C)"
  shows "pool_quiet C s t"
  using assms(1)
proof (cases rule: add_reserves_cases)
  case (1 payer l)
  show ?thesis
    using coreD [OF 1(4)] assms(2) 1(1) by (intro transfer_quiet [OF 1(2)]) auto
qed

lemma reduce_reserves_quiet:
  assumes "reduce_reserves C o1 dst c n s = Inr t"
  shows "pool_quiet C s t"
  using assms(1)
proof (cases rule: reduce_reserves_cases)
  case (1 receiver l)
  show ?thesis
    using coreD [OF 1(3)] 1(1) by (intro transfer_quiet [OF 1(2)]) auto
qed

lemma reduce_incentive_sound:
  assumes "reduce_incentive_reserves F C E o1 dst c n s = Inr t"
  shows "pool_sound C s t"
  using assms
proof (cases rule: reduce_incentive_cases)
  case (1 v u s1 l receiver)
  show ?thesis
    using redeem_voucher_sound [OF 1(1) incentive_other] outside_quiet [OF 1(2) incentive_other 1(3)]
    by (rule sound_then_quiet)
qed

lemma repay_all_quiet:
  assumes "repay_borrow_all F C E (Signed who) c s = Inr t" and "who \<noteq> lend_account C" and "markets_wf C s"
  shows "pool_quiet C s t"
proof -
  obtain s1 n where *: "accrue_interest F C E c s = Inr s1" "do_repay_borrow F C E who c n s1 = Inr t"
    using assms(1) by (auto simp: repay_borrow_all_def result_simps)
  have wf: "markets_wf C s1" by (rule markets_wf_same [OF accrue_markets [OF *(1)] assms(3)])
  show ?thesis
    using accrue_wf_quiet [OF *(1) assms(3)]
      repay_borrow_quiet [OF *(2) assms(2) markets_wf_typed [OF wf]] by (rule quiet_trans)
qed

lemma liquidate_call_quiet:
  assumes "liquidate_borrow F C E (Signed who) debtor c n coll s = Inr t" and "who \<noteq> lend_account C"
    and "markets_wf C s"
  shows "pool_quiet C s t"
proof -
  obtain s1 s2 where *: "accrue_interest F C E c s = Inr s1" "accrue_interest F C E coll s1 = Inr s2"
    "do_liquidate_borrow F C E who debtor c n coll s2 = Inr t"
    using assms(1) by (auto simp: liquidate_borrow_def result_simps)
  have wf: "markets_wf C s1" by (rule markets_wf_same [OF accrue_markets [OF *(1)] assms(3)])
  show ?thesis
    using accrue_wf_quiet [OF *(1) assms(3)] accrue_wf_quiet [OF *(2) wf]
      liquidate_borrow_quiet [OF *(3) assms(2)] quiet_trans by blast
qed

text \<open>The calls of governance that touch neither funds nor books.\<close>

lemma governance_calls_quiet:
  "add_market C o1 c m s = Inr t \<Longrightarrow> pool_quiet C s t"
  "activate_market C o1 c s = Inr t \<Longrightarrow> pool_quiet C s t"
  "update_rate_model C o1 c rm s = Inr t \<Longrightarrow> pool_quiet C s t"
  "update_market C o1 c cf lt rf cl re li su bo s = Inr t \<Longrightarrow> pool_quiet C s t"
  "force_update_market C o1 c m s = Inr t \<Longrightarrow> pool_quiet C s t"
  "update_liquidation_free_collateral C o1 cs s = Inr t \<Longrightarrow> pool_quiet C s t"
  "add_market_bond C o1 c cs s = Inr t \<Longrightarrow> pool_quiet C s t"
  by (auto simp: add_market_def activate_market_def update_rate_model_def update_market_def
      force_update_market_def update_liquidation_free_collateral_def add_market_bond_def mutate_market_def
      put_market_def Let_def result_simps intro!: governance_quiet split: option.splits if_splits)

lemma add_reward_quiet: "add_reward C (Signed who) n s = Inr t \<Longrightarrow> who \<noteq> lend_account C \<Longrightarrow> pool_quiet C s t"
  by (auto simp: add_reward_def result_simps intro!: outside_quiet)

lemma withdraw_reward_quiet: "withdraw_missing_reward C o1 dst n s = Inr t \<Longrightarrow> pool_quiet C s t"
  using farming_other by (auto simp: withdraw_missing_reward_def result_simps intro!: outside_quiet)

lemma signed_result:
  assumes "rbind (ensure_signed o1) f = Inr t" and "o1 \<noteq> Signed (lend_account C)"
  obtains who where "o1 = Signed who" and "who \<noteq> lend_account C" and "f who = Inr t"
  using assms by (auto simp: result_simps)

lemma dispatch_sound:
  assumes d: "lend_dispatch F C E o1 x s = Inr t" and wf: "markets_wf C s"
    and o1: "o1 \<noteq> Signed (lend_account C)"
    and payer: "\<And>src c n. x = AddReserves src c n \<Longrightarrow> lookup_account C src \<noteq> Some (lend_account C)"
  shows "pool_sound C s t"
proof -
  note typed = markets_wf_typed [OF wf]
  note quiet = quiet_sound [of C s t]
  show ?thesis
  proof (cases x)
    case (Mint c n)
    with d o1 show ?thesis by (auto simp: mint_def result_simps intro: mint_sound typed)
  next
    case (Redeem c n)
    with d o1 show ?thesis by (auto simp: redeem_def result_simps intro: redeem_sound typed)
  next
    case (RedeemAll c)
    with d o1 show ?thesis by (auto simp: redeem_all_def result_simps intro: redeem_all_sound typed)
  next
    case (Borrow c n)
    with d show ?thesis by (intro quiet) (auto simp: borrow_def result_simps intro: borrow_quiet typed)
  next
    case (RepayBorrow c n)
    with d o1 show ?thesis
      by (intro quiet) (auto simp: repay_borrow_def result_simps intro: repay_borrow_quiet typed)
  next
    case (RepayBorrowAll c)
    with d o1 obtain who where "o1 = Signed who" "repay_borrow_all F C E (Signed who) c s = Inr t"
      by (auto simp: repay_borrow_all_def result_simps)
    with o1 wf show ?thesis by (intro quiet) (auto intro: repay_all_quiet)
  next
    case (LiquidateBorrow debtor c n coll)
    with d o1 obtain who where "o1 = Signed who" "liquidate_borrow F C E (Signed who) debtor c n coll s = Inr t"
      by (auto simp: liquidate_borrow_def result_simps)
    with o1 wf show ?thesis by (intro quiet) (auto intro: liquidate_call_quiet)
  next
    case (CollateralAsset c b)
    with d show ?thesis
      by (intro quiet) (auto simp: collateral_asset_def result_simps intro: collateral_quiet split: if_splits)
  next
    case (AddReserves src c n)
    with d payer show ?thesis by (intro quiet) (auto intro: add_reserves_quiet)
  next
    case (ReduceReserves dst c n)
    with d show ?thesis by (intro quiet) (auto intro: reduce_reserves_quiet)
  next
    case (ReduceIncentiveReserves dst c n)
    with d show ?thesis by (auto intro: reduce_incentive_sound)
  next
    case (ClaimReward)
    with d show ?thesis by (intro quiet) (auto intro: claim_reward_quiet)
  next
    case (ClaimRewardForMarket c)
    with d show ?thesis by (intro quiet) (auto intro: claim_market_quiet)
  next
    case (UpdateMarketRewardSpeed c su bo)
    with d show ?thesis by (intro quiet_core_sound) (auto dest: core_reward_speed)
  next
    case (AddReward n)
    with d obtain who where "o1 = Signed who" "add_reward C (Signed who) n s = Inr t"
      by (auto simp: add_reward_def result_simps)
    with o1 show ?thesis by (intro quiet) (auto intro: add_reward_quiet)
  next
    case (WithdrawMissingReward dst n)
    with d show ?thesis by (intro quiet) (auto intro: withdraw_reward_quiet)
  qed (use d in \<open>auto intro!: quiet intro: governance_calls_quiet\<close>)
qed

lemma step_sound:
  assumes "lend_step F C s t" and wf: "markets_wf C s"
  shows "pool_sound C s t"
  using assms(1)
proof cases
  case (call E o1 x)
  then show ?thesis using dispatch_sound wf by blast
next
  case (trait_redeem E who c n)
  then show ?thesis by (rule redeem_sound) (rule markets_wf_typed [OF wf])
next
  case (trait_collateral E who c b)
  then show ?thesis using quiet_sound [OF collateral_quiet] by blast
next
  case (trait_balance E who c n)
  then have "accrue_interest F C E c s = Inr t"
    by (auto simp: get_current_borrow_balance_def result_simps)
  then show ?thesis using quiet_sound [OF accrue_wf_quiet [OF _ wf]] by blast
next
  case (vouchers E tok source dest n k)
  then show ?thesis using quiet_sound [OF lend_token_transfer_quiet] by blast
next
  case (outside c a b n p)
  then obtain l where "as_transfer (assets C) c a b n p (lend_ledger s) = Inr l"
    and "t = s\<lparr>lend_ledger := l\<rparr>"
    by (auto simp: result_simps)
  with outside show ?thesis by (intro quiet_sound outside_quiet [of c a b n p s l]) auto
qed

lemma reachable_backed: "lend_reachable F C s \<Longrightarrow> backed C s"
proof (induction rule: lend_reachable.induct)
  case (init l)
  show ?case by (rule backed_initial)
next
  case (step s t)
  then show ?case using step_sound [OF step(2) reachable_markets_wf [OF step(1)]]
    by (simp add: pool_sound_def)
qed

lemma reachable_step_call:
  assumes "lend_reachable F C s" and "lend_step F C s t"
  shows "pool_call (pool_of C s c) (pool_of C t c)"
  using step_sound [OF assms(2) reachable_markets_wf [OF assms(1)]] reachable_backed [OF assms(1)]
  by (simp add: pool_sound_def)

end

section \<open>The exact ledger and arithmetic\<close>

definition std_lend_config :: "balances lend_config" where
  "std_lend_config = \<lparr>assets = std_assets, reserve_origin = (\<lambda>o1. o1 = Root),
     update_origin = (\<lambda>o1. o1 = Root), lend_account = 500, farming_account = 501,
     incentive_account = 502, reward_asset_id = Native BNC, liquidation_free_asset_id = Token2 0,
     max_length_limit = 500, lookup_account = Some, market_hash = (\<lambda>c. 0)\<rparr>"

interpretation std_lend: lend_pallet std_fixed std_lend_config
proof (intro lend_pallet.intro lend_pallet_axioms.intro)
  show "fixed_point std_fixed" by (rule std_fixed_point)
  show "fungibles (assets std_lend_config)" by (simp add: std_lend_config_def std_fungibles)
qed (simp_all add: std_lend_config_def std_assets_def)

lemma std_lend_pallet: "lend_pallet std_fixed std_lend_config"
  by (rule std_lend.lend_pallet_axioms)

end
