(* ===== verification/Lend_Supply.thy ===== *)
theory Lend_Supply
  imports Lend_Steps
begin

text \<open>
  The vouchers in circulation. The total supply of a market is the sum of the vouchers of all accounts:
  minting and redeeming change both alike, liquidations and transfers only move vouchers. The liquidator's part
  is a subtraction that may wrap, so a liquidation conserves vouchers where the market's incentive is at least
  one; no call checks that.
\<close>

section \<open>Vouchers and their sum\<close>

definition supply_matches :: "'l lend_state \<Rightarrow> bool" where
  "supply_matches s \<longleftrightarrow>
     (\<forall>c. finite (support (voucher s c)) \<and> total_of (voucher s c) = total_supply s c)"

definition incentives_ok :: "'l lend_state \<Rightarrow> bool" where
  "incentives_ok s \<longleftrightarrow> (\<forall>c m. map_of (markets s) c = Some m \<longrightarrow> fx_one \<le> liquidate_incentive m)"

definition vouchers_of :: "deposits option \<Rightarrow> nat" where
  "vouchers_of d = (case d of None \<Rightarrow> 0 | Some x \<Rightarrow> voucher_balance x)"

lemma vouchers_of_simps [simp]: "vouchers_of None = 0" "vouchers_of (Some x) = voucher_balance x"
  by (simp_all add: vouchers_of_def)

lemma voucher_with:
  assumes "account_deposits t = with_vouchers s c who d"
  shows "voucher t c = (voucher s c)(who := vouchers_of d)" and "b \<noteq> c \<Longrightarrow> voucher t b = voucher s b"
  by (auto simp: deposits_of_def assms with_vouchers_def vouchers_of_def fun_eq_iff split: option.splits)

lemma voucher_cong: "account_deposits t = account_deposits s \<Longrightarrow> deposits_of t = deposits_of s"
  by (simp add: deposits_of_def fun_eq_iff)

lemma supply_cong:
  assumes "account_deposits t = account_deposits s" and "total_supply t = total_supply s"
  shows "supply_matches t = supply_matches s"
  by (simp add: supply_matches_def voucher_cong [OF assms(1)] assms(2))

lemma supply_core: "core t = core s \<Longrightarrow> supply_matches t = supply_matches s"
  by (rule supply_cong) (rule core_eqD, assumption)+

lemma supply_initial: "supply_matches (initial_lend_state l)"
  by (simp add: supply_matches_def initial_lend_state_def deposits_of_def total_of_def support_def)

text \<open>One deposit changes, and the supply with it.\<close>

lemma supply_update:
  assumes "supply_matches s" and "account_deposits t = with_vouchers s c who d"
    and "\<And>b. b \<noteq> c \<Longrightarrow> total_supply t b = total_supply s b"
    and "total_supply t c + voucher s c who = total_supply s c + vouchers_of d"
  shows "supply_matches t"
  unfolding supply_matches_def
proof
  fix b
  note v = voucher_with [OF assms(2)]
  have fin: "finite (support (voucher s b))" "total_of (voucher s b) = total_supply s b" for b
    using assms(1) by (simp_all add: supply_matches_def)
  show "finite (support (voucher t b)) \<and> total_of (voucher t b) = total_supply t b"
  proof (cases "b = c")
    case True
    have "total_of (voucher t c) + voucher s c who = total_of (voucher s c) + vouchers_of d"
      unfolding v(1) by (rule total_of_fun_upd [OF fin(1)])
    then have "total_of (voucher t c) = total_supply t c"
      using assms(4) fin(2) [of c] by simp
    moreover have "finite (support (voucher t c))"
      unfolding v(1) by (rule finite_support_fun_upd [OF fin(1)])
    ultimately show ?thesis using True by simp
  next
    case False
    with v(2) [OF False] fin [of b] assms(3) [of b] show ?thesis by simp
  qed
qed

text \<open>Moving vouchers, as a change of the sum of one market.\<close>

definition voucher_sum :: "'l lend_state \<Rightarrow> currency \<Rightarrow> nat" where
  "voucher_sum s c = total_of (voucher s c)"

definition finite_vouchers :: "'l lend_state \<Rightarrow> bool" where
  "finite_vouchers s \<longleftrightarrow> (\<forall>c. finite (support (voucher s c)))"

lemma supply_matches_sum:
  "supply_matches s \<longleftrightarrow> finite_vouchers s \<and> (\<forall>c. voucher_sum s c = total_supply s c)"
  by (auto simp: supply_matches_def finite_vouchers_def voucher_sum_def)

lemma sum_update:
  assumes "finite_vouchers s" and "account_deposits t = with_vouchers s c who d"
  shows "finite_vouchers t" and "voucher_sum t c + voucher s c who = voucher_sum s c + vouchers_of d"
    and "b \<noteq> c \<Longrightarrow> voucher_sum t b = voucher_sum s b"
proof -
  note v = voucher_with [OF assms(2)]
  have fin: "finite (support (voucher s b))" for b
    using assms(1) by (simp add: finite_vouchers_def)
  show "voucher_sum t c + voucher s c who = voucher_sum s c + vouchers_of d"
    unfolding voucher_sum_def v(1) by (rule total_of_fun_upd [OF fin])
  show "b \<noteq> c \<Longrightarrow> voucher_sum t b = voucher_sum s b"
    by (simp add: voucher_sum_def v(2))
  have "finite (support (voucher t b))" for b
    by (cases "b = c") (simp_all add: v finite_support_fun_upd fin)
  then show "finite_vouchers t" by (simp add: finite_vouchers_def)
qed

lemma put_deposits_with: "account_deposits (put_deposits c who d s) = with_vouchers s c who d"
  by (simp add: put_deposits_def with_vouchers_def)

lemma add_vouchers_sum:
  assumes "add_vouchers c who n s = Inr t" and "finite_vouchers s"
  shows "finite_vouchers t" and "voucher_sum t b = voucher_sum s b + (if b = c then n else 0)"
proof -
  have t: "account_deposits t = with_vouchers s c who
      (Some ((deposits_of s c who)\<lparr>voucher_balance := voucher s c who + n\<rparr>))"
    using assms(1) by (simp add: add_vouchers_Inr put_deposits_with)
  note u = sum_update [OF assms(2) t]
  show "finite_vouchers t" by (rule u(1))
  show "voucher_sum t b = voucher_sum s b + (if b = c then n else 0)"
    using u(2) u(3) [of b] by (cases "b = c") simp_all
qed

lemma sub_vouchers_sum:
  assumes "sub_vouchers c who n s = Inr t" and "finite_vouchers s"
  shows "finite_vouchers t" and "voucher_sum t b + (if b = c then n else 0) = voucher_sum s b"
proof -
  have n: "n \<le> voucher s c who" and t: "account_deposits t = with_vouchers s c who
      (Some ((deposits_of s c who)\<lparr>voucher_balance := voucher s c who - n\<rparr>))"
    using assms(1) by (simp_all add: sub_vouchers_Inr put_deposits_with)
  note u = sum_update [OF assms(2) t]
  show "finite_vouchers t" by (rule u(1))
  show "voucher_sum t b + (if b = c then n else 0) = voucher_sum s b"
    using n u(2) u(3) [of b] by (cases "b = c") simp_all
qed

lemma take_vouchers_sum:
  assumes "take_vouchers c who n s = Inr t" and "finite_vouchers s"
  shows "finite_vouchers t" and "voucher_sum t b + (if b = c then n else 0) = voucher_sum s b"
proof -
  have n: "n \<le> voucher s c who" and t: "account_deposits t = with_vouchers s c who
      (if voucher s c who = n then None
       else Some ((deposits_of s c who)\<lparr>voucher_balance := voucher s c who - n\<rparr>))"
    using assms(1) by (simp_all add: take_vouchers_Inr put_deposits_with)
  note u = sum_update [OF assms(2) t]
  show "finite_vouchers t" by (rule u(1))
  show "voucher_sum t b + (if b = c then n else 0) = voucher_sum s b"
    using n u(2) u(3) [of b] by (cases "b = c") (auto split: if_splits)
qed

lemma sum_cong:
  assumes "account_deposits t = account_deposits s"
  shows "finite_vouchers t = finite_vouchers s" and "voucher_sum t = voucher_sum s"
  by (simp_all add: finite_vouchers_def voucher_sum_def voucher_cong [OF assms] fun_eq_iff)

text \<open>Governance of the markets leaves deposits and supplies alone.\<close>

lemma mutate_market_keeps:
  assumes "mutate_market C c f s = Inr (m, t)"
  shows "account_deposits t = account_deposits s" and "total_supply t = total_supply s"
  using assms by (auto simp: mutate_market_def put_market_def split: option.splits)

lemma add_market_keeps:
  assumes "add_market C o1 c m s = Inr t"
  shows "account_deposits t = account_deposits s" and "total_supply t = total_supply s"
  using assms by (auto simp: add_market_def put_market_def result_simps Let_def)

lemma activate_market_keeps:
  assumes "activate_market C o1 c s = Inr t"
  shows "account_deposits t = account_deposits s" and "total_supply t = total_supply s"
  using assms by (auto simp: activate_market_def result_simps mutate_market_keeps)

lemma update_rate_model_keeps:
  assumes "update_rate_model C o1 c rm s = Inr t"
  shows "account_deposits t = account_deposits s" and "total_supply t = total_supply s"
  using assms by (auto simp: update_rate_model_def result_simps mutate_market_keeps)

lemma update_market_keeps:
  assumes "update_market C o1 c cf lt rf cl re li su bo s = Inr t"
  shows "account_deposits t = account_deposits s" and "total_supply t = total_supply s"
  using assms by (auto simp: update_market_def result_simps Let_def mutate_market_keeps)

lemma force_update_market_keeps:
  assumes "force_update_market C o1 c m s = Inr t"
  shows "account_deposits t = account_deposits s" and "total_supply t = total_supply s"
  using assms
  by (auto simp: force_update_market_def result_simps Let_def put_market_def mutate_market_keeps
      split: if_splits)

section \<open>The operations\<close>

lemma accrue_deposits:
  assumes "accrue_interest F C E c s = Inr t"
  shows "account_deposits t = account_deposits s" and "total_supply t = total_supply s"
  using assms by (cases rule: accrue_cases; auto dest: coreD)+

lemma mint_supply:
  assumes "do_mint F C E who c a s = Inr t" and "supply_matches s"
  shows "supply_matches t"
  using assms(1)
proof (cases rule: mint_cases)
  case (1 m s1 rate v l)
  have "supply_matches s1"
    using assms(2) accrue_deposits [OF 1(4)] supply_cong by blast
  then show ?thesis
    by (rule supply_update) (use coreD [OF 1(11)] in auto)
qed


lemma redeem_voucher_supply:
  assumes "do_redeem_voucher F C E who c v s = Inr (u, t)" and "supply_matches s"
  shows "supply_matches t"
  using assms(1)
proof (cases rule: redeem_voucher_cases)
  case (1 rate l)
  show ?thesis
    by (rule supply_update [OF assms(2)]) (use coreD [OF 1(7)] 1(4,5) in auto)
qed

lemma redeem_supply:
  assumes "do_redeem F C E who c a s = Inr t" and "supply_matches s"
  shows "supply_matches t"
  using assms(1)
proof (cases rule: redeem_cases)
  case (1 m s1 s2 s3 rate v u)
  have "supply_matches s2"
    using assms(2) supply_cong [OF accrue_deposits [OF 1(2)]] supply_core [OF 1(5)] by simp
  then show ?thesis
    using redeem_voucher_supply [OF 1(6)] supply_core [OF 1(7)] by simp
qed

lemma redeem_all_supply:
  assumes "do_redeem_all F C E who c s = Inr (u, t)" and "supply_matches s"
  shows "supply_matches t"
  using assms(1)
proof (cases rule: redeem_all_cases)
  case (1 m s1 s2 s3)
  have "supply_matches s2"
    using assms(2) supply_cong [OF accrue_deposits [OF 1(2)]] supply_core [OF 1(3)] by simp
  then show ?thesis
    using redeem_voucher_supply [OF 1(4)] supply_core [OF 1(5)] by simp
qed

lemma collateral_supply:
  assumes "do_collateral_asset F C E who c b s = Inr t" and "supply_matches s"
  shows "supply_matches t"
  using assms(1)
proof (cases rule: collateral_asset_cases)
  case (1 d)
  then have "voucher s c who = voucher_balance d" by (simp add: deposits_of_def)
  then show ?thesis
    by (intro supply_update [OF assms(2)]) (use coreD [OF 1(2)] in auto)
qed

lemma borrow_supply:
  assumes "do_borrow F C E who c a s = Inr t"
  shows "supply_matches t = supply_matches s"
  using assms
proof (cases rule: borrow_cases)
  case (1 m s1 n l)
  show ?thesis
    using coreD [OF 1(9)] accrue_deposits [OF 1(2)] by (intro supply_cong) simp_all
qed

lemma repay_supply:
  assumes "do_repay_borrow F C E who c a s = Inr t"
  shows "supply_matches t = supply_matches s"
  using assms
proof (cases rule: repay_borrow_cases)
  case (1 m s1 n l)
  show ?thesis
    using coreD [OF 1(6)] accrue_deposits [OF 1(2)] by (intro supply_cong) simp_all
qed

lemma token_transfer_supply:
  assumes "lend_token_transfer F C E tok source dest a s = Inr (n, t)" and "supply_matches s"
  shows "supply_matches t"
  using assms(1)
proof (cases rule: lend_token_transfer_cases)
  case (1 c s3 s4)
  have s3: "finite_vouchers s3" "\<And>b. voucher_sum s3 b = total_supply s3 b"
    using assms(2) supply_core [OF 1(4)] by (simp_all add: supply_matches_sum)
  note take = take_vouchers_sum [OF 1(5) s3(1)]
  note add = add_vouchers_sum [OF 1(6) take(1)]
  have "total_supply t = total_supply s3"
    using 1(5,6) by (auto simp: take_vouchers_Inr add_vouchers_Inr)
  moreover have "voucher_sum t b = voucher_sum s3 b" for b
    using take(2) [of b] add(2) [of b] by simp
  ultimately show ?thesis
    using add(1) s3(2) by (simp add: supply_matches_sum)
qed

context fixed_point
begin

lemma reserved_le:
  assumes "fx_div F v incentive = Some q" and "fx_one \<le> incentive" and "p \<le> perm_one"
  shows "perm_mul_floor F p q \<le> v"
proof -
  have "q = v * fx_one div incentive" using assms(1) by (simp add: div_Some)
  also have "\<dots> \<le> v * incentive div incentive"
    using assms(2) by (intro div_le_mono) simp
  also have "\<dots> \<le> v" by simp
  finally show ?thesis using mul_floor_le [OF assms(3), of q] by simp
qed

lemma liquidated_transfer_supply:
  assumes "liquidated_transfer F C E liquidator debtor c coll a n m s = Inr t" and "supply_matches s"
    and "fx_one \<le> liquidate_incentive m" and "liquidate_incentive_reserved_factor m \<le> perm_one"
  shows "supply_matches t"
  using assms(1)
proof (cases rule: liquidated_transfer_cases)
  case (1 l owed s8 rate v s9 q s10 s11)
  let ?r = "perm_mul_floor F (liquidate_incentive_reserved_factor m) q"
  note k = coreD [OF 1(5)]
  have s8: "finite_vouchers s8" "\<And>b. voucher_sum s8 b = total_supply s8 b"
    using assms(2) supply_cong [of s8 s] k by (simp_all add: supply_matches_sum)
  have r: "?r \<le> v" using 1(9) assms(3,4) by (rule reserved_le)
  moreover have "v \<le> u128_max" using 1(7) by (simp add: div_Some)
  ultimately have w: "wrapping_sub v ?r = v - ?r" by (rule wrapping_sub_exact)
  note sub = sub_vouchers_sum [OF 1(8) s8(1)]
  note add = add_vouchers_sum [OF 1(10) sub(1)]
  note add' = add_vouchers_sum [OF 1(11) add(1)]
  have "total_supply s11 = total_supply s8"
    using 1(8,10,11) by (auto simp: sub_vouchers_Inr add_vouchers_Inr)
  moreover have "voucher_sum s11 b = voucher_sum s8 b" for b
    using sub(2) [of b] add(2) [of b] add'(2) [of b] r by (cases "b = coll") (simp_all add: w)
  ultimately have "supply_matches s11"
    using add'(1) s8(2) by (simp add: supply_matches_sum)
  then show ?thesis using supply_core [OF 1(12)] by simp
qed

lemma liquidate_supply:
  assumes "do_liquidate_borrow F C E liquidator debtor c a coll s = Inr t" and "supply_matches s"
    and "markets_wf C s" and "incentives_ok s"
  shows "supply_matches t"
  using assms(1)
proof (cases rule: liquidate_cases_lend)
  case (1 m m' n price rate rv lv cv amount)
  have "fx_one \<le> liquidate_incentive m" "liquidate_incentive_reserved_factor m \<le> perm_one"
    using assms(3,4) 1(2) by (simp_all add: incentives_ok_def markets_wf_def market_typed_def)
  with 1(14) assms(2) show ?thesis by (rule liquidated_transfer_supply)
qed

lemma dispatch_supply:
  assumes d: "lend_dispatch F C E o1 x s = Inr t" and wf: "markets_wf C s" and inc: "incentives_ok s"
    and ok: "supply_matches s"
  shows "supply_matches t"
proof -
  have same: "account_deposits t = account_deposits s \<Longrightarrow> total_supply t = total_supply s \<Longrightarrow> ?thesis"
    using supply_cong [of t s] ok by simp
  have same_core: "core u = core s \<Longrightarrow> core t = (core u)\<lparr>k_ledger := l\<rparr> \<Longrightarrow> ?thesis" for u l
    using coreD [of t "(core u)\<lparr>k_ledger := l\<rparr>"] core_eqD [of u s] by (intro same) simp_all
  have pay: "pay_reward C who u = Inr t \<Longrightarrow> core u = core s \<Longrightarrow> ?thesis" for who u
  proof (erule pay_reward_cases)
    assume "core u = core s" "core t = core u"
    then have "core t = core s" by simp
    then show ?thesis using supply_core ok by blast
  qed (rule same_core)
  show ?thesis
  proof (cases x)
    case (Mint c n)
    with d ok show ?thesis by (auto simp: mint_def result_simps intro: mint_supply)
  next
    case (Redeem c n)
    with d ok show ?thesis by (auto simp: redeem_def result_simps intro: redeem_supply)
  next
    case (RedeemAll c)
    with d ok show ?thesis by (auto simp: redeem_all_def result_simps intro: redeem_all_supply)
  next
    case (Borrow c n)
    with d ok show ?thesis by (auto simp: borrow_def result_simps dest: borrow_supply)
  next
    case (RepayBorrow c n)
    with d ok show ?thesis by (auto simp: repay_borrow_def result_simps dest: repay_supply)
  next
    case (RepayBorrowAll c)
    with d obtain who s1 n where *: "accrue_interest F C E c s = Inr s1" "do_repay_borrow F C E who c n s1 = Inr t"
      by (auto simp: repay_borrow_all_def result_simps)
    show ?thesis
      using ok repay_supply [OF *(2)] supply_cong [OF accrue_deposits [OF *(1)]] by simp
  next
    case (LiquidateBorrow debtor c n coll)
    with d obtain who s1 s2 where *: "accrue_interest F C E c s = Inr s1"
      "accrue_interest F C E coll s1 = Inr s2" "do_liquidate_borrow F C E who debtor c n coll s2 = Inr t"
      by (auto simp: liquidate_borrow_def result_simps)
    have m: "same_markets s s2"
      by (rule same_markets_trans [OF accrue_markets [OF *(1)] accrue_markets [OF *(2)]])
    then have "incentives_ok s2" using inc by (simp add: incentives_ok_def same_markets_def)
    moreover have "supply_matches s2"
      using ok supply_cong [OF accrue_deposits [OF *(1)]] supply_cong [OF accrue_deposits [OF *(2)]] by simp
    ultimately show ?thesis
      using liquidate_supply [OF *(3)] markets_wf_same [OF m wf] by blast
  next
    case (CollateralAsset c b)
    with d ok show ?thesis
      by (auto simp: collateral_asset_def result_simps intro: collateral_supply split: if_splits)
  next
    case (AddReserves src c n)
    with d have "add_reserves C o1 src c n s = Inr t" by simp
    then show ?thesis
    proof (cases rule: add_reserves_cases)
      case (1 payer l)
      show ?thesis using coreD [OF 1(4)] by (intro same) simp_all
    qed
  next
    case (ReduceReserves dst c n)
    with d have "reduce_reserves C o1 dst c n s = Inr t" by simp
    then show ?thesis
    proof (cases rule: reduce_reserves_cases)
      case (1 receiver l)
      show ?thesis using coreD [OF 1(3)] by (intro same) simp_all
    qed
  next
    case (ReduceIncentiveReserves dst c n)
    with d have "reduce_incentive_reserves F C E o1 dst c n s = Inr t" by simp
    then show ?thesis
    proof (cases rule: reduce_incentive_cases)
      case (1 v u s1 l receiver)
      show ?thesis
        using redeem_voucher_supply [OF 1(1) ok] coreD [OF 1(3)] supply_cong [of t s1] by simp
    qed
  next
    case (ClaimReward)
    with d have "claim_reward F C E o1 s = Inr t" by simp
    then show ?thesis by (rule claim_reward_core) (rule pay)
  next
    case (ClaimRewardForMarket c)
    with d obtain who s1 where "collect_market_reward F E c who s = Inr s1" "pay_reward C who s1 = Inr t"
      by (auto simp: claim_reward_for_market_def result_simps)
    then show ?thesis using pay core_collect by blast
  next
    case (UpdateMarketRewardSpeed c su bo)
    with d have "core t = core s" using core_reward_speed by auto
    then show ?thesis using supply_core ok by blast
  next
    case (AddMarket c m)
    with d show ?thesis by (intro same) (simp_all add: add_market_keeps)
  next
    case (ActivateMarket c)
    with d show ?thesis by (intro same) (simp_all add: activate_market_keeps)
  next
    case (UpdateRateModel c rm)
    with d show ?thesis by (intro same) (simp_all add: update_rate_model_keeps)
  next
    case (UpdateMarket c cf lt rf cl re li su bo)
    with d show ?thesis by (intro same) (simp_all add: update_market_keeps)
  next
    case (ForceUpdateMarket c m)
    with d show ?thesis by (intro same) (simp_all add: force_update_market_keeps)
  next
    case (AddReward n)
    with d have "add_reward C o1 n s = Inr t" by simp
    then show ?thesis using same by (auto simp: add_reward_def result_simps)
  next
    case (WithdrawMissingReward dst n)
    with d have "withdraw_missing_reward C o1 dst n s = Inr t" by simp
    then show ?thesis using same by (auto simp: withdraw_missing_reward_def result_simps)
  next
    case (UpdateLiquidationFreeCollateral cs)
    with d show ?thesis by (intro same) (auto simp: update_liquidation_free_collateral_def result_simps)
  next
    case (AddMarketBond c cs)
    with d show ?thesis by (intro same) (auto simp: add_market_bond_def result_simps)
  qed
qed

lemma step_supply:
  assumes "lend_step F C s t" and wf: "markets_wf C s" and "incentives_ok s" and ok: "supply_matches s"
  shows "supply_matches t"
  using assms(1)
proof cases
  case (call E o1 x)
  then show ?thesis using dispatch_supply assms(2-4) by blast
next
  case (trait_redeem E who c n)
  then show ?thesis using redeem_supply ok by blast
next
  case (trait_collateral E who c b)
  then show ?thesis using collateral_supply ok by blast
next
  case (trait_balance E who c n)
  then have "accrue_interest F C E c s = Inr t"
    by (auto simp: get_current_borrow_balance_def result_simps)
  then show ?thesis using supply_cong [OF accrue_deposits] ok by blast
next
  case (vouchers E tok source dest n k)
  then show ?thesis using token_transfer_supply ok by blast
next
  case (outside c a b n p)
  then show ?thesis using supply_cong [of t s] ok by (auto simp: result_simps)
qed

text \<open>Runs on whose way every market pays liquidators an incentive of at least one.\<close>

lemma run_supply:
  assumes "(\<lambda>s t. lend_step F C s t \<and> incentives_ok s)\<^sup>*\<^sup>* (initial_lend_state l) s"
  shows "markets_wf C s \<and> supply_matches s"
  using assms
proof (induction rule: rtranclp_induct)
  case base
  show ?case by (simp add: markets_wf_initial supply_initial)
next
  case (step s u)
  from step.IH have "markets_wf C s" and "supply_matches s" by simp_all
  with step.hyps show ?case using step_supply step_markets_wf by blast
qed

end

section \<open>The borrow index\<close>

lemma accrue_index:
  assumes "accrue_interest F C E c s = Inr t"
  shows "borrow_index s d \<le> borrow_index t d"
  using assms
proof (cases rule: accrue_cases)
  case start
  then show ?thesis using core_eqD(7) [OF start(3)] by simp
next
  case (grown m util rate interest inc xrate)
  then show ?thesis using coreD [OF grown(10)] by simp
qed simp

end
