(* ===== verification/Lend_Index.thy ===== *)
theory Lend_Index
  imports Lend_Supply
begin

text \<open>
  The borrow index of a market, the factor by which its debts have grown: it starts at one when the market is
  added and no step lowers it.
\<close>

definition index_le :: "'l lend_state \<Rightarrow> 'l lend_state \<Rightarrow> bool" where
  "index_le s t \<longleftrightarrow> (\<forall>c. borrow_index s c \<le> borrow_index t c)"

definition index_ok :: "'l lend_state \<Rightarrow> bool" where
  "index_ok s \<longleftrightarrow> (\<forall>c. map_of (markets s) c \<noteq> None \<longrightarrow> fx_one \<le> borrow_index s c)"

definition index_step :: "'l lend_state \<Rightarrow> 'l lend_state \<Rightarrow> bool" where
  "index_step s t \<longleftrightarrow>
     (\<forall>c. map_of (markets s) c \<noteq> None \<longrightarrow> borrow_index s c \<le> borrow_index t c) \<and> (index_ok s \<longrightarrow> index_ok t)"

lemma index_le_refl: "borrow_index t = borrow_index s \<Longrightarrow> index_le s t"
  by (simp add: index_le_def)

lemma index_le_core: "core t = core s \<Longrightarrow> index_le s t"
  by (intro index_le_refl core_eqD)

lemma index_le_coreI: "core t = k \<Longrightarrow> k_index k = borrow_index s \<Longrightarrow> index_le s t"
  using coreD(7) [of t k] by (simp add: index_le_refl)

lemma index_le_trans: "index_le s t \<Longrightarrow> index_le t u \<Longrightarrow> index_le s u"
  unfolding index_le_def by (meson le_trans)

lemma accrue_index_le: "accrue_interest F C E c s = Inr t \<Longrightarrow> index_le s t"
  by (simp add: index_le_def accrue_index)

section \<open>The operations\<close>

lemma mint_index:
  assumes "do_mint F C E who c a s = Inr t"
  shows "index_le s t"
  using assms
proof (cases rule: mint_cases)
  case (1 m s1 rate v l)
  have "index_le s1 t" by (rule index_le_coreI [OF 1(11)]) simp
  with accrue_index_le [OF 1(4)] show ?thesis by (rule index_le_trans)
qed

lemma redeem_voucher_index: "do_redeem_voucher F C E who c v s = Inr (u, t) \<Longrightarrow> index_le s t"
  by (erule redeem_voucher_cases) (erule index_le_coreI, simp)

lemma redeem_index:
  assumes "do_redeem F C E who c a s = Inr t"
  shows "index_le s t"
  using assms
proof (cases rule: redeem_cases)
  case (1 m s1 s2 s3 rate v u)
  show ?thesis
    using accrue_index_le [OF 1(2)] index_le_core [OF 1(5)] redeem_voucher_index [OF 1(6)]
      index_le_core [OF 1(7)] by (blast intro: index_le_trans)
qed

lemma redeem_all_index:
  assumes "do_redeem_all F C E who c s = Inr (u, t)"
  shows "index_le s t"
  using assms
proof (cases rule: redeem_all_cases)
  case (1 m s1 s2 s3)
  show ?thesis
    using accrue_index_le [OF 1(2)] index_le_core [OF 1(3)] redeem_voucher_index [OF 1(4)]
      index_le_core [OF 1(5)] by (blast intro: index_le_trans)
qed

lemma collateral_index: "do_collateral_asset F C E who c b s = Inr t \<Longrightarrow> index_le s t"
  by (erule collateral_asset_cases) (erule index_le_coreI, simp)

lemma borrow_index_le:
  assumes "do_borrow F C E who c a s = Inr t"
  shows "index_le s t"
  using assms
proof (cases rule: borrow_cases)
  case (1 m s1 n l)
  have "index_le s1 t" by (rule index_le_coreI [OF 1(9)]) simp
  with accrue_index_le [OF 1(2)] show ?thesis by (rule index_le_trans)
qed

lemma repay_index:
  assumes "do_repay_borrow F C E who c a s = Inr t"
  shows "index_le s t"
  using assms
proof (cases rule: repay_borrow_cases)
  case (1 m s1 n l)
  have "index_le s1 t" by (rule index_le_coreI [OF 1(6)]) simp
  with accrue_index_le [OF 1(2)] show ?thesis by (rule index_le_trans)
qed

lemma moved_vouchers_index:
  "add_vouchers c who n s = Inr t \<Longrightarrow> index_le s t"
  "sub_vouchers c who n s = Inr t \<Longrightarrow> index_le s t"
  "take_vouchers c who n s = Inr t \<Longrightarrow> index_le s t"
  by (auto simp: add_vouchers_Inr sub_vouchers_Inr take_vouchers_Inr put_deposits_def index_le_def)

lemma liquidate_index:
  assumes "do_liquidate_borrow F C E liquidator debtor c a coll s = Inr t"
  shows "index_le s t"
  using assms
proof (cases rule: liquidate_cases_lend)
  case (1 m m' n price rate rv lv cv amount)
  from 1(14) show ?thesis
  proof (cases rule: liquidated_transfer_cases)
    case (1 l owed s8 rate v s9 q s10 s11)
    have "index_le s s8" by (rule index_le_coreI [OF 1(5)]) simp
    then show ?thesis
      using moved_vouchers_index(2) [OF 1(8)] moved_vouchers_index(1) [OF 1(10)]
        moved_vouchers_index(1) [OF 1(11)] index_le_core [OF 1(12)] by (blast intro: index_le_trans)
  qed
qed

lemma token_transfer_index:
  assumes "lend_token_transfer F C E tok source dest a s = Inr (n, t)"
  shows "index_le s t"
  using assms
proof (cases rule: lend_token_transfer_cases)
  case (1 c s3 s4)
  then show ?thesis
    using index_le_core [OF 1(4)] moved_vouchers_index(3) [OF 1(5)] moved_vouchers_index(1) [OF 1(6)]
    by (blast intro: index_le_trans)
qed

lemma reduce_incentive_index:
  assumes "reduce_incentive_reserves F C E o1 dst c n s = Inr t"
  shows "index_le s t"
  using assms
proof (cases rule: reduce_incentive_cases)
  case (1 v u s1 l receiver)
  have "index_le s1 t" by (rule index_le_coreI [OF 1(3)]) simp
  with redeem_voucher_index [OF 1(1)] show ?thesis by (rule index_le_trans)
qed

lemma reserves_index:
  "add_reserves C o1 src c n s = Inr t \<Longrightarrow> index_le s t"
  "reduce_reserves C o1 src c n s = Inr t \<Longrightarrow> index_le s t"
  by (erule add_reserves_cases reduce_reserves_cases; erule index_le_coreI; simp)+

lemma pay_reward_index: "pay_reward C who s = Inr t \<Longrightarrow> index_le s t"
  by (erule pay_reward_cases) (simp add: index_le_core, erule index_le_coreI, simp)

lemma accrue_twice_index:
  assumes "accrue_interest F C E c s = Inr s1" and "accrue_interest F C E d s1 = Inr s2" and "index_le s2 t"
  shows "index_le s t"
  using accrue_index_le [OF assms(1)] accrue_index_le [OF assms(2)] assms(3) by (blast intro: index_le_trans)

section \<open>Every step\<close>

lemma quiet_dispatch_index:
  assumes d: "lend_dispatch F C E o1 x s = Inr t" and "\<not> governs_markets x"
  shows "index_le s t"
proof (cases x)
  case (Mint c n)
  with d show ?thesis by (auto simp: mint_def result_simps intro: mint_index)
next
  case (Redeem c n)
  with d show ?thesis by (auto simp: redeem_def result_simps intro: redeem_index)
next
  case (RedeemAll c)
  with d show ?thesis by (auto simp: redeem_all_def result_simps intro: redeem_all_index)
next
  case (Borrow c n)
  with d show ?thesis by (auto simp: borrow_def result_simps intro: borrow_index_le)
next
  case (RepayBorrow c n)
  with d show ?thesis by (auto simp: repay_borrow_def result_simps intro: repay_index)
next
  case (RepayBorrowAll c)
  with d show ?thesis
    by (auto simp: repay_borrow_all_def result_simps intro: index_le_trans accrue_index_le repay_index)
next
  case (CollateralAsset c b)
  with d show ?thesis
    by (auto simp: collateral_asset_def result_simps intro: collateral_index split: if_splits)
next
  case (LiquidateBorrow debtor c n coll)
  with d show ?thesis
    by (auto simp: liquidate_borrow_def result_simps intro: accrue_twice_index liquidate_index)
next
  case (ClaimReward)
  with d have "claim_reward F C E o1 s = Inr t" by simp
  then show ?thesis
  proof (rule claim_reward_core)
    fix who u
    assume "pay_reward C who u = Inr t" and "core u = core s"
    then show "index_le s t" using pay_reward_index index_le_core index_le_trans by blast
  qed
next
  case (ClaimRewardForMarket c)
  with d obtain who s1 where "collect_market_reward F E c who s = Inr s1" "pay_reward C who s1 = Inr t"
    by (auto simp: claim_reward_for_market_def result_simps)
  then show ?thesis using pay_reward_index index_le_core [OF core_collect] index_le_trans by blast
next
  case (UpdateMarketRewardSpeed c su bo)
  with d have "core t = core s" using core_reward_speed by auto
  then show ?thesis by (rule index_le_core)
next
  case (AddReward n)
  with d show ?thesis by (auto simp: add_reward_def result_simps index_le_def)
next
  case (WithdrawMissingReward dst n)
  with d show ?thesis by (auto simp: withdraw_missing_reward_def result_simps index_le_def)
next
  case (UpdateLiquidationFreeCollateral cs)
  with d show ?thesis by (auto simp: update_liquidation_free_collateral_def result_simps index_le_def)
next
  case (AddMarketBond c cs)
  with d show ?thesis by (auto simp: add_market_bond_def result_simps index_le_def)
qed (use d assms(2) reserves_index reduce_incentive_index in \<open>fastforce+\<close>)

lemma index_ok_same:
  assumes "same_markets s t" and "index_le s t"
  shows "index_step s t"
proof -
  have le: "borrow_index s c \<le> borrow_index t c" for c using assms(2) by (simp add: index_le_def)
  have "fx_one \<le> borrow_index t c" if "fx_one \<le> borrow_index s c" for c
    using that le [of c] by (rule order_trans)
  with le assms(1) show ?thesis by (auto simp: index_step_def index_ok_def same_markets_def)
qed

text \<open>A market that is put where there was one, or put with the index one.\<close>

lemma index_ok_put:
  assumes "markets t = sm_put (market_hash C) c m (markets s)"
    and "map_of (markets s) c \<noteq> None \<and> borrow_index t = borrow_index s \<or>
         map_of (markets s) c = None \<and> borrow_index t = (borrow_index s)(c := fx_one)"
  shows "index_step s t"
  using assms by (auto simp: index_step_def index_ok_def map_of_sm_put)

lemma mutate_market_index:
  assumes "mutate_market C c f s = Inr (m, t)"
  shows "markets t = sm_put (market_hash C) c m (markets s)" and "map_of (markets s) c \<noteq> None"
    and "borrow_index t = borrow_index s"
  using assms by (auto simp: mutate_market_def put_market_def split: option.splits)

lemma governs_index:
  assumes d: "lend_dispatch F C E o1 x s = Inr t" and "governs_markets x"
  shows "index_step s t"
proof (cases x)
  case (AddMarket c m)
  with d show ?thesis
    by (intro index_ok_put [of t C c m s]) (auto simp: add_market_def put_market_def Let_def result_simps)
next
  case (ActivateMarket c)
  with d obtain m s1 where m: "mutate_market C c
      (\<lambda>m. if market_state m = MarketActive then m else m\<lparr>market_state := MarketActive\<rparr>) s = Inr (m, s1)"
    and "t = emit (ActivatedMarket c) s1"
    by (auto simp: activate_market_def result_simps)
  then show ?thesis
    by (intro index_ok_put [of t C c m s]) (simp_all add: mutate_market_index [OF m])
next
  case (UpdateRateModel c rm)
  with d obtain m s1 where m: "mutate_market C c (\<lambda>m. m\<lparr>rate_model := rm\<rparr>) s = Inr (m, s1)"
    and "borrow_index t = borrow_index s1" "markets t = markets s1"
    by (auto simp: update_rate_model_def result_simps)
  then show ?thesis
    by (intro index_ok_put [of t C c m s]) (simp_all add: mutate_market_index [OF m])
next
  case (UpdateMarket c cf lt rf cl re li su bo)
  with d obtain f m s1 where m: "mutate_market C c f s = Inr (m, s1)" and "t = emit (UpdatedMarket c m) s1"
    by (auto simp: update_market_def Let_def result_simps)
  then show ?thesis
    by (intro index_ok_put [of t C c m s]) (simp_all add: mutate_market_index [OF m])
next
  case (ForceUpdateMarket c m0)
  with d obtain s0 m s1 where m: "mutate_market C c (\<lambda>_. m0) s0 = Inr (m, s1)"
    and "markets s0 = markets s" "borrow_index s0 = borrow_index s" and "t = emit (UpdatedMarket c m) s1"
    by (auto simp: force_update_market_def Let_def result_simps)
  then show ?thesis
    by (intro index_ok_put [of t C c m s]) (use mutate_market_index [OF m] in simp_all)
qed (use assms(2) in simp_all)

lemma step_index:
  assumes "lend_step F C s t"
  shows "index_step s t"
  using assms
proof cases
  case (call E o1 x)
  show ?thesis
  proof (cases "governs_markets x")
    case True
    with call(1) show ?thesis by (rule governs_index)
  next
    case False
    show ?thesis
      by (rule index_ok_same [OF dispatch_same_markets [OF call(1) False] quiet_dispatch_index [OF call(1) False]])
  qed
next
  case (trait_redeem E who c n)
  then show ?thesis using index_ok_same [OF redeem_markets redeem_index] by blast
next
  case (trait_collateral E who c b)
  then show ?thesis using index_ok_same [OF collateral_markets collateral_index] by blast
next
  case (trait_balance E who c n)
  then have "accrue_interest F C E c s = Inr t"
    by (auto simp: get_current_borrow_balance_def result_simps)
  then show ?thesis using index_ok_same [OF accrue_markets accrue_index_le] by blast
next
  case (vouchers E tok source dest n k)
  then show ?thesis using index_ok_same [OF token_transfer_markets token_transfer_index] by blast
next
  case (outside c a b n p)
  then show ?thesis
    using index_ok_same [OF transfer_markets [OF outside(1)]] by (auto simp: result_simps index_le_def)
qed

lemma reachable_index: "lend_reachable F C s \<Longrightarrow> index_ok s"
proof (induction rule: lend_reachable.induct)
  case (init l)
  show ?case by (simp add: index_ok_def initial_lend_state_def)
next
  case (step s t)
  then show ?case using step_index [OF step(2)] by (simp add: index_step_def)
qed

end
