(* ===== verification/Lend_Demo.thy ===== *)
theory Lend_Demo
  imports Lend_Supply
begin

text \<open>
  A run of the lend market on the exact arithmetic and ledger, for the witnesses: two markets open and are
  bonded to each other, account 10 supplies coins, account 11 supplies bonds as collateral and borrows
  coins. A year later, with the price of the coin doubled, account 12 may liquidate.
\<close>

section \<open>Parameters\<close>

lemma std_ops:
  "perm_mul_floor std_fixed m n = m * n div perm_one"
  "perm_mul_ceil std_fixed m n = (m * n + (perm_one - 1)) div perm_one"
  "fx_of_perm std_fixed m = m * 10 ^ 12"
  "fx_mul_int std_fixed a n = chk u128_max (a * n div fx_one)"
  "fx_mul std_fixed a b = chk u128_max (a * b div fx_one)"
  "fx_div std_fixed = std_div"
  "fx_reciprocal std_fixed = std_div fx_one"
  "fx_sat_mul std_fixed a b = min u128_max (a * b div fx_one)"
  "fx_from_rational std_fixed = std_div"
  "fx_from_integer std_fixed k = min u128_max (k * fx_one)"
  "perm_from_rational std_fixed = std_perm"
  by (simp_all add: std_fixed_def std_sat_mul_def)

lemma std_conf:
  "update_origin std_lend_config = (\<lambda>o1. o1 = Root)" "reserve_origin std_lend_config = (\<lambda>o1. o1 = Root)"
  "lend_account std_lend_config = 500" "farming_account std_lend_config = 501"
  "incentive_account std_lend_config = 502" "reward_asset_id std_lend_config = Native BNC"
  "liquidation_free_asset_id std_lend_config = Token2 0" "max_length_limit std_lend_config = 500"
  "lookup_account std_lend_config = Some" "market_hash std_lend_config = (\<lambda>c. 0)"
  "as_balance (assets std_lend_config) = (\<lambda>l. l)" "as_reducible (assets std_lend_config) = (\<lambda>l. l)"
  "as_transfer (assets std_lend_config) c a b n p = std_transfer c a b n"
  by (simp_all add: std_lend_config_def std_assets_def)


section \<open>Markets and environments\<close>

abbreviation coin :: currency where "coin \<equiv> Token2 11"
abbreviation bond :: currency where "bond \<equiv> Token2 13"

definition demo_market :: "currency \<Rightarrow> market" where
  "demo_market tok = \<lparr>collateral_factor = 500000, liq_threshold = 600000,
     reserve_factor = 200000, close_factor = 500000,
     liquidate_incentive = 1100000000000000000, liquidate_incentive_reserved_factor = 100000,
     rate_model = default_rate_model, market_state = MarketPending, supply_cap = 10 ^ 6, borrow_cap = 10 ^ 6,
     market_lend_token = tok\<rparr>"

definition open_market :: "currency \<Rightarrow> market" where
  "open_market tok = (demo_market tok)\<lparr>market_state := MarketActive\<rparr>"

lemma demo_market_simps [simp]:
  "collateral_factor (demo_market tok) = 500000" "liq_threshold (demo_market tok) = 600000"
  "reserve_factor (demo_market tok) = 200000" "close_factor (demo_market tok) = 500000"
  "liquidate_incentive (demo_market tok) = 1100000000000000000"
  "liquidate_incentive_reserved_factor (demo_market tok) = 100000"
  "rate_model (demo_market tok) = default_rate_model" "market_state (demo_market tok) = MarketPending"
  "supply_cap (demo_market tok) = 1000000" "borrow_cap (demo_market tok) = 1000000"
  "market_lend_token (demo_market tok) = tok"
  by (simp_all add: demo_market_def)

lemma open_market_simps [simp]:
  "collateral_factor (open_market tok) = 500000" "liq_threshold (open_market tok) = 600000"
  "reserve_factor (open_market tok) = 200000" "close_factor (open_market tok) = 500000"
  "liquidate_incentive (open_market tok) = 1100000000000000000"
  "liquidate_incentive_reserved_factor (open_market tok) = 100000"
  "rate_model (open_market tok) = default_rate_model" "market_state (open_market tok) = MarketActive"
  "supply_cap (open_market tok) = 1000000" "borrow_cap (open_market tok) = 1000000"
  "market_lend_token (open_market tok) = tok" "(demo_market tok)\<lparr>market_state := MarketActive\<rparr> = open_market tok"
  by (simp_all add: open_market_def)

definition demo_cash :: balances where
  "demo_cash = (\<lambda>_ _. 0)(coin := (\<lambda>_. 0)(10 := 5000, 12 := 1000), bond := (\<lambda>_. 0)(11 := 1000))"

definition day1 :: lend_env where
  "day1 = \<lparr>now_secs = 100, current_block = 10, oracle_price = (\<lambda>_. Some (fx_one, 100))\<rparr>"

definition lend_run ::
  "lend_env \<Rightarrow> (origin \<times> lend_call) list \<Rightarrow> balances lend_state \<Rightarrow> balances lend_state lend_result" where
  "lend_run E cs s = rfold (\<lambda>(o1, x). lend_dispatch std_fixed std_lend_config E o1 x) cs s"

definition opening_calls :: "(origin \<times> lend_call) list" where
  "opening_calls = [(Root, AddMarket coin (demo_market (Lend 11))), (Root, ActivateMarket coin),
    (Root, AddMarket bond (demo_market (Lend 13))), (Root, ActivateMarket bond),
    (Root, AddMarketBond coin [bond])]"

lemmas governance_unfold = add_market_def activate_market_def add_market_bond_def ensure_def ensure_update_origin_def
   Let_def mutate_market_def put_market_def sm_before_def ensure_lend_token_def market_of_def
   default_rate_model_def new_jump_model_def jump_check_model_def perm_one_def perm_percent_def
   jump_max_base_rate_def jump_max_jump_rate_def jump_max_full_rate_def max_markets_def fx_one_def


section \<open>The run\<close>

definition opened :: "balances lend_state" where
  "opened = (initial_lend_state demo_cash)\<lparr>
     borrow_index := (\<lambda>_. 0)(coin := 1000000000000000000, bond := 1000000000000000000),
     exchange_rates := (\<lambda>_. 0)(coin := 20000000000000000, bond := 20000000000000000),
     markets := [(coin, open_market (Lend 11)), (bond, open_market (Lend 13))],
     underlying_asset := [Lend 11 \<mapsto> coin, Lend 13 \<mapsto> bond],
     market_bond := [coin \<mapsto> [bond]],
     lend_events := [NewMarket coin (demo_market (Lend 11)), ActivatedMarket coin,
       NewMarket bond (demo_market (Lend 13)), ActivatedMarket bond, MarketBonded coin [bond]]\<rparr>"

lemma bond_order: "\<not> bond < coin" by (simp add: less_currency_def)

lemma opened_run: "lend_run day1 opening_calls (initial_lend_state demo_cash) = Inr opened"
  by (simp add: lend_run_def opening_calls_def opened_def initial_lend_state_def governance_unfold std_conf emit_def
      min_exchange_rate_def bond_order)

definition deposit_calls :: "(origin \<times> lend_call) list" where
  "deposit_calls = [(Signed 10, Mint coin 2000), (Signed 11, Mint bond 1000),
    (Signed 11, CollateralAsset bond True)]"

lemmas number_unfold = u128_max_def chk_def fx_one_def perm_one_def saturating_sub_def saturating_add_def checked_add_def checked_sub_def checked_mul_def checked_div_def

lemmas mint_unfold = mint_def do_mint_def ensure_active_market_def active_markets_def market_of_def
   ensure_under_supply_cap_def accrue_interest_def update_last_accrued_interest_time_def
    exchange_rate_stored_def calculate_exchange_rate_def  std_div_def std_transfer_def
    update_reward_supply_index_def distribute_supplier_reward_def calculate_reward_delta_def update_earned_stored_def
    calc_collateral_amount_def asset_transfer_def get_total_cash_def ensure_valid_exchange_rate_def
    deposits_of_def put_deposits_def put_total_supply_def min_exchange_rate_def


definition funded :: "balances lend_state" where
  "funded = opened\<lparr>
     last_accrued := (\<lambda>_. 0)(coin := 100, bond := 100),
     total_supply := (\<lambda>_. 0)(coin := 100000, bond := 50000),
     account_deposits := (\<lambda>_ _. None)
       (coin := [10 \<mapsto> \<lparr>voucher_balance = 100000, is_collateral = False\<rparr>],
        bond := [11 \<mapsto> \<lparr>voucher_balance = 50000, is_collateral = True\<rparr>]),
     account_earned := (\<lambda>_ _. \<lparr>total_earned_prior = 0, exchange_rate_prior = 0\<rparr>)
       (coin := (\<lambda>_. \<lparr>total_earned_prior = 0, exchange_rate_prior = 0\<rparr>)
          (10 := \<lparr>total_earned_prior = 0, exchange_rate_prior = 20000000000000000\<rparr>),
        bond := (\<lambda>_. \<lparr>total_earned_prior = 0, exchange_rate_prior = 0\<rparr>)
          (11 := \<lparr>total_earned_prior = 0, exchange_rate_prior = 20000000000000000\<rparr>)),
     reward_supply_state := (\<lambda>_. \<lparr>reward_index = 0, reward_block = 0\<rparr>)
       (coin := \<lparr>reward_index = 0, reward_block = 10\<rparr>, bond := \<lparr>reward_index = 0, reward_block = 10\<rparr>),
     lend_ledger := (\<lambda>_ _. 0)(coin := (\<lambda>_. 0)(12 := 1000, 10 := 3000, 500 := 2000),
        bond := (\<lambda>_. 0)(11 := 0, 500 := 1000)),
     lend_events := lend_events opened @ [DistributedSupplierReward coin 10 0 0,
       Deposited 10 coin 2000, DistributedSupplierReward bond 11 0 0,
       Deposited 11 bond 1000, CollateralAssetAdded 11 bond]\<rparr>"

lemma funded_run: "lend_run day1 deposit_calls opened = Inr funded"
  by (simp add: lend_run_def deposit_calls_def funded_def opened_def initial_lend_state_def std_conf std_ops emit_def
      day1_def number_unfold ensure_def Let_def mint_unfold demo_cash_def collateral_asset_def do_collateral_asset_def
      fun_eq_iff)

definition day400 :: lend_env where
  "day400 = \<lparr>now_secs = 31536100, current_block = 20, oracle_price =
     (\<lambda>c. if c = coin then Some (2 * fx_one, 31536100) else Some (fx_one, 31536100))\<rparr>"

lemmas borrow_unfold = borrow_def do_borrow_def borrow_allowed_for_market_bond_def borrow_allowed_def
  ensure_under_borrow_cap_def ensure_enough_cash_def get_asset_value_def get_lend_price_def
  ensure_liquidity_for_market_bond_def ensure_liquidity_def current_borrow_balance_def sum_values_def
  collateral_asset_value_def current_collateral_balance_def get_account_liquidity_def
  total_borrowed_value_def total_collateral_value_def active_assets_def get_lf_borrowed_value_def
  get_lf_base_position_def lf_assets_def liquidity_of_def update_reward_borrow_index_def
  base_borrow_def distribute_borrower_reward_def put_total_borrows_def put_borrow_def wrapping_add_def
  calc_underlying_amount_def


definition indebted :: "balances lend_state" where
  "indebted = funded\<lparr>
     total_borrows := (\<lambda>_. 0)(coin := 400),
     account_borrows := (\<lambda>_ _. \<lparr>principal = 0, snapshot_index = 0\<rparr>)
       (coin := (\<lambda>_. \<lparr>principal = 0, snapshot_index = 0\<rparr>)
          (11 := \<lparr>principal = 400, snapshot_index = 1000000000000000000\<rparr>)),
     reward_borrow_state := (\<lambda>_. \<lparr>reward_index = 0, reward_block = 0\<rparr>)
       (coin := \<lparr>reward_index = 0, reward_block = 10\<rparr>),
     lend_ledger := (\<lambda>_ _. 0)(coin := (\<lambda>_. 0)(12 := 1000, 10 := 3000, 500 := 1600, 11 := 400),
        bond := (\<lambda>_. 0)(500 := 1000)),
     lend_events := lend_events funded @ [DistributedBorrowerReward coin 11 0 0, Borrowed 11 coin 400]\<rparr>"

lemmas demo_unfold = std_conf std_ops emit_def number_unfold ensure_def Let_def mint_unfold borrow_unfold max_exchange_rate_def
lemmas state_unfold =  indebted_def funded_def opened_def initial_lend_state_def day1_def day400_def
lemma indebted_run: "lend_run day1 [(Signed 11, Borrow coin 400)] funded = Inr indebted"
  by (simp add: lend_run_def demo_unfold state_unfold fun_eq_iff)

lemmas grow_unfold = get_market_status_def calc_utilization_ratio_def default_rate_model_def new_jump_model_def
  jump_borrow_rate_def perm_percent_def get_supply_rate_def grow_def accrued_interest_def increment_index_def
  seconds_per_year_def store_rates_def std_perm_def


lemmas liquidate_unfold = liquidate_borrow_def do_liquidate_borrow_def liquidate_borrow_allowed_def
  get_account_liquidation_threshold_liquidity_def total_liquidation_threshold_value_def
  liquidation_threshold_asset_value_def get_lf_liquidation_base_position_def liquidated_transfer_def
  sub_vouchers_def add_vouchers_def wrapping_sub_def

lemmas repay_unfold = do_repay_borrow_def do_repay_borrow_with_amount_def

lemmas redeem_unfold = do_redeem_def do_redeem_voucher_def redeem_allowed_def
  ensure_liquidity_for_withdraw_market_bond_def withdraw_keeps_bond_def take_vouchers_def

section \<open>Runs are reachable\<close>

lemma lend_run_reachable:
  assumes "lend_run E cs s = Inr t" and "lend_reachable std_fixed std_lend_config s"
    and "list_all (\<lambda>(o1, x). call_typed x \<and> o1 \<noteq> Signed 500 \<and> (\<forall>src c n. x \<noteq> AddReserves src c n)) cs"
  shows "lend_reachable std_fixed std_lend_config t"
  using assms
proof (induction cs arbitrary: s)
  case Nil
  then show ?case by (simp add: lend_run_def)
next
  case (Cons p cs)
  obtain o1 x where p: "p = (o1, x)" by (cases p)
  from Cons.prems(1) obtain u where u: "lend_dispatch std_fixed std_lend_config E o1 x s = Inr u"
      "lend_run E cs u = Inr t"
    by (auto simp: lend_run_def p result_simps)
  have "lend_step std_fixed std_lend_config s u"
    by (rule lend_step.call [OF u(1)]) (use Cons.prems(3) in \<open>simp_all add: p std_conf\<close>)
  with Cons.prems(2) have "lend_reachable std_fixed std_lend_config u" by (rule lend_reachable.step)
  with Cons.IH u(2) Cons.prems(3) show ?case by simp
qed

lemma opened_reachable: "lend_reachable std_fixed std_lend_config opened"
  by (rule lend_run_reachable [OF opened_run lend_reachable.init])
    (simp add: opening_calls_def market_typed_def default_rate_model_def new_jump_model_def perm_one_def
      perm_percent_def)

lemma funded_reachable: "lend_reachable std_fixed std_lend_config funded"
  by (rule lend_run_reachable [OF funded_run opened_reachable]) (simp add: deposit_calls_def)

lemma indebted_reachable: "lend_reachable std_fixed std_lend_config indebted"
  by (rule lend_run_reachable [OF indebted_run funded_reachable]) simp

definition repaid :: "balances lend_state" where
  "repaid = projr (do_repay_borrow std_fixed std_lend_config day400 11 coin 300 indebted)"

lemma repaid: "do_repay_borrow std_fixed std_lend_config day400 11 coin 300 indebted = Inr repaid"
  by (simp add: repaid_def demo_unfold state_unfold grow_unfold repay_unfold)

definition liquidated :: "balances lend_state" where
  "liquidated = projr (liquidate_borrow std_fixed std_lend_config day400 (Signed 12) 11 coin 100 bond indebted)"

lemma liquidated:
  "liquidate_borrow std_fixed std_lend_config day400 (Signed 12) 11 coin 100 bond indebted = Inr liquidated"
  by (simp add: liquidated_def demo_unfold state_unfold grow_unfold liquidate_unfold)

lemma repaid_step: "lend_step std_fixed std_lend_config indebted repaid"
  by (rule lend_step.call [of _ _ day400 "Signed 11" "RepayBorrow coin 300"])
    (simp_all add: repay_borrow_def repaid std_conf)

end
