(* ===== verification/Lend_Props.thy ===== *)
theory Lend_Props
  imports Lend_Index Lend_Demo
begin

text \<open>
  The properties of the lend market, with the run of \<open>Lend_Demo\<close> as their witnesses. Those of every run rest
  on the refinement of the abstract pool and on the invariants; those of one call on the case rules.
\<close>

section \<open>Every run\<close>






text \<open>
  C6. On every run on whose way no market pays liquidators less than one, the total supply of vouchers of every
  market is the sum of the vouchers of all accounts.
\<close>

theorem vouchers_conserved:
  assumes "fixed_point F"
    and "(\<lambda>s t. lend_step F C s t \<and> incentives_ok s)\<^sup>*\<^sup>* (initial_lend_state l) s"
  shows "finite {who. voucher_balance (deposits_of s c who) \<noteq> 0} \<and>
     (\<Sum>who | voucher_balance (deposits_of s c who) \<noteq> 0. voucher_balance (deposits_of s c who)) =
       total_supply s c"
  using fixed_point.run_supply [OF assms]
  by (simp add: supply_matches_def total_of_def support_def)

lemma dispatch_incentives:
  assumes "lend_dispatch F C E o1 x s = Inr t" and "incentives_ok s"
    and "\<not> governs_markets x \<or> (\<exists>c m. x = AddMarket c m \<and> fx_one \<le> liquidate_incentive m) \<or>
      (\<exists>c. x = ActivateMarket c)"
  shows "incentives_ok t"
proof -
  consider "\<not> governs_markets x" | c m where "x = AddMarket c m" "fx_one \<le> liquidate_incentive m"
    | c where "x = ActivateMarket c"
    using assms(3) by blast
  then show ?thesis
  proof cases
    case 1
    with dispatch_same_markets [OF assms(1)] assms(2) show ?thesis
      by (simp add: incentives_ok_def same_markets_def)
  next
    case 2
    with assms(1,2) show ?thesis
      by (auto simp: add_market_def put_market_def Let_def result_simps incentives_ok_def map_of_sm_put
          split: if_splits)
  next
    case 3
    with assms(1) obtain m s1 where "mutate_market C c
        (\<lambda>m. if market_state m = MarketActive then m else m\<lparr>market_state := MarketActive\<rparr>) s = Inr (m, s1)"
      and "markets t = markets s1"
      by (auto simp: activate_market_def result_simps)
    with assms(2) show ?thesis
      by (auto simp: mutate_market_def put_market_def incentives_ok_def map_of_sm_put
          split: option.splits if_splits)
  qed
qed

definition careful_step :: "balances lend_state \<Rightarrow> balances lend_state \<Rightarrow> bool" where
  "careful_step s t \<longleftrightarrow> lend_step std_fixed std_lend_config s t \<and> incentives_ok s"

lemma lend_run_careful:
  assumes "lend_run E cs s = Inr t" and "careful_step\<^sup>*\<^sup>* u s \<and> incentives_ok s"
    and "list_all (\<lambda>(o1, x). call_typed x \<and> o1 \<noteq> Signed 500 \<and> (\<forall>src c n. x \<noteq> AddReserves src c n) \<and>
      (\<not> governs_markets x \<or> (\<exists>c m. x = AddMarket c m \<and> fx_one \<le> liquidate_incentive m) \<or>
      (\<exists>c. x = ActivateMarket c))) cs"
  shows "careful_step\<^sup>*\<^sup>* u t \<and> incentives_ok t"
  using assms
proof (induction cs arbitrary: s)
  case Nil
  then show ?case by (simp add: lend_run_def)
next
  case (Cons p cs)
  obtain o1 x where p: "p = (o1, x)" by (cases p)
  from Cons.prems(1) obtain v where v: "lend_dispatch std_fixed std_lend_config E o1 x s = Inr v"
      "lend_run E cs v = Inr t"
    by (auto simp: lend_run_def p result_simps)
  have "lend_step std_fixed std_lend_config s v"
    by (rule lend_step.call [OF v(1)]) (use Cons.prems(3) in \<open>simp_all add: p std_conf\<close>)
  with Cons.prems(2) have "careful_step s v" by (simp add: careful_step_def)
  with Cons.prems(2) have "careful_step\<^sup>*\<^sup>* u v" by (blast intro: rtranclp.rtrancl_into_rtrancl)
  moreover have "incentives_ok v"
    using dispatch_incentives [OF v(1)] Cons.prems(2,3) by (simp add: p)
  ultimately show ?case using Cons.IH [OF v(2)] Cons.prems(3) by simp
qed

lemma opened_careful: "careful_step\<^sup>*\<^sup>* (initial_lend_state demo_cash) opened \<and> incentives_ok opened"
  by (rule lend_run_careful [OF opened_run])
    (simp_all add: opening_calls_def market_typed_def default_rate_model_def new_jump_model_def perm_one_def
      perm_percent_def fx_one_def incentives_ok_def initial_lend_state_def)

lemma funded_careful: "careful_step\<^sup>*\<^sup>* (initial_lend_state demo_cash) funded"
  using lend_run_careful [OF funded_run opened_careful] by (simp add: deposit_calls_def)

theorem vouchers_conserved_witness:
  "(\<Sum>who | voucher_balance (deposits_of funded bond who) \<noteq> 0. voucher_balance (deposits_of funded bond who)) = 50000"
  using vouchers_conserved [OF std_fixed_point funded_careful [unfolded careful_step_def], of bond]
  by (simp add: funded_def)

text \<open>
  In every reachable state there are at most 100 markets, sorted by the hash of their key; every market has a
  valid rate model, factors that are fractions and a borrow index of at least one; and its lend token leads
  back to it, so no two markets share a lend token.
\<close>

theorem markets_well_formed:
  assumes "lend_reachable F C s"
  shows "length (markets s) \<le> 100 \<and> sm_invar (market_hash C) (markets s) \<and>
     (\<forall>c m. map_of (markets s) c = Some m \<longrightarrow>
        check_model (rate_model m) \<and> reserve_factor m \<le> perm_one \<and> collateral_factor m \<le> perm_one \<and>
        fx_one \<le> borrow_index s c \<and> underlying_asset s (market_lend_token m) = Some c) \<and>
     (\<forall>c d m n. map_of (markets s) c = Some m \<and> map_of (markets s) d = Some n \<and>
        market_lend_token m = market_lend_token n \<longrightarrow> c = d)"
proof -
  note wf = reachable_markets_wf [OF assms]
  have own: "underlying_asset s (market_lend_token m) = Some c" if "map_of (markets s) c = Some m" for c m
    using wf that by (simp add: markets_wf_def)
  have "c = d" if "map_of (markets s) c = Some m" "map_of (markets s) d = Some n"
      "market_lend_token m = market_lend_token n" for c d m n
    using own [OF that(1)] own [OF that(2)] that(3) by simp
  with wf reachable_index [OF assms] show ?thesis
    by (auto simp: markets_wf_def max_markets_def market_typed_def index_ok_def)
qed

theorem markets_well_formed_witness: "length (markets indebted) \<le> 100"
  using markets_well_formed [OF indebted_reachable] by blast

text \<open>
  A debt that a step does not touch never shrinks: where the market exists and the borrow snapshot of the
  account is the same after the step, the account owes at least what it owed.
\<close>

theorem untouched_debt_never_shrinks:
  assumes "fixed_point F" and "lend_step F C s t"
    and "map_of (markets s) c \<noteq> None" and "account_borrows t c who = account_borrows s c who"
    and "current_borrow_balance F s who c = Inr n" and "current_borrow_balance F t who c = Inr n'"
  shows "n \<le> n'"
proof (cases "principal (account_borrows s c who) = 0 \<or> snapshot_index (account_borrows s c who) = 0")
  case True
  with assms(5) show ?thesis by (simp add: current_borrow_balance_def)
next
  case False
  let ?p = "principal (account_borrows s c who)" and ?i = "snapshot_index (account_borrows s c who)"
  have "borrow_index s c \<le> borrow_index t c"
    using step_index [OF assms(2)] assms(3) by (simp add: index_step_def)
  then have "borrow_index s c * fx_one div ?i * ?p div fx_one \<le> borrow_index t c * fx_one div ?i * ?p div fx_one"
    by (intro div_le_mono mult_le_mono) simp_all
  then show ?thesis
    using assms(4-6) False
    by (simp add: current_borrow_balance_def Let_def result_simps bind_eq_Some_conv
        fixed_point.div_Some [OF assms(1)] fixed_point.mul_int_Some [OF assms(1)])
qed

definition aged :: "balances lend_state" where
  "aged = projr (accrue_interest std_fixed std_lend_config day400 coin indebted)"

lemma aged: "accrue_interest std_fixed std_lend_config day400 coin indebted = Inr aged"
  by (simp add: aged_def demo_unfold state_unfold grow_unfold)

lemma aged_balance: "current_borrow_balance std_fixed aged 11 coin = Inr 416"
  by (simp add: aged_def demo_unfold state_unfold grow_unfold)

lemma aged_step: "lend_step std_fixed std_lend_config indebted aged"
  by (rule lend_step.trait_balance [of _ _ day400 11 coin _ 416])
    (simp add: get_current_borrow_balance_def aged aged_balance)

lemma aged_facts:
  "map_of (markets indebted) coin \<noteq> None" "account_borrows aged coin 11 = account_borrows indebted coin 11"
  "current_borrow_balance std_fixed indebted 11 coin = Inr 400"
  by (simp_all add: aged_def demo_unfold state_unfold grow_unfold)

theorem untouched_debt_never_shrinks_witness:
  "\<exists>n n'. current_borrow_balance std_fixed indebted 11 coin = Inr n \<and>
     current_borrow_balance std_fixed aged 11 coin = Inr n' \<and> n \<le> n'"
  using untouched_debt_never_shrinks [OF std_fixed_point aged_step aged_facts aged_balance]
    aged_facts(3) aged_balance by blast

section \<open>Interest\<close>

text \<open>
  A jump model that passes its check gives a rate that grows with the utilization, starts at the base rate,
  stays below the jump rate up to the jump utilization and above it from there on, and never exceeds the full
  rate, which is at most 50 percent.
\<close>

theorem jump_rate_shape:
  assumes "fixed_point F" and "check_model (Jump m)" and "jump_utilization m \<le> perm_one"
    and "u \<le> u'" and "u' \<le> perm_one"
    and "get_borrow_rate F (Jump m) u = Some r" and "get_borrow_rate F (Jump m) u' = Some r'"
  shows "r \<le> r' \<and> jump_base_rate m \<le> r \<and> (u = 0 \<longrightarrow> r = jump_base_rate m) \<and>
     (u \<le> jump_utilization m \<longrightarrow> r \<le> jump_rate m) \<and> (jump_utilization m < u' \<longrightarrow> jump_rate m \<le> r') \<and>
     r' \<le> full_rate m \<and> full_rate m \<le> fx_one div 2"
proof -
  have v: "valid_jump m" using assms(2,3) by (simp add: valid_jump_def)
  have u: "u \<le> perm_one" using assms(4,5) by (rule order_trans)
  have "r = jump_base_rate m" if "u = 0"
    using assms(6) that v fixed_point.jump_borrow_rate_eq [OF assms(1), of m 0]
    by (auto simp: valid_jump_def segment_def split: if_splits)
  then show ?thesis
    using fixed_point.jump_mono [OF assms(1) v assms(4,5)] assms(6,7)
      fixed_point.jump_cap [OF assms(1) v u] fixed_point.jump_cap [OF assms(1) v assms(5)]
      fixed_point.valid_jump_rates [OF assms(1) v]
    by (simp add: jump_max_full_rate_def fx_one_def)
qed

theorem jump_rate_shape_witness:
  "\<exists>r r'. get_borrow_rate std_fixed default_rate_model 200000 = Some r \<and>
     get_borrow_rate std_fixed default_rate_model 900000 = Some r' \<and> r \<le> r'"
proof -
  define m where "m = \<lparr>jump_base_rate = 2 * 10 ^ 16, jump_rate = 10 * 10 ^ 16, full_rate = 32 * 10 ^ 16,
    jump_utilization = perm_percent 80\<rparr>"
  have m: "default_rate_model = Jump m" by (simp add: default_rate_model_def new_jump_model_def m_def)
  have r: "get_borrow_rate std_fixed (Jump m) 200000 = Some 40000000000000000"
    "get_borrow_rate std_fixed (Jump m) 900000 = Some 210000000000000000"
    by (simp_all add: m_def jump_borrow_rate_def perm_percent_def std_ops number_unfold std_div_def)
  have "check_model (Jump m)" "jump_utilization m \<le> perm_one" "(200000::nat) \<le> 900000" "900000 \<le> perm_one"
    by (simp_all add: m_def jump_check_model_def jump_max_base_rate_def jump_max_jump_rate_def
        jump_max_full_rate_def perm_percent_def perm_one_def)
  then show ?thesis
    using jump_rate_shape [OF std_fixed_point _ _ _ _ r] r by (simp add: m)
qed

text \<open>
  A jump model whose jump utilization is zero passes the check, but has no rate at utilization zero (the
  quotient by the jump utilization fails): a market with such a model and no borrows cannot accrue interest,
  so nobody can deposit into it or redeem from it.
\<close>

theorem zero_jump_utilization_freezes:
  assumes "fixed_point F" and "map_of (markets s) c = Some m" and "rate_model m = Jump j"
    and "check_model (Jump j)" and "jump_utilization j = 0" and "total_borrows s c = 0"
    and "0 < last_accrued s c" and "last_accrued s c < now_secs E"
  shows "accrue_interest F C E c s = Inl (Arithmetic Overflow) \<and>
     \<not> is_ok (do_mint F C E who c a s) \<and> \<not> is_ok (do_redeem F C E who c a s)"
proof -
  have "get_borrow_rate F (rate_model m) 0 = None"
    using assms(3-5) fixed_point.jump_borrow_rate_eq [OF assms(1), of j 0] by simp
  then have a: "accrue_interest F C E c s = Inl (Arithmetic Overflow)"
    using assms(2,6-8)
    by (simp add: accrue_interest_def Let_def get_market_status_def market_of_def calc_utilization_ratio_def)
  then show ?thesis
    by (auto simp: is_ok_iff do_mint_def do_redeem_def result_simps)
qed

definition frozen :: "balances lend_state" where
  "frozen = projr (lend_dispatch std_fixed std_lend_config day1 Root
     (UpdateRateModel coin (new_jump_model 0 0 0 0)) funded)"

theorem zero_jump_utilization_freezes_witness:
  "lend_dispatch std_fixed std_lend_config day1 Root (UpdateRateModel coin (new_jump_model 0 0 0 0)) funded
     = Inr frozen \<and>
   \<not> is_ok (do_mint std_fixed std_lend_config day400 10 coin 1000 frozen)"
proof
  show *: "lend_dispatch std_fixed std_lend_config day1 Root (UpdateRateModel coin (new_jump_model 0 0 0 0)) funded
     = Inr frozen"
    by (simp add: frozen_def update_rate_model_def governance_unfold std_conf state_unfold emit_def)
  show "\<not> is_ok (do_mint std_fixed std_lend_config day400 10 coin 1000 frozen)"
    by (rule zero_jump_utilization_freezes [where
          m = "(open_market (Lend 11))\<lparr>rate_model := new_jump_model 0 0 0 0\<rparr>" and j = "\<lparr>jump_base_rate = 0, jump_rate = 0, full_rate = 0,
          jump_utilization = 0\<rparr>", OF std_fixed_point, THEN conjunct2, THEN conjunct1])
     (simp_all add: frozen_def update_rate_model_def governance_unfold std_conf state_unfold emit_def)
qed

text \<open>
  When time has passed since the last accrual, accruing adds to the borrows of the market the interest for that
  time at the rate of the model, adds the market's share of it, rounded down, to the reserves, does not lower
  the borrow index, and touches neither cash, vouchers nor debts' snapshots; a second accrual at the same time
  changes nothing.
\<close>

theorem accrue_effect:
  assumes "fixed_point F" and "accrue_interest F C E c s = Inr t" and "map_of (markets s) c = Some m"
    and "0 < last_accrued s c" and "last_accrued s c < now_secs E" and "reserve_factor m \<le> perm_one"
  shows "\<exists>util rate.
     calc_utilization_ratio F (get_total_cash C s c) (total_borrows s c) (total_reserves s c) = Inr util \<and>
     get_borrow_rate F (rate_model m) util = Some rate \<and>
     (let interest = (rate * total_borrows s c div fx_one) * (now_secs E - last_accrued s c)
            div seconds_per_year in
      total_borrows t = (total_borrows s)(c := total_borrows s c + interest) \<and>
      total_reserves t = (total_reserves s)
        (c := total_reserves s c + reserve_factor m * interest div perm_one)) \<and>
     borrow_index s c \<le> borrow_index t c \<and> lend_ledger t = lend_ledger s \<and>
     total_supply t = total_supply s \<and> account_borrows t = account_borrows s \<and>
     account_deposits t = account_deposits s \<and> accrue_interest F C E c t = Inr t"
  using assms(2)
proof (cases rule: accrue_cases)
  case (grown m' util rate interest inc xrate)
  have m': "m' = m" using grown(4) assms(3) by simp
  have i: "interest = rate * total_borrows s c div fx_one * (now_secs E - last_accrued s c) div seconds_per_year"
    using grown(7)
    by (auto simp: accrued_interest_def bind_eq_Some_conv fixed_point.mul_int_Some [OF assms(1)] num_simps)
  have "perm_mul_floor F (reserve_factor m) interest = reserve_factor m * interest div perm_one"
    using assms(6) by (rule fixed_point.mul_floor [OF assms(1)])
  moreover have "accrue_interest F C E c t = Inr t"
    using grown(3) assms(5) by (simp add: accrue_interest_def Let_def)
  ultimately show ?thesis
    using grown(5,6) coreD [OF grown(10)] unfolding m'
    by (intro exI [of _ util] exI [of _ rate]) (simp add: Let_def i add.commute)
next
  case start
  with assms(4) show ?thesis by simp
next
  case late
  have "last_accrued t c = now_secs E"
    using assms(2,4,5)
    by (auto simp: accrue_interest_def Let_def result_simps store_rates_def update_last_accrued_interest_time_def)
  with late assms(5) show ?thesis by simp
qed

theorem accrue_effect_witness:
  "borrow_index indebted coin \<le> borrow_index aged coin \<and>
     accrue_interest std_fixed std_lend_config day400 coin aged = Inr aged"
proof -
  have "map_of (markets indebted) coin = Some (open_market (Lend 11))" "0 < last_accrued indebted coin"
    "last_accrued indebted coin < now_secs day400" "reserve_factor (open_market (Lend 11)) \<le> perm_one"
    by (simp_all add: state_unfold perm_one_def)
  from accrue_effect [OF std_fixed_point aged this] show ?thesis by blast
qed

section \<open>Deposits\<close>

text \<open>
  A deposit moves exactly the amount from the depositor to the market and credits, after interest has accrued,
  the amount divided by the exchange rate, rounded down and not zero, to the depositor and to the total supply;
  no other account's vouchers, no debt and no reserve change, and the cash stays within the supply cap.
\<close>

theorem mint_effect:
  assumes "lend_pallet F C" and "do_mint F C E who c a s = Inr t" and "who \<noteq> lend_account C"
  shows "\<exists>s1 m rate. accrue_interest F C E c s = Inr s1 \<and> map_of (markets s) c = Some m \<and>
     exchange_rate_stored F C s1 c = Inr rate \<and> cash_of C s c + a \<le> supply_cap m \<and>
     (let v = a * fx_one div rate in
      0 < v \<and> total_supply t = (total_supply s1)(c := total_supply s1 c + v) \<and>
      deposits_of t = (deposits_of s1)(c := (deposits_of s1 c)
        (who := (deposits_of s1 c who)\<lparr>voucher_balance := voucher_balance (deposits_of s1 c who) + v\<rparr>))) \<and>
     cash_of C t c = cash_of C s1 c + a \<and>
     as_balance (assets C) (lend_ledger t) c who + a = as_balance (assets C) (lend_ledger s1) c who \<and>
     total_borrows t = total_borrows s1 \<and> total_reserves t = total_reserves s1 \<and>
     account_borrows t = account_borrows s1"
  using assms(2)
proof (cases rule: mint_cases)
  case (1 m' s1 rate v l)
  note fix_p = lend_pallet.axioms(1) [OF assms(1)]
  note fung = lend_pallet.axioms(2) [OF assms(1)]
  note k = coreD [OF 1(11)]
  have v: "v = a * fx_one div rate" using 1(6) by (simp add: fixed_point.div_Some [OF fix_p])
  obtain m where cap: "map_of (markets s) c = Some m" "cash_of C s c + a \<le> supply_cap m"
    using 1(3) by (auto simp: ensure_under_supply_cap_def market_of_def cash_of_def result_simps num_simps)
  have "deposits_of t = (deposits_of s1)(c := (deposits_of s1 c)
        (who := (deposits_of s1 c who)\<lparr>voucher_balance := voucher s1 c who + v\<rparr>))"
    by (auto simp: deposits_of_def k with_vouchers_def fun_eq_iff)
  moreover have "cash_of C t c = cash_of C s1 c + a"
    "as_balance (assets C) (lend_ledger t) c who + a = as_balance (assets C) (lend_ledger s1) c who"
    using fungibles.flow [OF fung 1(8), of c "lend_account C"] fungibles.flow [OF fung 1(8), of c who] assms(3)
    by (simp_all add: cash_of_def k paid_def)
  ultimately show ?thesis
    using 1(4,5,7) cap k v
    by (intro exI [of _ s1] exI [of _ m] exI [of _ rate]) (simp add: Let_def)
qed

lemma indebted_market: "map_of (markets indebted) coin = Some (open_market (Lend 11))"
  by (simp add: state_unfold)

definition topped_up :: "balances lend_state" where
  "topped_up = projr (do_mint std_fixed std_lend_config day400 10 coin 1000 indebted)"

theorem mint_effect_witness:
  "do_mint std_fixed std_lend_config day400 10 coin 1000 indebted = Inr topped_up \<and>
   cash_of std_lend_config indebted coin + 1000 \<le> 1000000"
proof
  show *: "do_mint std_fixed std_lend_config day400 10 coin 1000 indebted = Inr topped_up"
    by (simp add: topped_up_def demo_unfold state_unfold grow_unfold)
  have "(10::account) \<noteq> lend_account std_lend_config" by (simp add: std_conf)
  from mint_effect [OF std_lend_pallet * this]
  obtain m where "map_of (markets indebted) coin = Some m" "cash_of std_lend_config indebted coin + 1000 \<le> supply_cap m"
    by blast
  then show "cash_of std_lend_config indebted coin + 1000 \<le> 1000000"
    by (auto simp: indebted_market)
qed

lemma exchange_back_le: "(rate::nat) * (a * fx_one div rate) div fx_one \<le> a"
proof -
  have "rate * (a * fx_one div rate) div fx_one \<le> a * fx_one div fx_one" by (rule div_le_mono) simp
  then show ?thesis by (simp add: fx_one_def)
qed

text \<open>
  Exchanging an amount for vouchers and the vouchers back at the same rate never pays more than the amount,
  and loses less than the worth of one voucher and one unit.
\<close>

theorem voucher_roundtrip:
  assumes "fixed_point F" and "calc_collateral_amount F a rate = Inr v"
    and "calc_underlying_amount F v rate = Inr u"
  shows "u \<le> a \<and> a < u + rate div fx_one + 2"
proof -
  from assms have rate: "0 < rate" and v: "v = a * fx_one div rate" and u: "u = rate * v div fx_one"
    by (auto simp: calc_collateral_amount_def calc_underlying_amount_def result_simps
        fixed_point.div_Some fixed_point.mul_int_Some)
  have fx: "0 < fx_one" by (simp add: fx_one_def)
  have "u \<le> a" unfolding u v by (rule exchange_back_le)
  have "a * fx_one < rate * v + rate"
    using rate dividend_less_times_div [of rate "a * fx_one"] by (simp add: v algebra_simps)
  also have "\<dots> < (u + 1) * fx_one + (rate div fx_one + 1) * fx_one"
    using fx dividend_less_times_div [of fx_one "rate * v"] dividend_less_times_div [of fx_one rate]
    by (simp add: u algebra_simps)
  also have "\<dots> = (u + rate div fx_one + 2) * fx_one"
    by (simp add: algebra_simps)
  finally have "a < u + rate div fx_one + 2" by (simp only: mult_less_cancel2)
  with \<open>u \<le> a\<close> show ?thesis by simp
qed

theorem voucher_roundtrip_witness:
  "\<exists>v u. calc_collateral_amount std_fixed 1000 20130000000000000 = Inr v \<and>
     calc_underlying_amount std_fixed v 20130000000000000 = Inr u \<and> u \<le> 1000"
proof -
  have *: "calc_collateral_amount std_fixed 1000 20130000000000000 = Inr 49677"
    "calc_underlying_amount std_fixed 49677 20130000000000000 = Inr 999"
    by (simp_all add: calc_collateral_amount_def calc_underlying_amount_def std_ops std_div_def number_unfold)
  show ?thesis using voucher_roundtrip [OF std_fixed_point *] * by blast
qed

text \<open>
  C32. Redeeming an amount burns its worth in vouchers, rounded down, and pays what they are worth, so never more
  than the amount; the vouchers are the redeemer's, leave the total supply, and the reserves stay in the cash.
  A deposit with no vouchers left is removed.
\<close>

theorem redeem_effect:
  assumes "lend_pallet F C" and "do_redeem F C E who c a s = Inr t" and "who \<noteq> lend_account C"
  shows "\<exists>s1 rate u. accrue_interest F C E c s = Inr s1 \<and> exchange_rate_stored F C s1 c = Inr rate \<and> u \<le> a \<and>
     (let v = a * fx_one div rate; n = voucher_balance (deposits_of s1 c who) in
      u = rate * v div fx_one \<and> v \<le> n \<and> voucher_balance (deposits_of t c who) = n - v \<and>
      (v = n \<longrightarrow> account_deposits t c who = None) \<and>
      total_supply t = (total_supply s1)(c := total_supply s1 c - v)) \<and>
     cash_of C t c + u = cash_of C s1 c \<and> total_reserves t c \<le> cash_of C t c \<and>
     as_balance (assets C) (lend_ledger t) c who = as_balance (assets C) (lend_ledger s1) c who + u \<and>
     total_reserves t = total_reserves s1 \<and> total_borrows t = total_borrows s1"
  using assms(2)
proof (cases rule: redeem_cases)
  case r: (1 m s1 s2 s3 rate v u)
  note fix_p = lend_pallet.axioms(1) [OF assms(1)]
  note fung = lend_pallet.axioms(2) [OF assms(1)]
  from r(6) show ?thesis
  proof (cases rule: redeem_voucher_cases)
    case (1 rate2 l)
    note e = core_eqD [OF r(5)] deposits_of_cong [OF r(5)] exchange_rate_cong [OF r(5)]
    note k = coreD [OF 1(7), folded r(7)]
    have same_rate: "rate2 = rate" using 1(2) r(3) by (simp add: e)
    have v: "v = a * fx_one div rate" "0 < rate" using r(4) by (simp_all add: fixed_point.div_Some [OF fix_p])
    have u: "u = rate * v div fx_one" using 1(3) by (simp add: same_rate fixed_point.mul_int_Some [OF fix_p])
    have "u \<le> a" unfolding u v(1) by (rule exchange_back_le)
    moreover have "cash_of C t c + u = cash_of C s1 c"
      "as_balance (assets C) (lend_ledger t) c who = as_balance (assets C) (lend_ledger s1) c who + u"
      using fungibles.flow [OF fung 1(6), of c "lend_account C"] fungibles.flow [OF fung 1(6), of c who] assms(3)
      by (simp_all add: cash_of_def k core_eqD [OF r(7)] e paid_def)
    moreover have "total_reserves s1 c + u \<le> cash_of C s1 c"
      using lend_pallet.redeem_allowed_cash [OF assms(1) 1(1-3)] by (simp add: e cash_of_def)
    ultimately show ?thesis
      using r(2,3) v 1(4) k core_eqD [OF r(7)]
      by (intro exI [of _ s1] exI [of _ rate] exI [of _ u])
        (auto simp: Let_def u e with_vouchers_def deposits_of_def split: if_splits)
  qed
qed

definition withdrawn :: "balances lend_state" where
  "withdrawn = projr (do_redeem std_fixed std_lend_config day400 10 coin 500 indebted)"

theorem redeem_effect_witness:
  "do_redeem std_fixed std_lend_config day400 10 coin 500 indebted = Inr withdrawn \<and>
   total_reserves withdrawn coin \<le> cash_of std_lend_config withdrawn coin"
proof
  show *: "do_redeem std_fixed std_lend_config day400 10 coin 500 indebted = Inr withdrawn"
    by (simp add: withdrawn_def demo_unfold state_unfold grow_unfold redeem_unfold)
  have "(10::account) \<noteq> lend_account std_lend_config" by (simp add: std_conf)
  from redeem_effect [OF std_lend_pallet * this]
  show "total_reserves withdrawn coin \<le> cash_of std_lend_config withdrawn coin" by blast
qed

end
