(* ===== verification/Lend_Debts.thy ===== *)
theory Lend_Debts
  imports Lend_Props
begin

text \<open>
  The properties of the lend market, second part: borrowing, repaying, liquidating, the rewards and the transfer of
  vouchers.
\<close>

section \<open>Debts\<close>

text \<open>A debt that has just been written is read back as it is.\<close>

lemma debt_now:
  assumes "fixed_point F" and "0 < borrow_index s c" and "p \<le> u128_max"
    and "account_borrows s c who = \<lparr>principal = p, snapshot_index = borrow_index s c\<rparr>"
  shows "current_borrow_balance F s who c = Inr p"
proof -
  have "fx_div F (borrow_index s c) (borrow_index s c) = Some fx_one"
    using assms(2) by (simp add: fixed_point.div_Some [OF assms(1)] u128_max_def fx_one_def)
  moreover have "fx_mul_int F fx_one p = Some p"
    using assms(3) by (simp add: fixed_point.mul_int_Some [OF assms(1)] fx_one_def)
  ultimately show ?thesis
    using assms(2) by (auto simp: current_borrow_balance_def Let_def assms(4))
qed

lemma balance_fits:
  assumes "fixed_point F" and "current_borrow_balance F s who c = Inr n"
  shows "n \<le> u128_max"
  using assms(2)
  by (auto simp: current_borrow_balance_def Let_def result_simps bind_eq_Some_conv
      fixed_point.mul_int_Some [OF assms(1)] split: if_splits)

lemma accrued_index_pos:
  assumes "lend_reachable F C s" and "accrue_interest F C E c s = Inr s1" and "map_of (markets s1) d = Some m"
  shows "0 < borrow_index s1 d"
proof -
  have "fx_one \<le> borrow_index s d"
    using reachable_index [OF assms(1)] accrue_markets [OF assms(2)] assms(3)
    by (simp add: index_ok_def same_markets_def)
  also have "\<dots> \<le> borrow_index s1 d" using accrue_index [OF assms(2)] .
  finally show ?thesis by (simp add: fx_one_def)
qed

text \<open>
  C23. A borrow is granted only against the bond of the market: what the account owes in this market and the new
  amount are together worth no more than its collateral in the bonded markets. It stays within the borrow cap
  and leaves the reserves in the cash. Afterwards the account owes exactly what it owed, with interest, and the
  amount, which it has received.
\<close>

theorem borrow_effect:
  assumes "lend_pallet F C" and "lend_reachable F C s" and "do_borrow F C E who c a s = Inr t"
    and "who \<noteq> lend_account C"
  shows "\<exists>s1 m n bond_assets debt_value value collateral.
     accrue_interest F C E c s = Inr s1 \<and> map_of (markets s1) c = Some m \<and>
     current_borrow_balance F s1 who c = Inr n \<and> market_bond s1 c = Some bond_assets \<and>
     get_asset_value F E c n = Inr debt_value \<and> get_asset_value F E c a = Inr value \<and>
     sum_values (collateral_asset_value F C E s1 who) bond_assets = Inr collateral \<and>
     debt_value + value \<le> collateral \<and>
     total_borrows s1 c + a \<le> borrow_cap m \<and> total_reserves s1 c + a \<le> cash_of C s1 c \<and>
     current_borrow_balance F t who c = Inr (n + a) \<and> cash_of C t c + a = cash_of C s1 c \<and>
     as_balance (assets C) (lend_ledger t) c who = as_balance (assets C) (lend_ledger s1) c who + a \<and>
     total_borrows t = (total_borrows s1)(c := total_borrows s1 c + a)"
  using assms(3)
proof (cases rule: borrow_cases)
  case (1 m' s1 n l)
  note fix_p = lend_pallet.axioms(1) [OF assms(1)]
  note fung = lend_pallet.axioms(2) [OF assms(1)]
  note k = coreD [OF 1(9)]
  from 1(3) obtain m bs n' dv av cv where g: "map_of (markets s1) c = Some m"
    "total_borrows s1 c + a \<le> borrow_cap m" "total_reserves s1 c \<le> get_total_cash C s1 c"
    "\<not> get_total_cash C s1 c - total_reserves s1 c < a" "market_bond s1 c = Some bs"
    "current_borrow_balance F s1 who c = Inr n'" "get_asset_value F E c n' = Inr dv"
    "get_asset_value F E c a = Inr av" "sum_values (collateral_asset_value F C E s1 who) bs = Inr cv"
    "dv \<le> cv" "av \<le> cv - dv"
    by (auto simp: borrow_allowed_for_market_bond_def ensure_under_borrow_cap_def ensure_enough_cash_def
        ensure_liquidity_for_market_bond_def market_of_def result_simps num_simps split: if_splits)
  have "0 < borrow_index s1 c" using accrued_index_pos [OF assms(2) 1(2) g(1)] .
  then have "current_borrow_balance F t who c = Inr (n + a)"
    using 1(6) by (intro debt_now [OF fix_p]) (simp_all add: k with_debt_def)
  moreover have "cash_of C t c + a = cash_of C s1 c"
    "as_balance (assets C) (lend_ledger t) c who = as_balance (assets C) (lend_ledger s1) c who + a"
    using fungibles.flow [OF fung 1(8), of c "lend_account C"] fungibles.flow [OF fung 1(8), of c who] assms(4)
    by (simp_all add: cash_of_def k paid_def)
  moreover have "total_reserves s1 c + a \<le> cash_of C s1 c"
    using g(3,4) by (simp add: lend_pallet.total_cash [OF assms(1)])
  ultimately show ?thesis
    using 1(2) g(1,2,5) g(7-11) g(6) 1(5) k(3)
    by (intro exI [of _ s1] exI [of _ m] exI [of _ n] exI [of _ bs] exI [of _ dv] exI [of _ av] exI [of _ cv]) auto
qed

theorem borrow_effect_witness:
  "do_borrow std_fixed std_lend_config day1 11 coin 400 funded = Inr indebted \<and>
   current_borrow_balance std_fixed indebted 11 coin = Inr 400"
proof
  show *: "do_borrow std_fixed std_lend_config day1 11 coin 400 funded = Inr indebted"
    using indebted_run by (simp add: lend_run_def borrow_def result_simps)
  have "(11::account) \<noteq> lend_account std_lend_config" by (simp add: std_conf)
  from borrow_effect [OF std_lend_pallet funded_reachable * this]
  obtain s1 n where "accrue_interest std_fixed std_lend_config day1 coin funded = Inr s1"
    "current_borrow_balance std_fixed s1 11 coin = Inr n"
    "current_borrow_balance std_fixed indebted 11 coin = Inr (n + 400)"
    by blast
  moreover from this have "s1 = funded" by (simp add: demo_unfold state_unfold)
  ultimately show "current_borrow_balance std_fixed indebted 11 coin = Inr 400"
    by (simp add: demo_unfold state_unfold)
qed

lemma accrue_free_collaterals:
  "accrue_interest F C E c s = Inr t \<Longrightarrow> liquidation_free_collaterals t = liquidation_free_collaterals s"
  by (auto simp: accrue_interest_def Let_def result_simps store_rates_def
      update_last_accrued_interest_time_def split: if_splits)

text \<open>
  Where no collateral is reserved as liquidation free, a borrow of another asset than the liquidation-free one
  leaves the account covered: the value of all its debts and the new amount is within the value of all its
  collateral, each counted with its collateral factor.
\<close>

theorem borrow_keeps_account_covered:
  assumes "fixed_point F" and "do_borrow F C E who c a s = Inr t"
    and "c \<noteq> liquidation_free_asset_id C" and "liquidation_free_collaterals s = []"
    and "accrue_interest F C E c s = Inr s1" and "get_asset_value F E c a = Inr value" and "0 < value"
  shows "\<exists>debts collateral. total_borrowed_value F E s1 who = Inr debts \<and>
     total_collateral_value F C E s1 who = Inr collateral \<and> debts + value \<le> collateral"
  using assms(2)
proof (cases rule: borrow_cases)
  case (1 m s1' n l)
  have s1: "s1' = s1" using 1(2) assms(5) by simp
  have "lf_assets s1 = []" using assms(4) accrue_free_collaterals [OF assms(5)] by (simp add: lf_assets_def)
  moreover have "value \<le> u128_max"
    using assms(6) by (auto simp: get_asset_value_def result_simps fixed_point.mul_Some [OF assms(1)])
  ultimately show ?thesis
    using 1(4) assms(3,6,7) unfolding s1
    by (auto simp: borrow_allowed_def ensure_liquidity_def get_account_liquidity_def get_lf_base_position_def
        sum_values_def liquidity_of_def wrapping_add_def u128_max_def result_simps split: if_splits)
qed

theorem borrow_keeps_account_covered_witness:
  "\<exists>debts collateral. total_borrowed_value std_fixed day1 funded 11 = Inr debts \<and>
     total_collateral_value std_fixed std_lend_config day1 funded 11 = Inr collateral \<and> debts + 400 \<le> collateral"
proof (rule borrow_keeps_account_covered [OF std_fixed_point, of std_lend_config day1 11 coin 400 funded indebted])
  show "do_borrow std_fixed std_lend_config day1 11 coin 400 funded = Inr indebted"
    using indebted_run by (simp add: lend_run_def borrow_def result_simps)
qed (simp_all add: demo_unfold state_unfold)

text \<open>
  C35. A repayment takes exactly the amount from the payer, who afterwards owes exactly that much less than the debt
  with interest; more than the debt is refused.
\<close>

theorem repay_effect:
  assumes "lend_pallet F C" and "lend_reachable F C s" and "accrue_interest F C E c s = Inr s1"
    and "ensure_active_market s c = Inr m" and "map_of (markets s) c \<noteq> None"
    and "current_borrow_balance F s1 who c = Inr n" and "who \<noteq> lend_account C"
  shows "(n < a \<longrightarrow> do_repay_borrow F C E who c a s = Inl (Module TooMuchRepay)) \<and>
     (\<forall>t. do_repay_borrow F C E who c a s = Inr t \<longrightarrow>
        a \<le> n \<and> current_borrow_balance F t who c = Inr (n - a) \<and> cash_of C t c = cash_of C s1 c + a \<and>
        as_balance (assets C) (lend_ledger t) c who + a = as_balance (assets C) (lend_ledger s1) c who \<and>
        total_borrows t = (total_borrows s1)(c := total_borrows s1 c - a))"
proof -
  have "a \<le> n \<and> current_borrow_balance F t who c = Inr (n - a) \<and> cash_of C t c = cash_of C s1 c + a \<and>
        as_balance (assets C) (lend_ledger t) c who + a = as_balance (assets C) (lend_ledger s1) c who \<and>
        total_borrows t = (total_borrows s1)(c := total_borrows s1 c - a)"
    if r: "do_repay_borrow F C E who c a s = Inr t" for t
    using r
  proof (cases rule: repay_borrow_cases)
    case (1 m s1' n' l)
    note fix_p = lend_pallet.axioms(1) [OF assms(1)]
    note fung = lend_pallet.axioms(2) [OF assms(1)]
    note k = coreD [OF 1(6)]
    have same: "s1' = s1" "n' = n" using 1(2,3) assms(3,6) by simp_all
    obtain m2 where "map_of (markets s1) c = Some m2"
      using accrue_markets [OF assms(3)] assms(5) by (auto simp: same_markets_def)
    then have "0 < borrow_index s1 c" using accrued_index_pos [OF assms(2,3)] by blast
    then have "current_borrow_balance F t who c = Inr (n - a)"
      using balance_fits [OF fix_p assms(6)]
      by (intro debt_now [OF fix_p]) (simp_all add: k same with_debt_def)
    then show ?thesis
      using 1(4) fungibles.flow [OF fung 1(5), of c "lend_account C"]
        fungibles.flow [OF fung 1(5), of c who] assms(7)
      by (simp add: same cash_of_def k paid_def)
  qed
  moreover have "do_repay_borrow F C E who c a s = Inl (Module TooMuchRepay)" if "n < a"
    using that by (simp add: do_repay_borrow_def assms(3,4,6) do_repay_borrow_with_amount_def)
  ultimately show ?thesis by blast
qed

theorem repay_effect_witness:
  "current_borrow_balance std_fixed repaid 11 coin = Inr 116 \<and>
   do_repay_borrow std_fixed std_lend_config day400 11 coin 417 indebted = Inl (Module TooMuchRepay)"
proof -
  have "ensure_active_market indebted coin = Inr (open_market (Lend 11))"
    "map_of (markets indebted) coin \<noteq> None" "(11::account) \<noteq> lend_account std_lend_config"
    by (simp_all add: ensure_active_market_def active_markets_def state_unfold std_conf)
  note e = repay_effect [OF std_lend_pallet indebted_reachable aged this(1,2) aged_balance this(3)]
  from e [of 300] repaid e [of 417] show ?thesis by auto
qed

section \<open>Liquidations\<close>

text \<open>
  C25. An account cannot be liquidated, whoever tries, for whatever amount and collateral, as long as its debts are worth
  no more than its collateral, counted with the liquidation thresholds, and this also holds without the collateral
  that is reserved as liquidation free and the debt in the liquidation-free asset: the reserved collateral and the
  debts together are worth no more than the collateral and that debt together. (Where no collateral is reserved the
  first condition gives the second.)
\<close>

theorem covered_account_is_safe:
  assumes "total_borrowed_value F E s debtor = Inr debts"
    and "total_liquidation_threshold_value F C E s debtor = Inr collateral"
    and "debts \<le> collateral"
    and "\<And>owed reserved. get_lf_borrowed_value F C E s debtor = Inr owed \<Longrightarrow>
      get_lf_liquidation_base_position F C E s debtor = Inr reserved \<Longrightarrow> reserved + debts \<le> collateral + owed"
  shows "\<not> is_ok (do_liquidate_borrow F C E liquidator debtor c a coll s)"
proof
  assume "is_ok (do_liquidate_borrow F C E liquidator debtor c a coll s)"
  then obtain t where "do_liquidate_borrow F C E liquidator debtor c a coll s = Inr t"
    by (auto simp: is_ok_iff)
  then obtain m where "liquidate_borrow_allowed F C E s debtor c a m = Inr ()"
    by (cases rule: liquidate_cases_lend)
  then obtain owed reserved where l: "get_lf_borrowed_value F C E s debtor = Inr owed"
      "get_lf_liquidation_base_position F C E s debtor = Inr reserved"
    and "\<not> (case liquidity_of debts collateral owed reserved of (liquidity, shortfall, lf_liquidity, _) \<Rightarrow>
      shortfall = 0 \<and> lf_liquidity \<le> liquidity)"
    using assms(1,2)
    by (auto simp: liquidate_borrow_allowed_def get_account_liquidation_threshold_liquidity_def result_simps
        split: prod.splits if_splits)
  then show False using assms(3) assms(4) [OF l] by (auto simp: liquidity_of_def split: if_splits)
qed

lemma nothing_reserved:
  "liquidation_free_collaterals s = [] \<Longrightarrow> get_lf_liquidation_base_position F C E s debtor = Inr n \<Longrightarrow> n = 0"
  by (simp add: get_lf_liquidation_base_position_def lf_assets_def sum_values_def)

theorem covered_account_is_safe_witness:
  "\<not> is_ok (do_liquidate_borrow std_fixed std_lend_config day1 12 11 coin 100 bond indebted)"
proof (rule covered_account_is_safe [where debts = 400 and collateral = 600])
  fix owed reserved
  assume "get_lf_liquidation_base_position std_fixed std_lend_config day1 indebted 11 = Inr reserved"
  from nothing_reserved [OF _ this] show "reserved + 400 \<le> 600 + owed" by (simp add: state_unfold)
qed (simp_all add: demo_unfold state_unfold liquidate_unfold)

lemma add_vouchers_to:
  assumes "add_vouchers c who n s = Inr t"
  shows "deposits_of t = (deposits_of s)(c := (deposits_of s c)
      (who := (deposits_of s c who)\<lparr>voucher_balance := voucher s c who + n\<rparr>))"
  using assms by (auto simp: add_vouchers_Inr)

lemma sub_vouchers_from:
  assumes "sub_vouchers c who n s = Inr t"
  shows "n \<le> voucher s c who" and "deposits_of t = (deposits_of s)(c := (deposits_of s c)
      (who := (deposits_of s c who)\<lparr>voucher_balance := voucher s c who - n\<rparr>))"
  using assms by (auto simp: sub_vouchers_Inr)

lemma moved_vouchers_keep:
  assumes "add_vouchers c who n s = Inr t \<or> sub_vouchers c who n s = Inr t"
  shows "lend_ledger t = lend_ledger s" "total_supply t = total_supply s"
    "account_borrows t = account_borrows s" "borrow_index t = borrow_index s"
  using assms by (auto simp: add_vouchers_Inr sub_vouchers_Inr put_deposits_def)

lemma liquidation_limit:
  assumes "liquidate_borrow_allowed F C E s debtor c a m = Inr ()"
    and "current_borrow_balance F s debtor c = Inr owed" and "get_asset_value F E c a = Inr rv"
  obtains dv counted where "get_asset_value F E c owed = Inr dv"
    and "if c = liquidation_free_asset_id C
         then \<exists>base. get_lf_base_position F C E s debtor = Inr base \<and> counted = dv - base else counted = dv"
    and "rv \<le> perm_mul_ceil F (close_factor m) counted"
proof (cases "c = liquidation_free_asset_id C")
  case True
  obtain dv base where "get_asset_value F E c owed = Inr dv" "get_lf_base_position F C E s debtor = Inr base"
    "rv \<le> perm_mul_ceil F (close_factor m) (if base < dv then dv - base else 0)"
    using assms True
    by (auto simp: liquidate_borrow_allowed_def result_simps not_less simp del: if_split split: if_split_asm prod.splits)
  then show thesis using True that [of dv "dv - base"] by (auto split: if_splits)
next
  case False
  obtain dv where "get_asset_value F E c owed = Inr dv" "rv \<le> perm_mul_ceil F (close_factor m) dv"
    using assms False by (auto simp: liquidate_borrow_allowed_def result_simps not_less split: if_splits prod.splits)
  then show thesis using False that [of dv dv] by simp
qed

text \<open>
  C24. In a reachable state, a liquidation by an account other than the pallet's and the incentive account (which is not the
  debtor either) repays an amount within the close factor of the debt (in the liquidation-free asset:
  of the part of the debt beyond the reserved collateral) and takes vouchers of a flagged collateral that is not
  reserved. The debtor owes exactly the repaid amount less, and the market has received it. The debtor loses exactly
  the vouchers taken, the incentive account gets the reserved part and the liquidator the difference of the two in
  128 bits; where the incentive of the market is at least one, the reserved part is within the vouchers taken, so that
  none is created. The total supply of vouchers stays.
\<close>

theorem liquidation_effect:
  assumes "lend_pallet F C" and "lend_reachable F C s"
    and "liquidate_borrow F C E (Signed w) debtor c a coll s = Inr t"
    and "w \<noteq> lend_account C" and "incentive_account C \<noteq> w" and "incentive_account C \<noteq> debtor"
  shows "\<exists>s1 s2 m n v r debt_value value counted.
     accrue_interest F C E c s = Inr s1 \<and> accrue_interest F C E coll s1 = Inr s2 \<and>
     map_of (markets s2) c = Some m \<and> current_borrow_balance F s2 debtor c = Inr n \<and>
     debtor \<noteq> w \<and> is_collateral (deposits_of s2 coll debtor) \<and> coll \<notin> set (liquidation_free_collaterals s) \<and>
     get_asset_value F E c n = Inr debt_value \<and> get_asset_value F E c a = Inr value \<and>
     (if c = liquidation_free_asset_id C
      then \<exists>base. get_lf_base_position F C E s2 debtor = Inr base \<and> counted = debt_value - base
      else counted = debt_value) \<and> value \<le> perm_mul_ceil F (close_factor m) counted \<and>
     a \<le> n \<and> current_borrow_balance F t debtor c = Inr (n - a) \<and> cash_of C t c = cash_of C s2 c + a \<and>
     (fx_one \<le> liquidate_incentive m \<longrightarrow> r \<le> v \<and> wrapping_sub v r = v - r) \<and>
     voucher_balance (deposits_of t coll debtor) + v = voucher_balance (deposits_of s2 coll debtor) \<and>
     voucher_balance (deposits_of t coll w) = voucher_balance (deposits_of s2 coll w) + wrapping_sub v r \<and>
     voucher_balance (deposits_of t coll (incentive_account C)) =
       voucher_balance (deposits_of s2 coll (incentive_account C)) + r \<and>
     total_supply t = total_supply s2"
proof -
  note fix_p = lend_pallet.axioms(1) [OF assms(1)]
  note fung = lend_pallet.axioms(2) [OF assms(1)]
  from assms(3) obtain s1 s2 where acc: "accrue_interest F C E c s = Inr s1"
    "accrue_interest F C E coll s1 = Inr s2" "coll \<notin> set (liquidation_free_collaterals s)"
    and d: "do_liquidate_borrow F C E w debtor c a coll s2 = Inr t"
    by (auto simp: liquidate_borrow_def result_simps)
  have same: "same_markets s s2"
    by (rule same_markets_trans [OF accrue_markets [OF acc(1)] accrue_markets [OF acc(2)]])
  from d show ?thesis
  proof (cases rule: liquidate_cases_lend)
    case g: (1 m m' k price rate rv lv cv amount)
    have m: "liquidate_incentive_reserved_factor m \<le> perm_one" "0 < borrow_index s2 c"
    proof -
      have "map_of (markets s) c = Some m" using g(2) same by (simp add: same_markets_def)
      then show "liquidate_incentive_reserved_factor m \<le> perm_one"
        using reachable_markets_wf [OF assms(2)] by (simp add: markets_wf_def market_typed_def)
      have "fx_one \<le> borrow_index s c"
        using reachable_index [OF assms(2)] \<open>map_of (markets s) c = Some m\<close> by (simp add: index_ok_def)
      also have "\<dots> \<le> borrow_index s2 c"
        using accrue_index [OF acc(1), of c] accrue_index [OF acc(2), of c] by (rule order_trans)
      finally show "0 < borrow_index s2 c" by (simp add: fx_one_def)
    qed
    from g(14) show ?thesis
    proof (cases rule: liquidated_transfer_cases)
      case (1 l owed s8 rate' v s9 q s10 s11)
      let ?r = "perm_mul_floor F (liquidate_incentive_reserved_factor m) q"
      note k8 = coreD [OF 1(5)]
      note k9 = moved_vouchers_keep [OF disjI2 [OF 1(8)]]
      note k10 = moved_vouchers_keep [OF disjI1 [OF 1(10)]]
      note k11 = moved_vouchers_keep [OF disjI1 [OF 1(11)]]
      note k = core_eqD(1,2,5,7) [OF 1(12)]
      have "v \<le> u128_max" using 1(7) by (simp add: fixed_point.div_Some [OF fix_p])
      then have w: "fx_one \<le> liquidate_incentive m \<longrightarrow> ?r \<le> v \<and> wrapping_sub v ?r = v - ?r"
        using fixed_point.reserved_le [OF fix_p 1(9) _ m(1)] wrapping_sub_exact by blast
      have dep8: "deposits_of s8 = deposits_of s2" by (rule voucher_cong) (simp add: k8)
      have dep: "deposits_of t = deposits_of s11" by (rule deposits_of_cong [OF 1(12)])
      have neq: "debtor \<noteq> w" "w \<noteq> debtor" using g(3) by auto
      have move: "voucher t coll debtor + v = voucher s2 coll debtor"
        "voucher t coll w = voucher s2 coll w + wrapping_sub v ?r"
        "voucher t coll (incentive_account C) = voucher s2 coll (incentive_account C) + ?r"
        using sub_vouchers_from [OF 1(8)] assms(5,6) neq
        by (simp_all add: dep add_vouchers_to [OF 1(11)] add_vouchers_to [OF 1(10)] dep8)
      have "owed \<le> u128_max" by (rule balance_fits [OF fix_p 1(2)])
      then have debt: "current_borrow_balance F t debtor c = Inr (owed - a)"
        using m(2) by (intro debt_now [OF fix_p]) (simp_all add: k k8 k9 k10 k11 with_debt_def)
      have cash: "cash_of C t c = cash_of C s2 c + a"
        using fungibles.flow [OF fung 1(1), of c "lend_account C"] assms(4)
        by (simp add: cash_of_def k k8 k9 k10 k11 paid_def)
      obtain dv counted where dv: "get_asset_value F E c owed = Inr dv"
        "if c = liquidation_free_asset_id C
         then \<exists>base. get_lf_base_position F C E s2 debtor = Inr base \<and> counted = dv - base else counted = dv"
        "rv \<le> perm_mul_ceil F (close_factor m) counted"
        using g(4) 1(2) g(9) by (rule liquidation_limit)
      have sup: "total_supply t = total_supply s2"
        by (simp add: k(2) k8(2) k9(2) k10(2) k11(2))
      show ?thesis
        by (intro exI [of _ s1] exI [of _ s2] exI [of _ m] exI [of _ owed] exI [of _ v] exI [of _ ?r]
            exI [of _ dv] exI [of _ rv] exI [of _ counted] conjI)
          (rule acc g 1 w move debt cash dv sup)+
    qed
  qed
qed

theorem liquidation_effect_witness: "\<exists>n. current_borrow_balance std_fixed liquidated 11 coin = Inr (n - 100)"
proof -
  have "(12::account) \<noteq> lend_account std_lend_config" "incentive_account std_lend_config \<noteq> 12"
    "incentive_account std_lend_config \<noteq> 11"
    by (simp_all add: std_conf)
  from liquidation_effect [OF std_lend_pallet indebted_reachable liquidated this]
  show ?thesis by blast
qed

definition discounted :: "balances lend_state" where
  "discounted = projr (lend_dispatch std_fixed std_lend_config day1 Root
     (UpdateMarket coin None None None None None (Some 50000000000000000) None None) indebted)"

definition inflated :: "balances lend_state" where
  "inflated = projr (liquidate_borrow std_fixed std_lend_config day400 (Signed 12) 11 coin 100 bond discounted)"

lemma reserved_exceeds:
  fixes i f v :: nat
  assumes "0 < i" and "f \<le> perm_one" and "2 * i \<le> v * (f * 10 ^ 12 - i)"
  shows "v < f * (v * fx_one div i) div perm_one"
proof (rule ccontr)
  let ?q = "v * fx_one div i" and ?d = "f * 10 ^ 12 - i"
  assume "\<not> v < f * ?q div perm_one"
  then have "f * ?q div perm_one < v + 1" by simp
  then have "f * ?q < (v + 1) * perm_one" by (simp add: div_less_iff_less_mult perm_one_def)
  then have "f * ?q + 1 \<le> (v + 1) * perm_one" by simp
  then have "(f * ?q + 1) * i \<le> (v + 1) * perm_one * i" by (rule mult_le_mono1)
  then have up: "f * (?q * i) + i \<le> (v + 1) * perm_one * i" by (simp add: algebra_simps)
  have "v * fx_one < ?q * i + i" using dividend_less_div_times [OF assms(1), of "v * fx_one"] by simp
  then have "f * (v * fx_one) \<le> f * (?q * i + i)" by (intro mult_le_mono2) simp
  then have low: "f * (v * fx_one) \<le> f * (?q * i) + f * i" by (simp add: algebra_simps)
  have "0 < ?d" using assms(1,3) by (cases "?d = 0") auto
  then have "f * 10 ^ 12 = i + ?d" by simp
  then have "f * (v * fx_one) = v * perm_one * (i + ?d)"
    by (simp add: fx_one_def perm_one_def)
  with low up have "v * perm_one * (i + ?d) + i \<le> (v + 1) * perm_one * i + f * i" by linarith
  then have "perm_one * (v * ?d) + i \<le> perm_one * i + f * i" by (simp add: algebra_simps)
  moreover have "f * i \<le> perm_one * i" using assms(2) by (rule mult_le_mono1)
  moreover have "perm_one * i + perm_one * i \<le> perm_one * (v * ?d)"
    using mult_le_mono2 [OF assms(3), of perm_one] by (simp only: mult_2 distrib_left)
  ultimately have "i \<le> 0" by linarith
  with assms(1) show False by simp
qed

lemma accrue_keeps_vouchers:
  assumes "accrue_interest F C E c s = Inr t"
  shows "deposits_of t = deposits_of s" and "total_supply t = total_supply s"
proof -
  have "account_deposits t = account_deposits s \<and> total_supply t = total_supply s"
    using assms
  proof (cases rule: accrue_cases)
    case start
    show ?thesis by (simp add: core_eqD(2,6) [OF start(3)])
  next
    case late
    then show ?thesis by simp
  next
    case (grown m util rate interest inc xrate)
    show ?thesis by (simp add: coreD(2,6) [OF grown(10)] core_def)
  qed
  then show "deposits_of t = deposits_of s" and "total_supply t = total_supply s"
    using voucher_cong by blast+
qed

text \<open>
  C40. An incentive below the reserved factor lets a liquidation create vouchers. In a reachable state, let a
  liquidation in such a market take \<open>v\<close> vouchers from the debtor (neither the debtor nor the liquidator being the
  account of the incentives). As soon as \<open>v\<close> times the difference of the two is at least
  twice the incentive, the reserved part, which is computed by dividing by the incentive, exceeds \<open>v\<close>, and the plain
  subtraction wraps around: the liquidator is given \<open>2 ^ 128\<close> vouchers less the excess, while the total supply stays.
\<close>

theorem low_incentive_mints_vouchers:
  assumes "lend_pallet F C" and "lend_reachable F C s" and "map_of (markets s) c = Some m"
    and "liquidate_borrow F C E (Signed w) debtor c a coll s = Inr t"
    and "incentive_account C \<noteq> w" and "incentive_account C \<noteq> debtor"
  shows "\<exists>v. voucher t coll debtor + v = voucher s coll debtor \<and>
    (2 * liquidate_incentive m \<le> v * (liquidate_incentive_reserved_factor m * 10 ^ 12 - liquidate_incentive m) \<longrightarrow>
     (let r = liquidate_incentive_reserved_factor m * (v * fx_one div liquidate_incentive m) div perm_one in
      v < r \<and> voucher t coll w + (r - v) = voucher s coll w + 2 ^ 128 \<and>
      voucher t coll (incentive_account C) = voucher s coll (incentive_account C) + r \<and>
      total_supply t = total_supply s))"
proof -
  note fix_p = lend_pallet.axioms(1) [OF assms(1)]
  let ?i = "liquidate_incentive m" and ?f = "liquidate_incentive_reserved_factor m"
  from assms(4) obtain s1 s2 where acc: "accrue_interest F C E c s = Inr s1" "accrue_interest F C E coll s1 = Inr s2"
    and d: "do_liquidate_borrow F C E w debtor c a coll s2 = Inr t"
    by (auto simp: liquidate_borrow_def result_simps)
  have same: "same_markets s s2"
    by (rule same_markets_trans [OF accrue_markets [OF acc(1)] accrue_markets [OF acc(2)]])
  have acc_v: "deposits_of s2 = deposits_of s" "total_supply s2 = total_supply s"
    using accrue_keeps_vouchers [OF acc(1)] accrue_keeps_vouchers [OF acc(2)] by simp_all
  from d show ?thesis
  proof (cases rule: liquidate_cases_lend)
    case g: (1 m2 m' k price rate rv lv cv amount)
    have m2: "m2 = m" using g(2) same assms(3) by (simp add: same_markets_def)
    have f: "?f \<le> perm_one"
      using assms(3) reachable_markets_wf [OF assms(2)] by (simp add: markets_wf_def market_typed_def)
    from g(14) show ?thesis unfolding m2
    proof (cases rule: liquidated_transfer_cases)
      case (1 l owed s8 rate' v s9 q s10 s11)
      let ?r = "?f * (v * fx_one div ?i) div perm_one"
      note k8 = coreD [OF 1(5)]
      note k9 = moved_vouchers_keep [OF disjI2 [OF 1(8)]]
      note k10 = moved_vouchers_keep [OF disjI1 [OF 1(10)]]
      note k11 = moved_vouchers_keep [OF disjI1 [OF 1(11)]]
      have q: "0 < ?i" "q = v * fx_one div ?i" using 1(9) by (simp_all add: fixed_point.div_Some [OF fix_p])
      have r: "perm_mul_floor F ?f q = ?r" unfolding q(2) by (rule fixed_point.mul_floor [OF fix_p f])
      have dep8: "deposits_of s8 = deposits_of s2" by (rule voucher_cong) (simp add: k8)
      have dep: "deposits_of t = deposits_of s11" by (rule deposits_of_cong [OF 1(12)])
      have neq: "debtor \<noteq> w" "w \<noteq> debtor" using g(3) by auto
      have move: "voucher t coll debtor + v = voucher s coll debtor"
        "voucher t coll w = voucher s coll w + wrapping_sub v ?r"
        "voucher t coll (incentive_account C) = voucher s coll (incentive_account C) + ?r"
        using sub_vouchers_from [OF 1(8)] assms(5,6) neq
        by (simp_all add: dep add_vouchers_to [OF 1(11)] add_vouchers_to [OF 1(10)] dep8 acc_v r)
      have sup: "total_supply t = total_supply s"
        using core_eqD(2) [OF 1(12)] by (simp add: k8(2) k9(2) k10(2) k11(2) acc_v)
      have fits: "?r \<le> u128_max" using 1(11) r by (auto simp: add_vouchers_Inr)
      have wraps: "voucher t coll w + (?r - v) = voucher s coll w + 2 ^ 128" if "v < ?r"
        using that fits move(2) by (simp add: wrapping_sub_def u128_max_def)
      show ?thesis unfolding Let_def
        by (intro exI [of _ v] conjI impI) (rule move wraps sup reserved_exceeds [OF q(1) f] | assumption)+
    qed
  qed
qed

text \<open>A market with an incentive of 0.05, as \<open>update_market\<close> allows it, and a liquidation of one coin's worth in it.\<close>

lemma discounted_run:
  "lend_run day1 [(Root, UpdateMarket coin None None None None None (Some 50000000000000000) None None)] indebted =
     Inr discounted"
  by (simp add: lend_run_def discounted_def update_market_def unwrap_or_def governance_unfold std_conf state_unfold emit_def)

lemma discounted_reachable: "lend_reachable std_fixed std_lend_config discounted"
  by (rule lend_run_reachable [OF discounted_run indebted_reachable]) (simp add: opt_le_def)

lemma discounted_market:
  "\<exists>m. map_of (markets discounted) coin = Some m \<and> liquidate_incentive m = 50000000000000000 \<and>
     liquidate_incentive_reserved_factor m = 100000"
  by (simp add: discounted_def update_market_def unwrap_or_def governance_unfold std_conf state_unfold emit_def)

lemma inflated_run:
  "liquidate_borrow std_fixed std_lend_config day400 (Signed 12) 11 coin 100 bond discounted = Inr inflated"
  "voucher_balance (deposits_of inflated bond 11) = 49500"
  "voucher_balance (deposits_of discounted bond 11) = 50000"
  by (simp_all add: inflated_def discounted_def update_market_def unwrap_or_def governance_unfold demo_unfold
      state_unfold grow_unfold liquidate_unfold)

theorem low_incentive_mints_vouchers_witness:
  "voucher inflated bond 12 + 500 = voucher discounted bond 12 + 2 ^ 128 \<and>
   total_supply inflated bond = total_supply discounted bond"
proof -
  obtain m where m: "map_of (markets discounted) coin = Some m" "liquidate_incentive m = 50000000000000000"
    "liquidate_incentive_reserved_factor m = 100000"
    using discounted_market by blast
  have "incentive_account std_lend_config \<noteq> 12" "incentive_account std_lend_config \<noteq> 11"
    by (simp_all add: std_conf)
  from low_incentive_mints_vouchers [OF std_lend_pallet discounted_reachable m(1) inflated_run(1) this] show ?thesis
    by (auto simp: inflated_run(2,3) m(2,3) fx_one_def perm_one_def Let_def)
qed

section \<open>Rewards and the voucher token\<close>

text \<open>
  The suppliers of a market together accrue no more reward for a stretch of blocks than the speed times the
  blocks, however the vouchers are spread: the index and the shares are rounded down.
\<close>

theorem supplier_rewards_within_speed:
  fixes vouchers_of_account :: "account \<Rightarrow> nat" and r :: "account \<Rightarrow> nat"
  assumes "calculate_reward_delta_index delta_block speed supply_total = Inr d"
    and "sum vouchers_of_account A \<le> supply_total"
    and "\<forall>who\<in>A. calculate_reward_delta (vouchers_of_account who) d = Inr (r who)"
  shows "sum r A \<le> delta_block * speed"
proof (cases "supply_total = 0")
  case True
  with assms(1,3) show ?thesis
    by (auto simp: calculate_reward_delta_index_def calculate_reward_delta_def result_simps chk_def
        split: if_splits)
next
  case False
  let ?n = "delta_block * speed"
  have d: "d = ?n * reward_scale div supply_total"
    using assms(1) False by (auto simp: calculate_reward_delta_index_def result_simps chk_def split: if_splits)
  have scale: "0 < reward_scale" by (simp add: reward_scale_def)
  have "r who * reward_scale \<le> vouchers_of_account who * d" if "who \<in> A" for who
    using assms(3) that by (auto simp: calculate_reward_delta_def result_simps chk_def split: if_splits)
  then have "(\<Sum>who\<in>A. r who * reward_scale) \<le> (\<Sum>who\<in>A. vouchers_of_account who * d)"
    by (rule sum_mono)
  then have "sum r A * reward_scale \<le> sum vouchers_of_account A * d"
    by (simp add: sum_distrib_right)
  also have "\<dots> \<le> supply_total * d" using assms(2) by simp
  also have "\<dots> \<le> ?n * reward_scale" by (simp add: d)
  finally show ?thesis using scale by simp
qed

theorem supplier_rewards_within_speed_witness:
  "\<exists>r. calculate_reward_delta 60 (10 ^ 12) = Inr (r (11::account)) \<and>
     calculate_reward_delta 40 (10 ^ 12) = Inr (r 12) \<and> sum r {11, 12} \<le> 10 * 10"
proof -
  define r :: "account \<Rightarrow> nat" where "r = (\<lambda>a. if a = 11 then 60 else 40)"
  have i: "calculate_reward_delta_index 10 10 100 = Inr (10 ^ 12)"
    by (simp add: calculate_reward_delta_index_def reward_scale_def chk_def u128_max_def)
  have *: "\<forall>who\<in>{11, 12}. calculate_reward_delta (r who) (10 ^ 12) = Inr (r who)"
    by (simp add: calculate_reward_delta_def r_def reward_scale_def chk_def u128_max_def)
  have "sum r {11, 12} \<le> 100" by (simp add: r_def)
  from supplier_rewards_within_speed [OF i this *] * show ?thesis
    by (intro exI [of _ r]) (simp add: r_def)
qed

lemma take_vouchers_from:
  assumes "take_vouchers c who n s = Inr t"
  shows "n \<le> voucher s c who" and "voucher t c who = voucher s c who - n"
    and "x \<noteq> who \<Longrightarrow> deposits_of t c x = deposits_of s c x" and "d \<noteq> c \<Longrightarrow> deposits_of t d = deposits_of s d"
  using assms by (auto simp: take_vouchers_Inr)

lemma keep_rewards:
  "take_vouchers c who n s = Inr t \<Longrightarrow> reward_supply_state t = reward_supply_state s \<and>
     reward_supplier_index t = reward_supplier_index s \<and> reward_accrued t = reward_accrued s \<and>
     total_supply t = total_supply s"
  "add_vouchers c who n s = Inr t \<Longrightarrow> reward_supply_state t = reward_supply_state s \<and>
     reward_supplier_index t = reward_supplier_index s \<and> reward_accrued t = reward_accrued s \<and>
     total_supply t = total_supply s"
  by (auto simp: take_vouchers_Inr add_vouchers_Inr put_deposits_def)

lemma other_market_rewards:
  "update_reward_supply_index E tok s = Inr t \<Longrightarrow> c \<noteq> tok \<Longrightarrow>
     reward_supply_state t c = reward_supply_state s c \<and> reward_supplier_index t c = reward_supplier_index s c"
  "distribute_supplier_reward tok who s = Inr t \<Longrightarrow> c \<noteq> tok \<Longrightarrow>
     reward_supply_state t c = reward_supply_state s c \<and> reward_supplier_index t c = reward_supplier_index s c"
  by (auto simp: update_reward_supply_index_def distribute_supplier_reward_def Let_def result_simps
      split: if_splits)

text \<open>
  A transfer of vouchers between two accounts moves exactly the amount and leaves the issuance alone. It takes
  the rewards under the id of the lend token, though: the reward state of the underlying market and the
  reward indices of its suppliers stay as they were, so the receiver is later paid for the time before.
\<close>

theorem voucher_transfer_effect:
  assumes "lend_token_transfer F C E tok source dest a s = Inr (n, t)" and "source \<noteq> dest"
    and "underlying_asset s tok = Some c" and "c \<noteq> tok"
  shows "n = a \<and> a \<le> lt_reducible_balance F C E s tok source \<and>
     lt_balance t tok source + a = lt_balance s tok source \<and>
     lt_balance t tok dest = lt_balance s tok dest + a \<and>
     (\<forall>x. x \<noteq> source \<and> x \<noteq> dest \<longrightarrow> lt_balance t tok x = lt_balance s tok x) \<and>
     lt_total_issuance t tok = lt_total_issuance s tok \<and>
     reward_supply_state t c = reward_supply_state s c \<and>
     reward_supplier_index t c = reward_supplier_index s c"
proof -
  from assms(1) obtain s1 s2 s3 s4 d where *: "n = a" "a \<le> lt_reducible_balance F C E s tok source"
    "update_reward_supply_index E tok s = Inr s1" "distribute_supplier_reward tok source s1 = Inr s2"
    "distribute_supplier_reward tok dest s2 = Inr s3" "underlying_asset s3 tok = Some d"
    "take_vouchers d source a s3 = Inr s4" "add_vouchers d dest a s4 = Inr t"
    by (auto simp: lend_token_transfer_def do_transfer_lend_tokens_def underlying_id_def result_simps)
  have k: "core s3 = core s" using *(3-5) by (auto dest!: core_frame)
  have d: "d = c" using *(6) assms(3) core_eqD(9) [OF k] by simp
  have dep: "deposits_of s3 = deposits_of s" by (rule deposits_of_cong [OF k])
  have "underlying_asset t tok = Some c"
    using *(8) *(7) core_eqD(9) [OF k] assms(3)
    by (auto simp: take_vouchers_Inr add_vouchers_Inr put_deposits_def)
  moreover have "total_supply t = total_supply s"
    using keep_rewards(1) [OF *(7)] keep_rewards(2) [OF *(8)] core_eqD(2) [OF k] by simp
  moreover have "reward_supply_state t c = reward_supply_state s c \<and>
      reward_supplier_index t c = reward_supplier_index s c"
    using keep_rewards(1) [OF *(7)] keep_rewards(2) [OF *(8)] other_market_rewards(1) [OF *(3) assms(4)]
      other_market_rewards(2) [OF *(4) assms(4)] other_market_rewards(2) [OF *(5) assms(4)] by simp
  moreover have "voucher t c source + a = voucher s c source" "voucher t c dest = voucher s c dest + a"
    "\<And>x. x \<noteq> source \<and> x \<noteq> dest \<Longrightarrow> voucher t c x = voucher s c x"
    using take_vouchers_from [OF *(7)] assms(2)
    by (simp_all add: add_vouchers_to [OF *(8)] d dep)
  ultimately show ?thesis
    using *(1,2) assms(3) by (simp add: lt_balance_def lt_total_issuance_def)
qed

definition passed_on :: "balances lend_state" where
  "passed_on = snd (projr (lend_token_transfer std_fixed std_lend_config day1 (Lend 11) 10 12 40000 indebted))"

theorem voucher_transfer_effect_witness:
  "lend_token_transfer std_fixed std_lend_config day1 (Lend 11) 10 12 40000 indebted = Inr (40000, passed_on) \<and>
   lt_balance passed_on (Lend 11) 12 = lt_balance indebted (Lend 11) 12 + 40000"
proof
  show *: "lend_token_transfer std_fixed std_lend_config day1 (Lend 11) 10 12 40000 indebted = Inr (40000, passed_on)"
    by (simp add: passed_on_def lend_token_transfer_def lt_reducible_balance_def reducible_asset_def
        do_transfer_lend_tokens_def underlying_id_def take_vouchers_def add_vouchers_def demo_unfold state_unfold)
  have "underlying_asset indebted (Lend 11) = Some coin" "(10::account) \<noteq> 12" "coin \<noteq> Lend 11"
    by (simp_all add: state_unfold)
  with voucher_transfer_effect [OF *]
  show "lt_balance passed_on (Lend 11) 12 = lt_balance indebted (Lend 11) 12 + 40000" by blast
qed

end
