(* ===== verification/Minting_State.thy ===== *)
theory Minting_State
  imports Fixed_Point Storage Ledger
begin

text \<open>
  The data of the liquid staking pallet: \<open>primitives/src/time_unit.rs\<close>, the redeem types, and the storage,
  errors and events of \<open>pallets/vtoken-minting/src/lib.rs\<close>. \<open>OngoingTimeUnit\<close>, whose keys the idle hook
  iterates over, is the list of its entries in storage order; every other map is a function.

  What the pallet calls outside of itself (the token ledger, the XCM and bridge senders, the exchange of
  cross-chain orders, the vote escrow, the commission of channels, the runtime's redemption hooks) acts on
  one state of type \<open>'l\<close>, through the operations of \<open>minting_config\<close>; of it only the ledger has laws.
\<close>

section \<open>Time units\<close>

datatype time_unit = Era nat | SlashingSpan nat | Round nat | Kblock nat | Hour nat

datatype rust_order = OrdLess | OrdEqual | OrdGreater

definition sat32 :: "nat \<Rightarrow> nat \<Rightarrow> nat" where
  "sat32 a b = min u32_max (a + b)"

fun add_one :: "time_unit \<Rightarrow> time_unit" where
  "add_one (Era a) = Era (sat32 a 1)"
| "add_one (SlashingSpan a) = SlashingSpan (sat32 a 1)"
| "add_one (Round a) = Round (sat32 a 1)"
| "add_one (Kblock a) = Kblock (sat32 a 1)"
| "add_one (Hour a) = Hour (sat32 a 1)"

fun tu_add :: "time_unit \<Rightarrow> time_unit \<Rightarrow> time_unit option" where
  "tu_add (Era a) (Era b) = Some (Era (sat32 a b))"
| "tu_add (SlashingSpan a) (SlashingSpan b) = Some (SlashingSpan (sat32 a b))"
| "tu_add (Round a) (Round b) = Some (Round (sat32 a b))"
| "tu_add (Kblock a) (Kblock b) = Some (Kblock (sat32 a b))"
| "tu_add (Hour a) (Hour b) = Some (Hour (sat32 a b))"
| "tu_add _ _ = None"

fun into_value :: "time_unit \<Rightarrow> nat" where
  "into_value (Era a) = a"
| "into_value (SlashingSpan a) = a"
| "into_value (Round a) = a"
| "into_value (Kblock a) = a"
| "into_value (Hour a) = a"

definition default_time_unit :: time_unit where
  "default_time_unit = Era 0"

definition u32_cmp :: "nat \<Rightarrow> nat \<Rightarrow> rust_order" where
  "u32_cmp a b = (if a < b then OrdLess else if a = b then OrdEqual else OrdGreater)"

text \<open>Units of different kinds compare as less in both directions.\<close>

fun tu_cmp :: "time_unit \<Rightarrow> time_unit \<Rightarrow> rust_order" where
  "tu_cmp (Era a) (Era b) = u32_cmp a b"
| "tu_cmp (SlashingSpan a) (SlashingSpan b) = u32_cmp a b"
| "tu_cmp (Round a) (Round b) = u32_cmp a b"
| "tu_cmp (Kblock a) (Kblock b) = u32_cmp a b"
| "tu_cmp (Hour a) (Hour b) = u32_cmp a b"
| "tu_cmp _ _ = OrdLess"

definition tu_partial_cmp :: "time_unit \<Rightarrow> time_unit \<Rightarrow> rust_order option" where
  "tu_partial_cmp t u = Some (tu_cmp t u)"

definition tu_gt :: "time_unit \<Rightarrow> time_unit \<Rightarrow> bool" where
  "tu_gt t u \<longleftrightarrow> tu_partial_cmp t u = Some OrdGreater"

fun same_kind :: "time_unit \<Rightarrow> time_unit \<Rightarrow> bool" where
  "same_kind (Era _) (Era _) = True"
| "same_kind (SlashingSpan _) (SlashingSpan _) = True"
| "same_kind (Round _) (Round _) = True"
| "same_kind (Kblock _) (Kblock _) = True"
| "same_kind (Hour _) (Hour _) = True"
| "same_kind _ _ = False"

lemma tu_gt_iff: "tu_gt t u \<longleftrightarrow> same_kind t u \<and> into_value u < into_value t"
  by (cases t; cases u) (auto simp: tu_gt_def tu_partial_cmp_def u32_cmp_def)

lemma tu_add_eq_Some:
  "tu_add t u = Some r \<longleftrightarrow>
     same_kind t u \<and> same_kind t r \<and> into_value r = min u32_max (into_value t + into_value u)"
  by (cases t; cases u; cases r) (auto simp: sat32_def)

section \<open>Redeem types\<close>

datatype redeem_type =
    RedeemNative
  | RedeemAstar account
  | RedeemMoonbeam nat
  | RedeemHydradx account
  | RedeemInterlay account
  | RedeemManta account
  | RedeemHyperBridge nat nat

datatype redeem_to =
    ToNative account
  | ToAstar account
  | ToMoonbeam nat
  | ToHydradx account
  | ToInterlay account
  | ToManta account
  | ToHyperBridge nat nat

text \<open>A location one parent up: a sibling chain and a recipient on it.\<close>

datatype recipient = AccountId32 account | AccountKey20 nat

datatype location = Sibling nat recipient

datatype operation = OpSet | OpAdd | OpSub

record token_config =
  config_token :: currency
  redeem_enabled :: bool

definition max_multimap :: nat where
  "max_multimap = 20"

section \<open>Errors and events\<close>

datatype minting_error =
    BelowMinimumMint | BelowMinimumRedeem | InvalidRebondToken | NotSupportTokenType
  | NotEnoughBalanceToUnlock | TokenToRebondNotZero | OngoingTimeUnitNotSet
  | TokenUnlockLedgerNotFound | UserUnlockLedgerNotFound | TimeUnitUnlockLedgerNotFound
  | UnlockDurationNotFound | Unexpected | CalculationOverflow | ExceedMaximumUnlockId
  | TooManyRedeems | CanNotRebond | NotEnoughBalance | BbBNCCheckingError | IncentiveCoefNotFound
  | TooManyLocks | NoUnlockRecord | FailToRemoveLock | BalanceZero | IncentiveLockBlocksNotSet
  | VtokenIssuanceNotSet | TokenAlreadyMapped | InvalidVTokenMultiMapConfig
  | TokenNotInVTokenMultiMap | RedeemNotEnabled

type_synonym 'a minting_result = "(minting_error, 'a) result"

text \<open>The arguments of an event are the fields of the source in their order; a remark is its bytes.\<close>

datatype minting_event =
    VMinted account currency nat nat nat "nat list" "nat option"
  | VRedeemed account currency nat nat nat nat
  | RedeemSuccess account nat currency redeem_to nat
  | Rebonded account currency nat nat nat
  | RebondedByUnlockId account currency nat nat nat nat
  | UnlockDurationSet currency time_unit
  | MinimumMintSet currency nat
  | MinimumRedeemSet currency nat
  | SupportRebondTokenAdded currency
  | SupportRebondTokenRemoved currency
  | FeeSet nat nat
  | HookIterationLimitSet nat
  | UnlockingTotalSet currency nat
  | MinTimeUnitSet currency time_unit
  | FastRedeemFailed "minting_error dispatch_error"
  | SetOngoingTimeUnit currency time_unit
  | IncentivizedMinting account currency nat nat nat
  | VtokenIncentiveCoefSet currency "nat option"
  | VtokenIncentiveLockBlocksSet currency "nat option"
  | VTokenMultiMapSet currency "token_config list"
  | VTokenMultiMapMigrated currency "token_config list"
  | VtokenIssuanceSet currency nat

section \<open>Configuration and state\<close>

record 'l minting_config =
  mt_currencies :: "'l currency_ops"
  mt_deposit :: "currency \<Rightarrow> account \<Rightarrow> nat \<Rightarrow> 'l \<Rightarrow> nat + 'l"
  mt_withdraw :: "currency \<Rightarrow> account \<Rightarrow> nat \<Rightarrow> 'l \<Rightarrow> nat + 'l"
  mt_minimum_balance :: "currency \<Rightarrow> nat"
  mt_can_withdraw :: "'l \<Rightarrow> currency \<Rightarrow> account \<Rightarrow> nat \<Rightarrow> bool"
  mt_set_lock :: "currency \<Rightarrow> account \<Rightarrow> nat \<Rightarrow> 'l \<Rightarrow> nat + 'l"
  mt_remove_lock :: "currency \<Rightarrow> account \<Rightarrow> 'l \<Rightarrow> nat + 'l"
  xcm_transfer :: "account \<Rightarrow> currency \<Rightarrow> nat \<Rightarrow> location \<Rightarrow> 'l \<Rightarrow> nat + 'l"
  xcm_transfer_many :: "account \<Rightarrow> (currency \<times> nat) list \<Rightarrow> nat \<Rightarrow> location \<Rightarrow> 'l \<Rightarrow> nat + 'l"
  hyperbridge_payer_and_fee :: "'l \<Rightarrow> nat \<Rightarrow> nat + account \<times> nat"
  hyperbridge_send :: "currency \<Rightarrow> account \<Rightarrow> nat \<Rightarrow> nat \<Rightarrow> nat \<Rightarrow> nat \<Rightarrow> account \<Rightarrow> nat \<Rightarrow> 'l \<Rightarrow> nat + 'l"
  moonbeam_transfer_to_fee :: "'l \<Rightarrow> nat"
  bb_bnc_total_supply :: "'l \<Rightarrow> nat \<Rightarrow> nat + nat"
  bb_bnc_balance_of :: "'l \<Rightarrow> account \<Rightarrow> nat + nat"
  record_mint_amount :: "nat option \<Rightarrow> currency \<Rightarrow> nat \<Rightarrow> 'l \<Rightarrow> nat + 'l"
  record_redeem_amount :: "currency \<Rightarrow> nat \<Rightarrow> 'l \<Rightarrow> nat + 'l"
  on_redeem_success :: "currency \<Rightarrow> account \<Rightarrow> nat \<Rightarrow> 'l \<Rightarrow> 'l"
  on_redeemed :: "account \<Rightarrow> currency \<Rightarrow> nat \<Rightarrow> nat \<Rightarrow> nat \<Rightarrow> 'l \<Rightarrow> 'l"
  mul_rational :: "nat \<Rightarrow> nat \<Rightarrow> nat \<Rightarrow> nat option"
  perm_times :: "nat \<Rightarrow> nat \<Rightarrow> nat"
  fx_sqrt :: "nat \<Rightarrow> nat"
  control_origin :: "origin \<Rightarrow> bool"
  max_unlock_id_of_user :: nat
  max_unlock_id_of_time_unit :: nat
  max_lock_records :: nat
  entrance_account :: account
  exit_account :: account
  mint_fee_account :: account
  redeem_fee_account :: account
  incentive_pool_account :: account
  moonbeam_chain_id :: nat
  currency_hash :: "currency \<Rightarrow> nat"

record unlock_record =
  redeemer :: account
  unlock_amount :: nat
  lock_to :: time_unit
  redeem_how :: redeem_type

record 'l minting_state =
  mint_redeem_fees :: "nat \<times> nat"
  token_pool :: "currency \<Rightarrow> nat"
  unlock_duration :: "currency \<Rightarrow> time_unit option"
  ongoing_time_units :: "(currency \<times> time_unit) list"
  minimum_mint :: "currency \<Rightarrow> nat option"
  minimum_redeem :: "currency \<Rightarrow> nat"
  token_unlock_next_id :: "currency \<Rightarrow> nat"
  token_unlock_ledger :: "currency \<Rightarrow> nat \<Rightarrow> unlock_record option"
  user_unlock_ledger :: "account \<Rightarrow> currency \<Rightarrow> (nat \<times> nat list) option"
  time_unit_unlock_ledger :: "time_unit \<Rightarrow> currency \<Rightarrow> (nat \<times> nat list \<times> currency) option"
  token_to_rebond :: "currency \<Rightarrow> nat option"
  min_time_unit :: "currency \<Rightarrow> time_unit"
  unlocking_total :: "currency \<Rightarrow> nat"
  vtoken_issuance :: "currency \<Rightarrow> nat"
  hook_iteration_limit :: nat
  vtoken_to_tokens :: "currency \<Rightarrow> token_config list option"
  token_to_vtoken_map :: "currency \<Rightarrow> currency option"
  mint_with_lock_blocks :: "currency \<Rightarrow> nat option"
  vtoken_incentive_coef :: "currency \<Rightarrow> nat option"
  vtoken_lock_ledger :: "account \<Rightarrow> currency \<Rightarrow> (nat \<times> (nat \<times> nat) list) option"
  outside :: 'l
  minting_events :: "minting_event list"

definition initial_minting :: "'l \<Rightarrow> 'l minting_state" where
  "initial_minting l = \<lparr>mint_redeem_fees = (0, 0), token_pool = (\<lambda>_. 0), unlock_duration = (\<lambda>_. None),
     ongoing_time_units = [], minimum_mint = (\<lambda>_. None), minimum_redeem = (\<lambda>_. 0),
     token_unlock_next_id = (\<lambda>_. 0), token_unlock_ledger = (\<lambda>_ _. None),
     user_unlock_ledger = (\<lambda>_ _. None), time_unit_unlock_ledger = (\<lambda>_ _. None),
     token_to_rebond = (\<lambda>_. None), min_time_unit = (\<lambda>_. default_time_unit),
     unlocking_total = (\<lambda>_. 0), vtoken_issuance = (\<lambda>_. 0), hook_iteration_limit = 0,
     vtoken_to_tokens = (\<lambda>_. None), token_to_vtoken_map = (\<lambda>_. None),
     mint_with_lock_blocks = (\<lambda>_. None), vtoken_incentive_coef = (\<lambda>_. None),
     vtoken_lock_ledger = (\<lambda>_ _. None), outside = l, minting_events = []\<rparr>"

definition emit_minting :: "minting_event \<Rightarrow> 'l minting_state \<Rightarrow> 'l minting_state" where
  "emit_minting e s = s\<lparr>minting_events := e # minting_events s\<rparr>"

definition ongoing_time_unit :: "'l minting_state \<Rightarrow> currency \<Rightarrow> time_unit option" where
  "ongoing_time_unit s = map_of (ongoing_time_units s)"

text \<open>An operation of the outside, whose error the pallet passes on.\<close>

definition outside_call :: "('l \<Rightarrow> nat + 'l) \<Rightarrow> 'l minting_state \<Rightarrow> 'l minting_state minting_result" where
  "outside_call f s = (case f (outside s) of Inl e \<Rightarrow> Inl (External e) | Inr l \<Rightarrow> Inr (s\<lparr>outside := l\<rparr>))"

text \<open>An operation of the outside whose error is mapped to one of the pallet's own.\<close>

definition outside_try ::
  "minting_error \<Rightarrow> ('l \<Rightarrow> nat + 'l) \<Rightarrow> 'l minting_state \<Rightarrow> 'l minting_state minting_result" where
  "outside_try e f s = (case f (outside s) of Inl _ \<Rightarrow> Inl (Module e) | Inr l \<Rightarrow> Inr (s\<lparr>outside := l\<rparr>))"

definition outside_get :: "minting_error \<Rightarrow> (nat + 'a) \<Rightarrow> 'a minting_result" where
  "outside_get e r = (case r of Inl _ \<Rightarrow> Inl (Module e) | Inr x \<Rightarrow> Inr x)"

definition vt_transfer ::
  "'l minting_config \<Rightarrow> currency \<Rightarrow> account \<Rightarrow> account \<Rightarrow> nat \<Rightarrow> 'l minting_state \<Rightarrow>
     'l minting_state minting_result" where
  "vt_transfer C c a b n = outside_call (mc_transfer (mt_currencies C) c a b n)"

definition vt_free :: "'l minting_config \<Rightarrow> 'l minting_state \<Rightarrow> currency \<Rightarrow> account \<Rightarrow> nat" where
  "vt_free C s = mc_free (mt_currencies C) (outside s)"

lemma outside_call_eq_Inr [result_simps]:
  "outside_call f s = Inr t \<longleftrightarrow> (\<exists>l. f (outside s) = Inr l \<and> t = s\<lparr>outside := l\<rparr>)"
  by (auto simp: outside_call_def split: sum.splits)

lemma outside_try_eq_Inr [result_simps]:
  "outside_try e f s = Inr t \<longleftrightarrow> (\<exists>l. f (outside s) = Inr l \<and> t = s\<lparr>outside := l\<rparr>)"
  by (auto simp: outside_try_def split: sum.splits)

lemma outside_get_eq_Inr [result_simps]: "outside_get e r = Inr x \<longleftrightarrow> r = Inr x"
  by (auto simp: outside_get_def split: sum.splits)

end
