(* ===== verification/Minting_Ledger.thy ===== *)
theory Minting_Ledger
  imports Minting_State
begin

text \<open>
  The bookkeeping of \<open>pallets/vtoken-minting/src/impls.rs\<close> and \<open>lib.rs\<close>: the token pool, the issuance, the
  mapping between tokens and vTokens, the exchange of amounts, and the four ledgers of redemptions that are
  unlocking (by token and id, by user, by time unit, and their total).
\<close>

section \<open>The mapping between tokens and vTokens\<close>

definition get_vtoken_for_token :: "'l minting_state \<Rightarrow> currency \<Rightarrow> currency option" where
  "get_vtoken_for_token s token = token_to_vtoken_map s token"

definition find_config :: "currency \<Rightarrow> token_config list \<Rightarrow> token_config option" where
  "find_config token configs = List.find (\<lambda>c. config_token c = token) configs"

definition get_vtoken_config_for_token ::
  "'l minting_state \<Rightarrow> currency \<Rightarrow> (currency \<times> token_config) option" where
  "get_vtoken_config_for_token s token =
     (case token_to_vtoken_map s token of
        None \<Rightarrow> None
      | Some vtoken \<Rightarrow>
          (case vtoken_to_tokens s vtoken of
             None \<Rightarrow> None
           | Some configs \<Rightarrow> map_option (Pair vtoken) (find_config token configs)))"

definition is_redeem_enabled_for_token :: "'l minting_state \<Rightarrow> currency \<Rightarrow> currency \<Rightarrow> bool" where
  "is_redeem_enabled_for_token s vtoken token =
     (case vtoken_to_tokens s vtoken of
        None \<Rightarrow> False
      | Some configs \<Rightarrow>
          (case find_config token configs of None \<Rightarrow> False | Some c \<Rightarrow> redeem_enabled c))"

definition eth_tokens :: "currency list" where
  "eth_tokens = [Token2 15, Token2 16, Token2 17, Token2 18, Token2 19]"

definition v_eth :: currency where
  "v_eth = VToken2 15"

definition fil :: currency where
  "fil = Token2 4"

definition convert_to_vtoken :: "'l minting_state \<Rightarrow> currency \<Rightarrow> currency minting_result" where
  "convert_to_vtoken s c =
     (case get_vtoken_for_token s c of
        Some vtoken \<Rightarrow> Inr vtoken
      | None \<Rightarrow>
          if c \<in> set eth_tokens then Inr v_eth
          else (case to_vtoken c of Inl _ \<Rightarrow> Inl (Module NotSupportTokenType) | Inr v \<Rightarrow> Inr v))"

section \<open>The pool and the issuance\<close>

definition apply_operation :: "operation \<Rightarrow> nat \<Rightarrow> nat \<Rightarrow> nat minting_result" where
  "apply_operation op n old =
     (case op of
        OpSet \<Rightarrow> Inr n
      | OpAdd \<Rightarrow> ok_or (checked_add old n) (Module CalculationOverflow)
      | OpSub \<Rightarrow> ok_or (checked_sub old n) (Module CalculationOverflow))"

definition update_token_pool ::
  "currency \<Rightarrow> nat \<Rightarrow> operation \<Rightarrow> 'l minting_state \<Rightarrow> 'l minting_state minting_result" where
  "update_token_pool c n op s =
     rbind (ok_or (get_vtoken_for_token s c) (Module NotSupportTokenType)) (\<lambda>v.
     rbind (apply_operation op n (token_pool s v)) (\<lambda>p.
     Inr (s\<lparr>token_pool := (token_pool s)(v := p)\<rparr>)))"

definition update_unlocking_total ::
  "currency \<Rightarrow> nat \<Rightarrow> operation \<Rightarrow> 'l minting_state \<Rightarrow> 'l minting_state minting_result" where
  "update_unlocking_total c n op s =
     rbind (apply_operation op n (unlocking_total s c)) (\<lambda>u.
     Inr (s\<lparr>unlocking_total := (unlocking_total s)(c := u)\<rparr>))"

text \<open>The two readings of the pool of a token: zero, or the pool under its own id, where it is unmapped.\<close>

definition operator_token_pool :: "'l minting_state \<Rightarrow> currency \<Rightarrow> nat" where
  "operator_token_pool s c = (case get_vtoken_for_token s c of Some v \<Rightarrow> token_pool s v | None \<Rightarrow> 0)"

definition get_token_pool :: "'l minting_state \<Rightarrow> currency \<Rightarrow> nat" where
  "get_token_pool s c = token_pool s (case get_vtoken_for_token s c of Some v \<Rightarrow> v | None \<Rightarrow> c)"

definition try_get_token_pool :: "'l minting_state \<Rightarrow> currency \<Rightarrow> nat minting_result" where
  "try_get_token_pool s c =
     rbind (ok_or (get_vtoken_for_token s c) (Module NotSupportTokenType)) (\<lambda>v. Inr (token_pool s v))"

definition get_v_currency_issuance_inner :: "'l minting_state \<Rightarrow> currency \<Rightarrow> nat minting_result" where
  "get_v_currency_issuance_inner s v =
     rbind (ensure (is_vtoken v) (Module NotSupportTokenType)) (\<lambda>_. Inr (vtoken_issuance s v))"

text \<open>The adjustment is an \<open>i128\<close>; \<open>-i128::MIN\<close> wraps to itself, whose cast to \<open>u128\<close> is its modulus.\<close>

definition set_v_currency_issuance_inner ::
  "currency \<Rightarrow> int \<Rightarrow> 'l minting_state \<Rightarrow> 'l minting_state minting_result" where
  "set_v_currency_issuance_inner v adjustment s =
     rbind (ensure (is_vtoken v) (Module NotSupportTokenType)) (\<lambda>_.
     rbind (if 0 \<le> adjustment
            then ok_or (checked_add (vtoken_issuance s v) (nat adjustment)) (Module CalculationOverflow)
            else ok_or (checked_sub (vtoken_issuance s v) (nat (- adjustment))) (Module CalculationOverflow)) (\<lambda>i.
     Inr (emit_minting (VtokenIssuanceSet v i) (s\<lparr>vtoken_issuance := (vtoken_issuance s)(v := i)\<rparr>))))"

definition i128_max :: nat where
  "i128_max = 2 ^ 127 - 1"

definition to_i128 :: "nat \<Rightarrow> int minting_result" where
  "to_i128 n = (if n \<le> i128_max then Inr (int n) else Inl (Module CalculationOverflow))"

definition get_vtoken_supply :: "'l minting_state \<Rightarrow> currency \<Rightarrow> nat option" where
  "get_vtoken_supply s v =
     (if is_vtoken v
      then (case get_v_currency_issuance_inner s v of Inl _ \<Rightarrow> None | Inr n \<Rightarrow> Some n)
      else None)"

definition get_token_supply :: "'l minting_state \<Rightarrow> currency \<Rightarrow> nat option" where
  "get_token_supply s c =
     (if is_token c \<or> is_native c then map_option (token_pool s) (get_vtoken_for_token s c) else None)"

section \<open>The exchange of amounts\<close>

definition rational_part ::
  "'l minting_config \<Rightarrow> nat \<Rightarrow> nat \<Rightarrow> nat \<Rightarrow> nat \<Rightarrow> nat minting_result" where
  "rational_part C n num den same =
     (if den = 0 then Inr same else ok_or (mul_rational C n num den) (Module CalculationOverflow))"

definition get_v_currency_amount_by_currency_amount ::
  "'l minting_config \<Rightarrow> 'l minting_state \<Rightarrow> currency \<Rightarrow> currency \<Rightarrow> nat \<Rightarrow> nat minting_result" where
  "get_v_currency_amount_by_currency_amount C s c v n =
     rbind (get_v_currency_issuance_inner s v) (\<lambda>issuance.
     rational_part C n issuance (get_token_pool s c) n)"

definition calculate_v_currency_amount_by_currency_amount ::
  "'l minting_config \<Rightarrow> 'l minting_state \<Rightarrow> currency \<Rightarrow> currency \<Rightarrow> nat \<Rightarrow> nat minting_result" where
  "calculate_v_currency_amount_by_currency_amount C s c v n =
     rbind (get_v_currency_issuance_inner s v) (\<lambda>issuance.
     rational_part C n issuance (operator_token_pool s c) n)"

definition get_currency_amount_by_v_currency_amount ::
  "'l minting_config \<Rightarrow> 'l minting_state \<Rightarrow> currency \<Rightarrow> currency \<Rightarrow> nat \<Rightarrow> nat minting_result" where
  "get_currency_amount_by_v_currency_amount C s c v n =
     rbind (get_v_currency_issuance_inner s v) (\<lambda>issuance.
     rational_part C n (get_token_pool s c) issuance n)"

section \<open>The ledgers of redemptions\<close>

text \<open>Writing an option map of two keys at one place.\<close>

definition put2 :: "'a \<Rightarrow> 'b \<Rightarrow> 'v \<Rightarrow> ('a \<Rightarrow> 'b \<Rightarrow> 'v) \<Rightarrow> 'a \<Rightarrow> 'b \<Rightarrow> 'v" where
  "put2 a b v m = m(a := (m a)(b := v))"

lemma put2_apply: "put2 a b v m x y = (if x = a \<and> y = b then v else m x y)"
  by (simp add: put2_def)

definition update_token_unlock_ledger ::
  "account \<Rightarrow> currency \<Rightarrow> nat \<Rightarrow> nat \<Rightarrow> time_unit \<Rightarrow> redeem_type option \<Rightarrow> operation \<Rightarrow>
     'l minting_state \<Rightarrow> (bool \<times> 'l minting_state) minting_result" where
  "update_token_unlock_ledger who c n i t how op s =
     (case op of
        OpSub \<Rightarrow>
          rbind (ok_or (token_unlock_ledger s c i) (Module TimeUnitUnlockLedgerNotFound)) (\<lambda>r.
          if unlock_amount r \<le> n
          then Inr (True, s\<lparr>token_unlock_ledger := put2 c i None (token_unlock_ledger s)\<rparr>)
          else rbind (ok_or (checked_sub (unlock_amount r) n) (Module CalculationOverflow)) (\<lambda>m.
            Inr (False, s\<lparr>token_unlock_ledger :=
              put2 c i (Some (r\<lparr>unlock_amount := m\<rparr>)) (token_unlock_ledger s)\<rparr>)))
      | _ \<Rightarrow>
          rbind (ok_or how (Module TimeUnitUnlockLedgerNotFound)) (\<lambda>h.
          Inr (False, s\<lparr>token_unlock_ledger :=
            put2 c i (Some \<lparr>redeemer = who, unlock_amount = n, lock_to = t, redeem_how = h\<rparr>)
              (token_unlock_ledger s)\<rparr>)))"

text \<open>
  The common step of the two ledgers that hold a total and a bounded list of ids: \<open>entry_add\<close> pushes an id
  and adds, \<open>entry_sub\<close> drops the entry once the amount reaches its total and otherwise subtracts.
\<close>

definition entry_add :: "nat \<Rightarrow> nat \<Rightarrow> nat \<Rightarrow> (nat \<times> nat list) option \<Rightarrow> (nat \<times> nat list) minting_result" where
  "entry_add bound n i entry =
     (case entry of
        Some (total_locked, ids) \<Rightarrow>
          if bound \<le> length ids then Inl (Module TooManyRedeems)
          else rbind (ok_or (checked_add total_locked n) (Module CalculationOverflow)) (\<lambda>m.
            Inr (m, ids @ [i]))
      | None \<Rightarrow> if bound = 0 then Inl (Module TooManyRedeems) else Inr (n, [i]))"

definition entry_sub ::
  "nat \<Rightarrow> nat \<Rightarrow> bool \<Rightarrow> (nat \<times> nat list) option \<Rightarrow> (nat \<times> nat list) option minting_result" where
  "entry_sub n i removed entry =
     (case entry of
        None \<Rightarrow> Inl (Module TimeUnitUnlockLedgerNotFound)
      | Some (total_locked, ids) \<Rightarrow>
          if total_locked \<le> n then Inr None
          else rbind (ok_or (checked_sub total_locked n) (Module CalculationOverflow)) (\<lambda>m.
            Inr (Some (m, if removed then filter (\<lambda>x. x \<noteq> i) ids else ids))))"

definition entry_update ::
  "nat \<Rightarrow> nat \<Rightarrow> nat \<Rightarrow> operation \<Rightarrow> bool \<Rightarrow> (nat \<times> nat list) option \<Rightarrow>
     (nat \<times> nat list) option minting_result" where
  "entry_update bound n i op removed entry =
     (if op = OpSub then entry_sub n i removed entry
      else rbind (entry_add bound n i entry) (\<lambda>e. Inr (Some e)))"

definition update_user_unlock_ledger ::
  "'l minting_config \<Rightarrow> account \<Rightarrow> currency \<Rightarrow> nat \<Rightarrow> nat \<Rightarrow> operation \<Rightarrow> bool \<Rightarrow>
     'l minting_state \<Rightarrow> 'l minting_state minting_result" where
  "update_user_unlock_ledger C who c n i op removed s =
     rbind (entry_update (max_unlock_id_of_user C) n i op removed (user_unlock_ledger s who c)) (\<lambda>e.
     Inr (s\<lparr>user_unlock_ledger := put2 who c e (user_unlock_ledger s)\<rparr>))"

text \<open>The entry of a time unit also repeats its currency.\<close>

definition drop_currency :: "(nat \<times> nat list \<times> currency) option \<Rightarrow> (nat \<times> nat list) option" where
  "drop_currency = map_option (\<lambda>(n, ids, _). (n, ids))"

definition with_currency ::
  "currency \<Rightarrow> (nat \<times> nat list \<times> currency) option \<Rightarrow> (nat \<times> nat list) option \<Rightarrow>
     (nat \<times> nat list \<times> currency) option" where
  "with_currency c old = map_option (\<lambda>(n, ids). (n, ids, case old of Some (_, _, d) \<Rightarrow> d | None \<Rightarrow> c))"

definition update_time_unit_unlock_ledger ::
  "'l minting_config \<Rightarrow> time_unit \<Rightarrow> currency \<Rightarrow> nat \<Rightarrow> nat \<Rightarrow> operation \<Rightarrow> bool \<Rightarrow>
     'l minting_state \<Rightarrow> 'l minting_state minting_result" where
  "update_time_unit_unlock_ledger C t c n i op removed s =
     (let old = time_unit_unlock_ledger s t c in
      rbind (entry_update (max_unlock_id_of_time_unit C) n i op removed (drop_currency old)) (\<lambda>e.
      Inr (s\<lparr>time_unit_unlock_ledger := put2 t c (with_currency c old e) (time_unit_unlock_ledger s)\<rparr>)))"

definition update_unlock_ledger ::
  "'l minting_config \<Rightarrow> account \<Rightarrow> currency \<Rightarrow> nat \<Rightarrow> nat \<Rightarrow> time_unit \<Rightarrow> redeem_type option \<Rightarrow>
     operation \<Rightarrow> 'l minting_state \<Rightarrow> (bool \<times> 'l minting_state) minting_result" where
  "update_unlock_ledger C who c n i t how op s =
     rbind (update_token_unlock_ledger who c n i t how op s) (\<lambda>(removed, s1).
     rbind (update_user_unlock_ledger C who c n i op removed s1) (\<lambda>s2.
     rbind (update_time_unit_unlock_ledger C t c n i op removed s2) (\<lambda>s3.
     rbind (update_unlocking_total c n op s3) (\<lambda>s4.
     Inr (removed, s4)))))"

section \<open>Reading the ledgers\<close>

definition get_unlock_records ::
  "'l minting_state \<Rightarrow> currency \<Rightarrow> time_unit \<Rightarrow> (nat \<times> nat list) option" where
  "get_unlock_records s c t = drop_currency (time_unit_unlock_ledger s t c)"

definition get_token_unlock_ledger ::
  "'l minting_state \<Rightarrow> currency \<Rightarrow> nat \<Rightarrow> unlock_record option" where
  "get_token_unlock_ledger s c i = token_unlock_ledger s c i"

definition get_minimums_redeem :: "'l minting_state \<Rightarrow> currency \<Rightarrow> nat" where
  "get_minimums_redeem s v = minimum_redeem s v"

definition get_entrance_and_exit_accounts :: "'l minting_config \<Rightarrow> account \<times> account" where
  "get_entrance_and_exit_accounts C = (entrance_account C, exit_account C)"

end
