(* ===== verification/Minting_Actions.thy ===== *)
theory Minting_Actions
  imports Minting_Ledger
begin

text \<open>
  The operations of \<open>pallets/vtoken-minting/src/impls.rs\<close>: minting, redeeming, paying out redemptions that
  are due, and the incentive for locked vTokens. Every \<open>?\<close> of the source is an \<open>rbind\<close>; a failed call
  is rolled back by the caller, so its state is dropped. A loop with \<open>break\<close> is a recursion over the list.
\<close>

section \<open>Minting\<close>

definition mint_without_transfer ::
  "fixed_ops \<Rightarrow> 'l minting_config \<Rightarrow> account \<Rightarrow> currency \<Rightarrow> currency \<Rightarrow> nat \<Rightarrow> 'l minting_state \<Rightarrow>
     ((nat \<times> nat \<times> nat) \<times> 'l minting_state) minting_result" where
  "mint_without_transfer F C minter v c amount s =
     (let fee = perm_mul_floor F (fst (mint_redeem_fees s)) amount in
      rbind (vt_transfer C c minter (mint_fee_account C) fee s) (\<lambda>s1.
      rbind (ok_or (checked_sub amount fee) (Module CalculationOverflow)) (\<lambda>net.
      rbind (get_v_currency_amount_by_currency_amount C s1 c v net) (\<lambda>v_amount.
      rbind (outside_call (mt_deposit C v minter v_amount) s1) (\<lambda>s2.
      rbind (update_token_pool c net OpAdd s2) (\<lambda>s3.
      rbind (to_i128 v_amount) (\<lambda>adjustment.
      rbind (set_v_currency_issuance_inner v adjustment s3) (\<lambda>s4.
      Inr ((net, v_amount, fee), s4)))))))))"

definition do_vmint ::
  "fixed_ops \<Rightarrow> 'l minting_config \<Rightarrow> account \<Rightarrow> currency \<Rightarrow> nat \<Rightarrow> nat list \<Rightarrow> nat option \<Rightarrow>
     'l minting_state \<Rightarrow> ((currency \<times> nat) \<times> 'l minting_state) minting_result" where
  "do_vmint F C minter c amount remark channel s =
     rbind (ensure (case minimum_mint s c of None \<Rightarrow> True | Some m \<Rightarrow> m \<le> amount)
       (Module BelowMinimumMint)) (\<lambda>_.
     rbind (ok_or (get_vtoken_for_token s c) (Module NotSupportTokenType)) (\<lambda>v.
     rbind (mint_without_transfer F C minter v c amount s) (\<lambda>((net, v_amount, fee), s1).
     rbind (vt_transfer C c minter (entrance_account C) net s1) (\<lambda>s2.
     rbind (outside_call (record_mint_amount C channel v v_amount) s2) (\<lambda>s3.
     Inr ((v, v_amount),
       emit_minting (VMinted minter c amount v_amount fee remark channel) s3))))))"

section \<open>Redeeming\<close>

definition default_token :: "currency \<Rightarrow> currency minting_result" where
  "default_token v = (case to_token v of Inl _ \<Rightarrow> Inl (Module NotSupportTokenType) | Inr c \<Rightarrow> Inr c)"

definition redeem_currency ::
  "'l minting_state \<Rightarrow> currency option \<Rightarrow> currency \<Rightarrow> currency minting_result" where
  "redeem_currency s wanted v =
     (case wanted of
        Some c \<Rightarrow>
          (case get_vtoken_for_token s c of
             Some w \<Rightarrow>
               rbind (ensure (w = v) (Module NotSupportTokenType)) (\<lambda>_.
               rbind (ensure (is_redeem_enabled_for_token s v c) (Module RedeemNotEnabled)) (\<lambda>_. Inr c))
           | None \<Rightarrow>
               rbind (convert_to_vtoken s c) (\<lambda>w.
               rbind (ensure (w = v) (Module NotSupportTokenType)) (\<lambda>_. Inr c)))
      | None \<Rightarrow>
          (case vtoken_to_tokens s v of
             Some configs \<Rightarrow>
               (case List.find redeem_enabled configs of
                  Some config \<Rightarrow> Inr (config_token config)
                | None \<Rightarrow> default_token v)
           | None \<Rightarrow> default_token v))"

text \<open>The part of \<open>do_redeem\<close> inside the closure that counts the unlock ids of the vToken.\<close>

definition file_redeem ::
  "'l minting_config \<Rightarrow> account \<Rightarrow> currency \<Rightarrow> currency \<Rightarrow> nat \<Rightarrow> nat \<Rightarrow> nat \<Rightarrow> time_unit \<Rightarrow> redeem_type \<Rightarrow>
     'l minting_state \<Rightarrow> 'l minting_state minting_result" where
  "file_redeem C who c v v_amount amount fee t how s =
     (let i = token_unlock_next_id s v in
      rbind (update_unlock_ledger C who c amount i t (Some how) OpAdd s) (\<lambda>(_, s1).
      let s2 = emit_minting (VRedeemed who c amount v_amount fee i) s1 in
      rbind (ok_or (chk u32_max (i + 1)) (Module CalculationOverflow)) (\<lambda>i'.
      rbind (outside_call (record_redeem_amount C v v_amount) s2) (\<lambda>s3.
      let s4 = s3\<lparr>outside := on_redeemed C who c amount v_amount fee (outside s3)\<rparr> in
      Inr (s4\<lparr>token_unlock_next_id := (token_unlock_next_id s4)(v := i')\<rparr>)))))"

definition do_vredeem ::
  "fixed_ops \<Rightarrow> 'l minting_config \<Rightarrow> account \<Rightarrow> currency option \<Rightarrow> currency \<Rightarrow> nat \<Rightarrow> redeem_type \<Rightarrow>
     'l minting_state \<Rightarrow> 'l minting_state minting_result" where
  "do_vredeem F C who wanted v v_amount how s =
     rbind (redeem_currency s wanted v) (\<lambda>c.
     rbind (ensure (minimum_redeem s v \<le> v_amount) (Module BelowMinimumRedeem)) (\<lambda>_.
     let fee = perm_mul_floor F (snd (mint_redeem_fees s)) v_amount in
     rbind (vt_transfer C v who (redeem_fee_account C) fee s) (\<lambda>s1.
     rbind (ok_or (checked_sub v_amount fee) (Module CalculationOverflow)) (\<lambda>net.
     rbind (get_currency_amount_by_v_currency_amount C s1 c v net) (\<lambda>amount.
     rbind (outside_call (mt_withdraw C v who net) s1) (\<lambda>s2.
     rbind (to_i128 net) (\<lambda>adjustment.
     rbind (set_v_currency_issuance_inner v (- adjustment) s2) (\<lambda>s3.
     rbind (ok_or (ongoing_time_unit s3 c) (Module OngoingTimeUnitNotSet)) (\<lambda>now.
     rbind (ok_or (unlock_duration s3 c) (Module UnlockDurationNotFound)) (\<lambda>duration.
     rbind (ok_or (tu_add now duration) (Module UnlockDurationNotFound)) (\<lambda>t.
     rbind (update_token_pool c amount OpSub s3) (\<lambda>s4.
     file_redeem C who c v net amount fee t how s4))))))))))))"

section \<open>Paying out\<close>

definition astar_chain :: nat where "astar_chain = 2006"
definition hydration_chain :: nat where "hydration_chain = 2034"
definition interlay_chain :: nat where "interlay_chain = 2032"
definition manta_chain :: nat where "manta_chain = 2104"

definition hyperbridge_timeout :: nat where
  "hyperbridge_timeout = 60 * 60 * 3"

definition redeem_destination :: "'l minting_config \<Rightarrow> redeem_type \<Rightarrow> (location \<times> redeem_to) minting_result" where
  "redeem_destination C how =
     (case how of
        RedeemAstar r \<Rightarrow> Inr (Sibling astar_chain (AccountId32 r), ToAstar r)
      | RedeemHydradx r \<Rightarrow> Inr (Sibling hydration_chain (AccountId32 r), ToHydradx r)
      | RedeemInterlay r \<Rightarrow> Inr (Sibling interlay_chain (AccountId32 r), ToInterlay r)
      | RedeemManta r \<Rightarrow> Inr (Sibling manta_chain (AccountId32 r), ToManta r)
      | RedeemMoonbeam r \<Rightarrow> Inr (Sibling (moonbeam_chain_id C) (AccountKey20 r), ToMoonbeam r)
      | RedeemNative \<Rightarrow> Inl Panic
      | RedeemHyperBridge _ _ \<Rightarrow> Inl Panic)"

definition transfer_to_by_redeem_type ::
  "'l minting_config \<Rightarrow> account \<Rightarrow> currency \<Rightarrow> nat \<Rightarrow> nat \<Rightarrow> redeem_type \<Rightarrow> 'l minting_state \<Rightarrow>
     ((nat \<times> redeem_to) \<times> 'l minting_state) minting_result" where
  "transfer_to_by_redeem_type C who c amount balance how s =
     (if amount \<le> balance
      then (case how of
        RedeemNative \<Rightarrow>
          rbind (if mt_minimum_balance C c \<le> amount
                 then vt_transfer C c (entrance_account C) who amount s else Inr s) (\<lambda>s1.
          Inr ((amount, ToNative who), s1))
      | RedeemHyperBridge dest to \<Rightarrow>
          rbind (case hyperbridge_payer_and_fee C (outside s) dest of
                   Inl e \<Rightarrow> Inl (External e) | Inr x \<Rightarrow> Inr x) (\<lambda>(payer, fee).
          rbind (outside_call (hyperbridge_send C c (entrance_account C) to dest amount
                   hyperbridge_timeout payer fee) s) (\<lambda>s1.
          Inr ((amount, ToHyperBridge dest to), s1)))
      | _ \<Rightarrow>
          rbind (redeem_destination C how) (\<lambda>(dest, to).
          rbind (if c = fil
                 then outside_call (xcm_transfer_many C (entrance_account C)
                        [(c, amount), (Native BNC, moonbeam_transfer_to_fee C (outside s))] 1 dest) s
                 else outside_call (xcm_transfer C (entrance_account C) c amount dest) s) (\<lambda>s1.
          Inr ((amount, to), s1))))
      else if how = RedeemNative \<and> mt_minimum_balance C c \<le> balance
      then rbind (vt_transfer C c (entrance_account C) who balance s) (\<lambda>s1.
           Inr ((balance, ToNative who), s1))
      else Inr ((0, ToNative who), s))"

definition process_redeem ::
  "'l minting_config \<Rightarrow> currency \<Rightarrow> account \<Rightarrow> nat \<Rightarrow> nat \<Rightarrow> nat \<Rightarrow> time_unit \<Rightarrow> redeem_type \<Rightarrow>
     'l minting_state \<Rightarrow> 'l minting_state minting_result" where
  "process_redeem C c who i amount balance t how s =
     rbind (transfer_to_by_redeem_type C who c amount balance how s) (\<lambda>((paid_out, to), s1).
     if paid_out = 0 then Inr s1
     else
       rbind (update_unlock_ledger C who c paid_out i t None OpSub s1) (\<lambda>(_, s2).
       Inr (emit_minting (RedeemSuccess who i c to paid_out)
         (s2\<lparr>outside := on_redeem_success C c who paid_out (outside s2)\<rparr>))))"

text \<open>The loop over the ids of a time unit; it stops once the entrance account is empty.\<close>

fun pay_out :: "'l minting_config \<Rightarrow> currency \<Rightarrow> nat list \<Rightarrow> 'l minting_state \<Rightarrow> 'l minting_state minting_result" where
  "pay_out C c [] s = Inr s"
| "pay_out C c (i # ids) s =
     (case token_unlock_ledger s c i of
        None \<Rightarrow> pay_out C c ids s
      | Some r \<Rightarrow>
          (let balance = vt_free C s c (entrance_account C) in
           if balance = 0 then Inr s
           else rbind (process_redeem C c (redeemer r) i (unlock_amount r) balance (lock_to r) (redeem_how r) s)
             (pay_out C c ids)))"

definition advance_min_time_unit :: "currency \<Rightarrow> 'l minting_state \<Rightarrow> 'l minting_state minting_result" where
  "advance_min_time_unit c s =
     rbind (ok_or (unlock_duration s c) (Module UnlockDurationNotFound)) (\<lambda>duration.
     rbind (ok_or (ongoing_time_unit s c) (Module OngoingTimeUnitNotSet)) (\<lambda>now.
     rbind (ok_or (tu_add now duration) (Module CalculationOverflow)) (\<lambda>t.
     if tu_gt t (min_time_unit s c)
     then Inr (s\<lparr>min_time_unit := (min_time_unit s)(c := add_one (min_time_unit s c))\<rparr>)
     else Inr s)))"

definition handle_ledger_by_currency ::
  "'l minting_config \<Rightarrow> currency \<Rightarrow> 'l minting_state \<Rightarrow> 'l minting_state minting_result" where
  "handle_ledger_by_currency C c s =
     (case time_unit_unlock_ledger s (min_time_unit s c) c of
        Some (_, ids, d) \<Rightarrow> pay_out C d (take (hook_iteration_limit s) ids) s
      | None \<Rightarrow> advance_min_time_unit c s)"

text \<open>The idle hook: a currency that fails leaves only an event.\<close>

definition idle_currency :: "'l minting_config \<Rightarrow> currency \<Rightarrow> 'l minting_state \<Rightarrow> 'l minting_state" where
  "idle_currency C c s =
     (case handle_ledger_by_currency C c s of
        Inr s' \<Rightarrow> s'
      | Inl e \<Rightarrow> emit_minting (FastRedeemFailed e) s)"

definition on_idle :: "'l minting_config \<Rightarrow> bool \<Rightarrow> 'l minting_state \<Rightarrow> 'l minting_state" where
  "on_idle C enough_weight s =
     (if enough_weight then fold (idle_currency C) (map fst (ongoing_time_units s)) s else s)"

section \<open>Incentives for locked vTokens\<close>

definition lock_vtoken_for_incentive_minting ::
  "'l minting_config \<Rightarrow> nat \<Rightarrow> account \<Rightarrow> currency \<Rightarrow> nat \<Rightarrow> 'l minting_state \<Rightarrow>
     'l minting_state minting_result" where
  "lock_vtoken_for_incentive_minting C now minter v v_amount s =
     rbind (ensure (mt_can_withdraw C (outside s) v minter v_amount) (Module NotEnoughBalance)) (\<lambda>_.
     rbind (ok_or (mint_with_lock_blocks s v) (Module IncentiveLockBlocksNotSet)) (\<lambda>duration.
     rbind (ok_or (chk u32_max (now + duration)) (Module CalculationOverflow)) (\<lambda>due.
     rbind (case vtoken_lock_ledger s minter v of
              Some (total_locked, records) \<Rightarrow>
                rbind (ok_or (checked_add total_locked v_amount) (Module CalculationOverflow)) (\<lambda>m.
                if max_lock_records C \<le> length records then Inl (Module TooManyLocks)
                else Inr (m, records @ [(v_amount, due)]))
            | None \<Rightarrow>
                if max_lock_records C = 0 then Inl (Module TooManyLocks)
                else Inr (v_amount, [(v_amount, due)])) (\<lambda>entry.
     outside_try NotEnoughBalance (mt_set_lock C v minter (fst entry))
       (s\<lparr>vtoken_lock_ledger := put2 minter v (Some entry) (vtoken_lock_ledger s)\<rparr>)))))"

definition u256_max :: nat where
  "u256_max = 2 ^ 256 - 1"

definition incentive_amount :: "nat \<Rightarrow> nat \<Rightarrow> nat \<Rightarrow> nat \<Rightarrow> nat option" where
  "incentive_amount share coef v_amount issuance =
     (case chk u256_max (share * coef) of
        None \<Rightarrow> None
      | Some x \<Rightarrow>
          (case chk u256_max (x * v_amount) of
             None \<Rightarrow> None
           | Some y \<Rightarrow> if issuance = 0 then None else Some (min u128_max (y div issuance))))"

definition calculate_incentive_vtoken_amount ::
  "fixed_ops \<Rightarrow> 'l minting_config \<Rightarrow> nat \<Rightarrow> account \<Rightarrow> currency \<Rightarrow> nat \<Rightarrow> 'l minting_state \<Rightarrow>
     nat minting_result" where
  "calculate_incentive_vtoken_amount F C now minter v v_amount s =
     (let pool_balance = vt_free C s v (incentive_pool_account C) in
      rbind (ensure (0 < pool_balance) (Module NotEnoughBalance)) (\<lambda>_.
      rbind (outside_get BbBNCCheckingError (bb_bnc_total_supply C (outside s) now)) (\<lambda>bb_total.
      rbind (ensure (0 < bb_total) (Module BalanceZero)) (\<lambda>_.
      rbind (outside_get BbBNCCheckingError (bb_bnc_balance_of C (outside s) minter)) (\<lambda>bb_balance.
      rbind (ensure (0 < bb_balance) (Module NotEnoughBalance)) (\<lambda>_.
      let percentage = perm_from_rational F bb_balance bb_total;
          sqrt_percentage = fx_sqrt C (perm_times C percentage fx_one);
          percentage = perm_from_rational F sqrt_percentage fx_one
      in
      rbind (get_v_currency_issuance_inner s v) (\<lambda>issuance.
      rbind (ok_or (vtoken_incentive_coef s v) (Module IncentiveCoefNotFound)) (\<lambda>coef.
      ok_or (incentive_amount (perm_mul_ceil F percentage pool_balance) coef v_amount issuance)
        (Module CalculationOverflow)))))))))"

end
