(* ===== verification/Minting_Calls.thy ===== *)
theory Minting_Calls
  imports Minting_Actions
begin

text \<open>
  The twenty calls of \<open>pallets/vtoken-minting/src/lib.rs\<close>, the functions other pallets reach through the
  traits, and the steps of the pallet: a call that succeeds, the idle hook, one of the trait's functions that
  the staking pallets call, or anything that happens outside and leaves this pallet's storage alone.
\<close>

section \<open>Calls of users\<close>

definition vmint_call ::
  "fixed_ops \<Rightarrow> 'l minting_config \<Rightarrow> origin \<Rightarrow> currency \<Rightarrow> nat \<Rightarrow> nat list \<Rightarrow> nat option \<Rightarrow>
     'l minting_state \<Rightarrow> 'l minting_state minting_result" where
  "vmint_call F C o1 c amount remark channel s =
     rbind (ensure_signed o1) (\<lambda>minter.
     rbind (do_vmint F C minter c amount remark channel s) (\<lambda>(_, s1). Inr s1))"

definition vredeem_call ::
  "fixed_ops \<Rightarrow> 'l minting_config \<Rightarrow> origin \<Rightarrow> currency option \<Rightarrow> currency \<Rightarrow> nat \<Rightarrow>
     'l minting_state \<Rightarrow> 'l minting_state minting_result" where
  "vredeem_call F C o1 wanted v v_amount s =
     rbind (ensure_signed o1) (\<lambda>who. do_vredeem F C who wanted v v_amount RedeemNative s)"

text \<open>
  The loop of \<open>rebond\<close> over the user's ids, latest first. The amount still to rebond shrinks only in the
  branch in which it exceeds the record.
\<close>

fun rebond_loop ::
  "'l minting_config \<Rightarrow> account \<Rightarrow> currency \<Rightarrow> nat list \<Rightarrow> nat \<Rightarrow> 'l minting_state \<Rightarrow>
     'l minting_state minting_result" where
  "rebond_loop C who c [] rest s = Inr s"
| "rebond_loop C who c (i # ids) rest s =
     rbind (ok_or (token_unlock_ledger s c i) (Module TokenUnlockLedgerNotFound)) (\<lambda>r.
     let (part, rest') =
       (if rest \<le> unlock_amount r then (rest, rest)
        else (unlock_amount r, saturating_sub rest (unlock_amount r))) in
     rbind (update_unlock_ledger C who c part i (lock_to r) None OpSub s) (\<lambda>(removed, s1).
     if removed then rebond_loop C who c ids rest' s1 else Inr s1))"

definition add_to_rebond :: "currency \<Rightarrow> nat \<Rightarrow> 'l minting_state \<Rightarrow> 'l minting_state minting_result" where
  "add_to_rebond c n s =
     rbind (ok_or (token_to_rebond s c) (Module InvalidRebondToken)) (\<lambda>old.
     rbind (ok_or (checked_add old n) (Module CalculationOverflow)) (\<lambda>m.
     Inr (s\<lparr>token_to_rebond := (token_to_rebond s)(c := Some m)\<rparr>)))"

definition rebond ::
  "fixed_ops \<Rightarrow> 'l minting_config \<Rightarrow> origin \<Rightarrow> currency \<Rightarrow> nat \<Rightarrow> 'l minting_state \<Rightarrow>
     'l minting_state minting_result" where
  "rebond F C o1 c amount s =
     rbind (ensure_signed o1) (\<lambda>who.
     rbind (convert_to_vtoken s c) (\<lambda>v.
     rbind (ok_or (user_unlock_ledger s who c) (Module UserUnlockLedgerNotFound)) (\<lambda>(unlocking, ids).
     rbind (ensure (amount \<le> unlocking) (Module NotEnoughBalanceToUnlock)) (\<lambda>_.
     rbind (rebond_loop C who c (rev ids) amount s) (\<lambda>s1.
     rbind (mint_without_transfer F C who v c amount s1) (\<lambda>((_, v_amount, fee), s2).
     rbind (add_to_rebond c amount s2) (\<lambda>s3.
     Inr (emit_minting (Rebonded who c amount v_amount fee) s3))))))))"

definition rebond_by_unlock_id ::
  "fixed_ops \<Rightarrow> 'l minting_config \<Rightarrow> origin \<Rightarrow> currency \<Rightarrow> nat \<Rightarrow> 'l minting_state \<Rightarrow>
     'l minting_state minting_result" where
  "rebond_by_unlock_id F C o1 c i s =
     rbind (ensure_signed o1) (\<lambda>who.
     rbind (convert_to_vtoken s c) (\<lambda>v.
     rbind (ok_or (token_unlock_ledger s c i) (Module TokenUnlockLedgerNotFound)) (\<lambda>r.
     rbind (ensure (redeemer r = who) (Module CanNotRebond)) (\<lambda>_.
     rbind (update_unlock_ledger C who c (unlock_amount r) i (lock_to r) None OpSub s) (\<lambda>(_, s1).
     rbind (mint_without_transfer F C who v c (unlock_amount r) s1) (\<lambda>((net, v_amount, fee), s2).
     rbind (add_to_rebond c net s2) (\<lambda>s3.
     Inr (emit_minting (RebondedByUnlockId who c (unlock_amount r) v_amount fee i) s3))))))))"

definition mint_with_lock ::
  "fixed_ops \<Rightarrow> 'l minting_config \<Rightarrow> nat \<Rightarrow> origin \<Rightarrow> currency \<Rightarrow> nat \<Rightarrow> nat list \<Rightarrow> nat option \<Rightarrow>
     'l minting_state \<Rightarrow> 'l minting_state minting_result" where
  "mint_with_lock F C now o1 c amount remark channel s =
     rbind (ensure_signed o1) (\<lambda>minter.
     rbind (ensure (mt_can_withdraw C (outside s) c minter amount) (Module NotEnoughBalance)) (\<lambda>_.
     rbind (ensure (minimum_mint s c \<noteq> None) (Module NotSupportTokenType)) (\<lambda>_.
     rbind (outside_get BbBNCCheckingError (bb_bnc_balance_of C (outside s) minter)) (\<lambda>bb_balance.
     rbind (ensure (0 < bb_balance) (Module NotEnoughBalance)) (\<lambda>_.
     rbind (convert_to_vtoken s c) (\<lambda>v.
     rbind (ensure (vtoken_incentive_coef s v \<noteq> None) (Module IncentiveCoefNotFound)) (\<lambda>_.
     rbind (ensure (0 < vt_free C s v (incentive_pool_account C)) (Module NotEnoughBalance)) (\<lambda>_.
     rbind (do_vmint F C minter c amount remark channel s) (\<lambda>((_, minted), s1).
     rbind (lock_vtoken_for_incentive_minting C now minter v minted s1) (\<lambda>s2.
     rbind (calculate_incentive_vtoken_amount F C now minter v minted s2) (\<lambda>reward.
     rbind (outside_try NotEnoughBalance
       (mc_transfer (mt_currencies C) v (incentive_pool_account C) minter reward) s2) (\<lambda>s3.
     Inr (emit_minting (IncentivizedMinting minter c amount minted reward) s3)))))))))))))"

text \<open>
  The loop over the lock records takes the records up to the first that is not due; the released amount is a
  plain \<open>+=\<close>.
\<close>

definition due_records :: "nat \<Rightarrow> (nat \<times> nat) list \<Rightarrow> (nat \<times> nat) list" where
  "due_records now = takeWhile (\<lambda>(_, due). due \<le> now)"

definition unlock_incentive_minted_vtoken ::
  "'l minting_config \<Rightarrow> nat \<Rightarrow> origin \<Rightarrow> currency \<Rightarrow> 'l minting_state \<Rightarrow> 'l minting_state minting_result" where
  "unlock_incentive_minted_vtoken C now o1 v s =
     rbind (ensure_signed o1) (\<lambda>who.
     rbind (ok_or (vtoken_lock_ledger s who v) (Module UserUnlockLedgerNotFound)) (\<lambda>(total_locked, records).
     let due = due_records now records;
         released = wrapping_sum (map fst due)
     in
     rbind (ensure (0 < released) (Module NoUnlockRecord)) (\<lambda>_.
     rbind (ok_or (checked_sub total_locked released) (Module CalculationOverflow)) (\<lambda>remaining.
     if remaining = 0
     then outside_try FailToRemoveLock (mt_remove_lock C v who)
       (s\<lparr>vtoken_lock_ledger := put2 who v None (vtoken_lock_ledger s)\<rparr>)
     else outside_try Unexpected (mt_set_lock C v who remaining)
       (s\<lparr>vtoken_lock_ledger :=
         put2 who v (Some (remaining, drop (length due) records)) (vtoken_lock_ledger s)\<rparr>)))))"

section \<open>Calls of the governance\<close>

definition controlled ::
  "'l minting_config \<Rightarrow> origin \<Rightarrow> 'l minting_state minting_result \<Rightarrow> 'l minting_state minting_result" where
  "controlled C o1 r = rbind (ensure (control_origin C o1) BadOrigin) (\<lambda>_. r)"

definition rooted :: "origin \<Rightarrow> 'l minting_state minting_result \<Rightarrow> 'l minting_state minting_result" where
  "rooted o1 r = rbind (ensure (o1 = Root) BadOrigin) (\<lambda>_. r)"

definition set_unlock_duration ::
  "'l minting_config \<Rightarrow> origin \<Rightarrow> currency \<Rightarrow> time_unit \<Rightarrow> 'l minting_state \<Rightarrow> 'l minting_state minting_result" where
  "set_unlock_duration C o1 c t s = controlled C o1
     (Inr (emit_minting (UnlockDurationSet c t) (s\<lparr>unlock_duration := (unlock_duration s)(c := Some t)\<rparr>)))"

definition set_minimum_mint ::
  "'l minting_config \<Rightarrow> origin \<Rightarrow> currency \<Rightarrow> nat \<Rightarrow> 'l minting_state \<Rightarrow> 'l minting_state minting_result" where
  "set_minimum_mint C o1 c n s = controlled C o1
     (Inr (emit_minting (MinimumMintSet c n) (s\<lparr>minimum_mint := (minimum_mint s)(c := Some n)\<rparr>)))"

definition set_minimum_redeem ::
  "'l minting_config \<Rightarrow> origin \<Rightarrow> currency \<Rightarrow> nat \<Rightarrow> 'l minting_state \<Rightarrow> 'l minting_state minting_result" where
  "set_minimum_redeem C o1 c n s = controlled C o1
     (Inr (emit_minting (MinimumRedeemSet c n) (s\<lparr>minimum_redeem := (minimum_redeem s)(c := n)\<rparr>)))"

definition add_support_rebond_token ::
  "'l minting_config \<Rightarrow> origin \<Rightarrow> currency \<Rightarrow> 'l minting_state \<Rightarrow> 'l minting_state minting_result" where
  "add_support_rebond_token C o1 c s = controlled C o1
     (case token_to_rebond s c of
        Some _ \<Rightarrow> Inl (Module InvalidRebondToken)
      | None \<Rightarrow> Inr (emit_minting (SupportRebondTokenAdded c)
          (s\<lparr>token_to_rebond := (token_to_rebond s)(c := Some 0)\<rparr>)))"

definition remove_support_rebond_token ::
  "'l minting_config \<Rightarrow> origin \<Rightarrow> currency \<Rightarrow> 'l minting_state \<Rightarrow> 'l minting_state minting_result" where
  "remove_support_rebond_token C o1 c s = controlled C o1
     (case token_to_rebond s c of
        Some _ \<Rightarrow> Inr (emit_minting (SupportRebondTokenRemoved c)
          (s\<lparr>token_to_rebond := (token_to_rebond s)(c := None)\<rparr>))
      | None \<Rightarrow> Inl (Module InvalidRebondToken))"

definition set_fees :: "origin \<Rightarrow> nat \<Rightarrow> nat \<Rightarrow> 'l minting_state \<Rightarrow> 'l minting_state minting_result" where
  "set_fees o1 mint_fee redeem_fee s = rooted o1
     (Inr (emit_minting (FeeSet mint_fee redeem_fee) (s\<lparr>mint_redeem_fees := (mint_fee, redeem_fee)\<rparr>)))"

definition set_hook_iteration_limit ::
  "'l minting_config \<Rightarrow> origin \<Rightarrow> nat \<Rightarrow> 'l minting_state \<Rightarrow> 'l minting_state minting_result" where
  "set_hook_iteration_limit C o1 n s = controlled C o1
     (Inr (emit_minting (HookIterationLimitSet n) (s\<lparr>hook_iteration_limit := n\<rparr>)))"

definition set_unlocking_total ::
  "'l minting_config \<Rightarrow> origin \<Rightarrow> currency \<Rightarrow> nat \<Rightarrow> 'l minting_state \<Rightarrow> 'l minting_state minting_result" where
  "set_unlocking_total C o1 c n s = controlled C o1
     (rbind (update_unlocking_total c n OpSet s) (\<lambda>s1. Inr (emit_minting (UnlockingTotalSet c n) s1)))"

definition set_min_time_unit ::
  "'l minting_config \<Rightarrow> origin \<Rightarrow> currency \<Rightarrow> time_unit \<Rightarrow> 'l minting_state \<Rightarrow> 'l minting_state minting_result" where
  "set_min_time_unit C o1 c t s = controlled C o1
     (Inr (emit_minting (MinTimeUnitSet c t) (s\<lparr>min_time_unit := (min_time_unit s)(c := t)\<rparr>)))"

definition update_ongoing_time_unit ::
  "'l minting_config \<Rightarrow> currency \<Rightarrow> time_unit \<Rightarrow> 'l minting_state \<Rightarrow> 'l minting_state" where
  "update_ongoing_time_unit C c t s =
     s\<lparr>ongoing_time_units := sm_put (currency_hash C) c t (ongoing_time_units s)\<rparr>"

definition set_ongoing_time_unit ::
  "'l minting_config \<Rightarrow> origin \<Rightarrow> currency \<Rightarrow> time_unit \<Rightarrow> 'l minting_state \<Rightarrow> 'l minting_state minting_result" where
  "set_ongoing_time_unit C o1 c t s = controlled C o1
     (Inr (emit_minting (SetOngoingTimeUnit c t) (update_ongoing_time_unit C c t s)))"

definition set_incentive_coef ::
  "'l minting_config \<Rightarrow> origin \<Rightarrow> currency \<Rightarrow> nat option \<Rightarrow> 'l minting_state \<Rightarrow> 'l minting_state minting_result" where
  "set_incentive_coef C o1 v coef s = controlled C o1
     (Inr (emit_minting (VtokenIncentiveCoefSet v coef)
       (s\<lparr>vtoken_incentive_coef := (vtoken_incentive_coef s)(v := coef)\<rparr>)))"

definition set_vtoken_incentive_lock_blocks ::
  "'l minting_config \<Rightarrow> origin \<Rightarrow> currency \<Rightarrow> nat option \<Rightarrow> 'l minting_state \<Rightarrow> 'l minting_state minting_result" where
  "set_vtoken_incentive_lock_blocks C o1 v blocks s = controlled C o1
     (Inr (emit_minting (VtokenIncentiveLockBlocksSet v blocks)
       (s\<lparr>mint_with_lock_blocks := (mint_with_lock_blocks s)(v := blocks)\<rparr>)))"

definition tokens_of :: "token_config list \<Rightarrow> currency list" where
  "tokens_of configs = map config_token configs"

definition forget_tokens :: "currency list \<Rightarrow> (currency \<Rightarrow> currency option) \<Rightarrow> currency \<Rightarrow> currency option" where
  "forget_tokens ts m = fold (\<lambda>t m. m(t := None)) ts m"

definition point_tokens ::
  "currency \<Rightarrow> currency list \<Rightarrow> (currency \<Rightarrow> currency option) \<Rightarrow> currency \<Rightarrow> currency option" where
  "point_tokens v ts m = fold (\<lambda>t m. m(t := Some v)) ts m"

definition set_vtoken_multimap ::
  "origin \<Rightarrow> currency \<Rightarrow> token_config list \<Rightarrow> 'l minting_state \<Rightarrow> 'l minting_state minting_result" where
  "set_vtoken_multimap o1 v configs s = rooted o1
     (rbind (ensure (is_vtoken v) (Module NotSupportTokenType)) (\<lambda>_.
      rbind (ensure (\<forall>c \<in> set configs.
          token_to_vtoken_map s (config_token c) = None \<or> token_to_vtoken_map s (config_token c) = Some v)
        (Module TokenAlreadyMapped)) (\<lambda>_.
      let old = (case vtoken_to_tokens s v of None \<Rightarrow> [] | Some cs \<Rightarrow> tokens_of cs);
          new = tokens_of configs;
          s1 =
            (if configs = []
             then s\<lparr>vtoken_to_tokens := (vtoken_to_tokens s)(v := None),
                    token_to_vtoken_map := forget_tokens old (token_to_vtoken_map s)\<rparr>
             else s\<lparr>vtoken_to_tokens := (vtoken_to_tokens s)(v := Some configs),
                    token_to_vtoken_map := point_tokens v new
                      (forget_tokens (filter (\<lambda>t. t \<notin> set new) old) (token_to_vtoken_map s))\<rparr>)
      in Inr (emit_minting (VTokenMultiMapSet v configs) s1))))"

definition set_v_currency_issuance ::
  "origin \<Rightarrow> currency \<Rightarrow> int \<Rightarrow> 'l minting_state \<Rightarrow> 'l minting_state minting_result" where
  "set_v_currency_issuance o1 v adjustment s = rooted o1 (set_v_currency_issuance_inner v adjustment s)"

section \<open>Steps\<close>

datatype minting_call =
    Call_mint currency nat "nat list" "nat option"
  | Call_redeem "currency option" currency nat
  | Call_rebond currency nat
  | Call_rebond_by_unlock_id currency nat
  | Call_set_unlock_duration currency time_unit
  | Call_set_minimum_mint currency nat
  | Call_set_minimum_redeem currency nat
  | Call_add_support_rebond_token currency
  | Call_remove_support_rebond_token currency
  | Call_set_fees nat nat
  | Call_set_hook_iteration_limit nat
  | Call_set_unlocking_total currency nat
  | Call_set_min_time_unit currency time_unit
  | Call_set_ongoing_time_unit currency time_unit
  | Call_mint_with_lock currency nat "nat list" "nat option"
  | Call_unlock_incentive currency
  | Call_set_incentive_coef currency "nat option"
  | Call_set_incentive_lock_blocks currency "nat option"
  | Call_set_vtoken_multimap currency "token_config list"
  | Call_set_v_currency_issuance currency int

fun minting_dispatch ::
  "fixed_ops \<Rightarrow> 'l minting_config \<Rightarrow> nat \<Rightarrow> origin \<Rightarrow> minting_call \<Rightarrow> 'l minting_state \<Rightarrow>
     'l minting_state minting_result" where
  "minting_dispatch F C now o1 (Call_mint c n r ch) s = vmint_call F C o1 c n r ch s"
| "minting_dispatch F C now o1 (Call_redeem w v n) s = vredeem_call F C o1 w v n s"
| "minting_dispatch F C now o1 (Call_rebond c n) s = rebond F C o1 c n s"
| "minting_dispatch F C now o1 (Call_rebond_by_unlock_id c i) s = rebond_by_unlock_id F C o1 c i s"
| "minting_dispatch F C now o1 (Call_set_unlock_duration c t) s = set_unlock_duration C o1 c t s"
| "minting_dispatch F C now o1 (Call_set_minimum_mint c n) s = set_minimum_mint C o1 c n s"
| "minting_dispatch F C now o1 (Call_set_minimum_redeem c n) s = set_minimum_redeem C o1 c n s"
| "minting_dispatch F C now o1 (Call_add_support_rebond_token c) s = add_support_rebond_token C o1 c s"
| "minting_dispatch F C now o1 (Call_remove_support_rebond_token c) s = remove_support_rebond_token C o1 c s"
| "minting_dispatch F C now o1 (Call_set_fees a b) s = set_fees o1 a b s"
| "minting_dispatch F C now o1 (Call_set_hook_iteration_limit n) s = set_hook_iteration_limit C o1 n s"
| "minting_dispatch F C now o1 (Call_set_unlocking_total c n) s = set_unlocking_total C o1 c n s"
| "minting_dispatch F C now o1 (Call_set_min_time_unit c t) s = set_min_time_unit C o1 c t s"
| "minting_dispatch F C now o1 (Call_set_ongoing_time_unit c t) s = set_ongoing_time_unit C o1 c t s"
| "minting_dispatch F C now o1 (Call_mint_with_lock c n r ch) s = mint_with_lock F C now o1 c n r ch s"
| "minting_dispatch F C now o1 (Call_unlock_incentive v) s = unlock_incentive_minted_vtoken C now o1 v s"
| "minting_dispatch F C now o1 (Call_set_incentive_coef v k) s = set_incentive_coef C o1 v k s"
| "minting_dispatch F C now o1 (Call_set_incentive_lock_blocks v b) s = set_vtoken_incentive_lock_blocks C o1 v b s"
| "minting_dispatch F C now o1 (Call_set_vtoken_multimap v cs) s = set_vtoken_multimap o1 v cs s"
| "minting_dispatch F C now o1 (Call_set_v_currency_issuance v a) s = set_v_currency_issuance o1 v a s"

text \<open>The arguments a call can carry, by the types of the source.\<close>

fun minting_call_ok :: "minting_call \<Rightarrow> bool" where
  "minting_call_ok (Call_mint c n r ch) \<longleftrightarrow> n \<le> u128_max"
| "minting_call_ok (Call_redeem w v n) \<longleftrightarrow> n \<le> u128_max"
| "minting_call_ok (Call_rebond c n) \<longleftrightarrow> n \<le> u128_max"
| "minting_call_ok (Call_mint_with_lock c n r ch) \<longleftrightarrow> n \<le> u128_max"
| "minting_call_ok (Call_set_fees a b) \<longleftrightarrow> a \<le> perm_one \<and> b \<le> perm_one"
| "minting_call_ok (Call_set_vtoken_multimap v cs) \<longleftrightarrow> length cs \<le> max_multimap"
| "minting_call_ok _ \<longleftrightarrow> True"

text \<open>The functions of the trait through which the staking pallets and the order pallet change the state.\<close>

datatype minting_hook =
    Hook_increase_token_pool currency nat
  | Hook_decrease_token_pool currency nat
  | Hook_update_ongoing_time_unit currency time_unit
  | Hook_slpx_redeem account "currency option" currency nat redeem_type
  | Hook_mint account currency nat "nat list" "nat option"
  | Hook_set_issuance currency int

fun minting_hook_run ::
  "fixed_ops \<Rightarrow> 'l minting_config \<Rightarrow> minting_hook \<Rightarrow> 'l minting_state \<Rightarrow> 'l minting_state minting_result" where
  "minting_hook_run F C (Hook_increase_token_pool c n) s = update_token_pool c n OpAdd s"
| "minting_hook_run F C (Hook_decrease_token_pool c n) s = update_token_pool c n OpSub s"
| "minting_hook_run F C (Hook_update_ongoing_time_unit c t) s = Inr (update_ongoing_time_unit C c t s)"
| "minting_hook_run F C (Hook_slpx_redeem who w v n how) s = do_vredeem F C who w v n how s"
| "minting_hook_run F C (Hook_mint who c n r ch) s =
     rbind (do_vmint F C who c n r ch s) (\<lambda>(_, s1). Inr s1)"
| "minting_hook_run F C (Hook_set_issuance v a) s = set_v_currency_issuance_inner v a s"

text \<open>What can happen to the pallet: a call, a hook, the idle hook with or without weight, anything outside.\<close>

datatype 'l minting_action =
    Act_call nat origin minting_call
  | Act_hook minting_hook
  | Act_idle bool
  | Act_outside 'l

fun action_ok :: "'l minting_action \<Rightarrow> bool" where
  "action_ok (Act_call now o1 k) \<longleftrightarrow> minting_call_ok k"
| "action_ok _ \<longleftrightarrow> True"

fun minting_act ::
  "fixed_ops \<Rightarrow> 'l minting_config \<Rightarrow> 'l minting_action \<Rightarrow> 'l minting_state \<Rightarrow> 'l minting_state minting_result" where
  "minting_act F C (Act_call now o1 k) s = minting_dispatch F C now o1 k s"
| "minting_act F C (Act_hook h) s = minting_hook_run F C h s"
| "minting_act F C (Act_idle w) s = Inr (on_idle C w s)"
| "minting_act F C (Act_outside l) s = Inr (s\<lparr>outside := l\<rparr>)"

text \<open>The states of the runs all of whose actions satisfy a condition; the reachable states have none.\<close>

inductive minting_runs ::
  "('l minting_state \<Rightarrow> 'l minting_action \<Rightarrow> bool) \<Rightarrow> fixed_ops \<Rightarrow> 'l minting_config \<Rightarrow>
     'l minting_state \<Rightarrow> bool" for P F C where
  start: "minting_runs P F C (initial_minting l)"
| step: "minting_runs P F C s \<Longrightarrow> P s a \<Longrightarrow> action_ok a \<Longrightarrow> minting_act F C a s = Inr t \<Longrightarrow>
    minting_runs P F C t"

abbreviation minting_reachable :: "fixed_ops \<Rightarrow> 'l minting_config \<Rightarrow> 'l minting_state \<Rightarrow> bool" where
  "minting_reachable \<equiv> minting_runs (\<lambda>_ _. True)"

lemma minting_runs_mono:
  assumes "minting_runs P F C s" and "\<And>s a. P s a \<Longrightarrow> Q s a"
  shows "minting_runs Q F C s"
  using assms(1) by induction (auto intro: minting_runs.intros assms(2))

end
