(* ===== verification/Minting_Lemmas.thy ===== *)
theory Minting_Lemmas
  imports Minting_Calls
begin

text \<open>
  A case rule per operation of the liquid staking pallet: what must have held for it to succeed, and the next
  state as one update of the old. Below them, the laws of the ledger it issues vTokens on, and the frames.
\<close>

section \<open>The ledger on which vTokens are issued\<close>

text \<open>
  \<open>MultiCurrency::deposit\<close> and \<open>withdraw\<close> are documented to change the balance by exactly the amount;
  \<open>multiply_by_rational_with_rounding(a, b, c, Down)\<close> is the floor of \<open>a * b / c\<close> where it fits.
  The recorders of channels and the hook of a filed redemption only count.
\<close>

locale staking_ledger =
  fixes C :: "'l minting_config"
  assumes currency: "multi_currency (mt_currencies C)"
    and deposit_adds: "mt_deposit C c a n l = Inr l' \<Longrightarrow>
          mc_free (mt_currencies C) l' =
            (mc_free (mt_currencies C) l)(c := (mc_free (mt_currencies C) l c)(a := mc_free (mt_currencies C) l c a + n))"
    and withdraw_enough: "mt_withdraw C c a n l = Inr l' \<Longrightarrow> n \<le> mc_free (mt_currencies C) l c a"
    and withdraw_takes: "mt_withdraw C c a n l = Inr l' \<Longrightarrow>
          mc_free (mt_currencies C) l' =
            (mc_free (mt_currencies C) l)(c := (mc_free (mt_currencies C) l c)(a := mc_free (mt_currencies C) l c a - n))"
    and record_mint_keeps: "record_mint_amount C ch c n l = Inr l' \<Longrightarrow>
          mc_free (mt_currencies C) l' = mc_free (mt_currencies C) l"
    and record_redeem_keeps: "record_redeem_amount C c n l = Inr l' \<Longrightarrow>
          mc_free (mt_currencies C) l' = mc_free (mt_currencies C) l"
    and on_redeemed_keeps: "mc_free (mt_currencies C) (on_redeemed C a c n m k l) = mc_free (mt_currencies C) l"
    and rational: "mul_rational C a b d = (if d = 0 then None else chk u128_max (a * b div d))"
begin

lemma rational_part_Inr:
  "rational_part C n num den same = Inr r \<longleftrightarrow>
     (if den = 0 then r = same else n * num div den \<le> u128_max \<and> r = n * num div den)"
  by (auto simp: rational_part_def rational result_simps)

lemma v_amount_Inr:
  "get_v_currency_amount_by_currency_amount C s c v n = Inr r \<longleftrightarrow> is_vtoken v \<and>
     (if get_token_pool s c = 0 then r = n
      else n * vtoken_issuance s v div get_token_pool s c \<le> u128_max \<and>
           r = n * vtoken_issuance s v div get_token_pool s c)"
  by (auto simp: get_v_currency_amount_by_currency_amount_def get_v_currency_issuance_inner_def
      rational_part_Inr result_simps)

lemma c_amount_Inr:
  "get_currency_amount_by_v_currency_amount C s c v n = Inr r \<longleftrightarrow> is_vtoken v \<and>
     (if vtoken_issuance s v = 0 then r = n
      else n * get_token_pool s c div vtoken_issuance s v \<le> u128_max \<and>
           r = n * get_token_pool s c div vtoken_issuance s v)"
  by (auto simp: get_currency_amount_by_v_currency_amount_def get_v_currency_issuance_inner_def
      rational_part_Inr result_simps)

lemma flow:
  "mc_transfer (mt_currencies C) c a b n l = Inr l' \<Longrightarrow>
     mc_free (mt_currencies C) l' d x + paid c a n d x = mc_free (mt_currencies C) l d x + paid c b n d x"
  by (rule multi_currency.flow [OF currency])

lemma deposit_flow:
  "mt_deposit C c a n l = Inr l' \<Longrightarrow>
     mc_free (mt_currencies C) l' d x = mc_free (mt_currencies C) l d x + paid c a n d x"
  by (auto dest: deposit_adds simp: paid_def)

lemma withdraw_flow:
  "mt_withdraw C c a n l = Inr l' \<Longrightarrow>
     mc_free (mt_currencies C) l' d x + paid c a n d x = mc_free (mt_currencies C) l d x"
  using withdraw_enough [of c a n l l'] withdraw_takes [of c a n l l'] by (auto simp: paid_def)

end

lemma outside_same [simp]: "s\<lparr>outside := outside s\<rparr> = s"
  by (cases s) simp

lemma rbind_pairE:
  assumes "rbind m (\<lambda>(a, b). f a b) = Inr y"
  obtains a b where "m = Inr (a, b)" and "f a b = Inr y"
  using assms by (auto simp: rbind_eq_Inr)

lemma rbind_tripleE:
  assumes "rbind m (\<lambda>((a, b), c). f a b c) = Inr y"
  obtains a b c where "m = Inr ((a, b), c)" and "f a b c = Inr y"
  using assms by (auto simp: rbind_eq_Inr)

lemma rbind_fourE:
  assumes "rbind m (\<lambda>((a, b, c), d). f a b c d) = Inr y"
  obtains a b c d where "m = Inr ((a, b, c), d)" and "f a b c d = Inr y"
  using assms by (auto simp: rbind_eq_Inr)

lemmas rbind_elims = rbind_fourE rbind_tripleE rbind_pairE rbind_InrE

section \<open>The ledgers of redemptions\<close>

lemma sub_le_u128: "checked_sub a b = Some r \<Longrightarrow> r \<le> a"
  by (simp add: num_simps)

lemma update_sub_cases:
  assumes "update_unlock_ledger C who c n i t how OpSub s = Inr (removed, s')"
  obtains r ue te where "token_unlock_ledger s c i = Some r"
    and "removed \<longleftrightarrow> unlock_amount r \<le> n"
    and "entry_sub n i removed (user_unlock_ledger s who c) = Inr ue"
    and "entry_sub n i removed (drop_currency (time_unit_unlock_ledger s t c)) = Inr te"
    and "n \<le> unlocking_total s c"
    and "s' = s\<lparr>token_unlock_ledger :=
           put2 c i (if removed then None else Some (r\<lparr>unlock_amount := unlock_amount r - n\<rparr>))
             (token_unlock_ledger s),
         user_unlock_ledger := put2 who c ue (user_unlock_ledger s),
         time_unit_unlock_ledger :=
           put2 t c (with_currency c (time_unit_unlock_ledger s t c) te) (time_unit_unlock_ledger s),
         unlocking_total := (unlocking_total s)(c := unlocking_total s c - n)\<rparr>"
  using assms
  by (auto simp: update_unlock_ledger_def update_token_unlock_ledger_def update_user_unlock_ledger_def
      update_time_unit_unlock_ledger_def update_unlocking_total_def apply_operation_def entry_update_def
      Let_def result_simps num_simps split: if_splits)

lemma update_add_cases:
  assumes "update_unlock_ledger C who c n i t how OpAdd s = Inr (removed, s')"
  obtains h ue te where "how = Some h" and "\<not> removed"
    and "entry_add (max_unlock_id_of_user C) n i (user_unlock_ledger s who c) = Inr ue"
    and "entry_add (max_unlock_id_of_time_unit C) n i (drop_currency (time_unit_unlock_ledger s t c)) = Inr te"
    and "unlocking_total s c + n \<le> u128_max"
    and "s' = s\<lparr>token_unlock_ledger :=
           put2 c i (Some \<lparr>redeemer = who, unlock_amount = n, lock_to = t, redeem_how = h\<rparr>)
             (token_unlock_ledger s),
         user_unlock_ledger := put2 who c (Some ue) (user_unlock_ledger s),
         time_unit_unlock_ledger :=
           put2 t c (with_currency c (time_unit_unlock_ledger s t c) (Some te)) (time_unit_unlock_ledger s),
         unlocking_total := (unlocking_total s)(c := unlocking_total s c + n)\<rparr>"
  using assms
  by (auto simp: update_unlock_ledger_def update_token_unlock_ledger_def update_user_unlock_ledger_def
      update_time_unit_unlock_ledger_def update_unlocking_total_def apply_operation_def entry_update_def
      Let_def result_simps num_simps split: if_splits)

lemma entry_sub_Inr:
  "entry_sub n i removed e = Inr e' \<longleftrightarrow>
     (\<exists>m ids. e = Some (m, ids) \<and>
        e' = (if m \<le> n then None else Some (m - n, if removed then filter (\<lambda>x. x \<noteq> i) ids else ids)))"
  by (auto simp: entry_sub_def result_simps num_simps split: option.splits if_splits)

lemma entry_add_Inr:
  "entry_add b n i e = Inr e' \<longleftrightarrow>
     (case e of None \<Rightarrow> 0 < b \<and> e' = (n, [i])
      | Some (m, ids) \<Rightarrow> length ids < b \<and> m + n \<le> u128_max \<and> e' = (m + n, ids @ [i]))"
  by (auto simp: entry_add_def result_simps num_simps split: option.splits if_splits)

lemma token_pool_cases:
  assumes "update_token_pool c n op s = Inr t"
  obtains w p where "token_to_vtoken_map s c = Some w" and "apply_operation op n (token_pool s w) = Inr p"
    and "t = s\<lparr>token_pool := (token_pool s)(w := p)\<rparr>"
  using assms by (auto simp: update_token_pool_def get_vtoken_for_token_def result_simps)

lemma apply_add_Inr: "apply_operation OpAdd n m = Inr p \<longleftrightarrow> m + n \<le> u128_max \<and> p = m + n"
  by (auto simp: apply_operation_def result_simps num_simps)

lemma apply_sub_Inr: "apply_operation OpSub n m = Inr p \<longleftrightarrow> n \<le> m \<and> p = m - n"
  by (auto simp: apply_operation_def result_simps num_simps)

lemma issuance_cases:
  assumes "set_v_currency_issuance_inner v a s = Inr t"
  obtains i where "is_vtoken v" and "0 \<le> int (vtoken_issuance s v) + a"
    and "i = nat (int (vtoken_issuance s v) + a)"
    and "0 \<le> a \<longrightarrow> i \<le> u128_max"
    and "t = emit_minting (VtokenIssuanceSet v i) (s\<lparr>vtoken_issuance := (vtoken_issuance s)(v := i)\<rparr>)"
proof -
  from assms have v: "is_vtoken v"
    by (simp add: set_v_currency_issuance_inner_def result_simps)
  show thesis
  proof (cases "0 \<le> a")
    case True
    with assms v have le: "vtoken_issuance s v + nat a \<le> u128_max"
      and t: "t = emit_minting (VtokenIssuanceSet v (vtoken_issuance s v + nat a))
        (s\<lparr>vtoken_issuance := (vtoken_issuance s)(v := vtoken_issuance s v + nat a)\<rparr>)"
      by (auto simp: set_v_currency_issuance_inner_def result_simps num_simps)
    from True have "vtoken_issuance s v + nat a = nat (int (vtoken_issuance s v) + a)"
      by (simp add: nat_add_distrib)
    with True v le t show thesis by (intro that) auto
  next
    case False
    with assms v have le: "nat (- a) \<le> vtoken_issuance s v"
      and t: "t = emit_minting (VtokenIssuanceSet v (vtoken_issuance s v - nat (- a)))
        (s\<lparr>vtoken_issuance := (vtoken_issuance s)(v := vtoken_issuance s v - nat (- a))\<rparr>)"
      by (auto simp: set_v_currency_issuance_inner_def result_simps num_simps)
    from False le have "vtoken_issuance s v - nat (- a) = nat (int (vtoken_issuance s v) + a)"
      and "0 \<le> int (vtoken_issuance s v) + a"
      by linarith+
    with False v t show thesis by (intro that) auto
  qed
qed

section \<open>Minting\<close>

lemma to_i128_Inr: "to_i128 n = Inr a \<longleftrightarrow> n \<le> i128_max \<and> a = int n"
  by (auto simp: to_i128_def)

lemma mint_without_transfer_cases:
  assumes "mint_without_transfer F C who v c amount s = Inr ((net, v_amount, fee), t)"
  obtains w l1 l2 where "fee = perm_mul_floor F (fst (mint_redeem_fees s)) amount"
    and "fee \<le> amount" and "net = amount - fee"
    and "mc_transfer (mt_currencies C) c who (mint_fee_account C) fee (outside s) = Inr l1"
    and "get_v_currency_amount_by_currency_amount C s c v net = Inr v_amount"
    and "mt_deposit C v who v_amount l1 = Inr l2"
    and "token_to_vtoken_map s c = Some w" and "token_pool s w + net \<le> u128_max"
    and "is_vtoken v" and "v_amount \<le> i128_max" and "vtoken_issuance s v + v_amount \<le> u128_max"
    and "t = emit_minting (VtokenIssuanceSet v (vtoken_issuance s v + v_amount))
      (s\<lparr>outside := l2, token_pool := (token_pool s)(w := token_pool s w + net),
         vtoken_issuance := (vtoken_issuance s)(v := vtoken_issuance s v + v_amount)\<rparr>)"
proof -
  from assms obtain s1 s2 s3 a where 1:
    "fee = perm_mul_floor F (fst (mint_redeem_fees s)) amount"
    "vt_transfer C c who (mint_fee_account C) fee s = Inr s1" "checked_sub amount fee = Some net"
    "get_v_currency_amount_by_currency_amount C s1 c v net = Inr v_amount"
    "outside_call (mt_deposit C v who v_amount) s1 = Inr s2"
    "update_token_pool c net OpAdd s2 = Inr s3"
    "to_i128 v_amount = Inr a" "set_v_currency_issuance_inner v a s3 = Inr t"
    by (auto simp: mint_without_transfer_def Let_def result_simps)
  from 1(2) obtain l1 where l1: "mc_transfer (mt_currencies C) c who (mint_fee_account C) fee (outside s) = Inr l1"
    and s1: "s1 = s\<lparr>outside := l1\<rparr>" by (auto simp: vt_transfer_def result_simps)
  from 1(5) obtain l2 where l2: "mt_deposit C v who v_amount l1 = Inr l2" and s2: "s2 = s\<lparr>outside := l2\<rparr>"
    by (auto simp: s1 result_simps)
  from 1(6) obtain w where w: "token_to_vtoken_map s c = Some w" "token_pool s w + net \<le> u128_max"
    and s3: "s3 = s\<lparr>outside := l2, token_pool := (token_pool s)(w := token_pool s w + net)\<rparr>"
    by (auto simp: s2 apply_add_Inr elim: token_pool_cases)
  from 1(7,8) have v: "is_vtoken v" "v_amount \<le> i128_max" "vtoken_issuance s v + v_amount \<le> u128_max"
    and t: "t = emit_minting (VtokenIssuanceSet v (vtoken_issuance s v + v_amount))
      (s\<lparr>outside := l2, token_pool := (token_pool s)(w := token_pool s w + net),
         vtoken_issuance := (vtoken_issuance s)(v := vtoken_issuance s v + v_amount)\<rparr>)"
    by (auto simp: s3 to_i128_Inr nat_int_add elim!: issuance_cases)
  from 1(4) have "get_v_currency_amount_by_currency_amount C s c v net = Inr v_amount"
    by (simp add: s1 get_v_currency_amount_by_currency_amount_def get_v_currency_issuance_inner_def
        get_token_pool_def get_vtoken_for_token_def)
  then show thesis
    using 1(1,3) l1 l2 w v t by (intro that) (auto simp: num_simps)
qed

lemma vmint_cases:
  assumes "do_vmint F C who c amount remark channel s = Inr ((v, v_amount), t)"
  obtains net fee s1 l1 l2 where
    "case minimum_mint s c of None \<Rightarrow> True | Some m \<Rightarrow> m \<le> amount"
    and "token_to_vtoken_map s c = Some v"
    and "mint_without_transfer F C who v c amount s = Inr ((net, v_amount, fee), s1)"
    and "mc_transfer (mt_currencies C) c who (entrance_account C) net (outside s1) = Inr l1"
    and "record_mint_amount C channel v v_amount l1 = Inr l2"
    and "t = emit_minting (VMinted who c amount v_amount fee remark channel) (s1\<lparr>outside := l2\<rparr>)"
  using assms
  by (auto simp: do_vmint_def get_vtoken_for_token_def vt_transfer_def result_simps)

section \<open>Redeeming\<close>

lemma file_redeem_cases:
  assumes "file_redeem C who c v v_amount amount fee u how s = Inr t"
  obtains s1 l where "update_unlock_ledger C who c amount (token_unlock_next_id s v) u (Some how) OpAdd s = Inr (False, s1)"
    and "token_unlock_next_id s v < u32_max"
    and "record_redeem_amount C v v_amount (outside s1) = Inr l"
    and "t = (emit_minting (VRedeemed who c amount v_amount fee (token_unlock_next_id s v)) s1)
      \<lparr>outside := on_redeemed C who c amount v_amount fee l,
       token_unlock_next_id := (token_unlock_next_id s)(v := token_unlock_next_id s v + 1)\<rparr>"
proof -
  let ?i = "token_unlock_next_id s v"
  from assms obtain b s1 i' s3 where raw:
    "update_unlock_ledger C who c amount ?i u (Some how) OpAdd s = Inr (b, s1)"
    "ok_or (chk u32_max (?i + 1)) (Module CalculationOverflow) = Inr i'"
    "outside_call (record_redeem_amount C v v_amount)
       (emit_minting (VRedeemed who c amount v_amount fee ?i) s1) = Inr s3"
    and t: "Inr (s3\<lparr>outside := on_redeemed C who c amount v_amount fee (outside s3),
      token_unlock_next_id := (token_unlock_next_id s3)(v := i')\<rparr>) = Inr t"
    unfolding file_redeem_def Let_def
    by (elim rbind_pairE rbind_InrE) (rule that, assumption+, simp)
  from raw(3) obtain l where l: "record_redeem_amount C v v_amount (outside s1) = Inr l"
    and s3: "s3 = (emit_minting (VRedeemed who c amount v_amount fee ?i) s1)\<lparr>outside := l\<rparr>"
    by (auto simp: result_simps emit_minting_def)
  have 1: "update_unlock_ledger C who c amount ?i u (Some how) OpAdd s = Inr (b, s1)" "?i + 1 \<le> u32_max"
    "record_redeem_amount C v v_amount (outside s1) = Inr l"
    "t = (emit_minting (VRedeemed who c amount v_amount fee ?i) s1)
       \<lparr>outside := on_redeemed C who c amount v_amount fee l,
        token_unlock_next_id := (token_unlock_next_id s1)(v := ?i + 1)\<rparr>"
    using raw(1,2) l t by (simp_all add: s3 emit_minting_def result_simps)
  from 1(1) have "\<not> b" and "token_unlock_next_id s1 = token_unlock_next_id s"
    by (auto elim!: update_add_cases)
  with 1 show thesis by (intro that) (simp_all add: emit_minting_def)
qed

lemma vredeem_cases:
  assumes "do_vredeem F C who wanted v v_amount how s = Inr t"
  obtains c fee net amount now duration u l1 l2 s1 w where "redeem_currency s wanted v = Inr c"
    and "minimum_redeem s v \<le> v_amount"
    and "fee = perm_mul_floor F (snd (mint_redeem_fees s)) v_amount" and "fee \<le> v_amount"
    and "net = v_amount - fee"
    and "mc_transfer (mt_currencies C) v who (redeem_fee_account C) fee (outside s) = Inr l1"
    and "get_currency_amount_by_v_currency_amount C s c v net = Inr amount"
    and "mt_withdraw C v who net l1 = Inr l2"
    and "is_vtoken v" and "net \<le> i128_max" and "net \<le> vtoken_issuance s v"
    and "ongoing_time_unit s c = Some now" and "unlock_duration s c = Some duration"
    and "tu_add now duration = Some u"
    and "token_to_vtoken_map s c = Some w" and "amount \<le> token_pool s w"
    and "s1 = (emit_minting (VtokenIssuanceSet v (vtoken_issuance s v - net))
      (s\<lparr>outside := l2, vtoken_issuance := (vtoken_issuance s)(v := vtoken_issuance s v - net)\<rparr>))
      \<lparr>token_pool := (token_pool s)(w := token_pool s w - amount)\<rparr>"
    and "file_redeem C who c v net amount fee u how s1 = Inr t"
proof -
  let ?fee = "perm_mul_floor F (snd (mint_redeem_fees s)) v_amount"
  from assms obtain c e net amount now duration u a s1 s2 s3 s4 where raw:
    "redeem_currency s wanted v = Inr c"
    "ensure (minimum_redeem s v \<le> v_amount) (Module BelowMinimumRedeem) = Inr e"
    "vt_transfer C v who (redeem_fee_account C) ?fee s = Inr s1"
    "ok_or (checked_sub v_amount ?fee) (Module CalculationOverflow) = Inr net"
    "get_currency_amount_by_v_currency_amount C s1 c v net = Inr amount"
    "outside_call (mt_withdraw C v who net) s1 = Inr s2" "to_i128 net = Inr a"
    "set_v_currency_issuance_inner v (- a) s2 = Inr s3"
    "ok_or (ongoing_time_unit s3 c) (Module OngoingTimeUnitNotSet) = Inr now"
    "ok_or (unlock_duration s3 c) (Module UnlockDurationNotFound) = Inr duration"
    "ok_or (tu_add now duration) (Module UnlockDurationNotFound) = Inr u"
    "update_token_pool c amount OpSub s3 = Inr s4"
    "file_redeem C who c v net amount ?fee u how s4 = Inr t"
    unfolding do_vredeem_def Let_def by (elim rbind_InrE) (rule that, assumption+)
  define fee where "fee = ?fee"
  have 1: "redeem_currency s wanted v = Inr c" "minimum_redeem s v \<le> v_amount"
    "fee = perm_mul_floor F (snd (mint_redeem_fees s)) v_amount"
    "vt_transfer C v who (redeem_fee_account C) fee s = Inr s1"
    "checked_sub v_amount fee = Some net"
    "get_currency_amount_by_v_currency_amount C s1 c v net = Inr amount"
    "outside_call (mt_withdraw C v who net) s1 = Inr s2" "to_i128 net = Inr a"
    "set_v_currency_issuance_inner v (- a) s2 = Inr s3"
    "ongoing_time_unit s3 c = Some now" "unlock_duration s3 c = Some duration"
    "tu_add now duration = Some u" "update_token_pool c amount OpSub s3 = Inr s4"
    "file_redeem C who c v net amount fee u how s4 = Inr t"
    using raw by (simp_all only: fee_def result_simps)
  from 1(4) obtain l1 where l1: "mc_transfer (mt_currencies C) v who (redeem_fee_account C) fee (outside s) = Inr l1"
    and s1: "s1 = s\<lparr>outside := l1\<rparr>" by (auto simp: vt_transfer_def result_simps)
  from 1(7) obtain l2 where l2: "mt_withdraw C v who net l1 = Inr l2" and s2: "s2 = s\<lparr>outside := l2\<rparr>"
    by (auto simp: s1 result_simps)
  have v: "is_vtoken v" "net \<le> i128_max" "net \<le> vtoken_issuance s v"
    and s3: "s3 = emit_minting (VtokenIssuanceSet v (vtoken_issuance s v - net))
      (s\<lparr>outside := l2, vtoken_issuance := (vtoken_issuance s)(v := vtoken_issuance s v - net)\<rparr>)"
    using 1(8,9) by (auto simp: s2 to_i128_Inr nat_diff_distrib elim!: issuance_cases)
  from 1(13) obtain w where w: "token_to_vtoken_map s c = Some w" "amount \<le> token_pool s w"
    and s4: "s4 = (emit_minting (VtokenIssuanceSet v (vtoken_issuance s v - net))
      (s\<lparr>outside := l2, vtoken_issuance := (vtoken_issuance s)(v := vtoken_issuance s v - net)\<rparr>))
      \<lparr>token_pool := (token_pool s)(w := token_pool s w - amount)\<rparr>"
    by (auto simp: s3 apply_sub_Inr emit_minting_def elim!: token_pool_cases)
  from 1(6) have "get_currency_amount_by_v_currency_amount C s c v net = Inr amount"
    by (simp add: s1 get_currency_amount_by_v_currency_amount_def get_v_currency_issuance_inner_def
        get_token_pool_def get_vtoken_for_token_def)
  then show thesis
    using 1 l1 l2 v w s4 by (intro that) (auto simp: num_simps s3 emit_minting_def ongoing_time_unit_def)
qed

section \<open>Paying out\<close>

lemma remote_payout:
  assumes "transfer_to_by_redeem_type C who c amount balance how s = Inr ((n, to), t)"
    and "amount \<le> balance" and "how \<noteq> RedeemNative"
  shows "n = amount \<and> (\<exists>l. t = s\<lparr>outside := l\<rparr>)"
proof (cases "\<exists>d h. how = RedeemHyperBridge d h")
  case True
  with assms(1,2) show ?thesis
    by (auto simp: transfer_to_by_redeem_type_def result_simps)
next
  case False
  with assms(2,3) have "transfer_to_by_redeem_type C who c amount balance how s =
    rbind (redeem_destination C how) (\<lambda>(dest, to).
      rbind (if c = fil
             then outside_call (xcm_transfer_many C (entrance_account C)
                    [(c, amount), (Native BNC, moonbeam_transfer_to_fee C (outside s))] 1 dest) s
             else outside_call (xcm_transfer C (entrance_account C) c amount dest) s) (\<lambda>s1.
      Inr ((amount, to), s1)))"
    by (cases how) (simp_all add: transfer_to_by_redeem_type_def)
  with assms(1) show ?thesis
    by (auto simp: result_simps split: if_splits)
qed

lemma transfer_to_cases:
  assumes "transfer_to_by_redeem_type C who c amount balance how s = Inr ((n, to), t)"
  obtains l where "t = s\<lparr>outside := l\<rparr>" and "n \<le> amount" and "n \<le> balance"
    and "amount \<le> balance \<Longrightarrow> n = amount"
    and "how = RedeemNative \<Longrightarrow> to = ToNative who"
    and "how = RedeemNative \<Longrightarrow> mt_minimum_balance C c \<le> n \<Longrightarrow>
      mc_transfer (mt_currencies C) c (entrance_account C) who n (outside s) = Inr l \<or>
      (n = 0 \<and> l = outside s)"
    and "how = RedeemNative \<Longrightarrow> n < mt_minimum_balance C c \<Longrightarrow> l = outside s"
proof (cases "amount \<le> balance")
  case True
  show thesis
  proof (cases "how = RedeemNative")
    case native: True
    with assms True have n: "n = amount" "to = ToNative who"
      and *: "(if mt_minimum_balance C c \<le> amount
        then vt_transfer C c (entrance_account C) who amount s else Inr s) = Inr t"
      by (auto simp: transfer_to_by_redeem_type_def rbind_eq_Inr)
    from * obtain l where l: "t = s\<lparr>outside := l\<rparr>"
      "mt_minimum_balance C c \<le> amount \<Longrightarrow>
         mc_transfer (mt_currencies C) c (entrance_account C) who amount (outside s) = Inr l"
      "amount < mt_minimum_balance C c \<Longrightarrow> l = outside s"
      by (cases "mt_minimum_balance C c \<le> amount") (auto simp: vt_transfer_def result_simps)
    show thesis by (rule that [of l]) (use n l True in auto)
  next
    case False
    have "n = amount \<and> (\<exists>l. t = s\<lparr>outside := l\<rparr>)"
      by (rule remote_payout) (use assms True False in auto)
    with False True show thesis by (auto intro: that)
  qed
next
  case False
  show thesis
  proof (cases "how = RedeemNative \<and> mt_minimum_balance C c \<le> balance")
    case True
    with assms False have "rbind (vt_transfer C c (entrance_account C) who balance s)
        (\<lambda>s1. Inr ((balance, ToNative who), s1)) = Inr ((n, to), t)"
      by (simp add: transfer_to_by_redeem_type_def)
    then obtain s1 where s1: "vt_transfer C c (entrance_account C) who balance s = Inr s1"
      and "Inr ((balance, ToNative who), s1) = (Inr ((n, to), t) :: minting_error dispatch_error + _)"
      by (rule rbind_InrE)
    then have n: "n = balance" "to = ToNative who" "t = s1" by simp_all
    from s1 obtain l where "mc_transfer (mt_currencies C) c (entrance_account C) who n (outside s) = Inr l"
      and "n = balance" and "t = s\<lparr>outside := l\<rparr>" and "to = ToNative who"
      unfolding vt_transfer_def outside_call_eq_Inr n by blast
    note eqs = this
    show thesis
    proof (rule that [of l])
      show "t = s\<lparr>outside := l\<rparr>" by (rule eqs(3))
      show "n \<le> amount" "n \<le> balance" using False eqs(2) by linarith+
      show "mc_transfer (mt_currencies C) c (entrance_account C) who n (outside s) = Inr l \<or>
          (n = 0 \<and> l = outside s)"
        using eqs(1) by (rule disjI1)
    qed (use True False eqs(2,4) in \<open>simp_all only: not_le [symmetric] simp_thms\<close>)
  next
    case no: False
    with assms False have "n = 0" "t = s" "to = ToNative who"
      by (auto simp: transfer_to_by_redeem_type_def)
    with False show thesis by (intro that [of "outside s"]) simp_all
  qed
qed

lemma process_redeem_cases:
  assumes "process_redeem C c who i amount balance t how s = Inr s'"
  obtains (unpaid) l where "s' = s\<lparr>outside := l\<rparr>"
  | (paid) n to l removed s1 where "transfer_to_by_redeem_type C who c amount balance how s = Inr ((n, to), s\<lparr>outside := l\<rparr>)"
    and "0 < n" and "n \<le> amount" and "n \<le> balance"
    and "update_unlock_ledger C who c n i t None OpSub (s\<lparr>outside := l\<rparr>) = Inr (removed, s1)"
    and "s' = emit_minting (RedeemSuccess who i c to n)
      (s1\<lparr>outside := on_redeem_success C c who n (outside s1)\<rparr>)"
proof -
  from assms obtain n to s1 where tr: "transfer_to_by_redeem_type C who c amount balance how s = Inr ((n, to), s1)"
    and rest: "(if n = 0 then Inr s1 else
      rbind (update_unlock_ledger C who c n i t None OpSub s1) (\<lambda>(_, s2).
       Inr (emit_minting (RedeemSuccess who i c to n)
         (s2\<lparr>outside := on_redeem_success C c who n (outside s2)\<rparr>)))) = Inr s'"
    unfolding process_redeem_def by (elim rbind_InrE) (simp split: prod.splits)
  from tr obtain l where l: "s1 = s\<lparr>outside := l\<rparr>" "n \<le> amount" "n \<le> balance"
    by (rule transfer_to_cases)
  show thesis
  proof (cases "n = 0")
    case True
    with rest l(1) show thesis by (intro unpaid [of l]) simp
  next
    case False
    with rest have "rbind (update_unlock_ledger C who c n i t None OpSub s1) (\<lambda>(_, s2).
       Inr (emit_minting (RedeemSuccess who i c to n)
         (s2\<lparr>outside := on_redeem_success C c who n (outside s2)\<rparr>))) = Inr s'" by simp
    then obtain b s2 where up: "update_unlock_ledger C who c n i t None OpSub s1 = Inr (b, s2)"
      and s': "Inr (emit_minting (RedeemSuccess who i c to n)
         (s2\<lparr>outside := on_redeem_success C c who n (outside s2)\<rparr>)) =
         (Inr s' :: minting_error dispatch_error + _)"
      by (rule rbind_pairE)
    show thesis
    proof (rule paid)
      show "s' = emit_minting (RedeemSuccess who i c to n)
         (s2\<lparr>outside := on_redeem_success C c who n (outside s2)\<rparr>)" using s' by simp
      show "0 < n" using False by simp
    qed (use tr up l in \<open>simp_all only: l(1)\<close>)
  qed
qed

section \<open>Rebonding\<close>

lemma add_to_rebond_Inr:
  "add_to_rebond c n s = Inr t \<longleftrightarrow> (\<exists>m. token_to_rebond s c = Some m \<and> m + n \<le> u128_max \<and>
     t = s\<lparr>token_to_rebond := (token_to_rebond s)(c := Some (m + n))\<rparr>)"
  by (auto simp: add_to_rebond_def result_simps num_simps)

lemma rebond_loop_ConsE:
  assumes "rebond_loop C who c (i # ids) rest s = Inr t"
  obtains r part rest' removed s1 where "token_unlock_ledger s c i = Some r"
    and "part = min rest (unlock_amount r)"
    and "rest' = (if rest \<le> unlock_amount r then rest else rest - unlock_amount r)"
    and "update_unlock_ledger C who c part i (lock_to r) None OpSub s = Inr (removed, s1)"
    and "if removed then rebond_loop C who c ids rest' s1 = Inr t else t = s1"
proof -
  let ?p = "\<lambda>r. if rest \<le> unlock_amount r then (rest, rest)
    else (unlock_amount r, saturating_sub rest (unlock_amount r))"
  from assms obtain r where r: "ok_or (token_unlock_ledger s c i) (Module TokenUnlockLedgerNotFound) =
      (Inr r :: minting_error dispatch_error + _)"
    and rest: "(let (part, rest') = ?p r in
      rbind (update_unlock_ledger C who c part i (lock_to r) None OpSub s) (\<lambda>(removed, s1).
      if removed then rebond_loop C who c ids rest' s1 else Inr s1)) = Inr t"
    by (simp only: rebond_loop.simps) (rule rbind_InrE)
  obtain part rest' where p: "?p r = (part, rest')" by (cases "?p r")
  from rest obtain removed s1 where up: "update_unlock_ledger C who c part i (lock_to r) None OpSub s = Inr (removed, s1)"
    and more: "(if removed then rebond_loop C who c ids rest' s1 else Inr s1) = Inr t"
    unfolding p Let_def prod.case by (rule rbind_pairE)
  show thesis
  proof (rule that)
    show "token_unlock_ledger s c i = Some r" using r by (simp only: ok_or_eq_Inr)
    show "part = min rest (unlock_amount r)"
      "rest' = (if rest \<le> unlock_amount r then rest else rest - unlock_amount r)"
      using p by (auto simp: saturating_sub_def split: if_splits)
    show "if removed then rebond_loop C who c ids rest' s1 = Inr t else t = s1"
      using more by (simp split: if_splits)
  qed (rule up)
qed

lemma rebond_cases:
  assumes "rebond F C o1 c n s = Inr t"
  obtains who v m ids s1 net va fee s2 s3 where "o1 = Signed who" and "convert_to_vtoken s c = Inr v"
    and "user_unlock_ledger s who c = Some (m, ids)" and "n \<le> m"
    and "rebond_loop C who c (rev ids) n s = Inr s1"
    and "mint_without_transfer F C who v c n s1 = Inr ((net, va, fee), s2)"
    and "add_to_rebond c n s2 = Inr s3"
    and "t = emit_minting (Rebonded who c n va fee) s3"
proof -
  from assms obtain who v m ids u s1 net va fee s2 s3 where
    "ensure_signed o1 = (Inr who :: minting_error dispatch_error + _)" "convert_to_vtoken s c = Inr v"
    "ok_or (user_unlock_ledger s who c) (Module UserUnlockLedgerNotFound) =
      (Inr (m, ids) :: minting_error dispatch_error + _)"
    "ensure (n \<le> m) (Module NotEnoughBalanceToUnlock) = (Inr u :: minting_error dispatch_error + _)"
    "rebond_loop C who c (rev ids) n s = Inr s1"
    "mint_without_transfer F C who v c n s1 = Inr ((net, va, fee), s2)"
    "add_to_rebond c n s2 = Inr s3"
    "Inr (emit_minting (Rebonded who c n va fee) s3) = (Inr t :: minting_error dispatch_error + _)"
    unfolding rebond_def by (elim rbind_elims) (rule that, assumption+)
  then show thesis
    by (intro that [of who v m ids s1 net va fee s2 s3]) (simp_all only: result_simps sum.inject)
qed

lemma rebond_by_unlock_id_cases:
  assumes "rebond_by_unlock_id F C o1 c i s = Inr t"
  obtains who v r removed s1 net va fee s2 s3 where "o1 = Signed who" and "convert_to_vtoken s c = Inr v"
    and "token_unlock_ledger s c i = Some r" and "redeemer r = who"
    and "update_unlock_ledger C who c (unlock_amount r) i (lock_to r) None OpSub s = Inr (removed, s1)"
    and "mint_without_transfer F C who v c (unlock_amount r) s1 = Inr ((net, va, fee), s2)"
    and "add_to_rebond c net s2 = Inr s3"
    and "t = emit_minting (RebondedByUnlockId who c (unlock_amount r) va fee i) s3"
proof -
  from assms obtain who v r u removed s1 net va fee s2 s3 where
    "ensure_signed o1 = (Inr who :: minting_error dispatch_error + _)" "convert_to_vtoken s c = Inr v"
    "ok_or (token_unlock_ledger s c i) (Module TokenUnlockLedgerNotFound) =
      (Inr r :: minting_error dispatch_error + _)"
    "ensure (redeemer r = who) (Module CanNotRebond) = (Inr u :: minting_error dispatch_error + _)"
    "update_unlock_ledger C who c (unlock_amount r) i (lock_to r) None OpSub s = Inr (removed, s1)"
    "mint_without_transfer F C who v c (unlock_amount r) s1 = Inr ((net, va, fee), s2)"
    "add_to_rebond c net s2 = Inr s3"
    "Inr (emit_minting (RebondedByUnlockId who c (unlock_amount r) va fee i) s3) =
      (Inr t :: minting_error dispatch_error + _)"
    unfolding rebond_by_unlock_id_def by (elim rbind_elims) (rule that, assumption+)
  then show thesis
    by (intro that [of who v r removed s1 net va fee s2 s3]) (simp_all only: result_simps sum.inject)
qed

section \<open>Locked vTokens\<close>

lemma lock_vtoken_cases:
  assumes "lock_vtoken_for_incentive_minting C now who v n s = Inr t"
  obtains m due records l where "due = now + the (mint_with_lock_blocks s v)"
    and "mint_with_lock_blocks s v \<noteq> None"
    and "case vtoken_lock_ledger s who v of None \<Rightarrow> m = n \<and> records = [(n, due)] \<and> 0 < max_lock_records C
         | Some (m0, old) \<Rightarrow> m = m0 + n \<and> m \<le> u128_max \<and> records = old @ [(n, due)] \<and>
             length old < max_lock_records C"
    and "mt_set_lock C v who m (outside s) = Inr l"
    and "t = s\<lparr>vtoken_lock_ledger := put2 who v (Some (m, records)) (vtoken_lock_ledger s), outside := l\<rparr>"
proof -
  let ?entry = "\<lambda>due. case vtoken_lock_ledger s who v of
              Some (total_locked, records) \<Rightarrow>
                rbind (ok_or (checked_add total_locked n) (Module CalculationOverflow)) (\<lambda>m.
                if max_lock_records C \<le> length records then Inl (Module TooManyLocks)
                else Inr (m, records @ [(n, due)]))
            | None \<Rightarrow>
                if max_lock_records C = 0 then Inl (Module TooManyLocks)
                else (Inr (n, [(n, due)]) :: minting_error dispatch_error + _)"
  from assms obtain u d due entry where raw:
    "ensure (mt_can_withdraw C (outside s) v who n) (Module NotEnoughBalance) =
      (Inr u :: minting_error dispatch_error + _)"
    "ok_or (mint_with_lock_blocks s v) (Module IncentiveLockBlocksNotSet) =
      (Inr d :: minting_error dispatch_error + _)"
    "ok_or (chk u32_max (now + d)) (Module CalculationOverflow) = (Inr due :: minting_error dispatch_error + _)"
    "?entry due = Inr entry"
    "outside_try NotEnoughBalance (mt_set_lock C v who (fst entry))
       (s\<lparr>vtoken_lock_ledger := put2 who v (Some entry) (vtoken_lock_ledger s)\<rparr>) = Inr t"
    unfolding lock_vtoken_for_incentive_minting_def by (elim rbind_InrE) (rule that, assumption+)
  obtain m records where e: "entry = (m, records)" by (cases entry)
  from raw(2,3) have d: "mint_with_lock_blocks s v = Some d" "due = now + d" by (simp_all only: result_simps chk_eq_Some)
  from raw(4) have "case vtoken_lock_ledger s who v of None \<Rightarrow> m = n \<and> records = [(n, due)] \<and> 0 < max_lock_records C
         | Some (m0, old) \<Rightarrow> m = m0 + n \<and> m \<le> u128_max \<and> records = old @ [(n, due)] \<and>
             length old < max_lock_records C"
    by (auto simp: e result_simps num_simps split: option.splits prod.splits if_splits)
  moreover from raw(5) obtain l where "mt_set_lock C v who m (outside s) = Inr l"
    "t = s\<lparr>vtoken_lock_ledger := put2 who v (Some (m, records)) (vtoken_lock_ledger s), outside := l\<rparr>"
    by (auto simp: outside_try_eq_Inr e)
  ultimately show thesis using d by (intro that [of due m records l]) simp_all
qed

lemma mint_with_lock_cases:
  assumes "mint_with_lock F C now o1 c n remark channel s = Inr t"
  obtains who v w m s1 s2 reward l where "o1 = Signed who" and "convert_to_vtoken s c = Inr v"
    and "do_vmint F C who c n remark channel s = Inr ((w, m), s1)"
    and "lock_vtoken_for_incentive_minting C now who v m s1 = Inr s2"
    and "calculate_incentive_vtoken_amount F C now who v m s2 = Inr reward"
    and "mc_transfer (mt_currencies C) v (incentive_pool_account C) who reward (outside s2) = Inr l"
    and "t = emit_minting (IncentivizedMinting who c n m reward) (s2\<lparr>outside := l\<rparr>)"
proof -
  from assms obtain who a1 a2 a3 a4 v a5 a6 w m s1 s2 reward s3 where raw:
    "ensure_signed o1 = (Inr who :: minting_error dispatch_error + _)"
    "ensure (mt_can_withdraw C (outside s) c who n) (Module NotEnoughBalance) =
      (Inr a1 :: minting_error dispatch_error + _)"
    "ensure (minimum_mint s c \<noteq> None) (Module NotSupportTokenType) = (Inr a2 :: minting_error dispatch_error + _)"
    "outside_get BbBNCCheckingError (bb_bnc_balance_of C (outside s) who) = Inr a3"
    "ensure (0 < a3) (Module NotEnoughBalance) = (Inr a4 :: minting_error dispatch_error + _)"
    "convert_to_vtoken s c = Inr v"
    "ensure (vtoken_incentive_coef s v \<noteq> None) (Module IncentiveCoefNotFound) =
      (Inr a5 :: minting_error dispatch_error + _)"
    "ensure (0 < vt_free C s v (incentive_pool_account C)) (Module NotEnoughBalance) =
      (Inr a6 :: minting_error dispatch_error + _)"
    "do_vmint F C who c n remark channel s = Inr ((w, m), s1)"
    "lock_vtoken_for_incentive_minting C now who v m s1 = Inr s2"
    "calculate_incentive_vtoken_amount F C now who v m s2 = Inr reward"
    "outside_try NotEnoughBalance (mc_transfer (mt_currencies C) v (incentive_pool_account C) who reward) s2 = Inr s3"
    "Inr (emit_minting (IncentivizedMinting who c n m reward) s3) = (Inr t :: minting_error dispatch_error + _)"
    unfolding mint_with_lock_def by (elim rbind_elims) (rule that, assumption+)
  from raw(12) obtain l where
    "mc_transfer (mt_currencies C) v (incentive_pool_account C) who reward (outside s2) = Inr l"
    "s3 = s2\<lparr>outside := l\<rparr>" by (auto simp: outside_try_eq_Inr)
  with raw(1,6,9-11,13) show thesis
    by (intro that [of who v w m s1 s2 reward l]) (simp_all only: result_simps sum.inject)
qed

lemma unlock_incentive_cases:
  assumes "unlock_incentive_minted_vtoken C now o1 v s = Inr t"
  obtains who m records released l where "o1 = Signed who"
    and "vtoken_lock_ledger s who v = Some (m, records)"
    and "released = wrapping_sum (map fst (due_records now records))" and "0 < released" and "released \<le> m"
    and "if released = m then mt_remove_lock C v who (outside s) = Inr l
         else mt_set_lock C v who (m - released) (outside s) = Inr l"
    and "t = s\<lparr>vtoken_lock_ledger := put2 who v
        (if released = m then None
         else Some (m - released, drop (length (due_records now records)) records))
        (vtoken_lock_ledger s), outside := l\<rparr>"
proof -
  define rel where "rel = (\<lambda>records. wrapping_sum (map fst (due_records now records)))"
  define cut where "cut = (\<lambda>records. drop (length (due_records now records)) records)"
  from assms obtain who m records u rest where raw:
    "ensure_signed o1 = (Inr who :: minting_error dispatch_error + _)"
    "ok_or (vtoken_lock_ledger s who v) (Module UserUnlockLedgerNotFound) =
      (Inr (m, records) :: minting_error dispatch_error + _)"
    "ensure (0 < rel records) (Module NoUnlockRecord) = (Inr u :: minting_error dispatch_error + _)"
    "ok_or (checked_sub m (rel records)) (Module CalculationOverflow) = (Inr rest :: minting_error dispatch_error + _)"
    and t: "(if rest = 0 then outside_try FailToRemoveLock (mt_remove_lock C v who)
       (s\<lparr>vtoken_lock_ledger := put2 who v None (vtoken_lock_ledger s)\<rparr>)
     else outside_try Unexpected (mt_set_lock C v who rest)
       (s\<lparr>vtoken_lock_ledger := put2 who v (Some (rest, cut records)) (vtoken_lock_ledger s)\<rparr>)) = Inr t"
    unfolding unlock_incentive_minted_vtoken_def Let_def
    by (elim rbind_elims) (rule that [unfolded rel_def cut_def], assumption+)
  from raw have r: "o1 = Signed who" "vtoken_lock_ledger s who v = Some (m, records)" "0 < rel records"
    "rel records \<le> m" "rest = m - rel records" by (simp_all add: result_simps num_simps)
  from t r(4,5) obtain l where "if rel records = m then mt_remove_lock C v who (outside s) = Inr l
         else mt_set_lock C v who (m - rel records) (outside s) = Inr l"
    and "t = s\<lparr>vtoken_lock_ledger := put2 who v (if rel records = m then None
         else Some (m - rel records, cut records)) (vtoken_lock_ledger s), outside := l\<rparr>"
    by (cases "rel records = m") (auto simp: outside_try_eq_Inr)
  with r show thesis by (intro that [of who m records "rel records" l]) (simp_all only: rel_def cut_def)
qed

end
