(* ===== verification/Minting_Unlocks.thy ===== *)
theory Minting_Unlocks
  imports Minting_Lemmas
begin

text \<open>
  The redemptions that are unlocking are kept four times: by token and id, by user, by time unit, and as a
  total per token. This theory states when the four agree and shows that the pallet keeps them so on every run
  on which ids are not reused for a token and the governance does not overwrite the total.
\<close>

section \<open>Sums over the records of a token\<close>

type_synonym unlock_book = "nat \<Rightarrow> unlock_record option"

definition locked_part :: "(unlock_record \<Rightarrow> bool) \<Rightarrow> unlock_record option \<Rightarrow> nat" where
  "locked_part P r = (case r of None \<Rightarrow> 0 | Some x \<Rightarrow> if P x then unlock_amount x else 0)"

definition locked_by :: "unlock_book \<Rightarrow> (unlock_record \<Rightarrow> bool) \<Rightarrow> nat" where
  "locked_by L P = total_of (\<lambda>i. locked_part P (L i))"

lemma locked_part_simps [simp]:
  "locked_part P None = 0"
  "locked_part P (Some r) = (if P r then unlock_amount r else 0)"
  by (simp_all add: locked_part_def)

lemma finite_locked_support: "finite (dom L) \<Longrightarrow> finite (support (\<lambda>i. locked_part P (L i)))"
  by (rule finite_subset [of _ "dom L"]) (auto simp: support_def intro: ccontr)

lemma locked_by_upd:
  assumes "finite (dom L)"
  shows "locked_by (L(i := e)) P + locked_part P (L i) = locked_by L P + locked_part P e"
proof -
  have "(\<lambda>j. locked_part P ((L(i := e)) j)) = (\<lambda>j. locked_part P (L j))(i := locked_part P e)"
    by auto
  then show ?thesis
    using total_of_fun_upd [OF finite_locked_support [OF assms, of P], of i "locked_part P e"]
    by (simp add: locked_by_def)
qed

lemma locked_by_ge:
  assumes "finite (dom L)" and "L i = Some r" and "P r"
  shows "unlock_amount r \<le> locked_by L P"
  using total_of_ge [OF finite_locked_support [OF assms(1), of P], of i] assms(2,3)
  by (simp add: locked_by_def)

lemma locked_by_empty [simp]: "locked_by (\<lambda>_. None) P = 0"
  by (simp add: locked_by_def total_of_def)

section \<open>An index of the records by a key\<close>

definition entry_total :: "(nat \<times> nat list) option \<Rightarrow> nat" where
  "entry_total e = (case e of None \<Rightarrow> 0 | Some (m, _) \<Rightarrow> m)"

definition entry_ids :: "(nat \<times> nat list) option \<Rightarrow> nat set" where
  "entry_ids e = (case e of None \<Rightarrow> {} | Some (_, ids) \<Rightarrow> set ids)"

lemma entry_simps [simp]:
  "entry_total None = 0" "entry_total (Some (m, ids)) = m"
  "entry_ids None = {}" "entry_ids (Some (m, ids)) = set ids"
  by (simp_all add: entry_total_def entry_ids_def)

text \<open>The totals are the sums of the records of the key, the ids lead to them, and no nonzero one is missing.\<close>

definition index_agrees ::
  "(unlock_record \<Rightarrow> 'k) \<Rightarrow> unlock_book \<Rightarrow> ('k \<Rightarrow> (nat \<times> nat list) option) \<Rightarrow> bool" where
  "index_agrees key L E \<longleftrightarrow>
     (\<forall>k. entry_total (E k) = locked_by L (\<lambda>r. key r = k)) \<and>
     (\<forall>k. \<forall>i \<in> entry_ids (E k). \<exists>r. L i = Some r \<and> key r = k) \<and>
     (\<forall>i r. L i = Some r \<longrightarrow> 0 < unlock_amount r \<longrightarrow> i \<in> entry_ids (E (key r)))"

lemma agreesD:
  assumes "index_agrees key L E"
  shows "entry_total (E k) = locked_by L (\<lambda>r. key r = k)"
    and "i \<in> entry_ids (E k) \<Longrightarrow> \<exists>r. L i = Some r \<and> key r = k"
    and "L i = Some r \<Longrightarrow> 0 < unlock_amount r \<Longrightarrow> i \<in> entry_ids (E (key r))"
  using assms by (auto simp: index_agrees_def)

lemma entry_add_facts:
  assumes "entry_add b n i E = Inr e"
  shows "entry_total (Some e) = entry_total E + n" "entry_ids (Some e) = insert i (entry_ids E)"
  using assms by (cases E; auto simp: entry_add_Inr)+

lemma entry_sub_facts:
  assumes "entry_sub n i removed E = Inr e" and n: "n \<le> entry_total E"
  shows "entry_total e + n = entry_total E"
    and "entry_ids e \<subseteq> entry_ids E"
    and "removed \<Longrightarrow> i \<notin> entry_ids e"
    and "e \<noteq> None \<Longrightarrow> entry_ids E \<subseteq> insert i (entry_ids e)"
    and "e \<noteq> None \<Longrightarrow> \<not> removed \<Longrightarrow> entry_ids E \<subseteq> entry_ids e"
proof -
  from assms(1) obtain m ids where E: "E = Some (m, ids)"
    and e: "e = (if m \<le> n then None else Some (m - n, if removed then filter (\<lambda>x. x \<noteq> i) ids else ids))"
    by (auto simp: entry_sub_Inr)
  from n E have "n \<le> m" by simp
  then show "entry_total e + n = entry_total E" "entry_ids e \<subseteq> entry_ids E"
    "removed \<Longrightarrow> i \<notin> entry_ids e" "e \<noteq> None \<Longrightarrow> entry_ids E \<subseteq> insert i (entry_ids e)"
    "e \<noteq> None \<Longrightarrow> \<not> removed \<Longrightarrow> entry_ids E \<subseteq> entry_ids e"
    by (cases "m \<le> n"; auto simp: E e)+
qed

locale unlock_index =
  fixes key :: "unlock_record \<Rightarrow> 'k"
  assumes key_of_amount: "key (r\<lparr>unlock_amount := n\<rparr>) = key r"
begin

lemma empty_agrees: "index_agrees key (\<lambda>_. None) (\<lambda>_. None)"
  by (simp add: index_agrees_def)

lemma add_agrees:
  assumes ag: "index_agrees key L E" and fin: "finite (dom L)" and new: "L i = None"
    and add: "entry_add b (unlock_amount r) i (E (key r)) = Inr e"
  shows "index_agrees key (L(i \<mapsto> r)) (E(key r \<mapsto> e))"
  unfolding index_agrees_def
proof (intro conjI allI ballI impI)
  note e = entry_add_facts [OF add]
  have eq: "locked_by (L(i \<mapsto> r)) P = locked_by L P + (if P r then unlock_amount r else 0)" for P
    using locked_by_upd [OF fin, of i "Some r" P] new by simp
  fix k
  show "entry_total ((E(key r \<mapsto> e)) k) = locked_by (L(i \<mapsto> r)) (\<lambda>x. key x = k)"
  proof (cases "k = key r")
    case True
    have "entry_total (Some e) = locked_by L (\<lambda>x. key x = key r) + unlock_amount r"
      by (simp only: e(1) agreesD(1) [OF ag, of "key r"])
    then show ?thesis by (simp only: True fun_upd_same eq if_True refl)
  next
    case False
    then have "(E(key r \<mapsto> e)) k = E k" and "\<not> key r = k" by auto
    then show ?thesis by (simp only: eq if_False add_0_right agreesD(1) [OF ag])
  qed
next
  note e = entry_add_facts [OF add]
  fix k j assume j: "j \<in> entry_ids ((E(key r \<mapsto> e)) k)"
  show "\<exists>x. (L(i \<mapsto> r)) j = Some x \<and> key x = k"
  proof (cases "k = key r \<and> j = i")
    case False
    then have "j \<in> entry_ids (E k)" using j e(2) by (auto simp del: entry_simps split: if_splits)
    from agreesD(2) [OF ag this] show ?thesis using new by auto
  qed simp
next
  note e = entry_add_facts [OF add]
  fix j x assume x: "(L(i \<mapsto> r)) j = Some x" "0 < unlock_amount x"
  show "j \<in> entry_ids ((E(key r \<mapsto> e)) (key x))"
  proof (cases "j = i")
    case True
    then show ?thesis using x(1) e(2) by simp
  next
    case False
    with x have "j \<in> entry_ids (E (key x))" by (intro agreesD(3) [OF ag]) simp_all
    then show ?thesis using e(2) by (cases "key x = key r") simp_all
  qed
qed

text \<open>The record of id \<open>i\<close> loses \<open>n\<close>, and is dropped when nothing of it is left.\<close>

lemma sub_agrees:
  assumes ag: "index_agrees key L E" and fin: "finite (dom L)" and r: "L i = Some r"
    and n: "n \<le> unlock_amount r"
    and sub: "entry_sub n i (unlock_amount r \<le> n) (E (key r)) = Inr e"
  shows "index_agrees key
    (L(i := if unlock_amount r \<le> n then None else Some (r\<lparr>unlock_amount := unlock_amount r - n\<rparr>)))
    (E(key r := e))"
proof -
  let ?new = "if unlock_amount r \<le> n then None else Some (r\<lparr>unlock_amount := unlock_amount r - n\<rparr>)"
  let ?L = "L(i := ?new)"
  have sum: "locked_by ?L P + n = locked_by L P" if "P r" "\<And>m. P (r\<lparr>unlock_amount := m\<rparr>)" for P
    using locked_by_upd [OF fin, of i ?new P] that r n by (auto split: if_splits)
  have sum': "locked_by ?L P = locked_by L P" if "\<not> P r" "\<And>m. \<not> P (r\<lparr>unlock_amount := m\<rparr>)" for P
    using locked_by_upd [OF fin, of i ?new P] that r by (auto split: if_splits)
  have tot: "entry_total (E (key r)) = locked_by ?L (\<lambda>x. key x = key r) + n"
    using sum [of "\<lambda>x. key x = key r"] agreesD(1) [OF ag, of "key r"] by (simp add: key_of_amount)
  then have "n \<le> entry_total (E (key r))" by simp
  note e = entry_sub_facts [OF sub this]
  have findim: "finite (dom ?L)"
    by (rule finite_subset [of _ "insert i (dom L)"]) (use fin in \<open>auto split: if_splits\<close>)
  show ?thesis
    unfolding index_agrees_def
  proof (intro conjI allI ballI impI)
    fix k
    show "entry_total ((E(key r := e)) k) = locked_by ?L (\<lambda>x. key x = k)"
      using e(1) tot sum' [of "\<lambda>x. key x = k"] agreesD(1) [OF ag, of k] by (auto simp: key_of_amount)
    fix j assume j: "j \<in> entry_ids ((E(key r := e)) k)"
    with e(2) have "j \<in> entry_ids (E k)" by (auto split: if_splits)
    then obtain y where y: "L j = Some y" "key y = k" using agreesD(2) [OF ag] by blast
    show "\<exists>x. ?L j = Some x \<and> key x = k"
      using j y r e(3) by (auto simp: key_of_amount split: if_splits)
  next
    fix j x assume x: "?L j = Some x" "0 < unlock_amount x"
    have "\<exists>y. L j = Some y \<and> key y = key x \<and> 0 < unlock_amount y"
      using x r by (auto simp: key_of_amount split: if_splits)
    then have old: "j \<in> entry_ids (E (key x))" using agreesD(3) [OF ag] by metis
    show "j \<in> entry_ids ((E(key r := e)) (key x))"
    proof (cases "key x = key r")
      case True
      have "e \<noteq> None"
      proof
        assume "e = None"
        then have "locked_by ?L (\<lambda>x. key x = key r) = 0" using e(1) tot by simp
        moreover have "unlock_amount x \<le> locked_by ?L (\<lambda>x. key x = key r)"
          using findim x(1) True by (rule locked_by_ge)
        ultimately show False using x(2) by simp
      qed
      with e(4,5) old x(1) r True show ?thesis by (auto split: if_splits)
    qed (use old in simp)
  qed
qed

end

interpretation by_user: unlock_index redeemer
  by unfold_locales simp

interpretation by_time: unlock_index lock_to
  by unfold_locales simp

section \<open>The four books of the pallet\<close>

type_synonym book =
  "unlock_book \<times> nat \<times> (account \<Rightarrow> (nat \<times> nat list) option) \<times> (time_unit \<Rightarrow> (nat \<times> nat list \<times> currency) option)"

definition book_of :: "'l minting_state \<Rightarrow> currency \<Rightarrow> book" where
  "book_of s c = (token_unlock_ledger s c, unlocking_total s c, (\<lambda>who. user_unlock_ledger s who c),
     (\<lambda>t. time_unit_unlock_ledger s t c))"

fun book_agrees :: "currency \<Rightarrow> book \<Rightarrow> bool" where
  "book_agrees c (L, n, U, T) \<longleftrightarrow> finite (dom L) \<and> n = locked_by L (\<lambda>_. True) \<and>
     index_agrees redeemer L U \<and> index_agrees lock_to L (\<lambda>t. drop_currency (T t)) \<and>
     (\<forall>t m ids d. T t = Some (m, ids, d) \<longrightarrow> d = c)"

definition books_agree :: "'l minting_state \<Rightarrow> bool" where
  "books_agree s \<longleftrightarrow> (\<forall>c. book_agrees c (book_of s c))"

text \<open>The ids given out for a token are below the next id of the vToken it is mapped to.\<close>

definition ids_fresh :: "'l minting_state \<Rightarrow> bool" where
  "ids_fresh s \<longleftrightarrow> (\<forall>c v i. token_to_vtoken_map s c = Some v \<longrightarrow> token_unlock_ledger s c i \<noteq> None \<longrightarrow>
     i < token_unlock_next_id s v)"

text \<open>What the books and their freshness read of a state.\<close>

definition books :: "'l minting_state \<Rightarrow>
    (currency \<Rightarrow> unlock_book) \<times> (account \<Rightarrow> currency \<Rightarrow> (nat \<times> nat list) option) \<times>
    (time_unit \<Rightarrow> currency \<Rightarrow> (nat \<times> nat list \<times> currency) option) \<times> (currency \<Rightarrow> nat) \<times> (currency \<Rightarrow> nat)" where
  "books s = (token_unlock_ledger s, user_unlock_ledger s, time_unit_unlock_ledger s, unlocking_total s,
     token_unlock_next_id s)"

definition token_maps :: "'l minting_state \<Rightarrow>
    (currency \<Rightarrow> token_config list option) \<times> (currency \<Rightarrow> currency option)" where
  "token_maps s = (vtoken_to_tokens s, token_to_vtoken_map s)"

named_theorems minting_views \<open>what an operation leaves of the views of a state\<close>

lemma books_agree_cong: "books t = books s \<Longrightarrow> books_agree t = books_agree s"
  by (simp add: books_agree_def books_def book_of_def)

lemma ids_fresh_cong: "books t = books s \<Longrightarrow> token_maps t = token_maps s \<Longrightarrow> ids_fresh t = ids_fresh s"
  by (simp add: ids_fresh_def books_def token_maps_def)

lemma drop_with_currency [simp]: "drop_currency (with_currency c old e) = e"
  by (cases e) (auto simp: drop_currency_def with_currency_def)

lemma with_currency_tag:
  "with_currency c old e = Some (n, ids, d) \<Longrightarrow> (\<And>m js x. old = Some (m, js, x) \<Longrightarrow> x = c) \<Longrightarrow> d = c"
  by (auto simp: with_currency_def split: option.splits)

lemma put2_row: "put2 a b v m x = (if x = a then (m a)(b := v) else m x)"
  by (simp add: put2_def)

lemma books_agree_at:
  assumes "books_agree s" and "book_agrees c (book_of t c)" and "\<And>d. d \<noteq> c \<Longrightarrow> book_of t d = book_of s d"
  shows "books_agree t"
  using assms unfolding books_agree_def by metis

lemma drop_column_upd:
  "(\<lambda>t. drop_currency ((T(u := with_currency c old e)) t)) = (\<lambda>t. drop_currency (T t))(u := e)"
  by auto

lemma books_sub:
  assumes up: "update_unlock_ledger C who c n i u how OpSub s = Inr (removed, t)"
    and r: "token_unlock_ledger s c i = Some r" and who: "who = redeemer r" and u: "u = lock_to r"
    and n: "n \<le> unlock_amount r" and ag: "books_agree s"
  shows "books_agree t"
  using up
proof (cases rule: update_sub_cases)
  case (1 r' ue te)
  with r have [simp]: "r' = r" by simp
  let ?new = "if unlock_amount r \<le> n then None else Some (r\<lparr>unlock_amount := unlock_amount r - n\<rparr>)"
  let ?L = "token_unlock_ledger s c" and ?U = "\<lambda>who. user_unlock_ledger s who c"
    and ?T = "\<lambda>t. time_unit_unlock_ledger s t c"
  from ag have A: "finite (dom ?L)" "unlocking_total s c = locked_by ?L (\<lambda>_. True)"
    "index_agrees redeemer ?L ?U" "index_agrees lock_to ?L (\<lambda>t. drop_currency (?T t))"
    "\<And>t m ids d. ?T t = Some (m, ids, d) \<Longrightarrow> d = c"
    by (simp_all add: books_agree_def book_of_def)
  have t: "book_of t c = (?L(i := ?new), unlocking_total s c - n, ?U(who := ue),
      ?T(u := with_currency c (?T u) te))"
    by (auto simp: 1(2,6) book_of_def put2_apply put2_row fun_eq_iff)
  have "finite (dom (?L(i := ?new)))"
    by (rule finite_subset [of _ "insert i (dom ?L)"]) (use A(1) in \<open>auto split: if_splits\<close>)
  moreover have "unlocking_total s c - n = locked_by (?L(i := ?new)) (\<lambda>_. True)"
    using locked_by_upd [OF A(1), of i ?new "\<lambda>_. True"] A(2) r n by (auto split: if_splits)
  moreover have "index_agrees redeemer (?L(i := ?new)) (?U(who := ue))"
    using by_user.sub_agrees [OF A(3) A(1) r n] 1(2,3) who by simp
  moreover have "index_agrees lock_to (?L(i := ?new)) ((\<lambda>t. drop_currency (?T t))(u := te))"
    using by_time.sub_agrees [OF A(4) A(1) r n] 1(2,4) u by simp
  moreover have "(?T(u := with_currency c (?T u) te)) v = Some (m, ids, d) \<Longrightarrow> d = c" for v m ids d
    using A(5) by (auto split: if_splits dest: with_currency_tag)
  ultimately have "book_agrees c (book_of t c)"
    by (simp only: t book_agrees.simps drop_column_upd) blast
  with ag show ?thesis
    by (rule books_agree_at) (auto simp: 1(6) book_of_def put2_apply put2_row fun_eq_iff)
qed

lemma books_add:
  assumes up: "update_unlock_ledger C who c n i u (Some h) OpAdd s = Inr (removed, t)"
    and new: "token_unlock_ledger s c i = None" and ag: "books_agree s"
  shows "books_agree t"
  using up
proof (cases rule: update_add_cases)
  case (1 h' ue te)
  let ?r = "\<lparr>redeemer = who, unlock_amount = n, lock_to = u, redeem_how = h'\<rparr>"
  let ?L = "token_unlock_ledger s c" and ?U = "\<lambda>who. user_unlock_ledger s who c"
    and ?T = "\<lambda>t. time_unit_unlock_ledger s t c"
  from ag have A: "finite (dom ?L)" "unlocking_total s c = locked_by ?L (\<lambda>_. True)"
    "index_agrees redeemer ?L ?U" "index_agrees lock_to ?L (\<lambda>t. drop_currency (?T t))"
    "\<And>t m ids d. ?T t = Some (m, ids, d) \<Longrightarrow> d = c"
    by (simp_all add: books_agree_def book_of_def)
  have t: "book_of t c = (?L(i \<mapsto> ?r), unlocking_total s c + n, ?U(who \<mapsto> ue),
      ?T(u := with_currency c (?T u) (Some te)))"
    by (auto simp: 1(6) book_of_def put2_apply put2_row fun_eq_iff)
  have "finite (dom (?L(i \<mapsto> ?r)))" using A(1) by simp
  moreover have "unlocking_total s c + n = locked_by (?L(i \<mapsto> ?r)) (\<lambda>_. True)"
    using locked_by_upd [OF A(1), of i "Some ?r" "\<lambda>_. True"] A(2) new by simp
  moreover have "index_agrees redeemer (?L(i \<mapsto> ?r)) (?U(who \<mapsto> ue))"
    using by_user.add_agrees [OF A(3) A(1) new, of _ ?r ue] 1(3) by simp
  moreover have "index_agrees lock_to (?L(i \<mapsto> ?r)) ((\<lambda>t. drop_currency (?T t))(u \<mapsto> te))"
    using by_time.add_agrees [OF A(4) A(1) new, of _ ?r te] 1(4) by simp
  moreover have "(?T(u := with_currency c (?T u) (Some te))) v = Some (m, ids, d) \<Longrightarrow> d = c" for v m ids d
    using A(5) by (auto split: if_splits dest: with_currency_tag)
  ultimately have "book_agrees c (book_of t c)"
    by (simp only: t book_agrees.simps drop_column_upd) blast
  with ag show ?thesis
    by (rule books_agree_at) (auto simp: 1(6) book_of_def put2_apply put2_row fun_eq_iff)
qed

end
