(* ===== verification/Minting_Runs.thy ===== *)
theory Minting_Runs
  imports Minting_Unlocks
begin

text \<open>
  What each action of the liquid staking pallet does to its books and its token maps, and the invariants of
  its runs: the books agree on careful runs, and the two token maps are inverse to each other on all runs.
\<close>

section \<open>Operations that leave the books and the maps alone\<close>

definition quiet :: "'l minting_state \<Rightarrow> 'l minting_state \<Rightarrow> bool" where
  "quiet s t \<longleftrightarrow> books t = books s \<and> token_maps t = token_maps s"

named_theorems quiet_intros \<open>operations that leave the books and the maps alone\<close>

lemma books_quiet_refl [simp]: "quiet s s"
  by (simp add: quiet_def)

lemma books_quiet_trans: "quiet s t \<Longrightarrow> quiet t u \<Longrightarrow> quiet s u"
  by (simp add: quiet_def)

lemma quiet_outside [simp]: "quiet s (t\<lparr>outside := l\<rparr>) = quiet s t"
  by (simp add: quiet_def books_def token_maps_def)

lemma quiet_emit [simp]: "quiet s (emit_minting e t) = quiet s t"
  by (simp add: quiet_def books_def token_maps_def emit_minting_def)

lemma mint_without_transfer_quiet [quiet_intros]:
  assumes "mint_without_transfer F C who v c n s = Inr ((net, va, fee), t)"
  shows "quiet s t"
  using assms by (rule mint_without_transfer_cases) (simp add: quiet_def books_def token_maps_def emit_minting_def)

lemma vmint_quiet [quiet_intros]:
  assumes "do_vmint F C who c n remark channel s = Inr (r, t)"
  shows "quiet s t"
proof -
  obtain v va where r: "r = (v, va)" by (cases r)
  from assms[unfolded r] show ?thesis
    by (rule vmint_cases) (auto dest: mint_without_transfer_quiet)
qed

lemma token_pool_quiet [quiet_intros]: "update_token_pool c n op s = Inr t \<Longrightarrow> quiet s t"
  by (erule token_pool_cases) (simp add: quiet_def books_def token_maps_def)

lemma issuance_quiet [quiet_intros]: "set_v_currency_issuance_inner v a s = Inr t \<Longrightarrow> quiet s t"
  by (erule issuance_cases) (simp add: quiet_def books_def token_maps_def emit_minting_def)

lemma add_to_rebond_quiet [quiet_intros]: "add_to_rebond c n s = Inr t \<Longrightarrow> quiet s t"
  by (auto simp: add_to_rebond_def result_simps quiet_def books_def token_maps_def)

lemma lock_quiet [quiet_intros]:
  "lock_vtoken_for_incentive_minting C now who v n s = Inr t \<Longrightarrow> quiet s t"
  by (erule lock_vtoken_cases) (simp add: quiet_def books_def token_maps_def)

lemma mint_with_lock_quiet [quiet_intros]:
  assumes "mint_with_lock F C now o1 c n remark channel s = Inr t"
  shows "quiet s t"
  using assms
proof (rule mint_with_lock_cases)
  fix who v w m s1 s2 reward l e
  assume "do_vmint F C who c n remark channel s = Inr ((w, m), s1)"
    and "lock_vtoken_for_incentive_minting C now who v m s1 = Inr s2"
    and t: "t = emit_minting (IncentivizedMinting who c n m reward) (s2\<lparr>outside := l\<rparr>)"
  then have "quiet s s1" "quiet s1 s2" by (auto intro: vmint_quiet lock_quiet)
  then show "quiet s t" by (simp add: t books_quiet_trans)
qed

lemma unlock_incentive_quiet [quiet_intros]:
  "unlock_incentive_minted_vtoken C now o1 v s = Inr t \<Longrightarrow> quiet s t"
  by (erule unlock_incentive_cases) (simp add: quiet_def books_def token_maps_def)

section \<open>Sound states\<close>

definition sound_books :: "'l minting_state \<Rightarrow> bool" where
  "sound_books s \<longleftrightarrow> books_agree s \<and> ids_fresh s"

lemma quiet_sound_iff:
  assumes "quiet s t"
  shows "sound_books t = sound_books s"
proof -
  from assms have "books t = books s" "token_maps t = token_maps s" by (simp_all add: quiet_def)
  from books_agree_cong [OF this(1)] ids_fresh_cong [OF this] show ?thesis
    by (simp only: sound_books_def)
qed

lemma books_quiet_sound: "quiet s t \<Longrightarrow> sound_books s \<Longrightarrow> sound_books t"
  by (simp only: quiet_sound_iff)

lemma sound_outside [simp]: "sound_books (s\<lparr>outside := l\<rparr>) = sound_books s"
  by (rule quiet_sound_iff) simp

lemma sound_emit [simp]: "sound_books (emit_minting e s) = sound_books s"
  by (rule quiet_sound_iff) simp

text \<open>Taking from a record keeps the maps, the counters and every record's owner and time.\<close>

definition shrinks :: "'l minting_state \<Rightarrow> 'l minting_state \<Rightarrow> bool" where
  "shrinks s t \<longleftrightarrow> token_maps t = token_maps s \<and> token_unlock_next_id t = token_unlock_next_id s \<and>
     (\<forall>c i r. token_unlock_ledger t c i = Some r \<longrightarrow>
        (\<exists>r'. token_unlock_ledger s c i = Some r' \<and> redeemer r = redeemer r' \<and> lock_to r = lock_to r'))"

lemma sub_shrinks:
  assumes "update_unlock_ledger C who c n i u how OpSub s = Inr (removed, t)"
  shows "shrinks s t"
  using assms
proof (cases rule: update_sub_cases)
  case (1 r ue te)
  then show ?thesis
    by (auto simp: shrinks_def token_maps_def put2_apply)
qed

lemma shrinks_fresh: "shrinks s t \<Longrightarrow> ids_fresh s \<Longrightarrow> ids_fresh t"
  by (auto simp: shrinks_def ids_fresh_def token_maps_def) (metis not_None_eq)

lemma sub_sound:
  assumes "update_unlock_ledger C who c n i u how OpSub s = Inr (removed, t)"
    and "token_unlock_ledger s c i = Some r" and "who = redeemer r" and "u = lock_to r"
    and "n \<le> unlock_amount r" and "sound_books s"
  shows "sound_books t"
  using books_sub [OF assms(1-5)] shrinks_fresh [OF sub_shrinks [OF assms(1)]] assms(6)
  by (simp add: sound_books_def)

section \<open>Redeeming, rebonding, paying out\<close>

lemma add_sound:
  assumes up: "update_unlock_ledger C who c n i u (Some h) OpAdd s = Inr (removed, s1)"
    and v: "token_to_vtoken_map s c = Some v" and i: "i = token_unlock_next_id s v" and s: "sound_books s"
    and t: "t = s1\<lparr>token_unlock_next_id := (token_unlock_next_id s)(v := i + 1)\<rparr>"
  shows "sound_books t"
proof -
  from s v i have "token_unlock_ledger s c i = None"
    unfolding sound_books_def ids_fresh_def by (metis less_irrefl)
  with up s have "books_agree s1" by (auto simp: sound_books_def intro: books_add)
  moreover have "book_of t = book_of s1" by (simp add: t book_of_def fun_eq_iff)
  ultimately have "books_agree t" by (simp add: books_agree_def)
  moreover have "ids_fresh t"
    using up
  proof (cases rule: update_add_cases)
    case (1 h ue te)
    show ?thesis
      unfolding ids_fresh_def
    proof (intro allI impI)
      fix d w j assume w: "token_to_vtoken_map t d = Some w" and j: "token_unlock_ledger t d j \<noteq> None"
      have m: "token_to_vtoken_map t = token_to_vtoken_map s" by (simp add: t 1(6))
      show "j < token_unlock_next_id t w"
      proof (cases "d = c \<and> j = i")
        case True
        with v w show ?thesis by (simp add: m) (simp add: t)
      next
        case False
        with j have "token_unlock_ledger s d j \<noteq> None" by (auto simp: t 1(6) put2_apply)
        with s w have "j < token_unlock_next_id s w" by (simp add: m sound_books_def ids_fresh_def)
        then show ?thesis by (auto simp add: t i)
      qed
    qed
  qed
  ultimately show ?thesis by (simp add: sound_books_def)
qed

lemma vredeem_sound:
  assumes red: "do_vredeem F C who w v n how s = Inr t"
    and own: "\<And>c. redeem_currency s w v = Inr c \<Longrightarrow> token_to_vtoken_map s c = Some v"
    and s: "sound_books s"
  shows "sound_books t"
  using red
proof (cases rule: vredeem_cases)
  case (1 c fee net amount now duration u l1 l2 s1 w')
  have q: "quiet s s1" by (simp add: 1(17) quiet_def books_def token_maps_def emit_minting_def)
  from 1(18) show ?thesis
  proof (cases rule: file_redeem_cases)
    case f: (1 s2 l)
    let ?t = "s2\<lparr>token_unlock_next_id := (token_unlock_next_id s1)(v := token_unlock_next_id s1 v + 1)\<rparr>"
    have "token_to_vtoken_map s1 c = Some v"
      using own [OF 1(1)] q by (simp add: quiet_def token_maps_def)
    from f(1) this refl books_quiet_sound [OF q s] have "sound_books ?t" by (rule add_sound) simp
    moreover have "quiet ?t t"
      by (simp add: f(4) quiet_def books_def token_maps_def emit_minting_def)
    ultimately show ?thesis by (metis books_quiet_sound)
  qed
qed

lemma rebond_loop_sound:
  assumes "rebond_loop C who c ids rest s = Inr t" and "sound_books s"
    and "\<And>i r. i \<in> set ids \<Longrightarrow> token_unlock_ledger s c i = Some r \<Longrightarrow> redeemer r = who"
  shows "sound_books t \<and> shrinks s t"
  using assms
proof (induction ids arbitrary: rest s)
  case Nil
  then show ?case by (simp add: shrinks_def)
next
  case (Cons i ids)
  from Cons.prems(1) show ?case
  proof (cases rule: rebond_loop_ConsE)
    case (1 r part rest' removed s1)
    have s1: "sound_books s1"
      by (rule sub_sound [OF 1(4,1)]) (use Cons.prems(2,3) 1(1,2) in auto)
    have sh: "shrinks s s1" using 1(4) by (rule sub_shrinks)
    show ?thesis
    proof (cases removed)
      case True
      have "redeemer x = who" if "j \<in> set ids" "token_unlock_ledger s1 c j = Some x" for j x
        using sh that Cons.prems(3) unfolding shrinks_def by (metis list.set_intros(2))
      with True 1(5) s1 Cons.IH have "sound_books t \<and> shrinks s1 t" by simp
      with sh show ?thesis unfolding shrinks_def by metis
    next
      case False
      with 1(5) s1 sh show ?thesis by simp
    qed
  qed
qed

lemma user_ids_own:
  assumes "sound_books s" and "user_unlock_ledger s who c = Some (m, ids)"
    and "i \<in> set ids" and "token_unlock_ledger s c i = Some r"
  shows "redeemer r = who"
proof -
  have "index_agrees redeemer (token_unlock_ledger s c) (\<lambda>who. user_unlock_ledger s who c)"
    using assms(1) by (simp add: sound_books_def books_agree_def book_of_def)
  from agreesD(2) [OF this, of i who] assms show ?thesis by auto
qed

lemma rebond_sound:
  assumes "rebond F C o1 c n s = Inr t" and s: "sound_books s"
  shows "sound_books t"
  using assms(1)
proof (cases rule: rebond_cases)
  case (1 who v m ids s1 net va fee s2 s3)
  have "sound_books s1"
    using rebond_loop_sound [OF 1(5) s] user_ids_own [OF s 1(3)] by simp
  then have "sound_books s2" by (rule books_quiet_sound [OF mint_without_transfer_quiet [OF 1(6)]])
  then have "sound_books s3" by (rule books_quiet_sound [OF add_to_rebond_quiet [OF 1(7)]])
  then show ?thesis by (simp add: 1(8))
qed

lemma rebond_by_unlock_id_sound:
  assumes "rebond_by_unlock_id F C o1 c i s = Inr t" and s: "sound_books s"
  shows "sound_books t"
  using assms(1)
proof (cases rule: rebond_by_unlock_id_cases)
  case (1 who v r removed s1 net va fee s2 s3)
  have "sound_books s1" by (rule sub_sound [OF 1(5,3)]) (use 1(4) s in simp_all)
  then have "sound_books s2" by (rule books_quiet_sound [OF mint_without_transfer_quiet [OF 1(6)]])
  then have "sound_books s3" by (rule books_quiet_sound [OF add_to_rebond_quiet [OF 1(7)]])
  then show ?thesis by (simp add: 1(8))
qed

lemma process_redeem_sound:
  assumes "process_redeem C c (redeemer r) i (unlock_amount r) balance (lock_to r) how s = Inr t"
    and "token_unlock_ledger s c i = Some r" and "sound_books s"
  shows "sound_books t"
  using assms(1)
proof (cases rule: process_redeem_cases)
  case (unpaid l)
  with assms(3) show ?thesis by simp
next
  case (paid n to l removed s1)
  have "sound_books s1"
    by (rule sub_sound [OF paid(5), of r]) (use assms paid(3) in simp_all)
  then show ?thesis by (simp add: paid(6))
qed

lemma pay_out_sound:
  assumes "pay_out C c ids s = Inr t" and "sound_books s"
  shows "sound_books t"
  using assms
proof (induction ids arbitrary: s)
  case Nil
  then show ?case by simp
next
  case (Cons i ids)
  show ?case
  proof (cases "token_unlock_ledger s c i")
    case None
    with Cons show ?thesis by simp
  next
    case (Some r)
    show ?thesis
    proof (cases "vt_free C s c (entrance_account C) = 0")
      case True
      with Some Cons.prems show ?thesis by simp
    next
      case False
      with Some Cons.prems(1) obtain s1 where
        p: "process_redeem C c (redeemer r) i (unlock_amount r) (vt_free C s c (entrance_account C))
          (lock_to r) (redeem_how r) s = Inr s1" and more: "pay_out C c ids s1 = Inr t"
        by (auto simp: Let_def rbind_eq_Inr)
      from process_redeem_sound [OF p Some Cons.prems(2)] show ?thesis
        by (rule Cons.IH [OF more])
    qed
  qed
qed

lemma advance_quiet [quiet_intros]: "advance_min_time_unit c s = Inr t \<Longrightarrow> quiet s t"
  unfolding advance_min_time_unit_def
  by (elim rbind_InrE) (auto simp: quiet_def books_def token_maps_def split: if_splits)

lemma idle_currency_sound: "sound_books s \<Longrightarrow> sound_books (idle_currency C c s)"
  by (auto simp: idle_currency_def handle_ledger_by_currency_def split: sum.splits option.splits
      intro: pay_out_sound books_quiet_sound [OF advance_quiet])

lemma on_idle_sound: "sound_books s \<Longrightarrow> sound_books (on_idle C w s)"
proof -
  assume s: "sound_books s"
  have "sound_books (fold (idle_currency C) cs s)" for cs
    using s by (induction cs arbitrary: s) (simp_all add: idle_currency_sound)
  with s show ?thesis by (simp add: on_idle_def)
qed

section \<open>The governance\<close>

lemma controlled_Inr: "controlled C o1 r = Inr t \<longleftrightarrow> control_origin C o1 \<and> r = Inr t"
  by (auto simp: controlled_def rbind_eq_Inr ensure_eq_Inr)

lemma rooted_Inr: "rooted o1 r = Inr t \<longleftrightarrow> o1 = Root \<and> r = Inr t"
  by (auto simp: rooted_def rbind_eq_Inr ensure_eq_Inr)

text \<open>The governance calls that touch neither the books nor the maps.\<close>

fun setting_call :: "minting_call \<Rightarrow> bool" where
  "setting_call (Call_mint _ _ _ _) = False"
| "setting_call (Call_redeem _ _ _) = False"
| "setting_call (Call_rebond _ _) = False"
| "setting_call (Call_rebond_by_unlock_id _ _) = False"
| "setting_call (Call_mint_with_lock _ _ _ _) = False"
| "setting_call (Call_unlock_incentive _) = False"
| "setting_call (Call_set_unlocking_total _ _) = False"
| "setting_call (Call_set_vtoken_multimap _ _) = False"
| "setting_call _ = True"

lemmas setting_defs = set_unlock_duration_def set_minimum_mint_def set_minimum_redeem_def
  add_support_rebond_token_def remove_support_rebond_token_def set_fees_def set_hook_iteration_limit_def
  set_min_time_unit_def set_ongoing_time_unit_def set_incentive_coef_def
  set_vtoken_incentive_lock_blocks_def set_v_currency_issuance_def update_ongoing_time_unit_def

lemma setting_quiet: "setting_call k \<Longrightarrow> minting_dispatch F C now o1 k s = Inr t \<Longrightarrow> quiet s t"
  by (cases k)
    (auto simp: setting_defs controlled_Inr rooted_Inr quiet_def books_def token_maps_def emit_minting_def
      elim!: issuance_cases split: option.splits)

lemma forget_tokens_apply: "forget_tokens ts m x = (if x \<in> set ts then None else m x)"
  unfolding forget_tokens_def by (induction ts arbitrary: m) auto

lemma point_tokens_apply: "point_tokens v ts m x = (if x \<in> set ts then Some v else m x)"
  unfolding point_tokens_def by (induction ts arbitrary: m) auto

lemma multimap_cases:
  assumes "set_vtoken_multimap o1 v cs s = Inr t"
  obtains old where "o1 = Root" and "is_vtoken v"
    and "\<And>x. x \<in> set (tokens_of cs) \<Longrightarrow> token_to_vtoken_map s x = None \<or> token_to_vtoken_map s x = Some v"
    and "old = (case vtoken_to_tokens s v of None \<Rightarrow> {} | Some ds \<Rightarrow> set (tokens_of ds))"
    and "vtoken_to_tokens t = (vtoken_to_tokens s)(v := if cs = [] then None else Some cs)"
    and "\<And>x. token_to_vtoken_map t x =
      (if x \<in> set (tokens_of cs) then Some v else if x \<in> old then None else token_to_vtoken_map s x)"
    and "books t = books s"
proof -
  define old where "old = (case vtoken_to_tokens s v of None \<Rightarrow> [] | Some ds \<Rightarrow> tokens_of ds)"
  define s1 where "s1 = (if cs = []
     then s\<lparr>vtoken_to_tokens := (vtoken_to_tokens s)(v := None),
            token_to_vtoken_map := forget_tokens old (token_to_vtoken_map s)\<rparr>
     else s\<lparr>vtoken_to_tokens := (vtoken_to_tokens s)(v := Some cs),
            token_to_vtoken_map := point_tokens v (tokens_of cs)
              (forget_tokens (filter (\<lambda>t. t \<notin> set (tokens_of cs)) old) (token_to_vtoken_map s))\<rparr>)"
  from assms have 1: "o1 = Root" "is_vtoken v"
    "\<forall>c \<in> set cs. token_to_vtoken_map s (config_token c) = None \<or> token_to_vtoken_map s (config_token c) = Some v"
    and t: "t = emit_minting (VTokenMultiMapSet v cs) s1"
    unfolding set_vtoken_multimap_def Let_def rooted_Inr s1_def old_def
    by (auto simp: rbind_eq_Inr ensure_eq_Inr)
  have set_old: "set old = (case vtoken_to_tokens s v of None \<Rightarrow> {} | Some ds \<Rightarrow> set (tokens_of ds))"
    by (simp add: old_def split: option.split)
  show thesis
  proof (rule that [OF 1(1,2)])
    show "set old = (case vtoken_to_tokens s v of None \<Rightarrow> {} | Some ds \<Rightarrow> set (tokens_of ds))"
      by (rule set_old)
    show "x \<in> set (tokens_of cs) \<Longrightarrow> token_to_vtoken_map s x = None \<or> token_to_vtoken_map s x = Some v" for x
      using 1(3) by (auto simp: tokens_of_def)
    show "vtoken_to_tokens t = (vtoken_to_tokens s)(v := if cs = [] then None else Some cs)"
      by (simp add: t s1_def emit_minting_def)
    show "token_to_vtoken_map t x =
        (if x \<in> set (tokens_of cs) then Some v else if x \<in> set old then None else token_to_vtoken_map s x)" for x
      by (simp add: t s1_def emit_minting_def point_tokens_apply forget_tokens_apply tokens_of_def)
    show "books t = books s"
      by (simp add: t s1_def emit_minting_def books_def)
  qed
qed

section \<open>The two token maps\<close>

definition maps_inverse :: "'l minting_state \<Rightarrow> bool" where
  "maps_inverse s \<longleftrightarrow>
     (\<forall>x v. token_to_vtoken_map s x = Some v \<longleftrightarrow>
        (\<exists>cs. vtoken_to_tokens s v = Some cs \<and> x \<in> set (tokens_of cs))) \<and>
     (\<forall>v cs. vtoken_to_tokens s v = Some cs \<longrightarrow> is_vtoken v \<and> cs \<noteq> [] \<and> length cs \<le> max_multimap)"

lemma maps_inverse_cong: "token_maps t = token_maps s \<Longrightarrow> maps_inverse t = maps_inverse s"
  by (simp add: maps_inverse_def token_maps_def)

lemma maps_inverseD:
  assumes "maps_inverse s"
  shows "vtoken_to_tokens s v = Some cs \<Longrightarrow> x \<in> set (tokens_of cs) \<Longrightarrow> token_to_vtoken_map s x = Some v"
    and "token_to_vtoken_map s x = Some v \<Longrightarrow> is_vtoken v"
  using assms unfolding maps_inverse_def by blast+

lemma multimap_inverse:
  assumes call: "set_vtoken_multimap o1 v cs s = Inr t" and len: "length cs \<le> max_multimap"
    and inv: "maps_inverse s"
  shows "maps_inverse t"
  using call
proof (cases rule: multimap_cases)
  case (1 old)
  from inv have fwd: "\<And>x w. token_to_vtoken_map s x = Some w \<longleftrightarrow>
      (\<exists>ds. vtoken_to_tokens s w = Some ds \<and> x \<in> set (tokens_of ds))"
    and ok: "\<And>w ds. vtoken_to_tokens s w = Some ds \<Longrightarrow> is_vtoken w \<and> ds \<noteq> [] \<and> length ds \<le> max_multimap"
    by (simp_all add: maps_inverse_def)
  have old: "x \<in> old \<longleftrightarrow> token_to_vtoken_map s x = Some v" for x
    by (auto simp: 1(4) fwd split: option.splits)
  have "token_to_vtoken_map t x = Some w \<longleftrightarrow>
      (\<exists>ds. vtoken_to_tokens t w = Some ds \<and> x \<in> set (tokens_of ds))" for x w
  proof (cases "w = v")
    case True
    then show ?thesis
      using old [of x] by (auto simp: 1(5,6) tokens_of_def)
  next
    case False
    then show ?thesis
      using 1(3) [of x] old [of x] fwd [of x w] by (auto simp: 1(5,6))
  qed
  moreover have "is_vtoken w \<and> ds \<noteq> [] \<and> length ds \<le> max_multimap" if "vtoken_to_tokens t w = Some ds" for w ds
    using that ok [of w ds] 1(2) len by (auto simp: 1(5) split: if_splits)
  ultimately show ?thesis by (simp add: maps_inverse_def)
qed

text \<open>Every action but the call that sets them keeps the token maps.\<close>

lemma quiet_maps: "quiet s t \<Longrightarrow> token_maps t = token_maps s"
  by (simp add: quiet_def)

lemma token_maps_simps [simp]:
  "token_maps (s\<lparr>outside := l\<rparr>) = token_maps s"
  "token_maps (emit_minting e s) = token_maps s"
  "token_maps (s\<lparr>token_unlock_next_id := n\<rparr>) = token_maps s"
  by (simp_all add: token_maps_def emit_minting_def)

lemma shrinks_maps: "shrinks s t \<Longrightarrow> token_maps t = token_maps s"
  by (simp add: shrinks_def)

lemma vredeem_maps:
  assumes "do_vredeem F C who w v n how s = Inr t"
  shows "token_maps t = token_maps s"
  using assms
proof (cases rule: vredeem_cases)
  case (1 c fee net amount now duration u l1 l2 s1 w')
  have "token_maps s1 = token_maps s" by (simp add: 1(17) token_maps_def emit_minting_def)
  moreover from 1(18) have "token_maps t = token_maps s1"
    by (rule file_redeem_cases) (erule update_add_cases, simp add: token_maps_def emit_minting_def)
  ultimately show ?thesis by simp
qed

lemma rebond_loop_shrinks: "rebond_loop C who c ids rest s = Inr t \<Longrightarrow> shrinks s t"
proof (induction ids arbitrary: rest s)
  case Nil
  then show ?case by (simp add: shrinks_def)
next
  case (Cons i ids)
  from Cons.prems show ?case
  proof (cases rule: rebond_loop_ConsE)
    case (1 r part rest' removed s1)
    have sh: "shrinks s s1" using 1(4) by (rule sub_shrinks)
    have "shrinks s1 t" using 1(5) Cons.IH by (cases removed) (auto simp: shrinks_def)
    with sh show ?thesis unfolding shrinks_def by metis
  qed
qed

lemma rebond_maps:
  assumes "rebond F C o1 c n s = Inr t"
  shows "token_maps t = token_maps s"
  using assms
proof (cases rule: rebond_cases)
  case (1 who v m ids s1 net va fee s2 s3)
  show ?thesis
    using shrinks_maps [OF rebond_loop_shrinks [OF 1(5)]] quiet_maps [OF mint_without_transfer_quiet [OF 1(6)]]
      quiet_maps [OF add_to_rebond_quiet [OF 1(7)]] by (simp add: 1(8))
qed

lemma rebond_by_unlock_id_maps:
  assumes "rebond_by_unlock_id F C o1 c i s = Inr t"
  shows "token_maps t = token_maps s"
  using assms
proof (cases rule: rebond_by_unlock_id_cases)
  case (1 who v r removed s1 net va fee s2 s3)
  show ?thesis
    using shrinks_maps [OF sub_shrinks [OF 1(5)]] quiet_maps [OF mint_without_transfer_quiet [OF 1(6)]]
      quiet_maps [OF add_to_rebond_quiet [OF 1(7)]] by (simp add: 1(8))
qed

lemma process_redeem_maps:
  assumes "process_redeem C c who i n balance u how s = Inr t"
  shows "token_maps t = token_maps s"
  using assms
proof (cases rule: process_redeem_cases)
  case (paid m to l removed s1)
  show ?thesis using shrinks_maps [OF sub_shrinks [OF paid(5)]] by (simp add: paid(6))
qed simp

lemma pay_out_maps: "pay_out C c ids s = Inr t \<Longrightarrow> token_maps t = token_maps s"
  by (induction ids arbitrary: s)
    (auto simp: Let_def rbind_eq_Inr dest: process_redeem_maps split: option.splits if_splits)

lemma idle_currency_maps: "token_maps (idle_currency C c s) = token_maps s"
  by (auto simp: idle_currency_def handle_ledger_by_currency_def split: sum.splits option.splits
      intro: pay_out_maps quiet_maps [OF advance_quiet])

lemma on_idle_maps: "token_maps (on_idle C w s) = token_maps s"
proof -
  have "token_maps (fold (idle_currency C) cs s) = token_maps s" for cs
    by (induction cs arbitrary: s) (simp_all add: idle_currency_maps)
  then show ?thesis by (simp add: on_idle_def)
qed

fun sets_multimap :: "'l minting_action \<Rightarrow> bool" where
  "sets_multimap (Act_call now o1 (Call_set_vtoken_multimap v cs)) = True"
| "sets_multimap _ = False"

lemma set_unlocking_total_maps: "set_unlocking_total C o1 c n s = Inr t \<Longrightarrow> token_maps t = token_maps s"
  by (auto simp: set_unlocking_total_def controlled_Inr update_unlocking_total_def rbind_eq_Inr token_maps_def
      emit_minting_def)

lemma vmint_call_quiet [quiet_intros]: "vmint_call F C o1 c n r ch s = Inr t \<Longrightarrow> quiet s t"
  unfolding vmint_call_def by (elim rbind_elims) (auto dest: vmint_quiet)

lemma vredeem_call_maps: "vredeem_call F C o1 w v n s = Inr t \<Longrightarrow> token_maps t = token_maps s"
  unfolding vredeem_call_def by (elim rbind_InrE) (rule vredeem_maps)

fun redeems :: "minting_hook \<Rightarrow> bool" where
  "redeems (Hook_slpx_redeem who w v n how) = True"
| "redeems _ = False"

lemma ongoing_quiet: "quiet s (update_ongoing_time_unit C c u s)"
  by (simp add: quiet_def books_def token_maps_def update_ongoing_time_unit_def)

lemma hook_quiet:
  assumes "minting_hook_run F C h s = Inr t" and "\<not> redeems h"
  shows "quiet s t"
proof (cases h)
  case (Hook_mint who c n r ch)
  with assms(1) show ?thesis by (auto simp: rbind_eq_Inr dest: vmint_quiet)
qed (use assms in \<open>auto simp: ongoing_quiet dest: token_pool_quiet issuance_quiet\<close>)

lemma act_maps:
  assumes "minting_act F C a s = Inr t" and "\<not> sets_multimap a"
  shows "token_maps t = token_maps s"
proof (cases a)
  case (Act_call now o1 k)
  show ?thesis
  proof (cases "setting_call k")
    case True
    with assms(1) Act_call show ?thesis by (auto intro: quiet_maps setting_quiet)
  next
    case False
    with assms Act_call show ?thesis
      by (cases k) (auto intro: vredeem_call_maps rebond_maps rebond_by_unlock_id_maps set_unlocking_total_maps
          quiet_maps vmint_call_quiet mint_with_lock_quiet unlock_incentive_quiet)
  qed
next
  case (Act_hook h)
  show ?thesis
  proof (cases "redeems h")
    case True
    with assms(1) Act_hook show ?thesis
      by (cases h rule: redeems.cases) (auto dest: vredeem_maps)
  next
    case False
    with assms(1) Act_hook show ?thesis by (auto intro: quiet_maps hook_quiet)
  qed
qed (use assms in \<open>auto simp: on_idle_maps\<close>)

lemma act_inverse:
  assumes "minting_act F C a s = Inr t" and "action_ok a" and "maps_inverse s"
  shows "maps_inverse t"
proof (cases "sets_multimap a")
  case True
  then obtain now o1 v cs where "a = Act_call now o1 (Call_set_vtoken_multimap v cs)"
    by (cases a rule: sets_multimap.cases) auto
  with assms show ?thesis by (auto intro: multimap_inverse)
next
  case False
  from maps_inverse_cong [OF act_maps [OF assms(1) this]] assms(3) show ?thesis by simp
qed

lemma runs_inverse: "minting_runs P F C s \<Longrightarrow> maps_inverse s"
proof (induction rule: minting_runs.induct)
  case (start l)
  show ?case by (simp add: maps_inverse_def initial_minting_def)
next
  case (step s a t)
  then show ?case by (blast intro: act_inverse)
qed

section \<open>Careful runs\<close>

text \<open>
  A redemption is of a token that the vToken is mapped to; the governance maps a token to another vToken only
  while nothing of it is unlocking, and never overwrites a total.
\<close>

definition own_token :: "'l minting_state \<Rightarrow> currency option \<Rightarrow> currency \<Rightarrow> bool" where
  "own_token s w v =
     (case redeem_currency s w v of Inl _ \<Rightarrow> True | Inr c \<Rightarrow> token_to_vtoken_map s c = Some v)"

fun careful :: "'l minting_state \<Rightarrow> 'l minting_action \<Rightarrow> bool" where
  "careful s (Act_call now o1 (Call_redeem w v n)) = own_token s w v"
| "careful s (Act_call now o1 (Call_set_unlocking_total c n)) = False"
| "careful s (Act_call now o1 (Call_set_vtoken_multimap v cs)) =
     (\<forall>x \<in> set (tokens_of cs). token_to_vtoken_map s x = Some v \<or> token_unlock_ledger s x = (\<lambda>_. None))"
| "careful s (Act_hook (Hook_slpx_redeem who w v n how)) = own_token s w v"
| "careful s _ = True"

lemma own_tokenD: "own_token s w v \<Longrightarrow> redeem_currency s w v = Inr c \<Longrightarrow> token_to_vtoken_map s c = Some v"
  by (simp add: own_token_def)

lemma multimap_sound:
  assumes call: "set_vtoken_multimap o1 v cs s = Inr t"
    and care: "\<forall>x \<in> set (tokens_of cs). token_to_vtoken_map s x = Some v \<or> token_unlock_ledger s x = (\<lambda>_. None)"
    and s: "sound_books s"
  shows "sound_books t"
  using call
proof (cases rule: multimap_cases)
  case (1 old)
  from s have "books_agree t" by (simp add: sound_books_def books_agree_cong [OF 1(7)])
  moreover have "ids_fresh t"
    unfolding ids_fresh_def
  proof (intro allI impI)
    fix x w i assume w: "token_to_vtoken_map t x = Some w" and i: "token_unlock_ledger t x i \<noteq> None"
    from 1(7) have eq: "token_unlock_ledger t = token_unlock_ledger s"
      "token_unlock_next_id t = token_unlock_next_id s" by (simp_all add: books_def)
    have "token_to_vtoken_map s x = Some w"
      using w i care by (auto simp: 1(6) eq split: if_splits)
    with s i show "i < token_unlock_next_id t w" by (simp add: eq sound_books_def ids_fresh_def)
  qed
  ultimately show ?thesis by (simp add: sound_books_def)
qed

lemma vredeem_own_sound:
  "do_vredeem F C who w v n how s = Inr t \<Longrightarrow> own_token s w v \<Longrightarrow> sound_books s \<Longrightarrow> sound_books t"
  by (rule vredeem_sound) (auto dest: own_tokenD)

lemma act_sound:
  assumes "minting_act F C a s = Inr t" and "careful s a" and "sound_books s"
  shows "sound_books t"
proof (cases a)
  case (Act_call now o1 k)
  show ?thesis
  proof (cases "setting_call k")
    case True
    with assms(1,3) Act_call show ?thesis by (auto intro: books_quiet_sound setting_quiet)
  next
    case False
    with assms Act_call show ?thesis
      by (cases k) (auto simp: vredeem_call_def rbind_eq_Inr
          intro: vredeem_own_sound rebond_sound rebond_by_unlock_id_sound multimap_sound
          books_quiet_sound vmint_call_quiet mint_with_lock_quiet unlock_incentive_quiet)
  qed
next
  case (Act_hook h)
  show ?thesis
  proof (cases "redeems h")
    case True
    with assms Act_hook show ?thesis
      by (cases h rule: redeems.cases) (auto intro: vredeem_own_sound)
  next
    case False
    with assms(1,3) Act_hook show ?thesis by (auto intro: books_quiet_sound hook_quiet)
  qed
qed (use assms in \<open>auto simp: on_idle_sound\<close>)

lemma initial_sound: "sound_books (initial_minting l)"
  by (simp add: sound_books_def books_agree_def ids_fresh_def initial_minting_def book_of_def
      by_user.empty_agrees by_time.empty_agrees drop_currency_def)

lemma careful_runs_sound: "minting_runs careful F C s \<Longrightarrow> sound_books s"
  by (induction rule: minting_runs.induct) (auto intro: initial_sound act_sound)

end
