(* ===== verification/Minting_Rate.thy ===== *)
theory Minting_Rate
  imports Minting_Runs
begin

text \<open>
  What minting, redeeming and rebonding do to the pool and the issuance of a vToken and to the balances, on any
  ledger with the documented laws; and from that, that no action of a user lowers the backing of a vToken.
\<close>

section \<open>The pool and the issuance\<close>

definition rates :: "'l minting_state \<Rightarrow> (currency \<Rightarrow> nat) \<times> (currency \<Rightarrow> nat)" where
  "rates s = (token_pool s, vtoken_issuance s)"

text \<open>The pool per unit of issuance does not fall, without dividing.\<close>

definition backing_kept :: "'l minting_state \<Rightarrow> 'l minting_state \<Rightarrow> bool" where
  "backing_kept s t \<longleftrightarrow>
     (\<forall>v. token_pool s v * vtoken_issuance t v \<le> token_pool t v * vtoken_issuance s v)"

lemma rates_simps [simp]:
  "rates (s\<lparr>outside := l\<rparr>) = rates s" "rates (emit_minting e s) = rates s"
  "rates (s\<lparr>token_unlock_next_id := n\<rparr>) = rates s" "rates (s\<lparr>vtoken_lock_ledger := m\<rparr>) = rates s"
  "rates (s\<lparr>token_to_rebond := q\<rparr>) = rates s"
  by (simp_all add: rates_def emit_minting_def)

lemma backing_same: "rates t = rates s \<Longrightarrow> backing_kept s t"
  by (simp add: rates_def backing_kept_def)

lemma backing_cong: "rates s' = rates s \<Longrightarrow> rates t' = rates t \<Longrightarrow> backing_kept s t \<Longrightarrow> backing_kept s' t'"
  by (simp add: rates_def backing_kept_def)

lemma backing_at:
  assumes "token_pool t = (token_pool s)(v := P')" and "vtoken_issuance t = (vtoken_issuance s)(v := I')"
    and "token_pool s v * I' \<le> P' * vtoken_issuance s v"
  shows "backing_kept s t"
  using assms by (simp add: backing_kept_def)

lemma mint_keeps_backing:
  fixes P I net va :: nat
  assumes "va = (if P = 0 then net else net * I div P)"
  shows "P * (I + va) \<le> (P + net) * I"
proof -
  have "P * va \<le> net * I" using assms by (cases "P = 0") simp_all
  then show ?thesis by (simp add: algebra_simps)
qed

lemma redeem_keeps_backing:
  fixes P I net a :: nat
  assumes a: "a = (if I = 0 then net else net * P div I)" and net: "net \<le> I" and "a \<le> P"
  shows "P * (I - net) \<le> (P - a) * I"
proof -
  have "a * I \<le> net * P" using a net by (cases "I = 0") simp_all
  then have "P * I - net * P \<le> P * I - a * I" by (rule diff_le_mono2)
  then show ?thesis by (simp add: diff_mult_distrib diff_mult_distrib2 mult.commute)
qed

text \<open>Minting and then redeeming what was minted gives back at most what was put in.\<close>

lemma mint_redeem_le:
  fixes P I net va :: nat
  assumes va: "va = (if P = 0 then net else net * I div P)"
  shows "(if I + va = 0 then va else va * (P + net) div (I + va)) \<le> net"
proof -
  have "P * va \<le> net * I" using va by (cases "P = 0") simp_all
  then have "va * (P + net) \<le> net * (I + va)" by (simp add: algebra_simps)
  then have "va * (P + net) div (I + va) \<le> net * (I + va) div (I + va)" by (rule div_le_mono)
  also have "\<dots> \<le> net" by simp
  finally show ?thesis by simp
qed

section \<open>Effects\<close>

lemma update_rates: "update_unlock_ledger C who c n i u how OpSub s = Inr (b, t) \<Longrightarrow> rates t = rates s"
  by (erule update_sub_cases) (simp add: rates_def)

lemma update_add_rates: "update_unlock_ledger C who c n i u how OpAdd s = Inr (b, t) \<Longrightarrow> rates t = rates s"
  by (erule update_add_cases) (simp add: rates_def)

lemma own_pool: "token_to_vtoken_map s c = Some v \<Longrightarrow> get_token_pool s c = token_pool s v"
  by (simp add: get_token_pool_def get_vtoken_for_token_def)

lemma rebond_loop_rates: "rebond_loop C who c ids rest s = Inr t \<Longrightarrow> rates t = rates s"
proof (induction ids arbitrary: rest s)
  case Nil
  then show ?case by simp
next
  case (Cons i ids)
  from Cons.prems show ?case
  proof (cases rule: rebond_loop_ConsE)
    case (1 r part rest' removed s1)
    from update_rates [OF 1(4)] 1(5) Cons.IH show ?thesis by (cases removed) auto
  qed
qed

lemma process_redeem_rates: "process_redeem C c who i n balance u how s = Inr t \<Longrightarrow> rates t = rates s"
  by (erule process_redeem_cases) (auto dest!: update_rates)

lemma pay_out_rates: "pay_out C c ids s = Inr t \<Longrightarrow> rates t = rates s"
  by (induction ids arbitrary: s)
    (auto simp: Let_def rbind_eq_Inr dest: process_redeem_rates split: option.splits if_splits)

lemma advance_rates: "advance_min_time_unit c s = Inr t \<Longrightarrow> rates t = rates s"
  unfolding advance_min_time_unit_def
  by (elim rbind_InrE) (auto simp: rates_def split: if_splits)

lemma idle_currency_rates: "rates (idle_currency C c s) = rates s"
  by (auto simp: idle_currency_def handle_ledger_by_currency_def split: sum.splits option.splits
      intro: pay_out_rates advance_rates)

lemma on_idle_rates: "rates (on_idle C w s) = rates s"
proof -
  have "rates (fold (idle_currency C) cs s) = rates s" for cs
    by (induction cs arbitrary: s) (simp_all add: idle_currency_rates)
  then show ?thesis by (simp add: on_idle_def)
qed

fun sets_issuance :: "minting_call \<Rightarrow> bool" where
  "sets_issuance (Call_set_v_currency_issuance v a) = True"
| "sets_issuance _ = False"

lemma setting_rates:
  "setting_call k \<Longrightarrow> \<not> sets_issuance k \<Longrightarrow> minting_dispatch F C now o1 k s = Inr t \<Longrightarrow> rates t = rates s"
  by (cases k)
    (auto simp: setting_defs controlled_Inr rooted_Inr rates_def emit_minting_def split: option.splits)

lemma unlock_incentive_rates: "unlock_incentive_minted_vtoken C now o1 v s = Inr t \<Longrightarrow> rates t = rates s"
  by (erule unlock_incentive_cases) simp

lemma unlocking_total_rates: "set_unlocking_total C o1 c n s = Inr t \<Longrightarrow> rates t = rates s"
  by (auto simp: set_unlocking_total_def controlled_Inr update_unlocking_total_def rbind_eq_Inr rates_def
      emit_minting_def)

lemma multimap_rates: "set_vtoken_multimap o1 v cs s = Inr t \<Longrightarrow> rates t = rates s"
  by (auto simp: set_vtoken_multimap_def rooted_Inr Let_def rbind_eq_Inr rates_def emit_minting_def)

lemma ongoing_rates: "rates (update_ongoing_time_unit C c u s) = rates s"
  by (simp add: rates_def update_ongoing_time_unit_def)

lemma increase_backing: "update_token_pool c n OpAdd s = Inr t \<Longrightarrow> backing_kept s t"
  by (erule token_pool_cases) (auto simp: backing_kept_def apply_add_Inr)

text \<open>
  The actions that may lower a backing are those of the staking pallets and the root that say so, and a
  redemption of a token that is mapped to another vToken.
\<close>

fun fair :: "'l minting_state \<Rightarrow> 'l minting_action \<Rightarrow> bool" where
  "fair s (Act_call now o1 (Call_redeem w v n)) = own_token s w v"
| "fair s (Act_call now o1 (Call_set_v_currency_issuance v a)) = False"
| "fair s (Act_hook (Hook_slpx_redeem who w v n how)) = own_token s w v"
| "fair s (Act_hook (Hook_decrease_token_pool c n)) = False"
| "fair s (Act_hook (Hook_set_issuance v a)) = False"
| "fair s _ = True"

context staking_ledger
begin

abbreviation balance_in :: "'l minting_state \<Rightarrow> currency \<Rightarrow> account \<Rightarrow> nat" where
  "balance_in s \<equiv> mc_free (mt_currencies C) (outside s)"

lemma pool_mint_effect:
  assumes m: "mint_without_transfer F C who v c n s = Inr ((net, va, fee), t)"
    and own: "token_to_vtoken_map s c = Some v"
  shows "fee = perm_mul_floor F (fst (mint_redeem_fees s)) n \<and> fee \<le> n \<and> net = n - fee \<and>
      va = (if token_pool s v = 0 then net else net * vtoken_issuance s v div token_pool s v) \<and>
      token_pool t = (token_pool s)(v := token_pool s v + net) \<and>
      vtoken_issuance t = (vtoken_issuance s)(v := vtoken_issuance s v + va) \<and>
      balance_in t d x + paid c who fee d x =
        balance_in s d x + paid c (mint_fee_account C) fee d x + paid v who va d x"
  using m
proof (cases rule: mint_without_transfer_cases)
  case (1 w l1 l2)
  from 1(7) own have [simp]: "w = v" by simp
  have "va = (if token_pool s v = 0 then net else net * vtoken_issuance s v div token_pool s v)"
    using 1(5) by (auto simp: v_amount_Inr own_pool [OF own] split: if_splits)
  moreover have "balance_in t d x + paid c who fee d x =
      balance_in s d x + paid c (mint_fee_account C) fee d x + paid v who va d x"
    using flow [OF 1(4), of d x] deposit_flow [OF 1(6), of d x] by (simp add: 1(12) emit_minting_def)
  moreover have "token_pool t = (token_pool s)(v := token_pool s v + net)"
    "vtoken_issuance t = (vtoken_issuance s)(v := vtoken_issuance s v + va)"
    by (simp_all add: 1(12) emit_minting_def)
  ultimately show ?thesis using 1(1-3) by simp
qed

lemma mint_backing:
  assumes "mint_without_transfer F C who v c n s = Inr ((net, va, fee), t)"
    and "token_to_vtoken_map s c = Some v"
  shows "backing_kept s t"
proof -
  from pool_mint_effect [OF assms]
  have va: "va = (if token_pool s v = 0 then net else net * vtoken_issuance s v div token_pool s v)"
    and "token_pool t = (token_pool s)(v := token_pool s v + net)"
    and "vtoken_issuance t = (vtoken_issuance s)(v := vtoken_issuance s v + va)" by blast+
  from this(2,3) mint_keeps_backing [OF va] show ?thesis by (rule backing_at)
qed

lemma vmint_effect:
  assumes m: "do_vmint F C who c n remark ch s = Inr ((v, va), t)"
  shows "\<exists>fee net. fee = perm_mul_floor F (fst (mint_redeem_fees s)) n \<and> fee \<le> n \<and> net = n - fee \<and>
      va = (if token_pool s v = 0 then net else net * vtoken_issuance s v div token_pool s v) \<and>
      token_pool t = (token_pool s)(v := token_pool s v + net) \<and>
      vtoken_issuance t = (vtoken_issuance s)(v := vtoken_issuance s v + va) \<and>
      (\<forall>d x. balance_in t d x + paid c who n d x = balance_in s d x +
         paid c (mint_fee_account C) fee d x + paid c (entrance_account C) net d x + paid v who va d x)"
  using m
proof (cases rule: vmint_cases)
  case (1 net fee s1 l1 l2)
  note e = pool_mint_effect [OF 1(3,2)]
  have le: "fee \<le> n" "net = n - fee" using e by blast+
  then have n: "n = fee + net" by simp
  have "\<forall>d x. balance_in t d x + paid c who n d x = balance_in s d x +
      paid c (mint_fee_account C) fee d x + paid c (entrance_account C) net d x + paid v who va d x"
  proof (intro allI)
    fix d x
    have "balance_in t d x = mc_free (mt_currencies C) l1 d x"
      by (simp add: 1(6) emit_minting_def record_mint_keeps [OF 1(5)])
    moreover have "balance_in s1 d x + paid c who fee d x =
        balance_in s d x + paid c (mint_fee_account C) fee d x + paid v who va d x"
      using e by blast
    moreover have "paid c who n d x = paid c who fee d x + paid c who net d x"
      by (subst n) (rule paid_add)
    ultimately show "balance_in t d x + paid c who n d x = balance_in s d x +
        paid c (mint_fee_account C) fee d x + paid c (entrance_account C) net d x + paid v who va d x"
      using flow [OF 1(4), of d x] by linarith
  qed
  moreover have "token_pool t = token_pool s1" "vtoken_issuance t = vtoken_issuance s1"
    by (simp_all add: 1(6) emit_minting_def)
  ultimately show ?thesis using e [of undefined undefined] by (intro exI [of _ fee] exI [of _ net]) simp
qed

lemma vmint_backing:
  assumes "do_vmint F C who c n remark ch s = Inr (r, t)"
  shows "backing_kept s t"
proof -
  obtain v va where r: "r = (v, va)" by (cases r)
  from assms [unfolded r] show ?thesis
  proof (cases rule: vmint_cases)
    case (1 net fee s1 l1 l2)
    have "rates t = rates s1" by (simp add: 1(6))
    from backing_cong [OF refl this mint_backing [OF 1(3,2)]] show ?thesis .
  qed
qed

lemma vredeem_effect:
  assumes red: "do_vredeem F C who w v n how s = Inr t"
    and own: "\<And>c. redeem_currency s w v = Inr c \<Longrightarrow> token_to_vtoken_map s c = Some v"
  shows "\<exists>c fee net a now duration u. redeem_currency s w v = Inr c \<and> minimum_redeem s v \<le> n \<and>
      fee = perm_mul_floor F (snd (mint_redeem_fees s)) n \<and> fee \<le> n \<and> net = n - fee \<and>
      net \<le> vtoken_issuance s v \<and> a \<le> token_pool s v \<and>
      a = (if vtoken_issuance s v = 0 then net else net * token_pool s v div vtoken_issuance s v) \<and>
      ongoing_time_unit s c = Some now \<and> unlock_duration s c = Some duration \<and> tu_add now duration = Some u \<and>
      token_pool t = (token_pool s)(v := token_pool s v - a) \<and>
      vtoken_issuance t = (vtoken_issuance s)(v := vtoken_issuance s v - net) \<and>
      token_unlock_ledger t = put2 c (token_unlock_next_id s v)
        (Some \<lparr>redeemer = who, unlock_amount = a, lock_to = u, redeem_how = how\<rparr>) (token_unlock_ledger s) \<and>
      token_unlock_next_id t = (token_unlock_next_id s)(v := token_unlock_next_id s v + 1) \<and>
      unlocking_total t = (unlocking_total s)(c := unlocking_total s c + a) \<and>
      (\<forall>d x. balance_in t d x + paid v who n d x = balance_in s d x + paid v (redeem_fee_account C) fee d x)"
  using red
proof (cases rule: vredeem_cases)
  case (1 c fee net a now duration u l1 l2 s1 w')
  from own [OF 1(1)] 1(15) have [simp]: "w' = v" by simp
  from 1(4,5) have n: "n = fee + net" by simp
  have a: "a = (if vtoken_issuance s v = 0 then net else net * token_pool s v div vtoken_issuance s v)"
    using 1(7) by (auto simp: c_amount_Inr own_pool [OF own [OF 1(1)]] split: if_splits)
  from 1(18) show ?thesis
  proof (cases rule: file_redeem_cases)
    case f: (1 s2 l)
    from f(1) have s2: "token_unlock_ledger s2 = put2 c (token_unlock_next_id s v)
        (Some \<lparr>redeemer = who, unlock_amount = a, lock_to = u, redeem_how = how\<rparr>) (token_unlock_ledger s)"
      "unlocking_total s2 = (unlocking_total s)(c := unlocking_total s c + a)"
      "outside s2 = l2" "token_pool s2 = (token_pool s)(v := token_pool s v - a)"
      "vtoken_issuance s2 = (vtoken_issuance s)(v := vtoken_issuance s v - net)"
      by (auto simp: 1(17) emit_minting_def elim!: update_add_cases)
    have bal: "balance_in t d x + paid v who n d x = balance_in s d x + paid v (redeem_fee_account C) fee d x" for d x
    proof -
      have "balance_in t d x = mc_free (mt_currencies C) l2 d x"
        by (simp add: f(4) on_redeemed_keeps record_redeem_keeps [OF f(3)] s2(3))
      moreover have "paid v who n d x = paid v who fee d x + paid v who net d x"
        by (subst n) (rule paid_add)
      ultimately show ?thesis
        using flow [OF 1(6), of d x] withdraw_flow [OF 1(8), of d x] by linarith
    qed
    have "token_unlock_next_id t = (token_unlock_next_id s)(v := token_unlock_next_id s v + 1)"
      "token_unlock_ledger t = token_unlock_ledger s2" "unlocking_total t = unlocking_total s2"
      "token_pool t = token_pool s2" "vtoken_issuance t = vtoken_issuance s2"
      by (simp_all add: f(4) 1(17) emit_minting_def)
    then show ?thesis
      using 1(1-5,11-14,16) a bal by (intro exI [of _ c] exI [of _ fee] exI [of _ net] exI [of _ a]
          exI [of _ now] exI [of _ duration] exI [of _ u]) (simp only: s2 \<open>w' = v\<close> simp_thms)
  qed
qed

lemma vredeem_backing:
  assumes "do_vredeem F C who w v n how s = Inr t" and "own_token s w v"
  shows "backing_kept s t"
proof -
  from assms(2) have own: "\<And>c. redeem_currency s w v = Inr c \<Longrightarrow> token_to_vtoken_map s c = Some v"
    by (rule own_tokenD)
  from vredeem_effect [OF assms(1) own] obtain net a where
    "net \<le> vtoken_issuance s v" "a \<le> token_pool s v"
    "a = (if vtoken_issuance s v = 0 then net else net * token_pool s v div vtoken_issuance s v)"
    "token_pool t = (token_pool s)(v := token_pool s v - a)"
    "vtoken_issuance t = (vtoken_issuance s)(v := vtoken_issuance s v - net)" by blast
  note e = this
  from e(4,5) redeem_keeps_backing [OF e(3,1,2)] show ?thesis by (rule backing_at)
qed

lemma convert_mapped: "token_to_vtoken_map s c = Some w \<Longrightarrow> convert_to_vtoken s c = Inr w"
  by (simp add: convert_to_vtoken_def get_vtoken_for_token_def)

text \<open>What is minted anew goes into the pool of the vToken that is issued for it.\<close>

lemma rebond_mint_own:
  assumes "mint_without_transfer F C who v c n s1 = Inr (r, t)"
    and "token_to_vtoken_map s1 c = token_to_vtoken_map s c" and "convert_to_vtoken s c = Inr v"
  shows "token_to_vtoken_map s1 c = Some v"
proof -
  obtain net va fee where r: "r = (net, va, fee)" by (cases r)
  from assms(1) [unfolded r] obtain w where "token_to_vtoken_map s1 c = Some w"
    by (rule mint_without_transfer_cases)
  with convert_mapped [of s c w] assms(2,3) show ?thesis by simp
qed

lemma rebond_backing:
  assumes "rebond F C o1 c n s = Inr t"
  shows "backing_kept s t"
  using assms
proof (cases rule: rebond_cases)
  case (1 who v m ids s1 net va fee s2 s3)
  have maps: "token_to_vtoken_map s1 c = token_to_vtoken_map s c"
    using shrinks_maps [OF rebond_loop_shrinks [OF 1(5)]] by (simp add: token_maps_def)
  have own: "token_to_vtoken_map s1 c = Some v"
    by (rule rebond_mint_own [OF 1(6) maps 1(2)])
  have "rates t = rates s2" using 1(7) by (auto simp: 1(8) add_to_rebond_Inr)
  then show ?thesis
    using mint_backing [OF 1(6) own] rebond_loop_rates [OF 1(5)] by (metis backing_cong)
qed

lemma rebond_by_unlock_id_backing:
  assumes "rebond_by_unlock_id F C o1 c i s = Inr t"
  shows "backing_kept s t"
  using assms
proof (cases rule: rebond_by_unlock_id_cases)
  case (1 who v r removed s1 net va fee s2 s3)
  have maps: "token_to_vtoken_map s1 c = token_to_vtoken_map s c"
    using shrinks_maps [OF sub_shrinks [OF 1(5)]] by (simp add: token_maps_def)
  have own: "token_to_vtoken_map s1 c = Some v"
    by (rule rebond_mint_own [OF 1(6) maps 1(2)])
  have "rates t = rates s2" using 1(7) by (auto simp: 1(8) add_to_rebond_Inr)
  then show ?thesis
    using mint_backing [OF 1(6) own] update_rates [OF 1(5)] by (metis backing_cong)
qed

lemma mint_with_lock_backing:
  assumes "mint_with_lock F C now o1 c n remark ch s = Inr t"
  shows "backing_kept s t"
  using assms
proof (cases rule: mint_with_lock_cases)
  case (1 who v w m s1 s2 reward l)
  have "rates s2 = rates s1" using 1(4) by (rule lock_vtoken_cases) simp
  then have "rates t = rates s1" by (simp add: 1(7))
  then show ?thesis using vmint_backing [OF 1(3)] by (auto intro: backing_cong)
qed

lemma act_backing:
  assumes "minting_act F C a s = Inr t" and "fair s a"
  shows "backing_kept s t"
proof (cases a)
  case (Act_call now o1 k)
  show ?thesis
  proof (cases "setting_call k")
    case True
    moreover have "\<not> sets_issuance k" using assms(2) Act_call by (cases k) auto
    ultimately show ?thesis
      using assms(1) Act_call by (auto intro: backing_same setting_rates)
  next
    case False
    with assms Act_call show ?thesis
      by (cases k) (auto simp: vmint_call_def vredeem_call_def rbind_eq_Inr
          intro: vmint_backing vredeem_backing rebond_backing rebond_by_unlock_id_backing mint_with_lock_backing
            backing_same unlock_incentive_rates unlocking_total_rates multimap_rates)
  qed
next
  case (Act_hook h)
  with assms show ?thesis
    by (cases h) (auto simp: rbind_eq_Inr intro: vmint_backing vredeem_backing increase_backing
        backing_same ongoing_rates)
qed (use assms in \<open>auto intro: backing_same on_idle_rates\<close>)

end

end
