(* ===== verification/Minting_Locks.thy ===== *)
theory Minting_Locks
  imports Minting_Rate
begin

text \<open>
  The vTokens that users lock for the incentive: the ledger of a user holds the sum of its records, and an
  unlock releases exactly the records that are due before the first that is not.
\<close>

section \<open>Well-formed lock ledgers\<close>

definition locks_ok :: "'l minting_config \<Rightarrow> 'l minting_state \<Rightarrow> bool" where
  "locks_ok C s \<longleftrightarrow> (\<forall>who v m records. vtoken_lock_ledger s who v = Some (m, records) \<longrightarrow>
     m = sum_list (map fst records) \<and> m \<le> u128_max \<and> records \<noteq> [] \<and> length records \<le> max_lock_records C)"

lemma locks_okD:
  "locks_ok C s \<Longrightarrow> vtoken_lock_ledger s who v = Some (m, records) \<Longrightarrow>
     m = sum_list (map fst records) \<and> m \<le> u128_max \<and> records \<noteq> [] \<and> length records \<le> max_lock_records C"
  by (simp add: locks_ok_def)

lemma locks_ok_cong: "vtoken_lock_ledger t = vtoken_lock_ledger s \<Longrightarrow> locks_ok C t = locks_ok C s"
  by (simp add: locks_ok_def)

lemma locks_ok_put:
  assumes "locks_ok C s" and "vtoken_lock_ledger t = put2 who v e (vtoken_lock_ledger s)"
    and "\<And>m records. e = Some (m, records) \<Longrightarrow> m = sum_list (map fst records) \<and> m \<le> u128_max \<and>
      records \<noteq> [] \<and> length records \<le> max_lock_records C"
  shows "locks_ok C t"
  using assms by (auto simp: locks_ok_def put2_apply)

lemma lock_vtoken_ok:
  assumes "lock_vtoken_for_incentive_minting C now who v n s = Inr t" and "locks_ok C s" and "n \<le> u128_max"
  shows "locks_ok C t"
  using assms(1)
proof (cases rule: lock_vtoken_cases)
  case (1 m due records l)
  show ?thesis
  proof (rule locks_ok_put [OF assms(2), of t who v "Some (m, records)"])
    show "vtoken_lock_ledger t = put2 who v (Some (m, records)) (vtoken_lock_ledger s)" by (simp add: 1(5))
    fix m' records' assume "Some (m, records) = Some (m', records')"
    then show "m' = sum_list (map fst records') \<and> m' \<le> u128_max \<and> records' \<noteq> [] \<and>
        length records' \<le> max_lock_records C"
      using 1(3) assms(3) by (auto split: option.splits dest: locks_okD [OF assms(2)])
  qed
qed

lemma due_split: "sum_list (map fst records) =
    sum_list (map fst (due_records now records)) +
    sum_list (map fst (drop (length (due_records now records)) records))"
proof -
  have "due_records now records @ drop (length (due_records now records)) records = records"
    by (simp add: due_records_def flip: dropWhile_eq_drop)
  then show ?thesis by (metis map_append sum_list_append)
qed

lemma released_exact:
  assumes "m = sum_list (map fst records)" and "m \<le> u128_max"
  shows "wrapping_sum (map fst (due_records now records)) = sum_list (map fst (due_records now records))"
  by (rule wrapping_sum_exact) (use assms due_split [of records now] in linarith)

lemma unlock_incentive_ok:
  assumes "unlock_incentive_minted_vtoken C now o1 v s = Inr t" and "locks_ok C s"
  shows "locks_ok C t"
  using assms(1)
proof (cases rule: unlock_incentive_cases)
  case (1 who m records released l)
  note ok = locks_okD [OF assms(2) 1(2)]
  let ?rest = "drop (length (due_records now records)) records"
  have rel: "released = sum_list (map fst (due_records now records))"
    using released_exact ok 1(3) by blast
  show ?thesis
  proof (rule locks_ok_put [OF assms(2)])
    show "vtoken_lock_ledger t = put2 who v (if released = m then None else Some (m - released, ?rest))
        (vtoken_lock_ledger s)" by (simp add: 1(7))
    fix m' records' assume *: "(if released = m then None else Some (m - released, ?rest)) = Some (m', records')"
    then have ne: "released \<noteq> m" and m': "m' = m - released" and r': "records' = ?rest"
      by (simp_all split: if_splits)
    have sum: "m - released = sum_list (map fst ?rest)"
      using ok due_split [of records now] rel by linarith
    moreover have "?rest \<noteq> []"
      using sum ne 1(5) by (metis list.simps(8) sum_list.Nil diff_is_0_eq le_antisym)
    moreover have "length ?rest \<le> max_lock_records C" using ok by (simp add: le_diff_conv trans_le_add1)
    moreover have "m - released \<le> u128_max" using ok by linarith
    ultimately show "m' = sum_list (map fst records') \<and> m' \<le> u128_max \<and> records' \<noteq> [] \<and>
        length records' \<le> max_lock_records C"
      by (simp only: m' r' simp_thms)
  qed
qed

section \<open>Frames\<close>

lemma mint_without_transfer_locks:
  "mint_without_transfer F C who v c n s = Inr ((net, va, fee), t) \<Longrightarrow> vtoken_lock_ledger t = vtoken_lock_ledger s"
  by (erule mint_without_transfer_cases) (simp add: emit_minting_def)

lemma vmint_locks:
  assumes "do_vmint F C who c n remark ch s = Inr ((v, va), t)"
  shows "vtoken_lock_ledger t = vtoken_lock_ledger s \<and> va \<le> u128_max"
  using assms
proof (cases rule: vmint_cases)
  case (1 net fee s1 l1 l2)
  have "va \<le> i128_max" using 1(3) by (rule mint_without_transfer_cases)
  then have "va \<le> u128_max" by (simp add: i128_max_def u128_max_def)
  with mint_without_transfer_locks [OF 1(3)] show ?thesis by (simp add: 1(6) emit_minting_def)
qed

lemma update_locks:
  "update_unlock_ledger C who c n i u how OpSub s = Inr (b, t) \<Longrightarrow> vtoken_lock_ledger t = vtoken_lock_ledger s"
  by (erule update_sub_cases) simp

lemma vredeem_locks:
  assumes "do_vredeem F C who w v n how s = Inr t"
  shows "vtoken_lock_ledger t = vtoken_lock_ledger s"
  using assms
proof (cases rule: vredeem_cases)
  case (1 c fee net amount now duration u l1 l2 s1 w')
  have "vtoken_lock_ledger s1 = vtoken_lock_ledger s" by (simp add: 1(17) emit_minting_def)
  moreover from 1(18) have "vtoken_lock_ledger t = vtoken_lock_ledger s1"
    by (rule file_redeem_cases) (erule update_add_cases, simp add: emit_minting_def)
  ultimately show ?thesis by simp
qed

lemma rebond_loop_locks: "rebond_loop C who c ids rest s = Inr t \<Longrightarrow> vtoken_lock_ledger t = vtoken_lock_ledger s"
proof (induction ids arbitrary: rest s)
  case Nil
  then show ?case by simp
next
  case (Cons i ids)
  from Cons.prems show ?case
  proof (cases rule: rebond_loop_ConsE)
    case (1 r part rest' removed s1)
    from update_locks [OF 1(4)] 1(5) Cons.IH show ?thesis by (cases removed) auto
  qed
qed

lemma rebond_locks: "rebond F C o1 c n s = Inr t \<Longrightarrow> vtoken_lock_ledger t = vtoken_lock_ledger s"
  by (erule rebond_cases)
    (auto simp: add_to_rebond_Inr emit_minting_def dest!: rebond_loop_locks mint_without_transfer_locks)

lemma rebond_by_unlock_id_locks:
  "rebond_by_unlock_id F C o1 c i s = Inr t \<Longrightarrow> vtoken_lock_ledger t = vtoken_lock_ledger s"
  by (erule rebond_by_unlock_id_cases)
    (auto simp: add_to_rebond_Inr emit_minting_def dest!: update_locks mint_without_transfer_locks)

lemma process_redeem_locks:
  "process_redeem C c who i n balance u how s = Inr t \<Longrightarrow> vtoken_lock_ledger t = vtoken_lock_ledger s"
  by (erule process_redeem_cases) (auto simp: emit_minting_def dest!: update_locks)

lemma pay_out_locks: "pay_out C c ids s = Inr t \<Longrightarrow> vtoken_lock_ledger t = vtoken_lock_ledger s"
  by (induction ids arbitrary: s)
    (auto simp: Let_def rbind_eq_Inr dest: process_redeem_locks split: option.splits if_splits)

lemma advance_locks: "advance_min_time_unit c s = Inr t \<Longrightarrow> vtoken_lock_ledger t = vtoken_lock_ledger s"
  unfolding advance_min_time_unit_def by (elim rbind_InrE) (auto split: if_splits)

lemma idle_currency_locks: "vtoken_lock_ledger (idle_currency C c s) = vtoken_lock_ledger s"
  by (auto simp: idle_currency_def handle_ledger_by_currency_def emit_minting_def
      split: sum.splits option.splits intro: pay_out_locks advance_locks)

lemma on_idle_locks: "vtoken_lock_ledger (on_idle C w s) = vtoken_lock_ledger s"
proof -
  have "vtoken_lock_ledger (fold (idle_currency C) cs s) = vtoken_lock_ledger s" for cs
    by (induction cs arbitrary: s) (simp_all add: idle_currency_locks)
  then show ?thesis by (simp add: on_idle_def)
qed

lemma setting_locks:
  "setting_call k \<Longrightarrow> minting_dispatch F C now o1 k s = Inr t \<Longrightarrow> vtoken_lock_ledger t = vtoken_lock_ledger s"
  by (cases k)
    (auto simp: setting_defs controlled_Inr rooted_Inr emit_minting_def elim!: issuance_cases split: option.splits)

lemma unlocking_total_locks: "set_unlocking_total C o1 c n s = Inr t \<Longrightarrow> vtoken_lock_ledger t = vtoken_lock_ledger s"
  by (auto simp: set_unlocking_total_def controlled_Inr update_unlocking_total_def rbind_eq_Inr emit_minting_def)

lemma multimap_locks: "set_vtoken_multimap o1 v cs s = Inr t \<Longrightarrow> vtoken_lock_ledger t = vtoken_lock_ledger s"
  by (auto simp: set_vtoken_multimap_def rooted_Inr Let_def rbind_eq_Inr emit_minting_def)

lemma hook_locks: "minting_hook_run F C h s = Inr t \<Longrightarrow> vtoken_lock_ledger t = vtoken_lock_ledger s"
  by (cases h) (auto simp: rbind_eq_Inr update_ongoing_time_unit_def emit_minting_def
      dest: vmint_locks vredeem_locks elim!: token_pool_cases issuance_cases)

lemma mint_with_lock_ok:
  assumes "mint_with_lock F C now o1 c n remark ch s = Inr t" and "locks_ok C s"
  shows "locks_ok C t"
  using assms(1)
proof (cases rule: mint_with_lock_cases)
  case (1 who v w m s1 s2 reward l)
  from vmint_locks [OF 1(3)] have l1: "vtoken_lock_ledger s1 = vtoken_lock_ledger s" and "m \<le> u128_max"
    by blast+
  from locks_ok_cong [OF l1] assms(2) have "locks_ok C s1" by simp
  from lock_vtoken_ok [OF 1(4) this \<open>m \<le> u128_max\<close>] have "locks_ok C s2" .
  moreover have "vtoken_lock_ledger t = vtoken_lock_ledger s2" by (simp add: 1(7) emit_minting_def)
  ultimately show ?thesis using locks_ok_cong by blast
qed

lemma act_locks:
  assumes act: "minting_act F C a s = Inr t" and ok: "locks_ok C s"
  shows "locks_ok C t"
proof -
  have *: "vtoken_lock_ledger t = vtoken_lock_ledger s \<Longrightarrow> ?thesis"
    using ok locks_ok_cong by blast
  show ?thesis
  proof (cases a)
    case (Act_call now o1 k)
    show ?thesis
    proof (cases "setting_call k")
      case True
      with act Act_call show ?thesis by (auto intro: * setting_locks)
    next
      case False
      with act ok Act_call show ?thesis
        by (cases k) (auto simp: vmint_call_def vredeem_call_def rbind_eq_Inr dest: vmint_locks
            intro: * rebond_locks rebond_by_unlock_id_locks vredeem_locks unlocking_total_locks multimap_locks
              mint_with_lock_ok unlock_incentive_ok)
    qed
  next
    case (Act_hook h)
    with act show ?thesis by (intro *) (auto intro: hook_locks)
  next
    case (Act_idle w)
    with act show ?thesis by (intro *) (auto simp: on_idle_locks)
  next
    case (Act_outside l)
    with act show ?thesis by (intro *) auto
  qed
qed

lemma runs_locks: "minting_runs P F C s \<Longrightarrow> locks_ok C s"
proof (induction rule: minting_runs.induct)
  case (start l)
  show ?case by (simp add: locks_ok_def initial_minting_def)
next
  case (step s a t)
  then show ?case by (blast intro: act_locks)
qed

end
