(* ===== verification/Minting_Demo.thy ===== *)
theory Minting_Demo
  imports Minting_Locks
begin

text \<open>
  Runs of the liquid staking pallet on the exact arithmetic and ledger, for the witnesses. The root maps the
  bridged ether \<open>HP_ETH\<close> to \<open>V_ETH\<close>; account 1 mints and files two redemptions; the entrance account is 100.
\<close>

section \<open>Parameters\<close>

definition std_deposit :: "currency \<Rightarrow> account \<Rightarrow> nat \<Rightarrow> balances \<Rightarrow> nat + balances" where
  "std_deposit c a n l =
     (if u128_max < l c a + n then Inl 1 else Inr (l(c := (l c)(a := l c a + n))))"

definition std_withdraw :: "currency \<Rightarrow> account \<Rightarrow> nat \<Rightarrow> balances \<Rightarrow> nat + balances" where
  "std_withdraw c a n l =
     (if l c a < n then Inl 0 else Inr (l(c := (l c)(a := l c a - n))))"

definition std_minting :: "balances minting_config" where
  "std_minting = \<lparr>mt_currencies = std_currency, mt_deposit = std_deposit, mt_withdraw = std_withdraw,
     mt_minimum_balance = (\<lambda>_. 0), mt_can_withdraw = (\<lambda>l c a n. n \<le> l c a),
     mt_set_lock = (\<lambda>c a n l. Inr l), mt_remove_lock = (\<lambda>c a l. Inr l),
     xcm_transfer = (\<lambda>a c n d l. std_transfer c a 105 n l),
     xcm_transfer_many = (\<lambda>a cs fee d l. rfold (\<lambda>(c, n) l. std_transfer c a 105 n l) cs l),
     hyperbridge_payer_and_fee = (\<lambda>l d. Inr (106, 0)),
     hyperbridge_send = (\<lambda>c a to d n time payer fee l. std_transfer c a 105 n l),
     moonbeam_transfer_to_fee = (\<lambda>l. 0), bb_bnc_total_supply = (\<lambda>l n. Inr 1000),
     bb_bnc_balance_of = (\<lambda>l a. Inr 10), record_mint_amount = (\<lambda>ch c n l. Inr l),
     record_redeem_amount = (\<lambda>c n l. Inr l), on_redeem_success = (\<lambda>c a n l. l),
     on_redeemed = (\<lambda>a c n m k l. l),
     mul_rational = (\<lambda>a b d. if d = 0 then None else chk u128_max (a * b div d)),
     perm_times = (\<lambda>m n. m * n div perm_one), fx_sqrt = (\<lambda>a. a), control_origin = (\<lambda>o1. o1 = Root),
     max_unlock_id_of_user = 10, max_unlock_id_of_time_unit = 1000, max_lock_records = 100,
     entrance_account = 100, exit_account = 101, mint_fee_account = 102, redeem_fee_account = 103,
     incentive_pool_account = 104, moonbeam_chain_id = 2004, currency_hash = (\<lambda>c. 0)\<rparr>"

lemma std_minting_simps:
  "mt_currencies std_minting = std_currency" "mt_deposit std_minting = std_deposit"
  "mt_withdraw std_minting = std_withdraw" "mt_minimum_balance std_minting = (\<lambda>_. 0)"
  "mt_can_withdraw std_minting = (\<lambda>l c a n. n \<le> l c a)"
  "mt_set_lock std_minting = (\<lambda>c a n l. Inr l)" "mt_remove_lock std_minting = (\<lambda>c a l. Inr l)"
  "bb_bnc_total_supply std_minting = (\<lambda>l n. Inr 1000)" "bb_bnc_balance_of std_minting = (\<lambda>l a. Inr 10)"
  "record_mint_amount std_minting = (\<lambda>ch c n l. Inr l)" "record_redeem_amount std_minting = (\<lambda>c n l. Inr l)"
  "on_redeem_success std_minting = (\<lambda>c a n l. l)" "on_redeemed std_minting = (\<lambda>a c n m k l. l)"
  "mul_rational std_minting = (\<lambda>a b d. if d = 0 then None else chk u128_max (a * b div d))"
  "perm_times std_minting = (\<lambda>m n. m * n div perm_one)" "fx_sqrt std_minting = (\<lambda>a. a)"
  "control_origin std_minting = (\<lambda>o1. o1 = Root)" "max_unlock_id_of_user std_minting = 10"
  "max_unlock_id_of_time_unit std_minting = 1000" "max_lock_records std_minting = 100"
  "entrance_account std_minting = 100" "mint_fee_account std_minting = 102"
  "redeem_fee_account std_minting = 103" "incentive_pool_account std_minting = 104"
  "currency_hash std_minting = (\<lambda>c. 0)"
  by (simp_all add: std_minting_def)

interpretation std_stake: staking_ledger std_minting
  by unfold_locales
    (auto simp: std_minting_simps std_deposit_def std_withdraw_def std_currency_def std_multi_currency
      multi_currency_def std_transfer_def split: if_splits)

lemma std_staking_ledger: "staking_ledger std_minting"
  by (rule std_stake.staking_ledger_axioms)

section \<open>Runs\<close>

abbreviation hp_eth :: currency where "hp_eth \<equiv> Token2 16"

abbreviation stray :: currency where "stray \<equiv> VToken2 16"

text \<open>A run that checks its condition before every action.\<close>

definition minting_play ::
  "(balances minting_state \<Rightarrow> balances minting_action \<Rightarrow> bool) \<Rightarrow> balances minting_action list \<Rightarrow>
     balances minting_state \<Rightarrow> balances minting_state minting_result" where
  "minting_play P = rfold (\<lambda>a s.
     if P s a \<and> action_ok a then minting_act std_fixed std_minting a s else Inl Panic)"

lemma play_runs:
  assumes "minting_play P as s = Inr t" and "minting_runs P std_fixed std_minting s"
  shows "minting_runs P std_fixed std_minting t"
proof (rule rfold_invariant [where P = "minting_runs P std_fixed std_minting",
    OF assms(1) [unfolded minting_play_def] assms(2)])
  fix a s s'
  assume "minting_runs P std_fixed std_minting s"
    and "(if P s a \<and> action_ok a then minting_act std_fixed std_minting a s else Inl Panic) = Inr s'"
  then show "minting_runs P std_fixed std_minting s'"
    by (auto intro: minting_runs.step split: if_splits)
qed

definition eth_cash :: balances where
  "eth_cash = (\<lambda>_ _. 0)(hp_eth := (\<lambda>_. 0)(1 := 1000))"

definition eth_setup :: "balances minting_action list" where
  "eth_setup = [
     Act_call 0 Root (Call_set_vtoken_multimap v_eth [\<lparr>config_token = hp_eth, redeem_enabled = True\<rparr>]),
     Act_call 0 Root (Call_set_ongoing_time_unit hp_eth (Era 5)),
     Act_call 0 Root (Call_set_unlock_duration hp_eth (Era 2)),
     Act_call 0 Root (Call_set_min_time_unit hp_eth (Era 7)),
     Act_call 0 Root (Call_set_hook_iteration_limit 10),
     Act_call 0 Root (Call_add_support_rebond_token hp_eth)]"

definition eth_ready :: "balances minting_state" where
  "eth_ready = (initial_minting eth_cash)\<lparr>
     unlock_duration := [hp_eth \<mapsto> Era 2], ongoing_time_units := [(hp_eth, Era 5)],
     token_to_rebond := [hp_eth \<mapsto> 0], min_time_unit := (\<lambda>_. Era 0)(hp_eth := Era 7),
     hook_iteration_limit := 10,
     vtoken_to_tokens := [v_eth \<mapsto> [\<lparr>config_token = hp_eth, redeem_enabled = True\<rparr>]],
     token_to_vtoken_map := [hp_eth \<mapsto> v_eth],
     minting_events := [SupportRebondTokenAdded hp_eth, HookIterationLimitSet 10,
       MinTimeUnitSet hp_eth (Era 7), UnlockDurationSet hp_eth (Era 2), SetOngoingTimeUnit hp_eth (Era 5),
       VTokenMultiMapSet v_eth [\<lparr>config_token = hp_eth, redeem_enabled = True\<rparr>]]\<rparr>"

lemma eth_ready_run: "minting_play careful eth_setup (initial_minting eth_cash) = Inr eth_ready"
  by (simp add: minting_play_def eth_setup_def eth_ready_def initial_minting_def setting_defs controlled_def max_multimap_def
      rooted_def set_vtoken_multimap_def Let_def tokens_of_def point_tokens_def forget_tokens_def
      emit_minting_def std_minting_simps v_eth_def default_time_unit_def ensure_def)

text \<open>Account 1 mints 100 and files redemptions of 60 and of 40.\<close>

definition eth_filing :: "balances minting_action list" where
  "eth_filing = [Act_call 0 (Signed 1) (Call_mint hp_eth 100 [] None),
     Act_call 0 (Signed 1) (Call_redeem None v_eth 60),
     Act_call 0 (Signed 1) (Call_redeem (Some hp_eth) v_eth 40)]"

definition eth_filed :: "balances minting_state" where
  "eth_filed = eth_ready\<lparr>
     token_unlock_next_id := (\<lambda>_. 0)(v_eth := Suc (Suc 0)),
     token_unlock_ledger := (\<lambda>_ _. None)(hp_eth :=
       [0 \<mapsto> \<lparr>redeemer = 1, unlock_amount = 60, lock_to = Era 7, redeem_how = RedeemNative\<rparr>,
        Suc 0 \<mapsto> \<lparr>redeemer = 1, unlock_amount = 40, lock_to = Era 7, redeem_how = RedeemNative\<rparr>]),
     user_unlock_ledger := (\<lambda>_ _. None)(Suc 0 := [hp_eth \<mapsto> (100, [0, Suc 0])]),
     time_unit_unlock_ledger := (\<lambda>_ _. None)(Era 7 := [hp_eth \<mapsto> (100, [0, Suc 0], hp_eth)]),
     unlocking_total := (\<lambda>_. 0)(hp_eth := 100),
     outside := (\<lambda>_ _. 0)(hp_eth := (\<lambda>_. 0)(1 := 900, 100 := 100), v_eth := (\<lambda>_. 0)(1 := 0)),
     token_pool := (\<lambda>_. 0)(v_eth := 0), vtoken_issuance := (\<lambda>_. 0)(v_eth := 0),
     minting_events := [VRedeemed 1 hp_eth 40 40 0 1, VtokenIssuanceSet v_eth 0,
       VRedeemed 1 hp_eth 60 60 0 0, VtokenIssuanceSet v_eth 40,
       VMinted 1 hp_eth 100 100 0 [] None, VtokenIssuanceSet v_eth 100] @ minting_events eth_ready\<rparr>"

lemmas play_unfold = vmint_call_def do_vmint_def mint_without_transfer_def vredeem_call_def do_vredeem_def
  file_redeem_def update_unlock_ledger_def update_token_unlock_ledger_def update_user_unlock_ledger_def
  update_time_unit_unlock_ledger_def update_unlocking_total_def update_token_pool_def apply_operation_def
  entry_update_def entry_add_def entry_sub_def redeem_currency_def default_token_def is_redeem_enabled_for_token_def
  find_config_def get_v_currency_amount_by_currency_amount_def get_currency_amount_by_v_currency_amount_def
  get_v_currency_issuance_inner_def set_v_currency_issuance_inner_def rational_part_def get_token_pool_def
  get_vtoken_for_token_def to_i128_def i128_max_def u128_max_def u32_max_def chk_def checked_add_def checked_sub_def
  saturating_sub_def outside_call_def outside_try_def outside_get_def vt_transfer_def vt_free_def
  std_currency_def std_transfer_def std_deposit_def std_withdraw_def std_fixed_def std_minting_simps
  perm_one_def emit_minting_def ongoing_time_unit_def drop_currency_def with_currency_def put2_def sat32_def
  ensure_def Let_def v_eth_def

lemma eth_filed_run: "minting_play careful eth_filing eth_ready = Inr eth_filed"
  by (simp add: minting_play_def eth_filing_def eth_ready_def eth_filed_def initial_minting_def eth_cash_def
      own_token_def play_unfold fun_upd_twist)

lemma eth_ready_careful: "minting_runs careful std_fixed std_minting eth_ready"
  by (rule play_runs [OF eth_ready_run minting_runs.start])

lemma eth_filed_careful: "minting_runs careful std_fixed std_minting eth_filed"
  by (rule play_runs [OF eth_filed_run eth_ready_careful])

lemma careful_reachable: "minting_runs careful F C s \<Longrightarrow> minting_reachable F C s"
  by (erule minting_runs_mono) simp

lemmas eth_unfold = eth_filed_def eth_ready_def initial_minting_def eth_cash_def

text \<open>Account 1 mints 100; then staking earns 50.\<close>

definition eth_grown :: "balances minting_state" where
  "eth_grown = eth_ready\<lparr>
     outside := (\<lambda>_ _. 0)(hp_eth := (\<lambda>_. 0)(1 := 900, 100 := 100), v_eth := (\<lambda>_. 0)(1 := 100)),
     token_pool := (\<lambda>_. 0)(v_eth := 150), vtoken_issuance := (\<lambda>_. 0)(v_eth := 100),
     minting_events := [VMinted 1 hp_eth 100 100 0 [] None, VtokenIssuanceSet v_eth 100] @
       minting_events eth_ready\<rparr>"

lemma eth_grown_run:
  "minting_play careful [Act_call 0 (Signed 1) (Call_mint hp_eth 100 [] None),
     Act_hook (Hook_increase_token_pool hp_eth 50)] eth_ready = Inr eth_grown"
  by (simp add: minting_play_def eth_ready_def eth_grown_def initial_minting_def eth_cash_def play_unfold
      fun_upd_twist)

lemma eth_grown_careful: "minting_runs careful std_fixed std_minting eth_grown"
  by (rule play_runs [OF eth_grown_run eth_ready_careful])

text \<open>Account 2, which has nothing, redeems nothing: its record waits in the same time unit.\<close>

definition eth_blocked :: "balances minting_state" where
  "eth_blocked = eth_grown\<lparr>
     token_unlock_next_id := (\<lambda>_. 0)(v_eth := Suc 0),
     token_unlock_ledger := (\<lambda>_ _. None)(hp_eth :=
       [0 \<mapsto> \<lparr>redeemer = 2, unlock_amount = 0, lock_to = Era 7, redeem_how = RedeemNative\<rparr>]),
     user_unlock_ledger := (\<lambda>_ _. None)(2 := [hp_eth \<mapsto> (0, [0])]),
     time_unit_unlock_ledger := (\<lambda>_ _. None)(Era 7 := [hp_eth \<mapsto> (0, [0], hp_eth)]),
     minting_events := [VRedeemed 2 hp_eth 0 0 0 0, VtokenIssuanceSet v_eth 100] @ minting_events eth_grown\<rparr>"

lemma eth_blocked_run:
  "minting_play (\<lambda>_ _. True) [Act_call 0 (Signed 2) (Call_redeem None v_eth 0)] eth_grown = Inr eth_blocked"
  by (simp add: minting_play_def eth_ready_def eth_grown_def eth_blocked_def initial_minting_def play_unfold
      fun_upd_idem)

text \<open>The root disables the redemption of KSM; account 1 still mints 100.\<close>

definition ksm_cash :: balances where
  "ksm_cash = (\<lambda>_ _. 0)(Token KSM := (\<lambda>_. 0)(1 := 1000))"

definition ksm_run :: "balances minting_action list" where
  "ksm_run = [
     Act_call 0 Root (Call_set_vtoken_multimap (VToken KSM) [\<lparr>config_token = Token KSM, redeem_enabled = False\<rparr>]),
     Act_call 0 Root (Call_set_ongoing_time_unit (Token KSM) (Era 5)),
     Act_call 0 Root (Call_set_unlock_duration (Token KSM) (Era 2)),
     Act_call 0 (Signed 1) (Call_mint (Token KSM) 100 [] None)]"

definition ksm_minted :: "balances minting_state" where
  "ksm_minted = (initial_minting ksm_cash)\<lparr>
     unlock_duration := [Token KSM \<mapsto> Era 2], ongoing_time_units := [(Token KSM, Era 5)],
     vtoken_to_tokens := [VToken KSM \<mapsto> [\<lparr>config_token = Token KSM, redeem_enabled = False\<rparr>]],
     token_to_vtoken_map := [Token KSM \<mapsto> VToken KSM],
     outside := (\<lambda>_ _. 0)(Token KSM := (\<lambda>_. 0)(1 := 900, 100 := 100), VToken KSM := (\<lambda>_. 0)(1 := 100)),
     token_pool := (\<lambda>_. 0)(VToken KSM := 100), vtoken_issuance := (\<lambda>_. 0)(VToken KSM := 100),
     minting_events := [VMinted 1 (Token KSM) 100 100 0 [] None, VtokenIssuanceSet (VToken KSM) 100,
       UnlockDurationSet (Token KSM) (Era 2), SetOngoingTimeUnit (Token KSM) (Era 5),
       VTokenMultiMapSet (VToken KSM) [\<lparr>config_token = Token KSM, redeem_enabled = False\<rparr>]]\<rparr>"

lemma ksm_minted_run: "minting_play (\<lambda>_ _. True) ksm_run (initial_minting ksm_cash) = Inr ksm_minted"
  by (simp add: minting_play_def ksm_run_def ksm_minted_def ksm_cash_def initial_minting_def setting_defs
      controlled_def rooted_def set_vtoken_multimap_def tokens_of_def point_tokens_def forget_tokens_def
      max_multimap_def play_unfold fun_upd_twist)

lemma ksm_minted_reachable: "minting_reachable std_fixed std_minting ksm_minted"
  by (rule play_runs [OF ksm_minted_run minting_runs.start])

text \<open>Account 1 mints with a lock twice, 30 and then 20, at blocks 0 and 5 for ten blocks.\<close>

definition lock_run :: "balances minting_action list" where
  "lock_run = [Act_outside (eth_cash(v_eth := (\<lambda>_. 0)(104 := 1000))),
     Act_call 0 Root (Call_set_minimum_mint hp_eth 1),
     Act_call 0 Root (Call_set_incentive_coef v_eth (Some 0)),
     Act_call 0 Root (Call_set_incentive_lock_blocks v_eth (Some 10)),
     Act_call 0 (Signed 1) (Call_mint_with_lock hp_eth 30 [] None),
     Act_call 5 (Signed 1) (Call_mint_with_lock hp_eth 20 [] None)]"

definition eth_locked :: "balances minting_state" where
  "eth_locked = eth_ready\<lparr>minimum_mint := [hp_eth \<mapsto> 1], vtoken_incentive_coef := [v_eth \<mapsto> 0],
     mint_with_lock_blocks := [v_eth \<mapsto> 10],
     vtoken_lock_ledger := (\<lambda>_ _. None)(1 := [v_eth \<mapsto> (50, [(30, 10), (20, 15)])]),
     outside := (\<lambda>_ _. 0)(hp_eth := (\<lambda>_. 0)(1 := 950, 100 := 50), v_eth := (\<lambda>_. 0)(1 := 50, 104 := 1000)),
     token_pool := (\<lambda>_. 0)(v_eth := 50), vtoken_issuance := (\<lambda>_. 0)(v_eth := 50),
     minting_events := [IncentivizedMinting 1 hp_eth 20 20 0, VMinted 1 hp_eth 20 20 0 [] None,
       VtokenIssuanceSet v_eth 50, IncentivizedMinting 1 hp_eth 30 30 0, VMinted 1 hp_eth 30 30 0 [] None,
       VtokenIssuanceSet v_eth 30, VtokenIncentiveLockBlocksSet v_eth (Some 10),
       VtokenIncentiveCoefSet v_eth (Some 0), MinimumMintSet hp_eth 1] @ minting_events eth_ready\<rparr>"

lemma eth_locked_run: "minting_play (\<lambda>_ _. True) lock_run eth_ready = Inr eth_locked"
  by (simp add: minting_play_def lock_run_def eth_locked_def eth_ready_def initial_minting_def eth_cash_def
      setting_defs controlled_def mint_with_lock_def convert_to_vtoken_def lock_vtoken_for_incentive_minting_def
      calculate_incentive_vtoken_amount_def incentive_amount_def u256_max_def std_perm_def fx_one_def
      play_unfold fun_upd_twist)

lemma eth_locked_reachable: "minting_reachable std_fixed std_minting eth_locked"
  by (rule play_runs [OF eth_locked_run careful_reachable [OF eth_ready_careful]])

end
