(* ===== verification/Minting_Props.thy ===== *)
theory Minting_Props
  imports Minting_Demo
begin

text \<open>
  The properties of the liquid staking pallet: its books and maps over all runs, the backing of vTokens, the
  effects of minting, redeeming, paying out and unlocking, and the cases the code leaves open.
\<close>

section \<open>Invariants\<close>

text \<open>
  C2. On every careful run (a redemption is of a token mapped to its vToken, a token is mapped anew only while
  nothing of it is unlocking, the root does not overwrite totals) the four books of redemptions agree: a token's
  unlocking total is the sum of its records, each user's and each time unit's total is the sum of the records
  of that user or unit, the ids listed under a user are records of that user, and ids given out are below the
  next id of the vToken.
\<close>
theorem redemption_books_agree:
  assumes "minting_runs careful F C s"
  shows "unlocking_total s c = locked_by (token_unlock_ledger s c) (\<lambda>_. True) \<and>
    entry_total (user_unlock_ledger s who c) = locked_by (token_unlock_ledger s c) (\<lambda>r. redeemer r = who) \<and>
    entry_total (drop_currency (time_unit_unlock_ledger s u c)) =
      locked_by (token_unlock_ledger s c) (\<lambda>r. lock_to r = u) \<and>
    (\<forall>i \<in> entry_ids (user_unlock_ledger s who c).
       \<exists>r. token_unlock_ledger s c i = Some r \<and> redeemer r = who) \<and>
    (\<forall>i r. token_unlock_ledger s c i = Some r \<longrightarrow> 0 < unlock_amount r \<longrightarrow>
       i \<in> entry_ids (user_unlock_ledger s (redeemer r) c) \<and>
       i \<in> entry_ids (drop_currency (time_unit_unlock_ledger s (lock_to r) c))) \<and>
    (\<forall>v i. token_to_vtoken_map s c = Some v \<longrightarrow> token_unlock_ledger s c i \<noteq> None \<longrightarrow>
       i < token_unlock_next_id s v)"
proof -
  let ?L = "token_unlock_ledger s c"
  have s: "sound_books s" using assms by (rule careful_runs_sound)
  then have b: "unlocking_total s c = locked_by ?L (\<lambda>_. True)"
    "index_agrees redeemer ?L (\<lambda>who. user_unlock_ledger s who c)"
    "index_agrees lock_to ?L (\<lambda>t. drop_currency (time_unit_unlock_ledger s t c))"
    and fresh: "ids_fresh s"
    by (simp_all add: sound_books_def books_agree_def book_of_def)
  show ?thesis
    using b(1) agreesD(1) [OF b(2), of who] agreesD(1) [OF b(3), of u] agreesD(2) [OF b(2), of _ who]
      agreesD(3) [OF b(2)] agreesD(3) [OF b(3)] fresh
    unfolding ids_fresh_def by blast
qed

theorem redemption_books_agree_witness:
  "minting_runs careful std_fixed std_minting eth_filed \<and>
   locked_by (token_unlock_ledger eth_filed hp_eth) (\<lambda>r. redeemer r = 1) = 100"
  using redemption_books_agree [OF eth_filed_careful, of hp_eth 1 "Era 7"] eth_filed_careful
  by (simp add: eth_filed_def entry_total_def)

text \<open>
  C30. In every reachable state the two maps between tokens and vTokens are inverse: a token leads to a vToken
  exactly when it is in that vToken's list, every listed key is a vToken, and its list has from 1 to 20 entries.
\<close>
theorem token_maps_are_inverse:
  assumes "minting_reachable F C s"
  shows "(token_to_vtoken_map s x = Some v \<longleftrightarrow>
      (\<exists>cs. vtoken_to_tokens s v = Some cs \<and> x \<in> set (tokens_of cs))) \<and>
    (\<forall>cs. vtoken_to_tokens s v = Some cs \<longrightarrow> is_vtoken v \<and> cs \<noteq> [] \<and> length cs \<le> max_multimap)"
  using runs_inverse [OF assms] unfolding maps_inverse_def by blast

theorem token_maps_are_inverse_witness:
  "minting_reachable std_fixed std_minting eth_ready \<and> token_to_vtoken_map eth_ready hp_eth = Some v_eth \<and>
   is_vtoken v_eth"
  using token_maps_are_inverse [OF careful_reachable [OF eth_ready_careful], of hp_eth v_eth]
    careful_reachable [OF eth_ready_careful]
  by (simp add: eth_ready_def tokens_of_def)

text \<open>
  C3. A fair action never lowers the backing of any vToken: the pool per unit of issuance after it is at least what
  it was before, in every state, on every ledger with the documented laws. Fair are all calls, hooks and the idle
  hook, with four exceptions: a redemption, by a call or through the slpx hook, of a token that is not mapped to the
  vToken; the root's \<open>set_v_currency_issuance\<close>; and the hooks that decrease the pool or set the issuance outright.
\<close>
theorem voucher_backing_never_falls:
  assumes "staking_ledger C" and "minting_act F C a s = Inr t" and "fair s a"
  shows "token_pool s v * vtoken_issuance t v \<le> token_pool t v * vtoken_issuance s v"
  using staking_ledger.act_backing [OF assms] by (simp add: backing_kept_def)

theorem voucher_backing_never_falls_witness:
  "\<exists>t. minting_act std_fixed std_minting (Act_call 0 (Signed 1) (Call_redeem None v_eth 41)) eth_grown = Inr t \<and>
     token_pool t v_eth = 89 \<and> vtoken_issuance t v_eth = 59 \<and> 150 * 59 \<le> 89 * (100 :: nat)"
proof -
  let ?a = "Act_call 0 (Signed 1) (Call_redeem None v_eth 41)"
  obtain t where t: "minting_act std_fixed std_minting ?a eth_grown = Inr t"
    "token_pool t v_eth = 89" "vtoken_issuance t v_eth = 59"
    by (simp add: eth_grown_def eth_ready_def initial_minting_def play_unfold)
  have "fair eth_grown ?a"
    by (simp add: own_token_def redeem_currency_def eth_grown_def eth_ready_def)
  from voucher_backing_never_falls [OF std_staking_ledger t(1) this, of v_eth] t show ?thesis
    by (simp add: eth_grown_def)
qed

section \<open>Minting and redeeming\<close>

text \<open>
  C28. A mint needs at least the minimum of the token; it takes exactly the amount from the minter, of which the
  fee (rounded down) goes to the fee account and the rest to the entrance account, and issues to the minter the
  rest's worth at the current backing, rounded down (one to one into an empty pool); pool and issuance of that
  vToken grow by exactly these amounts and no other balance, pool or issuance changes.
\<close>
theorem vmint_is_exact:
  assumes "staking_ledger C" and "fixed_point F" and "fst (mint_redeem_fees s) \<le> perm_one"
    and "do_vmint F C who c n remark channel s = Inr ((v, va), t)"
  shows "token_to_vtoken_map s c = Some v \<and> (case minimum_mint s c of None \<Rightarrow> 0 | Some m \<Rightarrow> m) \<le> n \<and>
    (let fee = fst (mint_redeem_fees s) * n div perm_one; net = n - fee in
     va = (if token_pool s v = 0 then net else net * vtoken_issuance s v div token_pool s v) \<and>
     token_pool t = (token_pool s)(v := token_pool s v + net) \<and>
     vtoken_issuance t = (vtoken_issuance s)(v := vtoken_issuance s v + va) \<and>
     (\<forall>d x. vt_free C t d x + paid c who n d x = vt_free C s d x + paid c (mint_fee_account C) fee d x +
        paid c (entrance_account C) net d x + paid v who va d x))"
proof -
  have fee: "perm_mul_floor F (fst (mint_redeem_fees s)) n = fst (mint_redeem_fees s) * n div perm_one"
    by (rule fixed_point.mul_floor [OF assms(2,3)])
  from assms(4) have "token_to_vtoken_map s c = Some v" "(case minimum_mint s c of None \<Rightarrow> 0 | Some m \<Rightarrow> m) \<le> n"
    by (rule vmint_cases, simp split: option.splits)+
  then show ?thesis
    using staking_ledger.vmint_effect [OF assms(1,4)] by (auto simp: fee Let_def vt_free_def)
qed

theorem vmint_is_exact_witness:
  "\<exists>t. do_vmint std_fixed std_minting 1 hp_eth 31 [] None eth_grown = Inr ((v_eth, 20), t) \<and>
     token_pool t v_eth = 181 \<and> vt_free std_minting t v_eth 1 = 120"
proof -
  obtain t where t: "do_vmint std_fixed std_minting 1 hp_eth 31 [] None eth_grown = Inr ((v_eth, 20), t)"
    "vt_free std_minting t v_eth 1 = 120"
    by (simp add: eth_grown_def eth_ready_def initial_minting_def play_unfold)
  have "fst (mint_redeem_fees eth_grown) \<le> perm_one"
    by (simp add: eth_grown_def eth_ready_def initial_minting_def)
  from vmint_is_exact [OF std_staking_ledger std_fixed_point this t(1)] t show ?thesis
    by (simp add: eth_grown_def eth_ready_def initial_minting_def Let_def)
qed



text \<open>
  C10. Minting and then redeeming all that was minted never gains: the redemption files at most the amount that
  was put in, whatever the fees, the pool and the issuance are.
\<close>
theorem mint_redeem_never_gains:
  assumes "staking_ledger C" and "do_vmint F C who c n remark channel s = Inr ((v, va), s1)"
    and "do_vredeem F C who (Some c) v va how s1 = Inr t"
  shows "\<exists>r. token_unlock_ledger t c (token_unlock_next_id s1 v) = Some r \<and> redeemer r = who \<and> unlock_amount r \<le> n"
proof -
  have "token_to_vtoken_map s c = Some v" using assms(2) by (rule vmint_cases)
  moreover have "token_maps s1 = token_maps s" using assms(2) by (rule quiet_maps [OF vmint_quiet])
  ultimately have m: "token_to_vtoken_map s1 c = Some v" by (simp add: token_maps_def)
  then have own: "\<And>d. redeem_currency s1 (Some c) v = Inr d \<Longrightarrow> token_to_vtoken_map s1 d = Some v"
    by (auto simp: redeem_currency_def get_vtoken_for_token_def rbind_eq_Inr)
  have cur: "redeem_currency s1 (Some c) v = Inr d \<Longrightarrow> d = c" for d
    using m by (auto simp: redeem_currency_def get_vtoken_for_token_def rbind_eq_Inr)
  from staking_ledger.vmint_effect [OF assms(1,2)] obtain fee net where
    net: "net = n - fee" and va: "va = (if token_pool s v = 0 then net else net * vtoken_issuance s v div token_pool s v)"
    and p: "token_pool s1 = (token_pool s)(v := token_pool s v + net)"
      "vtoken_issuance s1 = (vtoken_issuance s)(v := vtoken_issuance s v + va)" by blast
  from staking_ledger.vredeem_effect [OF assms(1,3) own] cur obtain fee' a u where
    a: "a = (if vtoken_issuance s1 v = 0 then va - fee' else (va - fee') * token_pool s1 v div vtoken_issuance s1 v)"
    and L: "token_unlock_ledger t = put2 c (token_unlock_next_id s1 v)
        (Some \<lparr>redeemer = who, unlock_amount = a, lock_to = u, redeem_how = how\<rparr>) (token_unlock_ledger s1)"
    by blast
  let ?I = "vtoken_issuance s v + va" and ?P = "token_pool s v + net"
  have "a \<le> (if ?I = 0 then va else va * ?P div ?I)"
    using a by (simp add: p div_le_mono mult_le_mono1)
  also have "\<dots> \<le> net" using va by (rule mint_redeem_le)
  finally have "a \<le> n" using net by simp
  then show ?thesis by (simp add: L put2_def)
qed

theorem mint_redeem_never_gains_witness:
  "\<exists>s1 t. do_vmint std_fixed std_minting 1 hp_eth 31 [] None eth_grown = Inr ((v_eth, 20), s1) \<and>
     do_vredeem std_fixed std_minting 1 (Some hp_eth) v_eth 20 RedeemNative s1 = Inr t \<and>
     (\<exists>r. token_unlock_ledger t hp_eth 0 = Some r \<and> unlock_amount r \<le> 31)"
proof -
  obtain s1 where s1: "do_vmint std_fixed std_minting 1 hp_eth 31 [] None eth_grown = Inr ((v_eth, 20), s1)"
    and rest: "\<exists>t. do_vredeem std_fixed std_minting 1 (Some hp_eth) v_eth 20 RedeemNative s1 = Inr t"
      "token_unlock_next_id s1 v_eth = 0"
    by (simp add: eth_grown_def eth_ready_def initial_minting_def play_unfold)
  then obtain t where t: "do_vredeem std_fixed std_minting 1 (Some hp_eth) v_eth 20 RedeemNative s1 = Inr t"
    by blast
  from mint_redeem_never_gains [OF std_staking_ledger s1 t] s1 t rest(2) show ?thesis by auto
qed

section \<open>Paying out\<close>

text \<open>
  Paying out a native redemption from a state with sound books: with \<open>n\<close> the smaller of the record and the
  entrance account's balance, an \<open>n\<close> of at least the existential deposit is transferred to the redeemer and
  taken off the record, which goes when nothing is left; below the deposit, a record that the balance covers is
  dropped without any transfer, and otherwise nothing happens.
\<close>
theorem payout_is_exact:
  assumes "token_unlock_ledger s c i = Some r" and "redeem_how r = RedeemNative" and "sound_books s"
    and "process_redeem C c (redeemer r) i (unlock_amount r) balance (lock_to r) (redeem_how r) s = Inr t"
    and "n = min (unlock_amount r) balance" and "0 < n"
  shows "sound_books t \<and>
    (mt_minimum_balance C c \<le> n \<longrightarrow>
       (\<exists>l. mc_transfer (mt_currencies C) c (entrance_account C) (redeemer r) n (outside s) = Inr l \<and>
          outside t = on_redeem_success C c (redeemer r) n l)) \<and>
    (mt_minimum_balance C c \<le> n \<or> unlock_amount r \<le> balance \<longrightarrow>
       token_unlock_ledger t c i =
         (if n = unlock_amount r then None else Some (r\<lparr>unlock_amount := unlock_amount r - n\<rparr>)) \<and>
       unlocking_total t c + n = unlocking_total s c) \<and>
    (n < mt_minimum_balance C c \<and> unlock_amount r \<le> balance \<longrightarrow>
       outside t = on_redeem_success C c (redeemer r) n (outside s)) \<and>
    (n < mt_minimum_balance C c \<and> balance < unlock_amount r \<longrightarrow> t = s)"
proof -
  let ?tr = "transfer_to_by_redeem_type C (redeemer r) c (unlock_amount r) balance (redeem_how r) s"
  have sound: "sound_books t" by (rule process_redeem_sound [OF assms(4,1,3)])
  show ?thesis
  proof (cases "mt_minimum_balance C c \<le> n \<or> unlock_amount r \<le> balance")
    case False
    then have "?tr = Inr ((0, ToNative (redeemer r)), s)"
      using assms(2,5) by (auto simp: transfer_to_by_redeem_type_def min_def split: if_splits)
    with assms(4) have "t = s" by (simp add: process_redeem_def)
    with False sound show ?thesis by auto
  next
    case True
    define l where "l = outside s"
    have tr: "\<exists>l. ?tr = Inr ((n, ToNative (redeemer r)), s\<lparr>outside := l\<rparr>) \<and>
        (if mt_minimum_balance C c \<le> n
         then mc_transfer (mt_currencies C) c (entrance_account C) (redeemer r) n (outside s) = Inr l
         else l = outside s)"
    proof -
      from assms(4) obtain m where m: "?tr = Inr m"
        unfolding process_redeem_def by (elim rbind_InrE) blast
      then show ?thesis
        using True assms(2,5)
        by (auto simp: transfer_to_by_redeem_type_def vt_transfer_def rbind_eq_Inr outside_call_eq_Inr min_def
            split: if_splits)
    qed
    then obtain l where l: "?tr = Inr ((n, ToNative (redeemer r)), s\<lparr>outside := l\<rparr>)"
      "if mt_minimum_balance C c \<le> n
         then mc_transfer (mt_currencies C) c (entrance_account C) (redeemer r) n (outside s) = Inr l
         else l = outside s" by blast
    from assms(4) l(1) assms(6) obtain b s2 where
      up: "update_unlock_ledger C (redeemer r) c n i (lock_to r) None OpSub (s\<lparr>outside := l\<rparr>) = Inr (b, s2)"
      and t: "t = emit_minting (RedeemSuccess (redeemer r) i c (ToNative (redeemer r)) n)
        (s2\<lparr>outside := on_redeem_success C c (redeemer r) n (outside s2)\<rparr>)"
      by (auto simp: process_redeem_def rbind_eq_Inr)
    from up have "outside s2 = l \<and> token_unlock_ledger s2 c i =
         (if n = unlock_amount r then None else Some (r\<lparr>unlock_amount := unlock_amount r - n\<rparr>)) \<and>
       unlocking_total s2 c + n = unlocking_total s c"
    proof (cases rule: update_sub_cases)
      case (1 r' ue te)
      have "n \<le> unlock_amount r" using assms(5) by simp
      then show ?thesis using 1(1,2,5) assms(1) by (auto simp: 1(6) put2_def)
    qed
    with True sound l(2) show ?thesis
      by (auto simp: t emit_minting_def split: if_splits)
  qed
qed

theorem payout_is_exact_witness:
  "\<exists>t. process_redeem std_minting hp_eth 1 0 60 50 (Era 7) RedeemNative eth_filed = Inr t \<and>
     token_unlock_ledger t hp_eth 0 =
       Some \<lparr>redeemer = 1, unlock_amount = 10, lock_to = Era 7, redeem_how = RedeemNative\<rparr> \<and>
     unlocking_total t hp_eth = 50"
proof -
  let ?r = "\<lparr>redeemer = 1, unlock_amount = 60, lock_to = Era 7, redeem_how = RedeemNative\<rparr>"
  have r: "token_unlock_ledger eth_filed hp_eth 0 = Some ?r" by (simp add: eth_filed_def)
  obtain t where t: "process_redeem std_minting hp_eth 1 0 60 50 (Era 7) RedeemNative eth_filed = Inr t"
    by (simp add: eth_filed_def process_redeem_def transfer_to_by_redeem_type_def play_unfold)
  have "(50 :: nat) = min 60 50" by simp
  with payout_is_exact [OF r, of std_minting 50 t 50] careful_runs_sound [OF eth_filed_careful] t show ?thesis
    by (simp add: eth_filed_def std_minting_simps)
qed

text \<open>
  A time unit whose redemptions are all worth nothing blocks the queue of its token: the idle hook changes
  no book and does not advance the token's time unit, so no later redemption of that token is ever paid.
\<close>
theorem worthless_redemptions_block_the_queue:
  assumes "time_unit_unlock_ledger s (min_time_unit s c) c = Some (m, ids, c)"
    and "\<forall>i \<in> set ids. \<exists>r. token_unlock_ledger s c i = Some r \<and> unlock_amount r = 0 \<and> redeem_how r = RedeemNative"
  shows "\<exists>l es. idle_currency C c s = s\<lparr>outside := l, minting_events := es\<rparr>"
proof -
  have "\<exists>l. t = s\<lparr>outside := l\<rparr>"
    if "pay_out C c js s = Inr t" "set js \<subseteq> set ids" for js t
    using that assms(2)
  proof (induction js arbitrary: s)
    case Nil
    then have "t = s\<lparr>outside := outside s\<rparr>" by simp
    then show ?case by blast
  next
    case (Cons i js)
    from Cons.prems(2,3) obtain r where r: "token_unlock_ledger s c i = Some r" "unlock_amount r = 0"
      "redeem_how r = RedeemNative" by auto
    show ?case
    proof (cases "vt_free C s c (entrance_account C) = 0")
      case True
      with Cons.prems(1) r have "t = s\<lparr>outside := outside s\<rparr>" by simp
      then show ?thesis by blast
    next
      case False
      with Cons.prems(1) r obtain s1 where p: "process_redeem C c (redeemer r) i 0
          (vt_free C s c (entrance_account C)) (lock_to r) RedeemNative s = Inr s1"
        and more: "pay_out C c js s1 = Inr t" by (auto simp: Let_def rbind_eq_Inr)
      from p obtain l where s1: "s1 = s\<lparr>outside := l\<rparr>"
        by (rule process_redeem_cases) auto
      have "\<exists>l. t = s1\<lparr>outside := l\<rparr>"
        using more by (rule Cons.IH) (use Cons.prems(2,3) s1 in auto)
      then show ?thesis by (auto simp: s1)
    qed
  qed
  note loop = this [of "take (hook_iteration_limit s) ids"]
  have handle: "handle_ledger_by_currency C c s = pay_out C c (take (hook_iteration_limit s) ids) s"
    by (simp add: handle_ledger_by_currency_def assms(1))
  show ?thesis
  proof (cases "pay_out C c (take (hook_iteration_limit s) ids) s")
    case (Inl e)
    then have "idle_currency C c s = s\<lparr>outside := outside s, minting_events := FastRedeemFailed e # minting_events s\<rparr>"
      by (simp add: idle_currency_def handle emit_minting_def)
    then show ?thesis by blast
  next
    case (Inr t)
    with loop obtain l where "t = s\<lparr>outside := l\<rparr>" by (auto dest: in_set_takeD)
    with Inr have "idle_currency C c s = s\<lparr>outside := l, minting_events := minting_events s\<rparr>"
      by (simp add: idle_currency_def handle)
    then show ?thesis by blast
  qed
qed

theorem worthless_redemptions_block_the_queue_witness:
  "minting_play (\<lambda>_ _. True) [Act_call 0 (Signed 2) (Call_redeem None v_eth 0)] eth_grown = Inr eth_blocked \<and>
   vt_free std_minting eth_blocked hp_eth 100 = 100 \<and>
   (\<exists>l es. idle_currency std_minting hp_eth eth_blocked = eth_blocked\<lparr>outside := l, minting_events := es\<rparr>)"
proof -
  have "\<exists>l es. idle_currency std_minting hp_eth eth_blocked = eth_blocked\<lparr>outside := l, minting_events := es\<rparr>"
    by (rule worthless_redemptions_block_the_queue [of _ _ 0 "[0]"])
      (simp_all add: eth_blocked_def eth_grown_def eth_ready_def)
  moreover have "vt_free std_minting eth_blocked hp_eth 100 = 100"
    by (simp add: vt_free_def std_minting_simps std_currency_def eth_blocked_def eth_grown_def v_eth_def)
  ultimately show ?thesis using eth_blocked_run by blast
qed

text \<open>
  Time units of different kinds never compare as greater, so the queue of a token whose unlocking is
  measured in another kind than its minimal time unit (at first always \<open>Era 0\<close>) is never advanced.
\<close>
theorem mixed_time_units_stall:
  assumes "ongoing_time_unit s c = Some now" and "unlock_duration s c = Some duration" and "same_kind now duration"
    and "\<not> same_kind now (min_time_unit s c)"
  shows "advance_min_time_unit c s = Inr s"
proof -
  obtain u where u: "tu_add now duration = Some u" using assms(3) by (cases now; cases duration) auto
  then have "\<not> same_kind u (min_time_unit s c)"
    using assms(4) by (cases now; cases duration; cases "min_time_unit s c") auto
  then have "\<not> tu_gt u (min_time_unit s c)" by (simp add: tu_gt_iff)
  with assms(1,2) u show ?thesis by (simp add: advance_min_time_unit_def)
qed

theorem mixed_time_units_stall_witness:
  "advance_min_time_unit hp_eth (eth_ready\<lparr>min_time_unit := (\<lambda>_. Hour 0)\<rparr>) =
     Inr (eth_ready\<lparr>min_time_unit := (\<lambda>_. Hour 0)\<rparr>)"
  by (rule mixed_time_units_stall [of _ _ "Era 5" "Era 2"]) (simp_all add: eth_ready_def ongoing_time_unit_def)

section \<open>Rebonding\<close>

text \<open>
  A rebond of exactly the amount of the user's latest redemption takes the amount twice: that record is
  dropped, the record before it (which is larger) loses the same amount again, and the token's unlocking total
  falls by twice the amount, while only the amount once is counted as rebonded and minted.
\<close>
theorem exact_rebond_takes_twice:
  assumes "rebond F C (Signed who) c n s = Inr t"
    and "user_unlock_ledger s who c = Some (m, ids @ [i, j])" and "i \<noteq> j"
    and "token_unlock_ledger s c j = Some rj" and "unlock_amount rj = n"
    and "token_unlock_ledger s c i = Some ri" and "n < unlock_amount ri"
    and "token_to_rebond s c = Some k"
  shows "token_unlock_ledger t c j = None \<and>
    token_unlock_ledger t c i = Some (ri\<lparr>unlock_amount := unlock_amount ri - n\<rparr>) \<and>
    unlocking_total t c + 2 * n = unlocking_total s c \<and> token_to_rebond t c = Some (k + n) \<and>
    (\<exists>v fee. fee \<le> n \<and> token_pool t v + fee = token_pool s v + n)"
  using assms(1)
proof (cases rule: rebond_cases)
  case (1 who' v m' ids' s1 net va fee s2 s3)
  from 1(1,3) assms(2) have ids: "rev ids' = j # i # rev ids" and [simp]: "who' = who" by simp_all
  have s1: "token_unlock_ledger s1 c j = None \<and>
      token_unlock_ledger s1 c i = Some (ri\<lparr>unlock_amount := unlock_amount ri - n\<rparr>) \<and>
      unlocking_total s1 c + 2 * n = unlocking_total s c \<and> token_to_rebond s1 = token_to_rebond s \<and>
      token_pool s1 = token_pool s"
    using 1(5) [unfolded ids]
  proof (cases rule: rebond_loop_ConsE)
    case a: (1 r part rest' removed u)
    with assms(4,5) have a': "r = rj" "part = n" "rest' = n" by simp_all
    from a(4) show ?thesis
    proof (cases rule: update_sub_cases)
      case b: (1 r' ue te)
      with a assms(4,5) a' have removed by simp
      with a(5) a' have "rebond_loop C who c (i # rev ids) n u = Inr s1" by simp
      then show ?thesis
      proof (cases rule: rebond_loop_ConsE)
        case d: (1 x part2 rest2 removed2 w)
        from b(6) assms(3,6) have "token_unlock_ledger u c i = Some ri" by (simp add: put2_apply)
        with d assms(7) have d': "x = ri" "part2 = n" by simp_all
        from d(4) show ?thesis
        proof (cases rule: update_sub_cases)
          case e: (1 x' ue2 te2)
          with d d' assms(7) have nr: "\<not> removed2" by simp
          with d(5) have "s1 = w" by simp
          then show ?thesis
            using e(1,5,6) b(5,6) d' d(1) nr a'(2) \<open>removed\<close> assms(3) by (auto simp: put2_apply)
        qed
      qed
    qed
  qed
  from 1(7) obtain q where q: "token_to_rebond s2 c = Some q"
    and s3: "s3 = s2\<lparr>token_to_rebond := (token_to_rebond s2)(c := Some (q + n))\<rparr>"
    by (auto simp: add_to_rebond_Inr)
  from 1(6) show ?thesis
  proof (cases rule: mint_without_transfer_cases)
    case p: (1 w l1 l2)
    have "token_unlock_ledger t = token_unlock_ledger s1" "unlocking_total t = unlocking_total s1"
      "token_to_rebond s2 = token_to_rebond s1" "token_to_rebond t c = Some (q + n)"
      "token_pool t w = token_pool s1 w + net"
      by (simp_all add: 1(8) s3 p(12) emit_minting_def)
    with s1 q assms(8) p(2,3) show ?thesis
      by (simp only: simp_thms) (metis (no_types, lifting) add.assoc le_add_diff_inverse2 option.inject)
  qed
qed

theorem exact_rebond_takes_twice_witness:
  "\<exists>t. minting_runs careful std_fixed std_minting eth_filed \<and>
     rebond std_fixed std_minting (Signed 1) hp_eth 40 eth_filed = Inr t \<and>
     unlocking_total eth_filed hp_eth = 100 \<and> unlocking_total t hp_eth = 20 \<and>
     token_pool t v_eth = 40 \<and> token_to_rebond t hp_eth = Some 40"
proof -
  obtain t where t: "rebond std_fixed std_minting (Signed 1) hp_eth 40 eth_filed = Inr t"
    "token_pool t v_eth = 40"
    by (simp add: eth_filed_def eth_ready_def initial_minting_def rebond_def convert_to_vtoken_def
        add_to_rebond_def play_unfold)
  have "unlocking_total eth_filed hp_eth = 100" "token_to_rebond eth_filed hp_eth = Some 0"
    by (simp_all add: eth_filed_def eth_ready_def)
  with exact_rebond_takes_twice [OF t(1), of 100 "[]" 0 1] t eth_filed_careful show ?thesis
    by (simp add: eth_filed_def)
qed

section \<open>Choosing the token of a redemption\<close>

text \<open>
  Disabling redemptions does not stop them: in every reachable state in which all tokens of a vToken are
  disabled and its plain token is one of them, a redemption that names that token is refused with
  \<open>RedeemNotEnabled\<close>, but one that names none falls back to that very token (the witness redeems it).
\<close>
theorem disabled_redemption_by_default:
  assumes "minting_reachable F C s" and "vtoken_to_tokens s v = Some cs" and "\<forall>d \<in> set cs. \<not> redeem_enabled d"
    and "to_token v = Inr c" and "c \<in> set (tokens_of cs)"
  shows "do_vredeem F C who (Some c) v n how s = Inl (Module RedeemNotEnabled) \<and>
    redeem_currency s None v = Inr c \<and> own_token s None v"
proof -
  have m: "token_to_vtoken_map s c = Some v"
    using maps_inverseD(1) [OF runs_inverse [OF assms(1)] assms(2,5)] .
  have none: "List.find redeem_enabled cs = None"
    using assms(3) by (simp add: find_None_iff)
  have "\<not> is_redeem_enabled_for_token s v c"
    using assms(2,3) by (auto simp: is_redeem_enabled_for_token_def find_config_def find_Some_iff
        split: option.splits dest!: nth_mem)
  then have "redeem_currency s (Some c) v = Inl (Module RedeemNotEnabled)"
    by (simp add: redeem_currency_def get_vtoken_for_token_def m)
  moreover have "redeem_currency s None v = Inr c"
    using assms(2,4) none by (simp add: redeem_currency_def default_token_def)
  ultimately show ?thesis by (simp add: do_vredeem_def own_token_def m)
qed

theorem disabled_redemption_by_default_witness:
  "minting_reachable std_fixed std_minting ksm_minted \<and>
   do_vredeem std_fixed std_minting 1 (Some (Token KSM)) (VToken KSM) 50 RedeemNative ksm_minted =
     Inl (Module RedeemNotEnabled) \<and>
   (\<exists>t. do_vredeem std_fixed std_minting 1 None (VToken KSM) 50 RedeemNative ksm_minted = Inr t \<and>
      unlocking_total t (Token KSM) = 50)"
proof -
  have "\<exists>t. do_vredeem std_fixed std_minting 1 None (VToken KSM) 50 RedeemNative ksm_minted = Inr t \<and>
      unlocking_total t (Token KSM) = 50"
    by (simp add: ksm_minted_def initial_minting_def play_unfold)
  moreover have "do_vredeem std_fixed std_minting 1 (Some (Token KSM)) (VToken KSM) 50 RedeemNative ksm_minted =
     Inl (Module RedeemNotEnabled)"
    using disabled_redemption_by_default [OF ksm_minted_reachable, of "VToken KSM"
        "[\<lparr>config_token = Token KSM, redeem_enabled = False\<rparr>]" "Token KSM"]
    by (simp add: ksm_minted_def tokens_of_def)
  ultimately show ?thesis using ksm_minted_reachable by blast
qed

text \<open>
  C37. In the reachable state \<open>eth_filed\<close>, account 1 waits for 60 and 40 of \<open>HP_ETH\<close>. Account 2, which holds no
  token at all, may redeem nothing of \<open>VToken2(16)\<close>, which no one has ever minted: the call succeeds, and
  since ids are counted per vToken but filed per token, it replaces the record of account 1's 60 by one of
  account 2 worth nothing. The unlocking total still says 100, but no record is left for the 60.
\<close>
theorem stray_redemption_erases_a_record:
  "minting_reachable std_fixed std_minting eth_filed \<and>
   (\<forall>c. vt_free std_minting eth_filed c 2 = 0) \<and>
   token_unlock_ledger eth_filed hp_eth 0 =
     Some \<lparr>redeemer = 1, unlock_amount = 60, lock_to = Era 7, redeem_how = RedeemNative\<rparr> \<and>
   (\<exists>t. minting_dispatch std_fixed std_minting 0 (Signed 2) (Call_redeem None stray 0) eth_filed = Inr t \<and>
      token_unlock_ledger t hp_eth 0 =
        Some \<lparr>redeemer = 2, unlock_amount = 0, lock_to = Era 7, redeem_how = RedeemNative\<rparr> \<and>
      unlocking_total t hp_eth = 100 \<and> locked_by (token_unlock_ledger t hp_eth) (\<lambda>_. True) = 40)"
proof -
  obtain t where t: "minting_dispatch std_fixed std_minting 0 (Signed 2) (Call_redeem None stray 0) eth_filed = Inr t"
    and L: "token_unlock_ledger t hp_eth =
      [0 \<mapsto> \<lparr>redeemer = 2, unlock_amount = 0, lock_to = Era 7, redeem_how = RedeemNative\<rparr>,
       Suc 0 \<mapsto> \<lparr>redeemer = 1, unlock_amount = 40, lock_to = Era 7, redeem_how = RedeemNative\<rparr>]"
    and tot: "unlocking_total t hp_eth = 100"
    by (simp add: eth_filed_def eth_ready_def initial_minting_def play_unfold fun_upd_twist)
  have "locked_by (token_unlock_ledger t hp_eth) (\<lambda>_. True) = 40"
    using locked_by_upd [of "[0 \<mapsto> \<lparr>redeemer = 2, unlock_amount = 0, lock_to = Era 7, redeem_how = RedeemNative\<rparr>]"
        "Suc 0" "Some \<lparr>redeemer = 1, unlock_amount = 40, lock_to = Era 7, redeem_how = RedeemNative\<rparr>" "\<lambda>_. True"]
      locked_by_upd [of "\<lambda>_. None" 0
        "Some \<lparr>redeemer = 2, unlock_amount = 0, lock_to = Era 7, redeem_how = RedeemNative\<rparr>" "\<lambda>_. True"]
    by (simp add: L)
  moreover have "vt_free std_minting eth_filed c 2 = 0" for c
    by (simp add: vt_free_def std_minting_simps std_currency_def eth_filed_def)
  moreover have "token_unlock_ledger eth_filed hp_eth 0 =
     Some \<lparr>redeemer = 1, unlock_amount = 60, lock_to = Era 7, redeem_how = RedeemNative\<rparr>"
    by (simp add: eth_filed_def)
  ultimately show ?thesis
    using careful_reachable [OF eth_filed_careful] t L tot by auto
qed

section \<open>Locked vTokens\<close>

text \<open>
  C36. In every reachable state a user's locked total is the sum of the lock records; an unlock releases exactly
  the records before the first that is not due, all of which are due, leaves the others with their sum as the
  new total and lock, and changes nothing else of the pallet.
\<close>
theorem unlock_releases_due_records:
  assumes "minting_runs P F C s" and "unlock_incentive_minted_vtoken C now (Signed who) v s = Inr t"
  shows "\<exists>m due rest l. vtoken_lock_ledger s who v = Some (m, due @ rest) \<and>
    m = sum_list (map fst due) + sum_list (map fst rest) \<and>
    (\<forall>x \<in> set due. snd x \<le> now) \<and> (rest \<noteq> [] \<longrightarrow> now < snd (hd rest)) \<and> 0 < sum_list (map fst due) \<and>
    t = s\<lparr>outside := l, vtoken_lock_ledger := put2 who v
      (if sum_list (map fst rest) = 0 then None else Some (sum_list (map fst rest), rest)) (vtoken_lock_ledger s)\<rparr> \<and>
    (0 < sum_list (map fst rest) \<longrightarrow> mt_set_lock C v who (sum_list (map fst rest)) (outside s) = Inr l)"
  using assms(2)
proof (cases rule: unlock_incentive_cases)
  case (1 who' m records released l)
  from 1(1) have [simp]: "who' = who" by simp
  let ?due = "due_records now records" and ?rest = "drop (length (due_records now records)) records"
  note ok = locks_okD [OF runs_locks [OF assms(1)] 1(2)]
  have rel: "released = sum_list (map fst ?due)" using released_exact ok 1(3) by blast
  have app: "?due @ ?rest = records" by (simp add: due_records_def flip: dropWhile_eq_drop)
  have sum: "m = sum_list (map fst ?due) + sum_list (map fst ?rest)" using ok due_split by metis
  have eq: "released = m \<longleftrightarrow> sum_list (map fst ?rest) = 0" "m - released = sum_list (map fst ?rest)"
    using sum rel by simp_all
  have "\<forall>x \<in> set ?due. snd x \<le> now" by (auto simp: due_records_def dest: set_takeWhileD)
  moreover have "?rest \<noteq> [] \<longrightarrow> now < snd (hd ?rest)"
  proof
    have r: "?rest = dropWhile (\<lambda>x. snd x \<le> now) records"
      by (simp add: due_records_def case_prod_unfold flip: dropWhile_eq_drop)
    assume "?rest \<noteq> []"
    then show "now < snd (hd ?rest)"
      unfolding r using hd_dropWhile [of "\<lambda>x. snd x \<le> now" records] by simp
  qed
  moreover have "t = s\<lparr>outside := l, vtoken_lock_ledger := put2 who v
      (if sum_list (map fst ?rest) = 0 then None else Some (sum_list (map fst ?rest), ?rest)) (vtoken_lock_ledger s)\<rparr>"
    using 1(7) by (simp only: eq \<open>who' = who\<close>) simp
  moreover have "0 < sum_list (map fst ?rest) \<longrightarrow> mt_set_lock C v who (sum_list (map fst ?rest)) (outside s) = Inr l"
  proof
    assume "0 < sum_list (map fst ?rest)"
    then have "released \<noteq> m" unfolding eq(1) by linarith
    with 1(6) show "mt_set_lock C v who (sum_list (map fst ?rest)) (outside s) = Inr l"
      by (simp only: if_False eq(2) \<open>who' = who\<close>)
  qed
  ultimately show ?thesis
    using 1(2,4) rel app sum by (intro exI [of _ m] exI [of _ ?due] exI [of _ ?rest] exI [of _ l]) simp
qed

theorem unlock_releases_due_records_witness:
  "\<exists>t. minting_reachable std_fixed std_minting eth_locked \<and>
     unlock_incentive_minted_vtoken std_minting 12 (Signed 1) v_eth eth_locked = Inr t \<and>
     vtoken_lock_ledger eth_locked 1 v_eth = Some (50, [(30, 10), (20, 15)]) \<and>
     vtoken_lock_ledger t 1 v_eth = Some (20, [(20, 15)])"
proof -
  obtain t where t: "unlock_incentive_minted_vtoken std_minting 12 (Signed 1) v_eth eth_locked = Inr t"
    "vtoken_lock_ledger t 1 v_eth = Some (20, [(20, 15)])"
    by (simp add: eth_locked_def unlock_incentive_minted_vtoken_def due_records_def wrapping_sum_def
        wrapping_add_def play_unfold)
  from unlock_releases_due_records [OF eth_locked_reachable t(1)] eth_locked_reachable t show ?thesis
    by (auto simp: eth_locked_def)
qed

end
