(* ===== verification/Asset_Registry.thy ===== *)
theory Asset_Registry
  imports Currency
begin

text \<open>
  The conversions between a token and its derived currencies that the runtime's pallets are given
  (\<open>impl CurrencyIdConversion for AssetIdMaps\<close> in \<open>pallets/asset-registry/src/lib.rs\<close>). They differ
  from the conversions of \<open>primitives/src/currency.rs\<close>: vsTokens and vsBonds have a token here, every
  \<open>Native\<close> symbol has a vToken, and no currency fails with \<open>InvalidToken\<close>.
\<close>

definition vsbond_bnc_fixed :: currency where
  "vsbond_bnc_fixed = VSBond BNC 2001 13 20"

fun convert_to_token :: "currency \<Rightarrow> conversion_error + currency" where
  "convert_to_token (VSBond s p a b) =
     (if VSBond s p a b = vsbond_bnc_fixed then Inr (Token KSM) else Inr (Token s))"
| "convert_to_token (VToken s) = (if s = BNC then Inr (Native BNC) else Inr (Token s))"
| "convert_to_token (VSToken s) = Inr (Token s)"
| "convert_to_token (VToken2 i) = Inr (Token2 i)"
| "convert_to_token (VSToken2 i) = Inr (Token2 i)"
| "convert_to_token (VSBond2 i p a b) = Inr (Token2 i)"
| "convert_to_token _ = Inl ConversionFailed"

fun asset_to_vtoken :: "currency \<Rightarrow> conversion_error + currency" where
  "asset_to_vtoken (Token s) = Inr (VToken s)"
| "asset_to_vtoken (Native s) = Inr (VToken s)"
| "asset_to_vtoken (Token2 i) = Inr (VToken2 i)"
| "asset_to_vtoken _ = Inl ConversionFailed"

fun asset_to_vstoken :: "currency \<Rightarrow> conversion_error + currency" where
  "asset_to_vstoken (Token s) = Inr (VSToken s)"
| "asset_to_vstoken (Token2 i) = Inr (VSToken2 i)"
| "asset_to_vstoken _ = Inl ConversionFailed"

fun asset_to_vsbond :: "currency \<Rightarrow> u32 \<Rightarrow> u32 \<Rightarrow> u32 \<Rightarrow> conversion_error + currency" where
  "asset_to_vsbond (Token s) index first_slot last_slot =
     (let vs_bond = VSBond s index first_slot last_slot
      in Inr (if vs_bond = VSBond KSM 2001 13 20 then VSBond BNC 2001 13 20 else vs_bond))"
| "asset_to_vsbond (Token2 i) index first_slot last_slot = Inr (VSBond2 i index first_slot last_slot)"
| "asset_to_vsbond _ _ _ _ = Inl ConversionFailed"

lemma vtoken_back:
  "asset_to_vtoken c = Inr v \<Longrightarrow> \<not> is_native c \<Longrightarrow> c \<noteq> Token BNC \<Longrightarrow> convert_to_token v = Inr c"
  by (cases c) auto

lemma vstoken_back: "asset_to_vstoken c = Inr v \<Longrightarrow> convert_to_token v = Inr c"
  by (cases c) auto

lemma vsbond_back:
  "asset_to_vsbond c i a b = Inr v \<Longrightarrow> c \<noteq> Token BNC \<Longrightarrow> convert_to_token v = Inr c"
  by (cases c) (auto simp: vsbond_bnc_fixed_def Let_def split: if_splits)

lemma vtoken_has_vtoken: "asset_to_vtoken c = Inr v \<Longrightarrow> is_vtoken v"
  by (cases c) auto

end
