(* ===== verification/Stable_State.thy ===== *)
theory Stable_State
  imports Asset_Registry Storage Ledger
begin

text \<open>
  The data of the stable swap: the pools of \<open>pallets/stable-asset/src/lib.rs\<close> with its storage, errors,
  events and the results of its calculations, and the configuration of \<open>pallets/stable-pool/src/lib.rs\<close>, the
  pallet through which users reach it. \<open>Pools\<close> and the rates of one pool are iterated over, so they are
  the lists of their entries in storage order; the other maps are functions.

  Both number types of the pallet are \<open>u128\<close> in every runtime, as is its ledger of assets one and the same for
  both pallets. What is called outside (the token ledger, the registration of metadata, the liquid staking
  pallet) acts on a state of type \<open>'l\<close>.
\<close>

section \<open>Pools\<close>

record stable_pool =
  pool_id :: nat
  pool_asset :: currency
  pool_assets :: "currency list"
  pool_precisions :: "nat list"
  mint_fee :: nat
  swap_fee :: nat
  redeem_fee :: nat
  lp_supply :: nat
  amp :: nat
  amp_block :: nat
  future_amp :: nat
  future_amp_block :: nat
  pool_balances :: "nat list"
  fee_recipient :: account
  pool_account :: account
  yield_recipient :: account
  pool_precision :: nat

section \<open>Errors and events\<close>

datatype stable_pool_error =
    PoolSwapUnderMin | PoolMintUnderMin | CantMint | PoolRedeemOverMax | TokenRateNotSet

datatype stable_error =
    InconsistentStorage | InvalidPoolAsset | ArgumentsMismatch | ArgumentsError | PoolNotFound | Math
  | InvalidPoolValue | MintUnderMin | SwapUnderMin | RedeemUnderMin | RedeemOverMax
  | TokenRateNotCleared
  | StablePool stable_pool_error

type_synonym 'a stable_result = "(stable_error, 'a) result"

text \<open>The arguments of an event are the fields of the source in their order.\<close>

datatype stable_event =
    CreatePool nat nat account account
  | LiquidityAdded account nat nat "nat list" nat "nat list" nat nat nat
  | TokenSwapped account nat nat currency currency nat nat "nat list" nat nat
  | RedeemedProportion account nat nat nat "nat list" "nat list" nat nat "nat list"
  | RedeemedSingle account nat nat nat currency nat "nat list" nat nat nat
  | RedeemedMulti account nat nat "nat list" nat "nat list" nat nat nat
  | BalanceUpdated nat "nat list" "nat list"
  | YieldCollected nat nat nat nat account nat
  | FeeCollected nat nat "nat list" "nat list" nat nat account nat
  | AModified nat nat nat
  | FeeModified nat nat nat nat
  | RecipientModified nat account account
  | TokenRateSet nat "(currency \<times> nat \<times> nat) list"
  | TokenRateHardcapConfigured currency nat
  | TokenRateHardcapRemoved currency
  | TokenRateRefreshFailed nat
  | RateAdjustmentLimited nat currency nat nat nat

section \<open>Results of the calculations\<close>

record mint_result =
  mr_mint_amount :: nat
  mr_fee_amount :: nat
  mr_balances :: "nat list"
  mr_total_supply :: nat

record swap_result =
  sr_dx :: nat
  sr_dy :: nat
  sr_y :: nat
  sr_balance_i :: nat

record redeem_proportion_result =
  rp_amounts :: "nat list"
  rp_balances :: "nat list"
  rp_fee_amount :: nat
  rp_total_supply :: nat
  rp_redeem_amount :: nat

record redeem_single_result =
  rs_dy :: nat
  rs_fee_amount :: nat
  rs_total_supply :: nat
  rs_balances :: "nat list"
  rs_redeem_amount :: nat

record redeem_multi_result =
  rm_redeem_amount :: nat
  rm_fee_amount :: nat
  rm_balances :: "nat list"
  rm_total_supply :: nat
  rm_burn_amount :: nat

record pending_fee_result =
  pf_fee_amount :: nat
  pf_balances :: "nat list"
  pf_total_supply :: nat

section \<open>Configuration and storage\<close>

record 'l stable_config =
  sa_currencies :: "'l currency_ops"
  sa_deposit :: "currency \<Rightarrow> account \<Rightarrow> nat \<Rightarrow> 'l \<Rightarrow> nat + 'l"
  sa_withdraw :: "currency \<Rightarrow> account \<Rightarrow> nat \<Rightarrow> 'l \<Rightarrow> nat + 'l"
  fee_precision :: nat
  swap_exact_over_amount :: nat
  a_precision :: nat
  pool_asset_limit :: nat
  listing_origin :: "origin \<Rightarrow> bool"
  valid_pool_asset :: "currency \<Rightarrow> bool"
  sub_account :: "nat \<Rightarrow> account"
  main_account :: account
  pool_hash :: "nat \<Rightarrow> nat"
  rate_hash :: "currency \<Rightarrow> nat"
  pool_control_origin :: "origin \<Rightarrow> bool"
  register_blp_metadata :: "nat \<Rightarrow> nat \<Rightarrow> 'l \<Rightarrow> nat + 'l"
  staked_issuance :: "'l \<Rightarrow> currency \<Rightarrow> nat option"
  staked_pool :: "'l \<Rightarrow> currency \<Rightarrow> nat"
  permill_times :: "nat \<Rightarrow> nat \<Rightarrow> nat"

record 'l stable_state =
  pool_count :: nat
  pools :: "(nat \<times> stable_pool) list"
  token_rates :: "nat \<Rightarrow> (currency \<times> nat \<times> nat) list"
  rate_hardcap :: "currency \<Rightarrow> nat option"
  block_now :: nat
  providers :: "account \<Rightarrow> nat"
  coins :: 'l
  stable_events :: "stable_event list"

definition initial_stable :: "nat \<Rightarrow> 'l \<Rightarrow> 'l stable_state" where
  "initial_stable b l = \<lparr>pool_count = 0, pools = [], token_rates = (\<lambda>_. []), rate_hardcap = (\<lambda>_. None),
     block_now = b, providers = (\<lambda>_. 0), coins = l, stable_events = []\<rparr>"

definition emit_stable :: "stable_event \<Rightarrow> 'l stable_state \<Rightarrow> 'l stable_state" where
  "emit_stable e s = s\<lparr>stable_events := e # stable_events s\<rparr>"

definition get_token_rate :: "'l stable_state \<Rightarrow> nat \<Rightarrow> currency \<Rightarrow> (nat \<times> nat) option" where
  "get_token_rate s pid asset = map_of (token_rates s pid) asset"

definition find_pool :: "'l stable_state \<Rightarrow> nat \<Rightarrow> stable_pool option" where
  "find_pool s pid = map_of (pools s) pid"

definition insert_pool ::
  "'l stable_config \<Rightarrow> nat \<Rightarrow> stable_pool \<Rightarrow> 'l stable_state \<Rightarrow> 'l stable_state" where
  "insert_pool C pid p s = s\<lparr>pools := sm_put (pool_hash C) pid p (pools s)\<rparr>"

section \<open>The ledger of assets\<close>

definition on_coins :: "('l \<Rightarrow> nat + 'l) \<Rightarrow> 'l stable_state \<Rightarrow> 'l stable_state stable_result" where
  "on_coins f s = (case f (coins s) of Inl e \<Rightarrow> Inl (External e) | Inr l \<Rightarrow> Inr (s\<lparr>coins := l\<rparr>))"

definition sa_free :: "'l stable_config \<Rightarrow> 'l stable_state \<Rightarrow> currency \<Rightarrow> account \<Rightarrow> nat" where
  "sa_free C s = mc_free (sa_currencies C) (coins s)"

definition sa_transfer ::
  "'l stable_config \<Rightarrow> currency \<Rightarrow> account \<Rightarrow> account \<Rightarrow> nat \<Rightarrow> 'l stable_state \<Rightarrow>
     'l stable_state stable_result" where
  "sa_transfer C c a b n = on_coins (mc_transfer (sa_currencies C) c a b n)"

definition sa_mint_to ::
  "'l stable_config \<Rightarrow> currency \<Rightarrow> account \<Rightarrow> nat \<Rightarrow> 'l stable_state \<Rightarrow> 'l stable_state stable_result" where
  "sa_mint_to C c a n = on_coins (sa_deposit C c a n)"

definition sa_burn_from ::
  "'l stable_config \<Rightarrow> currency \<Rightarrow> account \<Rightarrow> nat \<Rightarrow> 'l stable_state \<Rightarrow> 'l stable_state stable_result" where
  "sa_burn_from C c a n = on_coins (sa_withdraw C c a n)"

lemma on_coins_eq_Inr [result_simps]:
  "on_coins f s = Inr t \<longleftrightarrow> (\<exists>l. f (coins s) = Inr l \<and> t = s\<lparr>coins := l\<rparr>)"
  by (auto simp: on_coins_def split: sum.splits)

section \<open>Vectors\<close>

text \<open>\<open>xs[i]\<close> panics out of range.\<close>

definition at :: "'a list \<Rightarrow> nat \<Rightarrow> 'a stable_result" where
  "at xs i = (if i < length xs then Inr (xs ! i) else Inl Panic)"

definition get_or :: "stable_error \<Rightarrow> 'a list \<Rightarrow> nat \<Rightarrow> 'a stable_result" where
  "get_or e xs i = (if i < length xs then Inr (xs ! i) else Inl (Module e))"

text \<open>\<open>Result::ok\<close> on a result that may also have panicked.\<close>

definition ok_of :: "'a stable_result \<Rightarrow> 'a option stable_result" where
  "ok_of r = (case r of Inr x \<Rightarrow> Inr (Some x) | Inl Panic \<Rightarrow> Inl Panic | Inl _ \<Rightarrow> Inr None)"

lemma at_eq_Inr [result_simps]: "at xs i = Inr x \<longleftrightarrow> i < length xs \<and> x = xs ! i"
  by (auto simp: at_def)

lemma get_or_eq_Inr [result_simps]: "get_or e xs i = Inr x \<longleftrightarrow> i < length xs \<and> x = xs ! i"
  by (auto simp: get_or_def)

end
