(* ===== verification/Stable_Math.thy ===== *)
theory Stable_Math
  imports Stable_State "HOL-Library.Monad_Syntax"
begin

text \<open>
  The numbers of the stable swap: the amplification coefficient at a block, and the two Newton iterations of
  \<open>pallets/stable-asset/src/lib.rs\<close> for the invariant \<open>D\<close> of a pool and for the balance \<open>y\<close> one of
  its assets must have. The iterations run on 512-bit integers, every operation checked; \<open>None\<close> is the early
  return of the operator \<open>?\<close>. The loop of at most \<open>NUMBER_OF_ITERATIONS_TO_CONVERGE\<close> rounds is \<open>newton\<close>,
  structurally recursive on the rounds left.
\<close>

section \<open>256- and 512-bit arithmetic\<close>

definition uint256_max :: nat where
  "uint256_max = 2 ^ 256 - 1"

definition u512_max :: nat where
  "u512_max = 2 ^ 512 - 1"

definition wide_add :: "nat \<Rightarrow> nat \<Rightarrow> nat option" where
  "wide_add a b = chk u512_max (a + b)"

definition wide_mul :: "nat \<Rightarrow> nat \<Rightarrow> nat option" where
  "wide_mul a b = chk u512_max (a * b)"

text \<open>\<open>u128::try_from(U256::from(a).checked_mul(U256::from(b))?.checked_div(U256::from(c))?)\<close>.\<close>

definition mul_div :: "nat \<Rightarrow> nat \<Rightarrow> nat \<Rightarrow> nat option" where
  "mul_div a b c = do { p \<leftarrow> chk uint256_max (a * b); q \<leftarrow> checked_div p c; chk u128_max q }"

section \<open>The amplification coefficient\<close>

definition get_a :: "nat \<Rightarrow> nat \<Rightarrow> nat \<Rightarrow> nat \<Rightarrow> nat \<Rightarrow> nat option" where
  "get_a now_block a0 t0 a1 t1 =
     (if now_block < t1 then do {
        time_diff \<leftarrow> checked_sub now_block t0;
        time_diff_div \<leftarrow> checked_sub t1 t0;
        if a1 > a0 then do {
          diff \<leftarrow> checked_sub a1 a0;
          amount \<leftarrow> mul_div diff time_diff time_diff_div;
          checked_add a0 amount }
        else do {
          diff \<leftarrow> checked_sub a0 a1;
          amount \<leftarrow> mul_div diff time_diff time_diff_div;
          checked_sub a0 amount } }
      else Some a1)"

section \<open>The loops\<close>

definition iterations_to_converge :: nat where
  "iterations_to_converge = 255"

text \<open>The test at the end of a round, which leaves the loop when two values are at most one apart.\<close>

definition close_to :: "nat \<Rightarrow> nat \<Rightarrow> bool" where
  "close_to d prev = (if d > prev then d - prev \<le> 1 else prev - d \<le> 1)"

fun newton :: "nat \<Rightarrow> (nat \<Rightarrow> nat option) \<Rightarrow> nat \<Rightarrow> nat option" where
  "newton 0 step d = Some d"
| "newton (Suc k) step d = do {
     d' \<leftarrow> step d;
     if close_to d' d then Some d' else newton k step d' }"

section \<open>The invariant\<close>

fun sum_and_ann :: "nat \<Rightarrow> nat list \<Rightarrow> nat \<Rightarrow> nat \<Rightarrow> (nat \<times> nat) option" where
  "sum_and_ann n [] bal_sum ann = Some (bal_sum, ann)"
| "sum_and_ann n (x # xs) bal_sum ann = do {
     bal_sum' \<leftarrow> wide_add bal_sum x;
     ann' \<leftarrow> wide_mul ann n;
     sum_and_ann n xs bal_sum' ann' }"

fun d_product :: "nat \<Rightarrow> nat \<Rightarrow> nat list \<Rightarrow> nat \<Rightarrow> nat option" where
  "d_product n d [] p_d = Some p_d"
| "d_product n d (x # xs) p_d = do {
     div_op \<leftarrow> wide_mul x n;
     p \<leftarrow> wide_mul p_d d;
     p_d' \<leftarrow> checked_div p div_op;
     d_product n d xs p_d' }"

definition d_step :: "nat \<Rightarrow> nat list \<Rightarrow> nat \<Rightarrow> nat \<Rightarrow> nat \<Rightarrow> nat option" where
  "d_step ap balances bal_sum ann d = do {
     let n = length balances;
     p_d \<leftarrow> d_product n d balances d;
     t1 \<leftarrow> wide_mul p_d n;
     n1 \<leftarrow> wide_add n 1;
     t2 \<leftarrow> wide_mul n1 p_d;
     u1 \<leftarrow> checked_sub ann ap;
     u2 \<leftarrow> wide_mul u1 d;
     u3 \<leftarrow> checked_div u2 ap;
     t3 \<leftarrow> wide_add u3 t2;
     v1 \<leftarrow> wide_mul ann bal_sum;
     v2 \<leftarrow> checked_div v1 ap;
     v3 \<leftarrow> wide_add v2 t1;
     v4 \<leftarrow> wide_mul v3 d;
     checked_div v4 t3 }"

definition get_d :: "nat \<Rightarrow> nat list \<Rightarrow> nat \<Rightarrow> nat option" where
  "get_d ap balances a = do {
     (bal_sum, ann) \<leftarrow> sum_and_ann (length balances) balances 0 a;
     if bal_sum = 0 then Some 0
     else do {
       d \<leftarrow> newton iterations_to_converge (d_step ap balances bal_sum ann) bal_sum;
       chk u128_max d } }"

section \<open>The balance of one asset\<close>

fun y_sums :: "nat \<Rightarrow> nat \<Rightarrow> nat \<Rightarrow> nat \<Rightarrow> nat list \<Rightarrow> nat \<Rightarrow> nat \<Rightarrow> nat \<Rightarrow> (nat \<times> nat \<times> nat) option" where
  "y_sums n token_index target_d i [] c bal_sum ann = Some (c, bal_sum, ann)"
| "y_sums n token_index target_d i (x # xs) c bal_sum ann = do {
     ann' \<leftarrow> wide_mul ann n;
     if i = token_index then y_sums n token_index target_d (Suc i) xs c bal_sum ann'
     else do {
       bal_sum' \<leftarrow> wide_add bal_sum x;
       div_op \<leftarrow> wide_mul x n;
       c1 \<leftarrow> wide_mul c target_d;
       c' \<leftarrow> checked_div c1 div_op;
       y_sums n token_index target_d (Suc i) xs c' bal_sum' ann' } }"

definition y_coefficients :: "nat \<Rightarrow> nat list \<Rightarrow> nat \<Rightarrow> nat \<Rightarrow> nat \<Rightarrow> (nat \<times> nat) option" where
  "y_coefficients ap balances token_index target_d amplitude = do {
     let n = length balances;
     (c0, bal_sum, ann) \<leftarrow> y_sums n token_index target_d 0 balances target_d 0 amplitude;
     c1 \<leftarrow> wide_mul c0 target_d;
     c2 \<leftarrow> wide_mul c1 ap;
     ann_n \<leftarrow> wide_mul ann n;
     c \<leftarrow> checked_div c2 ann_n;
     d_ap \<leftarrow> wide_mul target_d ap;
     d_ann \<leftarrow> checked_div d_ap ann;
     b \<leftarrow> wide_add bal_sum d_ann;
     Some (c, b) }"

definition y_step :: "nat \<Rightarrow> nat \<Rightarrow> nat \<Rightarrow> nat \<Rightarrow> nat option" where
  "y_step c b target_d y = do {
     yy \<leftarrow> wide_mul y y;
     yyc \<leftarrow> wide_add yy c;
     y2 \<leftarrow> wide_mul y 2;
     y2b \<leftarrow> wide_add y2 b;
     y2bd \<leftarrow> checked_sub y2b target_d;
     checked_div yyc y2bd }"

definition get_y :: "nat \<Rightarrow> nat list \<Rightarrow> nat \<Rightarrow> nat \<Rightarrow> nat \<Rightarrow> nat option" where
  "get_y ap balances token_index target_d amplitude = do {
     (c, b) \<leftarrow> y_coefficients ap balances token_index target_d amplitude;
     y \<leftarrow> newton iterations_to_converge (y_step c b target_d) target_d;
     chk u128_max y }"

end
