(* ===== verification/Stable_Amounts.thy ===== *)
theory Stable_Amounts
  imports Stable_Math
begin

text \<open>
  The calculations of \<open>pallets/stable-asset/src/lib.rs\<close>: what a deposit mints, what a swap pays in both
  directions, what the three kinds of redemption pay, the fees that have become due, and the two refreshes
  of a pool that every one of them starts with. They read the chain and change nothing.

  \<open>get_swap_amount_exact\<close> answers an option in the source; here its \<open>None\<close> is the error \<open>Math\<close>, so
  that a panic stays apart from it.
\<close>

definition math :: "'a option \<Rightarrow> 'a stable_result" where
  "math x = ok_or x (Module Math)"

lemma math_eq_Inr [result_simps]: "math x = Inr v \<longleftrightarrow> x = Some v"
  by (simp add: math_def result_simps)

text \<open>\<open>get_a\<close> of a pool at the current block, with its error.\<close>

definition amp_now :: "'l stable_state \<Rightarrow> stable_pool \<Rightarrow> nat stable_result" where
  "amp_now s p = math (get_a (block_now s) (amp p) (amp_block p) (future_amp p) (future_amp_block p))"

text \<open>A share of \<open>fee\<close> in \<open>FeePrecision\<close>.\<close>

definition fee_of :: "'l stable_config \<Rightarrow> nat \<Rightarrow> nat \<Rightarrow> nat stable_result" where
  "fee_of C fee amount = math (mul_div amount fee (fee_precision C))"

section \<open>Refreshing a pool\<close>

text \<open>The balance the pool really holds of its \<open>i\<close>-th asset, at its token rate and precision.\<close>

definition asset_value :: "'l stable_config \<Rightarrow> 'l stable_state \<Rightarrow> stable_pool \<Rightarrow> nat \<Rightarrow> nat stable_result" where
  "asset_value C s p i =
     rbind (at (pool_assets p) i) (\<lambda>asset.
     rbind (case get_token_rate s (pool_id p) asset of
              None \<Rightarrow> Inr (sa_free C s asset (pool_account p))
            | Some (denominator, numerator) \<Rightarrow>
                math (mul_div (sa_free C s asset (pool_account p)) numerator denominator)) (\<lambda>balance_of.
     rbind (at (pool_precisions p) i) (\<lambda>precision.
     math (checked_mul balance_of precision))))"

definition get_balance_update_amount ::
  "'l stable_config \<Rightarrow> 'l stable_state \<Rightarrow> stable_pool \<Rightarrow> stable_pool stable_result" where
  "get_balance_update_amount C s p =
     rbind (rmap (asset_value C s p) [0..<length (pool_balances p)]) (\<lambda>updated_balances.
     Inr (p\<lparr>pool_balances := updated_balances\<rparr>))"

definition get_collect_yield_amount ::
  "'l stable_config \<Rightarrow> 'l stable_state \<Rightarrow> stable_pool \<Rightarrow> stable_pool stable_result" where
  "get_collect_yield_amount C s p =
     rbind (amp_now s p) (\<lambda>a.
     rbind (math (get_d (a_precision C) (pool_balances p) a)) (\<lambda>new_d.
     Inr (p\<lparr>lp_supply := new_d\<rparr>)))"

definition refreshed :: "'l stable_config \<Rightarrow> 'l stable_state \<Rightarrow> stable_pool \<Rightarrow> stable_pool stable_result" where
  "refreshed C s p = rbind (get_balance_update_amount C s p) (get_collect_yield_amount C s)"

section \<open>Depositing\<close>

definition balance_after_deposit :: "nat \<Rightarrow> stable_pool \<Rightarrow> nat list \<Rightarrow> nat \<Rightarrow> nat stable_result" where
  "balance_after_deposit old_d p amounts i =
     (if amounts ! i = 0 then
        (if old_d = 0 then Inl (Module ArgumentsError) else Inr (pool_balances p ! i))
      else
        rbind (at (pool_precisions p) i) (\<lambda>precision.
        rbind (math (checked_mul (amounts ! i) precision)) (\<lambda>added.
        math (checked_add (pool_balances p ! i) added))))"

definition get_mint_amount ::
  "'l stable_config \<Rightarrow> 'l stable_state \<Rightarrow> stable_pool \<Rightarrow> nat list \<Rightarrow> mint_result stable_result" where
  "get_mint_amount C s p0 amounts =
     rbind (refreshed C s p0) (\<lambda>p.
     rbind (ensure (length (pool_balances p) = length amounts) (Module ArgumentsMismatch)) (\<lambda>_.
     rbind (amp_now s p) (\<lambda>a.
     let old_d = lp_supply p in
     rbind (rmap (balance_after_deposit old_d p amounts) [0..<length (pool_balances p)]) (\<lambda>balances.
     rbind (math (get_d (a_precision C) balances a)) (\<lambda>new_d.
     rbind (math (checked_sub new_d old_d)) (\<lambda>mint_amount.
     rbind (if mint_fee p > 0 then
              rbind (fee_of C (mint_fee p) mint_amount) (\<lambda>fee_amount.
              rbind (math (checked_sub mint_amount fee_amount)) (\<lambda>net.
              Inr (net, fee_amount)))
            else Inr (mint_amount, 0)) (\<lambda>(net, fee_amount).
     Inr \<lparr>mr_mint_amount = net, mr_fee_amount = fee_amount, mr_balances = balances,
          mr_total_supply = new_d\<rparr>)))))))"

section \<open>Swapping\<close>

definition get_swap_amount ::
  "'l stable_config \<Rightarrow> 'l stable_state \<Rightarrow> stable_pool \<Rightarrow> nat \<Rightarrow> nat \<Rightarrow> nat \<Rightarrow> swap_result stable_result" where
  "get_swap_amount C s p0 input_index output_index dx =
     rbind (refreshed C s p0) (\<lambda>p.
     let size = length (pool_balances p) in
     rbind (ensure (input_index \<noteq> output_index) (Module ArgumentsError)) (\<lambda>_.
     rbind (ensure (dx > 0) (Module ArgumentsError)) (\<lambda>_.
     rbind (ensure (input_index < size) (Module ArgumentsError)) (\<lambda>_.
     rbind (ensure (output_index < size) (Module ArgumentsError)) (\<lambda>_.
     rbind (amp_now s p) (\<lambda>a.
     let d = lp_supply p in
     rbind (at (pool_precisions p) input_index) (\<lambda>precision_in.
     rbind (math (checked_mul dx precision_in)) (\<lambda>added.
     rbind (math (checked_add (pool_balances p ! input_index) added)) (\<lambda>balance_i.
     let balances = (pool_balances p)[input_index := balance_i] in
     rbind (math (get_y (a_precision C) balances output_index d a)) (\<lambda>y.
     rbind (math (checked_sub (balances ! output_index) y)) (\<lambda>dy0.
     rbind (math (checked_sub dy0 1)) (\<lambda>dy1.
     rbind (at (pool_precisions p) output_index) (\<lambda>precision_out.
     rbind (math (checked_div dy1 precision_out)) (\<lambda>dy.
     rbind (if swap_fee p > 0 then
              rbind (fee_of C (swap_fee p) dy) (\<lambda>fee_amount. math (checked_sub dy fee_amount))
            else Inr dy) (\<lambda>dy_net.
     Inr \<lparr>sr_dx = dx, sr_dy = dy_net, sr_y = y, sr_balance_i = balance_i\<rparr>)))))))))))))))"

definition get_swap_amount_exact ::
  "'l stable_config \<Rightarrow> 'l stable_state \<Rightarrow> stable_pool \<Rightarrow> nat \<Rightarrow> nat \<Rightarrow> nat \<Rightarrow> swap_result stable_result" where
  "get_swap_amount_exact C s p0 input_index output_index dy_bal =
     rbind (refreshed C s p0) (\<lambda>p.
     let size = length (pool_balances p) in
     rbind (ensure (input_index \<noteq> output_index) (Module Math)) (\<lambda>_.
     rbind (ensure (dy_bal > 0) (Module Math)) (\<lambda>_.
     rbind (ensure (input_index < size) (Module Math)) (\<lambda>_.
     rbind (ensure (output_index < size) (Module Math)) (\<lambda>_.
     rbind (if swap_fee p > 0 then
              rbind (math (checked_sub (fee_precision C) (swap_fee p))) (\<lambda>diff.
              math (mul_div dy_bal (fee_precision C) diff))
            else Inr dy_bal) (\<lambda>dy.
     rbind (amp_now s p) (\<lambda>a.
     let d = lp_supply p in
     rbind (at (pool_precisions p) output_index) (\<lambda>precision_out.
     rbind (math (checked_mul dy precision_out)) (\<lambda>taken.
     rbind (math (checked_sub (pool_balances p ! output_index) taken)) (\<lambda>balance_out.
     let balances = (pool_balances p)[output_index := balance_out] in
     rbind (math (get_y (a_precision C) balances input_index d a)) (\<lambda>y.
     rbind (math (checked_sub y (balances ! input_index))) (\<lambda>dx0.
     rbind (math (checked_sub dx0 1)) (\<lambda>dx1.
     rbind (at (pool_precisions p) input_index) (\<lambda>precision_in.
     rbind (math (checked_div dx1 precision_in)) (\<lambda>dx2.
     rbind (math (checked_add dx2 (swap_exact_over_amount C))) (\<lambda>dx.
     Inr \<lparr>sr_dx = dx, sr_dy = dy_bal, sr_y = y, sr_balance_i = balances ! input_index\<rparr>))))))))))))))))"

section \<open>Redeeming\<close>

text \<open>The fee is taken from the pool tokens before they are redeemed.\<close>

definition redeem_fee_split ::
  "'l stable_config \<Rightarrow> stable_pool \<Rightarrow> nat \<Rightarrow> (nat \<times> nat) stable_result" where
  "redeem_fee_split C p amount =
     (if redeem_fee p > 0 then
        rbind (fee_of C (redeem_fee p) amount) (\<lambda>fee_amount.
        rbind (math (checked_sub amount fee_amount)) (\<lambda>net.
        Inr (net, fee_amount)))
      else Inr (amount, 0))"

definition proportion_of :: "stable_pool \<Rightarrow> nat \<Rightarrow> nat \<Rightarrow> (nat \<times> nat) stable_result" where
  "proportion_of p amount i =
     rbind (math (mul_div (pool_balances p ! i) amount (lp_supply p))) (\<lambda>diff_i.
     rbind (math (checked_sub (pool_balances p ! i) diff_i)) (\<lambda>balance_i.
     rbind (at (pool_precisions p) i) (\<lambda>precision.
     rbind (math (checked_div diff_i precision)) (\<lambda>amount_i.
     Inr (amount_i, balance_i)))))"

definition get_redeem_proportion_amount ::
  "'l stable_config \<Rightarrow> 'l stable_state \<Rightarrow> stable_pool \<Rightarrow> nat \<Rightarrow> redeem_proportion_result stable_result" where
  "get_redeem_proportion_amount C s p0 amount_bal =
     rbind (refreshed C s p0) (\<lambda>p.
     rbind (ensure (amount_bal > 0) (Module ArgumentsError)) (\<lambda>_.
     let d = lp_supply p in
     rbind (redeem_fee_split C p amount_bal) (\<lambda>(amount, fee_amount).
     rbind (rmap (proportion_of p amount) [0..<length (pool_balances p)]) (\<lambda>parts.
     rbind (math (checked_sub d amount)) (\<lambda>supply_left.
     Inr \<lparr>rp_amounts = map fst parts, rp_balances = map snd parts, rp_fee_amount = fee_amount,
          rp_total_supply = supply_left, rp_redeem_amount = amount\<rparr>)))))"

definition get_redeem_single_amount ::
  "'l stable_config \<Rightarrow> 'l stable_state \<Rightarrow> stable_pool \<Rightarrow> nat \<Rightarrow> nat \<Rightarrow> redeem_single_result stable_result" where
  "get_redeem_single_amount C s p0 amount_bal i =
     rbind (refreshed C s p0) (\<lambda>p.
     rbind (ensure (amount_bal > 0) (Module ArgumentsError)) (\<lambda>_.
     rbind (ensure (i < length (pool_balances p)) (Module ArgumentsError)) (\<lambda>_.
     rbind (amp_now s p) (\<lambda>a.
     let d = lp_supply p in
     rbind (redeem_fee_split C p amount_bal) (\<lambda>(amount, fee_amount).
     rbind (math (checked_sub d amount)) (\<lambda>target_d.
     rbind (math (get_y (a_precision C) (pool_balances p) i target_d a)) (\<lambda>y.
     rbind (math (checked_sub (pool_balances p ! i) y)) (\<lambda>dy0.
     rbind (math (checked_sub dy0 1)) (\<lambda>dy1.
     rbind (at (pool_precisions p) i) (\<lambda>precision.
     rbind (math (checked_div dy1 precision)) (\<lambda>dy.
     Inr \<lparr>rs_dy = dy, rs_fee_amount = fee_amount, rs_total_supply = target_d,
          rs_balances = (pool_balances p)[i := y], rs_redeem_amount = amount\<rparr>)))))))))))"

definition balance_after_withdrawal :: "stable_pool \<Rightarrow> nat list \<Rightarrow> nat \<Rightarrow> nat stable_result" where
  "balance_after_withdrawal p amounts i =
     (if amounts ! i = 0 then Inr (pool_balances p ! i)
      else
        rbind (at (pool_precisions p) i) (\<lambda>precision.
        rbind (math (checked_mul (amounts ! i) precision)) (\<lambda>taken.
        math (checked_sub (pool_balances p ! i) taken))))"

definition get_redeem_multi_amount ::
  "'l stable_config \<Rightarrow> 'l stable_state \<Rightarrow> stable_pool \<Rightarrow> nat list \<Rightarrow> redeem_multi_result stable_result" where
  "get_redeem_multi_amount C s p0 amounts =
     rbind (refreshed C s p0) (\<lambda>p.
     rbind (ensure (length amounts = length (pool_balances p)) (Module ArgumentsError)) (\<lambda>_.
     rbind (amp_now s p) (\<lambda>a.
     let old_d = lp_supply p in
     rbind (rmap (balance_after_withdrawal p amounts) [0..<length (pool_balances p)]) (\<lambda>balances.
     rbind (math (get_d (a_precision C) balances a)) (\<lambda>new_d.
     rbind (math (checked_sub old_d new_d)) (\<lambda>gone.
     rbind (if redeem_fee p > 0 then
              rbind (math (checked_sub (fee_precision C) (redeem_fee p))) (\<lambda>div_amount.
              rbind (math (mul_div gone (fee_precision C) div_amount)) (\<lambda>gross.
              rbind (math (checked_sub old_d new_d)) (\<lambda>sub_amount.
              rbind (math (checked_sub gross sub_amount)) (\<lambda>fee_amount.
              Inr (gross, fee_amount)))))
            else Inr (gone, 0)) (\<lambda>(redeem_amount, fee_amount).
     rbind (math (checked_sub redeem_amount fee_amount)) (\<lambda>burn_amount.
     rbind (math (checked_sub old_d burn_amount)) (\<lambda>supply_left.
     Inr \<lparr>rm_redeem_amount = redeem_amount, rm_fee_amount = fee_amount, rm_balances = balances,
          rm_total_supply = supply_left, rm_burn_amount = burn_amount\<rparr>)))))))))"

section \<open>Fees that have become due\<close>

text \<open>A drop of the invariant by up to a hundredth is taken for a rounding loss.\<close>

definition get_pending_fee_amount ::
  "'l stable_config \<Rightarrow> 'l stable_state \<Rightarrow> stable_pool \<Rightarrow> pending_fee_result stable_result" where
  "get_pending_fee_amount C s p =
     rbind (amp_now s p) (\<lambda>a.
     let old_d = lp_supply p in
     rbind (rmap (asset_value C s p) [0..<length (pool_balances p)]) (\<lambda>balances.
     rbind (math (get_d (a_precision C) balances a)) (\<lambda>new_d.
     rbind (math (checked_div old_d 100)) (\<lambda>old_d_div_100.
     rbind (math (checked_sub old_d old_d_div_100)) (\<lambda>old_d_margin.
     if new_d > old_d then
       rbind (math (checked_sub new_d old_d)) (\<lambda>fee_amount.
       Inr \<lparr>pf_fee_amount = fee_amount, pf_balances = balances, pf_total_supply = new_d\<rparr>)
     else if new_d \<ge> old_d_margin then
       Inr \<lparr>pf_fee_amount = 0, pf_balances = balances, pf_total_supply = new_d\<rparr>
     else Inl (Module Math))))))"

end
