(* ===== verification/Stable_Actions.thy ===== *)
theory Stable_Actions
  imports Stable_Amounts
begin

text \<open>
  The operations of \<open>pallets/stable-asset/src/lib.rs\<close> (\<open>impl StableAsset for Pallet\<close>): the token rates, the
  collection of yield and fees, the creation of pools, deposits, swaps, redemptions, the change of the
  coefficient, and the queries. A function with a \<open>&mut\<close> pool answers the changed pool beside the state;
  \<open>try_mutate_exists\<close> is \<open>mutate_pool\<close>. An error leaves everything as it was, since every call is
  transactional.
\<close>

section \<open>Token rates\<close>

definition set_token_rate ::
  "'l stable_config \<Rightarrow> nat \<Rightarrow> (currency \<times> nat \<times> nat) list \<Rightarrow> 'l stable_state \<Rightarrow>
     'l stable_state stable_result" where
  "set_token_rate C pid info s =
     rbind (ensure (pid < pool_count s) (Module ArgumentsError)) (\<lambda>_.
     rbind (if info = [] then
              rbind (ensure (length (token_rates s pid) \<le> u32_max) (Module TokenRateNotCleared)) (\<lambda>_.
              Inr [])
            else Inr (fold (\<lambda>(asset, rate). sm_put (rate_hash C) asset rate) info (token_rates s pid)))
       (\<lambda>rates.
     Inr (emit_stable (TokenRateSet pid rates) (s\<lparr>token_rates := (token_rates s)(pid := rates)\<rparr>))))"

section \<open>Yield and fees\<close>

definition update_balance ::
  "'l stable_config \<Rightarrow> nat \<Rightarrow> stable_pool \<Rightarrow> 'l stable_state \<Rightarrow>
     (stable_pool \<times> 'l stable_state) stable_result" where
  "update_balance C pid p s =
     rbind (get_balance_update_amount C s p) (\<lambda>p'.
     Inr (p\<lparr>pool_balances := pool_balances p'\<rparr>,
          emit_stable (BalanceUpdated pid (pool_balances p) (pool_balances p')) s))"

definition collect_yield ::
  "'l stable_config \<Rightarrow> nat \<Rightarrow> stable_pool \<Rightarrow> 'l stable_state \<Rightarrow>
     (stable_pool \<times> 'l stable_state) stable_result" where
  "collect_yield C pid p0 s0 =
     (let old_d = lp_supply p0 in
      rbind (update_balance C pid p0 s0) (\<lambda>(p, s).
      rbind (get_collect_yield_amount C s p) (\<lambda>p'.
      let new_d = lp_supply p' in
      rbind (ensure (new_d \<ge> old_d) (Module InvalidPoolValue)) (\<lambda>_.
      if new_d > old_d then
        rbind (amp_now s p) (\<lambda>a.
        let yield_amount = new_d - old_d in
        rbind (sa_mint_to C (pool_asset p) (yield_recipient p) yield_amount s) (\<lambda>s1.
        Inr (p\<lparr>lp_supply := new_d\<rparr>,
             emit_stable (YieldCollected pid a old_d new_d (yield_recipient p) yield_amount) s1)))
      else Inr (p, s)))))"

definition collect_fee ::
  "'l stable_config \<Rightarrow> nat \<Rightarrow> stable_pool \<Rightarrow> 'l stable_state \<Rightarrow>
     (stable_pool \<times> 'l stable_state) stable_result" where
  "collect_fee C pid p0 s =
     rbind (get_pending_fee_amount C s p0) (\<lambda>r.
     let p = p0\<lparr>lp_supply := pf_total_supply r, pool_balances := pf_balances r\<rparr> in
     if pf_fee_amount r > 0 then
       rbind (sa_mint_to C (pool_asset p) (fee_recipient p) (pf_fee_amount r) s) (\<lambda>s1.
       rbind (amp_now s1 p) (\<lambda>a.
       Inr (p, emit_stable (FeeCollected pid a (pool_balances p0) (pool_balances p) (lp_supply p0)
                 (pf_total_supply r) (fee_recipient p) (pf_fee_amount r)) s1)))
     else Inr (p, s))"

section \<open>Pools\<close>

definition mutate_pool ::
  "'l stable_config \<Rightarrow> nat \<Rightarrow>
     (stable_pool \<Rightarrow> 'l stable_state \<Rightarrow> ((stable_pool \<times> 'r) \<times> 'l stable_state) stable_result) \<Rightarrow>
     'l stable_state \<Rightarrow> ('r \<times> 'l stable_state) stable_result" where
  "mutate_pool C pid f s =
     rbind (ok_or (find_pool s pid) (Module PoolNotFound)) (\<lambda>p.
     rbind (f p s) (\<lambda>((p', r), s').
     Inr (r, insert_pool C pid p' s')))"

definition create_pool ::
  "'l stable_config \<Rightarrow> currency \<Rightarrow> currency list \<Rightarrow> nat list \<Rightarrow> nat \<Rightarrow> nat \<Rightarrow> nat \<Rightarrow> nat \<Rightarrow> account \<Rightarrow>
     account \<Rightarrow> nat \<Rightarrow> 'l stable_state \<Rightarrow> 'l stable_state stable_result" where
  "create_pool C asset assets precisions m_fee s_fee r_fee initial_a fee_to yield_to precision s =
     rbind (ensure (length assets > 1) (Module ArgumentsError)) (\<lambda>_.
     rbind (ensure (length assets \<le> pool_asset_limit C) (Module ArgumentsError)) (\<lambda>_.
     rbind (ensure (length assets = length precisions) (Module ArgumentsMismatch)) (\<lambda>_.
     let pid = pool_count s; swap_id = sub_account C pid in
     rbind (ensure (find_pool s pid = None) (Module InconsistentStorage)) (\<lambda>_.
     let s1 = s\<lparr>providers := (providers s)(swap_id := providers s swap_id + 1)\<rparr>;
         p = \<lparr>pool_id = pid, pool_asset = asset, pool_assets = assets, pool_precisions = precisions,
              mint_fee = m_fee, swap_fee = s_fee, redeem_fee = r_fee, lp_supply = 0,
              amp = initial_a, amp_block = block_now s, future_amp = initial_a,
              future_amp_block = block_now s, pool_balances = replicate (length assets) 0,
              fee_recipient = fee_to, pool_account = swap_id, yield_recipient = yield_to,
              pool_precision = precision\<rparr>;
         s2 = insert_pool C pid p s1 in
     rbind (ok_or (chk u32_max (pid + 1)) (Arithmetic Overflow)) (\<lambda>next_id.
     Inr (emit_stable (CreatePool pid initial_a swap_id (main_account C))
            (s2\<lparr>pool_count := next_id\<rparr>)))))))"

section \<open>Deposits\<close>

text \<open>The transfers of a loop over \<open>amounts\<close>; amounts of zero are skipped.\<close>

definition pay_in ::
  "'l stable_config \<Rightarrow> stable_pool \<Rightarrow> account \<Rightarrow> nat \<times> nat \<Rightarrow> 'l stable_state \<Rightarrow> 'l stable_state stable_result" where
  "pay_in C p who = (\<lambda>(i, amount) s.
     if amount = 0 then Inr s
     else rbind (at (pool_assets p) i) (\<lambda>asset. sa_transfer C asset who (pool_account p) amount s))"

definition mint_body ::
  "'l stable_config \<Rightarrow> account \<Rightarrow> nat \<Rightarrow> nat list \<Rightarrow> nat \<Rightarrow> stable_pool \<Rightarrow> 'l stable_state \<Rightarrow>
     ((stable_pool \<times> unit) \<times> 'l stable_state) stable_result" where
  "mint_body C who pid amounts min_mint_amount p0 s0 =
     rbind (collect_yield C pid p0 s0) (\<lambda>(p, s).
     rbind (get_mint_amount C s p amounts) (\<lambda>r.
     rbind (amp_now s p) (\<lambda>a.
     rbind (ensure (mr_mint_amount r \<ge> min_mint_amount) (Module MintUnderMin)) (\<lambda>_.
     rbind (rfold (pay_in C p who) (enumerate 0 amounts) s) (\<lambda>s1.
     rbind (if mr_fee_amount r > 0
            then sa_mint_to C (pool_asset p) (fee_recipient p) (mr_fee_amount r) s1
            else Inr s1) (\<lambda>s2.
     rbind (sa_mint_to C (pool_asset p) who (mr_mint_amount r) s2) (\<lambda>s3.
     rbind (collect_fee C pid (p\<lparr>lp_supply := mr_total_supply r, pool_balances := mr_balances r\<rparr>) s3)
       (\<lambda>(p', s4).
     Inr ((p', ()), emit_stable (LiquidityAdded who pid a amounts min_mint_amount (pool_balances p')
            (lp_supply p') (mr_fee_amount r) (mr_mint_amount r)) s4)))))))))"

definition stable_mint ::
  "'l stable_config \<Rightarrow> account \<Rightarrow> nat \<Rightarrow> nat list \<Rightarrow> nat \<Rightarrow> 'l stable_state \<Rightarrow> 'l stable_state stable_result" where
  "stable_mint C who pid amounts min_mint_amount s =
     rbind (mutate_pool C pid (mint_body C who pid amounts min_mint_amount) s) (\<lambda>(_, s'). Inr s')"

section \<open>Swaps\<close>

definition swap_body ::
  "'l stable_config \<Rightarrow> account \<Rightarrow> nat \<Rightarrow> nat \<Rightarrow> nat \<Rightarrow> nat \<Rightarrow> nat \<Rightarrow> nat \<Rightarrow> stable_pool \<Rightarrow> 'l stable_state \<Rightarrow>
     ((stable_pool \<times> nat \<times> nat) \<times> 'l stable_state) stable_result" where
  "swap_body C who pid i j dx min_dy asset_length p0 s0 =
     rbind (ensure (asset_length = length (pool_assets p0)) (Module ArgumentsError)) (\<lambda>_.
     rbind (collect_yield C pid p0 s0) (\<lambda>(p, s).
     rbind (get_swap_amount C s p i j dx) (\<lambda>r.
     let dy = sr_dy r in
     rbind (ensure (dy \<ge> min_dy) (Module SwapUnderMin)) (\<lambda>_.
     rbind (at (pool_balances p) i) (\<lambda>_.
     rbind (at (pool_balances p) j) (\<lambda>_.
     rbind (at (pool_assets p) i) (\<lambda>asset_i.
     rbind (sa_transfer C asset_i who (pool_account p) dx s) (\<lambda>s1.
     rbind (at (pool_assets p) j) (\<lambda>asset_j.
     rbind (sa_transfer C asset_j (pool_account p) who dy s1) (\<lambda>s2.
     rbind (collect_fee C pid p s2) (\<lambda>(p', s3).
     rbind (amp_now s3 p') (\<lambda>a.
     Inr ((p', (dx, dy)), emit_stable (TokenSwapped who pid a asset_i asset_j dx min_dy
            (pool_balances p') (lp_supply p') dy) s3)))))))))))))"

definition stable_swap ::
  "'l stable_config \<Rightarrow> account \<Rightarrow> nat \<Rightarrow> nat \<Rightarrow> nat \<Rightarrow> nat \<Rightarrow> nat \<Rightarrow> nat \<Rightarrow> 'l stable_state \<Rightarrow>
     ((nat \<times> nat) \<times> 'l stable_state) stable_result" where
  "stable_swap C who pid i j dx min_dy asset_length =
     mutate_pool C pid (swap_body C who pid i j dx min_dy asset_length)"

section \<open>Redemptions\<close>

definition pay_share ::
  "'l stable_config \<Rightarrow> stable_pool \<Rightarrow> account \<Rightarrow> nat list \<Rightarrow> nat \<times> nat \<Rightarrow> 'l stable_state \<Rightarrow>
     'l stable_state stable_result" where
  "pay_share C p who mins = (\<lambda>(i, amount) s.
     rbind (at mins i) (\<lambda>least.
     rbind (ensure (amount \<ge> least) (Module RedeemUnderMin)) (\<lambda>_.
     rbind (at (pool_assets p) i) (\<lambda>asset.
     sa_transfer C asset (pool_account p) who amount s))))"

definition pay_redeem_fee ::
  "'l stable_config \<Rightarrow> stable_pool \<Rightarrow> account \<Rightarrow> nat \<Rightarrow> 'l stable_state \<Rightarrow> 'l stable_state stable_result" where
  "pay_redeem_fee C p who fee_amount s =
     (if fee_amount > 0 then sa_transfer C (pool_asset p) who (fee_recipient p) fee_amount s else Inr s)"

definition redeem_proportion_body ::
  "'l stable_config \<Rightarrow> account \<Rightarrow> nat \<Rightarrow> nat \<Rightarrow> nat list \<Rightarrow> stable_pool \<Rightarrow> 'l stable_state \<Rightarrow>
     ((stable_pool \<times> unit) \<times> 'l stable_state) stable_result" where
  "redeem_proportion_body C who pid amount mins p0 s0 =
     rbind (collect_yield C pid p0 s0) (\<lambda>(p, s).
     rbind (ensure (length mins = length (pool_assets p)) (Module ArgumentsMismatch)) (\<lambda>_.
     rbind (get_redeem_proportion_amount C s p amount) (\<lambda>r.
     rbind (rfold (pay_share C p who mins) (enumerate 0 (rp_amounts r)) s) (\<lambda>s1.
     rbind (pay_redeem_fee C p who (rp_fee_amount r) s1) (\<lambda>s2.
     rbind (sa_burn_from C (pool_asset p) who (rp_redeem_amount r) s2) (\<lambda>s3.
     rbind (collect_fee C pid (p\<lparr>lp_supply := rp_total_supply r, pool_balances := rp_balances r\<rparr>) s3)
       (\<lambda>(p', s4).
     rbind (amp_now s4 p') (\<lambda>a.
     Inr ((p', ()), emit_stable (RedeemedProportion who pid a amount mins (pool_balances p')
            (lp_supply p') (rp_fee_amount r) (rp_amounts r)) s4)))))))))"

definition stable_redeem_proportion ::
  "'l stable_config \<Rightarrow> account \<Rightarrow> nat \<Rightarrow> nat \<Rightarrow> nat list \<Rightarrow> 'l stable_state \<Rightarrow> 'l stable_state stable_result" where
  "stable_redeem_proportion C who pid amount mins s =
     rbind (mutate_pool C pid (redeem_proportion_body C who pid amount mins) s) (\<lambda>(_, s'). Inr s')"

definition redeem_single_body ::
  "'l stable_config \<Rightarrow> account \<Rightarrow> nat \<Rightarrow> nat \<Rightarrow> nat \<Rightarrow> nat \<Rightarrow> nat \<Rightarrow> stable_pool \<Rightarrow> 'l stable_state \<Rightarrow>
     ((stable_pool \<times> nat \<times> nat) \<times> 'l stable_state) stable_result" where
  "redeem_single_body C who pid amount i min_redeem_amount asset_length p0 s0 =
     rbind (collect_yield C pid p0 s0) (\<lambda>(p, s).
     rbind (get_redeem_single_amount C s p amount i) (\<lambda>r.
     let dy = rs_dy r in
     rbind (ensure (asset_length = length (pool_assets p)) (Module ArgumentsError)) (\<lambda>_.
     rbind (ensure (dy \<ge> min_redeem_amount) (Module RedeemUnderMin)) (\<lambda>_.
     rbind (pay_redeem_fee C p who (rs_fee_amount r) s) (\<lambda>s1.
     rbind (at (pool_assets p) i) (\<lambda>asset.
     rbind (sa_transfer C asset (pool_account p) who dy s1) (\<lambda>s2.
     rbind (sa_burn_from C (pool_asset p) who (rs_redeem_amount r) s2) (\<lambda>s3.
     rbind (collect_fee C pid (p\<lparr>lp_supply := rs_total_supply r, pool_balances := rs_balances r\<rparr>) s3)
       (\<lambda>(p', s4).
     rbind (amp_now s4 p') (\<lambda>a.
     Inr ((p', (amount, dy)), emit_stable (RedeemedSingle who pid a amount asset min_redeem_amount
            (pool_balances p') (lp_supply p') (rs_fee_amount r) dy) s4)))))))))))"

definition stable_redeem_single ::
  "'l stable_config \<Rightarrow> account \<Rightarrow> nat \<Rightarrow> nat \<Rightarrow> nat \<Rightarrow> nat \<Rightarrow> nat \<Rightarrow> 'l stable_state \<Rightarrow>
     ((nat \<times> nat) \<times> 'l stable_state) stable_result" where
  "stable_redeem_single C who pid amount i min_redeem_amount asset_length =
     mutate_pool C pid (redeem_single_body C who pid amount i min_redeem_amount asset_length)"

definition pay_requested ::
  "'l stable_config \<Rightarrow> stable_pool \<Rightarrow> account \<Rightarrow> nat \<times> nat \<Rightarrow> 'l stable_state \<Rightarrow> 'l stable_state stable_result" where
  "pay_requested C p who = (\<lambda>(i, amount) s.
     if amount > 0
     then rbind (at (pool_assets p) i) (\<lambda>asset. sa_transfer C asset (pool_account p) who amount s)
     else Inr s)"

definition redeem_multi_body ::
  "'l stable_config \<Rightarrow> account \<Rightarrow> nat \<Rightarrow> nat list \<Rightarrow> nat \<Rightarrow> stable_pool \<Rightarrow> 'l stable_state \<Rightarrow>
     ((stable_pool \<times> unit) \<times> 'l stable_state) stable_result" where
  "redeem_multi_body C who pid amounts max_redeem_amount p0 s0 =
     rbind (collect_yield C pid p0 s0) (\<lambda>(p, s).
     rbind (get_redeem_multi_amount C s p amounts) (\<lambda>r.
     rbind (ensure (rm_redeem_amount r \<le> max_redeem_amount) (Module RedeemOverMax)) (\<lambda>_.
     rbind (pay_redeem_fee C p who (rm_fee_amount r) s) (\<lambda>s1.
     rbind (rfold (pay_requested C p who) (enumerate 0 amounts) s1) (\<lambda>s2.
     rbind (sa_burn_from C (pool_asset p) who (rm_burn_amount r) s2) (\<lambda>s3.
     rbind (collect_fee C pid (p\<lparr>lp_supply := rm_total_supply r, pool_balances := rm_balances r\<rparr>) s3)
       (\<lambda>(p', s4).
     rbind (amp_now s4 p') (\<lambda>a.
     Inr ((p', ()), emit_stable (RedeemedMulti who pid a amounts max_redeem_amount (pool_balances p')
            (lp_supply p') (rm_fee_amount r) (rm_redeem_amount r)) s4)))))))))"

definition stable_redeem_multi ::
  "'l stable_config \<Rightarrow> account \<Rightarrow> nat \<Rightarrow> nat list \<Rightarrow> nat \<Rightarrow> 'l stable_state \<Rightarrow> 'l stable_state stable_result" where
  "stable_redeem_multi C who pid amounts max_redeem_amount s =
     rbind (mutate_pool C pid (redeem_multi_body C who pid amounts max_redeem_amount) s) (\<lambda>(_, s'). Inr s')"

section \<open>The coefficient\<close>

definition modify_a_body ::
  "nat \<Rightarrow> nat \<Rightarrow> nat \<Rightarrow> stable_pool \<Rightarrow> 'l stable_state \<Rightarrow>
     ((stable_pool \<times> unit) \<times> 'l stable_state) stable_result" where
  "modify_a_body pid a target_block p s =
     rbind (ensure (target_block > amp_block p) (Module ArgumentsError)) (\<lambda>_.
     rbind (amp_now s p) (\<lambda>initial_a.
     Inr ((p\<lparr>amp := initial_a, amp_block := block_now s, future_amp := a,
            future_amp_block := target_block\<rparr>, ()),
          emit_stable (AModified pid a target_block) s)))"

definition modify_a ::
  "'l stable_config \<Rightarrow> nat \<Rightarrow> nat \<Rightarrow> nat \<Rightarrow> 'l stable_state \<Rightarrow> 'l stable_state stable_result" where
  "modify_a C pid a target_block s =
     rbind (mutate_pool C pid (modify_a_body pid a target_block) s) (\<lambda>(_, s'). Inr s')"

section \<open>Queries\<close>

fun position_of :: "currency \<Rightarrow> currency list \<Rightarrow> nat option" where
  "position_of c [] = None"
| "position_of c (x # xs) = (if x = c then Some 0 else map_option Suc (position_of c xs))"

definition better_route ::
  "'l stable_config \<Rightarrow> 'l stable_state \<Rightarrow> currency \<Rightarrow> currency \<Rightarrow> nat \<Rightarrow> nat \<times> stable_pool \<Rightarrow>
     (nat \<times> nat \<times> nat \<times> nat) option \<Rightarrow> (nat \<times> nat \<times> nat \<times> nat) option option stable_result" where
  "better_route C s input_asset output_asset input_amount = (\<lambda>(pid, p) best.
     case (position_of input_asset (pool_assets p), position_of output_asset (pool_assets p)) of
       (Some i, Some j) \<Rightarrow>
         rbind (ok_of (get_swap_amount C s p i j input_amount)) (\<lambda>quote.
         case quote of None \<Rightarrow> Inr (Some best)
         | Some r \<Rightarrow>
           (case (case get_token_rate s (pool_id p) output_asset of
                    None \<Rightarrow> Some (sa_free C s output_asset (pool_account p))
                  | Some (denominator, numerator) \<Rightarrow>
                      mul_div (sa_free C s output_asset (pool_account p)) numerator denominator) of
              None \<Rightarrow> Inr None
            | Some balance_of \<Rightarrow>
                Inr (Some (if sr_dy r \<le> balance_of then
                       (case best of
                          Some (_, _, _, output_amount) \<Rightarrow>
                            if output_amount < sr_dy r then Some (pid, i, j, sr_dy r) else best
                        | None \<Rightarrow> Some (pid, i, j, sr_dy r))
                     else best))))
     | _ \<Rightarrow> Inr (Some best))"

text \<open>The loop over all pools; the inner \<open>None\<close> is its early return.\<close>

fun best_route ::
  "'l stable_config \<Rightarrow> 'l stable_state \<Rightarrow> currency \<Rightarrow> currency \<Rightarrow> nat \<Rightarrow> (nat \<times> stable_pool) list \<Rightarrow>
     (nat \<times> nat \<times> nat \<times> nat) option \<Rightarrow> (nat \<times> nat \<times> nat \<times> nat) option stable_result" where
  "best_route C s ci co n [] best = Inr best"
| "best_route C s ci co n (e # es) best =
     rbind (better_route C s ci co n e best) (\<lambda>r.
     case r of None \<Rightarrow> Inr None | Some best' \<Rightarrow> best_route C s ci co n es best')"

definition get_best_route ::
  "'l stable_config \<Rightarrow> 'l stable_state \<Rightarrow> currency \<Rightarrow> currency \<Rightarrow> nat \<Rightarrow>
     (nat \<times> nat \<times> nat \<times> nat) option stable_result" where
  "get_best_route C s input_asset output_asset input_amount =
     best_route C s input_asset output_asset input_amount (pools s) None"

definition get_swap_output_amount ::
  "'l stable_config \<Rightarrow> 'l stable_state \<Rightarrow> nat \<Rightarrow> nat \<Rightarrow> nat \<Rightarrow> nat \<Rightarrow> swap_result option stable_result" where
  "get_swap_output_amount C s pid i j dx =
     (case find_pool s pid of None \<Rightarrow> Inr None | Some p \<Rightarrow> ok_of (get_swap_amount C s p i j dx))"

definition get_swap_input_amount ::
  "'l stable_config \<Rightarrow> 'l stable_state \<Rightarrow> nat \<Rightarrow> nat \<Rightarrow> nat \<Rightarrow> nat \<Rightarrow> swap_result option stable_result" where
  "get_swap_input_amount C s pid i j dy =
     (case find_pool s pid of None \<Rightarrow> Inr None | Some p \<Rightarrow> ok_of (get_swap_amount_exact C s p i j dy))"

definition quote_mint_amount ::
  "'l stable_config \<Rightarrow> 'l stable_state \<Rightarrow> nat \<Rightarrow> nat list \<Rightarrow> mint_result option stable_result" where
  "quote_mint_amount C s pid amounts =
     (case find_pool s pid of None \<Rightarrow> Inr None | Some p \<Rightarrow> ok_of (get_mint_amount C s p amounts))"

definition quote_collect_yield ::
  "'l stable_config \<Rightarrow> 'l stable_state \<Rightarrow> stable_pool \<Rightarrow> stable_pool option stable_result" where
  "quote_collect_yield C s p = ok_of (get_collect_yield_amount C s p)"

definition quote_balance_update ::
  "'l stable_config \<Rightarrow> 'l stable_state \<Rightarrow> stable_pool \<Rightarrow> stable_pool option stable_result" where
  "quote_balance_update C s p = ok_of (get_balance_update_amount C s p)"

definition quote_redeem_proportion ::
  "'l stable_config \<Rightarrow> 'l stable_state \<Rightarrow> stable_pool \<Rightarrow> nat \<Rightarrow> redeem_proportion_result option stable_result" where
  "quote_redeem_proportion C s p amount = ok_of (get_redeem_proportion_amount C s p amount)"

text \<open>
  The calls of \<open>pallets/stable-asset/src/lib.rs\<close>. (The runtimes leave them out of their call enum, so that
  users come in through the stable pool pallet; the operations behind them are what that pallet shares.)
\<close>

definition listing :: "'l stable_config \<Rightarrow> origin \<Rightarrow> unit stable_result" where
  "listing C o1 = ensure (listing_origin C o1) BadOrigin"

definition call_create_pool ::
  "'l stable_config \<Rightarrow> origin \<Rightarrow> currency \<Rightarrow> currency list \<Rightarrow> nat list \<Rightarrow> nat \<Rightarrow> nat \<Rightarrow> nat \<Rightarrow> nat \<Rightarrow> account \<Rightarrow>
     account \<Rightarrow> nat \<Rightarrow> 'l stable_state \<Rightarrow> 'l stable_state stable_result" where
  "call_create_pool C o1 asset assets precisions m_fee s_fee r_fee initial_a fee_to yield_to precision s =
     rbind (listing C o1) (\<lambda>_.
     rbind (ensure (valid_pool_asset C asset) (Module InvalidPoolAsset)) (\<lambda>_.
     create_pool C asset assets precisions m_fee s_fee r_fee initial_a fee_to yield_to precision s))"

definition call_mint ::
  "'l stable_config \<Rightarrow> origin \<Rightarrow> nat \<Rightarrow> nat list \<Rightarrow> nat \<Rightarrow> 'l stable_state \<Rightarrow> 'l stable_state stable_result" where
  "call_mint C o1 pid amounts min_mint_amount s =
     rbind (ensure_signed o1) (\<lambda>who. stable_mint C who pid amounts min_mint_amount s)"

definition call_swap ::
  "'l stable_config \<Rightarrow> origin \<Rightarrow> nat \<Rightarrow> nat \<Rightarrow> nat \<Rightarrow> nat \<Rightarrow> nat \<Rightarrow> nat \<Rightarrow> 'l stable_state \<Rightarrow>
     'l stable_state stable_result" where
  "call_swap C o1 pid i j dx min_dy asset_length s =
     rbind (ensure_signed o1) (\<lambda>who.
     rbind (stable_swap C who pid i j dx min_dy asset_length s) (\<lambda>(_, s'). Inr s'))"

definition call_redeem_proportion ::
  "'l stable_config \<Rightarrow> origin \<Rightarrow> nat \<Rightarrow> nat \<Rightarrow> nat list \<Rightarrow> 'l stable_state \<Rightarrow> 'l stable_state stable_result" where
  "call_redeem_proportion C o1 pid amount mins s =
     rbind (ensure_signed o1) (\<lambda>who. stable_redeem_proportion C who pid amount mins s)"

definition call_redeem_single ::
  "'l stable_config \<Rightarrow> origin \<Rightarrow> nat \<Rightarrow> nat \<Rightarrow> nat \<Rightarrow> nat \<Rightarrow> nat \<Rightarrow> 'l stable_state \<Rightarrow>
     'l stable_state stable_result" where
  "call_redeem_single C o1 pid amount i min_redeem_amount asset_length s =
     rbind (ensure_signed o1) (\<lambda>who.
     rbind (stable_redeem_single C who pid amount i min_redeem_amount asset_length s) (\<lambda>(_, s'). Inr s'))"

definition call_redeem_multi ::
  "'l stable_config \<Rightarrow> origin \<Rightarrow> nat \<Rightarrow> nat list \<Rightarrow> nat \<Rightarrow> 'l stable_state \<Rightarrow> 'l stable_state stable_result" where
  "call_redeem_multi C o1 pid amounts max_redeem_amount s =
     rbind (ensure_signed o1) (\<lambda>who. stable_redeem_multi C who pid amounts max_redeem_amount s)"

definition call_modify_a ::
  "'l stable_config \<Rightarrow> origin \<Rightarrow> nat \<Rightarrow> nat \<Rightarrow> nat \<Rightarrow> 'l stable_state \<Rightarrow> 'l stable_state stable_result" where
  "call_modify_a C o1 pid a target_block s =
     rbind (listing C o1) (\<lambda>_. modify_a C pid a target_block s)"

definition set_pool_fees ::
  "nat \<Rightarrow> nat option \<Rightarrow> nat option \<Rightarrow> nat option \<Rightarrow> stable_pool \<Rightarrow> 'l stable_state \<Rightarrow>
     ((stable_pool \<times> unit) \<times> 'l stable_state) stable_result" where
  "set_pool_fees pid m_fee s_fee r_fee p s =
     (let p' = p\<lparr>mint_fee := or_keep m_fee (mint_fee p), swap_fee := or_keep s_fee (swap_fee p),
                 redeem_fee := or_keep r_fee (redeem_fee p)\<rparr>
      in Inr ((p', ()), emit_stable (FeeModified pid (mint_fee p') (swap_fee p') (redeem_fee p')) s))"

definition call_modify_fees ::
  "'l stable_config \<Rightarrow> origin \<Rightarrow> nat \<Rightarrow> nat option \<Rightarrow> nat option \<Rightarrow> nat option \<Rightarrow> 'l stable_state \<Rightarrow>
     'l stable_state stable_result" where
  "call_modify_fees C o1 pid m_fee s_fee r_fee s =
     rbind (listing C o1) (\<lambda>_.
     rbind (mutate_pool C pid (set_pool_fees pid m_fee s_fee r_fee) s) (\<lambda>(_, s'). Inr s'))"

definition set_recipients ::
  "nat \<Rightarrow> account option \<Rightarrow> account option \<Rightarrow> stable_pool \<Rightarrow> 'l stable_state \<Rightarrow>
     ((stable_pool \<times> unit) \<times> 'l stable_state) stable_result" where
  "set_recipients pid fee_to yield_to p s =
     (let p' = p\<lparr>fee_recipient := or_keep fee_to (fee_recipient p),
                 yield_recipient := or_keep yield_to (yield_recipient p)\<rparr>
      in Inr ((p', ()), emit_stable (RecipientModified pid (fee_recipient p') (yield_recipient p')) s))"

definition call_modify_recipients ::
  "'l stable_config \<Rightarrow> origin \<Rightarrow> nat \<Rightarrow> account option \<Rightarrow> account option \<Rightarrow> 'l stable_state \<Rightarrow>
     'l stable_state stable_result" where
  "call_modify_recipients C o1 pid fee_to yield_to s =
     rbind (listing C o1) (\<lambda>_.
     rbind (mutate_pool C pid (set_recipients pid fee_to yield_to) s) (\<lambda>(_, s'). Inr s'))"

end
