(* ===== verification/Stable_Pool.thy ===== *)
theory Stable_Pool
  imports Stable_Actions
begin

text \<open>
  The stable pool pallet (\<open>pallets/stable-pool/src/lib.rs\<close> and \<open>traits.rs\<close>): the calls users make. It scales
  amounts of a token by the rate its pool keeps for it before it asks the stable asset pallet, scales
  the answers back, moves the tokens itself and stores the pool. After a swap between a token and its
  vToken it takes over the exchange rate of the liquid staking pallet, within a cap.
\<close>

section \<open>Scaling\<close>

text \<open>An overflow or a zero denominator gives zero.\<close>

definition calculate_scaling :: "nat \<Rightarrow> nat \<Rightarrow> nat \<Rightarrow> nat" where
  "calculate_scaling amount numerator denominator =
     (case mul_div amount numerator denominator of None \<Rightarrow> 0 | Some n \<Rightarrow> n)"

definition upscale :: "'l stable_state \<Rightarrow> nat \<Rightarrow> nat \<Rightarrow> currency \<Rightarrow> nat stable_result" where
  "upscale s amount pid asset =
     (case get_token_rate s pid asset of
        Some (demoninator, numerator) \<Rightarrow> Inr (calculate_scaling amount numerator demoninator)
      | None \<Rightarrow> Inl (Module (StablePool TokenRateNotSet)))"

definition downscale :: "'l stable_state \<Rightarrow> nat \<Rightarrow> nat \<Rightarrow> currency \<Rightarrow> nat stable_result" where
  "downscale s amount pid asset =
     (case get_token_rate s pid asset of
        Some (numerator, demoninator) \<Rightarrow> Inr (calculate_scaling amount numerator demoninator)
      | None \<Rightarrow> Inl (Module (StablePool TokenRateNotSet)))"

definition scale_all ::
  "('l stable_state \<Rightarrow> nat \<Rightarrow> nat \<Rightarrow> currency \<Rightarrow> nat stable_result) \<Rightarrow> 'l stable_state \<Rightarrow> nat \<Rightarrow>
     stable_pool \<Rightarrow> nat list \<Rightarrow> nat list stable_result" where
  "scale_all scale s pid p amounts =
     rmap (\<lambda>(i, amount). rbind (get_or ArgumentsMismatch (pool_assets p) i) (\<lambda>asset. scale s amount pid asset))
       (enumerate 0 amounts)"

definition the_pool :: "'l stable_state \<Rightarrow> nat \<Rightarrow> stable_pool stable_result" where
  "the_pool s pid = ok_or (find_pool s pid) (Module PoolNotFound)"

section \<open>Following the exchange rate\<close>

definition convertible :: "currency \<Rightarrow> currency \<Rightarrow> bool" where
  "convertible v c = (case convert_to_token v of Inl _ \<Rightarrow> False | Inr t \<Rightarrow> t = c)"

definition ensure_can_refresh ::
  "'l stable_config \<Rightarrow> 'l stable_state \<Rightarrow> currency \<Rightarrow> currency \<Rightarrow> (currency \<times> nat \<times> nat \<times> nat) option" where
  "ensure_can_refresh C s token_in token_out =
     (case rate_hardcap s token_in of
        Some cap \<Rightarrow>
          (if convertible token_in token_out then do {
             issuance \<leftarrow> staked_issuance C (coins s) token_in;
             Some (token_in, issuance, staked_pool C (coins s) token_out, cap) }
           else None)
      | None \<Rightarrow>
          (case rate_hardcap s token_out of
             Some cap \<Rightarrow>
               (if convertible token_out token_in then do {
                  issuance \<leftarrow> staked_issuance C (coins s) token_out;
                  Some (token_out, issuance, staked_pool C (coins s) token_in, cap) }
                else None)
           | None \<Rightarrow> None))"

text \<open>The prices of \<open>refresh_token_rate\<close>: the old one, the new one, and the highest one allowed.\<close>

definition refresh_prices ::
  "'l stable_config \<Rightarrow> nat \<times> nat \<Rightarrow> nat \<Rightarrow> nat \<Rightarrow> nat \<Rightarrow> (nat \<times> nat \<times> nat option) option" where
  "refresh_prices C rate vtoken_issuance token_pool_amount hardcap =
     (let (denominator, numerator) = rate; fee_denominator = fee_precision C in do {
        d1 \<leftarrow> chk uint256_max (permill_times C hardcap fee_denominator * numerator);
        delta \<leftarrow> checked_div d1 denominator;
        n1 \<leftarrow> chk uint256_max (fee_denominator * token_pool_amount);
        new_price \<leftarrow> checked_div n1 vtoken_issuance;
        o1 \<leftarrow> chk uint256_max (fee_denominator * numerator);
        old_price \<leftarrow> checked_div o1 denominator;
        Some (old_price, new_price, chk uint256_max (delta + old_price)) })"

definition adjusted_pool_amount :: "'l stable_config \<Rightarrow> nat \<Rightarrow> nat \<Rightarrow> nat option" where
  "adjusted_pool_amount C max_allowed_price vtoken_issuance = do {
     p \<leftarrow> chk uint256_max (max_allowed_price * vtoken_issuance);
     q \<leftarrow> checked_div p (fee_precision C);
     Some (min u128_max q) }"

text \<open>The flag is false where the source answers \<open>None\<close>; \<open>set_token_rate\<close> answers with \<open>ok()\<close>.\<close>

definition try_set_token_rate ::
  "'l stable_config \<Rightarrow> nat \<Rightarrow> (currency \<times> nat \<times> nat) list \<Rightarrow> 'l stable_state \<Rightarrow> bool \<times> 'l stable_state" where
  "try_set_token_rate C pid info s =
     (case set_token_rate C pid info s of Inr s' \<Rightarrow> (True, s') | Inl _ \<Rightarrow> (False, s))"

definition refresh_token_rate ::
  "'l stable_config \<Rightarrow> nat \<Rightarrow> currency \<Rightarrow> nat \<Rightarrow> nat \<Rightarrow> nat \<Rightarrow> 'l stable_state \<Rightarrow> bool \<times> 'l stable_state" where
  "refresh_token_rate C pid vtoken vtoken_issuance token_pool_amount hardcap s =
     (case get_token_rate s pid vtoken of None \<Rightarrow> (False, s)
      | Some rate \<Rightarrow>
        (case refresh_prices C rate vtoken_issuance token_pool_amount hardcap of None \<Rightarrow> (False, s)
         | Some (old_price, new_price, max_price) \<Rightarrow>
           (if new_price \<le> old_price then (True, s)
            else
              (case max_price of None \<Rightarrow> (False, s)
               | Some max_allowed_price \<Rightarrow>
                 (if new_price \<le> max_allowed_price
                  then try_set_token_rate C pid [(vtoken, vtoken_issuance, token_pool_amount)] s
                  else
                    (case adjusted_pool_amount C max_allowed_price vtoken_issuance of None \<Rightarrow> (False, s)
                     | Some adjusted \<Rightarrow>
                         try_set_token_rate C pid [(vtoken, vtoken_issuance, adjusted)]
                           (emit_stable (RateAdjustmentLimited pid vtoken old_price new_price
                              max_allowed_price) s)))))))"

definition follow_rate ::
  "'l stable_config \<Rightarrow> nat \<Rightarrow> currency \<Rightarrow> currency \<Rightarrow> 'l stable_state \<Rightarrow> 'l stable_state" where
  "follow_rate C pid token_in token_out s =
     (case ensure_can_refresh C s token_in token_out of None \<Rightarrow> s
      | Some (vtoken, vtoken_issuance, token_pool_amount, hardcap) \<Rightarrow>
          (case refresh_token_rate C pid vtoken vtoken_issuance token_pool_amount hardcap s of
             (True, s') \<Rightarrow> s'
           | (False, s') \<Rightarrow> emit_stable (TokenRateRefreshFailed pid) s'))"

section \<open>Adding liquidity\<close>

definition deposit_one ::
  "'l stable_config \<Rightarrow> nat \<Rightarrow> stable_pool \<Rightarrow> account \<Rightarrow> nat list \<Rightarrow> nat \<times> nat \<Rightarrow> 'l stable_state \<Rightarrow>
     'l stable_state stable_result" where
  "deposit_one C pid p who amounts_old = (\<lambda>(i, amount) s.
     if amount = 0 then Inr s
     else
       rbind (at amounts_old i) (\<lambda>old.
       rbind (get_or ArgumentsMismatch (pool_assets p) i) (\<lambda>asset.
       rbind (downscale s amount pid asset) (\<lambda>back.
       rbind (ensure (old \<ge> back) (Module (StablePool CantMint))) (\<lambda>_.
       rbind (at (pool_assets p) i) (\<lambda>asset.
       sa_transfer C asset who (pool_account p) old s))))))"

definition mint_inner ::
  "'l stable_config \<Rightarrow> account \<Rightarrow> nat \<Rightarrow> nat list \<Rightarrow> nat \<Rightarrow> 'l stable_state \<Rightarrow> 'l stable_state stable_result" where
  "mint_inner C who pid amounts_old min_mint_amount s0 =
     rbind (the_pool s0 pid) (\<lambda>p0.
     rbind (scale_all upscale s0 pid p0 amounts_old) (\<lambda>amounts.
     rbind (collect_yield C pid p0 s0) (\<lambda>(p, s).
     rbind (get_mint_amount C s p amounts) (\<lambda>r.
     rbind (amp_now s p) (\<lambda>a.
     rbind (ensure (mr_mint_amount r \<ge> min_mint_amount) (Module (StablePool PoolMintUnderMin))) (\<lambda>_.
     rbind (rfold (deposit_one C pid p who amounts_old) (enumerate 0 amounts) s) (\<lambda>s1.
     rbind (if mr_fee_amount r > 0
            then sa_mint_to C (pool_asset p) (fee_recipient p) (mr_fee_amount r) s1
            else Inr s1) (\<lambda>s2.
     rbind (sa_mint_to C (pool_asset p) who (mr_mint_amount r) s2) (\<lambda>s3.
     rbind (collect_fee C pid (p\<lparr>lp_supply := mr_total_supply r, pool_balances := mr_balances r\<rparr>) s3)
       (\<lambda>(p', s4).
     Inr (emit_stable (LiquidityAdded who pid a amounts_old min_mint_amount (pool_balances p')
            (lp_supply p') (mr_fee_amount r) (mr_mint_amount r)) (insert_pool C pid p' s4))))))))))))"

section \<open>Redeeming\<close>

text \<open>
  The loop reads the caller's minima with \<open>get\<close> here and by index in the other pallet; scaling has failed before
  it when there are fewer assets, and as many minima as assets have been demanded, so both are \<open>pay_share\<close>.
\<close>

definition redeem_proportion_inner ::
  "'l stable_config \<Rightarrow> account \<Rightarrow> nat \<Rightarrow> nat \<Rightarrow> nat list \<Rightarrow> 'l stable_state \<Rightarrow> 'l stable_state stable_result" where
  "redeem_proportion_inner C who pid amount mins s0 =
     rbind (the_pool s0 pid) (\<lambda>p0.
     rbind (collect_yield C pid p0 s0) (\<lambda>(p, s).
     rbind (ensure (length mins = length (pool_assets p)) (Module ArgumentsMismatch)) (\<lambda>_.
     rbind (get_redeem_proportion_amount C s p amount) (\<lambda>r.
     rbind (scale_all downscale s pid p (rp_amounts r)) (\<lambda>amounts.
     rbind (rfold (pay_share C p who mins) (enumerate 0 amounts) s) (\<lambda>s1.
     rbind (pay_redeem_fee C p who (rp_fee_amount r) s1) (\<lambda>s2.
     rbind (sa_burn_from C (pool_asset p) who (rp_redeem_amount r) s2) (\<lambda>s3.
     rbind (collect_fee C pid (p\<lparr>lp_supply := rp_total_supply r, pool_balances := rp_balances r\<rparr>) s3)
       (\<lambda>(p', s4).
     let s5 = insert_pool C pid p' s4 in
     rbind (amp_now s5 p') (\<lambda>a.
     Inr (emit_stable (RedeemedProportion who pid a amount mins (pool_balances p')
            (lp_supply p') (rp_fee_amount r) amounts) s5)))))))))))"

definition redeem_multi_inner ::
  "'l stable_config \<Rightarrow> account \<Rightarrow> nat \<Rightarrow> nat list \<Rightarrow> nat \<Rightarrow> 'l stable_state \<Rightarrow> 'l stable_state stable_result" where
  "redeem_multi_inner C who pid amounts max_redeem_amount s0 =
     rbind (the_pool s0 pid) (\<lambda>p0.
     rbind (collect_yield C pid p0 s0) (\<lambda>(p, s).
     rbind (scale_all upscale s pid p amounts) (\<lambda>new_amounts.
     rbind (get_redeem_multi_amount C s p new_amounts) (\<lambda>r.
     rbind (ensure (rm_redeem_amount r \<le> max_redeem_amount) (Module (StablePool PoolRedeemOverMax))) (\<lambda>_.
     rbind (pay_redeem_fee C p who (rm_fee_amount r) s) (\<lambda>s1.
     rbind (rfold (pay_requested C p who) (enumerate 0 amounts) s1) (\<lambda>s2.
     rbind (sa_burn_from C (pool_asset p) who (rm_burn_amount r) s2) (\<lambda>s3.
     rbind (collect_fee C pid (p\<lparr>lp_supply := rm_total_supply r, pool_balances := rm_balances r\<rparr>) s3)
       (\<lambda>(p', s4).
     let s5 = insert_pool C pid p' s4 in
     rbind (amp_now s5 p') (\<lambda>a.
     Inr (emit_stable (RedeemedMulti who pid a amounts max_redeem_amount (pool_balances p')
            (lp_supply p') (rm_fee_amount r) (rm_redeem_amount r)) s5)))))))))))"

definition redeem_single_inner ::
  "'l stable_config \<Rightarrow> account \<Rightarrow> nat \<Rightarrow> nat \<Rightarrow> nat \<Rightarrow> nat \<Rightarrow> nat \<Rightarrow> 'l stable_state \<Rightarrow>
     ((nat \<times> nat) \<times> 'l stable_state) stable_result" where
  "redeem_single_inner C who pid amount i min_redeem_amount asset_length s0 =
     rbind (the_pool s0 pid) (\<lambda>p0.
     rbind (collect_yield C pid p0 s0) (\<lambda>(p, s).
     rbind (get_redeem_single_amount C s p amount i) (\<lambda>r.
     rbind (get_or ArgumentsMismatch (pool_assets p) i) (\<lambda>asset.
     rbind (downscale s (rs_dy r) pid asset) (\<lambda>dy.
     rbind (ensure (asset_length = length (pool_assets p)) (Module ArgumentsError)) (\<lambda>_.
     rbind (ensure (dy \<ge> min_redeem_amount) (Module RedeemUnderMin)) (\<lambda>_.
     rbind (pay_redeem_fee C p who (rs_fee_amount r) s) (\<lambda>s1.
     rbind (sa_transfer C asset (pool_account p) who dy s1) (\<lambda>s2.
     rbind (sa_burn_from C (pool_asset p) who (rs_redeem_amount r) s2) (\<lambda>s3.
     rbind (collect_fee C pid (p\<lparr>lp_supply := rs_total_supply r, pool_balances := rs_balances r\<rparr>) s3)
       (\<lambda>(p', s4).
     let s5 = insert_pool C pid p' s4 in
     rbind (amp_now s5 p') (\<lambda>a.
     Inr ((amount, dy), emit_stable (RedeemedSingle who pid a amount asset min_redeem_amount
            (pool_balances p') (lp_supply p') (rs_fee_amount r) dy) s5)))))))))))))"

section \<open>Swapping\<close>

definition on_swap ::
  "'l stable_config \<Rightarrow> account \<Rightarrow> nat \<Rightarrow> nat \<Rightarrow> nat \<Rightarrow> nat \<Rightarrow> nat \<Rightarrow> 'l stable_state \<Rightarrow>
     'l stable_state stable_result" where
  "on_swap C who pid i j amount min_dy s0 =
     rbind (the_pool s0 pid) (\<lambda>p0.
     rbind (get_or ArgumentsMismatch (pool_assets p0) i) (\<lambda>token_in.
     rbind (get_or ArgumentsMismatch (pool_assets p0) j) (\<lambda>token_out.
     rbind (collect_yield C pid p0 s0) (\<lambda>(p, s).
     rbind (upscale s amount pid token_in) (\<lambda>dx.
     rbind (get_swap_amount C s p i j dx) (\<lambda>r.
     rbind (downscale s (sr_dy r) pid token_out) (\<lambda>downscale_out.
     rbind (ensure (downscale_out \<ge> min_dy) (Module (StablePool PoolSwapUnderMin))) (\<lambda>_.
     rbind (at (pool_balances p) i) (\<lambda>_.
     rbind (at (pool_balances p) j) (\<lambda>_.
     rbind (at (pool_assets p) i) (\<lambda>asset_i.
     rbind (sa_transfer C asset_i who (pool_account p) amount s) (\<lambda>s1.
     rbind (at (pool_assets p) j) (\<lambda>asset_j.
     rbind (sa_transfer C asset_j (pool_account p) who downscale_out s1) (\<lambda>s2.
     rbind (collect_fee C pid p s2) (\<lambda>(p', s3).
     let s4 = insert_pool C pid p' s3 in
     rbind (amp_now s4 p') (\<lambda>a.
     let s5 = emit_stable (TokenSwapped who pid a asset_i asset_j amount min_dy
                (pool_balances p') (lp_supply p') downscale_out) s4 in
     Inr (follow_rate C pid token_in token_out s5)))))))))))))))))"

section \<open>Quotes\<close>

definition get_swap_output ::
  "'l stable_config \<Rightarrow> 'l stable_state \<Rightarrow> nat \<Rightarrow> nat \<Rightarrow> nat \<Rightarrow> nat \<Rightarrow> nat stable_result" where
  "get_swap_output C s pid i j amount =
     rbind (the_pool s pid) (\<lambda>p.
     rbind (get_or ArgumentsMismatch (pool_assets p) i) (\<lambda>token_in.
     rbind (upscale s amount pid token_in) (\<lambda>dx.
     rbind (get_swap_amount C s p i j dx) (\<lambda>r.
     rbind (get_or ArgumentsMismatch (pool_assets p) j) (\<lambda>token_out.
     downscale s (sr_dy r) pid token_out)))))"

definition get_swap_input ::
  "'l stable_config \<Rightarrow> 'l stable_state \<Rightarrow> nat \<Rightarrow> nat \<Rightarrow> nat \<Rightarrow> nat \<Rightarrow> nat stable_result" where
  "get_swap_input C s pid i j amount =
     rbind (the_pool s pid) (\<lambda>p.
     rbind (get_or ArgumentsMismatch (pool_assets p) j) (\<lambda>token_out.
     rbind (upscale s amount pid token_out) (\<lambda>dy.
     rbind (get_swap_amount_exact C s p i j dy) (\<lambda>r.
     rbind (get_or ArgumentsMismatch (pool_assets p) i) (\<lambda>token_in.
     downscale s (sr_dx r) pid token_in)))))"

definition add_liquidity_amount ::
  "'l stable_config \<Rightarrow> 'l stable_state \<Rightarrow> nat \<Rightarrow> nat list \<Rightarrow> nat stable_result" where
  "add_liquidity_amount C s pid amounts_old =
     rbind (the_pool s pid) (\<lambda>p.
     rbind (scale_all upscale s pid p amounts_old) (\<lambda>amounts.
     rbind (get_mint_amount C s p amounts) (\<lambda>r. Inr (mr_mint_amount r))))"

definition pool_pair :: "currency \<Rightarrow> currency \<Rightarrow> nat \<times> stable_pool \<Rightarrow> (nat \<times> nat \<times> nat) option" where
  "pool_pair currency_in currency_out = (\<lambda>(pid, p).
     case pool_assets p of
       x # y # _ \<Rightarrow>
         (if x = currency_in \<and> y = currency_out then Some (pid, 0, 1)
          else if x = currency_out \<and> y = currency_in then Some (pid, 1, 0) else None)
     | _ \<Rightarrow> None)"

fun find_first :: "('a \<Rightarrow> 'b option) \<Rightarrow> 'a list \<Rightarrow> 'b option" where
  "find_first f [] = None"
| "find_first f (x # xs) = (case f x of None \<Rightarrow> find_first f xs | Some y \<Rightarrow> Some y)"

definition get_pool_id :: "'l stable_state \<Rightarrow> currency \<Rightarrow> currency \<Rightarrow> (nat \<times> nat \<times> nat) option" where
  "get_pool_id s currency_in currency_out = find_first (pool_pair currency_in currency_out) (pools s)"

definition get_pool_token_index :: "'l stable_state \<Rightarrow> nat \<Rightarrow> currency \<Rightarrow> nat option" where
  "get_pool_token_index s pid c =
     (case find_pool s pid of None \<Rightarrow> None | Some p \<Rightarrow> position_of c (pool_assets p))"

section \<open>Calls\<close>

definition pool_control :: "'l stable_config \<Rightarrow> origin \<Rightarrow> unit stable_result" where
  "pool_control C o1 = ensure (pool_control_origin C o1) BadOrigin"

text \<open>\<open>checked_ilog10\<close>: the decimals of a precision, unknown for zero.\<close>

fun ilog10 :: "nat \<Rightarrow> nat" where
  "ilog10 n = (if n < 10 then 0 else Suc (ilog10 (n div 10)))"

declare ilog10.simps [simp del]

definition checked_ilog10 :: "nat \<Rightarrow> nat option" where
  "checked_ilog10 n = (if n = 0 then None else Some (ilog10 n))"

definition pool_create_pool ::
  "'l stable_config \<Rightarrow> origin \<Rightarrow> currency list \<Rightarrow> nat list \<Rightarrow> nat \<Rightarrow> nat \<Rightarrow> nat \<Rightarrow> nat \<Rightarrow> account \<Rightarrow>
     account \<Rightarrow> nat \<Rightarrow> 'l stable_state \<Rightarrow> 'l stable_state stable_result" where
  "pool_create_pool C o1 assets precisions m_fee s_fee r_fee initial_a fee_to yield_to precision s =
     rbind (pool_control C o1) (\<lambda>_.
     let pid = pool_count s in
     rbind (ok_or (checked_ilog10 precision) (Module ArgumentsMismatch)) (\<lambda>digits.
     rbind (on_coins (register_blp_metadata C pid (min 255 digits)) s) (\<lambda>s1.
     create_pool C (BLP (of_nat pid)) assets precisions m_fee s_fee r_fee initial_a fee_to yield_to
       precision s1)))"

definition pool_add_liquidity ::
  "'l stable_config \<Rightarrow> origin \<Rightarrow> nat \<Rightarrow> nat list \<Rightarrow> nat \<Rightarrow> 'l stable_state \<Rightarrow> 'l stable_state stable_result" where
  "pool_add_liquidity C o1 pid amounts min_mint_amount s =
     rbind (ensure_signed o1) (\<lambda>who. mint_inner C who pid amounts min_mint_amount s)"

definition user_swap ::
  "'l stable_config \<Rightarrow> origin \<Rightarrow> nat \<Rightarrow> nat \<Rightarrow> nat \<Rightarrow> nat \<Rightarrow> nat \<Rightarrow> 'l stable_state \<Rightarrow>
     'l stable_state stable_result" where
  "user_swap C o1 pid i j dx min_dy s =
     rbind (ensure_signed o1) (\<lambda>who. on_swap C who pid i j dx min_dy s)"

definition pool_redeem_proportion ::
  "'l stable_config \<Rightarrow> origin \<Rightarrow> nat \<Rightarrow> nat \<Rightarrow> nat list \<Rightarrow> 'l stable_state \<Rightarrow> 'l stable_state stable_result" where
  "pool_redeem_proportion C o1 pid amount mins s =
     rbind (ensure_signed o1) (\<lambda>who. redeem_proportion_inner C who pid amount mins s)"

definition pool_redeem_single ::
  "'l stable_config \<Rightarrow> origin \<Rightarrow> nat \<Rightarrow> nat \<Rightarrow> nat \<Rightarrow> nat \<Rightarrow> nat \<Rightarrow> 'l stable_state \<Rightarrow>
     'l stable_state stable_result" where
  "pool_redeem_single C o1 pid amount i min_redeem_amount asset_length s =
     rbind (ensure_signed o1) (\<lambda>who.
     rbind (redeem_single_inner C who pid amount i min_redeem_amount asset_length s) (\<lambda>(_, s'). Inr s'))"

definition pool_redeem_multi ::
  "'l stable_config \<Rightarrow> origin \<Rightarrow> nat \<Rightarrow> nat list \<Rightarrow> nat \<Rightarrow> 'l stable_state \<Rightarrow> 'l stable_state stable_result" where
  "pool_redeem_multi C o1 pid amounts max_redeem_amount s =
     rbind (ensure_signed o1) (\<lambda>who. redeem_multi_inner C who pid amounts max_redeem_amount s)"

definition pool_modify_a ::
  "'l stable_config \<Rightarrow> origin \<Rightarrow> nat \<Rightarrow> nat \<Rightarrow> nat \<Rightarrow> 'l stable_state \<Rightarrow> 'l stable_state stable_result" where
  "pool_modify_a C o1 pid a target_block s =
     rbind (pool_control C o1) (\<lambda>_. modify_a C pid a target_block s)"

definition fee_in_range :: "'l stable_config \<Rightarrow> nat option \<Rightarrow> bool" where
  "fee_in_range C fee = (case fee of None \<Rightarrow> True | Some x \<Rightarrow> x < fee_precision C)"

definition pool_modify_fees ::
  "'l stable_config \<Rightarrow> origin \<Rightarrow> nat \<Rightarrow> nat option \<Rightarrow> nat option \<Rightarrow> nat option \<Rightarrow> 'l stable_state \<Rightarrow>
     'l stable_state stable_result" where
  "pool_modify_fees C o1 pid m_fee s_fee r_fee s =
     rbind (pool_control C o1) (\<lambda>_.
     rbind (ensure (fee_in_range C m_fee \<and> fee_in_range C s_fee \<and> fee_in_range C r_fee)
              (Module ArgumentsError)) (\<lambda>_.
     rbind (mutate_pool C pid (set_pool_fees pid m_fee s_fee r_fee) s) (\<lambda>(_, s'). Inr s')))"

definition pool_modify_recipients ::
  "'l stable_config \<Rightarrow> origin \<Rightarrow> nat \<Rightarrow> account option \<Rightarrow> account option \<Rightarrow> 'l stable_state \<Rightarrow>
     'l stable_state stable_result" where
  "pool_modify_recipients C o1 pid fee_to yield_to s =
     rbind (pool_control C o1) (\<lambda>_.
     rbind (mutate_pool C pid (set_recipients pid fee_to yield_to) s) (\<lambda>(_, s'). Inr s'))"

definition edit_token_rate ::
  "'l stable_config \<Rightarrow> origin \<Rightarrow> nat \<Rightarrow> (currency \<times> nat \<times> nat) list \<Rightarrow> 'l stable_state \<Rightarrow>
     'l stable_state stable_result" where
  "edit_token_rate C o1 pid info s =
     rbind (pool_control C o1) (\<lambda>_. set_token_rate C pid info s)"

definition config_vtoken_auto_refresh ::
  "'l stable_config \<Rightarrow> origin \<Rightarrow> currency \<Rightarrow> nat \<Rightarrow> 'l stable_state \<Rightarrow> 'l stable_state stable_result" where
  "config_vtoken_auto_refresh C o1 vtoken hardcap s =
     rbind (pool_control C o1) (\<lambda>_.
     rbind (ensure (is_vtoken vtoken) (Module ArgumentsError)) (\<lambda>_.
     Inr (emit_stable (TokenRateHardcapConfigured vtoken hardcap)
            (s\<lparr>rate_hardcap := (rate_hardcap s)(vtoken := Some hardcap)\<rparr>))))"

definition remove_vtoken_auto_refresh ::
  "'l stable_config \<Rightarrow> origin \<Rightarrow> currency \<Rightarrow> 'l stable_state \<Rightarrow> 'l stable_state stable_result" where
  "remove_vtoken_auto_refresh C o1 vtoken s =
     rbind (pool_control C o1) (\<lambda>_.
     Inr (emit_stable (TokenRateHardcapRemoved vtoken)
            (s\<lparr>rate_hardcap := (rate_hardcap s)(vtoken := None)\<rparr>)))"

end
