(* ===== verification/Stable_Newton.thy ===== *)
theory Stable_Newton
  imports Stable_Math
begin

text \<open>
  What the Newton iteration for the balance \<open>y\<close> of an asset computes. A round takes \<open>y\<close> to the floor of
  \<open>(y\<^sup>2 + c) / (2 * y + b - D)\<close>, the Newton step for \<open>y\<^sup>2 + (b - D) * y = c\<close>. From the first round on the
  value is at or above the floor of the positive root, its distance to the root halves in every round, and
  so 255 rounds reach the root up to rounding.
\<close>

section \<open>The step\<close>

definition y_poly :: "int \<Rightarrow> int \<Rightarrow> int \<Rightarrow> int" where
  "y_poly p c z = z * z + p * z - c"

lemma y_step_Some:
  assumes "y_step c b d y = Some y'"
  shows "d < 2 * y + b" and "y' = (y * y + c) div (2 * y + b - d)" and "y * y \<le> u512_max"
  using assms
  by (auto simp: y_step_def wide_add_def wide_mul_def num_simps Option.bind_eq_Some_conv mult.commute)

text \<open>The integers a step is about: the divisor, and the floor as two inequalities.\<close>

lemma y_step_int:
  assumes "y_step c b d y = Some y'"
  defines "p \<equiv> int b - int d"
  shows "0 < 2 * int y + p"
    and "int y' * (2 * int y + p) \<le> int y * int y + int c"
    and "int y * int y + int c < (int y' + 1) * (2 * int y + p)"
proof -
  let ?m = "2 * y + b - d"
  note s = y_step_Some [OF assms(1)]
  have m: "int ?m = 2 * int y + p" using s(1) by (simp add: p_def of_nat_diff)
  then show "0 < 2 * int y + p" using s(1) by linarith
  have "y' * ?m \<le> y * y + c" by (simp add: s(2))
  then have "int (y' * ?m) \<le> int (y * y + c)" by (rule of_nat_mono)
  then show "int y' * (2 * int y + p) \<le> int y * int y + int c" by (simp add: m)
  have "y * y + c < (y' + 1) * ?m"
    using s(1) dividend_less_div_times [of ?m "y * y + c"] by (simp add: s(2))
  then have "int (y * y + c) < int ((y' + 1) * ?m)" by (simp only: of_nat_less_iff)
  then show "int y * int y + int c < (int y' + 1) * (2 * int y + p)"
    by (simp only: of_nat_mult of_nat_add of_nat_1 m)
qed

lemma y_step_above:
  assumes "y_step c b d y = Some y'"
  shows "0 < y_poly (int b - int d) (int c) (int y' + 1)"
proof -
  let ?p = "int b - int d"
  have "int c < (int y' + 1) * (2 * int y + ?p) - int y * int y"
    using y_step_int(3) [OF assms] by linarith
  moreover have "(int y' + 1) * (int y' + 1) + ?p * (int y' + 1)
      - ((int y' + 1) * (2 * int y + ?p) - int y * int y) = (int y' + 1 - int y) * (int y' + 1 - int y)"
    by (simp add: algebra_simps)
  moreover have "0 \<le> (int y' + 1 - int y) * (int y' + 1 - int y)" by simp
  ultimately show ?thesis unfolding y_poly_def by linarith
qed

section \<open>The root\<close>

text \<open>The root rounded up, and at least one: the least positive integer with a non-negative value.\<close>

definition y_root :: "int \<Rightarrow> int \<Rightarrow> nat \<Rightarrow> bool" where
  "y_root p c z \<longleftrightarrow> 1 \<le> z \<and> 0 \<le> y_poly p c (int z) \<and> (\<forall>x. 1 \<le> x \<longrightarrow> x < z \<longrightarrow> y_poly p c (int x) < 0)"

lemma y_root_exists:
  assumes "0 \<le> y_poly p c (int n)" and "1 \<le> n"
  obtains z where "y_root p c z" and "z \<le> n"
proof -
  define z where "z = (LEAST z. 1 \<le> z \<and> 0 \<le> y_poly p c (int z))"
  have "1 \<le> z \<and> 0 \<le> y_poly p c (int z)"
    unfolding z_def by (rule LeastI [of _ n]) (use assms in simp)
  moreover have "y_poly p c (int x) < 0" if "1 \<le> x" "x < z" for x
    using that not_less_Least [of x "\<lambda>z. 1 \<le> z \<and> 0 \<le> y_poly p c (int z)"] by (auto simp: z_def)
  moreover have "z \<le> n" unfolding z_def by (rule Least_le) (use assms in simp)
  ultimately show ?thesis by (intro that [of z]) (simp_all add: y_root_def)
qed

lemma y_root_le: "y_root p c z \<Longrightarrow> 1 \<le> x \<Longrightarrow> 0 \<le> y_poly p c (int x) \<Longrightarrow> z \<le> x"
  unfolding y_root_def by (meson not_le)

lemma y_root_slope:
  assumes "y_root p (int c) z"
  shows "0 \<le> int z + p"
proof (rule ccontr)
  assume "\<not> 0 \<le> int z + p"
  then have "int z * (int z + p) < 0"
    using assms by (intro mult_pos_neg) (auto simp: y_root_def)
  moreover have "int z * (int z + p) \<ge> int c"
    using assms by (simp add: y_root_def y_poly_def algebra_simps)
  ultimately show False by linarith
qed

section \<open>One round\<close>

text \<open>From below the root a step lands at most at the root plus the quotient of the squared distance.\<close>

lemma y_step_near:
  assumes "y_step c b d y = Some y'" and "y_root (int b - int d) (int c) z"
  shows "(int y' - int z) * (2 * int y + (int b - int d)) \<le> (int y - int z) * (int y - int z)"
proof -
  let ?p = "int b - int d"
  have "int c \<le> int z * int z + ?p * int z"
    using assms(2) by (simp add: y_root_def y_poly_def)
  with y_step_int(2) [OF assms(1)]
  have "int y' * (2 * int y + ?p) \<le> int y * int y + (int z * int z + ?p * int z)" by linarith
  then show ?thesis by (simp add: algebra_simps)
qed

lemma y_step_ge:
  assumes "y_step c b d y = Some y'" and "y_root (int b - int d) (int c) z"
  shows "z \<le> y' + 1"
proof -
  have "0 \<le> y_poly (int b - int d) (int c) (int (y' + 1))"
    using y_step_above [OF assms(1)] by (simp add: add.commute)
  with assms(2) show ?thesis by (rule y_root_le [OF _ le_add2])
qed

text \<open>At or above the root the distance more than halves.\<close>

lemma y_step_halves:
  assumes s: "y_step c b d y = Some y'" and r: "y_root (int b - int d) (int c) z" and le: "z \<le> y"
  shows "2 * (int y' - int z) \<le> int y - int z"
proof (rule ccontr)
  let ?p = "int b - int d" and ?e = "int y - int z" and ?e' = "int y' - int z"
  assume "\<not> 2 * ?e' \<le> ?e"
  then have gt: "?e < 2 * ?e'" by simp
  have e: "0 \<le> ?e" using le by simp
  have "0 \<le> int z" by simp
  with y_root_slope [OF r] have m: "2 * ?e \<le> 2 * int y + ?p" by (simp add: algebra_simps)
  have "?e' * (2 * int y + ?p) \<le> ?e * ?e" by (rule y_step_near [OF s r])
  moreover have "?e' * (2 * int y + ?p) \<ge> ?e' * (2 * ?e)"
    using m gt e by (intro mult_left_mono) auto
  ultimately have "?e * (2 * ?e') \<le> ?e * ?e" by (simp add: algebra_simps)
  then have "?e = 0" using gt e mult_le_cancel_left_pos [of ?e "2 * ?e'" ?e] by linarith
  then have "?e' * (2 * int y + ?p) \<le> 0" using y_step_near [OF s r] by simp
  moreover have "0 < ?e' * (2 * int y + ?p)"
    using gt \<open>?e = 0\<close> y_step_int(1) [OF s] by (intro mult_pos_pos) auto
  ultimately show False by simp
qed

lemma y_step_below:
  assumes s: "y_step c b d y = Some y'" and r: "y_root (int b - int d) (int c) z" and "z = y + 1"
  shows "y' \<le> z + 1"
proof (rule ccontr)
  let ?p = "int b - int d"
  assume "\<not> y' \<le> z + 1"
  then have "2 \<le> int y' - int z" by linarith
  moreover have "1 \<le> 2 * int y + ?p" using y_step_int(1) [OF s] by linarith
  ultimately have "2 * 1 \<le> (int y' - int z) * (2 * int y + ?p)" by (intro mult_mono) auto
  moreover have "(int y' - int z) * (2 * int y + ?p) \<le> 1"
    using y_step_near [OF s r] assms(3) by simp
  ultimately show False by simp
qed

lemma y_step_close:
  assumes s: "y_step c b d y = Some y'" and r: "y_root (int b - int d) (int c) z" and "close_to y' y"
  shows "y' \<le> z + 1"
proof (cases "z \<le> y")
  case True
  have "y \<le> y' + 1" using assms(3) by (auto simp: close_to_def split: if_splits)
  then have "int y \<le> int y' + 1" by linarith
  with y_step_halves [OF s r True] show ?thesis by presburger
next
  case False
  with assms(3) show ?thesis by (auto simp: close_to_def split: if_splits)
qed

section \<open>The loop\<close>

text \<open>A distance of less than \<open>2 ^ m\<close> is used up in \<open>m\<close> rounds.\<close>

lemma y_step_budget:
  assumes s: "y_step c b d y = Some y'" and r: "y_root (int b - int d) (int c) z"
    and "z \<le> y + 1" and "y < z + 2 ^ Suc m"
  shows "y' < z + 2 ^ m \<or> y' \<le> z + 1"
proof (cases "z \<le> y")
  case True
  have "int y < int z + 2 * 2 ^ m"
    using assms(4) by (simp only: power_Suc flip: of_nat_less_iff [where 'a = int]) simp
  with y_step_halves [OF s r True] have "int y' < int z + 2 ^ m" by (simp add: algebra_simps)
  then have "int y' < int (z + 2 ^ m)" by simp
  then have "y' < z + 2 ^ m" by (simp only: of_nat_less_iff)
  then show ?thesis ..
next
  case False
  then have "z = y + 1" using assms(3) by simp
  then show ?thesis using y_step_below [OF s r] by simp
qed

lemma y_newton_bound:
  assumes "newton k (y_step c b d) y = Some y'" and "y_root (int b - int d) (int c) z"
    and "z \<le> y + 1" and "y < z + 2 ^ (k + j)" and "1 \<le> j"
  shows "z \<le> y' + 1 \<and> y' < z + 2 ^ j"
  using assms
proof (induction k arbitrary: y)
  case 0
  then show ?case by simp
next
  case (Suc k)
  have two: "z + 1 < z + 2 ^ (i + j)" for i
  proof -
    have "(2 :: nat) ^ 1 \<le> 2 ^ (i + j)" using \<open>1 \<le> j\<close> by (intro power_increasing) auto
    then show ?thesis by simp
  qed
  obtain x where x: "y_step c b d y = Some x"
    and k: "if close_to x y then y' = x else newton k (y_step c b d) x = Some y'"
    using Suc.prems(1) by (auto simp: Option.bind_eq_Some_conv split: if_splits)
  have ge: "z \<le> x + 1" by (rule y_step_ge [OF x Suc.prems(2)])
  show ?case
  proof (cases "close_to x y")
    case True
    with k ge y_step_close [OF x Suc.prems(2)] two [of 0] show ?thesis by auto
  next
    case False
    have "x < z + 2 ^ (k + j) \<or> x \<le> z + 1"
      using y_step_budget [OF x Suc.prems(2,3)] Suc.prems(4) by simp
    then have "x < z + 2 ^ (k + j)" using two [of k] by linarith
    with False k ge show ?thesis using Suc.IH Suc.prems(2) \<open>1 \<le> j\<close> by simp
  qed
qed

text \<open>The first round may start anywhere; it ends at or above the root, and below \<open>2 ^ 256\<close>.\<close>

lemma y_newton_near:
  assumes n: "newton (Suc (Suc k)) (y_step c b d) y0 = Some y" and r: "y_root (int b - int d) (int c) z"
    and "254 \<le> Suc k"
  shows "z \<le> y + 1 \<and> y < z + 4"
proof -
  obtain x where x: "y_step c b d y0 = Some x"
    and k: "if close_to x y0 then y = x else newton (Suc k) (y_step c b d) x = Some y"
    using n by (auto simp del: newton.simps(2) simp: newton.simps(2) [of "Suc k"]
        Option.bind_eq_Some_conv split: if_splits)
  have ge: "z \<le> x + 1" by (rule y_step_ge [OF x r])
  show ?thesis
  proof (cases "close_to x y0")
    case True
    with k ge y_step_close [OF x r] show ?thesis by simp
  next
    case False
    with k have n1: "newton (Suc k) (y_step c b d) x = Some y" by simp
    then obtain x' where "y_step c b d x = Some x'"
      by (auto simp: Option.bind_eq_Some_conv)
    then have "x * x \<le> u512_max" by (rule y_step_Some(3))
    then have "x ^ 2 < (2 ^ 256) ^ 2" by (simp add: u512_max_def power2_eq_square)
    then have "x < 2 ^ 256" by (rule power_less_imp_less_base) simp
    also have "(2 :: nat) ^ 256 \<le> 2 ^ (Suc k + 2)" using assms(3) by (intro power_increasing) auto
    finally have "x < z + 2 ^ (Suc k + 2)" by simp
    then show ?thesis using y_newton_bound [OF n1 r ge, of 2] by simp
  qed
qed

section \<open>Leaving the loop\<close>

text \<open>The loop is left by its own test, or by an early return, within \<open>k\<close> rounds.\<close>

fun newton_stops :: "nat \<Rightarrow> (nat \<Rightarrow> nat option) \<Rightarrow> nat \<Rightarrow> bool" where
  "newton_stops 0 step d = False"
| "newton_stops (Suc k) step d =
     (case step d of None \<Rightarrow> True | Some d' \<Rightarrow> close_to d' d \<or> newton_stops k step d')"

lemma newton_stops_add: "newton_stops k step d \<Longrightarrow> newton_stops (k + j) step d"
  by (induction k arbitrary: d) (auto split: option.splits)

lemma newton_stops_mono: "newton_stops k step d \<Longrightarrow> k \<le> k' \<Longrightarrow> newton_stops k' step d"
  using newton_stops_add [of k step d "k' - k"] by simp

lemma newton_stable: "newton_stops k step d \<Longrightarrow> newton (k + j) step d = newton k step d"
  by (induction k arbitrary: d) (auto split: option.splits Option.bind_splits)

lemma newton_last: "newton (Suc k) step d = Some y \<Longrightarrow> \<exists>x. step x = Some y"
proof (induction k arbitrary: d)
  case 0
  then show ?case by (auto simp: Option.bind_eq_Some_conv split: if_splits)
next
  case (Suc k)
  from Suc.prems obtain x where x: "step d = Some x"
    and k: "if close_to x d then y = x else newton (Suc k) step x = Some y"
    by (simp only: newton.simps(2) [of "Suc k"])
      (auto simp: Option.bind_eq_Some_conv simp del: newton.simps split: if_splits)
  show ?case
  proof (cases "close_to x d")
    case False
    with k show ?thesis using Suc.IH by simp
  qed (use x k in auto)
qed

lemma close_to_iff: "close_to d prev \<longleftrightarrow> d \<le> prev + 1 \<and> prev \<le> d + 1"
  by (auto simp: close_to_def)

text \<open>The one way to jump over the root from below it ends at the root in the next round.\<close>

lemma y_step_jump:
  assumes s: "y_step c b d y = Some y'" and r: "y_root (int b - int d) (int c) z"
    and z: "z = y + 1" and y': "y' = z + 1" and s': "y_step c b d y' = Some y''"
  shows "y'' = z"
proof -
  let ?p = "int b - int d"
  have "2 * int y + ?p \<le> 1" using y_step_near [OF s r] z y' by simp
  with y_step_int(1) [OF s] have m: "2 * int y + ?p = 1" by linarith
  have c: "int c = int y' - int y * int y"
    using y_step_int(2,3) [OF s] by (simp add: m)
  have m': "2 * int y' + ?p = 5" using m y' z by simp
  have sq: "int y' * int y' + int c = 5 * int z + 1"
    using c z y' by (simp add: algebra_simps)
  then show ?thesis
    using y_step_int(2,3) [OF s'] by (simp add: m')
qed

lemma y_stops_near:
  assumes r: "y_root (int b - int d) (int c) z" and "z \<le> y + 1" "y \<le> z + 1"
  shows "newton_stops 3 (y_step c b d) y"
proof -
  have at_root: "close_to y' y" if "y_step c b d y = Some y'" "y = z" for y y'
    using y_step_halves [OF that(1) r] y_step_ge [OF that(1) r] that(2) by (simp add: close_to_iff)
  have below: "newton_stops 2 (y_step c b d) y" if y: "z = y + 1" for y
  proof (cases "y_step c b d y")
    case (Some y')
    have "close_to y' y \<or> y' = z + 1"
      using y_step_below [OF Some r y] y_step_ge [OF Some r] y by (auto simp: close_to_iff)
    then show ?thesis
    proof
      assume j: "y' = z + 1"
      have "close_to y'' y'" if "y_step c b d y' = Some y''" for y''
        using y_step_jump [OF Some r y j that] j by (simp add: close_to_iff)
      with Some show ?thesis by (auto simp: numeral_2_eq_2 split: option.splits)
    qed (use Some in \<open>simp add: numeral_2_eq_2\<close>)
  qed (simp add: numeral_2_eq_2)
  consider "z = y + 1" | "y = z" | "y = z + 1" using assms(2,3) by linarith
  then show ?thesis
  proof cases
    case 1
    then show ?thesis using newton_stops_mono [OF below] by simp
  next
    case 2
    then show ?thesis using at_root by (auto simp: numeral_3_eq_3 split: option.splits)
  next
    case 3
    have "close_to y' y \<or> z = y' + 1" if "y_step c b d y = Some y'" for y'
      using y_step_halves [OF that r] y_step_ge [OF that r] 3 by (auto simp: close_to_iff)
    with below show ?thesis by (auto simp: numeral_3_eq_3 numeral_2_eq_2 split: option.splits)
  qed
qed

lemma y_stops_budget:
  assumes r: "y_root (int b - int d) (int c) z"
  shows "z \<le> y + 1 \<Longrightarrow> y < z + 2 ^ m \<Longrightarrow> newton_stops (m + 3) (y_step c b d) y"
proof (induction m arbitrary: y)
  case 0
  then show ?case using y_stops_near [OF r] by simp
next
  case (Suc m)
  show ?case
  proof (cases "y_step c b d y")
    case (Some y')
    have ge: "z \<le> y' + 1" by (rule y_step_ge [OF Some r])
    have "newton_stops (m + 3) (y_step c b d) y'"
      using y_step_budget [OF Some r Suc.prems]
    proof
      assume "y' \<le> z + 1"
      then show ?thesis using newton_stops_mono [OF y_stops_near [OF r ge]] by simp
    qed (rule Suc.IH [OF ge])
    with Some have "newton_stops (Suc (m + 3)) (y_step c b d) y" by (simp only: newton_stops.simps) simp
    then show ?thesis by (simp only: add_Suc)
  next
    case None
    then have "newton_stops (Suc (m + 3)) (y_step c b d) y" by (simp only: newton_stops.simps) simp
    then show ?thesis by (simp only: add_Suc)
  qed
qed

text \<open>Close to a large root the squared distance counts: a round takes much more than a half off.\<close>

lemma y_step_squares:
  assumes s: "y_step c b d y = Some y'" and r: "y_root (int b - int d) (int c) z"
    and big: "2 ^ 125 \<le> z" and ge: "z \<le> y + 1" and near: "y < z + 2 ^ 110"
  shows "y' < z + 2 ^ 95"
proof (cases "z \<le> y")
  case True
  let ?p = "int b - int d" and ?e = "int y - int z"
  have e: "0 \<le> ?e" "?e \<le> 2 ^ 110 - 1"
    using True near by (simp_all flip: of_nat_less_iff [where 'a = int])
  have "?e * ?e \<le> (2 ^ 110 - 1) * (2 ^ 110 - 1)" using e by (intro mult_mono) simp_all
  then have "(int y' - int z) * (2 * int y + ?p) \<le> (2 ^ 110 - 1) * (2 ^ 110 - 1)"
    using y_step_near [OF s r] by linarith
  moreover have m: "2 ^ 125 \<le> 2 * int y + ?p"
  proof -
    have "int (2 ^ 125) \<le> int z" using big by (rule of_nat_mono)
    then show ?thesis using y_root_slope [OF r] e(1) by simp
  qed
  ultimately have "(int y' - int z) * 2 ^ 125 \<le> (2 ^ 110 - 1) * (2 ^ 110 - 1)" if "0 \<le> int y' - int z"
    using mult_left_mono [OF m that] by linarith
  then have "int y' - int z < 2 ^ 95"
    by (cases "0 \<le> int y' - int z") auto
  then have "int y' < int (z + 2 ^ 95)" by auto
  then show ?thesis by (simp only: of_nat_less_iff)
next
  case False
  then have "z = y + 1" using ge by simp
  then have "y' \<le> z + 1" by (rule y_step_below [OF s r])
  moreover have "(1 :: nat) < 2 ^ 95" by simp
  ultimately show ?thesis by linarith
qed

lemma y_stops_far:
  assumes r: "y_root (int b - int d) (int c) z" and big: "2 ^ 125 \<le> z"
  shows "z \<le> y + 1 \<Longrightarrow> y < z + 2 ^ (k + 110) \<Longrightarrow> newton_stops (k + 99) (y_step c b d) y"
proof (induction k arbitrary: y)
  case 0
  have "newton_stops (Suc (95 + 3)) (y_step c b d) y"
  proof (cases "y_step c b d y")
    case (Some y')
    have "newton_stops (95 + 3) (y_step c b d) y'"
      using 0 by (intro y_stops_budget [OF r y_step_ge [OF Some r]] y_step_squares [OF Some r big]) simp_all
    with Some show ?thesis by (simp only: newton_stops.simps) simp
  qed (simp only: newton_stops.simps option.case)
  then show ?case by simp
next
  case (Suc k)
  have "newton_stops (Suc (k + 99)) (y_step c b d) y"
  proof (cases "y_step c b d y")
    case (Some y')
    have ge: "z \<le> y' + 1" by (rule y_step_ge [OF Some r])
    have "(1 :: nat) < 2 ^ (k + 110)" by (rule one_less_power) simp_all
    then have "y' < z + 2 ^ (k + 110)"
      using y_step_budget [OF Some r Suc.prems(1), of "k + 110"] Suc.prems(2) by auto
    then have "newton_stops (k + 99) (y_step c b d) y'" by (rule Suc.IH [OF ge])
    with Some show ?thesis by (simp only: newton_stops.simps) simp
  qed (simp only: newton_stops.simps option.case)
  then show ?case by simp
qed

text \<open>The first round, from a target that fits into 128 bits, stays near a small root.\<close>

lemma y_step_first:
  assumes s: "y_step c b d d = Some x" and r: "y_root (int b - int d) (int c) z"
    and d: "d \<le> u128_max" and small: "z < 2 ^ 125"
  shows "x < z + 2 ^ 250"
proof (rule ccontr)
  assume "\<not> x < z + 2 ^ 250"
  then have x: "2 ^ 250 \<le> int x - int z"
    by (simp add: not_less flip: of_nat_le_iff [where 'a = int])
  have near: "(int x - int z) * (int d + int b) \<le> (int d - int z) * (int d - int z)"
    using y_step_near [OF s r] by (simp add: algebra_simps)
  have pos: "1 \<le> int d + int b" using y_step_int(1) [OF s] by linarith
  show False
  proof (cases "z \<le> d")
    case True
    have "1 \<le> int d" using True r by (simp add: y_root_def)
    have "2 ^ 250 * int d \<le> (int x - int z) * (int d + int b)"
      using x by (intro mult_mono) simp_all
    also have "\<dots> \<le> int d * int d"
      using near True mult_mono [of "int d - int z" "int d" "int d - int z" "int d"] by simp
    finally have "2 ^ 250 \<le> int d" using \<open>1 \<le> int d\<close> by simp
    then show False using d by (simp add: u128_max_def)
  next
    case False
    have "(int d - int z) * (int d - int z) = (int z - int d) * (int z - int d)" by (simp add: algebra_simps)
    also have "\<dots> \<le> (2 ^ 125 - 1) * (2 ^ 125 - 1)"
      using False small by (intro mult_mono) simp_all
    finally have "(int x - int z) * (int d + int b) < 2 ^ 250" using near by simp
    moreover have "2 ^ 250 * 1 \<le> (int x - int z) * (int d + int b)"
      using x pos by (intro mult_mono) simp_all
    ultimately show False by simp
  qed
qed

theorem y_loop_stops:
  assumes "d \<le> u128_max"
  shows "newton_stops iterations_to_converge (y_step c b d) d"
proof (cases "y_step c b d d")
  case None
  then have "newton_stops (Suc 254) (y_step c b d) d" by (simp only: newton_stops.simps option.case)
  then show ?thesis by (simp add: iterations_to_converge_def)
next
  case (Some x)
  have "0 \<le> y_poly (int b - int d) (int c) (int (x + 1))"
    using y_step_above [OF Some] by (simp add: add.commute)
  then obtain z where r: "y_root (int b - int d) (int c) z" and z: "z \<le> x + 1"
    by (rule y_root_exists) simp
  have "newton_stops 254 (y_step c b d) x"
  proof (cases "z < 2 ^ 125")
    case True
    from y_stops_budget [OF r z y_step_first [OF Some r assms True]]
    show ?thesis by (rule newton_stops_mono) simp
  next
    case big: False
    show ?thesis
    proof (cases "y_step c b d x")
      case None
      then have "newton_stops (Suc 253) (y_step c b d) x" by (simp only: newton_stops.simps option.case)
      then show ?thesis by simp
    next
      case x': (Some x')
      then have "x * x \<le> u512_max" by (rule y_step_Some(3))
      then have "x ^ 2 < (2 ^ 256) ^ 2" by (simp add: u512_max_def power2_eq_square)
      then have "x < 2 ^ 256" by (rule power_less_imp_less_base) simp
      then have "x < z + 2 ^ (146 + 110)" by simp
      then have "newton_stops (146 + 99) (y_step c b d) x" using big by (intro y_stops_far [OF r _ z]) simp
      then show ?thesis by (rule newton_stops_mono) simp
    qed
  qed
  with Some have "newton_stops (Suc 254) (y_step c b d) d" by (simp only: newton_stops.simps) simp
  then show ?thesis by (simp add: iterations_to_converge_def)
qed

end
