(* ===== verification/Stable_Numbers.thy ===== *)
theory Stable_Numbers
  imports Stable_Newton
begin

text \<open>
  The other numbers of the stable swap: what \<open>mul_div\<close> answers, that the amplification coefficient moves
  between its two ends, and the invariant \<open>D\<close> of three kinds of pools: empty, with one empty asset, and
  balanced. Then the balance \<open>y\<close> as a whole.
\<close>

section \<open>Products and quotients\<close>

lemma mul_div_Some:
  "mul_div a b c = Some r \<longleftrightarrow> a * b \<le> uint256_max \<and> c \<noteq> 0 \<and> a * b div c \<le> u128_max \<and> r = a * b div c"
  by (auto simp: mul_div_def num_simps Option.bind_eq_Some_conv)

lemma mul_div_le: "mul_div a b c = Some r \<Longrightarrow> r * c \<le> a * b"
  by (auto simp: mul_div_Some)

lemma mul_div_part: "mul_div a b c = Some r \<Longrightarrow> b \<le> c \<Longrightarrow> r \<le> a"
proof -
  assume r: "mul_div a b c = Some r" and "b \<le> c"
  then have "a * b div c \<le> a * c div c" by (intro div_le_mono mult_le_mono2)
  with r show "r \<le> a" by (auto simp: mul_div_Some)
qed

section \<open>The amplification coefficient\<close>

lemma get_a_between:
  assumes "get_a now_block a0 t0 a1 t1 = Some a" and "t0 \<le> now_block"
  shows "min a0 a1 \<le> a" and "a \<le> max a0 a1"
proof -
  have part: "x * (now_block - t0) div (t1 - t0) \<le> x" if "now_block < t1" for x
  proof -
    have "x * (now_block - t0) div (t1 - t0) \<le> x * (t1 - t0) div (t1 - t0)"
      using that by (intro div_le_mono mult_le_mono2) simp
    also have "\<dots> = x" using that assms(2) by simp
    finally show ?thesis .
  qed
  show "min a0 a1 \<le> a" "a \<le> max a0 a1"
    using assms(1) part [of "a1 - a0"] part [of "a0 - a1"]
    by (auto simp: get_a_def mul_div_Some num_simps Option.bind_eq_Some_conv split: if_splits)
qed

lemma get_a_start: "t0 < t1 \<Longrightarrow> a0 \<le> u128_max \<Longrightarrow> get_a t0 a0 t0 a1 t1 = Some a0"
  by (auto simp: get_a_def mul_div_def checked_sub_def checked_add_def checked_div_def chk_def)

lemma get_a_end: "t1 \<le> now_block \<Longrightarrow> get_a now_block a0 t0 a1 t1 = Some a1"
  by (simp add: get_a_def)

lemma get_a_rising:
  assumes "get_a n1 a0 t0 a1 t1 = Some r1" and "get_a n2 a0 t0 a1 t1 = Some r2"
    and "t0 \<le> n1" and "n1 \<le> n2" and "a0 \<le> a1"
  shows "r1 \<le> r2"
proof (cases "n2 < t1")
  case True
  have "(a1 - a0) * (n1 - t0) div (t1 - t0) \<le> (a1 - a0) * (n2 - t0) div (t1 - t0)"
    using assms(4) by (intro div_le_mono mult_le_mono2) simp
  with True assms show ?thesis
    by (auto simp: get_a_def mul_div_Some num_simps Option.bind_eq_Some_conv split: if_splits)
next
  case False
  then have "r2 = a1" using assms(2) by (simp add: get_a_end)
  with get_a_between(2) [OF assms(1,3)] assms(5) show ?thesis by simp
qed

section \<open>The invariant of special pools\<close>

lemma sum_and_ann_Some:
  "sum_and_ann n xs t a = Some (t', a') \<Longrightarrow> t' = t + sum_list xs \<and> a' = a * n ^ length xs"
proof (induction xs arbitrary: t a)
  case (Cons x xs)
  then have "sum_and_ann n xs (t + x) (a * n) = Some (t', a')"
    by (auto simp: wide_add_def wide_mul_def Option.bind_eq_Some_conv)
  from Cons.IH [OF this] show ?case by simp
qed simp

lemma d_product_Some: "d_product n d xs p = Some r \<Longrightarrow> 0 \<notin> set xs"
  by (induction xs arbitrary: p) (auto simp: wide_mul_def num_simps Option.bind_eq_Some_conv)

lemma d_product_empty_asset: "0 \<in> set xs \<Longrightarrow> d_product n d xs p = None"
  using d_product_Some [of n d xs p] by (cases "d_product n d xs p") auto

text \<open>A pool that holds some assets but none of one of them has no invariant: the division fails.\<close>

lemma get_d_empty_asset:
  assumes "0 \<in> set balances" and "sum_list balances \<noteq> 0"
  shows "get_d ap balances a = None"
proof -
  have step: "d_step ap balances t ann d = None" for t ann d
    by (simp add: d_step_def d_product_empty_asset [OF assms(1)] Let_def)
  have "newton (Suc 254) (d_step ap balances t ann) d = None" for t ann d
    by (simp only: newton.simps step Option.bind.bind_lzero)
  then have n: "newton iterations_to_converge (d_step ap balances t ann) d = None" for t ann d
    by (simp add: iterations_to_converge_def)
  show ?thesis
  proof (cases "sum_and_ann (length balances) balances 0 a")
    case (Some q)
    then show ?thesis using sum_and_ann_Some [of _ balances 0 a "fst q" "snd q"] assms(2)
      by (simp add: get_d_def n case_prod_beta)
  qed (simp add: get_d_def)
qed

lemma get_d_empty_pool:
  assumes "get_d ap balances a = Some d" and "sum_list balances = 0"
  shows "d = 0"
proof -
  obtain t ann where s: "sum_and_ann (length balances) balances 0 a = Some (t, ann)"
    using assms(1) by (auto simp: get_d_def Option.bind_eq_Some_conv)
  then have "t = 0" using assms(2) sum_and_ann_Some by fastforce
  with s assms(1) show ?thesis by (simp add: get_d_def)
qed

text \<open>A pool with the same value of every asset: the invariant is the sum.\<close>

lemma sum_and_ann_balanced:
  assumes "t + m * x \<le> u512_max" and "ann * n ^ m \<le> u512_max" and "1 \<le> n"
  shows "sum_and_ann n (replicate m x) t ann = Some (t + m * x, ann * n ^ m)"
  using assms
proof (induction m arbitrary: t ann)
  case 0
  then show ?case by simp
next
  case (Suc m)
  have "ann * n * 1 \<le> ann * n * n ^ m" using \<open>1 \<le> n\<close> by (intro mult_le_mono2) simp
  moreover have "ann * n * n ^ m \<le> u512_max" using Suc.prems(2) by (simp add: mult.assoc)
  ultimately have "ann * n \<le> u512_max" by linarith
  with Suc show ?case by (simp add: wide_add_def wide_mul_def chk_def ac_simps)
qed

lemma d_product_balanced:
  assumes "p * (n * x) \<le> u512_max" and "0 < n * x" and "n * x \<le> u512_max"
  shows "d_product n (n * x) (replicate m x) p = Some p"
  using assms by (induction m) (simp_all add: wide_mul_def checked_div_def chk_def mult.commute)

lemma d_step_balanced:
  fixes x n :: nat
  defines "d \<equiv> n * x"
  assumes b: "d * d \<le> u512_max" "d * n \<le> u512_max" "(n + 1) * d \<le> u512_max"
    "(ann * d div ap + d * n) * d \<le> u512_max" "ann * d \<le> u512_max" "d \<le> u512_max"
    and ann: "ap \<le> ann" "0 < ap" and pos: "0 < d"
  shows "d_step ap (replicate n x) d ann d = Some d"
proof -
  have p: "d_product n d (replicate n x) d = Some d"
    unfolding d_def by (rule d_product_balanced) (use b pos in \<open>simp_all add: d_def\<close>)
  have sub: "(ann - ap) * d div ap + d = ann * d div ap"
  proof -
    have "ann * d = (ann - ap) * d + d * ap" using ann(1) by (simp add: algebra_simps diff_mult_distrib)
    then show ?thesis using ann(2) by simp
  qed
  then have t3: "(ann - ap) * d div ap + (n + 1) * d = ann * d div ap + d * n" by (simp add: algebra_simps)
  have u2: "(ann - ap) * d \<le> u512_max" using b(5) le_trans [OF mult_le_mono1 [of "ann - ap" ann d]] by simp
  have pos3: "0 < ann * d div ap + d * n" using sub pos by simp
  then have "ann * d div ap + d * n \<le> (ann * d div ap + d * n) * d" using pos by simp
  then have t3_le: "ann * d div ap + d * n \<le> u512_max" using b(4) by linarith
  have n1: "n + 1 \<le> u512_max"
  proof -
    have "(n + 1) * 1 \<le> (n + 1) * d" using pos by (intro mult_le_mono2) simp
    then have "n + 1 \<le> (n + 1) * d" by (simp only: mult_1_right)
    then show ?thesis using b(3) by (rule le_trans)
  qed
  have e1: "wide_mul d n = Some (d * n)" using b(2) by (simp add: wide_mul_def)
  have e2: "wide_add n 1 = Some (n + 1)" using n1 by (simp add: wide_add_def)
  have e3: "wide_mul (n + 1) d = Some ((n + 1) * d)" using b(3) by (simp add: wide_mul_def)
  have e4: "checked_sub ann ap = Some (ann - ap)" using ann(1) by (simp add: checked_sub_def)
  have e5: "wide_mul (ann - ap) d = Some ((ann - ap) * d)" using u2 by (simp add: wide_mul_def)
  have e6: "checked_div m ap = Some (m div ap)" for m using ann(2) by (simp add: checked_div_def)
  have e7: "wide_add ((ann - ap) * d div ap) ((n + 1) * d) = Some (ann * d div ap + d * n)"
    using t3_le by (simp only: wide_add_def t3 chk_eq_Some)
  have e8: "wide_mul ann d = Some (ann * d)" using b(5) by (simp add: wide_mul_def)
  have e9: "wide_add (ann * d div ap) (d * n) = Some (ann * d div ap + d * n)"
    using t3_le by (simp add: wide_add_def)
  have e10: "wide_mul (ann * d div ap + d * n) d = Some ((ann * d div ap + d * n) * d)"
    using b(4) by (simp only: wide_mul_def chk_eq_Some)
  have e11: "checked_div ((ann * d div ap + d * n) * d) (ann * d div ap + d * n) = Some d"
    using pos3 by (simp only: checked_div_def) simp
  show ?thesis
    by (simp only: d_step_def Let_def length_replicate p e1 e2 e3 e4 e5 e6 e7 e8 e9 e10 e11 Option.bind.bind_lunit)
qed

theorem get_d_balanced:
  assumes n: "1 \<le> n" "n \<le> 5" and x: "n * x \<le> u128_max" and a: "a \<le> u128_max"
    and ap: "0 < ap" "ap \<le> a * n ^ n"
  shows "get_d ap (replicate n x) a = Some (n * x)"
proof -
  let ?d = "n * x" and ?ann = "a * n ^ n"
  have pow: "n ^ n \<le> 5 ^ 5"
  proof -
    have "n ^ n \<le> 5 ^ n" using n(2) by (rule power_mono) simp
    also have "\<dots> \<le> 5 ^ 5" using n(2) by (intro power_increasing) auto
    finally show ?thesis .
  qed
  have ann: "?ann \<le> u128_max * 5 ^ 5" using a pow by (rule mult_le_mono)
  have m: "?ann \<le> u512_max" using ann by (rule le_trans) (simp add: u128_max_def u512_max_def)
  have d: "?d \<le> u512_max" using x by (rule le_trans) (simp add: u128_max_def u512_max_def)
  have s: "sum_and_ann n (replicate n x) 0 a = Some (?d, ?ann)"
    using sum_and_ann_balanced [of 0 n x a n] m d n by simp
  show ?thesis
  proof (cases "x = 0")
    case True
    then show ?thesis using s by (simp add: get_d_def)
  next
    case False
    then have pos: "0 < ?d" using n by simp
    have dd: "?d * ?d \<le> u128_max * u128_max" using x by (intro mult_le_mono)
    have dn: "?d * n \<le> u128_max * 5" using x n by (intro mult_le_mono)
    have annd: "?ann * ?d \<le> u128_max * 5 ^ 5 * u128_max" using ann x by (rule mult_le_mono)
    have "?ann * ?d div ap + ?d * n \<le> u128_max * 5 ^ 5 * u128_max + u128_max * 5"
      using annd dn div_le_dividend [of "?ann * ?d" ap] by linarith
    then have big: "(?ann * ?d div ap + ?d * n) * ?d \<le> (u128_max * 5 ^ 5 * u128_max + u128_max * 5) * u128_max"
      using x by (rule mult_le_mono)
    have "(n + 1) * ?d \<le> 6 * u128_max" using n x by (intro mult_le_mono) simp_all
    then have "d_step ap (replicate n x) ?d ?ann ?d = Some ?d"
      using dd dn annd big d ap pos
      by (intro d_step_balanced) (auto elim!: le_trans simp: u128_max_def u512_max_def)
    moreover have "newton (Suc 254) step y = Some y" if "step y = Some y" for step and y :: nat
      using that by (simp only: newton.simps) (simp add: close_to_iff)
    ultimately have "newton iterations_to_converge (d_step ap (replicate n x) ?d ?ann) ?d = Some ?d"
      by (simp add: iterations_to_converge_def)
    with s x pos show ?thesis by (simp add: get_d_def)
  qed
qed

section \<open>The balance of one asset\<close>

text \<open>The answer of \<open>get_y\<close> is less than four above the root, and at most one below it.\<close>

theorem get_y_root:
  assumes "get_y ap balances i d a = Some y"
  obtains c b z where "y_coefficients ap balances i d a = Some (c, b)"
    and "0 < y_poly (int b - int d) (int c) (int y + 1)"
    and "y_root (int b - int d) (int c) z" and "z \<le> y + 1" and "y < z + 4"
proof -
  obtain c b where cb: "y_coefficients ap balances i d a = Some (c, b)"
    and "newton iterations_to_converge (y_step c b d) d = Some y"
    using assms by (auto simp: get_y_def Option.bind_eq_Some_conv)
  then have n: "newton (Suc (Suc 253)) (y_step c b d) d = Some y"
    by (simp add: iterations_to_converge_def)
  then obtain x where "y_step c b d x = Some y" using newton_last by blast
  then have above: "0 < y_poly (int b - int d) (int c) (int y + 1)" by (rule y_step_above)
  then have "0 \<le> y_poly (int b - int d) (int c) (int (y + 1))" by (simp add: add.commute)
  then obtain z where r: "y_root (int b - int d) (int c) z" "z \<le> y + 1" by (rule y_root_exists) simp
  have "y < z + 4" using y_newton_near [OF n r(1)] by simp
  with cb above r show ?thesis by (rule that)
qed

end
