(* ===== verification/Stable_Lemmas.thy ===== *)
theory Stable_Lemmas
  imports Stable_Pool Stable_Numbers Minting_Lemmas
begin

text \<open>
  The laws of the ledger the pools hold their assets on, the frames of the operations on a pool, and what the
  calculations and the collection of yield and fees answer, as facts the properties share.
\<close>

section \<open>The ledger\<close>

text \<open>\<open>MultiCurrency::deposit\<close> and \<open>withdraw\<close> change one balance by exactly the amount, or fail.\<close>

locale pool_ledger =
  fixes C :: "'l stable_config"
  assumes currency: "multi_currency (sa_currencies C)"
    and deposit_adds: "sa_deposit C c a n l = Inr l' \<Longrightarrow>
          mc_free (sa_currencies C) l' =
            (mc_free (sa_currencies C) l)(c := (mc_free (sa_currencies C) l c)(a := mc_free (sa_currencies C) l c a + n))"
    and withdraw_enough: "sa_withdraw C c a n l = Inr l' \<Longrightarrow> n \<le> mc_free (sa_currencies C) l c a"
    and withdraw_takes: "sa_withdraw C c a n l = Inr l' \<Longrightarrow>
          mc_free (sa_currencies C) l' =
            (mc_free (sa_currencies C) l)(c := (mc_free (sa_currencies C) l c)(a := mc_free (sa_currencies C) l c a - n))"
begin

lemma transfer_flow:
  "sa_transfer C c a b n s = Inr s' \<Longrightarrow>
     sa_free C s' d x + paid c a n d x = sa_free C s d x + paid c b n d x"
  using multi_currency.flow [OF currency] by (auto simp: sa_transfer_def sa_free_def result_simps)

lemma mint_flow:
  "sa_mint_to C c a n s = Inr s' \<Longrightarrow> sa_free C s' d x = sa_free C s d x + paid c a n d x"
  by (auto simp: sa_mint_to_def sa_free_def result_simps paid_def dest!: deposit_adds)

lemma burn_flow:
  "sa_burn_from C c a n s = Inr s' \<Longrightarrow> sa_free C s' d x + paid c a n d x = sa_free C s d x"
  using withdraw_enough [of c a n "coins s" "coins s'"] withdraw_takes [of c a n "coins s" "coins s'"]
  by (auto simp: sa_burn_from_def sa_free_def result_simps paid_def)

lemma transfer_other: "sa_transfer C c a b n s = Inr s' \<Longrightarrow> d \<noteq> c \<Longrightarrow> sa_free C s' d x = sa_free C s d x"
  using transfer_flow [of c a b n s s' d x] by (simp add: paid_def)

lemma mint_other: "sa_mint_to C c a n s = Inr s' \<Longrightarrow> d \<noteq> c \<Longrightarrow> sa_free C s' d x = sa_free C s d x"
  using mint_flow [of c a n s s' d x] by (simp add: paid_def)

lemma burn_other: "sa_burn_from C c a n s = Inr s' \<Longrightarrow> d \<noteq> c \<Longrightarrow> sa_free C s' d x = sa_free C s d x"
  using burn_flow [of c a n s s' d x] by (simp add: paid_def)

text \<open>The units of a currency on a set of accounts.\<close>

lemma transfer_sum:
  assumes "sa_transfer C c a b n s = Inr s'" and "finite A" "a \<in> A" "b \<in> A"
  shows "sum (sa_free C s' d) A = sum (sa_free C s d) A"
  using assms multi_currency.conserves [OF currency]
  by (auto simp: sa_transfer_def sa_free_def result_simps)

lemma mint_sum:
  assumes "sa_mint_to C c a n s = Inr s'" and "finite A" "a \<in> A"
  shows "sum (sa_free C s' c) A = sum (sa_free C s c) A + n"
  using assms by (simp add: mint_flow sum.distrib sum_paid)

lemma burn_sum:
  assumes "sa_burn_from C c a n s = Inr s'" and "finite A" "a \<in> A"
  shows "sum (sa_free C s' c) A + n = sum (sa_free C s c) A"
proof -
  have "sum (sa_free C s' c) A + (\<Sum>x\<in>A. paid c a n c x) = sum (sa_free C s c) A"
    by (simp add: burn_flow [OF assms(1)] flip: sum.distrib)
  then show ?thesis using assms(2,3) by (simp add: sum_paid)
qed

end

section \<open>Frames\<close>

text \<open>
  An operation on coins changes nothing but the coins; the chain around the pools, and the pool apart from
  its books, stay as they are.
\<close>

definition same_chain :: "'l stable_state \<Rightarrow> 'l stable_state \<Rightarrow> bool" where
  "same_chain s s' \<longleftrightarrow> pool_count s' = pool_count s \<and> pools s' = pools s \<and> token_rates s' = token_rates s \<and>
     rate_hardcap s' = rate_hardcap s \<and> block_now s' = block_now s \<and> providers s' = providers s"

definition same_pool :: "stable_pool \<Rightarrow> stable_pool \<Rightarrow> bool" where
  "same_pool p p' \<longleftrightarrow>
     p' = p\<lparr>lp_supply := lp_supply p', pool_balances := pool_balances p'\<rparr> \<and>
     length (pool_balances p') = length (pool_balances p)"

lemma same_chain_refl [simp]: "same_chain s s"
  by (simp add: same_chain_def)

lemma same_chain_trans: "same_chain s t \<Longrightarrow> same_chain t u \<Longrightarrow> same_chain s u"
  by (simp add: same_chain_def)

lemma same_pool_refl [simp]: "same_pool p p"
  by (simp add: same_pool_def)

lemma same_pool_trans: "same_pool p q \<Longrightarrow> same_pool q r \<Longrightarrow> same_pool p r"
  by (cases p; cases q; cases r) (simp add: same_pool_def)

lemma same_pool_books:
  "length bs = length (pool_balances p) \<Longrightarrow> same_pool p (p\<lparr>lp_supply := n, pool_balances := bs\<rparr>)"
  by (simp add: same_pool_def)

lemma same_pool_simps:
  assumes "same_pool p p'"
  shows "pool_id p' = pool_id p" "pool_asset p' = pool_asset p" "pool_assets p' = pool_assets p"
    "pool_precisions p' = pool_precisions p" "pool_account p' = pool_account p"
    "mint_fee p' = mint_fee p" "swap_fee p' = swap_fee p" "redeem_fee p' = redeem_fee p"
    "fee_recipient p' = fee_recipient p" "yield_recipient p' = yield_recipient p"
    "amp p' = amp p" "amp_block p' = amp_block p" "future_amp p' = future_amp p"
    "future_amp_block p' = future_amp_block p"
    "length (pool_balances p') = length (pool_balances p)"
  using assms by (cases p; cases p'; simp add: same_pool_def)+

lemma on_coins_chain: "on_coins f s = Inr s' \<Longrightarrow> same_chain s s'"
  by (auto simp: result_simps same_chain_def)

lemma coin_chains:
  "sa_transfer C c a b n s = Inr s' \<Longrightarrow> same_chain s s'"
  "sa_mint_to C c a n s = Inr s' \<Longrightarrow> same_chain s s'"
  "sa_burn_from C c a n s = Inr s' \<Longrightarrow> same_chain s s'"
  by (auto simp: sa_transfer_def sa_mint_to_def sa_burn_from_def intro: on_coins_chain)

lemma emit_chain [simp]: "same_chain s (emit_stable e s)"
  by (simp add: same_chain_def emit_stable_def)

lemma stable_emit_simps [simp]:
  "sa_free C (emit_stable e s) = sa_free C s"
  "pools (emit_stable e s) = pools s" "token_rates (emit_stable e s) = token_rates s"
  "pool_count (emit_stable e s) = pool_count s" "block_now (emit_stable e s) = block_now s"
  "coins (emit_stable e s) = coins s" "rate_hardcap (emit_stable e s) = rate_hardcap s"
  "find_pool (emit_stable e s) pid = find_pool s pid"
  by (simp_all add: emit_stable_def sa_free_def fun_eq_iff find_pool_def)

lemma insert_simps [simp]:
  "sa_free C (insert_pool D pid p s) = sa_free C s"
  "token_rates (insert_pool D pid p s) = token_rates s"
  "pool_count (insert_pool D pid p s) = pool_count s" "block_now (insert_pool D pid p s) = block_now s"
  "coins (insert_pool D pid p s) = coins s" "rate_hardcap (insert_pool D pid p s) = rate_hardcap s"
  "find_pool (insert_pool D pid p s) = (find_pool s)(pid \<mapsto> p)"
  by (simp_all add: insert_pool_def sa_free_def fun_eq_iff find_pool_def map_of_sm_put)

lemma amp_now_cong: "same_chain s s' \<Longrightarrow> same_pool p p' \<Longrightarrow> amp_now s' p' = amp_now s p"
  by (simp add: amp_now_def same_chain_def same_pool_simps)

section \<open>Refreshing a pool\<close>

lemma asset_value_cong:
  assumes "same_pool p p'" and "token_rates s' = token_rates s"
    and "\<And>asset. asset \<in> set (pool_assets p) \<Longrightarrow>
           sa_free C s' asset (pool_account p) = sa_free C s asset (pool_account p)"
  shows "asset_value C s' p' i = asset_value C s p i"
  by (cases "i < length (pool_assets p)")
    (simp_all add: asset_value_def at_def same_pool_simps [OF assms(1)] get_token_rate_def assms(2,3)
       split: option.split)

lemma rbind_assoc: "rbind (rbind m f) g = rbind m (\<lambda>x. rbind (f x) g)"
  by (cases m) simp_all

lemma amp_now_books [simp]:
  "amp_now s (p\<lparr>pool_balances := bs\<rparr>) = amp_now s p" "amp_now s (p\<lparr>lp_supply := n\<rparr>) = amp_now s p"
  by (simp_all add: amp_now_def)

lemma refreshed_eq:
  "refreshed C s p =
     rbind (rmap (asset_value C s p) [0..<length (pool_balances p)]) (\<lambda>bs.
     rbind (amp_now s p) (\<lambda>a.
     rbind (math (get_d (a_precision C) bs a)) (\<lambda>d.
     Inr (p\<lparr>pool_balances := bs, lp_supply := d\<rparr>))))"
  by (simp add: refreshed_def get_balance_update_amount_def get_collect_yield_amount_def rbind_assoc)

lemma refreshed_Inr:
  "refreshed C s p = Inr q \<longleftrightarrow>
     (\<exists>bs a d. rmap (asset_value C s p) [0..<length (pool_balances p)] = Inr bs \<and>
        amp_now s p = Inr a \<and> get_d (a_precision C) bs a = Some d \<and>
        q = p\<lparr>pool_balances := bs, lp_supply := d\<rparr>)"
  unfolding refreshed_eq rbind_eq_Inr math_eq_Inr by blast

lemma refreshed_cong:
  assumes p: "same_pool p p'" and s: "same_chain s s'"
    and free: "\<And>asset. asset \<in> set (pool_assets p) \<Longrightarrow>
           sa_free C s' asset (pool_account p) = sa_free C s asset (pool_account p)"
  shows "refreshed C s' p' = refreshed C s p"
proof -
  have r: "token_rates s' = token_rates s" using s by (simp add: same_chain_def)
  have upd: "p'\<lparr>pool_balances := bs, lp_supply := n\<rparr> = p\<lparr>pool_balances := bs, lp_supply := n\<rparr>" for bs n
    using p by (cases p; cases p') (simp add: same_pool_def)
  have "asset_value C s' p' = asset_value C s p"
    by (rule ext) (rule asset_value_cong [OF p r free])
  then show ?thesis
    by (simp only: refreshed_eq upd amp_now_cong [OF s p] same_pool_simps(15) [OF p])
qed

lemma refreshed_same: "refreshed C s p = Inr q \<Longrightarrow> same_pool p q"
  by (cases p) (auto simp: refreshed_Inr same_pool_def dest: rmap_length)

lemma amp_now_emit [simp]: "amp_now (emit_stable e s) p = amp_now s p"
  by (simp add: amp_now_def)

lemma collect_yield_eq:
  "collect_yield C pid p0 s0 =
     rbind (rmap (asset_value C s0 p0) [0..<length (pool_balances p0)]) (\<lambda>bs.
     rbind (amp_now s0 p0) (\<lambda>a.
     rbind (math (get_d (a_precision C) bs a)) (\<lambda>d.
     rbind (ensure (lp_supply p0 \<le> d) (Module InvalidPoolValue)) (\<lambda>_.
     let t = emit_stable (BalanceUpdated pid (pool_balances p0) bs) s0 in
     if lp_supply p0 < d then
       rbind (amp_now s0 p0) (\<lambda>a.
       rbind (sa_mint_to C (pool_asset p0) (yield_recipient p0) (d - lp_supply p0) t) (\<lambda>u.
       Inr (p0\<lparr>pool_balances := bs, lp_supply := d\<rparr>,
            emit_stable (YieldCollected pid a (lp_supply p0) d (yield_recipient p0) (d - lp_supply p0)) u)))
     else Inr (p0\<lparr>pool_balances := bs\<rparr>, t)))))"
  by (simp add: collect_yield_def update_balance_def get_balance_update_amount_def
      get_collect_yield_amount_def Let_def rbind_assoc cong: if_cong)

text \<open>What the collection of yield leaves is a refreshed pool, and it has minted the difference.\<close>

lemma collect_yield_Inr:
  assumes "collect_yield C pid p0 s0 = Inr (p, s)"
  obtains t where "refreshed C s0 p0 = Inr p" and "lp_supply p0 \<le> lp_supply p"
    and "same_chain s0 t" and "sa_free C t = sa_free C s0"
    and "if lp_supply p0 < lp_supply p
         then \<exists>u e. sa_mint_to C (pool_asset p0) (yield_recipient p0) (lp_supply p - lp_supply p0) t = Inr u \<and>
                s = emit_stable e u
         else s = t"
  using assms unfolding collect_yield_eq
proof (elim rbind_InrE)
  fix bs a d u
  let ?t = "emit_stable (BalanceUpdated pid (pool_balances p0) bs) s0"
  assume b: "rmap (asset_value C s0 p0) [0..<length (pool_balances p0)] = Inr bs"
      "amp_now s0 p0 = Inr a" "math (get_d (a_precision C) bs a) = Inr d"
    and le: "ensure (lp_supply p0 \<le> d) (Module InvalidPoolValue :: stable_error dispatch_error) = Inr u"
    and step: "(let t = ?t in
     if lp_supply p0 < d then
       rbind (amp_now s0 p0) (\<lambda>a.
       rbind (sa_mint_to C (pool_asset p0) (yield_recipient p0) (d - lp_supply p0) t) (\<lambda>u.
       Inr (p0\<lparr>pool_balances := bs, lp_supply := d\<rparr>,
            emit_stable (YieldCollected pid a (lp_supply p0) d (yield_recipient p0) (d - lp_supply p0)) u)))
     else Inr (p0\<lparr>pool_balances := bs\<rparr>, t)) = Inr (p, s)"
  have p: "p = p0\<lparr>pool_balances := bs, lp_supply := d\<rparr>"
    using step le by (cases p0) (auto simp: Let_def result_simps split: if_splits)
  have r: "refreshed C s0 p0 = Inr p" by (simp add: refreshed_eq b p)
  have sup: "lp_supply p = d" by (simp add: p)
  show ?thesis
    by (rule that [of ?t])
      (use r le step in \<open>auto simp: sup Let_def result_simps split: if_splits\<close>)
qed

text \<open>After it, refreshing the pool once more changes nothing, since it moves only the pool's own token.\<close>

context pool_ledger
begin

lemma collect_yield_chain:
  assumes "collect_yield C pid p0 s0 = Inr (p, s)"
  shows "same_chain s0 s"
  using assms
proof (rule collect_yield_Inr)
  fix t
  assume t: "same_chain s0 t"
    and "if lp_supply p0 < lp_supply p
         then \<exists>u e. sa_mint_to C (pool_asset p0) (yield_recipient p0) (lp_supply p - lp_supply p0) t = Inr u \<and>
                s = emit_stable e u
         else s = t"
  then show ?thesis
    by (auto split: if_splits dest!: coin_chains(2) intro: same_chain_trans emit_chain)
qed

lemma collect_yield_free:
  assumes "collect_yield C pid p0 s0 = Inr (p, s)"
  shows "sa_free C s d x =
    sa_free C s0 d x + paid (pool_asset p0) (yield_recipient p0) (lp_supply p - lp_supply p0) d x"
  using assms by (rule collect_yield_Inr) (auto simp: mint_flow split: if_splits)

lemma collect_yield_refreshed:
  assumes y: "collect_yield C pid p0 s0 = Inr (p, s)" and lp: "pool_asset p0 \<notin> set (pool_assets p0)"
  shows "refreshed C s p = Inr p"
proof -
  have r: "refreshed C s0 p0 = Inr p" using y by (rule collect_yield_Inr)
  have "refreshed C s p = refreshed C s0 p0"
    by (rule refreshed_cong [OF refreshed_same [OF r] collect_yield_chain [OF y]])
      (use collect_yield_free [OF y] lp in \<open>auto simp: paid_def\<close>)
  with r show ?thesis by simp
qed

end

lemma collect_yield_falling:
  assumes "refreshed C s p = Inr q" and "lp_supply q < lp_supply p"
  shows "collect_yield C pid p s = Inl (Module InvalidPoolValue)"
proof -
  obtain bs a d where "rmap (asset_value C s p) [0..<length (pool_balances p)] = Inr bs"
      "amp_now s p = Inr a" "get_d (a_precision C) bs a = Some d"
      "q = p\<lparr>pool_balances := bs, lp_supply := d\<rparr>"
    using assms(1) by (auto simp: refreshed_Inr)
  with assms(2) show ?thesis by (simp add: collect_yield_eq math_def)
qed

section \<open>Collecting fees\<close>

lemma pending_fee_Inr:
  assumes "get_pending_fee_amount C s p = Inr r"
  shows "refreshed C s p = Inr (p\<lparr>pool_balances := pf_balances r, lp_supply := pf_total_supply r\<rparr>)"
    and "pf_fee_amount r = pf_total_supply r - lp_supply p"
    and "lp_supply p - lp_supply p div 100 \<le> pf_total_supply r"
proof -
  obtain a bs d where b: "amp_now s p = Inr a"
      "rmap (asset_value C s p) [0..<length (pool_balances p)] = Inr bs"
      "get_d (a_precision C) bs a = Some d"
    and r: "if lp_supply p < d
      then r = \<lparr>pf_fee_amount = d - lp_supply p, pf_balances = bs, pf_total_supply = d\<rparr>
      else lp_supply p - lp_supply p div 100 \<le> d \<and>
        r = \<lparr>pf_fee_amount = 0, pf_balances = bs, pf_total_supply = d\<rparr>"
    using assms unfolding get_pending_fee_amount_def Let_def
  proof (elim rbind_InrE)
    fix a bs d x y
    assume "math (checked_div (lp_supply p) 100) = Inr x"
      "math (checked_sub (lp_supply p) x) = Inr y" "math (get_d (a_precision C) bs a) = Inr d"
      "amp_now s p = Inr a" "rmap (asset_value C s p) [0..<length (pool_balances p)] = Inr bs"
      "(if lp_supply p < d
        then rbind (math (checked_sub d (lp_supply p)))
               (\<lambda>fee_amount. Inr \<lparr>pf_fee_amount = fee_amount, pf_balances = bs, pf_total_supply = d\<rparr>)
        else if y \<le> d then Inr \<lparr>pf_fee_amount = 0, pf_balances = bs, pf_total_supply = d\<rparr>
        else Inl (Module Math)) = Inr r"
    then show thesis by (intro that [of a bs d]) (auto simp: result_simps num_simps split: if_splits)
  qed
  from b r show "refreshed C s p = Inr (p\<lparr>pool_balances := pf_balances r, lp_supply := pf_total_supply r\<rparr>)"
    and "pf_fee_amount r = pf_total_supply r - lp_supply p"
    and "lp_supply p - lp_supply p div 100 \<le> pf_total_supply r"
    by (auto simp: refreshed_Inr split: if_splits)
qed

lemma collect_fee_Inr:
  assumes "collect_fee C pid p s = Inr (p', s')"
  shows "refreshed C s p = Inr p'"
    and "lp_supply p - lp_supply p div 100 \<le> lp_supply p'"
    and "if lp_supply p < lp_supply p'
         then \<exists>u e. sa_mint_to C (pool_asset p) (fee_recipient p) (lp_supply p' - lp_supply p) s = Inr u \<and>
                s' = emit_stable e u
         else s' = s"
proof -
  obtain r where r: "get_pending_fee_amount C s p = Inr r"
    and p': "p' = p\<lparr>lp_supply := pf_total_supply r, pool_balances := pf_balances r\<rparr>"
    and step: "if 0 < pf_fee_amount r
         then \<exists>u e. sa_mint_to C (pool_asset p) (fee_recipient p) (pf_fee_amount r) s = Inr u \<and>
                s' = emit_stable e u
         else s' = s"
    using assms unfolding collect_fee_def Let_def
  proof (elim rbind_InrE)
    fix r :: pending_fee_result
    let ?q = "p\<lparr>lp_supply := pf_total_supply r, pool_balances := pf_balances r\<rparr>"
    assume r: "get_pending_fee_amount C s p = Inr r"
      and s': "(if 0 < pf_fee_amount r
          then rbind (sa_mint_to C (pool_asset ?q) (fee_recipient ?q) (pf_fee_amount r) s) (\<lambda>s1.
               rbind (amp_now s1 ?q) (\<lambda>a.
               Inr (?q, emit_stable (FeeCollected pid a (pool_balances p) (pool_balances ?q) (lp_supply p)
                 (pf_total_supply r) (fee_recipient ?q) (pf_fee_amount r)) s1)))
          else Inr (?q, s)) = Inr (p', s')"
    show thesis
    proof (cases "0 < pf_fee_amount r")
      case True
      then have "\<exists>u e. sa_mint_to C (pool_asset p) (fee_recipient p) (pf_fee_amount r) s = Inr u \<and>
          p' = ?q \<and> s' = emit_stable e u"
        using s' by (simp only: if_True) (auto simp: rbind_eq_Inr)
      with True show thesis by (intro that [OF r]) auto
    next
      case False
      with s' show thesis by (intro that [OF r]) simp_all
    qed
  qed
  note f = pending_fee_Inr [OF r]
  have "p' = p\<lparr>pool_balances := pf_balances r, lp_supply := pf_total_supply r\<rparr>"
    unfolding p' by (cases p) simp
  with f(1) show "refreshed C s p = Inr p'" by simp
  have sup: "lp_supply p' = pf_total_supply r" by (simp add: p')
  show "lp_supply p - lp_supply p div 100 \<le> lp_supply p'" using f(3) by (simp add: sup)
  show "if lp_supply p < lp_supply p'
         then \<exists>u e. sa_mint_to C (pool_asset p) (fee_recipient p) (lp_supply p' - lp_supply p) s = Inr u \<and>
                s' = emit_stable e u
         else s' = s"
    using step by (simp add: sup f(2) split: if_splits)
qed

lemma collect_fee_same: "collect_fee C pid p s = Inr (p', s') \<Longrightarrow> same_pool p p'"
  by (rule refreshed_same [OF collect_fee_Inr(1)])

lemma collect_fee_chain: "collect_fee C pid p s = Inr (p', s') \<Longrightarrow> same_chain s s'"
  using collect_fee_Inr(3) [of C pid p s p' s']
  by (auto split: if_splits dest!: coin_chains(2) intro: same_chain_trans emit_chain)

context pool_ledger
begin

lemma collect_fee_free:
  assumes "collect_fee C pid p s = Inr (p', s')"
  shows "sa_free C s' d x =
    sa_free C s d x + paid (pool_asset p) (fee_recipient p) (lp_supply p' - lp_supply p) d x"
  using collect_fee_Inr(3) [OF assms] by (auto simp: mint_flow split: if_splits)

end

end
