(* ===== verification/Stable_Facts.thy ===== *)
theory Stable_Facts
  imports Stable_Lemmas
begin

text \<open>
  What the calculations of the stable asset pallet answer when they answer: the exact relation between the
  refreshed pool, the arguments and the result.
\<close>

lemma fee_of_Inr [result_simps]:
  "fee_of C fee amount = Inr r \<longleftrightarrow> mul_div amount fee (fee_precision C) = Some r"
  by (simp add: fee_of_def result_simps)

section \<open>Deposits\<close>

lemma balance_after_deposit_Inr:
  assumes "balance_after_deposit old_d p amounts i = Inr b"
  shows "b = pool_balances p ! i + (if amounts ! i = 0 then 0 else amounts ! i * pool_precisions p ! i)"
  using assms by (auto simp: balance_after_deposit_def result_simps num_simps split: if_splits)

lemma mint_amount_Inr:
  assumes "get_mint_amount C s p amounts = Inr r"
  obtains q a where "refreshed C s p = Inr q" and "amp_now s p = Inr a"
    and "length amounts = length (pool_balances q)" and "length (mr_balances r) = length (pool_balances q)"
    and "get_d (a_precision C) (mr_balances r) a = Some (mr_total_supply r)"
    and "lp_supply q + mr_mint_amount r + mr_fee_amount r = mr_total_supply r"
    and "\<And>i. i < length amounts \<Longrightarrow> mr_balances r ! i =
           pool_balances q ! i + (if amounts ! i = 0 then 0 else amounts ! i * pool_precisions q ! i)"
  using assms unfolding get_mint_amount_def Let_def
proof (elim rbind_elims)
  fix q u a bs d m net fee
  assume q: "refreshed C s p = Inr q" and a: "amp_now s q = Inr a"
    and len: "ensure (length (pool_balances q) = length amounts)
        (Module ArgumentsMismatch :: stable_error dispatch_error) = Inr u"
    and bs: "rmap (balance_after_deposit (lp_supply q) q amounts) [0..<length (pool_balances q)] = Inr bs"
    and d: "math (get_d (a_precision C) bs a) = Inr d" and m: "math (checked_sub d (lp_supply q)) = Inr m"
    and fee: "(if 0 < mint_fee q then
              rbind (fee_of C (mint_fee q) m) (\<lambda>fee_amount.
              rbind (math (checked_sub m fee_amount)) (\<lambda>net. Inr (net, fee_amount)))
            else Inr (m, 0)) = Inr (net, fee)"
    and r: "Inr \<lparr>mr_mint_amount = net, mr_fee_amount = fee, mr_balances = bs, mr_total_supply = d\<rparr> = Inr r"
  have split: "net + fee = m"
    using fee by (auto simp: result_simps num_simps split: if_splits)
  have r': "r = \<lparr>mr_mint_amount = net, mr_fee_amount = fee, mr_balances = bs, mr_total_supply = d\<rparr>"
    using r by simp
  have l: "length bs = length (pool_balances q)" using rmap_length [OF bs] by simp
  have "lp_supply q \<le> d" "m = d - lp_supply q" using m by (simp_all add: result_simps num_simps)
  then have sum: "lp_supply q + net + fee = d" using split by linarith
  show thesis
  proof (rule that [of q a])
    show "amp_now s p = Inr a" using a amp_now_cong [OF same_chain_refl refreshed_same [OF q], of s] by simp
    fix i assume "i < length amounts"
    then show "mr_balances r ! i =
           pool_balances q ! i + (if amounts ! i = 0 then 0 else amounts ! i * pool_precisions q ! i)"
      using balance_after_deposit_Inr [OF rmap_upt_nth [OF bs, of i]] len by (simp add: r' result_simps)
  qed (use q len d l sum in \<open>simp_all add: r' result_simps\<close>)
qed

section \<open>Swaps\<close>

lemma swap_amount_Inr:
  assumes "get_swap_amount C s p i j dx = Inr r"
  obtains q a where "refreshed C s p = Inr q" and "amp_now s p = Inr a" and "i \<noteq> j" and "0 < dx"
    and "i < length (pool_balances q)" and "j < length (pool_balances q)"
    and "i < length (pool_precisions q)" and "j < length (pool_precisions q)"
    and "sr_balance_i r = pool_balances q ! i + dx * pool_precisions q ! i"
    and "get_y (a_precision C) ((pool_balances q)[i := sr_balance_i r]) j (lp_supply q) a = Some (sr_y r)"
    and "sr_y r + 1 + sr_dy r * pool_precisions q ! j \<le> pool_balances q ! j"
  using assms unfolding get_swap_amount_def Let_def
proof (elim rbind_InrE)
  fix q a pin added bi y dy0 dy1 pout dy net u1 u2 u3 u4
  let ?A = "Module ArgumentsError :: stable_error dispatch_error"
  assume q: "refreshed C s p = Inr q" and a: "amp_now s q = Inr a"
    and g: "ensure (i \<noteq> j) ?A = Inr u1" "ensure (0 < dx) ?A = Inr u2"
      "ensure (i < length (pool_balances q)) ?A = Inr u3" "ensure (j < length (pool_balances q)) ?A = Inr u4"
    and pin: "at (pool_precisions q) i = Inr pin" "math (checked_mul dx pin) = Inr added"
      "math (checked_add (pool_balances q ! i) added) = Inr bi"
    and y: "math (get_y (a_precision C) ((pool_balances q)[i := bi]) j (lp_supply q) a) = Inr y"
    and dy: "math (checked_sub ((pool_balances q)[i := bi] ! j) y) = Inr dy0"
      "math (checked_sub dy0 1) = Inr dy1" "at (pool_precisions q) j = Inr pout"
      "math (checked_div dy1 pout) = Inr dy"
    and fee: "(if 0 < swap_fee q then
              rbind (fee_of C (swap_fee q) dy) (\<lambda>fee_amount. math (checked_sub dy fee_amount))
            else Inr dy) = Inr net"
    and r: "Inr \<lparr>sr_dx = dx, sr_dy = net, sr_y = y, sr_balance_i = bi\<rparr> = Inr r"
  have r': "r = \<lparr>sr_dx = dx, sr_dy = net, sr_y = y, sr_balance_i = bi\<rparr>" using r by simp
  have "net \<le> dy" using fee by (auto simp: result_simps num_simps split: if_splits)
  then have "net * pout \<le> dy * pout" by (rule mult_le_mono1)
  also have "\<dots> \<le> dy1" using dy by (auto simp: result_simps num_simps)
  finally have "net * pout \<le> dy1" .
  moreover have "y \<le> pool_balances q ! j" "dy1 + 1 = pool_balances q ! j - y"
    using dy(1,2) g by (auto simp: result_simps num_simps)
  ultimately have "y + 1 + net * pout \<le> pool_balances q ! j" by linarith
  moreover have "amp_now s p = Inr a"
    using a amp_now_cong [OF same_chain_refl refreshed_same [OF q], of s] by simp
  ultimately show thesis
    using q g pin y dy by (intro that [of q a]) (simp_all add: r' result_simps num_simps)
qed

section \<open>Redemptions\<close>

lemma redeem_fee_split_Inr:
  assumes "redeem_fee_split C p amount = Inr (net, fee)"
  shows "net + fee = amount"
  using assms by (auto simp: redeem_fee_split_def result_simps num_simps split: if_splits)

lemma proportion_of_Inr:
  assumes "proportion_of p amount i = Inr (amount_i, balance_i)"
  obtains diff where "mul_div (pool_balances p ! i) amount (lp_supply p) = Some diff"
    and "diff \<le> pool_balances p ! i" and "balance_i = pool_balances p ! i - diff"
    and "i < length (pool_precisions p)" and "amount_i = diff div pool_precisions p ! i"
  using assms by (auto simp: proportion_of_def result_simps num_simps)

lemma redeem_proportion_Inr:
  assumes "get_redeem_proportion_amount C s p amount = Inr r"
  obtains q where "refreshed C s p = Inr q" and "0 < amount"
    and "rp_redeem_amount r + rp_fee_amount r = amount" and "rp_redeem_amount r \<le> lp_supply q"
    and "rp_total_supply r = lp_supply q - rp_redeem_amount r"
    and "length (rp_amounts r) = length (pool_balances q)" "length (rp_balances r) = length (pool_balances q)"
    and "\<And>i. i < length (pool_balances q) \<Longrightarrow>
           proportion_of q (rp_redeem_amount r) i = Inr (rp_amounts r ! i, rp_balances r ! i)"
  using assms unfolding get_redeem_proportion_amount_def Let_def
proof (elim rbind_elims)
  fix q u net fee parts left
  assume q: "refreshed C s p = Inr q"
    and u: "ensure (0 < amount) (Module ArgumentsError :: stable_error dispatch_error) = Inr u"
    and fee: "redeem_fee_split C q amount = Inr (net, fee)"
    and parts: "rmap (proportion_of q net) [0..<length (pool_balances q)] = Inr parts"
    and left: "math (checked_sub (lp_supply q) net) = Inr left"
    and r: "Inr \<lparr>rp_amounts = map fst parts, rp_balances = map snd parts, rp_fee_amount = fee,
          rp_total_supply = left, rp_redeem_amount = net\<rparr> = Inr r"
  have r': "r = \<lparr>rp_amounts = map fst parts, rp_balances = map snd parts, rp_fee_amount = fee,
          rp_total_supply = left, rp_redeem_amount = net\<rparr>" using r by simp
  have l: "length parts = length (pool_balances q)" using rmap_length [OF parts] by simp
  show thesis
  proof (rule that [of q])
    fix i assume "i < length (pool_balances q)"
    then show "proportion_of q (rp_redeem_amount r) i = Inr (rp_amounts r ! i, rp_balances r ! i)"
      using rmap_upt_nth [OF parts, of i] l by (simp add: r')
  qed (use q u fee left l in \<open>simp_all add: r' result_simps num_simps redeem_fee_split_Inr\<close>)
qed

lemma redeem_single_Inr:
  assumes "get_redeem_single_amount C s p amount i = Inr r"
  obtains q a where "refreshed C s p = Inr q" and "amp_now s p = Inr a" and "0 < amount"
    and "i < length (pool_balances q)" and "i < length (pool_precisions q)"
    and "rs_redeem_amount r + rs_fee_amount r = amount" and "rs_redeem_amount r \<le> lp_supply q"
    and "rs_total_supply r = lp_supply q - rs_redeem_amount r"
    and "get_y (a_precision C) (pool_balances q) i (rs_total_supply r) a = Some (rs_balances r ! i)"
    and "length (rs_balances r) = length (pool_balances q)"
    and "rs_balances r ! i + 1 + rs_dy r * pool_precisions q ! i \<le> pool_balances q ! i"
  using assms unfolding get_redeem_single_amount_def Let_def
proof (elim rbind_elims)
  fix q a net fee left y dy0 dy1 prec dy u1 u2
  let ?A = "Module ArgumentsError :: stable_error dispatch_error"
  assume q: "refreshed C s p = Inr q" and a: "amp_now s q = Inr a"
    and g: "ensure (0 < amount) ?A = Inr u1" "ensure (i < length (pool_balances q)) ?A = Inr u2"
    and fee: "redeem_fee_split C q amount = Inr (net, fee)"
    and left: "math (checked_sub (lp_supply q) net) = Inr left"
    and y: "math (get_y (a_precision C) (pool_balances q) i left a) = Inr y"
    and dy: "math (checked_sub (pool_balances q ! i) y) = Inr dy0" "math (checked_sub dy0 1) = Inr dy1"
      "at (pool_precisions q) i = Inr prec" "math (checked_div dy1 prec) = Inr dy"
    and r: "Inr \<lparr>rs_dy = dy, rs_fee_amount = fee, rs_total_supply = left,
          rs_balances = (pool_balances q)[i := y], rs_redeem_amount = net\<rparr> = Inr r"
  have r': "r = \<lparr>rs_dy = dy, rs_fee_amount = fee, rs_total_supply = left,
          rs_balances = (pool_balances q)[i := y], rs_redeem_amount = net\<rparr>" using r by simp
  have "dy * prec \<le> dy1" using dy by (auto simp: result_simps num_simps)
  moreover have "y \<le> pool_balances q ! i" "dy1 + 1 = pool_balances q ! i - y"
    using dy(1,2) by (auto simp: result_simps num_simps)
  ultimately have "y + 1 + dy * prec \<le> pool_balances q ! i" by linarith
  moreover have "amp_now s p = Inr a"
    using a amp_now_cong [OF same_chain_refl refreshed_same [OF q], of s] by simp
  ultimately show thesis
    using q g fee left y dy
    by (intro that [of q a]) (simp_all add: r' result_simps num_simps redeem_fee_split_Inr)
qed

lemma redeem_multi_Inr:
  assumes "get_redeem_multi_amount C s p amounts = Inr r"
  obtains q a where "refreshed C s p = Inr q" and "amp_now s p = Inr a"
    and "length amounts = length (pool_balances q)" and "length (rm_balances r) = length (pool_balances q)"
    and "get_d (a_precision C) (rm_balances r) a = Some (rm_total_supply r)"
    and "rm_burn_amount r + rm_fee_amount r = rm_redeem_amount r"
    and "rm_total_supply r + rm_burn_amount r = lp_supply q"
  using assms unfolding get_redeem_multi_amount_def Let_def
proof (elim rbind_elims)
  fix q u a bs d gone redeem fee burn left
  assume q: "refreshed C s p = Inr q" and a: "amp_now s q = Inr a"
    and u: "ensure (length amounts = length (pool_balances q))
        (Module ArgumentsError :: stable_error dispatch_error) = Inr u"
    and bs: "rmap (balance_after_withdrawal q amounts) [0..<length (pool_balances q)] = Inr bs"
    and d: "math (get_d (a_precision C) bs a) = Inr d"
    and gone: "math (checked_sub (lp_supply q) d) = Inr gone"
    and fee: "(if 0 < redeem_fee q then
              rbind (math (checked_sub (fee_precision C) (redeem_fee q))) (\<lambda>div_amount.
              rbind (math (mul_div gone (fee_precision C) div_amount)) (\<lambda>gross.
              rbind (math (checked_sub (lp_supply q) d)) (\<lambda>sub_amount.
              rbind (math (checked_sub gross sub_amount)) (\<lambda>fee_amount.
              Inr (gross, fee_amount)))))
            else Inr (gone, 0)) = Inr (redeem, fee)"
    and burn: "math (checked_sub redeem fee) = Inr burn"
    and left: "math (checked_sub (lp_supply q) burn) = Inr left"
    and r: "Inr \<lparr>rm_redeem_amount = redeem, rm_fee_amount = fee, rm_balances = bs, rm_total_supply = left,
          rm_burn_amount = burn\<rparr> = Inr r"
  have r': "r = \<lparr>rm_redeem_amount = redeem, rm_fee_amount = fee, rm_balances = bs, rm_total_supply = left,
          rm_burn_amount = burn\<rparr>" using r by simp
  have g: "redeem = gone + fee"
    using fee gone by (auto simp: result_simps num_simps split: if_splits)
  have l: "length bs = length (pool_balances q)" using rmap_length [OF bs] by simp
  have "d = left" using g gone burn left by (simp add: result_simps num_simps)
  moreover have "amp_now s p = Inr a"
    using a amp_now_cong [OF same_chain_refl refreshed_same [OF q], of s] by simp
  ultimately show thesis
    using q u d gone burn left l g
    by (intro that [of q a]) (simp_all add: r' result_simps num_simps)
qed

end
