(* ===== verification/Stable_Cases.thy ===== *)
theory Stable_Cases
  imports Stable_Facts
begin

text \<open>
  A case rule per operation of the stable pool pallet: the intermediate results of a run that succeeds. Then
  the loops of transfers, and what all operations have in common: they leave the other pools alone and
  change nothing of their own pool but its books.
\<close>

lemma pair_cases: "rbind m (\<lambda>(a, b). f a b) = Inr y \<Longrightarrow> \<exists>a b. m = Inr (a, b) \<and> f a b = Inr y"
  by (auto simp: rbind_eq_Inr)

lemma the_pool_Inr [result_simps]: "the_pool s pid = Inr p \<longleftrightarrow> find_pool s pid = Some p"
  by (simp add: the_pool_def result_simps)

section \<open>The operations\<close>

lemma mint_inner_cases:
  assumes "mint_inner C who pid amounts_old least s0 = Inr s'"
  obtains p0 amounts p s r u s1 s2 s3 p' s4 e where "the_pool s0 pid = Inr p0"
    and "scale_all upscale s0 pid p0 amounts_old = Inr amounts"
    and "collect_yield C pid p0 s0 = Inr (p, s)" and "get_mint_amount C s p amounts = Inr r"
    and "ensure (least \<le> mr_mint_amount r)
           (Module (StablePool PoolMintUnderMin) :: stable_error dispatch_error) = Inr u"
    and "rfold (deposit_one C pid p who amounts_old) (enumerate 0 amounts) s = Inr s1"
    and "(if mr_fee_amount r > 0
          then sa_mint_to C (pool_asset p) (fee_recipient p) (mr_fee_amount r) s1 else Inr s1) = Inr s2"
    and "sa_mint_to C (pool_asset p) who (mr_mint_amount r) s2 = Inr s3"
    and "collect_fee C pid (p\<lparr>lp_supply := mr_total_supply r, pool_balances := mr_balances r\<rparr>) s3 = Inr (p', s4)"
    and "Inr (emit_stable e (insert_pool C pid p' s4)) = (Inr s' :: 'l stable_state stable_result)"
  using assms unfolding mint_inner_def by (elim rbind_elims) (rule that, assumption+)

lemma redeem_proportion_inner_cases:
  assumes "redeem_proportion_inner C who pid amount mins s0 = Inr s'"
  obtains p0 p s u r amounts s1 s2 s3 p' s4 e where "the_pool s0 pid = Inr p0"
    and "collect_yield C pid p0 s0 = Inr (p, s)"
    and "ensure (length mins = length (pool_assets p))
           (Module ArgumentsMismatch :: stable_error dispatch_error) = Inr u"
    and "get_redeem_proportion_amount C s p amount = Inr r"
    and "scale_all downscale s pid p (rp_amounts r) = Inr amounts"
    and "rfold (pay_share C p who mins) (enumerate 0 amounts) s = Inr s1"
    and "pay_redeem_fee C p who (rp_fee_amount r) s1 = Inr s2"
    and "sa_burn_from C (pool_asset p) who (rp_redeem_amount r) s2 = Inr s3"
    and "collect_fee C pid (p\<lparr>lp_supply := rp_total_supply r, pool_balances := rp_balances r\<rparr>) s3 = Inr (p', s4)"
    and "Inr (emit_stable e (insert_pool C pid p' s4)) = (Inr s' :: 'l stable_state stable_result)"
  using assms unfolding redeem_proportion_inner_def Let_def
  by (elim rbind_elims) (rule that, assumption+)

lemma redeem_multi_inner_cases:
  assumes "redeem_multi_inner C who pid amounts most s0 = Inr s'"
  obtains p0 p s new_amounts r u s1 s2 s3 p' s4 e where "the_pool s0 pid = Inr p0"
    and "collect_yield C pid p0 s0 = Inr (p, s)" and "scale_all upscale s pid p amounts = Inr new_amounts"
    and "get_redeem_multi_amount C s p new_amounts = Inr r"
    and "ensure (rm_redeem_amount r \<le> most)
           (Module (StablePool PoolRedeemOverMax) :: stable_error dispatch_error) = Inr u"
    and "pay_redeem_fee C p who (rm_fee_amount r) s = Inr s1"
    and "rfold (pay_requested C p who) (enumerate 0 amounts) s1 = Inr s2"
    and "sa_burn_from C (pool_asset p) who (rm_burn_amount r) s2 = Inr s3"
    and "collect_fee C pid (p\<lparr>lp_supply := rm_total_supply r, pool_balances := rm_balances r\<rparr>) s3 = Inr (p', s4)"
    and "Inr (emit_stable e (insert_pool C pid p' s4)) = (Inr s' :: 'l stable_state stable_result)"
  using assms unfolding redeem_multi_inner_def Let_def
  by (elim rbind_elims) (rule that, assumption+)

lemma redeem_single_inner_cases:
  assumes "redeem_single_inner C who pid amount i least asset_length s0 = Inr (out, s')"
  obtains p0 p s r asset dy u u' s1 s2 s3 p' s4 e where "the_pool s0 pid = Inr p0"
    and "collect_yield C pid p0 s0 = Inr (p, s)" and "get_redeem_single_amount C s p amount i = Inr r"
    and "get_or ArgumentsMismatch (pool_assets p) i = Inr asset"
    and "downscale s (rs_dy r) pid asset = Inr dy"
    and "ensure (asset_length = length (pool_assets p))
           (Module ArgumentsError :: stable_error dispatch_error) = Inr u"
    and "ensure (least \<le> dy) (Module RedeemUnderMin :: stable_error dispatch_error) = Inr u'"
    and "pay_redeem_fee C p who (rs_fee_amount r) s = Inr s1"
    and "sa_transfer C asset (pool_account p) who dy s1 = Inr s2"
    and "sa_burn_from C (pool_asset p) who (rs_redeem_amount r) s2 = Inr s3"
    and "collect_fee C pid (p\<lparr>lp_supply := rs_total_supply r, pool_balances := rs_balances r\<rparr>) s3 = Inr (p', s4)"
    and "Inr ((amount, dy), emit_stable e (insert_pool C pid p' s4)) =
           (Inr (out, s') :: ((nat \<times> nat) \<times> 'l stable_state) stable_result)"
  using assms unfolding redeem_single_inner_def Let_def
  by (elim rbind_elims) (rule that, assumption+)

lemma on_swap_cases:
  assumes "on_swap C who pid i j amount least s0 = Inr s'"
  obtains p0 token_in token_out p s dx r out u asset_i asset_j s1 s2 p' s3 e
  where "the_pool s0 pid = Inr p0"
    and "get_or ArgumentsMismatch (pool_assets p0) i = Inr token_in"
    and "get_or ArgumentsMismatch (pool_assets p0) j = Inr token_out"
    and "collect_yield C pid p0 s0 = Inr (p, s)" and "upscale s amount pid token_in = Inr dx"
    and "get_swap_amount C s p i j dx = Inr r" and "downscale s (sr_dy r) pid token_out = Inr out"
    and "ensure (least \<le> out)
           (Module (StablePool PoolSwapUnderMin) :: stable_error dispatch_error) = Inr u"
    and "at (pool_assets p) i = Inr asset_i" and "sa_transfer C asset_i who (pool_account p) amount s = Inr s1"
    and "at (pool_assets p) j = Inr asset_j" and "sa_transfer C asset_j (pool_account p) who out s1 = Inr s2"
    and "collect_fee C pid p s2 = Inr (p', s3)"
    and "Inr (follow_rate C pid token_in token_out (emit_stable e (insert_pool C pid p' s3))) =
           (Inr s' :: 'l stable_state stable_result)"
  using assms unfolding on_swap_def Let_def by (elim rbind_elims) (rule that, assumption+)

section \<open>Transfers between accounts\<close>

text \<open>
  A step that only moves coins among the accounts of a set \<open>A\<close>, and a step after which the pool tokens on
  \<open>A\<close> have changed by what the supply the pool records has changed.
\<close>

definition moves_within ::
  "'l stable_config \<Rightarrow> account set \<Rightarrow> 'l stable_state \<Rightarrow> 'l stable_state \<Rightarrow> bool" where
  "moves_within C A s t \<longleftrightarrow> same_chain s t \<and> (\<forall>c. sum (sa_free C t c) A = sum (sa_free C s c) A)"

definition books_exact ::
  "'l stable_config \<Rightarrow> account set \<Rightarrow> stable_pool \<Rightarrow> 'l stable_state \<Rightarrow> stable_pool \<Rightarrow> 'l stable_state \<Rightarrow> bool" where
  "books_exact C A p s q t \<longleftrightarrow> same_chain s t \<and> same_pool p q \<and>
     (\<forall>c. c \<noteq> pool_asset p \<longrightarrow> sum (sa_free C t c) A = sum (sa_free C s c) A) \<and>
     sum (sa_free C t (pool_asset p)) A + lp_supply p = sum (sa_free C s (pool_asset p)) A + lp_supply q"

lemma moves_within_refl [simp]: "moves_within C A s s"
  by (simp add: moves_within_def)

lemma moves_within_trans: "moves_within C A s t \<Longrightarrow> moves_within C A t u \<Longrightarrow> moves_within C A s u"
  by (auto simp: moves_within_def intro: same_chain_trans)

lemma books_exact_moves: "books_exact C A p s q t \<Longrightarrow> moves_within C A t u \<Longrightarrow> books_exact C A p s q u"
  by (auto simp: books_exact_def moves_within_def intro: same_chain_trans)

text \<open>The accounts a pool pays to and from.\<close>

definition pool_parties :: "stable_pool \<Rightarrow> account set" where
  "pool_parties p = {pool_account p, fee_recipient p, yield_recipient p}"

lemma pool_parties_same: "same_pool p q \<Longrightarrow> pool_parties q = pool_parties p"
  by (simp add: pool_parties_def same_pool_simps)

context pool_ledger
begin

lemma transfer_within:
  assumes "sa_transfer C c a b n s = Inr t" and "finite A" "a \<in> A" "b \<in> A"
  shows "moves_within C A s t"
  using transfer_sum [OF assms] coin_chains(1) [OF assms(1)] by (simp add: moves_within_def)

lemma deposit_one_within:
  assumes "deposit_one C pid p who old x s = Inr t" and "finite A" "who \<in> A" "pool_account p \<in> A"
  shows "moves_within C A s t"
  using assms
  by (auto simp: deposit_one_def rbind_eq_Inr split: prod.splits if_splits intro: transfer_within)

lemma pay_share_within:
  assumes "pay_share C p who mins x s = Inr t" and "finite A" "who \<in> A" "pool_account p \<in> A"
  shows "moves_within C A s t"
  using assms by (auto simp: pay_share_def rbind_eq_Inr split: prod.splits intro: transfer_within)

lemma pay_requested_within:
  assumes "pay_requested C p who x s = Inr t" and "finite A" "who \<in> A" "pool_account p \<in> A"
  shows "moves_within C A s t"
  using assms
  by (auto simp: pay_requested_def rbind_eq_Inr split: prod.splits if_splits intro: transfer_within)

lemma pay_redeem_fee_within:
  assumes "pay_redeem_fee C p who n s = Inr t" and "finite A" "who \<in> A" "fee_recipient p \<in> A"
  shows "moves_within C A s t"
  using assms by (auto simp: pay_redeem_fee_def split: if_splits intro: transfer_within)

lemma loop_within:
  assumes "rfold f xs s = Inr t" and "\<And>x s t. f x s = Inr t \<Longrightarrow> moves_within C A s t"
  shows "moves_within C A s t"
  by (rule rfold_rel [OF assms(1)]) (auto intro: moves_within_trans assms(2))

lemma collect_yield_books:
  assumes "collect_yield C pid p0 s0 = Inr (p, s)" and A: "finite A" "pool_parties p0 \<subseteq> A"
  shows "books_exact C A p0 s0 p s"
proof -
  obtain "refreshed C s0 p0 = Inr p" "lp_supply p0 \<le> lp_supply p"
    using assms(1) by (rule collect_yield_Inr)
  then have "same_pool p0 p" and le: "lp_supply p0 \<le> lp_supply p" by (auto intro: refreshed_same)
  moreover have "sum (sa_free C s d) A = sum (sa_free C s0 d) A +
      (\<Sum>x\<in>A. paid (pool_asset p0) (yield_recipient p0) (lp_supply p - lp_supply p0) d x)" for d
    by (simp add: collect_yield_free [OF assms(1)] sum.distrib)
  moreover have "(\<Sum>x\<in>A. paid (pool_asset p0) (yield_recipient p0) n d x) =
      (if d = pool_asset p0 then n else 0)" for n d
    using A by (auto simp: pool_parties_def sum_paid) (simp add: paid_def)
  ultimately show ?thesis
    using collect_yield_chain [OF assms(1)] by (auto simp: books_exact_def)
qed

lemma mint_to_books:
  assumes "books_exact C A p s q t" and "sa_mint_to C (pool_asset p) who n t = Inr u" and "finite A" "who \<in> A"
    and "q' = q\<lparr>lp_supply := lp_supply q + n\<rparr>"
  shows "books_exact C A p s q' u"
proof -
  have "same_pool p q'" using assms(1,5) same_pool_trans [of p q q'] by (simp add: books_exact_def same_pool_def)
  moreover have "same_chain s u"
    using assms(1) coin_chains(2) [OF assms(2)] by (auto simp: books_exact_def intro: same_chain_trans)
  moreover have "sum (sa_free C u c) A = sum (sa_free C t c) A" if "c \<noteq> pool_asset p" for c
    using mint_other [OF assms(2) that] by simp
  ultimately show ?thesis
    using assms(1,5) mint_sum [OF assms(2-4)] by (simp add: books_exact_def)
qed

lemma burn_from_books:
  assumes "books_exact C A p s q t" and "sa_burn_from C (pool_asset p) who n t = Inr u" and "finite A" "who \<in> A"
    and "q' = q\<lparr>lp_supply := lp_supply q - n\<rparr>" and "n \<le> lp_supply q"
  shows "books_exact C A p s q' u"
proof -
  have "same_pool p q'" using assms(1,5) same_pool_trans [of p q q'] by (simp add: books_exact_def same_pool_def)
  moreover have "same_chain s u"
    using assms(1) coin_chains(3) [OF assms(2)] by (auto simp: books_exact_def intro: same_chain_trans)
  moreover have "sum (sa_free C u c) A = sum (sa_free C t c) A" if "c \<noteq> pool_asset p" for c
    using burn_other [OF assms(2) that] by simp
  moreover have "sum (sa_free C u (pool_asset p)) A + lp_supply p =
      sum (sa_free C s (pool_asset p)) A + (lp_supply q - n)"
  proof -
    have "sum (sa_free C t (pool_asset p)) A + lp_supply p = sum (sa_free C s (pool_asset p)) A + lp_supply q"
      using assms(1) by (simp add: books_exact_def)
    then show ?thesis using burn_sum [OF assms(2-4)] assms(6) by linarith
  qed
  ultimately show ?thesis using assms(1,5) by (simp add: books_exact_def)
qed

end

text \<open>Setting the balances does not matter to the books.\<close>

lemma books_exact_balances:
  assumes "books_exact C A p s q t" and "length bs = length (pool_balances q)"
  shows "books_exact C A p s (q\<lparr>pool_balances := bs\<rparr>) t"
  using assms same_pool_trans [of p q "q\<lparr>pool_balances := bs\<rparr>"] by (simp add: books_exact_def same_pool_def)

section \<open>Closing an operation\<close>

text \<open>The books of a pool after an operation: never fewer pool tokens, and at most a 99th more.\<close>

definition books_kept ::
  "'l stable_config \<Rightarrow> account set \<Rightarrow> stable_pool \<Rightarrow> 'l stable_state \<Rightarrow> stable_pool \<Rightarrow> 'l stable_state \<Rightarrow> bool" where
  "books_kept C A p s q t \<longleftrightarrow> same_pool p q \<and>
     (\<forall>c. c \<noteq> pool_asset p \<longrightarrow> sum (sa_free C t c) A = sum (sa_free C s c) A) \<and>
     sum (sa_free C s (pool_asset p)) A + lp_supply q \<le> sum (sa_free C t (pool_asset p)) A + lp_supply p \<and>
     sum (sa_free C t (pool_asset p)) A + lp_supply p
       \<le> sum (sa_free C s (pool_asset p)) A + lp_supply q + lp_supply q div 99"

lemma margin_99: "n - n div 100 \<le> m \<Longrightarrow> n \<le> m + m div (99 :: nat)"
proof -
  assume "n - n div 100 \<le> m"
  moreover have "n div 100 \<le> (n - n div 100) div 99"
  proof -
    have "n div 100 * 100 \<le> n" by simp
    then have "n div 100 * 99 \<le> n - n div 100" by linarith
    then show ?thesis by (simp add: less_eq_div_iff_mult_less_eq)
  qed
  moreover have "(n - n div 100) div 99 \<le> m div 99" using calculation(1) by (rule div_le_mono)
  ultimately show "n \<le> m + m div 99" by linarith
qed

context pool_ledger
begin

lemma collect_fee_books:
  assumes e: "books_exact C A p0 s0 p s" and f: "collect_fee C pid p s = Inr (p', s')"
    and A: "finite A" "pool_parties p0 \<subseteq> A"
  shows "books_kept C A p0 s0 p' s'" and "same_chain s0 s'"
proof -
  have same: "same_pool p0 p" "same_pool p p'"
    using e collect_fee_same [OF f] by (simp_all add: books_exact_def)
  have fee_in: "fee_recipient p \<in> A" and asset: "pool_asset p = pool_asset p0"
    using A same by (auto simp: pool_parties_def same_pool_simps)
  have "sum (sa_free C s' d) A = sum (sa_free C s d) A +
      (\<Sum>x\<in>A. paid (pool_asset p) (fee_recipient p) (lp_supply p' - lp_supply p) d x)" for d
    by (simp add: collect_fee_free [OF f] sum.distrib)
  moreover have "(\<Sum>x\<in>A. paid (pool_asset p) (fee_recipient p) n d x) =
      (if d = pool_asset p0 then n else 0)" for n d
    using A fee_in asset by (auto simp: sum_paid) (simp add: paid_def)
  ultimately have "sum (sa_free C s' d) A = sum (sa_free C s d) A +
      (if d = pool_asset p0 then lp_supply p' - lp_supply p else 0)" for d by simp
  then show "books_kept C A p0 s0 p' s'"
    using e same_pool_trans [OF same] margin_99 [OF collect_fee_Inr(2) [OF f]]
    by (auto simp: books_kept_def books_exact_def)
  show "same_chain s0 s'"
    using e collect_fee_chain [OF f] by (auto simp: books_exact_def intro: same_chain_trans)
qed

end

section \<open>Every operation keeps the books\<close>

context pool_ledger
begin

lemma mint_inner_books:
  assumes m: "mint_inner C who pid amounts_old least s0 = Inr s'"
    and p0: "find_pool s0 pid = Some p0" and lp: "pool_asset p0 \<notin> set (pool_assets p0)"
    and A: "finite A" "who \<in> A" "pool_parties p0 \<subseteq> A"
  obtains q t e where "books_kept C A p0 s0 q t" and "same_chain s0 t"
    and "s' = emit_stable e (insert_pool C pid q t)"
  using m
proof (rule mint_inner_cases)
  fix p1 amounts p s r u s1 s2 s3 p' s4 e
  assume y: "the_pool s0 pid = Inr p1" "collect_yield C pid p1 s0 = Inr (p, s)"
    and r: "get_mint_amount C s p amounts = Inr r"
    and s1: "rfold (deposit_one C pid p who amounts_old) (enumerate 0 amounts) s = Inr s1"
    and s2: "(if mr_fee_amount r > 0
          then sa_mint_to C (pool_asset p) (fee_recipient p) (mr_fee_amount r) s1 else Inr s1) = Inr s2"
    and s3: "sa_mint_to C (pool_asset p) who (mr_mint_amount r) s2 = Inr s3"
    and f: "collect_fee C pid (p\<lparr>lp_supply := mr_total_supply r, pool_balances := mr_balances r\<rparr>) s3 = Inr (p', s4)"
    and s': "Inr (emit_stable e (insert_pool C pid p' s4)) = (Inr s' :: 'l stable_state stable_result)"
  have [simp]: "p1 = p0" using y(1) p0 by (simp add: result_simps)
  have b: "books_exact C A p0 s0 p s" using collect_yield_books [OF y(2)] A by simp
  then have same: "same_pool p0 p" by (simp add: books_exact_def)
  note sp = same_pool_simps [OF same]
  have par: "pool_account p \<in> A" "fee_recipient p \<in> A" using A(3) by (simp_all add: sp pool_parties_def)
  obtain q where q: "refreshed C s p = Inr q" and len: "length (mr_balances r) = length (pool_balances q)"
    and sum: "lp_supply q + mr_mint_amount r + mr_fee_amount r = mr_total_supply r"
    by (rule mint_amount_Inr [OF r])
  have qp: "q = p" using q collect_yield_refreshed [OF y(2)] lp by simp
  have "moves_within C A s s1"
    by (rule loop_within [OF s1]) (use A par in \<open>blast intro: deposit_one_within\<close>)
  with b have b1: "books_exact C A p0 s0 p s1" by (rule books_exact_moves)
  have b2: "books_exact C A p0 s0 (p\<lparr>lp_supply := lp_supply p + mr_fee_amount r\<rparr>) s2"
  proof (cases "0 < mr_fee_amount r")
    case True
    with s2 have "sa_mint_to C (pool_asset p0) (fee_recipient p) (mr_fee_amount r) s1 = Inr s2" by (simp add: sp)
    with b1 show ?thesis by (rule mint_to_books) (use A par in simp_all)
  next
    case False
    with b1 s2 show ?thesis by simp
  qed
  have "sa_mint_to C (pool_asset p0) who (mr_mint_amount r) s2 = Inr s3" using s3 by (simp add: sp)
  with b2 have "books_exact C A p0 s0 (p\<lparr>lp_supply := mr_total_supply r\<rparr>) s3"
    by (rule mint_to_books) (use A sum in \<open>simp_all add: qp ac_simps\<close>)
  then have "books_exact C A p0 s0 (p\<lparr>lp_supply := mr_total_supply r, pool_balances := mr_balances r\<rparr>) s3"
    using books_exact_balances len by (fastforce simp: qp)
  note fin = collect_fee_books [OF this f A(1,3)]
  show thesis by (rule that [OF fin, of e]) (use s' in simp)
qed

lemma redeem_proportion_inner_books:
  assumes m: "redeem_proportion_inner C who pid amount mins s0 = Inr s'"
    and p0: "find_pool s0 pid = Some p0" and lp: "pool_asset p0 \<notin> set (pool_assets p0)"
    and A: "finite A" "who \<in> A" "pool_parties p0 \<subseteq> A"
  obtains q t e where "books_kept C A p0 s0 q t" and "same_chain s0 t"
    and "s' = emit_stable e (insert_pool C pid q t)"
  using m
proof (rule redeem_proportion_inner_cases)
  fix p1 p s u r amounts s1 s2 s3 p' s4 e
  assume y: "the_pool s0 pid = Inr p1" "collect_yield C pid p1 s0 = Inr (p, s)"
    and r: "get_redeem_proportion_amount C s p amount = Inr r"
    and s1: "rfold (pay_share C p who mins) (enumerate 0 amounts) s = Inr s1"
    and s2: "pay_redeem_fee C p who (rp_fee_amount r) s1 = Inr s2"
    and s3: "sa_burn_from C (pool_asset p) who (rp_redeem_amount r) s2 = Inr s3"
    and f: "collect_fee C pid (p\<lparr>lp_supply := rp_total_supply r, pool_balances := rp_balances r\<rparr>) s3 = Inr (p', s4)"
    and s': "Inr (emit_stable e (insert_pool C pid p' s4)) = (Inr s' :: 'l stable_state stable_result)"
  have [simp]: "p1 = p0" using y(1) p0 by (simp add: result_simps)
  have b: "books_exact C A p0 s0 p s" using collect_yield_books [OF y(2)] A by simp
  then have same: "same_pool p0 p" by (simp add: books_exact_def)
  note sp = same_pool_simps [OF same]
  have par: "pool_account p \<in> A" "fee_recipient p \<in> A" using A(3) by (simp_all add: sp pool_parties_def)
  obtain q where q: "refreshed C s p = Inr q" and len: "length (rp_balances r) = length (pool_balances q)"
    and le: "rp_redeem_amount r \<le> lp_supply q" and sup: "rp_total_supply r = lp_supply q - rp_redeem_amount r"
    by (rule redeem_proportion_Inr [OF r])
  have qp: "q = p" using q collect_yield_refreshed [OF y(2)] lp by simp
  have "moves_within C A s s1"
    by (rule loop_within [OF s1]) (use A par in \<open>blast intro: pay_share_within\<close>)
  moreover have "moves_within C A s1 s2" using pay_redeem_fee_within [OF s2] A par by simp
  ultimately have b2: "books_exact C A p0 s0 p s2" using b by (blast intro: books_exact_moves)
  have "sa_burn_from C (pool_asset p0) who (rp_redeem_amount r) s2 = Inr s3" using s3 by (simp add: sp)
  with b2 have "books_exact C A p0 s0 (p\<lparr>lp_supply := rp_total_supply r\<rparr>) s3"
    by (rule burn_from_books) (use A le sup in \<open>simp_all add: qp\<close>)
  then have "books_exact C A p0 s0 (p\<lparr>lp_supply := rp_total_supply r, pool_balances := rp_balances r\<rparr>) s3"
    using books_exact_balances len by (fastforce simp: qp)
  note fin = collect_fee_books [OF this f A(1,3)]
  show thesis by (rule that [OF fin, of e]) (use s' in simp)
qed

lemma redeem_multi_inner_books:
  assumes m: "redeem_multi_inner C who pid amounts most s0 = Inr s'"
    and p0: "find_pool s0 pid = Some p0" and lp: "pool_asset p0 \<notin> set (pool_assets p0)"
    and A: "finite A" "who \<in> A" "pool_parties p0 \<subseteq> A"
  obtains q t e where "books_kept C A p0 s0 q t" and "same_chain s0 t"
    and "s' = emit_stable e (insert_pool C pid q t)"
  using m
proof (rule redeem_multi_inner_cases)
  fix p1 p s new_amounts r u s1 s2 s3 p' s4 e
  assume y: "the_pool s0 pid = Inr p1" "collect_yield C pid p1 s0 = Inr (p, s)"
    and r: "get_redeem_multi_amount C s p new_amounts = Inr r"
    and s1: "pay_redeem_fee C p who (rm_fee_amount r) s = Inr s1"
    and s2: "rfold (pay_requested C p who) (enumerate 0 amounts) s1 = Inr s2"
    and s3: "sa_burn_from C (pool_asset p) who (rm_burn_amount r) s2 = Inr s3"
    and f: "collect_fee C pid (p\<lparr>lp_supply := rm_total_supply r, pool_balances := rm_balances r\<rparr>) s3 = Inr (p', s4)"
    and s': "Inr (emit_stable e (insert_pool C pid p' s4)) = (Inr s' :: 'l stable_state stable_result)"
  have [simp]: "p1 = p0" using y(1) p0 by (simp add: result_simps)
  have b: "books_exact C A p0 s0 p s" using collect_yield_books [OF y(2)] A by simp
  then have same: "same_pool p0 p" by (simp add: books_exact_def)
  note sp = same_pool_simps [OF same]
  have par: "pool_account p \<in> A" "fee_recipient p \<in> A" using A(3) by (simp_all add: sp pool_parties_def)
  obtain q where q: "refreshed C s p = Inr q" and len: "length (rm_balances r) = length (pool_balances q)"
    and sup: "rm_total_supply r + rm_burn_amount r = lp_supply q"
    by (rule redeem_multi_Inr [OF r])
  have qp: "q = p" using q collect_yield_refreshed [OF y(2)] lp by simp
  have "moves_within C A s s1" using pay_redeem_fee_within [OF s1] A par by simp
  moreover have "moves_within C A s1 s2"
    by (rule loop_within [OF s2]) (use A par in \<open>blast intro: pay_requested_within\<close>)
  ultimately have b2: "books_exact C A p0 s0 p s2" using b by (blast intro: books_exact_moves)
  have "sa_burn_from C (pool_asset p0) who (rm_burn_amount r) s2 = Inr s3" using s3 by (simp add: sp)
  with b2 have "books_exact C A p0 s0 (p\<lparr>lp_supply := rm_total_supply r\<rparr>) s3"
    by (rule burn_from_books) (use A sup in \<open>simp_all flip: qp sup\<close>)
  then have "books_exact C A p0 s0 (p\<lparr>lp_supply := rm_total_supply r, pool_balances := rm_balances r\<rparr>) s3"
    using books_exact_balances len by (fastforce simp: qp)
  note fin = collect_fee_books [OF this f A(1,3)]
  show thesis by (rule that [OF fin, of e]) (use s' in simp)
qed

lemma redeem_single_inner_books:
  assumes m: "redeem_single_inner C who pid amount i least asset_length s0 = Inr (out, s')"
    and p0: "find_pool s0 pid = Some p0" and lp: "pool_asset p0 \<notin> set (pool_assets p0)"
    and A: "finite A" "who \<in> A" "pool_parties p0 \<subseteq> A"
  obtains q t e where "books_kept C A p0 s0 q t" and "same_chain s0 t"
    and "s' = emit_stable e (insert_pool C pid q t)"
  using m
proof (rule redeem_single_inner_cases)
  fix p1 p s r asset dy u u' s1 s2 s3 p' s4 e
  assume y: "the_pool s0 pid = Inr p1" "collect_yield C pid p1 s0 = Inr (p, s)"
    and r: "get_redeem_single_amount C s p amount i = Inr r"
    and s1: "pay_redeem_fee C p who (rs_fee_amount r) s = Inr s1"
    and s2: "sa_transfer C asset (pool_account p) who dy s1 = Inr s2"
    and s3: "sa_burn_from C (pool_asset p) who (rs_redeem_amount r) s2 = Inr s3"
    and f: "collect_fee C pid (p\<lparr>lp_supply := rs_total_supply r, pool_balances := rs_balances r\<rparr>) s3 = Inr (p', s4)"
    and s': "Inr ((amount, dy), emit_stable e (insert_pool C pid p' s4)) =
           (Inr (out, s') :: ((nat \<times> nat) \<times> 'l stable_state) stable_result)"
  have [simp]: "p1 = p0" using y(1) p0 by (simp add: result_simps)
  have b: "books_exact C A p0 s0 p s" using collect_yield_books [OF y(2)] A by simp
  then have same: "same_pool p0 p" by (simp add: books_exact_def)
  note sp = same_pool_simps [OF same]
  have par: "pool_account p \<in> A" "fee_recipient p \<in> A" using A(3) by (simp_all add: sp pool_parties_def)
  obtain q where q: "refreshed C s p = Inr q" and len: "length (rs_balances r) = length (pool_balances q)"
    and le: "rs_redeem_amount r \<le> lp_supply q" and sup: "rs_total_supply r = lp_supply q - rs_redeem_amount r"
    by (rule redeem_single_Inr [OF r])
  have qp: "q = p" using q collect_yield_refreshed [OF y(2)] lp by simp
  have "moves_within C A s s1" using pay_redeem_fee_within [OF s1] A par by simp
  moreover have "moves_within C A s1 s2" by (rule transfer_within [OF s2]) (use A par in simp_all)
  ultimately have b2: "books_exact C A p0 s0 p s2" using b by (blast intro: books_exact_moves)
  have "sa_burn_from C (pool_asset p0) who (rs_redeem_amount r) s2 = Inr s3" using s3 by (simp add: sp)
  with b2 have "books_exact C A p0 s0 (p\<lparr>lp_supply := rs_total_supply r\<rparr>) s3"
    by (rule burn_from_books) (use A le sup in \<open>simp_all add: qp\<close>)
  then have "books_exact C A p0 s0 (p\<lparr>lp_supply := rs_total_supply r, pool_balances := rs_balances r\<rparr>) s3"
    using books_exact_balances len by (fastforce simp: qp)
  note fin = collect_fee_books [OF this f A(1,3)]
  show thesis by (rule that [OF fin, of e]) (use s' in simp)
qed

lemma on_swap_books:
  assumes m: "on_swap C who pid i j amount least s0 = Inr s'"
    and p0: "find_pool s0 pid = Some p0" and lp: "pool_asset p0 \<notin> set (pool_assets p0)"
    and A: "finite A" "who \<in> A" "pool_parties p0 \<subseteq> A"
  obtains q t e token_in token_out where "books_kept C A p0 s0 q t" and "same_chain s0 t"
    and "s' = follow_rate C pid token_in token_out (emit_stable e (insert_pool C pid q t))"
  using m
proof (rule on_swap_cases)
  fix p1 token_in token_out p s dx r out u asset_i asset_j s1 s2 p' s3 e
  assume y: "the_pool s0 pid = Inr p1" "collect_yield C pid p1 s0 = Inr (p, s)"
    and s1: "sa_transfer C asset_i who (pool_account p) amount s = Inr s1"
    and s2: "sa_transfer C asset_j (pool_account p) who out s1 = Inr s2"
    and f: "collect_fee C pid p s2 = Inr (p', s3)"
    and s': "Inr (follow_rate C pid token_in token_out (emit_stable e (insert_pool C pid p' s3))) =
           (Inr s' :: 'l stable_state stable_result)"
  have [simp]: "p1 = p0" using y(1) p0 by (simp add: result_simps)
  have b: "books_exact C A p0 s0 p s" using collect_yield_books [OF y(2)] A by simp
  then have same: "same_pool p0 p" by (simp add: books_exact_def)
  have par: "pool_account p \<in> A" using A(3) by (simp add: same_pool_simps [OF same] pool_parties_def)
  have "moves_within C A s s1" by (rule transfer_within [OF s1]) (use A par in simp_all)
  moreover have "moves_within C A s1 s2" by (rule transfer_within [OF s2]) (use A par in simp_all)
  ultimately have "books_exact C A p0 s0 p s2" using b by (blast intro: books_exact_moves)
  note fin = collect_fee_books [OF this f A(1,3)]
  show thesis by (rule that [OF fin, of token_in token_out e]) (use s' in simp)
qed

end

end
