(* ===== verification/Stable_Rates.thy ===== *)
theory Stable_Rates
  imports Stable_Cases
begin

text \<open>
  The token rates of the stable pool pallet: that scaling an amount up and down again never gains, and how
  far the rate of a vToken may move when a swap takes over the exchange rate of liquid staking.
\<close>

section \<open>Scaling\<close>

lemma calculate_scaling_le: "calculate_scaling amount n d * d \<le> amount * n"
  by (auto simp: calculate_scaling_def mul_div_le split: option.split)

lemma scaling_back: "calculate_scaling (calculate_scaling amount n d) d n \<le> amount"
proof (cases "n = 0")
  case True
  then show ?thesis by (simp add: calculate_scaling_def mul_div_def checked_div_def split: option.split)
next
  case False
  let ?u = "calculate_scaling amount n d"
  have "calculate_scaling ?u d n * n \<le> ?u * d" by (rule calculate_scaling_le)
  also have "\<dots> \<le> amount * n" by (rule calculate_scaling_le)
  finally show ?thesis using False by simp
qed

lemma down_of_up:
  assumes "upscale s amount pid asset = Inr up" and "downscale s up pid asset = Inr back"
  shows "back \<le> amount"
  using assms by (auto simp: upscale_def downscale_def scaling_back split: option.splits)

lemma scale_all_nth:
  assumes "scale_all f s pid p amounts = Inr bs" and "i < length amounts"
  shows "i < length (pool_assets p)" and "f s (amounts ! i) pid (pool_assets p ! i) = Inr (bs ! i)"
  using rmap_nth [OF assms(1) [unfolded scale_all_def], of i] assms(2)
  by (auto simp: nth_enumerate_eq result_simps)

lemma scale_all_length: "scale_all f s pid p amounts = Inr bs \<Longrightarrow> length bs = length amounts"
  using rmap_length [of _ "enumerate 0 amounts" bs] by (auto simp: scale_all_def)

section \<open>Following the exchange rate\<close>

lemma try_set_cases:
  assumes "try_set_token_rate C pid [(v, rate)] s = (ok, s')"
  shows "s' = s \<or> (\<exists>e. s' = emit_stable e (s\<lparr>token_rates :=
           (token_rates s)(pid := sm_put (rate_hash C) v rate (token_rates s pid))\<rparr>))"
  using assms
  by (cases rate) (auto simp: try_set_token_rate_def set_token_rate_def rbind_eq_Inr split: sum.splits)

lemma get_token_rate_emit [simp]: "get_token_rate (emit_stable e s) = get_token_rate s"
  by (simp add: get_token_rate_def fun_eq_iff)

lemma try_set_rates:
  assumes "try_set_token_rate C pid [(v, rate)] s = (ok, s')"
  shows "get_token_rate s' pid v = Some rate \<or> get_token_rate s' pid v = get_token_rate s pid v"
    and "pid' \<noteq> pid \<or> c \<noteq> v \<Longrightarrow> get_token_rate s' pid' c = get_token_rate s pid' c"
  using try_set_cases [OF assms] by (auto simp: get_token_rate_def map_of_sm_put)

definition rate_only :: "'l stable_state \<Rightarrow> 'l stable_state \<Rightarrow> bool" where
  "rate_only s s' \<longleftrightarrow> pool_count s' = pool_count s \<and> pools s' = pools s \<and> rate_hardcap s' = rate_hardcap s \<and>
     block_now s' = block_now s \<and> providers s' = providers s \<and> coins s' = coins s"

lemma rate_only_emit [simp]: "rate_only s (emit_stable e t) \<longleftrightarrow> rate_only s t"
  by (simp add: rate_only_def emit_stable_def)

lemma rate_only_refl [simp]: "rate_only s s"
  by (simp add: rate_only_def)

lemma try_set_only: "try_set_token_rate C pid [(v, rate)] s = (ok, s') \<Longrightarrow> rate_only s s'"
  by (drule try_set_cases) (auto simp: rate_only_def emit_stable_def)

lemma rate_only_trans_emit: "rate_only (emit_stable e s) t \<Longrightarrow> rate_only s t"
  by (simp add: rate_only_def emit_stable_def)

lemma refresh_only: "refresh_token_rate C pid v iss amount cap s = (ok, s') \<Longrightarrow> rate_only s s'"
  by (auto simp: refresh_token_rate_def split: option.splits prod.splits if_splits
      dest: try_set_only rate_only_trans_emit)

lemma follow_only: "rate_only s (follow_rate C pid a b s)"
  by (auto simp: follow_rate_def split: option.splits prod.splits bool.splits dest: refresh_only)

lemma rate_only_simps:
  assumes "rate_only s s'"
  shows "sa_free C s' = sa_free C s" "find_pool s' = find_pool s" "pool_count s' = pool_count s"
  using assms by (simp_all add: rate_only_def sa_free_def find_pool_def fun_eq_iff)

text \<open>The price of a rate, in units of \<open>FeePrecision\<close>, and the cap of one refresh.\<close>

definition rate_price :: "'l stable_config \<Rightarrow> nat \<times> nat \<Rightarrow> nat" where
  "rate_price C = (\<lambda>(denominator, numerator). fee_precision C * numerator div denominator)"

definition price_cap :: "'l stable_config \<Rightarrow> nat \<Rightarrow> nat \<times> nat \<Rightarrow> nat" where
  "price_cap C cap = (\<lambda>(denominator, numerator).
     permill_times C cap (fee_precision C) * numerator div denominator
       + fee_precision C * numerator div denominator)"

lemma refresh_prices_Some:
  assumes "refresh_prices C rate iss amount cap = Some (old, new, most)"
  shows "old = rate_price C rate" and "new = rate_price C (iss, amount)" and "0 < iss"
    and "most = Some m \<Longrightarrow> m = price_cap C cap rate"
  using assms
  by (auto simp: refresh_prices_def Let_def rate_price_def price_cap_def num_simps Option.bind_eq_Some_conv
      split: prod.splits)

lemma adjusted_price:
  assumes "adjusted_pool_amount C m iss = Some n" and "0 < iss"
  shows "rate_price C (iss, n) \<le> m"
proof -
  have "n \<le> m * iss div fee_precision C" "0 < fee_precision C"
    using assms(1) by (auto simp: adjusted_pool_amount_def num_simps Option.bind_eq_Some_conv)
  then have "fee_precision C * n \<le> m * iss"
    by (metis le_trans mult.commute mult_le_mono2 times_div_less_eq_dividend)
  then have "fee_precision C * n div iss \<le> m * iss div iss" by (rule div_le_mono)
  with assms(2) show ?thesis by (simp add: rate_price_def)
qed

lemma adjusted_price_ge:
  assumes "adjusted_pool_amount C m iss = Some n" and "m < rate_price C (iss, amount)" and "amount \<le> u128_max"
    and "0 < iss" and "fee_precision C \<le> iss"
  shows "m \<le> rate_price C (iss, n) + 1"
proof -
  let ?F = "fee_precision C"
  have F: "0 < ?F" using assms(1) by (auto simp: adjusted_pool_amount_def num_simps Option.bind_eq_Some_conv)
  have "m < ?F * amount div iss" using assms(2) by (simp add: rate_price_def)
  then have "m * iss \<le> ?F * amount"
    using assms(4) by (metis div_times_less_eq_dividend le_trans less_imp_le mult_le_mono1)
  then have "m * iss div ?F \<le> amount" using F by (metis div_le_mono nonzero_mult_div_cancel_left neq0_conv)
  then have n: "n = m * iss div ?F"
    using assms(1,3) by (auto simp: adjusted_pool_amount_def num_simps Option.bind_eq_Some_conv)
  have "m * iss < (n + 1) * ?F" unfolding n using F by (metis Suc_eq_plus1 dividend_less_div_times add.commute mult_Suc)
  then have "m * iss \<le> ?F * n + ?F" by (simp add: algebra_simps)
  also have "\<dots> \<le> ?F * n + iss" using assms(5) by simp
  finally have "m * iss div iss \<le> (?F * n + iss) div iss" by (rule div_le_mono)
  with assms(4) have "m \<le> ?F * n div iss + 1" using div_add_self2 [of iss "?F * n"] by simp
  then show ?thesis by (simp add: rate_price_def)
qed

lemma refresh_bounds:
  assumes r: "refresh_token_rate C pid v iss amount cap s = (ok, s')" and old: "get_token_rate s pid v = Some rate"
  obtains rate' where "get_token_rate s' pid v = Some rate'" and "rate_price C rate' \<le> price_cap C cap rate"
    and "amount \<le> u128_max \<Longrightarrow> fee_precision C \<le> iss \<Longrightarrow> rate_price C rate \<le> rate_price C rate' + 1"
proof -
  have keep: "rate_price C rate \<le> price_cap C cap rate"
    by (auto simp: rate_price_def price_cap_def split: prod.splits)
  show thesis
  proof (cases "get_token_rate s' pid v = Some rate")
    case True
    then show thesis using that keep by simp
  next
    case False
    with r old obtain op np m where p: "refresh_prices C rate iss amount cap = Some (op, np, Some m)" "op < np"
      and step: "if np \<le> m then try_set_token_rate C pid [(v, iss, amount)] s = (ok, s')
        else \<exists>n e. adjusted_pool_amount C m iss = Some n \<and>
          try_set_token_rate C pid [(v, iss, n)] (emit_stable e s) = (ok, s')"
      by (auto simp: refresh_token_rate_def split: option.splits prod.splits if_splits)
    note q = refresh_prices_Some [OF p(1)]
    show thesis
    proof (cases "np \<le> m")
      case True
      with step False old have "get_token_rate s' pid v = Some (iss, amount)"
        using try_set_rates(1) [of C pid v "(iss, amount)" s ok s'] by auto
      then show thesis using True p(2) q by (intro that [of "(iss, amount)"]) auto
    next
      case cap: False
      with step obtain n e where n: "adjusted_pool_amount C m iss = Some n"
        and t: "try_set_token_rate C pid [(v, iss, n)] (emit_stable e s) = (ok, s')" by auto
      have "get_token_rate s' pid v = Some (iss, n)"
        using try_set_rates(1) [OF t] False old by auto
      moreover have "rate_price C (iss, n) \<le> price_cap C cap rate"
        using adjusted_price [OF n q(3)] q(4) by simp
      moreover have "rate_price C rate \<le> rate_price C (iss, n) + 1" if "amount \<le> u128_max" "fee_precision C \<le> iss"
        using adjusted_price_ge [OF n _ that(1) q(3) that(2)] cap q keep by fastforce
      ultimately show thesis by (rule that)
    qed
  qed
qed

lemma refresh_elsewhere:
  assumes "refresh_token_rate C pid v iss amount cap s = (ok, s')" and "pid' \<noteq> pid \<or> c \<noteq> v"
  shows "get_token_rate s' pid' c = get_token_rate s pid' c"
  using assms
  by (auto simp: refresh_token_rate_def try_set_rates(2) split: option.splits prod.splits if_splits
      dest: try_set_rates(2))

end
