(* ===== verification/Stable_Safety.thy ===== *)
theory Stable_Safety
  imports Stable_Rates
begin

text \<open>
  The calls of the stable pool pallet as one dispatcher, the states they reach, the shape all pools keep, and
  that in it no index is out of range: no call panics.
\<close>

section \<open>Dispatch\<close>

datatype stable_call =
    CallCreatePool "currency list" "nat list" nat nat nat nat account account nat
  | CallAddLiquidity nat "nat list" nat
  | CallSwap nat nat nat nat nat
  | CallRedeemProportion nat nat "nat list"
  | CallRedeemSingle nat nat nat nat nat
  | CallRedeemMulti nat "nat list" nat
  | CallModifyA nat nat nat
  | CallModifyFees nat "nat option" "nat option" "nat option"
  | CallModifyRecipients nat "account option" "account option"
  | CallEditTokenRate nat "(currency \<times> nat \<times> nat) list"
  | CallConfigAutoRefresh currency nat
  | CallRemoveAutoRefresh currency

fun dispatch :: "'l stable_config \<Rightarrow> origin \<Rightarrow> stable_call \<Rightarrow> 'l stable_state \<Rightarrow> 'l stable_state stable_result" where
  "dispatch C o1 (CallCreatePool assets precisions m s r a f y p) st =
     pool_create_pool C o1 assets precisions m s r a f y p st"
| "dispatch C o1 (CallAddLiquidity pid amounts least) st = pool_add_liquidity C o1 pid amounts least st"
| "dispatch C o1 (CallSwap pid i j dx least) st = user_swap C o1 pid i j dx least st"
| "dispatch C o1 (CallRedeemProportion pid n mins) st = pool_redeem_proportion C o1 pid n mins st"
| "dispatch C o1 (CallRedeemSingle pid n i least len) st = pool_redeem_single C o1 pid n i least len st"
| "dispatch C o1 (CallRedeemMulti pid amounts most) st = pool_redeem_multi C o1 pid amounts most st"
| "dispatch C o1 (CallModifyA pid a b) st = pool_modify_a C o1 pid a b st"
| "dispatch C o1 (CallModifyFees pid m s r) st = pool_modify_fees C o1 pid m s r st"
| "dispatch C o1 (CallModifyRecipients pid f y) st = pool_modify_recipients C o1 pid f y st"
| "dispatch C o1 (CallEditTokenRate pid info) st = edit_token_rate C o1 pid info st"
| "dispatch C o1 (CallConfigAutoRefresh v cap) st = config_vtoken_auto_refresh C o1 v cap st"
| "dispatch C o1 (CallRemoveAutoRefresh v) st = remove_vtoken_auto_refresh C o1 v st"

section \<open>The shape of the pools\<close>

definition pool_shape :: "stable_pool \<Rightarrow> bool" where
  "pool_shape p \<longleftrightarrow> length (pool_balances p) = length (pool_assets p) \<and>
     length (pool_precisions p) = length (pool_assets p)"

definition pools_ok :: "'l stable_state \<Rightarrow> bool" where
  "pools_ok s \<longleftrightarrow> (\<forall>pid p. find_pool s pid = Some p \<longrightarrow> pid < pool_count s \<and> pool_id p = pid \<and> pool_shape p)"

lemma pool_shape_same: "same_pool p q \<Longrightarrow> pool_shape q \<longleftrightarrow> pool_shape p"
  by (simp add: pool_shape_def same_pool_simps)

section \<open>No panic\<close>

named_theorems calm_intros \<open>results that are not a panic\<close>

definition calm :: "'a stable_result \<Rightarrow> bool" where
  "calm r \<longleftrightarrow> r \<noteq> Inl Panic"

lemma calm_Inr [simp]: "calm (Inr x)"
  by (simp add: calm_def)

lemma calm_Module [simp]: "calm (Inl (Module e))"
  by (simp add: calm_def)

lemma calm_rbind [calm_intros]: "calm m \<Longrightarrow> (\<And>x. m = Inr x \<Longrightarrow> calm (f x)) \<Longrightarrow> calm (rbind m f)"
  by (cases m) (auto simp: calm_def)

lemma calm_if [calm_intros]: "(b \<Longrightarrow> calm x) \<Longrightarrow> (\<not> b \<Longrightarrow> calm y) \<Longrightarrow> calm (if b then x else y)"
  by simp

lemma calm_math [simp]: "calm (math x)"
  by (simp add: math_def ok_or_def calm_def split: option.split)

lemma calm_ensure [simp]: "e \<noteq> Panic \<Longrightarrow> calm (ensure b e)"
  by (simp add: ensure_def calm_def)

lemma calm_ok_or [simp]: "e \<noteq> Panic \<Longrightarrow> calm (ok_or x e)"
  by (simp add: ok_or_def calm_def split: option.split)

lemma calm_the_pool [simp]: "calm (the_pool s pid)"
  by (simp add: the_pool_def)

lemma calm_signed [simp]: "calm (ensure_signed o1)"
  by (simp add: ensure_signed_def calm_def split: origin.split)

lemma calm_amp [simp]: "calm (amp_now s p)"
  by (simp add: amp_now_def)

lemma calm_fee_of [simp]: "calm (fee_of C f n)"
  by (simp add: fee_of_def)

lemma calm_coins [simp]: "calm (on_coins f s)"
  by (simp add: on_coins_def calm_def split: sum.split)

lemma calm_transfers [simp]:
  "calm (sa_transfer C c a b n s)" "calm (sa_mint_to C c a n s)" "calm (sa_burn_from C c a n s)"
  by (simp_all add: sa_transfer_def sa_mint_to_def sa_burn_from_def)

lemma calm_at [simp]: "i < length xs \<Longrightarrow> calm (at xs i)"
  by (simp add: at_def)

lemma calm_get_or [simp]: "calm (get_or e xs i)"
  by (simp add: get_or_def)

lemma calm_scale [simp]: "calm (upscale s n pid c)" "calm (downscale s n pid c)"
  by (simp_all add: upscale_def downscale_def split: option.split)

lemma calm_rmap [calm_intros]: "(\<And>x. x \<in> set xs \<Longrightarrow> calm (f x)) \<Longrightarrow> calm (rmap f xs)"
  by (induction xs) (auto intro!: calm_rbind)

lemma calm_rfold [calm_intros]: "(\<And>x s. x \<in> set xs \<Longrightarrow> calm (f x s)) \<Longrightarrow> calm (rfold f xs s)"
  by (induction xs arbitrary: s) (auto intro!: calm_rbind)

lemma calm_scale_all [simp]: "calm (scale_all upscale s pid p ns)" "calm (scale_all downscale s pid p ns)"
  by (auto simp: scale_all_def intro!: calm_rmap calm_rbind)

lemma calm_redeem_fee [simp]: "calm (pay_redeem_fee C p who n s)"
  by (simp add: pay_redeem_fee_def)

section \<open>The calculations\<close>

lemma calm_asset_value: "pool_shape p \<Longrightarrow> i < length (pool_balances p) \<Longrightarrow> calm (asset_value C s p i)"
  unfolding asset_value_def
  by (intro calm_rbind) (auto simp: pool_shape_def result_simps split: option.split)

lemma calm_refreshed: "pool_shape p \<Longrightarrow> calm (refreshed C s p)"
  unfolding refreshed_eq by (intro calm_intros) (auto intro: calm_asset_value)

lemma refreshed_shape: "refreshed C s p = Inr q \<Longrightarrow> pool_shape p \<Longrightarrow> pool_shape q"
  by (drule refreshed_same) (simp add: pool_shape_same)

lemma calm_mint_amount: "pool_shape p \<Longrightarrow> calm (get_mint_amount C s p amounts)"
  unfolding get_mint_amount_def Let_def balance_after_deposit_def
  by (intro calm_intros) (auto simp: case_prod_beta pool_shape_def dest: refreshed_shape intro: calm_refreshed)

lemma calm_swap_amount: "pool_shape p \<Longrightarrow> calm (get_swap_amount C s p i j dx)"
  unfolding get_swap_amount_def Let_def
  by (intro calm_intros) (auto simp: pool_shape_def result_simps dest: refreshed_shape intro: calm_refreshed)

lemma calm_fee_split [simp]: "calm (redeem_fee_split C p n)"
  by (auto simp: redeem_fee_split_def intro!: calm_rbind)

lemma calm_redeem_proportion: "pool_shape p \<Longrightarrow> calm (get_redeem_proportion_amount C s p n)"
  unfolding get_redeem_proportion_amount_def Let_def case_prod_beta proportion_of_def
  by (intro calm_intros) (auto simp: pool_shape_def dest: refreshed_shape intro: calm_refreshed)

lemma calm_redeem_single: "pool_shape p \<Longrightarrow> calm (get_redeem_single_amount C s p n i)"
  unfolding get_redeem_single_amount_def Let_def case_prod_beta
  by (intro calm_intros) (auto simp: pool_shape_def result_simps dest: refreshed_shape intro: calm_refreshed)

lemma calm_redeem_multi: "pool_shape p \<Longrightarrow> calm (get_redeem_multi_amount C s p amounts)"
  unfolding get_redeem_multi_amount_def Let_def case_prod_beta balance_after_withdrawal_def
  by (intro calm_intros) (auto simp: pool_shape_def dest: refreshed_shape intro: calm_refreshed)

lemma calm_collect_yield: "pool_shape p \<Longrightarrow> calm (collect_yield C pid p s)"
  unfolding collect_yield_eq Let_def by (intro calm_intros) (auto intro: calm_asset_value)

lemma calm_collect_fee: "pool_shape p \<Longrightarrow> calm (collect_fee C pid p s)"
  unfolding collect_fee_def get_pending_fee_amount_def Let_def
  by (intro calm_intros) (auto intro: calm_asset_value)

section \<open>The operations\<close>

lemma refreshed_length: "refreshed C s p = Inr q \<Longrightarrow> length (pool_balances q) = length (pool_balances p)"
  by (drule refreshed_same) (simp only: same_pool_simps(15))

lemma enumerate_index: "(i, x) \<in> set (enumerate 0 xs) \<Longrightarrow> i < length xs"
  by (simp add: in_set_enumerate_eq)

lemma mint_amount_length:
  assumes "get_mint_amount C s p amounts = Inr r"
  shows "length (mr_balances r) = length (pool_balances p)"
  by (rule mint_amount_Inr [OF assms]) (auto dest!: refreshed_length)

lemma redeem_proportion_length:
  assumes "get_redeem_proportion_amount C s p n = Inr r"
  shows "length (rp_balances r) = length (pool_balances p)" "length (rp_amounts r) = length (pool_balances p)"
  by (rule redeem_proportion_Inr [OF assms]; auto dest!: refreshed_length)+

lemma redeem_single_length:
  assumes "get_redeem_single_amount C s p n i = Inr r"
  shows "length (rs_balances r) = length (pool_balances p)" and "i < length (pool_balances p)"
  by (rule redeem_single_Inr [OF assms]; auto dest!: refreshed_length)+

lemma redeem_multi_length:
  assumes "get_redeem_multi_amount C s p amounts = Inr r"
  shows "length (rm_balances r) = length (pool_balances p)" and "length amounts = length (pool_balances p)"
  by (rule redeem_multi_Inr [OF assms]; auto dest!: refreshed_length)+

lemma swap_amount_index:
  assumes "get_swap_amount C s p i j dx = Inr r"
  shows "i < length (pool_balances p)" and "j < length (pool_balances p)"
  by (rule swap_amount_Inr [OF assms]; auto dest!: refreshed_length)+

text \<open>One rule per step, with what the step establishes.\<close>

lemma calm_with_pool:
  "(\<And>p. find_pool s0 pid = Some p \<Longrightarrow> pool_shape p) \<Longrightarrow> (\<And>p. pool_shape p \<Longrightarrow> calm (f p)) \<Longrightarrow>
     calm (rbind (the_pool s0 pid) f)"
  by (rule calm_rbind) (auto simp: result_simps)

lemma calm_with_yield:
  "pool_shape p \<Longrightarrow> (\<And>q t. pool_shape q \<Longrightarrow> calm (f (q, t))) \<Longrightarrow> calm (rbind (collect_yield C pid p s) f)"
  by (rule calm_rbind)
    (auto intro: calm_collect_yield elim!: collect_yield_Inr dest!: refreshed_same simp: pool_shape_same)

lemma calm_with_mint:
  "pool_shape p \<Longrightarrow> (\<And>r. length (mr_balances r) = length (pool_balances p) \<Longrightarrow> calm (f r)) \<Longrightarrow>
     calm (rbind (get_mint_amount C s p ns) f)"
  by (rule calm_rbind) (auto intro: calm_mint_amount dest: mint_amount_length)

lemma calm_with_swap:
  "pool_shape p \<Longrightarrow>
     (\<And>r. i < length (pool_balances p) \<Longrightarrow> j < length (pool_balances p) \<Longrightarrow> calm (f r)) \<Longrightarrow>
     calm (rbind (get_swap_amount C s p i j dx) f)"
  by (rule calm_rbind) (auto intro: calm_swap_amount dest: swap_amount_index)

lemma calm_with_proportion:
  "pool_shape p \<Longrightarrow>
     (\<And>r. length (rp_balances r) = length (pool_balances p) \<Longrightarrow>
        length (rp_amounts r) = length (pool_balances p) \<Longrightarrow> calm (f r)) \<Longrightarrow>
     calm (rbind (get_redeem_proportion_amount C s p n) f)"
  by (rule calm_rbind) (auto intro: calm_redeem_proportion dest: redeem_proportion_length)

lemma calm_with_single:
  "pool_shape p \<Longrightarrow> (\<And>r. length (rs_balances r) = length (pool_balances p) \<Longrightarrow> calm (f r)) \<Longrightarrow>
     calm (rbind (get_redeem_single_amount C s p n i) f)"
  by (rule calm_rbind) (auto intro: calm_redeem_single dest: redeem_single_length)

lemma calm_with_multi:
  "pool_shape p \<Longrightarrow>
     (\<And>r. length (rm_balances r) = length (pool_balances p) \<Longrightarrow> length ns = length (pool_balances p) \<Longrightarrow>
        calm (f r)) \<Longrightarrow>
     calm (rbind (get_redeem_multi_amount C s p ns) f)"
  by (rule calm_rbind) (auto intro: calm_redeem_multi dest: redeem_multi_length)

lemma calm_with_scaled:
  assumes "g = upscale \<or> g = downscale" and "\<And>ms. length ms = length ns \<Longrightarrow> calm (f ms)"
  shows "calm (rbind (scale_all g s pid p ns) f)"
  by (rule calm_rbind) (use assms in \<open>auto dest: scale_all_length\<close>)

lemma calm_with_fee:
  "pool_shape p \<Longrightarrow> length bs = length (pool_balances p) \<Longrightarrow> (\<And>x. calm (f x)) \<Longrightarrow>
     calm (rbind (collect_fee C pid (p\<lparr>lp_supply := n, pool_balances := bs\<rparr>) s) f)"
  by (rule calm_rbind) (auto intro!: calm_collect_fee simp: pool_shape_def)

lemma calm_loop:
  "(\<And>i x s. i < length xs \<Longrightarrow> calm (f (i, x) s)) \<Longrightarrow> calm (rfold f (enumerate 0 xs) s)"
  by (rule calm_rfold) (auto dest: enumerate_index)

lemma calm_deposit_one: "i < length old \<Longrightarrow> calm (deposit_one C pid p who old (i, n) s)"
  by (auto simp: deposit_one_def result_simps intro!: calm_rbind)

lemma calm_pay_share:
  "i < length mins \<Longrightarrow> i < length (pool_assets p) \<Longrightarrow> calm (pay_share C p who mins (i, n) s)"
  by (auto simp: pay_share_def intro!: calm_rbind)

lemma calm_pay_requested: "i < length (pool_assets p) \<Longrightarrow> calm (pay_requested C p who (i, n) s)"
  by (auto simp: pay_requested_def intro!: calm_rbind)

lemma calm_mint_inner:
  assumes "\<And>p. find_pool s0 pid = Some p \<Longrightarrow> pool_shape p"
  shows "calm (mint_inner C who pid amounts least s0)"
  unfolding mint_inner_def case_prod_beta
  by (rule calm_with_pool [OF assms], assumption, rule calm_with_scaled, simp, rule calm_with_yield, assumption,
      rule calm_with_mint, simp, rule calm_rbind, simp, rule calm_rbind, simp, rule calm_rbind,
      rule calm_loop, rule calm_deposit_one, simp, rule calm_rbind, simp, rule calm_rbind, simp,
      rule calm_with_fee) simp_all

lemma calm_redeem_proportion_inner:
  assumes "\<And>p. find_pool s0 pid = Some p \<Longrightarrow> pool_shape p"
  shows "calm (redeem_proportion_inner C who pid amount mins s0)"
  unfolding redeem_proportion_inner_def case_prod_beta Let_def
  by (rule calm_with_pool [OF assms], assumption, rule calm_with_yield, assumption, rule calm_rbind, simp,
      rule calm_with_proportion, simp, rule calm_with_scaled, simp, rule calm_rbind,
      rule calm_loop, rule calm_pay_share, simp_all add: pool_shape_def result_simps,
      rule calm_rbind, simp, rule calm_rbind, simp, rule calm_with_fee)
    (simp_all add: pool_shape_def calm_rbind)

lemma calm_redeem_single_inner:
  assumes "\<And>p. find_pool s0 pid = Some p \<Longrightarrow> pool_shape p"
  shows "calm (redeem_single_inner C who pid amount i least len s0)"
  unfolding redeem_single_inner_def case_prod_beta Let_def
  by (rule calm_with_pool [OF assms], assumption, rule calm_with_yield, assumption,
      rule calm_with_single, simp, rule calm_rbind, simp, rule calm_rbind, simp, rule calm_rbind, simp,
      rule calm_rbind, simp, rule calm_rbind, simp, rule calm_rbind, simp, rule calm_rbind, simp,
      rule calm_with_fee) (simp_all add: calm_rbind)

lemma calm_redeem_multi_inner:
  assumes "\<And>p. find_pool s0 pid = Some p \<Longrightarrow> pool_shape p"
  shows "calm (redeem_multi_inner C who pid amounts most s0)"
  unfolding redeem_multi_inner_def case_prod_beta Let_def
  by (rule calm_with_pool [OF assms], assumption, rule calm_with_yield, assumption, rule calm_with_scaled, simp,
      rule calm_with_multi, simp, rule calm_rbind, simp, rule calm_rbind, simp, rule calm_rbind,
      rule calm_loop, rule calm_pay_requested, simp add: pool_shape_def,
      rule calm_rbind, simp, rule calm_with_fee) (simp_all add: calm_rbind)

lemma calm_on_swap:
  assumes "\<And>p. find_pool s0 pid = Some p \<Longrightarrow> pool_shape p"
  shows "calm (on_swap C who pid i j n least s0)"
  unfolding on_swap_def case_prod_beta Let_def
  by (rule calm_with_pool [OF assms], assumption, rule calm_rbind, simp, rule calm_rbind, simp,
      rule calm_with_yield, assumption, rule calm_rbind, simp, rule calm_with_swap, simp,
      rule calm_rbind, simp, rule calm_rbind, simp, rule calm_rbind, simp, rule calm_rbind, simp,
      rule calm_rbind, simp add: pool_shape_def, rule calm_rbind, simp, rule calm_rbind,
      simp add: pool_shape_def, rule calm_rbind, simp, rule calm_rbind)
    (auto intro!: calm_collect_fee calm_rbind)

section \<open>What an operation leaves alone\<close>

definition framed :: "'l stable_state \<Rightarrow> nat \<Rightarrow> 'l stable_state \<Rightarrow> bool" where
  "framed s0 pid s' \<longleftrightarrow> (\<exists>p q. find_pool s0 pid = Some p \<and> same_pool p q \<and>
     find_pool s' = (find_pool s0)(pid \<mapsto> q) \<and> pool_count s' = pool_count s0)"

lemma yield_chain: "collect_yield C pid p0 s0 = Inr (p, s) \<Longrightarrow> same_chain s0 s"
  by (erule collect_yield_Inr)
    (auto split: if_splits dest!: coin_chains(2) intro: same_chain_trans emit_chain)

lemma loop_chain:
  assumes "rfold f xs s = Inr t" and "\<And>x s t. f x s = Inr t \<Longrightarrow> same_chain s t"
  shows "same_chain s t"
  by (rule rfold_rel [OF assms(1)]) (auto intro: same_chain_trans assms(2))

lemma payment_chains:
  "deposit_one C pid p who old x s = Inr t \<Longrightarrow> same_chain s t"
  "pay_share C p who mins x s = Inr t \<Longrightarrow> same_chain s t"
  "pay_requested C p who x s = Inr t \<Longrightarrow> same_chain s t"
  "pay_redeem_fee C p who n s = Inr t \<Longrightarrow> same_chain s t"
  by (auto simp: deposit_one_def pay_share_def pay_requested_def pay_redeem_fee_def rbind_eq_Inr
      split: prod.splits if_splits dest: coin_chains(1))

lemma loop_chains:
  "rfold (deposit_one C pid p who old) xs s = Inr t \<Longrightarrow> same_chain s t"
  "rfold (pay_share C p who mins) xs s = Inr t \<Longrightarrow> same_chain s t"
  "rfold (pay_requested C p who) xs s = Inr t \<Longrightarrow> same_chain s t"
  by (erule loop_chain, erule payment_chains)+

lemma framed_intro:
  assumes "the_pool s0 pid = Inr p0" and "collect_yield C pid p0 s0 = Inr (p, s)" and "same_chain s t"
    and "collect_fee C pid q t = Inr (q', t')" and "same_pool p q" and "rate_only (insert_pool C pid q' t') s'"
  shows "framed s0 pid s'"
proof -
  have "same_pool p0 p" using assms(2) by (rule collect_yield_Inr) (rule refreshed_same)
  then have "same_pool p0 q'"
    using assms(5) collect_fee_same [OF assms(4)] by (blast intro: same_pool_trans)
  moreover have "same_chain s0 t'"
    using yield_chain [OF assms(2)] assms(3) collect_fee_chain [OF assms(4)] by (blast intro: same_chain_trans)
  then have "find_pool t' = find_pool s0" "pool_count t' = pool_count s0"
    by (simp_all add: same_chain_def find_pool_def fun_eq_iff)
  then have "find_pool s' = (find_pool s0)(pid \<mapsto> q')" "pool_count s' = pool_count s0"
    by (simp_all add: rate_only_simps [OF assms(6)])
  ultimately show ?thesis using assms(1) by (auto simp: framed_def result_simps)
qed

lemma mint_inner_frame: "mint_inner C who pid amounts least s0 = Inr s' \<Longrightarrow> framed s0 pid s'"
proof (erule mint_inner_cases)
  fix p0 amounts' p s r u s1 s2 s3 p' s4 e
  assume y: "the_pool s0 pid = Inr p0" "collect_yield C pid p0 s0 = Inr (p, s)"
    and r: "get_mint_amount C s p amounts' = Inr r"
    and s1: "rfold (deposit_one C pid p who amounts) (enumerate 0 amounts') s = Inr s1"
    and s2: "(if mr_fee_amount r > 0
          then sa_mint_to C (pool_asset p) (fee_recipient p) (mr_fee_amount r) s1 else Inr s1) = Inr s2"
    and s3: "sa_mint_to C (pool_asset p) who (mr_mint_amount r) s2 = Inr s3"
    and f: "collect_fee C pid (p\<lparr>lp_supply := mr_total_supply r, pool_balances := mr_balances r\<rparr>) s3 = Inr (p', s4)"
    and s': "Inr (emit_stable e (insert_pool C pid p' s4)) = (Inr s' :: 'a stable_state stable_result)"
  have "same_chain s1 s2" using s2 by (auto split: if_splits dest: coin_chains(2))
  then have "same_chain s s3"
    using loop_chains(1) [OF s1] coin_chains(2) [OF s3] by (blast intro: same_chain_trans)
  then show ?thesis
    by (rule framed_intro [OF y _ f same_pool_books]) (use s' mint_amount_length [OF r] in auto)
qed

lemma redeem_proportion_inner_frame:
  "redeem_proportion_inner C who pid amount mins s0 = Inr s' \<Longrightarrow> framed s0 pid s'"
proof (erule redeem_proportion_inner_cases)
  fix p0 p s u r amounts s1 s2 s3 p' s4 e
  assume y: "the_pool s0 pid = Inr p0" "collect_yield C pid p0 s0 = Inr (p, s)"
    and r: "get_redeem_proportion_amount C s p amount = Inr r"
    and s1: "rfold (pay_share C p who mins) (enumerate 0 amounts) s = Inr s1"
    and s2: "pay_redeem_fee C p who (rp_fee_amount r) s1 = Inr s2"
    and s3: "sa_burn_from C (pool_asset p) who (rp_redeem_amount r) s2 = Inr s3"
    and f: "collect_fee C pid (p\<lparr>lp_supply := rp_total_supply r, pool_balances := rp_balances r\<rparr>) s3 = Inr (p', s4)"
    and s': "Inr (emit_stable e (insert_pool C pid p' s4)) = (Inr s' :: 'a stable_state stable_result)"
  have "same_chain s s3"
    using loop_chains(2) [OF s1] payment_chains(4) [OF s2] coin_chains(3) [OF s3]
    by (blast intro: same_chain_trans)
  then show ?thesis
    by (rule framed_intro [OF y _ f same_pool_books]) (use s' redeem_proportion_length [OF r] in auto)
qed

lemma redeem_multi_inner_frame:
  "redeem_multi_inner C who pid amounts most s0 = Inr s' \<Longrightarrow> framed s0 pid s'"
proof (erule redeem_multi_inner_cases)
  fix p0 p s new_amounts r u s1 s2 s3 p' s4 e
  assume y: "the_pool s0 pid = Inr p0" "collect_yield C pid p0 s0 = Inr (p, s)"
    and r: "get_redeem_multi_amount C s p new_amounts = Inr r"
    and s1: "pay_redeem_fee C p who (rm_fee_amount r) s = Inr s1"
    and s2: "rfold (pay_requested C p who) (enumerate 0 amounts) s1 = Inr s2"
    and s3: "sa_burn_from C (pool_asset p) who (rm_burn_amount r) s2 = Inr s3"
    and f: "collect_fee C pid (p\<lparr>lp_supply := rm_total_supply r, pool_balances := rm_balances r\<rparr>) s3 = Inr (p', s4)"
    and s': "Inr (emit_stable e (insert_pool C pid p' s4)) = (Inr s' :: 'a stable_state stable_result)"
  have "same_chain s s3"
    using loop_chains(3) [OF s2] payment_chains(4) [OF s1] coin_chains(3) [OF s3]
    by (blast intro: same_chain_trans)
  then show ?thesis
    by (rule framed_intro [OF y _ f same_pool_books]) (use s' redeem_multi_length [OF r] in auto)
qed

lemma redeem_single_inner_frame:
  "redeem_single_inner C who pid amount i least len s0 = Inr (out, s') \<Longrightarrow> framed s0 pid s'"
proof (erule redeem_single_inner_cases)
  fix p0 p s r asset dy u u' s1 s2 s3 p' s4 e
  assume y: "the_pool s0 pid = Inr p0" "collect_yield C pid p0 s0 = Inr (p, s)"
    and r: "get_redeem_single_amount C s p amount i = Inr r"
    and s1: "pay_redeem_fee C p who (rs_fee_amount r) s = Inr s1"
    and s2: "sa_transfer C asset (pool_account p) who dy s1 = Inr s2"
    and s3: "sa_burn_from C (pool_asset p) who (rs_redeem_amount r) s2 = Inr s3"
    and f: "collect_fee C pid (p\<lparr>lp_supply := rs_total_supply r, pool_balances := rs_balances r\<rparr>) s3 = Inr (p', s4)"
    and s': "Inr ((amount, dy), emit_stable e (insert_pool C pid p' s4)) =
           (Inr (out, s') :: ((nat \<times> nat) \<times> 'a stable_state) stable_result)"
  have "same_chain s s3"
    using payment_chains(4) [OF s1] coin_chains(1) [OF s2] coin_chains(3) [OF s3]
    by (blast intro: same_chain_trans)
  then show ?thesis
    by (rule framed_intro [OF y _ f same_pool_books]) (use s' redeem_single_length [OF r] in auto)
qed

lemma on_swap_frame: "on_swap C who pid i j amount least s0 = Inr s' \<Longrightarrow> framed s0 pid s'"
proof (erule on_swap_cases)
  fix p0 token_in token_out p s dx r out u asset_i asset_j s1 s2 p' s3 e
  assume y: "the_pool s0 pid = Inr p0" "collect_yield C pid p0 s0 = Inr (p, s)"
    and t: "sa_transfer C asset_i who (pool_account p) amount s = Inr s1"
      "sa_transfer C asset_j (pool_account p) who out s1 = Inr s2"
    and f: "collect_fee C pid p s2 = Inr (p', s3)"
    and s': "Inr (follow_rate C pid token_in token_out (emit_stable e (insert_pool C pid p' s3))) =
           (Inr s' :: 'a stable_state stable_result)"
  have "same_chain s s2" using t [THEN coin_chains(1)] by (blast intro: same_chain_trans)
  moreover have "rate_only (insert_pool C pid p' s3) s'"
    using s' rate_only_trans_emit [OF follow_only] by auto
  ultimately show ?thesis by (intro framed_intro [OF y _ f same_pool_refl])
qed

end
