(* ===== verification/Stable_Runs.thy ===== *)
theory Stable_Runs
  imports Stable_Safety
begin

text \<open>
  The states the calls of the stable pool pallet reach, between any changes of the coins and the block by the
  rest of the chain: pools keep their shape and their number, and no call panics. Then runs of user
  operations, in which the pool tokens on a set of accounts never fall below the recorded supply.
\<close>

section \<open>Every call keeps the pools in order\<close>

lemma pools_ok_framed: "framed s0 pid s' \<Longrightarrow> pools_ok s0 \<Longrightarrow> pools_ok s'"
proof -
  assume "framed s0 pid s'" and ok: "pools_ok s0"
  then obtain p q where p: "find_pool s0 pid = Some p" and same: "same_pool p q"
    and s': "find_pool s' = (find_pool s0)(pid \<mapsto> q)" "pool_count s' = pool_count s0"
    by (auto simp: framed_def)
  have "pid < pool_count s0 \<and> pool_id q = pid \<and> pool_shape q"
    using ok p by (simp add: pools_ok_def pool_shape_same [OF same] same_pool_simps(1) [OF same])
  with ok show "pools_ok s'" by (simp add: pools_ok_def s')
qed

lemma pools_ok_only: "find_pool s' = find_pool s \<Longrightarrow> pool_count s' = pool_count s \<Longrightarrow> pools_ok s' \<longleftrightarrow> pools_ok s"
  by (simp add: pools_ok_def)

lemma mutate_pool_Inr:
  assumes "mutate_pool C pid f s = Inr (r, s')"
  obtains p p' t where "find_pool s pid = Some p" and "f p s = Inr ((p', r), t)"
    and "s' = insert_pool C pid p' t"
  using assms unfolding mutate_pool_def by (auto simp: result_simps split: prod.splits)

lemma calm_mutate [intro]: "(\<And>p. calm (f p s)) \<Longrightarrow> calm (mutate_pool C pid f s)"
  unfolding mutate_pool_def by (intro calm_rbind) (auto simp: case_prod_beta)

lemma mutate_ok:
  assumes "mutate_pool C pid f s = Inr (r, s')" and "pools_ok s"
    and "\<And>p p' r t. f p s = Inr ((p', r), t) \<Longrightarrow>
           pool_id p' = pool_id p \<and> (pool_shape p \<longrightarrow> pool_shape p') \<and>
           find_pool t = find_pool s \<and> pool_count t = pool_count s"
  shows "pools_ok s'"
  using assms(1)
proof (rule mutate_pool_Inr)
  fix p p' t
  assume p: "find_pool s pid = Some p" and f: "f p s = Inr ((p', r), t)" and s': "s' = insert_pool C pid p' t"
  show "pools_ok s'"
    using assms(2) p assms(3) [OF f] by (auto simp: pools_ok_def s')
qed

lemma create_pool_ok:
  assumes "create_pool C c assets precs m f r a fee_to yield_to prec s = Inr s'" and "pools_ok s"
  shows "pools_ok s'"
proof -
  have "length assets = length precs"
    and n: "pool_count s' = pool_count s + 1"
    and p: "\<exists>p. find_pool s' = (find_pool s)(pool_count s \<mapsto> p) \<and> pool_id p = pool_count s \<and> pool_assets p = assets \<and>
         pool_precisions p = precs \<and> pool_balances p = replicate (length assets) 0"
    using assms(1)
    by (auto simp: create_pool_def Let_def result_simps insert_pool_def find_pool_def emit_stable_def
        map_of_sm_put fun_eq_iff)
  then show ?thesis
    using assms(2) unfolding pools_ok_def
    by (elim exE conjE) (auto simp: pool_shape_def less_Suc_eq)
qed

lemma set_token_rate_pools:
  assumes "set_token_rate C pid info s = Inr s'"
  shows "find_pool s' = find_pool s" and "pool_count s' = pool_count s"
  using assms
  by (auto simp: set_token_rate_def result_simps find_pool_def fun_eq_iff emit_stable_def split: if_splits)

lemma dispatch_ok:
  assumes "dispatch C o1 call s = Inr s'" and "pools_ok s"
  shows "pools_ok s'"
proof (cases call)
  case (CallCreatePool assets precs m f r a fee_to yield_to prec)
  with assms(1) obtain l
    where "create_pool C (BLP (of_nat (pool_count s))) assets precs m f r a fee_to yield_to prec (s\<lparr>coins := l\<rparr>) = Inr s'"
    by (auto simp: pool_create_pool_def Let_def result_simps)
  moreover have "pools_ok (s\<lparr>coins := l\<rparr>)" using assms(2) by (simp add: pools_ok_def find_pool_def)
  ultimately show ?thesis by (rule create_pool_ok)
next
  case (CallAddLiquidity pid amounts least)
  with assms show ?thesis
    by (auto simp: pool_add_liquidity_def result_simps dest!: mint_inner_frame intro: pools_ok_framed)
next
  case (CallSwap pid i j dx least)
  with assms show ?thesis
    by (auto simp: user_swap_def result_simps dest!: on_swap_frame intro: pools_ok_framed)
next
  case (CallRedeemProportion pid n mins)
  with assms show ?thesis
    by (auto simp: pool_redeem_proportion_def result_simps dest!: redeem_proportion_inner_frame
        intro: pools_ok_framed)
next
  case (CallRedeemSingle pid n i least len)
  with assms show ?thesis
    by (auto simp: pool_redeem_single_def result_simps dest!: redeem_single_inner_frame intro: pools_ok_framed)
next
  case (CallRedeemMulti pid amounts most)
  with assms show ?thesis
    by (auto simp: pool_redeem_multi_def result_simps dest!: redeem_multi_inner_frame intro: pools_ok_framed)
next
  case (CallModifyA pid a b)
  with assms obtain u where "mutate_pool C pid (modify_a_body pid a b) s = Inr (u, s')"
    by (auto simp: pool_modify_a_def modify_a_def result_simps)
  then show ?thesis using assms(2)
    by (rule mutate_ok) (auto simp: modify_a_body_def result_simps pool_shape_def)
next
  case (CallModifyFees pid m f r)
  with assms obtain u where "mutate_pool C pid (set_pool_fees pid m f r) s = Inr (u, s')"
    by (auto simp: pool_modify_fees_def result_simps)
  then show ?thesis using assms(2)
    by (rule mutate_ok) (auto simp: set_pool_fees_def Let_def pool_shape_def)
next
  case (CallModifyRecipients pid f y)
  with assms obtain u where "mutate_pool C pid (set_recipients pid f y) s = Inr (u, s')"
    by (auto simp: pool_modify_recipients_def result_simps)
  then show ?thesis using assms(2)
    by (rule mutate_ok) (auto simp: set_recipients_def Let_def pool_shape_def)
next
  case (CallEditTokenRate pid info)
  with assms(1) have r: "set_token_rate C pid info s = Inr s'"
    by (auto simp: edit_token_rate_def result_simps)
  show ?thesis using assms(2) pools_ok_only [OF set_token_rate_pools [OF r]] by simp
next
  case (CallConfigAutoRefresh v cap)
  with assms show ?thesis
    by (auto simp: config_vtoken_auto_refresh_def result_simps pools_ok_def find_pool_def emit_stable_def)
next
  case (CallRemoveAutoRefresh v)
  with assms show ?thesis
    by (auto simp: remove_vtoken_auto_refresh_def result_simps pools_ok_def find_pool_def emit_stable_def)
qed

section \<open>No call panics\<close>

lemma calm_create_pool: "pools_ok s \<Longrightarrow> calm (create_pool C c assets precs m f r a fee_to yield_to prec s)"
  unfolding create_pool_def Let_def by (intro calm_rbind) auto

lemma calm_set_token_rate: "calm (set_token_rate C pid info s)"
  by (simp add: set_token_rate_def calm_def rbind_def ensure_def)

lemma calm_bodies [simp]:
  "calm (modify_a_body pid a b p s)" "calm (set_pool_fees pid m f r p s)" "calm (set_recipients pid y z p s)"
  by (auto simp: modify_a_body_def set_pool_fees_def set_recipients_def Let_def intro!: calm_rbind)

lemma calm_dispatch:
  assumes ok: "pools_ok s"
  shows "calm (dispatch C o1 call s)"
proof -
  have sh: "\<And>pid p. find_pool s pid = Some p \<Longrightarrow> pool_shape p" using ok by (simp add: pools_ok_def)
  have coins: "on_coins f s = Inr t \<Longrightarrow> pools_ok t" for f t
    using ok by (auto simp: result_simps pools_ok_def find_pool_def)
  have listing: "calm (pool_control C o1)" by (simp add: pool_control_def)
  show ?thesis
  proof (cases call)
    case (CallCreatePool assets precs m f r a fee_to yield_to prec)
    then show ?thesis
      by (auto simp: pool_create_pool_def Let_def listing intro!: calm_rbind calm_create_pool dest: coins)
  next
    case (CallAddLiquidity pid amounts least)
    then show ?thesis by (auto simp: pool_add_liquidity_def intro!: calm_rbind calm_mint_inner sh)
  next
    case (CallSwap pid i j dx least)
    then show ?thesis by (auto simp: user_swap_def intro!: calm_rbind calm_on_swap sh)
  next
    case (CallRedeemProportion pid n mins)
    then show ?thesis
      by (auto simp: pool_redeem_proportion_def intro!: calm_rbind calm_redeem_proportion_inner sh)
  next
    case (CallRedeemSingle pid n i least len)
    then show ?thesis
      by (auto simp: pool_redeem_single_def intro!: calm_rbind calm_redeem_single_inner sh)
  next
    case (CallRedeemMulti pid amounts most)
    then show ?thesis
      by (auto simp: pool_redeem_multi_def intro!: calm_rbind calm_redeem_multi_inner sh)
  next
    case (CallModifyA pid a b)
    then show ?thesis by (auto simp: pool_modify_a_def modify_a_def listing intro!: calm_rbind)
  next
    case (CallModifyFees pid m f r)
    then show ?thesis by (auto simp: pool_modify_fees_def listing intro!: calm_rbind)
  next
    case (CallModifyRecipients pid f y)
    then show ?thesis by (auto simp: pool_modify_recipients_def listing intro!: calm_rbind)
  next
    case (CallEditTokenRate pid info)
    then show ?thesis by (auto simp: edit_token_rate_def listing intro!: calm_rbind calm_set_token_rate)
  next
    case (CallConfigAutoRefresh v cap)
    then show ?thesis by (auto simp: config_vtoken_auto_refresh_def listing intro!: calm_rbind)
  next
    case (CallRemoveAutoRefresh v)
    then show ?thesis by (auto simp: remove_vtoken_auto_refresh_def listing intro!: calm_rbind)
  qed
qed

section \<open>Reachable states\<close>

inductive stable_step :: "'l stable_config \<Rightarrow> 'l stable_state \<Rightarrow> 'l stable_state \<Rightarrow> bool" for C where
  call: "dispatch C o1 call s = Inr s' \<Longrightarrow> stable_step C s s'"
| chain: "stable_step C s (s\<lparr>coins := l, block_now := b\<rparr>)"

inductive stable_reachable :: "'l stable_config \<Rightarrow> 'l stable_state \<Rightarrow> bool" for C where
  genesis: "stable_reachable C (initial_stable b l)"
| step: "stable_reachable C s \<Longrightarrow> stable_step C s s' \<Longrightarrow> stable_reachable C s'"

lemma pools_ok_initial: "pools_ok (initial_stable b l)"
  by (simp add: pools_ok_def initial_stable_def find_pool_def)

lemma pools_ok_reachable: "stable_reachable C s \<Longrightarrow> pools_ok s"
proof (induction rule: stable_reachable.induct)
  case (genesis b l)
  then show ?case by (rule pools_ok_initial)
next
  case (step s s')
  from step.hyps(2) show ?case
  proof (cases rule: stable_step.cases)
    case (call o1 call)
    then show ?thesis using step.IH by (auto intro: dispatch_ok)
  next
    case (chain l b)
    then show ?thesis using step.IH by (simp add: pools_ok_def find_pool_def)
  qed
qed

section \<open>Runs of users\<close>

fun user_call :: "stable_call \<Rightarrow> bool" where
  "user_call (CallAddLiquidity _ _ _) = True"
| "user_call (CallSwap _ _ _ _ _) = True"
| "user_call (CallRedeemProportion _ _ _) = True"
| "user_call (CallRedeemSingle _ _ _ _ _) = True"
| "user_call (CallRedeemMulti _ _ _) = True"
| "user_call _ = False"

text \<open>A call that fails leaves the state as it was.\<close>

definition apply_call :: "'l stable_config \<Rightarrow> account \<times> stable_call \<Rightarrow> 'l stable_state \<Rightarrow> 'l stable_state" where
  "apply_call C = (\<lambda>(who, call) s. case dispatch C (Signed who) call s of Inl _ \<Rightarrow> s | Inr s' \<Rightarrow> s')"

definition run_calls ::
  "'l stable_config \<Rightarrow> (account \<times> stable_call) list \<Rightarrow> 'l stable_state \<Rightarrow> 'l stable_state" where
  "run_calls C calls = fold (apply_call C) calls"

definition lp_setup :: "account set \<Rightarrow> 'l stable_state \<Rightarrow> bool" where
  "lp_setup A s \<longleftrightarrow> (\<forall>pid p. find_pool s pid = Some p \<longrightarrow>
     pool_asset p \<notin> set (pool_assets p) \<and> pool_parties p \<subseteq> A \<and>
     (\<forall>pid' p'. find_pool s pid' = Some p' \<longrightarrow> pid' \<noteq> pid \<longrightarrow> pool_asset p' \<noteq> pool_asset p))"

definition lp_covered :: "'l stable_config \<Rightarrow> account set \<Rightarrow> 'l stable_state \<Rightarrow> bool" where
  "lp_covered C A s \<longleftrightarrow> (\<forall>pid p. find_pool s pid = Some p \<longrightarrow> lp_supply p \<le> sum (sa_free C s (pool_asset p)) A)"

lemma cover_step:
  assumes p: "find_pool s0 pid = Some p" and b: "books_kept C A p s0 q t"
    and s': "find_pool s' = (find_pool s0)(pid \<mapsto> q)" "sa_free C s' = sa_free C t"
    and w: "lp_setup A s0" "lp_covered C A s0"
  shows "lp_setup A s' \<and> lp_covered C A s'"
proof
  have same: "same_pool p q" using b by (simp add: books_kept_def)
  show "lp_setup A s'"
    using w(1) p unfolding lp_setup_def s'
    by (auto simp: same_pool_simps [OF same] pool_parties_same [OF same] split: if_splits)
  show "lp_covered C A s'"
    unfolding lp_covered_def
  proof (intro allI impI)
    fix pid' p' assume f: "find_pool s' pid' = Some p'"
    show "lp_supply p' \<le> sum (sa_free C s' (pool_asset p')) A"
    proof (cases "pid' = pid")
      case True
      have "lp_supply p \<le> sum (sa_free C s0 (pool_asset p)) A" using w(2) p by (simp add: lp_covered_def)
      moreover have "p' = q" using True f by (simp add: s')
      moreover have "sum (sa_free C s0 (pool_asset p)) A + lp_supply q
          \<le> sum (sa_free C t (pool_asset p)) A + lp_supply p" using b by (simp add: books_kept_def)
      ultimately show ?thesis by (simp add: s'(2) same_pool_simps(2) [OF same])
    next
      case False
      with f have p': "find_pool s0 pid' = Some p'" by (simp add: s')
      then have "pool_asset p' \<noteq> pool_asset p" using w(1) p False unfolding lp_setup_def by blast
      then have "sum (sa_free C s' (pool_asset p')) A = sum (sa_free C s0 (pool_asset p')) A"
        using b by (simp add: s' books_kept_def)
      with p' w(2) show ?thesis by (simp add: lp_covered_def)
    qed
  qed
qed

context pool_ledger
begin

lemma user_call_books:
  assumes d: "dispatch C (Signed who) call s0 = Inr s'" and u: "user_call call"
    and w: "lp_setup A s0" and A: "finite A" "who \<in> A"
  shows "\<exists>pid p q t. find_pool s0 pid = Some p \<and> books_kept C A p s0 q t \<and>
    find_pool s' = (find_pool s0)(pid \<mapsto> q) \<and> sa_free C s' = sa_free C t"
proof -
  have fit: "pool_asset p \<notin> set (pool_assets p)" "pool_parties p \<subseteq> A" if "find_pool s0 pid = Some p" for pid p
    using w that unfolding lp_setup_def by blast+
  have close: ?thesis
    if "find_pool s0 pid = Some p" "books_kept C A p s0 q t" "same_chain s0 t" "rate_only (insert_pool C pid q t) s'"
    for pid p q t
    using that rate_only_simps [OF that(4)] by (auto simp: same_chain_def find_pool_def fun_eq_iff intro!: exI)
  have pool: "\<exists>p. find_pool s0 pid = Some p" if "framed s0 pid s'" for pid
    using that by (auto simp: framed_def)
  from u show ?thesis
  proof (cases call)
    case (CallAddLiquidity pid amounts least)
    with d have m: "mint_inner C who pid amounts least s0 = Inr s'" by (simp add: pool_add_liquidity_def)
    then obtain p where p: "find_pool s0 pid = Some p" using pool mint_inner_frame by blast
    show ?thesis
      by (rule mint_inner_books [OF m p fit(1) [OF p] A fit(2) [OF p]]) (rule close [OF p], assumption, assumption, simp)
  next
    case (CallSwap pid i j dx least)
    with d have m: "on_swap C who pid i j dx least s0 = Inr s'" by (simp add: user_swap_def)
    then obtain p where p: "find_pool s0 pid = Some p" using pool on_swap_frame by blast
    show ?thesis
      by (rule on_swap_books [OF m p fit(1) [OF p] A fit(2) [OF p]])
        (rule close [OF p], assumption, assumption, simp add: rate_only_trans_emit [OF follow_only])
  next
    case (CallRedeemProportion pid n mins)
    with d have m: "redeem_proportion_inner C who pid n mins s0 = Inr s'" by (simp add: pool_redeem_proportion_def)
    then obtain p where p: "find_pool s0 pid = Some p" using pool redeem_proportion_inner_frame by blast
    show ?thesis
      by (rule redeem_proportion_inner_books [OF m p fit(1) [OF p] A fit(2) [OF p]])
        (rule close [OF p], assumption, assumption, simp)
  next
    case (CallRedeemSingle pid n i least len)
    with d obtain out where m: "redeem_single_inner C who pid n i least len s0 = Inr (out, s')"
      by (auto simp: pool_redeem_single_def rbind_eq_Inr)
    then obtain p where p: "find_pool s0 pid = Some p" using pool redeem_single_inner_frame by blast
    show ?thesis
      by (rule redeem_single_inner_books [OF m p fit(1) [OF p] A fit(2) [OF p]])
        (rule close [OF p], assumption, assumption, simp)
  next
    case (CallRedeemMulti pid amounts most)
    with d have m: "redeem_multi_inner C who pid amounts most s0 = Inr s'" by (simp add: pool_redeem_multi_def)
    then obtain p where p: "find_pool s0 pid = Some p" using pool redeem_multi_inner_frame by blast
    show ?thesis
      by (rule redeem_multi_inner_books [OF m p fit(1) [OF p] A fit(2) [OF p]])
        (rule close [OF p], assumption, assumption, simp)
  qed simp_all
qed

lemma apply_call_covers:
  assumes "lp_setup A s \<and> lp_covered C A s" and "finite A" "who \<in> A" "user_call call"
  shows "lp_setup A (apply_call C (who, call) s) \<and> lp_covered C A (apply_call C (who, call) s)"
proof (cases "dispatch C (Signed who) call s")
  case (Inr s')
  with assms user_call_books [OF Inr] obtain pid p q t where st: "find_pool s pid = Some p" "books_kept C A p s q t"
    "find_pool s' = (find_pool s)(pid \<mapsto> q)" "sa_free C s' = sa_free C t" by blast
  have "lp_setup A s' \<and> lp_covered C A s'"
    by (rule cover_step [OF st]) (use assms(1) in simp_all)
  with Inr show ?thesis by (simp add: apply_call_def)
qed (use assms in \<open>simp add: apply_call_def\<close>)

lemma run_calls_covers:
  "lp_setup A s \<and> lp_covered C A s \<Longrightarrow> finite A \<Longrightarrow> (\<forall>x\<in>set calls. fst x \<in> A \<and> user_call (snd x)) \<Longrightarrow>
     lp_setup A (run_calls C calls s) \<and> lp_covered C A (run_calls C calls s)"
proof (induction calls arbitrary: s)
  case (Cons c calls)
  obtain who call where c: "c = (who, call)" by (cases c)
  have "lp_setup A (apply_call C c s) \<and> lp_covered C A (apply_call C c s)"
    unfolding c using Cons.prems by (intro apply_call_covers) (auto simp: c)
  from Cons.IH [OF this Cons.prems(2)] Cons.prems(3) show ?case by (simp add: run_calls_def)
qed (simp add: run_calls_def)

end

end
