(* ===== verification/Stable_Quotes.thy ===== *)
theory Stable_Quotes
  imports Stable_Runs
begin

text \<open>
  Why a quote is what the operation then pays: the refresh every calculation starts with gives the same pool
  before and after the yield has been collected. And that beyond the root the polynomial of the balance
  \<open>y\<close> stays positive, so that a swap leaves the pool above its curve.
\<close>

lemma swap_amount_cong:
  assumes "refreshed C s p = refreshed C s0 p0" and "block_now s = block_now s0"
  shows "get_swap_amount C s p i j dx = get_swap_amount C s0 p0 i j dx"
  by (simp only: get_swap_amount_def assms amp_now_def)

lemma mint_amount_cong:
  assumes "refreshed C s p = refreshed C s0 p0" and "block_now s = block_now s0"
  shows "get_mint_amount C s p ns = get_mint_amount C s0 p0 ns"
  by (simp only: get_mint_amount_def assms amp_now_def)

lemma scale_cong:
  assumes "token_rates s = token_rates s0"
  shows "upscale s = upscale s0" and "downscale s = downscale s0"
  by (simp_all add: upscale_def downscale_def get_token_rate_def assms fun_eq_iff)

context pool_ledger
begin

lemma collect_yield_same_refresh:
  assumes y: "collect_yield C pid p0 s0 = Inr (p, s)" and lp: "pool_asset p0 \<notin> set (pool_assets p0)"
  shows "refreshed C s p = refreshed C s0 p0" and "block_now s = block_now s0" and "token_rates s = token_rates s0"
    and "same_pool p0 p"
proof -
  have r: "refreshed C s0 p0 = Inr p" using y by (rule collect_yield_Inr)
  then show "refreshed C s p = refreshed C s0 p0" using collect_yield_refreshed [OF y lp] by simp
  show "block_now s = block_now s0" "token_rates s = token_rates s0"
    using collect_yield_chain [OF y] by (simp_all add: same_chain_def)
  show "same_pool p0 p" using r by (rule refreshed_same)
qed

lemma swap_exact:
  assumes m: "on_swap C who pid i j amount least s0 = Inr s'"
    and p0: "find_pool s0 pid = Some p0" and lp: "pool_asset p0 \<notin> set (pool_assets p0)"
  obtains out where "get_swap_output C s0 pid i j amount = Inr out" and "least \<le> out"
    and "\<And>d x. d \<noteq> pool_asset p0 \<Longrightarrow>
           sa_free C s' d x + paid (pool_assets p0 ! i) who amount d x
             + paid (pool_assets p0 ! j) (pool_account p0) out d x =
           sa_free C s0 d x + paid (pool_assets p0 ! i) (pool_account p0) amount d x
             + paid (pool_assets p0 ! j) who out d x"
  using m
proof (rule on_swap_cases)
  fix p1 token_in token_out p s dx r out u asset_i asset_j s1 s2 p' s3 e
  assume y: "the_pool s0 pid = Inr p1" "collect_yield C pid p1 s0 = Inr (p, s)"
    and tok: "get_or ArgumentsMismatch (pool_assets p1) i = Inr token_in"
      "get_or ArgumentsMismatch (pool_assets p1) j = Inr token_out"
    and q: "upscale s amount pid token_in = Inr dx" "get_swap_amount C s p i j dx = Inr r"
      "downscale s (sr_dy r) pid token_out = Inr out"
    and least: "ensure (least \<le> out)
           (Module (StablePool PoolSwapUnderMin) :: stable_error dispatch_error) = Inr u"
    and t: "at (pool_assets p) i = Inr asset_i" "sa_transfer C asset_i who (pool_account p) amount s = Inr s1"
      "at (pool_assets p) j = Inr asset_j" "sa_transfer C asset_j (pool_account p) who out s1 = Inr s2"
    and f: "collect_fee C pid p s2 = Inr (p', s3)"
    and s': "Inr (follow_rate C pid token_in token_out (emit_stable e (insert_pool C pid p' s3))) =
           (Inr s' :: 'l stable_state stable_result)"
  have [simp]: "p1 = p0" using y(1) p0 by (simp add: result_simps)
  have y': "collect_yield C pid p0 s0 = Inr (p, s)" using y(2) by simp
  note same = collect_yield_same_refresh [OF y' lp]
  note sp = same_pool_simps [OF same(4)]
  have quote: "get_swap_output C s0 pid i j amount = Inr out"
    using q tok p0 by (simp add: get_swap_output_def the_pool_def swap_amount_cong [OF same(1,2)] scale_cong [OF same(3)])
  have assets: "asset_i = pool_assets p0 ! i" "asset_j = pool_assets p0 ! j"
    using t(1,3) by (simp_all add: result_simps sp)
  have "rate_only (insert_pool C pid p' s3) s'"
    using s' rate_only_trans_emit [OF follow_only] by auto
  then have free: "sa_free C s' = sa_free C s3" by (simp only: rate_only_simps insert_simps)
  show thesis
  proof (rule that [OF quote])
    fix d x assume d: "d \<noteq> pool_asset p0"
    have "sa_free C s3 d x = sa_free C s2 d x" using d by (simp add: collect_fee_free [OF f] sp paid_def)
    moreover have "sa_free C s d x = sa_free C s0 d x" using d by (simp add: collect_yield_free [OF y'] paid_def)
    ultimately show "sa_free C s' d x + paid (pool_assets p0 ! i) who amount d x
             + paid (pool_assets p0 ! j) (pool_account p0) out d x =
           sa_free C s0 d x + paid (pool_assets p0 ! i) (pool_account p0) amount d x
             + paid (pool_assets p0 ! j) who out d x"
      using transfer_flow [OF t(2), of d x] transfer_flow [OF t(4), of d x]
      unfolding free assets sp by linarith
  qed (use least in \<open>simp add: result_simps\<close>)
qed

lemma payments_other:
  assumes "rfold f xs s = Inr t" and "\<And>x s t. f x s = Inr t \<Longrightarrow> \<forall>a. sa_free C t d a = sa_free C s d a"
  shows "sa_free C t d a = sa_free C s d a"
proof -
  have "\<forall>a. sa_free C t d a = sa_free C s d a"
  proof (rule rfold_rel [OF assms(1)])
    fix u v w assume "\<forall>a. sa_free C v d a = sa_free C u d a" and "\<forall>a. sa_free C w d a = sa_free C v d a"
    then show "\<forall>a. sa_free C w d a = sa_free C u d a" by (metis (no_types))
  qed (rule allI, rule refl, rule assms(2), assumption)
  then show ?thesis by (rule spec)
qed

lemma deposit_exact:
  assumes m: "mint_inner C who pid amounts least s0 = Inr s'"
    and p0: "find_pool s0 pid = Some p0" and lp: "pool_asset p0 \<notin> set (pool_assets p0)"
  obtains n fee gain where "add_liquidity_amount C s0 pid amounts = Inr n" and "least \<le> n"
    and "\<And>x. sa_free C s' (pool_asset p0) x = sa_free C s0 (pool_asset p0) x
           + paid (pool_asset p0) who n (pool_asset p0) x
           + paid (pool_asset p0) (fee_recipient p0) fee (pool_asset p0) x
           + paid (pool_asset p0) (yield_recipient p0) gain (pool_asset p0) x"
  using m
proof (rule mint_inner_cases)
  fix p1 ups p s r u s1 s2 s3 p' s4 e
  let ?c = "pool_asset p0"
  assume y: "the_pool s0 pid = Inr p1" "collect_yield C pid p1 s0 = Inr (p, s)"
    and up: "scale_all upscale s0 pid p1 amounts = Inr ups"
    and r: "get_mint_amount C s p ups = Inr r"
    and least: "ensure (least \<le> mr_mint_amount r)
           (Module (StablePool PoolMintUnderMin) :: stable_error dispatch_error) = Inr u"
    and s1: "rfold (deposit_one C pid p who amounts) (enumerate 0 ups) s = Inr s1"
    and s2: "(if mr_fee_amount r > 0
          then sa_mint_to C (pool_asset p) (fee_recipient p) (mr_fee_amount r) s1 else Inr s1) = Inr s2"
    and s3: "sa_mint_to C (pool_asset p) who (mr_mint_amount r) s2 = Inr s3"
    and f: "collect_fee C pid (p\<lparr>lp_supply := mr_total_supply r, pool_balances := mr_balances r\<rparr>) s3 = Inr (p', s4)"
    and s': "Inr (emit_stable e (insert_pool C pid p' s4)) = (Inr s' :: 'l stable_state stable_result)"
  have [simp]: "p1 = p0" using y(1) p0 by (simp add: result_simps)
  have y': "collect_yield C pid p0 s0 = Inr (p, s)" using y(2) by simp
  note same = collect_yield_same_refresh [OF y' lp]
  note sp = same_pool_simps [OF same(4)]
  have quote: "add_liquidity_amount C s0 pid amounts = Inr (mr_mint_amount r)"
    using r up p0 by (simp add: add_liquidity_amount_def the_pool_def mint_amount_cong [OF same(1,2)])
  have kept: "\<forall>a. sa_free C t ?c a = sa_free C v ?c a" if "deposit_one C pid p who amounts x v = Inr t" for x v t
    using that lp
    by (auto simp: deposit_one_def rbind_eq_Inr result_simps sp split: prod.splits if_splits
        intro!: transfer_other dest!: nth_mem)
  have lp1: "sa_free C s1 ?c x = sa_free C s ?c x" for x by (rule payments_other [OF s1 kept])
  have lp2: "sa_free C s2 ?c x = sa_free C s1 ?c x + paid ?c (fee_recipient p0) (mr_fee_amount r) ?c x" for x
    using s2 by (auto simp: mint_flow sp split: if_splits)
  have lp3: "sa_free C s3 ?c x = sa_free C s2 ?c x + paid ?c who (mr_mint_amount r) ?c x" for x
    using mint_flow [OF s3] by (simp add: sp)
  have lp4: "sa_free C s4 ?c x = sa_free C s3 ?c x
      + paid ?c (fee_recipient p0) (lp_supply p' - mr_total_supply r) ?c x" for x
    using collect_fee_free [OF f] by (simp add: sp)
  show thesis
  proof (rule that [OF quote])
    fix x
    show "sa_free C s' ?c x = sa_free C s0 ?c x + paid ?c who (mr_mint_amount r) ?c x
        + paid ?c (fee_recipient p0) (mr_fee_amount r + (lp_supply p' - mr_total_supply r)) ?c x
        + paid ?c (yield_recipient p0) (lp_supply p - lp_supply p0) ?c x"
      using s' lp1 [of x] lp2 [of x] lp3 [of x] lp4 [of x] collect_yield_free [OF y', of ?c x]
      by (auto simp: paid_add)
  qed (use least in \<open>simp add: result_simps\<close>)
qed

end

section \<open>Above the curve\<close>

lemma y_poly_beyond:
  assumes "0 < y_poly p (int c) x" and "0 < x" and "x \<le> z"
  shows "0 < y_poly p (int c) z"
proof -
  have "0 < x * (x + p)" using assms(1) by (simp add: y_poly_def algebra_simps)
  then have pos: "0 < x + p" using assms(2) by (simp add: zero_less_mult_iff)
  have "y_poly p (int c) z - y_poly p (int c) x = (z - x) * (z + x + p)"
    by (simp add: y_poly_def algebra_simps)
  moreover have "0 \<le> (z - x) * (z + x + p)" using assms pos by (intro mult_nonneg_nonneg) auto
  ultimately show ?thesis using assms(1) by linarith
qed

lemma swap_above_curve:
  assumes "get_swap_amount C s p i j dx = Inr r"
  obtains q a c b where "refreshed C s p = Inr q" and "amp_now s p = Inr a"
    and "y_coefficients (a_precision C)
           ((pool_balances q)[i := pool_balances q ! i + dx * pool_precisions q ! i]) j (lp_supply q) a = Some (c, b)"
    and "sr_dy r * pool_precisions q ! j < pool_balances q ! j"
    and "0 < y_poly (int b - int (lp_supply q)) (int c)
           (int (pool_balances q ! j - sr_dy r * pool_precisions q ! j))"
  using assms
proof (rule swap_amount_Inr)
  fix q a
  assume q: "refreshed C s p = Inr q" "amp_now s p = Inr a"
    and bi: "sr_balance_i r = pool_balances q ! i + dx * pool_precisions q ! i"
    and y: "get_y (a_precision C) ((pool_balances q)[i := sr_balance_i r]) j (lp_supply q) a = Some (sr_y r)"
    and le: "sr_y r + 1 + sr_dy r * pool_precisions q ! j \<le> pool_balances q ! j"
  obtain c b where cb: "y_coefficients (a_precision C) ((pool_balances q)[i := sr_balance_i r]) j (lp_supply q) a = Some (c, b)"
    and pos: "0 < y_poly (int b - int (lp_supply q)) (int c) (int (sr_y r) + 1)"
    using get_y_root [OF y] by metis
  have "sr_y r + 1 \<le> pool_balances q ! j - sr_dy r * pool_precisions q ! j" using le by linarith
  then have "int (sr_y r + 1) \<le> int (pool_balances q ! j - sr_dy r * pool_precisions q ! j)"
    by (simp only: of_nat_le_iff)
  then have "0 < y_poly (int b - int (lp_supply q)) (int c)
           (int (pool_balances q ! j - sr_dy r * pool_precisions q ! j))"
    by (intro y_poly_beyond [OF pos]) (simp, simp only: of_nat_add of_nat_1)
  moreover have "sr_dy r * pool_precisions q ! j < pool_balances q ! j" using le by linarith
  ultimately show thesis using that [OF q] cb unfolding bi by metis
qed

end
