(* ===== verification/Stable_Frozen.thy ===== *)
theory Stable_Frozen
  imports Stable_Quotes
begin

text \<open>
  What every user call on a pool has in common: it first collects the yield. So a pool whose value cannot be
  computed, or has fallen below its recorded supply, answers no user call. Then what a swap does to the token
  rates, and what a proportional redemption leaves behind.
\<close>

section \<open>The pool of a call\<close>

fun called_pool :: "stable_call \<Rightarrow> nat" where
  "called_pool (CallAddLiquidity pid _ _) = pid"
| "called_pool (CallSwap pid _ _ _ _) = pid"
| "called_pool (CallRedeemProportion pid _ _) = pid"
| "called_pool (CallRedeemSingle pid _ _ _ _) = pid"
| "called_pool (CallRedeemMulti pid _ _) = pid"
| "called_pool _ = 0"

lemma mint_collects:
  "mint_inner C who pid amounts least s = Inr s' \<Longrightarrow>
     \<exists>p q t. find_pool s pid = Some p \<and> collect_yield C pid p s = Inr (q, t)"
  by (erule mint_inner_cases) (simp only: the_pool_Inr, blast)

lemma swap_collects:
  "on_swap C who pid i j amount least s = Inr s' \<Longrightarrow>
     \<exists>p q t. find_pool s pid = Some p \<and> collect_yield C pid p s = Inr (q, t)"
  by (erule on_swap_cases) (simp only: the_pool_Inr, blast)

lemma redeem_proportion_collects:
  "redeem_proportion_inner C who pid amount mins s = Inr s' \<Longrightarrow>
     \<exists>p q t. find_pool s pid = Some p \<and> collect_yield C pid p s = Inr (q, t)"
  by (erule redeem_proportion_inner_cases) (simp only: the_pool_Inr, blast)

lemma redeem_single_collects:
  "redeem_single_inner C who pid amount i least len s = Inr (out, s') \<Longrightarrow>
     \<exists>p q t. find_pool s pid = Some p \<and> collect_yield C pid p s = Inr (q, t)"
  by (erule redeem_single_inner_cases) (simp only: the_pool_Inr, blast)

lemma redeem_multi_collects:
  "redeem_multi_inner C who pid amounts most s = Inr s' \<Longrightarrow>
     \<exists>p q t. find_pool s pid = Some p \<and> collect_yield C pid p s = Inr (q, t)"
  by (erule redeem_multi_inner_cases) (simp only: the_pool_Inr, blast)

lemmas inner_collects = mint_collects swap_collects redeem_proportion_collects redeem_single_collects
  redeem_multi_collects

lemma user_call_collects:
  assumes "dispatch C (Signed who) call s = Inr s'" and "user_call call"
  shows "\<exists>p q t. find_pool s (called_pool call) = Some p \<and> collect_yield C (called_pool call) p s = Inr (q, t)"
  using assms(2,1)
  by (cases call)
    (auto simp: pool_add_liquidity_def user_swap_def pool_redeem_proportion_def pool_redeem_single_def
      pool_redeem_multi_def rbind_eq_Inr dest: inner_collects)

lemma user_call_needs_value:
  assumes "dispatch C (Signed who) call s = Inr s'" and "user_call call"
    and "find_pool s (called_pool call) = Some p"
  obtains q where "refreshed C s p = Inr q" and "lp_supply p \<le> lp_supply q"
proof -
  obtain q t where "collect_yield C (called_pool call) p s = Inr (q, t)"
    using user_call_collects [OF assms(1,2)] assms(3) by auto
  then show thesis by (rule collect_yield_Inr) (rule that)
qed

text \<open>A pool that holds something, but nothing of one of its assets, has no value.\<close>

lemma empty_asset_no_value:
  assumes "asset_value C s p i = Inr 0" and "asset_value C s p j = Inr (Suc n)"
    and "i < length (pool_balances p)" and "j < length (pool_balances p)"
  shows "refreshed C s p \<noteq> Inr q"
proof
  assume "refreshed C s p = Inr q"
  then obtain bs a d where bs: "rmap (asset_value C s p) [0..<length (pool_balances p)] = Inr bs"
    and d: "get_d (a_precision C) bs a = Some d"
    by (auto simp: refreshed_Inr)
  have l: "length bs = length (pool_balances p)" using rmap_length [OF bs] by simp
  have "bs ! i = 0" "bs ! j = Suc n"
    using rmap_upt_nth [OF bs assms(3)] rmap_upt_nth [OF bs assms(4)] assms(1,2) by simp_all
  then have "0 \<in> set bs" "Suc n \<in> set bs" using assms(3,4) l by (metis nth_mem)+
  then have "get_d (a_precision C) bs a = None"
    by (intro get_d_empty_asset) (auto simp: sum_list_eq_0_iff)
  with d show False by simp
qed

section \<open>Rates after a swap\<close>

lemma same_chain_rates: "same_chain s t \<Longrightarrow> get_token_rate t = get_token_rate s"
  by (simp add: same_chain_def get_token_rate_def fun_eq_iff)

lemma insert_pool_rate [simp]: "get_token_rate (insert_pool C pid p s) = get_token_rate s"
  by (simp add: get_token_rate_def fun_eq_iff)

lemma follow_rate_cases:
  "follow_rate C pid a b s = s \<or>
   (\<exists>v iss amount cap ok t. ensure_can_refresh C s a b = Some (v, iss, amount, cap) \<and>
      refresh_token_rate C pid v iss amount cap s = (ok, t) \<and>
      get_token_rate (follow_rate C pid a b s) = get_token_rate t)"
  by (auto simp: follow_rate_def split: option.split prod.split bool.split)

lemma can_refresh_cap:
  "ensure_can_refresh C s a b = Some (v, iss, amount, cap) \<Longrightarrow> rate_hardcap s v = Some cap \<and> v \<in> {a, b}"
  by (auto simp: ensure_can_refresh_def Option.bind_eq_Some_conv split: option.splits if_splits)

lemma follow_rate_bounds:
  assumes "get_token_rate s pid v = Some rate"
  obtains rate' where "get_token_rate (follow_rate C pid a b s) pid v = Some rate'"
    and "rate' = rate \<or> v \<in> {a, b} \<and> (\<exists>cap. rate_hardcap s v = Some cap \<and> rate_price C rate' \<le> price_cap C cap rate)"
  using follow_rate_cases [of C pid a b s]
proof (elim disjE exE conjE)
  fix w iss amount cap ok t
  assume can: "ensure_can_refresh C s a b = Some (w, iss, amount, cap)"
    and r: "refresh_token_rate C pid w iss amount cap s = (ok, t)"
    and same: "get_token_rate (follow_rate C pid a b s) = get_token_rate t"
  show thesis
  proof (cases "w = v")
    case True
    obtain rate' where r': "get_token_rate t pid v = Some rate'" "rate_price C rate' \<le> price_cap C cap rate"
      using refresh_bounds [OF r [unfolded True] assms] by metis
    show ?thesis
      by (rule that [of rate'])
        (use r' can_refresh_cap [OF can] True in \<open>simp only: same, simp\<close>)
  next
    case False
    have "get_token_rate t pid v = Some rate"
      using refresh_elsewhere [OF r, of pid v] False assms by simp
    then show ?thesis by (intro that [of rate]) (simp only: same, simp)
  qed
qed (use that assms in auto)

lemma follow_rate_elsewhere:
  assumes "pid' \<noteq> pid"
  shows "get_token_rate (follow_rate C pid a b s) pid' c = get_token_rate s pid' c"
  using follow_rate_cases [of C pid a b s] assms refresh_elsewhere by fastforce

lemma swap_rates:
  assumes "on_swap C who pid i j amount least s0 = Inr s'"
  obtains t a b where "s' = follow_rate C pid a b t" and "get_token_rate t = get_token_rate s0"
    and "rate_hardcap t = rate_hardcap s0"
  using assms
proof (rule on_swap_cases)
  fix p0 token_in token_out p s dx r out u asset_i asset_j s1 s2 p' s3 e
  assume y: "collect_yield C pid p0 s0 = Inr (p, s)"
    and t: "sa_transfer C asset_i who (pool_account p) amount s = Inr s1"
      "sa_transfer C asset_j (pool_account p) who out s1 = Inr s2"
    and f: "collect_fee C pid p s2 = Inr (p', s3)"
    and s': "Inr (follow_rate C pid token_in token_out (emit_stable e (insert_pool C pid p' s3))) =
           (Inr s' :: 'a stable_state stable_result)"
  have c: "same_chain s0 s3"
    using yield_chain [OF y] t [THEN coin_chains(1)] collect_fee_chain [OF f]
    by (blast intro: same_chain_trans)
  show thesis
  proof (rule that)
    show "s' = follow_rate C pid token_in token_out (emit_stable e (insert_pool C pid p' s3))" using s' by simp
    show "get_token_rate (emit_stable e (insert_pool C pid p' s3)) = get_token_rate s0"
      by (simp only: get_token_rate_emit insert_pool_rate same_chain_rates [OF c])
    show "rate_hardcap (emit_stable e (insert_pool C pid p' s3)) = rate_hardcap s0"
      using c by (simp only: stable_emit_simps insert_simps same_chain_def)
  qed
qed

section \<open>What a proportional redemption leaves\<close>

lemma proportion_fair:
  assumes "mul_div b n d = Some diff" and "n \<le> d"
  shows "b * (d - n) \<le> (b - diff) * d"
proof -
  have "diff * d \<le> b * n" using assms(1) by (auto simp: mul_div_Some)
  moreover have "(b - diff) * d = b * d - diff * d" "b * (d - n) = b * d - b * n"
    by (simp_all add: diff_mult_distrib diff_mult_distrib2)
  ultimately show ?thesis by simp
qed

end
