(* ===== verification/Stable_Staking.thy ===== *)
theory Stable_Staking
  imports Stable_Quotes
begin

text \<open>
  The stable pools as the runtime of \<open>bifrost-polkadot\<close> configures them: on the currencies the liquid staking
  pallet issues its vTokens on, with that pallet as the source of the exchange rate. The state outside of the
  pools is the state of the liquid staking pallet, so that a run may interleave both.
\<close>

section \<open>The runtime's configuration\<close>

definition on_outside :: "('l \<Rightarrow> nat + 'l) \<Rightarrow> 'l minting_state \<Rightarrow> nat + 'l minting_state" where
  "on_outside f s = (case f (outside s) of Inl e \<Rightarrow> Inl e | Inr l \<Rightarrow> Inr (s\<lparr>outside := l\<rparr>))"

definition staking_currencies :: "'l minting_config \<Rightarrow> 'l minting_state currency_ops" where
  "staking_currencies M = \<lparr>mc_free = (\<lambda>s. mc_free (mt_currencies M) (outside s)),
     mc_transfer = (\<lambda>c a b n. on_outside (mc_transfer (mt_currencies M) c a b n))\<rparr>"

text \<open>
  The accounts derived from the pallet id, the storage hashes, the origins and the registration of metadata
  stay parameters.
\<close>

definition runtime_stable_config ::
  "'l minting_config \<Rightarrow> (origin \<Rightarrow> bool) \<Rightarrow> (nat \<Rightarrow> account) \<Rightarrow> account \<Rightarrow> (nat \<Rightarrow> nat) \<Rightarrow> (currency \<Rightarrow> nat) \<Rightarrow>
     (nat \<Rightarrow> nat \<Rightarrow> 'l \<Rightarrow> nat + 'l) \<Rightarrow> 'l minting_state stable_config" where
  "runtime_stable_config M tech_admin_or_root sub main phash rhash register = \<lparr>
     sa_currencies = staking_currencies M,
     sa_deposit = (\<lambda>c a n. on_outside (mt_deposit M c a n)),
     sa_withdraw = (\<lambda>c a n. on_outside (mt_withdraw M c a n)),
     fee_precision = 10 ^ 10, swap_exact_over_amount = 100, a_precision = 100, pool_asset_limit = 5,
     listing_origin = tech_admin_or_root, valid_pool_asset = (\<lambda>_. True),
     sub_account = sub, main_account = main, pool_hash = phash, rate_hash = rhash,
     pool_control_origin = tech_admin_or_root,
     register_blp_metadata = (\<lambda>pid digits. on_outside (register pid digits)),
     staked_issuance = (\<lambda>s v. case get_v_currency_issuance_inner s v of Inl _ \<Rightarrow> None | Inr n \<Rightarrow> Some n),
     staked_pool = operator_token_pool,
     permill_times = perm_times M\<rparr>"

lemma on_outside_Inr [result_simps]:
  "on_outside f s = Inr s' \<longleftrightarrow> (\<exists>l. f (outside s) = Inr l \<and> s' = s\<lparr>outside := l\<rparr>)"
  by (auto simp: on_outside_def split: sum.splits)

lemma runtime_stable_simps [simp]:
  "sa_currencies (runtime_stable_config M o1 sub main phash rhash reg) = staking_currencies M"
  "sa_deposit (runtime_stable_config M o1 sub main phash rhash reg) = (\<lambda>c a n. on_outside (mt_deposit M c a n))"
  "sa_withdraw (runtime_stable_config M o1 sub main phash rhash reg) = (\<lambda>c a n. on_outside (mt_withdraw M c a n))"
  "fee_precision (runtime_stable_config M o1 sub main phash rhash reg) = 10000000000"
  "swap_exact_over_amount (runtime_stable_config M o1 sub main phash rhash reg) = 100"
  "a_precision (runtime_stable_config M o1 sub main phash rhash reg) = 100"
  "pool_asset_limit (runtime_stable_config M o1 sub main phash rhash reg) = 5"
  "listing_origin (runtime_stable_config M o1 sub main phash rhash reg) = o1"
  "sub_account (runtime_stable_config M o1 sub main phash rhash reg) = sub"
  "main_account (runtime_stable_config M o1 sub main phash rhash reg) = main"
  "pool_hash (runtime_stable_config M o1 sub main phash rhash reg) = phash"
  "rate_hash (runtime_stable_config M o1 sub main phash rhash reg) = rhash"
  "pool_control_origin (runtime_stable_config M o1 sub main phash rhash reg) = o1"
  "register_blp_metadata (runtime_stable_config M o1 sub main phash rhash reg) =
     (\<lambda>pid digits. on_outside (reg pid digits))"
  "staked_issuance (runtime_stable_config M o1 sub main phash rhash reg) =
     (\<lambda>s v. case get_v_currency_issuance_inner s v of Inl _ \<Rightarrow> None | Inr n \<Rightarrow> Some n)"
  "staked_pool (runtime_stable_config M o1 sub main phash rhash reg) = operator_token_pool"
  "permill_times (runtime_stable_config M o1 sub main phash rhash reg) = perm_times M"
  by (simp_all add: runtime_stable_config_def)

section \<open>The ledger of staking is a ledger for pools\<close>

lemma staking_multi_currency:
  assumes "multi_currency (mt_currencies M)"
  shows "multi_currency (staking_currencies M)"
  by unfold_locales
    (auto simp: staking_currencies_def result_simps dest: multi_currency.transfer_self [OF assms]
      multi_currency.transfer_enough [OF assms] multi_currency.transfer_moves [OF assms])

sublocale staking_ledger \<subseteq> pools: pool_ledger "runtime_stable_config C o1 sub main phash rhash reg"
  for o1 sub main phash rhash reg
  by (rule pool_ledger.intro, simp add: staking_multi_currency [OF currency])
    (auto simp: staking_currencies_def result_simps deposit_adds withdraw_takes dest: withdraw_enough)

text \<open>Hence the pools of the runtime have a lawful ledger whenever liquid staking has one.\<close>

context staking_ledger
begin

lemma runtime_pool_ledger: "pool_ledger (runtime_stable_config C o1 sub main phash rhash reg)"
  by unfold_locales

end

end
