(* ===== verification/Stable_Demo.thy ===== *)
theory Stable_Demo
  imports Stable_Staking Minting_Demo
begin

text \<open>
  A run of the stable pools over the liquid staking pallet, for the witnesses: the root opens a pool of a
  token and its vToken and sets their rates, account 1 deposits both, account 2 swaps. Account 200 holds the
  assets of pool 0; 90 and 91 receive fees and yield.
\<close>

section \<open>Parameters\<close>

abbreviation dot :: currency where "dot \<equiv> Token2 0"

abbreviation vdot :: currency where "vdot \<equiv> VToken2 0"

definition demo_stable :: "balances minting_state stable_config" where
  "demo_stable = runtime_stable_config std_minting (\<lambda>o1. o1 = Root) (\<lambda>pid. 200 + pid) 299 (\<lambda>_. 0)
     (\<lambda>c. if c = dot then 0 else 1)
     (\<lambda>pid digits l. Inr l)"

lemma demo_stable_simps:
  "sa_currencies demo_stable = staking_currencies std_minting"
  "sa_deposit demo_stable = (\<lambda>c a n. on_outside (std_deposit c a n))"
  "sa_withdraw demo_stable = (\<lambda>c a n. on_outside (std_withdraw c a n))"
  "fee_precision demo_stable = 10000000000" "swap_exact_over_amount demo_stable = 100"
  "a_precision demo_stable = 100" "pool_asset_limit demo_stable = 5"
  "listing_origin demo_stable = (\<lambda>o1. o1 = Root)" "sub_account demo_stable = (\<lambda>pid. 200 + pid)"
  "main_account demo_stable = 299" "pool_hash demo_stable = (\<lambda>_. 0)" "rate_hash demo_stable = (\<lambda>c. if c = dot then 0 else 1)"
  "pool_control_origin demo_stable = (\<lambda>o1. o1 = Root)"
  "register_blp_metadata demo_stable = (\<lambda>pid digits. on_outside Inr)"
  "staked_issuance demo_stable =
     (\<lambda>s v. case get_v_currency_issuance_inner s v of Inl _ \<Rightarrow> None | Inr n \<Rightarrow> Some n)"
  "staked_pool demo_stable = operator_token_pool"
  "permill_times demo_stable = (\<lambda>m n. m * n div perm_one)"
  by (simp_all add: demo_stable_def std_minting_simps)

lemma demo_pool_ledger: "pool_ledger demo_stable"
  unfolding demo_stable_def by (rule staking_ledger.runtime_pool_ledger [OF std_staking_ledger])

interpretation demo: pool_ledger demo_stable
  by (rule demo_pool_ledger)

section \<open>States\<close>

definition pool_cash :: balances where
  "pool_cash = (\<lambda>_ _. 0)(dot := (\<lambda>_. 0)(1 := 300000, 2 := 50000), vdot := (\<lambda>_. 0)(1 := 200000))"

definition demo_stake :: "balances \<Rightarrow> balances minting_state" where
  "demo_stake l = (initial_minting l)\<lparr>vtoken_issuance := (\<lambda>_. 0)(vdot := 1000000),
     token_pool := (\<lambda>_. 0)(vdot := 1150000), token_to_vtoken_map := [dot \<mapsto> vdot]\<rparr>"

abbreviation demo_genesis :: "balances minting_state stable_state" where
  "demo_genesis \<equiv> initial_stable 10 (demo_stake pool_cash)"

definition demo_pool :: "nat \<Rightarrow> nat list \<Rightarrow> stable_pool" where
  "demo_pool n bs = \<lparr>pool_id = 0, pool_asset = BLP 0, pool_assets = [dot, vdot], pool_precisions = [1, 1],
     mint_fee = 0, swap_fee = 10000000, redeem_fee = 50000000, lp_supply = n, amp = 10000, amp_block = 10,
     future_amp = 10000, future_amp_block = 10, pool_balances = bs, fee_recipient = 90,
     pool_account = 200, yield_recipient = 91, pool_precision = 1000000000000\<rparr>"

definition demo_pool_rates :: "nat \<Rightarrow> (currency \<times> nat \<times> nat) list" where
  "demo_pool_rates = (\<lambda>_. [])(0 := [(dot, 1, 1), (vdot, 10, 11)])"

definition demo_open :: "balances minting_state stable_state" where
  "demo_open = demo_genesis\<lparr>pool_count := 1, pools := [(0, demo_pool 0 [0, 0])], token_rates := demo_pool_rates,
     rate_hardcap := [vdot \<mapsto> 100000], providers := (\<lambda>_. 0)(200 := 1),
     stable_events := [TokenRateHardcapConfigured vdot 100000, TokenRateSet 0 [(dot, 1, 1), (vdot, 10, 11)],
       CreatePool 0 10000 200 299]\<rparr>"

definition demo_opening :: "(origin \<times> stable_call) list" where
  "demo_opening = [
     (Root, CallCreatePool [dot, vdot] [1, 1] 0 10000000 50000000 10000 90 91 1000000000000),
     (Root, CallEditTokenRate 0 [(dot, 1, 1), (vdot, 10, 11)]),
     (Root, CallConfigAutoRefresh vdot 100000)]"

text \<open>A run that fails when one of its calls fails.\<close>

definition stable_play ::
  "(origin \<times> stable_call) list \<Rightarrow> balances minting_state stable_state \<Rightarrow>
     balances minting_state stable_state stable_result" where
  "stable_play = rfold (\<lambda>(o1, call). dispatch demo_stable o1 call)"

lemma play_reachable:
  assumes "stable_play calls s = Inr t" and "stable_reachable demo_stable s"
  shows "stable_reachable demo_stable t"
  using assms(1) unfolding stable_play_def
proof (rule rfold_invariant [where P = "stable_reachable demo_stable"])
  show "stable_reachable demo_stable s" by (rule assms(2))
  fix c and u v :: "balances minting_state stable_state"
  assume u: "stable_reachable demo_stable u" and "(\<lambda>(o1, call). dispatch demo_stable o1 call) c u = Inr v"
  then have "dispatch demo_stable (fst c) (snd c) u = Inr v" by (cases c) simp
  with u show "stable_reachable demo_stable v" by (rule stable_reachable.step [OF _ stable_step.call])
qed

lemma newton_unfold:
  "newton 0 step d = Some d"
  "newton (numeral k) step d = Option.bind (step d) (\<lambda>d'.
     if close_to d' d then Some d' else newton (pred_numeral k) step d')"
  by (simp_all add: numeral_eq_Suc)

lemmas pool_number_unfold = checked_add_def checked_sub_def checked_mul_def checked_div_def chk_def u128_max_def
  u32_max_def uint256_max_def u512_max_def wide_add_def wide_mul_def mul_div_def Let_def

lemmas newton_numbers = newton_unfold close_to_def iterations_to_converge_def d_step_def get_d_def
  y_coefficients_def y_step_def get_y_def

lemmas amount_unfold = pool_number_unfold math_def ok_or_def ensure_def get_a_def at_def get_or_def amp_now_def
  fee_of_def calculate_scaling_def

lemma demo_opening_run: "stable_play demo_opening demo_genesis = Inr demo_open"
  by (simp add: stable_play_def demo_opening_def demo_open_def initial_stable_def pool_create_pool_def
      create_pool_def edit_token_rate_def set_token_rate_def config_vtoken_auto_refresh_def pool_control_def
      demo_stable_simps ensure_def ok_or_def Let_def checked_ilog10_def ilog10.simps on_coins_def on_outside_def
      find_pool_def insert_pool_def chk_def u32_max_def emit_stable_def sm_put.simps sm_before_def demo_pool_def demo_pool_rates_def)

text \<open>Account 1 deposits 110000 and 100000 (worth 110000), account 2 swaps 10000 of the token.\<close>

definition demo_filled :: "balances minting_state stable_state" where
  "demo_filled = demo_open\<lparr>
     pools := [(0, demo_pool 220000 [110000, 110000])],
     coins := demo_stake ((\<lambda>_ _. 0)(dot := (\<lambda>_. 0)(1 := 190000, 2 := 50000, 200 := 110000),
       vdot := (\<lambda>_. 0)(1 := 100000, 200 := 100000), BLP 0 := (\<lambda>_. 0)(1 := 220000))),
     stable_events := [LiquidityAdded 1 0 10000 [110000, 100000] 0 [110000, 110000] 220000 0 220000,
       BalanceUpdated 0 [0, 0] [0, 0]] @ stable_events demo_open\<rparr>"

lemmas operation_unfold = mint_inner_def the_pool_def find_pool_def scale_all_def upscale_def downscale_def
  get_token_rate_def collect_yield_def update_balance_def get_balance_update_amount_def asset_value_def
  get_collect_yield_amount_def refreshed_def get_mint_amount_def balance_after_deposit_def deposit_one_def
  collect_fee_def get_pending_fee_amount_def on_swap_def get_swap_amount_def sa_free_def sa_transfer_def
  sa_mint_to_def sa_burn_from_def on_coins_def on_outside_def staking_currencies_def std_currency_def
  std_transfer_def std_deposit_def std_withdraw_def insert_pool_def emit_stable_def sm_put.simps sm_before_def

lemmas pool_demo_unfold = demo_stable_simps std_minting_simps demo_pool_def demo_pool_rates_def demo_stake_def
  initial_stable_def initial_minting_def

lemma demo_numbers:
  "get_d 100 [0, 0] 10000 = Some 0" "get_d 100 [110000, 110000] 10000 = Some 220000"
  "get_y 100 [120000, 110000] (Suc 0) 220000 10000 = Some 100004"
  "get_d 100 [120000, 100014] 10000 = Some 220009"
  by (simp_all add: pool_number_unfold newton_numbers)

lemma demo_filled_run:
  "dispatch demo_stable (Signed 1) (CallAddLiquidity 0 [110000, 100000] 0) demo_open = Inr demo_filled"
  by (simp add: pool_add_liquidity_def operation_unfold amount_unfold demo_numbers pool_demo_unfold demo_open_def
      demo_filled_def pool_cash_def upt_rec fun_eq_iff)

definition demo_swapped :: "balances minting_state stable_state" where
  "demo_swapped = demo_filled\<lparr>
     pools := [(0, demo_pool 220009 [120000, 100014])],
     token_rates := (\<lambda>_. [])(0 := [(dot, 1, 1), (vdot, 1000000, 1150000)]),
     coins := demo_stake ((\<lambda>_ _. 0)(dot := (\<lambda>_. 0)(1 := 190000, 2 := 40000, 200 := 120000),
       vdot := (\<lambda>_. 0)(1 := 100000, 2 := 9078, 200 := 90922),
       BLP 0 := (\<lambda>_. 0)(1 := 220000, 90 := 9))),
     stable_events := [TokenRateSet 0 [(dot, 1, 1), (vdot, 1000000, 1150000)],
       TokenSwapped 2 0 10000 dot vdot 10000 0 [120000, 100014] 220009 9078,
       FeeCollected 0 10000 [110000, 110000] [120000, 100014] 220000 220009 90 9,
       BalanceUpdated 0 [110000, 110000] [110000, 110000]] @ stable_events demo_filled\<rparr>"

lemmas follow_unfold = follow_rate_def ensure_can_refresh_def refresh_token_rate_def refresh_prices_def
  adjusted_pool_amount_def try_set_token_rate_def set_token_rate_def convertible_def
  operator_token_pool_def get_vtoken_for_token_def get_v_currency_issuance_inner_def perm_one_def

lemma demo_swapped_run:
  "dispatch demo_stable (Signed 2) (CallSwap 0 0 1 10000 0) demo_filled = Inr demo_swapped"
  by (simp add: user_swap_def operation_unfold amount_unfold demo_numbers pool_demo_unfold follow_unfold
      demo_open_def demo_filled_def demo_swapped_def pool_cash_def upt_rec fun_eq_iff)

lemma demo_reachable: "stable_reachable demo_stable demo_swapped"
proof -
  have "stable_reachable demo_stable demo_open"
    using demo_opening_run stable_reachable.genesis by (rule play_reachable)
  then show ?thesis
    by (intro stable_reachable.step [OF stable_reachable.step [OF _ stable_step.call [OF demo_filled_run]]
          stable_step.call [OF demo_swapped_run]])
qed

section \<open>The pool of the run\<close>

lemma demo_pool_simps [simp]:
  "pool_id (demo_pool n bs) = 0" "pool_asset (demo_pool n bs) = BLP 0" "pool_assets (demo_pool n bs) = [dot, vdot]"
  "pool_precisions (demo_pool n bs) = [1, 1]" "mint_fee (demo_pool n bs) = 0" "swap_fee (demo_pool n bs) = 10000000"
  "redeem_fee (demo_pool n bs) = 50000000" "lp_supply (demo_pool n bs) = n" "amp (demo_pool n bs) = 10000"
  "amp_block (demo_pool n bs) = 10" "future_amp (demo_pool n bs) = 10000" "future_amp_block (demo_pool n bs) = 10"
  "pool_balances (demo_pool n bs) = bs" "fee_recipient (demo_pool n bs) = 90" "pool_account (demo_pool n bs) = 200"
  "yield_recipient (demo_pool n bs) = 91"
  by (simp_all add: demo_pool_def)

lemma demo_finds [simp]:
  "find_pool demo_open pid = (if pid = 0 then Some (demo_pool 0 [0, 0]) else None)"
  "find_pool demo_filled pid = (if pid = 0 then Some (demo_pool 220000 [110000, 110000]) else None)"
  "find_pool demo_swapped pid = (if pid = 0 then Some (demo_pool 220009 [120000, 100014]) else None)"
  by (simp_all add: find_pool_def demo_open_def demo_filled_def demo_swapped_def)

lemma pool_demo_free [simp]:
  "sa_free demo_stable demo_open = pool_cash"
  "sa_free demo_stable demo_filled = (\<lambda>_ _. 0)(dot := (\<lambda>_. 0)(1 := 190000, 2 := 50000, 200 := 110000),
       vdot := (\<lambda>_. 0)(1 := 100000, 200 := 100000), BLP 0 := (\<lambda>_. 0)(1 := 220000))"
  "sa_free demo_stable demo_swapped = (\<lambda>_ _. 0)(dot := (\<lambda>_. 0)(1 := 190000, 2 := 40000, 200 := 120000),
       vdot := (\<lambda>_. 0)(1 := 100000, 2 := 9078, 200 := 90922), BLP 0 := (\<lambda>_. 0)(1 := 220000, 90 := 9))"
  by (simp_all add: sa_free_def demo_stable_simps staking_currencies_def std_minting_simps std_currency_def
      demo_open_def demo_filled_def demo_swapped_def demo_stake_def initial_stable_def initial_minting_def)

section \<open>Pools that answer nobody\<close>

text \<open>The root takes the rate back and lowers the coefficient until block 20.\<close>

definition low_pool :: "nat \<Rightarrow> nat list \<Rightarrow> stable_pool" where
  "low_pool n bs = (demo_pool n bs)\<lparr>future_amp := 5000, future_amp_block := 20\<rparr>"

definition demo_lowered :: "balances minting_state stable_state" where
  "demo_lowered = demo_swapped\<lparr>pools := [(0, low_pool 220009 [120000, 100014])], token_rates := demo_pool_rates,
     stable_events := [AModified 0 5000 20, TokenRateSet 0 [(dot, 1, 1), (vdot, 10, 11)]] @ stable_events demo_swapped\<rparr>"

lemma demo_lowered_run:
  "stable_play [(Root, CallEditTokenRate 0 [(vdot, 10, 11)]), (Root, CallModifyA 0 5000 20)] demo_swapped =
     Inr demo_lowered"
  by (simp add: stable_play_def edit_token_rate_def set_token_rate_def pool_modify_a_def modify_a_def
      modify_a_body_def mutate_pool_def pool_control_def find_pool_def insert_pool_def emit_stable_def
      demo_stable_simps amount_unfold sm_put.simps sm_before_def demo_lowered_def demo_swapped_def demo_filled_def
      demo_open_def low_pool_def demo_pool_def demo_pool_rates_def initial_stable_def)

definition demo_frozen :: "balances minting_state stable_state" where
  "demo_frozen = demo_lowered\<lparr>coins := coins demo_lowered, block_now := 20\<rparr>"

lemma demo_frozen_reachable: "stable_reachable demo_stable demo_frozen"
  unfolding demo_frozen_def
  by (rule stable_reachable.step [OF play_reachable [OF demo_lowered_run demo_reachable] stable_step.chain])

lemma demo_frozen_value:
  "refreshed demo_stable demo_frozen (low_pool 220009 [120000, 100014]) = Inr (low_pool 220004 [120000, 100014])"
proof -
  have "get_d 100 [120000, 100014] 5000 = Some 220004" by (simp add: pool_number_unfold newton_numbers)
  then show ?thesis
    by (simp add: operation_unfold amount_unfold pool_demo_unfold demo_open_def demo_filled_def demo_swapped_def
        demo_lowered_def demo_frozen_def low_pool_def upt_rec)
qed

lemma demo_frozen_pool: "find_pool demo_frozen 0 = Some (low_pool 220009 [120000, 100014])"
  by (simp add: find_pool_def demo_frozen_def demo_lowered_def)

text \<open>Someone sends five units of the token to the account of the empty pool.\<close>

definition demo_donated :: "balances minting_state stable_state" where
  "demo_donated = demo_open\<lparr>coins := demo_stake (pool_cash(dot := (\<lambda>_. 0)(1 := 300000, 2 := 49995, 200 := 5))),
     block_now := 11\<rparr>"

lemma demo_donated_reachable: "stable_reachable demo_stable demo_donated"
  unfolding demo_donated_def
  by (rule stable_reachable.step [OF play_reachable [OF demo_opening_run stable_reachable.genesis] stable_step.chain])

lemma demo_donated_values:
  "asset_value demo_stable demo_donated (demo_pool 0 [0, 0]) 1 = Inr 0"
  "asset_value demo_stable demo_donated (demo_pool 0 [0, 0]) 0 = Inr (Suc 4)"
  by (simp_all add: operation_unfold amount_unfold pool_demo_unfold demo_open_def demo_donated_def pool_cash_def)

end
