(* ===== verification/Stable_Props.thy ===== *)
theory Stable_Props
  imports Stable_Frozen Stable_Demo
begin

text \<open>
  The properties of the stable pools: the two Newton iterations against the equations they solve, that no call
  panics, the pool tokens against the recorded supply, quotes against operations, the curve under swaps, and
  the states in which a pool answers nobody.
\<close>

section \<open>The numbers\<close>

text \<open>
  C7. The balance \<open>get_y\<close> computes agrees with its reference definition up to the rounding of the last rounds:
  let \<open>z\<close> be the least positive integer at which \<open>y * y + (b - D) * y - c\<close> is not negative, with the
  coefficients \<open>c\<close> and \<open>b\<close> of the pool; such a \<open>z\<close> exists, and the answer is at least \<open>z - 1\<close> and
  less than \<open>z + 4\<close>.
\<close>
theorem y_is_near_the_root:
  assumes "get_y ap balances i d a = Some y"
  shows "\<exists>c b z. y_coefficients ap balances i d a = Some (c, b) \<and> 1 \<le> z \<and>
    0 \<le> int z * int z + (int b - int d) * int z - int c \<and>
    (\<forall>x. 1 \<le> x \<and> x < z \<longrightarrow> int x * int x + (int b - int d) * int x - int c < 0) \<and>
    z \<le> y + 1 \<and> y < z + 4"
proof -
  obtain c b z where "y_coefficients ap balances i d a = Some (c, b)"
    and "y_root (int b - int d) (int c) z" and "z \<le> y + 1" and "y < z + 4"
    using get_y_root [OF assms] by metis
  then show ?thesis unfolding y_root_def y_poly_def by (intro exI [of _ c] exI [of _ b] exI [of _ z]) simp
qed

theorem y_is_near_the_root_witness:
  "get_y 100 [120000, 110000] (Suc 0) 220000 10000 = Some 100004 \<and>
   (\<exists>c b z. y_coefficients 100 [120000, 110000] (Suc 0) 220000 10000 = Some (c, b) \<and> 1 \<le> z \<and>
     0 \<le> int z * int z + (int b - 220000) * int z - int c \<and> z \<le> 100005 \<and> 100004 < z + 4)"
  using y_is_near_the_root [OF demo_numbers(3)] by (auto simp: demo_numbers)

text \<open>
  C12. The 255 rounds of \<open>get_y\<close> are enough, for every target of 128 bits and all coefficients: the loop leaves through
  its closeness test, or through an early return of the checked arithmetic, within them, so however many further
  rounds were allowed, its result and the answer of \<open>get_y\<close> would be the same. (Far from the root the distance
  halves, and close to a large root it is squared and divided by the root.)
\<close>
theorem y_loop_terminates:
  assumes "y_coefficients ap balances i d a = Some (c, b)" and "d \<le> u128_max"
  shows "newton_stops iterations_to_converge (y_step c b d) d \<and>
    newton (iterations_to_converge + k) (y_step c b d) d = newton iterations_to_converge (y_step c b d) d \<and>
    get_y ap balances i d a = Option.bind (newton (iterations_to_converge + k) (y_step c b d) d) (chk u128_max)"
proof -
  have "newton (iterations_to_converge + k) (y_step c b d) d = newton iterations_to_converge (y_step c b d) d"
    by (rule newton_stable [OF y_loop_stops [OF assms(2)]])
  then show ?thesis using y_loop_stops [OF assms(2)] by (simp add: get_y_def assms(1))
qed

theorem y_loop_terminates_witness:
  "y_coefficients 100 [120000, 110000] (Suc 0) 220000 10000 = Some (55458150, 120550) \<and>
   newton (iterations_to_converge + 1000) (y_step 55458150 120550 220000) 220000 = Some 100004"
proof -
  have c: "y_coefficients 100 [120000, 110000] (Suc 0) 220000 10000 = Some (55458150, 120550)"
    by (simp add: pool_number_unfold y_coefficients_def)
  have "newton iterations_to_converge (y_step 55458150 120550 220000) 220000 = Some 100004"
    by (simp add: pool_number_unfold newton_unfold close_to_def iterations_to_converge_def y_step_def)
  moreover have "newton (iterations_to_converge + 1000) (y_step 55458150 120550 220000) 220000 =
      newton iterations_to_converge (y_step 55458150 120550 220000) 220000"
    using y_loop_terminates [OF c, of 1000] by (simp add: u128_max_def)
  ultimately show ?thesis using c by simp
qed

text \<open>
  A pool that holds the same value \<open>x\<close> of each of its two to five assets is worth exactly \<open>n * x\<close>
  pool tokens, at every amplification that is not below the precision: \<open>get_d\<close> answers the sum of the
  balances, without rounding and without overflow, for sums up to \<open>u128::MAX\<close>.
\<close>
theorem balanced_pool_is_worth_its_sum:
  assumes "1 \<le> n" and "n \<le> 5" and "n * x \<le> u128_max" and "a \<le> u128_max"
    and "0 < ap" and "ap \<le> a * n ^ n"
  shows "get_d ap (replicate n x) a = Some (n * x)"
  using assms by (rule get_d_balanced)

theorem balanced_pool_is_worth_its_sum_witness:
  "get_d 100 (replicate 2 (2 ^ 127 - 1)) 10000 = Some (2 * (2 ^ 127 - 1))"
  by (rule balanced_pool_is_worth_its_sum) (simp_all add: u128_max_def)

section \<open>No panics\<close>

text \<open>
  C11. In every state the calls of the stable pool pallet reach, however the coins and the block change between
  them: no call panics (every index into the vectors of a pool is in range), the id the next pool gets is
  free, and each pool is stored under its own id with as many precisions and balances as assets.
\<close>
theorem pools_never_panic:
  assumes "stable_reachable C s"
  shows "dispatch C o1 call s \<noteq> Inl Panic \<and> find_pool s (pool_count s) = None \<and>
    (\<forall>pid p. find_pool s pid = Some p \<longrightarrow>
       pool_id p = pid \<and> pid < pool_count s \<and> length (pool_balances p) = length (pool_assets p) \<and>
       length (pool_precisions p) = length (pool_assets p))"
proof -
  have ok: "pools_ok s" using assms by (rule pools_ok_reachable)
  then have "find_pool s (pool_count s) = None" by (cases "find_pool s (pool_count s)") (auto simp: pools_ok_def)
  with ok calm_dispatch [OF ok] show ?thesis by (simp add: calm_def pools_ok_def pool_shape_def)
qed

theorem pools_never_panic_witness:
  "stable_reachable demo_stable demo_swapped \<and>
   dispatch demo_stable (Signed 1) (CallRedeemSingle 0 5 7 0 9) demo_swapped \<noteq> Inl Panic \<and>
   find_pool demo_swapped 0 \<noteq> None"
proof (intro conjI)
  show "dispatch demo_stable (Signed 1) (CallRedeemSingle 0 5 7 0 9) demo_swapped \<noteq> Inl Panic"
    using pools_never_panic [OF demo_reachable] by (rule conjunct1)
  show "find_pool demo_swapped 0 \<noteq> None" by (simp add: demo_swapped_def find_pool_def)
qed (rule demo_reachable)

section \<open>Pool tokens and quotes\<close>

text \<open>
  C4. Pool tokens cover the supply. Over a set of accounts that contains the users and the recipients of fees
  and yield, with every pool's token distinct from all assets and other pools' tokens: if at the start the
  tokens of each pool on these accounts are at least the supply the pool has recorded, they still are after
  any sequence of user calls, successful or not.
\<close>
theorem pool_tokens_cover_supply:
  assumes "pool_ledger C" and "lp_setup A s" and "lp_covered C A s" and "finite A"
    and "\<forall>x \<in> set calls. fst x \<in> A \<and> user_call (snd x)"
    and "find_pool (run_calls C calls s) pid = Some p"
  shows "lp_supply p \<le> sum (sa_free C (run_calls C calls s) (pool_asset p)) A"
  using pool_ledger.run_calls_covers [OF assms(1) _ assms(4,5)] assms(2,3,6) by (simp add: lp_covered_def)

theorem pool_tokens_cover_supply_witness:
  "run_calls demo_stable [(1, CallAddLiquidity 0 [110000, 100000] 0), (2, CallSwap 0 0 1 10000 0)] demo_open =
     demo_swapped \<and>
   220009 \<le> sum (sa_free demo_stable demo_swapped (BLP 0)) {1, 2, 90, 91, 200}"
proof -
  let ?A = "{1, 2, 90, 91, 200} :: account set" and ?calls = "[(1, CallAddLiquidity 0 [110000, 100000] 0), (2, CallSwap 0 0 1 10000 0)]"
  have run: "run_calls demo_stable ?calls demo_open = demo_swapped"
    using demo_filled_run demo_swapped_run by (simp add: run_calls_def apply_call_def)
  have "lp_setup ?A demo_open" by (simp add: lp_setup_def pool_parties_def)
  moreover have "lp_covered demo_stable ?A demo_open" by (simp add: lp_covered_def)
  ultimately have "220009 \<le> sum (sa_free demo_stable (run_calls demo_stable ?calls demo_open) (BLP 0)) ?A"
    using pool_tokens_cover_supply [OF demo_pool_ledger, of ?A demo_open ?calls 0 "demo_pool 220009 [120000, 100014]"] run
    by simp
  with run show ?thesis by simp
qed

text \<open>
  C8. A swap pays what was quoted. In any state, a swap through the stable pool pallet that succeeds pays
  exactly the amount \<open>get_swap_output\<close> answers in that state, which is at least the caller's minimum; the
  input goes from the caller to the pool's account, the output back, and no other balance of any currency but
  the pool's own token changes.
\<close>
theorem swap_pays_its_quote:
  assumes "pool_ledger C" and "user_swap C (Signed who) pid i j amount least s = Inr s'"
    and "find_pool s pid = Some p" and "pool_asset p \<notin> set (pool_assets p)"
  shows "\<exists>out. get_swap_output C s pid i j amount = Inr out \<and> least \<le> out \<and>
    (\<forall>c x. c \<noteq> pool_asset p \<longrightarrow>
       sa_free C s' c x + paid (pool_assets p ! i) who amount c x
         + paid (pool_assets p ! j) (pool_account p) out c x =
       sa_free C s c x + paid (pool_assets p ! i) (pool_account p) amount c x
         + paid (pool_assets p ! j) who out c x)"
proof -
  have "on_swap C who pid i j amount least s = Inr s'" using assms(2) by (simp add: user_swap_def)
  then obtain out where "get_swap_output C s pid i j amount = Inr out" "least \<le> out"
    and "\<And>c x. c \<noteq> pool_asset p \<Longrightarrow>
       sa_free C s' c x + paid (pool_assets p ! i) who amount c x
         + paid (pool_assets p ! j) (pool_account p) out c x =
       sa_free C s c x + paid (pool_assets p ! i) (pool_account p) amount c x
         + paid (pool_assets p ! j) who out c x"
    using pool_ledger.swap_exact [OF assms(1) _ assms(3,4)] by metis
  then show ?thesis by blast
qed

theorem swap_pays_its_quote_witness:
  "get_swap_output demo_stable demo_filled 0 0 1 10000 = Inr 9078 \<and>
   sa_free demo_stable demo_swapped vdot 2 = 9078"
proof -
  let ?p = "demo_pool 220000 [110000, 110000]"
  have "user_swap demo_stable (Signed 2) 0 0 1 10000 0 demo_filled = Inr demo_swapped"
    using demo_swapped_run by simp
  from swap_pays_its_quote [OF demo_pool_ledger this, of ?p] obtain out
    where out: "get_swap_output demo_stable demo_filled 0 0 1 10000 = Inr out"
    and "\<forall>c x. c \<noteq> pool_asset ?p \<longrightarrow>
       sa_free demo_stable demo_swapped c x + paid (pool_assets ?p ! 0) 2 10000 c x
         + paid (pool_assets ?p ! 1) (pool_account ?p) out c x =
       sa_free demo_stable demo_filled c x + paid (pool_assets ?p ! 0) (pool_account ?p) 10000 c x
         + paid (pool_assets ?p ! 1) 2 out c x"
    by (elim meta_impE exE conjE) (simp, simp, assumption)
  from this(2) [rule_format, of vdot 2] have "out = 9078" by (simp add: paid_def)
  with out show ?thesis by simp
qed

text \<open>
  A deposit mints what was quoted. Adding liquidity, when it succeeds, issues to the caller exactly the
  amount \<open>add_liquidity_amount\<close> answers in the same state, at least the caller's minimum; apart from it, only
  the recipients of fees and of yield receive any of the pool's token.
\<close>
theorem deposit_mints_its_quote:
  assumes "pool_ledger C" and "pool_add_liquidity C (Signed who) pid amounts least s = Inr s'"
    and "find_pool s pid = Some p" and "pool_asset p \<notin> set (pool_assets p)"
  shows "\<exists>n fee gain. add_liquidity_amount C s pid amounts = Inr n \<and> least \<le> n \<and>
    (\<forall>x. sa_free C s' (pool_asset p) x = sa_free C s (pool_asset p) x
       + (if x = who then n else 0) + (if x = fee_recipient p then fee else 0)
       + (if x = yield_recipient p then gain else 0))"
proof -
  have "mint_inner C who pid amounts least s = Inr s'" using assms(2) by (simp add: pool_add_liquidity_def)
  then obtain n fee gain where "add_liquidity_amount C s pid amounts = Inr n" "least \<le> n"
    and "\<And>x. sa_free C s' (pool_asset p) x = sa_free C s (pool_asset p) x
       + paid (pool_asset p) who n (pool_asset p) x
       + paid (pool_asset p) (fee_recipient p) fee (pool_asset p) x
       + paid (pool_asset p) (yield_recipient p) gain (pool_asset p) x"
    using pool_ledger.deposit_exact [OF assms(1) _ assms(3,4)] by metis
  then show ?thesis unfolding paid_def by (intro exI [of _ n] exI [of _ fee] exI [of _ gain]) simp
qed

theorem deposit_mints_its_quote_witness:
  "add_liquidity_amount demo_stable demo_open 0 [110000, 100000] = Inr 220000"
proof -
  have "pool_add_liquidity demo_stable (Signed 1) 0 [110000, 100000] 0 demo_open = Inr demo_filled"
    using demo_filled_run by simp
  from deposit_mints_its_quote [OF demo_pool_ledger this] obtain n fee gain
    where n: "add_liquidity_amount demo_stable demo_open 0 [110000, 100000] = Inr n"
    and "\<forall>x. sa_free demo_stable demo_filled (BLP 0) x = sa_free demo_stable demo_open (BLP 0) x
       + (if x = 1 then n else 0) + (if x = 90 then fee else 0) + (if x = 91 then gain else 0)"
    by fastforce
  from this(2) [THEN spec, of 1] have "n = 220000" by (simp add: pool_cash_def)
  with n show ?thesis by simp
qed

section \<open>Fairness\<close>

text \<open>
  C26. A swap leaves the pool strictly above its curve: with the pool refreshed to \<open>q\<close>, its invariant \<open>D\<close>
  and the coefficients \<open>c\<close>, \<open>b\<close> of the balances after the input, the balance \<open>v\<close> of the output asset
  that remains is positive and satisfies \<open>v * v + (b - D) * v > c\<close>. So no sequence of roundings in \<open>get_y\<close>
  pays out more than the invariant allows.
\<close>
theorem swap_stays_above_the_curve:
  assumes "get_swap_amount C s p i j dx = Inr r"
  shows "\<exists>q a c b. refreshed C s p = Inr q \<and> amp_now s p = Inr a \<and>
    y_coefficients (a_precision C)
      ((pool_balances q)[i := pool_balances q ! i + dx * pool_precisions q ! i]) j (lp_supply q) a = Some (c, b) \<and>
    sr_dy r * pool_precisions q ! j < pool_balances q ! j \<and>
    (let v = int (pool_balances q ! j - sr_dy r * pool_precisions q ! j)
     in int c < v * v + (int b - int (lp_supply q)) * v)"
  using assms
proof (rule swap_above_curve)
  fix q a c b
  assume "refreshed C s p = Inr q" "amp_now s p = Inr a"
    "y_coefficients (a_precision C)
      ((pool_balances q)[i := pool_balances q ! i + dx * pool_precisions q ! i]) j (lp_supply q) a = Some (c, b)"
    "sr_dy r * pool_precisions q ! j < pool_balances q ! j"
    "0 < y_poly (int b - int (lp_supply q)) (int c) (int (pool_balances q ! j - sr_dy r * pool_precisions q ! j))"
  then show ?thesis
    by (intro exI [of _ q] exI [of _ a] exI [of _ c] exI [of _ b]) (simp only: y_poly_def Let_def, simp)
qed

theorem swap_stays_above_the_curve_witness:
  "\<exists>q c b. refreshed demo_stable demo_filled (demo_pool 220000 [110000, 110000]) = Inr q \<and>
     9986 * pool_precisions q ! 1 < pool_balances q ! 1 \<and>
     (let v = int (pool_balances q ! 1 - 9986 * pool_precisions q ! 1)
      in int c < v * v + (int b - int (lp_supply q)) * v)"
proof -
  have "get_swap_amount demo_stable demo_filled (demo_pool 220000 [110000, 110000]) 0 1 10000 =
      Inr \<lparr>sr_dx = 10000, sr_dy = 9986, sr_y = 100004, sr_balance_i = 120000\<rparr>"
    by (simp add: operation_unfold amount_unfold demo_numbers pool_demo_unfold demo_open_def demo_filled_def
        pool_cash_def upt_rec fun_eq_iff)
  from swap_stays_above_the_curve [OF this] show ?thesis
    by (elim exE conjE) (intro exI conjI, assumption, simp_all only: swap_result.simps)
qed

text \<open>
  C27. A proportional redemption is fair to those who stay. With the pool refreshed to \<open>q\<close>: the fee and what
  is redeemed make up the amount; of each asset the pool pays at most the share of the redeemed tokens in the
  supply, and what remains per remaining pool token is not less than before.
\<close>
theorem proportional_redemption_is_fair:
  assumes "get_redeem_proportion_amount C s p amount = Inr r"
  shows "\<exists>q. refreshed C s p = Inr q \<and> rp_redeem_amount r + rp_fee_amount r = amount \<and>
    rp_total_supply r + rp_redeem_amount r = lp_supply q \<and>
    (\<forall>i < length (pool_balances q).
       rp_amounts r ! i * pool_precisions q ! i * lp_supply q \<le> pool_balances q ! i * rp_redeem_amount r \<and>
       rp_balances r ! i + rp_amounts r ! i * pool_precisions q ! i \<le> pool_balances q ! i \<and>
       pool_balances q ! i * rp_total_supply r \<le> rp_balances r ! i * lp_supply q)"
  using assms
proof (rule redeem_proportion_Inr)
  fix q
  assume q: "refreshed C s p = Inr q" "rp_redeem_amount r + rp_fee_amount r = amount"
    and sup: "rp_redeem_amount r \<le> lp_supply q" "rp_total_supply r = lp_supply q - rp_redeem_amount r"
    and part: "\<And>i. i < length (pool_balances q) \<Longrightarrow>
      proportion_of q (rp_redeem_amount r) i = Inr (rp_amounts r ! i, rp_balances r ! i)"
  have "rp_amounts r ! i * pool_precisions q ! i * lp_supply q \<le> pool_balances q ! i * rp_redeem_amount r \<and>
      rp_balances r ! i + rp_amounts r ! i * pool_precisions q ! i \<le> pool_balances q ! i \<and>
      pool_balances q ! i * rp_total_supply r \<le> rp_balances r ! i * lp_supply q"
    if "i < length (pool_balances q)" for i
    using part [OF that]
  proof (rule proportion_of_Inr)
    fix diff
    assume d: "mul_div (pool_balances q ! i) (rp_redeem_amount r) (lp_supply q) = Some diff"
      "diff \<le> pool_balances q ! i" "rp_balances r ! i = pool_balances q ! i - diff"
      "rp_amounts r ! i = diff div pool_precisions q ! i"
    have le: "rp_amounts r ! i * pool_precisions q ! i \<le> diff" by (simp add: d(4))
    have "diff * lp_supply q \<le> pool_balances q ! i * rp_redeem_amount r" using d(1) by (auto simp: mul_div_Some)
    with mult_le_mono1 [OF le, of "lp_supply q"]
    have "rp_amounts r ! i * pool_precisions q ! i * lp_supply q \<le> pool_balances q ! i * rp_redeem_amount r"
      by (rule le_trans)
    then show ?thesis using proportion_fair [OF d(1) sup(1)] le d(2,3) sup(2) by (intro conjI) simp_all
  qed
  with q sup show ?thesis by (intro exI [of _ q]) simp
qed

theorem proportional_redemption_is_fair_witness:
  "\<exists>q. refreshed demo_stable demo_filled (demo_pool 220000 [110000, 110000]) = Inr q \<and> lp_supply q = 220000 \<and>
     (\<forall>i < length (pool_balances q). pool_balances q ! i * 210050 \<le> [105025, 105025] ! i * lp_supply q)"
proof -
  have "get_redeem_proportion_amount demo_stable demo_filled (demo_pool 220000 [110000, 110000]) 10000 =
      Inr \<lparr>rp_amounts = [4975, 4975], rp_balances = [105025, 105025], rp_fee_amount = 50,
           rp_total_supply = 210050, rp_redeem_amount = 9950\<rparr>"
    by (simp add: get_redeem_proportion_amount_def redeem_fee_split_def proportion_of_def operation_unfold
        amount_unfold demo_numbers pool_demo_unfold demo_open_def demo_filled_def pool_cash_def upt_rec fun_eq_iff)
  from proportional_redemption_is_fair [OF this] show ?thesis
    by (elim exE conjE) (intro exI conjI, assumption, simp_all)
qed

section \<open>Pools that answer nobody\<close>

text \<open>
  C29. A pool whose value has fallen below its recorded supply is frozen: when the refreshed invariant of a
  pool is lower than the supply it has stored, every deposit, swap and redemption on it fails, in every state
  that keeps it so. The root can bring this about by lowering the amplification of a lopsided pool.
\<close>
theorem fallen_pool_is_frozen:
  assumes "find_pool s (called_pool call) = Some p" and "refreshed C s p = Inr q"
    and "lp_supply q < lp_supply p" and "user_call call"
  shows "\<exists>e. dispatch C (Signed who) call s = Inl e"
proof (cases "dispatch C (Signed who) call s")
  case (Inr s')
  then obtain q' where "refreshed C s p = Inr q'" "lp_supply p \<le> lp_supply q'"
    using assms(4,1) by (rule user_call_needs_value)
  with assms(2,3) show ?thesis by simp
qed simp

theorem fallen_pool_is_frozen_witness:
  "stable_reachable demo_stable demo_frozen \<and>
   (\<exists>e. dispatch demo_stable (Signed 1) (CallRedeemProportion 0 1000 [0, 0]) demo_frozen = Inl e)"
  using fallen_pool_is_frozen [of demo_frozen "CallRedeemProportion 0 1000 [0, 0]", OF _ demo_frozen_value, where who = 1]
    demo_frozen_reachable demo_frozen_pool
  by (simp add: low_pool_def del: dispatch.simps)

text \<open>
  C34. A pool that holds something, but nothing of one of its assets, answers no user call either: its invariant
  divides by every balance. In particular, whoever sends one of its assets to the account of an empty pool
  blocks the first deposit into it.
\<close>
theorem lopsided_pool_is_blocked:
  assumes "find_pool s (called_pool call) = Some p" and "i < length (pool_balances p)" and "j < length (pool_balances p)"
    and "asset_value C s p i = Inr 0" and "asset_value C s p j = Inr (Suc n)" and "user_call call"
  shows "\<exists>e. dispatch C (Signed who) call s = Inl e"
proof (cases "dispatch C (Signed who) call s")
  case (Inr s')
  then show ?thesis
    using user_call_needs_value [OF Inr assms(6,1)] empty_asset_no_value [OF assms(4,5,2,3)] by blast
qed simp

theorem lopsided_pool_is_blocked_witness:
  "stable_reachable demo_stable demo_donated \<and>
   (\<exists>e. dispatch demo_stable (Signed 1) (CallAddLiquidity 0 [110000, 100000] 0) demo_donated = Inl e)"
proof -
  have "find_pool demo_donated (called_pool (CallAddLiquidity 0 [110000, 100000] 0)) = Some (demo_pool 0 [0, 0])"
    by (simp add: find_pool_def demo_donated_def demo_open_def)
  from lopsided_pool_is_blocked [OF this _ _ demo_donated_values, of 1] show ?thesis
    using demo_donated_reachable by (simp del: dispatch.simps)
qed

section \<open>Rates and coefficients\<close>

text \<open>
  C33. A swap raises a token rate only within its cap: after any swap that succeeds every token with a rate in a
  pool still has one, and a rate that has changed is that of one of the two swapped pool's vTokens with a
  configured cap, now priced at most the cap above the old price. Rates of other pools stay.
\<close>
theorem rate_follows_within_its_cap:
  assumes "user_swap C o1 pid i j amount least s = Inr s'" and "get_token_rate s pid' v = Some rate"
  shows "\<exists>rate'. get_token_rate s' pid' v = Some rate' \<and>
    (rate' \<noteq> rate \<longrightarrow> pid' = pid \<and>
       (\<exists>cap. rate_hardcap s v = Some cap \<and> rate_price C rate' \<le> price_cap C cap rate))"
proof -
  obtain who where "on_swap C who pid i j amount least s = Inr s'"
    using assms(1) by (auto simp: user_swap_def rbind_eq_Inr)
  then obtain t a b where s': "s' = follow_rate C pid a b t" and t: "get_token_rate t = get_token_rate s"
    "rate_hardcap t = rate_hardcap s" by (rule swap_rates)
  show ?thesis
  proof (cases "pid' = pid")
    case True
    have "get_token_rate t pid v = Some rate" using assms(2) True t by simp
    then obtain rate' where "get_token_rate s' pid v = Some rate'"
      "rate' = rate \<or> v \<in> {a, b} \<and> (\<exists>cap. rate_hardcap t v = Some cap \<and> rate_price C rate' \<le> price_cap C cap rate)"
      unfolding s' by (rule follow_rate_bounds)
    with True t show ?thesis by auto
  next
    case False
    then have "get_token_rate s' pid' v = Some rate" by (simp add: s' follow_rate_elsewhere t assms(2))
    then show ?thesis by simp
  qed
qed

theorem rate_follows_within_its_cap_witness:
  "get_token_rate demo_filled 0 vdot = Some (10, 11) \<and>
   get_token_rate demo_swapped 0 vdot = Some (1000000, 1150000) \<and>
   (\<exists>cap. rate_hardcap demo_filled vdot = Some cap \<and>
      rate_price demo_stable (1000000, 1150000) \<le> price_cap demo_stable cap (10, 11))"
proof -
  have run: "user_swap demo_stable (Signed 2) 0 0 1 10000 0 demo_filled = Inr demo_swapped"
    using demo_swapped_run by simp
  have old: "get_token_rate demo_filled 0 vdot = Some (10, 11)"
    by (simp add: get_token_rate_def demo_filled_def demo_open_def demo_pool_rates_def)
  have new: "get_token_rate demo_swapped 0 vdot = Some (1000000, 1150000)"
    by (simp add: get_token_rate_def demo_swapped_def)
  from rate_follows_within_its_cap [OF run old] new old show ?thesis by auto
qed

text \<open>
  A change of the amplification is continuous exactly when its target block lies ahead: the call stores the
  present coefficient and block as the start of the ramp. With a target block after the present one, the
  coefficient is unchanged at that moment and stays between the old and the new value on the way; with a
  target that is past, which the call accepts as long as it is after the start of the previous ramp, the
  new coefficient is in force at once.
\<close>
theorem modify_a_effect:
  assumes "pool_modify_a C o1 pid a target s = Inr s'" and "find_pool s pid = Some p"
  shows "\<exists>a0 p'. amp_now s p = Inr a0 \<and> amp_block p < target \<and> pool_control_origin C o1 \<and>
    find_pool s' = (find_pool s)(pid \<mapsto> p') \<and>
    p' = p\<lparr>amp := a0, amp_block := block_now s, future_amp := a, future_amp_block := target\<rparr> \<and>
    (block_now s < target \<longrightarrow> a0 \<le> u128_max \<longrightarrow> amp_now s' p' = Inr a0) \<and>
    (target \<le> block_now s \<longrightarrow> amp_now s' p' = Inr a) \<and>
    (\<forall>b x. block_now s \<le> b \<longrightarrow> amp_now (s'\<lparr>block_now := b\<rparr>) p' = Inr x \<longrightarrow> min a0 a \<le> x \<and> x \<le> max a0 a)"
proof -
  obtain a0 e where a0: "amp_now s p = Inr a0" "amp_block p < target" "pool_control_origin C o1"
    and s': "s' = insert_pool C pid (p\<lparr>amp := a0, amp_block := block_now s, future_amp := a,
                  future_amp_block := target\<rparr>) (emit_stable e s)"
    using assms
    by (auto simp: pool_modify_a_def modify_a_def mutate_pool_def modify_a_body_def pool_control_def rbind_eq_Inr
        result_simps)
  have ramp: "amp_now t (p\<lparr>amp := a0, amp_block := n, future_amp := a, future_amp_block := target\<rparr>) = Inr x \<longleftrightarrow>
      get_a (block_now t) a0 n a target = Some x" for n x and t :: "'a stable_state"
    by (simp add: amp_now_def math_eq_Inr)
  show ?thesis
    using a0 get_a_start [of "block_now s" target a0 a] get_a_end [of target "block_now s" a0 "block_now s" a]
      get_a_between [of _ a0 "block_now s" a target]
    by (intro exI [of _ a0] exI conjI) (rule a0 | rule refl | auto simp: s' ramp)+
qed

theorem modify_a_effect_witness:
  "\<exists>t. pool_modify_a demo_stable Root 0 5000 20 demo_swapped = Inr t \<and>
     (\<exists>p'. find_pool t 0 = Some p' \<and> amp_now t p' = Inr 10000 \<and>
        (\<forall>b x. 10 \<le> b \<longrightarrow> amp_now (t\<lparr>block_now := b\<rparr>) p' = Inr x \<longrightarrow> 5000 \<le> x \<and> x \<le> 10000))"
proof -
  have a: "amp_now demo_swapped (demo_pool 220009 [120000, 100014]) = Inr 10000" and b: "block_now demo_swapped = 10"
    by (simp_all add: amp_now_def get_a_def math_def ok_or_def demo_swapped_def demo_filled_def demo_open_def
        initial_stable_def)
  have p: "find_pool demo_swapped 0 = Some (demo_pool 220009 [120000, 100014])" by simp
  obtain t where t: "pool_modify_a demo_stable Root 0 5000 20 demo_swapped = Inr t"
    using a p by (simp add: pool_modify_a_def modify_a_def mutate_pool_def modify_a_body_def pool_control_def
        demo_stable_simps ensure_def ok_or_def)
  from modify_a_effect [OF t p] show ?thesis
    unfolding a b using t by (auto simp: u128_max_def intro!: exI [of _ t])
qed

text \<open>
  Scaling an amount up by the rate of its token and back never gains: for every amount of a deposit, its
  upscaled value scaled back down is at most the amount, so that the guard of \<open>deposit_one\<close> which answers
  \<open>CantMint\<close> never fires.
\<close>
theorem scaling_never_gains:
  assumes "scale_all upscale s pid p amounts = Inr ups" and "i < length amounts"
    and "get_token_rate t = get_token_rate s"
  shows "(\<forall>back. downscale t (ups ! i) pid (pool_assets p ! i) = Inr back \<longrightarrow> back \<le> amounts ! i) \<and>
    deposit_one C pid p who amounts (i, ups ! i) t \<noteq> Inl (Module (StablePool CantMint))"
proof -
  note at = scale_all_nth [OF assms(1,2)]
  have same: "downscale t n pid a = downscale s n pid a" for n a by (simp add: downscale_def assms(3))
  have le: "\<forall>back. downscale t (ups ! i) pid (pool_assets p ! i) = Inr back \<longrightarrow> back \<le> amounts ! i"
    unfolding same using down_of_up [OF at(2)] by blast
  have down: "downscale t (ups ! i) pid (pool_assets p ! i) \<noteq> Inl (Module (StablePool CantMint))"
    by (simp add: downscale_def split: option.split)
  have send: "sa_transfer C a who b n t \<noteq> Inl (Module (StablePool CantMint))" for a b n
    by (simp add: sa_transfer_def on_coins_def split: sum.split)
  show ?thesis
  proof (cases "downscale t (ups ! i) pid (pool_assets p ! i)")
    case (Inr n)
    then show ?thesis
      using le send assms(2) at(1) by (auto simp: deposit_one_def at_def get_or_def ensure_def)
  qed (use le down assms(2) at(1) in \<open>auto simp: deposit_one_def at_def get_or_def\<close>)
qed

theorem scaling_never_gains_witness:
  "scale_all upscale demo_swapped 0 (demo_pool 220009 [120000, 100014]) [7, 1001] = Inr [7, 1151] \<and>
   downscale demo_swapped 1151 0 vdot = Inr 1000 \<and>
   deposit_one demo_stable 0 (demo_pool 220009 [120000, 100014]) 1 [7, 1001] (1, 1151) demo_swapped \<noteq>
     Inl (Module (StablePool CantMint))"
proof -
  have up: "scale_all upscale demo_swapped 0 (demo_pool 220009 [120000, 100014]) [7, 1001] = Inr [7, 1151]"
    and down: "downscale demo_swapped 1151 0 vdot = Inr 1000"
    by (simp_all add: scale_all_def upscale_def downscale_def get_token_rate_def demo_swapped_def amount_unfold)
  from scaling_never_gains [OF up, of 1 demo_swapped demo_stable 1] up down show ?thesis by simp
qed

end
