(* ===== verification/Leverage.thy ===== *)
theory Leverage
  imports Lend_Calls Stable_Staking
begin

text \<open>
  The leverage staking pallet (\<open>pallets/leverage-staking/src/lib.rs\<close>), which composes the three others: it lends
  a user tokens for the length of a call, stakes them and deposits the vTokens as collateral in the lend market,
  and borrows the tokens back there; or it repays a debt, redeems collateral and sells it on the stable pool.

  All pallets act on one state. The ledger of the lend market is the state of the stable pools, whose coins are
  the state of liquid staking, whose outside is the token ledger. An error of another pallet is wrapped.
\<close>

section \<open>State and configuration\<close>

datatype leverage_error =
    LeverageArguments
  | LeverageNotSupported
  | InLendMarket lend_error
  | InStablePool stable_error
  | InLiquidStaking minting_error

type_synonym ('l, 'a) leverage_result = "(leverage_error, 'a) result"

datatype leverage_event = FlashLoanDeposited account currency nat nat

record 'l leverage_config =
  lv_fixed :: fixed_ops
  lv_lend :: "'l minting_state stable_state lend_config"
  lv_pools :: "'l minting_state stable_config"
  lv_staking :: "'l minting_config"
  lv_mint_into :: "currency \<Rightarrow> account \<Rightarrow> nat \<Rightarrow> 'l minting_state stable_state \<Rightarrow> nat + 'l minting_state stable_state"
  lv_burn_from :: "currency \<Rightarrow> account \<Rightarrow> nat \<Rightarrow> 'l minting_state stable_state \<Rightarrow> nat + 'l minting_state stable_state"

record 'l leverage_state =
  lv_state :: "'l minting_state stable_state lend_state"
  lv_events :: "leverage_event list"

section \<open>Calls into the other pallets\<close>

definition lift_result :: "('e \<Rightarrow> leverage_error) \<Rightarrow> ('e, 'a) result \<Rightarrow> ('l, 'a) leverage_result" where
  "lift_result wrap r = (case r of Inl e \<Rightarrow> Inl (map_dispatch_error wrap e) | Inr x \<Rightarrow> Inr x)"

definition on_lend ::
  "('l minting_state stable_state lend_state \<Rightarrow> 'l minting_state stable_state lend_state lend_result) \<Rightarrow>
     'l leverage_state \<Rightarrow> ('l, 'l leverage_state) leverage_result" where
  "on_lend f s = rbind (lift_result InLendMarket (f (lv_state s))) (\<lambda>t. Inr (s\<lparr>lv_state := t\<rparr>))"

definition on_pools ::
  "('l minting_state stable_state \<Rightarrow> 'l minting_state stable_state stable_result) \<Rightarrow>
     'l leverage_state \<Rightarrow> ('l, 'l leverage_state) leverage_result" where
  "on_pools f s =
     rbind (lift_result InStablePool (f (lend_ledger (lv_state s)))) (\<lambda>w.
     Inr (s\<lparr>lv_state := (lv_state s)\<lparr>lend_ledger := w\<rparr>\<rparr>))"

definition on_staking ::
  "('l minting_state \<Rightarrow> ('a \<times> 'l minting_state) minting_result) \<Rightarrow>
     'l leverage_state \<Rightarrow> ('l, 'a \<times> 'l leverage_state) leverage_result" where
  "on_staking f s =
     (let w = lend_ledger (lv_state s) in
      rbind (lift_result InLiquidStaking (f (coins w))) (\<lambda>(x, m).
      Inr (x, s\<lparr>lv_state := (lv_state s)\<lparr>lend_ledger := w\<lparr>coins := m\<rparr>\<rparr>\<rparr>)))"

definition on_tokens ::
  "('l minting_state stable_state \<Rightarrow> nat + 'l minting_state stable_state) \<Rightarrow>
     'l leverage_state \<Rightarrow> ('l, 'l leverage_state) leverage_result" where
  "on_tokens f s =
     (case f (lend_ledger (lv_state s)) of
        Inl e \<Rightarrow> Inl (External e)
      | Inr w \<Rightarrow> Inr (s\<lparr>lv_state := (lv_state s)\<lparr>lend_ledger := w\<rparr>\<rparr>))"

section \<open>The operations\<close>

definition current_collateral_amount ::
  "'l leverage_config \<Rightarrow> account \<Rightarrow> currency \<Rightarrow> 'l leverage_state \<Rightarrow> ('l, nat) leverage_result" where
  "current_collateral_amount C who asset s =
     (let t = lv_state s in
      if account_deposits t asset who = None then Inr 0
      else if voucher_balance (deposits_of t asset who) = 0 then Inr 0
      else
        rbind (lift_result InLendMarket (exchange_rate_stored (lv_fixed C) (lv_lend C) t asset)) (\<lambda>rate.
        lift_result InLendMarket
          (calc_underlying_amount (lv_fixed C) (voucher_balance (deposits_of t asset who)) rate)))"

definition increase_leverage ::
  "'l leverage_config \<Rightarrow> lend_env \<Rightarrow> account \<Rightarrow> currency \<Rightarrow> currency \<Rightarrow> nat \<Rightarrow>
     'l leverage_state \<Rightarrow> ('l, 'l leverage_state) leverage_result" where
  "increase_leverage C E who asset vtoken increase_amount s =
     rbind (on_tokens (lv_mint_into C asset who increase_amount) s) (\<lambda>s1.
     rbind (on_staking (do_vmint (lv_fixed C) (lv_staking C) who asset increase_amount [] None) s1)
       (\<lambda>((_, vtoken_value), s2).
     rbind (on_lend (do_mint (lv_fixed C) (lv_lend C) E who vtoken vtoken_value) s2) (\<lambda>s3.
     rbind (on_lend (do_borrow (lv_fixed C) (lv_lend C) E who asset increase_amount) s3) (\<lambda>s4.
     on_tokens (lv_burn_from C asset who increase_amount) s4))))"

definition reduce_leverage ::
  "'l leverage_config \<Rightarrow> lend_env \<Rightarrow> account \<Rightarrow> currency \<Rightarrow> currency \<Rightarrow> nat \<Rightarrow>
     'l leverage_state \<Rightarrow> ('l, 'l leverage_state) leverage_result" where
  "reduce_leverage C E who asset vtoken reduce_amount s =
     rbind (ok_or (get_pool_id (lend_ledger (lv_state s)) vtoken asset) (Module LeverageNotSupported))
       (\<lambda>(pid, i, j).
     rbind (on_tokens (lv_mint_into C asset who reduce_amount) s) (\<lambda>s1.
     rbind (on_lend (do_repay_borrow (lv_fixed C) (lv_lend C) E who asset reduce_amount) s1) (\<lambda>s2.
     rbind (lift_result InStablePool
              (get_swap_input (lv_pools C) (lend_ledger (lv_state s2)) pid i j reduce_amount)) (\<lambda>redeem_amount.
     rbind (on_lend (do_redeem (lv_fixed C) (lv_lend C) E who vtoken redeem_amount) s2) (\<lambda>s3.
     rbind (on_pools (on_swap (lv_pools C) who pid i j redeem_amount reduce_amount) s3) (\<lambda>s4.
     on_tokens (lv_burn_from C asset who reduce_amount) s4))))))"

text \<open>The position of a user: the current rate, and the value of the collateral above the debt.\<close>

definition leverage_position ::
  "'l leverage_config \<Rightarrow> lend_env \<Rightarrow> account \<Rightarrow> currency \<Rightarrow> currency \<Rightarrow>
     'l leverage_state \<Rightarrow> ('l, (nat \<times> nat \<times> nat) \<times> 'l leverage_state) leverage_result" where
  "leverage_position C E who asset vtoken s =
     rbind (current_collateral_amount C who vtoken s) (\<lambda>account_deposits.
     rbind (lift_result InLendMarket
              (get_current_borrow_balance (lv_fixed C) (lv_lend C) E who asset (lv_state s)))
       (\<lambda>(account_borrows, t).
     let s1 = s\<lparr>lv_state := t\<rparr> in
     rbind (lift_result InLiquidStaking
              (get_currency_amount_by_v_currency_amount (lv_staking C) (coins (lend_ledger t))
                 asset vtoken account_deposits)) (\<lambda>deposits_token_value.
     rbind (ok_or (checked_sub deposits_token_value account_borrows) (Arithmetic Overflow)) (\<lambda>base_token_value.
     rbind (ok_or (fx_from_rational (lv_fixed C) account_borrows base_token_value) (Arithmetic Overflow))
       (\<lambda>current_rate.
     Inr ((account_borrows, base_token_value, current_rate), s1))))))"

definition flash_loan_deposit_inner ::
  "'l leverage_config \<Rightarrow> lend_env \<Rightarrow> account \<Rightarrow> currency \<Rightarrow> nat \<Rightarrow>
     'l leverage_state \<Rightarrow> ('l, 'l leverage_state) leverage_result" where
  "flash_loan_deposit_inner C E who asset rate s =
     rbind (case asset_to_vtoken asset of Inl _ \<Rightarrow> Inl (Module LeverageNotSupported) | Inr v \<Rightarrow> Inr v) (\<lambda>vtoken.
     rbind (if is_collateral (deposits_of (lv_state s) vtoken who) then Inr s
            else on_lend (do_collateral_asset (lv_fixed C) (lv_lend C) E who vtoken True) s) (\<lambda>s1.
     rbind (leverage_position C E who asset vtoken s1) (\<lambda>((account_borrows, base_token_value, current_rate), s2).
     rbind (if rate < current_rate then
              rbind (if rate = 0 then Inr account_borrows
                     else ok_or (Option.bind (checked_sub current_rate rate)
                       (\<lambda>r. fx_mul_int (lv_fixed C) r base_token_value)) (Arithmetic Overflow)) (\<lambda>reduce_amount.
              reduce_leverage C E who asset vtoken reduce_amount s2)
            else if rate = current_rate then Inl (Module LeverageArguments)
            else
              rbind (ok_or (Option.bind (checked_sub rate current_rate)
                       (\<lambda>r. fx_mul_int (lv_fixed C) r base_token_value)) (Arithmetic Overflow)) (\<lambda>increase_amount.
              increase_leverage C E who asset vtoken increase_amount s2)) (\<lambda>s3.
     Inr (s3\<lparr>lv_events := FlashLoanDeposited who asset current_rate rate # lv_events s3\<rparr>)))))"

definition flash_loan_deposit ::
  "'l leverage_config \<Rightarrow> lend_env \<Rightarrow> origin \<Rightarrow> currency \<Rightarrow> nat \<Rightarrow>
     'l leverage_state \<Rightarrow> ('l, 'l leverage_state) leverage_result" where
  "flash_loan_deposit C E o1 asset rate s =
     rbind (ensure_signed o1) (\<lambda>who. flash_loan_deposit_inner C E who asset rate s)"

end
