(* ===== verification/Leverage_Flows.thy ===== *)
theory Leverage_Flows
  imports Leverage Lend_Lemmas Stable_Frozen
begin

text \<open>
  What a leverage operation moves: for every step of it, the balances of all accounts before and after as one
  equation, and the debt and the vouchers of the user. The locale \<open>leverage_world\<close> says that the three ledgers
  are one; it is interpreted where the runtime's configuration is.
\<close>

section \<open>One ledger\<close>

text \<open>Below the pallets only the token ledger has changed.\<close>

definition only_tokens :: "'l minting_state stable_state \<Rightarrow> 'l minting_state stable_state \<Rightarrow> bool" where
  "only_tokens w w' \<longleftrightarrow> (\<exists>l. w' = w\<lparr>coins := (coins w)\<lparr>outside := l\<rparr>\<rparr>)"

lemma only_tokens_trans: "only_tokens u v \<Longrightarrow> only_tokens v w \<Longrightarrow> only_tokens u w"
  by (auto simp: only_tokens_def)

lemma only_tokensD:
  assumes "only_tokens w w'"
  shows "pools w' = pools w" and "token_to_vtoken_map (coins w') = token_to_vtoken_map (coins w)"
    and "find_pool w' = find_pool w"
  using assms by (auto simp: only_tokens_def find_pool_def fun_eq_iff)

abbreviation below :: "'l leverage_state \<Rightarrow> 'l minting_state stable_state" where
  "below s \<equiv> lend_ledger (lv_state s)"

locale leverage_world =
  fixes C :: "'l leverage_config"
  assumes lend_assets: "fungibles (assets (lv_lend C))"
    and pools: "pool_ledger (lv_pools C)"
    and staking: "staking_ledger (lv_staking C)"
    and lend_coins: "as_balance (assets (lv_lend C)) w = sa_free (lv_pools C) w"
    and pool_coins: "mc_free (sa_currencies (lv_pools C)) m = mc_free (mt_currencies (lv_staking C)) (outside m)"
    and mint_into: "lv_mint_into C c a n w = Inr w' \<Longrightarrow>
          sa_free (lv_pools C) w' d x = sa_free (lv_pools C) w d x + paid c a n d x"
    and burn_from: "lv_burn_from C c a n w = Inr w' \<Longrightarrow>
          sa_free (lv_pools C) w' d x + paid c a n d x = sa_free (lv_pools C) w d x"
    and lend_tokens: "as_transfer (assets (lv_lend C)) c a b n p w = Inr w' \<Longrightarrow> only_tokens w w'"
    and mint_tokens: "lv_mint_into C c a n w = Inr w' \<Longrightarrow> only_tokens w w'"
    and burn_tokens: "lv_burn_from C c a n w = Inr w' \<Longrightarrow> only_tokens w w'"

definition held :: "'l leverage_config \<Rightarrow> 'l leverage_state \<Rightarrow> currency \<Rightarrow> account \<Rightarrow> nat" where
  "held C s = sa_free (lv_pools C) (lend_ledger (lv_state s))"

text \<open>The debt with interest, and the vouchers, as the lend market keeps them.\<close>

abbreviation debt_of :: "'l leverage_state \<Rightarrow> currency \<Rightarrow> account \<Rightarrow> borrow_snapshot" where
  "debt_of s c who \<equiv> account_borrows (lv_state s) c who"

lemma lift_result_Inr [result_simps]: "lift_result wrap r = Inr x \<longleftrightarrow> r = Inr x"
  by (simp add: lift_result_def split: sum.split)

lemma on_lend_Inr: "on_lend f s = Inr t \<longleftrightarrow> (\<exists>u. f (lv_state s) = Inr u \<and> t = s\<lparr>lv_state := u\<rparr>)"
  by (auto simp: on_lend_def result_simps)

lemma on_pools_Inr:
  "on_pools f s = Inr t \<longleftrightarrow>
     (\<exists>w. f (lend_ledger (lv_state s)) = Inr w \<and> t = s\<lparr>lv_state := (lv_state s)\<lparr>lend_ledger := w\<rparr>\<rparr>)"
  by (auto simp: on_pools_def result_simps)

lemma on_tokens_Inr:
  "on_tokens f s = Inr t \<longleftrightarrow>
     (\<exists>w. f (lend_ledger (lv_state s)) = Inr w \<and> t = s\<lparr>lv_state := (lv_state s)\<lparr>lend_ledger := w\<rparr>\<rparr>)"
  by (auto simp: on_tokens_def split: sum.splits)

lemma on_staking_Inr:
  "on_staking f s = Inr (x, t) \<longleftrightarrow>
     (\<exists>m. f (coins (lend_ledger (lv_state s))) = Inr (x, m) \<and>
        t = s\<lparr>lv_state := (lv_state s)\<lparr>lend_ledger := (lend_ledger (lv_state s))\<lparr>coins := m\<rparr>\<rparr>\<rparr>)"
  by (auto simp: on_staking_def Let_def result_simps)

text \<open>The steps outside of the lend market leave its books alone.\<close>

definition same_books :: "'l leverage_state \<Rightarrow> 'l leverage_state \<Rightarrow> bool" where
  "same_books s t \<longleftrightarrow> lv_state t = (lv_state s)\<lparr>lend_ledger := lend_ledger (lv_state t)\<rparr>"

lemma same_booksI:
  "on_pools f s = Inr t \<Longrightarrow> same_books s t" "on_tokens g s = Inr t \<Longrightarrow> same_books s t"
  "on_staking h s = Inr (x, t) \<Longrightarrow> same_books s t"
  by (auto simp: same_books_def on_pools_Inr on_tokens_Inr on_staking_Inr)

lemma same_booksD:
  assumes "same_books s t"
  shows "account_borrows (lv_state t) = account_borrows (lv_state s)"
    and "account_deposits (lv_state t) = account_deposits (lv_state s)"
    and "borrow_index (lv_state t) = borrow_index (lv_state s)"
    and "deposits_of (lv_state t) = deposits_of (lv_state s)"
proof -
  obtain w where w: "lv_state t = (lv_state s)\<lparr>lend_ledger := w\<rparr>" using assms by (simp add: same_books_def)
  show "account_borrows (lv_state t) = account_borrows (lv_state s)"
    "account_deposits (lv_state t) = account_deposits (lv_state s)"
    "borrow_index (lv_state t) = borrow_index (lv_state s)"
    "deposits_of (lv_state t) = deposits_of (lv_state s)"
    by (simp_all add: w deposits_of_def fun_eq_iff)
qed

lemma accrue_ledger: "accrue_interest F C E c s = Inr t \<Longrightarrow> lend_ledger t = lend_ledger s"
  by (erule accrue_cases) (auto dest: core_eqD(1) coreD(1))

lemma accrue_vouchers: "accrue_interest F C E c s = Inr t \<Longrightarrow> account_deposits t = account_deposits s"
  by (erule accrue_cases) (auto dest: core_eqD(6) coreD(6))

lemma accrue_debts: "accrue_interest F C E c s = Inr t \<Longrightarrow> account_borrows t = account_borrows s"
  by (erule accrue_cases) (auto dest: core_eqD(5) coreD(5))

section \<open>The flows\<close>

context leverage_world
begin

lemma lend_flow:
  "as_transfer (assets (lv_lend C)) c a b n p w = Inr w' \<Longrightarrow>
     sa_free (lv_pools C) w' d x + paid c a n d x = sa_free (lv_pools C) w d x + paid c b n d x"
  using fungibles.flow [OF lend_assets] by (simp add: lend_coins)

lemma minted_flow:
  assumes "on_tokens (lv_mint_into C c a n) s = Inr t"
  shows "held C t d x = held C s d x + paid c a n d x" and "only_tokens (below s) (below t)"
  using assms by (auto simp: on_tokens_Inr held_def mint_into mint_tokens)

lemma burnt_flow:
  assumes "on_tokens (lv_burn_from C c a n) s = Inr t"
  shows "held C t d x + paid c a n d x = held C s d x" and "only_tokens (below s) (below t)"
  using assms by (auto simp: on_tokens_Inr held_def burn_from burn_tokens)

lemma supply_flow:
  assumes "on_lend (do_mint F (lv_lend C) E who c n) s = Inr t"
  shows "only_tokens (below s) (below t)"
    and "held C t d x + paid c who n d x = held C s d x + paid c (lend_account (lv_lend C)) n d x"
proof -
  obtain u where u: "do_mint F (lv_lend C) E who c n (lv_state s) = Inr u" "t = s\<lparr>lv_state := u\<rparr>"
    using assms by (auto simp: on_lend_Inr)
  have "only_tokens (below s) (below t) \<and> (\<forall>d x. held C t d x + paid c who n d x = held C s d x + paid c (lend_account (lv_lend C)) n d x)"
    using u(1)
    by (rule mint_cases)
      (use u(2) in \<open>auto simp: held_def accrue_ledger dest!: coreD(1) dest: lend_flow lend_tokens\<close>)
  then show "only_tokens (below s) (below t)" and "held C t d x + paid c who n d x = held C s d x + paid c (lend_account (lv_lend C)) n d x" by simp_all
qed

lemma borrow_flow:
  assumes "on_lend (do_borrow F (lv_lend C) E who c n) s = Inr t"
  shows "only_tokens (below s) (below t)"
    and "held C t d x + paid c (lend_account (lv_lend C)) n d x = held C s d x + paid c who n d x"
proof -
  obtain u where u: "do_borrow F (lv_lend C) E who c n (lv_state s) = Inr u" "t = s\<lparr>lv_state := u\<rparr>"
    using assms by (auto simp: on_lend_Inr)
  have "only_tokens (below s) (below t) \<and> (\<forall>d x. held C t d x + paid c (lend_account (lv_lend C)) n d x = held C s d x + paid c who n d x)"
    using u(1)
    by (rule borrow_cases)
      (use u(2) in \<open>auto simp: held_def accrue_ledger dest!: coreD(1) dest: lend_flow lend_tokens\<close>)
  then show "only_tokens (below s) (below t)" and "held C t d x + paid c (lend_account (lv_lend C)) n d x = held C s d x + paid c who n d x" by simp_all
qed

lemma repay_flow:
  assumes "on_lend (do_repay_borrow F (lv_lend C) E who c n) s = Inr t"
  shows "only_tokens (below s) (below t)"
    and "held C t d x + paid c who n d x = held C s d x + paid c (lend_account (lv_lend C)) n d x"
proof -
  obtain u where u: "do_repay_borrow F (lv_lend C) E who c n (lv_state s) = Inr u" "t = s\<lparr>lv_state := u\<rparr>"
    using assms by (auto simp: on_lend_Inr)
  have "only_tokens (below s) (below t) \<and> (\<forall>d x. held C t d x + paid c who n d x = held C s d x + paid c (lend_account (lv_lend C)) n d x)"
    using u(1)
    by (rule repay_borrow_cases)
      (use u(2) in \<open>auto simp: held_def accrue_ledger dest!: coreD(1) dest: lend_flow lend_tokens\<close>)
  then show "only_tokens (below s) (below t)" and "held C t d x + paid c who n d x = held C s d x + paid c (lend_account (lv_lend C)) n d x" by simp_all
qed

lemma redeem_flow:
  assumes "on_lend (do_redeem F (lv_lend C) E who c n) s = Inr t"
  obtains rate v u where "fx_div F n rate = Some v" and "fx_mul_int F rate v = Some u"
    and "only_tokens (below s) (below t)"
    and "\<And>d x. held C t d x + paid c (lend_account (lv_lend C)) u d x = held C s d x + paid c who u d x"
proof -
  obtain w where w: "do_redeem F (lv_lend C) E who c n (lv_state s) = Inr w" "t = s\<lparr>lv_state := w\<rparr>"
    using assms by (auto simp: on_lend_Inr)
  from w(1) show thesis
  proof (rule redeem_cases)
    fix m s1 s2 s3 rate v u
    assume a: "accrue_interest F (lv_lend C) E c (lv_state s) = Inr s1" "exchange_rate_stored F (lv_lend C) s1 c = Inr rate"
      "fx_div F n rate = Some v" and k: "core s2 = core s1" "core w = core s3"
      and r: "do_redeem_voucher F (lv_lend C) E who c v s2 = Inr (u, s3)"
    from r show thesis
    proof (rule redeem_voucher_cases)
      fix rate' l
      assume r': "exchange_rate_stored F (lv_lend C) s2 c = Inr rate'" "fx_mul_int F rate' v = Some u"
        and l: "as_transfer (assets (lv_lend C)) c (lend_account (lv_lend C)) who u Expendable (lend_ledger s2) = Inr l"
        and core3: "core s3 = (core s2)\<lparr>k_ledger := l, k_supply := (total_supply s2)(c := total_supply s2 c - v),
           k_deposits := with_vouchers s2 c who (if voucher s2 c who = v then None
             else Some ((deposits_of s2 c who)\<lparr>voucher_balance := voucher s2 c who - v\<rparr>))\<rparr>"
      have "rate' = rate" using r'(1) a(2) exchange_rate_cong [OF k(1)] by simp
      moreover have "lend_ledger w = l" using core_eqD(1) [OF k(2)] coreD(1) [OF core3] by simp
      moreover have "lend_ledger s2 = lend_ledger (lv_state s)" using core_eqD(1) [OF k(1)] accrue_ledger [OF a(1)] by simp
      ultimately show thesis
        using a(3) r'(2) l w(2) by (intro that [of rate v u]) (auto simp: held_def dest: lend_flow lend_tokens)
    qed
  qed
qed

lemma stake_flow:
  assumes "on_staking (do_vmint F (lv_staking C) who c n remark channel) s = Inr ((v, m), t)"
  obtains fee net where "fee + net = n" and "token_to_vtoken_map (coins (lend_ledger (lv_state s))) c = Some v"
    and "\<And>d x. held C t d x + paid c who n d x = held C s d x + paid c (mint_fee_account (lv_staking C)) fee d x
           + paid c (entrance_account (lv_staking C)) net d x + paid v who m d x"
proof -
  let ?M = "lv_staking C" and ?m0 = "coins (lend_ledger (lv_state s))"
  let ?free = "mc_free (mt_currencies ?M)"
  obtain m1 where m: "do_vmint F ?M who c n remark channel ?m0 = Inr ((v, m), m1)"
    and t: "t = s\<lparr>lv_state := (lv_state s)\<lparr>lend_ledger := (lend_ledger (lv_state s))\<lparr>coins := m1\<rparr>\<rparr>\<rparr>"
    using assms by (auto simp: on_staking_Inr)
  have held: "held C t = ?free (outside m1)" "held C s = ?free (outside ?m0)"
    by (simp_all add: held_def sa_free_def pool_coins t)
  from m show thesis
  proof (rule vmint_cases)
    fix net fee s1 l1 l2
    assume map: "token_to_vtoken_map ?m0 c = Some v"
      and wt: "mint_without_transfer F ?M who v c n ?m0 = Inr ((net, m, fee), s1)"
      and l1: "mc_transfer (mt_currencies ?M) c who (entrance_account ?M) net (outside s1) = Inr l1"
      and l2: "record_mint_amount ?M channel v m l1 = Inr l2"
      and m1: "m1 = emit_minting (VMinted who c n m fee remark channel) (s1\<lparr>outside := l2\<rparr>)"
    from wt show thesis
    proof (rule mint_without_transfer_cases)
      fix w k1 k2
      assume fee: "fee \<le> n" "net = n - fee"
        and k1: "mc_transfer (mt_currencies ?M) c who (mint_fee_account ?M) fee (outside ?m0) = Inr k1"
        and k2: "mt_deposit ?M v who m k1 = Inr k2"
        and s1: "s1 = emit_minting (VtokenIssuanceSet v (vtoken_issuance ?m0 v + m))
          (?m0\<lparr>outside := k2, token_pool := (token_pool ?m0)(w := token_pool ?m0 w + net),
             vtoken_issuance := (vtoken_issuance ?m0)(v := vtoken_issuance ?m0 v + m)\<rparr>)"
      have o1: "outside s1 = k2" by (simp add: s1 emit_minting_def)
      have o2: "outside m1 = l2" by (simp add: m1 emit_minting_def)
      have n: "fee + net = n" using fee by simp
      show thesis
      proof (rule that [OF n map])
        fix d x
        have split: "paid c who n d x = paid c who fee d x + paid c who net d x"
          unfolding n [symmetric] by (rule paid_add)
        show "held C t d x + paid c who n d x = held C s d x + paid c (mint_fee_account ?M) fee d x
           + paid c (entrance_account ?M) net d x + paid v who m d x"
          using staking_ledger.flow [OF staking k1, of d x] staking_ledger.deposit_flow [OF staking k2, of d x]
            staking_ledger.flow [OF staking l1, of d x] staking_ledger.record_mint_keeps [OF staking l2]
          unfolding held o1 o2 split by simp
      qed
    qed
  qed
qed

lemma sell_flow:
  assumes "on_pools (on_swap (lv_pools C) who pid i j n least) s = Inr t"
    and "find_pool (lend_ledger (lv_state s)) pid = Some p" and "pool_asset p \<notin> set (pool_assets p)"
  obtains out where "least \<le> out"
    and "\<And>d x. d \<noteq> pool_asset p \<Longrightarrow>
           held C t d x + paid (pool_assets p ! i) who n d x + paid (pool_assets p ! j) (pool_account p) out d x =
           held C s d x + paid (pool_assets p ! i) (pool_account p) n d x + paid (pool_assets p ! j) who out d x"
proof -
  obtain w where w: "on_swap (lv_pools C) who pid i j n least (lend_ledger (lv_state s)) = Inr w"
    and t: "lend_ledger (lv_state t) = w"
    using assms(1) by (auto simp: on_pools_Inr)
  show thesis
    by (rule pool_ledger.swap_exact [OF pools w assms(2,3)]) (rule that, assumption, simp add: held_def t)
qed

text \<open>An increase: the market pays the staked amount, and receives the vTokens as the user's deposit.\<close>

lemma increase_flow:
  assumes "increase_leverage C E who asset v a s = Inr t" and "token_to_vtoken_map (coins (below s)) asset = Some v"
  obtains fee net m where "fee + net = a"
    and "\<And>d x. held C t d x + paid asset (lend_account (lv_lend C)) a d x =
           held C s d x + paid asset (mint_fee_account (lv_staking C)) fee d x
             + paid asset (entrance_account (lv_staking C)) net d x + paid v (lend_account (lv_lend C)) m d x"
proof -
  obtain s1 w m s2 s3 s4 where *: "on_tokens (lv_mint_into C asset who a) s = Inr s1"
    "on_staking (do_vmint (lv_fixed C) (lv_staking C) who asset a [] None) s1 = Inr ((w, m), s2)"
    "on_lend (do_mint (lv_fixed C) (lv_lend C) E who v m) s2 = Inr s3"
    "on_lend (do_borrow (lv_fixed C) (lv_lend C) E who asset a) s3 = Inr s4"
    "on_tokens (lv_burn_from C asset who a) s4 = Inr t"
    using assms(1) by (auto simp: increase_leverage_def result_simps)
  have map: "token_to_vtoken_map (coins (below s1)) asset = Some v"
    using only_tokensD(2) [OF minted_flow(2) [OF *(1)]] assms(2) by simp
  from *(2) show thesis
  proof (rule stake_flow)
    fix fee net
    assume n: "fee + net = a" and w: "token_to_vtoken_map (coins (below s1)) asset = Some w"
      and f: "\<And>d x. held C s2 d x + paid asset who a d x = held C s1 d x
           + paid asset (mint_fee_account (lv_staking C)) fee d x
           + paid asset (entrance_account (lv_staking C)) net d x + paid w who m d x"
    have [simp]: "w = v" using w map by simp
    show thesis
    proof (rule that [OF n])
      fix d x
      show "held C t d x + paid asset (lend_account (lv_lend C)) a d x =
           held C s d x + paid asset (mint_fee_account (lv_staking C)) fee d x
             + paid asset (entrance_account (lv_staking C)) net d x + paid v (lend_account (lv_lend C)) m d x"
        using minted_flow(1) [OF *(1), of d x] f [of d x] supply_flow(2) [OF *(3), of d x]
          borrow_flow(2) [OF *(4), of d x] burnt_flow(1) [OF *(5), of d x] by simp
    qed
  qed
qed

text \<open>
  A reduction: the market receives the repaid amount and pays the redeemed vTokens, which the user sells on the
  pool; of what the pool pays the user keeps what is above the repaid amount.
\<close>

lemma reduce_flow:
  assumes "reduce_leverage C E who asset v a s = Inr t" and "get_pool_id (below s) v asset = Some (pid, i, j)"
    and "find_pool (below s) pid = Some p" and "pool_asset p \<notin> set (pool_assets p)"
    and "pool_assets p ! i = v" and "pool_assets p ! j = asset"
  obtains r rate w u out where "fx_div (lv_fixed C) r rate = Some w" and "fx_mul_int (lv_fixed C) rate w = Some u"
    and "a \<le> out"
    and "\<And>d x. d \<noteq> pool_asset p \<Longrightarrow>
           held C t d x + paid asset who a d x + paid v (lend_account (lv_lend C)) u d x + paid v who r d x
             + paid asset (pool_account p) out d x =
           held C s d x + paid asset (lend_account (lv_lend C)) a d x + paid v who u d x
             + paid v (pool_account p) r d x + paid asset who out d x"
proof -
  obtain s1 s2 r s3 s4 where *: "on_tokens (lv_mint_into C asset who a) s = Inr s1"
    "on_lend (do_repay_borrow (lv_fixed C) (lv_lend C) E who asset a) s1 = Inr s2"
    "on_lend (do_redeem (lv_fixed C) (lv_lend C) E who v r) s2 = Inr s3"
    "on_pools (on_swap (lv_pools C) who pid i j r a) s3 = Inr s4"
    "on_tokens (lv_burn_from C asset who a) s4 = Inr t"
    using assms(1,2) by (auto simp: reduce_leverage_def result_simps)
  from *(3) show thesis
  proof (rule redeem_flow)
    fix rate w u
    assume u: "fx_div (lv_fixed C) r rate = Some w" "fx_mul_int (lv_fixed C) rate w = Some u"
      and tok: "only_tokens (below s2) (below s3)"
      and f: "\<And>d x. held C s3 d x + paid v (lend_account (lv_lend C)) u d x = held C s2 d x + paid v who u d x"
    have p: "find_pool (below s3) pid = Some p"
      using only_tokensD(3) [OF only_tokens_trans [OF only_tokens_trans [OF minted_flow(2) [OF *(1)]
        repay_flow(1) [OF *(2)]] tok]] assms(3) by simp
    from *(4) p assms(4) show thesis
    proof (rule sell_flow)
      fix out
      assume out: "a \<le> out" and g: "\<And>d x. d \<noteq> pool_asset p \<Longrightarrow>
        held C s4 d x + paid (pool_assets p ! i) who r d x + paid (pool_assets p ! j) (pool_account p) out d x =
        held C s3 d x + paid (pool_assets p ! i) (pool_account p) r d x + paid (pool_assets p ! j) who out d x"
      show thesis
      proof (rule that [OF u out])
        fix d x assume d: "d \<noteq> pool_asset p"
        show "held C t d x + paid asset who a d x + paid v (lend_account (lv_lend C)) u d x + paid v who r d x
             + paid asset (pool_account p) out d x =
           held C s d x + paid asset (lend_account (lv_lend C)) a d x + paid v who u d x
             + paid v (pool_account p) r d x + paid asset who out d x"
          using minted_flow(1) [OF *(1), of d x] repay_flow(2) [OF *(2), of d x] f [of d x] g [OF d, of x]
            burnt_flow(1) [OF *(5), of d x] by (simp add: assms(5,6))
      qed
    qed
  qed
qed

end

end
