(* ===== verification/Leverage_Debts.thy ===== *)
theory Leverage_Debts
  imports Leverage_Flows Lend_Debts
begin

text \<open>
  The debt a leverage operation changes. Reading the position accrues the interest of the debt's market up to the
  present second; after that no step of the call changes the market's index, and only the borrow or the
  repayment changes the debt.
\<close>

section \<open>Rewards and deposits leave the time of the last accrual alone\<close>

named_theorems accrued_frame \<open>operations that leave the times of accrual alone\<close>

lemma accrued_rewards [accrued_frame]:
  "update_reward_supply_index E c s = Inr t \<Longrightarrow> last_accrued t = last_accrued s"
  "update_reward_borrow_index F E c s = Inr t \<Longrightarrow> last_accrued t = last_accrued s"
  "distribute_supplier_reward c who s = Inr t \<Longrightarrow> last_accrued t = last_accrued s"
  "distribute_borrower_reward F c who s = Inr t \<Longrightarrow> last_accrued t = last_accrued s"
  "update_earned_stored F who c rate s = Inr t \<Longrightarrow> last_accrued t = last_accrued s"
  by (auto simp: update_reward_supply_index_def update_reward_borrow_index_def distribute_supplier_reward_def
      distribute_borrower_reward_def update_earned_stored_def Let_def result_simps split: if_splits)

lemma accrued_puts [simp]:
  "last_accrued (put_deposits c who d s) = last_accrued s"
  "last_accrued (put_borrow c who p i s) = last_accrued s"
  "last_accrued (put_total_borrows c n s) = last_accrued s"
  "last_accrued (put_total_supply c n s) = last_accrued s"
  by (simp_all add: put_deposits_def put_borrow_def put_total_borrows_def put_total_supply_def)

lemma accrued_other:
  "accrue_interest F C E c s = Inr t \<Longrightarrow> d \<noteq> c \<Longrightarrow> last_accrued t d = last_accrued s d \<and> borrow_index t d = borrow_index s d"
  by (erule accrue_cases) (auto dest: core_eqD(7) coreD(7))

lemma accrued_mint:
  "do_mint F C E who c n s = Inr t \<Longrightarrow> d \<noteq> c \<Longrightarrow> last_accrued t d = last_accrued s d"
  by (auto simp: do_mint_def result_simps Let_def dest!: accrued_frame dest: accrued_other)

lemma accrued_redeem:
  "do_redeem F C E who c n s = Inr t \<Longrightarrow> d \<noteq> c \<Longrightarrow> last_accrued t d = last_accrued s d"
  by (auto simp: do_redeem_def do_redeem_voucher_def take_vouchers_def redeem_transfer_Inr result_simps Let_def
      dest!: accrued_frame dest: accrued_other)

section \<open>The debt\<close>

text \<open>Two states whose debts in a market are the same, with the interest up to the same moment.\<close>

definition same_debts :: "currency \<Rightarrow> 'l leverage_state \<Rightarrow> 'l leverage_state \<Rightarrow> bool" where
  "same_debts c s t \<longleftrightarrow> account_borrows (lv_state t) c = account_borrows (lv_state s) c \<and>
     borrow_index (lv_state t) c = borrow_index (lv_state s) c \<and>
     last_accrued (lv_state t) c = last_accrued (lv_state s) c"

lemma same_debts_trans [trans]: "same_debts c s t \<Longrightarrow> same_debts c t u \<Longrightarrow> same_debts c s u"
  by (simp add: same_debts_def)

lemma same_debts_books:
  "on_pools f s = Inr t \<Longrightarrow> same_debts c s t" "on_tokens g s = Inr t \<Longrightarrow> same_debts c s t"
  "on_staking h s = Inr (x, t) \<Longrightarrow> same_debts c s t"
  by (auto simp: same_debts_def on_pools_Inr on_tokens_Inr on_staking_Inr)

lemma same_debts_deposit:
  assumes "on_lend (do_mint F L E who v n) s = Inr t" and "c \<noteq> v"
  shows "same_debts c s t"
proof -
  obtain u where u: "do_mint F L E who v n (lv_state s) = Inr u" "t = s\<lparr>lv_state := u\<rparr>"
    using assms(1) by (auto simp: on_lend_Inr)
  from u(1) have "account_borrows u = account_borrows (lv_state s) \<and> borrow_index u c = borrow_index (lv_state s) c"
  proof (rule mint_cases)
    fix s1 k l w
    assume a: "accrue_interest F L E v (lv_state s) = Inr s1"
      and k: "core u = (core s1)\<lparr>k_ledger := l, k_supply := w, k_deposits := k\<rparr>"
    show ?thesis using coreD(5) [OF k] coreD(7) [OF k] accrue_debts [OF a] accrued_other [OF a assms(2)] by simp
  qed
  then show ?thesis using accrued_mint [OF u(1) assms(2)] u(2) by (simp add: same_debts_def)
qed

lemma same_debts_redeem:
  assumes "on_lend (do_redeem F L E who v n) s = Inr t" and "c \<noteq> v"
  shows "same_debts c s t"
proof -
  obtain u where u: "do_redeem F L E who v n (lv_state s) = Inr u" "t = s\<lparr>lv_state := u\<rparr>"
    using assms(1) by (auto simp: on_lend_Inr)
  from u(1) have "account_borrows u = account_borrows (lv_state s) \<and> borrow_index u c = borrow_index (lv_state s) c"
  proof (rule redeem_cases)
    fix s1 s2 s3 w r
    assume a: "accrue_interest F L E v (lv_state s) = Inr s1" and k: "core s2 = core s1" "core u = core s3"
      and r: "do_redeem_voucher F L E who v w s2 = Inr (r, s3)"
    from r have "account_borrows s3 = account_borrows s2 \<and> borrow_index s3 = borrow_index s2"
      by (rule redeem_voucher_cases) (auto dest: coreD(5) coreD(7))
    then show ?thesis
      using accrue_debts [OF a] accrued_other [OF a assms(2)] core_eqD(5,7) [OF k(1)] core_eqD(5,7) [OF k(2)] by simp
  qed
  then show ?thesis using accrued_redeem [OF u(1) assms(2)] u(2) by (simp add: same_debts_def)
qed

text \<open>A debt in the market \<open>c\<close> as it is now.\<close>

definition owes :: "'l leverage_config \<Rightarrow> lend_env \<Rightarrow> account \<Rightarrow> currency \<Rightarrow> nat \<Rightarrow> 'l leverage_state \<Rightarrow> bool" where
  "owes C E who c n s \<longleftrightarrow> last_accrued (lv_state s) c \<noteq> 0 \<and> now_secs E \<le> last_accrued (lv_state s) c \<and>
     0 < borrow_index (lv_state s) c \<and> current_borrow_balance (lv_fixed C) (lv_state s) who c = Inr n"

lemma owes_same: "same_debts c s t \<Longrightarrow> owes C E who c n s \<Longrightarrow> owes C E who c n t"
  by (simp add: owes_def same_debts_def current_borrow_balance_def cong: if_cong)

lemma owes_accrue:
  "owes C E who c n s \<Longrightarrow> accrue_interest F L E c (lv_state s) = Inr t \<longleftrightarrow> t = lv_state s"
  by (auto simp: owes_def accrue_interest_def Let_def)

lemma owes_read:
  "owes C E who c n s \<Longrightarrow>
     get_current_borrow_balance (lv_fixed C) (lv_lend C) E who c (lv_state s) = Inr (n, lv_state s)"
  by (simp add: owes_def get_current_borrow_balance_def accrue_interest_def Let_def)

lemma position_owes:
  assumes "leverage_position C E who c v s = Inr ((borrows, base, rate), t)"
    and "0 < now_secs E" and "0 < borrow_index (lv_state s) c"
  shows "owes C E who c borrows t" and "below t = below s"
proof -
  obtain u where u: "accrue_interest (lv_fixed C) (lv_lend C) E c (lv_state s) = Inr u"
    "current_borrow_balance (lv_fixed C) u who c = Inr borrows" "t = s\<lparr>lv_state := u\<rparr>"
    using assms(1) by (auto simp: leverage_position_def get_current_borrow_balance_def result_simps Let_def)
  have "last_accrued u c \<noteq> 0 \<and> now_secs E \<le> last_accrued u c"
    using u(1) assms(2) by (auto simp: accrue_interest_def Let_def result_simps store_rates_def
        update_last_accrued_interest_time_def split: if_splits)
  moreover have "0 < borrow_index u c" using accrue_index [OF u(1), of c] assms(3) by simp
  ultimately show "owes C E who c borrows t" using u(2,3) by (simp add: owes_def)
  show "below t = below s" using u(3) accrue_ledger [OF u(1)] by simp
qed

lemma borrow_owes:
  assumes "fixed_point (lv_fixed C)" and "owes C E who c n s"
    and "on_lend (do_borrow (lv_fixed C) (lv_lend C) E who c a) s = Inr t"
  shows "owes C E who c (n + a) t"
proof -
  obtain u where u: "do_borrow (lv_fixed C) (lv_lend C) E who c a (lv_state s) = Inr u" "t = s\<lparr>lv_state := u\<rparr>"
    using assms(3) by (auto simp: on_lend_Inr)
  have "last_accrued u = last_accrued (lv_state s)"
    using u(1) by (auto simp: do_borrow_def result_simps Let_def owes_accrue [OF assms(2)] dest!: accrued_frame)
  moreover have "borrow_index u = borrow_index (lv_state s) \<and>
      current_borrow_balance (lv_fixed C) u who c = Inr (n + a)"
    using u(1)
  proof (rule borrow_cases)
    fix s1 m l
    assume "accrue_interest (lv_fixed C) (lv_lend C) E c (lv_state s) = Inr s1"
      and m: "current_borrow_balance (lv_fixed C) s1 who c = Inr m" "m + a \<le> u128_max"
      and k: "core u = (core s1)\<lparr>k_ledger := l, k_debts := with_debt s1 c who (m + a),
         k_borrows := (total_borrows s1)(c := total_borrows s1 c + a)\<rparr>"
    then have [simp]: "s1 = lv_state s" "m = n" using assms(2) by (auto simp: owes_accrue [OF assms(2)] owes_def)
    have "borrow_index u = borrow_index (lv_state s)" using coreD(7) [OF k] by simp
    with assms(1,2) m(2) coreD(5) [OF k] show ?thesis by (auto simp: owes_def with_debt_def intro!: debt_now)
  qed
  ultimately show ?thesis using assms(2) u(2) by (simp add: owes_def)
qed

lemma repay_owes:
  assumes "fixed_point (lv_fixed C)" and "owes C E who c n s"
    and "on_lend (do_repay_borrow (lv_fixed C) (lv_lend C) E who c a) s = Inr t"
  shows "a \<le> n" and "owes C E who c (n - a) t"
proof -
  obtain u where u: "do_repay_borrow (lv_fixed C) (lv_lend C) E who c a (lv_state s) = Inr u" "t = s\<lparr>lv_state := u\<rparr>"
    using assms(3) by (auto simp: on_lend_Inr)
  have "last_accrued u = last_accrued (lv_state s)"
    using u(1) by (auto simp: do_repay_borrow_def do_repay_borrow_with_amount_def result_simps Let_def
        owes_accrue [OF assms(2)] split: if_splits dest!: accrued_frame)
  moreover have "a \<le> n \<and> borrow_index u = borrow_index (lv_state s) \<and>
      current_borrow_balance (lv_fixed C) u who c = Inr (n - a)"
    using u(1)
  proof (rule repay_borrow_cases)
    fix s1 m l
    assume "accrue_interest (lv_fixed C) (lv_lend C) E c (lv_state s) = Inr s1"
      and m: "current_borrow_balance (lv_fixed C) s1 who c = Inr m" "a \<le> m"
      and k: "core u = (core s1)\<lparr>k_ledger := l, k_debts := with_debt s1 c who (m - a),
         k_borrows := (total_borrows s1)(c := total_borrows s1 c - a)\<rparr>"
    then have [simp]: "s1 = lv_state s" "m = n" using assms(2) by (auto simp: owes_accrue [OF assms(2)] owes_def)
    have "borrow_index u = borrow_index (lv_state s)" using coreD(7) [OF k] by simp
    moreover have "n \<le> u128_max" using balance_fits [OF assms(1) m(1)] by simp
    ultimately show ?thesis using assms(1,2) m(2) coreD(5) [OF k]
      by (auto simp: owes_def with_debt_def intro!: debt_now)
  qed
  ultimately show "a \<le> n" and "owes C E who c (n - a) t" using assms(2) u(2) by (simp_all add: owes_def)
qed

section \<open>The two operations\<close>

lemma increase_owes:
  assumes "fixed_point (lv_fixed C)" and "owes C E who c n s" and "c \<noteq> v"
    and "increase_leverage C E who c v a s = Inr t"
  shows "owes C E who c (n + a) t"
proof -
  obtain s1 x m s2 s3 s4 where *: "on_tokens (lv_mint_into C c who a) s = Inr s1"
    "on_staking (do_vmint (lv_fixed C) (lv_staking C) who c a [] None) s1 = Inr ((x, m), s2)"
    "on_lend (do_mint (lv_fixed C) (lv_lend C) E who v m) s2 = Inr s3"
    "on_lend (do_borrow (lv_fixed C) (lv_lend C) E who c a) s3 = Inr s4"
    "on_tokens (lv_burn_from C c who a) s4 = Inr t"
    using assms(4) by (auto simp: increase_leverage_def result_simps)
  have "owes C E who c n s3"
    using same_debts_books(2) [OF *(1)] same_debts_books(3) [OF *(2)] same_debts_deposit [OF *(3) assms(3)] assms(2)
    by (blast intro: owes_same)
  from borrow_owes [OF assms(1) this *(4)] same_debts_books(2) [OF *(5)] show ?thesis by (blast intro: owes_same)
qed

lemma reduce_owes:
  assumes "fixed_point (lv_fixed C)" and "owes C E who c n s" and "c \<noteq> v"
    and "reduce_leverage C E who c v a s = Inr t"
  shows "a \<le> n" and "owes C E who c (n - a) t"
proof -
  obtain pid i j s1 s2 r s3 s4 where *: "on_tokens (lv_mint_into C c who a) s = Inr s1"
    "on_lend (do_repay_borrow (lv_fixed C) (lv_lend C) E who c a) s1 = Inr s2"
    "on_lend (do_redeem (lv_fixed C) (lv_lend C) E who v r) s2 = Inr s3"
    "on_pools (on_swap (lv_pools C) who pid i j r a) s3 = Inr s4"
    "on_tokens (lv_burn_from C c who a) s4 = Inr t"
    using assms(4) by (auto simp: reduce_leverage_def result_simps)
  have "owes C E who c n s1" using same_debts_books(2) [OF *(1)] assms(2) by (blast intro: owes_same)
  note r = repay_owes [OF assms(1) this *(2)]
  show "a \<le> n" by (rule r(1))
  show "owes C E who c (n - a) t"
    using r(2) same_debts_redeem [OF *(3) assms(3)] same_debts_books(1) [OF *(4)] same_debts_books(2) [OF *(5)]
    by (blast intro: owes_same)
qed

end
