(* ===== verification/Leverage_Demo.thy ===== *)
theory Leverage_Demo
  imports Leverage_Debts Stable_Demo Lend_Demo
begin

text \<open>
  The three pallets on one ledger as the runtime puts them together, and a run for the witnesses: account 1 has a
  deposit of vTokens in the lend market, account 500, and raises its leverage rate from nothing to a fifth.
\<close>

section \<open>The runtime's configuration\<close>

text \<open>The assets of the lend market are the currencies below the stable pools.\<close>

definition assets_below :: "'l stable_config \<Rightarrow> 'l stable_state assets_ops" where
  "assets_below P = \<lparr>as_balance = (\<lambda>w. mc_free (sa_currencies P) (coins w)),
     as_reducible = (\<lambda>w. mc_free (sa_currencies P) (coins w)),
     as_transfer = (\<lambda>c a b n p w. case mc_transfer (sa_currencies P) c a b n (coins w) of
       Inl e \<Rightarrow> Inl e | Inr m \<Rightarrow> Inr (w\<lparr>coins := m\<rparr>))\<rparr>"

definition below_pools ::
  "('a \<Rightarrow> account \<Rightarrow> nat \<Rightarrow> 'l \<Rightarrow> nat + 'l) \<Rightarrow> 'a \<Rightarrow> account \<Rightarrow> nat \<Rightarrow> 'l stable_state \<Rightarrow>
     nat + 'l stable_state" where
  "below_pools f c a n w = (case f c a n (coins w) of Inl e \<Rightarrow> Inl e | Inr m \<Rightarrow> Inr (w\<lparr>coins := m\<rparr>))"

definition runtime_leverage_config ::
  "fixed_ops \<Rightarrow> 'l minting_state stable_state lend_config \<Rightarrow> 'l minting_config \<Rightarrow>
     'l minting_state stable_config \<Rightarrow> 'l leverage_config" where
  "runtime_leverage_config F L M P = \<lparr>lv_fixed = F, lv_lend = L\<lparr>assets := assets_below P\<rparr>, lv_pools = P,
     lv_staking = M, lv_mint_into = below_pools (sa_deposit P), lv_burn_from = below_pools (sa_withdraw P)\<rparr>"

lemma below_pools_Inr [result_simps]:
  "below_pools f c a n w = Inr w' \<longleftrightarrow> (\<exists>m. f c a n (coins w) = Inr m \<and> w' = w\<lparr>coins := m\<rparr>)"
  by (auto simp: below_pools_def split: sum.split)

lemma assets_below_Inr [result_simps]:
  "as_transfer (assets_below P) c a b n p w = Inr w' \<longleftrightarrow>
     (\<exists>m. mc_transfer (sa_currencies P) c a b n (coins w) = Inr m \<and> w' = w\<lparr>coins := m\<rparr>)"
  by (auto simp: assets_below_def split: sum.split)

lemma assets_below_fungibles:
  assumes "multi_currency (sa_currencies P)"
  shows "fungibles (assets_below P)"
proof (unfold_locales, goal_cases)
  case (1 c a n p l l')
  then show ?case
    by (auto simp: result_simps) (simp add: assets_below_def multi_currency.transfer_self [OF assms])
next
  case (2 c a b n p l l')
  then show ?case
    by (auto simp: result_simps) (simp add: assets_below_def multi_currency.transfer_enough [OF assms])
next
  case (3 c a b n p l l')
  then show ?case
    by (auto simp: result_simps) (simp add: assets_below_def multi_currency.transfer_moves [OF assms])
next
  case (4 l c a)
  then show ?case by (simp add: assets_below_def)
qed

lemma runtime_leverage_world:
  assumes M: "staking_ledger M" and P: "P = runtime_stable_config M o1 sub main phash rhash reg"
  shows "leverage_world (runtime_leverage_config F L M P)"
proof -
  have pool: "pool_ledger P" unfolding P by (rule staking_ledger.runtime_pool_ledger [OF M])
  have fung: "fungibles (assets_below P)"
    by (rule assets_below_fungibles) (rule pool_ledger.currency [OF pool])
  show ?thesis
  proof (rule leverage_world.intro, goal_cases)
    case 1 then show ?case using fung by (simp add: runtime_leverage_config_def)
  next
    case 2 then show ?case using pool by (simp add: runtime_leverage_config_def)
  next
    case 3 then show ?case using M by (simp add: runtime_leverage_config_def)
  next
    case 4 then show ?case by (simp add: runtime_leverage_config_def assets_below_def sa_free_def)
  next
    case 5 then show ?case by (simp add: runtime_leverage_config_def P staking_currencies_def)
  next
    case 6 then show ?case
      by (auto simp: runtime_leverage_config_def result_simps sa_free_def paid_def pool_ledger.deposit_adds [OF pool])
  next
    case 7 then show ?case
      by (auto simp: runtime_leverage_config_def result_simps sa_free_def paid_def pool_ledger.withdraw_takes [OF pool]
          intro!: le_add_diff_inverse2 dest: pool_ledger.withdraw_enough [OF pool])
  qed (auto simp: runtime_leverage_config_def P only_tokens_def result_simps staking_currencies_def)
qed

section \<open>The run\<close>

definition demo_lend :: "balances minting_state stable_state lend_config" where
  "demo_lend = \<lparr>assets = assets_below demo_stable, reserve_origin = (\<lambda>o1. o1 = Root),
     update_origin = (\<lambda>o1. o1 = Root), lend_account = 500, farming_account = 501,
     incentive_account = 502, reward_asset_id = Native BNC, liquidation_free_asset_id = Token2 0,
     max_length_limit = 500, lookup_account = Some, market_hash = (\<lambda>c. 0)\<rparr>"

definition demo_leverage :: "balances leverage_config" where
  "demo_leverage = runtime_leverage_config std_fixed demo_lend std_minting demo_stable"

interpretation levered: leverage_world demo_leverage
  unfolding demo_leverage_def demo_stable_def by (rule runtime_leverage_world [OF std_staking_ledger refl])

lemma demo_leverage_simps:
  "lv_fixed demo_leverage = std_fixed" "lv_lend demo_leverage = demo_lend" "lv_pools demo_leverage = demo_stable"
  "lv_staking demo_leverage = std_minting"
  "lv_mint_into demo_leverage = below_pools (\<lambda>c a n. on_outside (std_deposit c a n))"
  "lv_burn_from demo_leverage = below_pools (\<lambda>c a n. on_outside (std_withdraw c a n))"
  by (simp_all add: demo_leverage_def runtime_leverage_config_def demo_lend_def demo_stable_simps)

lemma demo_lend_simps:
  "lend_account demo_lend = 500" "liquidation_free_asset_id demo_lend = Token2 0"
  "as_balance (assets demo_lend) w = outside (coins w)" "as_reducible (assets demo_lend) w = outside (coins w)"
  "as_transfer (assets demo_lend) c a b n p = below_pools (\<lambda>_ _ _. on_outside (std_transfer c a b n)) c a n"
  by (simp_all add: demo_lend_def assets_below_def demo_stable_simps staking_currencies_def std_minting_simps
      std_currency_def below_pools_def fun_eq_iff)

text \<open>Account 1 has deposited 100000 vTokens, which are worth 115000 tokens. There is a pool of the two.\<close>

definition demo_coins :: balances where
  "demo_coins = (\<lambda>_ _. 0)(dot := (\<lambda>_. 0)(500 := 50000), vdot := (\<lambda>_. 0)(500 := 100000))"

definition demo_books :: "balances minting_state stable_state lend_state" where
  "demo_books = (initial_lend_state
     ((initial_stable 10 (demo_stake demo_coins))\<lparr>pools := [(0, demo_pool 220000 [110000, 110000])]\<rparr>))\<lparr>
     last_accrued := (\<lambda>_. 0)(dot := 100, vdot := 100),
     total_supply := (\<lambda>_. 0)(dot := 2500000, vdot := 5000000),
     account_deposits := (\<lambda>_ _. None)(vdot := [Suc 0 \<mapsto> \<lparr>voucher_balance = 5000000, is_collateral = False\<rparr>]),
     borrow_index := (\<lambda>_. 0)(dot := 1000000000000000000, vdot := 1000000000000000000),
     markets := [(dot, open_market (Lend 0)), (vdot, open_market (Lend 1))],
     market_bond := [dot \<mapsto> [vdot]]\<rparr>"

definition demo_start :: "balances leverage_state" where
  "demo_start = \<lparr>lv_state = demo_books, lv_events = []\<rparr>"

definition demo_levered :: "balances leverage_state" where
  "demo_levered = projr (flash_loan_deposit demo_leverage day1 (Signed 1) dot 200000000000000000 demo_start)"

lemma levered_run:
  "flash_loan_deposit demo_leverage day1 (Signed 1) dot 200000000000000000 demo_start = Inr demo_levered"
  by (simp add: demo_levered_def flash_loan_deposit_def flash_loan_deposit_inner_def leverage_position_def current_collateral_amount_def
      increase_leverage_def on_lend_def on_tokens_def on_staking_def lift_result_def get_current_borrow_balance_def
      demo_leverage_simps demo_lend_simps demo_start_def demo_books_def demo_coins_def demo_stake_def
      below_pools_def on_outside_def play_unfold std_ops emit_def number_unfold ensure_def Let_def mint_unfold borrow_unfold
      max_exchange_rate_def do_collateral_asset_def initial_lend_state_def initial_stable_def initial_minting_def
      day1_def ok_or_def ensure_signed_def)

end
