(* ===== verification/Leverage_Props.thy ===== *)
theory Leverage_Props
  imports Leverage_Demo
begin

text \<open>
  The properties of leverage staking, which span the lend market, liquid staking and the stable pools: the debt a
  call leaves, and that the tokens it lends are gone when it ends.
\<close>

section \<open>The debt\<close>

lemma vtoken_differs: "asset_to_vtoken c = Inr v \<Longrightarrow> c \<noteq> v"
  by (cases c) auto

lemma flash_loan_cases:
  assumes "flash_loan_deposit C E (Signed who) asset rate s = Inr t"
  obtains v s1 borrows base cur s2 a u where "asset_to_vtoken asset = Inr v"
    and "(if is_collateral (deposits_of (lv_state s) v who) then Inr s
          else on_lend (do_collateral_asset (lv_fixed C) (lv_lend C) E who v True) s) = Inr s1"
    and "leverage_position C E who asset v s1 = Inr ((borrows, base, cur), s2)"
    and "lv_state t = lv_state u"
    and "cur < rate \<and> fx_mul_int (lv_fixed C) (rate - cur) base = Some a \<and> increase_leverage C E who asset v a s2 = Inr u
       \<or> rate < cur \<and> (if rate = 0 then a = borrows else fx_mul_int (lv_fixed C) (cur - rate) base = Some a) \<and>
           reduce_leverage C E who asset v a s2 = Inr u"
proof -
  obtain v s1 borrows base cur s2 u where v: "asset_to_vtoken asset = Inr v"
    and s1: "(if is_collateral (deposits_of (lv_state s) v who) then Inr s
          else on_lend (do_collateral_asset (lv_fixed C) (lv_lend C) E who v True) s) = Inr s1"
    and p: "leverage_position C E who asset v s1 = Inr ((borrows, base, cur), s2)"
    and t: "t = u\<lparr>lv_events := FlashLoanDeposited who asset cur rate # lv_events u\<rparr>"
    and b: "(if rate < cur then
              rbind (if rate = 0 then Inr borrows
                     else ok_or (Option.bind (checked_sub cur rate)
                       (\<lambda>r. fx_mul_int (lv_fixed C) r base)) (Arithmetic Overflow)) (\<lambda>reduce_amount.
              reduce_leverage C E who asset v reduce_amount s2)
            else if rate = cur then Inl (Module LeverageArguments)
            else
              rbind (ok_or (Option.bind (checked_sub rate cur)
                       (\<lambda>r. fx_mul_int (lv_fixed C) r base)) (Arithmetic Overflow)) (\<lambda>increase_amount.
              increase_leverage C E who asset v increase_amount s2)) = Inr u"
    using assms
    by (auto simp: flash_loan_deposit_def flash_loan_deposit_inner_def ensure_signed_def result_simps
        split: sum.splits simp del: if_split)
  have "\<exists>a. cur < rate \<and> fx_mul_int (lv_fixed C) (rate - cur) base = Some a \<and>
      increase_leverage C E who asset v a s2 = Inr u
    \<or> rate < cur \<and> (if rate = 0 then a = borrows else fx_mul_int (lv_fixed C) (cur - rate) base = Some a) \<and>
        reduce_leverage C E who asset v a s2 = Inr u"
    using b by (auto simp: result_simps num_simps bind_eq_Some_conv split: if_splits)
  then show thesis using that v s1 p t by auto
qed

lemma flagged_same:
  assumes "(if is_collateral (deposits_of (lv_state s) v who) then Inr s
     else on_lend (do_collateral_asset F L E who v True) s) = Inr t"
  shows "borrow_index (lv_state t) = borrow_index (lv_state s)" and "below t = below s"
proof -
  have "borrow_index (lv_state t) = borrow_index (lv_state s) \<and> below t = below s"
  proof (cases "is_collateral (deposits_of (lv_state s) v who)")
    case False
    with assms obtain u where "do_collateral_asset F L E who v True (lv_state s) = Inr u" "t = s\<lparr>lv_state := u\<rparr>"
      by (auto simp: on_lend_Inr)
    then show ?thesis by (auto elim!: collateral_asset_cases dest: coreD(1) coreD(7))
  qed (use assms in simp)
  then show "borrow_index (lv_state t) = borrow_index (lv_state s)" and "below t = below s" by simp_all
qed

lemma position_rate:
  assumes "fixed_point (lv_fixed C)" and "leverage_position C E who c v s = Inr ((borrows, base, cur), t)"
  shows "0 < base" and "cur = borrows * fx_one div base"
proof -
  have r: "fx_from_rational (lv_fixed C) borrows base = Some cur"
    using assms(2) by (auto simp: leverage_position_def result_simps Let_def)
  show "0 < base" using r fixed_point.from_rational_zero [OF assms(1)] by (cases "base = 0") auto
  with r show "cur = borrows * fx_one div base"
    by (auto simp: fixed_point.from_rational_pos [OF assms(1)] chk_def split: if_splits)
qed

text \<open>One rounding of the rate and one of the amount.\<close>

lemma rate_reached:
  fixes b q n :: nat
  assumes q: "0 < q" and cur: "cur = b * n div q" and n: "0 < n"
    and a: "cur < r \<and> d = b + (r - cur) * q div n \<or>
       r < cur \<and> a \<le> b \<and> d = b - a \<and> (if r = 0 then a = b else a = (cur - r) * q div n)"
  shows "r * q < (d + 1) * n \<and> d * n < (r + 1) * q + n"
proof -
  obtain e where e: "b * n = cur * q + e" "e < q"
    using q cur by (metis div_mult_mod_eq mod_less_divisor)
  consider (up) x where "r = cur + x" "d = b + x * q div n" | (none) "r = 0" "d = 0"
    | (down) x where "cur = r + x" "x * q div n \<le> b" "d = b - x * q div n"
  proof -
    consider "cur < r" "d = b + (r - cur) * q div n" | "r = 0" "d = 0"
      | "r < cur" "a \<le> b" "d = b - a" "a = (cur - r) * q div n" using a by (auto split: if_splits)
    then show thesis
    proof cases
      case 1 then show ?thesis by (intro up [of "r - cur"]) simp_all
    next
      case 2 then show ?thesis by (rule none)
    next
      case 3 then show ?thesis by (intro down [of "cur - r"]) simp_all
    qed
  qed
  then show ?thesis
  proof cases
    case (up x)
    obtain k f where k: "x * q = k * n + f" "f < n" "k = x * q div n"
      using n by (metis div_mult_mod_eq mod_less_divisor)
    have "d * n = cur * q + e + k * n" using up(2) k(3) e(1) by (simp add: add_mult_distrib)
    then show ?thesis using e(2) k(1,2) up(1) by (simp add: add_mult_distrib)
  next
    case none
    then show ?thesis using n by simp
  next
    case (down x)
    obtain k f where k: "x * q = k * n + f" "f < n" "k = x * q div n"
      using n by (metis div_mult_mod_eq mod_less_divisor)
    have "k * n \<le> b * n" using down(2) k(3) by simp
    moreover have "d * n = b * n - k * n" using down(3) k(3) by (simp add: diff_mult_distrib)
    ultimately show ?thesis using e k(1,2) down(1) by (simp add: add_mult_distrib)
  qed
qed

text \<open>
  C13. A call that succeeds brings the debt to the rate: with the collateral \<open>base\<close> above the debt at the start, the
  debt the user owes at the end, interest included, is the rate times \<open>base\<close>, up to one unit and the rounding of
  the rate in its eighteenth digit.
\<close>
theorem flash_loan_reaches_the_rate:
  assumes "fixed_point (lv_fixed C)" and "0 < now_secs E" and "0 < borrow_index (lv_state s) asset"
    and "flash_loan_deposit C E (Signed who) asset rate s = Inr t"
  shows "\<exists>v s1 borrows base cur s2 debt. asset_to_vtoken asset = Inr v \<and>
    (if is_collateral (deposits_of (lv_state s) v who) then Inr s
     else on_lend (do_collateral_asset (lv_fixed C) (lv_lend C) E who v True) s) = Inr s1 \<and>
    leverage_position C E who asset v s1 = Inr ((borrows, base, cur), s2) \<and>
    get_current_borrow_balance (lv_fixed C) (lv_lend C) E who asset (lv_state t) = Inr (debt, lv_state t) \<and>
    rate * base < (debt + 1) * fx_one \<and> debt * fx_one < (rate + 1) * base + fx_one"
  using assms(4)
proof (rule flash_loan_cases)
  fix v s1 borrows base cur s2 a u
  assume v: "asset_to_vtoken asset = Inr v"
    and s1: "(if is_collateral (deposits_of (lv_state s) v who) then Inr s
          else on_lend (do_collateral_asset (lv_fixed C) (lv_lend C) E who v True) s) = Inr s1"
    and p: "leverage_position C E who asset v s1 = Inr ((borrows, base, cur), s2)"
    and t: "lv_state t = lv_state u"
    and a: "cur < rate \<and> fx_mul_int (lv_fixed C) (rate - cur) base = Some a \<and> increase_leverage C E who asset v a s2 = Inr u
       \<or> rate < cur \<and> (if rate = 0 then a = borrows else fx_mul_int (lv_fixed C) (cur - rate) base = Some a) \<and>
           reduce_leverage C E who asset v a s2 = Inr u"
  note neq = vtoken_differs [OF v]
  note cur = position_rate [OF assms(1) p]
  have o2: "owes C E who asset borrows s2"
    using position_owes(1) [OF p assms(2)] flagged_same(1) [OF s1] assms(3) by simp
  from a obtain d where d: "owes C E who asset d u" and
    e: "cur < rate \<and> d = borrows + (rate - cur) * base div fx_one \<or>
       rate < cur \<and> a \<le> borrows \<and> d = borrows - a \<and>
         (if rate = 0 then a = borrows else a = (cur - rate) * base div fx_one)"
  proof (elim disjE conjE)
    assume "cur < rate" "fx_mul_int (lv_fixed C) (rate - cur) base = Some a"
      and u: "increase_leverage C E who asset v a s2 = Inr u"
    then show thesis
      using that [OF increase_owes [OF assms(1) o2 neq u]] by (simp add: fixed_point.mul_int_Some [OF assms(1)])
  next
    assume "rate < cur" "if rate = 0 then a = borrows else fx_mul_int (lv_fixed C) (cur - rate) base = Some a"
      and u: "reduce_leverage C E who asset v a s2 = Inr u"
    then show thesis
      using that [OF reduce_owes(2) [OF assms(1) o2 neq u]] reduce_owes(1) [OF assms(1) o2 neq u]
      by (simp add: fixed_point.mul_int_Some [OF assms(1)] split: if_splits)
  qed
  have "rate * base < (d + 1) * fx_one \<and> d * fx_one < (rate + 1) * base + fx_one"
    using e by (intro rate_reached [OF cur]) (simp_all add: fx_one_def)
  moreover have "get_current_borrow_balance (lv_fixed C) (lv_lend C) E who asset (lv_state t) = Inr (d, lv_state t)"
    using owes_read [OF d] t by simp
  ultimately show ?thesis using v s1 p by blast
qed


theorem flash_loan_reaches_the_rate_witness:
  "flash_loan_deposit demo_leverage day1 (Signed 1) dot 200000000000000000 demo_start = Inr demo_levered \<and>
   (\<exists>v s1 borrows base cur s2 debt. leverage_position demo_leverage day1 1 dot v s1 = Inr ((borrows, base, cur), s2) \<and>
      get_current_borrow_balance std_fixed demo_lend day1 1 dot (lv_state demo_levered) = Inr (debt, lv_state demo_levered) \<and>
      200000000000000000 * base < (debt + 1) * fx_one)"
proof -
  have "0 < now_secs day1" "0 < borrow_index (lv_state demo_start) dot"
    by (simp_all add: day1_def demo_start_def demo_books_def)
  from flash_loan_reaches_the_rate [OF _ this levered_run] std_fixed_point levered_run show ?thesis
    by (simp add: demo_leverage_simps) blast
qed

section \<open>The tokens\<close>

lemma pool_id_found:
  assumes "get_pool_id w v c = Some (pid, i, j)" and "distinct (map fst (pools w))"
  obtains p where "find_pool w pid = Some p" and "pool_assets p ! i = v" and "pool_assets p ! j = c"
    and "v \<in> set (pool_assets p)" and "c \<in> set (pool_assets p)" and "p \<in> snd ` set (pools w)"
proof -
  have "find_first (pool_pair v c) l = Some (pid, i, j) \<Longrightarrow>
      \<exists>p. (pid, p) \<in> set l \<and> pool_assets p ! i = v \<and> pool_assets p ! j = c \<and>
        v \<in> set (pool_assets p) \<and> c \<in> set (pool_assets p)" for l
  proof (induction l)
    case (Cons x l)
    then show ?case
      by (cases "pool_pair v c x") (auto simp: pool_pair_def split: prod.splits list.splits if_splits)
  qed simp
  with assms(1) obtain p where "(pid, p) \<in> set (pools w)" "pool_assets p ! i = v" "pool_assets p ! j = c"
    "v \<in> set (pool_assets p)" "c \<in> set (pool_assets p)"
    by (auto simp: get_pool_id_def)
  then show thesis using that [of p] assms(2) by (force simp: find_pool_def)
qed

lemma position_below: "leverage_position C E who c v s = Inr (x, t) \<Longrightarrow> below t = below s"
  by (auto simp: leverage_position_def get_current_borrow_balance_def result_simps Let_def dest: accrue_ledger)

lemma redeemed_within:
  assumes "fixed_point F" and "fx_div F n rate = Some w" and "fx_mul_int F rate w = Some u"
  shows "u \<le> n"
proof -
  have "w = n * fx_one div rate" and "u = rate * w div fx_one"
    using assms(2,3) by (simp_all add: fixed_point.div_Some [OF assms(1)] fixed_point.mul_int_Some [OF assms(1)])
  moreover have "rate * (n * fx_one div rate) div fx_one \<le> n * fx_one div fx_one"
    by (intro div_le_mono) simp
  ultimately show ?thesis by (simp add: fx_one_def)
qed

text \<open>
  C14. The tokens a call lends to the user are gone when it has succeeded. Over the accounts of the user, the lend
  market, liquid staking and the pools the amount of the token is what it was; the user has no less of it,
  and no more vTokens, than before: the call turns the user's collateral and debt into one another, and what the
  pool pays above the repaid amount stays with the user.
\<close>
theorem flash_loan_leaves_no_tokens:
  assumes "leverage_world C" and "fixed_point (lv_fixed C)" and "finite A"
    and "{who, lend_account (lv_lend C), mint_fee_account (lv_staking C), entrance_account (lv_staking C)} \<subseteq> A"
    and "who \<notin> {lend_account (lv_lend C), mint_fee_account (lv_staking C), entrance_account (lv_staking C)}"
    and "\<forall>p \<in> snd ` set (pools (below s)). pool_account p \<in> A - {who} \<and> pool_asset p \<notin> set (pool_assets p)"
    and "distinct (map fst (pools (below s)))"
    and "asset_to_vtoken asset = Inr v" and "token_to_vtoken_map (coins (below s)) asset = Some v"
    and "flash_loan_deposit C E (Signed who) asset rate s = Inr t"
  shows "sum (held C t asset) A = sum (held C s asset) A \<and>
    held C s asset who \<le> held C t asset who \<and> held C t v who \<le> held C s v who"
  using assms(10)
proof (rule flash_loan_cases)
  fix v' s1 borrows base cur s2 a u
  assume v': "asset_to_vtoken asset = Inr v'"
    and s1: "(if is_collateral (deposits_of (lv_state s) v' who) then Inr s
          else on_lend (do_collateral_asset (lv_fixed C) (lv_lend C) E who v' True) s) = Inr s1"
    and p: "leverage_position C E who asset v' s1 = Inr ((borrows, base, cur), s2)"
    and t: "lv_state t = lv_state u"
    and a: "cur < rate \<and> fx_mul_int (lv_fixed C) (rate - cur) base = Some a \<and> increase_leverage C E who asset v' a s2 = Inr u
       \<or> rate < cur \<and> (if rate = 0 then a = borrows else fx_mul_int (lv_fixed C) (cur - rate) base = Some a) \<and>
           reduce_leverage C E who asset v' a s2 = Inr u"
  have [simp]: "v' = v" using v' assms(8) by simp
  have below: "below s2 = below s" using position_below [OF p] flagged_same(2) [OF s1] by simp
  have s: "held C s = held C s2" and t: "held C t = held C u" by (simp_all add: held_def below t)
  have neq: "v \<noteq> asset" using vtoken_differs [OF assms(8)] by simp
  have A: "who \<in> A" "lend_account (lv_lend C) \<in> A" "mint_fee_account (lv_staking C) \<in> A"
    "entrance_account (lv_staking C) \<in> A" and who: "who \<noteq> lend_account (lv_lend C)"
    "who \<noteq> mint_fee_account (lv_staking C)" "who \<noteq> entrance_account (lv_staking C)" using assms(4,5) by auto
  note sums = sum.distrib sum_paid [OF assms(3)]
  show ?thesis unfolding s t
  proof (cases "cur < rate")
    case True
    with a have r: "increase_leverage C E who asset v a s2 = Inr u" by simp
    show "sum (held C u asset) A = sum (held C s2 asset) A \<and>
      held C s2 asset who \<le> held C u asset who \<and> held C u v who \<le> held C s2 v who"
    proof (rule leverage_world.increase_flow [OF assms(1) r])
      show "token_to_vtoken_map (coins (below s2)) asset = Some v" using assms(9) below by simp
      fix fee net m
      assume n: "fee + net = a" and f: "\<And>d x. held C u d x + paid asset (lend_account (lv_lend C)) a d x =
           held C s2 d x + paid asset (mint_fee_account (lv_staking C)) fee d x
             + paid asset (entrance_account (lv_staking C)) net d x + paid v (lend_account (lv_lend C)) m d x"
      have "(\<Sum>x\<in>A. held C u asset x + paid asset (lend_account (lv_lend C)) a asset x) =
          (\<Sum>x\<in>A. held C s2 asset x + paid asset (mint_fee_account (lv_staking C)) fee asset x
             + paid asset (entrance_account (lv_staking C)) net asset x)"
        using neq by (simp add: f) (simp add: paid_def)
      then show ?thesis using f [of asset who] f [of v who] who neq n by (simp add: sums A) (simp add: paid_def)
    qed
  next
    case False
    with a have r: "reduce_leverage C E who asset v a s2 = Inr u" by auto
    then obtain pid i j where g: "get_pool_id (below s2) v asset = Some (pid, i, j)"
      by (auto simp: reduce_leverage_def result_simps)
    show "sum (held C u asset) A = sum (held C s2 asset) A \<and>
      held C s2 asset who \<le> held C u asset who \<and> held C u v who \<le> held C s2 v who"
    proof (rule pool_id_found [OF g])
      show "distinct (map fst (pools (below s2)))" using assms(7) below by simp
      fix p
      assume fp: "find_pool (below s2) pid = Some p" "pool_assets p ! i = v" "pool_assets p ! j = asset"
        and m: "v \<in> set (pool_assets p)" "asset \<in> set (pool_assets p)" "p \<in> snd ` set (pools (below s2))"
      have lp: "pool_asset p \<notin> set (pool_assets p)" "pool_account p \<in> A" "pool_account p \<noteq> who"
        using assms(6) m(3) below by auto
      have d: "asset \<noteq> pool_asset p" "v \<noteq> pool_asset p" using lp(1) m(1,2) by auto
      show ?thesis
      proof (rule leverage_world.reduce_flow [OF assms(1) r g fp(1) lp(1) fp(2,3)])
        fix n w q rate' out
        assume n: "fx_div (lv_fixed C) n rate' = Some w" "fx_mul_int (lv_fixed C) rate' w = Some q"
          and out: "a \<le> out" and f: "\<And>d x. d \<noteq> pool_asset p \<Longrightarrow>
           held C u d x + paid asset who a d x + paid v (lend_account (lv_lend C)) q d x + paid v who n d x
             + paid asset (pool_account p) out d x =
           held C s2 d x + paid asset (lend_account (lv_lend C)) a d x + paid v who q d x
             + paid v (pool_account p) n d x + paid asset who out d x"
        have "q \<le> n" by (rule redeemed_within [OF assms(2) n])
        moreover have "(\<Sum>x\<in>A. held C u asset x + paid asset who a asset x + paid asset (pool_account p) out asset x) =
          (\<Sum>x\<in>A. held C s2 asset x + paid asset (lend_account (lv_lend C)) a asset x + paid asset who out asset x)"
          using f [OF d(1)] neq by (intro sum.cong refl) (simp add: paid_def split: if_splits)
        ultimately show ?thesis using f [OF d(1), of who] f [OF d(2), of who] who lp(3) neq out
          by (simp add: sums A lp(2)) (simp add: paid_def)
      qed
    qed
  qed
qed

theorem flash_loan_leaves_no_tokens_witness:
  "flash_loan_deposit demo_leverage day1 (Signed 1) dot 200000000000000000 demo_start = Inr demo_levered \<and>
   sum (held demo_leverage demo_levered dot) {1, 100, 102, 200, 500} =
     sum (held demo_leverage demo_start dot) {1, 100, 102, 200, 500} \<and>
   held demo_leverage demo_start dot 1 \<le> held demo_leverage demo_levered dot 1"
proof -
  have "leverage_world demo_leverage" by (rule levered.leverage_world_axioms)
  moreover have "fixed_point (lv_fixed demo_leverage)" by (simp add: demo_leverage_simps std_fixed_point)
  moreover have "finite {1, 100, 102, 200, 500::account}" by simp
  ultimately show ?thesis
    using flash_loan_leaves_no_tokens [of demo_leverage "{1, 100, 102, 200, 500}" 1 demo_start dot vdot day1
      200000000000000000 demo_levered] levered_run
    by (simp add: demo_leverage_simps demo_lend_simps std_minting_simps demo_start_def demo_books_def demo_stake_def
        initial_lend_state_def initial_stable_def initial_minting_def)
qed

end
