(* ===== verification/Farm_State.thy ===== *)
theory Farm_State
  imports Storage Ledger
begin

text \<open>
  The data and the storage of the farming pallet, \<open>pallets/farming/src\<close> (\<open>lib.rs\<close>, \<open>rewards.rs\<close>, \<open>gauge.rs\<close> and
  \<open>boost.rs\<close>). A \<open>BTreeMap\<close> is a list of entries in the order of its keys; a storage map that the code iterates over
  is a list in the order of the hashes of its keys. A block number is a \<open>u32\<close>, as in the runtimes.

  The token ledger, the vote escrow (\<open>T::BbBNC\<close>) and whatever else is outside of the pallet act on an opaque state;
  the roundings of \<open>Perbill\<close> and \<open>Percent\<close> are parameters.
\<close>

section \<open>Pools and shares\<close>

datatype pool_state = UnCharged | Charged | Ongoing | Dead | Retired

record share_info =
  si_who :: account
  si_share :: nat
  si_withdrawn :: "(currency \<times> nat) list"
  si_claim_last_block :: nat
  si_withdraw_list :: "(nat \<times> nat) list"

record pool_info =
  tokens_proportion :: "(currency \<times> nat) list"
  basic_token :: "currency \<times> nat"
  total_shares :: nat
  basic_rewards :: "(currency \<times> nat) list"
  pool_rewards :: "(currency \<times> nat \<times> nat) list"
  farm_pool_state :: pool_state
  keeper :: account
  reward_issuer :: account
  gauge :: "nat option"
  block_startup :: "nat option"
  min_deposit_to_start :: nat
  after_block_to_start :: nat
  withdraw_limit_time :: nat
  claim_limit_time :: nat
  withdraw_limit_count :: nat

definition new_share :: "account \<Rightarrow> nat \<Rightarrow> share_info" where
  "new_share who b = \<lparr>si_who = who, si_share = 0, si_withdrawn = [], si_claim_last_block = b, si_withdraw_list = []\<rparr>"

text \<open>\<open>PoolInfo::new\<close>, and \<open>PoolInfo::new_gauge\<close> with the arguments its callers give.\<close>

definition new_pool ::
  "account \<Rightarrow> account \<Rightarrow> (currency \<times> nat) list \<Rightarrow> currency \<times> nat \<Rightarrow> (currency \<times> nat) list \<Rightarrow> nat option \<Rightarrow>
     nat \<Rightarrow> nat \<Rightarrow> nat \<Rightarrow> nat \<Rightarrow> nat \<Rightarrow> pool_info" where
  "new_pool k i props tok rewards g min_deposit after wtime ctime wcount = \<lparr>
     tokens_proportion = props, basic_token = tok, total_shares = 0, basic_rewards = rewards, pool_rewards = [],
     farm_pool_state = UnCharged, keeper = k, reward_issuer = i, gauge = g, block_startup = None,
     min_deposit_to_start = min_deposit, after_block_to_start = after, withdraw_limit_time = wtime,
     claim_limit_time = ctime, withdraw_limit_count = wcount\<rparr>"

definition new_gauge ::
  "account \<Rightarrow> account \<Rightarrow> (currency \<times> nat) list \<Rightarrow> currency \<times> nat \<Rightarrow> (currency \<times> nat) list \<Rightarrow> pool_info" where
  "new_gauge k i props tok rewards = (new_pool k i props tok rewards None 0 0 0 0 0)\<lparr>farm_pool_state := Ongoing\<rparr>"

text \<open>The gauge infos of older versions, which no call creates any more.\<close>

record gauge_info =
  gi_who :: account
  gi_amount :: nat
  gi_latest_time_factor :: nat
  gi_claimed_time_factor :: nat
  gi_stop_block :: nat
  gi_last_block :: nat

record gauge_pool_info =
  gp_pid :: nat
  gp_rewards :: "(currency \<times> nat \<times> nat \<times> nat) list"
  gp_total_time_factor :: nat

section \<open>Voting\<close>

record boost_pool_info =
  boost_votes :: nat
  start_round :: nat
  end_round :: nat
  round_length :: nat

record user_boost_info =
  vote_amount :: nat
  vote_list :: "(nat \<times> nat) list"
  last_vote :: nat

section \<open>Errors and events\<close>

datatype farm_error =
    NotNullable | PoolDoesNotExist | GaugePoolNotExist | GaugeInfoNotExist | InvalidPoolState | CanNotClaim
  | WithdrawLimitCountExceeded | ShareInfoNotExists | CanNotDeposit | WhitelistEmpty | RoundNotOver
  | RoundLengthNotSet | WhitelistLimitExceeded | NobodyVoting | NotInWhitelist | PercentOverflow
  | PoolNotCleared | InvalidRemoveAmount | UserFarmingPoolOverflow

type_synonym 'a farm_result = "(farm_error, 'a) result"

datatype farm_event =
    FarmingPoolCreated nat
  | FarmingPoolReset nat
  | FarmingPoolClosed nat
  | FarmingPoolKilled nat
  | FarmingPoolEdited nat
  | PoolCharged account nat "(currency \<times> nat) list"
  | PoolDeposited account nat nat
  | PoolWithdrawn account nat "nat option"
  | PoolClaimed account nat
  | WithdrawClaimed account nat
  | AllForceGaugeClaimed nat
  | PartiallyForceGaugeClaimed nat
  | AllRetired nat
  | PartiallyRetired nat
  | RetireLimitSet nat
  | RoundEnd nat nat nat
  | RoundStartError "farm_error dispatch_error"
  | RoundStart nat
  | FarmVoted account "(nat \<times> nat) list"
  | BoostCharged account "(currency \<times> nat) list"

section \<open>Configuration and storage\<close>

record 'l farm_config =
  fm_currencies :: "'l currency_ops"
  fm_total_balance :: "'l \<Rightarrow> currency \<Rightarrow> account \<Rightarrow> nat"
  fm_minimum_balance :: "currency \<Rightarrow> nat"
  fm_control_origin :: "origin \<Rightarrow> bool"
  fm_treasury :: account
  keeper_account :: "nat \<Rightarrow> account"
  issuer_account :: "nat \<Rightarrow> account"
  boost_account :: account
  bb_balance :: "'l \<Rightarrow> account \<Rightarrow> nat + nat"
  bb_get_rewards :: "nat \<Rightarrow> account \<Rightarrow> nat \<times> nat \<Rightarrow> 'l \<Rightarrow> nat + 'l"
  block_to_balance :: "nat \<Rightarrow> nat"
  whitelist_limit :: nat
  perbill_mul :: "nat \<Rightarrow> nat \<Rightarrow> nat"
  perbill_reciprocal_mul :: "nat \<Rightarrow> nat \<Rightarrow> nat"
  perbill_from_rational :: "nat \<Rightarrow> nat \<Rightarrow> nat"
  percent_from_rational :: "nat \<Rightarrow> nat \<Rightarrow> nat"
  percent_mul :: "nat \<Rightarrow> nat \<Rightarrow> nat"
  percent_mul_floor :: "nat \<Rightarrow> nat \<Rightarrow> nat"
  percent_add :: "nat \<Rightarrow> nat \<Rightarrow> nat option"
  pool_id_hash :: "nat \<Rightarrow> nat"
  account_hash :: "account \<Rightarrow> nat"

record 'l farm_state =
  pool_next_id :: nat
  retire_limit :: nat
  farm_pools :: "(nat \<times> pool_info) list"
  gauge_pool_infos :: "nat \<Rightarrow> gauge_pool_info option"
  gauge_infos :: "nat \<Rightarrow> (account \<times> gauge_info) list"
  farm_shares :: "nat \<Rightarrow> (account \<times> share_info) list"
  boost_pool :: boost_pool_info
  user_boosts :: "account \<Rightarrow> user_boost_info option"
  boost_whitelist :: "(nat \<times> unit) list"
  next_whitelist :: "(nat \<times> unit) list"
  voting_pools :: "(nat \<times> nat) list"
  boost_basic_rewards :: "nat \<Rightarrow> currency \<Rightarrow> nat option"
  user_farming_pool :: "account \<Rightarrow> nat list"
  farm_block :: nat
  farm_ledger :: 'l
  farm_events :: "farm_event list"

definition initial_farm :: "'l \<Rightarrow> 'l farm_state" where
  "initial_farm l = \<lparr>pool_next_id = 0, retire_limit = 0, farm_pools = [], gauge_pool_infos = (\<lambda>_. None),
     gauge_infos = (\<lambda>_. []), farm_shares = (\<lambda>_. []),
     boost_pool = \<lparr>boost_votes = 0, start_round = 0, end_round = 0, round_length = 0\<rparr>, user_boosts = (\<lambda>_. None),
     boost_whitelist = [], next_whitelist = [], voting_pools = [], boost_basic_rewards = (\<lambda>_ _. None),
     user_farming_pool = (\<lambda>_. []), farm_block = 0, farm_ledger = l, farm_events = []\<rparr>"

definition gauge_base_id :: nat where "gauge_base_id = 10000000"

abbreviation gauge_id :: "nat \<Rightarrow> nat" where
  "gauge_id pid \<equiv> add32 pid gauge_base_id"

definition emit_farm :: "farm_event \<Rightarrow> 'l farm_state \<Rightarrow> 'l farm_state" where
  "emit_farm e s = s\<lparr>farm_events := e # farm_events s\<rparr>"

definition farm_pool :: "'l farm_state \<Rightarrow> nat \<Rightarrow> pool_info option" where
  "farm_pool s pid = map_of (farm_pools s) pid"

definition the_farm_pool :: "'l farm_state \<Rightarrow> nat \<Rightarrow> pool_info farm_result" where
  "the_farm_pool s pid = ok_or (farm_pool s pid) (Module PoolDoesNotExist)"

definition put_pool :: "'l farm_config \<Rightarrow> nat \<Rightarrow> pool_info \<Rightarrow> 'l farm_state \<Rightarrow> 'l farm_state" where
  "put_pool C pid p s = s\<lparr>farm_pools := sm_put (pool_id_hash C) pid p (farm_pools s)\<rparr>"

definition share_of :: "'l farm_state \<Rightarrow> nat \<Rightarrow> account \<Rightarrow> share_info option" where
  "share_of s pid who = map_of (farm_shares s pid) who"

definition put_share :: "'l farm_config \<Rightarrow> nat \<Rightarrow> account \<Rightarrow> share_info \<Rightarrow> 'l farm_state \<Rightarrow> 'l farm_state" where
  "put_share C pid who i s =
     s\<lparr>farm_shares := (farm_shares s)(pid := sm_put (account_hash C) who i (farm_shares s pid))\<rparr>"

definition drop_share :: "nat \<Rightarrow> account \<Rightarrow> 'l farm_state \<Rightarrow> 'l farm_state" where
  "drop_share pid who s = s\<lparr>farm_shares := (farm_shares s)(pid := sm_del who (farm_shares s pid))\<rparr>"

definition farm_transfer ::
  "'l farm_config \<Rightarrow> currency \<Rightarrow> account \<Rightarrow> account \<Rightarrow> nat \<Rightarrow> 'l \<Rightarrow> 'l farm_result" where
  "farm_transfer C c a b n l =
     (case mc_transfer (fm_currencies C) c a b n l of Inl e \<Rightarrow> Inl (External e) | Inr l' \<Rightarrow> Inr l')"

definition bb_balance_of :: "'l farm_config \<Rightarrow> 'l farm_state \<Rightarrow> account \<Rightarrow> nat farm_result" where
  "bb_balance_of C s who = (case bb_balance C (farm_ledger s) who of Inl e \<Rightarrow> Inl (External e) | Inr n \<Rightarrow> Inr n)"

definition farm_control :: "'l farm_config \<Rightarrow> origin \<Rightarrow> unit farm_result" where
  "farm_control C o1 = ensure (fm_control_origin C o1) BadOrigin"

end
