(* ===== verification/Farm_Rewards.thy ===== *)
theory Farm_Rewards
  imports Farm_State
begin

text \<open>
  The operations on shares and rewards, \<open>pallets/farming/src/rewards.rs\<close>. A reward is booked as a pair of what has
  been earned and what has been withdrawn. New shares are charged the rewards earned before them: both numbers
  are inflate_pool by the part of the earned rewards the new shares would have had, and that part counts as withdrawn by
  their owner.
\<close>

section \<open>Arithmetic\<close>

text \<open>A product and quotient of \<open>U256\<close>, which does not overflow; a zero divisor gives zero.\<close>

definition portion :: "nat \<Rightarrow> nat \<Rightarrow> nat \<Rightarrow> nat" where
  "portion a b n = (if n = 0 then 0 else a * b div n)"

definition portion128 :: "nat \<Rightarrow> nat \<Rightarrow> nat \<Rightarrow> nat farm_result" where
  "portion128 a b n = ok_or (chk u128_max (portion a b n)) (Arithmetic Overflow)"

section \<open>Adding shares\<close>

definition reward_inflation :: "nat \<Rightarrow> nat \<Rightarrow> nat \<Rightarrow> nat" where
  "reward_inflation add_amount total_reward initial_total_shares =
     (let q = portion add_amount total_reward initial_total_shares in if q \<le> u128_max then q else 0)"

definition charge_inflation :: "currency \<times> nat \<Rightarrow> (currency \<times> nat) list \<Rightarrow> (currency \<times> nat) list" where
  "charge_inflation = (\<lambda>(c, inflation) m.
     bt_put c (case map_of m c of Some w \<Rightarrow> saturating_add w inflation | None \<Rightarrow> inflation) m)"

definition inflate_pool :: "nat \<Rightarrow> pool_info \<Rightarrow> pool_info" where
  "inflate_pool n p = p\<lparr>total_shares := saturating_add (total_shares p) n,
     pool_rewards := map (\<lambda>(c, total_reward, withdrawn).
       let i = reward_inflation n total_reward (total_shares p)
       in (c, saturating_add total_reward i, saturating_add withdrawn i)) (pool_rewards p)\<rparr>"

definition withdrawn_inflation :: "nat \<Rightarrow> pool_info \<Rightarrow> (currency \<times> nat) list" where
  "withdrawn_inflation n p =
     map (\<lambda>(c, total_reward, withdrawn). (c, reward_inflation n total_reward (total_shares p))) (pool_rewards p)"

definition share_or_new :: "'l farm_state \<Rightarrow> nat \<Rightarrow> account \<Rightarrow> share_info" where
  "share_or_new s pid who = (case share_of s pid who of Some i \<Rightarrow> i | None \<Rightarrow> new_share who (farm_block s))"

definition add_share ::
  "'l farm_config \<Rightarrow> account \<Rightarrow> nat \<Rightarrow> pool_info \<Rightarrow> nat \<Rightarrow> 'l farm_state \<Rightarrow> 'l farm_state" where
  "add_share C who pid p add_amount s =
     (if add_amount = 0 then s
      else
        let i = share_or_new s pid who in
        put_pool C pid (inflate_pool add_amount p)
          (put_share C pid who
            (i\<lparr>si_share := saturating_add (si_share i) add_amount,
               si_withdrawn := fold charge_inflation (withdrawn_inflation add_amount p) (si_withdrawn i)\<rparr>) s))"

definition accumulate_reward ::
  "'l farm_config \<Rightarrow> nat \<Rightarrow> currency \<Rightarrow> nat \<Rightarrow> 'l farm_state \<Rightarrow> 'l farm_state farm_result" where
  "accumulate_reward C pid c increment s =
     (if increment = 0 then Inr s
      else
        rbind (the_farm_pool s pid) (\<lambda>p.
        Inr (put_pool C pid (p\<lparr>pool_rewards := bt_put c
          (case map_of (pool_rewards p) c of
             Some (total_reward, w) \<Rightarrow> (saturating_add total_reward increment, w)
           | None \<Rightarrow> (increment, 0)) (pool_rewards p)\<rparr>) s)))"

section \<open>Claiming rewards\<close>

text \<open>An amount below the existential deposit that the receiver cannot hold goes to the treasury.\<close>

definition payee :: "'l farm_config \<Rightarrow> account \<Rightarrow> currency \<Rightarrow> nat \<Rightarrow> 'l \<Rightarrow> account farm_result" where
  "payee C who c amount l =
     (if amount < fm_minimum_balance C c then
        rbind (ok_or (checked_add (fm_total_balance C l c who) amount) (Arithmetic Overflow)) (\<lambda>after.
        Inr (if after < fm_minimum_balance C c then fm_treasury C else who))
      else Inr who)"

definition due_reward :: "nat \<Rightarrow> nat \<Rightarrow> nat \<Rightarrow> nat \<Rightarrow> nat \<Rightarrow> nat farm_result" where
  "due_reward share supply total_reward total_withdrawn withdrawn =
     rbind (portion128 share total_reward supply) (\<lambda>proportion.
     Inr (min (saturating_sub proportion withdrawn) (saturating_sub total_reward total_withdrawn)))"

definition or_zero :: "nat option \<Rightarrow> nat" where
  "or_zero n = (case n of Some m \<Rightarrow> m | None \<Rightarrow> 0)"

definition claim_one ::
  "'l farm_config \<Rightarrow> account \<Rightarrow> account \<Rightarrow> nat \<Rightarrow> nat \<Rightarrow> currency \<Rightarrow> nat \<Rightarrow> nat \<Rightarrow> (currency \<times> nat) list \<Rightarrow> 'l \<Rightarrow>
     (nat \<times> (currency \<times> nat) list \<times> 'l) farm_result" where
  "claim_one C who issuer share supply c total_reward total_withdrawn wd l =
     (let withdrawn = or_zero (map_of wd c) in
      rbind (due_reward share supply total_reward total_withdrawn withdrawn) (\<lambda>r.
      if r = 0 then Inr (total_withdrawn, wd, l)
      else
        rbind (payee C who c r l) (\<lambda>to.
        rbind (farm_transfer C c issuer to r l) (\<lambda>l'.
        Inr (saturating_add total_withdrawn r, bt_put c (saturating_add withdrawn r) wd, l')))))"

fun claim_each ::
  "'l farm_config \<Rightarrow> account \<Rightarrow> account \<Rightarrow> nat \<Rightarrow> nat \<Rightarrow> (currency \<times> nat \<times> nat) list \<Rightarrow> (currency \<times> nat) list \<Rightarrow> 'l \<Rightarrow>
     ((currency \<times> nat \<times> nat) list \<times> (currency \<times> nat) list \<times> 'l) farm_result" where
  "claim_each C who issuer share supply [] wd l = Inr ([], wd, l)"
| "claim_each C who issuer share supply ((c, total_reward, total_withdrawn) # rs) wd l =
     rbind (claim_one C who issuer share supply c total_reward total_withdrawn wd l) (\<lambda>(w', wd', l').
     rbind (claim_each C who issuer share supply rs wd' l') (\<lambda>(rs', wd'', l'').
     Inr ((c, total_reward, w') # rs', wd'', l'')))"

definition claim_rewards ::
  "'l farm_config \<Rightarrow> account \<Rightarrow> nat \<Rightarrow> 'l farm_state \<Rightarrow> 'l farm_state farm_result" where
  "claim_rewards C who pid s =
     (case share_of s pid who of
        None \<Rightarrow> Inr s
      | Some i \<Rightarrow>
          if si_share i = 0 then Inr s
          else
            rbind (the_farm_pool s pid) (\<lambda>p.
            rbind (claim_each C who (reward_issuer p) (si_share i) (total_shares p) (pool_rewards p) (si_withdrawn i)
              (farm_ledger s)) (\<lambda>(rs, wd, l).
            Inr (put_share C pid who (i\<lparr>si_withdrawn := wd, si_claim_last_block := farm_block s\<rparr>)
                  (put_pool C pid (p\<lparr>pool_rewards := rs\<rparr>) (s\<lparr>farm_ledger := l\<rparr>))))))"

section \<open>Removing shares\<close>

definition uncharge ::
  "currency \<Rightarrow> nat \<Rightarrow> (currency \<times> nat \<times> nat) list \<Rightarrow> (currency \<times> nat \<times> nat) list" where
  "uncharge c x rs =
     (case map_of rs c of
        Some (total_reward, total_withdrawn) \<Rightarrow>
          (let t = saturating_sub total_reward x in
           if t = 0 then sm_del c rs else bt_put c (t, saturating_sub total_withdrawn x) rs)
      | None \<Rightarrow> rs)"

fun remove_each ::
  "nat \<Rightarrow> nat \<Rightarrow> (currency \<times> nat) list \<Rightarrow> (currency \<times> nat \<times> nat) list \<Rightarrow>
     ((currency \<times> nat) list \<times> (currency \<times> nat \<times> nat) list) farm_result" where
  "remove_each amount share [] rs = Inr ([], rs)"
| "remove_each amount share ((c, w) # ws) rs =
     rbind (portion128 amount w share) (\<lambda>x.
     rbind (remove_each amount share ws (uncharge c x rs)) (\<lambda>(ws', rs').
     Inr ((c, saturating_sub w x) # ws', rs')))"

text \<open>The entry is taken out of the storage first; with nothing to remove the closure returns without it.\<close>

definition remove_share ::
  "'l farm_config \<Rightarrow> account \<Rightarrow> nat \<Rightarrow> nat option \<Rightarrow> nat \<Rightarrow> 'l farm_state \<Rightarrow> 'l farm_state farm_result" where
  "remove_share C who pid input limit_time s0 =
     (if input = Some 0 then Inr s0
      else
        rbind (claim_rewards C who pid s0) (\<lambda>s.
        case share_of s pid who of
          None \<Rightarrow> Inr s
        | Some i \<Rightarrow>
            rbind (case input of
                     Some n \<Rightarrow> rbind (ensure (n \<le> si_share i) (Module InvalidRemoveAmount)) (\<lambda>_. Inr n)
                   | None \<Rightarrow> Inr (si_share i)) (\<lambda>amount.
            if amount = 0 then Inr (drop_share pid who s)
            else
              rbind (the_farm_pool s pid) (\<lambda>p.
              rbind (remove_each amount (si_share i) (si_withdrawn i) (pool_rewards p)) (\<lambda>(wd, rs).
              Inr (put_share C pid who
                    (i\<lparr>si_withdraw_list := si_withdraw_list i @ [(add32 (farm_block s) limit_time, amount)],
                       si_withdrawn := wd, si_share := saturating_sub (si_share i) amount\<rparr>)
                    (put_pool C pid
                      (p\<lparr>total_shares := saturating_sub (total_shares p) amount, pool_rewards := rs\<rparr>) s)))))))"

section \<open>Paying out withdrawals\<close>

definition pay_tokens ::
  "'l farm_config \<Rightarrow> account \<Rightarrow> pool_info \<Rightarrow> nat \<Rightarrow> 'l \<Rightarrow> 'l farm_result" where
  "pay_tokens C who p v l =
     (let native = perbill_reciprocal_mul C (snd (basic_token p)) v in
      rfold (\<lambda>(token, proportion) l.
        let amount = perbill_mul C proportion native in
        rbind (payee C who token amount l) (\<lambda>to. farm_transfer C token (keeper p) to amount l))
        (tokens_proportion p) l)"

definition process_withdraw_list ::
  "'l farm_config \<Rightarrow> account \<Rightarrow> nat \<Rightarrow> pool_info \<Rightarrow> bool \<Rightarrow> 'l farm_state \<Rightarrow> 'l farm_state farm_result" where
  "process_withdraw_list C who pid p if_remove s =
     (case share_of s pid who of
        None \<Rightarrow> Inr s
      | Some i \<Rightarrow>
          rbind (rfold (\<lambda>(dest_block, v) l. if dest_block \<le> farm_block s then pay_tokens C who p v l else Inr l)
            (si_withdraw_list i) (farm_ledger s)) (\<lambda>l.
          let rest = filter (\<lambda>(dest_block, v). \<not> dest_block \<le> farm_block s) (si_withdraw_list i);
              s' = s\<lparr>farm_ledger := l\<rparr> in
          if rest \<noteq> [] \<or> si_share i \<noteq> 0 \<or> \<not> if_remove then Inr (put_share C pid who (i\<lparr>si_withdraw_list := rest\<rparr>) s')
          else Inr (drop_share pid who s')))"

section \<open>Gauge shares\<close>

definition update_gauge_share ::
  "'l farm_config \<Rightarrow> account \<Rightarrow> nat \<Rightarrow> nat \<Rightarrow> nat \<Rightarrow> pool_info \<Rightarrow> 'l farm_state \<Rightarrow> 'l farm_state farm_result" where
  "update_gauge_share C who gid new_value share gp s =
     (if new_value < share
      then remove_share C who gid (Some (saturating_sub share new_value)) (withdraw_limit_time gp) s
      else Inr (add_share C who gid gp (saturating_sub new_value share) s))"

text \<open>What \<open>deposit\<close>, \<open>refresh_inner\<close> and \<open>refresh_gauge_pool\<close> do to the gauge share, for a value to weight.\<close>

definition weigh_gauge ::
  "'l farm_config \<Rightarrow> account \<Rightarrow> nat \<Rightarrow> nat \<Rightarrow> bool \<Rightarrow> 'l farm_state \<Rightarrow> 'l farm_state farm_result" where
  "weigh_gauge C who gid n if_absent s =
     (case farm_pool s gid of
        None \<Rightarrow> Inr s
      | Some gp \<Rightarrow>
          rbind (bb_balance_of C s who) (\<lambda>b.
          rbind (ok_or (checked_mul b n) (Arithmetic Overflow)) (\<lambda>new_value.
          case share_of s gid who of
            Some i \<Rightarrow> update_gauge_share C who gid new_value (si_share i) gp s
          | None \<Rightarrow> Inr (if if_absent then add_share C who gid gp new_value s else s))))"

definition refresh_inner ::
  "'l farm_config \<Rightarrow> account \<Rightarrow> nat \<Rightarrow> 'l farm_state \<Rightarrow> 'l farm_state farm_result" where
  "refresh_inner C who pid s =
     (case share_of s pid who of
        Some i \<Rightarrow> weigh_gauge C who (gauge_id pid) (si_share i) True s
      | None \<Rightarrow>
          Inr (drop_share (gauge_id pid) who
            (s\<lparr>user_farming_pool := (user_farming_pool s)
                 (who := filter (\<lambda>x. x \<noteq> pid) (user_farming_pool s who))\<rparr>)))"

end
