(* ===== verification/Farm_Calls.thy ===== *)
theory Farm_Calls
  imports Farm_Rewards
begin

text \<open>
  The votes of escrow holders on farming pools, \<open>pallets/farming/src/boost.rs\<close>: in a round, holders share their vote
  out over the pools of a whitelist; when the next round starts, what the boost account holds goes to the
  pools in proportion, and is paid as an additional reward per block.
\<close>

section \<open>Votes\<close>

definition sub_votes ::
  "'l farm_config \<Rightarrow> nat \<Rightarrow> nat \<times> nat \<Rightarrow> (nat \<times> nat) list \<Rightarrow> (nat \<times> nat) list farm_result" where
  "sub_votes C votes = (\<lambda>(pid, proportion) vs.
     rbind (ok_or (map_of vs pid) (Module NobodyVoting)) (\<lambda>v.
     rbind (ok_or (checked_sub v (percent_mul C proportion votes)) (Arithmetic Overflow)) (\<lambda>v'.
     Inr (sm_put (pool_id_hash C) pid v' vs))))"

definition swap_votes ::
  "'l farm_config \<Rightarrow> nat \<Rightarrow> nat \<Rightarrow> nat \<times> nat \<Rightarrow> (nat \<times> nat) list \<Rightarrow> (nat \<times> nat) list farm_result" where
  "swap_votes C old new = (\<lambda>(pid, proportion) vs.
     rbind (ok_or (map_of vs pid) (Module NobodyVoting)) (\<lambda>v.
     rbind (ok_or (checked_sub v (percent_mul C proportion old)) (Arithmetic Overflow)) (\<lambda>v1.
     rbind (ok_or (checked_add v1 (percent_mul C proportion new)) (Arithmetic Overflow)) (\<lambda>v2.
     Inr (sm_put (pool_id_hash C) pid v2 vs)))))"

definition refresh_vebnc_farming ::
  "'l farm_config \<Rightarrow> account \<Rightarrow> 'l farm_state \<Rightarrow> 'l farm_state farm_result" where
  "refresh_vebnc_farming C who s =
     rbind (bb_balance_of C s who) (\<lambda>new.
     case user_boosts s who of
       None \<Rightarrow> Inr s
     | Some u \<Rightarrow>
         if last_vote u < start_round (boost_pool s) then Inr s
         else
           rbind (rfold (swap_votes C (vote_amount u) new) (vote_list u) (voting_pools s)) (\<lambda>vs.
           rbind (ok_or (checked_sub (boost_votes (boost_pool s)) (vote_amount u)) (Arithmetic Overflow)) (\<lambda>n1.
           rbind (ok_or (checked_add n1 new) (Arithmetic Overflow)) (\<lambda>n2.
           Inr (s\<lparr>voting_pools := vs, boost_pool := (boost_pool s)\<lparr>boost_votes := n2\<rparr>,
                  user_boosts := (user_boosts s)(who \<mapsto> u\<lparr>vote_amount := new\<rparr>)\<rparr>)))))"

text \<open>One entry of a vote list; the state of the loop is the sum of percents, the votes per pool, and all votes.\<close>

definition add_vote ::
  "'l farm_config \<Rightarrow> (nat \<times> unit) list \<Rightarrow> nat \<Rightarrow> nat \<times> nat \<Rightarrow> nat \<times> (nat \<times> nat) list \<times> nat \<Rightarrow>
     (nat \<times> (nat \<times> nat) list \<times> nat) farm_result" where
  "add_vote C whitelist new = (\<lambda>(pid, proportion) (percent, vs, votes).
     rbind (ensure (map_of whitelist pid \<noteq> None) (Module NotInWhitelist)) (\<lambda>_.
     let increase = percent_mul C proportion new in
     rbind (ok_or (percent_add C percent proportion) (Module PercentOverflow)) (\<lambda>percent'.
     rbind (case map_of vs pid of
              Some v \<Rightarrow> ok_or (checked_add v increase) (Arithmetic Overflow)
            | None \<Rightarrow> Inr increase) (\<lambda>v'.
     rbind (ok_or (checked_add votes new) (Arithmetic Overflow)) (\<lambda>votes'.
     Inr (percent', sm_put (pool_id_hash C) pid v' vs, votes'))))))"

definition vote_inner ::
  "'l farm_config \<Rightarrow> account \<Rightarrow> (nat \<times> nat) list \<Rightarrow> 'l farm_state \<Rightarrow> 'l farm_state farm_result" where
  "vote_inner C who votes s =
     rbind (case user_boosts s who of
              None \<Rightarrow> Inr (voting_pools s, boost_votes (boost_pool s))
            | Some u \<Rightarrow>
                if last_vote u < start_round (boost_pool s) then Inr (voting_pools s, boost_votes (boost_pool s))
                else
                  rbind (rfold (sub_votes C (vote_amount u)) (vote_list u) (voting_pools s)) (\<lambda>vs.
                  rbind (ok_or (checked_sub (boost_votes (boost_pool s)) (vote_amount u)) (Arithmetic Overflow)) (\<lambda>n.
                  Inr (vs, n)))) (\<lambda>(vs, n).
     rbind (bb_balance_of C s who) (\<lambda>new.
     rbind (rfold (add_vote C (boost_whitelist s) new) votes (0, vs, n)) (\<lambda>(percent, vs', n').
     rbind (ensure (length votes \<le> whitelist_limit C) (Module WhitelistLimitExceeded)) (\<lambda>_.
     Inr (s\<lparr>voting_pools := vs', boost_pool := (boost_pool s)\<lparr>boost_votes := n'\<rparr>,
            user_boosts := (user_boosts s)
              (who \<mapsto> \<lparr>vote_amount = new, vote_list = votes, last_vote = farm_block s\<rparr>)\<rparr>)))))"

section \<open>Rounds\<close>

text \<open>A loop with \<open>?\<close> outside of a storage transaction: what was written before the error stays.\<close>

fun try_each :: "('x \<Rightarrow> 's \<Rightarrow> 'e option \<times> 's) \<Rightarrow> 'x list \<Rightarrow> 's \<Rightarrow> 'e option \<times> 's" where
  "try_each f [] s = (None, s)"
| "try_each f (x # xs) s = (case f x s of (None, s') \<Rightarrow> try_each f xs s' | (Some e, s') \<Rightarrow> (Some e, s'))"

definition send_boost_reward ::
  "'l farm_config \<Rightarrow> boost_pool_info \<Rightarrow> nat \<Rightarrow> nat \<Rightarrow> currency \<Rightarrow> 'l farm_state \<Rightarrow>
     farm_error dispatch_error option \<times> 'l farm_state" where
  "send_boost_reward C b pid proportion c s =
     (let amount = percent_mul_floor C proportion (mc_free (fm_currencies C) (farm_ledger s) c (boost_account C));
          s1 = s\<lparr>boost_basic_rewards := (boost_basic_rewards s)
                   (pid := (boost_basic_rewards s pid)(c := checked_div amount (block_to_balance C (round_length b))))\<rparr> in
      case mc_transfer (fm_currencies C) c (boost_account C) (issuer_account C pid) amount (farm_ledger s) of
        Inl e \<Rightarrow> (Some (External e), s1)
      | Inr l \<Rightarrow> (None, s1\<lparr>farm_ledger := l\<rparr>))"

definition send_boost_rewards ::
  "'l farm_config \<Rightarrow> boost_pool_info \<Rightarrow> 'l farm_state \<Rightarrow> farm_error dispatch_error option \<times> 'l farm_state" where
  "send_boost_rewards C b s =
     try_each (\<lambda>(pid, votes) s.
       case farm_pool s pid of
         None \<Rightarrow> (None, s)
       | Some p \<Rightarrow>
           try_each (send_boost_reward C b pid (percent_from_rational C votes (boost_votes b)))
             (map fst (basic_rewards p)) s) (voting_pools s) s"

definition start_boost_round_inner ::
  "'l farm_config \<Rightarrow> nat \<Rightarrow> 'l farm_state \<Rightarrow> 'l farm_state farm_result" where
  "start_boost_round_inner C len s =
     rbind (ensure (len \<noteq> 0) (Module RoundLengthNotSet)) (\<lambda>_.
     rbind (ensure (end_round (boost_pool s) = 0) (Module RoundNotOver)) (\<lambda>_.
     rbind (if next_whitelist s \<noteq> []
            then Inr (s\<lparr>boost_whitelist := fold (\<lambda>(pid, u). sm_put (pool_id_hash C) pid u) (next_whitelist s) [],
                        next_whitelist := []\<rparr>)
            else rbind (ensure (boost_whitelist s \<noteq> []) (Module WhitelistEmpty)) (\<lambda>_. Inr s)) (\<lambda>s1.
     let b = (boost_pool s)\<lparr>start_round := farm_block s, end_round := sat_add32 (farm_block s) len,
               boost_votes := 0, round_length := len\<rparr> in
     case send_boost_rewards C b s1 of
       (Some e, _) \<Rightarrow> Inl e
     | (None, s2) \<Rightarrow> Inr (emit_farm (RoundStart len) (s2\<lparr>boost_pool := b, voting_pools := []\<rparr>)))))"

definition end_boost_round_inner :: "'l farm_state \<Rightarrow> 'l farm_state" where
  "end_boost_round_inner s =
     emit_farm (RoundEnd (boost_votes (boost_pool s)) (start_round (boost_pool s)) (end_round (boost_pool s)))
       (s\<lparr>boost_basic_rewards := (\<lambda>_ _. None), boost_pool := (boost_pool s)\<lparr>start_round := 0, end_round := 0\<rparr>\<rparr>)"

text \<open>
  The iterator over the whitelist reads the storage as it goes. It is consumed after the whitelist has been cleared, so
  it yields no key.
\<close>

definition auto_start_boost_round :: "'l farm_config \<Rightarrow> 'l farm_state \<Rightarrow> 'l farm_state" where
  "auto_start_boost_round C s =
     (if next_whitelist s = [] \<and> boost_whitelist s = [] then s
      else
        let s1 = (if next_whitelist s \<noteq> [] then s\<lparr>boost_whitelist := [], next_whitelist := []\<rparr> else s);
            s2 = (case send_boost_rewards C (boost_pool s) s1 of
                    (None, t) \<Rightarrow> t | (Some e, t) \<Rightarrow> emit_farm (RoundStartError e) t) in
        (emit_farm (RoundStart (round_length (boost_pool s))) s2)
          \<lparr>boost_pool := (boost_pool s)\<lparr>start_round := farm_block s,
             end_round := sat_add32 (farm_block s) (round_length (boost_pool s)), boost_votes := 0\<rparr>,
           voting_pools := []\<rparr>)"

text \<open>
  The hook and the calls of the farming pallet, \<open>pallets/farming/src/lib.rs\<close>, with the gauge pools of \<open>gauge.rs\<close>. A
  call that fails is rolled back.
\<close>

section \<open>The hook\<close>

definition earn ::
  "(currency \<Rightarrow> nat option) \<Rightarrow> currency \<times> nat \<Rightarrow> (currency \<times> nat \<times> nat) list \<Rightarrow> (currency \<times> nat \<times> nat) list" where
  "earn boost = (\<lambda>(c, amount) rs.
     let n = (case boost c of Some b \<Rightarrow> saturating_add amount b | None \<Rightarrow> amount) in
     bt_put c (case map_of rs c of Some (t, w) \<Rightarrow> (saturating_add t n, w) | None \<Rightarrow> (n, 0)) rs)"

definition farm_tick :: "nat \<Rightarrow> (currency \<Rightarrow> nat option) \<Rightarrow> pool_info \<Rightarrow> pool_info" where
  "farm_tick n boost p =
     (case farm_pool_state p of
        Ongoing \<Rightarrow> p\<lparr>pool_rewards := fold (earn boost) (basic_rewards p) (pool_rewards p)\<rparr>
      | Charged \<Rightarrow>
          if after_block_to_start p \<le> n \<and> min_deposit_to_start p \<le> total_shares p
          then p\<lparr>block_startup := Some n, farm_pool_state := Ongoing\<rparr> else p
      | _ \<Rightarrow> p)"

definition farm_on_initialize :: "'l farm_config \<Rightarrow> 'l farm_state \<Rightarrow> 'l farm_state" where
  "farm_on_initialize C s =
     (let n = farm_block s;
          s1 = s\<lparr>farm_pools := map (\<lambda>(pid, p). (pid, farm_tick n (boost_basic_rewards s pid) p)) (farm_pools s)\<rparr> in
      if n = end_round (boost_pool s1) then auto_start_boost_round C (end_boost_round_inner s1) else s1)"

section \<open>Gauge pools\<close>

definition create_gauge_pool ::
  "'l farm_config \<Rightarrow> nat \<Rightarrow> pool_info \<Rightarrow> (currency \<times> nat) list \<Rightarrow> 'l farm_state \<Rightarrow> pool_info \<times> 'l farm_state" where
  "create_gauge_pool C pid p rewards s =
     (let gid = gauge_id pid in
      (p\<lparr>gauge := Some gid\<rparr>,
       put_pool C gid (case farm_pool s gid of
         Some g \<Rightarrow> g\<lparr>basic_rewards := rewards\<rparr>
       | None \<Rightarrow> new_gauge (keeper p) (issuer_account C gid) (tokens_proportion p) (basic_token p) rewards) s))"

definition reset_gauge_pool ::
  "'l farm_config \<Rightarrow> nat \<Rightarrow> pool_info \<Rightarrow> (currency \<times> nat) list \<Rightarrow> 'l farm_state \<Rightarrow> pool_info \<times> 'l farm_state" where
  "reset_gauge_pool C pid p rewards s =
     (let gid = gauge_id pid in
      (p\<lparr>gauge := Some gid\<rparr>,
       put_pool C gid (new_gauge (keeper p) (issuer_account C gid) (tokens_proportion p) (basic_token p) rewards) s))"

definition drop_gauge_info :: "nat option \<Rightarrow> 'l farm_state \<Rightarrow> 'l farm_state" where
  "drop_gauge_info g s =
     (case g of None \<Rightarrow> s | Some gid \<Rightarrow> s\<lparr>gauge_pool_infos := (gauge_pool_infos s)(gid := None)\<rparr>)"

section \<open>Queries\<close>

fun due_rewards ::
  "nat \<Rightarrow> nat \<Rightarrow> (currency \<times> nat) list \<Rightarrow> (currency \<times> nat \<times> nat) list \<Rightarrow> (currency \<times> nat) list farm_result" where
  "due_rewards share supply wd [] = Inr []"
| "due_rewards share supply wd ((c, total_reward, total_withdrawn) # rs) =
     rbind (due_reward share supply total_reward total_withdrawn (or_zero (map_of wd c))) (\<lambda>r.
     rbind (due_rewards share supply wd rs) (\<lambda>xs. Inr (if r = 0 then xs else (c, r) # xs)))"

definition get_farming_rewards ::
  "'l farm_state \<Rightarrow> account \<Rightarrow> nat \<Rightarrow> (currency \<times> nat) list farm_result" where
  "get_farming_rewards s who pid =
     rbind (ok_or (share_of s pid who) (Module ShareInfoNotExists)) (\<lambda>i.
     rbind (the_farm_pool s pid) (\<lambda>p.
     due_rewards (si_share i) (total_shares p) (si_withdrawn i) (pool_rewards p)))"

definition get_gauge_rewards ::
  "'l farm_config \<Rightarrow> 'l farm_state \<Rightarrow> account \<Rightarrow> nat \<Rightarrow> (currency \<times> nat) list farm_result" where
  "get_gauge_rewards C s who pid =
     rbind (the_farm_pool s pid) (\<lambda>p.
     case gauge p of
       None \<Rightarrow> Inr []
     | Some gid \<Rightarrow>
         rbind (ok_or (gauge_pool_infos s gid) (Module GaugePoolNotExist)) (\<lambda>gp.
         rbind (ok_or (map_of (gauge_infos s gid) who) (Module GaugeInfoNotExist)) (\<lambda>gi.
         let start = (if gi_stop_block gi < farm_block s then gi_stop_block gi else farm_block s) in
         rbind (ok_or (checked_sub start (gi_last_block gi)) (Arithmetic Overflow)) (\<lambda>blocks.
         rbind (ok_or (checked_mul (gi_amount gi) blocks) (Arithmetic Overflow)) (\<lambda>factor.
         rbind (ok_or (checked_sub (wrapping_add (gi_latest_time_factor gi) factor) (gi_claimed_time_factor gi))
           (Arithmetic Overflow)) (\<lambda>d.
         let rate = perbill_from_rational C d (gp_total_time_factor gp) in
         rbind (ok_or (share_of s (gp_pid gp) who) (Module ShareInfoNotExists)) (\<lambda>i.
         rmap (\<lambda>(c, amount, gauged, _).
           rbind (ok_or (checked_sub amount gauged) (Arithmetic Overflow)) (\<lambda>reward.
           rbind (portion128 (si_share i) (perbill_mul C rate reward) (total_shares p)) (\<lambda>n. Inr (c, n))))
           (gp_rewards gp))))))))"

definition get_token_shares :: "'l farm_config \<Rightarrow> 'l farm_state \<Rightarrow> nat \<Rightarrow> currency \<Rightarrow> nat" where
  "get_token_shares C s pid c =
     (case farm_pool s pid of
        None \<Rightarrow> 0
      | Some p \<Rightarrow>
          (case map_of (tokens_proportion p) c of
             None \<Rightarrow> 0
           | Some proportion \<Rightarrow>
               perbill_mul C proportion (perbill_reciprocal_mul C (snd (basic_token p)) (total_shares p))))"

section \<open>Calls of users\<close>

definition transfer_all ::
  "'l farm_config \<Rightarrow> account \<Rightarrow> account \<Rightarrow> (currency \<times> nat) list \<Rightarrow> 'l farm_state \<Rightarrow> 'l farm_state farm_result" where
  "transfer_all C a b amounts s =
     rbind (rfold (\<lambda>(c, n). farm_transfer C c a b n) amounts (farm_ledger s)) (\<lambda>l. Inr (s\<lparr>farm_ledger := l\<rparr>))"

definition charge ::
  "'l farm_config \<Rightarrow> origin \<Rightarrow> nat \<Rightarrow> (currency \<times> nat) list \<Rightarrow> 'l farm_state \<Rightarrow> 'l farm_state farm_result" where
  "charge C o1 pid rewards s =
     rbind (ensure_signed o1) (\<lambda>who.
     rbind (the_farm_pool s pid) (\<lambda>p.
     rbind (ensure (farm_pool_state p \<in> {UnCharged, Ongoing}) (Module InvalidPoolState)) (\<lambda>_.
     rbind (transfer_all C who (reward_issuer p) rewards s) (\<lambda>s1.
     Inr (emit_farm (PoolCharged who pid rewards)
       (put_pool C pid (if farm_pool_state p = UnCharged then p\<lparr>farm_pool_state := Charged\<rparr> else p) s1))))))"

definition join_pool :: "account \<Rightarrow> nat \<Rightarrow> 'l farm_state \<Rightarrow> 'l farm_state farm_result" where
  "join_pool who pid s =
     (let pids = user_farming_pool s who in
      if pid \<in> set pids then Inr s
      else
        rbind (ensure (length pids < 256) (Module UserFarmingPoolOverflow)) (\<lambda>_.
        Inr (s\<lparr>user_farming_pool := (user_farming_pool s)(who := pids @ [pid])\<rparr>)))"

definition farm_deposit ::
  "'l farm_config \<Rightarrow> origin \<Rightarrow> nat \<Rightarrow> nat \<Rightarrow> 'l farm_state \<Rightarrow> 'l farm_state farm_result" where
  "farm_deposit C o1 pid add_value s =
     rbind (ensure_signed o1) (\<lambda>who.
     rbind (the_farm_pool s pid) (\<lambda>p.
     rbind (ensure (farm_pool_state p \<in> {Ongoing, Charged}) (Module InvalidPoolState)) (\<lambda>_.
     rbind (ensure (farm_pool_state p = Charged \<longrightarrow> after_block_to_start p \<le> farm_block s) (Module CanNotDeposit)) (\<lambda>_.
     let native = perbill_reciprocal_mul C (snd (basic_token p)) add_value in
     rbind (transfer_all C who (keeper p)
       (map (\<lambda>(token, proportion). (token, perbill_mul C proportion native)) (tokens_proportion p)) s) (\<lambda>s1.
     let s2 = add_share C who pid p add_value s1 in
     rbind (weigh_gauge C who (gauge_id pid) add_value True s2) (\<lambda>s3.
     rbind (join_pool who pid s3) (\<lambda>s4.
     Inr (emit_farm (PoolDeposited who pid add_value) s4))))))))"

definition farm_withdraw ::
  "'l farm_config \<Rightarrow> origin \<Rightarrow> nat \<Rightarrow> nat option \<Rightarrow> 'l farm_state \<Rightarrow> 'l farm_state farm_result" where
  "farm_withdraw C o1 pid remove_value s =
     rbind (ensure_signed o1) (\<lambda>who.
     rbind (the_farm_pool s pid) (\<lambda>p.
     rbind (ensure (farm_pool_state p \<in> {Ongoing, Charged, Dead}) (Module InvalidPoolState)) (\<lambda>_.
     rbind (ok_or (share_of s pid who) (Module ShareInfoNotExists)) (\<lambda>i.
     rbind (ensure (length (si_withdraw_list i) < withdraw_limit_count p) (Module WithdrawLimitCountExceeded)) (\<lambda>_.
     rbind (remove_share C who pid remove_value (withdraw_limit_time p) s) (\<lambda>s1.
     rbind (weigh_gauge C who (gauge_id pid)
       (saturating_sub (si_share i) (case remove_value of Some n \<Rightarrow> n | None \<Rightarrow> si_share i)) False s1) (\<lambda>s2.
     Inr (emit_farm (PoolWithdrawn who pid remove_value) s2))))))))"

definition farm_claim ::
  "'l farm_config \<Rightarrow> origin \<Rightarrow> nat \<Rightarrow> 'l farm_state \<Rightarrow> 'l farm_state farm_result" where
  "farm_claim C o1 pid s =
     rbind (ensure_signed o1) (\<lambda>who.
     rbind (the_farm_pool s pid) (\<lambda>p.
     rbind (ensure (farm_pool_state p \<in> {Ongoing, Dead}) (Module InvalidPoolState)) (\<lambda>_.
     rbind (ok_or (share_of s pid who) (Module ShareInfoNotExists)) (\<lambda>i.
     rbind (ensure (sat_add32 (si_claim_last_block i) (claim_limit_time p) \<le> farm_block s) (Module CanNotClaim)) (\<lambda>_.
     rbind (claim_rewards C who pid s) (\<lambda>s1.
     rbind (claim_rewards C who (gauge_id pid) s1) (\<lambda>s2.
     rbind (process_withdraw_list C who pid p True s2) (\<lambda>s3.
     rbind (refresh_inner C who pid s3) (\<lambda>s4.
     Inr (emit_farm (PoolClaimed who pid) s4))))))))))"

definition farm_withdraw_claim ::
  "'l farm_config \<Rightarrow> origin \<Rightarrow> nat \<Rightarrow> 'l farm_state \<Rightarrow> 'l farm_state farm_result" where
  "farm_withdraw_claim C o1 pid s =
     rbind (ensure_signed o1) (\<lambda>who.
     rbind (the_farm_pool s pid) (\<lambda>p.
     rbind (process_withdraw_list C who pid p False s) (\<lambda>s1.
     rbind (refresh_inner C who pid s1) (\<lambda>s2.
     Inr (emit_farm (WithdrawClaimed who pid) s2)))))"

definition farm_vote ::
  "'l farm_config \<Rightarrow> origin \<Rightarrow> (nat \<times> nat) list \<Rightarrow> 'l farm_state \<Rightarrow> 'l farm_state farm_result" where
  "farm_vote C o1 votes s =
     rbind (ensure_signed o1) (\<lambda>who.
     rbind (vote_inner C who votes s) (\<lambda>s1. Inr (emit_farm (FarmVoted who votes) s1)))"

definition charge_boost ::
  "'l farm_config \<Rightarrow> origin \<Rightarrow> (currency \<times> nat) list \<Rightarrow> 'l farm_state \<Rightarrow> 'l farm_state farm_result" where
  "charge_boost C o1 rewards s =
     rbind (ensure_signed o1) (\<lambda>who.
     rbind (transfer_all C who (boost_account C) rewards s) (\<lambda>s1. Inr (emit_farm (BoostCharged who rewards) s1)))"

text \<open>The ids are collected in a local variable and stored at the end.\<close>

definition refresh_gauge_one ::
  "'l farm_config \<Rightarrow> account \<Rightarrow> nat \<Rightarrow> nat list \<times> 'l farm_state \<Rightarrow> (nat list \<times> 'l farm_state) farm_result" where
  "refresh_gauge_one C who pid = (\<lambda>(pids, s).
     case share_of s pid who of
       Some i \<Rightarrow> rbind (weigh_gauge C who (gauge_id pid) (si_share i) True s) (\<lambda>s1. Inr (pids, s1))
     | None \<Rightarrow> Inr (filter (\<lambda>x. x \<noteq> pid) pids, drop_share (gauge_id pid) who s))"

definition refresh_gauge_pool ::
  "'l farm_config \<Rightarrow> account \<Rightarrow> 'l farm_state \<Rightarrow> 'l farm_state farm_result" where
  "refresh_gauge_pool C who s =
     rbind (rfold (refresh_gauge_one C who) (user_farming_pool s who) (user_farming_pool s who, s)) (\<lambda>(pids, s1).
     Inr (s1\<lparr>user_farming_pool := (user_farming_pool s1)(who := pids)\<rparr>))"

definition farm_refresh :: "'l farm_config \<Rightarrow> origin \<Rightarrow> 'l farm_state \<Rightarrow> 'l farm_state farm_result" where
  "farm_refresh C o1 s = rbind (ensure_signed o1) (\<lambda>who. refresh_gauge_pool C who s)"

end
