(* ===== verification/Farm_Governance.thy ===== *)
theory Farm_Governance
  imports Farm_Calls
begin

text \<open>
  The calls of the control origin of the farming pallet, \<open>pallets/farming/src/lib.rs\<close>, and the dispatch of all of
  its calls.
\<close>

section \<open>Pools\<close>

definition create_farming_pool ::
  "'l farm_config \<Rightarrow> origin \<Rightarrow> (currency \<times> nat) list \<Rightarrow> (currency \<times> nat) list \<Rightarrow> (currency \<times> nat) list option \<Rightarrow>
     nat \<Rightarrow> nat \<Rightarrow> nat \<Rightarrow> nat \<Rightarrow> nat \<Rightarrow> 'l farm_state \<Rightarrow> 'l farm_state farm_result" where
  "create_farming_pool C o1 proportions rewards gauge_init min_deposit after wtime ctime wcount s =
     rbind (farm_control C o1) (\<lambda>_.
     let pid = pool_next_id s in
     rbind (case proportions of [] \<Rightarrow> Inl (Module NotNullable) | x # _ \<Rightarrow> Inr x) (\<lambda>basic.
     let p = new_pool (keeper_account C pid) (issuer_account C pid) (bt_collect proportions) basic
               (bt_collect rewards) None min_deposit after wtime ctime wcount;
         (p', s1) = (case gauge_init of None \<Rightarrow> (p, s) | Some g \<Rightarrow> create_gauge_pool C pid p (bt_collect g) s) in
     rbind (ok_or (chk u32_max (pid + 1)) (Arithmetic Overflow)) (\<lambda>next.
     Inr (emit_farm (FarmingPoolCreated pid) ((put_pool C pid p' s1)\<lparr>pool_next_id := next\<rparr>)))))"

text \<open>The pool that is stored at the end is the one read before the shares were removed.\<close>

definition force_retire_pool ::
  "'l farm_config \<Rightarrow> origin \<Rightarrow> nat \<Rightarrow> 'l farm_state \<Rightarrow> 'l farm_state farm_result" where
  "force_retire_pool C o1 pid s =
     rbind (farm_control C o1) (\<lambda>_.
     rbind (the_farm_pool s pid) (\<lambda>p.
     rbind (ensure (farm_pool_state p = Dead) (Module InvalidPoolState)) (\<lambda>_.
     let owners = map (\<lambda>(_, i). si_who i) (farm_shares s pid) in
     rbind (rfold (\<lambda>who s.
         rbind (remove_share C who pid None 0 s) (\<lambda>s. process_withdraw_list C who pid p True s))
       (take (retire_limit s) owners) s) (\<lambda>s1.
     Inr (if length owners \<le> retire_limit s
          then emit_farm (AllRetired pid)
            (put_pool C pid (p\<lparr>farm_pool_state := Retired, gauge := None\<rparr>) s1)
          else emit_farm (PartiallyRetired pid) s1)))))"

definition set_retire_limit :: "'l farm_config \<Rightarrow> origin \<Rightarrow> nat \<Rightarrow> 'l farm_state \<Rightarrow> 'l farm_state farm_result" where
  "set_retire_limit C o1 limit s =
     rbind (farm_control C o1) (\<lambda>_. Inr (emit_farm (RetireLimitSet limit) (s\<lparr>retire_limit := limit\<rparr>)))"

definition close_pool :: "'l farm_config \<Rightarrow> origin \<Rightarrow> nat \<Rightarrow> 'l farm_state \<Rightarrow> 'l farm_state farm_result" where
  "close_pool C o1 pid s =
     rbind (farm_control C o1) (\<lambda>_.
     rbind (the_farm_pool s pid) (\<lambda>p.
     rbind (ensure (farm_pool_state p = Ongoing) (Module InvalidPoolState)) (\<lambda>_.
     Inr (emit_farm (FarmingPoolClosed pid) (put_pool C pid (p\<lparr>farm_pool_state := Dead\<rparr>) s)))))"

definition reset_pool ::
  "'l farm_config \<Rightarrow> origin \<Rightarrow> nat \<Rightarrow> (currency \<times> nat) list option \<Rightarrow> nat option \<Rightarrow> nat option \<Rightarrow> nat option \<Rightarrow>
     nat option \<Rightarrow> nat option \<Rightarrow> (currency \<times> nat) list option \<Rightarrow> 'l farm_state \<Rightarrow> 'l farm_state farm_result" where
  "reset_pool C o1 pid rewards min_deposit after wtime ctime wcount gauge_init s =
     rbind (farm_control C o1) (\<lambda>_.
     rbind (the_farm_pool s pid) (\<lambda>p.
     rbind (ensure (farm_pool_state p = Retired) (Module InvalidPoolState)) (\<lambda>_.
     let p1 = p\<lparr>basic_rewards := or_keep (map_option bt_collect rewards) (basic_rewards p),
                min_deposit_to_start := or_keep min_deposit (min_deposit_to_start p),
                after_block_to_start := or_keep after (after_block_to_start p),
                withdraw_limit_time := or_keep wtime (withdraw_limit_time p),
                claim_limit_time := or_keep ctime (claim_limit_time p),
                withdraw_limit_count := or_keep wcount (withdraw_limit_count p)\<rparr>;
         (p2, s1) = (case gauge_init of None \<Rightarrow> (p1, s)
           | Some g \<Rightarrow> reset_gauge_pool C pid p1 (bt_collect g) (drop_gauge_info (gauge p1) s)) in
     Inr (emit_farm (FarmingPoolReset pid)
       (put_pool C pid (p2\<lparr>total_shares := 0, pool_rewards := [], farm_pool_state := UnCharged,
          block_startup := None\<rparr>) s1)))))"

definition kill_pool :: "'l farm_config \<Rightarrow> origin \<Rightarrow> nat \<Rightarrow> 'l farm_state \<Rightarrow> 'l farm_state farm_result" where
  "kill_pool C o1 pid s =
     rbind (farm_control C o1) (\<lambda>_.
     rbind (the_farm_pool s pid) (\<lambda>p.
     rbind (ensure (farm_pool_state p \<in> {Retired, UnCharged}) (Module InvalidPoolState)) (\<lambda>_.
     Inr (emit_farm (FarmingPoolKilled pid)
       (s\<lparr>farm_shares := (farm_shares s)(pid := []), farm_pools := sm_del pid (farm_pools s)\<rparr>)))))"

definition edit_pool ::
  "'l farm_config \<Rightarrow> origin \<Rightarrow> nat \<Rightarrow> (currency \<times> nat) list option \<Rightarrow> nat option \<Rightarrow> nat option \<Rightarrow>
     (currency \<times> nat) list option \<Rightarrow> nat option \<Rightarrow> 'l farm_state \<Rightarrow> 'l farm_state farm_result" where
  "edit_pool C o1 pid rewards wtime ctime gauge_rewards wcount s =
     rbind (farm_control C o1) (\<lambda>_.
     rbind (the_farm_pool s pid) (\<lambda>p.
     rbind (ensure (farm_pool_state p \<in> {Retired, Ongoing, Charged, UnCharged}) (Module InvalidPoolState)) (\<lambda>_.
     let p1 = p\<lparr>basic_rewards := or_keep (map_option bt_collect rewards) (basic_rewards p),
                withdraw_limit_time := or_keep wtime (withdraw_limit_time p),
                claim_limit_time := or_keep ctime (claim_limit_time p),
                withdraw_limit_count := or_keep wcount (withdraw_limit_count p)\<rparr>;
         (p2, s1) = (case gauge_rewards of None \<Rightarrow> (p1, s)
           | Some g \<Rightarrow> create_gauge_pool C pid p1 (bt_collect g) (drop_gauge_info (gauge p1) s)) in
     Inr (emit_farm (FarmingPoolEdited pid) (put_pool C pid p2 s1)))))"

definition force_gauge_claim :: "'l farm_config \<Rightarrow> origin \<Rightarrow> nat \<Rightarrow> 'l farm_state \<Rightarrow> 'l farm_state farm_result" where
  "force_gauge_claim C o1 gid s =
     rbind (farm_control C o1) (\<lambda>_.
     let owners = map (\<lambda>(_, g). gi_who g) (gauge_infos s gid) in
     rbind (rfold (\<lambda>who s.
         rbind (the_farm_pool s gid) (\<lambda>p.
         rbind (ok_or (share_of s gid who) (Module ShareInfoNotExists)) (\<lambda>i.
         case bb_get_rewards C gid who (si_share i, total_shares p) (farm_ledger s) of
           Inl e \<Rightarrow> Inl (External e) | Inr l \<Rightarrow> Inr (s\<lparr>farm_ledger := l\<rparr>))))
       (take (retire_limit s) owners) s) (\<lambda>s1.
     Inr (emit_farm (if length owners \<le> retire_limit s then AllForceGaugeClaimed gid
          else PartiallyForceGaugeClaimed gid) s1)))"

section \<open>Voting rounds\<close>

definition whitelist_one :: "'l farm_config \<Rightarrow> nat \<Rightarrow> 'l farm_state \<Rightarrow> 'l farm_state" where
  "whitelist_one C pid s =
     s\<lparr>boost_whitelist := sm_put (pool_id_hash C) pid () (boost_whitelist s),
       voting_pools := (case map_of (voting_pools s) pid of
         Some _ \<Rightarrow> voting_pools s | None \<Rightarrow> sm_put (pool_id_hash C) pid 0 (voting_pools s))\<rparr>"

definition add_boost_pool_whitelist ::
  "'l farm_config \<Rightarrow> origin \<Rightarrow> nat list \<Rightarrow> 'l farm_state \<Rightarrow> 'l farm_state farm_result" where
  "add_boost_pool_whitelist C o1 pids s =
     rbind (farm_control C o1) (\<lambda>_. Inr (fold (whitelist_one C) pids s))"

definition set_next_round_whitelist ::
  "'l farm_config \<Rightarrow> origin \<Rightarrow> nat list \<Rightarrow> 'l farm_state \<Rightarrow> 'l farm_state farm_result" where
  "set_next_round_whitelist C o1 pids s =
     rbind (farm_control C o1) (\<lambda>_.
     Inr (s\<lparr>next_whitelist := fold (\<lambda>pid. sm_put (pool_id_hash C) pid ()) pids []\<rparr>))"

definition start_boost_round :: "'l farm_config \<Rightarrow> origin \<Rightarrow> nat \<Rightarrow> 'l farm_state \<Rightarrow> 'l farm_state farm_result" where
  "start_boost_round C o1 len s = rbind (farm_control C o1) (\<lambda>_. start_boost_round_inner C len s)"

definition end_boost_round :: "'l farm_config \<Rightarrow> origin \<Rightarrow> 'l farm_state \<Rightarrow> 'l farm_state farm_result" where
  "end_boost_round C o1 s = rbind (farm_control C o1) (\<lambda>_. Inr (end_boost_round_inner s))"

section \<open>The dispatch of the calls\<close>

datatype farm_call =
    CreateFarmingPool "(currency \<times> nat) list" "(currency \<times> nat) list" "(currency \<times> nat) list option" nat nat nat nat nat
  | Charge nat "(currency \<times> nat) list"
  | FarmDeposit nat nat
  | FarmWithdraw nat "nat option"
  | FarmClaim nat
  | FarmWithdrawClaim nat
  | ForceRetirePool nat
  | SetRetireLimit nat
  | ClosePool nat
  | ResetPool nat "(currency \<times> nat) list option" "nat option" "nat option" "nat option" "nat option" "nat option"
      "(currency \<times> nat) list option"
  | KillPool nat
  | EditPool nat "(currency \<times> nat) list option" "nat option" "nat option" "(currency \<times> nat) list option" "nat option"
  | ForceGaugeClaim nat
  | AddBoostPoolWhitelist "nat list"
  | SetNextRoundWhitelist "nat list"
  | FarmVote "(nat \<times> nat) list"
  | StartBoostRound nat
  | EndBoostRound
  | ChargeBoost "(currency \<times> nat) list"
  | FarmRefresh

fun farm_dispatch ::
  "'l farm_config \<Rightarrow> origin \<Rightarrow> farm_call \<Rightarrow> 'l farm_state \<Rightarrow> 'l farm_state farm_result" where
  "farm_dispatch C o1 (CreateFarmingPool tp r g m a w c n) s = create_farming_pool C o1 tp r g m a w c n s"
| "farm_dispatch C o1 (Charge pid r) s = charge C o1 pid r s"
| "farm_dispatch C o1 (FarmDeposit pid n) s = farm_deposit C o1 pid n s"
| "farm_dispatch C o1 (FarmWithdraw pid n) s = farm_withdraw C o1 pid n s"
| "farm_dispatch C o1 (FarmClaim pid) s = farm_claim C o1 pid s"
| "farm_dispatch C o1 (FarmWithdrawClaim pid) s = farm_withdraw_claim C o1 pid s"
| "farm_dispatch C o1 (ForceRetirePool pid) s = force_retire_pool C o1 pid s"
| "farm_dispatch C o1 (SetRetireLimit n) s = set_retire_limit C o1 n s"
| "farm_dispatch C o1 (ClosePool pid) s = close_pool C o1 pid s"
| "farm_dispatch C o1 (ResetPool pid r m a w c n g) s = reset_pool C o1 pid r m a w c n g s"
| "farm_dispatch C o1 (KillPool pid) s = kill_pool C o1 pid s"
| "farm_dispatch C o1 (EditPool pid r w c g n) s = edit_pool C o1 pid r w c g n s"
| "farm_dispatch C o1 (ForceGaugeClaim gid) s = force_gauge_claim C o1 gid s"
| "farm_dispatch C o1 (AddBoostPoolWhitelist pids) s = add_boost_pool_whitelist C o1 pids s"
| "farm_dispatch C o1 (SetNextRoundWhitelist pids) s = set_next_round_whitelist C o1 pids s"
| "farm_dispatch C o1 (FarmVote votes) s = farm_vote C o1 votes s"
| "farm_dispatch C o1 (StartBoostRound len) s = start_boost_round C o1 len s"
| "farm_dispatch C o1 EndBoostRound s = end_boost_round C o1 s"
| "farm_dispatch C o1 (ChargeBoost r) s = charge_boost C o1 r s"
| "farm_dispatch C o1 FarmRefresh s = farm_refresh C o1 s"

end
