(* ===== verification/Farm_Lemmas.thy ===== *)
theory Farm_Lemmas
  imports Farm_Governance
begin

text \<open>
  The books of a farming pool: its entries of shares, what it has earned and spent of each reward, and how the loops
  over rewards change both. The loops are described by what they do to one currency.
\<close>

section \<open>Sums over entries\<close>

lemma sum_put:
  assumes "sm_invar H m"
  shows "sm.total w (sm_put H k v m) + (case map_of m k of Some u \<Rightarrow> w (k, u) | None \<Rightarrow> 0) =
    sm.total w m + w (k, v)"
proof (cases "map_of m k")
  case None
  then show ?thesis by (simp add: sm.total_put_new)
next
  case (Some u)
  then show ?thesis using sm.total_put_old [OF assms Some, of w v] by simp
qed

lemma sum_del:
  assumes "sm_invar H m"
  shows "sm.total w (sm_del k m) + (case map_of m k of Some u \<Rightarrow> w (k, u) | None \<Rightarrow> 0) = sm.total w m"
  using assms
proof (induction m)
  case (Cons x m)
  obtain k' u where x: "x = (k', u)" by (cases x)
  show ?case
  proof (cases "k' = k")
    case True
    then have "map_of m k = None" using Cons.prems by (auto simp: x sm_invar_Cons map_of_eq_None_iff)
    then have "sm_del k m = m" by (auto simp: sm_del_def map_of_eq_None_iff filter_id_conv)
    then show ?thesis using True by (simp add: x sm.total_def sm_del_def)
  next
    case False
    then show ?thesis using Cons by (simp add: x sm.total_def sm_del_def sm_invar_Cons)
  qed
qed (simp add: sm.total_def sm_del_def)

lemma entry_le_sum:
  assumes "sm_invar H m" and "map_of m k = Some u"
  shows "w (k, u) \<le> sm.total w m"
  using sum_del [OF assms(1), of w k] assms(2) by simp

section \<open>Earned and spent\<close>

definition earned :: "(currency \<times> nat \<times> nat) list \<Rightarrow> currency \<Rightarrow> nat" where
  "earned rs c = (case map_of rs c of Some (t, w) \<Rightarrow> t | None \<Rightarrow> 0)"

definition spent :: "(currency \<times> nat \<times> nat) list \<Rightarrow> currency \<Rightarrow> nat" where
  "spent rs c = (case map_of rs c of Some (t, w) \<Rightarrow> w | None \<Rightarrow> 0)"

definition drawn :: "share_info \<Rightarrow> currency \<Rightarrow> nat" where
  "drawn i c = or_zero (map_of (si_withdrawn i) c)"

lemma or_zero_simps [simp]: "or_zero None = 0" "or_zero (Some n) = n"
  by (simp_all add: or_zero_def)

lemma earned_simps [simp]:
  "earned [] c = 0" "spent [] c = 0"
  "earned ((d, t, w) # rs) c = (if c = d then t else earned rs c)"
  "spent ((d, t, w) # rs) c = (if c = d then w else spent rs c)"
  "earned (bt_put d (t, w) rs) c = (if c = d then t else earned rs c)"
  "spent (bt_put d (t, w) rs) c = (if c = d then w else spent rs c)"
  "earned (sm_del d rs) c = (if c = d then 0 else earned rs c)"
  "spent (sm_del d rs) c = (if c = d then 0 else spent rs c)"
  by (simp_all add: earned_def spent_def)

lemma absent_key: "c \<notin> fst ` set rs \<Longrightarrow> earned rs c = 0 \<and> spent rs c = 0"
  by (simp add: earned_def spent_def map_of_eq_None_iff [symmetric])

lemma portion_le: "a \<le> n \<Longrightarrow> portion a b n \<le> b"
proof (cases "n = 0")
  case False
  assume "a \<le> n"
  then have "a * b div n \<le> n * b div n" by (intro div_le_mono mult_right_mono) simp_all
  then show ?thesis using False by (simp add: portion_def)
qed (simp add: portion_def)

section \<open>Claiming\<close>

lemma due_reward_Inr:
  "due_reward share supply t w d = Inr r \<longleftrightarrow>
     portion share t supply \<le> u128_max \<and> r = min (portion share t supply - d) (t - w)"
  by (auto simp: due_reward_def portion128_def result_simps saturating_sub_def)

lemma claim_one_cases:
  assumes "claim_one C who iss n k c t w wd l = Inr (w', wd', l')"
  obtains (idle) "w' = w" and "wd' = wd" and "l' = l"
    and "due_reward n k t w (or_zero (map_of wd c)) = Inr 0"
  | (pays) r to where "due_reward n k t w (or_zero (map_of wd c)) = Inr r" and "r \<noteq> 0"
    and "payee C who c r l = Inr to" and "farm_transfer C c iss to r l = Inr l'"
    and "w' = saturating_add w r" and "wd' = bt_put c (saturating_add (or_zero (map_of wd c)) r) wd"
proof -
  obtain r where r: "due_reward n k t w (or_zero (map_of wd c)) = Inr r"
    and b: "(if r = 0 then Inr (w, wd, l) else rbind (payee C who c r l) (\<lambda>to.
        rbind (farm_transfer C c iss to r l) (\<lambda>l'.
        Inr (saturating_add w r, bt_put c (saturating_add (or_zero (map_of wd c)) r) wd, l')))) = Inr (w', wd', l')"
    using assms by (auto simp: claim_one_def Let_def rbind_eq_Inr simp del: if_split)
  show thesis
  proof (cases "r = 0")
    case True
    with b have "w' = w" "wd' = wd" "l' = l" by simp_all
    then show thesis by (rule idle) (use r True in simp)
  next
    case False
    with b obtain to where "payee C who c r l = Inr to" "farm_transfer C c iss to r l = Inr l'"
      "w' = saturating_add w r" "wd' = bt_put c (saturating_add (or_zero (map_of wd c)) r) wd"
      by (auto simp: rbind_eq_Inr)
    with r False show thesis by (rule pays)
  qed
qed

lemma claim_each_keys:
  "claim_each C who iss n k rs wd l = Inr (rs', wd', l') \<Longrightarrow> map fst rs' = map fst rs"
  by (induction rs arbitrary: wd l rs' wd' l') (auto simp: result_simps)

lemma claim_one_books:
  assumes "claim_one C who iss n k c t w wd l = Inr (w', wd', l')" and "w \<le> t" and "t \<le> u128_max"
  shows "w \<le> w' \<and> w' \<le> t \<and> (bt_invar wd \<longrightarrow> bt_invar wd') \<and>
    (\<forall>d. or_zero (map_of wd' d) + w \<le> or_zero (map_of wd d) + (if d = c then w' else w))"
  using assms(1)
proof (cases rule: claim_one_cases)
  case (pays r to)
  have "r \<le> t - w" using pays(1) by (auto simp: due_reward_Inr)
  then have "saturating_add w r = w + r" "w + r \<le> t" using assms(2,3) by (simp_all add: saturating_add_def)
  with pays show ?thesis using saturating_add_le(1) [of "or_zero (map_of wd c)" r] by simp
qed (use assms(2) in simp)

text \<open>The claim of one currency, and what the claim of another one leaves alone.\<close>

lemma claim_each_books:
  assumes "claim_each C who iss n k rs wd l = Inr (rs', wd', l')" and "distinct (map fst rs)"
    and "\<And>c. spent rs c \<le> earned rs c \<and> earned rs c \<le> u128_max"
  shows "(bt_invar wd \<longrightarrow> bt_invar wd') \<and> (\<forall>c. earned rs' c = earned rs c \<and> spent rs c \<le> spent rs' c \<and>
    spent rs' c \<le> earned rs c \<and> or_zero (map_of wd' c) + spent rs c \<le> or_zero (map_of wd c) + spent rs' c)"
  using assms
proof (induction rs arbitrary: wd l rs')
  case Nil
  then show ?case by simp
next
  case (Cons x rs)
  obtain c t w where x: "x = (c, t, w)" by (cases x)
  obtain w1 wd1 l1 rs1 where one: "claim_one C who iss n k c t w wd l = Inr (w1, wd1, l1)"
    and rest: "claim_each C who iss n k rs wd1 l1 = Inr (rs1, wd', l')" and rs': "rs' = (c, t, w1) # rs1"
    using Cons.prems(1) by (auto simp: x result_simps)
  have tw: "w \<le> t" "t \<le> u128_max" using Cons.prems(3) [of c] by (simp_all add: x)
  have c: "earned rs c = 0" "spent rs c = 0" using Cons.prems(2) absent_key [of c rs] by (simp_all add: x)
  have rs: "spent rs d \<le> earned rs d \<and> earned rs d \<le> u128_max" for d
    using Cons.prems(3) [of d] c by (cases "d = c") (simp_all add: x)
  from Cons.IH [OF rest _ rs] Cons.prems(2)
  have IH: "bt_invar wd1 \<longrightarrow> bt_invar wd'" "earned rs1 d = earned rs d" "spent rs d \<le> spent rs1 d"
    "spent rs1 d \<le> earned rs d" "or_zero (map_of wd' d) + spent rs d \<le> or_zero (map_of wd1 d) + spent rs1 d" for d
    by (simp_all add: x)
  have o: "w \<le> w1" "w1 \<le> t" "bt_invar wd \<longrightarrow> bt_invar wd1"
    "or_zero (map_of wd1 d) + w \<le> or_zero (map_of wd d) + (if d = c then w1 else w)" for d
    using claim_one_books [OF one tw] by simp_all
  have "earned rs' d = earned (x # rs) d \<and> spent (x # rs) d \<le> spent rs' d \<and> spent rs' d \<le> earned (x # rs) d \<and>
    or_zero (map_of wd' d) + spent (x # rs) d \<le> or_zero (map_of wd d) + spent rs' d" for d
    using IH(2-5) [of d] o(1,2) o(4) [of d] c by (cases "d = c") (simp_all add: x rs')
  then show ?case using IH(1) o(3) by blast
qed

section \<open>Removing shares\<close>

lemma uncharge_books:
  assumes "spent rs c \<le> earned rs c"
  shows "earned (uncharge c x rs) d = earned rs d - (if d = c then x else 0)"
    and "spent (uncharge c x rs) d = spent rs d - (if d = c then x else 0)"
    and "bt_invar rs \<Longrightarrow> bt_invar (uncharge c x rs)"
  using assms
  by (auto simp: uncharge_def saturating_sub_def Let_def earned_def spent_def split: option.splits prod.splits)

lemma remove_each_books:
  assumes "remove_each n k wd rs = Inr (wd', rs')" and "distinct (map fst wd)" and "n \<le> k"
    and "\<And>c. spent rs c \<le> earned rs c" and "bt_invar rs"
  shows "map fst wd' = map fst wd \<and> bt_invar rs' \<and> (\<forall>c. \<exists>x. x \<le> or_zero (map_of wd c) \<and>
    or_zero (map_of wd' c) = or_zero (map_of wd c) - x \<and> earned rs' c = earned rs c - x \<and> spent rs' c = spent rs c - x)"
  using assms
proof (induction wd arbitrary: rs wd')
  case Nil
  then show ?case by simp
next
  case (Cons e wd)
  obtain c w where e: "e = (c, w)" by (cases e)
  obtain wd1 where x: "portion n w k \<le> u128_max"
    and rest: "remove_each n k wd (uncharge c (portion n w k) rs) = Inr (wd1, rs')"
    and wd': "wd' = (c, w - portion n w k) # wd1"
    using Cons.prems(1) by (auto simp: e result_simps portion128_def saturating_sub_def)
  note u = uncharge_books [OF Cons.prems(4) [of c]]
  have "spent (uncharge c (portion n w k) rs) d \<le> earned (uncharge c (portion n w k) rs) d" for d
    using Cons.prems(4) [of d] by (simp add: u(1,2))
  from Cons.IH [OF rest _ Cons.prems(3) this u(3) [OF Cons.prems(5)]] Cons.prems(2)
  have IH: "map fst wd1 = map fst wd" "bt_invar rs'" "\<exists>x. x \<le> or_zero (map_of wd d) \<and>
      or_zero (map_of wd1 d) = or_zero (map_of wd d) - x \<and>
      earned rs' d = earned rs d - (if d = c then portion n w k else 0) - x \<and>
      spent rs' d = spent rs d - (if d = c then portion n w k else 0) - x" for d
    by (simp_all add: e u(1,2))
  have c: "map_of wd c = None" using Cons.prems(2) by (simp add: e map_of_eq_None_iff)
  have "\<exists>x. x \<le> or_zero (map_of (e # wd) d) \<and> or_zero (map_of wd' d) = or_zero (map_of (e # wd) d) - x \<and>
      earned rs' d = earned rs d - x \<and> spent rs' d = spent rs d - x" for d
  proof (cases "d = c")
    case True
    with IH(3) [of c] c show ?thesis
      using portion_le [OF Cons.prems(3), of w] by (intro exI [of _ "portion n w k"]) (simp add: e wd')
  next
    case False
    with IH(3) [of d] show ?thesis by (auto simp: e wd')
  qed
  then show ?case using IH(1,2) by (simp add: e wd')
qed

text \<open>Removing all shares takes back everything that was withdrawn for them.\<close>

lemma remove_all_each:
  "remove_each k k wd rs = Inr (wd', rs') \<Longrightarrow> k \<noteq> 0 \<Longrightarrow> or_zero (map_of wd' c) = 0"
  by (induction wd arbitrary: rs wd') (auto simp: result_simps portion128_def portion_def saturating_sub_def)

section \<open>Adding shares\<close>

lemma charge_inflation_invar: "bt_invar m \<Longrightarrow> bt_invar (fold charge_inflation xs m)"
  by (induction xs arbitrary: m) (auto simp: charge_inflation_def)

lemma charge_inflation_le:
  assumes "distinct (map fst xs)"
  shows "or_zero (map_of (fold charge_inflation xs m) c) \<le> or_zero (map_of m c) + or_zero (map_of xs c)"
  using assms
proof (induction xs arbitrary: m)
  case (Cons x xs)
  obtain d i where x: "x = (d, i)" by (cases x)
  have "or_zero (map_of (charge_inflation x m) c) \<le> or_zero (map_of m c) + (if c = d then i else 0)"
    using saturating_add_le(1) by (auto simp: x charge_inflation_def split: option.splits)
  moreover have "map_of xs d = None" using Cons.prems by (simp add: x map_of_eq_None_iff)
  ultimately show ?case using Cons.IH [of "charge_inflation x m"] Cons.prems by (auto simp: x split: if_splits)
qed simp

lemma reward_inflation_0 [simp]: "reward_inflation n 0 k = 0"
  by (simp add: reward_inflation_def portion_def)

lemma map_of_rewards:
  "map_of (map (\<lambda>(c, t, w). (c, f t w)) rs) c = map_option (\<lambda>(t, w). f t w) (map_of rs c)"
  by (induction rs) auto

lemma inflate_books:
  "earned (pool_rewards (inflate_pool n p)) c =
     saturating_add (earned (pool_rewards p) c) (reward_inflation n (earned (pool_rewards p) c) (total_shares p))"
  "spent (pool_rewards (inflate_pool n p)) c =
     saturating_add (spent (pool_rewards p) c) (reward_inflation n (earned (pool_rewards p) c) (total_shares p))"
  "or_zero (map_of (withdrawn_inflation n p) c) = reward_inflation n (earned (pool_rewards p) c) (total_shares p)"
  "map fst (pool_rewards (inflate_pool n p)) = map fst (pool_rewards p)"
  "map fst (withdrawn_inflation n p) = map fst (pool_rewards p)"
  "total_shares (inflate_pool n p) = saturating_add (total_shares p) n"
  by (auto simp: inflate_pool_def withdrawn_inflation_def Let_def map_of_rewards earned_def spent_def
      saturating_add_def case_prod_beta comp_def split: option.splits)

end
