(* ===== verification/Farm_Books.thy ===== *)
theory Farm_Books
  imports Farm_Lemmas
begin

text \<open>
  The books of a pool agree: the shares of all entries are covered by the total, what they have withdrawn of a reward by
  what the pool has spent, and that by what it has earned. Every operation keeps this, and leaves other pools alone.
\<close>

section \<open>Reading what was written\<close>

lemma farm_pool_simps [simp]:
  "farm_pool (put_pool C pid p s) q = (if q = pid then Some p else farm_pool s q)"
  "farm_pool (put_share C pid who i s) = farm_pool s" "farm_pool (drop_share pid who s) = farm_pool s"
  "farm_pool (s\<lparr>farm_ledger := l\<rparr>) = farm_pool s" "farm_pool (emit_farm e s) = farm_pool s"
  "farm_pool (s\<lparr>user_farming_pool := u\<rparr>) = farm_pool s"
  by (auto simp: farm_pool_def put_pool_def put_share_def drop_share_def emit_farm_def map_of_sm_put fun_eq_iff)

lemma farm_shares_simps [simp]:
  "farm_shares (put_pool C pid p s) = farm_shares s"
  "farm_shares (put_share C pid who i s) q =
     (if q = pid then sm_put (account_hash C) who i (farm_shares s pid) else farm_shares s q)"
  "farm_shares (drop_share pid who s) q = (if q = pid then sm_del who (farm_shares s pid) else farm_shares s q)"
  "farm_shares (emit_farm e s) = farm_shares s"
  by (auto simp: put_pool_def put_share_def drop_share_def emit_farm_def)

definition untouched :: "nat \<Rightarrow> 'l farm_state \<Rightarrow> 'l farm_state \<Rightarrow> bool" where
  "untouched q s t \<longleftrightarrow> farm_pool t q = farm_pool s q \<and> farm_shares t q = farm_shares s q"

section \<open>The books\<close>

definition pool_books :: "(account \<Rightarrow> nat) \<Rightarrow> pool_info \<Rightarrow> (account \<times> share_info) list \<Rightarrow> bool" where
  "pool_books H p ss \<longleftrightarrow> sm_invar H ss \<and> (\<forall>x \<in> set ss. bt_invar (si_withdrawn (snd x))) \<and>
     bt_invar (pool_rewards p) \<and>
     (\<Sum>x\<leftarrow>ss. si_share (snd x)) \<le> total_shares p \<and>
     (\<forall>c. (\<Sum>x\<leftarrow>ss. drawn (snd x) c) \<le> spent (pool_rewards p) c \<and>
        spent (pool_rewards p) c \<le> earned (pool_rewards p) c \<and> earned (pool_rewards p) c \<le> u128_max)"

definition farm_books :: "'l farm_config \<Rightarrow> nat \<Rightarrow> 'l farm_state \<Rightarrow> bool" where
  "farm_books C pid s \<longleftrightarrow>
     (case farm_pool s pid of Some p \<Rightarrow> pool_books (account_hash C) p (farm_shares s pid) | None \<Rightarrow> farm_shares s pid = [])"

text \<open>No total of the pool has reached the bound of its type.\<close>

definition unsaturated :: "pool_info \<Rightarrow> bool" where
  "unsaturated p \<longleftrightarrow> total_shares p < u128_max \<and> (\<forall>c. earned (pool_rewards p) c < u128_max)"

lemma books_untouched: "untouched q s t \<Longrightarrow> farm_books C q t = farm_books C q s"
  by (simp add: untouched_def farm_books_def cong: option.case_cong)

lemma pool_booksD:
  assumes "pool_books H p ss" and "map_of ss who = Some i"
  shows "bt_invar (si_withdrawn i)" and "si_share i \<le> total_shares p" and "drawn i c \<le> spent (pool_rewards p) c"
  using assms entry_le_sum [of H ss who i "\<lambda>x. si_share (snd x)"] entry_le_sum [of H ss who i "\<lambda>x. drawn (snd x) c"]
  by (auto simp: pool_books_def sm.total_def dest!: map_of_SomeD intro: le_trans)

text \<open>One entry is replaced, and the totals change at least by as much.\<close>

lemma pool_books_put:
  assumes "pool_books H p ss" and "bt_invar (si_withdrawn i)" and "bt_invar (pool_rewards p')"
    and old: "old = (case map_of ss who of Some j \<Rightarrow> j | None \<Rightarrow> new_share who b)"
    and share: "si_share i + total_shares p \<le> si_share old + total_shares p'"
    and draw: "\<And>c. drawn i c + spent (pool_rewards p) c \<le> drawn old c + spent (pool_rewards p') c"
    and earn: "\<And>c. spent (pool_rewards p') c \<le> earned (pool_rewards p') c \<and> earned (pool_rewards p') c \<le> u128_max"
  shows "pool_books H p' (sm_put H who i ss)"
proof -
  have inv: "sm_invar H ss" using assms(1) by (simp add: pool_books_def)
  have sum: "(\<Sum>x\<leftarrow>sm_put H who i ss. w (snd x)) + w old = (\<Sum>x\<leftarrow>ss. w (snd x)) + w i"
    if w: "w (new_share who b) = 0" for w :: "share_info \<Rightarrow> nat"
    using sum_put [OF inv, of "\<lambda>x. w (snd x)" who i] w by (auto simp: sm.total_def old split: option.splits)
  have "(\<Sum>x\<leftarrow>sm_put H who i ss. si_share (snd x)) \<le> total_shares p'"
    using sum [of si_share] share assms(1) by (simp add: new_share_def pool_books_def)
  moreover have "(\<Sum>x\<leftarrow>sm_put H who i ss. drawn (snd x) c) \<le> spent (pool_rewards p') c" for c
  proof -
    have "(\<Sum>x\<leftarrow>ss. drawn (snd x) c) \<le> spent (pool_rewards p) c" using assms(1) by (simp add: pool_books_def)
    then show ?thesis using sum [of "\<lambda>i. drawn i c"] draw [of c] by (simp add: new_share_def drawn_def)
  qed
  moreover have "\<forall>x \<in> set (sm_put H who i ss). bt_invar (si_withdrawn (snd x))"
    using set_sm_put [of H who i ss] assms(1,2) by (fastforce simp: pool_books_def)
  ultimately show ?thesis using assms(1,3) earn sm_invar_put [OF inv] by (simp add: pool_books_def)
qed

lemma pool_books_del:
  assumes "pool_books H p ss"
  shows "pool_books H p (sm_del who ss)"
proof -
  have inv: "sm_invar H ss" using assms by (simp add: pool_books_def)
  have "(\<Sum>x\<leftarrow>sm_del who ss. w (snd x)) \<le> (\<Sum>x\<leftarrow>ss. w (snd x))" for w :: "share_info \<Rightarrow> nat"
    using sum_del [OF inv, of "\<lambda>x. w (snd x)" who] by (simp add: sm.total_def)
  note le = this
  have "(\<Sum>x\<leftarrow>sm_del who ss. si_share (snd x)) \<le> total_shares p"
    using le [of si_share] assms by (simp add: pool_books_def)
  moreover have "(\<Sum>x\<leftarrow>sm_del who ss. drawn (snd x) c) \<le> spent (pool_rewards p) c" for c
    using le [of "\<lambda>i. drawn i c"] assms order_trans unfolding pool_books_def by blast
  moreover have "set (sm_del who ss) \<subseteq> set ss" by (auto simp: sm_del_def)
  ultimately show ?thesis using assms sm_invar_del [OF inv, of who] by (auto simp: pool_books_def)
qed

section \<open>Adding\<close>

lemma add_share_untouched: "q \<noteq> pid \<Longrightarrow> untouched q s (add_share C who pid p n s)"
  by (simp add: untouched_def add_share_def Let_def)

lemma add_share_pool:
  "farm_pool s pid = Some p \<Longrightarrow> farm_pool (add_share C who pid p n s) pid = Some (if n = 0 then p else inflate_pool n p)"
  by (simp add: add_share_def Let_def)

lemma add_share_books:
  assumes "farm_books C pid s" and "farm_pool s pid = Some p"
    and "\<And>p'. farm_pool (add_share C who pid p n s) pid = Some p' \<Longrightarrow> unsaturated p'"
  shows "farm_books C pid (add_share C who pid p n s)"
proof (cases "n = 0")
  case False
  let ?i = "share_or_new s pid who" and ?H = "account_hash C"
  let ?j = "?i\<lparr>si_share := saturating_add (si_share ?i) n,
    si_withdrawn := fold charge_inflation (withdrawn_inflation n p) (si_withdrawn ?i)\<rparr>"
  have b: "pool_books ?H p (farm_shares s pid)" using assms(1,2) by (simp add: farm_books_def)
  have i: "?i = (case map_of (farm_shares s pid) who of Some j \<Rightarrow> j | None \<Rightarrow> new_share who (farm_block s))"
    by (simp add: share_or_new_def share_of_def)
  have "unsaturated (inflate_pool n p)" using assms(3) add_share_pool [OF assms(2)] False by simp
  then have sat: "saturating_add (total_shares p) n < u128_max"
    "saturating_add (earned (pool_rewards p) c) (reward_inflation n (earned (pool_rewards p) c) (total_shares p)) < u128_max"
    for c by (simp_all add: unsaturated_def inflate_books)
  have "pool_books ?H (inflate_pool n p) (sm_put ?H who ?j (farm_shares s pid))"
  proof (rule pool_books_put [OF b _ _ i])
    have inv: "bt_invar (si_withdrawn ?i)" and rs: "bt_invar (pool_rewards p)"
      using b pool_booksD(1) [OF b] by (auto simp: i new_share_def sm_invar_def pool_books_def split: option.split)
    show "bt_invar (si_withdrawn ?j)" using inv by (simp add: charge_inflation_invar)
    show "bt_invar (pool_rewards (inflate_pool n p))" using rs by (simp add: sm_invar_keys inflate_books)
    show "si_share ?j + total_shares p \<le> si_share ?i + total_shares (inflate_pool n p)"
      using sat(1) saturating_add_le(1) [of "si_share ?i" n] by (simp add: inflate_books saturating_add_def)
    fix c
    let ?n = "reward_inflation n (earned (pool_rewards p) c) (total_shares p)"
    have le: "spent (pool_rewards p) c \<le> earned (pool_rewards p) c" using b by (simp add: pool_books_def)
    have e: "saturating_add (earned (pool_rewards p) c) ?n = earned (pool_rewards p) c + ?n"
      "saturating_add (spent (pool_rewards p) c) ?n = spent (pool_rewards p) c + ?n"
      using sat(2) [of c] le by (simp_all add: saturating_add_def)
    have "distinct (map fst (withdrawn_inflation n p))" using sm_invar_distinct [OF rs] by (simp add: inflate_books)
    from charge_inflation_le [OF this, of "si_withdrawn ?i" c]
    show "drawn ?j c + spent (pool_rewards p) c \<le> drawn ?i c + spent (pool_rewards (inflate_pool n p)) c"
      by (simp add: inflate_books e drawn_def)
    show "spent (pool_rewards (inflate_pool n p)) c \<le> earned (pool_rewards (inflate_pool n p)) c \<and>
        earned (pool_rewards (inflate_pool n p)) c \<le> u128_max"
      using le sat(2) [of c] by (simp add: inflate_books e)
  qed
  then show ?thesis using False by (simp add: add_share_def Let_def farm_books_def)
qed (use assms(1) in \<open>simp add: add_share_def\<close>)

section \<open>Claiming\<close>

lemma claim_rewards_cases:
  assumes "claim_rewards C who pid s = Inr t"
  obtains (idle) "t = s" and "\<And>i. share_of s pid who = Some i \<Longrightarrow> si_share i = 0"
  | (claimed) i p rs wd l where "share_of s pid who = Some i" and "si_share i \<noteq> 0" and "farm_pool s pid = Some p"
    and "claim_each C who (reward_issuer p) (si_share i) (total_shares p) (pool_rewards p) (si_withdrawn i)
           (farm_ledger s) = Inr (rs, wd, l)"
    and "t = put_share C pid who (i\<lparr>si_withdrawn := wd, si_claim_last_block := farm_block s\<rparr>)
           (put_pool C pid (p\<lparr>pool_rewards := rs\<rparr>) (s\<lparr>farm_ledger := l\<rparr>))"
proof (cases "share_of s pid who")
  case None
  with assms idle show thesis by (simp add: claim_rewards_def)
next
  case (Some i)
  show thesis
  proof (cases "si_share i = 0")
    case True
    with assms Some idle show thesis by (simp add: claim_rewards_def)
  next
    case False
    with assms Some claimed show thesis by (auto simp: claim_rewards_def the_farm_pool_def result_simps)
  qed
qed

lemma claim_untouched: "claim_rewards C who pid s = Inr t \<Longrightarrow> q \<noteq> pid \<Longrightarrow> untouched q s t"
  by (erule claim_rewards_cases) (simp_all add: untouched_def)

lemma claim_books:
  assumes "claim_rewards C who pid s = Inr t" and "farm_books C pid s"
  shows "farm_books C pid t"
  using assms(1)
proof (cases rule: claim_rewards_cases)
  case (claimed i p rs wd l)
  have b: "pool_books (account_hash C) p (farm_shares s pid)" using assms(2) claimed(3) by (simp add: farm_books_def)
  then have inv: "bt_invar (pool_rewards p)" "bt_invar (si_withdrawn i)"
    using pool_booksD(1) [OF b claimed(1) [unfolded share_of_def]] by (simp_all add: pool_books_def)
  have "spent (pool_rewards p) c \<le> earned (pool_rewards p) c \<and> earned (pool_rewards p) c \<le> u128_max" for c
    using b by (simp add: pool_books_def)
  note e = claim_each_books [OF claimed(4) sm_invar_distinct [OF inv(1)] this]
  have "pool_books (account_hash C) (p\<lparr>pool_rewards := rs\<rparr>) (sm_put (account_hash C) who
      (i\<lparr>si_withdrawn := wd, si_claim_last_block := farm_block s\<rparr>) (farm_shares s pid))"
    by (rule pool_books_put [OF b, where old = i and b = 0])
      (use b e inv claimed(1) claim_each_keys [OF claimed(4)]
        in \<open>auto simp: share_of_def drawn_def pool_books_def sm_invar_keys\<close>)
  then show ?thesis by (simp add: claimed(5) farm_books_def)
qed (use assms(2) in simp)

section \<open>Removing\<close>

lemma remove_share_cases:
  assumes "remove_share C who pid input limit_time s = Inr t"
  obtains (idle) "input = Some 0" and "t = s"
  | (absent) s1 where "claim_rewards C who pid s = Inr s1" and "share_of s1 pid who = None" and "t = s1"
  | (forgotten) s1 i where "claim_rewards C who pid s = Inr s1" and "share_of s1 pid who = Some i"
    and "input = None" and "si_share i = 0" and "t = drop_share pid who s1"
  | (removed) s1 i n p wd rs where "claim_rewards C who pid s = Inr s1" and "share_of s1 pid who = Some i"
    and "n = (case input of Some m \<Rightarrow> m | None \<Rightarrow> si_share i)" and "n \<noteq> 0" and "n \<le> si_share i"
    and "farm_pool s1 pid = Some p"
    and "remove_each n (si_share i) (si_withdrawn i) (pool_rewards p) = Inr (wd, rs)"
    and "t = put_share C pid who
           (i\<lparr>si_withdraw_list := si_withdraw_list i @ [(add32 (farm_block s1) limit_time, n)], si_withdrawn := wd,
              si_share := si_share i - n\<rparr>)
           (put_pool C pid (p\<lparr>total_shares := total_shares p - n, pool_rewards := rs\<rparr>) s1)"
proof (cases "input = Some 0")
  case True
  with assms have "t = s" by (simp add: remove_share_def)
  with True show thesis by (rule idle)
next
  case nz: False
  obtain s1 where s1: "claim_rewards C who pid s = Inr s1"
    using assms nz by (auto simp: remove_share_def result_simps)
  show thesis
  proof (cases "share_of s1 pid who")
    case None
    with assms nz s1 absent show thesis by (simp add: remove_share_def)
  next
    case (Some i)
    let ?n = "case input of Some m \<Rightarrow> m | None \<Rightarrow> si_share i"
    have le: "?n \<le> si_share i"
      using assms nz s1 Some by (auto simp: remove_share_def result_simps split: option.splits)
    show thesis
    proof (cases "?n = 0")
      case True
      with nz have "input = None" "si_share i = 0" by (auto split: option.splits)
      with assms s1 Some forgotten show thesis by (simp add: remove_share_def)
    next
      case False
      with assms nz s1 Some le obtain p wd rs where "farm_pool s1 pid = Some p"
        "remove_each ?n (si_share i) (si_withdrawn i) (pool_rewards p) = Inr (wd, rs)"
        "t = put_share C pid who
           (i\<lparr>si_withdraw_list := si_withdraw_list i @ [(add32 (farm_block s1) limit_time, ?n)], si_withdrawn := wd,
              si_share := si_share i - ?n\<rparr>)
           (put_pool C pid (p\<lparr>total_shares := total_shares p - ?n, pool_rewards := rs\<rparr>) s1)"
        by (auto simp: remove_share_def the_farm_pool_def result_simps saturating_sub_def split: option.splits)
      with s1 Some False le show thesis by (intro removed [OF s1 Some refl]) simp_all
    qed
  qed
qed

lemma untouched_trans: "untouched q s t \<Longrightarrow> untouched q t u \<Longrightarrow> untouched q s u"
  by (simp add: untouched_def)

lemma remove_untouched:
  assumes "remove_share C who pid input limit_time s = Inr t" and "q \<noteq> pid"
  shows "untouched q s t"
  using assms(1)
  by (cases rule: remove_share_cases)
    (use assms(2) in \<open>auto simp: untouched_def [of q "s1" for s1] dest!: claim_untouched [OF _ assms(2)]
      intro: untouched_trans simp: untouched_def\<close>)

lemma drop_books:
  "farm_books C pid s \<Longrightarrow> farm_books C pid (drop_share q who s)"
  by (auto simp: farm_books_def pool_books_del sm_del_def [of _ "[]"] split: option.splits)

lemma remove_books:
  assumes "remove_share C who pid input limit_time s = Inr t" and "farm_books C pid s"
  shows "farm_books C pid t"
  using assms(1)
proof (cases rule: remove_share_cases)
  case (removed s1 i n p wd rs)
  have b: "pool_books (account_hash C) p (farm_shares s1 pid)"
    using claim_books [OF removed(1) assms(2)] removed(6) by (simp add: farm_books_def)
  have inv: "bt_invar (pool_rewards p)" "bt_invar (si_withdrawn i)" "si_share i \<le> total_shares p"
    "drawn i c \<le> spent (pool_rewards p) c" for c
    using b pool_booksD [OF b removed(2) [unfolded share_of_def]] by (simp_all add: pool_books_def)
  have le: "spent (pool_rewards p) c \<le> earned (pool_rewards p) c" for c using b by (simp add: pool_books_def)
  note e = remove_each_books [OF removed(7) sm_invar_distinct [OF inv(2)] removed(5) le inv(1)]
  have "pool_books (account_hash C) (p\<lparr>total_shares := total_shares p - n, pool_rewards := rs\<rparr>)
      (sm_put (account_hash C) who
        (i\<lparr>si_withdraw_list := si_withdraw_list i @ [(add32 (farm_block s1) limit_time, n)], si_withdrawn := wd,
           si_share := si_share i - n\<rparr>) (farm_shares s1 pid))"
  proof (rule pool_books_put [OF b, where old = i and b = 0])
    fix c
    obtain x where x: "x \<le> or_zero (map_of (si_withdrawn i) c)"
      "or_zero (map_of wd c) = or_zero (map_of (si_withdrawn i) c) - x"
      "earned rs c = earned (pool_rewards p) c - x" "spent rs c = spent (pool_rewards p) c - x" using e by blast
    moreover have "earned (pool_rewards p) c \<le> u128_max" using b by (simp add: pool_books_def)
    ultimately show
      "drawn (i\<lparr>si_withdraw_list := si_withdraw_list i @ [(add32 (farm_block s1) limit_time, n)], si_withdrawn := wd,
           si_share := si_share i - n\<rparr>) c + spent (pool_rewards p) c
        \<le> drawn i c + spent (pool_rewards (p\<lparr>total_shares := total_shares p - n, pool_rewards := rs\<rparr>)) c"
      "spent (pool_rewards (p\<lparr>total_shares := total_shares p - n, pool_rewards := rs\<rparr>)) c
        \<le> earned (pool_rewards (p\<lparr>total_shares := total_shares p - n, pool_rewards := rs\<rparr>)) c \<and>
       earned (pool_rewards (p\<lparr>total_shares := total_shares p - n, pool_rewards := rs\<rparr>)) c \<le> u128_max"
      using inv(4) [of c] le [of c] by (auto simp: drawn_def intro: diff_le_mono le_trans [OF diff_le_self])
  qed (use e inv removed(2,5) in \<open>auto simp: share_of_def sm_invar_keys\<close>)
  then show ?thesis by (simp add: removed(8) farm_books_def)
qed (use assms(2) in \<open>auto intro: drop_books claim_books [where C = C]\<close>)

section \<open>Paying out\<close>

lemma process_withdraw_cases:
  assumes "process_withdraw_list C who pid p if_remove s = Inr t"
  obtains (absent) "t = s" and "share_of s pid who = None"
  | (paid) i l where "share_of s pid who = Some i"
    and "rfold (\<lambda>(dest_block, v) l. if dest_block \<le> farm_block s then pay_tokens C who p v l else Inr l)
            (si_withdraw_list i) (farm_ledger s) = Inr l"
    and "t = (if filter (\<lambda>(dest_block, v). \<not> dest_block \<le> farm_block s) (si_withdraw_list i) \<noteq> [] \<or>
               si_share i \<noteq> 0 \<or> \<not> if_remove
        then put_share C pid who
          (i\<lparr>si_withdraw_list := filter (\<lambda>(dest_block, v). \<not> dest_block \<le> farm_block s) (si_withdraw_list i)\<rparr>)
          (s\<lparr>farm_ledger := l\<rparr>)
        else drop_share pid who (s\<lparr>farm_ledger := l\<rparr>))"
proof (cases "share_of s pid who")
  case None
  with assms absent show thesis by (simp add: process_withdraw_list_def)
next
  case (Some i)
  with assms obtain l where
    "rfold (\<lambda>(dest_block, v) l. if dest_block \<le> farm_block s then pay_tokens C who p v l else Inr l)
       (si_withdraw_list i) (farm_ledger s) = Inr l"
    by (auto simp: process_withdraw_list_def result_simps)
  with assms Some paid show thesis by (auto simp: process_withdraw_list_def Let_def split: if_splits)
qed

lemma process_untouched:
  assumes "process_withdraw_list C who pid p if_remove s = Inr t" and "q \<noteq> pid"
  shows "untouched q s t"
  using assms(1) by (cases rule: process_withdraw_cases) (use assms(2) in \<open>auto simp: untouched_def\<close>)

lemma process_books:
  assumes "process_withdraw_list C who pid p if_remove s = Inr t" and "farm_books C pid s"
  shows "farm_books C pid t"
  using assms(1)
proof (cases rule: process_withdraw_cases)
  case (paid i l)
  have "pool_books (account_hash C) p' (sm_put (account_hash C) who
      (i\<lparr>si_withdraw_list := filter (\<lambda>(dest_block, v). \<not> dest_block \<le> farm_block s) (si_withdraw_list i)\<rparr>)
      (farm_shares s pid))" if "farm_pool s pid = Some p'" for p'
  proof -
    have b: "pool_books (account_hash C) p' (farm_shares s pid)" using assms(2) that by (simp add: farm_books_def)
    show ?thesis
      by (rule pool_books_put [OF b, where old = i and b = 0])
        (use b pool_booksD(1) [OF b] paid(1) in \<open>auto simp: share_of_def drawn_def pool_books_def\<close>)
  qed
  moreover have "farm_books C pid (s\<lparr>farm_ledger := l\<rparr>)"
    using assms(2) books_untouched [of pid s "s\<lparr>farm_ledger := l\<rparr>" C] by (simp add: untouched_def)
  ultimately show ?thesis
    using assms(2) paid(1)
    by (auto simp: paid(3) intro: drop_books) (auto simp: farm_books_def share_of_def split: option.splits)
qed (use assms(2) in simp)

end
