(* ===== verification/Farm_Runs.thy ===== *)
theory Farm_Runs
  imports Farm_Books
begin

text \<open>
  The books over runs: the calls of farmers, the calls of the control origin that do not tear down a pool,
  new blocks, and whatever happens outside of the pallet. Adding shares saturates at the bound of the type, which
  would break the sums, so a run is one in which no total reaches it.
\<close>

section \<open>Gauge pools\<close>

lemma gauge_id_neq: "gauge_id pid \<noteq> pid"
proof
  assume e: "gauge_id pid = pid"
  then have "pid < 2 ^ 32" by (metis add32_def mod_less_divisor zero_less_numeral zero_less_power)
  with e show False by (simp add: add32_def gauge_base_id_def mod_if split: if_splits)
qed

lemma gauge_id_inj: "gauge_id a = gauge_id b \<Longrightarrow> a < 2 ^ 32 \<Longrightarrow> b < 2 ^ 32 \<Longrightarrow> a = b"
proof -
  assume "gauge_id a = gauge_id b" and lt: "a < 2 ^ 32" "b < 2 ^ 32"
  then have "(a + 10000000) mod 4294967296 = (b + 10000000) mod 4294967296"
    by (simp add: add32_def gauge_base_id_def)
  moreover have "a < 4294967296" "b < 4294967296" using lt by simp_all
  ultimately show "a = b" by (simp add: mod_if split: if_splits)
qed

section \<open>Books that are kept\<close>

definition unsaturated_at :: "nat \<Rightarrow> 'l farm_state \<Rightarrow> bool" where
  "unsaturated_at q s \<longleftrightarrow> (\<forall>p. farm_pool s q = Some p \<longrightarrow> unsaturated p)"

lemma unsaturated_untouched: "untouched q s t \<Longrightarrow> unsaturated_at q t = unsaturated_at q s"
  by (simp add: untouched_def unsaturated_at_def)

lemma claim_keeps: "claim_rewards C who r s = Inr t \<Longrightarrow> farm_books C q s \<Longrightarrow> farm_books C q t"
  by (cases "q = r") (auto dest: claim_books claim_untouched books_untouched)

lemma remove_keeps: "remove_share C who r input x s = Inr t \<Longrightarrow> farm_books C q s \<Longrightarrow> farm_books C q t"
  by (cases "q = r") (auto dest: remove_books remove_untouched books_untouched)

lemma process_keeps: "process_withdraw_list C who r p b s = Inr t \<Longrightarrow> farm_books C q s \<Longrightarrow> farm_books C q t"
  by (cases "q = r") (auto dest: process_books process_untouched books_untouched)

lemma add_keeps:
  assumes "farm_pool s r = Some p" and "farm_books C q s" and "unsaturated_at q (add_share C who r p n s)"
  shows "farm_books C q (add_share C who r p n s)"
proof (cases "q = r")
  case True
  then show ?thesis using assms by (auto intro: add_share_books simp: unsaturated_at_def)
next
  case False
  then show ?thesis using assms(2) books_untouched [OF add_share_untouched] by metis
qed

text \<open>The gauge share is left alone, raised, or lowered.\<close>

lemma weigh_gauge_cases:
  assumes "weigh_gauge C who gid n b s = Inr t"
  obtains (idle) "t = s"
  | (raised) gp m where "farm_pool s gid = Some gp" and "t = add_share C who gid gp m s"
  | (lowered) m x where "remove_share C who gid (Some m) x s = Inr t"
proof (cases "farm_pool s gid")
  case None
  with assms idle show thesis by (simp add: weigh_gauge_def)
next
  case (Some gp)
  with assms obtain v where v: "(case share_of s gid who of
      Some i \<Rightarrow> update_gauge_share C who gid v (si_share i) gp s
    | None \<Rightarrow> Inr (if b then add_share C who gid gp v s else s)) = Inr t"
    by (auto simp: weigh_gauge_def result_simps)
  show thesis
  proof (cases "share_of s gid who")
    case None
    with v have "t = (if b then add_share C who gid gp v s else s)" by simp
    then show thesis using idle raised [OF Some] by (cases b) simp_all
  next
    case (Some i)
    with v have u: "update_gauge_share C who gid v (si_share i) gp s = Inr t" by simp
    show thesis
    proof (cases "v < si_share i")
      case True
      with u have "remove_share C who gid (Some (saturating_sub (si_share i) v)) (withdraw_limit_time gp) s = Inr t"
        by (simp add: update_gauge_share_def)
      then show thesis by (rule lowered)
    next
      case False
      with u have "t = add_share C who gid gp (saturating_sub v (si_share i)) s"
        by (simp add: update_gauge_share_def)
      then show thesis by (rule raised [OF \<open>farm_pool s gid = Some gp\<close>])
    qed
  qed
qed

lemma weigh_untouched:
  assumes "weigh_gauge C who gid n b s = Inr t" and "q \<noteq> gid"
  shows "untouched q s t"
  using assms(1)
proof (cases rule: weigh_gauge_cases)
  case idle then show ?thesis by (simp add: untouched_def)
next
  case raised then show ?thesis using add_share_untouched [OF assms(2)] by simp
next
  case lowered then show ?thesis using remove_untouched assms(2) by blast
qed

lemma weigh_keeps:
  assumes "weigh_gauge C who gid n b s = Inr t" and "farm_books C q s" and "unsaturated_at q t"
  shows "farm_books C q t"
  using assms(1)
proof (cases rule: weigh_gauge_cases)
  case idle then show ?thesis using assms(2) by simp
next
  case raised then show ?thesis using add_keeps assms(2,3) by blast
next
  case lowered then show ?thesis using remove_keeps assms(2) by blast
qed

lemma books_simps [simp]:
  "farm_books C q (s\<lparr>user_farming_pool := u\<rparr>) = farm_books C q s"
  "farm_books C q (s\<lparr>farm_ledger := l\<rparr>) = farm_books C q s"
  "farm_books C q (emit_farm e s) = farm_books C q s"
  "unsaturated_at q (s\<lparr>user_farming_pool := u\<rparr>) = unsaturated_at q s"
  "unsaturated_at q (s\<lparr>farm_ledger := l\<rparr>) = unsaturated_at q s"
  "unsaturated_at q (emit_farm e s) = unsaturated_at q s"
  by (simp_all add: farm_books_def unsaturated_at_def cong: option.case_cong)

lemma drop_keeps: "farm_books C q s \<Longrightarrow> farm_books C q (drop_share r who s)"
  by (rule drop_books)

lemma refresh_inner_keeps:
  assumes "refresh_inner C who r s = Inr t" and "farm_books C q s" and "unsaturated_at q t"
  shows "farm_books C q t"
proof (cases "share_of s r who")
  case None
  then have "t = drop_share (gauge_id r) who
      (s\<lparr>user_farming_pool := (user_farming_pool s)(who := filter (\<lambda>x. x \<noteq> r) (user_farming_pool s who))\<rparr>)"
    using assms(1) by (simp add: refresh_inner_def)
  then show ?thesis using assms(2) by (simp add: drop_books)
next
  case (Some i)
  then show ?thesis using assms weigh_keeps by (fastforce simp: refresh_inner_def)
qed

section \<open>The calls of farmers\<close>

lemma transfer_all_result: "transfer_all C a b xs s = Inr t \<Longrightarrow> \<exists>l. t = s\<lparr>farm_ledger := l\<rparr>"
  by (auto simp: transfer_all_def result_simps)

lemma join_pool_result: "join_pool who pid s = Inr t \<Longrightarrow> \<exists>u. t = s\<lparr>user_farming_pool := u\<rparr>"
  by (auto simp: join_pool_def Let_def result_simps split: if_splits intro: exI [of _ "user_farming_pool s"])

lemma deposit_keeps:
  assumes "farm_deposit C o1 pid n s = Inr t" and "farm_books C q s" and "unsaturated_at q t"
  shows "farm_books C q t"
proof -
  obtain who p l s3 s4 where p: "farm_pool s pid = Some p"
    and w: "weigh_gauge C who (gauge_id pid) n True (add_share C who pid p n (s\<lparr>farm_ledger := l\<rparr>)) = Inr s3"
    and j: "join_pool who pid s3 = Inr s4" and t: "t = emit_farm (PoolDeposited who pid n) s4"
    using assms(1)
    by (auto simp: farm_deposit_def the_farm_pool_def result_simps Let_def dest!: transfer_all_result)
  have u3: "unsaturated_at q s3" using assms(3) join_pool_result [OF j] by (auto simp: t)
  have "farm_books C q (add_share C who pid p n (s\<lparr>farm_ledger := l\<rparr>))"
  proof (cases "q = gauge_id pid")
    case True
    then have "q \<noteq> pid" using gauge_id_neq by simp
    then show ?thesis using assms(2) books_untouched [OF add_share_untouched] by (metis books_simps(2))
  next
    case False
    from unsaturated_untouched [OF weigh_untouched [OF w False]] u3
    have "unsaturated_at q (add_share C who pid p n (s\<lparr>farm_ledger := l\<rparr>))" by simp
    then show ?thesis using assms(2) p by (intro add_keeps) simp_all
  qed
  from weigh_keeps [OF w this u3] join_pool_result [OF j] show ?thesis by (auto simp: t)
qed

lemma withdraw_keeps:
  assumes "farm_withdraw C o1 pid n s = Inr t" and "farm_books C q s" and "unsaturated_at q t"
  shows "farm_books C q t"
proof -
  obtain who x s1 m s2 where "remove_share C who pid n x s = Inr s1"
    and "weigh_gauge C who (gauge_id pid) m False s1 = Inr s2" and "t = emit_farm (PoolWithdrawn who pid n) s2"
    using assms(1) by (auto simp: farm_withdraw_def result_simps)
  then show ?thesis using assms(2,3) remove_keeps weigh_keeps by (metis books_simps(3,6))
qed

lemma claim_call_keeps:
  assumes "farm_claim C o1 pid s = Inr t" and "farm_books C q s" and "unsaturated_at q t"
  shows "farm_books C q t"
proof -
  obtain who p s1 s2 s3 s4 where "claim_rewards C who pid s = Inr s1" and "claim_rewards C who (gauge_id pid) s1 = Inr s2"
    and "process_withdraw_list C who pid p True s2 = Inr s3" and "refresh_inner C who pid s3 = Inr s4"
    and "t = emit_farm (PoolClaimed who pid) s4"
    using assms(1) by (auto simp: farm_claim_def result_simps)
  then show ?thesis using assms(2,3) claim_keeps process_keeps refresh_inner_keeps by (metis books_simps(3,6))
qed

lemma withdraw_claim_keeps:
  assumes "farm_withdraw_claim C o1 pid s = Inr t" and "farm_books C q s" and "unsaturated_at q t"
  shows "farm_books C q t"
proof -
  obtain who p s1 s2 where "process_withdraw_list C who pid p False s = Inr s1"
    and "refresh_inner C who pid s1 = Inr s2" and "t = emit_farm (WithdrawClaimed who pid) s2"
    using assms(1) by (auto simp: farm_withdraw_claim_def result_simps)
  then show ?thesis using assms(2,3) process_keeps refresh_inner_keeps by (metis books_simps(3,6))
qed


section \<open>Refreshing all gauge shares\<close>

definition aside :: "'l farm_state \<Rightarrow> 'l farm_state \<Rightarrow> bool" where
  "aside s t \<longleftrightarrow> farm_pools t = farm_pools s \<and> farm_shares t = farm_shares s \<and>
     user_farming_pool t = user_farming_pool s"

definition same_pids :: "'l farm_state \<Rightarrow> 'l farm_state \<Rightarrow> bool" where
  "same_pids s t \<longleftrightarrow> user_farming_pool t = user_farming_pool s"

lemma same_pids_ops:
  "same_pids s (add_share C who pid p n s)"
  "claim_rewards C who pid s = Inr t \<Longrightarrow> same_pids s t"
  "remove_share C who pid input x s = Inr t \<Longrightarrow> same_pids s t"
  "process_withdraw_list C who pid p b s = Inr t \<Longrightarrow> same_pids s t"
proof -
  have c: "claim_rewards C who pid s = Inr t \<Longrightarrow> same_pids s t" for t
    by (erule claim_rewards_cases) (auto simp: same_pids_def put_share_def put_pool_def)
  then show "claim_rewards C who pid s = Inr t \<Longrightarrow> same_pids s t" .
  show "same_pids s (add_share C who pid p n s)"
    by (simp add: add_share_def Let_def same_pids_def put_share_def put_pool_def)
  show "remove_share C who pid input x s = Inr t \<Longrightarrow> same_pids s t"
    by (erule remove_share_cases) (auto simp: same_pids_def put_share_def put_pool_def drop_share_def dest!: c)
  show "process_withdraw_list C who pid p b s = Inr t \<Longrightarrow> same_pids s t"
    by (erule process_withdraw_cases) (auto simp: same_pids_def put_share_def drop_share_def)
qed

lemma same_pids_weigh:
  assumes "weigh_gauge C who gid n b s = Inr t"
  shows "same_pids s t"
  using assms
proof (cases rule: weigh_gauge_cases)
  case idle then show ?thesis by (simp add: same_pids_def)
next
  case raised then show ?thesis using same_pids_ops(1) by blast
next
  case lowered then show ?thesis by (rule same_pids_ops(3))
qed

lemma refresh_one_untouched:
  assumes "refresh_gauge_one C who r (xs, s) = Inr (ys, t)" and "q \<noteq> gauge_id r"
  shows "untouched q s t"
proof (cases "share_of s r who")
  case None
  then show ?thesis using assms by (auto simp: refresh_gauge_one_def untouched_def)
next
  case (Some i)
  then have "weigh_gauge C who (gauge_id r) (si_share i) True s = Inr t"
    using assms(1) by (auto simp: refresh_gauge_one_def result_simps)
  then show ?thesis using assms(2) by (rule weigh_untouched)
qed

lemma refresh_one_keeps:
  assumes "refresh_gauge_one C who r (xs, s) = Inr (ys, t)" and "farm_books C q s" and "unsaturated_at q t"
  shows "farm_books C q t"
  using assms drop_keeps [OF assms(2)] weigh_keeps [OF _ assms(2)]
  by (auto simp: refresh_gauge_one_def result_simps split: option.splits)

lemma refresh_one_pids:
  "refresh_gauge_one C who r (xs, s) = Inr (ys, t) \<Longrightarrow>
     same_pids s t \<and> set ys \<subseteq> set xs \<and> (distinct xs \<longrightarrow> distinct ys)"
  using same_pids_weigh [of C who "gauge_id r" _ True s]
  by (auto simp: refresh_gauge_one_def result_simps same_pids_def drop_share_def split: option.splits)

lemma refresh_each_untouched:
  "rfold (refresh_gauge_one C who) rs (xs, s) = Inr (ys, t) \<Longrightarrow> q \<notin> set (map gauge_id rs) \<Longrightarrow> untouched q s t"
proof (induction rs arbitrary: xs s)
  case (Cons r rs)
  then obtain xs' s' where "refresh_gauge_one C who r (xs, s) = Inr (xs', s')"
    "rfold (refresh_gauge_one C who) rs (xs', s') = Inr (ys, t)" by (auto simp: result_simps)
  then show ?case using Cons.IH Cons.prems(2) refresh_one_untouched untouched_trans by (metis list.set_intros list.simps(9))
qed (simp add: untouched_def)

lemma refresh_each_keeps:
  "rfold (refresh_gauge_one C who) rs (xs, s) = Inr (ys, t) \<Longrightarrow> distinct rs \<Longrightarrow> \<forall>r \<in> set rs. r < 2 ^ 32 \<Longrightarrow>
     farm_books C q s \<Longrightarrow> unsaturated_at q t \<Longrightarrow> farm_books C q t"
proof (induction rs arbitrary: xs s)
  case (Cons r rs)
  then obtain xs' s' where one: "refresh_gauge_one C who r (xs, s) = Inr (xs', s')"
    and rest: "rfold (refresh_gauge_one C who) rs (xs', s') = Inr (ys, t)" by (auto simp: result_simps)
  have "farm_books C q s'"
  proof (cases "q = gauge_id r")
    case True
    have "q \<notin> set (map gauge_id rs)"
    proof
      assume "q \<in> set (map gauge_id rs)"
      then obtain r' where "r' \<in> set rs" "gauge_id r' = gauge_id r" using True by auto
      then show False using Cons.prems(2,3) gauge_id_inj [of r' r] by auto
    qed
    from unsaturated_untouched [OF refresh_each_untouched [OF rest this]] Cons.prems(5)
    have "unsaturated_at q s'" by simp
    then show ?thesis using refresh_one_keeps [OF one Cons.prems(4)] by simp
  next
    case False
    then show ?thesis using books_untouched [OF refresh_one_untouched [OF one]] Cons.prems(4) by metis
  qed
  then show ?case using Cons.IH [OF rest] Cons.prems by simp
qed simp

lemma refresh_each_pids:
  "rfold (refresh_gauge_one C who) rs (xs, s) = Inr (ys, t) \<Longrightarrow>
     same_pids s t \<and> set ys \<subseteq> set xs \<and> (distinct xs \<longrightarrow> distinct ys)"
proof (induction rs arbitrary: xs s)
  case (Cons r rs)
  then obtain xs' s' where "refresh_gauge_one C who r (xs, s) = Inr (xs', s')"
    "rfold (refresh_gauge_one C who) rs (xs', s') = Inr (ys, t)" by (auto simp: result_simps)
  then show ?case using Cons.IH [of xs' s'] refresh_one_pids [of C who r xs s xs' s'] by (auto simp: same_pids_def)
qed (simp add: same_pids_def)

section \<open>Sound states\<close>

definition pids_sound :: "'l farm_state \<Rightarrow> bool" where
  "pids_sound s \<longleftrightarrow> (\<forall>who. distinct (user_farming_pool s who) \<and> (\<forall>r \<in> set (user_farming_pool s who). r < 2 ^ 32))"

definition farm_sound :: "'l farm_config \<Rightarrow> 'l farm_state \<Rightarrow> bool" where
  "farm_sound C s \<longleftrightarrow> (\<forall>q. farm_books C q s) \<and> pids_sound s"

definition farm_small :: "'l farm_state \<Rightarrow> bool" where
  "farm_small s \<longleftrightarrow> (\<forall>q. unsaturated_at q s)"

lemma aside_sound: "aside s t \<Longrightarrow> farm_sound C t = farm_sound C s"
  by (simp add: aside_def farm_sound_def farm_books_def farm_pool_def pids_sound_def cong: option.case_cong)

lemma pids_same: "same_pids s t \<Longrightarrow> pids_sound t = pids_sound s"
  by (simp add: same_pids_def pids_sound_def)

lemma refresh_keeps:
  assumes "farm_refresh C o1 s = Inr t" and "farm_sound C s" and "farm_small t"
  shows "farm_sound C t"
proof -
  obtain who ys s1 where r: "rfold (refresh_gauge_one C who) (user_farming_pool s who) (user_farming_pool s who, s) =
      Inr (ys, s1)" and t: "t = s1\<lparr>user_farming_pool := (user_farming_pool s1)(who := ys)\<rparr>"
    using assms(1) by (auto simp: farm_refresh_def refresh_gauge_pool_def result_simps)
  have ps: "distinct (user_farming_pool s who)" "\<forall>r \<in> set (user_farming_pool s who). r < 2 ^ 32"
    using assms(2) by (simp_all add: farm_sound_def pids_sound_def)
  have "farm_books C q t" for q
    using refresh_each_keeps [OF r ps, of q] assms(2,3) by (simp add: t farm_sound_def farm_small_def)
  moreover have "pids_sound t"
    using refresh_each_pids [OF r] ps assms(2) by (auto simp: t farm_sound_def pids_sound_def same_pids_def)
  ultimately show ?thesis by (simp add: farm_sound_def)
qed


section \<open>New blocks\<close>

lemma try_each_keeps:
  assumes "\<And>x s. P s \<Longrightarrow> P (snd (f x s))" and "P s"
  shows "P (snd (try_each f xs s))"
  using assms(2)
proof (induction xs arbitrary: s)
  case (Cons x xs)
  obtain e s' where e: "f x s = (e, s')" by (cases "f x s")
  then have "P s'" using assms(1) [OF Cons.prems, of x] by simp
  then show ?case using Cons.IH e by (cases e) simp_all
qed simp

lemma aside_trans: "aside s t \<Longrightarrow> aside t u \<Longrightarrow> aside s u"
  by (simp add: aside_def)

lemma send_boost_aside: "aside s (snd (send_boost_rewards C b s))"
proof -
  have "aside s (snd (send_boost_reward C b pid n c t))" if "aside s t" for pid n c t
    using that by (auto simp: send_boost_reward_def Let_def aside_def split: sum.split)
  then have "aside s (snd (try_each (send_boost_reward C b pid n) cs t))" if "aside s t" for pid n cs t
    using try_each_keeps [of "aside s" "send_boost_reward C b pid n" t cs] that by blast
  note inner = this
  have "aside s (snd (case farm_pool t pid of None \<Rightarrow> (None, t)
      | Some p \<Rightarrow> try_each (send_boost_reward C b pid n) (map fst (basic_rewards p)) t))" if "aside s t" for pid n t
    using inner [OF that] that by (cases "farm_pool t pid") simp_all
  note outer = this
  have "aside s s" by (simp add: aside_def)
  then show ?thesis unfolding send_boost_rewards_def
    by (rule try_each_keeps [rotated]) (simp only: case_prod_beta outer)
qed

lemma auto_start_aside: "aside s (auto_start_boost_round C s)"
proof -
  define s1 where "s1 = (if next_whitelist s \<noteq> [] then s\<lparr>boost_whitelist := [], next_whitelist := []\<rparr> else s)"
  obtain e u where e: "send_boost_rewards C (boost_pool s) s1 = (e, u)" by (cases "send_boost_rewards C (boost_pool s) s1")
  have "aside s s1" by (simp add: s1_def aside_def)
  then have "aside s u" using send_boost_aside [of s1 C "boost_pool s"] e aside_trans by fastforce
  then have "aside s (case e of None \<Rightarrow> u | Some e \<Rightarrow> emit_farm (RoundStartError e) u)"
    by (cases e) (simp_all add: aside_def emit_farm_def)
  moreover have "aside t ((emit_farm v t)\<lparr>boost_pool := bp, voting_pools := []\<rparr>)" for t v bp
    by (simp add: aside_def emit_farm_def)
  moreover have "auto_start_boost_round C s = s \<or> auto_start_boost_round C s =
      (emit_farm (RoundStart (round_length (boost_pool s)))
        (case e of None \<Rightarrow> u | Some e \<Rightarrow> emit_farm (RoundStartError e) u))
      \<lparr>boost_pool := (boost_pool s)\<lparr>start_round := farm_block s,
         end_round := sat_add32 (farm_block s) (round_length (boost_pool s)), boost_votes := 0\<rparr>, voting_pools := []\<rparr>"
  proof (cases "next_whitelist s = [] \<and> boost_whitelist s = []")
    case False
    then show ?thesis
      by (cases e) (simp_all only: auto_start_boost_round_def s1_def [symmetric] Let_def e prod.case option.case if_False simp_thms)
  qed (simp add: auto_start_boost_round_def)
  moreover have "aside s s" by (simp add: aside_def)
  ultimately show ?thesis by (elim disjE ssubst) (assumption, rule aside_trans)
qed

lemma earn_books:
  assumes "spent rs c \<le> earned rs c" and "spent rs c \<le> u128_max" and "bt_invar rs"
  shows "spent (earn b x rs) c = spent rs c" and "spent (earn b x rs) c \<le> earned (earn b x rs) c"
    and "bt_invar (earn b x rs)"
proof -
  obtain d a where x: "x = (d, a)" by (cases x)
  define n where "n = (case b d of Some m \<Rightarrow> saturating_add a m | None \<Rightarrow> a)"
  define v where "v = (case map_of rs d of Some (t, w) \<Rightarrow> (saturating_add t n, w) | None \<Rightarrow> (n, 0))"
  have e: "earn b x rs = bt_put d v rs" by (simp only: earn_def x n_def v_def Let_def prod.case)
  have w: "snd v = spent rs d" by (auto simp: v_def spent_def split: option.split)
  have t: "spent rs d \<le> fst v" if "d = c"
    using assms(1,2) that by (auto simp: v_def spent_def earned_def saturating_add_def split: option.splits)
  show "spent (earn b x rs) c = spent rs c" "spent (earn b x rs) c \<le> earned (earn b x rs) c"
    using assms(1) w t by (cases v; auto simp: e spent_def earned_def)+
  show "bt_invar (earn b x rs)" using assms(3) by (simp add: e)
qed

lemma earn_all_books:
  "spent rs c \<le> earned rs c \<Longrightarrow> spent rs c \<le> u128_max \<Longrightarrow> bt_invar rs \<Longrightarrow>
     spent (fold (earn b) xs rs) c = spent rs c \<and>
     spent (fold (earn b) xs rs) c \<le> earned (fold (earn b) xs rs) c \<and> bt_invar (fold (earn b) xs rs)"
proof (induction xs arbitrary: rs)
  case (Cons x xs)
  then show ?case using earn_books [OF Cons.prems, of b x] Cons.IH [of "earn b x rs"] by simp
qed simp

lemma farm_tick_books:
  assumes "pool_books H p ss" and "unsaturated (farm_tick n b p)"
  shows "pool_books H (farm_tick n b p) ss"
proof (cases "farm_pool_state p = Ongoing")
  case True
  then have t: "pool_rewards (farm_tick n b p) = fold (earn b) (basic_rewards p) (pool_rewards p)"
    "total_shares (farm_tick n b p) = total_shares p" by (simp_all add: farm_tick_def)
  have p: "spent (pool_rewards p) c \<le> earned (pool_rewards p) c" "spent (pool_rewards p) c \<le> u128_max"
    "bt_invar (pool_rewards p)" for c
    using assms(1) order_trans unfolding pool_books_def by blast+
  note e = earn_all_books [OF p, where b = b and xs = "basic_rewards p"]
  have "spent (pool_rewards p) c \<le> earned (fold (earn b) (basic_rewards p) (pool_rewards p)) c" for c
    using e [of c] by simp
  then show ?thesis using assms e by (simp add: pool_books_def t unsaturated_def less_imp_le)
next
  case False
  then have "total_shares (farm_tick n b p) = total_shares p \<and> pool_rewards (farm_tick n b p) = pool_rewards p"
    by (simp add: farm_tick_def split: pool_state.split)
  then show ?thesis using assms(1) by (simp add: pool_books_def)
qed

lemma farm_pool_ticked:
  "farm_pool (s\<lparr>farm_pools := map (\<lambda>(pid, p). (pid, farm_tick n (g pid) p)) (farm_pools s)\<rparr>) q =
     map_option (farm_tick n (g q)) (farm_pool s q)"
proof -
  have "map_of (map (\<lambda>(pid, p). (pid, farm_tick n (g pid) p)) ps) q = map_option (farm_tick n (g q)) (map_of ps q)" for ps
    by (induction ps) auto
  then show ?thesis by (simp add: farm_pool_def)
qed

lemma hook_keeps:
  assumes "farm_sound C s" and "farm_small (farm_on_initialize C s)"
  shows "farm_sound C (farm_on_initialize C s)"
proof -
  let ?s1 = "s\<lparr>farm_pools := map (\<lambda>(pid, p). (pid, farm_tick (farm_block s) (boost_basic_rewards s pid) p)) (farm_pools s)\<rparr>"
  have a: "aside ?s1 (farm_on_initialize C s)"
  proof -
    have "aside ?s1 (end_boost_round_inner ?s1)" by (simp add: aside_def end_boost_round_inner_def emit_farm_def)
    then have "aside ?s1 (auto_start_boost_round C (end_boost_round_inner ?s1))"
      using auto_start_aside aside_trans by blast
    moreover have "aside ?s1 ?s1" by (simp add: aside_def)
    ultimately show ?thesis by (simp only: farm_on_initialize_def Let_def split: if_split) blast
  qed
  have "farm_books C q ?s1" for q
  proof -
    have b: "farm_books C q s" and u: "unsaturated_at q ?s1"
      using assms a by (simp_all add: farm_sound_def farm_small_def unsaturated_at_def aside_def farm_pool_def)
    then show ?thesis
      by (auto simp: farm_books_def unsaturated_at_def farm_pool_ticked farm_tick_books split: option.splits)
  qed
  moreover have "pids_sound ?s1" using assms(1) by (simp add: farm_sound_def pids_sound_def)
  ultimately show ?thesis using aside_sound [OF a] by (simp add: farm_sound_def)
qed

end
