(* ===== verification/Farm_Demo.thy ===== *)
theory Farm_Demo
  imports Farm_Governance
begin

text \<open>
  Runs of the farming pallet on the exact ledger, for the witnesses: a pool of one token with a gauge pool. Account 1
  and account 2 farm; account 2 holds escrow with a balance of 100. Account 20 keeps the tokens of pool 0,
  account 30 pays its rewards.
\<close>

section \<open>Parameters\<close>

abbreviation crop :: currency where "crop \<equiv> Token2 0"

definition std_farm :: "balances farm_config" where
  "std_farm = \<lparr>fm_currencies = std_currency, fm_total_balance = (\<lambda>l. l), fm_minimum_balance = (\<lambda>_. 0),
     fm_control_origin = (\<lambda>o1. o1 = Root), fm_treasury = 90, keeper_account = (\<lambda>pid. 20 + pid),
     issuer_account = (\<lambda>pid. 30 + pid), boost_account = 91, bb_balance = (\<lambda>l a. Inr (if a = 2 then 100 else 0)),
     bb_get_rewards = (\<lambda>gid a x l. Inr l), block_to_balance = (\<lambda>n. n), whitelist_limit = 10,
     perbill_mul = (\<lambda>p n. p * n div 1000000000),
     perbill_reciprocal_mul = (\<lambda>p n. if p = 0 then u128_max else min u128_max (n * 1000000000 div p)),
     perbill_from_rational = (\<lambda>a b. if b \<le> a then 1000000000 else a * 1000000000 div b),
     percent_from_rational = (\<lambda>a b. if b \<le> a then 100 else a * 100 div b),
     percent_mul = (\<lambda>p n. p * n div 100), percent_mul_floor = (\<lambda>p n. p * n div 100),
     percent_add = (\<lambda>p q. if p + q \<le> 100 then Some (p + q) else None),
     pool_id_hash = (\<lambda>_. 0), account_hash = (\<lambda>_. 0)\<rparr>"

lemma std_farm_simps:
  "fm_currencies std_farm = std_currency" "fm_total_balance std_farm = (\<lambda>l. l)"
  "fm_minimum_balance std_farm = (\<lambda>_. 0)" "fm_control_origin std_farm = (\<lambda>o1. o1 = Root)"
  "fm_treasury std_farm = 90" "keeper_account std_farm pid = 20 + pid" "issuer_account std_farm pid = 30 + pid"
  "boost_account std_farm = 91" "bb_balance std_farm = (\<lambda>l a. Inr (if a = 2 then 100 else 0))"
  "block_to_balance std_farm = (\<lambda>n. n)" "whitelist_limit std_farm = 10"
  "perbill_mul std_farm = (\<lambda>p n. p * n div 1000000000)"
  "perbill_reciprocal_mul std_farm = (\<lambda>p n. if p = 0 then u128_max else min u128_max (n * 1000000000 div p))"
  "percent_from_rational std_farm = (\<lambda>a b. if b \<le> a then 100 else a * 100 div b)"
  "percent_mul std_farm = (\<lambda>p n. p * n div 100)" "percent_mul_floor std_farm = (\<lambda>p n. p * n div 100)"
  "percent_add std_farm = (\<lambda>p q. if p + q \<le> 100 then Some (p + q) else None)"
  "pool_id_hash std_farm = (\<lambda>_. 0)" "account_hash std_farm = (\<lambda>_. 0)"
  by (simp_all add: std_farm_def)

section \<open>Runs\<close>

definition farm_play ::
  "(origin \<times> farm_call) list \<Rightarrow> balances farm_state \<Rightarrow> balances farm_state farm_result" where
  "farm_play = rfold (\<lambda>(o1, call). farm_dispatch std_farm o1 call)"

definition farm_cash :: balances where
  "farm_cash = (\<lambda>_ _. 0)(crop := (\<lambda>_. 0)(1 := 5000, 2 := 100))"

text \<open>The root opens a pool that pays 60 tokens a block; both accounts deposit.\<close>

definition sowing :: "(origin \<times> farm_call) list" where
  "sowing = [
     (Root, CreateFarmingPool [(crop, 1000000000)] [(crop, 60)] (Some []) 0 0 7 0 5),
     (Signed 1, Charge 0 [(crop, 3000)]),
     (Signed 1, FarmDeposit 0 1000),
     (Signed 2, FarmDeposit 0 10)]"

definition crop_pool :: pool_info where
  "crop_pool = \<lparr>tokens_proportion = [(crop, 1000000000)], basic_token = (crop, 1000000000), total_shares = 1010,
     basic_rewards = [(crop, 60)], pool_rewards = [], farm_pool_state = Charged, keeper = 20, reward_issuer = 30,
     gauge = Some 10000000, block_startup = None, min_deposit_to_start = 0, after_block_to_start = 0,
     withdraw_limit_time = 7, claim_limit_time = 0, withdraw_limit_count = 5\<rparr>"

definition crop_gauge :: pool_info where
  "crop_gauge = \<lparr>tokens_proportion = [(crop, 1000000000)], basic_token = (crop, 1000000000), total_shares = 1000,
     basic_rewards = [], pool_rewards = [], farm_pool_state = Ongoing, keeper = 20, reward_issuer = 10000030,
     gauge = None, block_startup = None, min_deposit_to_start = 0, after_block_to_start = 0,
     withdraw_limit_time = 0, claim_limit_time = 0, withdraw_limit_count = 0\<rparr>"

definition held_share :: "account \<Rightarrow> nat \<Rightarrow> (nat \<times> nat) list \<Rightarrow> share_info" where
  "held_share who n l =
     \<lparr>si_who = who, si_share = n, si_withdrawn = [], si_claim_last_block = 0, si_withdraw_list = l\<rparr>"

definition sown :: "balances farm_state" where
  "sown = (initial_farm ((\<lambda>_ _. 0)(crop := (\<lambda>_. 0)(1 := 1000, 2 := 90, 20 := 1010, 30 := 3000))))\<lparr>
     pool_next_id := 1, farm_pools := [(0, crop_pool), (10000000, crop_gauge)],
     farm_shares := (\<lambda>_. [])(0 := [(1, held_share 1 1000 []), (2, held_share 2 10 [])],
       10000000 := [(2, held_share 2 1000 [])]),
     user_farming_pool := (\<lambda>_. [])(Suc 0 := [0], 2 := [0]),
     farm_events := [PoolDeposited 2 0 10, PoolDeposited 1 0 1000, PoolCharged 1 0 [(crop, 3000)],
       FarmingPoolCreated 0]\<rparr>"

lemmas farm_unfold = farm_play_def create_farming_pool_def farm_control_def create_gauge_pool_def new_pool_def
  new_gauge_def bt_collect_def bt_put_def sm_before_def charge_def the_farm_pool_def farm_pool_def transfer_all_def
  farm_transfer_def farm_deposit_def add_share_def share_or_new_def share_of_def put_pool_def put_share_def
  inflate_pool_def withdrawn_inflation_def weigh_gauge_def bb_balance_of_def update_gauge_share_def join_pool_def
  emit_farm_def std_farm_simps std_currency_def std_transfer_def add32_def gauge_base_id_def new_share_def
  saturating_add_def saturating_sub_def checked_add_def checked_mul_def chk_def u128_max_def u32_max_def ensure_def
  Let_def

lemmas farm_states = initial_farm_def farm_cash_def crop_pool_def crop_gauge_def held_share_def

lemma sown_run: "farm_play sowing (initial_farm farm_cash) = Inr sown"
  by (simp add: sowing_def sown_def farm_unfold farm_states fun_eq_iff)

lemmas harvest_unfold = farm_withdraw_def remove_share_def claim_rewards_def claim_each.simps claim_one_def due_reward_def remove_each.simps
  farm_withdraw_claim_def process_withdraw_list_def pay_tokens_def payee_def refresh_inner_def drop_share_def
  sm_del_def

text \<open>Account 2 withdraws half of its deposit and asks for the withdrawals of the gauge pool.\<close>

definition drained :: "balances farm_state" where
  "drained = projr (farm_play [(Signed 2, FarmWithdraw 0 (Some 5)), (Signed 2, FarmWithdrawClaim 10000000)] sown)"

lemma drained_run:
  "farm_play [(Signed 2, FarmWithdraw 0 (Some 5)), (Signed 2, FarmWithdrawClaim 10000000)] sown = Inr drained"
  "farm_ledger drained crop 2 = 590" "farm_ledger drained crop 20 = 510"
  by (simp_all add: drained_def sown_def farm_unfold harvest_unfold farm_states)

end
