(* ===== verification/Farm_Reach.thy ===== *)
theory Farm_Reach
  imports Farm_Runs Farm_Demo
begin

text \<open>
  Reachable states of the farming pallet. The two calls that tear down a pool, \<open>force_retire_pool\<close> and \<open>reset_pool\<close>,
  are left out: they store totals that do not belong to the entries that stay.
\<close>

section \<open>Calls of the control origin\<close>

lemma put_fresh_keeps:
  assumes "farm_pool s r = None" and "farm_books C r s" and "farm_books C q s"
    and "pool_rewards p = []"
  shows "farm_books C q (put_pool C r p s)"
proof (cases "q = r")
  case True
  then show ?thesis using assms
    by (simp add: farm_books_def pool_books_def sm_invar_def spent_def earned_def)
next
  case False
  then have "untouched q s (put_pool C r p s)" by (simp add: untouched_def)
  then show ?thesis using assms(3) books_untouched by blast
qed

lemma put_same_keeps:
  assumes "farm_pool s r = Some p" and "farm_books C q s"
    and "total_shares p' = total_shares p" and "pool_rewards p' = pool_rewards p"
  shows "farm_books C q (put_pool C r p' s)"
  using assms by (auto simp: farm_books_def pool_books_def split: option.splits)

lemma gauge_pool_keeps:
  assumes "create_gauge_pool C pid p rewards s = (p', t)" and "\<And>q. farm_books C q s"
  shows "farm_books C q t" and "farm_pool t pid = farm_pool s pid" and "total_shares p' = total_shares p"
    and "pool_rewards p' = pool_rewards p" and "user_farming_pool t = user_farming_pool s"
proof -
  have g: "p' = p\<lparr>gauge := Some (gauge_id pid)\<rparr>"
    and t: "t = put_pool C (gauge_id pid) (case farm_pool s (gauge_id pid) of
         Some g \<Rightarrow> g\<lparr>basic_rewards := rewards\<rparr>
       | None \<Rightarrow> new_gauge (keeper p) (issuer_account C (gauge_id pid)) (tokens_proportion p) (basic_token p) rewards) s"
    using assms(1) by (simp_all add: create_gauge_pool_def Let_def)
  show "farm_books C q t"
  proof (cases "farm_pool s (gauge_id pid)")
    case None
    then show ?thesis using put_fresh_keeps [OF None assms(2) assms(2)] by (simp add: t new_gauge_def new_pool_def)
  next
    case (Some x)
    then show ?thesis using put_same_keeps [OF Some assms(2)] by (simp add: t)
  qed
  show "farm_pool t pid = farm_pool s pid" using gauge_id_neq [of pid] by (simp add: t)
  show "total_shares p' = total_shares p" "pool_rewards p' = pool_rewards p" by (simp_all add: g)
  show "user_farming_pool t = user_farming_pool s" by (simp add: t put_pool_def)
qed

lemma create_pool_keeps:
  assumes "create_farming_pool C o1 tp r g m a w c n (s :: 'a farm_state) = Inr t" and "farm_sound C s"
    and "farm_pool s (pool_next_id s) = None"
  shows "farm_sound C t"
proof -
  let ?pid = "pool_next_id s"
  obtain basic where tp: "(case tp of [] \<Rightarrow> Inl (Module NotNullable) | x # _ \<Rightarrow> Inr x) = (Inr basic :: (currency \<times> nat) farm_result)"
    using assms(1) by (auto simp: create_farming_pool_def result_simps Let_def)
  define p where "p = new_pool (keeper_account C ?pid) (issuer_account C ?pid) (bt_collect tp) basic (bt_collect r)
    None m a w c n"
  obtain p' s1 where s1: "(case g of None \<Rightarrow> (p, s) | Some x \<Rightarrow> create_gauge_pool C ?pid p (bt_collect x) s) = (p', s1)"
    by fastforce
  have p: "pool_rewards p = []" by (simp add: p_def new_pool_def)
  have "(case (case g of None \<Rightarrow> (p, s) | Some x \<Rightarrow> create_gauge_pool C ?pid p (bt_collect x) s) of (p', s1) \<Rightarrow>
      rbind (ok_or (chk u32_max (?pid + 1)) (Arithmetic Overflow)) (\<lambda>next.
      Inr (emit_farm (FarmingPoolCreated ?pid) ((put_pool C ?pid p' s1)\<lparr>pool_next_id := next\<rparr>)))) =
      (Inr t :: 'a farm_state farm_result)"
    using assms(1) tp unfolding p_def by (auto simp: create_farming_pool_def Let_def result_simps)
  then obtain k where t: "t = emit_farm (FarmingPoolCreated ?pid) ((put_pool C ?pid p' s1)\<lparr>pool_next_id := k\<rparr>)"
    by (auto simp: s1 result_simps)
  have b: "farm_books C q s" for q using assms(2) by (simp add: farm_sound_def)
  have s1': "farm_books C q s1" "farm_pool s1 ?pid = None" "pool_rewards p' = []"
    "user_farming_pool s1 = user_farming_pool s" for q
    using s1 b p assms(3) gauge_pool_keeps [of C ?pid p _ s p' s1] by (auto split: option.splits)
  have "aside (put_pool C ?pid p' s1) t" by (simp add: t aside_def emit_farm_def)
  moreover have "farm_sound C (put_pool C ?pid p' s1)"
    using put_fresh_keeps [OF s1'(2) s1'(1) s1'(1) s1'(3)] assms(2) s1'(4)
    by (simp add: farm_sound_def pids_sound_def put_pool_def)
  ultimately show ?thesis using aside_sound by blast
qed

lemma edit_pool_keeps:
  assumes "edit_pool C o1 pid r w c g n (s :: 'a farm_state) = Inr t" and "farm_sound C s"
  shows "farm_sound C t"
proof -
  obtain p where p: "farm_pool s pid = Some p" using assms(1) by (auto simp: edit_pool_def the_farm_pool_def result_simps)
  define p1 where "p1 = p\<lparr>basic_rewards := or_keep (map_option bt_collect r) (basic_rewards p),
                withdraw_limit_time := or_keep w (withdraw_limit_time p),
                claim_limit_time := or_keep c (claim_limit_time p),
                withdraw_limit_count := or_keep n (withdraw_limit_count p)\<rparr>"
  have p1: "total_shares p1 = total_shares p" "pool_rewards p1 = pool_rewards p" by (simp_all add: p1_def)
  obtain p2 s1 where s1: "(case g of None \<Rightarrow> (p1, s)
      | Some x \<Rightarrow> create_gauge_pool C pid p1 (bt_collect x) (drop_gauge_info (gauge p1) s)) = (p2, s1)"
    by fastforce
  have t: "t = emit_farm (FarmingPoolEdited pid) (put_pool C pid p2 s1)"
  proof -
    have "(case (case g of None \<Rightarrow> (p1, s)
        | Some x \<Rightarrow> create_gauge_pool C pid p1 (bt_collect x) (drop_gauge_info (gauge p1) s)) of
      (p2, s1) \<Rightarrow> Inr (emit_farm (FarmingPoolEdited pid) (put_pool C pid p2 s1))) = (Inr t :: 'a farm_state farm_result)"
      using assms(1) p unfolding p1_def by (auto simp: edit_pool_def the_farm_pool_def Let_def result_simps)
    then show ?thesis by (simp add: s1)
  qed
  have d: "aside s (drop_gauge_info x s)" for x by (simp add: drop_gauge_info_def aside_def split: option.split)
  then have b: "farm_books C q s" "farm_books C q (drop_gauge_info x s)" for q x
    using assms(2) aside_sound [OF d, of C x] by (auto simp: farm_sound_def)
  have d': "farm_pool (drop_gauge_info x s) q = farm_pool s q" "user_farming_pool (drop_gauge_info x s) = user_farming_pool s"
    for q x using d by (simp_all add: aside_def farm_pool_def)
  have s1': "farm_books C q s1" "farm_pool s1 pid = Some p" "total_shares p2 = total_shares p"
    "pool_rewards p2 = pool_rewards p" "user_farming_pool s1 = user_farming_pool s" for q
    using s1 b p p1 d' gauge_pool_keeps [of C pid p1 _ "drop_gauge_info (gauge p1) s" p2 s1] by (auto split: option.splits)
  have "aside (put_pool C pid p2 s1) t" by (simp add: t aside_def emit_farm_def)
  moreover have "farm_sound C (put_pool C pid p2 s1)"
    using put_same_keeps [OF s1'(2) s1'(1) s1'(3,4)] assms(2) s1'(5)
    by (simp add: farm_sound_def pids_sound_def put_pool_def)
  ultimately show ?thesis using aside_sound by blast
qed


lemma kill_pool_keeps:
  assumes "kill_pool C o1 pid s = Inr t" and "farm_sound C s"
  shows "farm_sound C t"
proof -
  have t: "t = emit_farm (FarmingPoolKilled pid)
      (s\<lparr>farm_shares := (farm_shares s)(pid := []), farm_pools := sm_del pid (farm_pools s)\<rparr>)"
    using assms(1) by (auto simp: kill_pool_def result_simps)
  have "farm_books C q t" for q
  proof -
    have "farm_pool t q = (if q = pid then None else farm_pool s q)"
      "farm_shares t q = (if q = pid then [] else farm_shares s q)"
      by (simp_all add: t farm_pool_def emit_farm_def)
    then show ?thesis
      using books_untouched [of q s t C] assms(2)
      by (cases "q = pid") (simp add: farm_books_def, simp add: untouched_def farm_sound_def)
  qed
  moreover have "pids_sound t" using assms(2) by (simp add: t farm_sound_def pids_sound_def emit_farm_def)
  ultimately show ?thesis by (simp add: farm_sound_def)
qed

lemma close_pool_keeps:
  assumes "close_pool C o1 pid s = Inr t" and "farm_sound C s"
  shows "farm_sound C t"
proof -
  obtain p where p: "farm_pool s pid = Some p"
    and t: "t = emit_farm (FarmingPoolClosed pid) (put_pool C pid (p\<lparr>farm_pool_state := Dead\<rparr>) s)"
    using assms(1) by (auto simp: close_pool_def the_farm_pool_def result_simps)
  have "farm_books C q t" for q using put_same_keeps [OF p] assms(2) by (simp add: t farm_sound_def)
  moreover have "pids_sound t" using assms(2) by (simp add: t farm_sound_def pids_sound_def emit_farm_def put_pool_def)
  ultimately show ?thesis by (simp add: farm_sound_def)
qed

section \<open>Calls that leave pools and shares alone\<close>

lemma rfold_aside:
  assumes "\<And>x t u. f x t = Inr u \<Longrightarrow> aside t u" and "rfold f xs s = Inr t"
  shows "aside s t"
  using assms(2)
proof (induction xs arbitrary: s)
  case (Cons x xs)
  then obtain u where "f x s = Inr u" "rfold f xs u = Inr t" by (auto simp: result_simps)
  then show ?case using assms(1) Cons.IH aside_trans by blast
qed (simp add: aside_def)

lemma start_round_aside:
  assumes "start_boost_round_inner C len (s :: 'a farm_state) = Inr t"
  shows "aside s t"
proof -
  define b where "b = (boost_pool s)\<lparr>start_round := farm_block s, end_round := sat_add32 (farm_block s) len,
    boost_votes := 0, round_length := len\<rparr>"
  obtain s1 where s1: "aside s s1" and
    r: "(case send_boost_rewards C b s1 of
       (Some e, _) \<Rightarrow> Inl e
     | (None, s2) \<Rightarrow> Inr (emit_farm (RoundStart len) (s2\<lparr>boost_pool := b, voting_pools := []\<rparr>))) =
       (Inr t :: 'a farm_state farm_result)"
  proof (cases "next_whitelist s = []")
    case True
    have "aside s s" by (simp add: aside_def)
    then show thesis
      using assms True unfolding start_boost_round_inner_def b_def [symmetric] Let_def
      by (auto simp: result_simps intro: that)
  next
    case False
    let ?s1 = "s\<lparr>boost_whitelist := fold (\<lambda>(pid, u). sm_put (pool_id_hash C) pid u) (next_whitelist s) [],
      next_whitelist := []\<rparr>"
    have "aside s ?s1" by (simp add: aside_def)
    then show thesis
      using assms False unfolding start_boost_round_inner_def b_def [symmetric] Let_def
      by (auto simp: result_simps intro: that)
  qed
  obtain e s2 where s2: "send_boost_rewards C b s1 = (e, s2)" by (cases "send_boost_rewards C b s1")
  have "aside s1 s2" using send_boost_aside [of s1 C b] s2 by simp
  moreover have "aside s2 t" using r by (cases e) (auto simp: s2 aside_def emit_farm_def)
  ultimately show ?thesis using s1 aside_trans by blast
qed

lemma gauge_claim_aside:
  assumes "force_gauge_claim C o1 gid (s :: 'a farm_state) = Inr t"
  shows "aside s t"
proof -
  obtain s1 e f where r: "rfold f (take (retire_limit s) (map (\<lambda>(_, g). gi_who g) (gauge_infos s gid))) s = Inr s1"
    and f: "f = (\<lambda>who s. rbind (the_farm_pool s gid) (\<lambda>p.
         rbind (ok_or (share_of s gid who) (Module ShareInfoNotExists)) (\<lambda>i.
         case bb_get_rewards C gid who (si_share i, total_shares p) (farm_ledger s) of
           Inl e \<Rightarrow> Inl (External e) | Inr l \<Rightarrow> Inr (s\<lparr>farm_ledger := l\<rparr>))))"
    and t: "t = emit_farm e s1"
    using assms by (auto simp: force_gauge_claim_def result_simps Let_def)
  have "aside x y" if fy: "f who x = Inr y" for who x y
  proof -
    obtain p :: pool_info and i :: share_info where "(case bb_get_rewards C gid who (si_share i, total_shares p) (farm_ledger x) of
           Inl e \<Rightarrow> Inl (External e) | Inr l \<Rightarrow> Inr (x\<lparr>farm_ledger := l\<rparr>)) = (Inr y :: 'a farm_state farm_result)"
      using fy unfolding f by (auto simp: result_simps intro: that)
    then show ?thesis
      by (cases "bb_get_rewards C gid who (si_share i, total_shares p) (farm_ledger x)") (auto simp: aside_def)
  qed
  then have "aside s s1" using rfold_aside r by blast
  then show ?thesis by (simp add: t aside_def emit_farm_def)
qed

lemma whitelist_aside: "aside s (fold (whitelist_one C) pids s)"
proof (induction pids arbitrary: s)
  case (Cons x xs)
  then show ?case using aside_trans [of s "whitelist_one C x s"] by (simp add: aside_def whitelist_one_def)
qed (simp add: aside_def)

lemma vote_aside: "vote_inner C who vs s = Inr t \<Longrightarrow> aside s t"
  by (auto simp: vote_inner_def result_simps aside_def split: prod.splits)


section \<open>Reachable states\<close>

fun tame_call :: "farm_call \<Rightarrow> 'l farm_state \<Rightarrow> bool" where
  "tame_call (FarmDeposit pid n) s = (pid < 2 ^ 32)"
| "tame_call (CreateFarmingPool _ _ _ _ _ _ _ _) s = (farm_pool s (pool_next_id s) = None)"
| "tame_call (ForceRetirePool _) s = False"
| "tame_call (ResetPool _ _ _ _ _ _ _ _) s = False"
| "tame_call _ s = True"

inductive farm_reach :: "'l farm_config \<Rightarrow> 'l farm_state \<Rightarrow> bool" for C where
  initially: "farm_reach C (initial_farm l)"
| called: "farm_reach C s \<Longrightarrow> tame_call call s \<Longrightarrow> farm_dispatch C o1 call s = Inr t \<Longrightarrow> farm_small t \<Longrightarrow> farm_reach C t"
| new_block: "farm_reach C s \<Longrightarrow> farm_small (farm_on_initialize C (s\<lparr>farm_block := n\<rparr>)) \<Longrightarrow>
    farm_reach C (farm_on_initialize C (s\<lparr>farm_block := n\<rparr>))"
| outside: "farm_reach C s \<Longrightarrow> farm_reach C (s\<lparr>farm_ledger := l\<rparr>)"

lemma join_pool_pids:
  assumes "join_pool who pid s = Inr t" and "pid < 2 ^ 32" and "pids_sound s"
  shows "pids_sound t"
proof (cases "pid \<in> set (user_farming_pool s who)")
  case True
  then show ?thesis using assms by (simp add: join_pool_def)
next
  case False
  then have "t = s\<lparr>user_farming_pool := (user_farming_pool s)(who := user_farming_pool s who @ [pid])\<rparr>"
    using assms(1) by (auto simp: join_pool_def Let_def result_simps)
  then show ?thesis using False assms(2,3) by (auto simp: pids_sound_def)
qed

lemma deposit_sound:
  assumes "farm_deposit C o1 pid n s = Inr t" and "farm_sound C s" and "farm_small t" and "pid < 2 ^ 32"
  shows "farm_sound C t"
proof -
  obtain who p l s3 s4 where w: "weigh_gauge C who (gauge_id pid) n True (add_share C who pid p n (s\<lparr>farm_ledger := l\<rparr>)) = Inr s3"
    and j: "join_pool who pid s3 = Inr s4" and t: "t = emit_farm (PoolDeposited who pid n) s4"
    using assms(1) by (auto simp: farm_deposit_def result_simps Let_def dest!: transfer_all_result)
  have "same_pids (s\<lparr>farm_ledger := l\<rparr>) s3"
    using same_pids_weigh [OF w] same_pids_ops(1) [of "s\<lparr>farm_ledger := l\<rparr>" C who pid p n] by (simp add: same_pids_def)
  then have "pids_sound s3" using assms(2) by (simp add: farm_sound_def same_pids_def pids_sound_def)
  then have "pids_sound s4" using join_pool_pids [OF j assms(4)] by blast
  then have "pids_sound t" by (simp add: t pids_sound_def emit_farm_def)
  then show ?thesis using deposit_keeps [OF assms(1)] assms(2,3) by (simp add: farm_sound_def farm_small_def)
qed


lemma plain_sound:
  assumes "\<And>q. farm_books C q s \<Longrightarrow> unsaturated_at q t \<Longrightarrow> farm_books C q t" and "same_pids s t" and "farm_sound C s"
    and "farm_small t"
  shows "farm_sound C t"
  using assms pids_same by (auto simp: farm_sound_def farm_small_def)

lemma same_pids_trans: "same_pids s t \<Longrightarrow> same_pids t u \<Longrightarrow> same_pids s u"
  by (simp add: same_pids_def)

lemma same_pids_emit: "same_pids s (emit_farm e t) = same_pids s t"
  by (simp add: same_pids_def emit_farm_def)

lemma withdraw_sound:
  assumes "farm_withdraw C o1 pid n s = Inr t" and "farm_sound C s" and "farm_small t"
  shows "farm_sound C t"
proof (rule plain_sound [OF withdraw_keeps [OF assms(1)] _ assms(2,3)])
  obtain who x s1 m s2 where r: "remove_share C who pid n x s = Inr s1"
    and w: "weigh_gauge C who (gauge_id pid) m False s1 = Inr s2" and t: "t = emit_farm (PoolWithdrawn who pid n) s2"
    using assms(1) by (auto simp: farm_withdraw_def result_simps)
  show "same_pids s t"
    using same_pids_trans [OF same_pids_ops(3) [OF r] same_pids_weigh [OF w]] by (simp add: t same_pids_emit)
qed

lemma refresh_inner_pids:
  assumes "refresh_inner C who r s = Inr t" and "pids_sound s"
  shows "pids_sound t"
proof (cases "share_of s r who")
  case None
  then show ?thesis using assms by (auto simp: refresh_inner_def pids_sound_def drop_share_def split: if_splits)
next
  case (Some i)
  then show ?thesis using assms pids_same [OF same_pids_weigh] by (fastforce simp: refresh_inner_def)
qed

lemma claim_sound:
  assumes "farm_claim C o1 pid s = Inr t" and "farm_sound C s" and "farm_small t"
  shows "farm_sound C t"
proof -
  obtain who p s1 s2 s3 s4 where "claim_rewards C who pid s = Inr s1" "claim_rewards C who (gauge_id pid) s1 = Inr s2"
    "process_withdraw_list C who pid p True s2 = Inr s3" and r: "refresh_inner C who pid s3 = Inr s4"
    and t: "t = emit_farm (PoolClaimed who pid) s4"
    using assms(1) by (auto simp: farm_claim_def result_simps)
  then have "same_pids s s3" using same_pids_ops(2,4) same_pids_trans by metis
  then have "pids_sound s4" using refresh_inner_pids [OF r] assms(2) pids_same by (auto simp: farm_sound_def)
  then have "pids_sound t" by (simp add: t pids_sound_def emit_farm_def)
  then show ?thesis using claim_call_keeps [OF assms(1)] assms(2,3) by (simp add: farm_sound_def farm_small_def)
qed

lemma withdraw_claim_sound:
  assumes "farm_withdraw_claim C o1 pid s = Inr t" and "farm_sound C s" and "farm_small t"
  shows "farm_sound C t"
proof -
  obtain who p s1 s2 where p: "process_withdraw_list C who pid p False s = Inr s1"
    and r: "refresh_inner C who pid s1 = Inr s2" and t: "t = emit_farm (WithdrawClaimed who pid) s2"
    using assms(1) by (auto simp: farm_withdraw_claim_def result_simps)
  have "pids_sound s2" using refresh_inner_pids [OF r] same_pids_ops(4) [OF p] assms(2) pids_same by (auto simp: farm_sound_def)
  then have "pids_sound t" by (simp add: t pids_sound_def emit_farm_def)
  then show ?thesis using withdraw_claim_keeps [OF assms(1)] assms(2,3) by (simp add: farm_sound_def farm_small_def)
qed

lemma charge_sound:
  assumes "charge C o1 pid r s = Inr t" and "farm_sound C s"
  shows "farm_sound C t"
proof -
  obtain who p l where p: "farm_pool s pid = Some p"
    and t: "t = emit_farm (PoolCharged who pid r)
      (put_pool C pid (if farm_pool_state p = UnCharged then p\<lparr>farm_pool_state := Charged\<rparr> else p) (s\<lparr>farm_ledger := l\<rparr>))"
    using assms(1) by (auto simp: charge_def the_farm_pool_def result_simps dest!: transfer_all_result)
  have "farm_books C q t" for q
    using put_same_keeps [of "s\<lparr>farm_ledger := l\<rparr>" pid p C q] p assms(2) by (simp add: t farm_sound_def)
  moreover have "pids_sound t" using assms(2) by (simp add: t farm_sound_def pids_sound_def emit_farm_def put_pool_def)
  ultimately show ?thesis by (simp add: farm_sound_def)
qed

lemma aside_call_sound:
  "farm_vote C o1 vs s = Inr t \<Longrightarrow> aside s t" "charge_boost C o1 r s = Inr t \<Longrightarrow> aside s t"
  "set_retire_limit C o1 n s = Inr t \<Longrightarrow> aside s t" "add_boost_pool_whitelist C o1 ps s = Inr t \<Longrightarrow> aside s t"
  "set_next_round_whitelist C o1 ps s = Inr t \<Longrightarrow> aside s t" "start_boost_round C o1 n s = Inr t \<Longrightarrow> aside s t"
  "end_boost_round C o1 s = Inr t \<Longrightarrow> aside s t"
proof -
  have e: "aside s (emit_farm v t)" if "aside s t" for s t :: "'a farm_state" and v
    using that by (simp add: aside_def emit_farm_def)
  show "farm_vote C o1 vs s = Inr t \<Longrightarrow> aside s t"
    by (auto simp: farm_vote_def result_simps intro: e dest!: vote_aside)
  show "charge_boost C o1 r s = Inr t \<Longrightarrow> aside s t"
    by (auto simp: charge_boost_def result_simps intro!: e dest!: transfer_all_result) (simp add: aside_def)
  show "set_retire_limit C o1 n s = Inr t \<Longrightarrow> aside s t"
    by (auto simp: set_retire_limit_def result_simps aside_def emit_farm_def)
  show "add_boost_pool_whitelist C o1 ps s = Inr t \<Longrightarrow> aside s t"
    by (auto simp: add_boost_pool_whitelist_def result_simps whitelist_aside)
  show "set_next_round_whitelist C o1 ps s = Inr t \<Longrightarrow> aside s t"
    by (auto simp: set_next_round_whitelist_def result_simps aside_def)
  show "start_boost_round C o1 n s = Inr t \<Longrightarrow> aside s t"
    by (auto simp: start_boost_round_def result_simps dest: start_round_aside)
  show "end_boost_round C o1 s = Inr t \<Longrightarrow> aside s t"
    by (auto simp: end_boost_round_def result_simps end_boost_round_inner_def aside_def emit_farm_def)
qed

lemma call_sound:
  assumes "farm_sound C s" and "tame_call call s" and "farm_dispatch C o1 call s = Inr t" and "farm_small t"
  shows "farm_sound C t"
  using assms
  by (cases call)
    (auto intro: create_pool_keeps charge_sound deposit_sound withdraw_sound claim_sound withdraw_claim_sound
      close_pool_keeps kill_pool_keeps edit_pool_keeps refresh_keeps
      dest!: aside_call_sound gauge_claim_aside dest: aside_sound)

lemma reach_sound: "farm_reach C s \<Longrightarrow> farm_sound C s"
proof (induction rule: farm_reach.induct)
  case (initially l)
  then show ?case by (simp add: farm_sound_def farm_books_def pids_sound_def initial_farm_def farm_pool_def)
next
  case (called s call o1 t)
  then show ?case using call_sound by blast
next
  case (new_block s n)
  have "aside s (s\<lparr>farm_block := n\<rparr>)" by (simp add: aside_def)
  then have "farm_sound C (s\<lparr>farm_block := n\<rparr>)" using new_block.IH aside_sound by blast
  then show ?case using new_block.hyps(2) by (rule hook_keeps)
next
  case (outside s l)
  have "aside s (s\<lparr>farm_ledger := l\<rparr>)" by (simp add: aside_def)
  then show ?case using outside.IH aside_sound by blast
qed

lemma reach_books:
  assumes "farm_reach C s" and "farm_pool s pid = Some p"
  shows "pool_books (account_hash C) p (farm_shares s pid)"
proof -
  have "farm_books C pid s" using reach_sound [OF assms(1)] by (simp add: farm_sound_def)
  then show ?thesis using assms(2) by (simp add: farm_books_def)
qed

end
