(* ===== verification/Farm_Claims.thy ===== *)
theory Farm_Claims
  imports Farm_Reach
begin

text \<open>
  What a claim pays, on a ledger that keeps the laws of \<open>multi_currency\<close>; and what new shares do to the rewards of
  those who were there before.
\<close>

section \<open>Claims\<close>

definition due :: "nat \<Rightarrow> nat \<Rightarrow> (currency \<times> nat \<times> nat) list \<Rightarrow> (currency \<times> nat) list \<Rightarrow> currency \<Rightarrow> nat" where
  "due n k rs wd c = min (portion n (earned rs c) k - or_zero (map_of wd c)) (earned rs c - spent rs c)"

text \<open>A claim pays the dues out of the issuer's account, to the claimer or to the treasury.\<close>

definition pays_dues ::
  "'l farm_config \<Rightarrow> account \<Rightarrow> account \<Rightarrow> (currency \<Rightarrow> nat) \<Rightarrow> 'l \<Rightarrow> 'l \<Rightarrow> bool" where
  "pays_dues C who iss d l l' \<longleftrightarrow>
     (\<forall>c. mc_free (fm_currencies C) l' c iss + d c = mc_free (fm_currencies C) l c iss \<and>
        (who = fm_treasury C \<longrightarrow> mc_free (fm_currencies C) l' c who = mc_free (fm_currencies C) l c who + d c) \<and>
        (who \<noteq> fm_treasury C \<longrightarrow>
          mc_free (fm_currencies C) l' c who + mc_free (fm_currencies C) l' c (fm_treasury C) =
          mc_free (fm_currencies C) l c who + mc_free (fm_currencies C) l c (fm_treasury C) + d c) \<and>
        (\<forall>x. x \<notin> {iss, who, fm_treasury C} \<longrightarrow> mc_free (fm_currencies C) l' c x = mc_free (fm_currencies C) l c x))"

lemma payee_cases: "payee C who c n l = Inr to \<Longrightarrow> to = who \<or> to = fm_treasury C"
  by (auto simp: payee_def result_simps split: if_splits)

context multi_currency
begin

lemma farm_payment:
  assumes "farm_transfer C c iss to n l = Inr l'" and "M = fm_currencies C" and "to = who \<or> to = fm_treasury C"
    and "iss \<noteq> who" and "iss \<noteq> fm_treasury C"
  shows "pays_dues C who iss (\<lambda>d. if d = c then n else 0) l l'"
proof -
  have t: "mc_transfer M c iss to n l = Inr l'" using assms(1,2) by (auto simp: farm_transfer_def split: sum.splits)
  have f: "mc_free M l' d x + paid c iss n d x = mc_free M l d x + paid c to n d x" for d x
    by (rule flow [OF t])
  show ?thesis unfolding pays_dues_def assms(2) [symmetric]
  proof (intro allI conjI impI)
    fix d
    show "mc_free M l' d iss + (if d = c then n else 0) = mc_free M l d iss"
      using f [of d iss] assms(3-5) by (auto simp: paid_def split: if_splits)
    show "mc_free M l' d who = mc_free M l d who + (if d = c then n else 0)" if "who = fm_treasury C"
      using f [of d who] assms(3-5) that by (auto simp: paid_def split: if_splits)
    show "mc_free M l' d who + mc_free M l' d (fm_treasury C) =
        mc_free M l d who + mc_free M l d (fm_treasury C) + (if d = c then n else 0)" if "who \<noteq> fm_treasury C"
      using f [of d who] f [of d "fm_treasury C"] assms(3-5) that by (auto simp: paid_def split: if_splits)
    show "mc_free M l' d x = mc_free M l d x" if "x \<notin> {iss, who, fm_treasury C}" for x
      using f [of d x] assms(3) that by (auto simp: paid_def split: if_splits)
  qed
qed

end

lemma pays_dues_trans:
  "pays_dues C who iss d l l1 \<Longrightarrow> pays_dues C who iss e l1 l2 \<Longrightarrow> pays_dues C who iss (\<lambda>c. d c + e c) l l2"
  unfolding pays_dues_def by (intro allI conjI impI) (metis add.commute add.left_commute, metis add.assoc, metis add.assoc, simp)

lemma pays_nothing: "pays_dues C who iss (\<lambda>_. 0) l l"
  by (simp add: pays_dues_def)


lemma due_one:
  assumes "spent rs c \<le> earned rs c" and "earned rs c \<le> u128_max" and "c \<notin> fst ` set rs'"
    and "rs = (c, t, w) # rs'"
  shows "due_reward n k t w (or_zero (map_of wd c)) = Inr r \<Longrightarrow> r = due n k rs wd c \<and> saturating_add w r = w + r"
  using assms by (auto simp: due_reward_Inr due_def saturating_add_def)

lemma claim_each_pays:
  assumes "multi_currency (fm_currencies C)" and "iss \<noteq> who" and "iss \<noteq> fm_treasury C"
  shows "claim_each C who iss n k rs wd l = Inr (rs', wd', l') \<Longrightarrow> distinct (map fst rs) \<Longrightarrow>
    (\<And>c. spent rs c \<le> earned rs c \<and> earned rs c \<le> u128_max) \<Longrightarrow>
    pays_dues C who iss (due n k rs wd) l l' \<and> (\<forall>c. spent rs' c = spent rs c + due n k rs wd c)"
proof (induction rs arbitrary: wd l rs')
  case Nil
  have "due n k [] wd = (\<lambda>_. 0)" by (simp add: due_def fun_eq_iff)
  then show ?case using Nil by (simp add: pays_nothing)
next
  case (Cons x rs)
  obtain c t w where x: "x = (c, t, w)" by (cases x)
  from Cons.prems(1) obtain w' wd1 l1 rs1 where one: "claim_one C who iss n k c t w wd l = Inr (w', wd1, l1)"
    and rest: "claim_each C who iss n k rs wd1 l1 = Inr (rs1, wd', l')" and rs': "rs' = (c, t, w') # rs1"
    by (auto simp: x result_simps)
  have fresh: "c \<notin> fst ` set rs" "distinct (map fst rs)" using Cons.prems(2) by (simp_all add: x)
  have b: "spent rs d \<le> earned rs d \<and> earned rs d \<le> u128_max" for d
    using Cons.prems(3) [of d] absent_key [OF fresh(1)] by (cases "d = c") (auto simp: x)
  let ?r = "due n k (x # rs) wd c"
  have wt: "w \<le> t" "t \<le> u128_max" using Cons.prems(3) [of c] by (simp_all add: x)
  have first: "pays_dues C who iss (\<lambda>d. if d = c then ?r else 0) l l1 \<and> w' = w + ?r \<and>
      (\<forall>d. d \<noteq> c \<longrightarrow> map_of wd1 d = map_of wd d)"
    using one
  proof (cases rule: claim_one_cases)
    case idle
    from idle(4) have r: "?r = 0" by (simp add: due_reward_Inr due_def x)
    then have z: "(\<lambda>d. if d = c then ?r else 0) = (\<lambda>_. 0)" by auto
    show ?thesis unfolding z r using idle(1-3) by (simp add: pays_nothing)
  next
    case (pays r to)
    have rt: "r \<le> t - w" and r: "r = ?r" using pays(1) by (simp_all add: due_reward_Inr due_def x)
    from rt wt have "saturating_add w r = w + r" by (simp add: saturating_add_def)
    note r = r this
    have "pays_dues C who iss (\<lambda>d. if d = c then r else 0) l l1"
      using multi_currency.farm_payment [OF assms(1) pays(4) refl payee_cases [OF pays(3)] assms(2,3)] .
    then show ?thesis unfolding r(1) [symmetric] using pays(5,6) r(2) by simp
  qed
  from Cons.IH [OF rest fresh(2) b]
  have IH: "pays_dues C who iss (due n k rs wd1) l1 l'" "spent rs1 d = spent rs d + due n k rs wd1 d" for d
    by auto
  have "due n k rs wd1 c = 0" using absent_key [OF fresh(1)] by (simp add: due_def)
  moreover have "due n k rs wd1 d = due n k (x # rs) wd d" if "d \<noteq> c" for d
    using that first by (simp add: due_def x)
  ultimately have sum: "(\<lambda>d. (if d = c then ?r else 0) + due n k rs wd1 d) = due n k (x # rs) wd" by auto
  have "spent rs' d = spent (x # rs) d + due n k (x # rs) wd d" for d
    using first IH(2) [of d] fun_cong [OF sum, of d] absent_key [OF fresh(1)] by (auto simp: rs' x)
  then show ?case using pays_dues_trans [OF conjunct1 [OF first] IH(1)] by (simp add: sum)
qed

section \<open>New shares\<close>

text \<open>What an entry could claim of a currency.\<close>

definition pending :: "pool_info \<Rightarrow> share_info \<Rightarrow> currency \<Rightarrow> nat" where
  "pending p i c = due (si_share i) (total_shares p) (pool_rewards p) (si_withdrawn i) c"

lemma inflate_bounds:
  fixes E S n :: nat
  assumes "0 < S"
  shows "k * (E + n * E div S) div (S + n) \<le> k * E div S"
    and "k \<le> S \<Longrightarrow> k * E div S \<le> k * (E + n * E div S) div (S + n) + 1"
proof -
  let ?F = "E + n * E div S"
  have "n * E div S * S \<le> n * E" by (rule div_times_less_eq_dividend)
  then have "?F * S \<le> E * S + n * E" by (simp only: distrib_right add_le_cancel_left)
  then have up: "?F * S \<le> E * (S + n)" by (simp add: algebra_simps)
  have "n * E < (n * E div S + 1) * S" using dividend_less_div_times [OF assms, of "n * E"] by (simp add: algebra_simps)
  then have low: "E * (S + n) < (?F + 1) * S" by (simp add: algebra_simps)
  show "k * ?F div (S + n) \<le> k * E div S"
  proof -
    have "(k * ?F div (S + n)) * (S + n) * S \<le> k * (?F * S)" by simp
    also have "\<dots> \<le> k * (E * (S + n))" using up by simp
    also have "\<dots> = k * E * (S + n)" by (simp only: mult.assoc)
    finally have "(k * ?F div (S + n)) * S * (S + n) \<le> k * E * (S + n)" by (simp only: ac_simps)
    then have "(k * ?F div (S + n)) * S \<le> k * E" using assms by simp
    then show ?thesis using assms by (simp add: less_eq_div_iff_mult_less_eq)
  qed
  show "k * E div S \<le> k * ?F div (S + n) + 1" if "k \<le> S"
  proof (cases "k = 0")
    case False
    let ?q = "k * E div S" and ?r = "k * ?F div (S + n)"
    have "?q * S \<le> k * E" by (rule div_times_less_eq_dividend)
    then have "?q * S * (S + n) \<le> k * E * (S + n)" by (rule mult_right_mono) simp
    also have "\<dots> < k * ((?F + 1) * S)" using low False by simp
    finally have "?q * (S + n) * S < (k * ?F + k) * S" by (simp add: algebra_simps)
    then have "?q * (S + n) < k * ?F + k" by simp
    also have "k * ?F < (?r + 1) * (S + n)" using dividend_less_div_times [of "S + n" "k * ?F"] assms by (simp add: algebra_simps)
    finally have "?q * (S + n) < (?r + 1) * (S + n) + k" by simp
    also have "\<dots> \<le> (?r + 2) * (S + n)" using that by (simp add: algebra_simps)
    finally have "?q < ?r + 2" by (rule mult_right_less_imp_less) simp
    then show ?thesis by simp
  qed simp
qed


lemma new_entry:
  assumes "add_share C who pid p n s = u" and "0 < n"
  shows "share_of u pid who = Some ((share_or_new s pid who)\<lparr>si_share := saturating_add (si_share (share_or_new s pid who)) n,
      si_withdrawn := fold charge_inflation (withdrawn_inflation n p) (si_withdrawn (share_or_new s pid who))\<rparr>)"
    and "other \<noteq> who \<Longrightarrow> share_of u pid other = share_of s pid other"
    and "farm_pool s pid = Some q \<Longrightarrow> farm_pool u pid = Some (inflate_pool n p)"
  using assms by (auto simp: add_share_def Let_def share_of_def map_of_sm_put)

lemma charge_inflation_ge:
  assumes "distinct (map fst xs)" and "or_zero (map_of m c) + or_zero (map_of xs c) \<le> u128_max"
  shows "or_zero (map_of m c) + or_zero (map_of xs c) \<le> or_zero (map_of (fold charge_inflation xs m) c)"
  using assms
proof (induction xs arbitrary: m)
  case (Cons x xs)
  obtain d i where x: "x = (d, i)" by (cases x)
  have "map_of xs d = None" using Cons.prems(1) by (simp add: x map_of_eq_None_iff)
  moreover have "or_zero (map_of (charge_inflation x m) c) = or_zero (map_of m c) + (if c = d then i else 0)"
    using Cons.prems(2) by (auto simp: x charge_inflation_def saturating_add_def split: option.splits)
  ultimately show ?case using Cons.IH [of "charge_inflation x m"] Cons.prems by (auto simp: x split: if_splits)
qed simp

text \<open>The totals after new shares, when no bound is reached and the inflation fits.\<close>

lemma inflate_unsaturated:
  assumes "unsaturated (inflate_pool n p)" and "spent (pool_rewards p) c \<le> earned (pool_rewards p) c"
    and "portion n (earned (pool_rewards p) c) (total_shares p) \<le> u128_max"
  shows "total_shares (inflate_pool n p) = total_shares p + n"
    and "earned (pool_rewards (inflate_pool n p)) c =
      earned (pool_rewards p) c + portion n (earned (pool_rewards p) c) (total_shares p)"
    and "spent (pool_rewards (inflate_pool n p)) c =
      spent (pool_rewards p) c + portion n (earned (pool_rewards p) c) (total_shares p)"
proof -
  have r: "reward_inflation n (earned (pool_rewards p) c) (total_shares p) = portion n (earned (pool_rewards p) c) (total_shares p)"
    using assms(3) by (simp add: reward_inflation_def)
  have "saturating_add (total_shares p) n < u128_max"
    "saturating_add (earned (pool_rewards p) c) (portion n (earned (pool_rewards p) c) (total_shares p)) < u128_max"
    using assms(1) r by (simp_all add: unsaturated_def inflate_books) (metis r)
  then show "total_shares (inflate_pool n p) = total_shares p + n"
    "earned (pool_rewards (inflate_pool n p)) c =
      earned (pool_rewards p) c + portion n (earned (pool_rewards p) c) (total_shares p)"
    "spent (pool_rewards (inflate_pool n p)) c =
      spent (pool_rewards p) c + portion n (earned (pool_rewards p) c) (total_shares p)"
    using assms(2) by (simp_all add: inflate_books r saturating_add_def)
qed

lemma pending_others:
  assumes "unsaturated (inflate_pool n p)" and "spent (pool_rewards p) c \<le> earned (pool_rewards p) c"
    and "portion n (earned (pool_rewards p) c) (total_shares p) \<le> u128_max"
    and "si_share i \<le> total_shares p"
  shows "pending (inflate_pool n p) i c \<le> pending p i c" and "pending p i c \<le> pending (inflate_pool n p) i c + 1"
proof -
  note t = inflate_unsaturated [OF assms(1-3)]
  let ?k = "si_share i" and ?E = "earned (pool_rewards p) c" and ?S = "total_shares p"
  have "portion ?k (?E + portion n ?E ?S) (?S + n) \<le> portion ?k ?E ?S \<and>
      portion ?k ?E ?S \<le> portion ?k (?E + portion n ?E ?S) (?S + n) + 1"
    using inflate_bounds [of ?S ?k ?E n] assms(4) by (cases "?S = 0") (simp_all add: portion_def)
  then show "pending (inflate_pool n p) i c \<le> pending p i c" "pending p i c \<le> pending (inflate_pool n p) i c + 1"
    by (auto simp: pending_def due_def t)
qed

lemma pending_newcomer:
  assumes "unsaturated (inflate_pool n p)" and "spent (pool_rewards p) c \<le> earned (pool_rewards p) c"
    and "portion n (earned (pool_rewards p) c) (total_shares p) \<le> u128_max" and "0 < total_shares p"
    and "si_share j = n" and "portion n (earned (pool_rewards p) c) (total_shares p) \<le> drawn j c"
  shows "pending (inflate_pool n p) j c = 0"
proof -
  note t = inflate_unsaturated [OF assms(1-3)]
  have "n * (earned (pool_rewards p) c + n * earned (pool_rewards p) c div total_shares p) div (total_shares p + n)
      \<le> n * earned (pool_rewards p) c div total_shares p"
    by (rule inflate_bounds(1) [OF assms(4)])
  then show ?thesis using assms(4,6) by (simp add: pending_def due_def t assms(5) drawn_def [symmetric] portion_def)
qed

end
