(* ===== verification/Farm_Props.thy ===== *)
theory Farm_Props
  imports Farm_Claims
begin

text \<open>
  The properties of the farming pallet: its books agree, a claim pays what it books, new shares take nothing from old
  ones; and four behaviours that cost users tokens or rewards.
\<close>

section \<open>Reachable states for the witnesses\<close>

definition few_rewards :: "'l farm_state \<Rightarrow> bool" where
  "few_rewards s \<longleftrightarrow> list_all (\<lambda>(_, p). total_shares p < u128_max \<and>
     list_all (\<lambda>(_, t, _). t < u128_max) (pool_rewards p)) (farm_pools s)"

lemma few_rewards_small: "few_rewards s \<Longrightarrow> farm_small s"
proof -
  assume f: "few_rewards s"
  have "unsaturated p" if p: "farm_pool s q = Some p" for p q
  proof -
    have m: "(q, p) \<in> set (farm_pools s)" using p by (simp add: farm_pool_def map_of_SomeD)
    have "earned (pool_rewards p) c < u128_max" for c
    proof (cases "map_of (pool_rewards p) c")
      case None
      then show ?thesis by (simp add: earned_def u128_max_def)
    next
      case (Some x)
      then have "(c, x) \<in> set (pool_rewards p)" by (rule map_of_SomeD)
      then show ?thesis using Some f m by (fastforce simp: earned_def few_rewards_def list_all_iff)
    qed
    then show ?thesis using f m by (fastforce simp: unsaturated_def few_rewards_def list_all_iff)
  qed
  then show "farm_small s" by (simp add: farm_small_def unsaturated_at_def)
qed

fun modest :: "(origin \<times> farm_call) list \<Rightarrow> balances farm_state \<Rightarrow> bool" where
  "modest [] s = True"
| "modest ((o1, call) # calls) s = (tame_call call s \<and>
     (case farm_dispatch std_farm o1 call s of Inl e \<Rightarrow> False | Inr t \<Rightarrow> few_rewards t \<and> modest calls t))"

lemma modest_reach:
  "farm_reach std_farm s \<Longrightarrow> modest calls s \<Longrightarrow> farm_play calls s = Inr t \<Longrightarrow> farm_reach std_farm t"
proof (induction calls s rule: modest.induct)
  case (1 s)
  then show ?case by (simp add: farm_play_def)
next
  case (2 o1 call calls s)
  then obtain u where "farm_dispatch std_farm o1 call s = Inr u" "few_rewards u" "modest calls u" "tame_call call s"
    by (auto split: sum.splits)
  moreover have "farm_play calls u = Inr t" using 2 calculation by (simp add: farm_play_def)
  ultimately show ?case using 2 farm_reach.called few_rewards_small by blast
qed

lemma sown_reach: "farm_reach std_farm sown"
proof (rule modest_reach [OF farm_reach.initially _ sown_run])
  show "modest sowing (initial_farm farm_cash)"
    by (simp add: sowing_def farm_unfold farm_states few_rewards_def)
qed

text \<open>Two blocks later the pool has started and earned its first rewards.\<close>

definition ripe :: "balances farm_state" where
  "ripe = sown\<lparr>farm_block := 2, farm_pools := [
     (0, crop_pool\<lparr>farm_pool_state := Ongoing, block_startup := Some 1, pool_rewards := [(crop, 60, 0)]\<rparr>),
     (10000000, crop_gauge)]\<rparr>"

lemma ripe_reach: "farm_reach std_farm ripe"
proof -
  have h: "farm_on_initialize std_farm ((farm_on_initialize std_farm (sown\<lparr>farm_block := 1\<rparr>))\<lparr>farm_block := 2\<rparr>) = ripe"
    "few_rewards (farm_on_initialize std_farm (sown\<lparr>farm_block := 1\<rparr>))" "few_rewards ripe"
    by (simp_all add: farm_on_initialize_def farm_tick_def earn_def ripe_def sown_def farm_states farm_unfold few_rewards_def)
  have "farm_reach std_farm (farm_on_initialize std_farm (sown\<lparr>farm_block := 1\<rparr>))"
    using farm_reach.new_block [OF sown_reach] few_rewards_small h(2) by blast
  from farm_reach.new_block [OF this, of 2] show ?thesis using few_rewards_small [OF h(3)] by (simp only: h(1))
qed

section \<open>The books agree\<close>

text \<open>
  C15. On every tame run, for every pool: the shares of all entries are at most the total of the pool; what the
  entries have drawn of a reward, by claims and by the charges on new shares, is at most what the pool has spent; and
  that is at most what it has earned. A run is tame when neither \<open>force_retire_pool\<close> nor \<open>reset_pool\<close> succeeds in
  it, pools are created under ids that are free, ids are \<open>u32\<close>, and after no call or block has a total of shares or
  of an earned reward reached the bound of \<open>u128\<close>, where the sums saturate.
\<close>

theorem farm_books_agree:
  assumes "farm_reach C s" and "farm_pool s pid = Some p"
  shows "(\<Sum>x\<leftarrow>farm_shares s pid. si_share (snd x)) \<le> total_shares p \<and>
    (\<Sum>x\<leftarrow>farm_shares s pid. drawn (snd x) c) \<le> spent (pool_rewards p) c \<and>
    spent (pool_rewards p) c \<le> earned (pool_rewards p) c"
  using reach_books [OF assms] by (simp add: pool_books_def)

theorem farm_books_agree_witness:
  "(\<Sum>x\<leftarrow>farm_shares ripe 0. si_share (snd x)) \<le> 1010 \<and> (\<Sum>x\<leftarrow>farm_shares ripe 0. drawn (snd x) crop) \<le> 0"
  using farm_books_agree [OF ripe_reach, of 0 _ crop] by (simp add: ripe_def sown_def farm_pool_def crop_pool_def)

section \<open>Claims\<close>

text \<open>
  C16. In a reachable state, a claim of rewards pays, in every currency, the part of the earned rewards of the share less
  what was drawn before, or what the pool has left if that is less. It takes exactly this from the account of the
  pool's issuer and gives it to the claimer (or the treasury, for dust), adds exactly this to what the
  pool has spent, and touches no other account.
\<close>

theorem claim_pays_what_it_books:
  assumes "farm_reach C s" and "claim_rewards C who pid s = Inr t" and "multi_currency (fm_currencies C)"
    and "share_of s pid who = Some i" and "si_share i \<noteq> 0"
    and "farm_pool s pid = Some p" and "reward_issuer p \<notin> {who, fm_treasury C}"
  shows "pays_dues C who (reward_issuer p) (pending p i) (farm_ledger s) (farm_ledger t) \<and>
    (\<exists>p'. farm_pool t pid = Some p' \<and> (\<forall>c. spent (pool_rewards p') c = spent (pool_rewards p) c + pending p i c))"
  using assms(2)
proof (cases rule: claim_rewards_cases)
  case idle
  with idle(2) [OF assms(4)] assms(5) show ?thesis by simp
next
  case (claimed j q rs wd l)
  then have q: "q = p" "j = i" using assms(4,6) by simp_all
  have inv: "bt_invar (pool_rewards p)" using reach_books [OF assms(1,6)] by (simp add: pool_books_def)
  have b: "distinct (map fst (pool_rewards p))"
    "spent (pool_rewards p) c \<le> earned (pool_rewards p) c \<and> earned (pool_rewards p) c \<le> u128_max" for c
    using reach_books [OF assms(1,6)] sm_invar_distinct [OF inv] by (simp_all add: pool_books_def)
  have "pays_dues C who (reward_issuer p) (pending p i) (farm_ledger s) l \<and>
      (\<forall>c. spent rs c = spent (pool_rewards p) c + pending p i c)"
    using claim_each_pays [OF assms(3) _ _ claimed(4) [unfolded q] b] assms(7) by (simp add: pending_def [abs_def])
  moreover have "farm_pool t pid = Some (p\<lparr>pool_rewards := rs\<rparr>)" "farm_ledger t = l"
    by (simp_all add: claimed(5) q) (simp add: put_share_def put_pool_def)
  ultimately show ?thesis by simp
qed

definition reaped :: "balances farm_state" where
  "reaped = projr (claim_rewards std_farm 1 0 ripe)"

lemma reaped_run: "claim_rewards std_farm 1 0 ripe = Inr reaped"
  by (simp add: reaped_def ripe_def sown_def farm_states farm_unfold harvest_unfold portion_def portion128_def)

theorem claim_pays_what_it_books_witness:
  "farm_ledger reaped crop 30 + 59 = farm_ledger ripe crop 30 \<and>
   (\<exists>p'. farm_pool reaped 0 = Some p' \<and> spent (pool_rewards p') crop = 59)"
proof -
  have s: "share_of ripe 0 1 = Some (held_share 1 1000 [])"
    "farm_pool ripe 0 = Some (crop_pool\<lparr>farm_pool_state := Ongoing, block_startup := Some 1, pool_rewards := [(crop, 60, 0)]\<rparr>)"
    by (simp_all add: share_of_def farm_pool_def ripe_def sown_def)
  have m: "multi_currency (fm_currencies std_farm)" by (simp add: std_farm_simps std_multi_currency)
  from claim_pays_what_it_books [OF ripe_reach reaped_run m s(1) _ s(2)]
  show ?thesis
    by (simp add: held_share_def crop_pool_def std_farm_simps pays_dues_def pending_def due_def portion_def std_currency_def)
      (auto dest!: spec [of _ crop])
qed

section \<open>New shares\<close>

text \<open>
  C17. Shares added, on a tame run, to a pool that has shares already, for an account without an entry there, take
  nothing from the old ones: what another entry can claim of any currency does not grow and falls by at most one unit,
  and the new entry can claim nothing yet. The totals after the addition stay below the bound of \<open>u128\<close>, and the
  charge on the new shares fits into it. (In a pool without shares nothing is charged.)
\<close>

theorem new_shares_take_nothing:
  assumes "farm_reach C s" and "farm_pool s pid = Some p" and "0 < n" and "0 < total_shares p"
    and "unsaturated (inflate_pool n p)" and "portion n (earned (pool_rewards p) c) (total_shares p) \<le> u128_max"
    and "other \<noteq> who" and "share_of s pid other = Some i" and "share_of s pid who = None"
    and "add_share C who pid p n s = t"
  shows "\<exists>p' j. farm_pool t pid = Some p' \<and> share_of t pid other = Some i \<and> share_of t pid who = Some j \<and>
    pending p' i c \<le> pending p i c \<and> pending p i c \<le> pending p' i c + 1 \<and> pending p' j c = 0"
proof -
  note b = reach_books [OF assms(1,2)]
  have le: "spent (pool_rewards p) c \<le> earned (pool_rewards p) c" using b by (simp add: pool_books_def)
  let ?j = "new_share who (farm_block s)"
  let ?j' = "?j\<lparr>si_share := saturating_add (si_share ?j) n,
      si_withdrawn := fold charge_inflation (withdrawn_inflation n p) (si_withdrawn ?j)\<rparr>"
  have t: "share_of t pid who = Some ?j'" "share_of t pid other = Some i" "farm_pool t pid = Some (inflate_pool n p)"
    using new_entry [OF assms(10,3)] assms(2,7-9) by (simp_all add: share_or_new_def)
  have r: "or_zero (map_of (withdrawn_inflation n p) c) = portion n (earned (pool_rewards p) c) (total_shares p)"
    using assms(6) by (simp add: inflate_books reward_inflation_def)
  have "bt_invar (pool_rewards p)" using b by (simp add: pool_books_def)
  then have d: "distinct (map fst (withdrawn_inflation n p))" by (simp add: inflate_books sm_invar_distinct)
  have "portion n (earned (pool_rewards p) c) (total_shares p) \<le> drawn ?j' c"
    using charge_inflation_ge [OF d, of "[]" c] assms(6) by (simp add: r drawn_def new_share_def)
  moreover have "si_share ?j' = n"
    using inflate_unsaturated(1) [OF assms(5) le assms(6)] assms(5)
    by (simp add: new_share_def saturating_add_def unsaturated_def)
  ultimately have "pending (inflate_pool n p) ?j' c = 0" by (intro pending_newcomer [OF assms(5) le assms(6,4)])
  moreover have "si_share i \<le> total_shares p"
    using pool_booksD(2) [OF b] assms(8) by (simp add: share_of_def)
  ultimately show ?thesis using t pending_others [OF assms(5) le assms(6)] by blast
qed

theorem new_shares_take_nothing_witness:
  "\<exists>p' j. farm_pool (add_share std_farm 3 0 (the (farm_pool ripe 0)) 500 ripe) 0 = Some p' \<and>
     share_of (add_share std_farm 3 0 (the (farm_pool ripe 0)) 500 ripe) 0 3 = Some j \<and>
     58 \<le> pending p' (held_share 1 1000 []) crop \<and> pending p' j crop = 0"
proof -
  let ?p = "crop_pool\<lparr>farm_pool_state := Ongoing, block_startup := Some 1, pool_rewards := [(crop, 60, 0)]\<rparr>"
  have s: "farm_pool ripe 0 = Some ?p" "share_of ripe 0 1 = Some (held_share 1 1000 [])" "share_of ripe 0 3 = None"
    by (simp_all add: share_of_def farm_pool_def ripe_def sown_def)
  have u: "unsaturated (inflate_pool 500 ?p)"
    by (simp add: unsaturated_def inflate_pool_def crop_pool_def reward_inflation_def portion_def saturating_add_def u128_max_def)
  have f: "portion 500 (earned (pool_rewards ?p) crop) (total_shares ?p) \<le> u128_max"
    by (simp add: portion_def crop_pool_def u128_max_def)
  have "pending ?p (held_share 1 1000 []) crop = 59"
    by (simp add: pending_def due_def portion_def crop_pool_def held_share_def)
  then show ?thesis
    using new_shares_take_nothing [OF ripe_reach s(1) _ _ u f _ s(2) s(3) refl] s(1) by (auto simp: crop_pool_def)
qed

section \<open>Withdrawals\<close>

lemma farm_block_simps [simp]:
  "farm_block (put_pool C pid p s) = farm_block s" "farm_block (put_share C pid who i s) = farm_block s"
  "farm_block (emit_farm e s) = farm_block s"
  by (simp_all add: put_pool_def put_share_def emit_farm_def)

lemma claim_entry:
  assumes "claim_rewards C who pid s = Inr t" and "share_of s pid who = Some i" and "farm_pool s pid = Some p"
  shows "(\<exists>j. share_of t pid who = Some j \<and> si_share j = si_share i \<and> si_withdraw_list j = si_withdraw_list i) \<and>
    (\<exists>q rs. farm_pool t pid = Some q \<and> q = p\<lparr>pool_rewards := rs\<rparr>) \<and> farm_block t = farm_block s"
  using assms(1)
proof (cases rule: claim_rewards_cases)
  case idle
  moreover have "p = p\<lparr>pool_rewards := pool_rewards p\<rparr>" by simp
  ultimately show ?thesis using assms(2,3) by blast
next
  case (claimed i' p' rs wd l)
  then show ?thesis using assms(2,3) by (auto simp: share_of_def map_of_sm_put)
qed

lemma remove_entry:
  assumes "remove_share C who pid (Some n) x s = Inr t" and "0 < n" and "share_of s pid who = Some i"
    and "farm_pool s pid = Some p"
  shows "(\<exists>j. share_of t pid who = Some j \<and> si_share j = si_share i - n \<and>
      si_withdraw_list j = si_withdraw_list i @ [(add32 (farm_block s) x, n)]) \<and>
    (\<exists>q. farm_pool t pid = Some q \<and> tokens_proportion q = tokens_proportion p \<and> basic_token q = basic_token p \<and>
      keeper q = keeper p) \<and> farm_block t = farm_block s"
  using assms(1)
proof (cases rule: remove_share_cases)
  case (removed s1 i' n' p' wd rs)
  from claim_entry [OF removed(1) assms(3,4)] removed(2,3,6) show ?thesis unfolding removed(8)
    by (auto simp: share_of_def map_of_sm_put)
qed (use assms claim_entry in fastforce)+

text \<open>What a pool owes of each currency for an amount of its weighted shares.\<close>

definition token_dues :: "'l farm_config \<Rightarrow> pool_info \<Rightarrow> nat \<Rightarrow> currency \<Rightarrow> nat" where
  "token_dues C p v c = (\<Sum>(d, x)\<leftarrow>tokens_proportion p.
     if d = c then perbill_mul C x (perbill_reciprocal_mul C (snd (basic_token p)) v) else 0)"

lemma pay_tokens_pays:
  assumes "multi_currency (fm_currencies C)" and "keeper p \<noteq> who" and "keeper p \<noteq> fm_treasury C"
    and "pay_tokens C who p v l = Inr l'"
  shows "pays_dues C who (keeper p) (token_dues C p v) l l'"
proof -
  let ?f = "\<lambda>x. perbill_mul C x (perbill_reciprocal_mul C (snd (basic_token p)) v)"
  have "rfold (\<lambda>(c, x) l. rbind (payee C who c (?f x) l) (\<lambda>to. farm_transfer C c (keeper p) to (?f x) l)) ts l = Inr l' \<Longrightarrow>
      pays_dues C who (keeper p) (\<lambda>c. \<Sum>(d, x)\<leftarrow>ts. if d = c then ?f x else 0) l l'" for ts
  proof (induction ts arbitrary: l)
    case Nil
    then show ?case by (simp add: pays_nothing)
  next
    case (Cons e ts)
    obtain c x where e: "e = (c, x)" by (cases e)
    from Cons.prems obtain to l1 where "payee C who c (?f x) l = Inr to"
      and t: "farm_transfer C c (keeper p) to (?f x) l = Inr l1"
      and rest: "rfold (\<lambda>(c, x) l. rbind (payee C who c (?f x) l) (\<lambda>to. farm_transfer C c (keeper p) to (?f x) l)) ts l1 = Inr l'"
      by (auto simp: e result_simps)
    from multi_currency.farm_payment [OF assms(1) t refl payee_cases [OF this(1)] assms(2,3)]
    have "pays_dues C who (keeper p) (\<lambda>d. if d = c then ?f x else 0) l l1" .
    from pays_dues_trans [OF this Cons.IH [OF rest]] show ?case by (simp add: e eq_commute)
  qed
  then show ?thesis using assms(4) by (simp add: pay_tokens_def Let_def token_dues_def [abs_def])
qed

text \<open>
  C18. Withdrawing \<open>n\<close> tokens puts the gauge share that falls away on the withdraw list of the gauge pool, in units of
  weighted shares (balance of votes times tokens). With the keeper shared by both pools and no delay, as a gauge
  pool is made, asking for the withdrawals of the gauge pool pays these units as if they were tokens of the pool, out of
  the keeper of the farming pool, to the account (or, where it cannot hold them, to the treasury). The withdrawal
  of the \<open>n\<close> tokens stays on the list of the farming pool, so this comes on top. (The keeper is neither the account nor
  the treasury, the account has no earlier entry on the list of the gauge pool, its votes do not depend on the tokens
  anyone holds, and no pool has the gauge pool's own gauge id.) In the witness account 2 withdraws
  5 of its 10 tokens, and the keeper loses 500 of the tokens of account 1.
\<close>

theorem gauge_withdrawal_drains_the_keeper:
  assumes "multi_currency (fm_currencies C)" and "keeper p \<noteq> who" and "keeper p \<noteq> fm_treasury C"
    and "farm_pool s pid = Some p" and "share_of s pid who = Some i"
    and "farm_pool s (gauge_id pid) = Some q" and "keeper q = keeper p" and "withdraw_limit_time q = 0"
    and "farm_pool s (gauge_id (gauge_id pid)) = None"
    and "share_of s (gauge_id pid) who = Some g" and "si_withdraw_list g = []"
    and "\<forall>l. bb_balance C l who = Inr b" and "0 < n" and "b * (si_share i - n) < si_share g"
    and "farm_withdraw C (Signed who) pid (Some n) s = Inr s1"
    and "farm_withdraw_claim C (Signed who) (gauge_id pid) s1 = Inr t"
  shows "pays_dues C who (keeper p) (token_dues C q (si_share g - b * (si_share i - n))) (farm_ledger s1) (farm_ledger t) \<and>
    (\<exists>j. share_of t pid who = Some j \<and> si_share j = si_share i - n \<and>
       si_withdraw_list j = si_withdraw_list i @ [(add32 (farm_block s) (withdraw_limit_time p), n)])"
proof -
  let ?gid = "gauge_id pid" and ?v = "si_share g - b * (si_share i - n)"
  have ne: "?gid \<noteq> pid" "gauge_id ?gid \<noteq> ?gid" by (rule gauge_id_neq)+
  from assms(15,4,5) obtain r where r: "remove_share C who pid (Some n) (withdraw_limit_time p) s = Inr r"
    and w: "rbind (weigh_gauge C who ?gid (si_share i - n) False r) (\<lambda>s2.
      Inr (emit_farm (PoolWithdrawn who pid (Some n)) s2)) = Inr s1"
    by (auto simp: farm_withdraw_def the_farm_pool_def result_simps saturating_sub_def)
  then obtain s2 where w: "weigh_gauge C who ?gid (si_share i - n) False r = Inr s2"
    and s1: "s1 = emit_farm (PoolWithdrawn who pid (Some n)) s2" by (auto simp: rbind_eq_Inr)
  note er = remove_entry [OF r assms(13,5,4)]
  from remove_untouched [OF r ne(1)] have gr: "farm_pool r ?gid = Some q" "share_of r ?gid who = Some g"
    using assms(6,10) by (simp_all add: untouched_def share_of_def)
  have u: "remove_share C who ?gid (Some ?v) 0 r = Inr s2"
    using w gr assms(8,12,14)
    by (auto simp: weigh_gauge_def bb_balance_of_def checked_mul_def update_gauge_share_def result_simps saturating_sub_def split: if_splits)
  have "0 < ?v" using assms(14) by simp
  note eg = remove_entry [OF u this gr(2,1)]
  then obtain g1 q1 where g1: "share_of s2 ?gid who = Some g1" "si_withdraw_list g1 = [(add32 (farm_block r) 0, ?v)]"
    and q1: "farm_pool s2 ?gid = Some q1" "tokens_proportion q1 = tokens_proportion q" "basic_token q1 = basic_token q"
      "keeper q1 = keeper p"
    using assms(7,11) by auto
  have s1': "share_of s1 = share_of s2" "farm_pool s1 = farm_pool s2" "farm_block s1 = farm_block r"
    using eg by (simp_all add: s1 emit_farm_def share_of_def fun_eq_iff farm_pool_def)
  from assms(16) obtain s3 s4 where p: "process_withdraw_list C who ?gid q1 False s1 = Inr s3"
    and f: "refresh_inner C who ?gid s3 = Inr s4" and t: "t = emit_farm (WithdrawClaimed who ?gid) s4"
    by (auto simp: farm_withdraw_claim_def the_farm_pool_def q1(1) s1' result_simps)
  have due: "add32 (farm_block r) 0 \<le> farm_block s1" by (simp add: s1' add32_def)
  from p obtain l where l: "pay_tokens C who q1 ?v (farm_ledger s1) = Inr l"
    and s3: "s3 = put_share C ?gid who (g1\<lparr>si_withdraw_list := []\<rparr>) (s1\<lparr>farm_ledger := l\<rparr>)"
    using due by (auto simp: process_withdraw_list_def s1' g1 Let_def result_simps)
  have "farm_pool s3 (gauge_id ?gid) = None"
  proof -
    have "farm_pool s2 (gauge_id ?gid) = farm_pool r (gauge_id ?gid)"
      using remove_untouched [OF u ne(2)] by (simp add: untouched_def)
    moreover have "gauge_id ?gid \<noteq> pid" using assms(4,9) by auto
    ultimately show ?thesis using remove_untouched [OF r] assms(9) by (simp add: s3 s1' untouched_def)
  qed
  then have "s4 = s3" using f by (simp add: refresh_inner_def weigh_gauge_def s3 share_of_def map_of_sm_put)
  then have tl: "farm_ledger t = l" "share_of t pid = share_of s2 pid"
    using ne(1) by (simp_all add: t s3 emit_farm_def put_share_def share_of_def s1' [unfolded share_of_def fun_eq_iff] fun_eq_iff)
  have "token_dues C q1 = token_dues C q" unfolding token_dues_def fun_eq_iff q1(2,3) by simp
  then have "pays_dues C who (keeper p) (token_dues C q ?v) (farm_ledger s1) (farm_ledger t)"
    using pay_tokens_pays [OF assms(1) _ _ l] assms(2,3) by (simp add: q1 tl)
  moreover have "share_of s2 pid = share_of r pid"
    using remove_untouched [OF u, of pid] ne(1) by (simp add: untouched_def share_of_def fun_eq_iff)
  ultimately show ?thesis using er by (simp add: tl)
qed

lemma drained_calls:
  "\<exists>u. farm_withdraw std_farm (Signed 2) 0 (Some 5) sown = Inr u \<and>
     farm_withdraw_claim std_farm (Signed 2) 10000000 u = Inr drained \<and>
     farm_ledger u crop 2 = 90 \<and> farm_ledger u crop 90 = 0 \<and> farm_ledger drained crop 90 = 0"
  by (simp add: drained_def sown_def farm_unfold harvest_unfold farm_states)

theorem gauge_withdrawal_drains_the_keeper_witness:
  "farm_reach std_farm sown \<and> farm_ledger drained crop 2 = 590 \<and>
   (\<exists>j. share_of drained 0 2 = Some j \<and> si_share j = 5 \<and> si_withdraw_list j = [(7, 5)])"
proof -
  obtain u where u: "farm_withdraw std_farm (Signed 2) 0 (Some 5) sown = Inr u"
    "farm_withdraw_claim std_farm (Signed 2) (gauge_id 0) u = Inr drained" "farm_ledger u crop 2 = 90"
    "farm_ledger u crop 90 = 0" "farm_ledger drained crop 90 = 0"
    using drained_calls by (auto simp: add32_def gauge_base_id_def)
  have p: "farm_pool sown 0 = Some crop_pool" "farm_pool sown (gauge_id 0) = Some crop_gauge"
    "farm_pool sown (gauge_id (gauge_id 0)) = None"
    "share_of sown 0 2 = Some (held_share 2 10 [])" "share_of sown (gauge_id 0) 2 = Some (held_share 2 1000 [])"
    by (simp_all add: sown_def farm_pool_def share_of_def add32_def gauge_base_id_def)
  have "keeper crop_pool \<noteq> 2" "keeper crop_pool \<noteq> fm_treasury std_farm" "keeper crop_gauge = keeper crop_pool"
    "withdraw_limit_time crop_gauge = 0" "si_withdraw_list (held_share 2 1000 []) = []"
    "\<forall>l. bb_balance std_farm l 2 = Inr 100" "0 < (5::nat)"
    "100 * (si_share (held_share 2 10 []) - 5) < si_share (held_share 2 1000 [])"
    by (simp_all add: crop_pool_def crop_gauge_def held_share_def std_farm_simps)
  from gauge_withdrawal_drains_the_keeper [OF _ this(1,2) p(1,4,2) this(3,4) p(3,5) this(5-8) u(1,2)]
  have *: "pays_dues std_farm 2 20 (token_dues std_farm crop_gauge 500) (farm_ledger u) (farm_ledger drained)"
    "\<exists>j. share_of drained 0 2 = Some j \<and> si_share j = 5 \<and> si_withdraw_list j = [(7, 5)]"
    using std_multi_currency
    by (simp_all add: crop_pool_def held_share_def std_farm_simps sown_def initial_farm_def add32_def)
  have "token_dues std_farm crop_gauge 500 crop = 500"
    by (simp add: token_dues_def crop_gauge_def std_farm_simps u128_max_def)
  with *(1) u(3-5) have "farm_ledger drained crop 2 = 590"
    by (auto simp: pays_dues_def std_farm_simps std_currency_def dest!: spec [of _ crop])
  with *(2) sown_reach show ?thesis by blast
qed

text \<open>
  A withdrawal without an amount by an account whose shares are all being withdrawn deletes its entry
  with the list of its pending withdrawals: account 2 withdraws its deposit of 10 tokens twice and has no claim
  to them any more, while the keeper still holds them.
\<close>

theorem second_withdrawal_forgets_the_first:
  "\<exists>once twice. farm_play [(Signed 2, FarmWithdraw 0 None)] sown = Inr once \<and>
     si_withdraw_list (the (share_of once 0 2)) = [(7, 10)] \<and>
     farm_play [(Signed 2, FarmWithdraw 0 None)] once = Inr twice \<and> share_of twice 0 2 = None \<and>
     farm_ledger twice crop 2 = 90 \<and> farm_ledger twice crop 20 = 1010"
  by (simp add: sown_def farm_unfold harvest_unfold farm_states)

section \<open>Votes\<close>

text \<open>Two pools are put to a vote; account 2 has 100 votes and halves them; account 1 offers 1000 tokens.\<close>

definition voting :: "(origin \<times> farm_call) list" where
  "voting = [
     (Root, CreateFarmingPool [(crop, 1000000000)] [(crop, 1)] None 0 0 0 0 5),
     (Root, AddBoostPoolWhitelist [0, 1]),
     (Signed 2, FarmVote [(0, 50), (1, 50)]),
     (Signed 1, ChargeBoost [(crop, 1000)])]"

definition voted :: "balances farm_state" where
  "voted = projr (farm_play voting sown)"

lemmas vote_unfold = add_boost_pool_whitelist_def whitelist_one_def farm_vote_def vote_inner_def add_vote_def
  charge_boost_def start_boost_round_def start_boost_round_inner_def send_boost_rewards_def send_boost_reward_def
  sat_add32_def checked_div_def

text \<open>
  A vote adds the whole vote of the account to the total once for every pool on its list: the two pools
  have 50 votes each, and the total is 200.
\<close>

theorem votes_are_counted_per_pool:
  "farm_play voting sown = Inr voted \<and> voting_pools voted = [(0, 50), (1, 50)] \<and> boost_votes (boost_pool voted) = 200"
  by (simp add: voted_def voting_def sown_def farm_unfold vote_unfold farm_states)

text \<open>
  Starting a round divides the votes of a pool by a total that has just been set to zero, which gives every pool
  all of what is left: with 50 votes each, pool 0 gets the 1000 tokens on offer and pool 1 nothing.
\<close>

theorem first_pool_takes_the_boost:
  "\<exists>t. farm_play [(Root, StartBoostRound 10)] voted = Inr t \<and> farm_ledger voted crop 91 = 1000 \<and>
     farm_ledger t crop 30 = 4000 \<and> farm_ledger t crop 31 = 0 \<and>
     boost_basic_rewards t 0 crop = Some 100 \<and> boost_basic_rewards t 1 crop = Some 0"
  by (simp add: voted_def voting_def sown_def farm_unfold vote_unfold farm_states)

end
