(* ===== verification/Escrow_State.thy ===== *)
theory Escrow_State
  imports Storage Ledger Fixed_Point
begin

text \<open>
  The data and the storage of the vote escrow, \<open>pallets/bb-bnc/src\<close> (\<open>lib.rs\<close>, \<open>traits.rs\<close>, \<open>incentive.rs\<close>). A
  position is a lock of tokens until a block; its voting power falls linearly to that block and is kept as a point
  (bias and slope, \<open>i128\<close>) of a history, as is the sum of all positions. Block numbers are \<open>u32\<close>, epochs (\<open>U256\<close>)
  are counted without a bound.

  Whatever is outside of the pallet (the ledger with its locks, the gauges of the farming pallet, liquid staking) acts
  on an opaque state.
\<close>

section \<open>Signed numbers\<close>

definition ck128 :: "int \<Rightarrow> ('e, int) result" where
  "ck128 x = (if - (2 ^ 127) \<le> x \<and> x < 2 ^ 127 then Inr x else Inl (Arithmetic Overflow))"

text \<open>The plain sum of \<open>i128\<close>.\<close>

definition wrap128 :: "int \<Rightarrow> int" where
  "wrap128 x = (x + 2 ^ 127) mod 2 ^ 128 - 2 ^ 127"

section \<open>Records\<close>

record bb_config =
  min_mint :: nat
  min_block :: nat
  max_positions_per_block :: nat

record locked_balance =
  lk_amount :: nat
  lk_end :: nat

record vote_point =
  bias :: int
  slope :: int
  pt_block :: nat
  pt_amount :: nat

definition no_lock :: locked_balance where
  "no_lock = \<lparr>lk_amount = 0, lk_end = 0\<rparr>"

lemma no_lock_simps [simp]: "lk_amount no_lock = 0" "lk_end no_lock = 0"
  by (simp_all add: no_lock_def)

definition no_point :: vote_point where
  "no_point = \<lparr>bias = 0, slope = 0, pt_block = 0, pt_amount = 0\<rparr>"

record incentive_config =
  reward_rate :: "(currency \<times> nat) list"
  reward_per_token_stored :: "(currency \<times> nat) list"
  rewards_duration :: nat
  period_finish :: nat
  last_update_time :: nat
  incentive_controller :: "account option"
  last_reward :: "currency list"

definition no_incentive :: incentive_config where
  "no_incentive = \<lparr>reward_rate = [], reward_per_token_stored = [], rewards_duration = 0, period_finish = 0,
     last_update_time = 0, incentive_controller = None, last_reward = []\<rparr>"

record user_markup_info =
  old_markup_coefficient :: nat
  markup_coefficient :: nat

record locked_token =
  lt_amount :: nat
  lt_coefficient :: nat
  refresh_block :: nat

record markup_coefficient_info =
  mc_coefficient :: nat
  hardcap :: nat
  update_block :: nat
  rwi :: nat

datatype escrow_error =
    NotEnoughBalance | LockExpired | BelowMinimumMint | LockNotExist | LockExist | ArgumentsError
  | ExceedsMaxPositions | NoController

type_synonym 'a escrow_result = "(escrow_error, 'a) result"

datatype escrow_event =
    ConfigSet bb_config
  | EscrowMinted account nat nat nat nat nat nat
  | SupplyChanged nat nat
  | LockCreated account nat nat nat nat
  | UnlockTimeIncreased account nat nat nat
  | AmountIncreased account nat nat
  | EscrowWithdrawn account nat nat
  | IncentiveSet incentive_config
  | RewardAdded "currency list"
  | Rewarded account "(currency \<times> nat) list"
  | AllRefreshed currency
  | PartiallyRefreshed currency
  | NotifyRewardFailed "currency list"
  | MarkupDeposited account currency nat
  | MarkupWithdrawn account currency

section \<open>Storage\<close>

record 'l escrow_state =
  vote_supply :: nat
  bb_configs :: bb_config
  vote_epoch :: nat
  locked :: "nat \<Rightarrow> locked_balance"
  user_locked :: "account \<Rightarrow> nat"
  point_history :: "nat \<Rightarrow> vote_point"
  user_point_history :: "nat \<Rightarrow> nat \<Rightarrow> vote_point"
  user_point_epoch :: "nat \<Rightarrow> nat"
  slope_changes :: "nat \<Rightarrow> int"
  incentive_configs :: "nat \<Rightarrow> incentive_config"
  reward_paid :: "account \<Rightarrow> (currency \<times> nat) list"
  user_rewards :: "account \<Rightarrow> (currency \<times> nat) list option"
  user_markup_infos :: "account \<Rightarrow> user_markup_info option"
  locked_tokens :: "currency \<Rightarrow> (account \<times> locked_token) list"
  total_lock :: "currency \<Rightarrow> nat"
  markup_coefficients :: "currency \<Rightarrow> markup_coefficient_info option"
  next_position :: nat
  user_positions :: "account \<Rightarrow> nat list"
  expiring_positions :: "nat \<Rightarrow> nat list"
  next_expiring_block :: nat
  position_owner :: "nat \<Rightarrow> account option"
  escrow_block :: nat
  escrow_world :: 'l
  escrow_events :: "escrow_event list"

definition initial_escrow :: "'l \<Rightarrow> 'l escrow_state" where
  "initial_escrow l = \<lparr>vote_supply = 0,
     bb_configs = \<lparr>min_mint = 0, min_block = 0, max_positions_per_block = 100\<rparr>, vote_epoch = 0,
     locked = (\<lambda>_. no_lock), user_locked = (\<lambda>_. 0), point_history = (\<lambda>_. no_point),
     user_point_history = (\<lambda>_ _. no_point), user_point_epoch = (\<lambda>_. 0), slope_changes = (\<lambda>_. 0),
     incentive_configs = (\<lambda>_. no_incentive), reward_paid = (\<lambda>_. []), user_rewards = (\<lambda>_. None),
     user_markup_infos = (\<lambda>_. None), locked_tokens = (\<lambda>_. []), total_lock = (\<lambda>_. 0),
     markup_coefficients = (\<lambda>_. None), next_position = 0, user_positions = (\<lambda>_. []),
     expiring_positions = (\<lambda>_. []), next_expiring_block = 0, position_owner = (\<lambda>_. None), escrow_block = 0,
     escrow_world = l, escrow_events = []\<rparr>"

text \<open>The locks of the ledger are set and removed under two names.\<close>

datatype lock_id = BbLock | MarkupLock

record 'l escrow_config =
  ec_fixed :: fixed_ops
  ec_currencies :: "'l currency_ops"
  ec_total_issuance :: "'l \<Rightarrow> currency \<Rightarrow> nat"
  ec_set_lock :: "lock_id \<Rightarrow> currency \<Rightarrow> account \<Rightarrow> nat \<Rightarrow> 'l \<Rightarrow> nat + 'l"
  ec_remove_lock :: "lock_id \<Rightarrow> currency \<Rightarrow> account \<Rightarrow> 'l \<Rightarrow> nat + 'l"
  ec_control_origin :: "origin \<Rightarrow> bool"
  token_type :: currency
  incentive_pallet :: account
  buy_back_account :: account
  ec_block_to_balance :: "nat \<Rightarrow> nat"
  week :: nat
  max_block :: nat
  multiplier :: nat
  vote_weight_multiplier :: nat
  max_positions :: nat
  markup_refresh_limit :: nat
  ec_vmint :: "account \<Rightarrow> nat \<Rightarrow> 'l \<Rightarrow> nat + 'l"
  ec_v_issuance :: "'l \<Rightarrow> currency \<Rightarrow> nat + nat"
  ec_refresh_gauges :: "account \<Rightarrow> 'l escrow_state \<Rightarrow> nat + 'l"
  one_year :: nat
  five_years :: nat
  ec_account_hash :: "account \<Rightarrow> nat"

definition system_pool :: nat where "system_pool = u32_max"

definition fixed_precision :: nat where "fixed_precision = 10 ^ 18"

definition emit_escrow :: "escrow_event \<Rightarrow> 'l escrow_state \<Rightarrow> 'l escrow_state" where
  "emit_escrow e s = s\<lparr>escrow_events := e # escrow_events s\<rparr>"

definition outside :: "nat + 'a \<Rightarrow> 'a escrow_result" where
  "outside r = (case r of Inl e \<Rightarrow> Inl (External e) | Inr x \<Rightarrow> Inr x)"

definition on_world ::
  "('l \<Rightarrow> nat + 'l) \<Rightarrow> 'l escrow_state \<Rightarrow> 'l escrow_state escrow_result" where
  "on_world f s = rbind (outside (f (escrow_world s))) (\<lambda>l. Inr (s\<lparr>escrow_world := l\<rparr>))"

definition escrow_control :: "'l escrow_config \<Rightarrow> origin \<Rightarrow> unit escrow_result" where
  "escrow_control C o1 = ensure (ec_control_origin C o1) BadOrigin"

section \<open>Positions\<close>

definition create_position ::
  "'l escrow_config \<Rightarrow> account \<Rightarrow> 'l escrow_state \<Rightarrow> (nat \<times> 'l escrow_state) escrow_result" where
  "create_position C who s =
     (let p = next_position s in
      rbind (ensure (length (user_positions s who) < max_positions C) (Module ExceedsMaxPositions)) (\<lambda>_.
      Inr (p, s\<lparr>user_positions := (user_positions s)(who := user_positions s who @ [p]),
                next_position := wrapping_add p 1, position_owner := (position_owner s)(p \<mapsto> who),
                locked := (locked s)(p := no_lock)\<rparr>)))"

definition remove_position :: "account \<Rightarrow> nat \<Rightarrow> 'l escrow_state \<Rightarrow> 'l escrow_state escrow_result" where
  "remove_position who p s =
     rbind (ensure (p \<in> set (user_positions s who)) (Module LockNotExist)) (\<lambda>_.
     Inr (s\<lparr>user_positions := (user_positions s)(who := filter (\<lambda>x. x \<noteq> p) (user_positions s who)),
            position_owner := (position_owner s)(p := None), locked := (locked s)(p := no_lock),
            user_point_epoch := (user_point_epoch s)(p := 0)\<rparr>))"

text \<open>The positions by the block they expire at, at most a hundred for a block.\<close>

definition record_expiring_position :: "nat \<Rightarrow> nat \<Rightarrow> 'l escrow_state \<Rightarrow> 'l escrow_state escrow_result" where
  "record_expiring_position p t s =
     (let ps = expiring_positions s t in
      rbind (if p \<in> set ps then Inr ps
             else rbind (ensure (length ps < 100) (Module ExceedsMaxPositions)) (\<lambda>_. Inr (ps @ [p]))) (\<lambda>ps'.
      Inr (s\<lparr>expiring_positions := (expiring_positions s)(t := ps'),
             next_expiring_block :=
               (if next_expiring_block s = 0 \<or> t < next_expiring_block s then t else next_expiring_block s)\<rparr>)))"

definition remove_expiring_position :: "nat \<Rightarrow> nat \<Rightarrow> 'l escrow_state \<Rightarrow> 'l escrow_state" where
  "remove_expiring_position p t s =
     s\<lparr>expiring_positions := (expiring_positions s)(t := filter (\<lambda>x. x \<noteq> p) (expiring_positions s t))\<rparr>"

definition set_ve_locked ::
  "'l escrow_config \<Rightarrow> account \<Rightarrow> nat \<Rightarrow> 'l escrow_state \<Rightarrow> 'l escrow_state escrow_result" where
  "set_ve_locked C who n s =
     rbind (on_world (if n = 0 then ec_remove_lock C BbLock (token_type C) who
                      else ec_set_lock C BbLock (token_type C) who n) s) (\<lambda>s1.
     Inr (s1\<lparr>user_locked := (user_locked s1)(who := n)\<rparr>))"

text \<open>
  Voting power (\<open>lib.rs\<close>): the line of a lock, the advance of the sum of all lines week by week, the power of a
  position now and at an earlier block, and the power of all.
\<close>

section \<open>Lines\<close>

definition u32_mul :: "nat \<Rightarrow> nat \<Rightarrow> nat escrow_result" where
  "u32_mul a b = ok_or (chk u32_max (a * b)) (Arithmetic Overflow)"

definition week_floor :: "'l escrow_config \<Rightarrow> nat \<Rightarrow> nat escrow_result" where
  "week_floor C b =
     rbind (ok_or (checked_div b (week C)) (Arithmetic Overflow)) (\<lambda>q. u32_mul q (week C))"

text \<open>The end of the week after a block.\<close>

definition week_ceil :: "'l escrow_config \<Rightarrow> nat \<Rightarrow> nat escrow_result" where
  "week_ceil C b =
     rbind (ok_or (checked_div b (week C)) (Arithmetic Overflow)) (\<lambda>q. u32_mul (sat_add32 q 1) (week C))"

definition lock_line :: "'l escrow_config \<Rightarrow> nat \<Rightarrow> locked_balance \<Rightarrow> (int \<times> int) escrow_result" where
  "lock_line C now k =
     (if now < lk_end k \<and> 0 < lk_amount k then
        rbind (ok_or (checked_div (lk_amount k) (max_block C)) (Arithmetic Overflow)) (\<lambda>q.
        let m = min (2 ^ 127 - 1) (int q) in
        rbind (ck128 (m * (int (lk_end k) - int now))) (\<lambda>b. Inr (m, b)))
      else Inr (0, 0))"

text \<open>The bias of a point after a number of blocks.\<close>

definition decayed :: "vote_point \<Rightarrow> int \<Rightarrow> int escrow_result" where
  "decayed p n = rbind (ck128 (slope p * n)) (\<lambda>x. ck128 (bias p - x))"

section \<open>The sum of all lines\<close>

text \<open>The loop of \<open>checkpoint\<close>, with the blocks reached and the epoch; the whole weeks are put into the history.\<close>

fun advance ::
  "'l escrow_config \<Rightarrow> (nat \<Rightarrow> int) \<Rightarrow> nat \<Rightarrow> nat \<Rightarrow> nat \<Rightarrow> nat \<Rightarrow> nat \<Rightarrow> vote_point \<Rightarrow> nat \<Rightarrow> (nat \<Rightarrow> vote_point) \<Rightarrow>
     (nat \<times> vote_point \<times> (nat \<Rightarrow> vote_point)) escrow_result" where
  "advance C changes supply now 0 t0 prev p e hist = Inr (e, p, hist)"
| "advance C changes supply now (Suc n) t0 prev p e hist =
     rbind (ok_or (chk u32_max (t0 + week C)) (Arithmetic Overflow)) (\<lambda>t1.
     let (t, d) = (if now < t1 then (now, 0) else (t1, changes t1)) in
     rbind (ok_or (checked_sub t prev) (Arithmetic Overflow)) (\<lambda>dt.
     rbind (decayed p (int dt)) (\<lambda>b.
     rbind (ck128 (slope p + d)) (\<lambda>m.
     let p' = p\<lparr>bias := max 0 b, slope := max 0 m, pt_block := t\<rparr> in
     if t = now then Inr (e + 1, p'\<lparr>pt_amount := supply\<rparr>, hist)
     else advance C changes supply now n t t p' (e + 1) (hist(e + 1 := p'))))))"

text \<open>The changes of slope at the ends of the old and the new lock.\<close>

definition old_change :: "nat \<Rightarrow> nat \<Rightarrow> nat \<Rightarrow> int \<Rightarrow> int \<Rightarrow> (nat \<Rightarrow> int) \<Rightarrow> (nat \<Rightarrow> int) escrow_result" where
  "old_change now old_end new_end old_slope new_slope changes =
     (if now < old_end then
        rbind (ck128 (changes old_end + old_slope)) (\<lambda>d.
        rbind (if new_end = old_end then ck128 (d - new_slope) else Inr d) (\<lambda>d'. Inr (changes(old_end := d'))))
      else Inr changes)"

definition new_change :: "nat \<Rightarrow> nat \<Rightarrow> nat \<Rightarrow> int \<Rightarrow> int \<Rightarrow> (nat \<Rightarrow> int) \<Rightarrow> (nat \<Rightarrow> int) escrow_result" where
  "new_change now old_end new_end new_dslope new_slope changes =
     (if now < new_end \<and> old_end < new_end
      then rbind (ck128 (new_dslope - new_slope)) (\<lambda>d. Inr (changes(new_end := d))) else Inr changes)"

text \<open>\<open>checkpoint\<close> after the rewards have been updated.\<close>

definition move_line ::
  "'l escrow_config \<Rightarrow> nat \<Rightarrow> locked_balance \<Rightarrow> locked_balance \<Rightarrow> 'l escrow_state \<Rightarrow> 'l escrow_state escrow_result" where
  "move_line C p old new s =
     (let now = escrow_block s; changes = slope_changes s in
      rbind (lock_line C now old) (\<lambda>(os, ob).
      rbind (lock_line C now new) (\<lambda>(ns, nb).
      let new_dslope = (if lk_end new = 0 then 0 else changes (lk_end new));
          p0 = (if 0 < vote_epoch s then point_history s (vote_epoch s)
                else \<lparr>bias = 0, slope = 0, pt_block = now, pt_amount = vote_supply s\<rparr>) in
      rbind (week_floor C (pt_block p0)) (\<lambda>t0.
      rbind (advance C changes (vote_supply s) now 255 t0 (pt_block p0) p0 (vote_epoch s) (point_history s))
        (\<lambda>(e, q, hist).
      rbind (ck128 (ns + slope q)) (\<lambda>m1. rbind (ck128 (m1 - os)) (\<lambda>m.
      rbind (ck128 (bias q + nb)) (\<lambda>b1. rbind (ck128 (b1 - ob)) (\<lambda>b.
      rbind (old_change now (lk_end old) (lk_end new) os ns changes) (\<lambda>ch1.
      rbind (new_change now (lk_end old) (lk_end new) new_dslope ns ch1) (\<lambda>ch2.
      let ue = user_point_epoch s p + 1 in
      Inr (s\<lparr>vote_epoch := e, point_history := hist(e := q\<lparr>slope := max 0 m, bias := max 0 b\<rparr>),
             slope_changes := ch2, user_point_epoch := (user_point_epoch s)(p := ue),
             user_point_history := (user_point_history s)(p := (user_point_history s p)(ue :=
               \<lparr>bias = nb, slope = ns, pt_block = now, pt_amount = lk_amount new\<rparr>))\<rparr>))))))))))))"

section \<open>Power\<close>

definition weight :: "'l escrow_config \<Rightarrow> nat \<Rightarrow> int \<Rightarrow> nat escrow_result" where
  "weight C amount b =
     ok_or (case fx_mul_int (ec_fixed C) (vote_weight_multiplier C) (nat (max 0 b)) of
              None \<Rightarrow> None | Some w \<Rightarrow> checked_add (amount div 4) w) (Arithmetic Overflow)"

definition power_at :: "'l escrow_config \<Rightarrow> vote_point \<Rightarrow> nat \<Rightarrow> nat escrow_result" where
  "power_at C p b = rbind (decayed p (int b - int (pt_block p))) (\<lambda>x. weight C (pt_amount p) x)"

definition balance_of_position_current_block ::
  "'l escrow_config \<Rightarrow> 'l escrow_state \<Rightarrow> nat \<Rightarrow> nat escrow_result" where
  "balance_of_position_current_block C s p =
     (if lk_end (locked s p) \<le> escrow_block s \<or> user_point_epoch s p = 0 then Inr 0
      else power_at C (user_point_history s p (user_point_epoch s p)) (escrow_block s))"

text \<open>The last index from \<open>lo\<close> to \<open>hi\<close> whose block is not after \<open>b\<close>, by halving.\<close>

fun last_index :: "(nat \<Rightarrow> nat) \<Rightarrow> nat \<Rightarrow> nat \<Rightarrow> nat \<Rightarrow> nat \<Rightarrow> nat" where
  "last_index blk b 0 lo hi = lo"
| "last_index blk b (Suc n) lo hi =
     (if hi \<le> lo then lo
      else let mid = (lo + hi + 1) div 2 in
        if blk mid \<le> b then last_index blk b n mid hi else last_index blk b n lo (mid - 1))"

definition balance_of_position_at :: "'l escrow_config \<Rightarrow> 'l escrow_state \<Rightarrow> nat \<Rightarrow> nat \<Rightarrow> nat escrow_result" where
  "balance_of_position_at C s p b =
     (if lk_end (locked s p) \<le> b then Inr 0
      else power_at C (user_point_history s p
        (last_index (\<lambda>i. pt_block (user_point_history s p i)) b 128 0 (user_point_epoch s p))) b)"

definition add_power :: "(nat \<Rightarrow> nat escrow_result) \<Rightarrow> nat \<Rightarrow> nat \<Rightarrow> nat escrow_result" where
  "add_power f p n = rbind (f p) (\<lambda>m. ok_or (checked_add n m) (Arithmetic Overflow))"

definition balance_of_at :: "'l escrow_config \<Rightarrow> 'l escrow_state \<Rightarrow> account \<Rightarrow> nat \<Rightarrow> nat escrow_result" where
  "balance_of_at C s who b = rfold (add_power (\<lambda>p. balance_of_position_at C s p b)) (user_positions s who) 0"

definition balance_of_current_block :: "'l escrow_config \<Rightarrow> 'l escrow_state \<Rightarrow> account \<Rightarrow> nat escrow_result" where
  "balance_of_current_block C s who =
     rfold (add_power (balance_of_position_current_block C s)) (user_positions s who) 0"

definition escrow_balance_of ::
  "'l escrow_config \<Rightarrow> 'l escrow_state \<Rightarrow> account \<Rightarrow> nat option \<Rightarrow> nat escrow_result" where
  "escrow_balance_of C s who time =
     (case time of Some b \<Rightarrow> balance_of_at C s who b | None \<Rightarrow> balance_of_current_block C s who)"

definition find_block_epoch :: "'l escrow_state \<Rightarrow> nat \<Rightarrow> nat \<Rightarrow> nat" where
  "find_block_epoch s b max_epoch = last_index (\<lambda>i. pt_block (point_history s i)) b 128 0 max_epoch"

fun supply_loop ::
  "'l escrow_config \<Rightarrow> (nat \<Rightarrow> int) \<Rightarrow> nat \<Rightarrow> nat \<Rightarrow> nat \<Rightarrow> vote_point \<Rightarrow> vote_point escrow_result" where
  "supply_loop C changes t 0 t0 p = Inr p"
| "supply_loop C changes t (Suc n) t0 p =
     (let t1 = add32 t0 (week C); (t', d) = (if t < t1 then (t, 0) else (t1, changes t1)) in
      rbind (ok_or (checked_sub t' (pt_block p)) (Arithmetic Overflow)) (\<lambda>dt.
      rbind (decayed p (int dt)) (\<lambda>b.
      if t' = t then Inr (p\<lparr>bias := b\<rparr>)
      else supply_loop C changes t n t' (p\<lparr>bias := b, slope := wrap128 (slope p + d), pt_block := t'\<rparr>))))"

definition supply_at :: "'l escrow_config \<Rightarrow> 'l escrow_state \<Rightarrow> vote_point \<Rightarrow> nat \<Rightarrow> nat escrow_result" where
  "supply_at C s p t =
     rbind (week_floor C (pt_block p)) (\<lambda>t0.
     rbind (supply_loop C (slope_changes s) t 255 t0 p) (\<lambda>q. weight C (pt_amount q) (bias q)))"

definition vote_total_supply :: "'l escrow_config \<Rightarrow> 'l escrow_state \<Rightarrow> nat option \<Rightarrow> nat escrow_result" where
  "vote_total_supply C s time =
     supply_at C s (point_history s (vote_epoch s)) (case time of Some t \<Rightarrow> t | None \<Rightarrow> escrow_block s)"

end
