(* ===== verification/Escrow_Calls.thy ===== *)
theory Escrow_Calls
  imports Escrow_State
begin

text \<open>
  The rewards of escrow holders, \<open>pallets/bb-bnc/src/incentive.rs\<close>: a rate per block is shared out by voting power,
  through a sum of rewards per unit of power that every change brings up to date.
\<close>

definition last_time_reward_applicable :: "nat \<Rightarrow> 'l escrow_state \<Rightarrow> nat" where
  "last_time_reward_applicable pool s = min (escrow_block s) (period_finish (incentive_configs s pool))"

definition bt_add :: "currency \<Rightarrow> nat \<Rightarrow> (currency \<times> nat) list \<Rightarrow> (currency \<times> nat) list" where
  "bt_add c n m = bt_put c (case map_of m c of Some k \<Rightarrow> saturating_add k n | None \<Rightarrow> n) m"

definition bt_get :: "(currency \<times> nat) list \<Rightarrow> currency \<Rightarrow> nat" where
  "bt_get m c = (case map_of m c of Some n \<Rightarrow> n | None \<Rightarrow> 0)"

section \<open>Rewards per unit of power\<close>

definition reward_increment :: "'l escrow_config \<Rightarrow> nat \<Rightarrow> nat \<Rightarrow> nat \<Rightarrow> nat escrow_result" where
  "reward_increment C blocks rate supply =
     rbind (ok_or (checked_div (blocks * rate * multiplier C) supply) (Arithmetic Overflow)) (\<lambda>q.
     ok_or (chk u128_max q) (Arithmetic Overflow))"

definition calculate_reward_per_token ::
  "'l escrow_config \<Rightarrow> nat \<Rightarrow> 'l escrow_state \<Rightarrow> incentive_config escrow_result" where
  "calculate_reward_per_token C pool s =
     (let conf = incentive_configs s pool in
      rbind (vote_total_supply C s (Some (escrow_block s))) (\<lambda>supply.
      if supply = 0 then Inr conf
      else
        rbind (rfold (\<lambda>(c, rate) stored.
            rbind (reward_increment C (last_time_reward_applicable pool s - last_update_time conf) rate supply) (\<lambda>n.
            Inr (bt_add c n stored))) (reward_rate conf) (reward_per_token_stored conf)) (\<lambda>stored.
        Inr (conf\<lparr>reward_per_token_stored := stored\<rparr>))))"

definition put_incentive :: "nat \<Rightarrow> incentive_config \<Rightarrow> 'l escrow_state \<Rightarrow> 'l escrow_state" where
  "put_incentive pool conf s = s\<lparr>incentive_configs := (incentive_configs s)(pool := conf)\<rparr>"

definition reward_per_token ::
  "'l escrow_config \<Rightarrow> nat \<Rightarrow> 'l escrow_state \<Rightarrow> ((currency \<times> nat) list \<times> 'l escrow_state) escrow_result" where
  "reward_per_token C pool s =
     rbind (calculate_reward_per_token C pool s) (\<lambda>conf.
     Inr (reward_per_token_stored conf, put_incentive pool conf s))"

definition earned_reward ::
  "'l escrow_config \<Rightarrow> nat \<Rightarrow> (nat \<times> nat) option \<Rightarrow> nat \<Rightarrow> nat escrow_result" where
  "earned_reward C votes share n =
     rbind (ok_or (checked_div (votes * n) (multiplier C)) (Arithmetic Overflow)) (\<lambda>q.
     rbind (case share of None \<Rightarrow> Inr q
            | Some (k, total_share) \<Rightarrow> ok_or (checked_div (q * k) total_share) (Arithmetic Overflow)) (\<lambda>r.
     ok_or (chk u128_max r) (Arithmetic Overflow)))"

definition escrow_earned ::
  "'l escrow_config \<Rightarrow> nat \<Rightarrow> account \<Rightarrow> (nat \<times> nat) option \<Rightarrow> 'l escrow_state \<Rightarrow>
     ((currency \<times> nat) list \<times> 'l escrow_state) escrow_result" where
  "escrow_earned C pool who share s =
     rbind (reward_per_token C pool s) (\<lambda>(stored, s1).
     rbind (balance_of_current_block C s1 who) (\<lambda>votes.
     rbind (rfold (\<lambda>(c, n) rewards.
         rbind (earned_reward C votes share (saturating_sub n (bt_get (reward_paid s1 who) c))) (\<lambda>r.
         Inr (bt_add c r rewards))) stored (case user_rewards s1 who of Some m \<Rightarrow> m | None \<Rightarrow> [])) (\<lambda>rewards.
     Inr (rewards, s1))))"

definition update_reward ::
  "'l escrow_config \<Rightarrow> nat \<Rightarrow> account option \<Rightarrow> (nat \<times> nat) option \<Rightarrow> 'l escrow_state \<Rightarrow>
     'l escrow_state escrow_result" where
  "update_reward C pool who share s =
     rbind (reward_per_token C pool s) (\<lambda>(stored, s1).
     let s2 = put_incentive pool ((incentive_configs s1 pool)\<lparr>reward_per_token_stored := stored,
                last_update_time := last_time_reward_applicable pool s1\<rparr>) s1 in
     case who of
       None \<Rightarrow> Inr s2
     | Some a \<Rightarrow>
         rbind (escrow_earned C pool a share s2) (\<lambda>(rewards, s3).
         let s4 = (if rewards \<noteq> [] then s3\<lparr>user_rewards := (user_rewards s3)(a \<mapsto> rewards)\<rparr> else s3) in
         Inr (s4\<lparr>reward_paid := (reward_paid s4)(a := stored)\<rparr>)))"

definition update_reward_all ::
  "'l escrow_config \<Rightarrow> account \<Rightarrow> 'l escrow_state \<Rightarrow> 'l escrow_state escrow_result" where
  "update_reward_all C who s = update_reward C system_pool (Some who) None s"

section \<open>Paying rewards\<close>

definition escrow_transfer ::
  "'l escrow_config \<Rightarrow> currency \<Rightarrow> account \<Rightarrow> account \<Rightarrow> nat \<Rightarrow> 'l escrow_state \<Rightarrow> 'l escrow_state escrow_result" where
  "escrow_transfer C c a b n s = on_world (mc_transfer (ec_currencies C) c a b n) s"

definition pay_escrow_reward ::
  "'l escrow_config \<Rightarrow> account \<Rightarrow> currency \<times> nat \<Rightarrow> 'l escrow_state \<Rightarrow> 'l escrow_state escrow_result" where
  "pay_escrow_reward C who = (\<lambda>(c, n) s.
     rbind (escrow_transfer C c (incentive_pallet C) who n s) (\<lambda>s1.
     if c = Native BNC then on_world (ec_vmint C who n) s1 else Inr s1))"

definition get_rewards_inner ::
  "'l escrow_config \<Rightarrow> nat \<Rightarrow> account \<Rightarrow> (nat \<times> nat) option \<Rightarrow> 'l escrow_state \<Rightarrow> 'l escrow_state escrow_result" where
  "get_rewards_inner C pool who share s =
     rbind (update_reward C pool (Some who) share s) (\<lambda>s1.
     rbind (balance_of_current_block C s1 who) (\<lambda>votes.
     if votes = 0 then Inr s1
     else
       case user_rewards s1 who of
         None \<Rightarrow> Inr s1
       | Some rewards \<Rightarrow>
           rbind (rfold (pay_escrow_reward C who) rewards s1) (\<lambda>s2.
           Inr (emit_escrow (Rewarded who rewards) (s2\<lparr>user_rewards := (user_rewards s2)(who := None)\<rparr>)))))"

section \<open>Rounds\<close>

definition add_reward_of ::
  "'l escrow_config \<Rightarrow> account \<Rightarrow> nat \<Rightarrow> currency \<Rightarrow> incentive_config \<times> 'l escrow_state \<Rightarrow>
     (incentive_config \<times> 'l escrow_state) escrow_result" where
  "add_reward_of C who remaining c = (\<lambda>(conf, s).
     let reward = mc_free (ec_currencies C) (escrow_world s) c who in
     rbind (if remaining \<noteq> 0
            then rbind (ok_or (checked_mul (bt_get (reward_rate conf) c) remaining) (Arithmetic Overflow)) (\<lambda>leftover.
              Inr (saturating_add reward leftover))
            else Inr reward) (\<lambda>total_reward.
     rbind (ensure (total_reward \<le>
         saturating_add (mc_free (ec_currencies C) (escrow_world s) c (incentive_pallet C)) reward)
       (Module NotEnoughBalance)) (\<lambda>_.
     rbind (ok_or (checked_div total_reward (ec_block_to_balance C (rewards_duration conf))) (Arithmetic Overflow)) (\<lambda>rate.
     let conf' = conf\<lparr>reward_rate := bt_put c rate (reward_rate conf)\<rparr> in
     if reward = 0 then Inr (conf', s)
     else rbind (escrow_transfer C c who (incentive_pallet C) reward s) (\<lambda>s1. Inr (conf', s1))))))"

definition add_escrow_reward ::
  "'l escrow_config \<Rightarrow> account \<Rightarrow> incentive_config \<Rightarrow> currency list \<Rightarrow> nat \<Rightarrow> 'l escrow_state \<Rightarrow>
     (incentive_config \<times> 'l escrow_state) escrow_result" where
  "add_escrow_reward C who conf rewards remaining s = rfold (add_reward_of C who remaining) rewards (conf, s)"

text \<open>\<open>notify_reward_amount\<close> after the rewards have been updated.\<close>

definition start_reward_round ::
  "'l escrow_config \<Rightarrow> nat \<Rightarrow> account \<Rightarrow> currency list \<Rightarrow> 'l escrow_state \<Rightarrow> 'l escrow_state escrow_result" where
  "start_reward_round C pool who rewards s =
     (let conf = incentive_configs s pool; now = escrow_block s in
      rbind (add_escrow_reward C who conf rewards
        (if period_finish conf \<le> now then 0 else ec_block_to_balance C (period_finish conf - now)) s) (\<lambda>(conf', s1).
      Inr (emit_escrow (RewardAdded rewards) (put_incentive pool
        (conf'\<lparr>last_update_time := now, period_finish := sat_add32 now (rewards_duration conf'),
           incentive_controller := Some who, last_reward := rewards\<rparr>) s1))))"

definition notify_reward_amount ::
  "'l escrow_config \<Rightarrow> nat \<Rightarrow> account option \<Rightarrow> currency list \<Rightarrow> 'l escrow_state \<Rightarrow> 'l escrow_state escrow_result" where
  "notify_reward_amount C pool who rewards s =
     rbind (ok_or who (Module NoController)) (\<lambda>a.
     rbind (update_reward C pool None None s) (\<lambda>s1. start_reward_round C pool a rewards s1))"

text \<open>In the hook a failure undoes the transfers, but not the update of the rewards before them.\<close>

definition notify_in_hook :: "'l escrow_config \<Rightarrow> 'l escrow_state \<Rightarrow> 'l escrow_state" where
  "notify_in_hook C s =
     (let conf = incentive_configs s system_pool; failed = emit_escrow (NotifyRewardFailed (last_reward conf)) in
      case incentive_controller conf of
        None \<Rightarrow> failed s
      | Some a \<Rightarrow>
          (case update_reward C system_pool None None s of
             Inl e \<Rightarrow> failed s
           | Inr s1 \<Rightarrow>
               (case start_reward_round C system_pool a (last_reward conf) s1 of
                  Inl e \<Rightarrow> failed s1 | Inr s2 \<Rightarrow> s2)))"

definition auto_notify_reward ::
  "'l escrow_config \<Rightarrow> nat \<Rightarrow> nat \<Rightarrow> currency list \<Rightarrow> 'l escrow_state \<Rightarrow> 'l escrow_state escrow_result" where
  "auto_notify_reward C pool n rewards s =
     (let conf = incentive_configs s pool in
      if n = period_finish conf \<or> period_finish conf = 0
      then notify_reward_amount C pool (incentive_controller conf) rewards s else Inr s)"

definition set_incentive :: "nat \<Rightarrow> nat option \<Rightarrow> account option \<Rightarrow> 'l escrow_state \<Rightarrow> 'l escrow_state" where
  "set_incentive pool duration controller s =
     (let conf = incentive_configs s pool;
          conf' = conf\<lparr>rewards_duration := or_keep duration (rewards_duration conf),
            incentive_controller := (case controller of Some a \<Rightarrow> Some a | None \<Rightarrow> incentive_controller conf)\<rparr> in
      emit_escrow (IncentiveSet conf') (put_incentive pool conf' s))"

definition query_pending_rewards ::
  "'l escrow_config \<Rightarrow> account \<Rightarrow> 'l escrow_state \<Rightarrow> (currency \<times> nat) list escrow_result" where
  "query_pending_rewards C who s =
     rbind (ensure (incentive_controller (incentive_configs s system_pool) \<noteq> None) (Module NoController)) (\<lambda>_.
     rbind (calculate_reward_per_token C system_pool s) (\<lambda>conf.
     rfold (\<lambda>(c, n) rewards.
       case checked_sub n (bt_get (reward_paid s who) c) of
         None \<Rightarrow> Inr rewards
       | Some r \<Rightarrow>
           rbind (balance_of_current_block C s who) (\<lambda>votes.
           rbind (ok_or (checked_div (r * votes) (multiplier C)) (Arithmetic Overflow)) (\<lambda>q.
           Inr (bt_put c (min u128_max q) rewards)))) (reward_per_token_stored conf) []))"

text \<open>
  The operations of the vote escrow, \<open>pallets/bb-bnc/src/lib.rs\<close>: locking and withdrawing, the markup of locks by
  other tokens that are locked, the calls and the hook. A call that fails is rolled back.
\<close>

section \<open>Checkpoints and deposits\<close>

definition checkpoint ::
  "'l escrow_config \<Rightarrow> account \<Rightarrow> nat \<Rightarrow> locked_balance \<Rightarrow> locked_balance \<Rightarrow> 'l escrow_state \<Rightarrow>
     'l escrow_state escrow_result" where
  "checkpoint C who p old new s = rbind (update_reward_all C who s) (\<lambda>s1. move_line C p old new s1)"

definition marked_up :: "'l escrow_config \<Rightarrow> nat \<Rightarrow> locked_balance \<Rightarrow> locked_balance escrow_result" where
  "marked_up C m k =
     rbind (ok_or (case fx_mul_int (ec_fixed C) m (lk_amount k) of
                     None \<Rightarrow> None | Some x \<Rightarrow> checked_add x (lk_amount k)) (Arithmetic Overflow)) (\<lambda>n.
     Inr (k\<lparr>lk_amount := n\<rparr>))"

definition markup_calc ::
  "'l escrow_config \<Rightarrow> account \<Rightarrow> nat \<Rightarrow> locked_balance \<Rightarrow> locked_balance \<Rightarrow> user_markup_info option \<Rightarrow>
     'l escrow_state \<Rightarrow> 'l escrow_state escrow_result" where
  "markup_calc C who p old new info s =
     (case info of
        None \<Rightarrow> checkpoint C who p old new s
      | Some i \<Rightarrow>
          rbind (marked_up C (old_markup_coefficient i) old) (\<lambda>old'.
          rbind (marked_up C (markup_coefficient i) new) (\<lambda>new'. checkpoint C who p old' new' s)))"

definition deposit_for_inner ::
  "'l escrow_config \<Rightarrow> account \<Rightarrow> nat \<Rightarrow> nat \<Rightarrow> nat \<Rightarrow> locked_balance \<Rightarrow> 'l escrow_state \<Rightarrow>
     'l escrow_state escrow_result" where
  "deposit_for_inner C who p n unlock_time old s =
     rbind (ok_or (checked_add (vote_supply s) n) (Arithmetic Overflow)) (\<lambda>supply.
     rbind (ok_or (checked_add (lk_amount old) n) (Arithmetic Overflow)) (\<lambda>amount.
     let new = \<lparr>lk_amount = amount, lk_end = (if unlock_time \<noteq> 0 then unlock_time else lk_end old)\<rparr>;
         s1 = s\<lparr>vote_supply := supply, locked := (locked s)(p := new)\<rparr> in
     rbind (if n \<noteq> 0 then
              rbind (ok_or (checked_add (user_locked s1 who) n) (Arithmetic Overflow)) (\<lambda>u.
              rbind (ensure (u \<le> mc_free (ec_currencies C) (escrow_world s1) (token_type C) who)
                (Module NotEnoughBalance)) (\<lambda>_. set_ve_locked C who u s1))
            else Inr s1) (\<lambda>s2.
     rbind (markup_calc C who p old new (user_markup_infos s2 who) s2) (\<lambda>s3.
     Inr (emit_escrow (SupplyChanged (vote_supply s) supply)
       (emit_escrow (EscrowMinted who p n amount (lk_end old) (lk_end new) (escrow_block s)) s3))))))"

definition refresh_gauges :: "'l escrow_config \<Rightarrow> account \<Rightarrow> 'l escrow_state \<Rightarrow> 'l escrow_state escrow_result" where
  "refresh_gauges C who s = rbind (outside (ec_refresh_gauges C who s)) (\<lambda>l. Inr (s\<lparr>escrow_world := l\<rparr>))"

section \<open>Locks\<close>

text \<open>A time to unlock at is rounded up to the end of its week and has to lie between two bounds.\<close>

definition ensure_unlock_time :: "'l escrow_config \<Rightarrow> nat \<Rightarrow> 'l escrow_state \<Rightarrow> unit escrow_result" where
  "ensure_unlock_time C t s =
     rbind (ensure (sat_add32 (min_block (bb_configs s)) (escrow_block s) \<le> t) (Module ArgumentsError)) (\<lambda>_.
     rbind (week_ceil C (sat_add32 (max_block C) (escrow_block s))) (\<lambda>m.
     ensure (t \<le> m) (Module ArgumentsError)))"

definition create_lock_inner ::
  "'l escrow_config \<Rightarrow> account \<Rightarrow> nat \<Rightarrow> nat \<Rightarrow> 'l escrow_state \<Rightarrow> 'l escrow_state escrow_result" where
  "create_lock_inner C who n unlock_time s =
     rbind (create_position C who s) (\<lambda>(p, s1).
     rbind (ensure (min_mint (bb_configs s1) \<le> n) (Module BelowMinimumMint)) (\<lambda>_.
     rbind (week_ceil C (sat_add32 unlock_time (escrow_block s1))) (\<lambda>t.
     rbind (ensure_unlock_time C t s1) (\<lambda>_.
     rbind (ensure (lk_amount (locked s1 p) = 0) (Module LockExist)) (\<lambda>_.
     rbind (record_expiring_position p t s1) (\<lambda>s2.
     rbind (deposit_for_inner C who p n t (locked s1 p) s2) (\<lambda>s3.
     rbind (refresh_gauges C who s3) (\<lambda>s4.
     Inr (emit_escrow (LockCreated who p n 0 t) s4)))))))))"

definition increase_unlock_time_inner ::
  "'l escrow_config \<Rightarrow> account \<Rightarrow> nat \<Rightarrow> nat \<Rightarrow> 'l escrow_state \<Rightarrow> 'l escrow_state escrow_result" where
  "increase_unlock_time_inner C who p unlock_time s =
     (let k = locked s p in
      rbind (ensure (escrow_block s < lk_end k) (Module LockExpired)) (\<lambda>_.
      rbind (week_ceil C (sat_add32 unlock_time (lk_end k))) (\<lambda>t.
      rbind (ensure_unlock_time C t s) (\<lambda>_.
      rbind (ensure (0 < lk_amount k) (Module LockNotExist)) (\<lambda>_.
      rbind (record_expiring_position p t (remove_expiring_position p (lk_end k) s)) (\<lambda>s1.
      rbind (deposit_for_inner C who p 0 t k s1) (\<lambda>s2.
      rbind (refresh_gauges C who s2) (\<lambda>s3.
      Inr (emit_escrow (UnlockTimeIncreased who p (lk_end k) t) s3)))))))))"

definition increase_amount_inner ::
  "'l escrow_config \<Rightarrow> account \<Rightarrow> nat \<Rightarrow> nat \<Rightarrow> 'l escrow_state \<Rightarrow> 'l escrow_state escrow_result" where
  "increase_amount_inner C who p n s =
     rbind (ensure (min_mint (bb_configs s) \<le> n) (Module BelowMinimumMint)) (\<lambda>_.
     let k = locked s p in
     rbind (ensure (0 < lk_amount k) (Module LockNotExist)) (\<lambda>_.
     rbind (ensure (escrow_block s < lk_end k) (Module LockExpired)) (\<lambda>_.
     rbind (deposit_for_inner C who p n 0 k s) (\<lambda>s1.
     rbind (refresh_gauges C who s1) (\<lambda>s2.
     Inr (emit_escrow (AmountIncreased who p n) s2))))))"

definition deposit_for ::
  "'l escrow_config \<Rightarrow> account \<Rightarrow> nat \<Rightarrow> nat \<Rightarrow> 'l escrow_state \<Rightarrow> 'l escrow_state escrow_result" where
  "deposit_for C who p n s = deposit_for_inner C who p n 0 (locked s p) s"

section \<open>Withdrawals\<close>

definition withdraw_no_ensure ::
  "'l escrow_config \<Rightarrow> account \<Rightarrow> nat \<Rightarrow> locked_balance \<Rightarrow> nat option \<Rightarrow> 'l escrow_state \<Rightarrow>
     'l escrow_state escrow_result" where
  "withdraw_no_ensure C who p old if_fast s =
     (let n = lk_amount old in
      rbind (ok_or (checked_sub (vote_supply s) n) (Arithmetic Underflow)) (\<lambda>supply.
      rbind (ok_or (checked_sub (user_locked s who) n) (Arithmetic Underflow)) (\<lambda>u.
      rbind (set_ve_locked C who u (s\<lparr>locked := (locked s)(p := no_lock), vote_supply := supply\<rparr>)) (\<lambda>s1.
      rbind (case if_fast of
               None \<Rightarrow> Inr s1
             | Some fast \<Rightarrow>
                 if fast = 0 then Inr s1
                 else
                   rbind (ok_or (fx_mul_int (ec_fixed C) fast n) (Arithmetic Overflow)) (\<lambda>fee.
                   escrow_transfer C (token_type C) who (buy_back_account C) fee s1)) (\<lambda>s2.
      rbind (checkpoint C who p old no_lock s2) (\<lambda>s3.
      rbind (refresh_gauges C who s3) (\<lambda>s4.
      rbind (remove_position who p s4) (\<lambda>s5.
      Inr (emit_escrow (SupplyChanged (vote_supply s) supply) (emit_escrow (EscrowWithdrawn who p n) s5))))))))))"

definition withdraw_inner ::
  "'l escrow_config \<Rightarrow> account \<Rightarrow> nat \<Rightarrow> 'l escrow_state \<Rightarrow> 'l escrow_state escrow_result" where
  "withdraw_inner C who p s =
     (let k = locked s p in
      rbind (ensure (lk_end k \<le> escrow_block s) (Module LockExpired)) (\<lambda>_.
      withdraw_no_ensure C who p k None (remove_expiring_position p (lk_end k) s)))"

definition fixed_from_integer :: "nat \<Rightarrow> nat option" where
  "fixed_from_integer n = chk u128_max (n * fixed_precision)"

definition redeem_commission :: "'l escrow_config \<Rightarrow> nat \<Rightarrow> nat escrow_result" where
  "redeem_commission C remaining =
     ok_or
       (case (fixed_from_integer remaining, fixed_from_integer (one_year C), fixed_from_integer (five_years C)) of
          (Some x, Some y, Some z) \<Rightarrow>
            (case checked_add x y of
               None \<Rightarrow> None
             | Some xy \<Rightarrow>
                 map_option (\<lambda>q. min (fx_sat_pow (ec_fixed C) q 2) fixed_precision) (fx_div (ec_fixed C) xy z))
        | _ \<Rightarrow> None) (Arithmetic Overflow)"

definition redeem_unlock_inner ::
  "'l escrow_config \<Rightarrow> account \<Rightarrow> nat \<Rightarrow> 'l escrow_state \<Rightarrow> 'l escrow_state escrow_result" where
  "redeem_unlock_inner C who p s =
     (let k = locked s p in
      rbind (ensure (escrow_block s < lk_end k) (Module LockExpired)) (\<lambda>_.
      rbind (redeem_commission C (lk_end k - escrow_block s)) (\<lambda>fast.
      withdraw_no_ensure C who p k (Some fast) (remove_expiring_position p (lk_end k) s))))"

section \<open>Markup\<close>

definition update_markup_info ::
  "account \<Rightarrow> nat \<Rightarrow> user_markup_info \<Rightarrow> 'l escrow_state \<Rightarrow> user_markup_info \<times> 'l escrow_state" where
  "update_markup_info who m i s =
     (let i' = \<lparr>old_markup_coefficient = markup_coefficient i, markup_coefficient = m\<rparr> in
      (i', s\<lparr>user_markup_infos := (user_markup_infos s)(who \<mapsto> i')\<rparr>))"

definition fixed_ratio :: "nat \<Rightarrow> nat \<Rightarrow> nat escrow_result" where
  "fixed_ratio a b =
     rbind (ok_or (checked_div (fixed_precision * a) b) (Arithmetic Overflow)) (\<lambda>q.
     ok_or (chk u128_max q) (Arithmetic Overflow))"

text \<open>The coefficient of an amount of a token, of which \<open>all_locked\<close> is locked.\<close>

definition markup_of ::
  "'l escrow_config \<Rightarrow> 'l escrow_state \<Rightarrow> currency \<Rightarrow> markup_coefficient_info \<Rightarrow> nat \<Rightarrow> nat \<Rightarrow> nat escrow_result" where
  "markup_of C s c mc amount all_locked =
     rbind (fixed_ratio amount all_locked) (\<lambda>ri.
     rbind (if is_vtoken c then outside (ec_v_issuance C (escrow_world s) c)
            else Inr (ec_total_issuance C (escrow_world s) c)) (\<lambda>ti.
     rbind (ok_or (fx_mul (ec_fixed C) (rwi mc) ri) (Arithmetic Overflow)) (\<lambda>left.
     rbind (fixed_ratio amount ti) (\<lambda>x.
     rbind (ok_or (fx_mul (ec_fixed C) x (mc_coefficient mc)) (Arithmetic Overflow)) (\<lambda>right.
     rbind (ok_or (checked_add left right) (Arithmetic Overflow)) (\<lambda>b. Inr (min (hardcap mc) b)))))))"

definition no_markup :: user_markup_info where
  "no_markup = \<lparr>old_markup_coefficient = 0, markup_coefficient = 0\<rparr>"

definition locked_token_of :: "'l escrow_state \<Rightarrow> currency \<Rightarrow> account \<Rightarrow> locked_token" where
  "locked_token_of s c who = (case map_of (locked_tokens s c) who of
     Some k \<Rightarrow> k | None \<Rightarrow> \<lparr>lt_amount = 0, lt_coefficient = 0, refresh_block = escrow_block s\<rparr>)"

definition put_locked_token ::
  "'l escrow_config \<Rightarrow> currency \<Rightarrow> account \<Rightarrow> locked_token \<Rightarrow> 'l escrow_state \<Rightarrow> 'l escrow_state" where
  "put_locked_token C c who k s =
     s\<lparr>locked_tokens := (locked_tokens s)(c := sm_put (ec_account_hash C) who k (locked_tokens s c))\<rparr>"

text \<open>All positions of an account are given the line of the new coefficient.\<close>

definition remark_positions ::
  "'l escrow_config \<Rightarrow> account \<Rightarrow> user_markup_info \<Rightarrow> 'l escrow_state \<Rightarrow> 'l escrow_state escrow_result" where
  "remark_positions C who i s =
     rfold (\<lambda>p s.
       rbind (ensure (lk_amount (locked s p) \<noteq> 0) (Module ArgumentsError)) (\<lambda>_.
       markup_calc C who p (locked s p) (locked s p) (Some i) s)) (user_positions s who) s"

definition deposit_markup_inner ::
  "'l escrow_config \<Rightarrow> account \<Rightarrow> currency \<Rightarrow> nat \<Rightarrow> 'l escrow_state \<Rightarrow> 'l escrow_state escrow_result" where
  "deposit_markup_inner C who c n s =
     rbind (ok_or (markup_coefficients s c) (Module ArgumentsError)) (\<lambda>mc.
     rbind (ensure (n \<noteq> 0) (Module ArgumentsError)) (\<lambda>_.
     rbind (ok_or (checked_add (total_lock s c) n) (Arithmetic Overflow)) (\<lambda>all_locked.
     let s1 = s\<lparr>total_lock := (total_lock s)(c := all_locked)\<rparr>;
         i = (case user_markup_infos s1 who of Some i \<Rightarrow> i | None \<Rightarrow> no_markup);
         k = locked_token_of s1 c who; amount = saturating_add (lt_amount k) n in
     rbind (markup_of C s1 c mc amount all_locked) (\<lambda>m.
     let (i', s2) = update_markup_info who
           (saturating_add (saturating_sub (markup_coefficient i) (lt_coefficient k)) m) i s1 in
     rbind (on_world (ec_set_lock C MarkupLock c who amount) s2) (\<lambda>s3.
     let s4 = put_locked_token C c who
           \<lparr>lt_amount = amount, lt_coefficient = m, refresh_block = escrow_block s\<rparr> s3 in
     rbind (remark_positions C who i' s4) (\<lambda>s5.
     Inr (emit_escrow (MarkupDeposited who c n) (s5\<lparr>markup_coefficients :=
       (markup_coefficients s5)(c \<mapsto> mc\<lparr>update_block := escrow_block s\<rparr>)\<rparr>))))))))"

definition bonus ::
  "'l escrow_config \<Rightarrow> account \<Rightarrow> currency \<Rightarrow> nat \<Rightarrow> 'l escrow_state \<Rightarrow> nat escrow_result" where
  "bonus C who c n s =
     rbind (ok_or (markup_coefficients s c) (Module ArgumentsError)) (\<lambda>mc.
     rbind (ensure (n \<noteq> 0) (Module ArgumentsError)) (\<lambda>_.
     rbind (ok_or (checked_add (total_lock s c) n) (Arithmetic Overflow)) (\<lambda>all_locked.
     markup_of C s c mc (saturating_add (lt_amount (locked_token_of s c who)) n) all_locked)))"

definition withdraw_markup_inner ::
  "'l escrow_config \<Rightarrow> account \<Rightarrow> currency \<Rightarrow> 'l escrow_state \<Rightarrow> 'l escrow_state escrow_result" where
  "withdraw_markup_inner C who c s =
     rbind (ok_or (markup_coefficients s c) (Module ArgumentsError)) (\<lambda>mc.
     let s1 = s\<lparr>markup_coefficients := (markup_coefficients s)(c \<mapsto> mc\<lparr>update_block := escrow_block s\<rparr>)\<rparr>;
         i = (case user_markup_infos s1 who of Some i \<Rightarrow> i | None \<Rightarrow> no_markup) in
     rbind (ok_or (map_of (locked_tokens s1 c) who) (Module LockNotExist)) (\<lambda>k.
     let (i', s2) = update_markup_info who (saturating_sub (markup_coefficient i) (lt_coefficient k)) i s1 in
     rbind (ok_or (checked_sub (total_lock s2 c) (lt_amount k)) (Arithmetic Overflow)) (\<lambda>all_locked.
     rbind (on_world (ec_remove_lock C MarkupLock c who) (s2\<lparr>total_lock := (total_lock s2)(c := all_locked)\<rparr>)) (\<lambda>s3.
     rbind (remark_positions C who i'
       (s3\<lparr>locked_tokens := (locked_tokens s3)(c := sm_del who (locked_tokens s3 c))\<rparr>)) (\<lambda>s4.
     Inr (emit_escrow (MarkupWithdrawn who c) s4))))))"

text \<open>One account of a refresh.\<close>

definition refresh_markup ::
  "'l escrow_config \<Rightarrow> currency \<Rightarrow> markup_coefficient_info \<Rightarrow> account \<Rightarrow> locked_token \<Rightarrow> 'l escrow_state \<Rightarrow>
     'l escrow_state escrow_result" where
  "refresh_markup C c mc who k s =
     rbind (ok_or (user_markup_infos s who) (Module LockNotExist)) (\<lambda>i.
     rbind (markup_of C s c mc (lt_amount k) (total_lock s c)) (\<lambda>m.
     let (i', s1) = update_markup_info who
           (saturating_add (saturating_sub (markup_coefficient i) (lt_coefficient k)) m) i s in
     remark_positions C who i' (put_locked_token C c who
       (k\<lparr>lt_coefficient := m, refresh_block := escrow_block s\<rparr>) s1)))"

fun refresh_each ::
  "'l escrow_config \<Rightarrow> currency \<Rightarrow> markup_coefficient_info \<Rightarrow> (account \<times> locked_token) list \<Rightarrow> nat \<Rightarrow>
     'l escrow_state \<Rightarrow> (bool \<times> 'l escrow_state) escrow_result" where
  "refresh_each C c mc [] n s = Inr (True, s)"
| "refresh_each C c mc ((who, k) # ks) n s =
     (if markup_refresh_limit C \<le> n then Inr (False, s)
      else if refresh_block k \<le> update_block mc then
        rbind (refresh_markup C c mc who k s) (\<lambda>s1. refresh_each C c mc ks (n + 1) s1)
      else refresh_each C c mc ks n s)"

definition refresh_markups :: "'l escrow_config \<Rightarrow> currency \<Rightarrow> 'l escrow_state \<Rightarrow> 'l escrow_state escrow_result" where
  "refresh_markups C c s =
     rbind (ok_or (markup_coefficients s c) (Module ArgumentsError)) (\<lambda>mc.
     rbind (refresh_each C c mc (locked_tokens s c) 0 s) (\<lambda>(all_refreshed, s1).
     Inr (emit_escrow (if all_refreshed then AllRefreshed c else PartiallyRefreshed c) s1)))"

section \<open>Calls\<close>

definition set_bb_config ::
  "'l escrow_config \<Rightarrow> origin \<Rightarrow> nat option \<Rightarrow> nat option \<Rightarrow> nat option \<Rightarrow> 'l escrow_state \<Rightarrow>
     'l escrow_state escrow_result" where
  "set_bb_config C o1 mint block positions s =
     rbind (escrow_control C o1) (\<lambda>_.
     let conf = bb_configs s;
         conf' = \<lparr>min_mint = or_keep mint (min_mint conf), min_block = or_keep block (min_block conf),
                  max_positions_per_block = or_keep positions (max_positions_per_block conf)\<rparr> in
     Inr (emit_escrow (ConfigSet conf') (s\<lparr>bb_configs := conf'\<rparr>)))"

definition set_markup_coefficient ::
  "'l escrow_config \<Rightarrow> origin \<Rightarrow> currency \<Rightarrow> nat \<Rightarrow> nat \<Rightarrow> nat \<Rightarrow> 'l escrow_state \<Rightarrow> 'l escrow_state escrow_result" where
  "set_markup_coefficient C o1 c markup cap r s =
     rbind (escrow_control C o1) (\<lambda>_.
     Inr (s\<lparr>markup_coefficients := (markup_coefficients s)(c \<mapsto>
       \<lparr>mc_coefficient = markup, hardcap = cap, update_block = escrow_block s, rwi = r\<rparr>)\<rparr>))"

definition notify_rewards ::
  "'l escrow_config \<Rightarrow> origin \<Rightarrow> account \<Rightarrow> nat option \<Rightarrow> currency list \<Rightarrow> 'l escrow_state \<Rightarrow>
     'l escrow_state escrow_result" where
  "notify_rewards C o1 incentive_from duration rewards s =
     rbind (escrow_control C o1) (\<lambda>_.
     notify_reward_amount C system_pool (Some incentive_from) rewards
       (set_incentive system_pool duration (Some incentive_from) s))"

definition own_position ::
  "account \<Rightarrow> nat \<Rightarrow> 'l escrow_state \<Rightarrow> unit escrow_result" where
  "own_position who p s = ensure (p \<in> set (user_positions s who)) (Module LockNotExist)"

datatype escrow_call =
    SetBbConfig "nat option" "nat option" "nat option"
  | CreateLock nat nat
  | IncreaseAmount nat nat
  | IncreaseUnlockTime nat nat
  | EscrowWithdraw nat
  | NotifyRewards account "nat option" "currency list"
  | GetRewards
  | RedeemUnlock nat
  | SetMarkupCoefficient currency nat nat nat
  | DepositMarkup currency nat
  | WithdrawMarkup currency
  | RefreshMarkups currency

fun escrow_dispatch ::
  "'l escrow_config \<Rightarrow> origin \<Rightarrow> escrow_call \<Rightarrow> 'l escrow_state \<Rightarrow> 'l escrow_state escrow_result" where
  "escrow_dispatch C o1 (SetBbConfig m b n) s = set_bb_config C o1 m b n s"
| "escrow_dispatch C o1 (CreateLock n t) s = rbind (ensure_signed o1) (\<lambda>who. create_lock_inner C who n t s)"
| "escrow_dispatch C o1 (IncreaseAmount p n) s =
     rbind (ensure_signed o1) (\<lambda>who. rbind (own_position who p s) (\<lambda>_. increase_amount_inner C who p n s))"
| "escrow_dispatch C o1 (IncreaseUnlockTime p t) s =
     rbind (ensure_signed o1) (\<lambda>who. rbind (own_position who p s) (\<lambda>_. increase_unlock_time_inner C who p t s))"
| "escrow_dispatch C o1 (EscrowWithdraw p) s =
     rbind (ensure_signed o1) (\<lambda>who. rbind (own_position who p s) (\<lambda>_. withdraw_inner C who p s))"
| "escrow_dispatch C o1 (NotifyRewards a d rs) s = notify_rewards C o1 a d rs s"
| "escrow_dispatch C o1 GetRewards s =
     rbind (ensure_signed o1) (\<lambda>who. get_rewards_inner C system_pool who None s)"
| "escrow_dispatch C o1 (RedeemUnlock p) s =
     rbind (ensure_signed o1) (\<lambda>who. rbind (own_position who p s) (\<lambda>_. redeem_unlock_inner C who p s))"
| "escrow_dispatch C o1 (SetMarkupCoefficient c m h r) s = set_markup_coefficient C o1 c m h r s"
| "escrow_dispatch C o1 (DepositMarkup c n) s =
     rbind (ensure_signed o1) (\<lambda>who. deposit_markup_inner C who c n s)"
| "escrow_dispatch C o1 (WithdrawMarkup c) s =
     rbind (ensure_signed o1) (\<lambda>who. withdraw_markup_inner C who c s)"
| "escrow_dispatch C o1 (RefreshMarkups c) s = rbind (ensure_signed o1) (\<lambda>who. refresh_markups C c s)"

section \<open>The hook\<close>

text \<open>
  Positions that expire at one block: those done with, their number, and whether the limit was met. A withdrawal that
  fails is undone and its position kept.
\<close>

fun expire_positions ::
  "'l escrow_config \<Rightarrow> nat list \<Rightarrow> nat \<Rightarrow> 'l escrow_state \<Rightarrow> nat list \<times> nat \<times> bool \<times> 'l escrow_state" where
  "expire_positions C [] n s = ([], n, False, s)"
| "expire_positions C (p # ps) n s =
     (if max_positions_per_block (bb_configs s) \<le> n then ([], n, True, s)
      else
        let keep = (\<lambda>t. expire_positions C ps n t);
            finish = (\<lambda>t. let (done, rest) = expire_positions C ps (n + 1) t in (p # done, rest)) in
        if lk_end (locked s p) \<le> escrow_block s \<and> lk_amount (locked s p) \<noteq> 0 then
          (case position_owner s p of
             None \<Rightarrow> finish s
           | Some a \<Rightarrow>
               (case withdraw_no_ensure C a p (locked s p) None s of Inl e \<Rightarrow> keep s | Inr t \<Rightarrow> finish t))
        else finish s)"

definition expire_block ::
  "'l escrow_config \<Rightarrow> nat \<Rightarrow> nat \<Rightarrow> 'l escrow_state \<Rightarrow> nat \<times> bool \<times> 'l escrow_state" where
  "expire_block C b n s =
     (let ps = expiring_positions s b; (done, n', full, s1) = expire_positions C ps n s in
      (n', full, s1\<lparr>expiring_positions := (expiring_positions s1)(b :=
         (if length done = length ps then [] else filter (\<lambda>p. p \<notin> set done) (expiring_positions s1 b)))\<rparr>))"

text \<open>The blocks from the first that is not done to the current one; the block after the last one that was looked at.\<close>

fun expire_blocks ::
  "'l escrow_config \<Rightarrow> nat list \<Rightarrow> nat \<Rightarrow> 'l escrow_state \<Rightarrow> nat option \<times> 'l escrow_state" where
  "expire_blocks C [] n s = (None, s)"
| "expire_blocks C (b # bs) n s =
     (let (n', full, s1) = expire_block C b n s in
      if full then (Some (sat_add32 b 1), s1) else expire_blocks C bs n' s1)"

definition escrow_on_initialize :: "'l escrow_config \<Rightarrow> 'l escrow_state \<Rightarrow> 'l escrow_state" where
  "escrow_on_initialize C s =
     (let now = escrow_block s;
          s1 = (if now = period_finish (incentive_configs s system_pool) then notify_in_hook C s else s);
          first = next_expiring_block s1 in
      if first \<noteq> 0 \<and> first \<le> now then
        let (stopped, s2) = expire_blocks C [first ..< Suc now] 0 s1 in
        s2\<lparr>next_expiring_block := (case stopped of Some b \<Rightarrow> b | None \<Rightarrow> sat_add32 now 1)\<rparr>
      else s1)"

end
