(* ===== verification/Escrow_Lines.thy ===== *)
theory Escrow_Lines
  imports Escrow_Calls
begin

text \<open>
  What the operations of the vote escrow leave alone: the update of rewards touches neither locks nor points, a
  checkpoint touches points only, and whatever happens outside touches none.
\<close>

section \<open>Frames\<close>

definition same_locks :: "'l escrow_state \<Rightarrow> 'l escrow_state \<Rightarrow> bool" where
  "same_locks s t \<longleftrightarrow> vote_supply t = vote_supply s \<and> locked t = locked s \<and> user_locked t = user_locked s \<and>
     next_position t = next_position s \<and> user_positions t = user_positions s \<and> position_owner t = position_owner s \<and>
     escrow_block t = escrow_block s \<and> user_markup_infos t = user_markup_infos s \<and>
     expiring_positions t = expiring_positions s \<and> next_expiring_block t = next_expiring_block s \<and>
     bb_configs t = bb_configs s \<and> locked_tokens t = locked_tokens s"

definition same_points :: "'l escrow_state \<Rightarrow> 'l escrow_state \<Rightarrow> bool" where
  "same_points s t \<longleftrightarrow> vote_epoch t = vote_epoch s \<and> point_history t = point_history s \<and>
     slope_changes t = slope_changes s \<and> user_point_epoch t = user_point_epoch s \<and>
     user_point_history t = user_point_history s"

definition escrow_framed :: "'l escrow_state \<Rightarrow> 'l escrow_state \<Rightarrow> bool" where
  "escrow_framed s t \<longleftrightarrow> same_locks s t \<and> same_points s t"

lemma same_locks_refl [simp]: "same_locks s s"
  by (simp add: same_locks_def)

lemma same_locks_trans: "same_locks s t \<Longrightarrow> same_locks t u \<Longrightarrow> same_locks s u"
  by (simp add: same_locks_def)

lemma same_points_trans: "same_points s t \<Longrightarrow> same_points t u \<Longrightarrow> same_points s u"
  by (simp add: same_points_def)

lemma framed_refl [simp]: "escrow_framed s s"
  by (simp add: escrow_framed_def same_locks_def same_points_def)

lemma framed_trans: "escrow_framed s t \<Longrightarrow> escrow_framed t u \<Longrightarrow> escrow_framed s u"
  unfolding escrow_framed_def using same_locks_trans same_points_trans by blast

lemma framed_emit [simp]: "escrow_framed s (emit_escrow e t) = escrow_framed s t"
  by (simp add: escrow_framed_def same_locks_def same_points_def emit_escrow_def)

lemma framed_world [simp]: "escrow_framed s (t\<lparr>escrow_world := l\<rparr>) = escrow_framed s t"
  by (simp add: escrow_framed_def same_locks_def same_points_def)

lemma framed_put_incentive [simp]: "escrow_framed s (put_incentive pool conf t) = escrow_framed s t"
  by (simp add: escrow_framed_def same_locks_def same_points_def put_incentive_def)

lemma outside_Inr: "outside r = Inr x \<longleftrightarrow> r = Inr x"
  by (auto simp: outside_def split: sum.splits)

lemma on_world_result: "on_world f s = Inr t \<Longrightarrow> \<exists>l. f (escrow_world s) = Inr l \<and> t = s\<lparr>escrow_world := l\<rparr>"
  by (auto simp: on_world_def result_simps outside_Inr)

lemma on_world_framed: "on_world f s = Inr t \<Longrightarrow> escrow_framed s t"
  by (auto dest: on_world_result)

lemma rfold_framed:
  assumes "\<And>x s t. f x s = Inr t \<Longrightarrow> escrow_framed s t" and "rfold f xs s = Inr t"
  shows "escrow_framed s t"
  using assms(2)
proof (induction xs arbitrary: s)
  case (Cons x xs)
  then obtain u where "f x s = Inr u" "rfold f xs u = Inr t" by (auto simp: result_simps)
  then show ?case using assms(1) Cons.IH framed_trans by blast
qed simp

section \<open>Rewards\<close>

lemma reward_per_token_framed: "reward_per_token C pool s = Inr (m, t) \<Longrightarrow> escrow_framed s t"
  by (auto simp: reward_per_token_def result_simps)

lemma escrow_earned_framed: "escrow_earned C pool who share s = Inr (m, t) \<Longrightarrow> escrow_framed s t"
  by (auto simp: escrow_earned_def result_simps dest: reward_per_token_framed)

lemma framed_reward_fields [simp]:
  "escrow_framed s (t\<lparr>user_rewards := r\<rparr>) = escrow_framed s t" "escrow_framed s (t\<lparr>reward_paid := p\<rparr>) = escrow_framed s t"
  by (simp_all add: escrow_framed_def same_locks_def same_points_def)

lemma update_reward_framed:
  assumes "update_reward C pool who share s = Inr t"
  shows "escrow_framed s t"
proof -
  obtain stored s1 where r: "reward_per_token C pool s = Inr (stored, s1)"
    using assms by (auto simp: update_reward_def result_simps)
  define s2 where "s2 = put_incentive pool ((incentive_configs s1 pool)\<lparr>reward_per_token_stored := stored,
                last_update_time := last_time_reward_applicable pool s1\<rparr>) s1"
  have s2: "escrow_framed s s2" using reward_per_token_framed [OF r] by (simp add: s2_def)
  show ?thesis
  proof (cases who)
    case None
    then show ?thesis using assms r s2 by (simp add: update_reward_def s2_def Let_def)
  next
    case (Some a)
    then obtain m s3 where e: "escrow_earned C pool a share s2 = Inr (m, s3)"
      and t: "t = (if m \<noteq> [] then s3\<lparr>user_rewards := (user_rewards s3)(a \<mapsto> m)\<rparr> else s3)\<lparr>reward_paid :=
          (reward_paid (if m \<noteq> [] then s3\<lparr>user_rewards := (user_rewards s3)(a \<mapsto> m)\<rparr> else s3))(a := stored)\<rparr>"
      using assms r by (auto simp: update_reward_def s2_def Let_def result_simps)
    show ?thesis using framed_trans [OF s2 escrow_earned_framed [OF e]] by (auto simp: t)
  qed
qed

lemma pay_reward_framed: "pay_escrow_reward C who x s = Inr t \<Longrightarrow> escrow_framed s t"
  by (auto simp: pay_escrow_reward_def escrow_transfer_def result_simps split: prod.splits if_splits
      dest!: on_world_framed intro: framed_trans)

lemma get_rewards_framed:
  assumes "get_rewards_inner C pool who share s = Inr t"
  shows "escrow_framed s t"
proof -
  obtain s1 where u: "update_reward C pool (Some who) share s = Inr s1"
    using assms by (auto simp: get_rewards_inner_def result_simps)
  have "escrow_framed s1 t"
    using assms u rfold_framed [OF pay_reward_framed]
    by (auto simp: get_rewards_inner_def result_simps split: if_splits option.splits)
  with update_reward_framed [OF u] show ?thesis by (rule framed_trans)
qed

lemma add_reward_framed:
  "rfold (add_reward_of C who n) cs (conf, s) = Inr (conf', t) \<Longrightarrow> escrow_framed s t"
proof (induction cs arbitrary: conf s)
  case (Cons c cs)
  then obtain conf1 s1 where a: "add_reward_of C who n c (conf, s) = Inr (conf1, s1)"
    and r: "rfold (add_reward_of C who n) cs (conf1, s1) = Inr (conf', t)" by (auto simp: result_simps)
  have "escrow_framed s s1"
    using a by (auto simp: add_reward_of_def Let_def result_simps escrow_transfer_def split: if_splits dest: on_world_framed)
  then show ?case using Cons.IH [OF r] framed_trans by blast
qed simp

lemma start_round_framed: "start_reward_round C pool a rs s = Inr t \<Longrightarrow> escrow_framed s t"
  by (auto simp: start_reward_round_def add_escrow_reward_def Let_def result_simps dest: add_reward_framed)

lemma notify_framed: "notify_reward_amount C pool who rs s = Inr t \<Longrightarrow> escrow_framed s t"
  by (auto simp: notify_reward_amount_def result_simps dest!: update_reward_framed start_round_framed intro: framed_trans)

lemma notify_in_hook_framed: "escrow_framed s (notify_in_hook C s)"
proof (cases "incentive_controller (incentive_configs s system_pool)")
  case None
  then show ?thesis by (simp add: notify_in_hook_def Let_def)
next
  case (Some a)
  show ?thesis
  proof (cases "update_reward C system_pool None None s")
    case (Inl e)
    then show ?thesis using Some by (simp add: notify_in_hook_def Let_def)
  next
    case (Inr s1)
    note f = update_reward_framed [OF this]
    show ?thesis
    proof (cases "start_reward_round C system_pool a (last_reward (incentive_configs s system_pool)) s1")
      case (Inl e)
      then show ?thesis using Some Inr f by (simp add: notify_in_hook_def Let_def)
    next
      case r: (Inr t)
      then show ?thesis using Some Inr framed_trans [OF f start_round_framed [OF r]]
        by (simp add: notify_in_hook_def Let_def)
    qed
  qed
qed

section \<open>Checkpoints\<close>

lemma move_line_locks: "move_line C p old new s = Inr t \<Longrightarrow> same_locks s t"
  by (auto simp: move_line_def Let_def result_simps same_locks_def split: prod.splits)

lemma checkpoint_locks:
  assumes "checkpoint C who p old new s = Inr t"
  shows "same_locks s t"
proof -
  obtain s1 where "update_reward_all C who s = Inr s1" "move_line C p old new s1 = Inr t"
    using assms by (auto simp: checkpoint_def result_simps)
  then show ?thesis
    using update_reward_framed move_line_locks same_locks_trans unfolding update_reward_all_def escrow_framed_def by blast
qed

lemma markup_calc_locks: "markup_calc C who p old new i s = Inr t \<Longrightarrow> same_locks s t"
  by (auto simp: markup_calc_def result_simps split: option.splits dest: checkpoint_locks)

lemma refresh_gauges_framed: "refresh_gauges C who s = Inr t \<Longrightarrow> escrow_framed s t"
  by (auto simp: refresh_gauges_def result_simps)

text \<open>
  The index of positions and the sums of locks: every position has one owner and stands once on its list, what is
  locked for an account is the sum of its positions, and the supply the sum of all.
\<close>

section \<open>What deposits and withdrawals change\<close>

definition locked_more ::
  "account \<Rightarrow> nat \<Rightarrow> nat \<Rightarrow> locked_balance \<Rightarrow> 'l escrow_state \<Rightarrow> 'l escrow_state" where
  "locked_more who p n new s = s\<lparr>vote_supply := vote_supply s + n, locked := (locked s)(p := new),
     user_locked := (user_locked s)(who := user_locked s who + n)\<rparr>"

definition locked_less :: "account \<Rightarrow> nat \<Rightarrow> nat \<Rightarrow> 'l escrow_state \<Rightarrow> 'l escrow_state" where
  "locked_less who p n s = s\<lparr>vote_supply := vote_supply s - n, locked := (locked s)(p := no_lock),
     user_locked := (user_locked s)(who := user_locked s who - n)\<rparr>"

definition dropped :: "account \<Rightarrow> nat \<Rightarrow> 'l escrow_state \<Rightarrow> 'l escrow_state" where
  "dropped who p s = s\<lparr>user_positions := (user_positions s)(who := filter (\<lambda>x. x \<noteq> p) (user_positions s who)),
     position_owner := (position_owner s)(p := None), locked := (locked s)(p := no_lock),
     user_point_epoch := (user_point_epoch s)(p := 0)\<rparr>"

definition deposited :: "nat \<Rightarrow> nat \<Rightarrow> locked_balance \<Rightarrow> locked_balance" where
  "deposited n unlock_time old =
     \<lparr>lk_amount = lk_amount old + n, lk_end = (if unlock_time \<noteq> 0 then unlock_time else lk_end old)\<rparr>"

lemma set_ve_locked_result:
  assumes "set_ve_locked C who n s = Inr t"
  shows "escrow_framed (s\<lparr>user_locked := (user_locked s)(who := n)\<rparr>) t"
proof -
  obtain l where "t = (s\<lparr>escrow_world := l\<rparr>)\<lparr>user_locked := (user_locked s)(who := n)\<rparr>"
    using assms by (auto simp: set_ve_locked_def result_simps dest!: on_world_result)
  then show ?thesis by (simp add: escrow_framed_def same_locks_def same_points_def)
qed

lemma deposit_cases:
  assumes "deposit_for_inner C who p n ut old s = Inr t"
  obtains s2 s3 where "escrow_framed (locked_more who p n (deposited n ut old) s) s2"
    and "markup_calc C who p old (deposited n ut old) (user_markup_infos s who) s2 = Inr s3" and "escrow_framed s3 t"
    and "vote_supply s + n \<le> u128_max" and "lk_amount old + n \<le> u128_max"
proof -
  let ?new = "deposited n ut old"
  let ?s1 = "s\<lparr>vote_supply := vote_supply s + n, locked := (locked s)(p := ?new)\<rparr>"
  have lim: "vote_supply s + n \<le> u128_max" "lk_amount old + n \<le> u128_max"
    using assms by (auto simp: deposit_for_inner_def result_simps num_simps)
  then have more: "checked_add (vote_supply s) n = Some (vote_supply s + n)"
    "checked_add (lk_amount old) n = Some (lk_amount old + n)" by (simp_all add: checked_add_def)
  have step: "rbind (if n \<noteq> 0 then
              rbind (ok_or (checked_add (user_locked ?s1 who) n) (Arithmetic Overflow)) (\<lambda>u.
              rbind (ensure (u \<le> mc_free (ec_currencies C) (escrow_world ?s1) (token_type C) who)
                (Module NotEnoughBalance)) (\<lambda>_. set_ve_locked C who u ?s1))
            else Inr ?s1) (\<lambda>s2.
     rbind (markup_calc C who p old ?new (user_markup_infos s2 who) s2) (\<lambda>s3.
     Inr (emit_escrow (SupplyChanged (vote_supply s) (vote_supply s + n))
       (emit_escrow (EscrowMinted who p n (lk_amount old + n) (lk_end old) (lk_end ?new) (escrow_block s)) s3)))) = Inr t"
    using assms
    by (simp only: deposit_for_inner_def more ok_or_Some rbind_Inr Let_def deposited_def locked_balance.simps)
  then obtain s2 s3 where s2: "(if n \<noteq> 0 then
              rbind (ok_or (checked_add (user_locked ?s1 who) n) (Arithmetic Overflow)) (\<lambda>u.
              rbind (ensure (u \<le> mc_free (ec_currencies C) (escrow_world ?s1) (token_type C) who)
                (Module NotEnoughBalance)) (\<lambda>_. set_ve_locked C who u ?s1))
            else Inr ?s1) = Inr s2"
    and s3: "markup_calc C who p old ?new (user_markup_infos s2 who) s2 = Inr s3" and t: "escrow_framed s3 t"
    by (auto simp: rbind_eq_Inr simp del: if_split)
  have f: "escrow_framed (locked_more who p n ?new s) s2"
  proof (cases "n = 0")
    case True
    with s2 have "s2 = ?s1" by simp
    then show ?thesis using True by (simp add: locked_more_def escrow_framed_def same_locks_def same_points_def)
  next
    case False
    then have "set_ve_locked C who (user_locked s who + n) ?s1 = Inr s2"
      using s2 by (auto simp: result_simps num_simps)
    from set_ve_locked_result [OF this] show ?thesis
      by (simp add: locked_more_def escrow_framed_def same_locks_def same_points_def)
  qed
  then have "user_markup_infos s2 = user_markup_infos s" by (simp add: escrow_framed_def same_locks_def locked_more_def)
  with f s3 t lim that show thesis by simp
qed

lemma withdraw_cases:
  assumes "withdraw_no_ensure C who p old fast s = Inr t"
  obtains s2 s3 s4 where "escrow_framed (locked_less who p (lk_amount old) s) s2"
    and "checkpoint C who p old no_lock s2 = Inr s3" and "escrow_framed s3 s4" and "escrow_framed (dropped who p s4) t"
    and "p \<in> set (user_positions s who)" and "lk_amount old \<le> vote_supply s" and "lk_amount old \<le> user_locked s who"
proof -
  let ?n = "lk_amount old"
  have lim: "?n \<le> vote_supply s" "?n \<le> user_locked s who"
    using assms by (auto simp: withdraw_no_ensure_def Let_def result_simps num_simps)
  then obtain s1 s2 s3 s4 s5 where
    s1: "set_ve_locked C who (user_locked s who - ?n)
      (s\<lparr>locked := (locked s)(p := no_lock), vote_supply := vote_supply s - ?n\<rparr>) = Inr s1"
    and s2: "(case fast of
               None \<Rightarrow> Inr s1
             | Some fast \<Rightarrow>
                 if fast = 0 then Inr s1
                 else
                   rbind (ok_or (fx_mul_int (ec_fixed C) fast ?n) (Arithmetic Overflow)) (\<lambda>fee.
                   escrow_transfer C (token_type C) who (buy_back_account C) fee s1)) = Inr s2"
    and s3: "checkpoint C who p old no_lock s2 = Inr s3" and s4: "refresh_gauges C who s3 = Inr s4"
    and s5: "remove_position who p s4 = Inr s5" and t: "escrow_framed s5 t"
    using assms
    by (auto simp: withdraw_no_ensure_def Let_def rbind_eq_Inr ok_or_eq_Inr checked_sub_def simp del: if_split)
  have "escrow_framed s1 s2"
    using s2 by (auto simp: escrow_transfer_def result_simps split: option.splits if_splits dest: on_world_framed)
  moreover have "escrow_framed (locked_less who p ?n s) s1"
    using set_ve_locked_result [OF s1] by (simp add: locked_less_def escrow_framed_def same_locks_def same_points_def)
  ultimately have f: "escrow_framed (locked_less who p ?n s) s2" using framed_trans by blast
  have "user_positions s4 = user_positions s"
    using f checkpoint_locks [OF s3] refresh_gauges_framed [OF s4]
    by (simp add: escrow_framed_def same_locks_def locked_less_def)
  then have "p \<in> set (user_positions s who)" "s5 = dropped who p s4"
    using s5 by (auto simp: remove_position_def result_simps dropped_def)
  then show thesis using that [OF f s3 refresh_gauges_framed [OF s4]] t lim by simp
qed

section \<open>The index\<close>

definition escrow_index :: "'l escrow_state \<Rightarrow> bool" where
  "escrow_index s \<longleftrightarrow>
     (\<forall>who. distinct (user_positions s who)) \<and>
     (\<forall>who p. p \<in> set (user_positions s who) \<longleftrightarrow> position_owner s p = Some who) \<and>
     (\<forall>p. next_position s \<le> p \<longrightarrow> position_owner s p = None) \<and>
     (\<forall>p. position_owner s p = None \<longrightarrow> locked s p = no_lock) \<and>
     (\<forall>who. user_locked s who = (\<Sum>p\<leftarrow>user_positions s who. lk_amount (locked s p))) \<and>
     vote_supply s = (\<Sum>p<next_position s. lk_amount (locked s p))"

lemma index_same: "same_locks s t \<Longrightarrow> escrow_index t = escrow_index s"
  by (simp add: same_locks_def escrow_index_def)

lemma index_initial: "escrow_index (initial_escrow l)"
  by (simp add: escrow_index_def initial_escrow_def)

text \<open>The sums when the amount of one position changes.\<close>

lemma sum_list_upd:
  fixes f :: "nat \<Rightarrow> nat"
  assumes "distinct ps" and "p \<in> set ps"
  shows "(\<Sum>q\<leftarrow>ps. (f(p := n)) q) + f p = (\<Sum>q\<leftarrow>ps. f q) + n"
  using assms
proof (induction ps)
  case (Cons q ps)
  show ?case
  proof (cases "q = p")
    case True
    then have "(\<Sum>q\<leftarrow>ps. (f(p := n)) q) = (\<Sum>q\<leftarrow>ps. f q)" using Cons.prems by (intro arg_cong [where f = sum_list] map_cong) auto
    then show ?thesis using True by simp
  next
    case False
    then show ?thesis using Cons by simp
  qed
qed simp

lemma sum_list_untouched:
  "p \<notin> set ps \<Longrightarrow> (\<Sum>q\<leftarrow>ps. ((f :: nat \<Rightarrow> nat)(p := n)) q) = (\<Sum>q\<leftarrow>ps. f q)"
  by (intro arg_cong [where f = sum_list] map_cong) auto

lemma sum_upd:
  fixes f :: "nat \<Rightarrow> nat"
  assumes "p < N"
  shows "(\<Sum>q<N. (f(p := n)) q) + f p = (\<Sum>q<N. f q) + n"
  using sum_fun_upd [of "{..<N}" p f n] assms by (simp add: add.commute)

lemma index_put:
  assumes "escrow_index s" and "position_owner s p = Some who"
    and "locked t = (locked s)(p := k)" and "vote_supply t + lk_amount (locked s p) = vote_supply s + lk_amount k"
    and "user_locked t = (user_locked s)(who := m)"
    and "m + lk_amount (locked s p) = user_locked s who + lk_amount k"
    and "user_positions t = user_positions s" and "position_owner t = position_owner s"
    and "next_position t = next_position s"
  shows "escrow_index t"
proof -
  let ?f = "\<lambda>p. lk_amount (locked s p)"
  have f: "(\<lambda>q. lk_amount (locked t q)) = ?f(p := lk_amount k)" by (auto simp: assms(3))
  have p: "p \<in> set (user_positions s who)" "p < next_position s" "distinct (user_positions s who)"
    using assms(1,2) by (auto simp: escrow_index_def not_le [symmetric])
  have "user_locked t a = (\<Sum>p\<leftarrow>user_positions t a. lk_amount (locked t p))" for a
  proof (cases "a = who")
    case True
    have "m + ?f p = (\<Sum>q\<leftarrow>user_positions s who. (?f(p := lk_amount k)) q) + ?f p"
      using sum_list_upd [OF p(3,1), of ?f "lk_amount k"] assms(1,6) by (simp add: escrow_index_def)
    then show ?thesis unfolding assms(5,7) f using True by (simp del: fun_upd_apply add: fun_upd_same)
  next
    case False
    then have "p \<notin> set (user_positions s a)" using assms(1,2) by (auto simp: escrow_index_def)
    then show ?thesis
      using False assms(1) sum_list_untouched [of p "user_positions s a" ?f] unfolding assms(5,7) f
      by (simp del: fun_upd_apply add: fun_upd_other escrow_index_def)
  qed
  moreover have "vote_supply t = (\<Sum>p<next_position t. lk_amount (locked t p))"
    using sum_upd [OF p(2), of ?f "lk_amount k"] assms(1,4) unfolding f assms(9)
    by (simp del: fun_upd_apply add: escrow_index_def)
  ultimately show ?thesis using assms(1,2) by (simp add: escrow_index_def assms(3,7-9))
qed

lemma index_create:
  assumes "escrow_index s" and "create_position C who s = Inr (p, t)" and "next_position s < u128_max"
  shows "escrow_index t" and "position_owner t p = Some who" and "locked t p = no_lock" and "p = next_position s"
proof -
  let ?p = "next_position s"
  have t: "p = ?p" "t = s\<lparr>user_positions := (user_positions s)(who := user_positions s who @ [?p]),
      next_position := ?p + 1, position_owner := (position_owner s)(?p \<mapsto> who), locked := (locked s)(?p := no_lock)\<rparr>"
    using assms(2,3) by (auto simp: create_position_def Let_def result_simps wrapping_add_def u128_max_def)
  have none: "position_owner s ?p = None" "locked s ?p = no_lock" using assms(1) by (simp_all add: escrow_index_def)
  then have new: "?p \<notin> set (user_positions s a)" for a using assms(1) by (auto simp: escrow_index_def)
  have "locked t = locked s" using none(2) by (auto simp: t)
  then show "escrow_index t" using assms(1) new none by (auto simp: escrow_index_def t not_less_eq_eq)
  show "position_owner t p = Some who" "locked t p = no_lock" "p = ?p" by (simp_all add: t)
qed

lemma index_drop:
  assumes "escrow_index s" and "position_owner s p = Some who" and "locked s p = no_lock"
  shows "escrow_index (dropped who p s)"
proof -
  have z: "(\<Sum>q\<leftarrow>filter (\<lambda>x. x \<noteq> p) ps. lk_amount (locked s q)) = (\<Sum>q\<leftarrow>ps. lk_amount (locked s q))" for ps
    using assms(3) by (induction ps) (auto simp: no_lock_def)
  have "(locked s)(p := no_lock) = locked s" using assms(3) by auto
  then show ?thesis using assms by (auto simp: escrow_index_def dropped_def z)
qed

text \<open>
  The sum of all lines: the last point of the history and the changes of slope describe exactly the locks, when no lock
  is marked up. Locks end at whole weeks, so between two whole weeks the sum is a line itself.
\<close>

section \<open>Sums of lines\<close>

definition lk_slope :: "'l escrow_config \<Rightarrow> locked_balance \<Rightarrow> int" where
  "lk_slope C k = min (2 ^ 127 - 1) (int (lk_amount k div max_block C))"

definition line_slope :: "'l escrow_config \<Rightarrow> nat \<Rightarrow> locked_balance \<Rightarrow> int" where
  "line_slope C b k = (if b < lk_end k then lk_slope C k else 0)"

definition line_bias :: "'l escrow_config \<Rightarrow> nat \<Rightarrow> locked_balance \<Rightarrow> int" where
  "line_bias C b k = lk_slope C k * max 0 (int (lk_end k) - int b)"

definition line_end :: "'l escrow_config \<Rightarrow> nat \<Rightarrow> locked_balance \<Rightarrow> int" where
  "line_end C b k = (if lk_end k = b then lk_slope C k else 0)"

definition all_lines :: "(locked_balance \<Rightarrow> int) \<Rightarrow> (nat \<Rightarrow> locked_balance) \<Rightarrow> nat \<Rightarrow> int" where
  "all_lines f K N = (\<Sum>p<N. f (K p))"

lemma lk_slope_nonneg [simp]: "0 \<le> lk_slope C k"
  by (simp add: lk_slope_def)

lemma line_nonneg [simp]: "0 \<le> line_slope C b k" "0 \<le> line_bias C b k" "0 \<le> line_end C b k"
  by (simp_all add: line_slope_def line_bias_def line_end_def)

lemma line_no_lock [simp]: "line_slope C b no_lock = 0" "line_bias C b no_lock = 0" "line_end C b no_lock = 0"
  by (simp_all add: line_slope_def line_bias_def line_end_def lk_slope_def)

lemma all_lines_nonneg [simp]:
  "0 \<le> all_lines (line_slope C b) K N" "0 \<le> all_lines (line_bias C b) K N"
  by (simp_all add: all_lines_def sum_nonneg)

lemma all_lines_upd:
  assumes "p < N"
  shows "all_lines f (K(p := k)) N = all_lines f K N - f (K p) + f k"
proof -
  have "(\<Sum>q<N. f ((K(p := k)) q)) = f k + (\<Sum>q\<in>{..<N} - {p}. f (K q))"
    using assms by (subst sum.remove [of _ p]) (auto intro!: sum.cong)
  moreover have "(\<Sum>q<N. f (K q)) = f (K p) + (\<Sum>q\<in>{..<N} - {p}. f (K q))"
    using assms by (subst sum.remove [of _ p]) auto
  ultimately show ?thesis by (simp add: all_lines_def)
qed

text \<open>From a block to a later one, when no lock ends strictly between them.\<close>

lemma bias_step:
  assumes "\<And>p. p < N \<Longrightarrow> a < lk_end (K p) \<Longrightarrow> b \<le> lk_end (K p)" and "a \<le> b"
  shows "all_lines (line_bias C b) K N =
    all_lines (line_bias C a) K N - all_lines (line_slope C a) K N * (int b - int a)"
proof -
  have "line_bias C b (K p) = line_bias C a (K p) - line_slope C a (K p) * (int b - int a)" if "p < N" for p
    using assms(1) [OF that] assms(2)
    by (cases "a < lk_end (K p)") (auto simp: line_bias_def line_slope_def max_def algebra_simps)
  then show ?thesis by (simp add: all_lines_def sum_subtractf sum_distrib_right)
qed

lemma slope_step:
  assumes "\<And>p. p < N \<Longrightarrow> a < lk_end (K p) \<Longrightarrow> b \<le> lk_end (K p)" and "a < b"
  shows "all_lines (line_slope C b) K N = all_lines (line_slope C a) K N - all_lines (line_end C b) K N"
proof -
  have "line_slope C b (K p) = line_slope C a (K p) - line_end C b (K p)" if "p < N" for p
    using assms(1) [OF that] assms(2) by (auto simp: line_slope_def line_end_def)
  then show ?thesis by (simp add: all_lines_def sum_subtractf)
qed

lemma slope_same:
  assumes "\<And>p. p < N \<Longrightarrow> a < lk_end (K p) \<Longrightarrow> b < lk_end (K p)" and "a \<le> b"
  shows "all_lines (line_slope C b) K N = all_lines (line_slope C a) K N"
proof -
  have "line_slope C b (K p) = line_slope C a (K p)" if "p < N" for p
    using assms(1) [OF that] assms(2) by (auto simp: line_slope_def)
  then show ?thesis by (simp add: all_lines_def)
qed

definition aligned :: "'l escrow_config \<Rightarrow> (nat \<Rightarrow> locked_balance) \<Rightarrow> nat \<Rightarrow> bool" where
  "aligned C K N \<longleftrightarrow> 0 < week C \<and> (\<forall>p<N. week C dvd lk_end (K p))"

lemma next_end:
  assumes "aligned C K N" and "p < N" and "a < lk_end (K p)"
  shows "a div week C * week C + week C \<le> lk_end (K p)"
proof -
  obtain q where q: "lk_end (K p) = week C * q" using assms(1,2) by (auto simp: aligned_def elim: dvdE)
  have "a div week C < q" using assms(1,3) by (simp add: q aligned_def less_mult_imp_div_less mult.commute)
  then have "(a div week C + 1) * week C \<le> q * week C" by (intro mult_right_mono) simp_all
  then show ?thesis by (simp add: q algebra_simps)
qed

section \<open>The loops\<close>

lemma ck128_Inr: "ck128 x = Inr y \<longleftrightarrow> y = x \<and> - (2 ^ 127) \<le> x \<and> x < 2 ^ 127"
  by (auto simp: ck128_def)

lemma decayed_Inr: "decayed p n = Inr b \<Longrightarrow> b = bias p - slope p * n"
  by (auto simp: decayed_def result_simps ck128_Inr)

lemma week_start:
  fixes w :: nat
  assumes "0 < w"
  shows "a div w * w \<le> a" and "a < a div w * w + w" and "(a div w * w) div w * w = a div w * w"
  using assms dividend_less_div_times [OF assms, of a] by (simp_all add: add.commute)

lemma advance_lines:
  assumes al: "aligned C K N" and ch: "\<And>t. B < t \<Longrightarrow> changes t = - all_lines (line_end C t) K N"
  shows "advance C changes supply now n t0 prev p e hist = Inr (e', q, hist') \<Longrightarrow>
    t0 = prev div week C * week C \<Longrightarrow> B \<le> prev \<Longrightarrow> prev \<le> now \<Longrightarrow> now < t0 + n * week C \<Longrightarrow>
    slope p = all_lines (line_slope C prev) K N \<Longrightarrow> bias p = all_lines (line_bias C prev) K N \<Longrightarrow>
    slope q = all_lines (line_slope C now) K N \<and> bias q = all_lines (line_bias C now) K N \<and>
    pt_block q = now \<and> pt_amount q = supply \<and> e < e'"
proof (induction n arbitrary: t0 prev p e hist)
  case 0
  have "0 < week C" using al by (simp add: aligned_def)
  from week_start(1) [OF this, of prev] have "t0 \<le> prev" using 0(2) by (simp only:)
  then show ?case using 0(4,5) by simp
next
  case (Suc n)
  have w: "0 < week C" using al by (simp add: aligned_def)
  let ?t1 = "t0 + week C"
  have ends: "?t1 \<le> lk_end (K p)" if "p < N" "prev < lk_end (K p)" for p
    using next_end [OF al that] Suc.prems(2) by simp
  have pt: "prev < ?t1" using week_start(2) [OF w, of prev] Suc.prems(2) by simp
  show ?case
  proof (cases "now < ?t1")
    case True
    from Suc.prems(1) True obtain b m where b: "decayed p (int now - int prev) = Inr b"
      and m: "ck128 (slope p) = (Inr m :: int escrow_result)" and q: "e' = e + 1"
      "q = p\<lparr>bias := max 0 b, slope := max 0 m, pt_block := now, pt_amount := supply\<rparr>"
      using Suc.prems(4) by (auto simp: result_simps Let_def checked_sub_def)
    have "all_lines (line_bias C now) K N = all_lines (line_bias C prev) K N -
        all_lines (line_slope C prev) K N * (int now - int prev)"
      using ends True Suc.prems(4) by (intro bias_step) (meson less_imp_le order_trans)+
    then have "b = all_lines (line_bias C now) K N"
      using decayed_Inr [OF b] Suc.prems(6,7) by simp
    moreover have "all_lines (line_slope C now) K N = all_lines (line_slope C prev) K N"
      using ends True Suc.prems(4) by (intro slope_same) (meson less_le_trans)+
    then have "m = all_lines (line_slope C now) K N" using m Suc.prems(6) by (simp add: ck128_Inr)
    ultimately show ?thesis by (simp add: q max_def)
  next
    case False
    from Suc.prems(1) False obtain b m where b: "decayed p (int ?t1 - int prev) = Inr b"
      and m: "ck128 (slope p + changes ?t1) = (Inr m :: int escrow_result)"
      and r: "(if ?t1 = now
         then Inr (e + 1, p\<lparr>bias := max 0 b, slope := max 0 m, pt_block := ?t1, pt_amount := supply\<rparr>, hist)
         else advance C changes supply now n ?t1 ?t1 (p\<lparr>bias := max 0 b, slope := max 0 m, pt_block := ?t1\<rparr>) (e + 1)
           (hist(e + 1 := p\<lparr>bias := max 0 b, slope := max 0 m, pt_block := ?t1\<rparr>))) = Inr (e', q, hist')"
      using pt by (auto simp: result_simps Let_def checked_sub_def simp del: if_split)
    have bb: "b = all_lines (line_bias C ?t1) K N"
      using decayed_Inr [OF b] bias_step [of N prev K ?t1 C] ends pt Suc.prems(6,7) by simp
    have mm: "m = all_lines (line_slope C ?t1) K N"
      using m slope_step [of N prev K ?t1 C] ends pt ch [of ?t1] Suc.prems(3,6) by (simp add: ck128_Inr)
    show ?thesis
    proof (cases "?t1 = now")
      case True
      then show ?thesis using r bb mm by (auto simp: max_def)
    next
      case no: False
      have "?t1 = ?t1 div week C * week C" using w Suc.prems(2) by simp
      moreover have "advance C changes supply now n ?t1 ?t1 (p\<lparr>bias := max 0 b, slope := max 0 m, pt_block := ?t1\<rparr>)
          (e + 1) (hist(e + 1 := p\<lparr>bias := max 0 b, slope := max 0 m, pt_block := ?t1\<rparr>)) = Inr (e', q, hist')"
        using r no by simp
      ultimately have "slope q = all_lines (line_slope C now) K N \<and> bias q = all_lines (line_bias C now) K N \<and>
          pt_block q = now \<and> pt_amount q = supply \<and> e + 1 < e'"
        using Suc.IH [of ?t1 ?t1 "p\<lparr>bias := max 0 b, slope := max 0 m, pt_block := ?t1\<rparr>" "e + 1"]
          bb mm pt Suc.prems(3,5) False by (simp add: max_def)
      then show ?thesis by simp
    qed
  qed
qed

text \<open>
  The last point of the history and the changes of slope describe the locks: a checkpoint keeps that, and the total
  supply of votes is the weight of all locks and of the sum of their lines.
\<close>

section \<open>The sum after a checkpoint\<close>

definition points_agree ::
  "'l escrow_config \<Rightarrow> (nat \<Rightarrow> locked_balance) \<Rightarrow> nat \<Rightarrow> nat \<Rightarrow> vote_point \<Rightarrow> (nat \<Rightarrow> int) \<Rightarrow> bool" where
  "points_agree C K N now q changes \<longleftrightarrow>
     pt_block q \<le> now \<and> slope q < 2 ^ 127 \<and>
     slope q = all_lines (line_slope C (pt_block q)) K N \<and> bias q = all_lines (line_bias C (pt_block q)) K N \<and>
     (\<forall>t > pt_block q. changes t = - all_lines (line_end C t) K N)"

text \<open>The lines of the locks \<open>K\<close>; before the first checkpoint there are none.\<close>

definition lines_agree :: "'l escrow_config \<Rightarrow> (nat \<Rightarrow> locked_balance) \<Rightarrow> nat \<Rightarrow> 'l escrow_state \<Rightarrow> bool" where
  "lines_agree C K N s \<longleftrightarrow> aligned C K N \<and>
     (if vote_epoch s = 0 then (\<forall>p<N. K p = no_lock) \<and> (\<forall>t. slope_changes s t = 0)
      else points_agree C K N (escrow_block s) (point_history s (vote_epoch s)) (slope_changes s))"

text \<open>The point a checkpoint starts from, and that it is not too long ago.\<close>

definition last_point :: "'l escrow_state \<Rightarrow> vote_point" where
  "last_point s = (if 0 < vote_epoch s then point_history s (vote_epoch s)
     else \<lparr>bias = 0, slope = 0, pt_block = escrow_block s, pt_amount = vote_supply s\<rparr>)"

definition punctual :: "'l escrow_config \<Rightarrow> 'l escrow_state \<Rightarrow> bool" where
  "punctual C s \<longleftrightarrow> escrow_block s < pt_block (last_point s) + 254 * week C"

definition moves_to :: "'l escrow_config \<Rightarrow> nat \<Rightarrow> locked_balance \<Rightarrow> locked_balance \<Rightarrow> bool" where
  "moves_to C now old new \<longleftrightarrow>
     new = no_lock \<or> (now < lk_end new \<and> lk_end old \<le> lk_end new \<and> week C dvd lk_end new)"

lemma lock_line_result:
  assumes "lock_line C now k = Inr (m, b)"
  shows "m = line_slope C now k \<and> b = line_bias C now k"
  using assms
  by (cases "lk_amount k = 0")
    (auto simp: lock_line_def line_slope_def line_bias_def lk_slope_def Let_def result_simps ck128_Inr checked_div_def
      split: if_splits)

lemma last_point_agrees:
  assumes "lines_agree C K N s"
  shows "points_agree C K N (escrow_block s) (last_point s) (slope_changes s)"
proof (cases "vote_epoch s = 0")
  case True
  then have "K p = no_lock" if "p < N" for p using assms that by (simp add: lines_agree_def)
  then have "all_lines f K N = 0" if "f no_lock = 0" for f
    using that unfolding all_lines_def by (intro sum.neutral) simp
  then show ?thesis using True assms by (simp add: points_agree_def last_point_def lines_agree_def)
next
  case False
  then show ?thesis using assms by (simp add: last_point_def lines_agree_def)
qed

lemma changes_moved:
  assumes ch: "\<And>t. B < t \<Longrightarrow> changes t = - all_lines (line_end C t) K N" and b: "B \<le> now"
    and p: "p < N" "K p = old" and new: "moves_to C now old new"
    and o1: "old_change now (lk_end old) (lk_end new) (line_slope C now old) (line_slope C now new) changes = Inr ch1"
    and n1: "new_change now (lk_end old) (lk_end new) (if lk_end new = 0 then 0 else changes (lk_end new))
      (line_slope C now new) ch1 = Inr ch2"
    and t: "now < t"
  shows "ch2 t = - all_lines (line_end C t) (K(p := new)) N"
proof -
  have rhs: "- all_lines (line_end C t) (K(p := new)) N = changes t + line_end C t old - line_end C t new"
    using ch [of t] b t p by (simp add: all_lines_upd)
  have "ch1 t = changes t + line_end C t old - (if lk_end new = lk_end old then line_end C t new else 0)"
    using o1 t by (auto simp: old_change_def result_simps ck128_Inr line_end_def line_slope_def split: if_splits)
  moreover have "ch2 t = ch1 t - (if lk_end new = lk_end old then 0 else line_end C t new)"
    using n1 calculation t new
    by (auto simp: new_change_def moves_to_def result_simps ck128_Inr line_end_def line_slope_def lk_slope_def
        split: if_splits)
  ultimately show ?thesis using rhs by simp
qed

lemma move_line_lines:
  assumes m: "move_line C p old new s = Inr t" and l: "lines_agree C K N s" and p: "p < N" "K p = old"
    and new: "moves_to C (escrow_block s) old new" and pu: "punctual C s"
  shows "lines_agree C (K(p := new)) N t" and "0 < vote_epoch t"
    and "pt_amount (point_history t (vote_epoch t)) = vote_supply s"
    and "user_point_epoch t = (user_point_epoch s)(p := user_point_epoch s p + 1)"
    and "\<And>q. q \<noteq> p \<Longrightarrow> user_point_history t q = user_point_history s q"
    and "user_point_history t p = (user_point_history s p)(user_point_epoch s p + 1 :=
      \<lparr>bias = line_bias C (escrow_block s) new, slope = line_slope C (escrow_block s) new,
       pt_block = escrow_block s, pt_amount = lk_amount new\<rparr>)"
    and "pt_block (point_history t (vote_epoch t)) = escrow_block s"
proof -
  let ?now = "escrow_block s" let ?L = "last_point s" let ?ch = "slope_changes s"
  obtain os ob ns nb t0 e q hist m1 m b1 b ch1 ch2 where
    o1: "lock_line C ?now old = Inr (os, ob)" and n1: "lock_line C ?now new = Inr (ns, nb)"
    and t0: "week_floor C (pt_block ?L) = Inr t0"
    and a: "advance C ?ch (vote_supply s) ?now 255 t0 (pt_block ?L) ?L (vote_epoch s) (point_history s) = Inr (e, q, hist)"
    and m1: "ck128 (ns + slope q) = (Inr m1 :: int escrow_result)" and m2: "ck128 (m1 - os) = (Inr m :: int escrow_result)"
    and b1: "ck128 (bias q + nb) = (Inr b1 :: int escrow_result)" and b2: "ck128 (b1 - ob) = (Inr b :: int escrow_result)"
    and c1: "old_change ?now (lk_end old) (lk_end new) os ns ?ch = Inr ch1"
    and c2: "new_change ?now (lk_end old) (lk_end new) (if lk_end new = 0 then 0 else ?ch (lk_end new)) ns ch1 = Inr ch2"
    and t: "t = s\<lparr>vote_epoch := e, point_history := hist(e := q\<lparr>slope := max 0 m, bias := max 0 b\<rparr>),
             slope_changes := ch2, user_point_epoch := (user_point_epoch s)(p := user_point_epoch s p + 1),
             user_point_history := (user_point_history s)(p := (user_point_history s p)(user_point_epoch s p + 1 :=
               \<lparr>bias = nb, slope = ns, pt_block = ?now, pt_amount = lk_amount new\<rparr>))\<rparr>"
    using m unfolding move_line_def last_point_def [symmetric] Let_def
    by (auto simp: rbind_eq_Inr simp del: if_split split: prod.splits)
  note os = lock_line_result [OF o1] and ns = lock_line_result [OF n1]
  note L = last_point_agrees [OF l, unfolded points_agree_def]
  have al: "aligned C K N" using l by (simp add: lines_agree_def)
  then have w: "0 < week C" by (simp add: aligned_def)
  have t0: "t0 = pt_block ?L div week C * week C"
    using t0 by (auto simp: week_floor_def u32_mul_def result_simps checked_div_def split: if_splits)
  have "slope q = all_lines (line_slope C ?now) K N \<and> bias q = all_lines (line_bias C ?now) K N \<and>
      pt_block q = ?now \<and> pt_amount q = vote_supply s \<and> vote_epoch s < e"
    using week_start(2) [OF w, of "pt_block ?L"] pu L unfolding punctual_def
    by (intro advance_lines [OF al _ a t0 order_refl]) (auto simp: t0 algebra_simps)
  note q = this
  have pl: "m = all_lines (line_slope C ?now) (K(p := new)) N" "b = all_lines (line_bias C ?now) (K(p := new)) N" "m < 2 ^ 127"
    using m1 m2 b1 b2 q os ns p by (simp_all add: ck128_Inr all_lines_upd)
  have "ch2 u = - all_lines (line_end C u) (K(p := new)) N" if "?now < u" for u
    using changes_moved [of "pt_block ?L" ?ch C K N ?now p old new ch1 ch2 u] L p new c1 c2 that os ns by auto
  moreover have "aligned C (K(p := new)) N" using al new by (auto simp: aligned_def moves_to_def)
  ultimately show "lines_agree C (K(p := new)) N t"
    using q pl by (simp add: lines_agree_def points_agree_def t)
  show "0 < vote_epoch t" using q by (simp add: t)
  show "pt_amount (point_history t (vote_epoch t)) = vote_supply s" using q by (simp add: t)
  show "user_point_epoch t = (user_point_epoch s)(p := user_point_epoch s p + 1)" by (simp add: t)
  show "user_point_history t r = user_point_history s r" if "r \<noteq> p" for r using that by (simp add: t)
  show "user_point_history t p = (user_point_history s p)(user_point_epoch s p + 1 :=
      \<lparr>bias = line_bias C ?now new, slope = line_slope C ?now new, pt_block = ?now, pt_amount = lk_amount new\<rparr>)"
    using ns by (simp add: t)
  show "pt_block (point_history t (vote_epoch t)) = ?now" using q by (simp add: t)
qed

section \<open>The total supply\<close>

lemma wrap128_id: "0 \<le> x \<Longrightarrow> x < 2 ^ 127 \<Longrightarrow> wrap128 x = x"
  by (simp add: wrap128_def)

lemma slope_falls:
  assumes "a \<le> b"
  shows "all_lines (line_slope C b) K N \<le> all_lines (line_slope C a) K N"
  unfolding all_lines_def by (rule sum_mono) (use assms in \<open>auto simp: line_slope_def\<close>)

lemma supply_loop_lines:
  assumes al: "aligned C K N" and ch: "\<And>u. B < u \<Longrightarrow> changes u = - all_lines (line_end C u) K N"
    and lim: "t + week C \<le> u32_max"
  shows "supply_loop C changes t n t0 p = Inr q \<Longrightarrow>
    t0 = pt_block p div week C * week C \<Longrightarrow> B \<le> pt_block p \<Longrightarrow> pt_block p \<le> t \<Longrightarrow> t < t0 + n * week C \<Longrightarrow>
    slope p = all_lines (line_slope C (pt_block p)) K N \<Longrightarrow> slope p < 2 ^ 127 \<Longrightarrow>
    bias p = all_lines (line_bias C (pt_block p)) K N \<Longrightarrow>
    bias q = all_lines (line_bias C t) K N \<and> pt_amount q = pt_amount p"
proof (induction n arbitrary: t0 p)
  case 0
  have "0 < week C" using al by (simp add: aligned_def)
  from week_start(1) [OF this, of "pt_block p"] have "t0 \<le> pt_block p" using 0(2) by (simp only:)
  then show ?case using 0(4,5) by simp
next
  case (Suc n)
  have w: "0 < week C" using al by (simp add: aligned_def)
  let ?t1 = "t0 + week C"
  have pt: "pt_block p < ?t1" "t0 \<le> pt_block p"
    using week_start(1,2) [OF w, of "pt_block p"] Suc.prems(2) by (simp_all only:)
  have add: "add32 t0 (week C) = ?t1"
    using pt lim Suc.prems(4) by (simp add: add32_def u32_max_def)
  have ends: "?t1 \<le> lk_end (K r)" if "r < N" "pt_block p < lk_end (K r)" for r
    using next_end [OF al that] Suc.prems(2) by simp
  show ?case
  proof (cases "t < ?t1")
    case True
    then obtain b where b: "decayed p (int t - int (pt_block p)) = Inr b" and q: "q = p\<lparr>bias := b\<rparr>"
      using Suc.prems(1,4) by (auto simp: add result_simps Let_def checked_sub_def)
    have "all_lines (line_bias C t) K N = all_lines (line_bias C (pt_block p)) K N -
        all_lines (line_slope C (pt_block p)) K N * (int t - int (pt_block p))"
      using ends True Suc.prems(4) by (intro bias_step) (meson less_imp_le order_trans)+
    then show ?thesis using decayed_Inr [OF b] Suc.prems(6,8) by (simp add: q)
  next
    case False
    let ?p = "\<lambda>b. p\<lparr>bias := b, slope := wrap128 (slope p + changes ?t1), pt_block := ?t1\<rparr>"
    from False obtain b where b: "decayed p (int ?t1 - int (pt_block p)) = Inr b"
      and r: "(if ?t1 = t then Inr (p\<lparr>bias := b\<rparr>) else supply_loop C changes t n ?t1 (?p b)) = Inr q"
      using Suc.prems(1) pt by (auto simp: add result_simps Let_def checked_sub_def simp del: if_split)
    have bb: "b = all_lines (line_bias C ?t1) K N"
      using decayed_Inr [OF b] bias_step [of N "pt_block p" K ?t1 C] ends pt Suc.prems(6,8) by simp
    show ?thesis
    proof (cases "?t1 = t")
      case True
      then show ?thesis using r bb by auto
    next
      case no: False
      have m: "slope p + changes ?t1 = all_lines (line_slope C ?t1) K N"
        using slope_step [of N "pt_block p" K ?t1 C] ends pt ch [of ?t1] Suc.prems(3,6) by simp
      then have mm: "wrap128 (slope p + changes ?t1) = all_lines (line_slope C ?t1) K N"
          "all_lines (line_slope C ?t1) K N < 2 ^ 127"
        using slope_falls [of "pt_block p" ?t1 C K N] pt Suc.prems(6,7) by (simp_all add: wrap128_id)
      have "?t1 = ?t1 div week C * week C" using w Suc.prems(2) by simp
      with Suc.IH [of ?t1 "?p b"] show ?thesis
        using r no False bb mm pt Suc.prems(3,5) by simp
    qed
  qed
qed

lemma total_supply_lines:
  assumes l: "lines_agree C K N s" and e: "0 < vote_epoch s" and v: "vote_total_supply C s None = Inr V"
    and a: "pt_amount (point_history s (vote_epoch s)) = vote_supply s"
    and pu: "punctual C s" and lim: "escrow_block s + week C \<le> u32_max"
  shows "weight C (vote_supply s) (all_lines (line_bias C (escrow_block s)) K N) = Inr V"
proof -
  let ?L = "point_history s (vote_epoch s)"
  have L: "points_agree C K N (escrow_block s) ?L (slope_changes s)" and al: "aligned C K N"
    using l e by (simp_all add: lines_agree_def)
  then have w: "0 < week C" by (simp add: aligned_def)
  obtain q where q: "supply_loop C (slope_changes s) (escrow_block s) 255 (pt_block ?L div week C * week C) ?L = Inr q"
    and wt: "weight C (pt_amount q) (bias q) = Inr V"
    using v by (auto simp: vote_total_supply_def supply_at_def week_floor_def u32_mul_def result_simps checked_div_def
        split: if_splits)
  have "bias q = all_lines (line_bias C (escrow_block s)) K N \<and> pt_amount q = pt_amount ?L"
    using supply_loop_lines [OF al _ lim q refl] L week_start(2) [OF w, of "pt_block ?L"] pu e
    by (auto simp: points_agree_def punctual_def last_point_def algebra_simps)
  with wt a show ?thesis by simp
qed

end
