(* ===== verification/Escrow_Runs.thy ===== *)
theory Escrow_Runs
  imports Escrow_Lines
begin

text \<open>
  Runs of the vote escrow in which nothing is locked for a markup: blocks, their hook and all calls but
  \<open>deposit_markup\<close>. The index, the sums and the lines agree after every step.
\<close>

section \<open>The invariant\<close>

definition in_order :: "(nat \<Rightarrow> vote_point) \<Rightarrow> nat \<Rightarrow> bool" where
  "in_order h n \<longleftrightarrow> pt_block (h 0) = 0 \<and> (\<forall>i j. i \<le> j \<longrightarrow> j \<le> n \<longrightarrow> pt_block (h i) \<le> pt_block (h j))"

lemma in_order_zero: "in_order h 0 = (pt_block (h 0) = 0)"
  by (auto simp: in_order_def)

lemma in_order_start: "in_order h n \<Longrightarrow> in_order h 0"
  by (simp add: in_order_def)

lemma in_order_put:
  assumes "in_order h n" and "pt_block (h n) \<le> pt_block u"
  shows "in_order (h(Suc n := u)) (Suc n)"
proof -
  have "pt_block ((h(Suc n := u)) i) \<le> pt_block ((h(Suc n := u)) j)" if "i \<le> j" "j \<le> Suc n" for i j
  proof (cases "j = Suc n")
    case True
    have "i \<le> n \<Longrightarrow> pt_block (h i) \<le> pt_block u"
      using assms order_trans unfolding in_order_def by blast
    then show ?thesis using True that(1) by (cases "i = Suc n") simp_all
  next
    case False
    then show ?thesis using assms(1) that by (auto simp: in_order_def)
  qed
  then show ?thesis using assms(1) by (simp add: in_order_def)
qed

definition user_points_agree :: "'l escrow_config \<Rightarrow> 'l escrow_state \<Rightarrow> nat \<Rightarrow> bool" where
  "user_points_agree C s p \<longleftrightarrow>
     (let u = user_point_history s p (user_point_epoch s p) in
      in_order (user_point_history s p) (user_point_epoch s p) \<and>
      (0 < user_point_epoch s p \<longrightarrow> pt_block u \<le> escrow_block s \<and> pt_amount u = lk_amount (locked s p) \<and>
        slope u = line_slope C (pt_block u) (locked s p) \<and> bias u = line_bias C (pt_block u) (locked s p)))"

definition unmarked :: "'l escrow_state \<Rightarrow> bool" where
  "unmarked s \<longleftrightarrow> (\<forall>who. user_markup_infos s who = None) \<and> (\<forall>c. locked_tokens s c = [])"

definition escrow_ok :: "'l escrow_config \<Rightarrow> 'l escrow_state \<Rightarrow> bool" where
  "escrow_ok C s \<longleftrightarrow> escrow_index s \<and> lines_agree C (locked s) (next_position s) s \<and>
     (0 < vote_epoch s \<longrightarrow> pt_amount (point_history s (vote_epoch s)) = vote_supply s) \<and>
     (\<forall>p. user_points_agree C s p) \<and> (\<forall>p. lk_end (locked s p) \<le> u32_max) \<and> unmarked s \<and> punctual C s"

lemma escrow_okD:
  assumes "escrow_ok C s"
  shows "escrow_index s" "lines_agree C (locked s) (next_position s) s" "unmarked s" "punctual C s"
    "lk_end (locked s p) \<le> u32_max" "user_points_agree C s p" "aligned C (locked s) (next_position s)" "0 < week C"
    "0 < vote_epoch s \<Longrightarrow> pt_amount (point_history s (vote_epoch s)) = vote_supply s"
  using assms by (simp_all add: escrow_ok_def lines_agree_def aligned_def)

lemma same_points_lines:
  assumes "same_points s t" and "escrow_block t = escrow_block s"
  shows "lines_agree C K N t = lines_agree C K N s" and "punctual C t = punctual C s"
  using assms by (simp_all add: same_points_def lines_agree_def punctual_def last_point_def)

lemma escrow_ok_framed:
  assumes "escrow_framed s t"
  shows "escrow_ok C t = escrow_ok C s"
proof -
  have l: "same_locks s t" and p: "same_points s t" using assms by (simp_all add: escrow_framed_def)
  have b: "escrow_block t = escrow_block s" using l by (simp add: same_locks_def)
  have u: "user_points_agree C t = user_points_agree C s"
    using l p by (intro ext) (simp add: user_points_agree_def same_points_def same_locks_def)
  have m: "unmarked t = unmarked s" using l by (simp add: unmarked_def same_locks_def)
  show ?thesis unfolding escrow_ok_def
    using index_same [OF l] same_points_lines [OF p b] u m l p by (simp add: same_locks_def same_points_def)
qed

lemma escrow_ok_expiring [simp]:
  "escrow_ok C (s\<lparr>expiring_positions := x\<rparr>) = escrow_ok C s"
  "escrow_ok C (s\<lparr>expiring_positions := x, next_expiring_block := y\<rparr>) = escrow_ok C s"
  "escrow_ok C (s\<lparr>next_expiring_block := y\<rparr>) = escrow_ok C s"
  by (simp_all add: escrow_ok_def escrow_index_def lines_agree_def user_points_agree_def unmarked_def punctual_def
      last_point_def)

section \<open>Deposits and withdrawals\<close>

text \<open>A checkpoint after the lock of a position has been changed.\<close>

lemma checkpoint_lines:
  assumes c: "checkpoint C who p old new s = Inr t" and l: "lines_agree C K N s" and p: "p < N" "K p = old"
    and new: "moves_to C (escrow_block s) old new" and pu: "punctual C s"
  shows "lines_agree C (K(p := new)) N t" and "0 < vote_epoch t"
    and "pt_amount (point_history t (vote_epoch t)) = vote_supply s"
    and "user_point_epoch t = (user_point_epoch s)(p := user_point_epoch s p + 1)"
    and "\<And>q. q \<noteq> p \<Longrightarrow> user_point_history t q = user_point_history s q"
    and "user_point_history t p = (user_point_history s p)(user_point_epoch s p + 1 :=
      \<lparr>bias = line_bias C (escrow_block s) new, slope = line_slope C (escrow_block s) new,
       pt_block = escrow_block s, pt_amount = lk_amount new\<rparr>)"
    and "pt_block (last_point t) = escrow_block s"
proof -
  obtain s1 where u: "update_reward_all C who s = Inr s1" and m: "move_line C p old new s1 = Inr t"
    using c by (auto simp: checkpoint_def result_simps)
  have f: "escrow_framed s s1" using u update_reward_framed unfolding update_reward_all_def by blast
  then have e: "escrow_block s1 = escrow_block s" "same_points s s1" "vote_supply s1 = vote_supply s"
    "user_point_epoch s1 = user_point_epoch s" "user_point_history s1 = user_point_history s"
    by (simp_all add: escrow_framed_def same_locks_def same_points_def)
  note same = same_points_lines [OF e(2,1)]
  have l1: "lines_agree C K N s1" and pu1: "punctual C s1" using l pu by (simp_all only: same)
  have new1: "moves_to C (escrow_block s1) old new" using new by (simp only: e(1))
  note r = move_line_lines [OF m l1 p new1 pu1]
  show "lines_agree C (K(p := new)) N t" "0 < vote_epoch t"
    "pt_amount (point_history t (vote_epoch t)) = vote_supply s"
    "user_point_epoch t = (user_point_epoch s)(p := user_point_epoch s p + 1)"
    "user_point_history t p = (user_point_history s p)(user_point_epoch s p + 1 :=
      \<lparr>bias = line_bias C (escrow_block s) new, slope = line_slope C (escrow_block s) new,
       pt_block = escrow_block s, pt_amount = lk_amount new\<rparr>)"
    using r(1-4,6) unfolding e by simp_all
  show "user_point_history t q = user_point_history s q" if "q \<noteq> p" for q using r(5) [OF that] e by simp
  show "pt_block (last_point t) = escrow_block s" using r(2,7) e by (simp add: last_point_def)
qed

definition moved :: "'l escrow_state \<Rightarrow> nat \<Rightarrow> locked_balance \<Rightarrow> 'l escrow_state \<Rightarrow> bool" where
  "moved s p k t \<longleftrightarrow> same_points s t \<and> escrow_block t = escrow_block s \<and> locked t = (locked s)(p := k) \<and>
     next_position t = next_position s \<and> user_markup_infos t = user_markup_infos s \<and> locked_tokens t = locked_tokens s"

lemma checkpoint_ok:
  assumes ok: "escrow_ok C s" and mv: "moved s p k s2" and c: "checkpoint C who p (locked s p) k s2 = Inr s3"
    and p: "p < next_position s" and new: "moves_to C (escrow_block s) (locked s p) k" "lk_end k \<le> u32_max"
    and ix: "escrow_index s2"
  shows "escrow_ok C s3"
proof -
  have e: "same_points s s2" "escrow_block s2 = escrow_block s" "locked s2 = (locked s)(p := k)"
    "next_position s2 = next_position s" using mv by (simp_all add: moved_def)
  note same = same_points_lines [OF e(1,2)]
  have l2: "lines_agree C (locked s) (next_position s) s2" and pu: "punctual C s2"
    using escrow_okD(2,4) [OF ok] by (simp_all only: same)
  have new2: "moves_to C (escrow_block s2) (locked s p) k" using new(1) e(2) by simp
  note r = checkpoint_lines [OF c l2 p refl new2 pu] and lk = checkpoint_locks [OF c]
  have b: "locked s3 = (locked s)(p := k)" "next_position s3 = next_position s" "vote_supply s3 = vote_supply s2"
    "escrow_block s3 = escrow_block s" using lk e by (simp_all add: same_locks_def)
  have "user_points_agree C s3 q" for q
  proof (cases "q = p")
    case True
    let ?h = "user_point_history s p" and ?n = "user_point_epoch s p"
    have "in_order ?h ?n" "pt_block (?h ?n) \<le> escrow_block s"
      using escrow_okD(6) [OF ok, of p] by (auto simp: user_points_agree_def Let_def in_order_zero)
    then have "in_order (user_point_history s3 p) (Suc ?n)"
      using r(6) e(1,2) by (simp add: same_points_def in_order_put)
    then show ?thesis unfolding user_points_agree_def Let_def using True r(4,6) b e(1,2) by (simp add: same_points_def)
  next
    case False
    have "user_points_agree C s q" by (rule escrow_okD(6) [OF ok])
    then show ?thesis unfolding user_points_agree_def Let_def
      using False r(4) r(5) [OF False] b e(1) by (simp add: same_points_def)
  qed
  moreover have "unmarked s3" using escrow_okD(3) [OF ok] mv lk by (simp add: unmarked_def moved_def same_locks_def)
  moreover have "lk_end (locked s3 q) \<le> u32_max" for q using escrow_okD(5) [OF ok] new(2) by (simp add: b)
  moreover have "punctual C s3" using r(7) b(4) e(2) escrow_okD(8) [OF ok] by (simp add: punctual_def)
  moreover have "lines_agree C (locked s3) (next_position s3) s3" using r(1) b(1,2) by simp
  ultimately show ?thesis using r(3) b(3) ix index_same [OF lk] by (simp add: escrow_ok_def)
qed

lemma owner_bound: "escrow_ok C s \<Longrightarrow> position_owner s p = Some who \<Longrightarrow> p < next_position s"
  using escrow_okD(1) by (fastforce simp: escrow_index_def not_le [symmetric])

lemma deposit_ok:
  assumes ok: "escrow_ok C s" and o: "position_owner s p = Some who"
    and d: "deposit_for_inner C who p n ut (locked s p) s = Inr t"
    and new: "moves_to C (escrow_block s) (locked s p) (deposited n ut (locked s p))"
      "lk_end (deposited n ut (locked s p)) \<le> u32_max"
  shows "escrow_ok C t"
proof -
  let ?k = "deposited n ut (locked s p)"
  obtain s2 s3 where f: "escrow_framed (locked_more who p n ?k s) s2"
    and m: "markup_calc C who p (locked s p) ?k (user_markup_infos s who) s2 = Inr s3" and t: "escrow_framed s3 t"
    using d by (rule deposit_cases) blast
  have "user_markup_infos s who = None" using escrow_okD(3) [OF ok] by (simp add: unmarked_def)
  then have c: "checkpoint C who p (locked s p) ?k s2 = Inr s3" using m by (simp add: markup_calc_def)
  have l: "same_locks (locked_more who p n ?k s) s2" and pt: "same_points (locked_more who p n ?k s) s2"
    using f by (simp_all add: escrow_framed_def)
  have "moved s p ?k s2" using l pt by (simp add: moved_def same_locks_def same_points_def locked_more_def)
  moreover have "escrow_index s2"
    by (rule index_put [OF escrow_okD(1) [OF ok] o, of s2 ?k "user_locked s who + n"])
      (use l in \<open>simp_all add: same_locks_def locked_more_def deposited_def\<close>)
  ultimately have "escrow_ok C s3" using checkpoint_ok [OF ok _ c owner_bound [OF ok o] new] by blast
  then show ?thesis using escrow_ok_framed [OF t] by simp
qed

lemma dropped_ok:
  assumes ok: "escrow_ok C s" and o: "position_owner s p = Some who" and k: "locked s p = no_lock"
  shows "escrow_ok C (dropped who p s)"
proof -
  have l: "(locked s)(p := no_lock) = locked s" using k by auto
  have "user_points_agree C (dropped who p s) q" for q
    using escrow_okD(6) [OF ok, of q] by (cases "q = p") (auto simp: user_points_agree_def dropped_def l Let_def dest: in_order_start)
  moreover have "lines_agree C K N (dropped who p s) = lines_agree C K N s" for K N
    by (simp add: lines_agree_def dropped_def)
  moreover have "punctual C (dropped who p s) = punctual C s" "unmarked (dropped who p s) = unmarked s"
    by (simp_all add: punctual_def last_point_def unmarked_def dropped_def)
  moreover have "locked (dropped who p s) = locked s" "next_position (dropped who p s) = next_position s"
    "vote_epoch (dropped who p s) = vote_epoch s" "point_history (dropped who p s) = point_history s"
    "vote_supply (dropped who p s) = vote_supply s" by (simp_all add: dropped_def l)
  ultimately show ?thesis
    using ok index_drop [OF escrow_okD(1) [OF ok] o k] by (simp add: escrow_ok_def)
qed

lemma withdraw_ok:
  assumes ok: "escrow_ok C s" and w: "withdraw_no_ensure C who p (locked s p) fast s = Inr t"
  shows "escrow_ok C t \<and> escrow_block t = escrow_block s"
proof -
  let ?n = "lk_amount (locked s p)"
  obtain s2 s3 s4 where f: "escrow_framed (locked_less who p ?n s) s2"
    and c: "checkpoint C who p (locked s p) no_lock s2 = Inr s3" and f4: "escrow_framed s3 s4" and t: "escrow_framed (dropped who p s4) t"
    and m: "p \<in> set (user_positions s who)" "?n \<le> vote_supply s" "?n \<le> user_locked s who"
    using w by (rule withdraw_cases) blast
  have o: "position_owner s p = Some who" using m(1) escrow_okD(1) [OF ok] by (simp add: escrow_index_def)
  have l: "same_locks (locked_less who p ?n s) s2" and pt: "same_points (locked_less who p ?n s) s2"
    using f by (simp_all add: escrow_framed_def)
  have mv: "moved s p no_lock s2" using l pt by (simp add: moved_def same_locks_def same_points_def locked_less_def)
  have "escrow_index s2"
    by (rule index_put [OF escrow_okD(1) [OF ok] o, of s2 no_lock "user_locked s who - ?n"])
      (use l m in \<open>simp_all add: same_locks_def locked_less_def\<close>)
  then have s3: "escrow_ok C s3"
    using checkpoint_ok [OF ok mv c owner_bound [OF ok o]] by (simp add: moves_to_def u32_max_def)
  then have s4: "escrow_ok C s4" using escrow_ok_framed [OF f4] by simp
  have k: "position_owner s4 p = Some who" "locked s4 p = no_lock" "escrow_block s4 = escrow_block s"
    using checkpoint_locks [OF c] f4 l o by (simp_all add: escrow_framed_def same_locks_def locked_less_def)
  have "escrow_ok C t" using dropped_ok [OF s4 k(1,2)] escrow_ok_framed [OF t] by simp
  moreover have "escrow_block t = escrow_block s"
    using t k(3) by (simp add: escrow_framed_def same_locks_def dropped_def)
  ultimately show ?thesis by simp
qed

section \<open>The calls\<close>

lemma all_lines_Suc: "all_lines f K (Suc N) = all_lines f K N + f (K N)"
  by (simp add: all_lines_def)

lemma points_agree_Suc: "K N = no_lock \<Longrightarrow> points_agree C K (Suc N) now q ch = points_agree C K N now q ch"
  by (simp add: points_agree_def all_lines_Suc)

lemma create_ok:
  assumes ok: "escrow_ok C s" and c: "create_position C who s = Inr (p, t)" and n: "next_position s < u128_max"
  shows "escrow_ok C t"
proof -
  note ix = index_create [OF escrow_okD(1) [OF ok] c n]
  have t: "t = s\<lparr>user_positions := (user_positions s)(who := user_positions s who @ [p]),
      next_position := next_position s + 1, position_owner := (position_owner s)(p \<mapsto> who), locked := locked t\<rparr>"
    and k: "locked t = (locked s)(p := no_lock)"
    using c n by (auto simp: create_position_def Let_def result_simps wrapping_add_def u128_max_def)
  have "position_owner s p = None" using escrow_okD(1) [OF ok] ix(4) by (simp add: escrow_index_def)
  then have p: "locked s p = no_lock" using escrow_okD(1) [OF ok] by (simp add: escrow_index_def)
  then have l: "locked t = locked s" using k by auto
  have e: "vote_epoch t = vote_epoch s" "point_history t = point_history s" "slope_changes t = slope_changes s"
    "escrow_block t = escrow_block s" "vote_supply t = vote_supply s" "user_point_epoch t = user_point_epoch s"
    "user_point_history t = user_point_history s" "next_position t = Suc (next_position s)"
    "user_markup_infos t = user_markup_infos s" "locked_tokens t = locked_tokens s"
    by (subst t, simp)+
  have "lines_agree C (locked s) (Suc (next_position s)) t"
    using escrow_okD(2) [OF ok] p ix(4)
    by (simp add: lines_agree_def e points_agree_Suc aligned_def less_Suc_eq all_conj_distrib)
  moreover have "user_points_agree C t = user_points_agree C s"
    by (intro ext) (simp add: user_points_agree_def e l)
  moreover have "unmarked t = unmarked s" "punctual C t = punctual C s"
    by (simp_all add: unmarked_def punctual_def last_point_def e)
  ultimately show ?thesis using ok ix(1) by (simp add: escrow_ok_def l e)
qed

lemma record_expiring_result:
  assumes "record_expiring_position p b s = Inr t"
  obtains x y where "t = s\<lparr>expiring_positions := x, next_expiring_block := y\<rparr>"
  using assms by (auto simp: record_expiring_position_def Let_def result_simps)

lemma week_ceil_result:
  assumes "week_ceil C a = Inr t" and "a \<le> u32_max"
  shows "a \<le> t" and "a < u32_max \<Longrightarrow> a < t" and "week C dvd t" and "t \<le> u32_max"
proof -
  have w: "0 < week C" and t: "t = min u32_max (a div week C + 1) * week C" "t \<le> u32_max"
    using assms(1) by (auto simp: week_ceil_def u32_mul_def result_simps checked_div_def sat_add32_def split: if_splits)
  show "week C dvd t" "t \<le> u32_max" using t by simp_all
  have up: "a < t" if "a div week C < u32_max"
  proof -
    have "min u32_max (a div week C + 1) = a div week C + 1" using that by simp
    then show ?thesis using week_start(2) [OF w, of a] by (simp only: t(1) add_mult_distrib mult_1)
  qed
  show "a < t" if "a < u32_max" using that up div_le_dividend [of a "week C"] by linarith
  show "a \<le> t"
  proof (cases "a div week C < u32_max")
    case True
    with up show ?thesis by simp
  next
    case False
    then have "u32_max * 1 \<le> t" using w unfolding t(1) by (intro mult_le_mono) simp_all
    then show ?thesis using assms(2) by simp
  qed
qed

lemma create_lock_ok:
  assumes ok: "escrow_ok C s" and c: "create_lock_inner C who n ut s = Inr t" and lim: "next_position s < u128_max"
    and b: "escrow_block s < u32_max"
  shows "escrow_ok C t"
proof -
  obtain p s1 e s2 s3 s4 where p: "create_position C who s = Inr (p, s1)"
    and e: "week_ceil C (sat_add32 ut (escrow_block s1)) = Inr e" and r: "record_expiring_position p e s1 = Inr s2"
    and d: "deposit_for_inner C who p n e (locked s1 p) s2 = Inr s3" and g: "escrow_framed s3 t"
    using c by (auto simp: create_lock_inner_def result_simps dest: refresh_gauges_framed split: prod.splits)
  have s1: "escrow_ok C s1" by (rule create_ok [OF ok p lim])
  note ix = index_create [OF escrow_okD(1) [OF ok] p lim]
  have b1: "escrow_block s1 = escrow_block s"
    using p by (auto simp: create_position_def Let_def result_simps)
  obtain x y where s2: "s2 = s1\<lparr>expiring_positions := x, next_expiring_block := y\<rparr>"
    using r by (rule record_expiring_result)
  have end1: "escrow_block s < e" "week C dvd e" "e \<le> u32_max"
  proof -
    let ?a = "sat_add32 ut (escrow_block s1)"
    have a: "?a \<le> u32_max" "escrow_block s \<le> ?a" using b by (simp_all add: sat_add32_def b1)
    note r = week_ceil_result [OF e a(1)]
    show "escrow_block s < e" using r(1,2) a b by (cases "?a < u32_max") simp_all
    show "week C dvd e" "e \<le> u32_max" using r(3,4) by simp_all
  qed
  have ok2: "escrow_ok C s2" using s1 by (simp add: s2)
  have "escrow_ok C s3"
  proof (rule deposit_ok [OF ok2])
    show "position_owner s2 p = Some who" using ix(2) by (simp add: s2)
    show "deposit_for_inner C who p n e (locked s2 p) s2 = Inr s3" using d by (simp add: s2)
    show "moves_to C (escrow_block s2) (locked s2 p) (deposited n e (locked s2 p))"
      and "lk_end (deposited n e (locked s2 p)) \<le> u32_max"
      using end1 b1 ix(3) by (simp_all add: s2 moves_to_def deposited_def)
  qed
  then show ?thesis using escrow_ok_framed [OF g] by simp
qed

lemma increase_amount_ok:
  assumes ok: "escrow_ok C s" and o: "position_owner s p = Some who" and c: "increase_amount_inner C who p n s = Inr t"
  shows "escrow_ok C t"
proof -
  obtain s1 where d: "deposit_for_inner C who p n 0 (locked s p) s = Inr s1" and f: "escrow_framed s1 t"
    and b: "escrow_block s < lk_end (locked s p)"
    using c by (auto simp: increase_amount_inner_def Let_def result_simps dest: refresh_gauges_framed)
  have "week C dvd lk_end (locked s p)"
    using escrow_okD(7) [OF ok] owner_bound [OF ok o] by (simp add: aligned_def)
  then have "escrow_ok C s1"
    using b escrow_okD(5) [OF ok] by (intro deposit_ok [OF ok o d]) (simp_all add: moves_to_def deposited_def)
  then show ?thesis using escrow_ok_framed [OF f] by simp
qed

lemma increase_unlock_time_ok:
  assumes ok: "escrow_ok C s" and o: "position_owner s p = Some who"
    and c: "increase_unlock_time_inner C who p ut s = Inr t"
  shows "escrow_ok C t"
proof -
  let ?k = "locked s p"
  obtain e s1 s2 where e: "week_ceil C (sat_add32 ut (lk_end ?k)) = Inr e"
    and r: "record_expiring_position p e (remove_expiring_position p (lk_end ?k) s) = Inr s1"
    and d: "deposit_for_inner C who p 0 e ?k s1 = Inr s2" and f: "escrow_framed s2 t" and b: "escrow_block s < lk_end ?k"
    using c by (auto simp: increase_unlock_time_inner_def Let_def result_simps dest: refresh_gauges_framed)
  obtain x y where s1: "s1 = s\<lparr>expiring_positions := x, next_expiring_block := y\<rparr>"
    using r by (auto elim!: record_expiring_result simp: remove_expiring_position_def)
  have le: "lk_end ?k \<le> sat_add32 ut (lk_end ?k)" using escrow_okD(5) [OF ok, of p] by (simp add: sat_add32_def)
  have end1: "lk_end ?k \<le> e" "week C dvd e" "e \<le> u32_max"
    using week_ceil_result [OF e] le by (auto simp: sat_add32_def)
  have ok1: "escrow_ok C s1" using ok by (simp add: s1)
  have "escrow_ok C s2"
  proof (rule deposit_ok [OF ok1])
    show "position_owner s1 p = Some who" using o by (simp add: s1)
    show "deposit_for_inner C who p 0 e (locked s1 p) s1 = Inr s2" using d by (simp add: s1)
    show "moves_to C (escrow_block s1) (locked s1 p) (deposited 0 e (locked s1 p))"
      and "lk_end (deposited 0 e (locked s1 p)) \<le> u32_max"
      using end1 b by (simp_all add: s1 moves_to_def deposited_def)
  qed
  then show ?thesis using escrow_ok_framed [OF f] by simp
qed

lemma own_position_owner:
  "escrow_ok C s \<Longrightarrow> own_position who p s = Inr u \<Longrightarrow> position_owner s p = Some who"
  using escrow_okD(1) by (fastforce simp: own_position_def result_simps escrow_index_def)

lemma withdraw_inner_ok: "escrow_ok C s \<Longrightarrow> withdraw_inner C who p s = Inr t \<Longrightarrow> escrow_ok C t"
  using withdraw_ok [of C "remove_expiring_position p (lk_end (locked s p)) s" who p]
  by (auto simp: withdraw_inner_def Let_def result_simps remove_expiring_position_def)

lemma redeem_unlock_ok: "escrow_ok C s \<Longrightarrow> redeem_unlock_inner C who p s = Inr t \<Longrightarrow> escrow_ok C t"
  using withdraw_ok [of C "remove_expiring_position p (lk_end (locked s p)) s" who p]
  by (auto simp: redeem_unlock_inner_def Let_def result_simps remove_expiring_position_def)

lemma escrow_ok_configs [simp]:
  "escrow_ok C (s\<lparr>bb_configs := x\<rparr>) = escrow_ok C s"
  "escrow_ok C (s\<lparr>markup_coefficients := y\<rparr>) = escrow_ok C s"
  by (simp_all add: escrow_ok_def escrow_index_def lines_agree_def user_points_agree_def unmarked_def punctual_def
      last_point_def)

lemma escrow_ok_emit [simp]: "escrow_ok C (emit_escrow e s) = escrow_ok C s"
  by (rule escrow_ok_framed) simp

lemma escrow_ok_world [simp]: "escrow_ok C (s\<lparr>escrow_world := l\<rparr>) = escrow_ok C s"
  by (rule escrow_ok_framed) simp

lemma refresh_markups_ok:
  assumes "escrow_ok C s" and "refresh_markups C c s = Inr t"
  shows "escrow_ok C t"
proof -
  have "locked_tokens s c = []" using escrow_okD(3) [OF assms(1)] by (simp add: unmarked_def)
  then show ?thesis using assms by (auto simp: refresh_markups_def result_simps)
qed

lemma no_withdraw_markup:
  assumes "escrow_ok C s"
  shows "withdraw_markup_inner C who c s \<noteq> Inr t"
proof -
  have "locked_tokens s c = []" using escrow_okD(3) [OF assms] by (simp add: unmarked_def)
  then show ?thesis by (auto simp: withdraw_markup_inner_def Let_def result_simps)
qed

lemma notify_rewards_framed: "notify_rewards C o1 a d rs s = Inr t \<Longrightarrow> escrow_framed s t"
  by (auto simp: notify_rewards_def set_incentive_def Let_def result_simps dest!: notify_framed
      intro: framed_trans [of s "set_incentive system_pool d (Some a) s"])

fun deposits_markup :: "escrow_call \<Rightarrow> bool" where
  "deposits_markup (DepositMarkup c n) = True"
| "deposits_markup _ = False"

lemma escrow_dispatch_ok:
  assumes ok: "escrow_ok C s" and d: "escrow_dispatch C o1 c s = Inr t" and c: "\<not> deposits_markup c"
    and lim: "next_position s < u128_max" "escrow_block s < u32_max"
  shows "escrow_ok C t"
proof (cases c)
  case (CreateLock n ut)
  then show ?thesis using d create_lock_ok [OF ok _ lim] by (auto simp: result_simps)
next
  case (IncreaseAmount p n)
  then show ?thesis using d increase_amount_ok [OF ok own_position_owner [OF ok]] by (auto simp: result_simps)
next
  case (IncreaseUnlockTime p ut)
  then show ?thesis using d increase_unlock_time_ok [OF ok own_position_owner [OF ok]] by (auto simp: result_simps)
next
  case (EscrowWithdraw p)
  then show ?thesis using d withdraw_inner_ok [OF ok] by (auto simp: result_simps)
next
  case (RedeemUnlock p)
  then show ?thesis using d redeem_unlock_ok [OF ok] by (auto simp: result_simps)
next
  case (NotifyRewards a dur rs)
  then show ?thesis using d ok escrow_ok_framed [OF notify_rewards_framed, of C o1 a dur rs s t] by simp
next
  case GetRewards
  then show ?thesis using d ok escrow_ok_framed [OF get_rewards_framed, of C system_pool _ None s t] by (auto simp: result_simps)
next
  case (SetBbConfig m b n)
  then show ?thesis using d ok by (auto simp: result_simps set_bb_config_def Let_def)
next
  case (SetMarkupCoefficient cu m h r)
  then show ?thesis using d ok by (auto simp: result_simps set_markup_coefficient_def)
next
  case (RefreshMarkups cu)
  then show ?thesis using d refresh_markups_ok [OF ok] by (auto simp: result_simps)
next
  case (WithdrawMarkup cu)
  then show ?thesis using d no_withdraw_markup [OF ok] by (auto simp: result_simps)
qed (use c in auto)

section \<open>The hook\<close>

lemma expire_positions_ok:
  "escrow_ok C s \<Longrightarrow> expire_positions C ps n s = (gone, n', full, t) \<Longrightarrow>
     escrow_ok C t \<and> escrow_block t = escrow_block s"
proof (induction ps arbitrary: n s gone n' full t)
  case (Cons p ps)
  show ?case
  proof (cases "max_positions_per_block (bb_configs s) \<le> n")
    case True
    then show ?thesis using Cons.prems by simp
  next
    case False
    have "\<exists>u m d. escrow_ok C u \<and> escrow_block u = escrow_block s \<and> expire_positions C ps m u = (d, n', full, t)"
    proof (cases "lk_end (locked s p) \<le> escrow_block s \<and> lk_amount (locked s p) \<noteq> 0 \<and> position_owner s p \<noteq> None")
      case True
      then obtain a where a: "position_owner s p = Some a" by auto
      show ?thesis
      proof (cases "withdraw_no_ensure C a p (locked s p) None s")
        case (Inl e)
        then show ?thesis using Cons.prems False True a by auto
      next
        case (Inr u)
        from withdraw_ok [OF Cons.prems(1) this] Inr show ?thesis
          using Cons.prems(2) False True a by (auto split: prod.splits)
      qed
    next
      case no: False
      then show ?thesis using Cons.prems False by (auto simp: Let_def split: prod.splits if_splits option.splits)
    qed
    then show ?thesis using Cons.IH by metis
  qed
qed simp

lemma expire_block_ok:
  assumes "escrow_ok C s" and "expire_block C b n s = (n', full, t)"
  shows "escrow_ok C t \<and> escrow_block t = escrow_block s"
proof -
  obtain gone u where "expire_positions C (expiring_positions s b) n s = (gone, n', full, u)"
    and "\<exists>x. t = u\<lparr>expiring_positions := x\<rparr>"
    using assms(2) unfolding expire_block_def Let_def by (cases "expire_positions C (expiring_positions s b) n s") auto
  then show ?thesis using expire_positions_ok [OF assms(1)] by fastforce
qed

lemma expire_blocks_ok:
  "escrow_ok C s \<Longrightarrow> expire_blocks C bs n s = (stopped, t) \<Longrightarrow> escrow_ok C t"
proof (induction bs arbitrary: n s)
  case (Cons b bs)
  obtain n' full s1 where b: "expire_block C b n s = (n', full, s1)" by (rule prod_cases3)
  with Cons.prems(2) have "t = s1 \<or> expire_blocks C bs n' s1 = (stopped, t)" by (cases full) auto
  then show ?case using Cons.IH expire_block_ok [OF Cons.prems(1) b] by blast
qed simp

lemma hook_ok:
  assumes "escrow_ok C s"
  shows "escrow_ok C (escrow_on_initialize C s)"
proof -
  define s1 where "s1 = (if escrow_block s = period_finish (incentive_configs s system_pool) then notify_in_hook C s else s)"
  have s1: "escrow_ok C s1" using assms escrow_ok_framed [OF notify_in_hook_framed, of C C s] by (simp add: s1_def)
  obtain stopped s2 where e: "expire_blocks C [next_expiring_block s1 ..< Suc (escrow_block s)] 0 s1 = (stopped, s2)"
    by (rule prod.exhaust)
  show ?thesis
    using s1 expire_blocks_ok [OF s1 e] e unfolding escrow_on_initialize_def Let_def s1_def [symmetric]
    by (simp del: upt_Suc)
qed

lemma new_block_ok:
  assumes "escrow_ok C s" and "escrow_block s \<le> b" and "punctual C (s\<lparr>escrow_block := b\<rparr>)"
  shows "escrow_ok C (s\<lparr>escrow_block := b\<rparr>)"
proof -
  have "lines_agree C (locked s) (next_position s) (s\<lparr>escrow_block := b\<rparr>)"
    using escrow_okD(2) [OF assms(1)] assms(2) by (auto simp: lines_agree_def points_agree_def)
  moreover have "user_points_agree C (s\<lparr>escrow_block := b\<rparr>) p" for p
    using escrow_okD(6) [OF assms(1), of p] assms(2) by (auto simp: user_points_agree_def Let_def)
  ultimately show ?thesis using assms by (simp add: escrow_ok_def escrow_index_def unmarked_def)
qed

section \<open>Runs\<close>

inductive escrow_run :: "'l escrow_config \<Rightarrow> 'l escrow_state \<Rightarrow> bool" for C where
  start: "0 < week C \<Longrightarrow> escrow_run C (initial_escrow l)"
| call: "escrow_run C s \<Longrightarrow> escrow_dispatch C o1 c s = Inr t \<Longrightarrow> \<not> deposits_markup c \<Longrightarrow>
    next_position s < u128_max \<Longrightarrow> escrow_block s < u32_max \<Longrightarrow> escrow_run C t"
| block: "escrow_run C s \<Longrightarrow> escrow_block s \<le> b \<Longrightarrow> punctual C (s\<lparr>escrow_block := b\<rparr>) \<Longrightarrow>
    escrow_run C (escrow_on_initialize C (s\<lparr>escrow_block := b\<rparr>))"
| world: "escrow_run C s \<Longrightarrow> escrow_run C (s\<lparr>escrow_world := l\<rparr>)"

lemma initial_ok: "0 < week C \<Longrightarrow> escrow_ok C (initial_escrow l)"
  using index_initial [of l]
  by (simp add: escrow_ok_def initial_escrow_def lines_agree_def aligned_def user_points_agree_def in_order_zero no_point_def unmarked_def
      punctual_def last_point_def)

lemma run_ok: "escrow_run C s \<Longrightarrow> escrow_ok C s"
proof (induction rule: escrow_run.induct)
  case (start l)
  then show ?case by (rule initial_ok)
next
  case (call s o1 c t)
  then show ?case by (blast intro: escrow_dispatch_ok)
next
  case (block s b)
  then show ?case by (intro hook_ok new_block_ok)
qed simp

text \<open>
  The power of accounts against the power of all, and the halving that looks up a point at an earlier block.
\<close>

section \<open>Power of accounts\<close>

definition full_weight :: "'l escrow_config \<Rightarrow> nat \<Rightarrow> nat \<Rightarrow> nat" where
  "full_weight C a b = a div 4 + vote_weight_multiplier C * b div fx_one"

lemma weight_result:
  assumes "fixed_point (ec_fixed C)" and "weight C a b = Inr w"
  shows "w = full_weight C a (nat b)"
proof -
  have m: "fx_mul_int (ec_fixed C) x n = chk u128_max (x * n div fx_one)" for x n
    using fixed_point.mul_int [OF assms(1)] .
  show ?thesis using assms(2)
    by (auto simp: weight_def m full_weight_def result_simps num_simps max_def split: option.splits if_splits)
qed

lemma div_sum_le:
  fixes f :: "'a \<Rightarrow> nat"
  assumes "finite A" and "0 < d"
  shows "(\<Sum>x\<in>A. f x div d) \<le> (\<Sum>x\<in>A. f x) div d"
  using assms(1)
proof induction
  case (insert x A)
  have "f x div d * d + (\<Sum>x\<in>A. f x) div d * d \<le> f x + (\<Sum>x\<in>A. f x)"
    by (intro add_mono) simp_all
  then have "f x div d + (\<Sum>x\<in>A. f x) div d \<le> (f x + (\<Sum>x\<in>A. f x)) div d"
    using assms(2) by (simp add: less_eq_div_iff_mult_less_eq add_mult_distrib)
  with insert show ?case by simp
qed simp

lemma full_weight_sum:
  assumes "finite A"
  shows "(\<Sum>x\<in>A. full_weight C (f x) (g x)) \<le> full_weight C (\<Sum>x\<in>A. f x) (\<Sum>x\<in>A. g x)"
  using div_sum_le [OF assms, of 4 f] div_sum_le [OF assms, of fx_one "\<lambda>x. vote_weight_multiplier C * g x"]
  by (simp add: full_weight_def sum.distrib sum_distrib_left fx_one_def)

lemma full_weight_mono: "a \<le> a' \<Longrightarrow> b \<le> b' \<Longrightarrow> full_weight C a b \<le> full_weight C a' b'"
  unfolding full_weight_def by (intro add_mono div_le_mono mult_le_mono) simp_all

lemma all_lines_nat: "(\<Sum>p<N. nat (line_bias C b (K p))) = nat (all_lines (line_bias C b) K N)"
  unfolding all_lines_def by (induction N) (simp_all add: nat_add_distrib sum_nonneg)

definition position_weight :: "'l escrow_config \<Rightarrow> 'l escrow_state \<Rightarrow> nat \<Rightarrow> nat" where
  "position_weight C s p = full_weight C (lk_amount (locked s p)) (nat (line_bias C (escrow_block s) (locked s p)))"

lemma position_power:
  assumes "escrow_ok C s" and "fixed_point (ec_fixed C)" and "balance_of_position_current_block C s p = Inr w"
  shows "w \<le> position_weight C s p"
proof (cases "lk_end (locked s p) \<le> escrow_block s \<or> user_point_epoch s p = 0")
  case True
  then show ?thesis using assms(3) by (simp add: balance_of_position_current_block_def)
next
  case False
  let ?u = "user_point_history s p (user_point_epoch s p)" and ?k = "locked s p" and ?now = "escrow_block s"
  have u: "pt_block ?u \<le> ?now" "pt_amount ?u = lk_amount ?k" "slope ?u = line_slope C (pt_block ?u) ?k"
    "bias ?u = line_bias C (pt_block ?u) ?k"
    using escrow_okD(6) [OF assms(1), of p] False by (simp_all add: user_points_agree_def Let_def)
  obtain x where x: "decayed ?u (int ?now - int (pt_block ?u)) = Inr x" and wt: "weight C (pt_amount ?u) x = Inr w"
    using assms(3) False by (auto simp: balance_of_position_current_block_def power_at_def result_simps)
  have "x = line_bias C ?now ?k"
    using decayed_Inr [OF x] u(1) False unfolding u(3,4)
    by (simp add: line_bias_def line_slope_def max_def algebra_simps)
  then show ?thesis using weight_result [OF assms(2) wt] u(2) by (simp add: position_weight_def)
qed

lemma add_power_bound:
  assumes "\<And>p w. f p = Inr w \<Longrightarrow> w \<le> g p" and "rfold (add_power f) ps n = Inr m"
  shows "m \<le> n + (\<Sum>p\<leftarrow>ps. g p)"
  using assms(2)
proof (induction ps arbitrary: n)
  case (Cons p ps)
  then obtain n' where a: "add_power f p n = Inr n'" and r': "rfold (add_power f) ps n' = Inr m"
    by (auto simp: rbind_eq_Inr)
  then obtain w where w: "f p = Inr w" and r: "rfold (add_power f) ps (n + w) = Inr m"
    by (auto simp: add_power_def result_simps num_simps)
  show ?case using assms(1) [OF w] Cons.IH [OF r] by simp
qed simp

lemma account_power:
  assumes "escrow_ok C s" and "fixed_point (ec_fixed C)" and "balance_of_current_block C s who = Inr w"
  shows "w \<le> (\<Sum>p\<in>set (user_positions s who). position_weight C s p)"
proof -
  have "distinct (user_positions s who)" using escrow_okD(1) [OF assms(1)] by (simp add: escrow_index_def)
  then show ?thesis
    using add_power_bound [OF position_power [OF assms(1,2)] assms(3) [unfolded balance_of_current_block_def]]
    by (simp add: sum_list_distinct_conv_sum_set)
qed

lemma accounts_below_supply:
  assumes ok: "escrow_ok C s" and fp: "fixed_point (ec_fixed C)" and fin: "finite A"
    and w: "\<And>who. who \<in> A \<Longrightarrow> balance_of_current_block C s who = Inr (w who)"
    and v: "vote_total_supply C s None = Inr V" and lim: "escrow_block s + week C \<le> u32_max"
  shows "(\<Sum>who\<in>A. w who) \<le> V"
proof -
  let ?N = "next_position s" and ?now = "escrow_block s"
  let ?P = "\<lambda>who. set (user_positions s who)"
  have ix: "escrow_index s" by (rule escrow_okD(1) [OF ok])
  have "(\<Sum>who\<in>A. w who) \<le> (\<Sum>who\<in>A. \<Sum>p\<in>?P who. position_weight C s p)"
    using account_power [OF ok fp w] by (intro sum_mono)
  also have "\<dots> = (\<Sum>p\<in>(\<Union>who\<in>A. ?P who). position_weight C s p)"
    using fin ix by (intro sum.UNION_disjoint [symmetric]) (auto simp: escrow_index_def)
  also have "\<dots> \<le> (\<Sum>p<?N. position_weight C s p)"
    using ix by (intro sum_mono2) (auto simp: escrow_index_def not_le [symmetric])
  also have "\<dots> \<le> V"
  proof (cases "vote_epoch s = 0")
    case True
    then have "position_weight C s p = 0" if "p < ?N" for p
      using escrow_okD(2) [OF ok] that by (simp add: lines_agree_def position_weight_def full_weight_def)
    then show ?thesis by simp
  next
    case False
    have nat_sum: "(\<Sum>p<?N. nat (line_bias C ?now (locked s p))) = nat (all_lines (line_bias C ?now) (locked s) ?N)"
      by (rule all_lines_nat)
    have "(\<Sum>p<?N. position_weight C s p) \<le>
        full_weight C (\<Sum>p<?N. lk_amount (locked s p)) (\<Sum>p<?N. nat (line_bias C ?now (locked s p)))"
      unfolding position_weight_def by (rule full_weight_sum) simp
    also have "\<dots> = full_weight C (vote_supply s) (nat (all_lines (line_bias C ?now) (locked s) ?N))"
      using ix unfolding nat_sum by (simp add: escrow_index_def)
    also have "\<dots> = V"
      using weight_result [OF fp total_supply_lines [OF escrow_okD(2) [OF ok] _ v _ escrow_okD(4) [OF ok] lim]]
        escrow_okD(9) [OF ok] False by simp
    finally show ?thesis .
  qed
  finally show ?thesis .
qed

section \<open>Looking up a point\<close>

text \<open>A reference: the last index from \<open>lo\<close> up, tried one after another from above.\<close>

fun last_index_below :: "(nat \<Rightarrow> nat) \<Rightarrow> nat \<Rightarrow> nat \<Rightarrow> nat" where
  "last_index_below blk b 0 = 0"
| "last_index_below blk b (Suc i) = (if blk (Suc i) \<le> b then Suc i else last_index_below blk b i)"

lemma last_index_below_eq:
  assumes "i \<le> n" and "i = 0 \<or> blk i \<le> b" and "\<And>j. i < j \<Longrightarrow> j \<le> n \<Longrightarrow> b < blk j"
  shows "last_index_below blk b n = i"
  using assms(1,3)
proof (induction n)
  case (Suc n)
  show ?case
  proof (cases "i = Suc n")
    case True
    then show ?thesis using assms(2) by simp
  next
    case False
    then show ?thesis using Suc.prems(1) Suc.prems(2) [of "Suc n"] Suc.IH [OF _ Suc.prems(2)] by simp
  qed
qed simp

lemma last_index_is:
  assumes mono: "\<And>i j. i \<le> j \<Longrightarrow> j \<le> m \<Longrightarrow> blk i \<le> blk j"
  shows "lo \<le> hi \<Longrightarrow> hi \<le> m \<Longrightarrow> hi - lo < 2 ^ n \<Longrightarrow> lo = 0 \<or> blk lo \<le> b \<Longrightarrow> (\<And>j. hi < j \<Longrightarrow> j \<le> m \<Longrightarrow> b < blk j) \<Longrightarrow>
    last_index blk b n lo hi = last_index_below blk b m"
proof (induction n arbitrary: lo hi)
  case 0
  then show ?case by (subst last_index_below_eq [of lo]) auto
next
  case (Suc n)
  show ?case
  proof (cases "hi \<le> lo")
    case True
    then show ?thesis using Suc.prems by (subst last_index_below_eq [of lo]) auto
  next
    case False
    define mid where "mid = (lo + hi + 1) div 2"
    have mid: "lo < mid" "mid \<le> hi" "hi - mid < 2 ^ n" "mid - 1 - lo < 2 ^ n"
      using False Suc.prems(3) unfolding mid_def by auto
    show ?thesis
    proof (cases "blk mid \<le> b")
      case True
      then have "last_index blk b n mid hi = last_index_below blk b m"
        using mid Suc.prems by (intro Suc.IH) auto
      then show ?thesis using False True by (simp only: last_index.simps mid_def [symmetric] Let_def if_True if_False)
    next
      case no: False
      have "last_index blk b n lo (mid - 1) = last_index_below blk b m"
      proof (rule Suc.IH)
        fix j assume j: "mid - 1 < j" "j \<le> m"
        then have "mid \<le> j" by linarith
        then show "b < blk j" using mono [OF _ j(2)] no by (meson le_less_trans not_le order_trans leI)
      qed (use mid Suc.prems in auto)
      then show ?thesis using False no by (simp only: last_index.simps mid_def [symmetric] Let_def if_True if_False)
    qed
  qed
qed
lemma last_index_reference:
  assumes "in_order h n" and "n < 2 ^ 128"
  shows "last_index (\<lambda>i. pt_block (h i)) b 128 0 n = last_index_below (\<lambda>i. pt_block (h i)) b n"
  using assms by (intro last_index_is) (auto simp: in_order_def)

end
