(* ===== verification/Escrow_Props.thy ===== *)
theory Escrow_Props
  imports Escrow_Runs
begin

text \<open>
  Runs of the vote escrow on the exact ledger, with the periods of the runtime. Account 1 locks \<open>VToken BNC\<close> for a week.
\<close>

section \<open>Parameters\<close>

abbreviation stake :: currency where "stake \<equiv> VToken BNC"
abbreviation extra :: currency where "extra \<equiv> Token2 0"

definition std_escrow :: "balances escrow_config" where
  "std_escrow = \<lparr>ec_fixed = std_fixed, ec_currencies = std_currency, ec_total_issuance = (\<lambda>l c. 1000),
     ec_set_lock = (\<lambda>i c a n l. Inr l), ec_remove_lock = (\<lambda>i c a l. Inr l), ec_control_origin = (\<lambda>o1. o1 = Root),
     token_type = stake, incentive_pallet = 80, buy_back_account = 81, ec_block_to_balance = (\<lambda>n. n),
     week = 50400, max_block = 10512000, multiplier = 1000000000000, vote_weight_multiplier = 750000000000000000,
     max_positions = 10, markup_refresh_limit = 100, ec_vmint = (\<lambda>a n l. Inr l), ec_v_issuance = (\<lambda>l c. Inr 1000),
     ec_refresh_gauges = (\<lambda>a s. Inr (escrow_world s)), one_year = 2628000, five_years = 13140000,
     ec_account_hash = (\<lambda>a. a)\<rparr>"

lemma std_escrow_simps:
  "ec_fixed std_escrow = std_fixed" "ec_currencies std_escrow = std_currency"
  "ec_total_issuance std_escrow = (\<lambda>l c. 1000)" "ec_set_lock std_escrow = (\<lambda>i c a n l. Inr l)"
  "ec_remove_lock std_escrow = (\<lambda>i c a l. Inr l)" "ec_control_origin std_escrow = (\<lambda>o1. o1 = Root)"
  "token_type std_escrow = stake" "incentive_pallet std_escrow = 80" "buy_back_account std_escrow = 81"
  "ec_block_to_balance std_escrow = (\<lambda>n. n)" "week std_escrow = 50400" "max_block std_escrow = 10512000"
  "multiplier std_escrow = 1000000000000" "vote_weight_multiplier std_escrow = 750000000000000000"
  "max_positions std_escrow = 10" "markup_refresh_limit std_escrow = 100" "ec_vmint std_escrow = (\<lambda>a n l. Inr l)"
  "ec_v_issuance std_escrow = (\<lambda>l c. Inr 1000)" "ec_refresh_gauges std_escrow = (\<lambda>a s. Inr (escrow_world s))"
  "one_year std_escrow = 2628000" "five_years std_escrow = 13140000" "ec_account_hash std_escrow = (\<lambda>a. a)"
  by (simp_all add: std_escrow_def)

section \<open>Runs\<close>

definition escrow_play ::
  "(origin \<times> escrow_call) list \<Rightarrow> balances escrow_state \<Rightarrow> balances escrow_state escrow_result" where
  "escrow_play = rfold (\<lambda>(o1, call). escrow_dispatch std_escrow o1 call)"

definition new_escrow_block :: "nat \<Rightarrow> balances escrow_state \<Rightarrow> balances escrow_state" where
  "new_escrow_block b s = escrow_on_initialize std_escrow (s\<lparr>escrow_block := b\<rparr>)"

definition purse :: balances where
  "purse = (\<lambda>_ _. 0)(stake := (\<lambda>_. 0)(1 := 50000000000, 2 := 50000000000), extra := (\<lambda>_. 0)(1 := 1000, 7 := 1000000))"

text \<open>A lock of a thousand tokens for every block of four years, until the first week ends.\<close>

definition one_lock :: "(origin \<times> escrow_call) list" where
  "one_lock = [(Signed 1, CreateLock 10512000000 100)]"

lemmas escrow_unfold = escrow_play_def create_lock_inner_def create_position_def week_ceil_def u32_mul_def sat_add32_def
  ensure_unlock_time_def record_expiring_position_def deposit_for_inner_def set_ve_locked_def on_world_def outside_def
  markup_calc_def checkpoint_def update_reward_all_def update_reward_def reward_per_token_def
  calculate_reward_per_token_def vote_total_supply_def supply_at_def week_floor_def supply_loop.simps decayed_def
  weight_def put_incentive_def last_time_reward_applicable_def escrow_earned_def balance_of_current_block_def add_power_def
  balance_of_position_current_block_def power_at_def move_line_def lock_line_def advance.simps old_change_def new_change_def
  refresh_gauges_def emit_escrow_def system_pool_def wrapping_add_def checked_div_def add32_def ck128_def
  std_escrow_simps std_currency_def std_fixed_def fx_one_def checked_add_def checked_sub_def chk_def u128_max_def u32_max_def
  ensure_def Let_def

lemmas escrow_states = initial_escrow_def no_point_def no_incentive_def purse_def

lemmas loop_numeral =
  advance.simps(2) [where n = "pred_numeral k", folded numeral_eq_Suc]
  supply_loop.simps(2) [where n = "pred_numeral k", folded numeral_eq_Suc] for k

definition after_lock :: "balances escrow_state" where
  "after_lock = (initial_escrow purse)\<lparr>vote_supply := 10512000000, vote_epoch := 1,
     locked := (\<lambda>_. no_lock)(0 := \<lparr>lk_amount = 10512000000, lk_end = 50400\<rparr>),
     user_locked := (\<lambda>_. 0)(Suc 0 := 10512000000),
     point_history := (\<lambda>_. no_point)(Suc 0 := \<lparr>bias = 50400000, slope = 1000, pt_block = 0, pt_amount = 10512000000\<rparr>),
     user_point_history := (\<lambda>_ _. no_point)(0 := (\<lambda>_. no_point)(Suc 0 :=
       \<lparr>bias = 50400000, slope = 1000, pt_block = 0, pt_amount = 10512000000\<rparr>)),
     user_point_epoch := (\<lambda>_. 0)(0 := 1), slope_changes := (\<lambda>_. 0)(50400 := - 1000),
     incentive_configs := (\<lambda>_. no_incentive)(u32_max := no_incentive), next_position := 1,
     user_positions := (\<lambda>_. [])(Suc 0 := [0]), expiring_positions := (\<lambda>_. [])(50400 := [0]),
     next_expiring_block := 50400, position_owner := [0 \<mapsto> 1],
     escrow_events := [LockCreated 1 0 10512000000 0 50400, SupplyChanged 0 10512000000,
       EscrowMinted 1 0 10512000000 10512000000 0 50400 0]\<rparr>"

lemma after_lock_run: "escrow_play one_lock (initial_escrow purse) = Inr after_lock"
  by (simp add: after_lock_def one_lock_def escrow_unfold loop_numeral escrow_states fun_eq_iff)
lemmas mark_unfold = set_markup_coefficient_def escrow_control_def deposit_markup_inner_def locked_token_of_def
  markup_of_def fixed_ratio_def fixed_precision_def no_markup_def update_markup_info_def put_locked_token_def
  remark_positions_def marked_up_def sm_put.simps sm_before_def saturating_add_def saturating_sub_def

text \<open>The root lets another token mark locks up; account 1, the only holder, locks some of it.\<close>

definition after_rule :: "balances escrow_state" where
  "after_rule = after_lock\<lparr>markup_coefficients := [extra \<mapsto> \<lparr>mc_coefficient = 1000000000000000000,
     hardcap = 1000000000000000000, update_block = 0, rwi = 1000000000000000000\<rparr>]\<rparr>"

lemma after_rule_run:
  "escrow_dispatch std_escrow Root (SetMarkupCoefficient extra 1000000000000000000 1000000000000000000 1000000000000000000)
     after_lock = Inr after_rule"
  by (simp add: after_rule_def set_markup_coefficient_def escrow_control_def std_escrow_simps ensure_def after_lock_def
      initial_escrow_def)

definition after_marking :: "balances escrow_state" where
  "after_marking = projr (escrow_dispatch std_escrow (Signed 1) (DepositMarkup extra 100) after_rule)"

lemma after_marking_run:
  "escrow_dispatch std_escrow (Signed 1) (DepositMarkup extra 100) after_rule = Inr after_marking \<and>
   user_markup_infos after_marking 1 = Some \<lparr>old_markup_coefficient = 0, markup_coefficient = 1000000000000000000\<rparr> \<and>
   vote_total_supply std_escrow after_marking None = Inr 2703600000 \<and>
   (\<exists>w. balance_of_current_block std_escrow after_marking 1 = Inr w)"
  by (simp add: after_marking_def after_rule_def after_lock_def escrow_unfold mark_unfold loop_numeral escrow_states)

lemma std_square: "std_pow a 2 = std_sat_mul (std_sat_mul fx_one a) a"
  by (simp add: numeral_2_eq_2)

lemmas leave_unfold = redeem_unlock_inner_def redeem_commission_def fixed_from_integer_def fixed_precision_def
  withdraw_no_ensure_def escrow_transfer_def std_transfer_def remove_position_def remove_expiring_position_def
  own_position_def marked_up_def std_div_def std_square std_sat_mul_def

text \<open>Account 7 brings rewards for 100000 blocks; account 1 locks at once, and 1000 blocks pass.\<close>

lemmas reward_unfold = notify_rewards_def escrow_control_def set_incentive_def notify_reward_amount_def
  start_reward_round_def add_escrow_reward_def add_reward_of_def bt_get_def bt_put_def or_keep_def saturating_add_def
  escrow_transfer_def std_transfer_def saturating_sub_def reward_increment_def bt_add_def earned_reward_def
  get_rewards_inner_def pay_escrow_reward_def

definition after_thousand :: "balances escrow_state" where
  "after_thousand = new_escrow_block 1000
     (projr (escrow_play ((Root, NotifyRewards 7 (Some 100000) [extra]) # one_lock) (initial_escrow purse)))"

lemmas thousand_unfold = after_thousand_def new_escrow_block_def escrow_on_initialize_def one_lock_def escrow_unfold
  reward_unfold leave_unfold loop_numeral escrow_states

text \<open>Two locks that end with the same week, and at most one withdrawal in a block.\<close>

definition two_locks :: "balances escrow_state" where
  "two_locks = projr (escrow_play [(Root, SetBbConfig None None (Some 1)), (Signed 1, CreateLock 10512000000 100),
     (Signed 2, CreateLock 10512000000 100)] (initial_escrow purse))"

lemmas hook_unfold = two_locks_def new_escrow_block_def escrow_on_initialize_def set_bb_config_def escrow_control_def
  or_keep_def expire_block_def upt_rec_numeral

section \<open>The properties\<close>

text \<open>
  C20. In every reachable state of a run in which nothing is locked for a markup (any calls, blocks and hooks, whatever
  happens to the ledger), every position has one owner and stands once on its list, what is locked for an account is
  the sum of the locks of its positions, and the supply is the sum of all locks.
\<close>

theorem escrow_books_agree:
  assumes "escrow_run C s"
  shows "user_locked s who = (\<Sum>p\<leftarrow>user_positions s who. lk_amount (locked s p)) \<and>
    vote_supply s = (\<Sum>p<next_position s. lk_amount (locked s p)) \<and> distinct (user_positions s who) \<and>
    (p \<in> set (user_positions s who)) = (position_owner s p = Some who)"
  using escrow_okD(1) [OF run_ok [OF assms]] by (simp_all add: escrow_index_def)

lemma after_lock_reached: "escrow_run std_escrow after_lock"
proof (rule escrow_run.call [OF escrow_run.start])
  show "escrow_dispatch std_escrow (Signed 1) (CreateLock 10512000000 100) (initial_escrow purse) = Inr after_lock"
    using after_lock_run by (auto simp: escrow_play_def one_lock_def result_simps)
qed (simp_all add: std_escrow_simps initial_escrow_def u128_max_def u32_max_def)

theorem escrow_books_agree_witness:
  "user_locked after_lock 1 = (\<Sum>p\<leftarrow>user_positions after_lock 1. lk_amount (locked after_lock p)) \<and>
   user_positions after_lock 1 = [0] \<and> user_locked after_lock 1 = 10512000000"
  using escrow_books_agree [OF after_lock_reached, of 1 0] by (simp add: after_lock_def)

text \<open>
  C19. In every reachable state of a run without markups, the votes of any accounts together are at most the total
  supply of votes, at the current block: the sum of all lines that the checkpoints keep is the sum of the lines of
  the locks, and rounding only takes votes away from accounts.
\<close>

theorem votes_below_total:
  assumes "escrow_run C s" and "fixed_point (ec_fixed C)" and "finite A"
    and "\<And>who. who \<in> A \<Longrightarrow> balance_of_current_block C s who = Inr (w who)"
    and "vote_total_supply C s None = Inr V" and "escrow_block s + week C \<le> u32_max"
  shows "(\<Sum>who\<in>A. w who) \<le> V"
  using accounts_below_supply [OF run_ok [OF assms(1)] assms(2-6)] .

lemma after_lock_power:
  "balance_of_current_block std_escrow after_lock 1 = Inr 2665800000"
  "balance_of_current_block std_escrow after_lock 2 = Inr 0"
  "vote_total_supply std_escrow after_lock None = Inr 2665800000"
  by (simp_all add: after_lock_def escrow_unfold loop_numeral escrow_states)

theorem votes_below_total_witness:
  "(\<Sum>who\<in>{1, 2}. if who = (1 :: nat) then 2665800000 else 0) \<le> (2665800000 :: nat) \<and>
   vote_total_supply std_escrow after_lock None = Inr 2665800000"
proof -
  have lim: "escrow_block after_lock + week std_escrow \<le> u32_max"
    by (simp add: after_lock_def std_escrow_simps initial_escrow_def u32_max_def)
  have fp: "fixed_point (ec_fixed std_escrow)" by (simp add: std_escrow_simps std_fixed_point)
  have "balance_of_current_block std_escrow after_lock who = Inr (if who = 1 then 2665800000 else 0)"
    if "who \<in> {1, 2}" for who
    using that after_lock_power(1,2) by auto
  then have "(\<Sum>who\<in>{1, 2}. if who = (1 :: nat) then 2665800000 else 0) \<le> (2665800000 :: nat)"
    by (intro votes_below_total [OF after_lock_reached fp _ _ after_lock_power(3) lim]) (simp_all only: finite.intros)
  then show ?thesis using after_lock_power(3) by (rule conjI)
qed



lemma marked_up_Inr:
  assumes "fixed_point (ec_fixed C)"
  shows "marked_up C m k = Inr k' \<longleftrightarrow> m * lk_amount k div fx_one \<le> u128_max \<and>
    m * lk_amount k div fx_one + lk_amount k \<le> u128_max \<and> k' = k\<lparr>lk_amount := m * lk_amount k div fx_one + lk_amount k\<rparr>"
  using fixed_point.mul_int [OF assms]
  by (auto simp: marked_up_def result_simps num_simps chk_def split: option.splits if_splits)

text \<open>With one lock and no markup before, a markup is one checkpoint from the lock to the marked up lock.\<close>

lemma first_markup:
  assumes "fixed_point (ec_fixed C)" and "unmarked s" and "user_positions s who = [p]"
    and "deposit_markup_inner C who c n s = Inr t"
  obtains i s4 s5 where "user_markup_infos t who = Some i" and "same_points s s4" and "vote_supply s4 = vote_supply s"
    and "escrow_block s4 = escrow_block s" and "user_positions s4 who = [p]" and "locked s4 = locked s"
    and "checkpoint C who p (locked s p)
      ((locked s p)\<lparr>lk_amount := markup_coefficient i * lk_amount (locked s p) div fx_one + lk_amount (locked s p)\<rparr>) s4 = Inr s5"
    and "same_points s5 t" and "same_locks s5 t"
proof -
  have m: "user_markup_infos s who = None" "locked_tokens s c = []" using assms(2) by (simp_all add: unmarked_def)
  define i where "i m = \<lparr>old_markup_coefficient = 0, markup_coefficient = m\<rparr>" for m
  from assms(4) obtain m s3 s4 s5 l mc x tl where
    s3: "s3 = s\<lparr>total_lock := tl, user_markup_infos := (user_markup_infos s)(who \<mapsto> i m), escrow_world := l\<rparr>"
    and s4: "s4 = put_locked_token C c who x s3" and r: "remark_positions C who (i m) s4 = Inr s5"
    and t: "t = emit_escrow (MarkupDeposited who c n) (s5\<lparr>markup_coefficients := mc\<rparr>)"
    by (auto simp: deposit_markup_inner_def result_simps m update_markup_info_def no_markup_def locked_token_of_def i_def
        Let_def saturating_add_def saturating_sub_def dest!: on_world_result)
  have k: "same_points s s4" "vote_supply s4 = vote_supply s" "escrow_block s4 = escrow_block s"
    "user_positions s4 who = [p]" "locked s4 = locked s" "user_markup_infos s4 who = Some (i m)"
    using assms(3) by (simp_all add: s4 s3 put_locked_token_def same_points_def)
  from r obtain old new where "marked_up C 0 (locked s p) = Inr old" "marked_up C m (locked s p) = Inr new"
    and c: "checkpoint C who p old new s4 = Inr s5"
    by (auto simp: remark_positions_def k markup_calc_def i_def result_simps)
  then have "checkpoint C who p (locked s p)
      ((locked s p)\<lparr>lk_amount := markup_coefficient (i m) * lk_amount (locked s p) div fx_one + lk_amount (locked s p)\<rparr>) s4 = Inr s5"
    by (simp add: marked_up_Inr [OF assms(1)] i_def)
  moreover have "user_markup_infos t who = Some (i m)"
    using checkpoint_locks [OF c] k(6) by (simp add: t emit_escrow_def same_locks_def)
  moreover have "same_points s5 t" "same_locks s5 t" by (simp_all add: t same_points_def same_locks_def emit_escrow_def)
  ultimately show thesis using that k(1-5) by blast
qed

text \<open>
  C22. With a markup the votes and their total part. Let a run without markups reach a state in which an account holds
  the only lock, which has not ended, and let it lock a token for a markup (more than a week before the end of \<open>u32\<close>). Its votes then exceed the total supply of votes by a quarter of
  what the markup adds to the amount of its lock: its own point has the marked up amount, the sum of all points counts
  what is really locked. With at least four units added, the only holder has more votes than there are in total.
\<close>

theorem markup_breaks_the_total:
  assumes "escrow_run C s" and "fixed_point (ec_fixed C)" and "user_positions s who = [p]"
    and "vote_supply s = lk_amount (locked s p)" and "escrow_block s < lk_end (locked s p)"
    and "escrow_dispatch C (Signed who) (DepositMarkup c n) s = Inr t"
    and "balance_of_current_block C t who = Inr w" and "vote_total_supply C t None = Inr V"
    and "escrow_block s + week C \<le> u32_max"
  shows "\<exists>i. user_markup_infos t who = Some i \<and> vote_supply t = vote_supply s \<and>
    w + vote_supply t div 4 = V + (vote_supply t + markup_coefficient i * vote_supply t div fx_one) div 4 \<and>
    (4 \<le> markup_coefficient i * vote_supply t div fx_one \<longrightarrow> V < w)"
proof -
  note ok = run_ok [OF assms(1)]
  have d: "deposit_markup_inner C who c n s = Inr t" using assms(6) by (simp add: result_simps)
  let ?k = "locked s p" and ?now = "escrow_block s" and ?N = "next_position s"
  obtain i s4 s5 where i: "user_markup_infos t who = Some i" and e: "same_points s s4" "vote_supply s4 = vote_supply s"
    "escrow_block s4 = ?now" "user_positions s4 who = [p]" "locked s4 = locked s"
    and c: "checkpoint C who p ?k (?k\<lparr>lk_amount := markup_coefficient i * lk_amount ?k div fx_one + lk_amount ?k\<rparr>) s4 = Inr s5"
    and t: "same_points s5 t" "same_locks s5 t"
    using first_markup [OF assms(2) escrow_okD(3) [OF ok] assms(3) d] .
  let ?x = "markup_coefficient i * lk_amount ?k div fx_one"
  define new where "new = ?k\<lparr>lk_amount := ?x + lk_amount ?k\<rparr>"
  let ?K = "(locked s)(p := new)" and ?b = "nat (line_bias C ?now new)"
  have ix: "escrow_index s" by (rule escrow_okD(1) [OF ok])
  then have "position_owner s p = Some who" using assms(3) by (fastforce simp: escrow_index_def)
  then have p: "p < ?N" by (rule owner_bound [OF ok])
  note same = same_points_lines [OF e(1,3)]
  have "moves_to C (escrow_block s4) ?k new"
    using assms(5) e(3) p escrow_okD(7) [OF ok] by (auto simp: moves_to_def new_def aligned_def)
  note new = this
  have "lines_agree C (locked s) ?N s4" "punctual C s4" using escrow_okD(2,4) [OF ok] by (simp_all only: same)
  note r = checkpoint_lines [OF c [folded new_def] this(1) p refl new this(2)]
  have l5: "vote_supply s5 = vote_supply s" "escrow_block s5 = ?now" "locked s5 = locked s" "user_positions s5 who = [p]"
    using checkpoint_locks [OF c] e by (simp_all add: same_locks_def)
  note lt = same_points_lines [OF t(1)]
  have et: "escrow_block t = ?now" "vote_supply t = vote_supply s" "locked t = locked s" "user_positions t who = [p]"
    using t(2) l5 by (simp_all add: same_locks_def)
  have rest: "lk_amount (locked s q) = 0" if "q < ?N" "q \<noteq> p" for q
  proof -
    have "(\<Sum>q<?N. lk_amount (locked s q)) = lk_amount ?k + (\<Sum>q\<in>{..<?N} - {p}. lk_amount (locked s q))"
      using p by (intro sum.remove) simp_all
    then have "(\<Sum>q\<in>{..<?N} - {p}. lk_amount (locked s q)) = 0"
      using ix assms(4) by (simp add: escrow_index_def)
    then show ?thesis using that by simp
  qed
  have "all_lines (line_bias C ?now) ?K ?N = line_bias C ?now new"
  proof -
    have "all_lines (line_bias C ?now) ?K ?N = (\<Sum>q<?N. if q = p then line_bias C ?now new else 0)"
      unfolding all_lines_def by (intro sum.cong) (auto simp: rest line_bias_def lk_slope_def)
    then show ?thesis using p by simp
  qed
  moreover have "punctual C t" using lt(2) [OF _] r(7) l5(2) e(3) escrow_okD(8) [OF ok] et(1)
    by (simp add: punctual_def)
  ultimately have "weight C (vote_supply s) (line_bias C ?now new) = Inr V"
    using total_supply_lines [of C ?K ?N t, OF _ _ assms(8)] r(1-3) lt(1) t(1) et l5(2) e(2,3) assms(9)
    by (simp add: same_points_def)
  then have v: "V = full_weight C (lk_amount ?k) ?b" using weight_result [OF assms(2)] assms(4) by auto
  have u: "user_point_history t p (user_point_epoch t p) =
      \<lparr>bias = line_bias C ?now new, slope = line_slope C ?now new, pt_block = ?now, pt_amount = lk_amount new\<rparr>"
    "user_point_epoch t p \<noteq> 0"
    using r(4,6) t(1) e(1,3) by (simp_all add: same_points_def)
  have "weight C (lk_amount new) (line_bias C ?now new) = Inr w"
    using assms(5,7) u by (auto simp: balance_of_current_block_def et add_power_def result_simps num_simps
        balance_of_position_current_block_def power_at_def decayed_def ck128_Inr)
  then have "w = full_weight C (lk_amount ?k + ?x) ?b" using weight_result [OF assms(2)] by (auto simp: new_def ac_simps)
  then have "w + lk_amount ?k div 4 = V + (lk_amount ?k + ?x) div 4" by (simp add: v full_weight_def)
  moreover have "4 \<le> ?x \<longrightarrow> V < w" using calculation by linarith
  ultimately show ?thesis using i et(2) assms(4) by auto
qed

theorem markup_breaks_the_total_witness:
  "balance_of_current_block std_escrow after_marking 1 = Inr 5331600000 \<and>
   vote_total_supply std_escrow after_marking None = Inr 2703600000"
proof -
  obtain w where d: "escrow_dispatch std_escrow (Signed 1) (DepositMarkup extra 100) after_rule = Inr after_marking"
    and w: "balance_of_current_block std_escrow after_marking 1 = Inr w"
    and v: "vote_total_supply std_escrow after_marking None = Inr 2703600000"
    and i: "user_markup_infos after_marking 1 = Some \<lparr>old_markup_coefficient = 0, markup_coefficient = 1000000000000000000\<rparr>"
    using after_marking_run by blast
  have run: "escrow_run std_escrow after_rule"
    using escrow_run.call [OF after_lock_reached after_rule_run]
    by (simp add: after_lock_def initial_escrow_def u128_max_def u32_max_def)
  have fp: "fixed_point (ec_fixed std_escrow)" by (simp add: std_escrow_simps std_fixed_point)
  have "user_positions after_rule 1 = [0]" "vote_supply after_rule = lk_amount (locked after_rule 0)"
    "escrow_block after_rule < lk_end (locked after_rule 0)" and vs: "vote_supply after_rule = 10512000000"
    and lim: "escrow_block after_rule + week std_escrow \<le> u32_max"
    by (simp_all add: after_rule_def after_lock_def std_escrow_simps initial_escrow_def u32_max_def)
  from markup_breaks_the_total [OF run fp this(1-3) d w v lim]
  have "w + 10512000000 div 4 = 2703600000 + (10512000000 + 1000000000000000000 * 10512000000 div fx_one) div 4"
    using i by (auto simp: vs)
  then show ?thesis using w v by (simp add: fx_one_def)
qed

text \<open>
  When the marked up holder redeems its only lock, the marked up part of its line stays in the sum of all lines: votes
  remain although nothing is locked.
\<close>

theorem marked_up_votes_remain:
  "\<exists>t. escrow_dispatch std_escrow (Signed 1) (RedeemUnlock 0) after_marking = Inr t \<and>
     vote_supply t = 0 \<and> (\<forall>p. locked t p = no_lock) \<and> vote_total_supply std_escrow t None = Inr 37800000"
  by (simp add: after_marking_def after_rule_def after_lock_def escrow_unfold mark_unfold leave_unfold loop_numeral
      escrow_states)

text \<open>
  Rewards that have not been taken are lost when a lock is redeemed: the lock is set to zero before the rewards are
  brought up to date. Account 1 could take 9999, and has nothing left to take after it has redeemed.
\<close>

theorem redeeming_forfeits_rewards:
  "\<exists>s t. escrow_play [(Signed 1, GetRewards)] after_thousand = Inr s \<and> escrow_world s extra 1 = 10999 \<and>
     escrow_play [(Signed 1, RedeemUnlock 0), (Signed 1, GetRewards)] after_thousand = Inr t \<and>
     escrow_world t extra 1 = 1000"
  by (simp add: thousand_unfold)

text \<open>
  A block at which the limit of withdrawals is met is never looked at again: the second position stays locked and
  listed, and the hook goes on with the blocks after it.
\<close>

theorem hook_skips_positions:
  "let s = new_escrow_block 50400 two_locks; t = new_escrow_block 50401 s in
     lk_amount (locked two_locks 1) = 10512000000 \<and> locked s 0 = no_lock \<and> locked t 1 = locked two_locks 1 \<and>
     expiring_positions t 50400 = [1] \<and> next_expiring_block s = 50401 \<and> next_expiring_block t = 50402"
  by (simp add: hook_unfold escrow_unfold leave_unfold loop_numeral escrow_states)

end
