(* ===== verification/Spec2Isabelle.thy ===== *)
theory Spec2Isabelle
  imports Currency Prices Loan_Props Lend_Props Lend_Debts Minting_Props Stable_Props Leverage_Props Farm_Props Escrow_Props
begin

text \<open>
  A verification library for the Bifrost runtime: the interest-free loans, the lend market, the price feed both
  read, the liquid staking pallet that issues the vTokens they lend against, the stable swap on which those vTokens are
  traded, the leverage staking that composes these three, the farming pools, the vote escrow, and the currency identifiers all
  of them speak of.

  \<^bold>\<open>Components and theories.\<close>

  \<^item> \<open>Prelude\<close>, \<open>Fixed_Point\<close>, \<open>Storage\<close>, \<open>Ledger\<close>: what the components share. A Rust
    \<open>Result\<close> is a sum with the error on the left; \<open>?\<close> is \<open>rbind\<close>, \<open>ensure!\<close> is \<open>ensure\<close>,
    a panic is the error \<open>Panic\<close>. Unsigned integers are naturals whose bounds are written out at
    every checked, saturating or wrapping operation. The code the repository only calls is a parameter with its
    documented laws as a locale: the rounding of \<open>FixedU128\<close> and \<open>Permill\<close> (\<open>fixed_point\<close>), the token
    ledger (\<open>multi_currency\<close>, \<open>fungibles\<close>), the iteration order of a storage map (\<open>storage_map\<close>).
    Each locale is interpreted on a computable instance, which the witnesses use.
  \<^item> \<open>Currency\<close> models \<open>primitives/src/currency.rs\<close>: the currency identifier, its conversions and
    the packing of an identifier into two 64-bit words.
  \<^item> \<open>Prices\<close> models \<open>pallets/prices/src/lib.rs\<close>: the emergency price over the oracle's, and the
    conversion of amounts by prices. The locale \<open>price_feed\<close> is what its readers rely on.
  \<^item> \<open>Loans\<close> models \<open>pallets/no-interest-loans/src/lib.rs\<close> and \<open>types.rs\<close>: the four calls, the
    loan-to-value ratio, the sharing out of cycle rewards and their claiming, with the Polkadot runtime's
    constants. \<open>Loan_Lemmas\<close> holds the case rules of the calls, \<open>Loan_Invariants\<close> the index of loans
    and the bounds of the rewards, \<open>Loan_Solvency\<close> the balance of the pallet's account,
    \<open>Loan_Props\<close> the properties.
  \<^item> The lend market, \<open>pallets/lend-market/src\<close>: \<open>Rate_Model\<close> (\<open>rate_model.rs\<close>),
    \<open>Lend_State\<close> (\<open>types.rs\<close> and the storage of \<open>lib.rs\<close>), \<open>Lend_Interest\<close>
    (\<open>interest.rs\<close>, \<open>farming.rs\<close>), \<open>Lend_Market\<close> (the checks of \<open>lib.rs\<close>),
    \<open>Lend_Actions\<close> (its operations), \<open>Lend_Token\<close> (\<open>lend_token.rs\<close>), \<open>Lend_Calls\<close> (the 23
    calls and the step relation). \<open>Lend_Lemmas\<close> holds a case rule per operation; \<open>Lend_Pool\<close> the
    abstract pool; \<open>Lend_Refinement\<close> and \<open>Lend_Steps\<close> the refinement of the pool by every step;
    \<open>Lend_Supply\<close> the sum of the vouchers; \<open>Lend_Index\<close> the borrow index; \<open>Lend_Demo\<close> a run for the
    witnesses; \<open>Lend_Props\<close> and \<open>Lend_Debts\<close> the properties.
  \<^item> Liquid staking, \<open>pallets/vtoken-minting/src\<close>: \<open>Minting_State\<close> (\<open>primitives/src/time_unit.rs\<close>,
    \<open>traits.rs\<close> and the storage of \<open>lib.rs\<close>), \<open>Minting_Ledger\<close> (the pool, the issuance, the token maps and
    the four books of redemptions), \<open>Minting_Actions\<close> (the operations of \<open>impls.rs\<close> and the idle hook),
    \<open>Minting_Calls\<close> (the 20 calls, the functions of the traits, and the runs). \<open>Minting_Lemmas\<close> holds a case
    rule per operation and the laws of the ledger (\<open>staking_ledger\<close>); \<open>Minting_Unlocks\<close> the agreement of the
    books (\<open>unlock_index\<close>, interpreted for users and for time units); \<open>Minting_Runs\<close> the books and the token
    maps over runs; \<open>Minting_Rate\<close> the exchange and the backing of vTokens; \<open>Minting_Locks\<close> the locks for
    incentives; \<open>Minting_Demo\<close> the runs of the witnesses; \<open>Minting_Props\<close> the properties.
  \<^item> The stable swap, \<open>pallets/stable-asset/src/lib.rs\<close> and \<open>pallets/stable-pool/src\<close>: \<open>Asset_Registry\<close> (the
    conversions between a token and its derived tokens, of \<open>pallets/asset-registry/src/lib.rs\<close>),
    \<open>Stable_State\<close> (pools, storage, events), \<open>Stable_Math\<close> (\<open>get_a\<close>, \<open>get_d\<close>, \<open>get_y\<close> on 512-bit
    numbers), \<open>Stable_Amounts\<close> (what deposits, swaps and redemptions amount to), \<open>Stable_Actions\<close>
    (the operations and calls of the stable asset pallet), \<open>Stable_Pool\<close> (the stable pool
    pallet: scaling by token rates, the operations users reach, the refresh of rates). \<open>Stable_Newton\<close> and
    \<open>Stable_Numbers\<close> relate the two iterations to their equations; \<open>Stable_Lemmas\<close> holds the laws of
    the ledger (\<open>pool_ledger\<close>) and the collection of yield and fees, \<open>Stable_Facts\<close> and \<open>Stable_Cases\<close> a
    case rule per calculation and operation, \<open>Stable_Rates\<close> the scaling and the refresh, \<open>Stable_Safety\<close>
    the dispatcher and the absence of panics, \<open>Stable_Runs\<close> reachable states and runs of users,
    \<open>Stable_Quotes\<close> quotes against operations, \<open>Stable_Frozen\<close> what stops a pool. \<open>Stable_Staking\<close> is
    the runtime's configuration of the pools over the state of liquid staking, where \<open>staking_ledger\<close> gives
    \<open>pool_ledger\<close>; \<open>Stable_Demo\<close> a run on it for the witnesses, \<open>Stable_Props\<close> the properties.
  \<^item> Leverage staking, \<open>pallets/leverage-staking/src/lib.rs\<close>: \<open>Leverage\<close> composes the lend market, liquid staking
    and the stable pools on one state; \<open>Leverage_Flows\<close> says what every step moves on the ledger all of them
    share (\<open>leverage_world\<close>), \<open>Leverage_Debts\<close> what the steps do to the debt, \<open>Leverage_Demo\<close> is the runtime's
    configuration and a run, \<open>Leverage_Props\<close> the properties.
  \<^item> Farming, \<open>pallets/farming/src\<close>: \<open>Farm_State\<close> (the records of all files and the storage of \<open>lib.rs\<close>),
    \<open>Farm_Rewards\<close> (\<open>rewards.rs\<close>), \<open>Farm_Calls\<close> (\<open>boost.rs\<close>, the hook, \<open>gauge.rs\<close>, and the
    calls of users), \<open>Farm_Governance\<close> (the calls of the control origin and the dispatch). \<open>Farm_Lemmas\<close> and
    \<open>Farm_Books\<close> hold what every operation does to the books of a pool, \<open>Farm_Runs\<close> and \<open>Farm_Reach\<close> the calls,
    the hook and the reachable states, \<open>Farm_Claims\<close> what a claim pays and what new shares cost the others,
    \<open>Farm_Demo\<close> the runs of the witnesses, \<open>Farm_Props\<close> the properties.
  \<^item> The vote escrow, \<open>pallets/bb-bnc/src\<close>: \<open>Escrow_State\<close> (records, storage, positions; lines, the sum of
    lines and voting power), \<open>Escrow_Calls\<close> (\<open>incentive.rs\<close>, the operations, markups, calls and the hook).
    \<open>Escrow_Lines\<close> holds what deposits, withdrawals and checkpoints do to the locks and to the sum of all lines,
    \<open>Escrow_Runs\<close> the runs without markups and the power of accounts against the power of all, \<open>Escrow_Props\<close>
    the runs of the witnesses and the properties.

  \<^bold>\<open>How they interact.\<close> Both lending pallets read prices through the price feed, move tokens on a ledger and
  identify them by currencies. The prices may change between any two calls, so they are part of the environment
  of a call and the reachable states are those of runs under arbitrary prices, clocks and block numbers. A call
  that fails is rolled back, so a call is a function from a state to an error or the next state; a step is a
  call that succeeded or an action of another pallet or user. The pools of the stable swap hold their assets on
  the ledger on which liquid staking issues vTokens, and read the exchange rate of a vToken from its books; the
  runtimes leave the calls of the stable asset pallet out, so users reach it through the stable pool pallet.

  \<^bold>\<open>What the theorems show.\<close> For the loans: the index of loans is exact, terms never change, each call does
  what its events say and no more, a loan is closed only by repayment or when it is due, and the pallet can pay
  every claim as long as rewards are funded; closed theorems exhibit what the code leaves open (an unfunded
  distribution is paid from others' collateral, a loan may have no collateral at all). For the lend market:
  every step refines the abstract pool, hence the exchange rate of vouchers never falls and the reserves stay
  backed; vouchers are conserved; debts are exact and only grow with interest; borrows are covered, healthy
  accounts are safe from liquidation, liquidations stay within the close factor, and create no vouchers as long as the
  incentive is at least one; below the reserved factor they do create some; rates are monotone and bounded;
  rewards stay within their speed. Closed theorems show further cases the code does not guard. For liquid staking:
  the token maps are inverse; on careful runs the four books of redemptions agree; minting, redeeming,
  rebonding and paying out never lower the backing of a vToken (but for the redemption of a token that is not mapped to
  it, and what other pallets and the root set outright) and minting followed by redeeming never gains; mints, redemptions and payouts move exactly what they book; locks release exactly
  what is due. A careful run excludes redeeming a token that is mapped to another vToken, mapping a token anew
  while redemptions of it wait, and overwriting a total; a closed theorem shows that the first, which any user can
  do, erases another user's record. Further theorems show that an exact rebond takes twice, that a worthless
  redemption or a mixed kind of time unit stops the payouts, and that a disabled redemption goes through when no
  token is named. For the stable swap: the computed balance is the integer root of its equation up to rounding,
  and a swap stays strictly above the curve; a balanced pool is worth its sum; no call panics in a reachable
  state; pool tokens cover the recorded supply over all runs of users; operations pay and mint what was quoted;
  a proportional redemption leaves the others at least their share; rates follow liquid staking only within
  their cap. Two theorems show how a pool stops: when its value falls below its supply, and when it lacks one
  asset. A leverage call brings the user's debt to the requested rate and leaves no minted token behind. For
  farming: over all runs without the two calls that tear a pool down, and as long as no total reaches its bound, the
  entries stay within the totals of their pool; a claim pays what it books; new shares in a pool that has some take
  nothing from the old ones. The withdraw list of a gauge pool, in weighted shares, is paid as tokens out of the
  deposits of others. Closed theorems show that a second withdrawal forgets the first, and that votes are counted once per pool and divided by zero. For the vote escrow:
  over all runs in which nothing is locked for a markup, the sum of lines that the checkpoints advance week by week is
  the sum of the lines of all locks, hence the votes of all accounts stay within the total; the books of positions agree;
  the halving over the history finds the last point. A markup breaks the total: the only holder has more votes than there
  are. Closed theorems show that marked up votes remain after the lock is gone, that redeeming forfeits rewards, and
  that the hook skips positions when it meets its limit.

  \<^bold>\<open>Bounds and fuel.\<close> Every loop of the modelled code runs over a finite list and is a structural recursion,
  apart from the two Newton iterations, whose fuel is the bound of 255 rounds in the code; \<open>y_loop_terminates\<close>
  shows that it is enough for \<open>get_y\<close> for every target of \<open>u128\<close> whose coefficients the code computes; and the loops of the
  vote escrow, which the code bounds by 255 weeks and 128 halvings: a run assumes a checkpoint at least every 254 weeks
  (\<open>punctual\<close>), where 255 rounds reach the current block, and 128 halvings are enough for \<open>2 ^ 128\<close> points. Amounts are those of \<open>u128\<close>, identifiers of loans of \<open>u64\<close>.

  \<^bold>\<open>Not modelled.\<close> Weights, benchmarks, migrations, genesis builders without logic, the RPC crates, the runtimes'
  wiring beyond the constants used here, the registration of assets, the unit implementation of the pools'
  handler trait, and the other pallets of the repository (staking through the relay
  chains, cross-chain messages, governance). What the liquid staking pallet calls in them (XCM and bridge
  senders, orders, the vote escrow, the commission of channels, the redemption hooks) acts on an opaque state, as
  does the vote escrow the farming pallet reads, and the ledger, the gauges and liquid staking behind the vote escrow (the
  pallets are modelled one by one; only leverage staking is composed with the pallets it calls). The epochs of the vote
  escrow are unbounded;
  the block numbers of its locks are those of the runtimes, \<open>u32\<close>. The token pallet and the arithmetic crates of the framework are
  parameters, as described above.
\<close>

end
